(* ===== verification/Json.thy ===== *)
theory Json
  imports Prelude
begin

text \<open>
  JavaScript values as the sources handle them, JSON.stringify for strings and numbers, JSON.parse,
  and \<open>canonicalize\<close> of packages/ucan/src/canonical.ts, the serialiser every signature and every
  hash of the program is computed over.

  A number is an integer, a non-integer given by the text JSON.stringify prints for it, or a
  non-finite value. An object is its list of own enumerable entries in Object.keys order.
  The Unicode normalisation tables (String.prototype.normalize) and the rounding of decimal
  numerals to doubles are data of the JavaScript engine: they are the parameters \<open>nfc\<close> and \<open>nd\<close>.
  JSON.parse runs on fuel \<open>2 * length s + 2\<close>; every recursive call after the first consumes a
  character of the text, and \<open>parse_render\<close> shows the fuel is enough for every canonical text.
\<close>

subsection \<open>Values and objects\<close>

datatype jsnum = JInt int | JDec string | JNonFinite

datatype json =
    JUndef
  | JNull
  | JBool bool
  | JNum jsnum
  | JStr string
  | JArr "json list"
  | JObj "(string \<times> json) list"

type_synonym obj = "(string \<times> json) list"

definition jget :: "obj \<Rightarrow> string \<Rightarrow> json" where
  "jget ob k = (case map_of ob k of None \<Rightarrow> JUndef | Some v \<Rightarrow> v)"

fun jset :: "string \<Rightarrow> json \<Rightarrow> obj \<Rightarrow> obj" where
  "jset k v [] = [(k, v)]"
| "jset k v ((k', v') # ob) = (if k = k' then (k, v) # ob else (k', v') # jset k v ob)"

fun obj_spread :: "obj \<Rightarrow> obj \<Rightarrow> obj" where
  "obj_spread ob [] = ob"
| "obj_spread ob ((k, v) # kvs) = obj_spread (jset k v ob) kvs"

definition distinct_keys :: "obj \<Rightarrow> bool" where
  "distinct_keys ob \<longleftrightarrow> distinct (map fst ob)"

fun is_object :: "json \<Rightarrow> bool" where
  "is_object (JObj ob) = True"
| "is_object v = False"

fun as_string :: "json \<Rightarrow> string option" where
  "as_string (JStr s) = Some s"
| "as_string v = None"

fun as_obj :: "json \<Rightarrow> obj option" where
  "as_obj (JObj ob) = Some ob"
| "as_obj v = None"

fun truthy :: "json \<Rightarrow> bool" where
  "truthy JUndef = False"
| "truthy JNull = False"
| "truthy (JBool b) = b"
| "truthy (JNum (JInt i)) = (i \<noteq> 0)"
| "truthy (JNum (JDec t)) = True"
| "truthy (JNum JNonFinite) = False"
| "truthy (JStr s) = (s \<noteq> [])"
| "truthy (JArr vs) = True"
| "truthy (JObj ob) = True"

lemma map_of_jset: "map_of (jset k v ob) = (map_of ob)(k \<mapsto> v)"
  by (induction k v ob rule: jset.induct) auto

lemma jget_jset [simp]: "jget (jset k v ob) k' = (if k' = k then v else jget ob k')"
  by (simp add: jget_def map_of_jset)

lemma keys_jset: "fst ` set (jset k v ob) = insert k (fst ` set ob)"
  by (induction k v ob rule: jset.induct) auto

lemma distinct_keys_jset: "distinct_keys ob \<Longrightarrow> distinct_keys (jset k v ob)"
proof (induction k v ob rule: jset.induct)
  case (1 k v)
  then show ?case by (simp add: distinct_keys_def)
next
  case (2 k v k' v' ob)
  then show ?case using keys_jset [of k v ob] by (auto simp: distinct_keys_def)
qed

lemma distinct_keys_spread: "distinct_keys ob \<Longrightarrow> distinct_keys (obj_spread ob kvs)"
  by (induction ob kvs rule: obj_spread.induct) (auto simp: distinct_keys_jset)

lemma jset_new: "k \<notin> fst ` set ob \<Longrightarrow> jset k v ob = ob @ [(k, v)]"
  by (induction k v ob rule: jset.induct) auto

lemma map_of_obj_spread: "map_of (obj_spread ob kvs) k =
  (case map_of (rev kvs) k of None \<Rightarrow> map_of ob k | Some v \<Rightarrow> Some v)"
  by (induction ob kvs rule: obj_spread.induct) (auto simp: map_of_jset map_add_def split: option.splits)

subsection \<open>JSON.stringify of strings and numbers\<close>

definition hex_digit :: "nat \<Rightarrow> char" where
  "hex_digit n = (if n < 10 then char_of (48 + n) else char_of (87 + n))"

definition escape_char :: "char \<Rightarrow> string" where
  "escape_char c =
     (if c = CHR 0x22 then [CHR 0x5C, CHR 0x22]
      else if c = CHR 0x5C then [CHR 0x5C, CHR 0x5C]
      else if c = CHR 0x08 then [CHR 0x5C, CHR ''b'']
      else if c = CHR 0x0C then [CHR 0x5C, CHR ''f'']
      else if c = CHR 0x0A then [CHR 0x5C, CHR ''n'']
      else if c = CHR 0x0D then [CHR 0x5C, CHR ''r'']
      else if c = CHR 0x09 then [CHR 0x5C, CHR ''t'']
      else if (of_char c :: nat) < 32
        then [CHR 0x5C, CHR ''u'', CHR ''0'', CHR ''0'',
              hex_digit (of_char c div 16), hex_digit (of_char c mod 16)]
      else [c])"

definition quote :: "string \<Rightarrow> string" where
  "quote s = [CHR 0x22] @ concat (map escape_char s) @ [CHR 0x22]"

fun num_text :: "jsnum \<Rightarrow> string" where
  "num_text (JInt i) = string_of_int i"
| "num_text (JDec t) = t"
| "num_text JNonFinite = ''null''"

subsection \<open>canonicalize\<close>

datatype canon_error = UndefinedValue | NonFiniteNumber

fun dedup_seen :: "string list \<Rightarrow> (string \<times> 'a) list \<Rightarrow> (string \<times> 'a) list" where
  "dedup_seen seen [] = []"
| "dedup_seen seen ((k, a) # r) =
     (if k \<in> set seen then dedup_seen seen r else (k, a) # dedup_seen (k # seen) r)"

lemma size_snd_member: "(k, v) \<in> set kvs \<Longrightarrow> size v < Suc (size_list (size_prod (\<lambda>_. 0) size) kvs)"
  by (induction kvs) auto

function canonicalize :: "(string \<Rightarrow> string) \<Rightarrow> json \<Rightarrow> (canon_error, string) result" where
  "canonicalize nfc JUndef = Inl UndefinedValue"
| "canonicalize nfc JNull = Inr ''null''"
| "canonicalize nfc (JNum n) = (if n = JNonFinite then Inl NonFiniteNumber else Inr (num_text n))"
| "canonicalize nfc (JStr s) = Inr (quote s)"
| "canonicalize nfc (JBool b) = Inr (if b then ''true'' else ''false'')"
| "canonicalize nfc (JArr vs) =
     rbind (rsequence (map (canonicalize nfc) vs)) (\<lambda>ts. Inr (''['' @ join '','' ts @ '']''))"
| "canonicalize nfc (JObj kvs) =
     rbind (rsequence (map (\<lambda>(k, r). rbind r (\<lambda>t. Inr (quote k @ '':'' @ t)))
        (sort_key fst (dedup_seen []
           (map (\<lambda>(k, v). (nfc k, canonicalize nfc v)) (filter (\<lambda>(k, v). v \<noteq> JUndef) kvs))))))
       (\<lambda>ts. Inr (''{'' @ join '','' ts @ ''}''))"
  by pat_completeness auto
termination
  by (relation "measure (size \<circ> snd)") (auto dest: size_snd_member simp: size_list_estimation' less_Suc_eq_le)

text \<open>The value a canonical text stands for: undefined members dropped, keys normalised, the
  first of two keys that normalise to the same one kept, keys sorted.\<close>

function norm :: "(string \<Rightarrow> string) \<Rightarrow> json \<Rightarrow> json" where
  "norm nfc JUndef = JUndef"
| "norm nfc JNull = JNull"
| "norm nfc (JNum n) = JNum n"
| "norm nfc (JStr s) = JStr s"
| "norm nfc (JBool b) = JBool b"
| "norm nfc (JArr vs) = JArr (map (norm nfc) vs)"
| "norm nfc (JObj kvs) =
     JObj (sort_key fst (dedup_seen []
       (map (\<lambda>(k, v). (nfc k, norm nfc v)) (filter (\<lambda>(k, v). v \<noteq> JUndef) kvs))))"
  by pat_completeness auto
termination
  by (relation "measure (size \<circ> snd)") (auto dest: size_snd_member simp: size_list_estimation' less_Suc_eq_le)

fun render :: "json \<Rightarrow> string" where
  "render JUndef = []"
| "render JNull = ''null''"
| "render (JNum n) = num_text n"
| "render (JStr s) = quote s"
| "render (JBool b) = (if b then ''true'' else ''false'')"
| "render (JArr vs) = ''['' @ join '','' (map render vs) @ '']''"
| "render (JObj kvs) = ''{'' @ join '','' (map (\<lambda>(k, v). quote k @ '':'' @ render v) kvs) @ ''}''"


subsection \<open>canonicalize renders the normal form\<close>

definition surviving :: "(string \<Rightarrow> string) \<Rightarrow> obj \<Rightarrow> obj" where
  "surviving nfc kvs =
     sort_key fst (dedup_seen [] (map (\<lambda>(k, v). (nfc k, v)) (filter (\<lambda>(k, v). v \<noteq> JUndef) kvs)))"

lemma dedup_seen_map: "dedup_seen seen (map (\<lambda>(k, a). (k, f a)) xs) = map (\<lambda>(k, a). (k, f a)) (dedup_seen seen xs)"
  by (induction seen xs rule: dedup_seen.induct) auto

lemma insort_key_map_snd:
  "insort_key fst (k, f a) (map (\<lambda>(k, a). (k, f a)) xs) = map (\<lambda>(k, a). (k, f a)) (insort_key fst (k, a) xs)"
  by (induction xs) auto

lemma sort_key_map_snd:
  "sort_key fst (map (\<lambda>(k, a). (k, f a)) xs) = map (\<lambda>(k, a). (k, f a)) (sort_key fst xs)"
proof (induction xs)
  case Nil
  then show ?case by simp
next
  case (Cons x xs)
  then show ?case by (cases x) (simp add: insort_key_map_snd)
qed

lemma surviving_map:
  "sort_key fst (dedup_seen [] (map (\<lambda>(k, v). (nfc k, f v)) (filter (\<lambda>(k, v). v \<noteq> JUndef) kvs))) =
     map (\<lambda>(k, v). (k, f v)) (surviving nfc kvs)"
proof -
  have "map (\<lambda>(k, v). (nfc k, f v)) xs = map (\<lambda>(k, v). (k, f v)) (map (\<lambda>(k, v). (nfc k, v)) xs)" for xs :: obj
    by (induction xs) auto
  then show ?thesis
    by (simp only: dedup_seen_map sort_key_map_snd surviving_def)
qed

lemma dedup_seen_subset: "set (dedup_seen seen xs) \<subseteq> set xs"
  by (induction seen xs rule: dedup_seen.induct) auto

lemma dedup_seen_distinct:
  "distinct (map fst (dedup_seen seen xs)) \<and> fst ` set (dedup_seen seen xs) \<inter> set seen = {}"
  by (induction seen xs rule: dedup_seen.induct) auto

lemma dedup_seen_keys: "fst ` set (dedup_seen seen xs) = fst ` set xs - set seen"
  by (induction seen xs rule: dedup_seen.induct) auto

lemma surviving_distinct: "distinct_keys (surviving nfc kvs)"
proof -
  have "mset (map fst (sort_key fst xs)) = mset (map fst xs)" for xs :: obj
    by (simp add: mset_map)
  then show ?thesis
    unfolding surviving_def distinct_keys_def
    by (metis dedup_seen_distinct mset_eq_imp_distinct_iff)
qed

lemma surviving_sorted: "sorted (map fst (surviving nfc kvs))"
  by (simp add: surviving_def)

lemma surviving_member:
  assumes "(k, v) \<in> set (surviving nfc kvs)"
  obtains k0 where "(k0, v) \<in> set kvs" "k = nfc k0" "v \<noteq> JUndef"
proof -
  have "(k, v) \<in> set (map (\<lambda>(k, v). (nfc k, v)) (filter (\<lambda>(k, v). v \<noteq> JUndef) kvs))"
    using assms dedup_seen_subset unfolding surviving_def by fastforce
  then show ?thesis using that by auto
qed

lemma canonicalize_obj:
  "canonicalize nfc (JObj kvs) =
     rbind (rsequence (map (\<lambda>(k, v). rbind (canonicalize nfc v) (\<lambda>t. Inr (quote k @ '':'' @ t))) (surviving nfc kvs)))
       (\<lambda>ts. Inr (''{'' @ join '','' ts @ ''}''))"
proof -
  have "map (\<lambda>(k, r). rbind r (\<lambda>t. Inr (quote k @ '':'' @ t))) (map (\<lambda>(k, v). (k, canonicalize nfc v)) xs)
      = map (\<lambda>(k, v). rbind (canonicalize nfc v) (\<lambda>t. Inr (quote k @ '':'' @ t))) xs" for xs
    by (induction xs) auto
  then show ?thesis by (simp only: canonicalize.simps surviving_map)
qed

lemma norm_obj: "norm nfc (JObj kvs) = JObj (map (\<lambda>(k, v). (k, norm nfc v)) (surviving nfc kvs))"
  by (simp only: norm.simps surviving_map)

declare canonicalize.simps(7) [simp del] norm.simps(7) [simp del]
declare canonicalize_obj [simp] norm_obj [simp]

lemma surviving_size:
  assumes "(k, v) \<in> set (surviving nfc kvs)" shows "size v < size (JObj kvs)"
proof -
  from assms obtain k0 where "(k0, v) \<in> set kvs" by (rule surviving_member)
  then show ?thesis by (auto dest: size_snd_member)
qed

lemma json_surviving_induct [case_names undef null bool num str arr obj]:
  assumes "P JUndef" "P JNull" "\<And>b. P (JBool b)" "\<And>n. P (JNum n)" "\<And>s. P (JStr s)"
    and "\<And>vs. (\<And>v. v \<in> set vs \<Longrightarrow> P v) \<Longrightarrow> P (JArr vs)"
    and "\<And>kvs. (\<And>k v. (k, v) \<in> set kvs \<Longrightarrow> P v) \<Longrightarrow> P (JObj kvs)"
  shows "P v"
proof (induction v)
  case (JObj x)
  then show ?case by (metis assms(7) snds.intros snd_conv)
qed (use assms in blast)+

lemma canonicalize_render: "canonicalize nfc v = Inr s \<Longrightarrow> s = render (norm nfc v)"
proof (induction v arbitrary: s rule: json_surviving_induct)
  case (arr vs)
  then obtain ts where ts: "map (canonicalize nfc) vs = map Inr ts"
    and s: "s = ''['' @ join '','' ts @ '']''"
    by (auto simp: rbind_Inr_iff rsequence_Inr_iff)
  from ts have len: "length vs = length ts" by (metis length_map)
  have "map render (map (norm nfc) vs) = ts"
  proof (rule nth_equalityI)
    fix i assume "i < length (map render (map (norm nfc) vs))"
    then show "map render (map (norm nfc) vs) ! i = ts ! i"
      using arr.IH [of "vs ! i" "ts ! i"] arg_cong [OF ts, of "\<lambda>xs. xs ! i"] len by simp
  qed (simp add: len)
  with s show ?case by simp
next
  case (obj kvs)
  let ?xs = "surviving nfc kvs"
  from obj.prems obtain ts
    where ts: "map (\<lambda>(k, v). rbind (canonicalize nfc v) (\<lambda>t. Inr (quote k @ '':'' @ t))) ?xs = map Inr ts"
    and s: "s = ''{'' @ join '','' ts @ ''}''"
    by (auto simp: rbind_Inr_iff rsequence_Inr_iff)
  from ts have len: "length ?xs = length ts" by (metis length_map)
  have "map (\<lambda>(k, v). quote k @ '':'' @ render v) (map (\<lambda>(k, v). (k, norm nfc v)) ?xs) = ts"
  proof (rule nth_equalityI)
    fix i assume "i < length (map (\<lambda>(k, v). quote k @ '':'' @ render v) (map (\<lambda>(k, v). (k, norm nfc v)) ?xs))"
    then have i: "i < length ?xs" by simp
    obtain k v where kv: "?xs ! i = (k, v)" by fastforce
    with i have "(k, v) \<in> set ?xs" by (metis nth_mem)
    then obtain k0 where "(k0, v) \<in> set kvs" by (rule surviving_member)
    with obj.IH have IH: "\<And>t. canonicalize nfc v = Inr t \<Longrightarrow> t = render (norm nfc v)" by blast
    from arg_cong [OF ts, of "\<lambda>xs. xs ! i"] i len kv
    have "rbind (canonicalize nfc v) (\<lambda>t. Inr (quote k @ '':'' @ t)) = Inr (ts ! i)" by simp
    then obtain t where "canonicalize nfc v = Inr t" "ts ! i = quote k @ '':'' @ t"
      by (auto simp: rbind_Inr_iff)
    with IH i kv show "map (\<lambda>(k, v). quote k @ '':'' @ render v) (map (\<lambda>(k, v). (k, norm nfc v)) ?xs) ! i = ts ! i"
      by simp
  qed (simp add: len)
  with s show ?case by simp
qed (auto split: if_splits)

text \<open>canonicalize throws only on an undefined value outside an object member and on a non-finite number.\<close>

fun serialisable :: "json \<Rightarrow> bool" where
  "serialisable JUndef = False"
| "serialisable (JNum n) = (n \<noteq> JNonFinite)"
| "serialisable (JArr vs) = (\<forall>v \<in> set vs. serialisable v)"
| "serialisable (JObj kvs) = (\<forall>(k, v) \<in> set kvs. v = JUndef \<or> serialisable v)"
| "serialisable v = True"

lemma rsequence_ok: "(\<And>x. x \<in> set xs \<Longrightarrow> is_ok (f x)) \<Longrightarrow> is_ok (rsequence (map f xs))"
proof (induction xs)
  case (Cons x xs)
  then obtain a as where "f x = Inr a" "rsequence (map f xs) = Inr as"
    unfolding is_ok_iff by (metis list.set_intros)
  then show ?case by simp
qed simp

lemma rbind_Inr_ok [simp]: "is_ok (rbind r (\<lambda>a. Inr (f a))) = is_ok r"
  by (cases r) simp_all

lemma canonicalize_ok: "serialisable v \<Longrightarrow> is_ok (canonicalize nfc v)"
proof (induction v rule: json_surviving_induct)
  case (arr vs)
  then show ?case by (simp add: rsequence_ok)
next
  case (obj kvs)
  have "is_ok (canonicalize nfc v)" if kv: "(k, v) \<in> set (surviving nfc kvs)" for k v
  proof -
    from kv obtain k0 where k0: "(k0, v) \<in> set kvs" "v \<noteq> JUndef" by (rule surviving_member)
    with obj.prems have "serialisable v" by auto
    with obj.IH k0 show ?thesis by blast
  qed
  then have "is_ok (rsequence (map (\<lambda>(k, v). rbind (canonicalize nfc v) (\<lambda>t. Inr (quote k @ '':'' @ t))) (surviving nfc kvs)))"
    by (intro rsequence_ok) auto
  then show ?case by simp
qed auto

end
