(* ===== verification/Json_Parse.thy ===== *)
theory Json_Parse
  imports Json
begin

text \<open>
  JSON.parse of the JavaScript standard library, over the UTF-8 text of the argument, and the
  round trip with the canonical texts of \<open>canonicalize\<close>: parsing what canonicalize printed gives
  the normal form of the value, so two values with the same canonical text have the same normal
  form. The parameter \<open>nd\<close> reads a numeral that has a fraction or an exponent, or whose integer
  part exceeds the exactly representable range.
\<close>

subsection \<open>Strings\<close>

definition hex_value :: "char \<Rightarrow> nat option" where
  "hex_value c =
     (if is_digit c then Some (of_char c - 48)
      else if CHR ''a'' \<le> c \<and> c \<le> CHR ''f'' then Some (of_char c - 87)
      else if CHR ''A'' \<le> c \<and> c \<le> CHR ''F'' then Some (of_char c - 55)
      else None)"

definition hex4 :: "char \<Rightarrow> char \<Rightarrow> char \<Rightarrow> char \<Rightarrow> nat option" where
  "hex4 a b c d =
     (case (hex_value a, hex_value b, hex_value c, hex_value d) of
        (Some w, Some x, Some y, Some z) \<Rightarrow> Some (4096 * w + 256 * x + 16 * y + z)
      | _ \<Rightarrow> None)"

definition utf8_encode :: "nat \<Rightarrow> string" where
  "utf8_encode n =
     (if n < 128 then [char_of n]
      else if n < 2048 then [char_of (192 + n div 64), char_of (128 + n mod 64)]
      else if n < 65536 then [char_of (224 + n div 4096), char_of (128 + n div 64 mod 64), char_of (128 + n mod 64)]
      else [char_of (240 + n div 262144), char_of (128 + n div 4096 mod 64),
            char_of (128 + n div 64 mod 64), char_of (128 + n mod 64)])"

definition unescape :: "char \<Rightarrow> char option" where
  "unescape e =
     (if e = CHR 0x22 \<or> e = CHR 0x5C \<or> e = CHR ''/'' then Some e
      else if e = CHR ''b'' then Some (CHR 0x08)
      else if e = CHR ''f'' then Some (CHR 0x0C)
      else if e = CHR ''n'' then Some (CHR 0x0A)
      else if e = CHR ''r'' then Some (CHR 0x0D)
      else if e = CHR ''t'' then Some (CHR 0x09)
      else None)"

definition prepend :: "string \<Rightarrow> (string \<times> string) option \<Rightarrow> (string \<times> string) option" where
  "prepend w o' = map_option (\<lambda>(t, r). (w @ t, r)) o'"

definition low_surrogate :: "string \<Rightarrow> (nat \<times> string) option" where
  "low_surrogate s =
     (case s of
        b # u # l1 # l2 # l3 # l4 # r \<Rightarrow>
          (case hex4 l1 l2 l3 l4 of
             Some m \<Rightarrow>
               if b = CHR 0x5C \<and> u = CHR ''u'' \<and> 0xDC00 \<le> m \<and> m < 0xE000 then Some (m, r) else None
           | None \<Rightarrow> None)
      | _ \<Rightarrow> None)"

lemma low_surrogate_shorter: "low_surrogate s = Some (m, r) \<Longrightarrow> length r < length s"
  by (auto simp: low_surrogate_def split: list.splits option.splits if_splits)

function str_body :: "string \<Rightarrow> (string \<times> string) option" where
  "str_body [] = None"
| "str_body (c # s) =
     (if c = CHR 0x22 then Some ([], s)
      else if c = CHR 0x5C then
        (case s of
           [] \<Rightarrow> None
         | e # s' \<Rightarrow>
             if e = CHR ''u'' then
               (case s' of
                  h1 # h2 # h3 # h4 # s'' \<Rightarrow>
                    (case hex4 h1 h2 h3 h4 of
                       None \<Rightarrow> None
                     | Some n \<Rightarrow>
                         if 0xD800 \<le> n \<and> n < 0xDC00 then
                           (case low_surrogate s'' of
                              Some (m, s3) \<Rightarrow>
                                prepend (utf8_encode (0x10000 + (n - 0xD800) * 0x400 + (m - 0xDC00))) (str_body s3)
                            | None \<Rightarrow> prepend (utf8_encode n) (str_body s''))
                         else prepend (utf8_encode n) (str_body s''))
                | _ \<Rightarrow> None)
             else (case unescape e of None \<Rightarrow> None | Some d \<Rightarrow> prepend [d] (str_body s')))
      else if (of_char c :: nat) < 32 then None
      else prepend [c] (str_body s))"
  by pat_completeness auto
termination by (relation "measure length") (auto dest: low_surrogate_shorter)

declare str_body.simps(2) [simp del]

subsection \<open>Numbers\<close>

definition scan_digits :: "string \<Rightarrow> string \<times> string" where
  "scan_digits s = (takeWhile is_digit s, dropWhile is_digit s)"

definition scan_int :: "string \<Rightarrow> (string \<times> string) option" where
  "scan_int s =
     (let (sg, s1) = (case s of c # r \<Rightarrow> if c = CHR ''-'' then ([c], r) else ([], s) | [] \<Rightarrow> ([], s));
          (ds, r) = scan_digits s1
      in if ds = [] \<or> (1 < length ds \<and> hd ds = CHR ''0'') then None else Some (sg @ ds, r))"

definition scan_frac :: "string \<Rightarrow> (string \<times> string) option" where
  "scan_frac s =
     (case s of
        c # r \<Rightarrow>
          if c = CHR ''.'' then
            (let (ds, r') = scan_digits r in if ds = [] then None else Some (c # ds, r'))
          else Some ([], s)
      | [] \<Rightarrow> Some ([], s))"

definition scan_exp :: "string \<Rightarrow> (string \<times> string) option" where
  "scan_exp s =
     (case s of
        c # r \<Rightarrow>
          if c = CHR ''e'' \<or> c = CHR ''E'' then
            (let (sg, r1) = (case r of d # r' \<Rightarrow> if d = CHR ''+'' \<or> d = CHR ''-'' then ([d], r') else ([], r) | [] \<Rightarrow> ([], r));
                 (ds, r2) = scan_digits r1
             in if ds = [] then None else Some (c # sg @ ds, r2))
          else Some ([], s)
      | [] \<Rightarrow> Some ([], s))"

definition int_of_text :: "string \<Rightarrow> int" where
  "int_of_text t =
     (case t of
        c # r \<Rightarrow> if c = CHR ''-'' then - int (digits_value 0 r) else int (digits_value 0 t)
      | [] \<Rightarrow> 0)"

definition max_exact :: int where
  "max_exact = 9007199254740992"

definition number_value :: "(string \<Rightarrow> jsnum) \<Rightarrow> string \<Rightarrow> string \<Rightarrow> string \<Rightarrow> jsnum" where
  "number_value nd it ft et =
     (if ft = [] \<and> et = [] \<and> abs (int_of_text it) \<le> max_exact then JInt (int_of_text it)
      else nd (it @ ft @ et))"

definition p_number :: "(string \<Rightarrow> jsnum) \<Rightarrow> string \<Rightarrow> (json \<times> string) option" where
  "p_number nd s =
     (case scan_int s of None \<Rightarrow> None | Some (it, r1) \<Rightarrow>
      (case scan_frac r1 of None \<Rightarrow> None | Some (ft, r2) \<Rightarrow>
       (case scan_exp r2 of None \<Rightarrow> None | Some (et, r3) \<Rightarrow>
          Some (JNum (number_value nd it ft et), r3))))"

subsection \<open>Values\<close>

definition json_ws :: "char \<Rightarrow> bool" where
  "json_ws c \<longleftrightarrow> c = CHR 0x20 \<or> c = CHR 0x09 \<or> c = CHR 0x0A \<or> c = CHR 0x0D"

definition skip_ws :: "string \<Rightarrow> string" where
  "skip_ws s = dropWhile json_ws s"

fun p_value :: "(string \<Rightarrow> jsnum) \<Rightarrow> nat \<Rightarrow> string \<Rightarrow> (json \<times> string) option"
and p_elems :: "(string \<Rightarrow> jsnum) \<Rightarrow> nat \<Rightarrow> string \<Rightarrow> (json list \<times> string) option"
and p_members :: "(string \<Rightarrow> jsnum) \<Rightarrow> nat \<Rightarrow> obj \<Rightarrow> string \<Rightarrow> (obj \<times> string) option" where
  "p_value nd 0 s = None"
| "p_value nd (Suc n) s =
     (case skip_ws s of
        [] \<Rightarrow> None
      | c # r \<Rightarrow>
          if c = CHR 0x22 then map_option (\<lambda>(t, r'). (JStr t, r')) (str_body r)
          else if c = CHR ''['' then
            (case skip_ws r of
               d # r' \<Rightarrow> if d = CHR '']'' then Some (JArr [], r')
                          else map_option (\<lambda>(vs, r''). (JArr vs, r'')) (p_elems nd n r)
             | [] \<Rightarrow> None)
          else if c = CHR ''{'' then
            (case skip_ws r of
               d # r' \<Rightarrow> if d = CHR ''}'' then Some (JObj [], r')
                          else map_option (\<lambda>(kvs, r''). (JObj kvs, r'')) (p_members nd n [] r)
             | [] \<Rightarrow> None)
          else if startsWith (c # r) ''true'' then Some (JBool True, drop 4 (c # r))
          else if startsWith (c # r) ''false'' then Some (JBool False, drop 5 (c # r))
          else if startsWith (c # r) ''null'' then Some (JNull, drop 4 (c # r))
          else p_number nd (c # r))"
| "p_elems nd 0 s = None"
| "p_elems nd (Suc n) s =
     (case p_value nd n s of
        None \<Rightarrow> None
      | Some (v, r) \<Rightarrow>
          (case skip_ws r of
             [] \<Rightarrow> None
           | d # r' \<Rightarrow>
               if d = CHR '','' then map_option (\<lambda>(vs, r''). (v # vs, r'')) (p_elems nd n r')
               else if d = CHR '']'' then Some ([v], r')
               else None))"
| "p_members nd 0 acc s = None"
| "p_members nd (Suc n) acc s =
     (case skip_ws s of
        [] \<Rightarrow> None
      | q # r0 \<Rightarrow>
          if q \<noteq> CHR 0x22 then None
          else
            (case str_body r0 of
               None \<Rightarrow> None
             | Some (k, r1) \<Rightarrow>
                 (case skip_ws r1 of
                    [] \<Rightarrow> None
                  | cl # r2 \<Rightarrow>
                      if cl \<noteq> CHR '':'' then None
                      else
                        (case p_value nd n r2 of
                           None \<Rightarrow> None
                         | Some (v, r3) \<Rightarrow>
                             (case skip_ws r3 of
                                [] \<Rightarrow> None
                              | d # r4 \<Rightarrow>
                                  if d = CHR '','' then p_members nd n (jset k v acc) r4
                                  else if d = CHR ''}'' then Some (jset k v acc, r4)
                                  else None)))))"

definition JSON_parse :: "(string \<Rightarrow> jsnum) \<Rightarrow> string \<Rightarrow> json option" where
  "JSON_parse nd s =
     (case p_value nd (2 * length s + 2) s of
        None \<Rightarrow> None
      | Some (v, r) \<Rightarrow> if skip_ws r = [] then Some v else None)"

declare p_value.simps [simp del] p_elems.simps [simp del] p_members.simps [simp del]

subsection \<open>Parsing a quoted string\<close>

lemma prepend_Some [simp]: "prepend w (Some (t, r)) = Some (w @ t, r)"
  by (simp add: prepend_def)

lemma char_le_nat: "c \<le> d \<longleftrightarrow> (of_char c :: nat) \<le> of_char d"
  by (simp only: less_eq_char_def)

lemma hex_digit_roundtrip:
  assumes "n < 16" shows "hex_value (hex_digit n) = Some n"
proof (cases "n < 10")
  case True
  then show ?thesis by (simp add: hex_value_def hex_digit_def is_digit_alt)
next
  case False
  with assms have "(of_char (hex_digit n) :: nat) = 87 + n" by (simp add: hex_digit_def)
  with False assms show ?thesis by (simp add: hex_value_def is_digit_alt char_le_nat)
qed

lemma utf8_ascii: "n < 128 \<Longrightarrow> utf8_encode n = [char_of n]"
  by (simp add: utf8_encode_def)

lemma hex4_control:
  assumes "n < 32"
  shows "hex4 (CHR ''0'') (CHR ''0'') (hex_digit (n div 16)) (hex_digit (n mod 16)) = Some n"
proof -
  have z: "hex_value (CHR ''0'') = Some 0" by (simp add: hex_value_def is_digit_alt)
  have "hex_value (hex_digit (n div 16)) = Some (n div 16)" "hex_value (hex_digit (n mod 16)) = Some (n mod 16)"
    using assms by (auto intro!: hex_digit_roundtrip)
  with z show ?thesis by (simp add: hex4_def)
qed

lemma str_body_unicode:
  assumes "hex4 h1 h2 h3 h4 = Some n" "n < 32"
  shows "str_body (CHR 0x5C # CHR ''u'' # h1 # h2 # h3 # h4 # s) = prepend [char_of n] (str_body s)"
  using assms
  by (subst str_body.simps(2)) (simp add: utf8_ascii)

lemma str_body_escape_char:
  "str_body (escape_char c @ s) = prepend [c] (str_body s)"
proof (cases "c \<in> {CHR 0x22, CHR 0x5C, CHR 0x08, CHR 0x0C, CHR 0x0A, CHR 0x0D, CHR 0x09}")
  case True
  have "str_body (CHR 0x5C # e # s) = prepend [d] (str_body s)"
    if "unescape e = Some d" "e \<noteq> CHR ''u''" for e d
    using that by (subst str_body.simps(2)) simp
  with True show ?thesis
    by (auto simp: escape_char_def unescape_def)
next
  case False
  show ?thesis
  proof (cases "(of_char c :: nat) < 32")
    case True
    have "hex4 (CHR ''0'') (CHR ''0'') (hex_digit (of_char c div 16)) (hex_digit (of_char c mod 16)) = Some (of_char c)"
      by (rule hex4_control) (rule True)
    from str_body_unicode [OF this True, of s] False True show ?thesis
      by (simp add: escape_char_def)
  next
    case big: False
    with False show ?thesis by (simp add: escape_char_def str_body.simps(2) [of c s])
  qed
qed

lemma str_body_quote: "str_body (concat (map escape_char t) @ CHR 0x22 # r) = Some (t, r)"
proof (induction t)
  case Nil
  then show ?case by (simp add: str_body.simps(2) [of "CHR 0x22" r])
next
  case (Cons c t)
  then show ?case by (simp add: str_body_escape_char)
qed

subsection \<open>Parsing a number\<close>

definition num_stop :: "string \<Rightarrow> bool" where
  "num_stop r \<longleftrightarrow> (case r of [] \<Rightarrow> True
     | c # _ \<Rightarrow> \<not> is_digit c \<and> c \<noteq> CHR ''.'' \<and> c \<noteq> CHR ''e'' \<and> c \<noteq> CHR ''E'')"

lemma num_stop_separators [simp]:
  "num_stop []" "num_stop (CHR '','' # r)" "num_stop (CHR '']'' # r)" "num_stop (CHR ''}'' # r)"
  by (simp_all add: num_stop_def is_digit_alt)

lemma takeWhile_digits:
  assumes "\<forall>c \<in> set ds. is_digit c" "r = [] \<or> \<not> is_digit (hd r)"
  shows "takeWhile is_digit (ds @ r) = ds" "dropWhile is_digit (ds @ r) = r"
  using assms by (auto simp: takeWhile_append dropWhile_append takeWhile_eq_Nil_iff dropWhile_eq_self_iff)

lemma scan_int_text:
  assumes "num_stop r"
  shows "scan_int (string_of_int i @ r) = Some (string_of_int i, r)"
proof -
  let ?n = "nat (abs i)"
  have d: "\<forall>c \<in> set (nat_digits ?n). is_digit c" by (blast dest: nat_digits_all)
  have r: "r = [] \<or> \<not> is_digit (hd r)" using assms by (auto simp: num_stop_def split: list.splits)
  have neg: "\<not> is_digit (CHR ''-'')" by (simp add: is_digit_alt)
  have hd: "hd (nat_digits ?n) \<noteq> CHR ''-''"
    using d neg by (metis hd_in_set nat_digits_not_Nil)
  obtain c ds where cds: "nat_digits ?n = c # ds" by (cases "nat_digits ?n") auto
  have lead: "\<not> (1 < length (nat_digits ?n) \<and> hd (nat_digits ?n) = CHR ''0'')"
    using nat_digits_leading [of ?n] by auto
  show ?thesis
    using takeWhile_digits [OF d r] cds hd lead
    by (auto simp: scan_int_def scan_digits_def string_of_int_def abs_if split: if_splits)
qed

lemma int_of_text_string [simp]: "int_of_text (string_of_int i) = i"
proof -
  obtain c ds where cds: "nat_digits (nat (abs i)) = c # ds"
    by (cases "nat_digits (nat (abs i))") auto
  then have "is_digit c" using nat_digits_all [of c "nat (abs i)"] by simp
  then have "c \<noteq> CHR ''-''" by (auto simp: is_digit_alt)
  then show ?thesis
    using cds digits_value_nat_digits [of "nat (abs i)"]
    by (auto simp: int_of_text_def string_of_int_def abs_if split: if_splits)
qed

lemma p_number_int:
  assumes "num_stop r" "abs i \<le> max_exact"
  shows "p_number nd (string_of_int i @ r) = Some (JNum (JInt i), r)"
  using scan_int_text [OF assms(1)] assms
  by (auto simp: p_number_def scan_frac_def scan_exp_def num_stop_def number_value_def split: list.splits)


subsection \<open>Round trip\<close>

definition dec_text :: "(string \<Rightarrow> jsnum) \<Rightarrow> string \<Rightarrow> bool" where
  "dec_text nd t \<longleftrightarrow> p_number nd t = Some (JNum (JDec t), [])"

fun plain_json :: "(string \<Rightarrow> jsnum) \<Rightarrow> json \<Rightarrow> bool" where
  "plain_json nd JUndef = False"
| "plain_json nd JNull = True"
| "plain_json nd (JBool b) = True"
| "plain_json nd (JNum (JInt i)) = (abs i \<le> max_exact)"
| "plain_json nd (JNum (JDec t)) = dec_text nd t"
| "plain_json nd (JNum JNonFinite) = False"
| "plain_json nd (JStr s) = True"
| "plain_json nd (JArr vs) = (\<forall>v \<in> set vs. plain_json nd v)"
| "plain_json nd (JObj kvs) = (distinct_keys kvs \<and> (\<forall>(k, v) \<in> set kvs. plain_json nd v))"

lemma scan_digits_append:
  assumes "scan_digits s = (ds, r1)" "r = [] \<or> \<not> is_digit (hd r)"
  shows "scan_digits (s @ r) = (ds, r1 @ r)"
proof (cases "\<forall>c \<in> set s. is_digit c")
  case True
  with assms(1) have "ds = s" "r1 = []" by (auto simp: scan_digits_def)
  then show ?thesis by (simp add: scan_digits_def takeWhile_digits [OF True assms(2)])
next
  case False
  then obtain c where "c \<in> set s" "\<not> is_digit c" by blast
  then show ?thesis using assms(1)
    by (auto simp: scan_digits_def takeWhile_append1 dropWhile_append1)
qed

lemma num_stop_hd: "num_stop r \<Longrightarrow> r = [] \<or> \<not> is_digit (hd r)"
  by (auto simp: num_stop_def split: list.splits)

lemma scan_int_append:
  assumes "scan_int s = Some (it, r1)" "num_stop r"
  shows "scan_int (s @ r) = Some (it, r1 @ r)"
proof (cases s)
  case Nil
  with assms show ?thesis by (simp add: scan_int_def scan_digits_def)
next
  case (Cons c s')
  obtain ds r' where d: "scan_digits (if c = CHR ''-'' then s' else s) = (ds, r')" by fastforce
  from scan_digits_append [OF d num_stop_hd [OF assms(2)]] d assms(1) Cons show ?thesis
    by (auto simp: scan_int_def split: if_splits)
qed

lemma scan_frac_append:
  assumes "scan_frac s = Some (ft, r1)" "num_stop r"
  shows "scan_frac (s @ r) = Some (ft, r1 @ r)"
proof (cases s)
  case Nil
  with assms show ?thesis by (auto simp: scan_frac_def num_stop_def split: list.splits)
next
  case (Cons c s')
  obtain ds r' where d: "scan_digits s' = (ds, r')" by fastforce
  from scan_digits_append [OF d num_stop_hd [OF assms(2)]] d assms(1) Cons show ?thesis
    by (auto simp: scan_frac_def split: if_splits)
qed

lemma scan_digits_Nil [simp]: "scan_digits [] = ([], [])"
  by (simp add: scan_digits_def)

lemma scan_exp_append:
  assumes "scan_exp s = Some (et, r1)" "num_stop r"
  shows "scan_exp (s @ r) = Some (et, r1 @ r)"
proof (cases s)
  case Nil
  with assms show ?thesis by (auto simp: scan_exp_def num_stop_def split: list.splits)
next
  case (Cons c s')
  show ?thesis
  proof (cases s')
    case Nil
    with Cons assms show ?thesis by (auto simp: scan_exp_def split: if_splits)
  next
    case s': (Cons d s'')
    obtain ds r' where d: "scan_digits (if d = CHR ''+'' \<or> d = CHR ''-'' then s'' else s') = (ds, r')" by fastforce
    from scan_digits_append [OF d num_stop_hd [OF assms(2)]] d assms(1) Cons s' show ?thesis
      by (auto simp: scan_exp_def split: if_splits)
  qed
qed

lemma p_number_append:
  assumes "p_number nd t = Some (v, r1)" "num_stop r"
  shows "p_number nd (t @ r) = Some (v, r1 @ r)"
  using assms
  by (auto simp: p_number_def scan_int_append scan_frac_append scan_exp_append split: option.splits)

lemma scan_int_head:
  assumes "scan_int t = Some p"
  obtains c s where "t = c # s" "c = CHR ''-'' \<or> is_digit c"
proof (cases t)
  case Nil
  with assms show ?thesis by (simp add: scan_int_def)
next
  case (Cons c s)
  with assms have "c = CHR ''-'' \<or> is_digit c"
    by (auto simp: scan_int_def scan_digits_def split: if_splits)
  with Cons that show ?thesis by blast
qed

lemma digit_facts:
  assumes "c = CHR ''-'' \<or> is_digit c"
  shows "\<not> json_ws c" "c \<notin> {CHR 0x22, CHR ''['', CHR ''{'', CHR ''t'', CHR ''f'', CHR ''n'', CHR '']'', CHR ''}'', CHR '',''}"
  using assms by (auto simp: json_ws_def is_digit_alt)

lemma p_value_number:
  assumes "c = CHR ''-'' \<or> is_digit c"
  shows "p_value nd (Suc n) (c # s) = p_number nd (c # s)"
  using digit_facts [OF assms] by (simp add: p_value.simps skip_ws_def)

lemma string_of_int_scan: "scan_int (string_of_int i) = Some (string_of_int i, [])"
  using scan_int_text [of "[]" i] by simp

lemma num_text_head:
  assumes "plain_json nd (JNum m)"
  obtains c s where "num_text m = c # s" "c = CHR ''-'' \<or> is_digit c"
proof (cases m)
  case (JInt i)
  then show ?thesis using that scan_int_head [OF string_of_int_scan] by (metis num_text.simps(1))
next
  case (JDec t)
  with assms obtain p where "scan_int t = Some p" by (auto simp: dec_text_def p_number_def split: option.splits)
  with JDec that show ?thesis by (metis num_text.simps(2) scan_int_head)
qed (use assms in simp)

lemma render_head:
  assumes "plain_json nd v"
  obtains c s where "render v = c # s" "\<not> json_ws c" "c \<notin> {CHR '']'', CHR ''}'', CHR '',''}"
proof (cases v)
  case (JNum m)
  with assms show ?thesis using that num_text_head [of nd m] digit_facts
    by (metis insert_iff render.simps(3))
next
  case (JBool b)
  then show ?thesis using that by (cases b) (auto simp: json_ws_def)
qed (use assms that in \<open>auto simp: quote_def json_ws_def\<close>)

lemma p_value_literals:
  assumes "0 < n"
  shows "p_value nd n (''null'' @ r) = Some (JNull, r)"
    "p_value nd n (''true'' @ r) = Some (JBool True, r)"
    "p_value nd n (''false'' @ r) = Some (JBool False, r)"
  using assms by (auto simp: gr0_conv_Suc p_value.simps skip_ws_def json_ws_def)

lemma p_value_num:
  assumes "plain_json nd (JNum m)" "num_stop r"
  shows "p_value nd (Suc n) (num_text m @ r) = Some (JNum m, r)"
proof -
  obtain c s where c: "num_text m = c # s" "c = CHR ''-'' \<or> is_digit c"
    by (rule num_text_head [OF assms(1)])
  have "p_number nd (num_text m @ r) = Some (JNum m, r)"
  proof (cases m)
    case (JInt i)
    with assms show ?thesis by (simp add: p_number_int)
  next
    case (JDec t)
    with assms show ?thesis using p_number_append [of nd t "JNum (JDec t)" "[]" r]
      by (simp add: dec_text_def)
  qed (use assms in simp)
  with c p_value_number [of c nd n "s @ r"] show ?thesis by simp
qed

definition reads_back :: "(string \<Rightarrow> jsnum) \<Rightarrow> json \<Rightarrow> bool" where
  "reads_back nd v \<longleftrightarrow>
     (\<forall>n r. num_stop r \<longrightarrow> 2 * length (render v) < n \<longrightarrow> p_value nd n (render v @ r) = Some (v, r))"

lemma reads_backD:
  "reads_back nd v \<Longrightarrow> num_stop r \<Longrightarrow> 2 * length (render v) < n \<Longrightarrow> p_value nd n (render v @ r) = Some (v, r)"
  by (simp add: reads_back_def)

lemma p_elems_render:
  assumes "vs \<noteq> []" "\<forall>v \<in> set vs. reads_back nd v"
    and "2 * length (join '','' (map render vs)) + 1 < n"
  shows "p_elems nd n (join '','' (map render vs) @ CHR '']'' # r) = Some (vs, r)"
  using assms
proof (induction vs arbitrary: n)
  case Nil
  then show ?case by simp
next
  case (Cons v vs)
  then obtain m where n: "n = Suc m" by (cases n) auto
  show ?case
  proof (cases vs)
    case Nil
    have "p_value nd m (render v @ CHR '']'' # r) = Some (v, CHR '']'' # r)"
      by (rule reads_backD) (use Cons.prems n Nil in auto)
    with Nil n show ?thesis by (simp add: p_elems.simps skip_ws_def json_ws_def)
  next
    case vs: (Cons w ws)
    let ?t = "join '','' (map render vs)"
    have "p_value nd m (render v @ CHR '','' # ?t @ CHR '']'' # r) = Some (v, CHR '','' # ?t @ CHR '']'' # r)"
      by (rule reads_backD) (use Cons.prems n vs in auto)
    moreover have "p_elems nd m (?t @ CHR '']'' # r) = Some (vs, r)"
      by (rule Cons.IH) (use Cons.prems n vs in auto)
    ultimately show ?thesis using n vs by (simp add: p_elems.simps skip_ws_def json_ws_def)
  qed
qed

definition render_member :: "string \<times> json \<Rightarrow> string" where
  "render_member kv = quote (fst kv) @ '':'' @ render (snd kv)"

lemma p_members_render:
  assumes "kvs \<noteq> []" "\<forall>(k, v) \<in> set kvs. reads_back nd v" "distinct_keys (acc @ kvs)"
    and "2 * length (join '','' (map render_member kvs)) + 1 < n"
  shows "p_members nd n acc (join '','' (map render_member kvs) @ CHR ''}'' # r) = Some (acc @ kvs, r)"
  using assms
proof (induction kvs arbitrary: n acc)
  case Nil
  then show ?case by simp
next
  case (Cons kv kvs)
  obtain k v where kv: "kv = (k, v)" by fastforce
  from Cons.prems obtain m where n: "n = Suc m" by (cases n) auto
  have new: "jset k v acc = acc @ [(k, v)]"
    by (rule jset_new) (use Cons.prems(3) kv in \<open>auto simp: distinct_keys_def\<close>)
  have sk: "str_body (concat (map escape_char k) @ CHR 0x22 # s) = Some (k, s)" for s
    by (rule str_body_quote)
  show ?case
  proof (cases kvs)
    case Nil
    have "p_value nd m (render v @ CHR ''}'' # r) = Some (v, CHR ''}'' # r)"
      by (rule reads_backD) (use Cons.prems n Nil kv in \<open>auto simp: render_member_def\<close>)
    with Nil n kv sk new show ?thesis
      by (simp add: p_members.simps skip_ws_def json_ws_def quote_def render_member_def)
  next
    case more: (Cons kv' kvs')
    define T where "T = join '','' (map render_member kvs)"
    have split: "join '','' (map render_member (kv # kvs)) = quote k @ '':'' @ render v @ '','' @ T"
      by (simp add: T_def more kv render_member_def)
    have "p_value nd m (render v @ CHR '','' # T @ CHR ''}'' # r) = Some (v, CHR '','' # T @ CHR ''}'' # r)"
      by (rule reads_backD) (use Cons.prems n kv split in auto)
    moreover have "p_members nd m (acc @ [(k, v)]) (T @ CHR ''}'' # r) = Some ((acc @ [(k, v)]) @ kvs, r)"
      unfolding T_def by (rule Cons.IH) (use Cons.prems n more kv split in \<open>auto simp: T_def\<close>)
    ultimately show ?thesis using sk
      by (simp only: split n) (simp add: p_members.simps skip_ws_def json_ws_def quote_def new kv)
  qed
qed

lemma render_obj: "render (JObj kvs) = ''{'' @ join '','' (map render_member kvs) @ ''}''"
proof -
  have "(\<lambda>(k, v). quote k @ '':'' @ render v) = render_member"
    by (auto simp: render_member_def)
  then show ?thesis by simp
qed


lemma parse_render: "plain_json nd v \<Longrightarrow> reads_back nd v"
proof (induction v rule: json_surviving_induct)
  case (num m)
  show ?case
  proof (unfold reads_back_def, intro allI impI)
    fix n r assume "num_stop r" "2 * length (render (JNum m)) < n"
    with num p_value_num [of nd m r "n - 1"] show "p_value nd n (render (JNum m) @ r) = Some (JNum m, r)"
      by (cases n) auto
  qed
next
  case (str s)
  show ?case
  proof (unfold reads_back_def, intro allI impI)
    fix n r assume "num_stop r" "2 * length (render (JStr s)) < n"
    then show "p_value nd n (render (JStr s) @ r) = Some (JStr s, r)"
      by (cases n) (auto simp: p_value.simps skip_ws_def json_ws_def quote_def str_body_quote)
  qed
next
  case (arr vs)
  show ?case
  proof (unfold reads_back_def, intro allI impI)
    fix n r assume len: "2 * length (render (JArr vs)) < n"
    then obtain m where n: "n = Suc m" by (cases n) auto
    define T where "T = join '','' (map render vs)"
    show "p_value nd n (render (JArr vs) @ r) = Some (JArr vs, r)"
    proof (cases vs)
      case Nil
      with n show ?thesis by (simp add: p_value.simps skip_ws_def json_ws_def)
    next
      case (Cons v ws)
      with arr.prems obtain c s where c: "render v = c # s" "\<not> json_ws c" "c \<noteq> CHR '']''"
        by (metis insert_iff list.set_intros(1) plain_json.simps(8) render_head)
      obtain s' where T: "T = c # s'" using Cons c by (cases ws) (auto simp: T_def)
      have "p_elems nd m (T @ CHR '']'' # r) = Some (vs, r)"
        unfolding T_def by (rule p_elems_render) (use arr Cons len n in auto)
      with n c T show ?thesis by (simp add: p_value.simps skip_ws_def json_ws_def flip: T_def)
    qed
  qed
next
  case (obj kvs)
  show ?case
  proof (unfold reads_back_def, intro allI impI)
    fix n r assume len: "2 * length (render (JObj kvs)) < n"
    then obtain m where n: "n = Suc m" by (cases n) auto
    define T where "T = join '','' (map render_member kvs)"
    have R: "render (JObj kvs) = ''{'' @ T @ ''}''" by (simp only: render_obj T_def)
    show "p_value nd n (render (JObj kvs) @ r) = Some (JObj kvs, r)"
    proof (cases kvs)
      case Nil
      with n show ?thesis by (simp add: p_value.simps skip_ws_def json_ws_def)
    next
      case (Cons kv ws)
      then obtain s' where T: "T = CHR 0x22 # s'"
        by (cases ws) (auto simp: T_def render_member_def quote_def)
      have "p_members nd m [] (T @ CHR ''}'' # r) = Some ([] @ kvs, r)"
        unfolding T_def
      proof (rule p_members_render)
        show "\<forall>(k, v) \<in> set kvs. reads_back nd v" using obj by auto
        show "distinct_keys ([] @ kvs)" using obj.prems by simp
        show "2 * length (join '','' (map render_member kvs)) + 1 < m" using len n R by (simp add: T_def)
      qed (simp add: Cons)
      with n T R show ?thesis by (simp add: p_value.simps skip_ws_def json_ws_def)
    qed
  qed
next
  case (bool b)
  then show ?case by (cases b) (auto simp: reads_back_def intro: p_value_literals [simplified])
qed (auto simp: reads_back_def intro: p_value_literals [simplified])

theorem JSON_parse_render:
  assumes "plain_json nd v"
  shows "JSON_parse nd (render v) = Some v"
  using reads_backD [OF parse_render [OF assms], of "[]" "2 * length (render v) + 2"]
  by (simp add: JSON_parse_def skip_ws_def)

text \<open>A value canonicalize accepts has a plain normal form when its numerals are the ones
  JSON.parse reads back.\<close>

fun numerals_ok :: "(string \<Rightarrow> jsnum) \<Rightarrow> json \<Rightarrow> bool" where
  "numerals_ok nd (JNum (JInt i)) = (abs i \<le> max_exact)"
| "numerals_ok nd (JNum (JDec t)) = dec_text nd t"
| "numerals_ok nd (JArr vs) = (\<forall>v \<in> set vs. numerals_ok nd v)"
| "numerals_ok nd (JObj kvs) = (\<forall>(k, v) \<in> set kvs. numerals_ok nd v)"
| "numerals_ok nd v = True"

lemma canonicalize_plain:
  "canonicalize nfc v = Inr s \<Longrightarrow> numerals_ok nd v \<Longrightarrow> plain_json nd (norm nfc v)"
proof (induction v arbitrary: s rule: json_surviving_induct)
  case (num n)
  then show ?case by (cases n) (auto split: if_splits)
next
  case (arr vs)
  then obtain ts where ts: "map (canonicalize nfc) vs = map Inr ts"
    by (auto simp: rbind_Inr_iff rsequence_Inr_iff)
  from arg_cong [OF ts, of set] have img: "canonicalize nfc ` set vs = Inr ` set ts" by simp
  have "plain_json nd (norm nfc v)" if v: "v \<in> set vs" for v
  proof -
    from v img have "canonicalize nfc v \<in> Inr ` set ts" by blast
    then obtain t where "canonicalize nfc v = Inr t" by blast
    with arr v show ?thesis by simp
  qed
  then show ?case by simp
next
  case (obj kvs)
  then obtain ts where ts: "map (\<lambda>(k, v). rbind (canonicalize nfc v) (\<lambda>t. Inr (quote k @ '':'' @ t))) (surviving nfc kvs)
      = map Inr ts"
    by (auto simp: rbind_Inr_iff rsequence_Inr_iff)
  have "plain_json nd (norm nfc v)" if kv: "(k, v) \<in> set (surviving nfc kvs)" for k v
  proof -
    from kv have "rbind (canonicalize nfc v) (\<lambda>t. Inr (quote k @ '':'' @ t))
        \<in> set (map (\<lambda>(k, v). rbind (canonicalize nfc v) (\<lambda>t. Inr (quote k @ '':'' @ t))) (surviving nfc kvs))"
      by force
    then obtain t where "canonicalize nfc v = Inr t"
      unfolding ts by (auto simp: rbind_Inr_iff)
    moreover from kv obtain k0 where "(k0, v) \<in> set kvs" by (rule surviving_member)
    ultimately show ?thesis using obj by auto
  qed
  moreover have "distinct_keys (map (\<lambda>(k, v). (k, norm nfc v)) (surviving nfc kvs))"
    using surviving_distinct [of nfc kvs] by (simp add: distinct_keys_def comp_def case_prod_unfold)
  ultimately show ?case by auto
qed auto

theorem canonicalize_parse:
  assumes "canonicalize nfc v = Inr s" "numerals_ok nd v"
  shows "JSON_parse nd s = Some (norm nfc v)"
  using assms canonicalize_render canonicalize_plain JSON_parse_render by metis

end
