(* ===== verification/Base64url.thy ===== *)
theory Base64url
  imports Prelude
begin

text \<open>
  packages/ucan/src/base64url.ts: Node's Buffer in the base64url encoding, on bytes (a byte is a
  char). Encoding writes no padding. Decoding is Node's: it accepts both base64 alphabets, skips
  every other character, stops at the first \<open>=\<close> and drops an incomplete last group.
\<close>

definition b64_char :: "nat \<Rightarrow> char" where
  "b64_char n =
     (if n < 26 then char_of (65 + n)
      else if n < 52 then char_of (71 + n)
      else if n < 62 then char_of (n - 4)
      else if n = 62 then CHR ''-'' else CHR ''_'')"

definition b64_val :: "char \<Rightarrow> nat option" where
  "b64_val c =
     (if is_upper c then Some (of_char c - 65)
      else if is_lower c then Some (of_char c - 71)
      else if is_digit c then Some (of_char c + 4)
      else if c = CHR ''-'' \<or> c = CHR ''+'' then Some 62
      else if c = CHR ''_'' \<or> c = CHR ''/'' then Some 63
      else None)"

fun to_sextets :: "nat list \<Rightarrow> nat list" where
  "to_sextets (a # b # c # r) =
     a div 4 # (a mod 4 * 16 + b div 16) # (b mod 16 * 4 + c div 64) # c mod 64 # to_sextets r"
| "to_sextets [a, b] = [a div 4, a mod 4 * 16 + b div 16, b mod 16 * 4]"
| "to_sextets [a] = [a div 4, a mod 4 * 16]"
| "to_sextets [] = []"

fun from_sextets :: "nat list \<Rightarrow> nat list" where
  "from_sextets (w # x # y # z # r) =
     (w * 4 + x div 16) # (x mod 16 * 16 + y div 4) # (y mod 4 * 64 + z) # from_sextets r"
| "from_sextets [w, x, y] = [w * 4 + x div 16, x mod 16 * 16 + y div 4]"
| "from_sextets [w, x] = [w * 4 + x div 16]"
| "from_sextets [w] = []"
| "from_sextets [] = []"

definition bytesToBase64url :: "string \<Rightarrow> string" where
  "bytesToBase64url bs = map b64_char (to_sextets (map of_char bs))"

definition base64urlToBytes :: "string \<Rightarrow> string" where
  "base64urlToBytes s =
     map char_of (from_sextets (List.map_filter b64_val (takeWhile (\<lambda>c. c \<noteq> CHR ''='') s)))"

definition stringToBase64url :: "string \<Rightarrow> string" where
  "stringToBase64url s = bytesToBase64url s"

definition base64urlToString :: "string \<Rightarrow> string" where
  "base64urlToString s = base64urlToBytes s"

subsection \<open>Round trip\<close>

lemma upper_nat: "is_upper c \<longleftrightarrow> 65 \<le> (of_char c :: nat) \<and> (of_char c :: nat) \<le> 90"
  by (simp add: is_upper_def less_eq_char_def)

lemma lower_nat: "is_lower c \<longleftrightarrow> 97 \<le> (of_char c :: nat) \<and> (of_char c :: nat) \<le> 122"
  by (simp add: is_lower_def less_eq_char_def)

lemma b64_val_char: "n < 64 \<Longrightarrow> b64_val (b64_char n) = Some n"
proof -
  assume n: "n < 64"
  consider "n < 26" | "26 \<le> n" "n < 52" | "52 \<le> n" "n < 62" | "n = 62" | "n = 63" using n by linarith
  then show ?thesis
    by cases (auto simp: b64_char_def b64_val_def upper_nat lower_nat is_digit_alt)
qed

lemma b64_char_not_special: "n < 64 \<Longrightarrow> b64_char n \<noteq> CHR ''='' \<and> b64_char n \<noteq> CHR ''.''"
proof -
  assume "n < 64"
  then have "b64_val (b64_char n) = Some n" by (rule b64_val_char)
  moreover have "b64_val (CHR ''='') = None" "b64_val (CHR ''.'') = None"
    by (simp_all add: b64_val_def upper_nat lower_nat is_digit_alt)
  ultimately show ?thesis by (metis option.distinct(1))
qed

lemma to_sextets_bound: "\<forall>b \<in> set bs. b < 256 \<Longrightarrow> \<forall>x \<in> set (to_sextets bs). x < 64"
proof (induction bs rule: to_sextets.induct)
  case (1 a b c r)
  then have "a < 256" "b < 256" "c < 256" by auto
  then have "a div 4 < 64" "a mod 4 * 16 + b div 16 < 64" "b mod 16 * 4 + c div 64 < 64" "c mod 64 < 64"
    by linarith+
  with 1 show ?case by simp
next
  case (2 a b)
  then have "a < 256" "b < 256" by auto
  then have "a div 4 < 64" "a mod 4 * 16 + b div 16 < 64" "b mod 16 * 4 < 64"
    by linarith+
  then show ?case by simp
next
  case (3 a)
  then have "a div 4 < 64" "a mod 4 * 16 < 64" by (simp, linarith)+
  then show ?case by simp
qed simp

lemma sextet_split:
  assumes "(q::nat) < 16"
  shows "(p * 16 + q) div 16 = p" "(p * 16 + q) mod 16 = q"
  using assms by simp_all

lemma quad_split:
  assumes "(q::nat) < 4"
  shows "(p * 4 + q) div 4 = p" "(p * 4 + q) mod 4 = q"
  using assms by simp_all

lemma from_to_sextets: "\<forall>b \<in> set bs. b < 256 \<Longrightarrow> from_sextets (to_sextets bs) = bs"
proof (induction bs rule: to_sextets.induct)
  case (1 a b c r)
  then have bc: "b div 16 < 16" "c div 64 < 4" by auto
  have "a div 4 * 4 + (a mod 4 * 16 + b div 16) div 16 = a"
    by (simp only: sextet_split [OF bc(1)] div_mult_mod_eq)
  moreover have "(a mod 4 * 16 + b div 16) mod 16 * 16 + (b mod 16 * 4 + c div 64) div 4 = b"
    by (simp only: sextet_split [OF bc(1)] quad_split [OF bc(2)] div_mult_mod_eq)
  moreover have "(b mod 16 * 4 + c div 64) mod 4 * 64 + c mod 64 = c"
    by (simp only: quad_split [OF bc(2)] div_mult_mod_eq)
  ultimately show ?case using 1 by simp
next
  case (2 a b)
  then have b: "b div 16 < 16" by auto
  have "a div 4 * 4 + (a mod 4 * 16 + b div 16) div 16 = a"
    by (simp only: sextet_split [OF b] div_mult_mod_eq)
  moreover have "(a mod 4 * 16 + b div 16) mod 16 * 16 + b mod 16 * 4 div 4 = b"
    by (simp only: sextet_split [OF b]) simp
  ultimately show ?case by simp
qed simp_all

lemma map_filter_b64: "\<forall>x \<in> set xs. x < 64 \<Longrightarrow> List.map_filter b64_val (map b64_char xs) = xs"
  by (induction xs) (auto simp: List.map_filter_simps b64_val_char)

lemma encoded_sextets:
  "\<forall>x \<in> set (to_sextets (map of_char (bs :: string))). x < 64"
  by (rule to_sextets_bound) simp

lemma base64url_no_special:
  "c \<in> set (bytesToBase64url bs) \<Longrightarrow> c \<noteq> CHR ''='' \<and> c \<noteq> CHR ''.''"
  using encoded_sextets [of bs] b64_char_not_special by (auto simp: bytesToBase64url_def)

lemma base64url_decode_prefix:
  "base64urlToBytes (bytesToBase64url bs @ CHR ''='' # junk) = bs"
proof -
  have "takeWhile (\<lambda>c. c \<noteq> CHR ''='') (bytesToBase64url bs @ CHR ''='' # junk) = bytesToBase64url bs"
    using base64url_no_special [of _ bs] by (simp add: takeWhile_append2)
  moreover have "from_sextets (to_sextets (map of_char bs)) = map of_char bs"
    by (rule from_to_sextets) simp
  ultimately show ?thesis
    using map_filter_b64 [OF encoded_sextets [of bs]]
    by (simp add: base64urlToBytes_def bytesToBase64url_def comp_def)
qed

lemma base64url_stop: "base64urlToBytes (s @ CHR ''='' # junk) = base64urlToBytes s"
proof -
  have "takeWhile (\<lambda>c. c \<noteq> CHR ''='') (s @ CHR ''='' # junk) = takeWhile (\<lambda>c. c \<noteq> CHR ''='') s"
    by (induction s) simp_all
  then show ?thesis by (simp only: base64urlToBytes_def)
qed

theorem base64url_roundtrip: "base64urlToBytes (bytesToBase64url bs) = bs"
  using base64url_stop [of "bytesToBase64url bs" "[]"] base64url_decode_prefix [of bs "[]"] by simp

end
