(* ===== verification/Crypto.thy ===== *)
theory Crypto
  imports Json_Parse Base64url
begin

text \<open>
  packages/crypto: did.ts, hash.ts, sign.ts, keypair.ts and secretbox.ts. The cryptographic
  primitives themselves (\<open>@noble/curves\<close>, \<open>@noble/hashes\<close>, \<open>@noble/ciphers\<close>, multiformats' base58)
  are third-party code: they are the fields of the record \<open>env\<close>, with the Unicode and numeral data
  of the engine. Bytes are chars. \<open>crypto_laws\<close> states what the library relies on: base58 and the
  AEAD invert, and a signature made with a key verifies under its public key.
\<close>

datatype exn =
    InvalidDid | Base58Error | DidTooShort | UnsupportedMulticodec
  | BadKeyLength nat | BadNonceLength nat | BadHex | DecryptError
  | ZodError | CanonError canon_error | TypeError | FetchError | CedarThrow | IoError | UriError

definition lift_canon :: "(canon_error, 'a) result \<Rightarrow> (exn, 'a) result" where
  "lift_canon r = (case r of Inl e \<Rightarrow> Inl (CanonError e) | Inr a \<Rightarrow> Inr a)"

lemma lift_canon_Inr [simp]: "lift_canon r = Inr a \<longleftrightarrow> r = Inr a"
  by (cases r) (simp_all add: lift_canon_def)

record env =
  e_nfc :: "string \<Rightarrow> string"
  e_nd :: "string \<Rightarrow> jsnum"
  noble_sha256 :: "string \<Rightarrow> string"
  noble_bytesToHex :: "string \<Rightarrow> string"
  noble_hexToBytes :: "string \<Rightarrow> string option"
  noble_sign :: "string \<Rightarrow> string \<Rightarrow> string"
  noble_verify :: "string \<Rightarrow> string \<Rightarrow> string \<Rightarrow> bool option"
  noble_getPublicKey :: "string \<Rightarrow> string"
  base58_encode :: "string \<Rightarrow> string"
  base58_decode :: "string \<Rightarrow> string option"
  aead_encrypt :: "string \<Rightarrow> string \<Rightarrow> string option \<Rightarrow> string \<Rightarrow> string"
  aead_decrypt :: "string \<Rightarrow> string \<Rightarrow> string option \<Rightarrow> string \<Rightarrow> string option"

subsection \<open>hash.ts and sign.ts\<close>

definition sha256Hex :: "env \<Rightarrow> string \<Rightarrow> string" where
  "sha256Hex E input = noble_bytesToHex E (noble_sha256 E input)"

definition signDetached :: "env \<Rightarrow> string \<Rightarrow> string \<Rightarrow> (exn, string) result" where
  "signDetached E privateKey payload =
     (if length privateKey \<noteq> 32 then Inl (BadKeyLength (length privateKey))
      else Inr (noble_sign E payload privateKey))"

definition verifyDetached :: "env \<Rightarrow> string \<Rightarrow> string \<Rightarrow> string \<Rightarrow> bool" where
  "verifyDetached E publicKey payload signature =
     (if length publicKey \<noteq> 32 then False
      else if length signature \<noteq> 64 then False
      else case noble_verify E signature payload publicKey of None \<Rightarrow> False | Some b \<Rightarrow> b)"

subsection \<open>did.ts\<close>

definition ED25519_PUB_MULTICODEC :: string where
  "ED25519_PUB_MULTICODEC = [CHR 0xED, CHR 0x01]"

definition base58_char :: "char \<Rightarrow> bool" where
  "base58_char c \<longleftrightarrow> is_alnum c \<and> c \<noteq> CHR ''0'' \<and> c \<noteq> CHR ''I'' \<and> c \<noteq> CHR ''O'' \<and> c \<noteq> CHR ''l''"

definition did_key_regex :: "string \<Rightarrow> bool" where
  "did_key_regex s \<longleftrightarrow>
     startsWith s ''did:key:z'' \<and> drop 9 s \<noteq> [] \<and> (\<forall>c \<in> set (drop 9 s). base58_char c)"

definition didFromPublicKey :: "env \<Rightarrow> string \<Rightarrow> (exn, string) result" where
  "didFromPublicKey E publicKey =
     (if length publicKey \<noteq> 32 then Inl (BadKeyLength (length publicKey))
      else Inr (''did:key:'' @ base58_encode E (ED25519_PUB_MULTICODEC @ publicKey)))"

definition publicKeyFromDid :: "env \<Rightarrow> string \<Rightarrow> (exn, string) result" where
  "publicKeyFromDid E did =
     (if \<not> did_key_regex did then Inl InvalidDid
      else case base58_decode E (drop 8 did) of
          None \<Rightarrow> Inl Base58Error
        | Some decoded \<Rightarrow>
            if length decoded < 3 then Inl DidTooShort
            else if take 2 decoded \<noteq> ED25519_PUB_MULTICODEC then Inl UnsupportedMulticodec
            else let publicKey = drop 2 decoded
                 in if length publicKey \<noteq> 32 then Inl (BadKeyLength (length publicKey)) else Inr publicKey)"

definition canonicalizeDid :: "env \<Rightarrow> string \<Rightarrow> (exn, string) result" where
  "canonicalizeDid E did = rbind (publicKeyFromDid E did) (didFromPublicKey E)"

subsection \<open>keypair.ts\<close>

record keypair =
  kp_did :: string
  kp_privateKey :: string
  kp_publicKey :: string

definition privateKeyToHex :: "env \<Rightarrow> string \<Rightarrow> (exn, string) result" where
  "privateKeyToHex E privateKey =
     (if length privateKey \<noteq> 32 then Inl (BadKeyLength (length privateKey))
      else Inr (noble_bytesToHex E privateKey))"

definition privateKeyFromHex :: "env \<Rightarrow> string \<Rightarrow> (exn, string) result" where
  "privateKeyFromHex E hex =
     (if length hex \<noteq> 64 then Inl (BadKeyLength (length hex))
      else case noble_hexToBytes E hex of None \<Rightarrow> Inl BadHex | Some b \<Rightarrow> Inr b)"

definition keypairFromPrivate :: "env \<Rightarrow> string \<Rightarrow> (exn, keypair) result" where
  "keypairFromPrivate E privateKey =
     (if length privateKey \<noteq> 32 then Inl (BadKeyLength (length privateKey))
      else let publicKey = noble_getPublicKey E privateKey
           in rbind (didFromPublicKey E publicKey)
                (\<lambda>did. Inr \<lparr>kp_did = did, kp_privateKey = privateKey, kp_publicKey = publicKey\<rparr>))"

definition generateKeypair :: "env \<Rightarrow> string \<Rightarrow> (exn, keypair) result" where
  "generateKeypair E privateKey =
     (let publicKey = noble_getPublicKey E privateKey
      in rbind (didFromPublicKey E publicKey)
           (\<lambda>did. Inr \<lparr>kp_did = did, kp_privateKey = privateKey, kp_publicKey = publicKey\<rparr>))"

subsection \<open>secretbox.ts\<close>

definition SECRETBOX_KEY_LEN :: nat where "SECRETBOX_KEY_LEN = 32"
definition SECRETBOX_NONCE_LEN :: nat where "SECRETBOX_NONCE_LEN = 24"

record SecretBoxCiphertext =
  ciphertextHex :: string
  nonceHex :: string

definition loadSecretboxKey :: "env \<Rightarrow> string \<Rightarrow> (exn, string) result" where
  "loadSecretboxKey E hex =
     (if length hex \<noteq> SECRETBOX_KEY_LEN * 2 then Inl (BadKeyLength (length hex))
      else case noble_hexToBytes E hex of None \<Rightarrow> Inl BadHex | Some b \<Rightarrow> Inr b)"

definition sealString ::
  "env \<Rightarrow> string \<Rightarrow> string \<Rightarrow> string \<Rightarrow> string option \<Rightarrow> (exn, SecretBoxCiphertext) result" where
  "sealString E nonce key plaintext aad =
     (if length key \<noteq> SECRETBOX_KEY_LEN then Inl (BadKeyLength (length key))
      else Inr \<lparr>ciphertextHex = noble_bytesToHex E (aead_encrypt E key nonce aad plaintext),
                nonceHex = noble_bytesToHex E nonce\<rparr>)"

definition openString ::
  "env \<Rightarrow> string \<Rightarrow> string \<Rightarrow> string \<Rightarrow> string option \<Rightarrow> (exn, string) result" where
  "openString E key ctHex nHex aad =
     (if length key \<noteq> SECRETBOX_KEY_LEN then Inl (BadKeyLength (length key))
      else case noble_hexToBytes E nHex of
          None \<Rightarrow> Inl BadHex
        | Some nonce \<Rightarrow>
            if length nonce \<noteq> SECRETBOX_NONCE_LEN then Inl (BadNonceLength (length nonce))
            else (case noble_hexToBytes E ctHex of
                None \<Rightarrow> Inl BadHex
              | Some ct \<Rightarrow>
                  (case aead_decrypt E key nonce aad ct of None \<Rightarrow> Inl DecryptError | Some pt \<Rightarrow> Inr pt)))"

subsection \<open>What the primitives promise\<close>

text \<open>The documented behaviour of the third-party primitives. A property that relies on it carries
  \<open>crypto_laws E\<close> as a hypothesis; \<open>Demo_Decide\<close> gives a concrete record that satisfies it.\<close>

definition crypto_laws :: "env \<Rightarrow> bool" where
  "crypto_laws E \<longleftrightarrow>
     (\<forall>b. noble_hexToBytes E (noble_bytesToHex E b) = Some b) \<and>
     (\<forall>b. length (noble_bytesToHex E b) = 2 * length b) \<and>
     (\<forall>b. base58_decode E (base58_encode E b) = Some b) \<and>
     (\<forall>b. \<exists>t. base58_encode E b = CHR ''z'' # t \<and> (\<forall>c \<in> set t. base58_char c) \<and> (b \<noteq> [] \<longrightarrow> t \<noteq> [])) \<and>
     (\<forall>sk. length sk = 32 \<longrightarrow> length (noble_getPublicKey E sk) = 32) \<and>
     (\<forall>sk m. length sk = 32 \<longrightarrow> length (noble_sign E m sk) = 64) \<and>
     (\<forall>sk m. length sk = 32 \<longrightarrow> noble_verify E (noble_sign E m sk) m (noble_getPublicKey E sk) = Some True) \<and>
     (\<forall>k n aad p. length k = 32 \<longrightarrow> length n = 24 \<longrightarrow> aead_decrypt E k n aad (aead_encrypt E k n aad p) = Some p)"

lemma crypto_lawsD:
  assumes "crypto_laws E"
  shows hex_roundtrip: "noble_hexToBytes E (noble_bytesToHex E b) = Some b"
    and hex_length: "length (noble_bytesToHex E b) = 2 * length b"
    and base58_roundtrip: "base58_decode E (base58_encode E b) = Some b"
    and base58_prefix: "\<exists>t. base58_encode E b = CHR ''z'' # t \<and> (\<forall>c \<in> set t. base58_char c) \<and> (b \<noteq> [] \<longrightarrow> t \<noteq> [])"
    and public_key_length: "length sk = 32 \<Longrightarrow> length (noble_getPublicKey E sk) = 32"
    and signature_length: "length sk = 32 \<Longrightarrow> length (noble_sign E m sk) = 64"
    and signature_verifies: "length sk = 32 \<Longrightarrow> noble_verify E (noble_sign E m sk) m (noble_getPublicKey E sk) = Some True"
    and aead_inverts: "length k = 32 \<Longrightarrow> length n = 24 \<Longrightarrow> aead_decrypt E k n aad (aead_encrypt E k n aad p) = Some p"
  using assms by (simp_all only: crypto_laws_def)

lemma verify_own_signature:
  assumes "crypto_laws E" "signDetached E sk m = Inr sig"
  shows "verifyDetached E (noble_getPublicKey E sk) m sig"
  using assms
  by (auto simp: signDetached_def verifyDetached_def public_key_length signature_length signature_verifies
      split: if_splits)

lemma did_roundtrip:
  assumes "crypto_laws E" "length pk = 32" "didFromPublicKey E pk = Inr did"
  shows "publicKeyFromDid E did = Inr pk"
proof -
  let ?b = "ED25519_PUB_MULTICODEC @ pk"
  obtain t where t: "base58_encode E ?b = CHR ''z'' # t" "\<forall>c \<in> set t. base58_char c" "t \<noteq> []"
    using base58_prefix [OF assms(1), of ?b] assms(2) by (auto simp: ED25519_PUB_MULTICODEC_def)
  from assms have did: "did = ''did:key:'' @ CHR ''z'' # t" by (simp add: didFromPublicKey_def t(1))
  then have d8: "drop 8 did = base58_encode E ?b" using t by simp
  have "did_key_regex did" using t did by (simp add: did_key_regex_def)
  then show ?thesis
    using assms(2) d8
    by (simp add: publicKeyFromDid_def base58_roundtrip [OF assms(1)] ED25519_PUB_MULTICODEC_def)
qed

lemma canonicalizeDid_did:
  assumes "crypto_laws E" "canonicalizeDid E did = Inr did'"
  shows "publicKeyFromDid E did' = publicKeyFromDid E did" "canonicalizeDid E did' = Inr did'"
proof -
  from assms obtain pk where pk: "publicKeyFromDid E did = Inr pk" "didFromPublicKey E pk = Inr did'"
    by (auto simp: canonicalizeDid_def rbind_Inr_iff)
  then have "length pk = 32" by (auto simp: didFromPublicKey_def split: if_splits)
  from did_roundtrip [OF assms(1) this pk(2)] pk show "publicKeyFromDid E did' = publicKeyFromDid E did" by simp
  with pk show "canonicalizeDid E did' = Inr did'" by (simp add: canonicalizeDid_def)
qed

lemma keypair_did:
  assumes "crypto_laws E" "keypairFromPrivate E sk = Inr kp"
  shows "publicKeyFromDid E (kp_did kp) = Inr (kp_publicKey kp)"
proof (rule did_roundtrip [OF assms(1)])
  from assms(2) have "length sk = 32" "kp_publicKey kp = noble_getPublicKey E sk"
    by (auto simp: keypairFromPrivate_def Let_def rbind_Inr_iff split: if_splits)
  then show "length (kp_publicKey kp) = 32" by (simp add: public_key_length [OF assms(1)])
  show "didFromPublicKey E (kp_publicKey kp) = Inr (kp_did kp)"
    using assms by (auto simp: keypairFromPrivate_def Let_def rbind_Inr_iff split: if_splits)
qed

lemma private_key_hex_roundtrip:
  "crypto_laws E \<Longrightarrow> privateKeyToHex E sk = Inr h \<Longrightarrow> privateKeyFromHex E h = Inr sk"
  by (auto simp: privateKeyToHex_def privateKeyFromHex_def hex_roundtrip hex_length split: if_splits)

lemma open_sealed:
  assumes "crypto_laws E" "length nonce = SECRETBOX_NONCE_LEN" "sealString E nonce key pt aad = Inr box"
  shows "openString E key (ciphertextHex box) (nonceHex box) aad = Inr pt"
  using assms
  by (auto simp: sealString_def openString_def hex_roundtrip aead_inverts SECRETBOX_KEY_LEN_def
      SECRETBOX_NONCE_LEN_def split: if_splits)

end
