(* ===== verification/Ucan_Types.thy ===== *)
theory Ucan_Types
  imports Crypto
begin

text \<open>
  packages/shared-types/src/ucan.ts and did.ts: the resource constraints a UCAN carries (one record
  per provider, the discriminated union as a datatype), their zod schemas as parsers from JSON
  values, the regular expressions of commands and DIDs, and the UCAN payload with its schema.
\<close>

subsection \<open>Resource constraints\<close>

record FilesystemConstraint =
  fs_path_prefix :: string
  fs_host :: "string option"

record GithubConstraint =
  gh_owner :: string
  gh_repo :: "string option"
  gh_ref :: "string option"
  gh_path_prefix :: "string option"
  gh_issue_number :: "int option"
  gh_pr_number :: "int option"

record SlackConstraint =
  sl_team_id :: "string option"
  sl_channel_id :: "string option"
  sl_user_id :: "string option"
  sl_thread_ts :: "string option"

record StripeConstraint =
  st_account_id :: "string option"
  st_customer_id :: "string option"
  st_payment_intent :: "string option"
  st_charge_id :: "string option"
  st_subscription_id :: "string option"
  st_invoice_id :: "string option"
  st_path_prefix :: "string option"

record LinearConstraint =
  li_workspace_id :: "string option"
  li_team_id :: "string option"
  li_project_id :: "string option"
  li_issue_id :: "string option"

record NotionConstraint =
  no_workspace_id :: "string option"
  no_database_id :: "string option"
  no_page_id :: "string option"
  no_block_id :: "string option"

record GoogleDriveConstraint =
  gd_file_id :: "string option"
  gd_folder_id :: "string option"
  gd_drive_id :: "string option"
  gd_path_prefix :: "string option"

record GoogleGmailConstraint =
  gm_user_id :: "string option"
  gm_message_id :: "string option"
  gm_thread_id :: "string option"
  gm_label_id :: "string option"

record GoogleCalendarConstraint =
  gc_calendar_id :: "string option"
  gc_event_id :: "string option"

record GoogleDocsConstraint =
  gdoc_document_id :: "string option"

record GoogleSheetsConstraint =
  gs_spreadsheet_id :: "string option"
  gs_sheet_id :: "string option"
  gs_range :: "string option"

record GoogleTasksConstraint =
  gt_tasklist_id :: "string option"
  gt_task_id :: "string option"

record GoogleContactsConstraint =
  gcon_resource_name :: "string option"

record SshConstraint =
  ssh_host :: string
  ssh_port :: int
  ssh_username :: "string option"
  ssh_path_prefix :: "string option"

record AzureConstraint =
  az_tenant_id :: "string option"
  az_subscription_id :: "string option"
  az_resource_group :: "string option"
  az_resource_type :: "string option"
  az_name :: "string option"

record AwsConstraint =
  aws_account_id :: "string option"
  aws_region :: "string option"
  aws_service :: "string option"
  aws_arn :: "string option"

record GcpConstraint =
  gcp_project_id :: "string option"
  gcp_location :: "string option"
  gcp_service :: "string option"
  gcp_resource_id :: "string option"

record DiscordConstraint =
  dc_guild_id :: "string option"
  dc_channel_id :: "string option"
  dc_message_id :: "string option"
  dc_role_id :: "string option"
  dc_user_id :: "string option"

datatype ResourceConstraint =
    Filesystem FilesystemConstraint
  | Github GithubConstraint
  | Slack SlackConstraint
  | Stripe StripeConstraint
  | Linear LinearConstraint
  | Notion NotionConstraint
  | GoogleDrive GoogleDriveConstraint
  | GoogleGmail GoogleGmailConstraint
  | GoogleCalendar GoogleCalendarConstraint
  | GoogleDocs GoogleDocsConstraint
  | GoogleSheets GoogleSheetsConstraint
  | GoogleTasks GoogleTasksConstraint
  | GoogleContacts GoogleContactsConstraint
  | Ssh SshConstraint
  | Azure AzureConstraint
  | Aws AwsConstraint
  | Gcp GcpConstraint
  | Discord DiscordConstraint

fun providerOf :: "ResourceConstraint \<Rightarrow> string" where
  "providerOf (Filesystem c) = ''filesystem''"
| "providerOf (Github c) = ''github''"
| "providerOf (Slack c) = ''slack''"
| "providerOf (Stripe c) = ''stripe''"
| "providerOf (Linear c) = ''linear''"
| "providerOf (Notion c) = ''notion''"
| "providerOf (GoogleDrive c) = ''google_drive''"
| "providerOf (GoogleGmail c) = ''google_gmail''"
| "providerOf (GoogleCalendar c) = ''google_calendar''"
| "providerOf (GoogleDocs c) = ''google_docs''"
| "providerOf (GoogleSheets c) = ''google_sheets''"
| "providerOf (GoogleTasks c) = ''google_tasks''"
| "providerOf (GoogleContacts c) = ''google_contacts''"
| "providerOf (Ssh c) = ''ssh''"
| "providerOf (Azure c) = ''azure''"
| "providerOf (Aws c) = ''aws''"
| "providerOf (Gcp c) = ''gcp''"
| "providerOf (Discord c) = ''discord''"

subsection \<open>zod validators\<close>

text \<open>Each validator returns the parsed value or None when zod reports an issue. \<open>z_opt\<close> is
  \<open>.optional()\<close> (undefined passes, null does not), \<open>z_default\<close> is \<open>.default(v)\<close>.\<close>

definition z_string :: "json \<Rightarrow> string option" where
  "z_string v = as_string v"

definition z_match :: "(string \<Rightarrow> bool) \<Rightarrow> json \<Rightarrow> string option" where
  "z_match P v = (case as_string v of Some s \<Rightarrow> if P s then Some s else None | None \<Rightarrow> None)"

definition z_min1 :: "json \<Rightarrow> string option" where
  "z_min1 v = z_match (\<lambda>s. s \<noteq> []) v"

definition z_int :: "(int \<Rightarrow> bool) \<Rightarrow> json \<Rightarrow> int option" where
  "z_int P v = (case v of JNum (JInt i) \<Rightarrow> if P i then Some i else None | _ \<Rightarrow> None)"

definition z_positive :: "json \<Rightarrow> int option" where
  "z_positive v = z_int (\<lambda>i. 0 < i) v"

definition z_nonnegative :: "json \<Rightarrow> int option" where
  "z_nonnegative v = z_int (\<lambda>i. 0 \<le> i) v"

definition z_opt :: "(json \<Rightarrow> 'a option) \<Rightarrow> json \<Rightarrow> 'a option option" where
  "z_opt p v = (if v = JUndef then Some None else map_option Some (p v))"

definition z_default :: "'a \<Rightarrow> (json \<Rightarrow> 'a option) \<Rightarrow> json \<Rightarrow> 'a option" where
  "z_default d p v = (if v = JUndef then Some d else p v)"

fun z_list :: "(json \<Rightarrow> 'a option) \<Rightarrow> json list \<Rightarrow> 'a list option" where
  "z_list p [] = Some []"
| "z_list p (v # vs) = Option.bind (p v) (\<lambda>a. map_option ((#) a) (z_list p vs))"

definition z_array :: "(json \<Rightarrow> 'a option) \<Rightarrow> json \<Rightarrow> 'a list option" where
  "z_array p v = (case v of JArr vs \<Rightarrow> z_list p vs | _ \<Rightarrow> None)"

definition z_record :: "json \<Rightarrow> obj option" where
  "z_record v = as_obj v"

subsection \<open>Regular expressions of the schemas\<close>

definition slack_channel_regex :: "string \<Rightarrow> bool" where
  "slack_channel_regex s = (case s of [] \<Rightarrow> False
     | c # r \<Rightarrow> c \<in> set ''CDG'' \<and> r \<noteq> [] \<and> (\<forall>x \<in> set r. is_upper x \<or> is_digit x))"

definition slack_user_regex :: "string \<Rightarrow> bool" where
  "slack_user_regex s = (case s of [] \<Rightarrow> False
     | c # r \<Rightarrow> c \<in> set ''UW'' \<and> r \<noteq> [] \<and> (\<forall>x \<in> set r. is_upper x \<or> is_digit x))"

definition slack_ts_regex :: "string \<Rightarrow> bool" where
  "slack_ts_regex s =
     (case split_on (CHR ''.'') s of
        [a, b] \<Rightarrow> a \<noteq> [] \<and> b \<noteq> [] \<and> (\<forall>x \<in> set (a @ b). is_digit x)
      | _ \<Rightarrow> False)"

definition prefixed_id :: "string \<Rightarrow> string \<Rightarrow> bool" where
  "prefixed_id p s \<longleftrightarrow> startsWith s p \<and> drop (length p) s \<noteq> [] \<and> (\<forall>x \<in> set (drop (length p) s). is_alnum x)"

definition command_char :: "char \<Rightarrow> bool" where
  "command_char c \<longleftrightarrow> is_lower c \<or> is_digit c \<or> c = CHR ''_'' \<or> c = CHR ''-''"

definition COMMAND_REGEX :: "string \<Rightarrow> bool" where
  "COMMAND_REGEX s =
     (case s of
        [] \<Rightarrow> False
      | c # r \<Rightarrow> c = CHR ''/'' \<and> (\<forall>w \<in> set (split_on (CHR ''/'') r). w \<noteq> [] \<and> (\<forall>x \<in> set w. command_char x)))"

definition did_method_char :: "char \<Rightarrow> bool" where
  "did_method_char c \<longleftrightarrow> is_lower c \<or> is_digit c"

definition did_id_char :: "char \<Rightarrow> bool" where
  "did_id_char c \<longleftrightarrow> is_alnum c \<or> c \<in> set ''._:-''"

definition DID_REGEX :: "string \<Rightarrow> bool" where
  "DID_REGEX s \<longleftrightarrow>
     startsWith s ''did:'' \<and>
     takeWhile did_method_char (drop 4 s) \<noteq> [] \<and>
     (case dropWhile did_method_char (drop 4 s) of
        [] \<Rightarrow> False
      | c # r \<Rightarrow> c = CHR '':'' \<and> r \<noteq> [] \<and> (\<forall>x \<in> set r. did_id_char x))"

subsection \<open>Parsing the constraints\<close>

definition parseFilesystemConstraint :: "obj \<Rightarrow> FilesystemConstraint option" where
  "parseFilesystemConstraint ob =
     Option.bind (z_min1 (jget ob ''path_prefix'')) (\<lambda>x0.
     Option.bind (z_opt z_string (jget ob ''host'')) (\<lambda>x1.
       Some \<lparr>fs_path_prefix = x0, fs_host = x1\<rparr>))"

definition parseGithubConstraint :: "obj \<Rightarrow> GithubConstraint option" where
  "parseGithubConstraint ob =
     Option.bind (z_min1 (jget ob ''owner'')) (\<lambda>x0.
     Option.bind (z_opt z_min1 (jget ob ''repo'')) (\<lambda>x1.
     Option.bind (z_opt z_min1 (jget ob ''ref'')) (\<lambda>x2.
     Option.bind (z_opt z_min1 (jget ob ''path_prefix'')) (\<lambda>x3.
     Option.bind (z_opt z_positive (jget ob ''issue_number'')) (\<lambda>x4.
     Option.bind (z_opt z_positive (jget ob ''pr_number'')) (\<lambda>x5.
       Some \<lparr>gh_owner = x0, gh_repo = x1, gh_ref = x2, gh_path_prefix = x3, gh_issue_number = x4, gh_pr_number = x5\<rparr>))))))"

definition parseSlackConstraint :: "obj \<Rightarrow> SlackConstraint option" where
  "parseSlackConstraint ob =
     Option.bind (z_opt z_min1 (jget ob ''team_id'')) (\<lambda>x0.
     Option.bind (z_opt (z_match slack_channel_regex) (jget ob ''channel_id'')) (\<lambda>x1.
     Option.bind (z_opt (z_match slack_user_regex) (jget ob ''user_id'')) (\<lambda>x2.
     Option.bind (z_opt (z_match slack_ts_regex) (jget ob ''thread_ts'')) (\<lambda>x3.
       Some \<lparr>sl_team_id = x0, sl_channel_id = x1, sl_user_id = x2, sl_thread_ts = x3\<rparr>))))"

definition parseStripeConstraint :: "obj \<Rightarrow> StripeConstraint option" where
  "parseStripeConstraint ob =
     Option.bind (z_opt (z_match (prefixed_id ''acct_'')) (jget ob ''account_id'')) (\<lambda>x0.
     Option.bind (z_opt (z_match (prefixed_id ''cus_'')) (jget ob ''customer_id'')) (\<lambda>x1.
     Option.bind (z_opt (z_match (prefixed_id ''pi_'')) (jget ob ''payment_intent'')) (\<lambda>x2.
     Option.bind (z_opt (z_match (prefixed_id ''ch_'')) (jget ob ''charge_id'')) (\<lambda>x3.
     Option.bind (z_opt (z_match (prefixed_id ''sub_'')) (jget ob ''subscription_id'')) (\<lambda>x4.
     Option.bind (z_opt (z_match (prefixed_id ''in_'')) (jget ob ''invoice_id'')) (\<lambda>x5.
     Option.bind (z_opt z_min1 (jget ob ''path_prefix'')) (\<lambda>x6.
       Some \<lparr>st_account_id = x0, st_customer_id = x1, st_payment_intent = x2, st_charge_id = x3, st_subscription_id = x4, st_invoice_id = x5, st_path_prefix = x6\<rparr>)))))))"

definition parseLinearConstraint :: "obj \<Rightarrow> LinearConstraint option" where
  "parseLinearConstraint ob =
     Option.bind (z_opt z_min1 (jget ob ''workspace_id'')) (\<lambda>x0.
     Option.bind (z_opt z_min1 (jget ob ''team_id'')) (\<lambda>x1.
     Option.bind (z_opt z_min1 (jget ob ''project_id'')) (\<lambda>x2.
     Option.bind (z_opt z_min1 (jget ob ''issue_id'')) (\<lambda>x3.
       Some \<lparr>li_workspace_id = x0, li_team_id = x1, li_project_id = x2, li_issue_id = x3\<rparr>))))"

definition parseNotionConstraint :: "obj \<Rightarrow> NotionConstraint option" where
  "parseNotionConstraint ob =
     Option.bind (z_opt z_min1 (jget ob ''workspace_id'')) (\<lambda>x0.
     Option.bind (z_opt z_min1 (jget ob ''database_id'')) (\<lambda>x1.
     Option.bind (z_opt z_min1 (jget ob ''page_id'')) (\<lambda>x2.
     Option.bind (z_opt z_min1 (jget ob ''block_id'')) (\<lambda>x3.
       Some \<lparr>no_workspace_id = x0, no_database_id = x1, no_page_id = x2, no_block_id = x3\<rparr>))))"

definition parseGoogleDriveConstraint :: "obj \<Rightarrow> GoogleDriveConstraint option" where
  "parseGoogleDriveConstraint ob =
     Option.bind (z_opt z_min1 (jget ob ''file_id'')) (\<lambda>x0.
     Option.bind (z_opt z_min1 (jget ob ''folder_id'')) (\<lambda>x1.
     Option.bind (z_opt z_min1 (jget ob ''drive_id'')) (\<lambda>x2.
     Option.bind (z_opt z_min1 (jget ob ''path_prefix'')) (\<lambda>x3.
       Some \<lparr>gd_file_id = x0, gd_folder_id = x1, gd_drive_id = x2, gd_path_prefix = x3\<rparr>))))"

definition parseGoogleGmailConstraint :: "obj \<Rightarrow> GoogleGmailConstraint option" where
  "parseGoogleGmailConstraint ob =
     Option.bind (z_opt z_min1 (jget ob ''user_id'')) (\<lambda>x0.
     Option.bind (z_opt z_min1 (jget ob ''message_id'')) (\<lambda>x1.
     Option.bind (z_opt z_min1 (jget ob ''thread_id'')) (\<lambda>x2.
     Option.bind (z_opt z_min1 (jget ob ''label_id'')) (\<lambda>x3.
       Some \<lparr>gm_user_id = x0, gm_message_id = x1, gm_thread_id = x2, gm_label_id = x3\<rparr>))))"

definition parseGoogleCalendarConstraint :: "obj \<Rightarrow> GoogleCalendarConstraint option" where
  "parseGoogleCalendarConstraint ob =
     Option.bind (z_opt z_min1 (jget ob ''calendar_id'')) (\<lambda>x0.
     Option.bind (z_opt z_min1 (jget ob ''event_id'')) (\<lambda>x1.
       Some \<lparr>gc_calendar_id = x0, gc_event_id = x1\<rparr>))"

definition parseGoogleDocsConstraint :: "obj \<Rightarrow> GoogleDocsConstraint option" where
  "parseGoogleDocsConstraint ob =
     Option.bind (z_opt z_min1 (jget ob ''document_id'')) (\<lambda>x0.
       Some \<lparr>gdoc_document_id = x0\<rparr>)"

definition parseGoogleSheetsConstraint :: "obj \<Rightarrow> GoogleSheetsConstraint option" where
  "parseGoogleSheetsConstraint ob =
     Option.bind (z_opt z_min1 (jget ob ''spreadsheet_id'')) (\<lambda>x0.
     Option.bind (z_opt z_min1 (jget ob ''sheet_id'')) (\<lambda>x1.
     Option.bind (z_opt z_min1 (jget ob ''range'')) (\<lambda>x2.
       Some \<lparr>gs_spreadsheet_id = x0, gs_sheet_id = x1, gs_range = x2\<rparr>)))"

definition parseGoogleTasksConstraint :: "obj \<Rightarrow> GoogleTasksConstraint option" where
  "parseGoogleTasksConstraint ob =
     Option.bind (z_opt z_min1 (jget ob ''tasklist_id'')) (\<lambda>x0.
     Option.bind (z_opt z_min1 (jget ob ''task_id'')) (\<lambda>x1.
       Some \<lparr>gt_tasklist_id = x0, gt_task_id = x1\<rparr>))"

definition parseGoogleContactsConstraint :: "obj \<Rightarrow> GoogleContactsConstraint option" where
  "parseGoogleContactsConstraint ob =
     Option.bind (z_opt z_min1 (jget ob ''resource_name'')) (\<lambda>x0.
       Some \<lparr>gcon_resource_name = x0\<rparr>)"

definition parseSshConstraint :: "obj \<Rightarrow> SshConstraint option" where
  "parseSshConstraint ob =
     Option.bind (z_min1 (jget ob ''host'')) (\<lambda>x0.
     Option.bind (z_default 22 z_positive (jget ob ''port'')) (\<lambda>x1.
     Option.bind (z_opt z_min1 (jget ob ''username'')) (\<lambda>x2.
     Option.bind (z_opt z_min1 (jget ob ''path_prefix'')) (\<lambda>x3.
       Some \<lparr>ssh_host = x0, ssh_port = x1, ssh_username = x2, ssh_path_prefix = x3\<rparr>))))"

definition parseAzureConstraint :: "obj \<Rightarrow> AzureConstraint option" where
  "parseAzureConstraint ob =
     Option.bind (z_opt z_min1 (jget ob ''tenant_id'')) (\<lambda>x0.
     Option.bind (z_opt z_min1 (jget ob ''subscription_id'')) (\<lambda>x1.
     Option.bind (z_opt z_min1 (jget ob ''resource_group'')) (\<lambda>x2.
     Option.bind (z_opt z_min1 (jget ob ''resource_type'')) (\<lambda>x3.
     Option.bind (z_opt z_min1 (jget ob ''name'')) (\<lambda>x4.
       Some \<lparr>az_tenant_id = x0, az_subscription_id = x1, az_resource_group = x2, az_resource_type = x3, az_name = x4\<rparr>)))))"

definition parseAwsConstraint :: "obj \<Rightarrow> AwsConstraint option" where
  "parseAwsConstraint ob =
     Option.bind (z_opt z_min1 (jget ob ''account_id'')) (\<lambda>x0.
     Option.bind (z_opt z_min1 (jget ob ''region'')) (\<lambda>x1.
     Option.bind (z_opt z_min1 (jget ob ''service'')) (\<lambda>x2.
     Option.bind (z_opt z_min1 (jget ob ''arn'')) (\<lambda>x3.
       Some \<lparr>aws_account_id = x0, aws_region = x1, aws_service = x2, aws_arn = x3\<rparr>))))"

definition parseGcpConstraint :: "obj \<Rightarrow> GcpConstraint option" where
  "parseGcpConstraint ob =
     Option.bind (z_opt z_min1 (jget ob ''project_id'')) (\<lambda>x0.
     Option.bind (z_opt z_min1 (jget ob ''location'')) (\<lambda>x1.
     Option.bind (z_opt z_min1 (jget ob ''service'')) (\<lambda>x2.
     Option.bind (z_opt z_min1 (jget ob ''resource_id'')) (\<lambda>x3.
       Some \<lparr>gcp_project_id = x0, gcp_location = x1, gcp_service = x2, gcp_resource_id = x3\<rparr>))))"

definition parseDiscordConstraint :: "obj \<Rightarrow> DiscordConstraint option" where
  "parseDiscordConstraint ob =
     Option.bind (z_opt z_min1 (jget ob ''guild_id'')) (\<lambda>x0.
     Option.bind (z_opt z_min1 (jget ob ''channel_id'')) (\<lambda>x1.
     Option.bind (z_opt z_min1 (jget ob ''message_id'')) (\<lambda>x2.
     Option.bind (z_opt z_min1 (jget ob ''role_id'')) (\<lambda>x3.
     Option.bind (z_opt z_min1 (jget ob ''user_id'')) (\<lambda>x4.
       Some \<lparr>dc_guild_id = x0, dc_channel_id = x1, dc_message_id = x2, dc_role_id = x3, dc_user_id = x4\<rparr>)))))"

definition parseResourceConstraint :: "json \<Rightarrow> ResourceConstraint option" where
  "parseResourceConstraint v =
     (case v of
        JObj ob \<Rightarrow>
          (case jget ob ''provider'' of
             JStr p \<Rightarrow>
             if p = ''filesystem'' then map_option Filesystem (parseFilesystemConstraint ob)
             else if p = ''github'' then map_option Github (parseGithubConstraint ob)
             else if p = ''slack'' then map_option Slack (parseSlackConstraint ob)
             else if p = ''stripe'' then map_option Stripe (parseStripeConstraint ob)
             else if p = ''linear'' then map_option Linear (parseLinearConstraint ob)
             else if p = ''notion'' then map_option Notion (parseNotionConstraint ob)
             else if p = ''google_drive'' then map_option GoogleDrive (parseGoogleDriveConstraint ob)
             else if p = ''google_gmail'' then map_option GoogleGmail (parseGoogleGmailConstraint ob)
             else if p = ''google_calendar'' then map_option GoogleCalendar (parseGoogleCalendarConstraint ob)
             else if p = ''google_docs'' then map_option GoogleDocs (parseGoogleDocsConstraint ob)
             else if p = ''google_sheets'' then map_option GoogleSheets (parseGoogleSheetsConstraint ob)
             else if p = ''google_tasks'' then map_option GoogleTasks (parseGoogleTasksConstraint ob)
             else if p = ''google_contacts'' then map_option GoogleContacts (parseGoogleContactsConstraint ob)
             else if p = ''ssh'' then map_option Ssh (parseSshConstraint ob)
             else if p = ''azure'' then map_option Azure (parseAzureConstraint ob)
             else if p = ''aws'' then map_option Aws (parseAwsConstraint ob)
             else if p = ''gcp'' then map_option Gcp (parseGcpConstraint ob)
             else if p = ''discord'' then map_option Discord (parseDiscordConstraint ob)
             else None
           | _ \<Rightarrow> None)
      | _ \<Rightarrow> None)"

subsection \<open>Constraints as JSON objects\<close>

definition opt_str :: "string \<Rightarrow> string option \<Rightarrow> obj" where
  "opt_str k v = (case v of None \<Rightarrow> [] | Some s \<Rightarrow> [(k, JStr s)])"

definition opt_int :: "string \<Rightarrow> int option \<Rightarrow> obj" where
  "opt_int k v = (case v of None \<Rightarrow> [] | Some i \<Rightarrow> [(k, JNum (JInt i))])"

definition opt_json :: "string \<Rightarrow> json option \<Rightarrow> obj" where
  "opt_json k v = (case v of None \<Rightarrow> [] | Some j \<Rightarrow> [(k, j)])"

fun constraintObj :: "ResourceConstraint \<Rightarrow> obj" where
  "constraintObj (Filesystem c) =
     [(''provider'', JStr ''filesystem'')] @ [(''path_prefix'', JStr (fs_path_prefix c))] @ opt_str ''host'' (fs_host c)"
| "constraintObj (Github c) =
     [(''provider'', JStr ''github'')] @ [(''owner'', JStr (gh_owner c))] @ opt_str ''repo'' (gh_repo c) @ opt_str ''ref'' (gh_ref c) @ opt_str ''path_prefix'' (gh_path_prefix c) @ opt_int ''issue_number'' (gh_issue_number c) @ opt_int ''pr_number'' (gh_pr_number c)"
| "constraintObj (Slack c) =
     [(''provider'', JStr ''slack'')] @ opt_str ''team_id'' (sl_team_id c) @ opt_str ''channel_id'' (sl_channel_id c) @ opt_str ''user_id'' (sl_user_id c) @ opt_str ''thread_ts'' (sl_thread_ts c)"
| "constraintObj (Stripe c) =
     [(''provider'', JStr ''stripe'')] @ opt_str ''account_id'' (st_account_id c) @ opt_str ''customer_id'' (st_customer_id c) @ opt_str ''payment_intent'' (st_payment_intent c) @ opt_str ''charge_id'' (st_charge_id c) @ opt_str ''subscription_id'' (st_subscription_id c) @ opt_str ''invoice_id'' (st_invoice_id c) @ opt_str ''path_prefix'' (st_path_prefix c)"
| "constraintObj (Linear c) =
     [(''provider'', JStr ''linear'')] @ opt_str ''workspace_id'' (li_workspace_id c) @ opt_str ''team_id'' (li_team_id c) @ opt_str ''project_id'' (li_project_id c) @ opt_str ''issue_id'' (li_issue_id c)"
| "constraintObj (Notion c) =
     [(''provider'', JStr ''notion'')] @ opt_str ''workspace_id'' (no_workspace_id c) @ opt_str ''database_id'' (no_database_id c) @ opt_str ''page_id'' (no_page_id c) @ opt_str ''block_id'' (no_block_id c)"
| "constraintObj (GoogleDrive c) =
     [(''provider'', JStr ''google_drive'')] @ opt_str ''file_id'' (gd_file_id c) @ opt_str ''folder_id'' (gd_folder_id c) @ opt_str ''drive_id'' (gd_drive_id c) @ opt_str ''path_prefix'' (gd_path_prefix c)"
| "constraintObj (GoogleGmail c) =
     [(''provider'', JStr ''google_gmail'')] @ opt_str ''user_id'' (gm_user_id c) @ opt_str ''message_id'' (gm_message_id c) @ opt_str ''thread_id'' (gm_thread_id c) @ opt_str ''label_id'' (gm_label_id c)"
| "constraintObj (GoogleCalendar c) =
     [(''provider'', JStr ''google_calendar'')] @ opt_str ''calendar_id'' (gc_calendar_id c) @ opt_str ''event_id'' (gc_event_id c)"
| "constraintObj (GoogleDocs c) =
     [(''provider'', JStr ''google_docs'')] @ opt_str ''document_id'' (gdoc_document_id c)"
| "constraintObj (GoogleSheets c) =
     [(''provider'', JStr ''google_sheets'')] @ opt_str ''spreadsheet_id'' (gs_spreadsheet_id c) @ opt_str ''sheet_id'' (gs_sheet_id c) @ opt_str ''range'' (gs_range c)"
| "constraintObj (GoogleTasks c) =
     [(''provider'', JStr ''google_tasks'')] @ opt_str ''tasklist_id'' (gt_tasklist_id c) @ opt_str ''task_id'' (gt_task_id c)"
| "constraintObj (GoogleContacts c) =
     [(''provider'', JStr ''google_contacts'')] @ opt_str ''resource_name'' (gcon_resource_name c)"
| "constraintObj (Ssh c) =
     [(''provider'', JStr ''ssh'')] @ [(''host'', JStr (ssh_host c))] @ [(''port'', JNum (JInt (ssh_port c)))] @ opt_str ''username'' (ssh_username c) @ opt_str ''path_prefix'' (ssh_path_prefix c)"
| "constraintObj (Azure c) =
     [(''provider'', JStr ''azure'')] @ opt_str ''tenant_id'' (az_tenant_id c) @ opt_str ''subscription_id'' (az_subscription_id c) @ opt_str ''resource_group'' (az_resource_group c) @ opt_str ''resource_type'' (az_resource_type c) @ opt_str ''name'' (az_name c)"
| "constraintObj (Aws c) =
     [(''provider'', JStr ''aws'')] @ opt_str ''account_id'' (aws_account_id c) @ opt_str ''region'' (aws_region c) @ opt_str ''service'' (aws_service c) @ opt_str ''arn'' (aws_arn c)"
| "constraintObj (Gcp c) =
     [(''provider'', JStr ''gcp'')] @ opt_str ''project_id'' (gcp_project_id c) @ opt_str ''location'' (gcp_location c) @ opt_str ''service'' (gcp_service c) @ opt_str ''resource_id'' (gcp_resource_id c)"
| "constraintObj (Discord c) =
     [(''provider'', JStr ''discord'')] @ opt_str ''guild_id'' (dc_guild_id c) @ opt_str ''channel_id'' (dc_channel_id c) @ opt_str ''message_id'' (dc_message_id c) @ opt_str ''role_id'' (dc_role_id c) @ opt_str ''user_id'' (dc_user_id c)"

subsection \<open>The UCAN payload\<close>

record UcanPayload =
  p_iss :: string
  p_aud :: string
  p_cmd :: string
  p_sub :: "string option"
  p_pol :: "(string \<times> string \<times> json) list"
  p_nonce :: string
  p_meta :: "obj option"
  p_nbf :: int
  p_exp :: int
  p_prf :: "string list option"

definition parsePredicate :: "json \<Rightarrow> (string \<times> string \<times> json) option" where
  "parsePredicate v =
     (case v of JArr [JStr a, JStr b, c] \<Rightarrow> Some (a, b, c) | _ \<Rightarrow> None)"

definition parsePayload :: "json \<Rightarrow> UcanPayload option" where
  "parsePayload v =
     Option.bind (as_obj v) (\<lambda>ob.
     Option.bind (z_match DID_REGEX (jget ob ''iss'')) (\<lambda>iss.
     Option.bind (z_match DID_REGEX (jget ob ''aud'')) (\<lambda>aud.
     Option.bind (z_match COMMAND_REGEX (jget ob ''cmd'')) (\<lambda>cmd.
     Option.bind (z_opt z_string (jget ob ''sub'')) (\<lambda>sub.
     Option.bind (z_array parsePredicate (jget ob ''pol'')) (\<lambda>pol.
     Option.bind (z_min1 (jget ob ''nonce'')) (\<lambda>nonce.
     Option.bind (z_opt z_record (jget ob ''meta'')) (\<lambda>meta.
     Option.bind (z_nonnegative (jget ob ''nbf'')) (\<lambda>nbf.
     Option.bind (z_positive (jget ob ''exp'')) (\<lambda>exp.
     Option.bind (z_opt (z_array z_string) (jget ob ''prf'')) (\<lambda>prf.
       if nbf < exp
       then Some \<lparr>p_iss = iss, p_aud = aud, p_cmd = cmd, p_sub = sub, p_pol = pol, p_nonce = nonce,
                  p_meta = meta, p_nbf = nbf, p_exp = exp, p_prf = prf\<rparr>
       else None)))))))))))"

definition payloadObj :: "UcanPayload \<Rightarrow> obj" where
  "payloadObj p =
     [(''iss'', JStr (p_iss p)), (''aud'', JStr (p_aud p)), (''cmd'', JStr (p_cmd p))]
     @ opt_str ''sub'' (p_sub p)
     @ [(''pol'', JArr (map (\<lambda>(a, b, c). JArr [JStr a, JStr b, c]) (p_pol p))), (''nonce'', JStr (p_nonce p))]
     @ opt_json ''meta'' (map_option JObj (p_meta p))
     @ [(''nbf'', JNum (JInt (p_nbf p))), (''exp'', JNum (JInt (p_exp p)))]
     @ opt_json ''prf'' (map_option (\<lambda>ss. JArr (map JStr ss)) (p_prf p))"

definition wf_payload :: "UcanPayload \<Rightarrow> bool" where
  "wf_payload p \<longleftrightarrow>
     DID_REGEX (p_iss p) \<and> DID_REGEX (p_aud p) \<and> COMMAND_REGEX (p_cmd p) \<and> p_nonce p \<noteq> [] \<and>
     0 \<le> p_nbf p \<and> 0 < p_exp p \<and> p_nbf p < p_exp p"

lemma as_string_iff: "as_string v = Some s \<longleftrightarrow> v = JStr s"
  by (cases v) auto

lemma z_match_iff: "z_match P v = Some s \<longleftrightarrow> v = JStr s \<and> P s"
  by (cases v) (auto simp: z_match_def)

lemma z_min1_iff: "z_min1 v = Some s \<longleftrightarrow> v = JStr s \<and> s \<noteq> []"
  by (simp add: z_min1_def z_match_iff)

lemma z_int_iff: "z_int P v = Some i \<longleftrightarrow> v = JNum (JInt i) \<and> P i"
  by (cases v) (auto simp: z_int_def split: jsnum.splits)

lemma z_positive_iff: "z_positive v = Some i \<longleftrightarrow> v = JNum (JInt i) \<and> 0 < i"
  by (simp add: z_positive_def z_int_iff)

lemma z_nonnegative_iff: "z_nonnegative v = Some i \<longleftrightarrow> v = JNum (JInt i) \<and> 0 \<le> i"
  by (simp add: z_nonnegative_def z_int_iff)

lemma z_opt_Some_iff: "z_opt p v = Some (Some a) \<longleftrightarrow> v \<noteq> JUndef \<and> p v = Some a"
  by (auto simp: z_opt_def)

lemma z_opt_None_iff: "z_opt p v = Some None \<longleftrightarrow> v = JUndef"
  by (auto simp: z_opt_def)

lemmas zod_iff = as_string_iff z_match_iff z_min1_iff z_int_iff z_positive_iff z_nonnegative_iff
  z_opt_Some_iff z_opt_None_iff

lemma parsePayload_wf:
  assumes "parsePayload v = Some p" shows "wf_payload p"
proof -
  from assms obtain ob where "v = JObj ob"
    and "jget ob ''iss'' = JStr (p_iss p)" "DID_REGEX (p_iss p)"
    and "jget ob ''aud'' = JStr (p_aud p)" "DID_REGEX (p_aud p)"
    and "jget ob ''cmd'' = JStr (p_cmd p)" "COMMAND_REGEX (p_cmd p)"
    and "p_nonce p \<noteq> []" "0 \<le> p_nbf p" "0 < p_exp p" "p_nbf p < p_exp p"
    unfolding parsePayload_def bind_eq_Some_conv zod_iff by (cases v) (auto split: if_splits)
  then show ?thesis by (simp add: wf_payload_def)
qed

end
