(* ===== verification/Constraint.thy ===== *)
theory Constraint
  imports Ucan_Types
begin

text \<open>
  packages/ucan/src/constraint.ts: reading the resource constraint of a UCAN, the subset check used
  along a delegation chain (\<open>constraintCovers\<close>) and the gate on a request's resource
  (\<open>constraintMatchesResource\<close>). The locale \<open>attenuation\<close> states what the chain validator needs of
  each of its per-link checks; the checks on commands and times are interpreted in \<open>Ucan\<close>, the
  check on constraints here. \<open>covers_sound\<close> is the agreement of the two routines: a resource that a
  narrower constraint admits is admitted by every constraint covering it.
\<close>

definition extractResourceConstraint :: "obj option \<Rightarrow> (exn, ResourceConstraint option) result" where
  "extractResourceConstraint m =
     (case m of
        None \<Rightarrow> Inr None
      | Some ob \<Rightarrow>
          (let raw = jget ob ''resource_constraint''
           in if raw = JUndef \<or> raw = JNull then Inr None
              else case parseResourceConstraint raw of None \<Rightarrow> Inl ZodError | Some c \<Rightarrow> Inr (Some c)))"

definition field_covers :: "'a option \<Rightarrow> 'a option \<Rightarrow> bool" where
  "field_covers p c \<longleftrightarrow> p = None \<or> c = p"

definition prefix_covers :: "string option \<Rightarrow> string option \<Rightarrow> bool" where
  "prefix_covers p c =
     (case p of None \<Rightarrow> True
      | Some pp \<Rightarrow> (case c of None \<Rightarrow> False | Some cp \<Rightarrow> startsWith cp pp))"

definition coversFilesystem :: "FilesystemConstraint \<Rightarrow> FilesystemConstraint \<Rightarrow> bool" where
  "coversFilesystem p c =
     (if str_truthy (fs_host p) \<and> str_truthy (fs_host c) \<and> fs_host p \<noteq> fs_host c then False
      else if str_truthy (fs_host p) \<and> \<not> str_truthy (fs_host c) then False
      else startsWith (fs_path_prefix c) (fs_path_prefix p))"

definition coversGithub :: "GithubConstraint \<Rightarrow> GithubConstraint \<Rightarrow> bool" where
  "coversGithub p c \<longleftrightarrow>
     gh_owner p = gh_owner c \<and> field_covers (gh_repo p) (gh_repo c) \<and> field_covers (gh_ref p) (gh_ref c) \<and>
     prefix_covers (gh_path_prefix p) (gh_path_prefix c) \<and>
     field_covers (gh_issue_number p) (gh_issue_number c) \<and>
     field_covers (gh_pr_number p) (gh_pr_number c)"

definition coversAzure :: "AzureConstraint \<Rightarrow> AzureConstraint \<Rightarrow> bool" where
  "coversAzure p c \<longleftrightarrow>
     field_covers (az_tenant_id p) (az_tenant_id c) \<and>
     field_covers (az_subscription_id p) (az_subscription_id c) \<and>
     field_covers (az_resource_group p) (az_resource_group c) \<and>
     field_covers (az_resource_type p) (az_resource_type c) \<and>
     field_covers (az_name p) (az_name c)"

definition coversAws :: "AwsConstraint \<Rightarrow> AwsConstraint \<Rightarrow> bool" where
  "coversAws p c \<longleftrightarrow>
     field_covers (aws_account_id p) (aws_account_id c) \<and> field_covers (aws_region p) (aws_region c) \<and>
     field_covers (aws_service p) (aws_service c) \<and> field_covers (aws_arn p) (aws_arn c)"

definition coversGcp :: "GcpConstraint \<Rightarrow> GcpConstraint \<Rightarrow> bool" where
  "coversGcp p c \<longleftrightarrow>
     field_covers (gcp_project_id p) (gcp_project_id c) \<and> field_covers (gcp_location p) (gcp_location c) \<and>
     field_covers (gcp_service p) (gcp_service c) \<and> field_covers (gcp_resource_id p) (gcp_resource_id c)"

definition constraintCovers :: "ResourceConstraint \<Rightarrow> ResourceConstraint \<Rightarrow> bool" where
  "constraintCovers parent child =
     (case parent of
        Filesystem p \<Rightarrow> (case child of Filesystem c \<Rightarrow> coversFilesystem p c | _ \<Rightarrow> False)
      | Github p \<Rightarrow> (case child of Github c \<Rightarrow> coversGithub p c | _ \<Rightarrow> False)
      | Azure p \<Rightarrow> (case child of Azure c \<Rightarrow> coversAzure p c | _ \<Rightarrow> False)
      | Aws p \<Rightarrow> (case child of Aws c \<Rightarrow> coversAws p c | _ \<Rightarrow> False)
      | Gcp p \<Rightarrow> (case child of Gcp c \<Rightarrow> coversGcp p c | _ \<Rightarrow> False)
      | _ \<Rightarrow> False)"

definition str_matches :: "string option \<Rightarrow> obj \<Rightarrow> string \<Rightarrow> bool" where
  "str_matches c resource k = (case c of None \<Rightarrow> True | Some s \<Rightarrow> jget resource k = JStr s)"

definition int_matches :: "int option \<Rightarrow> obj \<Rightarrow> string \<Rightarrow> bool" where
  "int_matches c resource k = (case c of None \<Rightarrow> True | Some i \<Rightarrow> jget resource k = JNum (JInt i))"

definition path_matches :: "string \<Rightarrow> obj \<Rightarrow> bool" where
  "path_matches p resource = (case jget resource ''path'' of JStr s \<Rightarrow> startsWith s p | _ \<Rightarrow> False)"

fun constraintMatchesResource :: "ResourceConstraint \<Rightarrow> obj \<Rightarrow> bool" where
  "constraintMatchesResource (Filesystem c) resource =
     ((str_truthy (fs_host c) \<longrightarrow> str_matches (fs_host c) resource ''host'') \<and>
      path_matches (fs_path_prefix c) resource)"
| "constraintMatchesResource (Github c) resource =
     (jget resource ''owner'' = JStr (gh_owner c) \<and>
      str_matches (gh_repo c) resource ''repo'' \<and> str_matches (gh_ref c) resource ''ref'' \<and>
      int_matches (gh_issue_number c) resource ''issue_number'' \<and>
      int_matches (gh_pr_number c) resource ''pr_number'' \<and>
      (case gh_path_prefix c of None \<Rightarrow> True | Some p \<Rightarrow> path_matches p resource))"
| "constraintMatchesResource (Azure c) resource =
     (str_matches (az_subscription_id c) resource ''subscription_id'' \<and>
      str_matches (az_resource_group c) resource ''resource_group'' \<and>
      str_matches (az_resource_type c) resource ''resource_type'' \<and>
      str_matches (az_name c) resource ''name'')"
| "constraintMatchesResource (Aws c) resource =
     (str_matches (aws_account_id c) resource ''account_id'' \<and> str_matches (aws_region c) resource ''region'' \<and>
      str_matches (aws_service c) resource ''service'' \<and> str_matches (aws_arn c) resource ''arn'')"
| "constraintMatchesResource (Gcp c) resource =
     (str_matches (gcp_project_id c) resource ''project_id'' \<and> str_matches (gcp_location c) resource ''location'' \<and>
      str_matches (gcp_service c) resource ''service'' \<and> str_matches (gcp_resource_id c) resource ''resource_id'')"
| "constraintMatchesResource c resource = False"

subsection \<open>Attenuation along a list\<close>

fun linked :: "('a \<Rightarrow> 'a \<Rightarrow> bool) \<Rightarrow> 'a list \<Rightarrow> bool" where
  "linked R (a # b # xs) = (R a b \<and> linked R (b # xs))"
| "linked R xs = True"

lemma linked_tl: "linked R (a # xs) \<Longrightarrow> linked R xs"
  by (cases xs) auto

lemma linked_map: "linked R (map f xs) \<longleftrightarrow> linked (\<lambda>a b. R (f a) (f b)) xs"
  by (induction "\<lambda>a b. R (f a) (f b)" xs rule: linked.induct) auto

lemma linked_mono: "linked R xs \<Longrightarrow> (\<And>a b. R a b \<Longrightarrow> S a b) \<Longrightarrow> linked S xs"
  by (induction R xs rule: linked.induct) auto

locale attenuation =
  fixes within :: "'a \<Rightarrow> 'a \<Rightarrow> bool"
  assumes trans: "within a b \<Longrightarrow> within b c \<Longrightarrow> within a c"
begin

lemma linked_head: "linked within (a # xs) \<Longrightarrow> b \<in> set xs \<Longrightarrow> within a b"
proof (induction xs arbitrary: a)
  case Nil
  then show ?case by simp
next
  case (Cons c xs)
  then show ?case by (cases "b = c") (auto intro: trans)
qed

lemma linked_sorted: "linked within xs \<Longrightarrow> sorted_wrt within xs"
proof (induction xs)
  case Nil
  then show ?case by simp
next
  case (Cons a xs)
  then show ?case using linked_head [of a xs] linked_tl [of within a xs] by auto
qed

end

locale reflexive_attenuation = attenuation +
  assumes refl: "within a a"
begin

lemma linked_hd_last: "linked within xs \<Longrightarrow> xs \<noteq> [] \<Longrightarrow> within (hd xs) (last xs)"
  by (cases xs) (auto intro: refl linked_head)

end

lemma field_covers_trans: "field_covers a b \<Longrightarrow> field_covers b c \<Longrightarrow> field_covers a c"
  by (auto simp: field_covers_def)

lemma prefix_covers_trans: "prefix_covers a b \<Longrightarrow> prefix_covers b c \<Longrightarrow> prefix_covers a c"
  by (auto simp: prefix_covers_def intro: startsWith_trans split: option.splits)

lemma covers_simps [simp]:
  "constraintCovers (Filesystem fp) (Filesystem fc) = coversFilesystem fp fc"
  "constraintCovers (Github hp) (Github hc) = coversGithub hp hc"
  "constraintCovers (Azure zp) (Azure zc) = coversAzure zp zc"
  "constraintCovers (Aws ap) (Aws ac) = coversAws ap ac"
  "constraintCovers (Gcp gp) (Gcp gc) = coversGcp gp gc"
  by (simp_all add: constraintCovers_def)

lemma covers_cases:
  assumes "constraintCovers p c"
  obtains fp fc where "p = Filesystem fp" "c = Filesystem fc" "coversFilesystem fp fc"
  | hp hc where "p = Github hp" "c = Github hc" "coversGithub hp hc"
  | zp zc where "p = Azure zp" "c = Azure zc" "coversAzure zp zc"
  | ap ac where "p = Aws ap" "c = Aws ac" "coversAws ap ac"
  | gp gc where "p = Gcp gp" "c = Gcp gc" "coversGcp gp gc"
  using assms unfolding constraintCovers_def by (cases p; simp; cases c; simp)

lemma covers_each_trans:
  "coversFilesystem f1 f2 \<Longrightarrow> coversFilesystem f2 f3 \<Longrightarrow> coversFilesystem f1 f3"
  "coversGithub h1 h2 \<Longrightarrow> coversGithub h2 h3 \<Longrightarrow> coversGithub h1 h3"
  "coversAzure z1 z2 \<Longrightarrow> coversAzure z2 z3 \<Longrightarrow> coversAzure z1 z3"
  "coversAws a1 a2 \<Longrightarrow> coversAws a2 a3 \<Longrightarrow> coversAws a1 a3"
  "coversGcp g1 g2 \<Longrightarrow> coversGcp g2 g3 \<Longrightarrow> coversGcp g1 g3"
  unfolding coversFilesystem_def coversGithub_def coversAzure_def coversAws_def coversGcp_def
  by (auto intro: startsWith_trans field_covers_trans prefix_covers_trans split: if_splits)

lemma constraintCovers_trans:
  "constraintCovers a b \<Longrightarrow> constraintCovers b c \<Longrightarrow> constraintCovers a c"
  by (elim covers_cases) (auto intro: covers_each_trans)

interpretation constraint_order: attenuation constraintCovers
  by unfold_locales (rule constraintCovers_trans)

lemma str_matches_covers: "field_covers p c \<Longrightarrow> str_matches c r k \<Longrightarrow> str_matches p r k"
  by (auto simp: field_covers_def str_matches_def)

lemma int_matches_covers: "field_covers p c \<Longrightarrow> int_matches c r k \<Longrightarrow> int_matches p r k"
  by (auto simp: field_covers_def int_matches_def)

lemma path_matches_prefix: "startsWith c p \<Longrightarrow> path_matches c r \<Longrightarrow> path_matches p r"
  by (auto simp: path_matches_def intro: startsWith_trans split: json.splits)

lemmas matches_covers = str_matches_covers int_matches_covers path_matches_prefix

lemma covers_sound:
  assumes "constraintCovers p c" "constraintMatchesResource c r"
  shows "constraintMatchesResource p r"
  using assms(1)
proof (cases rule: covers_cases)
  case 1
  with assms show ?thesis
    by (auto simp: coversFilesystem_def intro: matches_covers split: if_splits)
next
  case 2
  with assms show ?thesis
    by (auto simp: coversGithub_def prefix_covers_def intro: matches_covers split: option.splits)
qed (use assms in \<open>auto simp: coversAzure_def coversAws_def coversGcp_def intro: matches_covers\<close>)

text \<open>Only five of the eighteen providers have a subset check or a resource gate: a constraint of any
  other provider covers nothing, not even itself, and admits no resource.\<close>

fun gated_provider :: "ResourceConstraint \<Rightarrow> bool" where
  "gated_provider (Filesystem c) = True"
| "gated_provider (Github c) = True"
| "gated_provider (Azure c) = True"
| "gated_provider (Aws c) = True"
| "gated_provider (Gcp c) = True"
| "gated_provider c = False"

lemma constraintCovers_refl: "constraintCovers c c \<longleftrightarrow> gated_provider c"
  by (cases c)
    (auto simp: constraintCovers_def coversFilesystem_def coversGithub_def coversAzure_def coversAws_def
      coversGcp_def field_covers_def prefix_covers_def split: option.splits)

lemma ungated_denied: "\<not> gated_provider c \<Longrightarrow> \<not> constraintMatchesResource c r"
  by (cases c) auto

end
