(* ===== verification/Ucan.thy ===== *)
theory Ucan
  imports Constraint
begin

text \<open>
  packages/ucan: issuing (issue.ts), parsing (parse.ts), validating (validate.ts) a UCAN, its content
  identifier (cid.ts) and the validation of a delegation chain (chain.ts). Code that may throw
  returns \<open>(exn, _) result\<close>; validateUcan catches every exception it can meet, validateChain does
  not catch the ZodError of a malformed constraint. The clock (Date.now) is a function of the
  number of earlier readings, used where the caller passes no \<open>now\<close>.
\<close>

subsection \<open>cid.ts and issue.ts\<close>

definition computeCid :: "env \<Rightarrow> string \<Rightarrow> string" where
  "computeCid E jwt = sha256Hex E jwt"

definition UCAN_HEADER :: json where
  "UCAN_HEADER = JObj [(''alg'', JStr ''EdDSA''), (''typ'', JStr ''JWT''), (''ucv'', JStr ''1.0.0-cb'')]"

record UcanIssued =
  ui_cid :: string
  ui_jwt :: string
  ui_payload :: UcanPayload

definition issueUcan :: "env \<Rightarrow> UcanPayload \<Rightarrow> string \<Rightarrow> (exn, UcanIssued) result" where
  "issueUcan E payload privateKey =
     rbind (canonicalizeDid E (p_iss payload)) (\<lambda>iss.
     rbind (canonicalizeDid E (p_aud payload)) (\<lambda>aud.
     (case parsePayload (JObj (payloadObj (payload\<lparr>p_iss := iss, p_aud := aud\<rparr>))) of
        None \<Rightarrow> Inl ZodError
      | Some validated \<Rightarrow>
          rbind (lift_canon (canonicalize (e_nfc E) UCAN_HEADER)) (\<lambda>h.
          rbind (lift_canon (canonicalize (e_nfc E) (JObj (payloadObj validated)))) (\<lambda>p.
            (let headerEnc = stringToBase64url h;
                 payloadEnc = stringToBase64url p;
                 signingInput = headerEnc @ ''.'' @ payloadEnc
             in rbind (signDetached E privateKey signingInput) (\<lambda>signature.
                  (let jwt = signingInput @ ''.'' @ bytesToBase64url signature
                   in Inr \<lparr>ui_cid = computeCid E jwt, ui_jwt = jwt, ui_payload = validated\<rparr>))))))))"

subsection \<open>parse.ts\<close>

record ParsedUcan =
  u_alg :: string
  u_typ :: string
  u_ucv :: string
  u_payload :: UcanPayload
  u_signature :: string
  u_headerEnc :: string
  u_payloadEnc :: string

definition parseHeader :: "json \<Rightarrow> (string \<times> string \<times> string) option" where
  "parseHeader v =
     (case v of
        JObj ob \<Rightarrow>
          (case (as_string (jget ob ''alg''), as_string (jget ob ''typ''), as_string (jget ob ''ucv'')) of
             (Some alg, Some typ, Some ucv) \<Rightarrow> Some (alg, typ, ucv)
           | _ \<Rightarrow> None)
      | _ \<Rightarrow> None)"

definition parseUcanJwt :: "env \<Rightarrow> string \<Rightarrow> ParsedUcan option" where
  "parseUcanJwt E jwt =
     (case split_on (CHR ''.'') jwt of
        [headerEnc, payloadEnc, sigEnc] \<Rightarrow>
          Option.bind (JSON_parse (e_nd E) (base64urlToString headerEnc)) (\<lambda>hv.
          Option.bind (parseHeader hv) (\<lambda>(alg, typ, ucv).
          Option.bind (JSON_parse (e_nd E) (base64urlToString payloadEnc)) (\<lambda>pv.
          Option.bind (parsePayload pv) (\<lambda>payload.
            Some \<lparr>u_alg = alg, u_typ = typ, u_ucv = ucv, u_payload = payload,
                  u_signature = base64urlToBytes sigEnc,
                  u_headerEnc = headerEnc, u_payloadEnc = payloadEnc\<rparr>))))
      | _ \<Rightarrow> None)"

definition meta_string :: "string \<Rightarrow> UcanPayload \<Rightarrow> string option" where
  "meta_string k p = (case p_meta p of None \<Rightarrow> None | Some m \<Rightarrow> as_string (jget m k))"

definition extractCustomerId :: "env \<Rightarrow> string \<Rightarrow> string option" where
  "extractCustomerId E jwt =
     (case parseUcanJwt E jwt of None \<Rightarrow> None | Some u \<Rightarrow> meta_string ''customer_id'' (u_payload u))"

definition extractAgentId :: "env \<Rightarrow> string \<Rightarrow> string option" where
  "extractAgentId E jwt =
     (case parseUcanJwt E jwt of None \<Rightarrow> None | Some u \<Rightarrow> meta_string ''agent_id'' (u_payload u))"

definition extractAgentDid :: "env \<Rightarrow> string \<Rightarrow> string" where
  "extractAgentDid E jwt = (case parseUcanJwt E jwt of None \<Rightarrow> ''unknown'' | Some u \<Rightarrow> p_aud (u_payload u))"

subsection \<open>validate.ts\<close>

datatype ValidationError =
    malformed_ucan | bad_signature | expired | not_yet_valid
  | audience_mismatch | command_mismatch | issuer_unsupported

datatype ValidateResult = Valid UcanPayload | Invalid ValidationError

record ValidateOptions =
  vo_audience :: "string option"
  vo_expectedCommand :: "string option"
  vo_now :: "int option"

definition actionMatchesGranted :: "string \<Rightarrow> string \<Rightarrow> bool" where
  "actionMatchesGranted granted action \<longleftrightarrow> action = granted \<or> startsWith action (granted @ ''/'')"

definition audience_ok :: "env \<Rightarrow> string option \<Rightarrow> string \<Rightarrow> bool" where
  "audience_ok E expected aud =
     (case expected of
        None \<Rightarrow> True
      | Some e \<Rightarrow>
          (case (canonicalizeDid E aud, canonicalizeDid E e) of
             (Inr a, Inr b) \<Rightarrow> a = b
           | _ \<Rightarrow> False))"

definition validateUcan :: "env \<Rightarrow> int \<Rightarrow> string \<Rightarrow> ValidateOptions \<Rightarrow> ValidateResult" where
  "validateUcan E clock jwt opts =
     (case parseUcanJwt E jwt of
        None \<Rightarrow> Invalid malformed_ucan
      | Some u \<Rightarrow>
          if u_alg u \<noteq> ''EdDSA'' \<or> u_typ u \<noteq> ''JWT'' then Invalid malformed_ucan
          else
            (let payload = u_payload u
             in case publicKeyFromDid E (p_iss payload) of
                  Inl _ \<Rightarrow> Invalid issuer_unsupported
                | Inr publicKey \<Rightarrow>
                    if \<not> verifyDetached E publicKey (u_headerEnc u @ ''.'' @ u_payloadEnc u) (u_signature u)
                    then Invalid bad_signature
                    else
                      (let now = (case vo_now opts of None \<Rightarrow> clock | Some n \<Rightarrow> n)
                       in if p_nbf payload > now then Invalid not_yet_valid
                          else if p_exp payload \<le> now then Invalid expired
                          else if \<not> audience_ok E (vo_audience opts) (p_aud payload) then Invalid audience_mismatch
                          else if (case vo_expectedCommand opts of
                                     None \<Rightarrow> False
                                   | Some c \<Rightarrow> \<not> actionMatchesGranted (p_cmd payload) c)
                          then Invalid command_mismatch
                          else Valid payload)))"

subsection \<open>chain.ts\<close>

datatype ChainError = of_validation ValidationError | broken_delegation | over_attenuated | empty_chain

datatype ChainResult = ChainValid UcanPayload UcanPayload | ChainInvalid ChainError

fun validate_each ::
  "env \<Rightarrow> (nat \<Rightarrow> int) \<Rightarrow> nat \<Rightarrow> string list \<Rightarrow> ValidateOptions \<Rightarrow> (ValidationError, UcanPayload list) result" where
  "validate_each E clock i [] opts = Inr []"
| "validate_each E clock i (jwt # jwts) opts =
     (let isLeaf = (jwts = [])
      in case validateUcan E (clock i) jwt
                \<lparr>vo_audience = (if isLeaf then vo_audience opts else None),
                 vo_expectedCommand = (if isLeaf then vo_expectedCommand opts else None),
                 vo_now = vo_now opts\<rparr> of
           Invalid e \<Rightarrow> Inl e
         | Valid p \<Rightarrow> rbind (validate_each E clock (Suc i) jwts opts) (\<lambda>ps. Inr (p # ps)))"

definition check_link :: "UcanPayload \<Rightarrow> UcanPayload \<Rightarrow> (exn, ChainError option) result" where
  "check_link parent child =
     (if p_iss child \<noteq> p_aud parent then Inr (Some broken_delegation)
      else if \<not> actionMatchesGranted (p_cmd parent) (p_cmd child) then Inr (Some over_attenuated)
      else if p_exp child > p_exp parent then Inr (Some over_attenuated)
      else if p_nbf child < p_nbf parent then Inr (Some over_attenuated)
      else rbind (extractResourceConstraint (p_meta parent)) (\<lambda>pc.
           case pc of
             None \<Rightarrow> Inr None
           | Some parentConstraint \<Rightarrow>
               rbind (extractResourceConstraint (p_meta child)) (\<lambda>cc.
                 let childConstraint = (case cc of None \<Rightarrow> parentConstraint | Some c \<Rightarrow> c)
                 in if constraintCovers parentConstraint childConstraint then Inr None
                    else Inr (Some over_attenuated))))"

fun check_links :: "UcanPayload list \<Rightarrow> (exn, ChainError option) result" where
  "check_links (parent # child # ps) =
     rbind (check_link parent child) (\<lambda>r. case r of Some e \<Rightarrow> Inr (Some e) | None \<Rightarrow> check_links (child # ps))"
| "check_links ps = Inr None"

definition validateChain ::
  "env \<Rightarrow> (nat \<Rightarrow> int) \<Rightarrow> string list \<Rightarrow> ValidateOptions \<Rightarrow> (exn, ChainResult) result" where
  "validateChain E clock jwts opts =
     (if jwts = [] then Inr (ChainInvalid empty_chain)
      else case validate_each E clock 0 jwts opts of
          Inl e \<Rightarrow> Inr (ChainInvalid (of_validation e))
        | Inr payloads \<Rightarrow>
            rbind (check_links payloads) (\<lambda>r. case r of
                Some e \<Rightarrow> Inr (ChainInvalid e)
              | None \<Rightarrow> Inr (ChainValid (hd payloads) (last payloads))))"


subsection \<open>Validation, read backwards\<close>

definition now_of :: "int \<Rightarrow> ValidateOptions \<Rightarrow> int" where
  "now_of clock opts = (case vo_now opts of None \<Rightarrow> clock | Some n \<Rightarrow> n)"

definition signed_by_issuer :: "env \<Rightarrow> ParsedUcan \<Rightarrow> bool" where
  "signed_by_issuer E u \<longleftrightarrow>
     u_alg u = ''EdDSA'' \<and> u_typ u = ''JWT'' \<and>
     (\<exists>pk. publicKeyFromDid E (p_iss (u_payload u)) = Inr pk \<and>
           verifyDetached E pk (u_headerEnc u @ ''.'' @ u_payloadEnc u) (u_signature u))"

lemma validateUcan_Valid_iff:
  "validateUcan E clock jwt opts = Valid p \<longleftrightarrow>
     (\<exists>u. parseUcanJwt E jwt = Some u \<and> u_payload u = p \<and> signed_by_issuer E u \<and>
          p_nbf p \<le> now_of clock opts \<and> now_of clock opts < p_exp p \<and>
          audience_ok E (vo_audience opts) (p_aud p) \<and>
          (\<forall>c. vo_expectedCommand opts = Some c \<longrightarrow> actionMatchesGranted (p_cmd p) c))"
  unfolding validateUcan_def signed_by_issuer_def now_of_def Let_def
  by (cases "parseUcanJwt E jwt")
    (auto split: if_splits sum.splits option.splits simp: not_le not_less)

lemma parseUcanJwt_wf: "parseUcanJwt E jwt = Some u \<Longrightarrow> wf_payload (u_payload u)"
  by (auto simp: parseUcanJwt_def bind_eq_Some_conv split: list.splits intro: parsePayload_wf)

lemma validate_each_Inr:
  "validate_each E clock i jwts opts = Inr ps \<Longrightarrow>
     length ps = length jwts \<and>
     (\<forall>j < length jwts. \<exists>u. parseUcanJwt E (jwts ! j) = Some u \<and> u_payload u = ps ! j \<and> signed_by_issuer E u \<and>
        p_nbf (ps ! j) \<le> now_of (clock (i + j)) opts \<and> now_of (clock (i + j)) opts < p_exp (ps ! j)) \<and>
     (jwts \<noteq> [] \<longrightarrow> audience_ok E (vo_audience opts) (p_aud (last ps)) \<and>
        (\<forall>c. vo_expectedCommand opts = Some c \<longrightarrow> actionMatchesGranted (p_cmd (last ps)) c))"
proof (induction jwts arbitrary: i ps)
  case Nil
  then show ?case by simp
next
  case (Cons jwt jwts)
  let ?o = "\<lparr>vo_audience = (if jwts = [] then vo_audience opts else None),
             vo_expectedCommand = (if jwts = [] then vo_expectedCommand opts else None), vo_now = vo_now opts\<rparr>"
  from Cons.prems obtain p qs where p: "validateUcan E (clock i) jwt ?o = Valid p"
    and qs: "validate_each E clock (Suc i) jwts opts = Inr qs" and ps: "ps = p # qs"
    by (auto simp: Let_def rbind_Inr_iff split: ValidateResult.splits)
  note IH = Cons.IH [OF qs]
  have n: "now_of (clock i) ?o = now_of (clock i) opts" by (simp add: now_of_def)
  from p obtain u where u: "parseUcanJwt E jwt = Some u" "u_payload u = p" "signed_by_issuer E u"
      "p_nbf p \<le> now_of (clock i) opts" "now_of (clock i) opts < p_exp p"
      "audience_ok E (vo_audience ?o) (p_aud p)"
      "\<forall>c. vo_expectedCommand ?o = Some c \<longrightarrow> actionMatchesGranted (p_cmd p) c"
    by (auto simp: validateUcan_Valid_iff n)
  have "\<exists>u. parseUcanJwt E ((jwt # jwts) ! j) = Some u \<and> u_payload u = ps ! j \<and> signed_by_issuer E u \<and>
        p_nbf (ps ! j) \<le> now_of (clock (i + j)) opts \<and> now_of (clock (i + j)) opts < p_exp (ps ! j)"
    if "j < length (jwt # jwts)" for j
    using that u IH ps by (cases j) auto
  moreover have "last ps = (if jwts = [] then p else last qs)" using ps IH by (cases qs) auto
  ultimately show ?case using IH ps u(6,7) by (auto split: if_splits)
qed

subsection \<open>Attenuation along a chain\<close>

lemma actionMatchesGranted_refl [simp]: "actionMatchesGranted c c"
  by (simp add: actionMatchesGranted_def)

lemma actionMatchesGranted_trans:
  "actionMatchesGranted a b \<Longrightarrow> actionMatchesGranted b c \<Longrightarrow> actionMatchesGranted a c"
  by (auto simp: actionMatchesGranted_def startsWith_iff)

interpretation cmd_order: reflexive_attenuation actionMatchesGranted
  by unfold_locales (auto intro: actionMatchesGranted_trans)

interpretation exp_order: reflexive_attenuation "\<lambda>a b :: int. b \<le> a"
  by unfold_locales auto

interpretation nbf_order: reflexive_attenuation "(\<le>) :: int \<Rightarrow> int \<Rightarrow> bool"
  by unfold_locales auto

definition link_ok :: "UcanPayload \<Rightarrow> UcanPayload \<Rightarrow> bool" where
  "link_ok parent child \<longleftrightarrow>
     p_iss child = p_aud parent \<and> actionMatchesGranted (p_cmd parent) (p_cmd child) \<and>
     p_exp child \<le> p_exp parent \<and> p_nbf parent \<le> p_nbf child \<and>
     (\<forall>pc. extractResourceConstraint (p_meta parent) = Inr (Some pc) \<longrightarrow>
        (\<exists>cc. extractResourceConstraint (p_meta child) = Inr cc \<and>
              constraintCovers pc (case cc of None \<Rightarrow> pc | Some c \<Rightarrow> c)))"

lemma check_link_None:
  assumes "check_link parent child = Inr None" shows "link_ok parent child"
proof -
  from assms have links: "p_iss child = p_aud parent" "actionMatchesGranted (p_cmd parent) (p_cmd child)"
      "p_exp child \<le> p_exp parent" "p_nbf parent \<le> p_nbf child"
    by (simp_all add: check_link_def not_less split: if_split_asm)
  have "\<exists>cc. extractResourceConstraint (p_meta child) = Inr cc \<and>
              constraintCovers pc (case cc of None \<Rightarrow> pc | Some c \<Rightarrow> c)"
    if "extractResourceConstraint (p_meta parent) = Inr (Some pc)" for pc
    using assms links that
    by (cases "extractResourceConstraint (p_meta child)") (simp_all add: check_link_def Let_def split: if_split_asm)
  with links show ?thesis by (simp add: link_ok_def)
qed

lemma check_links_None: "check_links ps = Inr None \<Longrightarrow> linked link_ok ps"
  by (induction ps rule: check_links.induct)
    (auto simp: rbind_Inr_iff split: option.splits intro: check_link_None)

lemma validateChain_ChainValid:
  assumes "validateChain E clock jwts opts = Inr (ChainValid root leaf)"
  obtains ps where "validate_each E clock 0 jwts opts = Inr ps" "linked link_ok ps" "ps \<noteq> []" "jwts \<noteq> []"
    "root = hd ps" "leaf = last ps"
proof -
  from assms obtain ps where ps: "validate_each E clock 0 jwts opts = Inr ps" "check_links ps = Inr None"
      "root = hd ps" "leaf = last ps" "jwts \<noteq> []"
    by (auto simp: validateChain_def rbind_Inr_iff split: if_splits sum.splits option.splits)
  then show ?thesis using that check_links_None validate_each_Inr [OF ps(1)] by fastforce
qed

lemma linked_within:
  assumes "linked link_ok ps" "ps \<noteq> []"
  shows "actionMatchesGranted (p_cmd (hd ps)) (p_cmd (last ps))"
    and "p_exp (last ps) \<le> p_exp (hd ps)" and "p_nbf (hd ps) \<le> p_nbf (last ps)"
proof -
  have "linked actionMatchesGranted (map p_cmd ps)" "linked (\<lambda>a b. b \<le> a) (map p_exp ps)" "linked (\<le>) (map p_nbf ps)"
    using assms(1) unfolding linked_map by (auto elim: linked_mono simp: link_ok_def)
  from cmd_order.linked_hd_last [OF this(1)] exp_order.linked_hd_last [OF this(2)] nbf_order.linked_hd_last [OF this(3)]
  show "actionMatchesGranted (p_cmd (hd ps)) (p_cmd (last ps))"
    "p_exp (last ps) \<le> p_exp (hd ps)" "p_nbf (hd ps) \<le> p_nbf (last ps)"
    using assms(2) by (simp_all add: hd_map last_map)
qed

text \<open>When every payload carries a constraint, each constraint of the chain covers all later ones.\<close>

lemma linked_constraints:
  assumes "linked link_ok ps" "map (extractResourceConstraint \<circ> p_meta) ps = map (\<lambda>c. Inr (Some c)) cs"
  shows "sorted_wrt constraintCovers cs"
proof (rule constraint_order.linked_sorted)
  from assms show "linked constraintCovers cs"
  proof (induction ps arbitrary: cs rule: induct_list012)
    case (3 p q ps)
    then obtain c d ds where cs: "cs = c # d # ds" by (cases cs; cases "tl cs") auto
    with 3 have "link_ok p q" "extractResourceConstraint (p_meta p) = Inr (Some c)"
        "extractResourceConstraint (p_meta q) = Inr (Some d)" by auto
    then have "constraintCovers c d" by (auto simp: link_ok_def)
    moreover have "linked constraintCovers (d # ds)" by (rule "3.IH"(2)) (use "3.prems" cs in auto)
    ultimately show ?case by (simp add: cs)
  qed auto
qed

end
