(* ===== verification/Ucan_Roundtrip.thy ===== *)
theory Ucan_Roundtrip
  imports Ucan
begin

text \<open>
  Issuing and validating fit together: what issue.ts signs, parse.ts and validate.ts read back as
  the same payload (up to the key order and key normalisation of \<open>canonicalize\<close>) and accept. The
  second half is about the identifier of a token: the JWT of a valid UCAN can be extended without
  changing what it parses to.
\<close>

subsection \<open>Fields of a normalised object\<close>

definition nfc_fixes :: "(string \<Rightarrow> string) \<Rightarrow> bool" where
  "nfc_fixes nfc \<longleftrightarrow> (\<forall>s. (\<forall>c \<in> set s. (of_char c :: nat) < 128) \<longrightarrow> nfc s = s)"

lemma dedup_seen_id: "distinct (map fst xs) \<Longrightarrow> fst ` set xs \<inter> set seen = {} \<Longrightarrow> dedup_seen seen xs = xs"
  by (induction seen xs rule: dedup_seen.induct) force+

lemma surviving_set:
  assumes "\<And>k v. (k, v) \<in> set kvs \<Longrightarrow> nfc k = k" "distinct_keys kvs"
  shows "set (surviving nfc kvs) = {(k, v) \<in> set kvs. v \<noteq> JUndef}"
proof -
  have "map (\<lambda>(k, v). (nfc k, v)) (filter (\<lambda>(k, v). v \<noteq> JUndef) kvs) = filter (\<lambda>(k, v). v \<noteq> JUndef) kvs"
    by (rule map_idI) (use assms(1) in auto)
  moreover have "distinct (map fst (filter (\<lambda>(k, v). v \<noteq> JUndef) kvs))"
    using assms(2) by (simp add: distinct_keys_def distinct_map_filter)
  ultimately show ?thesis by (auto simp: surviving_def dedup_seen_id)
qed

lemma map_of_surviving:
  assumes "\<And>k v. (k, v) \<in> set kvs \<Longrightarrow> nfc k = k" "distinct_keys kvs"
  shows "map_of (surviving nfc kvs) k = (case map_of kvs k of Some v \<Rightarrow> if v = JUndef then None else Some v | None \<Rightarrow> None)"
proof -
  have "map_of (surviving nfc kvs) k = Some v \<longleftrightarrow> map_of kvs k = Some v \<and> v \<noteq> JUndef" for v
    using surviving_distinct [of nfc kvs] assms(2) surviving_set [OF assms(1) assms(2)]
    by (simp add: distinct_keys_def)
  note iff = this
  show ?thesis
  proof (cases "map_of (surviving nfc kvs) k")
    case None
    with iff have "map_of kvs k = Some v \<Longrightarrow> v = JUndef" for v by fastforce
    with None show ?thesis by (cases "map_of kvs k") simp_all
  next
    case (Some v)
    with iff have "map_of kvs k = Some v" "v \<noteq> JUndef" by blast+
    with Some show ?thesis by simp
  qed
qed

lemma jget_norm:
  assumes "\<And>k v. (k, v) \<in> set kvs \<Longrightarrow> nfc k = k" "distinct_keys kvs" "norm nfc (JObj kvs) = JObj ob"
  shows "jget ob k = norm nfc (jget kvs k)"
proof -
  from assms(3) have "ob = map (\<lambda>(k, v). (k, norm nfc v)) (surviving nfc kvs)" by simp
  then have "map_of ob k = map_option (norm nfc) (map_of (surviving nfc kvs) k)"
    by (simp add: map_of_map)
  then show ?thesis
    by (auto simp: jget_def map_of_surviving [OF assms(1,2)] split: option.splits)
qed

subsection \<open>The payload read back\<close>

definition norm_members :: "(string \<Rightarrow> string) \<Rightarrow> obj \<Rightarrow> obj" where
  "norm_members nfc ob = (case norm nfc (JObj ob) of JObj x \<Rightarrow> x | _ \<Rightarrow> [])"

lemma norm_members: "norm nfc (JObj ob) = JObj (norm_members nfc ob)"
  by (simp add: norm_members_def)

definition norm_payload :: "(string \<Rightarrow> string) \<Rightarrow> UcanPayload \<Rightarrow> UcanPayload" where
  "norm_payload nfc p =
     p\<lparr>p_pol := map (\<lambda>(a, b, c). (a, b, norm nfc c)) (p_pol p), p_meta := map_option (norm_members nfc) (p_meta p)\<rparr>"

definition payload_keys :: "string list" where
  "payload_keys = [''iss'', ''aud'', ''cmd'', ''sub'', ''pol'', ''nonce'', ''meta'', ''nbf'', ''exp'', ''prf'']"

lemma payloadObj_keys: "(k, v) \<in> set (payloadObj p) \<Longrightarrow> k \<in> set payload_keys"
  by (auto simp: payloadObj_def opt_str_def opt_json_def payload_keys_def split: option.splits)

lemma payload_keys_ascii: "k \<in> set payload_keys \<Longrightarrow> c \<in> set k \<Longrightarrow> (of_char c :: nat) < 128"
  by (auto simp: payload_keys_def)

lemma payloadObj_fixed: "nfc_fixes nfc \<Longrightarrow> (k, v) \<in> set (payloadObj p) \<Longrightarrow> nfc k = k"
  using payloadObj_keys payload_keys_ascii unfolding nfc_fixes_def by blast

lemma payloadObj_distinct: "distinct_keys (payloadObj p)"
  by (simp add: payloadObj_def opt_str_def opt_json_def distinct_keys_def split: option.splits)

lemma payloadObj_jget:
  "jget (payloadObj p) ''iss'' = JStr (p_iss p)"
  "jget (payloadObj p) ''aud'' = JStr (p_aud p)"
  "jget (payloadObj p) ''cmd'' = JStr (p_cmd p)"
  "jget (payloadObj p) ''sub'' = (case p_sub p of None \<Rightarrow> JUndef | Some s \<Rightarrow> JStr s)"
  "jget (payloadObj p) ''pol'' = JArr (map (\<lambda>(a, b, c). JArr [JStr a, JStr b, c]) (p_pol p))"
  "jget (payloadObj p) ''nonce'' = JStr (p_nonce p)"
  "jget (payloadObj p) ''meta'' = (case p_meta p of None \<Rightarrow> JUndef | Some m \<Rightarrow> JObj m)"
  "jget (payloadObj p) ''nbf'' = JNum (JInt (p_nbf p))"
  "jget (payloadObj p) ''exp'' = JNum (JInt (p_exp p))"
  "jget (payloadObj p) ''prf'' = (case p_prf p of None \<Rightarrow> JUndef | Some ss \<Rightarrow> JArr (map JStr ss))"
  by (simp_all add: jget_def payloadObj_def opt_str_def opt_json_def split: option.splits)

lemma z_list_map: "(\<And>x. x \<in> set xs \<Longrightarrow> p (f x) = Some (g x)) \<Longrightarrow> z_list p (map f xs) = Some (map g xs)"
  by (induction xs) auto

lemma parse_norm_pol:
  "z_array parsePredicate (norm nfc (JArr (map (\<lambda>(a, b, c). JArr [JStr a, JStr b, c]) pol))) =
     Some (map (\<lambda>(a, b, c). (a, b, norm nfc c)) pol)"
proof -
  have "map (norm nfc) (map (\<lambda>(a, b, c). JArr [JStr a, JStr b, c]) pol)
      = map (\<lambda>(a, b, c). JArr [JStr a, JStr b, norm nfc c]) pol"
    by (induction pol) auto
  then show ?thesis
    by (simp del: map_map add: z_array_def) (rule z_list_map, auto simp: parsePredicate_def)
qed

lemma parse_norm_prf:
  "z_opt (z_array z_string) (norm nfc (case prfs of None \<Rightarrow> JUndef | Some ss \<Rightarrow> JArr (map JStr ss))) = Some prfs"
proof (cases prfs)
  case (Some ss)
  have "z_list z_string (map JStr ss) = Some (map id ss)"
    by (rule z_list_map) (simp add: z_string_def)
  with Some show ?thesis by (simp add: z_opt_def z_array_def comp_def)
qed (simp add: z_opt_def)

lemma parse_norm_meta:
  "z_opt z_record (norm nfc (case m of None \<Rightarrow> JUndef | Some ob \<Rightarrow> JObj ob)) = Some (map_option (norm_members nfc) m)"
  by (cases m) (simp_all add: z_opt_def z_record_def norm_members del: norm_obj)

lemma parse_norm_sub:
  "z_opt z_string (norm nfc (case m of None \<Rightarrow> JUndef | Some s \<Rightarrow> JStr s)) = Some m"
  by (cases m) (simp_all add: z_opt_def z_string_def)

lemma parse_payload:
  assumes "wf_payload p"
  shows "parsePayload (JObj (payloadObj p)) = Some p"
proof -
  have pol: "z_array parsePredicate (JArr (map (\<lambda>(a, b, c). JArr [JStr a, JStr b, c]) (p_pol p))) = Some (map id (p_pol p))"
    unfolding z_array_def json.case by (rule z_list_map) (auto simp: parsePredicate_def)
  have prfs: "z_opt (z_array z_string) (case prfs of None \<Rightarrow> JUndef | Some ss \<Rightarrow> JArr (map JStr ss)) = Some prfs" for prfs
  proof (cases prfs)
    case (Some ss)
    have "z_list z_string (map JStr ss) = Some (map id ss)"
      by (rule z_list_map) (simp add: z_string_def)
    with Some show ?thesis by (simp add: z_opt_def z_array_def)
  qed (simp add: z_opt_def)
  have m: "z_opt z_record (case m of None \<Rightarrow> JUndef | Some ob \<Rightarrow> JObj ob) = Some m" for m
    by (cases m) (simp_all add: z_opt_def z_record_def)
  have sub: "z_opt z_string (case m of None \<Rightarrow> JUndef | Some s \<Rightarrow> JStr s) = Some m" for m
    by (cases m) (simp_all add: z_opt_def z_string_def)
  show ?thesis
    unfolding parsePayload_def as_obj.simps Option.bind.bind_lunit payloadObj_jget pol prfs m sub
    using assms [unfolded wf_payload_def]
    by (simp add: z_min1_def z_match_def z_nonnegative_def z_positive_def z_int_def)
qed

lemma parse_norm_payload:
  assumes "wf_payload p" "nfc_fixes nfc"
  shows "parsePayload (norm nfc (JObj (payloadObj p))) = Some (norm_payload nfc p)"
proof -
  obtain ob where ob: "norm nfc (JObj (payloadObj p)) = JObj ob" by simp
  have g: "jget ob k = norm nfc (jget (payloadObj p) k)" for k
    by (rule jget_norm [OF _ payloadObj_distinct ob]) (rule payloadObj_fixed [OF assms(2)])
  have str: "z_match P (norm nfc (JStr s)) = Some s" if "P s" for P s using that by (simp add: z_match_def)
  have num: "z_nonnegative (norm nfc (JNum (JInt i))) = Some i" if "0 \<le> i" for i using that by (simp add: z_nonnegative_def z_int_def)
  have pos: "z_positive (norm nfc (JNum (JInt i))) = Some i" if "0 < i" for i using that by (simp add: z_positive_def z_int_def)
  note wf = assms(1) [unfolded wf_payload_def]
  have min1: "z_min1 (norm nfc (JStr (p_nonce p))) = Some (p_nonce p)"
    using assms(1) by (simp add: z_min1_def z_match_def wf_payload_def)
  show ?thesis
    unfolding parsePayload_def ob as_obj.simps Option.bind.bind_lunit g payloadObj_jget parse_norm_pol parse_norm_prf parse_norm_meta parse_norm_sub min1
    using wf str [of DID_REGEX "p_iss p"] str [of DID_REGEX "p_aud p"] str [of COMMAND_REGEX "p_cmd p"]
      num [of "p_nbf p"] pos [of "p_exp p"]
    by (simp add: norm_payload_def del: norm_obj)
qed

subsection \<open>Issue, then validate\<close>

lemma header_text:
  assumes "nfc_fixes nfc"
  shows "canonicalize nfc UCAN_HEADER = Inr (render UCAN_HEADER)" "norm nfc UCAN_HEADER = UCAN_HEADER"
proof -
  have k: "nfc ''alg'' = ''alg''" "nfc ''typ'' = ''typ''" "nfc ''ucv'' = ''ucv''"
    using assms unfolding nfc_fixes_def by simp_all
  have "surviving nfc [(''alg'', JStr ''EdDSA''), (''typ'', JStr ''JWT''), (''ucv'', JStr ''1.0.0-cb'')]
      = [(''alg'', JStr ''EdDSA''), (''typ'', JStr ''JWT''), (''ucv'', JStr ''1.0.0-cb'')]"
    by (simp add: surviving_def k)
  then show "canonicalize nfc UCAN_HEADER = Inr (render UCAN_HEADER)" "norm nfc UCAN_HEADER = UCAN_HEADER"
    by (simp_all add: UCAN_HEADER_def)
qed

lemma header_parsed:
  assumes "nfc_fixes (e_nfc E)"
  shows "JSON_parse (e_nd E) (render UCAN_HEADER) = Some UCAN_HEADER"
  using canonicalize_parse [OF header_text(1) [OF assms], of "e_nd E"] header_text(2) [OF assms]
  by (simp add: UCAN_HEADER_def)

lemma header_fields: "parseHeader UCAN_HEADER = Some (''EdDSA'', ''JWT'', ''1.0.0-cb'')"
  by (simp add: parseHeader_def UCAN_HEADER_def jget_def)

lemma issueUcan_parts:
  assumes "issueUcan E payload sk = Inr issued"
  obtains h p sig where
    "canonicalize (e_nfc E) UCAN_HEADER = Inr h"
    "canonicalize (e_nfc E) (JObj (payloadObj (ui_payload issued))) = Inr p"
    "signDetached E sk (stringToBase64url h @ ''.'' @ stringToBase64url p) = Inr sig"
    "ui_jwt issued = stringToBase64url h @ ''.'' @ stringToBase64url p @ ''.'' @ bytesToBase64url sig"
    "ui_cid issued = computeCid E (ui_jwt issued)"
    "wf_payload (ui_payload issued)"
    "canonicalizeDid E (p_iss payload) = Inr (p_iss (ui_payload issued))"
    "canonicalizeDid E (p_aud payload) = Inr (p_aud (ui_payload issued))"
    "p_cmd (ui_payload issued) = p_cmd payload"
    "p_exp (ui_payload issued) = p_exp payload" "p_nbf (ui_payload issued) = p_nbf payload"
proof -
  from assms obtain iss aud v h p sig where
    iss: "canonicalizeDid E (p_iss payload) = Inr iss" "canonicalizeDid E (p_aud payload) = Inr aud" and
    v: "parsePayload (JObj (payloadObj (payload\<lparr>p_iss := iss, p_aud := aud\<rparr>))) = Some v" and
    c: "canonicalize (e_nfc E) UCAN_HEADER = Inr h" "canonicalize (e_nfc E) (JObj (payloadObj v)) = Inr p"
    "signDetached E sk (stringToBase64url h @ ''.'' @ stringToBase64url p) = Inr sig" and
    i: "issued = \<lparr>ui_cid = computeCid E (stringToBase64url h @ ''.'' @ stringToBase64url p @ ''.'' @ bytesToBase64url sig),
      ui_jwt = stringToBase64url h @ ''.'' @ stringToBase64url p @ ''.'' @ bytesToBase64url sig, ui_payload = v\<rparr>"
    by (auto simp: issueUcan_def rbind_Inr_iff Let_def simp del: norm_obj canonicalize_obj split: option.splits)
  from v have "p_iss v = iss" "p_aud v = aud" "p_cmd v = p_cmd payload" "p_exp v = p_exp payload" "p_nbf v = p_nbf payload"
    unfolding parsePayload_def bind_eq_Some_conv by (auto simp: payloadObj_jget zod_iff split: if_splits)
  with that [OF c(1) _ _ _ _ _ _ _ _ _ _] c i iss parsePayload_wf [OF v] show ?thesis by simp
qed

lemma parse_issued:
  assumes "nfc_fixes (e_nfc E)" "issueUcan E payload sk = Inr issued"
    "numerals_ok (e_nd E) (JObj (payloadObj (ui_payload issued)))"
  obtains u sig where "parseUcanJwt E (ui_jwt issued) = Some u"
    "u_alg u = ''EdDSA''" "u_typ u = ''JWT''"
    "u_payload u = norm_payload (e_nfc E) (ui_payload issued)"
    "signDetached E sk (u_headerEnc u @ ''.'' @ u_payloadEnc u) = Inr sig" "u_signature u = sig"
proof -
  from assms(2) obtain h p sig where
    c: "canonicalize (e_nfc E) UCAN_HEADER = Inr h"
    "canonicalize (e_nfc E) (JObj (payloadObj (ui_payload issued))) = Inr p"
    "signDetached E sk (stringToBase64url h @ ''.'' @ stringToBase64url p) = Inr sig"
    "ui_jwt issued = stringToBase64url h @ ''.'' @ stringToBase64url p @ ''.'' @ bytesToBase64url sig"
    "wf_payload (ui_payload issued)"
    by (rule issueUcan_parts)
  have nd: "CHR ''.'' \<notin> set (stringToBase64url s)" "CHR ''.'' \<notin> set (bytesToBase64url s)" for s
    using base64url_no_special by (auto simp: stringToBase64url_def)
  have split: "split_on (CHR ''.'') (ui_jwt issued) =
      [stringToBase64url h, stringToBase64url p, bytesToBase64url sig]"
    unfolding c(4) using nd by (simp add: split_on_append split_on_no_sep)
  have rt: "base64urlToString (stringToBase64url s) = s" for s
    by (simp add: base64urlToString_def stringToBase64url_def base64url_roundtrip)
  have h: "h = render UCAN_HEADER" using c(1) header_text(1) [OF assms(1)] by simp
  have "parseUcanJwt E (ui_jwt issued) =
     Some \<lparr>u_alg = ''EdDSA'', u_typ = ''JWT'', u_ucv = ''1.0.0-cb'',
           u_payload = norm_payload (e_nfc E) (ui_payload issued), u_signature = sig,
           u_headerEnc = stringToBase64url h, u_payloadEnc = stringToBase64url p\<rparr>"
    unfolding parseUcanJwt_def split
    by (simp add: rt h header_parsed [OF assms(1)] header_fields canonicalize_parse [OF c(2) assms(3)]
        parse_norm_payload [OF c(5) assms(1)] base64url_roundtrip del: norm_obj)
  with that c(3) show ?thesis by simp
qed

lemma norm_payload_sel [simp]:
  "p_iss (norm_payload f p) = p_iss p" "p_aud (norm_payload f p) = p_aud p" "p_cmd (norm_payload f p) = p_cmd p"
  "p_nbf (norm_payload f p) = p_nbf p" "p_exp (norm_payload f p) = p_exp p"
  by (simp_all add: norm_payload_def)

lemma validate_issued:
  assumes "crypto_laws E" "nfc_fixes (e_nfc E)" "issueUcan E payload sk = Inr issued"
    "numerals_ok (e_nd E) (JObj (payloadObj (ui_payload issued)))"
    "publicKeyFromDid E (p_iss payload) = Inr (noble_getPublicKey E sk)"
    "p_nbf payload \<le> now_of clock opts" "now_of clock opts < p_exp payload"
    "audience_ok E (vo_audience opts) (p_aud payload)"
    "\<forall>c. vo_expectedCommand opts = Some c \<longrightarrow> actionMatchesGranted (p_cmd payload) c"
  shows "validateUcan E clock (ui_jwt issued) opts = Valid (norm_payload (e_nfc E) (ui_payload issued))"
proof -
  obtain u sig where u: "parseUcanJwt E (ui_jwt issued) = Some u"
    "u_alg u = ''EdDSA''" "u_typ u = ''JWT''"
    "u_payload u = norm_payload (e_nfc E) (ui_payload issued)"
    "signDetached E sk (u_headerEnc u @ ''.'' @ u_payloadEnc u) = Inr sig" "u_signature u = sig"
    by (rule parse_issued [OF assms(2,3,4)])
  from assms(3) have i: "canonicalizeDid E (p_iss payload) = Inr (p_iss (ui_payload issued))"
    "canonicalizeDid E (p_aud payload) = Inr (p_aud (ui_payload issued))"
    "p_cmd (ui_payload issued) = p_cmd payload"
    "p_exp (ui_payload issued) = p_exp payload" "p_nbf (ui_payload issued) = p_nbf payload"
    by (auto elim: issueUcan_parts)
  have "signed_by_issuer E u"
    unfolding signed_by_issuer_def
    using u assms(5) canonicalizeDid_did(1) [OF assms(1) i(1)] verify_own_signature [OF assms(1) u(5)] by simp
  moreover have "audience_ok E (vo_audience opts) (p_aud (ui_payload issued))"
    using assms(8) i(2) canonicalizeDid_did(2) [OF assms(1) i(2)] by (auto simp: audience_ok_def split: option.splits)
  ultimately show ?thesis
    unfolding validateUcan_Valid_iff using u i assms(6,7,9) by simp
qed

subsection \<open>One UCAN, many texts\<close>

lemma split_on_extend:
  assumes "split_on d s = ws @ [w]" "d \<notin> set junk"
  shows "split_on d (s @ junk) = ws @ [w @ junk]"
  using assms(1)
proof (induction s arbitrary: ws w)
  case Nil
  with assms(2) show ?case by (simp add: split_on_no_sep)
next
  case (Cons c s)
  show ?case
  proof (cases "c = d")
    case True
    with Cons.prems obtain ws' where "ws = [] # ws'" "split_on d s = ws' @ [w]"
      by (cases ws) auto
    with True Cons.IH show ?thesis by simp
  next
    case False
    obtain v vs where v: "split_on d s = v # vs" by (cases "split_on d s") auto
    with False Cons.prems have e: "(c # v) # vs = ws @ [w]" by simp
    show ?thesis
    proof (cases ws)
      case Nil
      with e v have "split_on d s = [] @ [v]" and w: "w = c # v" by auto
      then have "split_on d (s @ junk) = [v @ junk]" using Cons.IH [of "[]" v] by simp
      with False Nil w show ?thesis by simp
    next
      case (Cons a as)
      with e v have "split_on d s = (v # as) @ [w]" "a = c # v" by auto
      with Cons.IH False Cons show ?thesis by simp
    qed
  qed
qed

text \<open>base64urlToBytes stops at the first '=': everything after it in the signature segment is ignored,
  so the extended text verifies like the original.\<close>

lemma parseUcanJwt_extend:
  assumes "parseUcanJwt E jwt = Some u" "CHR ''.'' \<notin> set junk"
  shows "parseUcanJwt E (jwt @ ''='' @ junk) = Some u"
proof -
  from assms(1) obtain h p s where sp: "split_on (CHR ''.'') jwt = [h, p, s]"
    by (auto simp: parseUcanJwt_def split: list.splits)
  then have "split_on (CHR ''.'') (jwt @ ''='' @ junk) = [h, p, s @ CHR ''='' # junk]"
    using split_on_extend [of "CHR ''.''" jwt "[h, p]" s "CHR ''='' # junk"] assms(2) by simp
  with sp assms(1) show ?thesis
    by (auto simp: parseUcanJwt_def base64url_stop bind_eq_Some_conv)
qed

lemma validateUcan_extend:
  assumes "validateUcan E clock jwt opts = Valid p" "CHR ''.'' \<notin> set junk"
  shows "validateUcan E clock (jwt @ ''='' @ junk) opts = Valid p"
proof -
  from assms(1) obtain u where "parseUcanJwt E jwt = Some u" by (auto simp: validateUcan_Valid_iff)
  with parseUcanJwt_extend [OF this assms(2)] assms(1) show ?thesis by (simp add: validateUcan_def)
qed

end
