(* ===== verification/Decide.thy ===== *)
theory Decide
  imports Ucan_Roundtrip
begin

text \<open>
  packages/core/src/decide.ts, the decision procedure both PDP routes call, with
  packages/cedar/src (evaluate.ts, parse.ts, lint.ts, schema.ts) and
  packages/shared-types/src/authorize.ts. The Cedar engine is a WebAssembly module: its entry points
  are the fields of the record \<open>cedar\<close>, and a call into it may throw. \<open>decide\<close> returns
  \<open>(exn, AuthorizeDecision) result\<close>: the ZodError of a malformed leaf constraint and the errors of
  \<open>canonicalize\<close> reach its caller. The key \<open>__proto__\<close> does not occur in parsed requests (zod drops
  it), so \<open>mergeContext\<close> on association lists is the assignment loop of the source.
\<close>

subsection \<open>packages/cedar\<close>

datatype CedarDecision = CedarAllow | CedarDeny

record Entity =
  ent_uid :: "string \<times> string"
  ent_attrs :: obj
  ent_parents :: "(string \<times> string) list"

record CedarCall =
  cc_principal :: "string \<times> string"
  cc_action :: "string \<times> string"
  cc_resource :: "string \<times> string"
  cc_context :: obj
  cc_policies :: string
  cc_entities :: "Entity list"
  cc_schema :: "json option"

datatype CedarAnswer =
    CedarFailure "string list" "string list"
  | CedarResponse CedarDecision "string list" "string list" "string list"

record cedar =
  isAuthorized :: "CedarCall \<Rightarrow> (exn, CedarAnswer) result"
  checkParsePolicySet :: "string \<Rightarrow> (string list, unit) result"
  checkParseSchema :: "json \<Rightarrow> (string list, unit) result"
  formatPolicies :: "string \<Rightarrow> (string list, string) result"

record EvaluateInput =
  ei_policies :: string
  ei_principal :: "string \<times> string"
  ei_action :: "string \<times> string"
  ei_resource :: "string \<times> string"
  ei_context :: obj
  ei_entities :: "Entity list option"
  ei_schema :: "json option"

record EvaluateResult =
  er_decision :: CedarDecision
  er_reason :: "string list"
  er_errors :: "string list"
  er_warnings :: "string list"

definition evaluate :: "cedar \<Rightarrow> EvaluateInput \<Rightarrow> (exn, EvaluateResult) result" where
  "evaluate C inp =
     rbind (isAuthorized C
        \<lparr>cc_principal = ei_principal inp, cc_action = ei_action inp, cc_resource = ei_resource inp,
         cc_context = ei_context inp, cc_policies = ei_policies inp,
         cc_entities = (case ei_entities inp of None \<Rightarrow> [] | Some es \<Rightarrow> es), cc_schema = ei_schema inp\<rparr>)
       (\<lambda>r. Inr (case r of
            CedarFailure errs warns \<Rightarrow>
              \<lparr>er_decision = CedarDeny, er_reason = [], er_errors = errs, er_warnings = warns\<rparr>
          | CedarResponse d why errs warns \<Rightarrow>
              \<lparr>er_decision = d, er_reason = why, er_errors = errs, er_warnings = warns\<rparr>))"

definition parsePolicy :: "cedar \<Rightarrow> string \<Rightarrow> bool \<times> string list" where
  "parsePolicy C t = (case checkParsePolicySet C t of Inr _ \<Rightarrow> (True, []) | Inl errs \<Rightarrow> (False, errs))"

definition validateSchema :: "cedar \<Rightarrow> json \<Rightarrow> bool \<times> string list" where
  "validateSchema C s = (case checkParseSchema C s of Inr _ \<Rightarrow> (True, []) | Inl errs \<Rightarrow> (False, errs))"

datatype LintWarning = ParseWarning string | FormatWarning string

definition lintPolicy :: "cedar \<Rightarrow> string \<Rightarrow> bool \<times> LintWarning list" where
  "lintPolicy C t =
     (case checkParsePolicySet C t of
        Inl errs \<Rightarrow> (False, map ParseWarning errs)
      | Inr _ \<Rightarrow>
          (case formatPolicies C t of
             Inl errs \<Rightarrow> (False, map FormatWarning errs)
           | Inr formatted \<Rightarrow>
               if trim formatted \<noteq> trim t
               then (True, [FormatWarning ''policy is not formatted; run formatter to normalize''])
               else (True, [])))"

subsection \<open>authorize.ts: request and decision\<close>

record AuthorizeRequest =
  rq_ucan :: string
  rq_command :: string
  rq_resource :: obj
  rq_context :: obj
  rq_cosignerJwt :: "string option"
  rq_delegated_chain :: "string list option"
  rq_parent_receipt_id :: "string option"
  rq_swarm_id :: "string option"

definition context_keys :: "string list" where
  "context_keys = [''ip'', ''time'', ''user'']"

definition parseAuthorizeContext :: "json \<Rightarrow> obj option" where
  "parseAuthorizeContext v =
     Option.bind (as_obj v) (\<lambda>ob.
     Option.bind (z_opt z_string (jget ob ''ip'')) (\<lambda>_.
     Option.bind (z_opt z_nonnegative (jget ob ''time'')) (\<lambda>_.
     Option.bind (z_opt z_record (jget ob ''user'')) (\<lambda>_.
       Some (map (\<lambda>k. (k, jget ob k)) (filter (\<lambda>k. map_of ob k \<noteq> None) context_keys)
             @ filter (\<lambda>(k, v). k \<notin> set context_keys) ob)))))"

definition parseAuthorizeRequest :: "json \<Rightarrow> AuthorizeRequest option" where
  "parseAuthorizeRequest v =
     Option.bind (as_obj v) (\<lambda>ob.
     Option.bind (z_min1 (jget ob ''ucan'')) (\<lambda>ucan.
     Option.bind (z_match COMMAND_REGEX (jget ob ''command'')) (\<lambda>command.
     Option.bind (z_record (jget ob ''resource'')) (\<lambda>resource.
     Option.bind (parseAuthorizeContext (jget ob ''context'')) (\<lambda>ctx.
     Option.bind (z_opt z_min1 (jget ob ''cosignerJwt'')) (\<lambda>cosigner.
     Option.bind (z_opt (z_array z_min1) (jget ob ''delegated_chain'')) (\<lambda>chain.
     Option.bind (z_opt z_min1 (jget ob ''parent_receipt_id'')) (\<lambda>parent.
     Option.bind (z_opt z_min1 (jget ob ''swarm_id'')) (\<lambda>swarm.
       Some \<lparr>rq_ucan = ucan, rq_command = command, rq_resource = resource, rq_context = ctx,
             rq_cosignerJwt = cosigner, rq_delegated_chain = chain, rq_parent_receipt_id = parent,
             rq_swarm_id = swarm\<rparr>)))))))))"

definition requestObj :: "AuthorizeRequest \<Rightarrow> obj" where
  "requestObj r =
     [(''ucan'', JStr (rq_ucan r)), (''command'', JStr (rq_command r)), (''resource'', JObj (rq_resource r)),
      (''context'', JObj (rq_context r))]
     @ opt_str ''cosignerJwt'' (rq_cosignerJwt r)
     @ opt_json ''delegated_chain'' (map_option (\<lambda>ss. JArr (map JStr ss)) (rq_delegated_chain r))
     @ opt_str ''parent_receipt_id'' (rq_parent_receipt_id r)
     @ opt_str ''swarm_id'' (rq_swarm_id r)"

datatype DenyReason =
    D_expired | D_not_yet_valid | D_bad_signature | D_audience_mismatch | D_command_mismatch
  | D_revoked | D_policy_denied | D_oauth_token_invalid | D_unknown_customer | D_unknown_command
  | D_malformed_ucan | D_untrusted_issuer | D_step_up_required | D_cosigner_invalid
  | D_cosigner_expired | D_cosigner_already_used | D_resource_out_of_scope | D_resource_mismatch
  | D_schema_violation | D_schema_missing | D_agent_not_connected | D_agent_disabled
  | D_chain_invalid | D_chain_too_deep | D_chain_attenuation_violation

record AttenuationSummary =
  capability_lost :: "string list"
  resources_narrowed :: "string list"

record AuthorizeDecision =
  d_allow :: bool
  d_reason :: "DenyReason option"
  d_receiptId :: string
  d_requiresStepUp :: "bool option"
  d_stepUpUrl :: "string option"
  d_stepUpId :: "string option"
  d_chain_depth :: "nat option"
  d_attenuation :: "AttenuationSummary option"

definition allow_decision :: "string \<Rightarrow> AuthorizeDecision" where
  "allow_decision receipt =
     \<lparr>d_allow = True, d_reason = None, d_receiptId = receipt, d_requiresStepUp = None, d_stepUpUrl = None,
      d_stepUpId = None, d_chain_depth = None, d_attenuation = None\<rparr>"

definition deny_decision :: "DenyReason \<Rightarrow> string \<Rightarrow> AuthorizeDecision" where
  "deny_decision why receipt =
     \<lparr>d_allow = False, d_reason = Some why, d_receiptId = receipt, d_requiresStepUp = None, d_stepUpUrl = None,
      d_stepUpId = None, d_chain_depth = None, d_attenuation = None\<rparr>"

subsection \<open>decide.ts\<close>

definition DEFAULT_MAX_CHAIN_DEPTH :: nat where "DEFAULT_MAX_CHAIN_DEPTH = 8"

record DecideInput =
  di_ucan :: "string + string list"
  di_request :: AuthorizeRequest
  di_policies :: string
  di_revokedCids :: "string set option"
  di_schema :: "json option"
  di_trustedIssuerDid :: "string option"
  di_now :: "int option"
  di_maxChainDepth :: "nat option"

fun CHAIN_ERROR_TO_REASON :: "ChainError \<Rightarrow> DenyReason" where
  "CHAIN_ERROR_TO_REASON (of_validation malformed_ucan) = D_malformed_ucan"
| "CHAIN_ERROR_TO_REASON (of_validation bad_signature) = D_bad_signature"
| "CHAIN_ERROR_TO_REASON (of_validation expired) = D_expired"
| "CHAIN_ERROR_TO_REASON (of_validation not_yet_valid) = D_not_yet_valid"
| "CHAIN_ERROR_TO_REASON (of_validation audience_mismatch) = D_audience_mismatch"
| "CHAIN_ERROR_TO_REASON (of_validation command_mismatch) = D_command_mismatch"
| "CHAIN_ERROR_TO_REASON (of_validation issuer_unsupported) = D_malformed_ucan"
| "CHAIN_ERROR_TO_REASON broken_delegation = D_chain_invalid"
| "CHAIN_ERROR_TO_REASON over_attenuated = D_chain_attenuation_violation"
| "CHAIN_ERROR_TO_REASON empty_chain = D_malformed_ucan"

definition summarizeAttenuation :: "env \<Rightarrow> string list \<Rightarrow> (exn, AttenuationSummary option) result" where
  "summarizeAttenuation E jwts =
     (if length jwts < 2 then Inr None
      else case (parseUcanJwt E (hd jwts), parseUcanJwt E (last jwts)) of
          (Some root, Some leaf) \<Rightarrow>
            (let rp = u_payload root; lp = u_payload leaf;
                 lost = (if p_cmd rp \<noteq> p_cmd lp \<and> \<not> startsWith (p_cmd lp) (p_cmd rp) then [p_cmd rp] else [])
             in rbind (extractResourceConstraint (p_meta rp)) (\<lambda>rootCons.
                rbind (extractResourceConstraint (p_meta lp)) (\<lambda>leafCons.
                  Inr (Some \<lparr>capability_lost = lost,
                    resources_narrowed =
                      (case (rootCons, leafCons) of
                         (Some r, Some l) \<Rightarrow>
                           if render (JObj (constraintObj r)) \<noteq> render (JObj (constraintObj l))
                           then [''resource_constraint''] else []
                       | _ \<Rightarrow> [])\<rparr>))))
        | _ \<Rightarrow> Inr None)"

definition buildReceiptId :: "env \<Rightarrow> string list \<Rightarrow> AuthorizeRequest \<Rightarrow> (exn, string) result" where
  "buildReceiptId E jwts request =
     (let leafCid = computeCid E (last jwts)
      in rbind (lift_canon (canonicalize (e_nfc E) (JObj (requestObj request)))) (\<lambda>t.
           Inr (sha256Hex E (leafCid @ ''|'' @ t))))"

definition deny :: "env \<Rightarrow> DenyReason \<Rightarrow> string list \<Rightarrow> AuthorizeRequest \<Rightarrow> (exn, AuthorizeDecision) result" where
  "deny E why jwts request = rbind (buildReceiptId E jwts request) (\<lambda>r. Inr (deny_decision why r))"

fun merge_source :: "obj \<Rightarrow> obj \<Rightarrow> obj" where
  "merge_source out [] = out"
| "merge_source out ((k, v) # kvs) =
     merge_source
       (case (v, jget out k) of
          (JObj newer, JObj older) \<Rightarrow> jset k (JObj (obj_spread older newer)) out
        | _ \<Rightarrow> jset k v out) kvs"

fun mergeContext :: "obj \<Rightarrow> obj option list \<Rightarrow> obj" where
  "mergeContext out [] = out"
| "mergeContext out (None # srcs) = mergeContext out srcs"
| "mergeContext out (Some src # srcs) = mergeContext (merge_source out src) srcs"

definition max_date_seconds :: int where "max_date_seconds = 8640000000000"

definition utc_hours :: "int \<Rightarrow> jsnum" where
  "utc_hours sec = (if abs sec > max_date_seconds then JNonFinite else JInt (sec div 3600 mod 24))"

definition computeEphemeralContext :: "int \<Rightarrow> obj" where
  "computeEphemeralContext nowSec =
     [(''time'', JObj [(''hour'', JNum (utc_hours nowSec)), (''epoch'', JNum (JInt nowSec))])]"

definition extractContextHints :: "obj option \<Rightarrow> obj option" where
  "extractContextHints m = (case m of None \<Rightarrow> None | Some ob \<Rightarrow> as_obj (jget ob ''context_hints''))"

definition ancestors :: "env \<Rightarrow> string list \<Rightarrow> string list" where
  "ancestors E jwts =
     map (\<lambda>jwt. case parseUcanJwt E jwt of None \<Rightarrow> ''unknown'' | Some u \<Rightarrow> p_aud (u_payload u)) (butlast jwts)"

definition decision_context ::
  "AuthorizeRequest \<Rightarrow> int \<Rightarrow> UcanPayload \<Rightarrow> ResourceConstraint option \<Rightarrow> obj" where
  "decision_context request now leaf constraint =
     mergeContext []
       [Some (rq_context request), Some (computeEphemeralContext now), extractContextHints (p_meta leaf),
        map_option (\<lambda>c. [(''resource_constraint'', JObj (constraintObj c))]) constraint]"

definition cedar_question ::
  "env \<Rightarrow> DecideInput \<Rightarrow> string list \<Rightarrow> int \<Rightarrow> UcanPayload \<Rightarrow> UcanPayload \<Rightarrow> ResourceConstraint option \<Rightarrow> EvaluateInput"
  where
  "cedar_question E inp jwts now root leaf constraint =
     \<lparr>ei_policies = di_policies inp, ei_principal = (''Agent'', p_aud leaf),
      ei_action = (''Action'', rq_command (di_request inp)), ei_resource = (''Resource'', ''__request__''),
      ei_context = decision_context (di_request inp) now leaf constraint,
      ei_entities = Some
        [\<lparr>ent_uid = (''Agent'', p_aud leaf),
          ent_attrs =
            [(''delegationDepth'', JNum (JInt (int (length jwts - 1)))), (''rootAgent'', JStr (p_aud root)),
             (''invokedBy'', JArr (map JStr (ancestors E jwts)))],
          ent_parents = []\<rparr>,
         \<lparr>ent_uid = (''Resource'', ''__request__''), ent_attrs = rq_resource (di_request inp), ent_parents = []\<rparr>],
      ei_schema = di_schema inp\<rparr>"

definition revoked_in :: "env \<Rightarrow> string set option \<Rightarrow> string list \<Rightarrow> bool" where
  "revoked_in E cids jwts = (case cids of None \<Rightarrow> False | Some s \<Rightarrow> (\<exists>jwt \<in> set jwts. computeCid E jwt \<in> s))"

definition decide_jwts :: "DecideInput \<Rightarrow> string list" where
  "decide_jwts inp = (case di_ucan inp of Inl jwt \<Rightarrow> [jwt] | Inr js \<Rightarrow> js)"

definition decide_now :: "int \<Rightarrow> DecideInput \<Rightarrow> int" where
  "decide_now clock inp = (case di_now inp of None \<Rightarrow> clock | Some n \<Rightarrow> n)"

definition max_depth :: "DecideInput \<Rightarrow> nat" where
  "max_depth inp = (case di_maxChainDepth inp of None \<Rightarrow> DEFAULT_MAX_CHAIN_DEPTH | Some d \<Rightarrow> d)"

definition chain_options :: "int \<Rightarrow> DecideInput \<Rightarrow> ValidateOptions" where
  "chain_options now inp =
     \<lparr>vo_audience = None, vo_expectedCommand = Some (rq_command (di_request inp)), vo_now = Some now\<rparr>"

definition decide_validated ::
  "env \<Rightarrow> cedar \<Rightarrow> DecideInput \<Rightarrow> string list \<Rightarrow> int \<Rightarrow> UcanPayload \<Rightarrow> UcanPayload \<Rightarrow> (exn, AuthorizeDecision) result"
  where
  "decide_validated E C inp jwts now root leaf =
     (let request = di_request inp
      in if str_truthy (di_trustedIssuerDid inp) \<and> di_trustedIssuerDid inp \<noteq> Some (p_iss root)
         then deny E D_untrusted_issuer jwts request
         else if revoked_in E (di_revokedCids inp) jwts then deny E D_revoked jwts request
         else
           rbind (extractResourceConstraint (p_meta leaf)) (\<lambda>constraint.
             if (case constraint of None \<Rightarrow> False | Some c \<Rightarrow> \<not> constraintMatchesResource c (rq_resource request))
             then deny E D_resource_out_of_scope jwts request
             else
               rbind (evaluate C (cedar_question E inp jwts now root leaf constraint)) (\<lambda>cedarResult.
               rbind (summarizeAttenuation E jwts) (\<lambda>attenuation.
                 (let chainDepth = length jwts - 1;
                      chainFields = (\<lambda>d. if chainDepth > 0
                        then d\<lparr>d_chain_depth := Some chainDepth, d_attenuation := attenuation\<rparr> else d)
                  in if er_decision cedarResult = CedarDeny
                     then rbind (deny E D_policy_denied jwts request) (\<lambda>d. Inr (chainFields d))
                     else rbind (buildReceiptId E jwts request) (\<lambda>r. Inr (chainFields (allow_decision r))))))))"

definition decide :: "env \<Rightarrow> cedar \<Rightarrow> int \<Rightarrow> DecideInput \<Rightarrow> (exn, AuthorizeDecision) result" where
  "decide E C clock inp =
     (let jwts = decide_jwts inp; now = decide_now clock inp; request = di_request inp
      in if jwts = [] then
           rbind (lift_canon (canonicalize (e_nfc E) (JObj (requestObj request)))) (\<lambda>t.
             Inr (deny_decision D_malformed_ucan (sha256Hex E (''empty|'' @ t))))
         else if length jwts > max_depth inp then deny E D_chain_too_deep jwts request
         else
           rbind (validateChain E (\<lambda>_. clock) jwts (chain_options now inp)) (\<lambda>chainResult.
             case chainResult of
               ChainInvalid e \<Rightarrow> deny E (CHAIN_ERROR_TO_REASON e) jwts request
             | ChainValid root leaf \<Rightarrow> decide_validated E C inp jwts now root leaf))"

subsection \<open>What an allow rests on\<close>

text \<open>\<open>verified_delegation E now jwts ps\<close> is the specification of an authentic chain: the tokens
  parse to the payloads, each is signed by the key of its issuer and inside its validity window, and
  each issuer is the audience of the token before.\<close>

definition verified_delegation :: "env \<Rightarrow> int \<Rightarrow> string list \<Rightarrow> UcanPayload list \<Rightarrow> bool" where
  "verified_delegation E now jwts ps \<longleftrightarrow>
     ps \<noteq> [] \<and> length ps = length jwts \<and>
     (\<forall>j < length jwts. \<exists>u. parseUcanJwt E (jwts ! j) = Some u \<and> u_payload u = ps ! j \<and> signed_by_issuer E u \<and>
        p_nbf (ps ! j) \<le> now \<and> now < p_exp (ps ! j)) \<and>
     linked (\<lambda>parent child. p_iss child = p_aud parent) ps"

lemma validateChain_verified:
  assumes "validateChain E clock jwts opts = Inr (ChainValid root leaf)" "vo_now opts = Some now"
  obtains ps where "verified_delegation E now jwts ps" "linked link_ok ps" "root = hd ps" "leaf = last ps"
    "\<forall>c. vo_expectedCommand opts = Some c \<longrightarrow> actionMatchesGranted (p_cmd leaf) c"
proof -
  from assms(1) obtain ps where ps: "validate_each E clock 0 jwts opts = Inr ps" "linked link_ok ps" "ps \<noteq> []"
    "jwts \<noteq> []" "root = hd ps" "leaf = last ps"
    by (rule validateChain_ChainValid)
  note each = validate_each_Inr [OF ps(1)]
  have now: "now_of c opts = now" for c using assms(2) by (simp add: now_of_def)
  have "linked (\<lambda>parent child. p_iss child = p_aud parent) ps"
    by (rule linked_mono [OF ps(2)]) (simp add: link_ok_def)
  with each ps now have "verified_delegation E now jwts ps" by (simp add: verified_delegation_def)
  with that ps each show ?thesis by simp
qed

lemma deny_Inr: "deny E why jwts request = Inr d \<longleftrightarrow> (\<exists>r. buildReceiptId E jwts request = Inr r \<and> d = deny_decision why r)"
  by (auto simp: deny_def rbind_Inr_iff)

lemma decision_sel [simp]:
  "d_allow (deny_decision why r) = False" "d_reason (deny_decision why r) = Some why"
  "d_receiptId (deny_decision why r) = r" "d_chain_depth (deny_decision why r) = None"
  "d_allow (allow_decision r) = True" "d_reason (allow_decision r) = None"
  "d_receiptId (allow_decision r) = r" "d_chain_depth (allow_decision r) = None"
  by (simp_all add: deny_decision_def allow_decision_def)

lemma decide_validated_cases:
  assumes "decide_validated E C inp jwts now root leaf = Inr d"
  obtains why where "why = D_untrusted_issuer \<or> why = D_revoked \<or> why = D_resource_out_of_scope \<and>
        (\<exists>k. extractResourceConstraint (p_meta leaf) = Inr (Some k) \<and>
             \<not> constraintMatchesResource k (rq_resource (di_request inp)))"
      "deny E why jwts (di_request inp) = Inr d"
  | c er att r where
      "str_truthy (di_trustedIssuerDid inp) \<longrightarrow> di_trustedIssuerDid inp = Some (p_iss root)"
      "\<not> revoked_in E (di_revokedCids inp) jwts"
      "extractResourceConstraint (p_meta leaf) = Inr c"
      "\<forall>k. c = Some k \<longrightarrow> constraintMatchesResource k (rq_resource (di_request inp))"
      "evaluate C (cedar_question E inp jwts now root leaf c) = Inr er"
      "summarizeAttenuation E jwts = Inr att"
      "buildReceiptId E jwts (di_request inp) = Inr r"
      "d = (let d0 = (if er_decision er = CedarDeny then deny_decision D_policy_denied r else allow_decision r)
            in if length jwts - 1 > 0
               then d0\<lparr>d_chain_depth := Some (length jwts - 1), d_attenuation := att\<rparr> else d0)"
proof (cases "(str_truthy (di_trustedIssuerDid inp) \<and> di_trustedIssuerDid inp \<noteq> Some (p_iss root)) \<or>
    revoked_in E (di_revokedCids inp) jwts")
  case True
  then have "deny E (if str_truthy (di_trustedIssuerDid inp) \<and> di_trustedIssuerDid inp \<noteq> Some (p_iss root)
      then D_untrusted_issuer else D_revoked) jwts (di_request inp) = Inr d"
    using assms by (auto simp: decide_validated_def Let_def)
  then show ?thesis by (rule that(1) [rotated]) simp
next
  case False
  then have n: "(str_truthy (di_trustedIssuerDid inp) \<and> di_trustedIssuerDid inp \<noteq> Some (p_iss root)) = False"
      "revoked_in E (di_revokedCids inp) jwts = False" by auto
  from rbind_Inr_iff [THEN iffD1, OF assms [unfolded decide_validated_def Let_def n if_False]]
  obtain c where c: "extractResourceConstraint (p_meta leaf) = Inr c"
    and rest: "(if (case c of None \<Rightarrow> False | Some k \<Rightarrow> \<not> constraintMatchesResource k (rq_resource (di_request inp)))
       then deny E D_resource_out_of_scope jwts (di_request inp)
       else rbind (evaluate C (cedar_question E inp jwts now root leaf c)) (\<lambda>cedarResult.
            rbind (summarizeAttenuation E jwts) (\<lambda>att.
              if er_decision cedarResult = CedarDeny
              then rbind (deny E D_policy_denied jwts (di_request inp))
                (\<lambda>d. Inr (if length jwts - 1 > 0 then d\<lparr>d_chain_depth := Some (length jwts - 1), d_attenuation := att\<rparr> else d))
              else rbind (buildReceiptId E jwts (di_request inp))
                (\<lambda>r. Inr (if length jwts - 1 > 0
                   then (allow_decision r)\<lparr>d_chain_depth := Some (length jwts - 1), d_attenuation := att\<rparr>
                   else allow_decision r))))) = Inr d"
    by blast
  show ?thesis
  proof (cases "case c of None \<Rightarrow> False | Some k \<Rightarrow> \<not> constraintMatchesResource k (rq_resource (di_request inp))")
    case True
    with rest c show ?thesis by (intro that(1) [of D_resource_out_of_scope]) (auto split: option.splits)
  next
    case ok: False
    with rest obtain er att where e: "evaluate C (cedar_question E inp jwts now root leaf c) = Inr er"
      "summarizeAttenuation E jwts = Inr att"
      and d: "(if er_decision er = CedarDeny
              then rbind (deny E D_policy_denied jwts (di_request inp))
                (\<lambda>d. Inr (if length jwts - 1 > 0 then d\<lparr>d_chain_depth := Some (length jwts - 1), d_attenuation := att\<rparr> else d))
              else rbind (buildReceiptId E jwts (di_request inp))
                (\<lambda>r. Inr (if length jwts - 1 > 0
                   then (allow_decision r)\<lparr>d_chain_depth := Some (length jwts - 1), d_attenuation := att\<rparr>
                   else allow_decision r))) = Inr d"
      unfolding if_not_P [OF ok] rbind_Inr_iff by blast
    from d obtain r where "buildReceiptId E jwts (di_request inp) = Inr r"
      "d = (let d0 = (if er_decision er = CedarDeny then deny_decision D_policy_denied r else allow_decision r)
            in if length jwts - 1 > 0
               then d0\<lparr>d_chain_depth := Some (length jwts - 1), d_attenuation := att\<rparr> else d0)"
      by (cases "er_decision er = CedarDeny") (auto simp: rbind_Inr_iff deny_Inr Let_def)
    with False c ok e show ?thesis by (intro that(2)) (auto split: option.splits)
  qed
qed

lemma decide_cases:
  assumes "decide E C clock inp = Inr d"
  obtains "decide_jwts inp = []" "d_reason d = Some D_malformed_ucan" "\<not> d_allow d" "d_chain_depth d = None"
  | why where "decide_jwts inp \<noteq> []" "why \<noteq> D_policy_denied" "deny E why (decide_jwts inp) (di_request inp) = Inr d"
      "why \<noteq> D_resource_out_of_scope"
  | root leaf where "decide_jwts inp \<noteq> []" "length (decide_jwts inp) \<le> max_depth inp"
      "validateChain E (\<lambda>_. clock) (decide_jwts inp) (chain_options (decide_now clock inp) inp) = Inr (ChainValid root leaf)"
      "decide_validated E C inp (decide_jwts inp) (decide_now clock inp) root leaf = Inr d"
proof -
  note def = assms [unfolded decide_def Let_def]
  have reason: "CHAIN_ERROR_TO_REASON e \<noteq> D_policy_denied \<and> CHAIN_ERROR_TO_REASON e \<noteq> D_resource_out_of_scope" for e
  proof (cases e)
    case (of_validation v)
    then show ?thesis by (cases v) auto
  qed auto
  consider (empty) "decide_jwts inp = []"
    | (deep) "decide_jwts inp \<noteq> []" "length (decide_jwts inp) > max_depth inp"
    | (chain) "decide_jwts inp \<noteq> []" "length (decide_jwts inp) \<le> max_depth inp"
    by linarith
  then show ?thesis
  proof cases
    case empty
    with def show ?thesis by (intro that(1)) (auto simp: rbind_Inr_iff)
  next
    case deep
    with def show ?thesis by (intro that(2) [of D_chain_too_deep]) auto
  next
    case chain
    with def obtain cr where v: "validateChain E (\<lambda>_. clock) (decide_jwts inp) (chain_options (decide_now clock inp) inp) = Inr cr"
      and r: "(case cr of ChainInvalid e \<Rightarrow> deny E (CHAIN_ERROR_TO_REASON e) (decide_jwts inp) (di_request inp)
        | ChainValid root leaf \<Rightarrow> decide_validated E C inp (decide_jwts inp) (decide_now clock inp) root leaf) = Inr d"
      by (auto simp: rbind_Inr_iff)
    show ?thesis
    proof (cases cr)
      case (ChainValid root leaf)
      with chain v r that(3) show ?thesis by simp
    next
      case (ChainInvalid e)
      with chain r reason [of e] show ?thesis by (intro that(2) [of "CHAIN_ERROR_TO_REASON e"]) simp_all
    qed
  qed
qed

lemma decide_allow:
  assumes "decide E C clock inp = Inr d" "d_allow d"
  obtains root leaf c er where
    "decide_jwts inp \<noteq> []" "length (decide_jwts inp) \<le> max_depth inp"
    "validateChain E (\<lambda>_. clock) (decide_jwts inp) (chain_options (decide_now clock inp) inp) = Inr (ChainValid root leaf)"
    "str_truthy (di_trustedIssuerDid inp) \<longrightarrow> di_trustedIssuerDid inp = Some (p_iss root)"
    "\<not> revoked_in E (di_revokedCids inp) (decide_jwts inp)"
    "extractResourceConstraint (p_meta leaf) = Inr c"
    "\<forall>k. c = Some k \<longrightarrow> constraintMatchesResource k (rq_resource (di_request inp))"
    "evaluate C (cedar_question E inp (decide_jwts inp) (decide_now clock inp) root leaf c) = Inr er"
    "er_decision er = CedarAllow"
  using assms(1)
proof (cases rule: decide_cases)
  case (2 why)
  with assms(2) show ?thesis by (auto simp: deny_Inr)
next
  case (3 root leaf)
  from 3(4) show ?thesis
  proof (cases rule: decide_validated_cases)
    case (1 why)
    with assms(2) show ?thesis by (auto simp: deny_Inr)
  next
    case (2 c er att r)
    from 2(8) assms(2) have "er_decision er \<noteq> CedarDeny" by (auto simp: Let_def split: if_splits)
    then have "er_decision er = CedarAllow" by (cases "er_decision er") auto
    with 2 3 that show ?thesis by simp
  qed
qed (use assms in auto)

lemma decide_receipt:
  assumes "decide E C clock inp = Inr d" "decide_jwts inp \<noteq> []"
  shows "buildReceiptId E (decide_jwts inp) (di_request inp) = Inr (d_receiptId d)"
  using assms(1)
proof (cases rule: decide_cases)
  case (3 root leaf)
  from 3(4) show ?thesis
    by (cases rule: decide_validated_cases) (auto simp: deny_Inr Let_def)
qed (use assms in \<open>auto simp: deny_Inr\<close>)

subsection \<open>The evaluation context, key by key\<close>

text \<open>\<open>layer\<close> is what one source of the merge does to one key: an object over an object merges their
  members, anything else replaces.\<close>

fun layer :: "json \<Rightarrow> json \<Rightarrow> json" where
  "layer (JObj newer) (JObj older) = JObj (obj_spread older newer)"
| "layer v w = v"

lemma merge_source_step:
  "merge_source out ((k, v) # kvs) = merge_source (jset k (layer v (jget out k)) out) kvs"
  by (cases v; cases "jget out k") simp_all

lemma jget_merge_source:
  "distinct_keys src \<Longrightarrow>
     jget (merge_source out src) k = (case map_of src k of None \<Rightarrow> jget out k | Some v \<Rightarrow> layer v (jget out k))"
proof (induction src arbitrary: out)
  case (Cons kv src)
  obtain k' v where kv: "kv = (k', v)" by fastforce
  from Cons.prems kv have "k' \<notin> fst ` set src" "distinct_keys src" by (auto simp: distinct_keys_def)
  then have "map_of src k' = None" by (simp add: map_of_eq_None_iff)
  with Cons.IH \<open>distinct_keys src\<close> kv show ?case
    by (auto simp: merge_source_step simp del: merge_source.simps split: option.splits)
qed simp

definition over :: "obj option \<Rightarrow> string \<Rightarrow> json \<Rightarrow> json" where
  "over src k w =
     (case src of None \<Rightarrow> w | Some s \<Rightarrow> (case map_of s k of None \<Rightarrow> w | Some v \<Rightarrow> layer v w))"

lemma jget_mergeContext:
  "\<forall>src. Some src \<in> set srcs \<longrightarrow> distinct_keys src \<Longrightarrow>
     jget (mergeContext out srcs) k = fold (\<lambda>src w. over src k w) srcs (jget out k)"
proof (induction out srcs rule: mergeContext.induct)
  case (3 out src srcs)
  then have "distinct_keys src" by simp
  with 3 show ?case by (simp add: jget_merge_source over_def)
qed (auto simp: over_def)

lemma over_request: "over (Some ob) k JUndef = jget ob k"
proof -
  have "layer v JUndef = v" for v by (cases v) simp_all
  then show ?thesis by (simp add: over_def jget_def split: option.splits)
qed

lemma decision_context_lookup:
  assumes "distinct_keys (rq_context request)" "\<forall>h. extractContextHints (p_meta leaf) = Some h \<longrightarrow> distinct_keys h"
  shows "jget (decision_context request now leaf c) k =
    over (map_option (\<lambda>c. [(''resource_constraint'', JObj (constraintObj c))]) c) k
      (over (extractContextHints (p_meta leaf)) k
        (over (Some (computeEphemeralContext now)) k (jget (rq_context request) k)))"
proof -
  have "jget (decision_context request now leaf c) k =
    fold (\<lambda>src w. over src k w)
       [Some (rq_context request), Some (computeEphemeralContext now), extractContextHints (p_meta leaf),
        map_option (\<lambda>c. [(''resource_constraint'', JObj (constraintObj c))]) c] (jget [] k)"
    unfolding decision_context_def
    by (rule jget_mergeContext) (use assms in \<open>cases c; auto simp: computeEphemeralContext_def distinct_keys_def\<close>)
  also have "jget [] k = JUndef" by (simp add: jget_def)
  finally show ?thesis by (simp add: over_request)
qed

end
