(* ===== verification/Demo_Decide.thy ===== *)
theory Demo_Decide
  imports Crypto Ucan_Roundtrip Decide
begin

text \<open>
  A concrete instance of the third-party primitives that satisfies \<open>crypto_laws\<close>, for the witnesses:
  hexadecimal over sixteen letters, a multibase code of two letters a byte, a signature that keeps
  the last bytes of the message, an AEAD that prefixes its nonce and associated data. It is no
  cryptography: it shows that the laws can hold together and lets the model be evaluated.
\<close>

definition nibble_char :: "nat \<Rightarrow> char" where
  "nibble_char n = (if n < 8 then char_of (65 + n) else char_of (89 + n))"

definition char_nibble :: "char \<Rightarrow> nat" where
  "char_nibble c = (if of_char c < (90 :: nat) then of_char c - 65 else of_char c - 89)"

definition demo_hex :: "string \<Rightarrow> string" where
  "demo_hex b = concat (map (\<lambda>c. [nibble_char (of_char c div 16), nibble_char (of_char c mod 16)]) b)"

fun demo_unhex :: "string \<Rightarrow> string option" where
  "demo_unhex [] = Some []"
| "demo_unhex [c] = None"
| "demo_unhex (a # b # s) =
     map_option (\<lambda>t. char_of (16 * char_nibble a + char_nibble b) # t) (demo_unhex s)"

definition demo_base58_decode :: "string \<Rightarrow> string option" where
  "demo_base58_decode s = (case s of [] \<Rightarrow> None | c # t \<Rightarrow> if c = CHR ''z'' then demo_unhex t else None)"

definition demo_signature :: "string \<Rightarrow> string \<Rightarrow> string" where
  "demo_signature m pk = take 64 (rev m @ replicate 64 (CHR 0x00))"

definition demo_tag :: "string option \<Rightarrow> string" where
  "demo_tag aad = (case aad of None \<Rightarrow> [] | Some a \<Rightarrow> a)"

definition demo_open :: "string \<Rightarrow> string \<Rightarrow> string option \<Rightarrow> string \<Rightarrow> string option" where
  "demo_open k n aad ct =
     (if take (length n + length (demo_tag aad)) ct = n @ demo_tag aad
      then Some (drop (length n + length (demo_tag aad)) ct) else None)"

definition demo_env :: env where
  "demo_env =
     \<lparr>e_nfc = (\<lambda>s. s), e_nd = JDec,
      noble_sha256 = (\<lambda>s. s), noble_bytesToHex = demo_hex, noble_hexToBytes = demo_unhex,
      noble_sign = (\<lambda>m sk. demo_signature m sk),
      noble_verify = (\<lambda>sig m pk. Some (sig = demo_signature m pk)),
      noble_getPublicKey = (\<lambda>sk. sk),
      base58_encode = (\<lambda>b. CHR ''z'' # demo_hex b), base58_decode = demo_base58_decode,
      aead_encrypt = (\<lambda>k n aad p. n @ demo_tag aad @ p), aead_decrypt = demo_open\<rparr>"

lemma nibble_roundtrip: "n < 16 \<Longrightarrow> char_nibble (nibble_char n) = n"
  by (auto simp: nibble_char_def char_nibble_def)

lemma nibble_base58:
  assumes "n < 16" shows "base58_char (nibble_char n)"
proof (cases "n < 8")
  case True
  then have c: "(of_char (nibble_char n) :: nat) = 65 + n" by (simp add: nibble_char_def)
  then have "nibble_char n \<noteq> CHR ''I''" "nibble_char n \<noteq> CHR ''O''" "nibble_char n \<noteq> CHR ''0''" "nibble_char n \<noteq> CHR ''l''"
    using True by auto
  with c True show ?thesis by (simp add: base58_char_def is_alnum_def upper_nat)
next
  case False
  with assms have c: "(of_char (nibble_char n) :: nat) = 89 + n" by (simp add: nibble_char_def)
  then have "nibble_char n \<noteq> CHR ''I''" "nibble_char n \<noteq> CHR ''O''" "nibble_char n \<noteq> CHR ''0''" "nibble_char n \<noteq> CHR ''l''"
    using False assms by auto
  with c False assms show ?thesis by (simp add: base58_char_def is_alnum_def lower_nat)
qed

lemma demo_hex_Cons: "demo_hex (c # b) = nibble_char (of_char c div 16) # nibble_char (of_char c mod 16) # demo_hex b"
  by (simp add: demo_hex_def)

lemma demo_hex_Nil [simp]: "demo_hex [] = []"
  by (simp add: demo_hex_def)

lemma demo_unhex_hex: "demo_unhex (demo_hex b) = Some b"
proof (induction b)
  case (Cons c b)
  have "(of_char c :: nat) < 256" by simp
  then have "(of_char c :: nat) div 16 < 16" by linarith
  with Cons show ?case by (simp add: demo_hex_Cons nibble_roundtrip)
qed simp

lemma demo_hex_chars: "x \<in> set (demo_hex b) \<Longrightarrow> base58_char x"
proof (induction b)
  case (Cons c b)
  have "(of_char c :: nat) < 256" by simp
  then have "(of_char c :: nat) div 16 < 16" by linarith
  with Cons show ?case by (auto simp: demo_hex_Cons nibble_base58)
qed simp

lemma demo_hex_length: "length (demo_hex b) = 2 * length b"
  by (induction b) (simp_all add: demo_hex_Cons)

lemma demo_hex_empty: "demo_hex b = [] \<longleftrightarrow> b = []"
  by (metis demo_hex_length length_0_conv mult_is_0 zero_neq_numeral)

lemma demo_laws: "crypto_laws demo_env"
  by (auto simp: crypto_laws_def demo_env_def demo_unhex_hex demo_hex_length demo_base58_decode_def
      demo_hex_chars demo_hex_empty demo_signature_def demo_open_def)

text \<open>
  Concrete UCANs over the demonstration primitives, issued by the model's own \<open>issueUcan\<close>: the
  inputs of the witnesses. \<open>demo_valid\<close> says that the model validates them.
\<close>

definition demo_key :: "char \<Rightarrow> string" where
  "demo_key c = replicate 32 c"

definition demo_did :: "string \<Rightarrow> string" where
  "demo_did sk = ''did:key:z'' @ demo_hex (ED25519_PUB_MULTICODEC @ sk)"

definition demo_payload :: "string \<Rightarrow> string \<Rightarrow> string \<Rightarrow> obj option \<Rightarrow> int \<Rightarrow> int \<Rightarrow> UcanPayload" where
  "demo_payload sk aud cmd m nbf exp =
     \<lparr>p_iss = demo_did sk, p_aud = demo_did aud, p_cmd = cmd, p_sub = None, p_pol = [], p_nonce = ''n'',
      p_meta = m, p_nbf = nbf, p_exp = exp, p_prf = None\<rparr>"

definition demo_jwt :: "string \<Rightarrow> UcanPayload \<Rightarrow> string" where
  "demo_jwt sk p = (case issueUcan demo_env p sk of Inl _ \<Rightarrow> [] | Inr i \<Rightarrow> ui_jwt i)"

lemma demo_nfc: "e_nfc demo_env = (\<lambda>s. s)" "nfc_fixes (e_nfc demo_env)"
  by (simp_all add: demo_env_def nfc_fixes_def)

lemma base58_alnum: "base58_char c \<Longrightarrow> did_id_char c"
  by (simp add: base58_char_def did_id_char_def)

lemma demo_did_regex: "DID_REGEX (demo_did sk)"
proof -
  have "\<forall>c \<in> set (CHR ''z'' # demo_hex b). did_id_char c" for b
    using base58_alnum demo_hex_chars by (auto simp: did_id_char_def is_alnum_def is_lower_def char_le_nat)
  then show ?thesis
    by (simp add: DID_REGEX_def demo_did_def did_method_char_def is_lower_def is_digit_alt char_le_nat)
qed

lemma demo_did_key:
  assumes "length sk = 32"
  shows "publicKeyFromDid demo_env (demo_did sk) = Inr sk" "canonicalizeDid demo_env (demo_did sk) = Inr (demo_did sk)"
proof -
  have d: "didFromPublicKey demo_env sk = Inr (demo_did sk)"
    using assms by (simp add: didFromPublicKey_def demo_did_def demo_env_def)
  from did_roundtrip [OF demo_laws assms d] show k: "publicKeyFromDid demo_env (demo_did sk) = Inr sk" .
  from k d show "canonicalizeDid demo_env (demo_did sk) = Inr (demo_did sk)" by (simp add: canonicalizeDid_def)
qed

lemma demo_payload_wf:
  "COMMAND_REGEX cmd \<Longrightarrow> 0 \<le> nbf \<Longrightarrow> nbf < exp \<Longrightarrow> wf_payload (demo_payload sk aud cmd m nbf exp)"
  by (simp add: wf_payload_def demo_payload_def demo_did_regex)

lemma demo_issue:
  assumes "length sk = 32" "length aud = 32" "COMMAND_REGEX cmd" "0 \<le> nbf" "nbf < exp"
    "serialisable (JObj (payloadObj (demo_payload sk aud cmd m nbf exp)))"
  obtains cid where "issueUcan demo_env (demo_payload sk aud cmd m nbf exp) sk =
    Inr \<lparr>ui_cid = cid, ui_jwt = demo_jwt sk (demo_payload sk aud cmd m nbf exp),
         ui_payload = demo_payload sk aud cmd m nbf exp\<rparr>"
proof -
  let ?p = "demo_payload sk aud cmd m nbf exp"
  have upd: "?p\<lparr>p_iss := demo_did sk, p_aud := demo_did aud\<rparr> = ?p" by (simp add: demo_payload_def)
  obtain h where h: "canonicalize (e_nfc demo_env) UCAN_HEADER = Inr h" using header_text [OF demo_nfc(2)] by blast
  obtain t where t: "canonicalize (e_nfc demo_env) (JObj (payloadObj ?p)) = Inr t"
    using canonicalize_ok [OF assms(6)] unfolding is_ok_iff by blast
  obtain sig where sig: "signDetached demo_env sk (stringToBase64url h @ ''.'' @ stringToBase64url t) = Inr sig"
    using assms(1) by (simp add: signDetached_def)
  have sel: "p_iss ?p = demo_did sk" "p_aud ?p = demo_did aud" by (simp_all add: demo_payload_def)
  define J where "J = stringToBase64url h @ ''.'' @ stringToBase64url t @ ''.'' @ bytesToBase64url sig"
  have i: "issueUcan demo_env ?p sk = Inr \<lparr>ui_cid = computeCid demo_env J, ui_jwt = J, ui_payload = ?p\<rparr>"
    unfolding issueUcan_def sel demo_did_key(2) [OF assms(1)] demo_did_key(2) [OF assms(2)] rbind.simps upd
      parse_payload [OF demo_payload_wf [OF assms(3,4,5)]] option.case h t J_def
    using sig by (simp add: lift_canon_def Let_def)
  then have "demo_jwt sk ?p = J" by (simp add: demo_jwt_def)
  with i that show ?thesis by simp
qed

lemma demo_valid:
  assumes "length sk = 32" "length aud = 32" "COMMAND_REGEX cmd" "0 \<le> nbf" "nbf < exp"
    "serialisable (JObj (payloadObj (demo_payload sk aud cmd m nbf exp)))"
    "numerals_ok (e_nd demo_env) (JObj (payloadObj (demo_payload sk aud cmd m nbf exp)))"
    "nbf \<le> now_of clock opts" "now_of clock opts < exp" "vo_audience opts = None"
    "\<forall>c. vo_expectedCommand opts = Some c \<longrightarrow> actionMatchesGranted cmd c"
  shows "validateUcan demo_env clock (demo_jwt sk (demo_payload sk aud cmd m nbf exp)) opts =
    Valid (demo_payload sk aud cmd (map_option (norm_members (\<lambda>s. s)) m) nbf exp)"
proof -
  let ?p = "demo_payload sk aud cmd m nbf exp"
  obtain cid where i: "issueUcan demo_env ?p sk =
    Inr \<lparr>ui_cid = cid, ui_jwt = demo_jwt sk ?p, ui_payload = ?p\<rparr>"
    using demo_issue [OF assms(1-6)] by blast
  have sel: "p_iss ?p = demo_did sk" "p_cmd ?p = cmd" "p_nbf ?p = nbf" "p_exp ?p = exp" by (simp_all add: demo_payload_def)
  have key: "publicKeyFromDid demo_env (p_iss ?p) = Inr (noble_getPublicKey demo_env sk)"
    unfolding sel demo_did_key(1) [OF assms(1)] by (simp add: demo_env_def)
  have "norm_payload (e_nfc demo_env) ?p = demo_payload sk aud cmd (map_option (norm_members (\<lambda>s. s)) m) nbf exp"
    by (simp add: norm_payload_def demo_payload_def demo_nfc(1))
  with validate_issued [OF demo_laws demo_nfc(2) i _ key] assms(7-) sel show ?thesis
    by (simp add: audience_ok_def)
qed

text \<open>
  A concrete two-token delegation for the witnesses: key a grants \<open>/fs\<close> under a path prefix to key b,
  which grants \<open>/fs/read\<close> to key c, with or without a constraint of its own. The Cedar stand-in
  allows under the policy text \<open>permit\<close> and denies otherwise.
\<close>

definition demo_cedar :: cedar where
  "demo_cedar =
     \<lparr>isAuthorized = (\<lambda>q. Inr (CedarResponse (if cc_policies q = ''permit'' then CedarAllow else CedarDeny) [] [] [])),
      checkParsePolicySet = (\<lambda>t. Inr ()), checkParseSchema = (\<lambda>s. Inr ()), formatPolicies = (\<lambda>t. Inr t)\<rparr>"

definition demo_scope :: "string \<Rightarrow> obj" where
  "demo_scope p = [(''resource_constraint'', JObj [(''path_prefix'', JStr p), (''provider'', JStr ''filesystem'')])]"

definition demo_root :: UcanPayload where
  "demo_root = demo_payload (demo_key CHR ''a'') (demo_key CHR ''b'') ''/fs'' (Some (demo_scope ''/home/al'')) 0 100"

definition demo_leaf :: "obj option \<Rightarrow> UcanPayload" where
  "demo_leaf m = demo_payload (demo_key CHR ''b'') (demo_key CHR ''c'') ''/fs/read'' m 0 90"

definition demo_chain :: "obj option \<Rightarrow> string list" where
  "demo_chain m = [demo_jwt (demo_key CHR ''a'') demo_root, demo_jwt (demo_key CHR ''b'') (demo_leaf m)]"

definition demo_request :: "string \<Rightarrow> AuthorizeRequest" where
  "demo_request path =
     \<lparr>rq_ucan = ''u'', rq_command = ''/fs/read'', rq_resource = [(''path'', JStr path)],
      rq_context = [(''cosigner'', JBool True)],
      rq_cosignerJwt = None, rq_delegated_chain = None, rq_parent_receipt_id = None, rq_swarm_id = None\<rparr>"

definition demo_input :: "obj option \<Rightarrow> string \<Rightarrow> DecideInput" where
  "demo_input m path =
     \<lparr>di_ucan = Inr (demo_chain m), di_request = demo_request path, di_policies = ''permit'',
      di_revokedCids = None, di_schema = None,
      di_trustedIssuerDid = Some (demo_did (demo_key CHR ''a'')), di_now = Some 50, di_maxChainDepth = None\<rparr>"

lemma demo_key_length [simp]: "length (demo_key c) = 32"
  by (simp add: demo_key_def)

lemma demo_commands: "COMMAND_REGEX ''/fs''" "COMMAND_REGEX ''/fs/read''"
  by (simp_all add: COMMAND_REGEX_def command_char_def is_lower_def is_digit_alt char_le_nat)

lemma demo_scope_norm: "norm_members (\<lambda>s. s) (demo_scope p) = demo_scope p"
  by (simp add: norm_members_def demo_scope_def surviving_def less_char_def)

lemma demo_scope_extract:
  "p \<noteq> [] \<Longrightarrow> extractResourceConstraint (Some (demo_scope p)) = Inr (Some (Filesystem \<lparr>fs_path_prefix = p, fs_host = None\<rparr>))"
  by (simp add: extractResourceConstraint_def demo_scope_def jget_def parseResourceConstraint_def
      parseFilesystemConstraint_def z_min1_def z_match_def z_opt_def)

lemma demo_payload_plain:
  "serialisable (JObj (payloadObj (demo_payload sk aud cmd (Some (demo_scope p)) nbf exp)))"
  "serialisable (JObj (payloadObj (demo_payload sk aud cmd None nbf exp)))"
  "abs nbf \<le> max_exact \<Longrightarrow> abs exp \<le> max_exact \<Longrightarrow>
    numerals_ok nd (JObj (payloadObj (demo_payload sk aud cmd (Some (demo_scope p)) nbf exp)))"
  "abs nbf \<le> max_exact \<Longrightarrow> abs exp \<le> max_exact \<Longrightarrow>
    numerals_ok nd (JObj (payloadObj (demo_payload sk aud cmd None nbf exp)))"
  by (simp_all add: payloadObj_def demo_payload_def opt_str_def opt_json_def demo_scope_def)

text \<open>The metadata of the leaf: none, or a scope.\<close>

definition demo_meta :: "obj option \<Rightarrow> bool" where
  "demo_meta m \<longleftrightarrow> m = None \<or> m = Some (demo_scope ''/home/al/doc'')"

lemma demo_root_valid:
  "validateUcan demo_env clock (demo_jwt (demo_key CHR ''a'') demo_root)
     \<lparr>vo_audience = None, vo_expectedCommand = None, vo_now = Some 50\<rparr> = Valid demo_root"
  using demo_valid [of "demo_key CHR ''a''" "demo_key CHR ''b''" "''/fs''" 0 100 "Some (demo_scope ''/home/al'')" clock
      "\<lparr>vo_audience = None, vo_expectedCommand = None, vo_now = Some 50\<rparr>"]
  by (simp add: demo_commands demo_payload_plain now_of_def demo_scope_norm max_exact_def demo_root_def
      del: serialisable.simps numerals_ok.simps)

lemma demo_leaf_valid:
  assumes "demo_meta m"
  shows "validateUcan demo_env clock (demo_jwt (demo_key CHR ''b'') (demo_leaf m))
     \<lparr>vo_audience = None, vo_expectedCommand = Some ''/fs/read'', vo_now = Some 50\<rparr> = Valid (demo_leaf m)"
proof -
  have "serialisable (JObj (payloadObj (demo_leaf m)))" "numerals_ok nd (JObj (payloadObj (demo_leaf m)))" for nd
    using assms by (auto simp: demo_meta_def demo_leaf_def demo_payload_plain max_exact_def
        simp del: serialisable.simps numerals_ok.simps)
  moreover have "map_option (norm_members (\<lambda>s. s)) m = m" using assms by (auto simp: demo_meta_def demo_scope_norm)
  ultimately show ?thesis
    using demo_valid [of "demo_key CHR ''b''" "demo_key CHR ''c''" "''/fs/read''" 0 90 m clock
      "\<lparr>vo_audience = None, vo_expectedCommand = Some ''/fs/read'', vo_now = Some 50\<rparr>"]
    by (simp add: demo_commands now_of_def demo_leaf_def del: serialisable.simps numerals_ok.simps)
qed

lemma demo_link:
  assumes "demo_meta m" shows "check_link demo_root (demo_leaf m) = Inr None"
proof -
  have e: "extractResourceConstraint None = Inr None" by (simp add: extractResourceConstraint_def)
  have "extractResourceConstraint (p_meta demo_root) = Inr (Some (Filesystem \<lparr>fs_path_prefix = ''/home/al'', fs_host = None\<rparr>))"
    by (simp add: demo_root_def demo_payload_def demo_scope_extract)
  moreover have "extractResourceConstraint (p_meta (demo_leaf m)) \<in>
      {Inr None, Inr (Some (Filesystem \<lparr>fs_path_prefix = ''/home/al/doc'', fs_host = None\<rparr>))}"
    using assms by (auto simp: demo_leaf_def demo_payload_def demo_meta_def e demo_scope_extract)
  moreover have "actionMatchesGranted ''/fs'' ''/fs/read''" by (simp add: actionMatchesGranted_def)
  moreover have "p_iss (demo_leaf m) = p_aud demo_root" "p_exp (demo_leaf m) = 90" "p_nbf (demo_leaf m) = 0"
    "p_exp demo_root = 100" "p_nbf demo_root = 0" "p_cmd demo_root = ''/fs''" "p_cmd (demo_leaf m) = ''/fs/read''"
    by (simp_all add: demo_leaf_def demo_root_def demo_payload_def)
  ultimately show ?thesis
    by (auto simp: check_link_def coversFilesystem_def str_truthy_def)
qed

lemma demo_chain_valid:
  assumes "demo_meta m"
  shows "validateChain demo_env clock (demo_chain m)
     \<lparr>vo_audience = None, vo_expectedCommand = Some ''/fs/read'', vo_now = Some 50\<rparr> = Inr (ChainValid demo_root (demo_leaf m))"
  using demo_root_valid demo_leaf_valid [OF assms] demo_link [OF assms]
  by (simp add: validateChain_def demo_chain_def)

lemma demo_parse:
  assumes "demo_meta m"
  obtains u v where "parseUcanJwt demo_env (hd (demo_chain m)) = Some u" "u_payload u = demo_root"
    "parseUcanJwt demo_env (last (demo_chain m)) = Some v" "u_payload v = demo_leaf m"
  using demo_root_valid demo_leaf_valid [OF assms] that unfolding validateUcan_Valid_iff
  by (auto simp: demo_chain_def)

lemma demo_attenuation:
  assumes "demo_meta m" shows "is_ok (summarizeAttenuation demo_env (demo_chain m))"
proof -
  obtain u v where "parseUcanJwt demo_env (hd (demo_chain m)) = Some u" "u_payload u = demo_root"
    "parseUcanJwt demo_env (last (demo_chain m)) = Some v" "u_payload v = demo_leaf m"
    using demo_parse [OF assms] .
  moreover have "is_ok (extractResourceConstraint (p_meta demo_root))"
    by (simp add: demo_root_def demo_payload_def demo_scope_extract)
  moreover have "is_ok (extractResourceConstraint (p_meta (demo_leaf m)))"
    using assms
    by (auto simp: demo_leaf_def demo_payload_def demo_meta_def demo_scope_extract extractResourceConstraint_def [of None])
  ultimately show ?thesis
    by (auto simp: summarizeAttenuation_def demo_chain_def is_ok_iff Let_def)
qed

lemma demo_receipt: "is_ok (buildReceiptId demo_env (demo_chain m) (demo_request path))"
proof -
  have "serialisable (JObj (requestObj (demo_request path)))"
    by (simp add: requestObj_def demo_request_def opt_str_def opt_json_def)
  from canonicalize_ok [OF this] obtain t
    where "canonicalize (e_nfc demo_env) (JObj (requestObj (demo_request path))) = Inr t"
    unfolding is_ok_iff by blast
  then show ?thesis by (simp add: buildReceiptId_def Let_def lift_canon_def del: canonicalize_obj)
qed

text \<open>The request is allowed when the leaf's own constraint, if it has one, admits the path.\<close>

lemma demo_allow:
  assumes "demo_meta m" "m = None \<or> startsWith path ''/home/al/doc''"
  obtains d where "decide demo_env demo_cedar 50 (demo_input m path) = Inr d" "d_allow d"
proof -
  obtain att where att: "summarizeAttenuation demo_env (demo_chain m) = Inr att"
    using demo_attenuation [OF assms(1)] unfolding is_ok_iff by blast
  obtain r where r: "buildReceiptId demo_env (demo_chain m) (demo_request path) = Inr r"
    using demo_receipt unfolding is_ok_iff by blast
  have len: "length (demo_chain m) = 2" by (simp add: demo_chain_def)
  obtain c where c: "extractResourceConstraint (p_meta (demo_leaf m)) = Inr c"
    and ok: "\<forall>k. c = Some k \<longrightarrow> constraintMatchesResource k (rq_resource (demo_request path))"
    using assms by (auto simp: demo_leaf_def demo_payload_def demo_meta_def demo_scope_extract
        extractResourceConstraint_def [of None] demo_request_def path_matches_def str_truthy_def jget_def)
  have "evaluate demo_cedar (cedar_question demo_env (demo_input m path) (demo_chain m) 50 demo_root (demo_leaf m) c)
     = Inr \<lparr>er_decision = CedarAllow, er_reason = [], er_errors = [], er_warnings = []\<rparr>"
    by (simp add: evaluate_def demo_cedar_def cedar_question_def demo_input_def)
  moreover have "p_iss demo_root = demo_did (demo_key CHR ''a'')" by (simp add: demo_root_def demo_payload_def)
  ultimately have "decide_validated demo_env demo_cedar (demo_input m path) (demo_chain m) 50 demo_root (demo_leaf m) =
      Inr ((allow_decision r)\<lparr>d_chain_depth := Some 1, d_attenuation := att\<rparr>)"
    using c ok att r by (cases c) (simp_all add: decide_validated_def demo_input_def revoked_in_def len)
  moreover have "validateChain demo_env (\<lambda>_. 50) (demo_chain m) (chain_options 50 (demo_input m path))
      = Inr (ChainValid demo_root (demo_leaf m))"
    using demo_chain_valid [OF assms(1)] by (simp add: chain_options_def demo_input_def demo_request_def)
  moreover have "decide_jwts (demo_input m path) = demo_chain m" "decide_now 50 (demo_input m path) = 50"
    "demo_chain m \<noteq> []" "\<not> length (demo_chain m) > max_depth (demo_input m path)"
    using len by (auto simp: decide_jwts_def decide_now_def demo_input_def max_depth_def DEFAULT_MAX_CHAIN_DEPTH_def)
  ultimately show ?thesis using that by (simp add: decide_def)
qed

text \<open>The root token presented alone.\<close>

definition demo_single :: "string \<Rightarrow> DecideInput" where
  "demo_single path = (demo_input None path)\<lparr>di_ucan := Inl (demo_jwt (demo_key CHR ''a'') demo_root)\<rparr>"

lemma demo_single_valid:
  "validateUcan demo_env clock (demo_jwt (demo_key CHR ''a'') demo_root)
     \<lparr>vo_audience = None, vo_expectedCommand = Some ''/fs/read'', vo_now = Some 50\<rparr> = Valid demo_root"
proof -
  have "actionMatchesGranted ''/fs'' ''/fs/read''" by (simp add: actionMatchesGranted_def)
  then show ?thesis
    using demo_valid [of "demo_key CHR ''a''" "demo_key CHR ''b''" "''/fs''" 0 100 "Some (demo_scope ''/home/al'')" clock
      "\<lparr>vo_audience = None, vo_expectedCommand = Some ''/fs/read'', vo_now = Some 50\<rparr>"]
    by (simp add: demo_commands demo_payload_plain now_of_def demo_scope_norm max_exact_def demo_root_def
      del: serialisable.simps numerals_ok.simps)
qed

lemma demo_allow_single:
  assumes "startsWith path ''/home/al''"
  obtains d where "decide demo_env demo_cedar 50 (demo_single path) = Inr d" "d_allow d"
proof -
  let ?j = "demo_jwt (demo_key CHR ''a'') demo_root"
  have "serialisable (JObj (requestObj (demo_request path)))"
    by (simp add: requestObj_def demo_request_def opt_str_def opt_json_def)
  from canonicalize_ok [OF this] obtain t
    where "canonicalize (e_nfc demo_env) (JObj (requestObj (demo_request path))) = Inr t"
    unfolding is_ok_iff by blast
  then obtain r where r: "buildReceiptId demo_env [?j] (demo_request path) = Inr r"
    by (simp add: buildReceiptId_def Let_def lift_canon_def del: canonicalize_obj)
  obtain k where c: "extractResourceConstraint (p_meta demo_root) = Inr (Some k)"
    and ok: "constraintMatchesResource k (rq_resource (demo_request path))"
    using assms by (simp add: demo_root_def demo_payload_def demo_scope_extract demo_request_def path_matches_def str_truthy_def jget_def)
  have ev: "evaluate demo_cedar (cedar_question demo_env (demo_single path) [?j] 50 demo_root demo_root (Some k))
     = Inr \<lparr>er_decision = CedarAllow, er_reason = [], er_errors = [], er_warnings = []\<rparr>"
    by (simp add: evaluate_def demo_cedar_def cedar_question_def demo_input_def demo_single_def)
  have sel: "di_request (demo_single path) = demo_request path" "di_revokedCids (demo_single path) = None"
    "di_trustedIssuerDid (demo_single path) = Some (demo_did (demo_key CHR ''a''))"
    by (simp_all add: demo_single_def demo_input_def)
  have "p_iss demo_root = demo_did (demo_key CHR ''a'')" by (simp add: demo_root_def demo_payload_def)
  then have "decide_validated demo_env demo_cedar (demo_single path) [?j] 50 demo_root demo_root = Inr (allow_decision r)"
    using c ok ev r sel by (simp add: decide_validated_def revoked_in_def summarizeAttenuation_def Let_def)
  moreover have "validateChain demo_env (\<lambda>_. 50) [?j] (chain_options 50 (demo_single path)) = Inr (ChainValid demo_root demo_root)"
    using demo_single_valid by (simp add: validateChain_def chain_options_def demo_single_def demo_input_def demo_request_def)
  moreover have "decide_jwts (demo_single path) = [?j]" "decide_now 50 (demo_single path) = 50"
    "\<not> length [?j] > max_depth (demo_single path)"
    by (auto simp: decide_jwts_def decide_now_def demo_single_def demo_input_def max_depth_def DEFAULT_MAX_CHAIN_DEPTH_def)
  ultimately show ?thesis using that by (simp add: decide_def allow_decision_def)
qed

end
