(* ===== verification/Delegation_Properties.thy ===== *)
theory Delegation_Properties
  imports Demo_Decide
begin

text \<open>
  The properties of the delegation core: serialisation, identifiers, issuing and validating UCANs,
  attenuation along a chain and the decision procedure, each followed by a witness where it has
  hypotheses.
\<close>

subsection \<open>Serialisation\<close>

text \<open>C38: canonicalize is invertible. When it accepts a value, JSON.parse reads its text back to the
  value's normal form (undefined members dropped, keys normalised and sorted), so two values with
  the same canonical text have the same normal form and a signature or a hash over the text covers
  everything in it. The numerals of the value have to be ones the engine reads back exactly.\<close>

theorem canonical_text_determines_value:
  assumes "canonicalize nfc v = Inr s" "numerals_ok nd v"
  shows "JSON_parse nd s = Some (norm nfc v) \<and>
    (\<forall>w. canonicalize nfc w = Inr s \<and> numerals_ok nd w \<longrightarrow> norm nfc w = norm nfc v)"
  using canonicalize_parse assms by (metis option.inject)

theorem canonical_text_determines_value_witness:
  "\<exists>s. canonicalize (\<lambda>s. s) (JObj [(''b'', JNum (JInt 7)), (''a'', JArr [JStr ''x'', JNull])]) = Inr s \<and>
     JSON_parse JDec s = Some (JObj [(''a'', JArr [JStr ''x'', JNull]), (''b'', JNum (JInt 7))])"
proof -
  let ?v = "JObj [(''b'', JNum (JInt 7)), (''a'', JArr [JStr ''x'', JNull])]"
  have "serialisable ?v" by simp
  then obtain s where s: "canonicalize (\<lambda>s. s) ?v = Inr s"
    using canonicalize_ok [of ?v "\<lambda>s. s"] unfolding is_ok_iff by blast
  have "numerals_ok JDec ?v" by (simp add: max_exact_def)
  with canonical_text_determines_value [OF s this] s show ?thesis
    by (auto simp: surviving_def less_char_def)
qed

text \<open>The URL-safe base64 of the token segments decodes to the bytes it was made from, also when it
  is followed by a padding character and arbitrary text, and its alphabet has no dot.\<close>

theorem base64url_segments:
  "base64urlToBytes (bytesToBase64url bs) = bs \<and>
   base64urlToBytes (bytesToBase64url bs @ ''='' @ junk) = bs \<and> CHR ''.'' \<notin> set (bytesToBase64url bs)"
  using base64url_roundtrip [of bs] base64url_decode_prefix [of bs junk] base64url_no_special [of "CHR ''.''" bs]
  by auto

subsection \<open>Keys and sealed secrets\<close>

text \<open>Canonicalising a DID keeps its key and is idempotent: two spellings of a DID that
  canonicalise alike name the same Ed25519 key.\<close>

theorem canonical_did_keeps_key:
  assumes "crypto_laws E" "canonicalizeDid E did = Inr did'"
  shows "publicKeyFromDid E did' = publicKeyFromDid E did \<and> canonicalizeDid E did' = Inr did'"
  using canonicalizeDid_did [OF assms] by blast

theorem canonical_did_keeps_key_witness:
  "publicKeyFromDid demo_env (demo_did (demo_key CHR ''a'')) = Inr (demo_key CHR ''a'') \<and>
   canonicalizeDid demo_env (demo_did (demo_key CHR ''a'')) = Inr (demo_did (demo_key CHR ''a''))"
  using canonical_did_keeps_key [OF demo_laws demo_did_key(2) [of "demo_key CHR ''a''"]]
    demo_did_key(1) [of "demo_key CHR ''a''"] by simp

text \<open>A secret sealed under a key opens under the same key and associated data to the plaintext it
  was sealed from.\<close>

theorem sealed_secret_opens:
  assumes "crypto_laws E" "length nonce = SECRETBOX_NONCE_LEN" "sealString E nonce key pt aad = Inr box"
  shows "openString E key (ciphertextHex box) (nonceHex box) aad = Inr pt"
  using open_sealed [OF assms] .

theorem sealed_secret_opens_witness:
  "\<exists>box. sealString demo_env (replicate 24 CHR ''n'') (demo_key CHR ''k'') ''token'' (Some ''row'') = Inr box \<and>
     openString demo_env (demo_key CHR ''k'') (ciphertextHex box) (nonceHex box) (Some ''row'') = Inr ''token''"
proof -
  obtain box where b: "sealString demo_env (replicate 24 CHR ''n'') (demo_key CHR ''k'') ''token'' (Some ''row'') = Inr box"
    by (simp add: sealString_def SECRETBOX_KEY_LEN_def)
  from sealed_secret_opens [OF demo_laws _ b] b show ?thesis by (auto simp: SECRETBOX_NONCE_LEN_def)
qed

subsection \<open>Issue and validate\<close>

text \<open>C28: A UCAN issued with the issuer's own key validates inside its time window, for its audience in
  any spelling and for every command under the granted one, and the validator returns the payload that was
  signed, up to the normal form of the free-form values.\<close>

theorem issued_ucan_validates:
  assumes "crypto_laws E" "nfc_fixes (e_nfc E)" "issueUcan E payload sk = Inr issued"
    "numerals_ok (e_nd E) (JObj (payloadObj (ui_payload issued)))"
    "publicKeyFromDid E (p_iss payload) = Inr (noble_getPublicKey E sk)"
    "p_nbf payload \<le> now_of clock opts" "now_of clock opts < p_exp payload"
    "audience_ok E (vo_audience opts) (p_aud payload)"
    "\<forall>c. vo_expectedCommand opts = Some c \<longrightarrow> actionMatchesGranted (p_cmd payload) c"
  shows "validateUcan E clock (ui_jwt issued) opts = Valid (norm_payload (e_nfc E) (ui_payload issued)) \<and>
    ui_cid issued = computeCid E (ui_jwt issued)"
  using validate_issued [OF assms] issueUcan_parts [OF assms(3)] by blast

theorem issued_ucan_validates_witness:
  "\<exists>issued. issueUcan demo_env demo_root (demo_key CHR ''a'') = Inr issued \<and>
     validateUcan demo_env 50 (ui_jwt issued)
       \<lparr>vo_audience = Some (demo_did (demo_key CHR ''b'')), vo_expectedCommand = Some ''/fs/read'', vo_now = None\<rparr>
     = Valid (norm_payload (e_nfc demo_env) demo_root)"
proof -
  have plain: "serialisable (JObj (payloadObj demo_root))" "numerals_ok (e_nd demo_env) (JObj (payloadObj demo_root))"
    unfolding demo_root_def
    by (rule demo_payload_plain(1), rule demo_payload_plain(3)) (simp_all add: max_exact_def)
  obtain cid where i: "issueUcan demo_env demo_root (demo_key CHR ''a'') =
    Inr \<lparr>ui_cid = cid, ui_jwt = demo_jwt (demo_key CHR ''a'') demo_root, ui_payload = demo_root\<rparr>"
    by (rule demo_issue [of "demo_key CHR ''a''" "demo_key CHR ''b''" "''/fs''" 0 100 "Some (demo_scope ''/home/al'')",
          folded demo_root_def,
          OF demo_key_length demo_key_length demo_commands(1) _ _ plain(1)], simp, simp, blast)
  have sel: "p_iss demo_root = demo_did (demo_key CHR ''a'')" "p_aud demo_root = demo_did (demo_key CHR ''b'')"
    "p_cmd demo_root = ''/fs''" "p_nbf demo_root = 0" "p_exp demo_root = 100"
    by (simp_all add: demo_root_def demo_payload_def)
  have key: "publicKeyFromDid demo_env (p_iss demo_root) = Inr (noble_getPublicKey demo_env (demo_key CHR ''a''))"
    using demo_did_key(1) [of "demo_key CHR ''a''"] by (simp add: sel demo_env_def)
  have aud: "audience_ok demo_env (Some (demo_did (demo_key CHR ''b''))) (p_aud demo_root)"
    using demo_did_key(2) [of "demo_key CHR ''b''"] by (simp add: sel audience_ok_def)
  have cmd: "actionMatchesGranted ''/fs'' ''/fs/read''" by (simp add: actionMatchesGranted_def)
  show ?thesis
    using issued_ucan_validates [OF demo_laws demo_nfc(2) i _ key, of 50
        "\<lparr>vo_audience = Some (demo_did (demo_key CHR ''b'')), vo_expectedCommand = Some ''/fs/read'', vo_now = None\<rparr>"]
      plain aud cmd i sel by (simp add: now_of_def del: numerals_ok.simps)
qed

text \<open>A UCAN the validator accepts is signed by the Ed25519 key its issuer DID names, over exactly
  the header and payload segments it was parsed from, is inside its validity window, matches the expected
  audience and command, and has a well-formed payload.\<close>

theorem valid_ucan_is_authentic:
  assumes "validateUcan E clock jwt opts = Valid p"
  shows "\<exists>u pk. parseUcanJwt E jwt = Some u \<and> u_payload u = p \<and> wf_payload p \<and>
    publicKeyFromDid E (p_iss p) = Inr pk \<and>
    noble_verify E (u_signature u) (u_headerEnc u @ ''.'' @ u_payloadEnc u) pk = Some True \<and>
    p_nbf p \<le> now_of clock opts \<and> now_of clock opts < p_exp p \<and>
    audience_ok E (vo_audience opts) (p_aud p) \<and>
    (\<forall>c. vo_expectedCommand opts = Some c \<longrightarrow> actionMatchesGranted (p_cmd p) c)"
  using assms parseUcanJwt_wf unfolding validateUcan_Valid_iff signed_by_issuer_def
  by (fastforce simp: verifyDetached_def split: if_splits option.splits)

theorem valid_ucan_is_authentic_witness:
  "\<exists>u. parseUcanJwt demo_env (demo_jwt (demo_key CHR ''a'') demo_root) = Some u \<and> u_payload u = demo_root"
  using valid_ucan_is_authentic [OF demo_root_valid [of 0]] by blast

subsection \<open>Chains\<close>

text \<open>C27: A chain validateChain accepts is an authentic delegation: every token is signed by its issuer and
  inside its window, every issuer is the audience of the token before, and authority only shrinks: of any
  two tokens the later one grants a command under the earlier one's, expires no later and starts no
  earlier. The expected command lies under the command of every token.\<close>

theorem chain_attenuates:
  assumes "validateChain E clock jwts opts = Inr (ChainValid root leaf)" "vo_now opts = Some now"
  shows "\<exists>ps. verified_delegation E now jwts ps \<and> root = hd ps \<and> leaf = last ps \<and>
    sorted_wrt (\<lambda>p q. actionMatchesGranted (p_cmd p) (p_cmd q) \<and> p_exp q \<le> p_exp p \<and> p_nbf p \<le> p_nbf q) ps \<and>
    (\<forall>c. vo_expectedCommand opts = Some c \<longrightarrow> (\<forall>p \<in> set ps. actionMatchesGranted (p_cmd p) c))"
proof -
  obtain ps where ps: "verified_delegation E now jwts ps" "linked link_ok ps" "root = hd ps" "leaf = last ps"
    "\<forall>c. vo_expectedCommand opts = Some c \<longrightarrow> actionMatchesGranted (p_cmd leaf) c"
    by (rule validateChain_verified [OF assms])
  have cmd: "sorted_wrt actionMatchesGranted (map p_cmd ps)"
    by (rule cmd_order.linked_sorted) (use ps(2) in \<open>auto simp: linked_map link_ok_def elim: linked_mono\<close>)
  have exp: "sorted_wrt (\<lambda>a b. b \<le> a) (map p_exp ps)"
    by (rule exp_order.linked_sorted) (use ps(2) in \<open>auto simp: linked_map link_ok_def elim: linked_mono\<close>)
  have nbf: "sorted_wrt (\<le>) (map p_nbf ps)"
    by (rule nbf_order.linked_sorted) (use ps(2) in \<open>auto simp: linked_map link_ok_def elim: linked_mono\<close>)
  have "actionMatchesGranted (p_cmd p) (p_cmd leaf)" if "p \<in> set ps" for p
    using cmd that ps(1,4) unfolding sorted_wrt_map
    by (cases ps rule: rev_cases) (auto simp: sorted_wrt_append verified_delegation_def)
  then have "\<forall>c. vo_expectedCommand opts = Some c \<longrightarrow> (\<forall>p \<in> set ps. actionMatchesGranted (p_cmd p) c)"
    using ps(5) actionMatchesGranted_trans by blast
  with ps cmd exp nbf show ?thesis
    by (intro exI [of _ ps]) (simp add: sorted_wrt_map sorted_wrt_iff_nth_less)
qed

theorem chain_attenuates_witness:
  "\<exists>ps. verified_delegation demo_env 50 (demo_chain None) ps \<and> hd ps = demo_root \<and> last ps = demo_leaf None"
  using chain_attenuates [OF demo_chain_valid [of None "\<lambda>_. 0"], of 50] by (auto simp: demo_meta_def)

text \<open>The subset check and the resource gate agree: a resource that a delegated constraint admits is
  admitted by every constraint covering it, the check is transitive, and it is reflexive exactly on the
  five providers it knows.\<close>

theorem constraint_check_sound:
  assumes "constraintCovers parent child" "constraintMatchesResource child resource"
  shows "constraintMatchesResource parent resource \<and>
    (\<forall>c. constraintCovers child c \<longrightarrow> constraintCovers parent c) \<and>
    (constraintCovers child child \<longleftrightarrow> gated_provider child)"
  using covers_sound [OF assms] constraintCovers_trans [OF assms(1)] constraintCovers_refl by blast

theorem constraint_check_sound_witness:
  "constraintMatchesResource (Filesystem \<lparr>fs_path_prefix = ''/home'', fs_host = None\<rparr>) [(''path'', JStr ''/home/al'')]"
  using constraint_check_sound [of "Filesystem \<lparr>fs_path_prefix = ''/home'', fs_host = None\<rparr>"
      "Filesystem \<lparr>fs_path_prefix = ''/home/a'', fs_host = None\<rparr>" "[(''path'', JStr ''/home/al'')]"]
  by (simp add: coversFilesystem_def str_truthy_def path_matches_def jget_def)

text \<open>Thirteen of the eighteen providers the constraint type names have no gate: a constraint of one of
  them (slack, stripe, linear, notion, the google services, ssh, discord) admits no resource and covers
  nothing, not even itself, so a leaf UCAN that carries one is never authorised.\<close>

theorem ungated_provider_never_admits:
  assumes "\<not> gated_provider c"
  shows "\<not> constraintMatchesResource c resource \<and> \<not> constraintCovers c c' \<and> \<not> constraintCovers c' c"
proof -
  have "\<not> constraintCovers c c'" "\<not> constraintCovers c' c" using assms by (auto elim: covers_cases)
  with ungated_denied [OF assms] show ?thesis by blast
qed

theorem ungated_provider_never_admits_witness:
  "\<not> constraintMatchesResource (Slack \<lparr>sl_team_id = None, sl_channel_id = Some ''C1'', sl_user_id = None, sl_thread_ts = None\<rparr>)
     [(''channel_id'', JStr ''C1'')]"
  using ungated_provider_never_admits
    [of "Slack \<lparr>sl_team_id = None, sl_channel_id = Some ''C1'', sl_user_id = None, sl_thread_ts = None\<rparr>"] by simp

subsection \<open>The decision\<close>

text \<open>C3: An allow of decide() rests on every gate: the chain is no deeper than the cap and an authentic,
  attenuating delegation whose every token grants the requested command; its root issuer is the trust
  anchor; no token of it is revoked; the leaf's constraint, if it has one, admits the resource; and Cedar
  allowed the leaf's audience the command on that resource.\<close>

theorem decide_allow_sound:
  assumes "decide E C clock inp = Inr d" "d_allow d"
  shows "\<exists>ps c er. verified_delegation E (decide_now clock inp) (decide_jwts inp) ps \<and>
    length ps \<le> max_depth inp \<and>
    sorted_wrt (\<lambda>p q. actionMatchesGranted (p_cmd p) (p_cmd q)) ps \<and>
    actionMatchesGranted (p_cmd (last ps)) (rq_command (di_request inp)) \<and>
    (str_truthy (di_trustedIssuerDid inp) \<longrightarrow> di_trustedIssuerDid inp = Some (p_iss (hd ps))) \<and>
    \<not> revoked_in E (di_revokedCids inp) (decide_jwts inp) \<and>
    extractResourceConstraint (p_meta (last ps)) = Inr c \<and>
    (\<forall>k. c = Some k \<longrightarrow> constraintMatchesResource k (rq_resource (di_request inp))) \<and>
    evaluate C (cedar_question E inp (decide_jwts inp) (decide_now clock inp) (hd ps) (last ps) c) = Inr er \<and>
    er_decision er = CedarAllow"
proof -
  obtain root leaf c er where r: "length (decide_jwts inp) \<le> max_depth inp"
    "validateChain E (\<lambda>_. clock) (decide_jwts inp) (chain_options (decide_now clock inp) inp) = Inr (ChainValid root leaf)"
    "str_truthy (di_trustedIssuerDid inp) \<longrightarrow> di_trustedIssuerDid inp = Some (p_iss root)"
    "\<not> revoked_in E (di_revokedCids inp) (decide_jwts inp)"
    "extractResourceConstraint (p_meta leaf) = Inr c"
    "\<forall>k. c = Some k \<longrightarrow> constraintMatchesResource k (rq_resource (di_request inp))"
    "evaluate C (cedar_question E inp (decide_jwts inp) (decide_now clock inp) root leaf c) = Inr er"
    "er_decision er = CedarAllow"
    by (rule decide_allow [OF assms])
  obtain ps where ps: "verified_delegation E (decide_now clock inp) (decide_jwts inp) ps" "linked link_ok ps"
    "root = hd ps" "leaf = last ps"
    "\<forall>c. vo_expectedCommand (chain_options (decide_now clock inp) inp) = Some c \<longrightarrow> actionMatchesGranted (p_cmd leaf) c"
    by (rule validateChain_verified [OF r(2)], simp add: chain_options_def, blast)
  have "sorted_wrt actionMatchesGranted (map p_cmd ps)"
    by (rule cmd_order.linked_sorted) (use ps(2) in \<open>auto simp: linked_map link_ok_def elim: linked_mono\<close>)
  moreover have "length ps = length (decide_jwts inp)" using ps(1) by (simp add: verified_delegation_def)
  ultimately show ?thesis
    using ps r by (intro exI [of _ ps] exI [of _ c] exI [of _ er]) (simp add: sorted_wrt_map chain_options_def)
qed

theorem decide_allow_sound_witness:
  "\<exists>ps. verified_delegation demo_env 50 (demo_chain (Some (demo_scope ''/home/al/doc''))) ps \<and>
     p_iss (hd ps) = demo_did (demo_key CHR ''a'')"
proof -
  let ?m = "Some (demo_scope ''/home/al/doc'')"
  obtain d where d: "decide demo_env demo_cedar 50 (demo_input ?m ''/home/al/doc/x'') = Inr d" "d_allow d"
    by (rule demo_allow [of ?m "''/home/al/doc/x''"]) (simp_all add: demo_meta_def)
  have "di_trustedIssuerDid (demo_input ?m ''/home/al/doc/x'') = Some (demo_did (demo_key CHR ''a''))"
    "decide_jwts (demo_input ?m ''/home/al/doc/x'') = demo_chain ?m" "decide_now 50 (demo_input ?m ''/home/al/doc/x'') = 50"
    "str_truthy (Some (demo_did sk))" for sk
    by (simp_all add: demo_input_def decide_jwts_def decide_now_def str_truthy_def demo_did_def)
  moreover obtain ps where
    "verified_delegation demo_env (decide_now 50 (demo_input ?m ''/home/al/doc/x'')) (decide_jwts (demo_input ?m ''/home/al/doc/x'')) ps"
    "str_truthy (di_trustedIssuerDid (demo_input ?m ''/home/al/doc/x'')) \<longrightarrow>
      di_trustedIssuerDid (demo_input ?m ''/home/al/doc/x'') = Some (p_iss (hd ps))"
    using decide_allow_sound [OF d] by blast
  ultimately show ?thesis by (intro exI [of _ ps]) simp
qed

text \<open>C29: Where every token of the chain carries a constraint, an allowed request's resource lies inside the
  constraint of every token, from the root down.\<close>

theorem scoped_chain_confines_request:
  assumes "decide E C clock inp = Inr d" "d_allow d"
    "map (parseUcanJwt E) (decide_jwts inp) = map Some us"
    "map (\<lambda>u. extractResourceConstraint (p_meta (u_payload u))) us = map (\<lambda>c. Inr (Some c)) cs"
  shows "\<forall>c \<in> set cs. constraintMatchesResource c (rq_resource (di_request inp))"
proof -
  obtain root leaf c er where r:
    "validateChain E (\<lambda>_. clock) (decide_jwts inp) (chain_options (decide_now clock inp) inp) = Inr (ChainValid root leaf)"
    "extractResourceConstraint (p_meta leaf) = Inr c"
    "\<forall>k. c = Some k \<longrightarrow> constraintMatchesResource k (rq_resource (di_request inp))"
    by (rule decide_allow [OF assms(1,2)])
  obtain ps where ps: "verified_delegation E (decide_now clock inp) (decide_jwts inp) ps" "linked link_ok ps" "leaf = last ps"
    by (rule validateChain_verified [OF r(1)], simp add: chain_options_def, blast)
  have len: "length ps = length (decide_jwts inp)" "length us = length (decide_jwts inp)" "ps \<noteq> []"
    using ps(1) arg_cong [OF assms(3), of length] by (auto simp: verified_delegation_def)
  have "map u_payload us = ps"
  proof (rule nth_equalityI)
    fix i assume "i < length (map u_payload us)"
    then have i: "i < length (decide_jwts inp)" using len by simp
    with arg_cong [OF assms(3), of "\<lambda>xs. xs ! i"] len have "parseUcanJwt E (decide_jwts inp ! i) = Some (us ! i)" by simp
    with ps(1) i len show "map u_payload us ! i = ps ! i" by (auto simp: verified_delegation_def)
  qed (use len in simp)
  with assms(4) have ex: "map (extractResourceConstraint \<circ> p_meta) ps = map (\<lambda>c. Inr (Some c)) cs" by (auto simp: comp_def)
  have cs: "length cs = length ps" "cs \<noteq> []" using arg_cong [OF ex, of length] len by auto
  have "Inr (Some (last cs)) = extractResourceConstraint (p_meta (last ps))"
    using arg_cong [OF ex, of last] len cs by (simp add: last_map)
  with r ps have last: "constraintMatchesResource (last cs) (rq_resource (di_request inp))" by simp
  have "sorted_wrt constraintCovers cs" by (rule linked_constraints [OF ps(2) ex])
  with last cs show ?thesis by (cases cs rule: rev_cases) (auto simp: sorted_wrt_append intro: covers_sound)
qed

theorem scoped_chain_confines_request_witness:
  "constraintMatchesResource (Filesystem \<lparr>fs_path_prefix = ''/home/al'', fs_host = None\<rparr>)
     (rq_resource (di_request (demo_input (Some (demo_scope ''/home/al/doc'')) ''/home/al/doc/x'')))"
proof -
  let ?m = "Some (demo_scope ''/home/al/doc'')"
  have m: "demo_meta ?m" by (simp add: demo_meta_def)
  obtain d where d: "decide demo_env demo_cedar 50 (demo_input ?m ''/home/al/doc/x'') = Inr d" "d_allow d"
    by (rule demo_allow [of ?m "''/home/al/doc/x''"]) (simp_all add: demo_meta_def)
  obtain u v where uv: "parseUcanJwt demo_env (hd (demo_chain ?m)) = Some u" "u_payload u = demo_root"
    "parseUcanJwt demo_env (last (demo_chain ?m)) = Some v" "u_payload v = demo_leaf ?m"
    by (rule demo_parse [OF m])
  then have p: "map (parseUcanJwt demo_env) (decide_jwts (demo_input ?m ''/home/al/doc/x'')) = map Some [u, v]"
    by (simp add: demo_chain_def decide_jwts_def demo_input_def)
  have c: "map (\<lambda>u. extractResourceConstraint (p_meta (u_payload u))) [u, v] =
      map (\<lambda>c. Inr (Some c)) [Filesystem \<lparr>fs_path_prefix = ''/home/al'', fs_host = None\<rparr>,
        Filesystem \<lparr>fs_path_prefix = ''/home/al/doc'', fs_host = None\<rparr>]"
    using uv by (simp add: demo_root_def demo_leaf_def demo_payload_def demo_scope_extract)
  from scoped_chain_confines_request [OF d p c] show ?thesis by simp
qed

text \<open>A leaf token without a constraint is not held to the constraints of its ancestors: validateChain
  lets it inherit the parent's constraint, but decide() gates on the leaf's own metadata only, so such a
  chain is never refused as out of scope, whatever the root's constraint. The witness is an allowed
  request for a path outside the root's prefix.\<close>

theorem unscoped_leaf_escapes_constraint:
  assumes "validateChain E (\<lambda>_. clock) (decide_jwts inp) (chain_options (decide_now clock inp) inp) = Inr (ChainValid root leaf)"
    "extractResourceConstraint (p_meta leaf) = Inr None" "decide E C clock inp = Inr d"
  shows "d_reason d \<noteq> Some D_resource_out_of_scope"
  using assms(3)
proof (cases rule: decide_cases)
  case (3 r l)
  with assms(1) have "l = leaf" by simp
  from 3(4) show ?thesis
    by (cases rule: decide_validated_cases) (use \<open>l = leaf\<close> assms(2) in \<open>auto simp: deny_Inr Let_def\<close>)
qed (auto simp: deny_Inr)

theorem unscoped_leaf_escapes_constraint_witness:
  "\<exists>d c. decide demo_env demo_cedar 50 (demo_input None ''/etc/passwd'') = Inr d \<and> d_allow d \<and>
     d_reason d \<noteq> Some D_resource_out_of_scope \<and>
     extractResourceConstraint (p_meta demo_root) = Inr (Some c) \<and>
     \<not> constraintMatchesResource c (rq_resource (di_request (demo_input None ''/etc/passwd'')))"
proof -
  have m: "demo_meta None" by (simp add: demo_meta_def)
  obtain d where d: "decide demo_env demo_cedar 50 (demo_input None ''/etc/passwd'') = Inr d" "d_allow d"
    by (rule demo_allow [OF m, of "''/etc/passwd''"]) simp_all
  have v: "validateChain demo_env (\<lambda>_. 50) (decide_jwts (demo_input None ''/etc/passwd''))
      (chain_options (decide_now 50 (demo_input None ''/etc/passwd'')) (demo_input None ''/etc/passwd''))
      = Inr (ChainValid demo_root (demo_leaf None))"
    using demo_chain_valid [OF m] by (simp add: chain_options_def demo_input_def demo_request_def decide_jwts_def decide_now_def)
  have "extractResourceConstraint (p_meta (demo_leaf None)) = Inr None"
    by (simp add: demo_leaf_def demo_payload_def extractResourceConstraint_def)
  from unscoped_leaf_escapes_constraint [OF v this d(1)] d show ?thesis
    by (simp add: demo_root_def demo_payload_def demo_scope_extract demo_input_def demo_request_def path_matches_def
        str_truthy_def jget_def)
qed

text \<open>The content identifier of a UCAN is not unique: the base64url decoder ignores what follows a
  padding character, so an allowed token has further texts that verify to the same payload. Where the hash
  has no collisions, revoking the original identifier leaves decide() allowing each of them.\<close>

theorem revoked_token_readmitted:
  assumes "decide E C clock inp = Inr d" "d_allow d" "di_ucan inp = Inl jwt" "CHR ''.'' \<notin> set junk"
    "inj (sha256Hex E)"
  shows "\<exists>d'. decide E C clock
      (inp\<lparr>di_ucan := Inl (jwt @ ''='' @ junk), di_revokedCids := Some {computeCid E jwt}\<rparr>) = Inr d' \<and> d_allow d'"
proof -
  let ?jwt = "jwt @ ''='' @ junk"
  let ?inp = "inp\<lparr>di_ucan := Inl ?jwt, di_revokedCids := Some {computeCid E jwt}\<rparr>"
  have j: "decide_jwts inp = [jwt]" "decide_jwts ?inp = [?jwt]" using assms(3) by (simp_all add: decide_jwts_def)
  obtain root leaf c er where r: "length (decide_jwts inp) \<le> max_depth inp"
    "validateChain E (\<lambda>_. clock) (decide_jwts inp) (chain_options (decide_now clock inp) inp) = Inr (ChainValid root leaf)"
    "str_truthy (di_trustedIssuerDid inp) \<longrightarrow> di_trustedIssuerDid inp = Some (p_iss root)"
    "extractResourceConstraint (p_meta leaf) = Inr c"
    "\<forall>k. c = Some k \<longrightarrow> constraintMatchesResource k (rq_resource (di_request inp))"
    "evaluate C (cedar_question E inp (decide_jwts inp) (decide_now clock inp) root leaf c) = Inr er"
    "er_decision er = CedarAllow"
    by (rule decide_allow [OF assms(1,2)])
  let ?o = "chain_options (decide_now clock inp) inp"
  from r(2) obtain p where p: "validateUcan E clock jwt ?o = Valid p" "root = p" "leaf = p"
    by (auto simp: validateChain_def j chain_options_def Let_def split: ValidateResult.splits)
  from validateUcan_extend [OF p(1) assms(4)] p have
    chain: "validateChain E (\<lambda>_. clock) [?jwt] ?o = Inr (ChainValid root leaf)"
    by (simp add: validateChain_def chain_options_def)
  have same: "cedar_question E ?inp [?jwt] (decide_now clock ?inp) root leaf c = cedar_question E inp [jwt] (decide_now clock inp) root leaf c"
    "decide_now clock ?inp = decide_now clock inp" "max_depth ?inp = max_depth inp"
    "chain_options (decide_now clock ?inp) ?inp = ?o"
    by (simp_all add: cedar_question_def ancestors_def decide_now_def max_depth_def chain_options_def)
  have nrev: "\<not> revoked_in E (Some {computeCid E jwt}) [?jwt]"
    using assms(5) by (auto simp: revoked_in_def computeCid_def dest: injD)
  have "buildReceiptId E [jwt] (di_request inp) = Inr (d_receiptId d)"
    using decide_receipt [OF assms(1)] j by simp
  then obtain r' where r': "buildReceiptId E [?jwt] (di_request inp) = Inr r'"
    by (auto simp: buildReceiptId_def Let_def rbind_Inr_iff simp del: canonicalize_obj)
  have "decide_validated E C ?inp [?jwt] (decide_now clock ?inp) root leaf = Inr (allow_decision r')"
    using r nrev r' same j by (cases c) (auto simp: decide_validated_def summarizeAttenuation_def)
  then show ?thesis using r(1) chain same j by (auto simp: decide_def allow_decision_def)
qed

lemma demo_hash_inj: "inj (sha256Hex demo_env)"
proof (rule injI)
  fix x y assume "sha256Hex demo_env x = sha256Hex demo_env y"
  then have "demo_unhex (demo_hex x) = demo_unhex (demo_hex y)" by (simp add: sha256Hex_def demo_env_def)
  then show "x = y" by (simp add: demo_unhex_hex)
qed

theorem revoked_token_readmitted_witness:
  "\<exists>jwt d'. decide demo_env demo_cedar 50 ((demo_single ''/home/al/x'')
      \<lparr>di_ucan := Inl (jwt @ ''='' @ ''x''), di_revokedCids := Some {computeCid demo_env jwt}\<rparr>) = Inr d' \<and> d_allow d'"
proof -
  have "startsWith ''/home/al/x'' ''/home/al''" by simp
  from demo_allow_single [OF this] obtain d
    where d: "decide demo_env demo_cedar 50 (demo_single ''/home/al/x'') = Inr d" "d_allow d" .
  have "di_ucan (demo_single ''/home/al/x'') = Inl (demo_jwt (demo_key CHR ''a'') demo_root)" by (simp add: demo_single_def)
  from revoked_token_readmitted [OF d this _ demo_hash_inj, of "''x''"] show ?thesis by auto
qed

text \<open>C36: decide() returns a decision, and throws nothing, for every request canonicalize accepts, as long as
  the constraints of the parsed tokens are well formed and the Cedar binding answers.\<close>

theorem decide_returns:
  assumes "serialisable (JObj (requestObj (di_request inp)))" "\<forall>q. is_ok (isAuthorized C q)"
    "\<forall>jwt \<in> set (decide_jwts inp). \<forall>u. parseUcanJwt E jwt = Some u \<longrightarrow> is_ok (extractResourceConstraint (p_meta (u_payload u)))"
  shows "\<exists>d. decide E C clock inp = Inr d"
proof -
  let ?js = "decide_jwts inp" and ?now = "decide_now clock inp"
  obtain t where t: "canonicalize (e_nfc E) (JObj (requestObj (di_request inp))) = Inr t"
    using canonicalize_ok [OF assms(1)] unfolding is_ok_iff by blast
  then have receipt: "is_ok (buildReceiptId E js (di_request inp))" for js
    by (simp add: buildReceiptId_def Let_def lift_canon_def del: canonicalize_obj)
  then have deny: "is_ok (deny E why js (di_request inp))" for why js by (simp add: deny_def)
  have cedar: "is_ok (evaluate C q)" for q using assms(2) by (simp add: evaluate_def)
  have each: "is_ok (extractResourceConstraint (p_meta p))"
    if ps: "validate_each E (\<lambda>_. clock) 0 ?js o' = Inr ps" and p: "p \<in> set ps" for ps p o'
  proof -
    note v = validate_each_Inr [OF ps]
    from p obtain i where i: "i < length ps" "p = ps ! i" by (auto simp: in_set_conv_nth)
    with v obtain u where "parseUcanJwt E (?js ! i) = Some u" "u_payload u = p" by auto
    moreover have "?js ! i \<in> set ?js" using i v by simp
    ultimately show ?thesis using assms(3) by blast
  qed
  have links: "is_ok (check_links ps)" if "\<forall>p \<in> set ps. is_ok (extractResourceConstraint (p_meta p))" for ps
    using that
  proof (induction ps rule: check_links.induct)
    case (1 parent child ps)
    then have "is_ok (check_link parent child)"
      by (auto simp: check_link_def is_ok_iff Let_def split: option.splits)
    with 1 show ?case by (auto simp: is_ok_iff split: option.splits)
  qed simp_all
  have chain: "is_ok (validateChain E (\<lambda>_. clock) ?js o')" for o'
  proof (cases "validate_each E (\<lambda>_. clock) 0 ?js o'")
    case (Inr ps)
    with links [of ps] each obtain cl where "check_links ps = Inr cl" unfolding is_ok_iff by blast
    with Inr show ?thesis by (cases cl) (simp_all add: validateChain_def)
  qed (simp add: validateChain_def)
  have att: "is_ok (summarizeAttenuation E ?js)" if "?js \<noteq> []"
  proof (cases "parseUcanJwt E (hd ?js) = None \<or> parseUcanJwt E (last ?js) = None")
    case True
    then show ?thesis by (auto simp: summarizeAttenuation_def split: option.splits)
  next
    case False
    then obtain u v where uv: "parseUcanJwt E (hd ?js) = Some u" "parseUcanJwt E (last ?js) = Some v" by auto
    with assms(3) that obtain a b where "extractResourceConstraint (p_meta (u_payload u)) = Inr a"
      "extractResourceConstraint (p_meta (u_payload v)) = Inr b"
      unfolding is_ok_iff by (meson hd_in_set last_in_set)
    with uv show ?thesis by (simp add: summarizeAttenuation_def Let_def)
  qed
  have validated: "is_ok (decide_validated E C inp ?js ?now root leaf)"
    if v: "validateChain E (\<lambda>_. clock) ?js o' = Inr (ChainValid root leaf)" for root leaf o'
  proof -
    obtain ps where ps: "validate_each E (\<lambda>_. clock) 0 ?js o' = Inr ps" "ps \<noteq> []" "leaf = last ps" "?js \<noteq> []"
      by (rule validateChain_ChainValid [OF v]) blast
    obtain c where c: "extractResourceConstraint (p_meta leaf) = Inr c"
      using each [OF ps(1), of leaf] ps(2,3) unfolding is_ok_iff by auto
    obtain a where a: "summarizeAttenuation E ?js = Inr a" using att [OF ps(4)] unfolding is_ok_iff by blast
    obtain er where er: "evaluate C (cedar_question E inp ?js ?now root leaf c) = Inr er"
      using cedar unfolding is_ok_iff by blast
    show ?thesis using deny receipt by (simp add: decide_validated_def c a er Let_def)
  qed
  have "is_ok (decide E C clock inp)"
    using deny chain [of "chain_options ?now inp"] validated [of "chain_options ?now inp"] t
    by (auto simp: decide_def Let_def is_ok_iff lift_canon_def simp del: canonicalize_obj split: ChainResult.splits)
  then show ?thesis by (simp add: is_ok_iff)
qed

theorem decide_returns_witness:
  "\<exists>d. decide demo_env demo_cedar 50 ((demo_input None ''/x'')\<lparr>di_ucan := Inl ''none''\<rparr>) = Inr d"
proof (rule decide_returns)
  let ?i = "(demo_input None ''/x'')\<lparr>di_ucan := Inl ''none''\<rparr>"
  show "serialisable (JObj (requestObj (di_request ?i)))"
    by (simp add: demo_input_def requestObj_def demo_request_def opt_str_def opt_json_def)
  show "\<forall>q. is_ok (isAuthorized demo_cedar q)" by (simp add: demo_cedar_def)
  have "parseUcanJwt demo_env ''none'' = None" by (simp add: parseUcanJwt_def)
  then show "\<forall>jwt \<in> set (decide_jwts ?i). \<forall>u. parseUcanJwt demo_env jwt = Some u \<longrightarrow>
      is_ok (extractResourceConstraint (p_meta (u_payload u)))"
    by (simp add: decide_jwts_def)
qed

text \<open>C40: The decision has a consistent shape: an allow carries no reason and a deny carries one. A decision that
  Cedar took, an allow or a denial for policy_denied, on a chain of several tokens reports the number of its
  delegations, which is below the cap; every other decision, on a single token or taken before Cedar, reports
  none.\<close>

theorem decision_shape:
  assumes "decide E C clock inp = Inr d"
  shows "(d_allow d \<longleftrightarrow> d_reason d = None) \<and>
    d_chain_depth d =
      (if (d_allow d \<or> d_reason d = Some D_policy_denied) \<and> 1 < length (decide_jwts inp)
       then Some (length (decide_jwts inp) - 1) else None) \<and>
    (\<forall>n. d_chain_depth d = Some n \<longrightarrow> n < max_depth inp)"
  using assms
proof (cases rule: decide_cases)
  case (3 root leaf)
  from 3(4) show ?thesis
    by (cases rule: decide_validated_cases) (use 3(1,2) in \<open>auto simp: deny_Inr Let_def\<close>)
qed (auto simp: deny_Inr)

theorem decision_shape_witness:
  "\<exists>d. decide demo_env demo_cedar 50 (demo_input None ''/etc/passwd'') = Inr d \<and> d_reason d = None"
proof -
  obtain d where d: "decide demo_env demo_cedar 50 (demo_input None ''/etc/passwd'') = Inr d" "d_allow d"
    by (rule demo_allow [of None "''/etc/passwd''"]) (simp_all add: demo_meta_def)
  with decision_shape [OF d(1)] show ?thesis by blast
qed

subsection \<open>Receipts\<close>

definition request_keys :: "string list" where
  "request_keys = [''ucan'', ''command'', ''resource'', ''context'', ''cosignerJwt'', ''delegated_chain'',
     ''parent_receipt_id'', ''swarm_id'']"

lemma requestObj_fixed:
  assumes "nfc_fixes nfc" "(k, v) \<in> set (requestObj r)" shows "nfc k = k"
proof -
  have "k \<in> set request_keys"
    using assms(2) by (auto simp: requestObj_def opt_str_def opt_json_def request_keys_def split: option.splits)
  then have "\<forall>c \<in> set k. (of_char c :: nat) < 128" by (auto simp: request_keys_def)
  with assms(1) show ?thesis by (simp add: nfc_fixes_def)
qed

lemma requestObj_distinct: "distinct_keys (requestObj r)"
  by (simp add: requestObj_def opt_str_def opt_json_def distinct_keys_def split: option.splits)

lemma requestObj_jget:
  "jget (requestObj r) ''ucan'' = JStr (rq_ucan r)" "jget (requestObj r) ''command'' = JStr (rq_command r)"
  "jget (requestObj r) ''resource'' = JObj (rq_resource r)"
  by (simp_all add: requestObj_def jget_def)

text \<open>A receipt identifies what was decided: where the hash has no collisions, two decisions with the
  same receipt id were taken on the same leaf token, the same command and the same resource up to the
  normal form of its free-form members.\<close>

theorem receipt_identifies_request:
  assumes "inj (sha256Hex E)" "\<forall>s. CHR ''|'' \<notin> set (sha256Hex E s)" "nfc_fixes (e_nfc E)"
    "decide E C c1 i1 = Inr d1" "decide E C c2 i2 = Inr d2" "d_receiptId d1 = d_receiptId d2"
    "decide_jwts i1 \<noteq> []" "decide_jwts i2 \<noteq> []"
    "numerals_ok (e_nd E) (JObj (requestObj (di_request i1)))" "numerals_ok (e_nd E) (JObj (requestObj (di_request i2)))"
  shows "last (decide_jwts i1) = last (decide_jwts i2) \<and> rq_command (di_request i1) = rq_command (di_request i2) \<and>
    norm_members (e_nfc E) (rq_resource (di_request i1)) = norm_members (e_nfc E) (rq_resource (di_request i2))"
proof -
  let ?N = "\<lambda>i. norm (e_nfc E) (JObj (requestObj (di_request i)))"
  obtain t1 t2 where t: "canonicalize (e_nfc E) (JObj (requestObj (di_request i1))) = Inr t1"
    "canonicalize (e_nfc E) (JObj (requestObj (di_request i2))) = Inr t2"
    "sha256Hex E (computeCid E (last (decide_jwts i1)) @ CHR ''|'' # t1) = sha256Hex E (computeCid E (last (decide_jwts i2)) @ CHR ''|'' # t2)"
    using decide_receipt [OF assms(4,7)] decide_receipt [OF assms(5,8)] assms(6)
    by (auto simp: buildReceiptId_def Let_def rbind_Inr_iff simp del: canonicalize_obj)
  from injD [OF assms(1) t(3)] assms(2)
  have eq: "computeCid E (last (decide_jwts i1)) = computeCid E (last (decide_jwts i2))" "t1 = t2"
    by (auto simp: computeCid_def dest!: split_at_sep [rotated 2])
  from canonicalize_parse [OF t(1) assms(9)] canonicalize_parse [OF t(2) assms(10)] eq(2)
  have N: "?N i1 = ?N i2" by simp
  obtain o1 o2 where ob: "?N i1 = JObj o1" "?N i2 = JObj o2" by simp
  have g: "jget o1 k = norm (e_nfc E) (jget (requestObj (di_request i1)) k)"
    "jget o2 k = norm (e_nfc E) (jget (requestObj (di_request i2)) k)" for k
    by (rule jget_norm [OF _ requestObj_distinct ob(1)], rule requestObj_fixed [OF assms(3)], assumption)
      (rule jget_norm [OF _ requestObj_distinct ob(2)], rule requestObj_fixed [OF assms(3)], assumption)
  have "o1 = o2" using N ob by simp
  then have same: "norm (e_nfc E) (jget (requestObj (di_request i1)) k) = norm (e_nfc E) (jget (requestObj (di_request i2)) k)" for k
    using g by metis
  show ?thesis
    using eq(1) assms(1) same [of "''command''"] same [of "''resource''"]
    by (auto simp: requestObj_jget computeCid_def norm_members simp del: norm_obj dest: injD)
qed

theorem receipt_identifies_request_witness:
  "\<exists>d. decide demo_env demo_cedar 50 (demo_input None ''/a'') = Inr d \<and>
     norm_members (e_nfc demo_env) (rq_resource (di_request (demo_input None ''/a''))) = [(''path'', JStr ''/a'')]"
proof -
  obtain d where d: "decide demo_env demo_cedar 50 (demo_input None ''/a'') = Inr d" "d_allow d"
    by (rule demo_allow [of None "''/a''"]) (simp_all add: demo_meta_def)
  have "\<forall>s. CHR ''|'' \<notin> set (sha256Hex demo_env s)"
  proof
    fix s have "\<not> base58_char CHR ''|''" by (simp add: base58_char_def is_alnum_def is_upper_def is_lower_def is_digit_def)
    then show "CHR ''|'' \<notin> set (sha256Hex demo_env s)" using demo_hex_chars by (auto simp: sha256Hex_def demo_env_def)
  qed
  moreover have "numerals_ok (e_nd demo_env) (JObj (requestObj (di_request (demo_input None ''/a''))))"
    "decide_jwts (demo_input None ''/a'') \<noteq> []"
    by (simp_all add: demo_input_def requestObj_def demo_request_def opt_str_def opt_json_def decide_jwts_def demo_chain_def)
  ultimately show ?thesis
    using receipt_identifies_request [OF demo_hash_inj _ demo_nfc(2) d(1) d(1)] d(1)
    by (simp add: norm_members_def demo_input_def demo_request_def demo_nfc(1) surviving_def)
qed

subsection \<open>The evaluation context\<close>

fun member_of :: "json \<Rightarrow> string \<Rightarrow> json" where
  "member_of (JObj ob) k = jget ob k"
| "member_of v k = JUndef"

lemma member_layer:
  assumes "distinct_keys fs"
  shows "member_of (layer (JObj fs) w) f = (case map_of fs f of None \<Rightarrow> member_of w f | Some v \<Rightarrow> v)"
proof -
  have "map_of (rev fs) = map_of fs" 
    using assms by (simp add: map_of_inject_set distinct_keys_def rev_map [symmetric])
  then show ?thesis by (cases w) (auto simp: jget_def map_of_obj_spread split: option.splits)
qed

lemma constraintObj_distinct: "distinct_keys (constraintObj c)"
  by (cases c) (simp_all add: distinct_keys_def opt_str_def opt_int_def split: option.splits)

text \<open>In the context Cedar sees, what the issuer stamped into the leaf's hints wins over everything the
  agent sent: a plain hint replaces, and every member of an object hint is seen as stamped. The agent's
  word stands only for keys the PDP and the issuer leave open, \<open>cosigner\<close> among them; and because
  objects are merged member by member, an agent's \<open>resource_constraint\<close> object adds its members to the
  issuer's constraint where that has none of the name.\<close>

theorem context_precedence:
  assumes "distinct_keys (rq_context request)" "extractContextHints (p_meta leaf) = Some h" "distinct_keys h"
    "ctx = decision_context request now leaf c"
  shows "(\<forall>k v. map_of h k = Some v \<and> \<not> is_object v \<and> (k \<noteq> ''resource_constraint'' \<or> c = None) \<longrightarrow> jget ctx k = v) \<and>
    (\<forall>k fs f v. map_of h k = Some (JObj fs) \<and> distinct_keys fs \<and> map_of fs f = Some v \<and>
       (k \<noteq> ''resource_constraint'' \<or> c = None) \<longrightarrow> member_of (jget ctx k) f = v) \<and>
    (\<forall>k. map_of h k = None \<and> k \<notin> {''time'', ''resource_constraint''} \<longrightarrow> jget ctx k = jget (rq_context request) k) \<and>
    (\<forall>b f. c = Some b \<and> map_of h ''resource_constraint'' = None \<and> map_of (constraintObj b) f = None \<longrightarrow>
       member_of (jget ctx ''resource_constraint'') f = member_of (jget (rq_context request) ''resource_constraint'') f)"
proof -
  have l: "jget ctx k =
    over (map_option (\<lambda>c. [(''resource_constraint'', JObj (constraintObj c))]) c) k
      (over (Some h) k (over (Some (computeEphemeralContext now)) k (jget (rq_context request) k)))" for k
    using decision_context_lookup [OF assms(1), of leaf now c k] assms(2,3,4) by simp
  have flat: "layer v w = v" if "\<not> is_object v" for v w using that by (cases v) auto
  show ?thesis
    by (intro conjI allI impI)
      (auto simp: l over_def flat member_layer constraintObj_distinct computeEphemeralContext_def split: option.splits)
qed

theorem context_precedence_witness:
  "\<exists>ctx. ctx = decision_context (demo_request ''/x'')
       50 (demo_leaf (Some [(''context_hints'', JObj [(''dept'', JStr ''eng'')])])) None \<and>
     jget ctx ''dept'' = JStr ''eng'' \<and> jget ctx ''cosigner'' = JBool True"
proof -
  let ?l = "demo_leaf (Some [(''context_hints'', JObj [(''dept'', JStr ''eng'')])])"
  have "distinct_keys (rq_context (demo_request ''/x''))" by (simp add: demo_request_def distinct_keys_def)
  moreover have "extractContextHints (p_meta ?l) = Some [(''dept'', JStr ''eng'')]"
    by (simp add: demo_leaf_def demo_payload_def extractContextHints_def jget_def)
  moreover have "distinct_keys [(''dept'', JStr ''eng'')]" by (simp add: distinct_keys_def)
  ultimately have "jget (decision_context (demo_request ''/x'') 50 ?l None) ''dept'' = JStr ''eng''"
    "jget (decision_context (demo_request ''/x'') 50 ?l None) ''cosigner'' = jget (rq_context (demo_request ''/x'')) ''cosigner''"
    using context_precedence [of "demo_request ''/x''" ?l "[(''dept'', JStr ''eng'')]" _ 50 None] by simp_all
  then show ?thesis by (simp add: demo_request_def jget_def)
qed

end
