(* ===== verification/Audit_Log.thy ===== *)
theory Audit_Log
  imports Decide
begin

text \<open>
  The audit log: apps/pdp/src/audit/emit.ts (genesis hash, the file emitter), verify.ts (the chain
  verifier), postgres-emitter.ts (the batching emitter, as a machine whose steps are the stretches
  of code between two awaits) and packages/audit-verify/src (the offline bundle verifier and its
  command line). \<open>hash_linked\<close> is the interface both verifiers share: what a chain of entries
  whose hashes commit to their contents promises about two chains with the same head.
\<close>

subsection \<open>emit.ts: events and their digest\<close>

definition ZERO_HASH :: string where
  "ZERO_HASH = replicate 64 CHR ''0''"

definition auditGenesisHash :: "env \<Rightarrow> string \<Rightarrow> string \<Rightarrow> string" where
  "auditGenesisHash E customerId secret = sha256Hex E (''audit-genesis|v1|'' @ customerId @ ''|'' @ secret)"

datatype AuditDecision = AuditAllow | AuditDeny | AuditStepup

definition decisionToAudit :: "AuthorizeDecision \<Rightarrow> AuditDecision" where
  "decisionToAudit d =
     (if d_allow d then AuditAllow else if d_requiresStepUp d = Some True then AuditStepup else AuditDeny)"

fun decision_text :: "AuditDecision \<Rightarrow> string" where
  "decision_text AuditAllow = ''allow''"
| "decision_text AuditDeny = ''deny''"
| "decision_text AuditStepup = ''stepup''"

record AuditEventInput =
  ai_customer_id :: string
  ai_ts :: int
  ai_agent :: string
  ai_decision :: AuditDecision
  ai_command :: string
  ai_resource :: obj
  ai_context :: obj
  ai_parent_receipt_id :: "string option"
  ai_swarm_id :: "string option"
  ai_chain_depth :: "nat option"
  ai_receipt_id :: "string option"
  ai_api_call_method :: "string option"
  ai_api_call_path :: "string option"

record AuditEvent =
  ev_event_id :: string
  ev_prev_hash :: string
  ev_input :: AuditEventInput
  ev_hash :: string

definition inputObj :: "AuditEventInput \<Rightarrow> obj" where
  "inputObj i =
     [(''customer_id'', JStr (ai_customer_id i)), (''ts'', JNum (JInt (ai_ts i))), (''agent'', JStr (ai_agent i)),
      (''decision'', JStr (decision_text (ai_decision i))), (''command'', JStr (ai_command i)),
      (''resource'', JObj (ai_resource i)), (''context'', JObj (ai_context i))]
     @ opt_str ''parent_receipt_id'' (ai_parent_receipt_id i) @ opt_str ''swarm_id'' (ai_swarm_id i)
     @ opt_int ''chain_depth'' (map_option int (ai_chain_depth i)) @ opt_str ''receipt_id'' (ai_receipt_id i)
     @ opt_str ''api_call_method'' (ai_api_call_method i) @ opt_str ''api_call_path'' (ai_api_call_path i)"

definition partialObj :: "string \<Rightarrow> string \<Rightarrow> AuditEventInput \<Rightarrow> obj" where
  "partialObj eventId prevHash i = [(''event_id'', JStr eventId), (''prev_hash'', JStr prevHash)] @ inputObj i"

definition chain_hash :: "env \<Rightarrow> string \<Rightarrow> obj \<Rightarrow> (exn, string) result" where
  "chain_hash E prevHash ob =
     rbind (lift_canon (canonicalize (e_nfc E) (JObj ob))) (\<lambda>t. Inr (sha256Hex E (prevHash @ ''|'' @ t)))"

definition make_event :: "env \<Rightarrow> string \<Rightarrow> string \<Rightarrow> AuditEventInput \<Rightarrow> (exn, AuditEvent) result" where
  "make_event E eventId prevHash i =
     rbind (chain_hash E prevHash (partialObj eventId prevHash i)) (\<lambda>h.
       Inr \<lparr>ev_event_id = eventId, ev_prev_hash = prevHash, ev_input = i, ev_hash = h\<rparr>)"

subsection \<open>emit.ts: the file emitter\<close>

text \<open>The state is the closure variable \<open>lastHash\<close>, the events whose append has begun and not settled, and
  the lines the log file holds. JavaScript runs \<open>emit\<close> without interruption up to its await, so \<open>emit\<close> is
  that stretch: it moves the head and begins the append. \<open>settle_append\<close> is the settling of the k-th append
  under way, which puts its line into the file or fails. The UUID and whether an append succeeds are inputs.\<close>

record AuditEmitter =
  em_lastHash :: string
  em_writing :: "AuditEvent list"
  em_log :: "AuditEvent list"

definition createAuditEmitter :: "string option \<Rightarrow> AuditEmitter" where
  "createAuditEmitter initialPrevHash =
     \<lparr>em_lastHash = (case initialPrevHash of None \<Rightarrow> ZERO_HASH | Some h \<Rightarrow> h), em_writing = [], em_log = []\<rparr>"

definition emit :: "env \<Rightarrow> string \<Rightarrow> AuditEventInput \<Rightarrow> AuditEmitter \<Rightarrow> AuditEmitter \<times> (exn, AuditEvent) result" where
  "emit E eventId i st =
     (case make_event E eventId (em_lastHash st) i of
        Inl e \<Rightarrow> (st, Inl e)
      | Inr event \<Rightarrow> (st\<lparr>em_lastHash := ev_hash event, em_writing := em_writing st @ [event]\<rparr>, Inr event))"

definition drop_nth :: "nat \<Rightarrow> 'a list \<Rightarrow> 'a list" where
  "drop_nth k xs = take k xs @ drop (Suc k) xs"

definition settle_append :: "nat \<Rightarrow> bool \<Rightarrow> AuditEmitter \<Rightarrow> AuditEmitter \<times> (exn, AuditEvent) result" where
  "settle_append k write_ok st =
     (let event = em_writing st ! k; st' = st\<lparr>em_writing := drop_nth k (em_writing st)\<rparr>
      in if write_ok then (st'\<lparr>em_log := em_log st @ [event]\<rparr>, Inr event) else (st', Inl IoError))"

text \<open>The runs of a new emitter whose appends succeed: emits begin at any time, whether or not earlier
  appends have settled. \<open>evs\<close> are the events in the order of the calls. With \<open>in_order\<close> the appends settle
  in the order they were begun; without it in any order.\<close>

inductive file_run :: "env \<Rightarrow> bool \<Rightarrow> AuditEvent list \<Rightarrow> AuditEmitter \<Rightarrow> bool" for E in_order where
  run_start: "file_run E in_order [] (createAuditEmitter None)"
| run_emit: "file_run E in_order evs st \<Longrightarrow> emit E eid i st = (st', Inr ev) \<Longrightarrow> file_run E in_order (evs @ [ev]) st'"
| run_reject: "file_run E in_order evs st \<Longrightarrow> emit E eid i st = (st', Inl e) \<Longrightarrow> file_run E in_order evs st'"
| run_append: "file_run E in_order evs st \<Longrightarrow> k < length (em_writing st) \<Longrightarrow> (in_order \<longrightarrow> k = 0) \<Longrightarrow>
    file_run E in_order evs (fst (settle_append k True st))"

subsection \<open>verify.ts\<close>

datatype BreakReason = break_hash_mismatch | break_prev_hash_mismatch

datatype AuditChainVerification = ChainOk | ChainBroken nat BreakReason

record VerifyAuditChainOptions =
  genesisFor :: "(string \<Rightarrow> string) option"
  acceptLegacyZeroHash :: bool

definition acceptable_genesis :: "VerifyAuditChainOptions \<Rightarrow> string \<Rightarrow> string set" where
  "acceptable_genesis opts customerId =
     (let pinned = (case genesisFor opts of None \<Rightarrow> None | Some f \<Rightarrow> Some (f customerId))
      in if str_truthy pinned
         then {the pinned} \<union> (if acceptLegacyZeroHash opts then {ZERO_HASH} else {})
         else {ZERO_HASH})"

definition prev_ok :: "VerifyAuditChainOptions \<Rightarrow> string option \<Rightarrow> AuditEvent \<Rightarrow> bool" where
  "prev_ok opts expectedPrev ev =
     (case expectedPrev of
        None \<Rightarrow> ev_prev_hash ev \<in> acceptable_genesis opts (ai_customer_id (ev_input ev))
      | Some p \<Rightarrow> ev_prev_hash ev = p)"

definition recompute :: "env \<Rightarrow> AuditEvent \<Rightarrow> (exn, string) result" where
  "recompute E ev = chain_hash E (ev_prev_hash ev) (partialObj (ev_event_id ev) (ev_prev_hash ev) (ev_input ev))"

fun verify_from ::
  "env \<Rightarrow> VerifyAuditChainOptions \<Rightarrow> nat \<Rightarrow> string option \<Rightarrow> AuditEvent list \<Rightarrow> (exn, AuditChainVerification) result"
  where
  "verify_from E opts i expectedPrev [] = Inr ChainOk"
| "verify_from E opts i expectedPrev (ev # events) =
     (if \<not> prev_ok opts expectedPrev ev then Inr (ChainBroken i break_prev_hash_mismatch)
      else rbind (recompute E ev) (\<lambda>h.
        if h \<noteq> ev_hash ev then Inr (ChainBroken i break_hash_mismatch)
        else verify_from E opts (Suc i) (Some (ev_hash ev)) events))"

definition verifyAuditChain ::
  "env \<Rightarrow> VerifyAuditChainOptions \<Rightarrow> AuditEvent list \<Rightarrow> (exn, AuditChainVerification) result" where
  "verifyAuditChain E opts events = verify_from E opts 0 None events"

subsection \<open>What the verifier accepts\<close>

definition authentic :: "env \<Rightarrow> AuditEvent \<Rightarrow> bool" where
  "authentic E ev \<longleftrightarrow> recompute E ev = Inr (ev_hash ev)"

lemma verify_from_ok:
  "verify_from E opts i p events = Inr ChainOk \<longleftrightarrow>
     (\<forall>ev \<in> set events. authentic E ev) \<and> linked (\<lambda>a b. ev_prev_hash b = ev_hash a) events \<and>
     (events = [] \<or> prev_ok opts p (hd events))"
proof (induction E opts i p events rule: verify_from.induct)
  case (2 E opts i p ev events)
  show ?case
  proof (cases "prev_ok opts p ev \<and> authentic E ev")
    case True
    then have "verify_from E opts i p (ev # events) = verify_from E opts (Suc i) (Some (ev_hash ev)) events"
      by (simp add: authentic_def)
    with 2 True show ?thesis by (cases events) (auto simp: authentic_def prev_ok_def)
  next
    case False
    then show ?thesis by (auto simp: authentic_def rbind_Inr_iff)
  qed
qed simp

lemma make_event_authentic: "make_event E eid p i = Inr ev \<Longrightarrow> authentic E ev \<and> ev_prev_hash ev = p \<and> ev_input ev = i"
  by (auto simp: make_event_def authentic_def recompute_def rbind_Inr_iff)

text \<open>The events of an emitter are a chain in the order of the calls: each is authentic, links to the one
  before, and \<open>lastHash\<close> is the head.\<close>

definition chain_at :: "env \<Rightarrow> string \<Rightarrow> AuditEvent list \<Rightarrow> string \<Rightarrow> bool" where
  "chain_at E start evs head \<longleftrightarrow>
     (\<forall>ev \<in> set evs. authentic E ev) \<and> linked (\<lambda>a b. ev_prev_hash b = ev_hash a) evs \<and>
     (if evs = [] then head = start else ev_prev_hash (hd evs) = start \<and> head = ev_hash (last evs))"

lemma linked_append1: "linked R (xs @ [y]) \<longleftrightarrow> linked R xs \<and> (xs = [] \<or> R (last xs) y)"
  by (induction R xs rule: linked.induct) auto

lemma linked_take: "linked R (xs @ ys) \<Longrightarrow> linked R xs"
  by (induction R xs rule: linked.induct) auto

lemma chain_at_Nil [simp]: "chain_at E start [] start"
  by (simp add: chain_at_def)

lemma chain_at_snoc:
  assumes "chain_at E start evs head" "make_event E eid head i = Inr ev"
  shows "chain_at E start (evs @ [ev]) (ev_hash ev)"
  using assms make_event_authentic [OF assms(2)]
  by (auto simp: chain_at_def linked_append1 hd_append split: if_splits)

lemma chain_at_verifies:
  assumes "chain_at E ZERO_HASH (xs @ ys) head"
  shows "verifyAuditChain E \<lparr>genesisFor = None, acceptLegacyZeroHash = False\<rparr> xs = Inr ChainOk"
  using assms linked_take
  by (fastforce simp: verifyAuditChain_def verify_from_ok chain_at_def prev_ok_def acceptable_genesis_def str_truthy_def
      hd_append split: if_splits)

lemma mset_drop_nth: "k < length xs \<Longrightarrow> mset xs = add_mset (xs ! k) (mset (drop_nth k xs))"
  by (metis drop_nth_def id_take_nth_drop mset_append mset.simps(2) union_mset_add_mset_right)

text \<open>What every run keeps: the events form a chain, none is lost or doubled, and in-order appends leave the
  file a prefix of it.\<close>

lemma file_run_chain:
  assumes "file_run E in_order evs st"
  shows "chain_at E ZERO_HASH evs (em_lastHash st) \<and> mset (em_log st) + mset (em_writing st) = mset evs \<and>
    (in_order \<longrightarrow> evs = em_log st @ em_writing st)"
  using assms
proof (induction rule: file_run.induct)
  case (run_emit evs st eid i st' ev)
  then have m: "make_event E eid (em_lastHash st) i = Inr ev"
    and st': "st' = st\<lparr>em_lastHash := ev_hash ev, em_writing := em_writing st @ [ev]\<rparr>"
    by (auto simp: emit_def split: sum.splits)
  from run_emit.IH chain_at_snoc [OF _ m, of ZERO_HASH evs] show ?case by (auto simp: st')
next
  case (run_append evs st k)
  note m = mset_drop_nth [OF run_append.hyps(2)]
  have "evs = em_log st @ em_writing st \<and> em_writing st = em_writing st ! k # drop_nth k (em_writing st)" if in_order
    using that run_append by (cases "em_writing st") (auto simp: drop_nth_def)
  moreover have "fst (settle_append k True st) = st\<lparr>em_writing := drop_nth k (em_writing st),
      em_log := em_log st @ [em_writing st ! k]\<rparr>" by (simp add: settle_append_def Let_def)
  moreover have "em_log st @ em_writing st = (em_log st @ [em_writing st ! k]) @ drop_nth k (em_writing st)"
    if "em_writing st = em_writing st ! k # drop_nth k (em_writing st)"
    by (subst that) simp
  ultimately show ?case using run_append.IH m by simp
qed (auto simp: createAuditEmitter_def emit_def split: sum.splits)

subsection \<open>Chains that commit to their contents\<close>

locale hash_linked =
  fixes prev_of hash_of :: "'e \<Rightarrow> string" and content_of :: "'e \<Rightarrow> 'c" and valid :: "'e \<Rightarrow> bool"
  assumes commits: "valid a \<Longrightarrow> valid b \<Longrightarrow> hash_of a = hash_of b \<Longrightarrow> prev_of a = prev_of b \<and> content_of a = content_of b"
begin

definition chain :: "'e list \<Rightarrow> bool" where
  "chain xs \<longleftrightarrow> (\<forall>x \<in> set xs. valid x) \<and> linked (\<lambda>a b. prev_of b = hash_of a) xs"

lemma chain_snoc: "chain (xs @ [x]) \<longleftrightarrow> chain xs \<and> valid x \<and> (xs = [] \<or> prev_of x = hash_of (last xs))"
  by (auto simp: chain_def linked_append1)

text \<open>Two chains of equal length with the same head hash hold the same contents throughout.\<close>

lemma same_head_same_contents:
  "chain xs \<Longrightarrow> chain ys \<Longrightarrow> length xs = length ys \<Longrightarrow> xs \<noteq> [] \<Longrightarrow> hash_of (last xs) = hash_of (last ys) \<Longrightarrow>
     map content_of xs = map content_of ys"
proof (induction xs arbitrary: ys rule: rev_induct)
  case (snoc x xs)
  then obtain zs y where ys: "ys = zs @ [y]" by (cases ys rule: rev_cases) auto
  with snoc.prems have c: "prev_of x = prev_of y" "content_of x = content_of y"
    using commits [of x y] by (auto simp: chain_snoc)
  have len: "length xs = length zs" using snoc.prems ys by simp
  show ?case
  proof (cases "xs = []")
    case True
    with len ys c show ?thesis by simp
  next
    case False
    with len have "zs \<noteq> []" by auto
    with False snoc.prems ys c have "hash_of (last xs) = hash_of (last zs)" by (auto simp: chain_snoc)
    with snoc.IH [of zs] False snoc.prems ys len c show ?thesis by (auto simp: chain_snoc)
  qed
qed simp

end

definition collision_free :: "env \<Rightarrow> bool" where
  "collision_free E \<longleftrightarrow> inj (sha256Hex E) \<and> (\<forall>s. CHR ''|'' \<notin> set (sha256Hex E s))"

text \<open>What an entry's hash commits to: the normal form of the hashed object.\<close>

definition committed :: "env \<Rightarrow> AuditEvent \<Rightarrow> json" where
  "committed E ev = norm (e_nfc E) (JObj (partialObj (ev_event_id ev) (ev_prev_hash ev) (ev_input ev)))"

definition sound_entry :: "env \<Rightarrow> AuditEvent \<Rightarrow> bool" where
  "sound_entry E ev \<longleftrightarrow>
     collision_free E \<and> authentic E ev \<and> CHR ''|'' \<notin> set (ev_prev_hash ev) \<and>
     numerals_ok (e_nd E) (JObj (partialObj (ev_event_id ev) (ev_prev_hash ev) (ev_input ev)))"

lemma chain_hash_commits:
  assumes "collision_free E" "chain_hash E p1 o1 = Inr h" "chain_hash E p2 o2 = Inr h"
    "CHR ''|'' \<notin> set p1" "CHR ''|'' \<notin> set p2" "numerals_ok (e_nd E) (JObj o1)" "numerals_ok (e_nd E) (JObj o2)"
  shows "p1 = p2 \<and> norm (e_nfc E) (JObj o1) = norm (e_nfc E) (JObj o2)"
proof -
  from assms(2,3) obtain t1 t2 where t: "canonicalize (e_nfc E) (JObj o1) = Inr t1" "canonicalize (e_nfc E) (JObj o2) = Inr t2"
    "sha256Hex E (p1 @ CHR ''|'' # t1) = sha256Hex E (p2 @ CHR ''|'' # t2)"
    by (auto simp: chain_hash_def rbind_Inr_iff simp del: canonicalize_obj)
  have "p1 @ CHR ''|'' # t1 = p2 @ CHR ''|'' # t2"
    using assms(1) t(3) by (auto simp: collision_free_def dest: injD)
  from split_at_sep [OF assms(4,5) this] have "p1 = p2" "t1 = t2" by auto
  with canonicalize_parse [OF t(1) assms(6)] canonicalize_parse [OF t(2) assms(7)] show ?thesis by simp
qed

interpretation audit_chain: hash_linked ev_prev_hash ev_hash "committed E" "sound_entry E" for E
proof
  fix a b assume "sound_entry E a" "sound_entry E b" "ev_hash a = ev_hash b"
  then show "ev_prev_hash a = ev_prev_hash b \<and> committed E a = committed E b"
    unfolding committed_def sound_entry_def authentic_def recompute_def by (intro chain_hash_commits) auto
qed

end
