(* ===== verification/Audit_Pg.thy ===== *)
theory Audit_Pg
  imports Audit_Log
begin

text \<open>
  apps/pdp/src/audit/postgres-emitter.ts with the storage adapter of postgres-writer.ts. JavaScript
  runs the code between two awaits without interruption, so each operation below is one such
  stretch: \<open>pg_call\<close> is \<open>emit\<close> up to its await on \<open>ensureLastHash\<close>, \<open>pg_hydrated\<close> and
  \<open>pg_hydrate_failed\<close> are the settling of the fetch, \<open>pg_resume\<close> is the rest of \<open>emit\<close>, \<open>pg_flush\<close>
  and \<open>pg_flushed\<close> are \<open>flush\<close> before and after its await. A flush that waits for a running one and
  then recurses is a later \<open>pg_flush\<close>, as is a tick of the timer. \<open>pg_step\<close> interleaves them freely.
\<close>

datatype hydration = Fetching | FetchRejected

record pg_job =
  pj_event_id :: string
  pj_input :: AuditEventInput
  pj_prev :: "string option"

record pg_state =
  pg_lastHash :: "string \<Rightarrow> string option"
  pg_hydrating :: "string \<Rightarrow> hydration option"
  pg_jobs :: "pg_job list"
  pg_pending :: "AuditEvent list"
  pg_flushing :: "AuditEvent list option"
  pg_db :: "AuditEvent list"
  pg_lost :: "AuditEvent list"

record pg_options =
  pg_batchSizeMax :: nat
  pg_genesisFor :: "(string \<Rightarrow> string) option"

definition ev_customer :: "AuditEvent \<Rightarrow> string" where
  "ev_customer ev = ai_customer_id (ev_input ev)"

definition createPostgresAuditEmitter :: "AuditEvent list \<Rightarrow> pg_state" where
  "createPostgresAuditEmitter db =
     \<lparr>pg_lastHash = Map.empty, pg_hydrating = Map.empty, pg_jobs = [], pg_pending = [], pg_flushing = None,
      pg_db = db, pg_lost = []\<rparr>"

definition genesisOf :: "pg_options \<Rightarrow> string \<Rightarrow> string" where
  "genesisOf opts c = (case pg_genesisFor opts of None \<Rightarrow> ZERO_HASH | Some f \<Rightarrow> f c)"

definition getLastHash :: "pg_options \<Rightarrow> pg_state \<Rightarrow> string \<Rightarrow> string" where
  "getLastHash opts st c = (case pg_lastHash st c of None \<Rightarrow> genesisOf opts c | Some h \<Rightarrow> h)"

text \<open>\<open>emit\<close> up to the await. On a rejected fetch the caller's promise rejects and no job is left.\<close>

definition pg_call :: "string \<Rightarrow> AuditEventInput \<Rightarrow> pg_state \<Rightarrow> pg_state" where
  "pg_call eid i st =
     (let c = ai_customer_id i
      in case pg_lastHash st c of
           Some h \<Rightarrow> st\<lparr>pg_jobs := pg_jobs st @ [\<lparr>pj_event_id = eid, pj_input = i, pj_prev = Some h\<rparr>]\<rparr>
         | None \<Rightarrow>
             (case pg_hydrating st c of
                Some FetchRejected \<Rightarrow> st
              | Some Fetching \<Rightarrow> st\<lparr>pg_jobs := pg_jobs st @ [\<lparr>pj_event_id = eid, pj_input = i, pj_prev = None\<rparr>]\<rparr>
              | None \<Rightarrow>
                  st\<lparr>pg_hydrating := (pg_hydrating st)(c := Some Fetching),
                     pg_jobs := pg_jobs st @ [\<lparr>pj_event_id = eid, pj_input = i, pj_prev = None\<rparr>]\<rparr>))"

definition waits_for :: "string \<Rightarrow> pg_job \<Rightarrow> bool" where
  "waits_for c j \<longleftrightarrow> ai_customer_id (pj_input j) = c \<and> pj_prev j = None"

definition pg_hydrated :: "pg_options \<Rightarrow> string \<Rightarrow> string option \<Rightarrow> pg_state \<Rightarrow> pg_state" where
  "pg_hydrated opts c fromDb st =
     (if pg_hydrating st c \<noteq> Some Fetching then st
      else let v = (case pg_lastHash st c of
                      Some existing \<Rightarrow> existing
                    | None \<Rightarrow> (case fromDb of None \<Rightarrow> genesisOf opts c | Some h \<Rightarrow> h))
           in st\<lparr>pg_lastHash := (pg_lastHash st)(c := Some v),
                 pg_hydrating := (pg_hydrating st)(c := None),
                 pg_jobs := map (\<lambda>j. if waits_for c j then j\<lparr>pj_prev := Some v\<rparr> else j) (pg_jobs st)\<rparr>)"

definition pg_hydrate_failed :: "string \<Rightarrow> pg_state \<Rightarrow> pg_state" where
  "pg_hydrate_failed c st =
     (if pg_hydrating st c \<noteq> Some Fetching then st
      else st\<lparr>pg_hydrating := (pg_hydrating st)(c := Some FetchRejected),
              pg_jobs := filter (\<lambda>j. \<not> waits_for c j) (pg_jobs st)\<rparr>)"

definition pg_flush :: "pg_state \<Rightarrow> pg_state" where
  "pg_flush st =
     (if pg_flushing st \<noteq> None then st
      else if pg_pending st = [] then st
      else st\<lparr>pg_flushing := Some (pg_pending st), pg_pending := []\<rparr>)"

definition pg_resume :: "env \<Rightarrow> pg_options \<Rightarrow> nat \<Rightarrow> pg_state \<Rightarrow> pg_state" where
  "pg_resume E opts k st =
     (if k \<ge> length (pg_jobs st) then st
      else let j = pg_jobs st ! k
           in case pj_prev j of
                None \<Rightarrow> st
              | Some prevHash \<Rightarrow>
                  (let st1 = st\<lparr>pg_jobs := drop_nth k (pg_jobs st)\<rparr>
                   in case make_event E (pj_event_id j) prevHash (pj_input j) of
                        Inl e \<Rightarrow> st1
                      | Inr event \<Rightarrow>
                          (let st2 = st1\<lparr>pg_lastHash := (pg_lastHash st1)(ai_customer_id (pj_input j) := Some (ev_hash event)),
                                         pg_pending := pg_pending st1 @ [event]\<rparr>
                           in if length (pg_pending st2) \<ge> pg_batchSizeMax opts then pg_flush st2 else st2)))"

definition pg_flushed :: "bool \<Rightarrow> pg_state \<Rightarrow> pg_state" where
  "pg_flushed ok st =
     (case pg_flushing st of
        None \<Rightarrow> st
      | Some rows \<Rightarrow>
          if ok then st\<lparr>pg_flushing := None, pg_db := pg_db st @ rows\<rparr>
          else st\<lparr>pg_flushing := None, pg_lost := pg_lost st @ rows\<rparr>)"

text \<open>\<open>SELECT hash ... WHERE customer_id = $1 ORDER BY ts DESC LIMIT 1\<close>: a row of the customer with the
  largest timestamp; rows with equal timestamps come in no particular order.\<close>

definition fetchLastHash :: "AuditEvent list \<Rightarrow> string \<Rightarrow> string option \<Rightarrow> bool" where
  "fetchLastHash db c r \<longleftrightarrow>
     (case r of
        None \<Rightarrow> \<not> (\<exists>ev \<in> set db. ev_customer ev = c)
      | Some h \<Rightarrow>
          (\<exists>ev \<in> set db. ev_customer ev = c \<and> ev_hash ev = h \<and>
             (\<forall>e \<in> set db. ev_customer e = c \<longrightarrow> ai_ts (ev_input e) \<le> ai_ts (ev_input ev))))"

inductive pg_step :: "env \<Rightarrow> pg_options \<Rightarrow> pg_state \<Rightarrow> pg_state \<Rightarrow> bool" for E opts where
  step_call: "pg_step E opts st (pg_call eid i st)"
| step_hydrated: "fetchLastHash (pg_db st) c r \<Longrightarrow> pg_step E opts st (pg_hydrated opts c r st)"
| step_hydrate_failed: "pg_step E opts st (pg_hydrate_failed c st)"
| step_resume: "pg_step E opts st (pg_resume E opts k st)"
| step_flush: "pg_step E opts st (pg_flush st)"
| step_flushed: "pg_step E opts st (pg_flushed ok st)"

inductive pg_reachable :: "env \<Rightarrow> pg_options \<Rightarrow> pg_state \<Rightarrow> pg_state \<Rightarrow> bool" for E opts st0 where
  reach_init: "pg_reachable E opts st0 st0"
| reach_step: "pg_reachable E opts st0 st \<Longrightarrow> pg_step E opts st st' \<Longrightarrow> pg_reachable E opts st0 st'"

inductive_cases pg_stepE: "pg_step E opts st st'"

subsection \<open>What every interleaving keeps\<close>

definition pg_events :: "pg_state \<Rightarrow> AuditEvent list" where
  "pg_events st = pg_db st @ pg_lost st @ (case pg_flushing st of None \<Rightarrow> [] | Some rows \<Rightarrow> rows) @ pg_pending st"

text \<open>A hash a customer's next entry may link to: the genesis, or the hash of an entry emitted for that
  customer.\<close>

definition anchored :: "pg_options \<Rightarrow> AuditEvent set \<Rightarrow> string \<Rightarrow> string \<Rightarrow> bool" where
  "anchored opts evs c h \<longleftrightarrow> h = genesisOf opts c \<or> (\<exists>ev \<in> evs. ev_customer ev = c \<and> ev_hash ev = h)"

definition pg_inv :: "env \<Rightarrow> pg_options \<Rightarrow> pg_state \<Rightarrow> bool" where
  "pg_inv E opts st \<longleftrightarrow>
     (\<forall>ev \<in> set (pg_events st). authentic E ev \<and> anchored opts (set (pg_events st)) (ev_customer ev) (ev_prev_hash ev)) \<and>
     (\<forall>c h. pg_lastHash st c = Some h \<longrightarrow> anchored opts (set (pg_events st)) c h) \<and>
     (\<forall>j \<in> set (pg_jobs st). \<forall>h. pj_prev j = Some h \<longrightarrow>
        anchored opts (set (pg_events st)) (ai_customer_id (pj_input j)) h)"

lemma anchored_mono: "anchored opts A c h \<Longrightarrow> A \<subseteq> B \<Longrightarrow> anchored opts B c h"
  by (auto simp: anchored_def)

lemma pg_invD:
  assumes "pg_inv E opts st"
  shows "ev \<in> set (pg_events st) \<Longrightarrow> authentic E ev"
    and "ev \<in> set (pg_events st) \<Longrightarrow> anchored opts (set (pg_events st)) (ev_customer ev) (ev_prev_hash ev)"
    and "pg_lastHash st c = Some h \<Longrightarrow> anchored opts (set (pg_events st)) c h"
    and "j \<in> set (pg_jobs st) \<Longrightarrow> pj_prev j = Some p \<Longrightarrow> anchored opts (set (pg_events st)) (ai_customer_id (pj_input j)) p"
  using assms by (auto simp: pg_inv_def)

lemma pg_events_flush: "set (pg_events (pg_flush st)) = set (pg_events st)"
  by (auto simp: pg_flush_def pg_events_def)

lemma pg_inv_flush:
  assumes "pg_inv E opts st" shows "pg_inv E opts (pg_flush st)"
proof -
  have "pg_lastHash (pg_flush st) = pg_lastHash st" "pg_jobs (pg_flush st) = pg_jobs st" by (simp_all add: pg_flush_def)
  with assms show ?thesis unfolding pg_inv_def pg_events_flush by simp
qed

lemma pg_inv_flushed:
  assumes "pg_inv E opts st" shows "pg_inv E opts (pg_flushed ok st)"
proof -
  have "pg_lastHash (pg_flushed ok st) = pg_lastHash st" "pg_jobs (pg_flushed ok st) = pg_jobs st"
    "set (pg_events (pg_flushed ok st)) = set (pg_events st)"
    by (auto simp: pg_flushed_def pg_events_def split: option.splits)
  with assms show ?thesis unfolding pg_inv_def by simp
qed

lemma pg_inv_call:
  assumes "pg_inv E opts st" shows "pg_inv E opts (pg_call eid i st)"
proof -
  have "pg_lastHash (pg_call eid i st) = pg_lastHash st" "pg_events (pg_call eid i st) = pg_events st"
    by (auto simp: pg_call_def Let_def pg_events_def split: option.splits hydration.splits)
  moreover have "j \<in> set (pg_jobs st) \<or> pj_prev j = None \<or> (pj_input j = i \<and> pj_prev j = pg_lastHash st (ai_customer_id i))"
    if "j \<in> set (pg_jobs (pg_call eid i st))" for j
    using that by (auto simp: pg_call_def Let_def split: option.splits hydration.splits)
  ultimately show ?thesis using assms unfolding pg_inv_def by fastforce
qed

lemma pg_inv_hydrated:
  assumes "pg_inv E opts st" "fetchLastHash (pg_db st) c r" shows "pg_inv E opts (pg_hydrated opts c r st)"
proof (cases "pg_hydrating st c = Some Fetching")
  case False
  with assms(1) show ?thesis by (simp add: pg_hydrated_def)
next
  case True
  define v where "v = (case pg_lastHash st c of Some existing \<Rightarrow> existing
    | None \<Rightarrow> (case r of None \<Rightarrow> genesisOf opts c | Some h \<Rightarrow> h))"
  have st: "pg_hydrated opts c r st = st\<lparr>pg_lastHash := (pg_lastHash st)(c := Some v),
      pg_hydrating := (pg_hydrating st)(c := None),
      pg_jobs := map (\<lambda>j. if waits_for c j then j\<lparr>pj_prev := Some v\<rparr> else j) (pg_jobs st)\<rparr>"
    using True by (simp add: pg_hydrated_def v_def Let_def)
  then have evs: "pg_events (pg_hydrated opts c r st) = pg_events st" by (simp add: pg_events_def)
  have v: "anchored opts (set (pg_events st)) c v"
    using assms pg_invD(3) [OF assms(1), of c]
    by (auto simp: v_def anchored_def fetchLastHash_def pg_events_def split: option.splits)
  show ?thesis
    using assms(1) v unfolding pg_inv_def evs by (auto simp: st waits_for_def)
qed

lemma pg_inv_hydrate_failed: "pg_inv E opts st \<Longrightarrow> pg_inv E opts (pg_hydrate_failed c st)"
  by (auto simp: pg_hydrate_failed_def pg_inv_def pg_events_def)

lemma set_drop_nth: "set (drop_nth k xs) \<subseteq> set xs"
  using set_take_subset set_drop_subset by (fastforce simp: drop_nth_def)

lemma pg_inv_resume:
  assumes "pg_inv E opts st" shows "pg_inv E opts (pg_resume E opts k st)"
proof (cases "k < length (pg_jobs st) \<and> pj_prev (pg_jobs st ! k) \<noteq> None")
  case False
  then have "pg_resume E opts k st = st" by (auto simp: pg_resume_def Let_def)
  with assms show ?thesis by simp
next
  case True
  then obtain p where k: "k < length (pg_jobs st)" and p: "pj_prev (pg_jobs st ! k) = Some p" by auto
  define j where "j = pg_jobs st ! k"
  have jin: "j \<in> set (pg_jobs st)" using k by (simp add: j_def)
  define st1 where "st1 = st\<lparr>pg_jobs := drop_nth k (pg_jobs st)\<rparr>"
  have inv1: "pg_inv E opts st1"
    using assms set_drop_nth [of k "pg_jobs st"] unfolding pg_inv_def st1_def pg_events_def by auto
  show ?thesis
  proof (cases "make_event E (pj_event_id j) p (pj_input j)")
    case (Inl e)
    with inv1 k p show ?thesis by (simp add: pg_resume_def Let_def st1_def j_def)
  next
    case (Inr ev)
    define st2 where "st2 = st1\<lparr>pg_lastHash := (pg_lastHash st1)(ai_customer_id (pj_input j) := Some (ev_hash ev)),
      pg_pending := pg_pending st1 @ [ev]\<rparr>"
    have evs: "set (pg_events st2) = insert ev (set (pg_events st1))"
      by (auto simp: st2_def pg_events_def)
    have jobs: "pg_jobs st2 = pg_jobs st1" by (simp add: st2_def)
    note new = make_event_authentic [OF Inr]
    have cust: "ev_customer ev = ai_customer_id (pj_input j)" using new by (simp add: ev_customer_def)
    have "pg_events st1 = pg_events st" by (simp add: st1_def pg_events_def)
    then have "anchored opts (set (pg_events st1)) (ev_customer ev) p"
      using pg_invD(4) [OF assms jin, of p] p by (simp add: cust j_def)
    then have anch: "anchored opts (set (pg_events st2)) (ev_customer ev) p"
      by (rule anchored_mono) (auto simp: evs)
    have "pg_inv E opts st2"
      unfolding pg_inv_def
    proof (intro conjI ballI allI impI)
      fix e assume "e \<in> set (pg_events st2)"
      then show "authentic E e" "anchored opts (set (pg_events st2)) (ev_customer e) (ev_prev_hash e)"
        using new anch pg_invD(1,2) [OF inv1, of e] by (auto simp: evs intro: anchored_mono)
    next
      fix c h assume "pg_lastHash st2 c = Some h"
      then show "anchored opts (set (pg_events st2)) c h"
        using pg_invD(3) [OF inv1, of c h] new
        by (auto simp: st2_def ev_customer_def anchored_def evs [unfolded st2_def] split: if_splits)
    next
      fix i h assume "i \<in> set (pg_jobs st2)" "pj_prev i = Some h"
      then show "anchored opts (set (pg_events st2)) (ai_customer_id (pj_input i)) h"
        using pg_invD(4) [OF inv1, of i h] by (auto simp: jobs evs intro: anchored_mono)
    qed
    moreover have "pg_resume E opts k st = (if length (pg_pending st2) \<ge> pg_batchSizeMax opts then pg_flush st2 else st2)"
      using k p Inr by (simp add: pg_resume_def Let_def st2_def st1_def j_def)
    ultimately show ?thesis by (simp add: pg_inv_flush)
  qed
qed

lemma pg_inv_step: "pg_step E opts st st' \<Longrightarrow> pg_inv E opts st \<Longrightarrow> pg_inv E opts st'"
  by (erule pg_stepE)
    (auto intro: pg_inv_call pg_inv_hydrated pg_inv_hydrate_failed pg_inv_resume pg_inv_flush pg_inv_flushed)

lemma pg_reachable_inv: "pg_reachable E opts st0 st \<Longrightarrow> pg_inv E opts st0 \<Longrightarrow> pg_inv E opts st"
  by (induction rule: pg_reachable.induct) (auto intro: pg_inv_step)

subsection \<open>Runs without overlap\<close>

text \<open>The steps of an emitter whose calls do not overlap and whose inserts succeed: a call starts when no
  earlier one is under way. Fetches, their failures, the timer's flushes and the settling of inserts come at
  any time, and a fetch answers what the table holds then.\<close>

inductive calm_step :: "env \<Rightarrow> pg_options \<Rightarrow> pg_state \<Rightarrow> pg_state \<Rightarrow> bool" for E opts where
  calm_call: "pg_jobs st = [] \<Longrightarrow> calm_step E opts st (pg_call eid i st)"
| calm_hydrated: "fetchLastHash (pg_db st) c r \<Longrightarrow> calm_step E opts st (pg_hydrated opts c r st)"
| calm_hydrate_failed: "calm_step E opts st (pg_hydrate_failed c st)"
| calm_resume: "calm_step E opts st (pg_resume E opts k st)"
| calm_flush: "calm_step E opts st (pg_flush st)"
| calm_flushed: "calm_step E opts st (pg_flushed True st)"

inductive calm_reachable :: "env \<Rightarrow> pg_options \<Rightarrow> pg_state \<Rightarrow> pg_state \<Rightarrow> bool" for E opts st0 where
  calm_init: "calm_reachable E opts st0 st0"
| calm_next: "calm_reachable E opts st0 st \<Longrightarrow> calm_step E opts st st' \<Longrightarrow> calm_reachable E opts st0 st'"

definition rows_of :: "string \<Rightarrow> AuditEvent list \<Rightarrow> AuditEvent list" where
  "rows_of c evs = filter (\<lambda>ev. ev_customer ev = c) evs"

definition log_head :: "pg_options \<Rightarrow> string \<Rightarrow> AuditEvent list \<Rightarrow> string" where
  "log_head opts c evs = (if rows_of c evs = [] then genesisOf opts c else ev_hash (last (rows_of c evs)))"

definition times_grow :: "AuditEvent list \<Rightarrow> bool" where
  "times_grow evs \<longleftrightarrow> sorted_wrt (<) (map (\<lambda>ev. ai_ts (ev_input ev)) evs)"

definition customer_chain :: "env \<Rightarrow> pg_options \<Rightarrow> AuditEvent list \<Rightarrow> string \<Rightarrow> bool" where
  "customer_chain E opts evs c \<longleftrightarrow> chain_at E (genesisOf opts c) (rows_of c evs) (log_head opts c evs)"

definition calm :: "env \<Rightarrow> pg_options \<Rightarrow> pg_state \<Rightarrow> bool" where
  "calm E opts st \<longleftrightarrow>
     pg_lost st = [] \<and> length (pg_jobs st) \<le> 1 \<and>
     (\<forall>c. customer_chain E opts (pg_events st) c) \<and>
     (\<forall>c h. pg_lastHash st c = Some h \<longrightarrow> h = log_head opts c (pg_events st)) \<and>
     (\<forall>c. pg_lastHash st c = None \<longrightarrow> rows_of c (pg_events st) = rows_of c (pg_db st) \<and> times_grow (rows_of c (pg_db st))) \<and>
     (\<forall>j \<in> set (pg_jobs st). \<forall>h. pj_prev j = Some h \<longrightarrow> h = log_head opts (ai_customer_id (pj_input j)) (pg_events st))"

lemma rows_of_append [simp]: "rows_of c (xs @ ys) = rows_of c xs @ rows_of c ys"
  by (simp add: rows_of_def)

lemma calmD:
  assumes "calm E opts st"
  shows "pg_lost st = []" "length (pg_jobs st) \<le> 1" "customer_chain E opts (pg_events st) c"
    "pg_lastHash st c = Some h \<Longrightarrow> h = log_head opts c (pg_events st)"
    "pg_lastHash st c = None \<Longrightarrow> rows_of c (pg_events st) = rows_of c (pg_db st) \<and> times_grow (rows_of c (pg_db st))"
    "j \<in> set (pg_jobs st) \<Longrightarrow> pj_prev j = Some h \<Longrightarrow> h = log_head opts (ai_customer_id (pj_input j)) (pg_events st)"
  using assms by (auto simp: calm_def)

lemma calm_cong:
  assumes "calm E opts st" "pg_events st' = pg_events st" "pg_lost st' = pg_lost st" "pg_lastHash st' = pg_lastHash st"
    "\<And>c. pg_lastHash st c = None \<Longrightarrow> rows_of c (pg_db st') = rows_of c (pg_db st)"
    "length (pg_jobs st') \<le> 1" "\<And>j h. j \<in> set (pg_jobs st') \<Longrightarrow> pj_prev j = Some h \<Longrightarrow>
       j \<in> set (pg_jobs st) \<or> pg_lastHash st (ai_customer_id (pj_input j)) = Some h"
  shows "calm E opts st'"
  using assms(1) assms(5-7) unfolding calm_def assms(2-4) by (metis (no_types))

lemma calm_pg_flush: "calm E opts st \<Longrightarrow> calm E opts (pg_flush st)"
  by (rule calm_cong [where st = st]) (auto simp: pg_flush_def pg_events_def calm_def split: if_splits)

lemma calm_pg_flushed:
  assumes "calm E opts st" shows "calm E opts (pg_flushed True st)"
proof (rule calm_cong [OF assms])
  note lost = calmD(1) [OF assms]
  then show "pg_events (pg_flushed True st) = pg_events st"
    by (auto simp: pg_flushed_def pg_events_def split: option.splits)
  fix c assume "pg_lastHash st c = None"
  with lost calmD(5) [OF assms] show "rows_of c (pg_db (pg_flushed True st)) = rows_of c (pg_db st)"
    by (auto simp: pg_flushed_def pg_events_def split: option.splits)
qed (use assms in \<open>auto simp: pg_flushed_def calm_def split: option.splits\<close>)

lemma calm_pg_call: "calm E opts st \<Longrightarrow> pg_jobs st = [] \<Longrightarrow> calm E opts (pg_call eid i st)"
  by (erule calm_cong)
    (auto simp: pg_call_def pg_events_def Let_def split: option.splits hydration.splits if_splits)

lemma calm_pg_hydrate_failed: "calm E opts st \<Longrightarrow> calm E opts (pg_hydrate_failed c st)"
  by (rule calm_cong [where st = st])
    (auto simp: pg_hydrate_failed_def pg_events_def calm_def split: if_splits intro: order_trans [OF length_filter_le])

text \<open>Where the timestamps grow, the fetch finds the last row of the customer.\<close>

lemma fetch_finds_head:
  assumes "fetchLastHash db c r" "times_grow (rows_of c db)"
  shows "(case r of None \<Rightarrow> genesisOf opts c | Some h \<Rightarrow> h) = log_head opts c db"
proof (cases r)
  case None
  with assms(1) show ?thesis by (auto simp: fetchLastHash_def log_head_def rows_of_def filter_empty_conv)
next
  case (Some h)
  with assms(1) obtain ev where ev: "ev \<in> set (rows_of c db)" "ev_hash ev = h"
    "\<forall>e \<in> set (rows_of c db). ai_ts (ev_input e) \<le> ai_ts (ev_input ev)"
    by (auto simp: fetchLastHash_def rows_of_def)
  then obtain xs x where xs: "rows_of c db = xs @ [x]" by (cases "rows_of c db" rule: rev_cases) auto
  with assms(2) have "\<forall>e \<in> set xs. ai_ts (ev_input e) < ai_ts (ev_input x)"
    by (auto simp: times_grow_def sorted_wrt_append)
  with ev xs have "ev = x" by fastforce
  with Some ev xs show ?thesis by (simp add: log_head_def)
qed

lemma calm_pg_hydrated:
  assumes "calm E opts st" "fetchLastHash (pg_db st) c r" shows "calm E opts (pg_hydrated opts c r st)"
proof (cases "pg_hydrating st c = Some Fetching")
  case False
  with assms(1) show ?thesis by (simp add: pg_hydrated_def)
next
  case True
  define v where "v = (case pg_lastHash st c of Some existing \<Rightarrow> existing
    | None \<Rightarrow> (case r of None \<Rightarrow> genesisOf opts c | Some h \<Rightarrow> h))"
  have v: "v = log_head opts c (pg_events st)"
  proof (cases "pg_lastHash st c")
    case None
    from calmD(5) [OF assms(1) None] have "log_head opts c (pg_events st) = log_head opts c (pg_db st)" "times_grow (rows_of c (pg_db st))"
      by (simp_all add: log_head_def)
    with fetch_finds_head [OF assms(2), of opts] None show ?thesis by (simp add: v_def)
  next
    case (Some h)
    with calmD(4) [OF assms(1) Some] show ?thesis by (simp add: v_def)
  qed
  have st: "pg_hydrated opts c r st = st\<lparr>pg_lastHash := (pg_lastHash st)(c := Some v),
      pg_hydrating := (pg_hydrating st)(c := None),
      pg_jobs := map (\<lambda>j. if waits_for c j then j\<lparr>pj_prev := Some v\<rparr> else j) (pg_jobs st)\<rparr>"
    using True by (simp add: pg_hydrated_def v_def Let_def)
  then have evs: "pg_events (pg_hydrated opts c r st) = pg_events st" by (simp add: pg_events_def)
  show ?thesis
    using assms(1) v unfolding calm_def evs by (auto simp: st waits_for_def)
qed

lemma calm_pg_resume:
  assumes "calm E opts st" shows "calm E opts (pg_resume E opts k st)"
proof (cases "k < length (pg_jobs st) \<and> pj_prev (pg_jobs st ! k) \<noteq> None")
  case False
  then have "pg_resume E opts k st = st" by (auto simp: pg_resume_def Let_def)
  with assms show ?thesis by simp
next
  case True
  with calmD(2) [OF assms] obtain j p where k: "k = 0" "pg_jobs st = [j]" "pj_prev j = Some p"
    by (cases "pg_jobs st") auto
  define c where "c = ai_customer_id (pj_input j)"
  have p: "p = log_head opts c (pg_events st)" using calmD(6) [OF assms, of j p] k by (simp add: c_def)
  show ?thesis
  proof (cases "make_event E (pj_event_id j) p (pj_input j)")
    case (Inl e)
    then have "pg_resume E opts k st = st\<lparr>pg_jobs := []\<rparr>" using k by (simp add: pg_resume_def drop_nth_def)
    then show ?thesis by (intro calm_cong [OF assms]) (simp_all add: pg_events_def)
  next
    case (Inr ev)
    define st2 where "st2 = st\<lparr>pg_jobs := [], pg_lastHash := (pg_lastHash st)(c := Some (ev_hash ev)), pg_pending := pg_pending st @ [ev]\<rparr>"
    have cust: "ev_customer ev = c" using make_event_authentic [OF Inr] by (simp add: ev_customer_def c_def)
    have evs: "pg_events st2 = pg_events st @ [ev]" by (simp add: st2_def pg_events_def)
    have rows: "rows_of d [ev] = (if d = c then [ev] else [])" for d by (simp add: rows_of_def cust)
    have head: "log_head opts d (pg_events st2) = (if d = c then ev_hash ev else log_head opts d (pg_events st))" for d
      by (simp add: log_head_def evs rows)
    have "customer_chain E opts (pg_events st2) d" for d
    proof (cases "d = c")
      case True
      from chain_at_snoc [OF calmD(3) [OF assms, of c, unfolded customer_chain_def p [symmetric]] Inr]
      show ?thesis unfolding True customer_chain_def head by (simp add: evs rows)
    next
      case False
      with calmD(3) [OF assms, of d] show ?thesis by (simp add: customer_chain_def head) (simp add: evs rows)
    qed
    then have "calm E opts st2"
      using calmD(1,4,5) [OF assms] unfolding calm_def by (auto simp: head) (auto simp: evs [unfolded st2_def] st2_def rows split: if_splits)
    moreover have "pg_resume E opts k st = (if length (pg_pending st2) \<ge> pg_batchSizeMax opts then pg_flush st2 else st2)"
      using k Inr by (simp add: pg_resume_def Let_def st2_def drop_nth_def c_def)
    ultimately show ?thesis by (simp add: calm_pg_flush)
  qed
qed

lemma calm_step_keeps: "calm_step E opts st st' \<Longrightarrow> calm E opts st \<Longrightarrow> calm E opts st'"
  by (erule calm_step.cases)
    (auto intro: calm_pg_call calm_pg_hydrated calm_pg_hydrate_failed calm_pg_resume calm_pg_flush calm_pg_flushed)

lemma calm_reachable_calm: "calm_reachable E opts st0 st \<Longrightarrow> calm E opts st0 \<Longrightarrow> calm E opts st"
  by (induction rule: calm_reachable.induct) (auto intro: calm_step_keeps)

lemma calm_start:
  assumes "\<And>c. customer_chain E opts db c" "\<And>c. times_grow (rows_of c db)"
  shows "calm E opts (createPostgresAuditEmitter db)"
  using assms by (simp add: calm_def createPostgresAuditEmitter_def pg_events_def)

text \<open>The rows of a table are only ever added to.\<close>

lemma calm_step_appends: "calm_step E opts st st' \<Longrightarrow> \<exists>new. pg_db st' = pg_db st @ new"
  by (erule calm_step.cases)
    (auto simp: pg_call_def pg_hydrated_def pg_hydrate_failed_def pg_resume_def pg_flush_def pg_flushed_def Let_def
      split: option.splits sum.splits hydration.splits)

lemma calm_reachable_appends: "calm_reachable E opts st0 st \<Longrightarrow> \<exists>new. pg_db st = pg_db st0 @ new"
  by (induction rule: calm_reachable.induct) (auto dest!: calm_step_appends)

text \<open>A chain of a customer is what the verifier accepts against the pinned genesis.\<close>

lemma customer_chain_verifies:
  assumes "\<forall>f c. pg_genesisFor opts = Some f \<longrightarrow> f c \<noteq> []"
  shows "verifyAuditChain E \<lparr>genesisFor = pg_genesisFor opts, acceptLegacyZeroHash = False\<rparr> (rows_of c evs) = Inr ChainOk
    \<longleftrightarrow> customer_chain E opts evs c"
proof -
  have "ai_customer_id (ev_input (hd (rows_of c evs))) = c" if "rows_of c evs \<noteq> []"
    using hd_in_set [OF that] by (simp add: rows_of_def ev_customer_def)
  then show ?thesis using assms
    by (auto simp: verifyAuditChain_def verify_from_ok customer_chain_def chain_at_def log_head_def prev_ok_def
        acceptable_genesis_def genesisOf_def str_truthy_def split: option.splits)
qed

text \<open>What is in the table is the beginning of what was emitted, so its rows are a chain too.\<close>

lemma customer_chain_prefix: "customer_chain E opts (xs @ ys) c \<Longrightarrow> customer_chain E opts xs c"
  using linked_take by (fastforce simp: customer_chain_def chain_at_def log_head_def hd_append split: if_splits)

lemma drained_table:
  assumes "pg_lost st = []"
  shows "pg_db (pg_flushed True (pg_flush (pg_flushed True st))) = pg_events st"
  using assms by (auto simp: pg_flushed_def pg_flush_def pg_events_def split: option.splits)

end
