(* ===== verification/Audit_Bundle.thy ===== *)
theory Audit_Bundle
  imports Audit_Log
begin

text \<open>
  packages/audit-verify: verify.ts, the offline verifier of an audit bundle, and the argument parsing
  and exit codes of cli.ts. The free-text \<open>detail\<close> of an error is left out; its index and reason are
  kept, in the order they are pushed. A payload canonicalize rejects makes the verifier throw.
\<close>

record AuditBundleEvent =
  be_event_id :: string
  be_customer_id :: string
  be_prev_hash :: string
  be_hash :: string
  be_payload :: obj

record AuditBundleRoot =
  br_root_event_id :: string
  br_root_hash :: string
  br_signing_key_id :: string
  br_signature :: string
  br_signed_at :: string
  br_signature_version :: "int option"
  br_signed_at_ms :: "int option"

record AuditBundleGenesisAnchor =
  ga_customer_id :: string
  ga_genesis_hash :: string
  ga_signing_key_id :: string
  ga_signature :: string
  ga_signed_at_ms :: int

record AuditBundle =
  ab_event_id :: string
  ab_events :: "AuditBundleEvent list"
  ab_root :: "AuditBundleRoot option"
  ab_genesis_anchor :: "AuditBundleGenesisAnchor option"

datatype VerifyReason =
    R_empty_bundle | R_event_id_mismatch | R_hash_mismatch | R_prev_hash_mismatch
  | R_root_hash_not_found_in_chain | R_root_signature_invalid
  | R_anchor_signature_invalid | R_anchor_genesis_mismatch | R_anchor_customer_mismatch

type_synonym verify_error = "nat option \<times> VerifyReason"

record VerifyResult =
  vr_ok :: bool
  vr_errors :: "verify_error list"
  vr_signedAt :: "string option"
  vr_signingKeyId :: "string option"

fun walk_events ::
  "env \<Rightarrow> nat \<Rightarrow> AuditBundleEvent option \<Rightarrow> AuditBundleEvent list \<Rightarrow> (exn, verify_error list) result" where
  "walk_events E i previous [] = Inr []"
| "walk_events E i previous (ev # events) =
     rbind (chain_hash E (be_prev_hash ev) (be_payload ev)) (\<lambda>recomputed.
     rbind (walk_events E (Suc i) (Some ev) events) (\<lambda>rest.
       Inr ((if recomputed \<noteq> be_hash ev then [(Some i, R_hash_mismatch)] else [])
            @ (case previous of
                 None \<Rightarrow> []
               | Some p \<Rightarrow> if be_prev_hash ev \<noteq> be_hash p then [(Some i, R_prev_hash_mismatch)] else [])
            @ rest)))"

definition root_message :: "AuditBundleRoot \<Rightarrow> string \<Rightarrow> string option" where
  "root_message root customerId =
     (if (case br_signature_version root of None \<Rightarrow> 1 | Some v \<Rightarrow> v) = 2
      then map_option (\<lambda>ms. ''nomos-audit-root|v2|'' @ customerId @ ''|'' @ br_root_hash root @ ''|'' @ string_of_int ms)
             (br_signed_at_ms root)
      else Some (br_root_hash root))"

definition root_signature_valid :: "env \<Rightarrow> string \<Rightarrow> AuditBundleRoot \<Rightarrow> string \<Rightarrow> bool" where
  "root_signature_valid E verifyKeyHex root customerId =
     (case (noble_hexToBytes E verifyKeyHex, noble_hexToBytes E (br_signature root), root_message root customerId) of
        (Some verifyBytes, Some sigBytes, Some msg) \<Rightarrow> verifyDetached E verifyBytes msg sigBytes
      | _ \<Rightarrow> False)"

definition root_errors :: "env \<Rightarrow> string \<Rightarrow> AuditBundle \<Rightarrow> verify_error list" where
  "root_errors E verifyKeyHex b =
     (case ab_root b of
        None \<Rightarrow> []
      | Some root \<Rightarrow>
          (if \<exists>e \<in> set (ab_events b). be_hash e = br_root_hash root then []
           else [(None, R_root_hash_not_found_in_chain)])
          @ (if root_signature_valid E verifyKeyHex root (be_customer_id (hd (ab_events b))) then []
             else [(None, R_root_signature_invalid)]))"

definition anchor_message :: "AuditBundleGenesisAnchor \<Rightarrow> string" where
  "anchor_message a =
     ''nomos-genesis-anchor|v1|'' @ ga_customer_id a @ ''|'' @ ga_genesis_hash a @ ''|'' @ string_of_int (ga_signed_at_ms a)"

definition anchor_signature_valid :: "env \<Rightarrow> string \<Rightarrow> AuditBundleGenesisAnchor \<Rightarrow> bool" where
  "anchor_signature_valid E verifyKeyHex a =
     (case (noble_hexToBytes E verifyKeyHex, noble_hexToBytes E (ga_signature a)) of
        (Some verifyBytes, Some sigBytes) \<Rightarrow> verifyDetached E verifyBytes (anchor_message a) sigBytes
      | _ \<Rightarrow> False)"

definition anchor_errors :: "env \<Rightarrow> string \<Rightarrow> AuditBundle \<Rightarrow> verify_error list" where
  "anchor_errors E verifyKeyHex b =
     (case ab_genesis_anchor b of
        None \<Rightarrow> []
      | Some a \<Rightarrow>
          (if ga_customer_id a \<noteq> be_customer_id (hd (ab_events b)) then [(None, R_anchor_customer_mismatch)] else [])
          @ (if be_prev_hash (hd (ab_events b)) \<noteq> ga_genesis_hash a then [(None, R_anchor_genesis_mismatch)] else [])
          @ (if anchor_signature_valid E verifyKeyHex a then [] else [(None, R_anchor_signature_invalid)]))"

definition verifyBundle :: "env \<Rightarrow> AuditBundle \<Rightarrow> string \<Rightarrow> (exn, VerifyResult) result" where
  "verifyBundle E b verifyKeyHex =
     (if ab_events b = []
      then Inr \<lparr>vr_ok = False, vr_errors = [(None, R_empty_bundle)], vr_signedAt = None, vr_signingKeyId = None\<rparr>
      else
        rbind (walk_events E 0 None (ab_events b)) (\<lambda>walk.
          (let errors =
             (if be_event_id (hd (ab_events b)) \<noteq> ab_event_id b then [(None, R_event_id_mismatch)] else [])
             @ walk @ root_errors E verifyKeyHex b @ anchor_errors E verifyKeyHex b
           in if errors \<noteq> []
              then Inr \<lparr>vr_ok = False, vr_errors = errors, vr_signedAt = None, vr_signingKeyId = None\<rparr>
              else Inr \<lparr>vr_ok = True, vr_errors = [], vr_signedAt = map_option br_signed_at (ab_root b),
                        vr_signingKeyId = map_option br_signing_key_id (ab_root b)\<rparr>)))"

subsection \<open>cli.ts\<close>

record ParsedArgs =
  pa_bundle :: "string option"
  pa_pubkey :: "string option"
  pa_chain :: "string option"
  pa_help :: bool

definition no_args :: ParsedArgs where
  "no_args = \<lparr>pa_bundle = None, pa_pubkey = None, pa_chain = None, pa_help = False\<rparr>"

definition first_arg :: "string list \<Rightarrow> string option" where
  "first_arg as = (case as of [] \<Rightarrow> None | a # _ \<Rightarrow> Some a)"

fun parse_args_from :: "ParsedArgs \<Rightarrow> nat \<Rightarrow> string list \<Rightarrow> ParsedArgs" where
  "parse_args_from out 0 argv = out"
| "parse_args_from out (Suc n) [] = out"
| "parse_args_from out (Suc n) (arg # rest) =
     (if arg = ''--bundle'' \<or> arg = ''-b'' then parse_args_from (out\<lparr>pa_bundle := first_arg rest\<rparr>) n (drop 1 rest)
      else if arg = ''--pubkey'' \<or> arg = ''-k'' then parse_args_from (out\<lparr>pa_pubkey := first_arg rest\<rparr>) n (drop 1 rest)
      else if arg = ''--chain'' \<or> arg = ''-c'' then parse_args_from (out\<lparr>pa_chain := first_arg rest\<rparr>) n (drop 1 rest)
      else if arg = ''--help'' \<or> arg = ''-h'' then parse_args_from (out\<lparr>pa_help := True\<rparr>) n rest
      else parse_args_from out n rest)"

definition parseArgs :: "string list \<Rightarrow> ParsedArgs" where
  "parseArgs argv = parse_args_from no_args (length argv) argv"

text \<open>\<open>main\<close> up to its exit code: \<open>env_key\<close> is AUDIT_VERIFY_KEY, \<open>read_bundle\<close> reads and parses a
  file (None when either throws). A verifier that throws leaves the promise of \<open>main\<close> rejected, which
  Node turns into exit code 1.\<close>

definition or_else :: "'a option \<Rightarrow> 'a option \<Rightarrow> 'a option" where
  "or_else a b = (case a of None \<Rightarrow> b | Some x \<Rightarrow> Some x)"

definition cli_exit :: "env \<Rightarrow> string option \<Rightarrow> (string \<Rightarrow> AuditBundle option) \<Rightarrow> string list \<Rightarrow> nat" where
  "cli_exit E env_key read_bundle argv =
     (let args = parseArgs argv
      in if pa_help args then 0
         else
           (let bundlePath = or_else (pa_bundle args) (pa_chain args);
                pubkey = (case or_else (pa_pubkey args) env_key of None \<Rightarrow> [] | Some k \<Rightarrow> k)
            in if \<not> str_truthy bundlePath then 2
               else if pubkey = [] then 2
               else case read_bundle (the bundlePath) of
                   None \<Rightarrow> 2
                 | Some b \<Rightarrow>
                     (case verifyBundle E b pubkey of
                        Inl e \<Rightarrow> 1
                      | Inr r \<Rightarrow> if vr_ok r then 0 else 1)))"

subsection \<open>What the verifier accepts\<close>

definition bundle_entry_ok :: "env \<Rightarrow> AuditBundleEvent \<Rightarrow> bool" where
  "bundle_entry_ok E ev \<longleftrightarrow> chain_hash E (be_prev_hash ev) (be_payload ev) = Inr (be_hash ev)"

lemma walk_events_Nil:
  "walk_events E i p evs = Inr [] \<longleftrightarrow>
     (\<forall>ev \<in> set evs. bundle_entry_ok E ev) \<and> linked (\<lambda>a b. be_prev_hash b = be_hash a) evs \<and>
     (case p of None \<Rightarrow> True | Some q \<Rightarrow> evs = [] \<or> be_prev_hash (hd evs) = be_hash q)"
proof (induction E i p evs rule: walk_events.induct)
  case (2 E i p ev evs)
  have step: "walk_events E i p (ev # evs) = Inr [] \<longleftrightarrow>
    bundle_entry_ok E ev \<and> (case p of None \<Rightarrow> True | Some q \<Rightarrow> be_prev_hash ev = be_hash q) \<and>
    walk_events E (Suc i) (Some ev) evs = Inr []"
    by (cases p) (auto simp: rbind_Inr_iff bundle_entry_ok_def)
  have IH: "walk_events E (Suc i) (Some ev) evs = Inr [] \<longleftrightarrow>
     (\<forall>ev \<in> set evs. bundle_entry_ok E ev) \<and> linked (\<lambda>a b. be_prev_hash b = be_hash a) evs \<and>
     (evs = [] \<or> be_prev_hash (hd evs) = be_hash ev)"
    using "2.IH" by simp
  show ?case unfolding step IH by (cases evs) (auto split: option.splits)
qed (auto split: option.splits)

lemma verifyBundle_ok:
  assumes "verifyBundle E b key = Inr r" "vr_ok r"
  shows "ab_events b \<noteq> []" "be_event_id (hd (ab_events b)) = ab_event_id b"
    "\<forall>ev \<in> set (ab_events b). bundle_entry_ok E ev" "linked (\<lambda>a b. be_prev_hash b = be_hash a) (ab_events b)"
    "root_errors E key b = []" "anchor_errors E key b = []"
proof -
  from assms obtain walk where w: "walk_events E 0 None (ab_events b) = Inr walk" "ab_events b \<noteq> []"
    "be_event_id (hd (ab_events b)) = ab_event_id b" "walk = []" "root_errors E key b = []" "anchor_errors E key b = []"
    by (auto simp: verifyBundle_def rbind_Inr_iff Let_def split: if_splits)
  then show "ab_events b \<noteq> []" "be_event_id (hd (ab_events b)) = ab_event_id b" "root_errors E key b = []"
    "anchor_errors E key b = []" by auto
  from w(1,4) walk_events_Nil [of E 0 None "ab_events b"] show "\<forall>ev \<in> set (ab_events b). bundle_entry_ok E ev"
    "linked (\<lambda>a b. be_prev_hash b = be_hash a) (ab_events b)" by auto
qed

definition bundle_sound :: "env \<Rightarrow> AuditBundleEvent \<Rightarrow> bool" where
  "bundle_sound E ev \<longleftrightarrow>
     collision_free E \<and> bundle_entry_ok E ev \<and> CHR ''|'' \<notin> set (be_prev_hash ev) \<and>
     numerals_ok (e_nd E) (JObj (be_payload ev))"

interpretation bundle_chain: hash_linked be_prev_hash be_hash "\<lambda>ev. norm (e_nfc E) (JObj (be_payload ev))" "bundle_sound E" for E
proof
  fix a b assume "bundle_sound E a" "bundle_sound E b" "be_hash a = be_hash b"
  then show "be_prev_hash a = be_prev_hash b \<and> norm (e_nfc E) (JObj (be_payload a)) = norm (e_nfc E) (JObj (be_payload b))"
    unfolding bundle_sound_def bundle_entry_ok_def by (intro chain_hash_commits) auto
qed

end
