(* ===== verification/Audit_Properties.thy ===== *)
theory Audit_Properties
  imports Audit_Pg Audit_Bundle Demo_Decide
begin

text \<open>
  The properties of the audit log: when what the emitters write verifies, what verification excludes, and
  what overlapping calls and failing I/O do to the chain.
\<close>

definition demo_event :: "string \<Rightarrow> AuditEventInput" where
  "demo_event c =
     \<lparr>ai_customer_id = c, ai_ts = 7, ai_agent = ''did:key:a'', ai_decision = AuditAllow, ai_command = ''/fs/read'',
      ai_resource = [], ai_context = [], ai_parent_receipt_id = None, ai_swarm_id = None, ai_chain_depth = None,
      ai_receipt_id = None, ai_api_call_method = None, ai_api_call_path = None\<rparr>"

lemma make_event_ok:
  assumes "serialisable (JObj (inputObj i))"
  obtains ev where "make_event E eid p i = Inr ev"
proof -
  have "serialisable (JObj (partialObj eid p i))" using assms by (simp add: partialObj_def)
  then obtain t where "canonicalize (e_nfc E) (JObj (partialObj eid p i)) = Inr t"
    using canonicalize_ok unfolding is_ok_iff by blast
  with that show ?thesis by (simp add: make_event_def chain_hash_def lift_canon_def del: canonicalize_obj)
qed

lemma demo_event_plain: "serialisable (JObj (inputObj (demo_event c)))"
  by (simp add: inputObj_def demo_event_def opt_str_def opt_int_def)

subsection \<open>The file emitter\<close>

text \<open>C30: Whatever a file emitter is given and however its emits overlap, as long as its appends succeed: the
  events, in the order of the calls, pass verifyAuditChain from the zero hash on, and the lines of the file with the
  appends under way are those events, none lost and none doubled. If the appends land in the order they were begun,
  the file holds the events so far in that order and itself passes verifyAuditChain.\<close>

theorem emitted_log_verifies:
  assumes "file_run E in_order evs st"
  shows "verifyAuditChain E \<lparr>genesisFor = None, acceptLegacyZeroHash = False\<rparr> evs = Inr ChainOk \<and>
    mset (em_log st) + mset (em_writing st) = mset evs \<and>
    (in_order \<longrightarrow> evs = em_log st @ em_writing st \<and>
       verifyAuditChain E \<lparr>genesisFor = None, acceptLegacyZeroHash = False\<rparr> (em_log st) = Inr ChainOk)"
proof -
  note run = file_run_chain [OF assms]
  then have "verifyAuditChain E \<lparr>genesisFor = None, acceptLegacyZeroHash = False\<rparr> evs = Inr ChainOk"
    using chain_at_verifies [of E evs "[]"] by (metis append_Nil2)
  with run chain_at_verifies [of E "em_log st" "em_writing st"] show ?thesis by auto
qed

text \<open>Two emits that overlap: the second begins before the append of the first has settled.\<close>

definition two_emits :: "env \<Rightarrow> AuditEventInput \<Rightarrow> AuditEmitter" where
  "two_emits E i = fst (emit E ''2'' i (fst (emit E ''1'' i (createAuditEmitter None))))"

lemma two_emits_run:
  assumes "make_event E ''1'' ZERO_HASH i = Inr a" "make_event E ''2'' (ev_hash a) i = Inr b"
  shows "file_run E in_order [a, b] (two_emits E i) \<and>
    two_emits E i = \<lparr>em_lastHash = ev_hash b, em_writing = [a, b], em_log = []\<rparr>"
proof -
  let ?st = "\<lparr>em_lastHash = ev_hash a, em_writing = [a], em_log = []\<rparr>"
  have 1: "emit E ''1'' i (createAuditEmitter None) = (?st, Inr a)"
    using assms(1) by (simp add: emit_def createAuditEmitter_def)
  have 2: "emit E ''2'' i ?st = (\<lparr>em_lastHash = ev_hash b, em_writing = [a, b], em_log = []\<rparr>, Inr b)"
    using assms(2) by (simp add: emit_def)
  from run_emit [OF run_emit [OF run_start 1] 2, of in_order] show ?thesis by (simp add: two_emits_def 1 2)
qed

text \<open>Appends that land out of order: both succeed, the file holds the second event before the first, and the
  log no longer verifies.\<close>

theorem overlapping_appends_break_log:
  assumes "make_event E ''1'' ZERO_HASH i = Inr a" "make_event E ''2'' (ev_hash a) i = Inr b" "ev_hash a \<noteq> ZERO_HASH"
  shows "\<exists>st. file_run E False [a, b] st \<and> em_writing st = [] \<and> em_log st = [b, a] \<and>
    verifyAuditChain E \<lparr>genesisFor = None, acceptLegacyZeroHash = False\<rparr> (em_log st) =
      Inr (ChainBroken 0 break_prev_hash_mismatch)"
proof -
  let ?st = "fst (settle_append 0 True (fst (settle_append 1 True (two_emits E i))))"
  note two = two_emits_run [OF assms(1,2), of False]
  have "file_run E False [a, b] (fst (settle_append 1 True (two_emits E i)))"
    by (rule run_append [OF two [THEN conjunct1]]) (simp_all add: two [THEN conjunct2])
  then have "file_run E False [a, b] ?st"
    by (rule run_append) (use two in \<open>simp_all add: settle_append_def Let_def drop_nth_def\<close>)
  moreover have "em_log ?st = [b, a]" "em_writing ?st = []"
    using two by (simp_all add: settle_append_def Let_def drop_nth_def)
  moreover have "ev_prev_hash b = ev_hash a" using make_event_authentic [OF assms(2)] by simp
  ultimately show ?thesis using assms(3)
    by (intro exI [of _ ?st]) (simp add: verifyAuditChain_def prev_ok_def acceptable_genesis_def str_truthy_def)
qed

text \<open>An append that fails leaves a gap: the emitter has already moved its head to the lost entry, so
  the next entry it writes links to a hash no log line has and the log no longer verifies.\<close>

theorem failed_append_breaks_log:
  assumes "make_event E ''1'' ZERO_HASH i = Inr a" "make_event E ''2'' (ev_hash a) i = Inr b" "ev_hash a \<noteq> ZERO_HASH"
    "st = fst (settle_append 0 True (fst (settle_append 0 False (two_emits E i))))"
  shows "em_log st = [b] \<and>
    verifyAuditChain E \<lparr>genesisFor = None, acceptLegacyZeroHash = False\<rparr> (em_log st) =
      Inr (ChainBroken 0 break_prev_hash_mismatch)"
proof -
  have "em_log st = [b]"
    using assms(4) two_emits_run [OF assms(1,2), of True] by (simp add: settle_append_def Let_def drop_nth_def)
  moreover have "ev_prev_hash b = ev_hash a" using make_event_authentic [OF assms(2)] by simp
  ultimately show ?thesis using assms(3)
    by (simp add: verifyAuditChain_def prev_ok_def acceptable_genesis_def str_truthy_def)
qed

lemma demo_hash_not_zero: "sha256Hex demo_env s \<noteq> ZERO_HASH"
proof
  assume z: "sha256Hex demo_env s = ZERO_HASH"
  then have "CHR ''0'' \<in> set (demo_hex s)" by (simp add: sha256Hex_def demo_env_def ZERO_HASH_def)
  then have "base58_char CHR ''0''" by (rule demo_hex_chars)
  then show False by (simp add: base58_char_def)
qed

lemma demo_event_hash: "make_event demo_env eid p i = Inr ev \<Longrightarrow> ev_hash ev \<noteq> ZERO_HASH"
  by (auto simp: make_event_def chain_hash_def rbind_Inr_iff demo_hash_not_zero)

lemma demo_two_events:
  obtains a b where "make_event demo_env ''1'' ZERO_HASH (demo_event ''c'') = Inr a"
    "make_event demo_env ''2'' (ev_hash a) (demo_event ''c'') = Inr b"
  by (metis make_event_ok [OF demo_event_plain])

theorem emitted_log_verifies_witness:
  "\<exists>a b st. file_run demo_env True [a, b] st \<and> em_log st = [a] \<and> em_writing st = [b] \<and>
     verifyAuditChain demo_env \<lparr>genesisFor = None, acceptLegacyZeroHash = False\<rparr> (em_log st) = Inr ChainOk"
proof -
  obtain a b where ab: "make_event demo_env ''1'' ZERO_HASH (demo_event ''c'') = Inr a"
    "make_event demo_env ''2'' (ev_hash a) (demo_event ''c'') = Inr b" by (rule demo_two_events)
  let ?st = "fst (settle_append 0 True (two_emits demo_env (demo_event ''c'')))"
  note two = two_emits_run [OF ab, of True]
  have r: "file_run demo_env True [a, b] ?st"
    by (rule run_append [OF two [THEN conjunct1]]) (simp_all add: two [THEN conjunct2])
  have "em_log ?st = [a]" "em_writing ?st = [b]" using two by (simp_all add: settle_append_def Let_def drop_nth_def)
  with r emitted_log_verifies [OF r] show ?thesis by blast
qed

theorem overlapping_appends_break_log_witness:
  "\<exists>a b st. file_run demo_env False [a, b] st \<and> em_log st = [b, a] \<and>
     verifyAuditChain demo_env \<lparr>genesisFor = None, acceptLegacyZeroHash = False\<rparr> (em_log st) =
       Inr (ChainBroken 0 break_prev_hash_mismatch)"
proof -
  obtain a b where ab: "make_event demo_env ''1'' ZERO_HASH (demo_event ''c'') = Inr a"
    "make_event demo_env ''2'' (ev_hash a) (demo_event ''c'') = Inr b" by (rule demo_two_events)
  from overlapping_appends_break_log [OF ab demo_event_hash [OF ab(1)]] show ?thesis by blast
qed

theorem failed_append_breaks_log_witness:
  "\<exists>log. em_log (fst (settle_append 0 True (fst (settle_append 0 False (two_emits demo_env (demo_event ''c'')))))) = log \<and>
     verifyAuditChain demo_env \<lparr>genesisFor = None, acceptLegacyZeroHash = False\<rparr> log =
       Inr (ChainBroken 0 break_prev_hash_mismatch)"
proof -
  obtain a b where ab: "make_event demo_env ''1'' ZERO_HASH (demo_event ''c'') = Inr a"
    "make_event demo_env ''2'' (ev_hash a) (demo_event ''c'') = Inr b" by (rule demo_two_events)
  from failed_append_breaks_log [OF ab demo_event_hash [OF ab(1)] refl] show ?thesis by blast
qed

subsection \<open>Tamper evidence\<close>

lemma chain_hash_no_bar: "collision_free E \<Longrightarrow> chain_hash E p ob = Inr h \<Longrightarrow> CHR ''|'' \<notin> set h"
  by (auto simp: chain_hash_def rbind_Inr_iff collision_free_def simp del: canonicalize_obj)

text \<open>C31: The verifier is tamper evident: where the hash has no collisions, two logs it accepts that have
  the same length and the same head hash agree, entry by entry, on everything the entries commit to.\<close>

theorem accepted_logs_agree:
  assumes "verifyAuditChain E opts xs = Inr ChainOk" "verifyAuditChain E opts ys = Inr ChainOk"
    "length xs = length ys" "xs \<noteq> []" "ev_hash (last xs) = ev_hash (last ys)" "collision_free E"
    "\<forall>c. \<forall>g \<in> acceptable_genesis opts c. CHR ''|'' \<notin> set g"
    "\<forall>ev \<in> set xs \<union> set ys. numerals_ok (e_nd E) (JObj (partialObj (ev_event_id ev) (ev_prev_hash ev) (ev_input ev)))"
  shows "map (committed E) xs = map (committed E) ys"
proof -
  have chain: "audit_chain.chain E zs"
    if z: "verifyAuditChain E opts zs = Inr ChainOk"
      "\<forall>ev \<in> set zs. numerals_ok (e_nd E) (JObj (partialObj (ev_event_id ev) (ev_prev_hash ev) (ev_input ev)))" for zs
  proof -
    from z(1) have v: "\<forall>ev \<in> set zs. authentic E ev" "linked (\<lambda>a b. ev_prev_hash b = ev_hash a) zs"
      "zs = [] \<or> prev_ok opts None (hd zs)"
      by (auto simp: verifyAuditChain_def verify_from_ok)
    have "CHR ''|'' \<notin> set (ev_prev_hash ev)" if "ev \<in> set zs" for ev
    proof -
      from that obtain k where k: "k < length zs" "ev = zs ! k" by (auto simp: in_set_conv_nth)
      show ?thesis
      proof (cases k)
        case 0
        with k v(3) have "ev_prev_hash ev \<in> acceptable_genesis opts (ai_customer_id (ev_input ev))"
          by (cases zs) (auto simp: prev_ok_def)
        with assms(7) show ?thesis by blast
      next
        case (Suc n)
        have "\<forall>j. Suc j < length zs \<longrightarrow> ev_prev_hash (zs ! Suc j) = ev_hash (zs ! j)"
          using v(2)
        proof (induction zs rule: induct_list012)
          case (3 x y zs)
          then show ?case by (auto simp: nth_Cons split: nat.splits)
        qed auto
        with k Suc have "ev_prev_hash ev = ev_hash (zs ! n)" by simp
        moreover have "authentic E (zs ! n)" using v(1) k Suc by simp
        ultimately show ?thesis using assms(6) chain_hash_no_bar by (auto simp: authentic_def recompute_def)
      qed
    qed
    with v z(2) assms(6) show ?thesis by (simp add: audit_chain.chain_def sound_entry_def)
  qed
  have nx: "\<forall>ev \<in> set xs. numerals_ok (e_nd E) (JObj (partialObj (ev_event_id ev) (ev_prev_hash ev) (ev_input ev)))"
    and ny: "\<forall>ev \<in> set ys. numerals_ok (e_nd E) (JObj (partialObj (ev_event_id ev) (ev_prev_hash ev) (ev_input ev)))"
    using assms(8) by blast+
  show ?thesis
    by (rule audit_chain.same_head_same_contents [OF chain [OF assms(1) nx] chain [OF assms(2) ny] assms(3,4,5)])
qed

lemma demo_collision_free: "collision_free demo_env"
proof -
  have "\<not> base58_char CHR ''|''" by (simp add: base58_char_def is_alnum_def is_upper_def is_lower_def is_digit_def)
  then have "CHR ''|'' \<notin> set (sha256Hex demo_env s)" for s using demo_hex_chars by (auto simp: sha256Hex_def demo_env_def)
  moreover have "inj (sha256Hex demo_env)"
  proof (rule injI)
    fix x y assume "sha256Hex demo_env x = sha256Hex demo_env y"
    then have "demo_unhex (demo_hex x) = demo_unhex (demo_hex y)" by (simp add: sha256Hex_def demo_env_def)
    then show "x = y" by (simp add: demo_unhex_hex)
  qed
  ultimately show ?thesis by (simp add: collision_free_def)
qed

theorem accepted_logs_agree_witness:
  "\<exists>a. verifyAuditChain demo_env \<lparr>genesisFor = None, acceptLegacyZeroHash = False\<rparr> [a] = Inr ChainOk \<and>
     ev_input a = demo_event ''c'' \<and> map (committed demo_env) [a] = map (committed demo_env) [a]"
proof -
  obtain a where a: "make_event demo_env ''1'' ZERO_HASH (demo_event ''c'') = Inr a"
    by (rule make_event_ok [OF demo_event_plain])
  let ?o = "\<lparr>genesisFor = None, acceptLegacyZeroHash = False\<rparr>"
  have v: "verifyAuditChain demo_env ?o [a] = Inr ChainOk"
    using make_event_authentic [OF a]
    by (simp add: verifyAuditChain_def verify_from_ok prev_ok_def acceptable_genesis_def str_truthy_def
        del: verify_from.simps)
  have n: "\<forall>ev \<in> set [a] \<union> set [a]. numerals_ok (e_nd demo_env) (JObj (partialObj (ev_event_id ev) (ev_prev_hash ev) (ev_input ev)))"
    using make_event_authentic [OF a]
    by (simp add: partialObj_def inputObj_def demo_event_def opt_str_def opt_int_def max_exact_def)
  have g: "\<forall>c. \<forall>g \<in> acceptable_genesis ?o c. CHR ''|'' \<notin> set g"
    by (simp add: acceptable_genesis_def str_truthy_def ZERO_HASH_def)
  have "map (committed demo_env) [a] = map (committed demo_env) [a]"
    by (rule accepted_logs_agree [OF v v _ _ _ demo_collision_free g n]) simp_all
  with v make_event_authentic [OF a] show ?thesis by blast
qed

subsection \<open>The Postgres emitter\<close>

text \<open>C35: However calls, hydrations, failed fetches, flushes and failed inserts interleave, every event the
  Postgres emitter produced is authentic and links to the customer's genesis or to an event emitted for
  the same customer: no step corrupts an entry or lets a hash cross customers.\<close>

theorem interleavings_keep_events_authentic:
  assumes "pg_reachable E opts (createPostgresAuditEmitter []) st" "ev \<in> set (pg_events st)"
  shows "authentic E ev \<and>
    (ev_prev_hash ev = genesisOf opts (ev_customer ev) \<or>
     (\<exists>e \<in> set (pg_events st). ev_customer e = ev_customer ev \<and> ev_hash e = ev_prev_hash ev))"
proof -
  have "pg_inv E opts (createPostgresAuditEmitter [])"
    by (simp add: pg_inv_def createPostgresAuditEmitter_def pg_events_def)
  from pg_reachable_inv [OF assms(1) this] assms(2) show ?thesis
    using pg_invD(1,2) by (fastforce simp: anchored_def)
qed

text \<open>The schedule of two emits that start before either has finished: both calls run up to their await
  and see the same head.\<close>

definition overlapping :: "env \<Rightarrow> pg_options \<Rightarrow> string \<Rightarrow> string \<Rightarrow> AuditEventInput \<Rightarrow> pg_state \<Rightarrow> pg_state" where
  "overlapping E opts e1 e2 i st =
     pg_resume E opts 0 (pg_resume E opts 0
       (pg_hydrated opts (ai_customer_id i) None (pg_call e2 i (pg_call e1 i st))))"

lemma overlapping_reachable:
  assumes "\<forall>ev \<in> set (pg_db st). ev_customer ev \<noteq> ai_customer_id i"
  shows "pg_reachable E opts st (overlapping E opts e1 e2 i st)"
proof -
  have db: "pg_db (pg_call e2 i (pg_call e1 i st)) = pg_db st"
    by (simp add: pg_call_def Let_def split: option.splits hydration.splits)
  have "fetchLastHash (pg_db (pg_call e2 i (pg_call e1 i st))) (ai_customer_id i) None"
    using assms by (auto simp: fetchLastHash_def db)
  then show ?thesis unfolding overlapping_def
    by (intro reach_step [OF _ step_resume] reach_step [OF _ step_hydrated] reach_step [OF _ step_call] reach_init)
qed

lemma overlapping_pending:
  assumes "make_event E e1 (genesisOf opts (ai_customer_id i)) i = Inr a"
    "make_event E e2 (genesisOf opts (ai_customer_id i)) i = Inr b" "2 < pg_batchSizeMax opts"
  shows "pg_events (overlapping E opts e1 e2 i (createPostgresAuditEmitter [])) = [a, b]"
  using assms
  by (simp add: overlapping_def createPostgresAuditEmitter_def pg_call_def pg_hydrated_def Let_def waits_for_def
      pg_resume_def drop_nth_def pg_events_def)

theorem interleavings_keep_events_authentic_witness:
  "\<exists>st ev. pg_reachable demo_env \<lparr>pg_batchSizeMax = 100, pg_genesisFor = None\<rparr> (createPostgresAuditEmitter []) st \<and>
     ev \<in> set (pg_events st) \<and> authentic demo_env ev"
proof -
  let ?o = "\<lparr>pg_batchSizeMax = 100, pg_genesisFor = None\<rparr>"
  obtain a where a: "make_event demo_env ''1'' (genesisOf ?o (ai_customer_id (demo_event ''c''))) (demo_event ''c'') = Inr a"
    by (rule make_event_ok [OF demo_event_plain])
  obtain b where b: "make_event demo_env ''2'' (genesisOf ?o (ai_customer_id (demo_event ''c''))) (demo_event ''c'') = Inr b"
    by (rule make_event_ok [OF demo_event_plain])
  let ?st = "overlapping demo_env ?o ''1'' ''2'' (demo_event ''c'') (createPostgresAuditEmitter [])"
  have r: "pg_reachable demo_env ?o (createPostgresAuditEmitter []) ?st"
    by (rule overlapping_reachable) (simp add: createPostgresAuditEmitter_def)
  have "pg_events ?st = [a, b]" by (rule overlapping_pending [OF a b]) simp
  then have "a \<in> set (pg_events ?st)" by simp
  from r this interleavings_keep_events_authentic [OF r this] show ?thesis by blast
qed

text \<open>Two emits for one customer that overlap fork the chain: both entries link to the same predecessor,
  in a reachable state of the emitter, and the verifier rejects the log they form.\<close>

theorem overlapping_emits_fork:
  assumes "make_event E e1 (genesisOf opts (ai_customer_id i)) i = Inr a"
    "make_event E e2 (genesisOf opts (ai_customer_id i)) i = Inr b" "2 < pg_batchSizeMax opts"
    "ev_hash a \<noteq> genesisOf opts (ai_customer_id i)"
  shows "\<exists>st. pg_reachable E opts (createPostgresAuditEmitter []) st \<and> pg_events st = [a, b] \<and>
    ev_prev_hash a = ev_prev_hash b \<and> verifyAuditChain E vopts (pg_events st) \<noteq> Inr ChainOk"
proof -
  let ?st = "overlapping E opts e1 e2 i (createPostgresAuditEmitter [])"
  have "pg_reachable E opts (createPostgresAuditEmitter []) ?st"
    by (rule overlapping_reachable) (simp add: createPostgresAuditEmitter_def)
  moreover note overlapping_pending [OF assms(1-3)]
  moreover have "ev_prev_hash a = genesisOf opts (ai_customer_id i)" "ev_prev_hash b = genesisOf opts (ai_customer_id i)"
    using make_event_authentic assms(1,2) by blast+
  ultimately show ?thesis using assms(4)
    by (intro exI [of _ ?st]) (auto simp: verifyAuditChain_def verify_from_ok simp del: verify_from.simps)
qed

theorem overlapping_emits_fork_witness:
  "\<exists>st a b. pg_reachable demo_env \<lparr>pg_batchSizeMax = 100, pg_genesisFor = None\<rparr> (createPostgresAuditEmitter []) st \<and>
     pg_events st = [a, b] \<and> ev_prev_hash a = ev_prev_hash b"
proof -
  let ?o = "\<lparr>pg_batchSizeMax = 100, pg_genesisFor = None\<rparr>"
  have g: "genesisOf ?o c = ZERO_HASH" for c by (simp add: genesisOf_def)
  obtain a where a: "make_event demo_env ''1'' (genesisOf ?o (ai_customer_id (demo_event ''c''))) (demo_event ''c'') = Inr a"
    by (rule make_event_ok [OF demo_event_plain])
  obtain b where b: "make_event demo_env ''2'' (genesisOf ?o (ai_customer_id (demo_event ''c''))) (demo_event ''c'') = Inr b"
    by (rule make_event_ok [OF demo_event_plain])
  have "ev_hash a \<noteq> genesisOf ?o (ai_customer_id (demo_event ''c''))" using demo_event_hash [OF a] g by simp
  from overlapping_emits_fork [OF a b _ this] show ?thesis by fastforce
qed

text \<open>C37: An emitter resumed on a table keeps it verifiable as long as its calls do not overlap and its inserts
  succeed. Where every customer's rows verify and have growing timestamps at the start, then after any run of
  calls, fetches, failed fetches, timer flushes and settling inserts, rows have only been added and every
  customer's rows verify against the pinned genesis. Once the inserts under way and the queue are written, the
  table holds every event emitted and still verifies.\<close>

theorem calm_runs_verify:
  assumes "\<forall>f c. pg_genesisFor opts = Some f \<longrightarrow> f c \<noteq> []"
    "\<forall>c. verifyAuditChain E \<lparr>genesisFor = pg_genesisFor opts, acceptLegacyZeroHash = False\<rparr> (rows_of c db) = Inr ChainOk \<and>
       times_grow (rows_of c db)"
    "calm_reachable E opts (createPostgresAuditEmitter db) st"
  shows "(\<exists>new. pg_db st = db @ new) \<and>
    verifyAuditChain E \<lparr>genesisFor = pg_genesisFor opts, acceptLegacyZeroHash = False\<rparr> (rows_of c (pg_db st)) = Inr ChainOk \<and>
    (let written = pg_db (pg_flushed True (pg_flush (pg_flushed True st))) in written = pg_events st \<and>
       verifyAuditChain E \<lparr>genesisFor = pg_genesisFor opts, acceptLegacyZeroHash = False\<rparr> (rows_of c written) = Inr ChainOk)"
proof -
  have "calm E opts st"
    using calm_reachable_calm [OF assms(3) calm_start] assms(2) customer_chain_verifies [OF assms(1)] by blast
  note lost = calmD(1) [OF this] and chain = calmD(3) [OF this, of c]
  moreover have "customer_chain E opts (pg_db st) c" using chain customer_chain_prefix by (simp add: pg_events_def)
  moreover have "\<exists>new. pg_db st = db @ new"
    using calm_reachable_appends [OF assms(3)] by (simp add: createPostgresAuditEmitter_def)
  ultimately show ?thesis by (simp add: drained_table customer_chain_verifies [OF assms(1)])
qed

theorem calm_runs_verify_witness:
  "\<exists>a b st. calm_reachable demo_env \<lparr>pg_batchSizeMax = 1, pg_genesisFor = None\<rparr> (createPostgresAuditEmitter [a]) st \<and>
     pg_flushing st = Some [b] \<and>
     verifyAuditChain demo_env \<lparr>genesisFor = None, acceptLegacyZeroHash = False\<rparr>
       (rows_of ''c'' (pg_db (pg_flushed True (pg_flush (pg_flushed True st))))) = Inr ChainOk"
proof -
  let ?o = "\<lparr>pg_batchSizeMax = 1, pg_genesisFor = None\<rparr>"
  obtain a b where ab: "make_event demo_env ''1'' ZERO_HASH (demo_event ''c'') = Inr a"
    "make_event demo_env ''2'' (ev_hash a) (demo_event ''c'') = Inr b" by (rule demo_two_events)
  note a = make_event_authentic [OF ab(1)]
  have cust: "ai_customer_id (demo_event ''c'') = ''c''" "ev_customer a = ''c''"
    using a by (simp_all add: demo_event_def ev_customer_def)
  let ?s1 = "pg_call ''2'' (demo_event ''c'') (createPostgresAuditEmitter [a])"
  let ?s2 = "pg_hydrated ?o ''c'' (Some (ev_hash a)) ?s1"
  let ?st = "pg_resume demo_env ?o 0 ?s2"
  have f: "fetchLastHash (pg_db ?s1) ''c'' (Some (ev_hash a))"
    using cust by (simp add: fetchLastHash_def pg_call_def createPostgresAuditEmitter_def)
  have r: "calm_reachable demo_env ?o (createPostgresAuditEmitter [a]) ?st"
    by (intro calm_next [OF _ calm_resume] calm_next [OF _ calm_hydrated [OF f]] calm_next [OF _ calm_call] calm_init)
      (simp add: createPostgresAuditEmitter_def)
  have fl: "pg_flushing ?st = Some [b]"
    using cust ab(2) by (simp add: createPostgresAuditEmitter_def pg_call_def pg_hydrated_def pg_resume_def pg_flush_def
        Let_def waits_for_def drop_nth_def)
  have t: "\<forall>c. verifyAuditChain demo_env \<lparr>genesisFor = pg_genesisFor ?o, acceptLegacyZeroHash = False\<rparr> (rows_of c [a]) = Inr ChainOk \<and>
      times_grow (rows_of c [a])"
    using a by (simp add: rows_of_def times_grow_def verifyAuditChain_def verify_from_ok prev_ok_def acceptable_genesis_def
        str_truthy_def del: verify_from.simps(2))
  from calm_runs_verify [OF _ t r, of "''c''"] r fl show ?thesis by (auto simp: Let_def)
qed

lemma pg_flush_events: "pg_events (pg_flush st) = pg_events st"
  by (auto simp: pg_flush_def pg_events_def)

definition poisoned :: "string \<Rightarrow> AuditEvent list \<Rightarrow> pg_state \<Rightarrow> bool" where
  "poisoned c log st \<longleftrightarrow>
     pg_hydrating st c = Some FetchRejected \<and> pg_lastHash st c = None \<and>
     (\<forall>j \<in> set (pg_jobs st). ai_customer_id (pj_input j) \<noteq> c) \<and>
     (\<forall>ev \<in> set (pg_events st). ev_customer ev = c \<longrightarrow> ev \<in> set log)"

lemma poisoned_step:
  assumes "pg_step E opts st st'" "poisoned c log st"
  shows "poisoned c log st'"
  using assms(1)
proof (cases rule: pg_step.cases)
  case (step_call eid i)
  with assms(2) show ?thesis
    by (auto simp: poisoned_def pg_call_def Let_def pg_events_def split: option.splits hydration.splits)
next
  case (step_hydrated d r)
  with assms(2) show ?thesis
    by (auto simp: poisoned_def pg_hydrated_def Let_def waits_for_def pg_events_def)
next
  case (step_hydrate_failed d)
  with assms(2) show ?thesis by (auto simp: poisoned_def pg_hydrate_failed_def waits_for_def pg_events_def)
next
  case (step_resume k)
  have flush: "poisoned c log (pg_flush s)" if "poisoned c log s" for s
    using that unfolding poisoned_def pg_flush_events by (simp add: pg_flush_def)
  show ?thesis
  proof (cases "k < length (pg_jobs st)")
    case False
    with step_resume assms(2) show ?thesis by (simp add: pg_resume_def)
  next
    case True
    then have "pg_jobs st ! k \<in> set (pg_jobs st)" by simp
    with assms(2) have ne: "ai_customer_id (pj_input (pg_jobs st ! k)) \<noteq> c" by (auto simp: poisoned_def)
    let ?st1 = "st\<lparr>pg_jobs := drop_nth k (pg_jobs st)\<rparr>"
    have one: "poisoned c log ?st1"
      using assms(2) set_drop_nth [of k "pg_jobs st"] by (auto simp: poisoned_def pg_events_def)
    show ?thesis
    proof (cases "pj_prev (pg_jobs st ! k)")
      case None
      with step_resume assms(2) show ?thesis by (simp add: pg_resume_def Let_def)
    next
      case (Some p)
      show ?thesis
      proof (cases "make_event E (pj_event_id (pg_jobs st ! k)) p (pj_input (pg_jobs st ! k))")
        case (Inl x)
        with step_resume Some True one show ?thesis by (simp add: pg_resume_def Let_def)
      next
        case (Inr ev)
        let ?st2 = "?st1\<lparr>pg_lastHash := (pg_lastHash ?st1)(ai_customer_id (pj_input (pg_jobs st ! k)) := Some (ev_hash ev)),
          pg_pending := pg_pending ?st1 @ [ev]\<rparr>"
        have "ev_customer ev \<noteq> c" using make_event_authentic [OF Inr] ne by (simp add: ev_customer_def)
        then have "poisoned c log ?st2" using one ne by (auto simp: poisoned_def pg_events_def)
        with flush [of ?st2] step_resume Some True Inr show ?thesis by (simp add: pg_resume_def Let_def)
      qed
    qed
  qed
next
  case step_flush
  with assms(2) show ?thesis unfolding poisoned_def by (simp add: pg_flush_events) (simp add: pg_flush_def)
next
  case (step_flushed ok)
  with assms(2) show ?thesis by (auto simp: poisoned_def pg_flushed_def pg_events_def split: option.splits)
qed

text \<open>A failed fetch of a customer's head is never retried: the rejected promise stays in the hydration
  map, so from then on no schedule produces another event for that customer.\<close>

theorem failed_hydration_poisons_customer:
  assumes "pg_hydrating st c = Some Fetching" "pg_lastHash st c = None"
    "\<forall>j \<in> set (pg_jobs st). ai_customer_id (pj_input j) = c \<longrightarrow> pj_prev j = None"
    "pg_reachable E opts (pg_hydrate_failed c st) st'" "ev \<in> set (pg_events st')" "ev_customer ev = c"
  shows "ev \<in> set (pg_events st)"
proof -
  have "poisoned c (pg_events st) (pg_hydrate_failed c st)"
    using assms(1-3) by (auto simp: poisoned_def pg_hydrate_failed_def waits_for_def pg_events_def)
  with assms(4) have "poisoned c (pg_events st) st'"
    by (induction rule: pg_reachable.induct) (auto intro: poisoned_step)
  with assms(5,6) show ?thesis by (simp add: poisoned_def)
qed

theorem failed_hydration_poisons_customer_witness:
  "pg_events (pg_call ''2'' (demo_event ''c'') (pg_hydrate_failed ''c'' (pg_call ''1'' (demo_event ''c'') (createPostgresAuditEmitter [])))) = []"
proof -
  let ?s = "pg_call ''1'' (demo_event ''c'') (createPostgresAuditEmitter [])"
  let ?t = "pg_call ''2'' (demo_event ''c'') (pg_hydrate_failed ''c'' ?s)"
  have c: "ai_customer_id (demo_event ''c'') = ''c''" by (simp add: demo_event_def)
  have r: "pg_reachable demo_env \<lparr>pg_batchSizeMax = 1, pg_genesisFor = None\<rparr> (pg_hydrate_failed ''c'' ?s) ?t"
    by (rule reach_step [OF reach_init step_call])
  have s: "pg_hydrating ?s ''c'' = Some Fetching" "pg_lastHash ?s ''c'' = None"
    "\<forall>j \<in> set (pg_jobs ?s). ai_customer_id (pj_input j) = ''c'' \<longrightarrow> pj_prev j = None" "pg_events ?s = []"
    by (simp_all add: pg_call_def createPostgresAuditEmitter_def c pg_events_def)
  have "ev_customer ev = ''c'' \<Longrightarrow> ev \<notin> set (pg_events ?t)" for ev
    using failed_hydration_poisons_customer [OF s(1-3) r] s(4) by auto
  moreover have "\<forall>ev \<in> set (pg_events ?t). ev_customer ev = ''c''"
    by (simp add: pg_call_def pg_hydrate_failed_def createPostgresAuditEmitter_def c pg_events_def Let_def)
  ultimately show ?thesis by (metis list.set_intros(1) list.exhaust)
qed

subsection \<open>The offline bundle verifier\<close>

text \<open>A bundle verifyBundle passes is consistent: every hash is the digest of its payload, every link
  holds, its first event is the one asked for; a signed root is the hash of one of its events and
  carries a valid Ed25519 signature, and a genesis anchor names the customer and the first link and is
  validly signed.\<close>

theorem passed_bundle_is_consistent:
  assumes "verifyBundle E b key = Inr r" "vr_ok r"
  shows "ab_events b \<noteq> [] \<and> be_event_id (hd (ab_events b)) = ab_event_id b \<and>
    (\<forall>ev \<in> set (ab_events b). bundle_entry_ok E ev) \<and> linked (\<lambda>a b. be_prev_hash b = be_hash a) (ab_events b) \<and>
    (\<forall>root. ab_root b = Some root \<longrightarrow>
       br_root_hash root \<in> be_hash ` set (ab_events b) \<and>
       root_signature_valid E key root (be_customer_id (hd (ab_events b)))) \<and>
    (\<forall>a. ab_genesis_anchor b = Some a \<longrightarrow>
       ga_customer_id a = be_customer_id (hd (ab_events b)) \<and>
       be_prev_hash (hd (ab_events b)) = ga_genesis_hash a \<and> anchor_signature_valid E key a)"
  using verifyBundle_ok [OF assms] by (force simp: root_errors_def anchor_errors_def split: if_splits)

definition demo_bundle :: AuditBundle where
  "demo_bundle =
     \<lparr>ab_event_id = ''1'',
      ab_events = [\<lparr>be_event_id = ''1'', be_customer_id = ''c'', be_prev_hash = ZERO_HASH,
        be_hash = sha256Hex demo_env (ZERO_HASH @ ''|'' @ ''{}''), be_payload = []\<rparr>],
      ab_root = None, ab_genesis_anchor = None\<rparr>"

lemma demo_bundle_passes:
  "verifyBundle demo_env demo_bundle key = Inr \<lparr>vr_ok = True, vr_errors = [], vr_signedAt = None, vr_signingKeyId = None\<rparr>"
  by (simp add: verifyBundle_def demo_bundle_def chain_hash_def root_errors_def anchor_errors_def surviving_def
      lift_canon_def)

theorem passed_bundle_is_consistent_witness:
  "bundle_entry_ok demo_env (hd (ab_events demo_bundle)) \<and> be_event_id (hd (ab_events demo_bundle)) = ab_event_id demo_bundle"
  using passed_bundle_is_consistent [OF demo_bundle_passes [of "[]"]] by simp

definition relabel :: "(AuditBundleEvent \<Rightarrow> string) \<Rightarrow> (AuditBundleEvent \<Rightarrow> string) \<Rightarrow> AuditBundle \<Rightarrow> AuditBundle" where
  "relabel f g b =
     b\<lparr>ab_events := map (\<lambda>ev. ev\<lparr>be_event_id := f ev, be_customer_id := g ev\<rparr>) (ab_events b),
       ab_event_id := f (hd (ab_events b))\<rparr>"

lemma walk_relabel:
  "walk_events E i (map_option (\<lambda>ev. ev\<lparr>be_event_id := f ev, be_customer_id := g ev\<rparr>) p)
     (map (\<lambda>ev. ev\<lparr>be_event_id := f ev, be_customer_id := g ev\<rparr>) evs) = walk_events E i p evs"
proof (induction evs arbitrary: i p)
  case (Cons ev evs)
  from Cons.IH [of "Suc i" "Some ev"] show ?case by (cases p) simp_all
qed simp

text \<open>The verifier does not bind the identity an event is presented under to the payload its hash
  covers: in a bundle without a signed root or anchor, renaming the event ids and customers of the
  events leaves the verdict as it is.\<close>

theorem relabelled_bundle_passes:
  assumes "verifyBundle E b key = Inr r" "vr_ok r" "ab_root b = None" "ab_genesis_anchor b = None"
  shows "verifyBundle E (relabel f g b) key = Inr r"
proof -
  have w: "walk_events E 0 None (map (\<lambda>ev. ev\<lparr>be_event_id := f ev, be_customer_id := g ev\<rparr>) (ab_events b)) =
      walk_events E 0 None (ab_events b)"
    using walk_relabel [where f = f and g = g and p = None] by simp
  from assms have ne: "ab_events b \<noteq> []" and "walk_events E 0 None (ab_events b) = Inr []"
    and r: "r = \<lparr>vr_ok = True, vr_errors = [], vr_signedAt = None, vr_signingKeyId = None\<rparr>"
    by (auto simp: verifyBundle_def rbind_Inr_iff Let_def split: if_splits)
  with w assms(3,4) show ?thesis
    by (simp add: verifyBundle_def relabel_def root_errors_def anchor_errors_def hd_map)
qed

theorem relabelled_bundle_passes_witness:
  "\<exists>r. verifyBundle demo_env (relabel (\<lambda>_. ''other'') (\<lambda>_. ''victim'') demo_bundle) [] = Inr r \<and> vr_ok r"
  using relabelled_bundle_passes [OF demo_bundle_passes [of "[]"], of "\<lambda>_. ''other''" "\<lambda>_. ''victim''"]
  by (simp add: demo_bundle_def)

end
