(* ===== verification/Egress.thy ===== *)
theory Egress
  imports Json_Parse "HOL-Library.Word"
begin

text \<open>
  apps/egress-proxy/src: security/host-guard.ts (address classes, the SSRF guard), cloud-host.ts
  (recognising cloud API hosts, the token check) and the decisions of the two request handlers of
  proxy.ts, up to the connection they open. Name resolution is a parameter (None when it throws), as
  is the engine's reading of numerals that are not plain digits (\<open>nd\<close>). Sockets, piping and the
  audit transport are I/O and not modelled.
\<close>

subsection \<open>Number and node:net isIP\<close>

definition js_Number :: "(string \<Rightarrow> jsnum) \<Rightarrow> string \<Rightarrow> jsnum" where
  "js_Number nd s =
     (let t = trim s
      in if t = [] then JInt 0
         else if \<forall>c \<in> set t. is_digit c then JInt (int (digits_value 0 t))
         else nd t)"

definition octet :: "string \<Rightarrow> bool" where
  "octet s \<longleftrightarrow>
     s \<noteq> [] \<and> length s \<le> 3 \<and> (\<forall>c \<in> set s. is_digit c) \<and> (hd s = CHR ''0'' \<longrightarrow> s = ''0'') \<and> digits_value 0 s \<le> 255"

definition isIPv4 :: "string \<Rightarrow> bool" where
  "isIPv4 s \<longleftrightarrow> length (split_on CHR ''.'' s) = 4 \<and> (\<forall>p \<in> set (split_on CHR ''.'' s). octet p)"

definition hex_group :: "string \<Rightarrow> nat option" where
  "hex_group s =
     (if s = [] \<or> length s > 4 then None
      else fold (\<lambda>c acc. Option.bind acc (\<lambda>n. map_option (\<lambda>v. 16 * n + v) (hex_value c))) s (Some 0))"

fun v6_pieces :: "string list \<Rightarrow> nat list option" where
  "v6_pieces [] = Some []"
| "v6_pieces [p] =
     (if isIPv4 p
      then (case map (digits_value 0) (split_on CHR ''.'' p) of
              [a, b, c, d] \<Rightarrow> Some [256 * a + b, 256 * c + d]
            | _ \<Rightarrow> None)
      else map_option (\<lambda>g. [g]) (hex_group p))"
| "v6_pieces (p # q # ps) = Option.bind (hex_group p) (\<lambda>g. map_option ((#) g) (v6_pieces (q # ps)))"

definition v6_half :: "string \<Rightarrow> nat list option" where
  "v6_half s = (if s = [] then Some [] else v6_pieces (split_on CHR '':'' s))"

fun split_double_colon :: "string \<Rightarrow> (string \<times> string) option" where
  "split_double_colon (a # b # s) =
     (if a = CHR '':'' \<and> b = CHR '':'' then Some ([], s)
      else map_option (\<lambda>(l, r). (a # l, r)) (split_double_colon (b # s)))"
| "split_double_colon s = None"

text \<open>The eight groups of an IPv6 literal; a zone suffix is cut off first.\<close>

definition v6_groups :: "string \<Rightarrow> nat list option" where
  "v6_groups s =
     (let t = takeWhile (\<lambda>c. c \<noteq> CHR ''%'') s
      in case split_double_colon t of
           Some (l, r) \<Rightarrow>
             (case (v6_half l, v6_half r) of
                (Some a, Some b) \<Rightarrow>
                  if length a + length b \<le> 7 then Some (a @ replicate (8 - length a - length b) 0 @ b) else None
              | _ \<Rightarrow> None)
         | None \<Rightarrow>
             (case v6_half t of Some a \<Rightarrow> if length a = 8 then Some a else None | None \<Rightarrow> None))"

definition isIP :: "string \<Rightarrow> nat" where
  "isIP s = (if isIPv4 s then 4 else if v6_groups s \<noteq> None then 6 else 0)"

subsection \<open>host-guard.ts\<close>

datatype HostGuardReason =
    invalid_host | invalid_port | dns_lookup_failed | host_blocked_loopback | host_blocked_private
  | host_blocked_link_local | host_blocked_metadata | host_blocked_carrier_nat | host_blocked_multicast
  | host_blocked_reserved | host_blocked_ipv6_mapped | dns_rebind_multiple_answers

record HostGuardOptions =
  hg_allowlist :: "string list"
  hg_pinSingleAnswer :: bool

datatype HostGuardVerdict = HostAllowed string nat | HostBlocked HostGuardReason

definition allowlist_from_env :: "string \<Rightarrow> string list" where
  "allowlist_from_env v = filter_Boolean (map (\<lambda>s. toLowerCase (trim s)) (split_on CHR '','' v))"

definition matchesAllowlist :: "string \<Rightarrow> string list \<Rightarrow> bool" where
  "matchesAllowlist host allowlist \<longleftrightarrow>
     (\<exists>suffix \<in> set allowlist. toLowerCase host = suffix \<or> endsWith (toLowerCase host) (CHR ''.'' # suffix))"

fun byte_value :: "jsnum \<Rightarrow> int option" where
  "byte_value (JInt i) = (if 0 \<le> i \<and> i \<le> 255 then Some i else None)"
| "byte_value n = None"

definition classifyV4 :: "(string \<Rightarrow> jsnum) \<Rightarrow> string \<Rightarrow> HostGuardReason option" where
  "classifyV4 nd ip =
     (case map (\<lambda>p. byte_value (js_Number nd p)) (split_on CHR ''.'' ip) of
        [Some a, Some b, Some c, Some d] \<Rightarrow>
          if a = 127 then Some host_blocked_loopback
          else if a = 10 then Some host_blocked_private
          else if a = 172 \<and> b \<ge> 16 \<and> b \<le> 31 then Some host_blocked_private
          else if a = 192 \<and> b = 168 then Some host_blocked_private
          else if a = 169 \<and> b = 254 then Some host_blocked_metadata
          else if a = 100 \<and> b \<ge> 64 \<and> b \<le> 127 then Some host_blocked_carrier_nat
          else if a = 0 then Some host_blocked_reserved
          else if a \<ge> 224 then Some host_blocked_multicast
          else None
      | _ \<Rightarrow> Some invalid_host)"

definition lower_hex :: "char \<Rightarrow> bool" where
  "lower_hex c \<longleftrightarrow> is_digit c \<or> (CHR ''a'' \<le> c \<and> c \<le> CHR ''f'')"

definition unique_local_regex :: "string \<Rightarrow> bool" where
  "unique_local_regex s =
     (case s of a # b # c # d # e # _ \<Rightarrow> a = CHR ''f'' \<and> b \<in> set ''cd'' \<and> lower_hex c \<and> lower_hex d \<and> e = CHR '':''
      | _ \<Rightarrow> False)"

definition link_local_regex :: "string \<Rightarrow> bool" where
  "link_local_regex s =
     (case s of a # b # c # d # e # _ \<Rightarrow> a = CHR ''f'' \<and> b = CHR ''e'' \<and> c \<in> set ''89ab'' \<and> lower_hex d \<and> e = CHR '':''
      | _ \<Rightarrow> False)"

definition classifyV6 :: "string \<Rightarrow> HostGuardReason option" where
  "classifyV6 ip =
     (let lower = toLowerCase ip
      in if lower = ''::1'' then Some host_blocked_loopback
         else if lower = ''::'' \<or> lower = ''0:0:0:0:0:0:0:0'' then Some host_blocked_reserved
         else if startsWith lower ''::ffff:'' then Some host_blocked_ipv6_mapped
         else if unique_local_regex lower then Some host_blocked_private
         else if link_local_regex lower then Some host_blocked_link_local
         else if startsWith lower ''ff'' then Some host_blocked_multicast
         else None)"

definition classify :: "(string \<Rightarrow> jsnum) \<Rightarrow> nat \<Rightarrow> string \<Rightarrow> HostGuardReason option" where
  "classify nd family ip = (if family = 4 then classifyV4 nd ip else classifyV6 ip)"

definition guardAndResolveHost ::
  "(string \<Rightarrow> jsnum) \<Rightarrow> (string \<Rightarrow> (string \<times> nat) list option) \<Rightarrow> HostGuardOptions \<Rightarrow> string \<Rightarrow> HostGuardVerdict"
  where
  "guardAndResolveHost nd resolver opts host =
     (if host = [] then HostBlocked invalid_host
      else if isIP host \<noteq> 0 then
        (case classify nd (isIP host) host of
           Some why \<Rightarrow>
             if \<not> matchesAllowlist host (hg_allowlist opts) then HostBlocked why else HostAllowed host (isIP host)
         | None \<Rightarrow> HostAllowed host (isIP host))
      else case resolver host of
          None \<Rightarrow> HostBlocked dns_lookup_failed
        | Some answers \<Rightarrow>
            (case answers of
               [] \<Rightarrow> HostBlocked dns_lookup_failed
             | (address, family) # _ \<Rightarrow>
                 if hg_pinSingleAnswer opts \<and> length answers > 1 then HostBlocked dns_rebind_multiple_answers
                 else if matchesAllowlist host (hg_allowlist opts) then HostAllowed address family
                 else case classify nd family address of
                     Some why \<Rightarrow> HostBlocked why
                   | None \<Rightarrow> HostAllowed address family))"

subsection \<open>cloud-host.ts\<close>

datatype DetectedConnector = azure | aws | gcp

record CloudHostMatch =
  ch_connector :: DetectedConnector
  ch_service :: "string option"
  ch_region :: "string option"

definition strip_www :: "string \<Rightarrow> string" where
  "strip_www h = (if startsWith h ''www.'' then drop 4 h else h)"

definition aws_service_label :: "string \<Rightarrow> bool" where
  "aws_service_label s =
     (case s of [] \<Rightarrow> False
      | c # r \<Rightarrow> is_lower c \<and> r \<noteq> [] \<and> (\<forall>x \<in> set r. is_lower x \<or> is_digit x \<or> x = CHR ''-''))"

text \<open>The region pattern \<open>[a-z]{2}-[a-z]+-\d+\<close>.\<close>

definition aws_region_label :: "string \<Rightarrow> bool" where
  "aws_region_label s =
     (case split_on CHR ''-'' s of
        [a, b, c] \<Rightarrow> length a = 2 \<and> (\<forall>x \<in> set a. is_lower x) \<and> b \<noteq> [] \<and> (\<forall>x \<in> set b. is_lower x) \<and>
                     c \<noteq> [] \<and> (\<forall>x \<in> set c. is_digit x)
      | _ \<Rightarrow> False)"

definition cloud_match :: "DetectedConnector \<Rightarrow> string \<Rightarrow> string option \<Rightarrow> CloudHostMatch option" where
  "cloud_match c s r = Some \<lparr>ch_connector = c, ch_service = Some s, ch_region = r\<rparr>"

definition detectCloudHost :: "string \<Rightarrow> CloudHostMatch option" where
  "detectCloudHost hostname =
     (let host = strip_www (toLowerCase hostname); labels = split_on CHR ''.'' host
      in if host = ''management.azure.com'' \<or> endsWith host ''.management.azure.com'' then cloud_match azure ''arm'' None
         else if host = ''login.microsoftonline.com'' then cloud_match azure ''aad'' None
         else if host = ''graph.microsoft.com'' then cloud_match azure ''graph'' None
         else
           (case labels of
              [a, b, c, d] \<Rightarrow>
                if aws_service_label a \<and> aws_region_label b \<and> c = ''amazonaws'' \<and> d = ''com''
                then cloud_match aws a (Some b)
                else if endsWith host ''.amazonaws.com'' then cloud_match aws (hd labels) None
                else if host = ''googleapis.com'' \<or> endsWith host ''.googleapis.com'' then cloud_match gcp (hd labels) None
                else None
            | [a, b, c, d, e] \<Rightarrow>
                if a \<noteq> [] \<and> b = ''s3'' \<and> aws_region_label c \<and> d = ''amazonaws'' \<and> e = ''com''
                then cloud_match aws ''s3'' (Some c)
                else if endsWith host ''.amazonaws.com'' then cloud_match aws (hd labels) None
                else if host = ''googleapis.com'' \<or> endsWith host ''.googleapis.com'' then cloud_match gcp (hd labels) None
                else None
            | _ \<Rightarrow>
                if endsWith host ''.amazonaws.com'' then cloud_match aws (hd labels) None
                else if host = ''googleapis.com'' \<or> endsWith host ''.googleapis.com'' then cloud_match gcp (hd labels) None
                else None))"

record CloudEnforcementOptions =
  ce_requireTokenForClouds :: bool
  ce_expectedToken :: "string option"

text \<open>\<open>/^Bearer\s+/i\<close>: the scheme and at least one space are dropped, with all spaces after it.\<close>

definition strip_bearer :: "string \<Rightarrow> string" where
  "strip_bearer s =
     (if toLowerCase (take 6 s) = ''bearer'' \<and> drop 6 s \<noteq> [] \<and> is_ws (hd (drop 6 s))
      then dropWhile is_ws (drop 6 s) else s)"

definition checkCloudConnect :: "string \<Rightarrow> string option \<Rightarrow> CloudEnforcementOptions \<Rightarrow> bool" where
  "checkCloudConnect hostname proxyAuthHeader opts =
     (case detectCloudHost hostname of
        None \<Rightarrow> True
      | Some _ \<Rightarrow>
          if \<not> ce_requireTokenForClouds opts then True
          else if \<not> str_truthy (ce_expectedToken opts) then True
          else Some (trim (strip_bearer (case proxyAuthHeader of None \<Rightarrow> [] | Some h \<Rightarrow> h))) = ce_expectedToken opts)"

subsection \<open>proxy.ts\<close>

definition SENSITIVE_HEADERS :: "string list" where
  "SENSITIVE_HEADERS = [''authorization'', ''proxy-authorization'', ''cookie'', ''x-api-key'', ''anthropic-version'']"

datatype header_value = HAbsent | HOne string | HMany "string list"

fun header_text :: "header_value \<Rightarrow> string" where
  "header_text HAbsent = []"
| "header_text (HOne s) = s"
| "header_text (HMany ss) = join '','' ss"

fun set_header :: "string \<Rightarrow> string \<Rightarrow> (string \<times> string) list \<Rightarrow> (string \<times> string) list" where
  "set_header k v [] = [(k, v)]"
| "set_header k v ((k', v') # hs) = (if k = k' then (k, v) # hs else (k', v') # set_header k v hs)"

definition sanitizeHeaders :: "(string \<times> header_value) list \<Rightarrow> (string \<times> string) list" where
  "sanitizeHeaders h =
     fold (\<lambda>(k, v) out.
         let lk = toLowerCase k
         in set_header lk (if lk \<in> set SENSITIVE_HEADERS then ''<redacted>'' else header_text v) out) h []"

record EgressProxyOptions =
  ep_cloud :: "CloudEnforcementOptions option"
  ep_hostGuard :: HostGuardOptions

datatype ConnectOutcome =
    ConnectBadRequest | ConnectCloudDenied | ConnectHostDenied HostGuardReason | ConnectTunnel string jsnum

definition connect_target :: "(string \<Rightarrow> jsnum) \<Rightarrow> string \<Rightarrow> string \<times> jsnum" where
  "connect_target nd target =
     (case split_on CHR '':'' target of
        [] \<Rightarrow> ([], JInt 443)
      | [host] \<Rightarrow> (host, js_Number nd ''443'')
      | host # portStr # _ \<Rightarrow> (host, js_Number nd portStr))"

definition handle_connect ::
  "(string \<Rightarrow> jsnum) \<Rightarrow> (string \<Rightarrow> (string \<times> nat) list option) \<Rightarrow> EgressProxyOptions \<Rightarrow> string \<Rightarrow> string option \<Rightarrow> ConnectOutcome"
  where
  "handle_connect nd resolver opts target proxyAuth =
     (let (host, port) = connect_target nd target
      in if host = [] \<or> port = JNonFinite then ConnectBadRequest
         else if (case ep_cloud opts of
                    None \<Rightarrow> False
                  | Some c \<Rightarrow> ce_requireTokenForClouds c \<and> \<not> checkCloudConnect host proxyAuth c)
         then ConnectCloudDenied
         else case guardAndResolveHost nd resolver (ep_hostGuard opts) host of
             HostBlocked why \<Rightarrow> ConnectHostDenied why
           | HostAllowed address family \<Rightarrow> ConnectTunnel address port)"

text \<open>The plain HTTP handler: the URL parser is a parameter giving hostname, port text and host. The
  forwarded headers are the client's, with host replaced.\<close>

datatype HttpOutcome =
    HttpBadRequest | HttpHostDenied HostGuardReason | HttpForward string string "(string \<times> header_value) list"

fun override_header :: "string \<Rightarrow> header_value \<Rightarrow> (string \<times> header_value) list \<Rightarrow> (string \<times> header_value) list" where
  "override_header k v [] = [(k, v)]"
| "override_header k v ((k', v') # hs) = (if k = k' then (k, v) # hs else (k', v') # override_header k v hs)"

definition handle_http ::
  "(string \<Rightarrow> jsnum) \<Rightarrow> (string \<Rightarrow> (string \<times> nat) list option) \<Rightarrow> (string \<Rightarrow> (string \<times> string \<times> string) option) \<Rightarrow>
   EgressProxyOptions \<Rightarrow> string \<Rightarrow> (string \<times> header_value) list \<Rightarrow> HttpOutcome" where
  "handle_http nd resolver parse_url opts target headers =
     (if \<not> startsWith target ''http'' then HttpBadRequest
      else case parse_url target of
          None \<Rightarrow> HttpBadRequest
        | Some (hostname, port, host) \<Rightarrow>
            (case guardAndResolveHost nd resolver (ep_hostGuard opts) hostname of
               HostBlocked why \<Rightarrow> HttpHostDenied why
             | HostAllowed address family \<Rightarrow>
                 HttpForward address (if port = [] then ''80'' else port) (override_header ''host'' (HOne host) headers)))"

end
