(* ===== verification/Egress_Properties.thy ===== *)
theory Egress_Properties
  imports Egress
begin

text \<open>
  The properties of the egress proxy: the address classes against the reserved CIDR blocks as 32-bit
  words, what a tunnel rests on, and the spellings the guards miss.
\<close>

subsection \<open>IPv4 addresses as words\<close>

definition v4_word :: "nat \<Rightarrow> nat \<Rightarrow> nat \<Rightarrow> nat \<Rightarrow> 32 word" where
  "v4_word a b c d = word_of_nat (a * 2 ^ 24 + b * 2 ^ 16 + c * 2 ^ 8 + d)"

definition in_cidr :: "32 word \<Rightarrow> 32 word \<times> nat \<Rightarrow> bool" where
  "in_cidr w block = (drop_bit (32 - snd block) w = drop_bit (32 - snd block) (fst block))"

definition reserved_blocks :: "(32 word \<times> nat) list" where
  "reserved_blocks =
     [(v4_word 0 0 0 0, 8), (v4_word 10 0 0 0, 8), (v4_word 100 64 0 0, 10), (v4_word 127 0 0 0, 8),
      (v4_word 169 254 0 0, 16), (v4_word 172 16 0 0, 12), (v4_word 192 168 0 0, 16), (v4_word 224 0 0 0, 3)]"

definition dotted :: "nat \<Rightarrow> nat \<Rightarrow> nat \<Rightarrow> nat \<Rightarrow> string" where
  "dotted a b c d = nat_digits a @ ''.'' @ nat_digits b @ ''.'' @ nat_digits c @ ''.'' @ nat_digits d"

lemma unat_v4_word:
  assumes "a < 256" "b < 256" "c < 256" "d < 256"
  shows "unat (v4_word a b c d) = a * 2 ^ 24 + b * 2 ^ 16 + c * 2 ^ 8 + d"
proof -
  have "a * 2 ^ 24 + b * 2 ^ 16 + c * 2 ^ 8 + d < 2 ^ LENGTH(32)" using assms by simp
  then show ?thesis unfolding v4_word_def unat_of_nat by (rule mod_less)
qed

lemma in_cidr_iff: "in_cidr w (v, p) \<longleftrightarrow> unat w div 2 ^ (32 - p) = unat v div 2 ^ (32 - p)"
proof -
  have "in_cidr w (v, p) \<longleftrightarrow> unat (drop_bit (32 - p) w) = unat (drop_bit (32 - p) v)"
    unfolding in_cidr_def fst_conv snd_conv word_unat_eq_iff ..
  then show ?thesis by (simp only: unat_drop_bit_eq) (simp only: drop_bit_eq_div)
qed

lemma trim_digits:
  assumes "\<forall>c \<in> set s. is_digit c" shows "trim s = s"
proof -
  have "\<not> is_ws c" if "c \<in> set s" for c
    using assms that by (auto simp: is_digit_alt is_ws_def)
  then have "s = [] \<or> \<not> is_ws (hd s)" "rev s = [] \<or> \<not> is_ws (hd (rev s))"
    by (metis hd_in_set, metis hd_in_set set_rev)
  then have "dropWhile is_ws s = s" "dropWhile is_ws (rev s) = rev s"
    unfolding dropWhile_eq_self_iff by blast+
  then show ?thesis by (simp add: trim_def)
qed

lemma js_Number_digits: "js_Number nd (nat_digits n) = JInt (int n)"
proof -
  have "\<forall>c \<in> set (nat_digits n). is_digit c" using nat_digits_all by blast
  then show ?thesis by (simp add: js_Number_def trim_digits digits_value_nat_digits Let_def)
qed

lemma dot_not_digit: "CHR ''.'' \<notin> set (nat_digits n)"
  using nat_digits_all [of "CHR ''.''" n] by (auto simp: is_digit_alt)

lemma split_dotted:
  "split_on CHR ''.'' (dotted a b c d) = [nat_digits a, nat_digits b, nat_digits c, nat_digits d]"
  using dot_not_digit by (simp add: dotted_def split_on_append split_on_no_sep)

lemma two_digits:
  assumes "x < m" "y < (m::nat)" shows "a * m + x = a' * m + y \<longleftrightarrow> a = a' \<and> x = y"
proof
  assume e: "a * m + x = a' * m + y"
  have "(a * m + x) div m = a" "(a' * m + y) div m = a'" using assms by auto
  with e show "a = a' \<and> x = y" by auto
qed simp

text \<open>On every dotted quad the classification lets through exactly the addresses outside the reserved
  blocks.\<close>

lemma v4_blocks_iff:
  assumes "a < 256" "b < 256" "c < 256" "d < 256"
  shows "classifyV4 nd (dotted a b c d) = None \<longleftrightarrow>
    (\<forall>block \<in> set reserved_blocks. \<not> in_cidr (v4_word a b c d) block)"
proof -
  let ?n = "a * 2 ^ 24 + b * 2 ^ 16 + c * 2 ^ 8 + d"
  have h: "?n div 2 ^ 24 = a" "?n div 2 ^ 16 = a * 256 + b" "?n div 2 ^ 20 = a * 16 + b div 16"
    "?n div 2 ^ 22 = a * 4 + b div 64" "?n div 2 ^ 29 = a div 32"
    using assms by auto
  have block: "in_cidr (v4_word a b c d) (v4_word a' b' 0 0, p) \<longleftrightarrow>
      ?n div 2 ^ (32 - p) = (a' * 2 ^ 24 + b' * 2 ^ 16) div 2 ^ (32 - p)" if "a' < 256" "b' < 256" for a' b' p
    using that assms by (simp only: in_cidr_iff unat_v4_word) (simp add: unat_v4_word)
  have "b div 64 < 4" "b div 16 < 16" using assms by auto
  then have "a * 4 + b div 64 = 401 \<longleftrightarrow> a = 100 \<and> b div 64 = 1" "a * 16 + b div 16 = 2753 \<longleftrightarrow> a = 172 \<and> b div 16 = 1"
    using two_digits [of "b div 64" 4 1 a 100] two_digits [of "b div 16" 16 1 a 172] by simp_all
  moreover have "b div 64 = 1 \<longleftrightarrow> 64 \<le> b \<and> b \<le> 127" "b div 16 = 1 \<longleftrightarrow> 16 \<le> b \<and> b \<le> 31"
    using div_nat_eqI [of 64 1 b] div_nat_eqI [of 16 1 b] by auto
  ultimately have e1: "a * 4 + b div 64 = 401 \<longleftrightarrow> a = 100 \<and> 64 \<le> b \<and> b \<le> 127"
    and e3: "a * 16 + b div 16 = 2753 \<longleftrightarrow> a = 172 \<and> 16 \<le> b \<and> b \<le> 31" by blast+
  have e2: "a * 256 + b = 43518 \<longleftrightarrow> a = 169 \<and> b = 254"
    using assms two_digits [of b 256 254 a 169] by simp
  have e4: "a * 256 + b = 49320 \<longleftrightarrow> a = 192 \<and> b = 168"
    using assms two_digits [of b 256 168 a 192] by simp
  have e5: "a div 32 = 7 \<longleftrightarrow> a \<ge> 224" using assms by auto
  have "(\<forall>block \<in> set reserved_blocks. \<not> in_cidr (v4_word a b c d) block) \<longleftrightarrow>
    a \<noteq> 0 \<and> a \<noteq> 10 \<and> a * 4 + b div 64 \<noteq> 401 \<and> a \<noteq> 127 \<and> a * 256 + b \<noteq> 43518 \<and> a * 16 + b div 16 \<noteq> 2753 \<and>
    a * 256 + b \<noteq> 49320 \<and> a div 32 \<noteq> 7"
    using h by (simp add: reserved_blocks_def block)
  also have "\<dots> \<longleftrightarrow> \<not> (a = 127 \<or> a = 10 \<or> a = 172 \<and> 16 \<le> b \<and> b \<le> 31 \<or> a = 192 \<and> b = 168 \<or> a = 169 \<and> b = 254 \<or>
    a = 100 \<and> 64 \<le> b \<and> b \<le> 127 \<or> a = 0 \<or> a \<ge> 224)"
    unfolding e1 e2 e3 e4 e5 by sat
  also have "\<dots> \<longleftrightarrow> classifyV4 nd (dotted a b c d) = None"
    using assms by (simp add: classifyV4_def split_dotted js_Number_digits)
  finally show ?thesis by simp
qed

lemma octet_nat_digits:
  assumes "n < 256" shows "octet (nat_digits n)"
proof -
  have "n div 10 div 10 < 10" using assms by simp
  then have "length (nat_digits n) \<le> 3"
    by (simp add: nat_digits.simps [of n] nat_digits.simps [of "n div 10"] nat_digits.simps [of "n div 10 div 10"])
  then show ?thesis
    using assms nat_digits_leading [of n] nat_digits_all [of _ n] by (auto simp: octet_def digits_value_nat_digits)
qed

lemma isIP_dotted: "a < 256 \<Longrightarrow> b < 256 \<Longrightarrow> c < 256 \<Longrightarrow> d < 256 \<Longrightarrow> isIP (dotted a b c d) = 4"
  by (simp add: isIP_def isIPv4_def split_dotted octet_nat_digits)

subsection \<open>What a tunnel rests on\<close>

lemma guard_allowed:
  assumes "guardAndResolveHost nd resolver opts host = HostAllowed address family"
  shows "host \<noteq> []"
    and "matchesAllowlist host (hg_allowlist opts) \<or> classify nd family address = None"
    and "isIP host \<noteq> 0 \<and> address = host \<and> family = isIP host \<or>
         isIP host = 0 \<and> (\<exists>rest. resolver host = Some ((address, family) # rest) \<and> (hg_pinSingleAnswer opts \<longrightarrow> rest = []))"
  using assms by (auto simp: guardAndResolveHost_def split: if_splits option.splits list.splits prod.splits)

lemma handle_connect_tunnel:
  assumes "handle_connect nd resolver opts target auth = ConnectTunnel address port"
  obtains host family where "connect_target nd target = (host, port)"
    "guardAndResolveHost nd resolver (ep_hostGuard opts) host = HostAllowed address family"
    "\<And>c. ep_cloud opts = Some c \<Longrightarrow> ce_requireTokenForClouds c \<Longrightarrow> checkCloudConnect host auth c"
proof -
  obtain host p where t: "connect_target nd target = (host, p)" by fastforce
  note d = assms [unfolded handle_connect_def t Let_def prod.case]
  from d have "\<not> (case ep_cloud opts of None \<Rightarrow> False
      | Some c \<Rightarrow> ce_requireTokenForClouds c \<and> \<not> checkCloudConnect host auth c)"
    by (auto split: if_splits)
  moreover from d this obtain family where
    "guardAndResolveHost nd resolver (ep_hostGuard opts) host = HostAllowed address family" "p = port"
    by (auto split: if_splits HostGuardVerdict.splits)
  ultimately show ?thesis using that t by fastforce
qed

definition outside_reserved :: "string \<Rightarrow> bool" where
  "outside_reserved address \<longleftrightarrow>
     (\<forall>x < 256. \<forall>y < 256. \<forall>z < 256. \<forall>w < 256. address = dotted x y z w \<longrightarrow>
        (\<forall>block \<in> set reserved_blocks. \<not> in_cidr (v4_word x y z w) block))"

lemma classifyV4_outside_reserved: "classifyV4 nd address = None \<Longrightarrow> outside_reserved address"
  unfolding outside_reserved_def using v4_blocks_iff by blast

text \<open>C39: A CONNECT tunnel is opened only to an address the guard decided on: the literal host, or the
  first DNS answer (the only one under pinning). Unless the host name is allow-listed, an IPv4 address
  so reached lies in no reserved block (this network, private, carrier NAT, loopback, link local and
  metadata, multicast and above), compared as 32-bit words; and when a cloud token is required the
  token check accepted the request.\<close>

theorem tunnel_target_checked:
  assumes "handle_connect nd resolver opts target auth = ConnectTunnel address port"
  shows "\<exists>host family. connect_target nd target = (host, port) \<and>
    (address = host \<and> family = isIP host \<and> family \<noteq> 0 \<or>
     (\<exists>rest. resolver host = Some ((address, family) # rest) \<and> (hg_pinSingleAnswer (ep_hostGuard opts) \<longrightarrow> rest = []))) \<and>
    (\<forall>c. ep_cloud opts = Some c \<and> ce_requireTokenForClouds c \<longrightarrow> checkCloudConnect host auth c) \<and>
    (matchesAllowlist host (hg_allowlist (ep_hostGuard opts)) \<or>
     (family = 4 \<longrightarrow> outside_reserved address))"
proof -
  from assms obtain host family where t: "connect_target nd target = (host, port)"
    and g: "guardAndResolveHost nd resolver (ep_hostGuard opts) host = HostAllowed address family"
    and c: "\<And>c. ep_cloud opts = Some c \<Longrightarrow> ce_requireTokenForClouds c \<Longrightarrow> checkCloudConnect host auth c"
    by (rule handle_connect_tunnel, blast)
  have "matchesAllowlist host (hg_allowlist (ep_hostGuard opts)) \<or> (family = 4 \<longrightarrow> outside_reserved address)"
    using guard_allowed(2) [OF g] classifyV4_outside_reserved by (auto simp: classify_def)
  moreover have "address = host \<and> family = isIP host \<and> family \<noteq> 0 \<or>
     (\<exists>rest. resolver host = Some ((address, family) # rest) \<and> (hg_pinSingleAnswer (ep_hostGuard opts) \<longrightarrow> rest = []))"
    using guard_allowed(3) [OF g] by auto
  moreover have "\<forall>c. ep_cloud opts = Some c \<and> ce_requireTokenForClouds c \<longrightarrow> checkCloudConnect host auth c"
    using c by simp
  ultimately show ?thesis by (intro exI [of _ host] exI [of _ family] conjI t) simp_all
qed

definition demo_opts :: EgressProxyOptions where
  "demo_opts = \<lparr>ep_cloud = Some \<lparr>ce_requireTokenForClouds = True, ce_expectedToken = Some ''t0''\<rparr>,
                ep_hostGuard = \<lparr>hg_allowlist = [], hg_pinSingleAnswer = False\<rparr>\<rparr>"

definition demo_resolver :: "string \<Rightarrow> (string \<times> nat) list option" where
  "demo_resolver h = (if h = ''management.azure.com.'' \<or> h = ''example.org'' then Some [(''20.1.2.3'', 4)] else None)"

lemma demo_tunnel:
  "handle_connect (\<lambda>_. JNonFinite) demo_resolver demo_opts ''example.org:443'' None = ConnectTunnel ''20.1.2.3'' (JInt 443)"
proof -
  have "guardAndResolveHost (\<lambda>_. JNonFinite) demo_resolver (ep_hostGuard demo_opts) ''example.org'' = HostAllowed ''20.1.2.3'' 4"
    by code_simp
  moreover have "connect_target (\<lambda>_. JNonFinite) ''example.org:443'' = (''example.org'', JInt 443)" by code_simp
  moreover have "detectCloudHost ''example.org'' = None" by code_simp
  ultimately show ?thesis by (simp add: handle_connect_def demo_opts_def checkCloudConnect_def)
qed

theorem tunnel_target_checked_witness:
  "\<exists>host. connect_target (\<lambda>_. JNonFinite) ''example.org:443'' = (host, JInt 443)"
  using tunnel_target_checked [OF demo_tunnel] by blast

end
