(* ===== verification/Pack_Paths.thy ===== *)
theory Pack_Paths
  imports Json_Parse Crypto
begin

text \<open>
  packages/schema-packs/src/*/path.ts and */extract.ts: the parsers of a proxied call's target and the
  resource each pack derives from it. A parsed path is the object the parser returns, as its members in
  the order they are assigned; absent members are undefined. \<open>nd\<close> is the engine's reading of numerals
  beyond the exact integers.
\<close>

record ApiCall =
  ac_method :: string
  ac_path :: string
  ac_query :: "(string \<times> string) list option"
  ac_body :: json
  ac_headers :: "(string \<times> string) list option"

subsection \<open>Segments and members\<close>

definition path_head :: "string \<Rightarrow> string" where
  "path_head path = hd (split_on CHR ''?'' path)"

definition path_segs :: "string \<Rightarrow> string list" where
  "path_segs path = filter_Boolean (split_on CHR ''/'' (path_head path))"

definition seg :: "string list \<Rightarrow> nat \<Rightarrow> string option" where
  "seg segs i = (if i < length segs then Some (segs ! i) else None)"

definition seg_is :: "string list \<Rightarrow> nat \<Rightarrow> string \<Rightarrow> bool" where
  "seg_is segs i w \<longleftrightarrow> seg segs i = Some w"

definition memb :: "string \<Rightarrow> string option \<Rightarrow> obj" where
  "memb k v = (case v of None \<Rightarrow> [] | Some s \<Rightarrow> [(k, JStr s)])"

definition text_of :: "obj \<Rightarrow> string \<Rightarrow> string option" where
  "text_of ob k = as_string (jget ob k)"

text \<open>\<open>typeof v === 'string' && v\<close>: a string that is not empty.\<close>

definition nonempty :: "string option \<Rightarrow> string option" where
  "nonempty v = (if str_truthy v then v else None)"

definition or_value :: "'a option \<Rightarrow> 'a option \<Rightarrow> 'a option" where
  "or_value a b = (case a of None \<Rightarrow> b | Some x \<Rightarrow> Some x)"

definition null_if_empty :: "obj \<Rightarrow> obj option" where
  "null_if_empty ob = (if ob = [] then None else Some ob)"

definition object_or_empty :: "json \<Rightarrow> obj" where
  "object_or_empty v = (case as_obj v of None \<Rightarrow> [] | Some ob \<Rightarrow> ob)"

definition query_text :: "(string \<times> string) list option \<Rightarrow> string \<Rightarrow> string option" where
  "query_text query k = (case query of None \<Rightarrow> None | Some q \<Rightarrow> map_of q k)"

text \<open>\<open>Number.parseInt(s, 10)\<close> when the result is finite: leading space and a sign are skipped, what follows
  the digits is ignored.\<close>

definition parse_int :: "(string \<Rightarrow> jsnum) \<Rightarrow> string \<Rightarrow> jsnum option" where
  "parse_int nd s =
     (let t = dropWhile is_ws s;
          neg = (t \<noteq> [] \<and> hd t = CHR ''-'');
          u = (if t \<noteq> [] \<and> (hd t = CHR ''-'' \<or> hd t = CHR ''+'') then tl t else t);
          ds = takeWhile is_digit u;
          n = int (digits_value 0 ds)
      in if ds = [] then None
         else if n \<le> max_exact then Some (JInt (if neg then - n else n))
         else (case nd (if neg then CHR ''-'' # ds else ds) of JNonFinite \<Rightarrow> None | v \<Rightarrow> Some v))"

subsection \<open>github\<close>

definition parseGithubPath :: "(string \<Rightarrow> jsnum) \<Rightarrow> string \<Rightarrow> obj option" where
  "parseGithubPath nd path =
     (if \<not> startsWith path ''/'' then None
      else let segs = path_segs path
           in if \<not> seg_is segs 0 ''repos'' then None
              else case (seg segs 1, seg segs 2) of
                  (Some owner, Some repo) \<Rightarrow>
                    Some ([(''owner'', JStr owner), (''repo'', JStr repo)] @
                      (if seg_is segs 3 ''issues'' \<and> seg segs 4 \<noteq> None then
                         (case parse_int nd (segs ! 4) of None \<Rightarrow> [] | Some n \<Rightarrow> [(''issueNumber'', JNum n)])
                       else if seg_is segs 3 ''pulls'' \<and> seg segs 4 \<noteq> None then
                         (case parse_int nd (segs ! 4) of None \<Rightarrow> [] | Some n \<Rightarrow> [(''prNumber'', JNum n)])
                       else if seg_is segs 3 ''contents'' \<and> length segs > 4 then
                         [(''filePath'', JStr (join ''/'' (drop 4 segs)))]
                       else []))
                | _ \<Rightarrow> None)"

definition extract_github :: "(string \<Rightarrow> jsnum) \<Rightarrow> ApiCall \<Rightarrow> obj option" where
  "extract_github nd call =
     (case parseGithubPath nd (ac_path call) of
        None \<Rightarrow> None
      | Some p \<Rightarrow>
          Some (memb ''owner'' (nonempty (text_of p ''owner'')) @
            memb ''repo_name'' (nonempty (text_of p ''repo'')) @
            (case (nonempty (text_of p ''owner''), nonempty (text_of p ''repo'')) of
               (Some owner, Some repo) \<Rightarrow> [(''repo'', JStr (owner @ ''/'' @ repo))]
             | _ \<Rightarrow> []) @
            (if jget p ''issueNumber'' \<noteq> JUndef then [(''issue_number'', jget p ''issueNumber'')] else []) @
            (if jget p ''prNumber'' \<noteq> JUndef then [(''pull_number'', jget p ''prNumber'')] else [])))"

subsection \<open>slack\<close>

text \<open>\<open>/^[a-z][a-zA-Z]*(\.[a-z][a-zA-Z]*)+$/\<close>: at least two dotted words.\<close>

definition slack_method_regex :: "string \<Rightarrow> bool" where
  "slack_method_regex s \<longleftrightarrow>
     length (split_on CHR ''.'' s) \<ge> 2 \<and>
     (\<forall>w \<in> set (split_on CHR ''.'' s). w \<noteq> [] \<and> is_lower (hd w) \<and> (\<forall>c \<in> set w. is_lower c \<or> is_upper c))"

definition parseSlackPath :: "string \<Rightarrow> (string \<times> string) list option \<Rightarrow> json \<Rightarrow> obj option" where
  "parseSlackPath path query body =
     (if \<not> startsWith path ''/'' then None
      else case path_segs path of
          [slackMethod] \<Rightarrow>
            if \<not> slack_method_regex slackMethod then None
            else (let b = object_or_empty body;
                      pick = (\<lambda>k. or_value (nonempty (text_of b k)) (nonempty (query_text query k)))
                  in Some ([(''method'', JStr slackMethod)] @ memb ''channel_id'' (pick ''channel'') @
                       memb ''user_id'' (pick ''user'') @ memb ''thread_ts'' (pick ''thread_ts'') @
                       memb ''ts'' (pick ''ts'')))
        | _ \<Rightarrow> None)"

definition extract_slack :: "ApiCall \<Rightarrow> obj option" where
  "extract_slack call =
     (case parseSlackPath (ac_path call) (ac_query call) (ac_body call) of
        None \<Rightarrow> None
      | Some p \<Rightarrow> Some (memb ''channel_id'' (nonempty (text_of p ''channel_id'')) @
                        memb ''user_id'' (nonempty (text_of p ''user_id'')) @
                        memb ''thread_ts'' (nonempty (text_of p ''thread_ts''))))"

subsection \<open>google drive\<close>

definition parseGoogleDrivePath :: "string \<Rightarrow> obj option" where
  "parseGoogleDrivePath path =
     (if \<not> startsWith path ''/'' then None
      else let segs = path_segs path
           in if segs = [] then None
              else if seg_is segs 0 ''about'' then Some [(''namespace'', JStr ''about'')]
              else if \<not> seg_is segs 0 ''files'' then None
              else Some ([(''namespace'', JStr ''files'')] @ memb ''file_id'' (seg segs 1) @
                (if seg_is segs 2 ''copy'' then [(''action'', JStr ''copy'')]
                 else if seg_is segs 2 ''export'' then [(''action'', JStr ''export'')]
                 else if seg_is segs 2 ''revisions'' then [(''action'', JStr ''revisions'')]
                 else if seg_is segs 2 ''permissions''
                 then [(''action'', JStr ''permissions'')] @ memb ''permission_id'' (seg segs 3)
                 else [])))"

definition extract_google_drive :: "ApiCall \<Rightarrow> obj option" where
  "extract_google_drive call =
     (case parseGoogleDrivePath (ac_path call) of
        None \<Rightarrow> None
      | Some p \<Rightarrow> null_if_empty (memb ''file_id'' (nonempty (text_of p ''file_id'')) @
                                 memb ''permission_id'' (nonempty (text_of p ''permission_id''))))"

subsection \<open>gmail\<close>

definition mail_action :: "string list \<Rightarrow> obj" where
  "mail_action segs =
     (if seg_is segs 4 ''modify'' then [(''action'', JStr ''modify'')]
      else if seg_is segs 4 ''trash'' then [(''action'', JStr ''trash'')] else [])"

definition parseGoogleGmailPath :: "string \<Rightarrow> obj option" where
  "parseGoogleGmailPath path =
     (if \<not> startsWith path ''/'' then None
      else let segs = path_segs path
           in if length segs < 2 then None
              else if \<not> seg_is segs 0 ''users'' then None
              else let out = [(''user_id'', JStr (segs ! 1))]
                   in case seg segs 2 of
                        None \<Rightarrow> Some out
                      | Some ns \<Rightarrow>
                          if ns = ''messages'' then
                            Some (out @ [(''namespace'', JStr ns)] @
                              (if seg_is segs 3 ''send'' then [(''action'', JStr ''send'')]
                               else if seg segs 3 \<noteq> None then memb ''message_id'' (seg segs 3) @ mail_action segs
                               else []))
                          else if ns = ''threads'' then
                            Some (out @ [(''namespace'', JStr ns)] @
                              (if seg segs 3 \<noteq> None then memb ''thread_id'' (seg segs 3) @ mail_action segs else []))
                          else if ns = ''labels'' then Some (out @ [(''namespace'', JStr ns)] @ memb ''label_id'' (seg segs 3))
                          else if ns = ''drafts'' then Some (out @ [(''namespace'', JStr ns)] @ memb ''draft_id'' (seg segs 3))
                          else if ns = ''profile'' then Some (out @ [(''namespace'', JStr ns), (''action'', JStr ''profile'')])
                          else if ns = ''history'' \<or> ns = ''settings'' then Some (out @ [(''namespace'', JStr ns)])
                          else None)"

definition extract_google_gmail :: "ApiCall \<Rightarrow> obj option" where
  "extract_google_gmail call =
     (case parseGoogleGmailPath (ac_path call) of
        None \<Rightarrow> None
      | Some p \<Rightarrow> null_if_empty (memb ''user_id'' (nonempty (text_of p ''user_id'')) @
                                 memb ''message_id'' (nonempty (text_of p ''message_id'')) @
                                 memb ''thread_id'' (nonempty (text_of p ''thread_id'')) @
                                 memb ''label_id'' (nonempty (text_of p ''label_id''))))"

subsection \<open>google calendar\<close>

definition parseGoogleCalendarPath :: "string \<Rightarrow> obj option" where
  "parseGoogleCalendarPath path =
     (if \<not> startsWith path ''/'' then None
      else let segs = path_segs path
           in if segs = [] then None
              else if seg_is segs 0 ''freeBusy'' then Some [(''namespace'', JStr ''freeBusy'')]
              else if seg_is segs 0 ''users'' \<and> seg_is segs 2 ''calendarList''
              then Some [(''namespace'', JStr ''calendarList'')]
              else if \<not> seg_is segs 0 ''calendars'' then None
              else Some ([(''namespace'', JStr ''calendars'')] @ memb ''calendar_id'' (seg segs 1) @
                (if seg_is segs 2 ''events'' then
                   (if seg_is segs 3 ''quickAdd'' then [(''action'', JStr ''quickAdd'')]
                    else if seg_is segs 3 ''import'' then [(''action'', JStr ''import'')]
                    else if seg segs 3 \<noteq> None
                    then memb ''event_id'' (seg segs 3) @ (if seg_is segs 4 ''move'' then [(''action'', JStr ''move'')] else [])
                    else [])
                 else [])))"

definition extract_google_calendar :: "ApiCall \<Rightarrow> obj option" where
  "extract_google_calendar call =
     (case parseGoogleCalendarPath (ac_path call) of
        None \<Rightarrow> None
      | Some p \<Rightarrow> null_if_empty (memb ''calendar_id'' (nonempty (text_of p ''calendar_id'')) @
                                 memb ''event_id'' (nonempty (text_of p ''event_id''))))"

subsection \<open>google docs and sheets\<close>

text \<open>The text before and after the first colon, when there is one.\<close>

definition cut_colon :: "string \<Rightarrow> string \<times> string option" where
  "cut_colon s =
     (let ident = takeWhile (\<lambda>c. c \<noteq> CHR '':'') s; r = dropWhile (\<lambda>c. c \<noteq> CHR '':'') s
      in (ident, if r = [] then None else Some (tl r)))"

definition parseGoogleDocsPath :: "string \<Rightarrow> obj option" where
  "parseGoogleDocsPath path =
     (if \<not> startsWith path ''/'' then None
      else let segs = path_segs path
           in if segs = [] then None
              else if \<not> seg_is segs 0 ''documents'' then None
              else case seg segs 1 of
                  None \<Rightarrow> Some []
                | Some idSeg \<Rightarrow>
                    (case cut_colon idSeg of
                       (ident, None) \<Rightarrow> Some [(''document_id'', JStr idSeg)]
                     | (ident, Some verb) \<Rightarrow>
                         Some ([(''document_id'', JStr ident)] @
                           (if verb = ''batchUpdate'' then [(''action'', JStr ''batchUpdate'')] else []))))"

definition extract_google_docs :: "ApiCall \<Rightarrow> obj option" where
  "extract_google_docs call =
     (case parseGoogleDocsPath (ac_path call) of
        None \<Rightarrow> None
      | Some p \<Rightarrow> null_if_empty (memb ''document_id'' (nonempty (text_of p ''document_id''))))"

text \<open>\<open>decodeURIComponent\<close>: runs of \<open>%XX\<close> must spell well-formed UTF-8; None is the URIError.\<close>

definition pct_byte :: "string \<Rightarrow> (nat \<times> string) option" where
  "pct_byte s =
     (case s of
        p # a # b # r \<Rightarrow>
          (case (p = CHR ''%'', hex_value a, hex_value b) of
             (True, Some x, Some y) \<Rightarrow> Some (16 * x + y, r)
           | _ \<Rightarrow> None)
      | _ \<Rightarrow> None)"

fun pct_tail :: "nat \<Rightarrow> string \<Rightarrow> (nat list \<times> string) option" where
  "pct_tail 0 s = Some ([], s)"
| "pct_tail (Suc n) s =
     (case pct_byte s of
        None \<Rightarrow> None
      | Some (b, r) \<Rightarrow>
          if 0x80 \<le> b \<and> b < 0xC0
          then (case pct_tail n r of None \<Rightarrow> None | Some (bs, r') \<Rightarrow> Some (b # bs, r'))
          else None)"

definition utf8_ok :: "nat \<Rightarrow> nat list \<Rightarrow> bool" where
  "utf8_ok b bs =
     (case bs of
        [] \<Rightarrow> b < 0x80
      | [_] \<Rightarrow> 0xC2 \<le> b \<and> b < 0xE0
      | [c, _] \<Rightarrow> 0xE0 \<le> b \<and> b < 0xF0 \<and> (b = 0xE0 \<longrightarrow> 0xA0 \<le> c) \<and> (b = 0xED \<longrightarrow> c < 0xA0)
      | [c, _, _] \<Rightarrow> 0xF0 \<le> b \<and> b < 0xF5 \<and> (b = 0xF0 \<longrightarrow> 0x90 \<le> c) \<and> (b = 0xF4 \<longrightarrow> c < 0x90)
      | _ \<Rightarrow> False)"

definition utf8_tail_length :: "nat \<Rightarrow> nat" where
  "utf8_tail_length b = (if b < 0xC0 then 0 else if b < 0xE0 then 1 else if b < 0xF0 then 2 else 3)"

text \<open>The fuel is the length of the text: every round consumes a character.\<close>

fun decode_from :: "nat \<Rightarrow> string \<Rightarrow> string option" where
  "decode_from n [] = Some []"
| "decode_from 0 (c # s) = None"
| "decode_from (Suc n) (c # s) =
     (if c \<noteq> CHR ''%'' then map_option ((#) c) (decode_from n s)
      else case pct_byte (c # s) of
          None \<Rightarrow> None
        | Some (b, r) \<Rightarrow>
            (case pct_tail (utf8_tail_length b) r of
               None \<Rightarrow> None
             | Some (bs, r') \<Rightarrow>
                 if utf8_ok b bs then map_option ((@) (map char_of (b # bs))) (decode_from n r') else None))"

definition decodeURIComponent :: "string \<Rightarrow> (exn, string) result" where
  "decodeURIComponent s = (case decode_from (length s) s of None \<Rightarrow> Inl UriError | Some t \<Rightarrow> Inr t)"

text \<open>The text before and after the last colon.\<close>

definition cut_last_colon :: "string \<Rightarrow> (string \<times> string) option" where
  "cut_last_colon s =
     (if CHR '':'' \<notin> set s then None
      else let t = rev (takeWhile (\<lambda>c. c \<noteq> CHR '':'') (rev s))
           in Some (take (length s - length t - 1) s, t))"

definition range_verb_regex :: "string \<Rightarrow> bool" where
  "range_verb_regex s \<longleftrightarrow>
     length s \<ge> 2 \<and> is_lower (hd s) \<and> (\<forall>c \<in> set (tl s). is_lower c \<or> is_upper c)"

definition sheets_range :: "bool \<Rightarrow> string \<Rightarrow> obj" where
  "sheets_range has_action rangeSeg =
     (let values_action = (if has_action then [] else [(''action'', JStr ''values'')])
      in case cut_last_colon rangeSeg of
           None \<Rightarrow> [(''range'', JStr rangeSeg)] @ values_action
         | Some (before, trailing) \<Rightarrow>
             if range_verb_regex trailing
             then [(''range'', JStr before)] @ (if trailing = ''append'' then [(''action'', JStr ''append'')] else [])
             else [(''range'', JStr rangeSeg)] @ values_action)"

definition parseGoogleSheetsPath :: "string \<Rightarrow> (exn, obj option) result" where
  "parseGoogleSheetsPath path =
     (if \<not> startsWith path ''/'' then Inr None
      else let segs = path_segs path
           in if segs = [] then Inr None
              else if \<not> seg_is segs 0 ''spreadsheets'' then Inr None
              else case seg segs 1 of
                  None \<Rightarrow> Inr (Some [])
                | Some idSeg \<Rightarrow>
                    (let (ident, verb) = cut_colon idSeg;
                         batch = (verb = Some ''batchUpdate'');
                         out = [(''spreadsheet_id'', JStr ident)] @ (if batch then [(''action'', JStr ''batchUpdate'')] else [])
                     in if seg_is segs 2 ''values'' \<and> seg segs 3 \<noteq> None
                        then rbind (decodeURIComponent (segs ! 3)) (\<lambda>rangeSeg.
                               Inr (Some (obj_spread out (sheets_range batch rangeSeg))))
                        else Inr (Some out)))"

definition extract_google_sheets :: "ApiCall \<Rightarrow> (exn, obj option) result" where
  "extract_google_sheets call =
     rbind (parseGoogleSheetsPath (ac_path call)) (\<lambda>parsed.
       Inr (case parsed of
              None \<Rightarrow> None
            | Some p \<Rightarrow> null_if_empty (memb ''spreadsheet_id'' (nonempty (text_of p ''spreadsheet_id'')) @
                                       memb ''range'' (nonempty (text_of p ''range'')))))"

subsection \<open>google tasks and contacts\<close>

definition parseGoogleTasksPath :: "string \<Rightarrow> obj option" where
  "parseGoogleTasksPath path =
     (if \<not> startsWith path ''/'' then None
      else let segs = path_segs path
           in if segs = [] then None
              else if seg_is segs 0 ''users'' then
                (if \<not> seg_is segs 1 ''@me'' \<and> \<not> seg_is segs 1 ''me'' then None
                 else Some [(''namespace'', JStr ''users'')])
              else if \<not> seg_is segs 0 ''lists'' then None
              else Some ([(''namespace'', JStr ''lists'')] @ memb ''tasklist_id'' (seg segs 1) @
                (if seg_is segs 2 ''tasks'' then memb ''task_id'' (seg segs 3) else [])))"

definition extract_google_tasks :: "ApiCall \<Rightarrow> obj option" where
  "extract_google_tasks call =
     (case parseGoogleTasksPath (ac_path call) of
        None \<Rightarrow> None
      | Some p \<Rightarrow> null_if_empty (memb ''tasklist_id'' (nonempty (text_of p ''tasklist_id'')) @
                                 memb ''task_id'' (nonempty (text_of p ''task_id''))))"

definition parseGoogleContactsPath :: "string \<Rightarrow> obj option" where
  "parseGoogleContactsPath path =
     (if \<not> startsWith path ''/'' then None
      else if path_head path = ''/people:searchContacts'' then Some [(''namespace'', JStr ''search'')]
      else if path_head path = ''/people/me/connections'' then Some [(''namespace'', JStr ''connections'')]
      else let segs = path_segs path
           in if segs = [] then None
              else if \<not> seg_is segs 0 ''people'' then None
              else Some [(''namespace'', JStr ''person''), (''resource_name'', JStr (join ''/'' segs))])"

definition extract_google_contacts :: "ApiCall \<Rightarrow> obj option" where
  "extract_google_contacts call =
     (case parseGoogleContactsPath (ac_path call) of
        None \<Rightarrow> None
      | Some p \<Rightarrow> null_if_empty (memb ''resource_name'' (nonempty (text_of p ''resource_name''))))"

subsection \<open>notion\<close>

definition parseNotionPath :: "string \<Rightarrow> obj option" where
  "parseNotionPath path =
     (if \<not> startsWith path ''/'' then None
      else let segs = path_segs path
           in case seg segs 0 of
                None \<Rightarrow> None
              | Some ns \<Rightarrow>
                  if ns = ''pages'' then Some ([(''namespace'', JStr ns)] @ memb ''page_id'' (seg segs 1))
                  else if ns = ''databases'' then
                    Some ([(''namespace'', JStr ns)] @ memb ''database_id'' (seg segs 1) @
                      (if seg_is segs 2 ''query'' then [(''action'', JStr ''query'')] else []))
                  else if ns = ''blocks'' then
                    Some ([(''namespace'', JStr ns)] @ memb ''block_id'' (seg segs 1) @
                      (if seg_is segs 2 ''children'' then [(''action'', JStr ''children'')] else []))
                  else if ns = ''users'' then Some ([(''namespace'', JStr ns)] @ memb ''user_id'' (seg segs 1))
                  else if ns = ''comments'' \<or> ns = ''search'' then Some [(''namespace'', JStr ns)]
                  else None)"

definition normaliseNotionId :: "string \<Rightarrow> string" where
  "normaliseNotionId ident = toLowerCase (filter (\<lambda>c. c \<noteq> CHR ''-'') ident)"

definition extract_notion :: "ApiCall \<Rightarrow> obj option" where
  "extract_notion call =
     (case parseNotionPath (ac_path call) of
        None \<Rightarrow> None
      | Some p \<Rightarrow>
          (let norm_memb = (\<lambda>k. memb k (map_option normaliseNotionId (nonempty (text_of p k))))
           in null_if_empty (norm_memb ''page_id'' @ norm_memb ''database_id'' @ norm_memb ''block_id'')))"

subsection \<open>linear\<close>

definition parseLinearPath :: "string \<Rightarrow> bool" where
  "parseLinearPath path \<longleftrightarrow> startsWith path ''/'' \<and> (path_head path = ''/'' \<or> path_head path = [])"

text \<open>The variables of a GraphQL body; None when the body has no query text. The operation name it also
  returns is not used by the callers modelled here.\<close>

definition parseLinearBody :: "json \<Rightarrow> obj option" where
  "parseLinearBody body =
     (case as_obj body of
        None \<Rightarrow> None
      | Some b \<Rightarrow> if str_truthy (text_of b ''query'') then Some (object_or_empty (jget b ''variables'')) else None)"

definition extract_linear :: "ApiCall \<Rightarrow> obj option" where
  "extract_linear call =
     (if \<not> parseLinearPath (ac_path call) then None
      else case parseLinearBody (ac_body call) of
          None \<Rightarrow> None
        | Some v \<Rightarrow>
            (let input = object_or_empty (jget v ''input'');
                 issue = or_value (text_of v ''issueId'') (text_of v ''id'')
             in null_if_empty (memb ''issue_id'' (or_value issue (text_of input ''id'')) @
                               memb ''team_id'' (or_value (text_of v ''teamId'') (text_of input ''teamId'')) @
                               memb ''project_id'' (or_value (text_of v ''projectId'') (text_of input ''projectId'')))))"

subsection \<open>stripe\<close>

definition stripe_NAMESPACES :: "string list" where
  "stripe_NAMESPACES =
     [''customers'', ''payment_intents'', ''charges'', ''subscriptions'', ''invoices'', ''refunds'', ''disputes'',
      ''products'', ''prices'', ''balance_transactions'', ''setup_intents'']"

definition NAMESPACE_ID_KEY :: "(string \<times> string) list" where
  "NAMESPACE_ID_KEY =
     [(''customers'', ''customer_id''), (''payment_intents'', ''payment_intent''), (''charges'', ''charge_id''),
      (''subscriptions'', ''subscription_id''), (''invoices'', ''invoice_id''), (''refunds'', ''refund_id''),
      (''disputes'', ''dispute_id''), (''products'', ''product_id''), (''prices'', ''price_id''),
      (''balance_transactions'', ''balance_transaction_id'')]"

definition parseStripePath :: "string \<Rightarrow> obj option" where
  "parseStripePath path =
     (if \<not> startsWith path ''/'' then None
      else let segs = path_segs path
           in case seg segs 0 of
                None \<Rightarrow> None
              | Some ns \<Rightarrow>
                  if ns \<notin> set stripe_NAMESPACES then None
                  else Some ([(''namespace'', JStr ns)] @
                    (case map_of NAMESPACE_ID_KEY ns of None \<Rightarrow> [] | Some idKey \<Rightarrow> memb idKey (seg segs 1)) @
                    memb ''action'' (seg segs 2)))"

definition extract_stripe :: "ApiCall \<Rightarrow> obj option" where
  "extract_stripe call =
     (case parseStripePath (ac_path call) of
        None \<Rightarrow> None
      | Some p \<Rightarrow>
          (let b = object_or_empty (ac_body call);
               pick = (\<lambda>k bk. or_value (nonempty (text_of p k)) (text_of b bk))
           in null_if_empty (memb ''customer_id'' (pick ''customer_id'' ''customer'') @
                memb ''payment_intent'' (pick ''payment_intent'' ''payment_intent'') @
                memb ''charge_id'' (pick ''charge_id'' ''charge'') @
                memb ''subscription_id'' (nonempty (text_of p ''subscription_id'')) @
                memb ''invoice_id'' (nonempty (text_of p ''invoice_id'')))))"

subsection \<open>discord\<close>

definition parseDiscordPath :: "string \<Rightarrow> obj option" where
  "parseDiscordPath path =
     (if \<not> startsWith path ''/'' then None
      else let segs = path_segs path
           in if seg_is segs 0 ''guilds'' \<and> seg segs 1 \<noteq> None then
                Some ([(''guild_id'', JStr (segs ! 1))] @
                  (if seg_is segs 2 ''members'' \<and> seg segs 3 \<noteq> None then
                     memb ''user_id'' (seg segs 3) @
                     (if seg_is segs 4 ''roles'' then memb ''role_id'' (seg segs 5) else [])
                   else if seg_is segs 2 ''roles'' then memb ''role_id'' (seg segs 3)
                   else []))
              else if seg_is segs 0 ''channels'' \<and> seg segs 1 \<noteq> None then
                Some ([(''channel_id'', JStr (segs ! 1))] @
                  (if seg_is segs 2 ''messages'' \<and> seg segs 3 \<noteq> None then memb ''message_id'' (seg segs 3)
                   else if seg_is segs 2 ''permissions'' \<and> seg segs 3 \<noteq> None then memb ''overwrite_id'' (seg segs 3)
                   else []))
              else None)"

definition extract_discord :: "ApiCall \<Rightarrow> obj option" where
  "extract_discord call =
     (case parseDiscordPath (ac_path call) of
        None \<Rightarrow> None
      | Some p \<Rightarrow>
          (let m = (\<lambda>k. memb k (nonempty (text_of p k)))
           in Some (m ''guild_id'' @ m ''channel_id'' @ m ''message_id'' @ m ''role_id'' @ m ''user_id'')))"

subsection \<open>filesystem and ssh\<close>

text \<open>\<open>lastIndexOf\<close>, on strings and on arrays.\<close>

definition last_index :: "'a \<Rightarrow> 'a list \<Rightarrow> int" where
  "last_index x xs =
     (if x \<in> set xs then int (length xs) - 1 - int (length (takeWhile (\<lambda>y. y \<noteq> x) (rev xs))) else - 1)"

definition extname_of :: "'a \<Rightarrow> 'a \<Rightarrow> 'a \<Rightarrow> 'a list \<Rightarrow> 'a list" where
  "extname_of slash_char backslash dot_char p =
     (let slash = max (last_index slash_char p) (last_index backslash p); dot = last_index dot_char p
      in if dot > slash \<and> dot < int (length p) - 1 then drop (nat (dot + 1)) p else [])"

definition extname :: "string \<Rightarrow> string" where
  "extname p = extname_of CHR ''/'' CHR 0x5C CHR ''.'' p"

text \<open>A member read with a cast: any truthy value counts.\<close>

definition truthy_member :: "json \<Rightarrow> string \<Rightarrow> json" where
  "truthy_member body k = (let v = jget (object_or_empty body) k in if truthy v then v else JUndef)"

definition query_or_body :: "ApiCall \<Rightarrow> string \<Rightarrow> json" where
  "query_or_body call k =
     (case nonempty (query_text (ac_query call) k) of Some s \<Rightarrow> JStr s | None \<Rightarrow> truthy_member (ac_body call) k)"

definition jmemb :: "string \<Rightarrow> json \<Rightarrow> obj" where
  "jmemb k v = (if v = JUndef then [] else [(k, v)])"

text \<open>\<open>extname\<close> calls lastIndexOf and slice: an array has both, any other value throws.\<close>

definition extract_filesystem :: "ApiCall \<Rightarrow> (exn, obj option) result" where
  "extract_filesystem call =
     (let filePath = query_or_body call ''path''
      in case filePath of
           JUndef \<Rightarrow> Inr None
         | JStr p \<Rightarrow>
             Inr (Some ([(''path'', JStr p)] @ (if extname p \<noteq> [] then [(''extension'', JStr (extname p))] else [])))
         | JArr vs \<Rightarrow>
             (let ext = extname_of (JStr ''/'') (JStr [CHR 0x5C]) (JStr ''.'') vs
              in Inr (Some ([(''path'', JArr vs)] @ (if ext \<noteq> [] then [(''extension'', JArr ext)] else []))))
         | _ \<Rightarrow> Inl TypeError)"

definition extract_ssh :: "ApiCall \<Rightarrow> obj option" where
  "extract_ssh call = null_if_empty (jmemb ''host'' (query_or_body call ''host'') @ jmemb ''path'' (query_or_body call ''path''))"

end
