(* ===== verification/Zod.thy ===== *)
theory Zod
  imports Json
begin

text \<open>
  The zod validators of the schema packs, as predicates on JSON values: a value passes when \<open>safeParse\<close>
  succeeds. Undefined stands for a missing member. Unknown members never fail an object schema (they are
  stripped or passed through); \<open>catchall\<close> checks them. A call schema written with \<open>extend\<close> is the list of
  its members (\<open>shape\<close>). The path templates of the generated schemas are token lists.
\<close>

type_synonym schema = "json \<Rightarrow> bool"
type_synonym shape = "(string \<times> schema) list"

definition s_unknown :: schema where "s_unknown v = True"

definition s_str :: "(string \<Rightarrow> bool) \<Rightarrow> schema" where
  "s_str P v = (case as_string v of None \<Rightarrow> False | Some s \<Rightarrow> P s)"

definition s_string :: schema where "s_string = s_str (\<lambda>s. True)"

definition s_min1 :: schema where "s_min1 = s_str (\<lambda>s. s \<noteq> [])"

definition s_literal :: "string \<Rightarrow> schema" where "s_literal l = s_str (\<lambda>s. s = l)"

definition s_enum :: "string list \<Rightarrow> schema" where "s_enum ls = s_str (\<lambda>s. s \<in> set ls)"

definition s_boolean :: schema where "s_boolean v = (case v of JBool b \<Rightarrow> True | _ \<Rightarrow> False)"

definition s_number :: schema where "s_number v = (case v of JNum n \<Rightarrow> n \<noteq> JNonFinite | _ \<Rightarrow> False)"

definition s_int :: "(int \<Rightarrow> bool) \<Rightarrow> schema" where
  "s_int P v = (case v of JNum (JInt i) \<Rightarrow> P i | _ \<Rightarrow> False)"

definition s_number_literal :: "int \<Rightarrow> schema" where "s_number_literal n = s_int (\<lambda>i. i = n)"

definition s_optional :: "schema \<Rightarrow> schema" where "s_optional S v \<longleftrightarrow> v = JUndef \<or> S v"

definition s_array :: "schema \<Rightarrow> schema" where
  "s_array S v = (case v of JArr vs \<Rightarrow> list_all S vs | _ \<Rightarrow> False)"

definition s_nonempty_array :: "schema \<Rightarrow> schema" where
  "s_nonempty_array S v = (case v of JArr vs \<Rightarrow> vs \<noteq> [] \<and> list_all S vs | _ \<Rightarrow> False)"

definition s_record :: "schema \<Rightarrow> schema" where
  "s_record S v = (case as_obj v of None \<Rightarrow> False | Some ob \<Rightarrow> list_all (\<lambda>(k, w). S w) ob)"

definition s_object :: "shape \<Rightarrow> schema" where
  "s_object fs v = (case as_obj v of None \<Rightarrow> False | Some ob \<Rightarrow> list_all (\<lambda>(k, S). S (jget ob k)) fs)"

definition s_catchall :: "shape \<Rightarrow> schema \<Rightarrow> schema" where
  "s_catchall fs S v =
     (case as_obj v of
        None \<Rightarrow> False
      | Some ob \<Rightarrow> list_all (\<lambda>(k, T). T (jget ob k)) fs \<and> list_all (\<lambda>(k, w). k \<in> fst ` set fs \<or> S w) ob)"

definition s_field :: "string \<Rightarrow> schema \<Rightarrow> schema" where
  "s_field k S v = (case as_obj v of None \<Rightarrow> False | Some ob \<Rightarrow> S (jget ob k))"

definition s_and :: "schema \<Rightarrow> schema \<Rightarrow> schema" where "s_and S T v \<longleftrightarrow> S v \<and> T v"

definition s_union :: "schema list \<Rightarrow> schema" where "s_union Ss v = list_ex (\<lambda>S. S v) Ss"

text \<open>\<open>extend\<close> replaces the members it names and keeps the others.\<close>

definition with_members :: "shape \<Rightarrow> shape \<Rightarrow> shape" where
  "with_members base new = filter (\<lambda>(k, S). k \<notin> fst ` set new) base @ new"

text \<open>\<open>String.length\<close> counts UTF-16 code units: one for every encoded character, two for those of
  four bytes.\<close>

definition utf16_length :: "string \<Rightarrow> nat" where
  "utf16_length s =
     sum_list (map (\<lambda>c. if of_char c < (0x80::nat) then 1 else if of_char c < (0xC0::nat) then 0
                        else if of_char c < (0xF0::nat) then 1 else 2) s)"

subsection \<open>Paths\<close>

definition safe_path :: "string \<Rightarrow> bool" where
  "safe_path p \<longleftrightarrow> p \<noteq> [] \<and> \<not> js_includes p ''..'' \<and> \<not> js_includes p ''//''"

definition s_safe_path :: schema where "s_safe_path = s_str safe_path"

definition s_safe_fs_path :: schema where
  "s_safe_fs_path = s_str (\<lambda>p. p \<noteq> [] \<and> \<not> js_includes p ''..'')"

definition s_graphql_path :: schema where
  "s_graphql_path = s_str (\<lambda>p. safe_path p \<and> (p = ''/'' \<or> p = ''/graphql'' \<or> p = ''''))"

text \<open>\<open>Lit\<close> is literal text, \<open>Seg\<close> is \<open>[^/]+\<close> and \<open>Rest\<close> is a final \<open>.+\<close>, whose dot does not match a
  line terminator.\<close>

datatype token = Lit string | Seg | Rest

definition line_terminator :: "string \<Rightarrow> bool" where
  "line_terminator s \<longleftrightarrow>
     CHR 0x0A \<in> set s \<or> CHR 0x0D \<in> set s \<or>
     js_includes s [CHR 0xE2, CHR 0x80, CHR 0xA8] \<or> js_includes s [CHR 0xE2, CHR 0x80, CHR 0xA9]"

fun path_match :: "token list \<Rightarrow> string \<Rightarrow> bool" where
  "path_match [] s = (s = [])"
| "path_match (Lit l # ts) s = (startsWith s l \<and> path_match ts (drop (length l) s))"
| "path_match (Seg # ts) s =
     list_ex (\<lambda>n. path_match ts (drop n s)) [1..<Suc (length (takeWhile (\<lambda>c. c \<noteq> CHR ''/'') s))]"
| "path_match (Rest # ts) s = (s \<noteq> [] \<and> \<not> line_terminator s \<and> ts = [])"

definition s_path_matching :: "token list \<Rightarrow> schema" where
  "s_path_matching ts = s_str (\<lambda>p. safe_path p \<and> path_match ts p)"

definition any_query :: schema where "any_query = s_optional (s_record s_string)"
definition any_body :: schema where "any_body = s_optional s_unknown"

definition call_floor :: "schema \<Rightarrow> schema \<Rightarrow> schema \<Rightarrow> schema \<Rightarrow> schema" where
  "call_floor meth path query body =
     s_object [(''method'', meth), (''path'', path), (''query'', query), (''body'', body),
               (''headers'', s_optional (s_record s_string))]"

record ActionSchemas =
  as_apiCallSchema :: "schema option"
  as_resourceSchema :: "schema option"

definition no_schemas :: ActionSchemas where
  "no_schemas = \<lparr>as_apiCallSchema = None, as_resourceSchema = None\<rparr>"

definition entry :: "(string \<times> ActionSchemas) list \<Rightarrow> string \<Rightarrow> ActionSchemas" where
  "entry m cmd = (case map_of m cmd of None \<Rightarrow> no_schemas | Some s \<Rightarrow> s)"

lemma s_object_JObj [simp]: "s_object fs (JObj ob) \<longleftrightarrow> (\<forall>(k, S) \<in> set fs. S (jget ob k))"
  by (auto simp: s_object_def list_all_iff)

lemma s_objectD: "s_object fs v \<Longrightarrow> (k, S) \<in> set fs \<Longrightarrow> \<exists>ob. v = JObj ob \<and> S (jget ob k)"
  by (cases v) (auto simp: s_object_def list_all_iff)

lemma s_str_JStr [simp]: "s_str P (JStr s) = P s"
  by (simp add: s_str_def)

lemma s_strD: "s_str P v \<Longrightarrow> \<exists>s. v = JStr s \<and> P s"
  by (cases v) (auto simp: s_str_def)

lemma with_members_in: "(k, S) \<in> set new \<Longrightarrow> (k, S) \<in> set (with_members base new)"
  by (simp add: with_members_def)

lemma with_members_keeps: "(k, S) \<in> set base \<Longrightarrow> k \<notin> fst ` set new \<Longrightarrow> (k, S) \<in> set (with_members base new)"
  by (auto simp: with_members_def)

end
