(* ===== verification/Pack_Floors.thy ===== *)
theory Pack_Floors
  imports Zod
begin

text \<open>
  The per-action floor of the proxy call (packages/schema-packs/src/__generated__): for every command of
  the thirteen packs with an adapter specification, the method, the path template and the required body
  members. Each list is cut into pieces that follow the file.
\<close>

subsection \<open>github\<close>

definition github_floor_1 :: "(string \<times> schema) list" where
  "github_floor_1 =
     [(''/github/issue/list'', call_floor (s_literal ''GET'') (s_path_matching [Lit ''/repos/'', Seg, Lit ''/'',
        Seg, Lit ''/issues'']) any_query any_body),
      (''/github/issue/read'', call_floor (s_literal ''GET'') (s_path_matching [Lit ''/repos/'', Seg,
        Lit ''/'', Seg, Lit ''/issues/'', Rest]) any_query any_body),
      (''/github/repo/create'',
        call_floor (s_literal ''POST'') (s_path_matching [Lit ''/user/repos'']) any_query (s_optional (s_object [(''name'',
        s_min1)]))),
      (''/github/issue/create'', call_floor (s_literal ''POST'') (s_path_matching [Lit ''/repos/'', Seg,
        Lit ''/'', Seg, Lit ''/issues'']) any_query (s_optional (s_object [(''title'', s_min1)]))),
      (''/github/issue/comment'', call_floor (s_literal ''POST'') (s_path_matching [Lit ''/repos/'', Seg,
        Lit ''/'', Seg, Lit ''/issues/'', Seg,
        Lit ''/comments'']) any_query (s_optional (s_object [(''body'', s_min1)]))),
      (''/github/repo/list'',
        call_floor (s_literal ''GET'') (s_path_matching [Lit ''/user/repos'']) any_query any_body),
      (''/github/user/read'',
        call_floor (s_literal ''GET'') (s_path_matching [Lit ''/user'']) any_query any_body),
      (''/github/issue/close'', call_floor (s_literal ''PATCH'') (s_path_matching [Lit ''/repos/'', Seg,
        Lit ''/'', Seg, Lit ''/issues/'', Rest]) any_query (s_optional (s_object [(''state'',
        s_enum [''closed''])]))),
      (''/github/repo/delete'', call_floor (s_literal ''DELETE'') (s_path_matching [Lit ''/repos/'', Seg,
        Lit ''/'', Rest]) any_query any_body),
      (''/github/repo/read'', call_floor (s_literal ''GET'') (s_path_matching [Lit ''/repos/'', Seg,
        Lit ''/'', Rest]) any_query any_body)]"

definition github_floor_2 :: "(string \<times> schema) list" where
  "github_floor_2 =
     [(''/github/branch/list'', call_floor (s_literal ''GET'') (s_path_matching [Lit ''/repos/'', Seg, Lit ''/'',
        Seg, Lit ''/branches'']) any_query any_body),
      (''/github/content/read'', call_floor (s_literal ''GET'') (s_path_matching [Lit ''/repos/'', Seg,
        Lit ''/'', Seg, Lit ''/contents/'', Rest]) any_query any_body),
      (''/github/pr/list'', call_floor (s_literal ''GET'') (s_path_matching [Lit ''/repos/'', Seg,
        Lit ''/'', Seg, Lit ''/pulls'']) any_query any_body),
      (''/github/pr/read'', call_floor (s_literal ''GET'') (s_path_matching [Lit ''/repos/'', Seg,
        Lit ''/'', Seg, Lit ''/pulls/'', Rest]) any_query any_body),
      (''/github/pr/create'', call_floor (s_literal ''POST'') (s_path_matching [Lit ''/repos/'', Seg,
        Lit ''/'', Seg, Lit ''/pulls'']) any_query (s_optional (s_object [(''title'', s_min1), (''head'',
        s_min1), (''base'', s_min1)]))),
      (''/github/pr/merge'', call_floor (s_literal ''PUT'') (s_path_matching [Lit ''/repos/'', Seg,
        Lit ''/'', Seg, Lit ''/pulls/'', Seg, Lit ''/merge'']) any_query any_body),
      (''/github/branch/create'', call_floor (s_literal ''POST'') (s_path_matching [Lit ''/repos/'', Seg,
        Lit ''/'', Seg, Lit ''/git/refs'']) any_query (s_optional (s_object [(''ref'', s_min1), (''sha'',
        s_min1)]))),
      (''/github/content/update'', call_floor (s_literal ''PUT'') (s_path_matching [Lit ''/repos/'', Seg,
        Lit ''/'', Seg, Lit ''/contents/'', Rest]) any_query (s_optional (s_object [(''message'', s_min1),
        (''content'', s_min1)]))),
      (''/github/commit/list'', call_floor (s_literal ''GET'') (s_path_matching [Lit ''/repos/'', Seg,
        Lit ''/'', Seg, Lit ''/commits'']) any_query any_body),
      (''/github/issue/search'',
        call_floor (s_literal ''GET'') (s_path_matching [Lit ''/search/issues'']) (s_optional (s_catchall [(''q'',
        s_string)] s_string)) any_body)]"

definition github_floor_3 :: "(string \<times> schema) list" where
  "github_floor_3 =
     [(''/github/repo/search'',
        call_floor (s_literal ''GET'') (s_path_matching [Lit ''/search/repositories'']) (s_optional (s_catchall [(''q'',
        s_string)] s_string)) any_body),
      (''/github/label/list'', call_floor (s_literal ''GET'') (s_path_matching [Lit ''/repos/'', Seg,
        Lit ''/'', Seg, Lit ''/labels'']) any_query any_body),
      (''/github/issue/label'', call_floor (s_literal ''POST'') (s_path_matching [Lit ''/repos/'', Seg,
        Lit ''/'', Seg, Lit ''/issues/'', Seg,
        Lit ''/labels'']) any_query (s_optional (s_object [(''labels'', s_array s_unknown)]))),
      (''/github/issue/comment/list'', call_floor (s_literal ''GET'') (s_path_matching [Lit ''/repos/'',
        Seg, Lit ''/'', Seg, Lit ''/issues/'', Seg, Lit ''/comments'']) any_query any_body),
      (''/github/release/create'', call_floor (s_literal ''POST'') (s_path_matching [Lit ''/repos/'', Seg,
        Lit ''/'', Seg, Lit ''/releases'']) any_query (s_optional (s_object [(''tag_name'', s_min1)]))),
      (''/github/workflow/run/list'', call_floor (s_literal ''GET'') (s_path_matching [Lit ''/repos/'',
        Seg, Lit ''/'', Seg, Lit ''/actions/runs'']) any_query any_body),
      (''/github/workflow/trigger'', call_floor (s_literal ''POST'') (s_path_matching [Lit ''/repos/'',
        Seg, Lit ''/'', Seg, Lit ''/actions/workflows/'', Seg,
        Lit ''/dispatches'']) any_query (s_optional (s_object [(''ref'', s_min1)]))),
      (''/github/pr/review/list'', call_floor (s_literal ''GET'') (s_path_matching [Lit ''/repos/'', Seg,
        Lit ''/'', Seg, Lit ''/pulls/'', Seg, Lit ''/reviews'']) any_query any_body),
      (''/github/pr/review/submit'', call_floor (s_literal ''POST'') (s_path_matching [Lit ''/repos/'',
        Seg, Lit ''/'', Seg, Lit ''/pulls/'', Seg,
        Lit ''/reviews'']) any_query (s_optional (s_object [(''event'', s_enum [''APPROVE'',
        ''REQUEST_CHANGES'', ''COMMENT''])])))]"

definition github_floor :: "(string \<times> schema) list" where
  "github_floor = github_floor_1 @ github_floor_2 @ github_floor_3"

subsection \<open>slack\<close>

definition slack_floor_1 :: "(string \<times> schema) list" where
  "slack_floor_1 =
     [(''/slack/channel/list'',
        call_floor (s_literal ''GET'') (s_path_matching [Lit ''/conversations.list'']) any_query any_body),
      (''/slack/message/post'',
        call_floor (s_literal ''POST'') (s_path_matching [Lit ''/chat.postMessage'']) any_query (s_optional (s_object [(''channel'',
        s_min1), (''text'', s_min1)]))),
      (''/slack/user/read'',
        call_floor (s_literal ''GET'') (s_path_matching [Lit ''/users.info'']) (s_optional (s_catchall [(''user'',
        s_string)] s_string)) any_body),
      (''/slack/channel/history'',
        call_floor (s_literal ''GET'') (s_path_matching [Lit ''/conversations.history'']) (s_optional (s_catchall [(''channel'',
        s_string)] s_string)) any_body),
      (''/slack/message/react'',
        call_floor (s_literal ''POST'') (s_path_matching [Lit ''/reactions.add'']) any_query (s_optional (s_object [(''channel'',
        s_min1), (''name'', s_min1), (''timestamp'', s_min1)]))),
      (''/slack/user/list'',
        call_floor (s_literal ''GET'') (s_path_matching [Lit ''/users.list'']) any_query any_body),
      (''/slack/user/lookup'',
        call_floor (s_literal ''GET'') (s_path_matching [Lit ''/users.lookupByEmail'']) (s_optional (s_catchall [(''email'',
        s_string)] s_string)) any_body),
      (''/slack/message/update'',
        call_floor (s_literal ''POST'') (s_path_matching [Lit ''/chat.update'']) any_query (s_optional (s_object [(''channel'',
        s_min1), (''ts'', s_min1), (''text'', s_min1)]))),
      (''/slack/message/delete'',
        call_floor (s_literal ''POST'') (s_path_matching [Lit ''/chat.delete'']) any_query (s_optional (s_object [(''channel'',
        s_min1), (''ts'', s_min1)])))]"

definition slack_floor_2 :: "(string \<times> schema) list" where
  "slack_floor_2 =
     [(''/slack/message/reply'',
        call_floor (s_literal ''POST'') (s_path_matching [Lit ''/chat.postMessage'']) any_query (s_optional (s_object [(''channel'',
        s_min1), (''thread_ts'', s_min1), (''text'', s_min1)]))),
      (''/slack/file/upload'',
        call_floor (s_literal ''POST'') (s_path_matching [Lit ''/files.upload'']) any_query (s_optional (s_object [(''channels'',
        s_min1)]))),
      (''/slack/dm/open'',
        call_floor (s_literal ''POST'') (s_path_matching [Lit ''/conversations.open'']) any_query (s_optional (s_object [(''users'',
        s_min1)]))),
      (''/slack/channel/read'',
        call_floor (s_literal ''GET'') (s_path_matching [Lit ''/conversations.info'']) (s_optional (s_catchall [(''channel'',
        s_string)] s_string)) any_body),
      (''/slack/message/search'',
        call_floor (s_literal ''GET'') (s_path_matching [Lit ''/search.messages'']) (s_optional (s_catchall [(''query'',
        s_string)] s_string)) any_body),
      (''/slack/channel/create'',
        call_floor (s_literal ''POST'') (s_path_matching [Lit ''/conversations.create'']) any_query (s_optional (s_object [(''name'',
        s_min1)]))),
      (''/slack/channel/invite'',
        call_floor (s_literal ''POST'') (s_path_matching [Lit ''/conversations.invite'']) any_query (s_optional (s_object [(''channel'',
        s_min1), (''users'', s_min1)]))),
      (''/slack/message/pin'',
        call_floor (s_literal ''POST'') (s_path_matching [Lit ''/pins.add'']) any_query (s_optional (s_object [(''channel'',
        s_min1), (''timestamp'', s_min1)])))]"

definition slack_floor_3 :: "(string \<times> schema) list" where
  "slack_floor_3 =
     [(''/slack/message/schedule'',
        call_floor (s_literal ''POST'') (s_path_matching [Lit ''/chat.scheduleMessage'']) any_query (s_optional (s_object [(''channel'',
        s_min1), (''text'', s_min1), (''post_at'', s_int (\<lambda>i. True))]))),
      (''/slack/channel/topic'',
        call_floor (s_literal ''POST'') (s_path_matching [Lit ''/conversations.setTopic'']) any_query (s_optional (s_object [(''channel'',
        s_min1), (''topic'', s_min1)]))),
      (''/slack/message/unreact'',
        call_floor (s_literal ''POST'') (s_path_matching [Lit ''/reactions.remove'']) any_query (s_optional (s_object [(''channel'',
        s_min1), (''timestamp'', s_min1), (''name'', s_min1)]))),
      (''/slack/channel/archive'',
        call_floor (s_literal ''POST'') (s_path_matching [Lit ''/conversations.archive'']) any_query (s_optional (s_object [(''channel'',
        s_min1)]))),
      (''/slack/channel/unarchive'',
        call_floor (s_literal ''POST'') (s_path_matching [Lit ''/conversations.unarchive'']) any_query (s_optional (s_object [(''channel'',
        s_min1)]))),
      (''/slack/file/list'',
        call_floor (s_literal ''GET'') (s_path_matching [Lit ''/files.list'']) any_query any_body),
      (''/slack/file/delete'',
        call_floor (s_literal ''POST'') (s_path_matching [Lit ''/files.delete'']) any_query (s_optional (s_object [(''file'',
        s_min1)]))),
      (''/slack/file/read'',
        call_floor (s_literal ''GET'') (s_path_matching [Lit ''/files.info'']) (s_optional (s_catchall [(''file'',
        s_string)] s_string)) any_body)]"

definition slack_floor_4 :: "(string \<times> schema) list" where
  "slack_floor_4 =
     [(''/slack/channel/leave'',
        call_floor (s_literal ''POST'') (s_path_matching [Lit ''/conversations.leave'']) any_query (s_optional (s_object [(''channel'',
        s_min1)])))]"

definition slack_floor :: "(string \<times> schema) list" where
  "slack_floor = slack_floor_1 @ slack_floor_2 @ slack_floor_3 @ slack_floor_4"

subsection \<open>google\<close>

definition google_floor_1 :: "(string \<times> schema) list" where
  "google_floor_1 =
     [(''/google/drive/list'',
        call_floor (s_literal ''GET'') (s_path_matching [Lit ''/files'']) any_query any_body),
      (''/google/drive/read'', call_floor (s_literal ''GET'') (s_path_matching [Lit ''/files/'',
        Rest]) any_query any_body),
      (''/google/drive/download'', call_floor (s_literal ''GET'') (s_path_matching [Lit ''/files/'',
        Rest]) any_query any_body),
      (''/google/drive/write'',
        call_floor (s_literal ''POST'') (s_path_matching [Lit ''/files'']) any_query (s_optional (s_object [(''name'',
        s_min1)]))),
      (''/google/drive/delete'', call_floor (s_literal ''DELETE'') (s_path_matching [Lit ''/files/'',
        Rest]) any_query any_body),
      (''/google/drive/update'', call_floor (s_literal ''PATCH'') (s_path_matching [Lit ''/files/'',
        Rest]) any_query any_body),
      (''/google/drive/copy'', call_floor (s_literal ''POST'') (s_path_matching [Lit ''/files/'', Seg,
        Lit ''/copy'']) any_query any_body),
      (''/google/drive/folder/create'',
        call_floor (s_literal ''POST'') (s_path_matching [Lit ''/files'']) any_query (s_optional (s_object [(''name'',
        s_min1)]))),
      (''/google/drive/search'',
        call_floor (s_literal ''GET'') (s_path_matching [Lit ''/files'']) (s_optional (s_catchall [(''q'',
        s_string)] s_string)) any_body),
      (''/google/drive/share'', call_floor (s_literal ''POST'') (s_path_matching [Lit ''/files/'', Seg,
        Lit ''/permissions'']) any_query (s_optional (s_object [(''type'', s_enum [''user'', ''group'',
        ''domain'', ''anyone'']), (''role'', s_enum [''reader'', ''commenter'', ''writer'', ''owner''])])))]"

definition google_floor_2 :: "(string \<times> schema) list" where
  "google_floor_2 =
     [(''/google/drive/export'', call_floor (s_literal ''GET'') (s_path_matching [Lit ''/files/'', Seg,
        Lit ''/export'']) (s_optional (s_catchall [(''mimeType'', s_string)] s_string)) any_body),
      (''/google/drive/permission/list'', call_floor (s_literal ''GET'') (s_path_matching [Lit ''/files/'',
        Seg, Lit ''/permissions'']) any_query any_body),
      (''/google/drive/permission/delete'',
        call_floor (s_literal ''DELETE'') (s_path_matching [Lit ''/files/'', Seg, Lit ''/permissions/'',
        Rest]) any_query any_body),
      (''/google/drive/revision/list'', call_floor (s_literal ''GET'') (s_path_matching [Lit ''/files/'',
        Seg, Lit ''/revisions'']) any_query any_body),
      (''/google/drive/quota/read'',
        call_floor (s_literal ''GET'') (s_path_matching [Lit ''/about'']) any_query any_body),
      (''/google/drive/trash'', call_floor (s_literal ''PATCH'') (s_path_matching [Lit ''/files/'',
        Rest]) any_query (s_optional (s_object [(''trashed'', s_boolean)]))),
      (''/google/drive/untrash'', call_floor (s_literal ''PATCH'') (s_path_matching [Lit ''/files/'',
        Rest]) any_query (s_optional (s_object [(''trashed'', s_boolean)]))),
      (''/google/drive/change/list'',
        call_floor (s_literal ''GET'') (s_path_matching [Lit ''/changes'']) (s_optional (s_catchall [(''pageToken'',
        s_string)] s_string)) any_body),
      (''/google/drive/revision/read'', call_floor (s_literal ''GET'') (s_path_matching [Lit ''/files/'',
        Seg, Lit ''/revisions/'', Rest]) any_query any_body),
      (''/google/drive/about/read'',
        call_floor (s_literal ''GET'') (s_path_matching [Lit ''/about'']) any_query any_body)]"

definition google_floor :: "(string \<times> schema) list" where
  "google_floor = google_floor_1 @ google_floor_2"

subsection \<open>google calendar\<close>

definition google_calendar_floor_1 :: "(string \<times> schema) list" where
  "google_calendar_floor_1 =
     [(''/google/calendar/event/list'', call_floor (s_literal ''GET'') (s_path_matching [Lit ''/calendars/'',
        Seg, Lit ''/events'']) any_query any_body),
      (''/google/calendar/event/read'',
        call_floor (s_literal ''GET'') (s_path_matching [Lit ''/calendars/'', Seg, Lit ''/events/'',
        Rest]) any_query any_body),
      (''/google/calendar/event/create'',
        call_floor (s_literal ''POST'') (s_path_matching [Lit ''/calendars/'', Seg,
        Lit ''/events'']) any_query (s_optional (s_object [(''summary'', s_min1), (''start'',
        s_record s_unknown), (''end'', s_record s_unknown)]))),
      (''/google/calendar/event/update'',
        call_floor (s_literal ''PATCH'') (s_path_matching [Lit ''/calendars/'', Seg, Lit ''/events/'',
        Rest]) any_query any_body),
      (''/google/calendar/event/delete'',
        call_floor (s_literal ''DELETE'') (s_path_matching [Lit ''/calendars/'', Seg, Lit ''/events/'',
        Rest]) any_query any_body),
      (''/google/calendar/list/list'',
        call_floor (s_literal ''GET'') (s_path_matching [Lit ''/users/me/calendarList'']) any_query any_body),
      (''/google/calendar/list/read'',
        call_floor (s_literal ''GET'') (s_path_matching [Lit ''/calendars/'', Rest]) any_query any_body),
      (''/google/calendar/freebusy/read'',
        call_floor (s_literal ''POST'') (s_path_matching [Lit ''/freeBusy'']) any_query (s_optional (s_object [(''timeMin'',
        s_min1), (''timeMax'', s_min1), (''items'', s_array s_unknown)]))),
      (''/google/calendar/event/quick_add'',
        call_floor (s_literal ''POST'') (s_path_matching [Lit ''/calendars/'', Seg,
        Lit ''/events/quickAdd'']) (s_optional (s_catchall [(''text'', s_string)] s_string)) any_body),
      (''/google/calendar/list/create'',
        call_floor (s_literal ''POST'') (s_path_matching [Lit ''/calendars'']) any_query (s_optional (s_object [(''summary'',
        s_min1)])))]"

definition google_calendar_floor_2 :: "(string \<times> schema) list" where
  "google_calendar_floor_2 =
     [(''/google/calendar/list/delete'', call_floor (s_literal ''DELETE'') (s_path_matching [Lit ''/calendars/'',
        Rest]) any_query any_body),
      (''/google/calendar/event/move'',
        call_floor (s_literal ''POST'') (s_path_matching [Lit ''/calendars/'', Seg, Lit ''/events/'', Seg,
        Lit ''/move'']) (s_optional (s_catchall [(''destination'', s_string)] s_string)) any_body),
      (''/google/calendar/event/import'',
        call_floor (s_literal ''POST'') (s_path_matching [Lit ''/calendars/'', Seg,
        Lit ''/events/import'']) any_query (s_optional (s_object [(''summary'', s_min1), (''start'',
        s_record s_unknown), (''end'', s_record s_unknown), (''iCalUID'', s_min1)]))),
      (''/google/calendar/meta/read'',
        call_floor (s_literal ''GET'') (s_path_matching [Lit ''/users/me/calendarList/'',
        Rest]) any_query any_body),
      (''/google/calendar/acl/list'', call_floor (s_literal ''GET'') (s_path_matching [Lit ''/calendars/'',
        Seg, Lit ''/acl'']) any_query any_body),
      (''/google/calendar/settings/read'',
        call_floor (s_literal ''GET'') (s_path_matching [Lit ''/users/me/settings'']) any_query any_body),
      (''/google/calendar/event/respond'',
        call_floor (s_literal ''PATCH'') (s_path_matching [Lit ''/calendars/'', Seg, Lit ''/events/'',
        Rest]) any_query (s_optional (s_object [(''attendees'', s_array s_unknown)]))),
      (''/google/calendar/list/clear'',
        call_floor (s_literal ''POST'') (s_path_matching [Lit ''/calendars/'', Seg,
        Lit ''/clear'']) any_query any_body)]"

definition google_calendar_floor :: "(string \<times> schema) list" where
  "google_calendar_floor = google_calendar_floor_1 @ google_calendar_floor_2"

subsection \<open>google gmail\<close>

definition google_gmail_floor_1 :: "(string \<times> schema) list" where
  "google_gmail_floor_1 =
     [(''/google/gmail/message/list'',
        call_floor (s_literal ''GET'') (s_path_matching [Lit ''/users/me/messages'']) any_query any_body),
      (''/google/gmail/message/read'',
        call_floor (s_literal ''GET'') (s_path_matching [Lit ''/users/me/messages/'',
        Rest]) any_query any_body),
      (''/google/gmail/message/send'',
        call_floor (s_literal ''POST'') (s_path_matching [Lit ''/users/me/messages/send'']) any_query (s_optional (s_object [(''raw'',
        s_min1)]))),
      (''/google/gmail/thread/list'',
        call_floor (s_literal ''GET'') (s_path_matching [Lit ''/users/me/threads'']) any_query any_body),
      (''/google/gmail/message/trash'',
        call_floor (s_literal ''POST'') (s_path_matching [Lit ''/users/me/messages/'', Seg,
        Lit ''/trash'']) any_query any_body),
      (''/google/gmail/thread/read'',
        call_floor (s_literal ''GET'') (s_path_matching [Lit ''/users/me/threads/'',
        Rest]) any_query any_body),
      (''/google/gmail/message/modify'',
        call_floor (s_literal ''POST'') (s_path_matching [Lit ''/users/me/messages/'', Seg,
        Lit ''/modify'']) any_query any_body),
      (''/google/gmail/label/list'',
        call_floor (s_literal ''GET'') (s_path_matching [Lit ''/users/me/labels'']) any_query any_body),
      (''/google/gmail/draft/create'',
        call_floor (s_literal ''POST'') (s_path_matching [Lit ''/users/me/drafts'']) any_query (s_optional (s_object [(''message'',
        s_record s_unknown)]))),
      (''/google/gmail/profile/read'',
        call_floor (s_literal ''GET'') (s_path_matching [Lit ''/users/me/profile'']) any_query any_body),
      (''/google/gmail/draft/list'',
        call_floor (s_literal ''GET'') (s_path_matching [Lit ''/users/me/drafts'']) any_query any_body)]"

definition google_gmail_floor_2 :: "(string \<times> schema) list" where
  "google_gmail_floor_2 =
     [(''/google/gmail/draft/send'',
        call_floor (s_literal ''POST'') (s_path_matching [Lit ''/users/me/drafts/send'']) any_query (s_optional (s_object [(''id'',
        s_min1)]))),
      (''/google/gmail/draft/delete'',
        call_floor (s_literal ''DELETE'') (s_path_matching [Lit ''/users/me/drafts/'',
        Rest]) any_query any_body),
      (''/google/gmail/draft/read'',
        call_floor (s_literal ''GET'') (s_path_matching [Lit ''/users/me/drafts/'',
        Rest]) any_query any_body),
      (''/google/gmail/label/create'',
        call_floor (s_literal ''POST'') (s_path_matching [Lit ''/users/me/labels'']) any_query (s_optional (s_object [(''name'',
        s_min1)]))),
      (''/google/gmail/label/delete'',
        call_floor (s_literal ''DELETE'') (s_path_matching [Lit ''/users/me/labels/'',
        Rest]) any_query any_body),
      (''/google/gmail/message/untrash'',
        call_floor (s_literal ''POST'') (s_path_matching [Lit ''/users/me/messages/'', Seg,
        Lit ''/untrash'']) any_query any_body),
      (''/google/gmail/label/read'',
        call_floor (s_literal ''GET'') (s_path_matching [Lit ''/users/me/labels/'',
        Rest]) any_query any_body)]"

definition google_gmail_floor :: "(string \<times> schema) list" where
  "google_gmail_floor = google_gmail_floor_1 @ google_gmail_floor_2"

subsection \<open>google docs\<close>

definition google_docs_floor_1 :: "(string \<times> schema) list" where
  "google_docs_floor_1 =
     [(''/google/docs/document/create'',
        call_floor (s_literal ''POST'') (s_path_matching [Lit ''/documents'']) any_query (s_optional (s_object [(''title'',
        s_min1)]))),
      (''/google/docs/document/read'',
        call_floor (s_literal ''GET'') (s_path_matching [Lit ''/documents/'', Rest]) any_query any_body),
      (''/google/docs/document/batch_update'',
        call_floor (s_literal ''POST'') (s_path_matching [Lit ''/documents/'', Seg,
        Lit '':batchUpdate'']) any_query (s_optional (s_object [(''requests'', s_array s_unknown)]))),
      (''/google/docs/document/replace_text'',
        call_floor (s_literal ''POST'') (s_path_matching [Lit ''/documents/'', Seg,
        Lit '':batchUpdate'']) any_query (s_optional (s_object [(''text'', s_min1), (''replaceText'',
        s_min1)]))),
      (''/google/docs/document/insert_text'',
        call_floor (s_literal ''POST'') (s_path_matching [Lit ''/documents/'', Seg,
        Lit '':batchUpdate'']) any_query (s_optional (s_object [(''requests'', s_array s_unknown)]))),
      (''/google/docs/document/delete_text'',
        call_floor (s_literal ''POST'') (s_path_matching [Lit ''/documents/'', Seg,
        Lit '':batchUpdate'']) any_query (s_optional (s_object [(''requests'', s_array s_unknown)]))),
      (''/google/docs/document/format_text'',
        call_floor (s_literal ''POST'') (s_path_matching [Lit ''/documents/'', Seg,
        Lit '':batchUpdate'']) any_query (s_optional (s_object [(''requests'', s_array s_unknown)]))),
      (''/google/docs/document/insert_table'',
        call_floor (s_literal ''POST'') (s_path_matching [Lit ''/documents/'', Seg,
        Lit '':batchUpdate'']) any_query (s_optional (s_object [(''requests'', s_array s_unknown)]))),
      (''/google/docs/document/insert_image'',
        call_floor (s_literal ''POST'') (s_path_matching [Lit ''/documents/'', Seg,
        Lit '':batchUpdate'']) any_query (s_optional (s_object [(''requests'', s_array s_unknown)])))]"

definition google_docs_floor_2 :: "(string \<times> schema) list" where
  "google_docs_floor_2 =
     [(''/google/docs/document/named_range/create'',
        call_floor (s_literal ''POST'') (s_path_matching [Lit ''/documents/'', Seg,
        Lit '':batchUpdate'']) any_query (s_optional (s_object [(''requests'', s_array s_unknown)]))),
      (''/google/docs/document/revisions/read'',
        call_floor (s_literal ''GET'') (s_path_matching [Lit ''/documents/'', Rest]) any_query any_body)]"

definition google_docs_floor :: "(string \<times> schema) list" where
  "google_docs_floor = google_docs_floor_1 @ google_docs_floor_2"

subsection \<open>google sheets\<close>

definition google_sheets_floor_1 :: "(string \<times> schema) list" where
  "google_sheets_floor_1 =
     [(''/google/sheets/spreadsheet/create'',
        call_floor (s_literal ''POST'') (s_path_matching [Lit ''/spreadsheets'']) any_query (s_optional (s_object [(''properties'',
        s_record s_unknown)]))),
      (''/google/sheets/spreadsheet/read'',
        call_floor (s_literal ''GET'') (s_path_matching [Lit ''/spreadsheets/'', Rest]) any_query any_body),
      (''/google/sheets/values/read'',
        call_floor (s_literal ''GET'') (s_path_matching [Lit ''/spreadsheets/'', Seg, Lit ''/values/'',
        Rest]) any_query any_body),
      (''/google/sheets/values/update'',
        call_floor (s_literal ''PUT'') (s_path_matching [Lit ''/spreadsheets/'', Seg, Lit ''/values/'',
        Rest]) any_query (s_optional (s_object [(''values'', s_array s_unknown)]))),
      (''/google/sheets/values/append'',
        call_floor (s_literal ''POST'') (s_path_matching [Lit ''/spreadsheets/'', Seg, Lit ''/values/'',
        Seg, Lit '':append'']) any_query (s_optional (s_object [(''values'', s_array s_unknown)]))),
      (''/google/sheets/spreadsheet/batch_update'',
        call_floor (s_literal ''POST'') (s_path_matching [Lit ''/spreadsheets/'', Seg,
        Lit '':batchUpdate'']) any_query (s_optional (s_object [(''requests'', s_array s_unknown)]))),
      (''/google/sheets/values/clear'',
        call_floor (s_literal ''POST'') (s_path_matching [Lit ''/spreadsheets/'', Seg, Lit ''/values/'',
        Seg, Lit '':clear'']) any_query any_body),
      (''/google/sheets/values/batch_get'',
        call_floor (s_literal ''GET'') (s_path_matching [Lit ''/spreadsheets/'', Seg,
        Lit ''/values:batchGet'']) any_query any_body),
      (''/google/sheets/spreadsheet/copy'',
        call_floor (s_literal ''POST'') (s_path_matching [Lit ''/spreadsheets/'', Seg, Lit ''/sheets/'',
        Seg, Lit '':copyTo'']) any_query (s_optional (s_object [(''destinationSpreadsheetId'', s_min1)]))),
      (''/google/sheets/metadata/list'',
        call_floor (s_literal ''POST'') (s_path_matching [Lit ''/spreadsheets/'', Seg,
        Lit ''/developerMetadata:search'']) any_query (s_optional (s_object [(''dataFilters'',
        s_array s_unknown)])))]"

definition google_sheets_floor_2 :: "(string \<times> schema) list" where
  "google_sheets_floor_2 =
     [(''/google/sheets/values/batch_update'',
        call_floor (s_literal ''POST'') (s_path_matching [Lit ''/spreadsheets/'', Seg,
        Lit ''/values:batchUpdate'']) any_query (s_optional (s_object [(''data'', s_array s_unknown)])))]"

definition google_sheets_floor :: "(string \<times> schema) list" where
  "google_sheets_floor = google_sheets_floor_1 @ google_sheets_floor_2"

subsection \<open>google tasks\<close>

definition google_tasks_floor :: "(string \<times> schema) list" where
  "google_tasks_floor =
     [(''/google/tasks/tasklist/list'',
        call_floor (s_literal ''GET'') (s_path_matching [Lit ''/users/@me/lists'']) any_query any_body),
      (''/google/tasks/task/list'', call_floor (s_literal ''GET'') (s_path_matching [Lit ''/lists/'', Seg,
        Lit ''/tasks'']) any_query any_body),
      (''/google/tasks/task/read'', call_floor (s_literal ''GET'') (s_path_matching [Lit ''/lists/'', Seg,
        Lit ''/tasks/'', Rest]) any_query any_body),
      (''/google/tasks/task/create'', call_floor (s_literal ''POST'') (s_path_matching [Lit ''/lists/'',
        Seg, Lit ''/tasks'']) any_query (s_optional (s_object [(''title'', s_min1)]))),
      (''/google/tasks/task/update'', call_floor (s_literal ''PATCH'') (s_path_matching [Lit ''/lists/'',
        Seg, Lit ''/tasks/'', Rest]) any_query any_body),
      (''/google/tasks/task/delete'', call_floor (s_literal ''DELETE'') (s_path_matching [Lit ''/lists/'',
        Seg, Lit ''/tasks/'', Rest]) any_query any_body),
      (''/google/tasks/task/move'', call_floor (s_literal ''POST'') (s_path_matching [Lit ''/lists/'', Seg,
        Lit ''/tasks/'', Seg, Lit ''/move'']) any_query any_body),
      (''/google/tasks/task/clear_completed'',
        call_floor (s_literal ''POST'') (s_path_matching [Lit ''/lists/'', Seg,
        Lit ''/clear'']) any_query any_body),
      (''/google/tasks/tasklist/create'',
        call_floor (s_literal ''POST'') (s_path_matching [Lit ''/users/@me/lists'']) any_query (s_optional (s_object [(''title'',
        s_min1)]))),
      (''/google/tasks/tasklist/delete'',
        call_floor (s_literal ''DELETE'') (s_path_matching [Lit ''/users/@me/lists/'',
        Rest]) any_query any_body)]"

subsection \<open>google contacts\<close>

definition google_contacts_floor :: "(string \<times> schema) list" where
  "google_contacts_floor =
     [(''/google/contacts/list'',
        call_floor (s_literal ''GET'') (s_path_matching [Lit ''/people/me/connections'']) any_query any_body),
      (''/google/contacts/search'',
        call_floor (s_literal ''GET'') (s_path_matching [Lit ''/people:searchContacts'']) (s_optional (s_catchall [(''query'',
        s_string)] s_string)) any_body),
      (''/google/contacts/read'', call_floor (s_literal ''GET'') (s_path_matching [Lit ''/'',
        Rest]) any_query any_body),
      (''/google/contacts/create'',
        call_floor (s_literal ''POST'') (s_path_matching [Lit ''/people:createContact'']) any_query any_body),
      (''/google/contacts/update'', call_floor (s_literal ''PATCH'') (s_path_matching [Lit ''/'', Seg,
        Lit '':updateContact'']) (s_optional (s_catchall [(''updatePersonFields'',
        s_string)] s_string)) any_body),
      (''/google/contacts/delete'', call_floor (s_literal ''DELETE'') (s_path_matching [Lit ''/'', Seg,
        Lit '':deleteContact'']) any_query any_body),
      (''/google/contacts/group/list'',
        call_floor (s_literal ''GET'') (s_path_matching [Lit ''/contactGroups'']) any_query any_body),
      (''/google/contacts/group/read'', call_floor (s_literal ''GET'') (s_path_matching [Lit ''/'',
        Rest]) any_query any_body),
      (''/google/contacts/batch_get'',
        call_floor (s_literal ''GET'') (s_path_matching [Lit ''/people:batchGet'']) (s_optional (s_catchall [(''resourceNames'',
        s_string)] s_string)) any_body)]"

subsection \<open>notion\<close>

definition notion_floor_1 :: "(string \<times> schema) list" where
  "notion_floor_1 =
     [(''/notion/search'',
        call_floor (s_literal ''POST'') (s_path_matching [Lit ''/search'']) any_query (s_optional (s_object [(''query'',
        s_min1)]))),
      (''/notion/page/read'', call_floor (s_literal ''GET'') (s_path_matching [Lit ''/pages/'',
        Rest]) any_query any_body),
      (''/notion/block/read'', call_floor (s_literal ''GET'') (s_path_matching [Lit ''/blocks/'', Seg,
        Lit ''/children'']) any_query any_body),
      (''/notion/block/append'', call_floor (s_literal ''PATCH'') (s_path_matching [Lit ''/blocks/'', Seg,
        Lit ''/children'']) any_query (s_optional (s_object [(''children'', s_array s_unknown)]))),
      (''/notion/page/create'',
        call_floor (s_literal ''POST'') (s_path_matching [Lit ''/pages'']) any_query (s_optional (s_object [(''parent'',
        s_record s_unknown), (''properties'', s_record s_unknown)]))),
      (''/notion/database/query'', call_floor (s_literal ''POST'') (s_path_matching [Lit ''/databases/'',
        Seg, Lit ''/query'']) any_query any_body),
      (''/notion/page/update'', call_floor (s_literal ''PATCH'') (s_path_matching [Lit ''/pages/'',
        Rest]) any_query any_body),
      (''/notion/database/read'', call_floor (s_literal ''GET'') (s_path_matching [Lit ''/databases/'',
        Rest]) any_query any_body),
      (''/notion/user/list'',
        call_floor (s_literal ''GET'') (s_path_matching [Lit ''/users'']) any_query any_body),
      (''/notion/user/read'', call_floor (s_literal ''GET'') (s_path_matching [Lit ''/users/'',
        Rest]) any_query any_body),
      (''/notion/block/delete'', call_floor (s_literal ''DELETE'') (s_path_matching [Lit ''/blocks/'',
        Rest]) any_query any_body)]"

definition notion_floor_2 :: "(string \<times> schema) list" where
  "notion_floor_2 =
     [(''/notion/database/create'',
        call_floor (s_literal ''POST'') (s_path_matching [Lit ''/databases'']) any_query (s_optional (s_object [(''parent'',
        s_record s_unknown), (''title'', s_array s_unknown), (''properties'', s_record s_unknown)]))),
      (''/notion/database/update'', call_floor (s_literal ''PATCH'') (s_path_matching [Lit ''/databases/'',
        Rest]) any_query any_body),
      (''/notion/block/retrieve'', call_floor (s_literal ''GET'') (s_path_matching [Lit ''/blocks/'',
        Rest]) any_query any_body),
      (''/notion/block/update'', call_floor (s_literal ''PATCH'') (s_path_matching [Lit ''/blocks/'',
        Rest]) any_query any_body),
      (''/notion/comment/list'',
        call_floor (s_literal ''GET'') (s_path_matching [Lit ''/comments'']) (s_optional (s_catchall [(''block_id'',
        s_string)] s_string)) any_body),
      (''/notion/comment/create'',
        call_floor (s_literal ''POST'') (s_path_matching [Lit ''/comments'']) any_query (s_optional (s_object [(''parent'',
        s_record s_unknown), (''rich_text'', s_array s_unknown)]))),
      (''/notion/user/me'',
        call_floor (s_literal ''GET'') (s_path_matching [Lit ''/users/me'']) any_query any_body),
      (''/notion/page/archive'', call_floor (s_literal ''PATCH'') (s_path_matching [Lit ''/pages/'',
        Rest]) any_query (s_optional (s_object [(''archived'', s_boolean)]))),
      (''/notion/page/search'',
        call_floor (s_literal ''POST'') (s_path_matching [Lit ''/search'']) any_query (s_optional (s_object [(''query'',
        s_min1)])))]"

definition notion_floor_3 :: "(string \<times> schema) list" where
  "notion_floor_3 =
     [(''/notion/page/restore'', call_floor (s_literal ''PATCH'') (s_path_matching [Lit ''/pages/'',
        Rest]) any_query (s_optional (s_object [(''archived'', s_boolean)]))),
      (''/notion/page/property/read'', call_floor (s_literal ''GET'') (s_path_matching [Lit ''/pages/'',
        Seg, Lit ''/properties/'', Rest]) any_query any_body)]"

definition notion_floor :: "(string \<times> schema) list" where
  "notion_floor = notion_floor_1 @ notion_floor_2 @ notion_floor_3"

subsection \<open>linear\<close>

definition linear_floor_1 :: "(string \<times> schema) list" where
  "linear_floor_1 =
     [(''/linear/issue/list'',
        call_floor (s_literal ''POST'') (s_path_matching [Lit ''/'']) any_query (s_optional (s_object [(''query'',
        s_min1)]))),
      (''/linear/issue/create'',
        call_floor (s_literal ''POST'') (s_path_matching [Lit ''/'']) any_query (s_optional (s_object [(''query'',
        s_min1), (''variables'', s_record s_unknown)]))),
      (''/linear/issue/comment'',
        call_floor (s_literal ''POST'') (s_path_matching [Lit ''/'']) any_query (s_optional (s_object [(''query'',
        s_min1), (''variables'', s_record s_unknown)]))),
      (''/linear/issue/read'',
        call_floor (s_literal ''POST'') (s_path_matching [Lit ''/'']) any_query (s_optional (s_object [(''query'',
        s_min1), (''variables'', s_record s_unknown)]))),
      (''/linear/issue/update'',
        call_floor (s_literal ''POST'') (s_path_matching [Lit ''/'']) any_query (s_optional (s_object [(''query'',
        s_min1), (''variables'', s_record s_unknown)]))),
      (''/linear/project/list'',
        call_floor (s_literal ''POST'') (s_path_matching [Lit ''/'']) any_query (s_optional (s_object [(''query'',
        s_min1)]))),
      (''/linear/team/list'',
        call_floor (s_literal ''POST'') (s_path_matching [Lit ''/'']) any_query (s_optional (s_object [(''query'',
        s_min1)]))),
      (''/linear/user/me'',
        call_floor (s_literal ''POST'') (s_path_matching [Lit ''/'']) any_query (s_optional (s_object [(''query'',
        s_min1)]))),
      (''/linear/issue/delete'',
        call_floor (s_literal ''POST'') (s_path_matching [Lit ''/'']) any_query (s_optional (s_object [(''query'',
        s_min1), (''variables'', s_record s_unknown)]))),
      (''/linear/issue/search'',
        call_floor (s_literal ''POST'') (s_path_matching [Lit ''/'']) any_query (s_optional (s_object [(''query'',
        s_min1), (''variables'', s_record s_unknown)])))]"

definition linear_floor_2 :: "(string \<times> schema) list" where
  "linear_floor_2 =
     [(''/linear/workflow_state/list'',
        call_floor (s_literal ''POST'') (s_path_matching [Lit ''/'']) any_query (s_optional (s_object [(''query'',
        s_min1), (''variables'', s_record s_unknown)]))),
      (''/linear/label/list'',
        call_floor (s_literal ''POST'') (s_path_matching [Lit ''/'']) any_query (s_optional (s_object [(''query'',
        s_min1)]))),
      (''/linear/user/list'',
        call_floor (s_literal ''POST'') (s_path_matching [Lit ''/'']) any_query (s_optional (s_object [(''query'',
        s_min1)]))),
      (''/linear/project/read'',
        call_floor (s_literal ''POST'') (s_path_matching [Lit ''/'']) any_query (s_optional (s_object [(''query'',
        s_min1), (''variables'', s_record s_unknown)]))),
      (''/linear/project/create'',
        call_floor (s_literal ''POST'') (s_path_matching [Lit ''/'']) any_query (s_optional (s_object [(''query'',
        s_min1), (''variables'', s_record s_unknown)]))),
      (''/linear/project/update'',
        call_floor (s_literal ''POST'') (s_path_matching [Lit ''/'']) any_query (s_optional (s_object [(''query'',
        s_min1), (''variables'', s_record s_unknown)]))),
      (''/linear/comment/list'',
        call_floor (s_literal ''POST'') (s_path_matching [Lit ''/'']) any_query (s_optional (s_object [(''query'',
        s_min1), (''variables'', s_record s_unknown)]))),
      (''/linear/issue/assign'',
        call_floor (s_literal ''POST'') (s_path_matching [Lit ''/'']) any_query (s_optional (s_object [(''query'',
        s_min1)]))),
      (''/linear/project/archive'',
        call_floor (s_literal ''POST'') (s_path_matching [Lit ''/'']) any_query (s_optional (s_object [(''query'',
        s_min1)]))),
      (''/linear/cycle/list'',
        call_floor (s_literal ''POST'') (s_path_matching [Lit ''/'']) any_query (s_optional (s_object [(''query'',
        s_min1)])))]"

definition linear_floor_3 :: "(string \<times> schema) list" where
  "linear_floor_3 =
     [(''/linear/team/read'',
        call_floor (s_literal ''POST'') (s_path_matching [Lit ''/'']) any_query (s_optional (s_object [(''query'',
        s_min1)]))),
      (''/linear/comment/create'',
        call_floor (s_literal ''POST'') (s_path_matching [Lit ''/'']) any_query (s_optional (s_object [(''query'',
        s_min1)]))),
      (''/linear/issue/move'',
        call_floor (s_literal ''POST'') (s_path_matching [Lit ''/'']) any_query (s_optional (s_object [(''query'',
        s_min1)]))),
      (''/linear/issue/close'',
        call_floor (s_literal ''POST'') (s_path_matching [Lit ''/'']) any_query (s_optional (s_object [(''query'',
        s_min1), (''variables'', s_record s_unknown)])))]"

definition linear_floor :: "(string \<times> schema) list" where
  "linear_floor = linear_floor_1 @ linear_floor_2 @ linear_floor_3"

subsection \<open>stripe\<close>

definition stripe_floor_1 :: "(string \<times> schema) list" where
  "stripe_floor_1 =
     [(''/stripe/customer/list'',
        call_floor (s_literal ''GET'') (s_path_matching [Lit ''/customers'']) any_query any_body),
      (''/stripe/customer/read'', call_floor (s_literal ''GET'') (s_path_matching [Lit ''/customers/'',
        Rest]) any_query any_body),
      (''/stripe/refund/create'',
        call_floor (s_literal ''POST'') (s_path_matching [Lit ''/refunds'']) any_query (s_optional (s_object [(''charge'',
        s_min1)]))),
      (''/stripe/subscription/list'',
        call_floor (s_literal ''GET'') (s_path_matching [Lit ''/subscriptions'']) any_query any_body),
      (''/stripe/subscription/cancel'',
        call_floor (s_literal ''DELETE'') (s_path_matching [Lit ''/subscriptions/'',
        Rest]) any_query any_body),
      (''/stripe/subscription/read'',
        call_floor (s_literal ''GET'') (s_path_matching [Lit ''/subscriptions/'',
        Rest]) any_query any_body),
      (''/stripe/customer/create'',
        call_floor (s_literal ''POST'') (s_path_matching [Lit ''/customers'']) any_query any_body),
      (''/stripe/charge/list'',
        call_floor (s_literal ''GET'') (s_path_matching [Lit ''/charges'']) any_query any_body),
      (''/stripe/charge/read'', call_floor (s_literal ''GET'') (s_path_matching [Lit ''/charges/'',
        Rest]) any_query any_body),
      (''/stripe/invoice/list'',
        call_floor (s_literal ''GET'') (s_path_matching [Lit ''/invoices'']) any_query any_body),
      (''/stripe/invoice/read'', call_floor (s_literal ''GET'') (s_path_matching [Lit ''/invoices/'',
        Rest]) any_query any_body),
      (''/stripe/payment_intent/list'',
        call_floor (s_literal ''GET'') (s_path_matching [Lit ''/payment_intents'']) any_query any_body)]"

definition stripe_floor_2 :: "(string \<times> schema) list" where
  "stripe_floor_2 =
     [(''/stripe/payment_intent/read'',
        call_floor (s_literal ''GET'') (s_path_matching [Lit ''/payment_intents/'',
        Rest]) any_query any_body),
      (''/stripe/payment_intent/create'',
        call_floor (s_literal ''POST'') (s_path_matching [Lit ''/payment_intents'']) any_query (s_optional (s_object [(''amount'',
        s_int (\<lambda>i. True)), (''currency'', s_min1)]))),
      (''/stripe/payment_intent/capture'',
        call_floor (s_literal ''POST'') (s_path_matching [Lit ''/payment_intents/'', Seg,
        Lit ''/capture'']) any_query any_body),
      (''/stripe/payment_intent/cancel'',
        call_floor (s_literal ''POST'') (s_path_matching [Lit ''/payment_intents/'', Seg,
        Lit ''/cancel'']) any_query any_body),
      (''/stripe/customer/update'', call_floor (s_literal ''POST'') (s_path_matching [Lit ''/customers/'',
        Rest]) any_query any_body),
      (''/stripe/subscription/create'',
        call_floor (s_literal ''POST'') (s_path_matching [Lit ''/subscriptions'']) any_query (s_optional (s_object [(''customer'',
        s_min1), (''items'', s_array s_unknown)]))),
      (''/stripe/subscription/update'',
        call_floor (s_literal ''POST'') (s_path_matching [Lit ''/subscriptions/'',
        Rest]) any_query any_body),
      (''/stripe/product/list'',
        call_floor (s_literal ''GET'') (s_path_matching [Lit ''/products'']) any_query any_body),
      (''/stripe/price/list'',
        call_floor (s_literal ''GET'') (s_path_matching [Lit ''/prices'']) any_query any_body),
      (''/stripe/dispute/list'',
        call_floor (s_literal ''GET'') (s_path_matching [Lit ''/disputes'']) any_query any_body),
      (''/stripe/balance_transaction/list'',
        call_floor (s_literal ''GET'') (s_path_matching [Lit ''/balance_transactions'']) any_query any_body)]"

definition stripe_floor_3 :: "(string \<times> schema) list" where
  "stripe_floor_3 =
     [(''/stripe/balance/read'',
        call_floor (s_literal ''GET'') (s_path_matching [Lit ''/balance'']) any_query any_body),
      (''/stripe/setup_intent/list'',
        call_floor (s_literal ''GET'') (s_path_matching [Lit ''/setup_intents'']) any_query any_body),
      (''/stripe/refund/list'',
        call_floor (s_literal ''GET'') (s_path_matching [Lit ''/refunds'']) any_query any_body),
      (''/stripe/invoice/create'',
        call_floor (s_literal ''POST'') (s_path_matching [Lit ''/invoices'']) any_query (s_optional (s_object [(''customer'',
        s_min1)]))),
      (''/stripe/invoice/send'', call_floor (s_literal ''POST'') (s_path_matching [Lit ''/invoices/'', Seg,
        Lit ''/send'']) any_query any_body)]"

definition stripe_floor :: "(string \<times> schema) list" where
  "stripe_floor = stripe_floor_1 @ stripe_floor_2 @ stripe_floor_3"

subsection \<open>discord\<close>

definition discord_floor_1 :: "(string \<times> schema) list" where
  "discord_floor_1 =
     [(''/discord/guild/read'', call_floor (s_literal ''GET'') (s_path_matching [Lit ''/guilds/'',
        Rest]) any_query any_body),
      (''/discord/guild/members'', call_floor (s_literal ''GET'') (s_path_matching [Lit ''/guilds/'', Seg,
        Lit ''/members'']) any_query any_body),
      (''/discord/guild/modify'', call_floor (s_literal ''PATCH'') (s_path_matching [Lit ''/guilds/'',
        Rest]) any_query any_body),
      (''/discord/channel/list'', call_floor (s_literal ''GET'') (s_path_matching [Lit ''/guilds/'', Seg,
        Lit ''/channels'']) any_query any_body),
      (''/discord/channel/read'', call_floor (s_literal ''GET'') (s_path_matching [Lit ''/channels/'',
        Rest]) any_query any_body),
      (''/discord/channel/create'', call_floor (s_literal ''POST'') (s_path_matching [Lit ''/guilds/'',
        Seg, Lit ''/channels'']) any_query (s_optional (s_object [(''name'', s_min1)]))),
      (''/discord/channel/modify'', call_floor (s_literal ''PATCH'') (s_path_matching [Lit ''/channels/'',
        Rest]) any_query any_body),
      (''/discord/channel/delete'', call_floor (s_literal ''DELETE'') (s_path_matching [Lit ''/channels/'',
        Rest]) any_query any_body),
      (''/discord/channel/permissions'',
        call_floor (s_literal ''PUT'') (s_path_matching [Lit ''/channels/'', Seg, Lit ''/permissions/'',
        Rest]) any_query (s_optional (s_object [(''type'', s_int (\<lambda>i. True))]))),
      (''/discord/message/list'', call_floor (s_literal ''GET'') (s_path_matching [Lit ''/channels/'', Seg,
        Lit ''/messages'']) any_query any_body),
      (''/discord/message/post'', call_floor (s_literal ''POST'') (s_path_matching [Lit ''/channels/'',
        Seg, Lit ''/messages'']) any_query any_body)]"

definition discord_floor_2 :: "(string \<times> schema) list" where
  "discord_floor_2 =
     [(''/discord/message/edit'', call_floor (s_literal ''PATCH'') (s_path_matching [Lit ''/channels/'', Seg,
        Lit ''/messages/'', Rest]) any_query any_body),
      (''/discord/message/delete'', call_floor (s_literal ''DELETE'') (s_path_matching [Lit ''/channels/'',
        Seg, Lit ''/messages/'', Rest]) any_query any_body),
      (''/discord/role/list'', call_floor (s_literal ''GET'') (s_path_matching [Lit ''/guilds/'', Seg,
        Lit ''/roles'']) any_query any_body),
      (''/discord/role/create'', call_floor (s_literal ''POST'') (s_path_matching [Lit ''/guilds/'', Seg,
        Lit ''/roles'']) any_query (s_optional (s_object [(''name'', s_min1)]))),
      (''/discord/role/modify'', call_floor (s_literal ''PATCH'') (s_path_matching [Lit ''/guilds/'', Seg,
        Lit ''/roles/'', Rest]) any_query any_body),
      (''/discord/role/delete'', call_floor (s_literal ''DELETE'') (s_path_matching [Lit ''/guilds/'', Seg,
        Lit ''/roles/'', Rest]) any_query any_body),
      (''/discord/member/add_role'', call_floor (s_literal ''PUT'') (s_path_matching [Lit ''/guilds/'',
        Seg, Lit ''/members/'', Seg, Lit ''/roles/'', Rest]) any_query any_body),
      (''/discord/member/remove_role'',
        call_floor (s_literal ''DELETE'') (s_path_matching [Lit ''/guilds/'', Seg, Lit ''/members/'', Seg,
        Lit ''/roles/'', Rest]) any_query any_body),
      (''/discord/invite/create'', call_floor (s_literal ''POST'') (s_path_matching [Lit ''/channels/'',
        Seg, Lit ''/invites'']) any_query any_body),
      (''/discord/webhook/create'', call_floor (s_literal ''POST'') (s_path_matching [Lit ''/channels/'',
        Seg, Lit ''/webhooks'']) any_query (s_optional (s_object [(''name'', s_min1)]))),
      (''/discord/emoji/list'', call_floor (s_literal ''GET'') (s_path_matching [Lit ''/guilds/'', Seg,
        Lit ''/emojis'']) any_query any_body)]"

definition discord_floor :: "(string \<times> schema) list" where
  "discord_floor = discord_floor_1 @ discord_floor_2"

end
