(* ===== verification/Pack_Actions.thy ===== *)
theory Pack_Actions
  imports Prelude
begin

text \<open>
  The command vocabulary of the schema packs (packages/schema-packs/src/*/templates.ts and
  */actions.ts): the action lists by risk tier and the maps from adapter actions to commands.
\<close>

subsection \<open>github\<close>

definition github_READS :: "string list" where
  "github_READS =
     [''/github/user/read'', ''/github/repo/read'', ''/github/repo/list'', ''/github/issue/read'',
     ''/github/issue/list'', ''/github/pr/read'', ''/github/pr/list'', ''/github/branch/list'',
     ''/github/content/read'', ''/github/commit/list'', ''/github/issue/search'',
     ''/github/repo/search'', ''/github/label/list'', ''/github/issue/comment/list'',
     ''/github/workflow/run/list'', ''/github/pr/review/list'']"

definition github_WRITES :: "string list" where
  "github_WRITES =
     [''/github/repo/create'', ''/github/issue/create'', ''/github/issue/comment'',
     ''/github/issue/close'', ''/github/pr/create'', ''/github/pr/merge'', ''/github/branch/create'',
     ''/github/content/update'', ''/github/issue/label'', ''/github/release/create'',
     ''/github/workflow/trigger'', ''/github/pr/review/submit'']"

definition github_DELETES :: "string list" where
  "github_DELETES =
     [''/github/repo/delete'']"

definition github_actions :: "string list" where
  "github_actions = github_READS @ github_WRITES @ github_DELETES"

definition github_actionToCommand :: "(string \<times> string) list" where
  "github_actionToCommand =
     [(''get_user'', ''/github/user/read''), (''list_repos'', ''/github/repo/list''),
     (''list_issues'', ''/github/issue/list''), (''get_issue'', ''/github/issue/read''),
     (''create_repo'', ''/github/repo/create''), (''create_issue'', ''/github/issue/create''),
     (''comment_on_issue'', ''/github/issue/comment''), (''close_issue'', ''/github/issue/close''),
     (''delete_repo'', ''/github/repo/delete''), (''get_repo'', ''/github/repo/read''),
     (''list_branches'', ''/github/branch/list''), (''get_file_contents'', ''/github/content/read''),
     (''list_prs'', ''/github/pr/list''), (''get_pr'', ''/github/pr/read''),
     (''create_pr'', ''/github/pr/create''), (''merge_pr'', ''/github/pr/merge''),
     (''create_branch'', ''/github/branch/create''), (''update_file'', ''/github/content/update''),
     (''list_commits'', ''/github/commit/list''), (''search_issues'', ''/github/issue/search''),
     (''search_repos'', ''/github/repo/search''), (''list_labels'', ''/github/label/list''),
     (''add_labels_to_issue'', ''/github/issue/label''),
     (''list_issue_comments'', ''/github/issue/comment/list''),
     (''create_release'', ''/github/release/create''),
     (''list_workflow_runs'', ''/github/workflow/run/list''),
     (''trigger_workflow'', ''/github/workflow/trigger''),
     (''list_pr_reviews'', ''/github/pr/review/list''),
     (''submit_review'', ''/github/pr/review/submit'')]"

subsection \<open>slack\<close>

definition slack_READS :: "string list" where
  "slack_READS =
     [''/slack/channel/list'', ''/slack/channel/history'', ''/slack/channel/read'',
     ''/slack/message/search'', ''/slack/user/read'', ''/slack/user/list'', ''/slack/user/lookup'',
     ''/slack/file/list'', ''/slack/file/read'']"

definition slack_WRITES :: "string list" where
  "slack_WRITES =
     [''/slack/message/post'', ''/slack/message/update'', ''/slack/message/react'',
     ''/slack/message/unreact'', ''/slack/message/reply'', ''/slack/message/pin'',
     ''/slack/message/schedule'', ''/slack/channel/create'', ''/slack/channel/invite'',
     ''/slack/channel/topic'', ''/slack/channel/archive'', ''/slack/channel/unarchive'',
     ''/slack/channel/leave'', ''/slack/dm/open'', ''/slack/file/upload'']"

definition slack_DELETES :: "string list" where
  "slack_DELETES =
     [''/slack/message/delete'', ''/slack/file/delete'']"

definition slack_actions :: "string list" where
  "slack_actions = slack_READS @ slack_WRITES @ slack_DELETES"

definition slack_actionToCommand :: "(string \<times> string) list" where
  "slack_actionToCommand =
     [(''list_channels'', ''/slack/channel/list''),
     (''list_recent_messages'', ''/slack/channel/history''), (''get_user_info'', ''/slack/user/read''),
     (''post_message'', ''/slack/message/post''), (''react_to_message'', ''/slack/message/react''),
     (''list_users'', ''/slack/user/list''), (''get_user_by_email'', ''/slack/user/lookup''),
     (''update_message'', ''/slack/message/update''), (''delete_message'', ''/slack/message/delete''),
     (''reply_in_thread'', ''/slack/message/reply''), (''upload_file'', ''/slack/file/upload''),
     (''open_dm'', ''/slack/dm/open''), (''get_channel_info'', ''/slack/channel/read''),
     (''search_messages'', ''/slack/message/search''), (''create_channel'', ''/slack/channel/create''),
     (''invite_to_channel'', ''/slack/channel/invite''), (''pin_message'', ''/slack/message/pin''),
     (''schedule_message'', ''/slack/message/schedule''), (''set_topic'', ''/slack/channel/topic''),
     (''remove_reaction'', ''/slack/message/unreact''),
     (''archive_channel'', ''/slack/channel/archive''),
     (''unarchive_channel'', ''/slack/channel/unarchive''), (''list_files'', ''/slack/file/list''),
     (''delete_file'', ''/slack/file/delete''), (''get_file_info'', ''/slack/file/read''),
     (''leave_channel'', ''/slack/channel/leave'')]"

subsection \<open>google\<close>

definition google_READS :: "string list" where
  "google_READS =
     [''/google/drive/read'', ''/google/drive/list'', ''/google/drive/download'',
     ''/google/drive/search'', ''/google/drive/export'', ''/google/drive/permission/list'',
     ''/google/drive/revision/list'', ''/google/drive/revision/read'', ''/google/drive/quota/read'',
     ''/google/drive/about/read'', ''/google/drive/change/list'']"

definition google_WRITES :: "string list" where
  "google_WRITES =
     [''/google/drive/write'', ''/google/drive/update'', ''/google/drive/copy'',
     ''/google/drive/share'', ''/google/drive/folder/create'', ''/google/drive/untrash'']"

definition google_DELETES :: "string list" where
  "google_DELETES =
     [''/google/drive/delete'', ''/google/drive/permission/delete'', ''/google/drive/trash'']"

definition google_actions :: "string list" where
  "google_actions = google_READS @ google_WRITES @ google_DELETES"

definition google_actionToCommand :: "(string \<times> string) list" where
  "google_actionToCommand =
     [(''list_files'', ''/google/drive/list''), (''get_file'', ''/google/drive/read''),
     (''download_file'', ''/google/drive/download''), (''create_file'', ''/google/drive/write''),
     (''delete_file'', ''/google/drive/delete''), (''update_file'', ''/google/drive/update''),
     (''copy_file'', ''/google/drive/copy''), (''create_folder'', ''/google/drive/folder/create''),
     (''search_files'', ''/google/drive/search''), (''share_file'', ''/google/drive/share''),
     (''export_file'', ''/google/drive/export''),
     (''list_permissions'', ''/google/drive/permission/list''),
     (''delete_permission'', ''/google/drive/permission/delete''),
     (''list_revisions'', ''/google/drive/revision/list''),
     (''get_storage_quota'', ''/google/drive/quota/read''), (''trash_file'', ''/google/drive/trash''),
     (''untrash_file'', ''/google/drive/untrash''), (''list_changes'', ''/google/drive/change/list''),
     (''get_revision'', ''/google/drive/revision/read''),
     (''get_about'', ''/google/drive/about/read'')]"

subsection \<open>google calendar\<close>

definition google_calendar_READS :: "string list" where
  "google_calendar_READS =
     [''/google/calendar/event/read'', ''/google/calendar/event/list'', ''/google/calendar/list/list'',
     ''/google/calendar/list/read'', ''/google/calendar/meta/read'', ''/google/calendar/acl/list'',
     ''/google/calendar/settings/read'', ''/google/calendar/freebusy/read'']"

definition google_calendar_WRITES :: "string list" where
  "google_calendar_WRITES =
     [''/google/calendar/event/create'', ''/google/calendar/event/update'',
     ''/google/calendar/event/delete'', ''/google/calendar/event/quick_add'',
     ''/google/calendar/event/move'', ''/google/calendar/event/import'',
     ''/google/calendar/event/respond'', ''/google/calendar/list/create'',
     ''/google/calendar/list/clear'']"

definition google_calendar_DELETES :: "string list" where
  "google_calendar_DELETES =
     [''/google/calendar/list/delete'']"

definition google_calendar_actions :: "string list" where
  "google_calendar_actions = google_calendar_READS @ google_calendar_WRITES @ google_calendar_DELETES"

definition google_calendar_actionToCommand :: "(string \<times> string) list" where
  "google_calendar_actionToCommand =
     [(''list_events'', ''/google/calendar/event/list''),
     (''get_event'', ''/google/calendar/event/read''),
     (''create_event'', ''/google/calendar/event/create''),
     (''update_event'', ''/google/calendar/event/update''),
     (''delete_event'', ''/google/calendar/event/delete''),
     (''list_calendars'', ''/google/calendar/list/list''),
     (''get_calendar'', ''/google/calendar/list/read''),
     (''list_attendees_freebusy'', ''/google/calendar/freebusy/read''),
     (''quick_add'', ''/google/calendar/event/quick_add''),
     (''create_calendar'', ''/google/calendar/list/create''),
     (''delete_calendar'', ''/google/calendar/list/delete''),
     (''move_event'', ''/google/calendar/event/move''),
     (''import_event'', ''/google/calendar/event/import''),
     (''get_calendar_meta'', ''/google/calendar/meta/read''),
     (''list_acl'', ''/google/calendar/acl/list''),
     (''get_settings'', ''/google/calendar/settings/read''),
     (''respond_to_event'', ''/google/calendar/event/respond''),
     (''clear_calendar'', ''/google/calendar/list/clear'')]"

subsection \<open>google gmail\<close>

definition google_gmail_READS :: "string list" where
  "google_gmail_READS =
     [''/google/gmail/message/list'', ''/google/gmail/message/read'', ''/google/gmail/thread/list'',
     ''/google/gmail/thread/read'', ''/google/gmail/label/list'', ''/google/gmail/label/read'',
     ''/google/gmail/profile/read'', ''/google/gmail/draft/list'', ''/google/gmail/draft/read'']"

definition google_gmail_WRITES :: "string list" where
  "google_gmail_WRITES =
     [''/google/gmail/message/send'', ''/google/gmail/message/modify'',
     ''/google/gmail/message/untrash'', ''/google/gmail/draft/create'', ''/google/gmail/draft/send'',
     ''/google/gmail/label/create'']"

definition google_gmail_DELETES :: "string list" where
  "google_gmail_DELETES =
     [''/google/gmail/message/trash'', ''/google/gmail/draft/delete'', ''/google/gmail/label/delete'']"

definition google_gmail_actions :: "string list" where
  "google_gmail_actions = google_gmail_READS @ google_gmail_WRITES @ google_gmail_DELETES"

definition google_gmail_actionToCommand :: "(string \<times> string) list" where
  "google_gmail_actionToCommand =
     [(''list_messages'', ''/google/gmail/message/list''),
     (''get_message'', ''/google/gmail/message/read''),
     (''send_message'', ''/google/gmail/message/send''),
     (''list_threads'', ''/google/gmail/thread/list''),
     (''trash_message'', ''/google/gmail/message/trash''),
     (''get_thread'', ''/google/gmail/thread/read''),
     (''modify_message'', ''/google/gmail/message/modify''),
     (''list_labels'', ''/google/gmail/label/list''),
     (''create_draft'', ''/google/gmail/draft/create''),
     (''get_profile'', ''/google/gmail/profile/read''),
     (''list_drafts'', ''/google/gmail/draft/list''), (''send_draft'', ''/google/gmail/draft/send''),
     (''delete_draft'', ''/google/gmail/draft/delete''), (''get_draft'', ''/google/gmail/draft/read''),
     (''create_label'', ''/google/gmail/label/create''),
     (''delete_label'', ''/google/gmail/label/delete''),
     (''untrash_message'', ''/google/gmail/message/untrash''),
     (''get_label'', ''/google/gmail/label/read'')]"

subsection \<open>google docs\<close>

definition google_docs_READS :: "string list" where
  "google_docs_READS =
     [''/google/docs/document/read'', ''/google/docs/document/revisions/read'']"

definition google_docs_WRITES :: "string list" where
  "google_docs_WRITES =
     [''/google/docs/document/create'', ''/google/docs/document/batch_update'',
     ''/google/docs/document/replace_text'', ''/google/docs/document/insert_text'',
     ''/google/docs/document/format_text'', ''/google/docs/document/insert_table'',
     ''/google/docs/document/insert_image'', ''/google/docs/document/named_range/create'']"

definition google_docs_DELETES :: "string list" where
  "google_docs_DELETES =
     [''/google/docs/document/delete_text'']"

definition google_docs_actions :: "string list" where
  "google_docs_actions = google_docs_READS @ google_docs_WRITES @ google_docs_DELETES"

definition google_docs_actionToCommand :: "(string \<times> string) list" where
  "google_docs_actionToCommand =
     [(''create_document'', ''/google/docs/document/create''),
     (''get_document'', ''/google/docs/document/read''),
     (''batch_update'', ''/google/docs/document/batch_update''),
     (''replace_text'', ''/google/docs/document/replace_text''),
     (''insert_text'', ''/google/docs/document/insert_text''),
     (''delete_text'', ''/google/docs/document/delete_text''),
     (''format_text'', ''/google/docs/document/format_text''),
     (''insert_table'', ''/google/docs/document/insert_table''),
     (''insert_image'', ''/google/docs/document/insert_image''),
     (''create_named_range'', ''/google/docs/document/named_range/create''),
     (''get_revisions'', ''/google/docs/document/revisions/read'')]"

subsection \<open>google sheets\<close>

definition google_sheets_READS :: "string list" where
  "google_sheets_READS =
     [''/google/sheets/spreadsheet/read'', ''/google/sheets/values/read'',
     ''/google/sheets/values/batch_get'', ''/google/sheets/metadata/list'']"

definition google_sheets_WRITES :: "string list" where
  "google_sheets_WRITES =
     [''/google/sheets/spreadsheet/create'', ''/google/sheets/values/update'',
     ''/google/sheets/values/append'', ''/google/sheets/values/batch_update'',
     ''/google/sheets/spreadsheet/batch_update'', ''/google/sheets/spreadsheet/copy'']"

definition google_sheets_DELETES :: "string list" where
  "google_sheets_DELETES =
     [''/google/sheets/values/clear'']"

definition google_sheets_actions :: "string list" where
  "google_sheets_actions = google_sheets_READS @ google_sheets_WRITES @ google_sheets_DELETES"

definition google_sheets_actionToCommand :: "(string \<times> string) list" where
  "google_sheets_actionToCommand =
     [(''create_spreadsheet'', ''/google/sheets/spreadsheet/create''),
     (''get_spreadsheet'', ''/google/sheets/spreadsheet/read''),
     (''get_values'', ''/google/sheets/values/read''),
     (''update_values'', ''/google/sheets/values/update''),
     (''append_values'', ''/google/sheets/values/append''),
     (''batch_update'', ''/google/sheets/spreadsheet/batch_update''),
     (''clear_values'', ''/google/sheets/values/clear''),
     (''batch_get_values'', ''/google/sheets/values/batch_get''),
     (''copy_spreadsheet'', ''/google/sheets/spreadsheet/copy''),
     (''list_developer_metadata'', ''/google/sheets/metadata/list''),
     (''batch_update_values'', ''/google/sheets/values/batch_update'')]"

subsection \<open>google tasks\<close>

definition google_tasks_READS :: "string list" where
  "google_tasks_READS =
     [''/google/tasks/tasklist/list'', ''/google/tasks/task/list'', ''/google/tasks/task/read'']"

definition google_tasks_WRITES :: "string list" where
  "google_tasks_WRITES =
     [''/google/tasks/task/create'', ''/google/tasks/task/update'', ''/google/tasks/task/move'',
     ''/google/tasks/tasklist/create'']"

definition google_tasks_DELETES :: "string list" where
  "google_tasks_DELETES =
     [''/google/tasks/task/delete'', ''/google/tasks/task/clear_completed'',
     ''/google/tasks/tasklist/delete'']"

definition google_tasks_actions :: "string list" where
  "google_tasks_actions = google_tasks_READS @ google_tasks_WRITES @ google_tasks_DELETES"

definition google_tasks_actionToCommand :: "(string \<times> string) list" where
  "google_tasks_actionToCommand =
     [(''list_tasklists'', ''/google/tasks/tasklist/list''),
     (''list_tasks'', ''/google/tasks/task/list''), (''get_task'', ''/google/tasks/task/read''),
     (''create_task'', ''/google/tasks/task/create''),
     (''update_task'', ''/google/tasks/task/update''),
     (''delete_task'', ''/google/tasks/task/delete''), (''move_task'', ''/google/tasks/task/move''),
     (''clear_completed'', ''/google/tasks/task/clear_completed''),
     (''create_tasklist'', ''/google/tasks/tasklist/create''),
     (''delete_tasklist'', ''/google/tasks/tasklist/delete'')]"

subsection \<open>google contacts\<close>

definition google_contacts_READS :: "string list" where
  "google_contacts_READS =
     [''/google/contacts/list'', ''/google/contacts/search'', ''/google/contacts/read'',
     ''/google/contacts/group/list'', ''/google/contacts/group/read'', ''/google/contacts/batch_get'']"

definition google_contacts_WRITES :: "string list" where
  "google_contacts_WRITES =
     [''/google/contacts/create'', ''/google/contacts/update'']"

definition google_contacts_DELETES :: "string list" where
  "google_contacts_DELETES =
     [''/google/contacts/delete'']"

definition google_contacts_actions :: "string list" where
  "google_contacts_actions = google_contacts_READS @ google_contacts_WRITES @ google_contacts_DELETES"

definition google_contacts_actionToCommand :: "(string \<times> string) list" where
  "google_contacts_actionToCommand =
     [(''list_contacts'', ''/google/contacts/list''),
     (''search_contacts'', ''/google/contacts/search''), (''get_contact'', ''/google/contacts/read''),
     (''create_contact'', ''/google/contacts/create''),
     (''update_contact'', ''/google/contacts/update''),
     (''delete_contact'', ''/google/contacts/delete''),
     (''list_contact_groups'', ''/google/contacts/group/list''),
     (''get_contact_group'', ''/google/contacts/group/read''),
     (''batch_get_contacts'', ''/google/contacts/batch_get'')]"

subsection \<open>notion\<close>

definition notion_READS :: "string list" where
  "notion_READS =
     [''/notion/page/read'', ''/notion/page/search'', ''/notion/page/property/read'',
     ''/notion/database/query'', ''/notion/database/read'', ''/notion/block/read'',
     ''/notion/block/retrieve'', ''/notion/search'', ''/notion/user/list'', ''/notion/user/read'',
     ''/notion/user/me'', ''/notion/comment/list'']"

definition notion_WRITES :: "string list" where
  "notion_WRITES =
     [''/notion/page/create'', ''/notion/page/update'', ''/notion/page/restore'',
     ''/notion/block/append'', ''/notion/block/update'', ''/notion/database/create'',
     ''/notion/database/update'', ''/notion/comment/create'']"

definition notion_DELETES :: "string list" where
  "notion_DELETES =
     [''/notion/block/delete'', ''/notion/page/archive'']"

definition notion_actions :: "string list" where
  "notion_actions = notion_READS @ notion_WRITES @ notion_DELETES"

definition notion_actionToCommand :: "(string \<times> string) list" where
  "notion_actionToCommand =
     [(''search'', ''/notion/search''), (''get_page'', ''/notion/page/read''),
     (''list_block_children'', ''/notion/block/read''),
     (''append_block_children'', ''/notion/block/append''), (''create_page'', ''/notion/page/create''),
     (''query_database'', ''/notion/database/query''), (''update_page'', ''/notion/page/update''),
     (''get_database'', ''/notion/database/read''), (''list_users'', ''/notion/user/list''),
     (''get_user'', ''/notion/user/read''), (''delete_block'', ''/notion/block/delete''),
     (''create_database'', ''/notion/database/create''),
     (''update_database'', ''/notion/database/update''),
     (''retrieve_block'', ''/notion/block/retrieve''), (''update_block'', ''/notion/block/update''),
     (''list_comments'', ''/notion/comment/list''), (''create_comment'', ''/notion/comment/create''),
     (''get_bot_user'', ''/notion/user/me''), (''archive_page'', ''/notion/page/archive''),
     (''search_pages'', ''/notion/page/search''), (''restore_page'', ''/notion/page/restore''),
     (''get_page_properties'', ''/notion/page/property/read'')]"

subsection \<open>linear\<close>

definition linear_READS :: "string list" where
  "linear_READS =
     [''/linear/issue/read'', ''/linear/issue/list'', ''/linear/issue/search'',
     ''/linear/project/read'', ''/linear/project/list'', ''/linear/team/list'', ''/linear/team/read'',
     ''/linear/user/me'', ''/linear/user/list'', ''/linear/workflow_state/list'',
     ''/linear/label/list'', ''/linear/cycle/list'', ''/linear/comment/list'']"

definition linear_WRITES :: "string list" where
  "linear_WRITES =
     [''/linear/issue/create'', ''/linear/issue/comment'', ''/linear/issue/update'',
     ''/linear/issue/close'', ''/linear/issue/assign'', ''/linear/issue/move'',
     ''/linear/comment/create'', ''/linear/project/create'', ''/linear/project/update'']"

definition linear_DELETES :: "string list" where
  "linear_DELETES =
     [''/linear/issue/delete'', ''/linear/project/archive'']"

definition linear_actions :: "string list" where
  "linear_actions = linear_READS @ linear_WRITES @ linear_DELETES"

definition linear_actionToCommand :: "(string \<times> string) list" where
  "linear_actionToCommand =
     [(''list_issues'', ''/linear/issue/list''), (''get_issue'', ''/linear/issue/read''),
     (''create_issue'', ''/linear/issue/create''), (''update_issue'', ''/linear/issue/update''),
     (''comment_on_issue'', ''/linear/issue/comment''), (''list_projects'', ''/linear/project/list''),
     (''list_teams'', ''/linear/team/list''), (''get_viewer'', ''/linear/user/me''),
     (''delete_issue'', ''/linear/issue/delete''), (''search_issues'', ''/linear/issue/search''),
     (''list_workflow_states'', ''/linear/workflow_state/list''),
     (''list_labels'', ''/linear/label/list''), (''list_members'', ''/linear/user/list''),
     (''get_project'', ''/linear/project/read''), (''create_project'', ''/linear/project/create''),
     (''update_project'', ''/linear/project/update''), (''list_comments'', ''/linear/comment/list''),
     (''assign_issue'', ''/linear/issue/assign''), (''archive_project'', ''/linear/project/archive''),
     (''list_cycles'', ''/linear/cycle/list''), (''get_team'', ''/linear/team/read''),
     (''create_comment'', ''/linear/comment/create''), (''move_issue'', ''/linear/issue/move''),
     (''close_issue'', ''/linear/issue/close'')]"

subsection \<open>stripe\<close>

definition stripe_READS :: "string list" where
  "stripe_READS =
     [''/stripe/customer/read'', ''/stripe/customer/list'', ''/stripe/charge/read'',
     ''/stripe/charge/list'', ''/stripe/invoice/read'', ''/stripe/invoice/list'',
     ''/stripe/subscription/read'', ''/stripe/subscription/list'', ''/stripe/payment_intent/read'',
     ''/stripe/payment_intent/list'', ''/stripe/product/list'', ''/stripe/price/list'',
     ''/stripe/dispute/list'', ''/stripe/balance_transaction/list'', ''/stripe/balance/read'',
     ''/stripe/setup_intent/list'', ''/stripe/refund/list'']"

definition stripe_WRITES :: "string list" where
  "stripe_WRITES =
     [''/stripe/customer/create'', ''/stripe/customer/update'', ''/stripe/invoice/create'',
     ''/stripe/invoice/send'', ''/stripe/refund/create'', ''/stripe/subscription/cancel'',
     ''/stripe/subscription/create'', ''/stripe/subscription/update'',
     ''/stripe/payment_intent/create'', ''/stripe/payment_intent/capture'',
     ''/stripe/payment_intent/cancel'']"

definition stripe_actions :: "string list" where
  "stripe_actions = stripe_READS @ stripe_WRITES"

definition stripe_actionToCommand :: "(string \<times> string) list" where
  "stripe_actionToCommand =
     [(''list_customers'', ''/stripe/customer/list''), (''get_customer'', ''/stripe/customer/read''),
     (''create_customer'', ''/stripe/customer/create''),
     (''update_customer'', ''/stripe/customer/update''),
     (''create_refund'', ''/stripe/refund/create''),
     (''list_subscriptions'', ''/stripe/subscription/list''),
     (''cancel_subscription'', ''/stripe/subscription/cancel''),
     (''create_subscription'', ''/stripe/subscription/create''),
     (''update_subscription'', ''/stripe/subscription/update''),
     (''get_subscription'', ''/stripe/subscription/read''),
     (''list_charges'', ''/stripe/charge/list''), (''get_charge'', ''/stripe/charge/read''),
     (''list_invoices'', ''/stripe/invoice/list''), (''get_invoice'', ''/stripe/invoice/read''),
     (''list_payment_intents'', ''/stripe/payment_intent/list''),
     (''get_payment_intent'', ''/stripe/payment_intent/read''),
     (''create_payment_intent'', ''/stripe/payment_intent/create''),
     (''capture_payment_intent'', ''/stripe/payment_intent/capture''),
     (''cancel_payment_intent'', ''/stripe/payment_intent/cancel''),
     (''list_products'', ''/stripe/product/list''), (''list_prices'', ''/stripe/price/list''),
     (''list_disputes'', ''/stripe/dispute/list''),
     (''list_balance_transactions'', ''/stripe/balance_transaction/list''),
     (''get_balance'', ''/stripe/balance/read''),
     (''list_setup_intents'', ''/stripe/setup_intent/list''),
     (''list_refunds'', ''/stripe/refund/list''), (''create_invoice'', ''/stripe/invoice/create''),
     (''send_invoice'', ''/stripe/invoice/send'')]"

subsection \<open>discord\<close>

definition discord_READS :: "string list" where
  "discord_READS =
     [''/discord/guild/read'', ''/discord/guild/members'', ''/discord/channel/list'',
     ''/discord/channel/read'', ''/discord/message/list'', ''/discord/role/list'',
     ''/discord/emoji/list'']"

definition discord_WRITES :: "string list" where
  "discord_WRITES =
     [''/discord/guild/modify'', ''/discord/channel/create'', ''/discord/channel/modify'',
     ''/discord/channel/permissions'', ''/discord/message/post'', ''/discord/message/edit'',
     ''/discord/role/create'', ''/discord/role/modify'', ''/discord/member/add_role'',
     ''/discord/member/remove_role'', ''/discord/invite/create'', ''/discord/webhook/create'']"

definition discord_DELETES :: "string list" where
  "discord_DELETES =
     [''/discord/channel/delete'', ''/discord/message/delete'', ''/discord/role/delete'']"

definition discord_actions :: "string list" where
  "discord_actions = discord_READS @ discord_WRITES @ discord_DELETES"

definition discord_actionToCommand :: "(string \<times> string) list" where
  "discord_actionToCommand =
     [(''get_guild'', ''/discord/guild/read''), (''list_guild_members'', ''/discord/guild/members''),
     (''modify_guild'', ''/discord/guild/modify''), (''list_channels'', ''/discord/channel/list''),
     (''get_channel'', ''/discord/channel/read''), (''create_channel'', ''/discord/channel/create''),
     (''modify_channel'', ''/discord/channel/modify''),
     (''delete_channel'', ''/discord/channel/delete''),
     (''set_channel_permissions'', ''/discord/channel/permissions''),
     (''list_messages'', ''/discord/message/list''), (''post_message'', ''/discord/message/post''),
     (''edit_message'', ''/discord/message/edit''), (''delete_message'', ''/discord/message/delete''),
     (''list_roles'', ''/discord/role/list''), (''create_role'', ''/discord/role/create''),
     (''modify_role'', ''/discord/role/modify''), (''delete_role'', ''/discord/role/delete''),
     (''add_member_role'', ''/discord/member/add_role''),
     (''remove_member_role'', ''/discord/member/remove_role''),
     (''create_invite'', ''/discord/invite/create''),
     (''create_webhook'', ''/discord/webhook/create''), (''list_emojis'', ''/discord/emoji/list'')]"

subsection \<open>filesystem\<close>

definition filesystem_FILE_READ_ACTIONS :: "string list" where
  "filesystem_FILE_READ_ACTIONS =
     [''/filesystem/file/read'', ''/filesystem/dir/list'', ''/filesystem/dir/tree'']"

definition filesystem_FILE_WRITE_ACTIONS :: "string list" where
  "filesystem_FILE_WRITE_ACTIONS =
     [''/filesystem/file/write'', ''/filesystem/file/create'', ''/filesystem/file/move'',
     ''/filesystem/file/copy'', ''/filesystem/dir/create'']"

definition filesystem_FILE_DELETE_ACTIONS :: "string list" where
  "filesystem_FILE_DELETE_ACTIONS =
     [''/filesystem/file/delete'', ''/filesystem/dir/delete'', ''/filesystem/dir/delete_recursive'']"

definition filesystem_actions :: "string list" where
  "filesystem_actions = filesystem_FILE_READ_ACTIONS @ filesystem_FILE_WRITE_ACTIONS @ filesystem_FILE_DELETE_ACTIONS"

definition filesystem_actionToCommand :: "(string \<times> string) list" where
  "filesystem_actionToCommand =
     [(''read_file'', ''/filesystem/file/read''), (''write_file'', ''/filesystem/file/write''),
     (''create_file'', ''/filesystem/file/create''), (''delete_file'', ''/filesystem/file/delete''),
     (''move_file'', ''/filesystem/file/move''), (''copy_file'', ''/filesystem/file/copy''),
     (''list_dir'', ''/filesystem/dir/list''), (''tree_dir'', ''/filesystem/dir/tree''),
     (''create_dir'', ''/filesystem/dir/create''), (''delete_dir'', ''/filesystem/dir/delete''),
     (''delete_dir_recursive'', ''/filesystem/dir/delete_recursive'')]"

subsection \<open>ssh\<close>

definition ssh_SSH_READ_ACTIONS :: "string list" where
  "ssh_SSH_READ_ACTIONS =
     [''/ssh/file/read'', ''/ssh/dir/list'', ''/ssh/dir/tree'']"

definition ssh_SSH_WRITE_ACTIONS :: "string list" where
  "ssh_SSH_WRITE_ACTIONS =
     [''/ssh/file/write'', ''/ssh/file/create'', ''/ssh/file/move'', ''/ssh/file/copy'',
     ''/ssh/dir/create'']"

definition ssh_SSH_DELETE_ACTIONS :: "string list" where
  "ssh_SSH_DELETE_ACTIONS =
     [''/ssh/file/delete'', ''/ssh/dir/delete'', ''/ssh/dir/delete_recursive'']"

definition ssh_actions :: "string list" where
  "ssh_actions = ssh_SSH_READ_ACTIONS @ ssh_SSH_WRITE_ACTIONS @ ssh_SSH_DELETE_ACTIONS @ [''/ssh/exec'']"

definition ssh_actionToCommand :: "(string \<times> string) list" where
  "ssh_actionToCommand =
     [(''read_file'', ''/ssh/file/read''), (''write_file'', ''/ssh/file/write''),
     (''create_file'', ''/ssh/file/create''), (''delete_file'', ''/ssh/file/delete''),
     (''move_file'', ''/ssh/file/move''), (''copy_file'', ''/ssh/file/copy''),
     (''list_dir'', ''/ssh/dir/list''), (''tree_dir'', ''/ssh/dir/tree''),
     (''create_dir'', ''/ssh/dir/create''), (''delete_dir'', ''/ssh/dir/delete''),
     (''delete_dir_recursive'', ''/ssh/dir/delete_recursive''), (''exec'', ''/ssh/exec'')]"

subsection \<open>azure\<close>

definition azure_READS :: "string list" where
  "azure_READS =
     [''/azure/subscriptions/list'', ''/azure/subscriptions/get'', ''/azure/management_groups/list'',
     ''/azure/management_groups/get'', ''/azure/resource_groups/list'', ''/azure/resource_groups/get'',
     ''/azure/resource_groups/export_template'', ''/azure/resources/list'',
     ''/azure/resources/list_by_rg'', ''/azure/resources/get'', ''/azure/vm/list'', ''/azure/vm/get'',
     ''/azure/vm/get_instance_view'', ''/azure/vm/list_available_sizes'',
     ''/azure/vm/list_extensions'', ''/azure/vm/list_disks'', ''/azure/vmss/list'',
     ''/azure/vmss/get'', ''/azure/disks/list'', ''/azure/disks/get'', ''/azure/images/list'',
     ''/azure/snapshots/list'', ''/azure/storage_accounts/list'', ''/azure/storage_accounts/get'',
     ''/azure/storage_accounts/list_keys'', ''/azure/blob_containers/list'',
     ''/azure/blob_containers/get'', ''/azure/file_shares/list'', ''/azure/queues/list'',
     ''/azure/tables/list'', ''/azure/key_vaults/list'', ''/azure/key_vaults/get'',
     ''/azure/key_vaults/list_secrets'', ''/azure/key_vaults/get_secret'',
     ''/azure/key_vaults/list_keys'', ''/azure/key_vaults/get_key'',
     ''/azure/key_vaults/list_certificates'', ''/azure/key_vaults/get_certificate'',
     ''/azure/app_services/list'', ''/azure/app_services/get'',
     ''/azure/app_services/list_app_settings'', ''/azure/app_services/list_slots'',
     ''/azure/functions/list'', ''/azure/functions/get'', ''/azure/aks/list'', ''/azure/aks/get'',
     ''/azure/aks/list_node_pools'', ''/azure/aks/get_kubeconfig'', ''/azure/cosmos/list_accounts'',
     ''/azure/cosmos/get_account'', ''/azure/cosmos/list_databases'',
     ''/azure/cosmos/list_containers'', ''/azure/cosmos/list_keys'', ''/azure/vnets/list'',
     ''/azure/vnets/get'', ''/azure/subnets/list'', ''/azure/nsgs/list'', ''/azure/nsgs/get'',
     ''/azure/public_ips/list'', ''/azure/load_balancers/list'', ''/azure/load_balancers/get'',
     ''/azure/application_gateways/list'', ''/azure/private_endpoints/list'',
     ''/azure/dns_zones/list'', ''/azure/dns_zones/list_records'',
     ''/azure/rbac/list_role_assignments'', ''/azure/rbac/get_role_assignment'',
     ''/azure/rbac/list_role_definitions'', ''/azure/monitor/list_alerts'',
     ''/azure/monitor/list_metric_definitions'', ''/azure/monitor/list_diagnostic_settings'',
     ''/azure/monitor/list_activity_logs'', ''/azure/monitor/list_action_groups'',
     ''/azure/log_analytics/list_workspaces'', ''/azure/metrics/get'', ''/azure/tags/get'',
     ''/azure/locks/list'', ''/azure/policy/list_definitions'', ''/azure/policy/list_assignments'',
     ''/azure/policy/list_compliance_states'', ''/azure/cost_management/list_budgets'',
     ''/azure/cost_management/list_exports'', ''/azure/cost_management/forecast'',
     ''/azure/acr/list_registries'', ''/azure/acr/get_registry'', ''/azure/acr/list_repositories'',
     ''/azure/acr/list_tags'', ''/azure/acr/list_webhooks'', ''/azure/logic_apps/list'',
     ''/azure/logic_apps/get'', ''/azure/service_bus/list_namespaces'',
     ''/azure/service_bus/list_queues'', ''/azure/service_bus/list_topics'',
     ''/azure/event_hub/list_namespaces'', ''/azure/event_hub/list_event_hubs'',
     ''/azure/event_grid/list_topics'', ''/azure/app_config/list_stores'',
     ''/azure/app_config/list_keys'', ''/azure/app_config/get_key'', ''/azure/resource_health/get'',
     ''/azure/resource_health/list_events'', ''/azure/deployments/list'', ''/azure/deployments/get'',
     ''/azure/deployments/validate'', ''/azure/deployments/what_if'']"

definition azure_OPS :: "string list" where
  "azure_OPS =
     [''/azure/vm/restart'', ''/azure/vm/stop'', ''/azure/vm/start'', ''/azure/vm/deallocate'',
     ''/azure/vm/redeploy'', ''/azure/vm/power_off'', ''/azure/vm/run_command'', ''/azure/vm/capture'',
     ''/azure/vm/install_extension'', ''/azure/vm/attach_disk'', ''/azure/vm/detach_disk'',
     ''/azure/vmss/scale'', ''/azure/vmss/restart'', ''/azure/vmss/reimage'',
     ''/azure/vmss/upgrade_instances'', ''/azure/aks/start'', ''/azure/aks/stop'',
     ''/azure/aks/rotate_certificates'', ''/azure/aks/run_command'', ''/azure/aks/cordon_node'',
     ''/azure/aks/drain_node'', ''/azure/aks/scale_node_pool'', ''/azure/aks/upgrade_node_pool'',
     ''/azure/storage_accounts/regenerate_key'', ''/azure/blob_containers/lease'',
     ''/azure/blob_containers/set_acl'', ''/azure/key_vaults/rotate_secret'',
     ''/azure/key_vaults/update_policy'', ''/azure/app_services/redeploy'',
     ''/azure/app_services/restart'', ''/azure/app_services/stop'', ''/azure/app_services/start'',
     ''/azure/app_services/update_app_settings'', ''/azure/app_services/slot_swap'',
     ''/azure/functions/invoke'', ''/azure/cosmos/regenerate_key'', ''/azure/nsgs/add_rule'',
     ''/azure/dns_zones/create_record'', ''/azure/rbac/create_role_assignment'',
     ''/azure/rbac/create_role_definition'', ''/azure/monitor/create_diagnostic_setting'',
     ''/azure/monitor/create_alert_rule'', ''/azure/tags/set'', ''/azure/locks/create'',
     ''/azure/policy/create_assignment'', ''/azure/cost_management/create_budget'',
     ''/azure/logic_apps/trigger_run'', ''/azure/logic_apps/cancel_run'',
     ''/azure/app_config/set_key'', ''/azure/deployments/cancel'']"

definition azure_DEVOPS :: "string list" where
  "azure_DEVOPS =
     [''/azure/resource_groups/create'', ''/azure/resource_groups/update'', ''/azure/resources/move'',
     ''/azure/resources/tag'', ''/azure/vm/create'', ''/azure/disks/create'',
     ''/azure/snapshots/create'', ''/azure/storage_accounts/create'',
     ''/azure/storage_accounts/update'', ''/azure/blob_containers/create'',
     ''/azure/file_shares/create'', ''/azure/queues/create'', ''/azure/tables/create'',
     ''/azure/key_vaults/create'', ''/azure/key_vaults/set_secret'', ''/azure/key_vaults/create_key'',
     ''/azure/key_vaults/create_certificate'', ''/azure/app_services/create'', ''/azure/aks/create'',
     ''/azure/aks/update'', ''/azure/cosmos/create_account'', ''/azure/cosmos/create_database'',
     ''/azure/cosmos/create_container'', ''/azure/vnets/create'', ''/azure/subnets/create'',
     ''/azure/nsgs/create'', ''/azure/public_ips/create'', ''/azure/load_balancers/create'',
     ''/azure/service_bus/create_namespace'', ''/azure/service_bus/create_queue'',
     ''/azure/event_hub/create_event_hub'', ''/azure/event_grid/create_topic'',
     ''/azure/log_analytics/create_workspace'', ''/azure/deployments/create'',
     ''/azure/acr/create_registry'', ''/azure/acr/push'', ''/azure/acr/tag'',
     ''/azure/pipelines/trigger'']"

definition azure_DATA :: "string list" where
  "azure_DATA =
     [''/azure/blob/read'', ''/azure/blob/write'', ''/azure/blob/list'', ''/azure/blob/delete'',
     ''/azure/cosmos/query'', ''/azure/cosmos/create_item'', ''/azure/cosmos/get_item'',
     ''/azure/cosmos/delete_item'', ''/azure/synapse/query'', ''/azure/log_analytics/kql'',
     ''/azure/cost_management/query'']"

definition azure_DESTRUCTIVE :: "string list" where
  "azure_DESTRUCTIVE =
     [''/azure/resource_groups/delete'', ''/azure/resources/delete'', ''/azure/vm/delete'',
     ''/azure/vm/uninstall_extension'', ''/azure/vmss/delete_instance'', ''/azure/vmss/delete'',
     ''/azure/disks/delete'', ''/azure/snapshots/delete'', ''/azure/storage_accounts/delete'',
     ''/azure/blob_containers/delete'', ''/azure/file_shares/delete'', ''/azure/queues/delete'',
     ''/azure/tables/delete'', ''/azure/key_vaults/delete'', ''/azure/key_vaults/delete_secret'',
     ''/azure/key_vaults/delete_key'', ''/azure/key_vaults/delete_certificate'',
     ''/azure/key_vaults/purge'', ''/azure/app_services/delete'', ''/azure/functions/delete'',
     ''/azure/aks/delete'', ''/azure/aks/delete_node_pool'', ''/azure/cosmos/delete_account'',
     ''/azure/cosmos/delete_database'', ''/azure/cosmos/delete_container'', ''/azure/vnets/delete'',
     ''/azure/subnets/delete'', ''/azure/nsgs/delete'', ''/azure/nsgs/remove_rule'',
     ''/azure/public_ips/delete'', ''/azure/load_balancers/delete'',
     ''/azure/dns_zones/delete_record'', ''/azure/rbac/delete_role_assignment'',
     ''/azure/tags/delete'', ''/azure/locks/delete'', ''/azure/policy/delete_assignment'',
     ''/azure/monitor/delete_alert_rule'', ''/azure/cost_management/delete_budget'',
     ''/azure/logic_apps/delete'', ''/azure/service_bus/delete_namespace'',
     ''/azure/service_bus/delete_queue'', ''/azure/event_hub/delete_event_hub'',
     ''/azure/event_grid/delete_topic'', ''/azure/app_config/delete_key'', ''/azure/acr/delete_image'',
     ''/azure/acr/delete_registry'', ''/azure/log_analytics/delete_workspace'',
     ''/azure/deployments/delete'']"

definition azure_RAW_CALL :: string where
  "azure_RAW_CALL = ''/azure/raw_call''"

definition azure_WRITES :: "string list" where
  "azure_WRITES = azure_OPS @ azure_DEVOPS @ azure_DATA"

definition azure_DELETES :: "string list" where
  "azure_DELETES = azure_DESTRUCTIVE"

definition azure_actions :: "string list" where
  "azure_actions = azure_READS @ azure_OPS @ azure_DEVOPS @ azure_DATA @ azure_DESTRUCTIVE @ [azure_RAW_CALL]"

definition azure_actionToCommand_1 :: "(string \<times> string) list" where
  "azure_actionToCommand_1 =
     [(''list_subscriptions'', ''/azure/subscriptions/list''),
     (''get_subscription'', ''/azure/subscriptions/get''),
     (''list_management_groups'', ''/azure/management_groups/list''),
     (''get_management_group'', ''/azure/management_groups/get''),
     (''list_resource_groups'', ''/azure/resource_groups/list''),
     (''get_resource_group'', ''/azure/resource_groups/get''),
     (''export_resource_group_template'', ''/azure/resource_groups/export_template''),
     (''create_resource_group'', ''/azure/resource_groups/create''),
     (''update_resource_group'', ''/azure/resource_groups/update''),
     (''delete_resource_group'', ''/azure/resource_groups/delete''),
     (''list_resources'', ''/azure/resources/list''),
     (''list_resources_by_rg'', ''/azure/resources/list_by_rg''),
     (''get_resource'', ''/azure/resources/get''), (''delete_resource'', ''/azure/resources/delete''),
     (''move_resources'', ''/azure/resources/move''), (''tag_resource'', ''/azure/resources/tag''),
     (''list_vms'', ''/azure/vm/list''), (''get_vm'', ''/azure/vm/get''),
     (''get_vm_instance_view'', ''/azure/vm/get_instance_view''),
     (''list_vm_sizes'', ''/azure/vm/list_available_sizes''),
     (''list_vm_extensions'', ''/azure/vm/list_extensions''),
     (''install_vm_extension'', ''/azure/vm/install_extension''),
     (''uninstall_vm_extension'', ''/azure/vm/uninstall_extension''),
     (''list_vm_disks'', ''/azure/vm/list_disks''), (''attach_vm_disk'', ''/azure/vm/attach_disk''),
     (''detach_vm_disk'', ''/azure/vm/detach_disk''), (''create_vm'', ''/azure/vm/create''),
     (''restart_vm'', ''/azure/vm/restart''), (''stop_vm'', ''/azure/vm/stop''),
     (''start_vm'', ''/azure/vm/start''), (''deallocate_vm'', ''/azure/vm/deallocate''),
     (''redeploy_vm'', ''/azure/vm/redeploy''), (''power_off_vm'', ''/azure/vm/power_off''),
     (''capture_vm'', ''/azure/vm/capture''), (''run_command_vm'', ''/azure/vm/run_command''),
     (''delete_vm'', ''/azure/vm/delete''), (''list_vmss'', ''/azure/vmss/list''),
     (''get_vmss'', ''/azure/vmss/get''), (''scale_vmss'', ''/azure/vmss/scale''),
     (''restart_vmss'', ''/azure/vmss/restart''), (''reimage_vmss'', ''/azure/vmss/reimage''),
     (''upgrade_vmss_instances'', ''/azure/vmss/upgrade_instances''),
     (''delete_vmss_instance'', ''/azure/vmss/delete_instance''),
     (''delete_vmss'', ''/azure/vmss/delete''), (''list_disks'', ''/azure/disks/list''),
     (''get_disk'', ''/azure/disks/get''), (''create_disk'', ''/azure/disks/create''),
     (''delete_disk'', ''/azure/disks/delete''), (''list_images'', ''/azure/images/list''),
     (''list_snapshots'', ''/azure/snapshots/list''),
     (''create_snapshot'', ''/azure/snapshots/create''),
     (''delete_snapshot'', ''/azure/snapshots/delete''),
     (''list_storage_accounts'', ''/azure/storage_accounts/list''),
     (''get_storage_account'', ''/azure/storage_accounts/get''),
     (''create_storage_account'', ''/azure/storage_accounts/create''),
     (''update_storage_account'', ''/azure/storage_accounts/update''),
     (''list_storage_keys'', ''/azure/storage_accounts/list_keys''),
     (''regenerate_storage_key'', ''/azure/storage_accounts/regenerate_key''),
     (''delete_storage_account'', ''/azure/storage_accounts/delete''),
     (''list_blob_containers'', ''/azure/blob_containers/list''),
     (''get_blob_container'', ''/azure/blob_containers/get''),
     (''create_blob_container'', ''/azure/blob_containers/create''),
     (''lease_blob_container'', ''/azure/blob_containers/lease''),
     (''set_blob_container_acl'', ''/azure/blob_containers/set_acl''),
     (''delete_blob_container'', ''/azure/blob_containers/delete''),
     (''list_file_shares'', ''/azure/file_shares/list''),
     (''create_file_share'', ''/azure/file_shares/create''),
     (''delete_file_share'', ''/azure/file_shares/delete''), (''list_queues'', ''/azure/queues/list''),
     (''create_queue'', ''/azure/queues/create''), (''delete_queue'', ''/azure/queues/delete''),
     (''list_tables'', ''/azure/tables/list''), (''create_table'', ''/azure/tables/create''),
     (''delete_table'', ''/azure/tables/delete''), (''list_key_vaults'', ''/azure/key_vaults/list''),
     (''get_key_vault'', ''/azure/key_vaults/get''),
     (''create_key_vault'', ''/azure/key_vaults/create''),
     (''update_key_vault_policy'', ''/azure/key_vaults/update_policy''),
     (''delete_key_vault'', ''/azure/key_vaults/delete''),
     (''list_kv_secrets'', ''/azure/key_vaults/list_secrets''),
     (''get_kv_secret'', ''/azure/key_vaults/get_secret''),
     (''set_kv_secret'', ''/azure/key_vaults/set_secret''),
     (''rotate_kv_secret'', ''/azure/key_vaults/rotate_secret''),
     (''delete_kv_secret'', ''/azure/key_vaults/delete_secret''),
     (''list_kv_keys'', ''/azure/key_vaults/list_keys''),
     (''get_kv_key'', ''/azure/key_vaults/get_key''),
     (''create_kv_key'', ''/azure/key_vaults/create_key''),
     (''delete_kv_key'', ''/azure/key_vaults/delete_key''),
     (''list_kv_certificates'', ''/azure/key_vaults/list_certificates''),
     (''get_kv_certificate'', ''/azure/key_vaults/get_certificate''),
     (''create_kv_certificate'', ''/azure/key_vaults/create_certificate''),
     (''delete_kv_certificate'', ''/azure/key_vaults/delete_certificate''),
     (''purge_key_vault'', ''/azure/key_vaults/purge''),
     (''list_app_services'', ''/azure/app_services/list''),
     (''get_app_service'', ''/azure/app_services/get''),
     (''create_app_service'', ''/azure/app_services/create''),
     (''delete_app_service'', ''/azure/app_services/delete''),
     (''start_app_service'', ''/azure/app_services/start''),
     (''stop_app_service'', ''/azure/app_services/stop''),
     (''restart_app_service'', ''/azure/app_services/restart''),
     (''redeploy_app_service'', ''/azure/app_services/redeploy''),
     (''slot_swap_app_service'', ''/azure/app_services/slot_swap''),
     (''list_app_settings'', ''/azure/app_services/list_app_settings''),
     (''update_app_settings'', ''/azure/app_services/update_app_settings''),
     (''list_app_service_slots'', ''/azure/app_services/list_slots''),
     (''list_functions'', ''/azure/functions/list''), (''get_function'', ''/azure/functions/get''),
     (''invoke_function'', ''/azure/functions/invoke''),
     (''delete_function'', ''/azure/functions/delete''), (''list_aks'', ''/azure/aks/list'')]"

definition azure_actionToCommand_2 :: "(string \<times> string) list" where
  "azure_actionToCommand_2 =
     [(''get_aks'', ''/azure/aks/get''), (''create_aks'', ''/azure/aks/create''),
     (''update_aks'', ''/azure/aks/update''), (''start_aks'', ''/azure/aks/start''),
     (''stop_aks'', ''/azure/aks/stop''),
     (''rotate_aks_certificates'', ''/azure/aks/rotate_certificates''),
     (''run_command_aks'', ''/azure/aks/run_command''),
     (''list_aks_node_pools'', ''/azure/aks/list_node_pools''),
     (''scale_aks_node_pool'', ''/azure/aks/scale_node_pool''),
     (''upgrade_aks_node_pool'', ''/azure/aks/upgrade_node_pool''),
     (''delete_aks_node_pool'', ''/azure/aks/delete_node_pool''),
     (''get_aks_kubeconfig'', ''/azure/aks/get_kubeconfig''),
     (''cordon_aks_node'', ''/azure/aks/cordon_node''),
     (''drain_aks_node'', ''/azure/aks/drain_node''), (''delete_aks'', ''/azure/aks/delete''),
     (''list_cosmos_accounts'', ''/azure/cosmos/list_accounts''),
     (''get_cosmos_account'', ''/azure/cosmos/get_account''),
     (''create_cosmos_account'', ''/azure/cosmos/create_account''),
     (''delete_cosmos_account'', ''/azure/cosmos/delete_account''),
     (''list_cosmos_databases'', ''/azure/cosmos/list_databases''),
     (''create_cosmos_database'', ''/azure/cosmos/create_database''),
     (''delete_cosmos_database'', ''/azure/cosmos/delete_database''),
     (''list_cosmos_containers'', ''/azure/cosmos/list_containers''),
     (''create_cosmos_container'', ''/azure/cosmos/create_container''),
     (''delete_cosmos_container'', ''/azure/cosmos/delete_container''),
     (''list_cosmos_keys'', ''/azure/cosmos/list_keys''),
     (''regenerate_cosmos_key'', ''/azure/cosmos/regenerate_key''),
     (''cosmos_query'', ''/azure/cosmos/query''),
     (''cosmos_create_item'', ''/azure/cosmos/create_item''),
     (''cosmos_get_item'', ''/azure/cosmos/get_item''),
     (''cosmos_delete_item'', ''/azure/cosmos/delete_item''), (''list_vnets'', ''/azure/vnets/list''),
     (''get_vnet'', ''/azure/vnets/get''), (''create_vnet'', ''/azure/vnets/create''),
     (''delete_vnet'', ''/azure/vnets/delete''), (''list_subnets'', ''/azure/subnets/list''),
     (''create_subnet'', ''/azure/subnets/create''), (''delete_subnet'', ''/azure/subnets/delete''),
     (''list_nsgs'', ''/azure/nsgs/list''), (''get_nsg'', ''/azure/nsgs/get''),
     (''create_nsg'', ''/azure/nsgs/create''), (''add_nsg_rule'', ''/azure/nsgs/add_rule''),
     (''remove_nsg_rule'', ''/azure/nsgs/remove_rule''), (''delete_nsg'', ''/azure/nsgs/delete''),
     (''list_public_ips'', ''/azure/public_ips/list''),
     (''create_public_ip'', ''/azure/public_ips/create''),
     (''delete_public_ip'', ''/azure/public_ips/delete''),
     (''list_load_balancers'', ''/azure/load_balancers/list''),
     (''get_load_balancer'', ''/azure/load_balancers/get''),
     (''create_load_balancer'', ''/azure/load_balancers/create''),
     (''delete_load_balancer'', ''/azure/load_balancers/delete''),
     (''list_application_gateways'', ''/azure/application_gateways/list''),
     (''list_private_endpoints'', ''/azure/private_endpoints/list''),
     (''list_dns_zones'', ''/azure/dns_zones/list''),
     (''list_dns_records'', ''/azure/dns_zones/list_records''),
     (''create_dns_record'', ''/azure/dns_zones/create_record''),
     (''delete_dns_record'', ''/azure/dns_zones/delete_record''),
     (''list_role_assignments'', ''/azure/rbac/list_role_assignments''),
     (''get_role_assignment'', ''/azure/rbac/get_role_assignment''),
     (''create_role_assignment'', ''/azure/rbac/create_role_assignment''),
     (''delete_role_assignment'', ''/azure/rbac/delete_role_assignment''),
     (''list_role_definitions'', ''/azure/rbac/list_role_definitions''),
     (''create_role_definition'', ''/azure/rbac/create_role_definition''),
     (''list_alerts'', ''/azure/monitor/list_alerts''),
     (''list_metric_definitions'', ''/azure/monitor/list_metric_definitions''),
     (''list_diagnostic_settings'', ''/azure/monitor/list_diagnostic_settings''),
     (''create_diagnostic_setting'', ''/azure/monitor/create_diagnostic_setting''),
     (''list_activity_logs'', ''/azure/monitor/list_activity_logs''),
     (''list_action_groups'', ''/azure/monitor/list_action_groups''),
     (''create_alert_rule'', ''/azure/monitor/create_alert_rule''),
     (''delete_alert_rule'', ''/azure/monitor/delete_alert_rule''),
     (''list_log_analytics_workspaces'', ''/azure/log_analytics/list_workspaces''),
     (''create_log_analytics_workspace'', ''/azure/log_analytics/create_workspace''),
     (''delete_log_analytics_workspace'', ''/azure/log_analytics/delete_workspace''),
     (''log_analytics_kql'', ''/azure/log_analytics/kql''), (''get_metric'', ''/azure/metrics/get''),
     (''get_tags'', ''/azure/tags/get''), (''set_tags'', ''/azure/tags/set''),
     (''delete_tags'', ''/azure/tags/delete''), (''list_locks'', ''/azure/locks/list''),
     (''create_lock'', ''/azure/locks/create''), (''delete_lock'', ''/azure/locks/delete''),
     (''list_policy_definitions'', ''/azure/policy/list_definitions''),
     (''list_policy_assignments'', ''/azure/policy/list_assignments''),
     (''create_policy_assignment'', ''/azure/policy/create_assignment''),
     (''delete_policy_assignment'', ''/azure/policy/delete_assignment''),
     (''list_policy_compliance'', ''/azure/policy/list_compliance_states''),
     (''cost_management_query'', ''/azure/cost_management/query''),
     (''list_budgets'', ''/azure/cost_management/list_budgets''),
     (''create_budget'', ''/azure/cost_management/create_budget''),
     (''delete_budget'', ''/azure/cost_management/delete_budget''),
     (''list_exports'', ''/azure/cost_management/list_exports''),
     (''cost_forecast'', ''/azure/cost_management/forecast''),
     (''list_acr_registries'', ''/azure/acr/list_registries''),
     (''get_acr_registry'', ''/azure/acr/get_registry''),
     (''create_acr_registry'', ''/azure/acr/create_registry''),
     (''delete_acr_registry'', ''/azure/acr/delete_registry''),
     (''list_acr_repositories'', ''/azure/acr/list_repositories''),
     (''list_acr_tags'', ''/azure/acr/list_tags''),
     (''list_acr_webhooks'', ''/azure/acr/list_webhooks''), (''acr_push'', ''/azure/acr/push''),
     (''acr_tag'', ''/azure/acr/tag''), (''delete_acr_image'', ''/azure/acr/delete_image''),
     (''list_logic_apps'', ''/azure/logic_apps/list''), (''get_logic_app'', ''/azure/logic_apps/get''),
     (''trigger_logic_app_run'', ''/azure/logic_apps/trigger_run''),
     (''cancel_logic_app_run'', ''/azure/logic_apps/cancel_run''),
     (''delete_logic_app'', ''/azure/logic_apps/delete''),
     (''list_service_bus_namespaces'', ''/azure/service_bus/list_namespaces''),
     (''create_service_bus_namespace'', ''/azure/service_bus/create_namespace'')]"

definition azure_actionToCommand_3 :: "(string \<times> string) list" where
  "azure_actionToCommand_3 =
     [(''delete_service_bus_namespace'', ''/azure/service_bus/delete_namespace''),
     (''list_service_bus_queues'', ''/azure/service_bus/list_queues''),
     (''create_service_bus_queue'', ''/azure/service_bus/create_queue''),
     (''delete_service_bus_queue'', ''/azure/service_bus/delete_queue''),
     (''list_service_bus_topics'', ''/azure/service_bus/list_topics''),
     (''list_event_hub_namespaces'', ''/azure/event_hub/list_namespaces''),
     (''list_event_hubs'', ''/azure/event_hub/list_event_hubs''),
     (''create_event_hub'', ''/azure/event_hub/create_event_hub''),
     (''delete_event_hub'', ''/azure/event_hub/delete_event_hub''),
     (''list_event_grid_topics'', ''/azure/event_grid/list_topics''),
     (''create_event_grid_topic'', ''/azure/event_grid/create_topic''),
     (''delete_event_grid_topic'', ''/azure/event_grid/delete_topic''),
     (''list_app_config_stores'', ''/azure/app_config/list_stores''),
     (''list_app_config_keys'', ''/azure/app_config/list_keys''),
     (''get_app_config_key'', ''/azure/app_config/get_key''),
     (''set_app_config_key'', ''/azure/app_config/set_key''),
     (''delete_app_config_key'', ''/azure/app_config/delete_key''),
     (''get_resource_health'', ''/azure/resource_health/get''),
     (''list_health_events'', ''/azure/resource_health/list_events''),
     (''list_deployments'', ''/azure/deployments/list''),
     (''get_deployment'', ''/azure/deployments/get''),
     (''create_deployment'', ''/azure/deployments/create''),
     (''cancel_deployment'', ''/azure/deployments/cancel''),
     (''delete_deployment'', ''/azure/deployments/delete''),
     (''validate_deployment'', ''/azure/deployments/validate''),
     (''what_if_deployment'', ''/azure/deployments/what_if''), (''read_blob'', ''/azure/blob/read''),
     (''write_blob'', ''/azure/blob/write''), (''list_blobs'', ''/azure/blob/list''),
     (''delete_blob'', ''/azure/blob/delete''), (''synapse_query'', ''/azure/synapse/query''),
     (''trigger_pipeline'', ''/azure/pipelines/trigger''), (''raw_call'', ''/azure/raw_call'')]"

definition azure_actionToCommand :: "(string \<times> string) list" where
  "azure_actionToCommand = azure_actionToCommand_1 @ azure_actionToCommand_2 @ azure_actionToCommand_3"

subsection \<open>aws\<close>

definition aws_READS :: "string list" where
  "aws_READS =
     [''/aws/ec2/list_instances'', ''/aws/ec2/describe_instance'', ''/aws/s3/list_buckets'',
     ''/aws/s3/list_objects'', ''/aws/cloudwatch/get_metric'', ''/aws/cloudwatch/get_logs'',
     ''/aws/lambda/list'', ''/aws/lambda/get'', ''/aws/iam/list_users'', ''/aws/iam/list_roles'',
     ''/aws/ce/get_cost_and_usage'', ''/aws/rds/describe_instances'', ''/aws/ecs/list_clusters'',
     ''/aws/eks/list_clusters'', ''/aws/cloudformation/list_stacks'']"

definition aws_OPS :: "string list" where
  "aws_OPS =
     [''/aws/ec2/restart_instance'', ''/aws/ec2/stop_instance'', ''/aws/ec2/start_instance'',
     ''/aws/ec2/run_command'', ''/aws/asg/scale'', ''/aws/eks/cordon_node'', ''/aws/eks/drain_node'',
     ''/aws/secretsmanager/rotate_secret'', ''/aws/lambda/invoke'', ''/aws/lambda/redeploy'',
     ''/aws/ecs/restart_service'']"

definition aws_DEVOPS :: "string list" where
  "aws_DEVOPS =
     [''/aws/cloudformation/create_stack'', ''/aws/cloudformation/update_stack'',
     ''/aws/codepipeline/trigger'', ''/aws/ecr/push'', ''/aws/ecr/tag'',
     ''/aws/lambda/update_function'']"

definition aws_DATA :: "string list" where
  "aws_DATA =
     [''/aws/s3/get_object'', ''/aws/s3/put_object'', ''/aws/dynamodb/query'', ''/aws/dynamodb/scan'',
     ''/aws/athena/query'', ''/aws/redshift/query'']"

definition aws_DESTRUCTIVE :: "string list" where
  "aws_DESTRUCTIVE =
     [''/aws/ec2/terminate_instance'', ''/aws/s3/delete_bucket'', ''/aws/s3/delete_object'',
     ''/aws/lambda/delete'', ''/aws/cloudformation/delete_stack'', ''/aws/iam/delete_user'',
     ''/aws/iam/delete_role'']"

definition aws_RAW_CALL :: string where
  "aws_RAW_CALL = ''/aws/raw_call''"

definition aws_WRITES :: "string list" where
  "aws_WRITES = aws_OPS @ aws_DEVOPS @ aws_DATA"

definition aws_DELETES :: "string list" where
  "aws_DELETES = aws_DESTRUCTIVE"

definition aws_actions :: "string list" where
  "aws_actions = aws_READS @ aws_OPS @ aws_DEVOPS @ aws_DATA @ aws_DESTRUCTIVE @ [aws_RAW_CALL]"

definition aws_actionToCommand :: "(string \<times> string) list" where
  "aws_actionToCommand =
     [(''list_instances'', ''/aws/ec2/list_instances''),
     (''describe_instance'', ''/aws/ec2/describe_instance''),
     (''list_buckets'', ''/aws/s3/list_buckets''), (''list_objects'', ''/aws/s3/list_objects''),
     (''get_cloudwatch_metric'', ''/aws/cloudwatch/get_metric''),
     (''get_cloudwatch_logs'', ''/aws/cloudwatch/get_logs''), (''list_lambdas'', ''/aws/lambda/list''),
     (''get_lambda'', ''/aws/lambda/get''), (''list_iam_users'', ''/aws/iam/list_users''),
     (''list_iam_roles'', ''/aws/iam/list_roles''),
     (''get_cost_and_usage'', ''/aws/ce/get_cost_and_usage''),
     (''describe_rds_instances'', ''/aws/rds/describe_instances''),
     (''list_ecs_clusters'', ''/aws/ecs/list_clusters''),
     (''list_eks_clusters'', ''/aws/eks/list_clusters''),
     (''list_stacks'', ''/aws/cloudformation/list_stacks''),
     (''restart_instance'', ''/aws/ec2/restart_instance''),
     (''stop_instance'', ''/aws/ec2/stop_instance''),
     (''start_instance'', ''/aws/ec2/start_instance''),
     (''run_command_ec2'', ''/aws/ec2/run_command''), (''scale_asg'', ''/aws/asg/scale''),
     (''cordon_eks_node'', ''/aws/eks/cordon_node''), (''drain_eks_node'', ''/aws/eks/drain_node''),
     (''rotate_secret'', ''/aws/secretsmanager/rotate_secret''),
     (''invoke_lambda'', ''/aws/lambda/invoke''), (''redeploy_lambda'', ''/aws/lambda/redeploy''),
     (''restart_ecs_service'', ''/aws/ecs/restart_service''),
     (''create_stack'', ''/aws/cloudformation/create_stack''),
     (''update_stack'', ''/aws/cloudformation/update_stack''),
     (''trigger_codepipeline'', ''/aws/codepipeline/trigger''), (''ecr_push'', ''/aws/ecr/push''),
     (''ecr_tag'', ''/aws/ecr/tag''), (''update_lambda_function'', ''/aws/lambda/update_function''),
     (''get_object'', ''/aws/s3/get_object''), (''put_object'', ''/aws/s3/put_object''),
     (''dynamodb_query'', ''/aws/dynamodb/query''), (''dynamodb_scan'', ''/aws/dynamodb/scan''),
     (''athena_query'', ''/aws/athena/query''), (''redshift_query'', ''/aws/redshift/query''),
     (''terminate_instance'', ''/aws/ec2/terminate_instance''),
     (''delete_bucket'', ''/aws/s3/delete_bucket''), (''delete_object'', ''/aws/s3/delete_object''),
     (''delete_lambda'', ''/aws/lambda/delete''),
     (''delete_stack'', ''/aws/cloudformation/delete_stack''),
     (''delete_iam_user'', ''/aws/iam/delete_user''), (''delete_iam_role'', ''/aws/iam/delete_role''),
     (''raw_call'', ''/aws/raw_call'')]"

subsection \<open>gcp\<close>

definition gcp_READS :: "string list" where
  "gcp_READS =
     [''/gcp/projects/list'', ''/gcp/compute/instances_list'', ''/gcp/compute/instance_get'',
     ''/gcp/storage/buckets_list'', ''/gcp/storage/objects_list'', ''/gcp/monitoring/time_series'',
     ''/gcp/logging/list'', ''/gcp/iam/service_accounts_list'', ''/gcp/billing/cost_query'',
     ''/gcp/cloud_run/services_list'', ''/gcp/gke/clusters_list'', ''/gcp/cloudsql/instances_list'']"

definition gcp_OPS :: "string list" where
  "gcp_OPS =
     [''/gcp/compute/instance_reset'', ''/gcp/compute/instance_stop'', ''/gcp/compute/instance_start'',
     ''/gcp/gke/cordon_node'', ''/gcp/gke/drain_node'', ''/gcp/secret_manager/rotate'',
     ''/gcp/cloud_run/deploy'', ''/gcp/cloud_run/restart'', ''/gcp/cloud_functions/redeploy'']"

definition gcp_DEVOPS :: "string list" where
  "gcp_DEVOPS =
     [''/gcp/deployment_manager/create'', ''/gcp/cloud_build/trigger'',
     ''/gcp/artifact_registry/push'', ''/gcp/artifact_registry/tag'']"

definition gcp_DATA :: "string list" where
  "gcp_DATA =
     [''/gcp/storage/object_read'', ''/gcp/storage/object_write'', ''/gcp/bigquery/query'',
     ''/gcp/firestore/query'', ''/gcp/spanner/query'']"

definition gcp_DESTRUCTIVE :: "string list" where
  "gcp_DESTRUCTIVE =
     [''/gcp/compute/instance_delete'', ''/gcp/storage/bucket_delete'', ''/gcp/storage/object_delete'',
     ''/gcp/iam/service_account_delete'', ''/gcp/gke/cluster_delete'',
     ''/gcp/cloud_run/service_delete'']"

definition gcp_RAW_CALL :: string where
  "gcp_RAW_CALL = ''/gcp/raw_call''"

definition gcp_WRITES :: "string list" where
  "gcp_WRITES = gcp_OPS @ gcp_DEVOPS @ gcp_DATA"

definition gcp_DELETES :: "string list" where
  "gcp_DELETES = gcp_DESTRUCTIVE"

definition gcp_actions :: "string list" where
  "gcp_actions = gcp_READS @ gcp_OPS @ gcp_DEVOPS @ gcp_DATA @ gcp_DESTRUCTIVE @ [gcp_RAW_CALL]"

definition gcp_actionToCommand :: "(string \<times> string) list" where
  "gcp_actionToCommand =
     [(''list_projects'', ''/gcp/projects/list''),
     (''list_instances'', ''/gcp/compute/instances_list''),
     (''get_instance'', ''/gcp/compute/instance_get''),
     (''list_buckets'', ''/gcp/storage/buckets_list''),
     (''list_objects'', ''/gcp/storage/objects_list''),
     (''monitoring_time_series'', ''/gcp/monitoring/time_series''),
     (''list_logs'', ''/gcp/logging/list''),
     (''list_service_accounts'', ''/gcp/iam/service_accounts_list''),
     (''billing_cost_query'', ''/gcp/billing/cost_query''),
     (''list_cloud_run_services'', ''/gcp/cloud_run/services_list''),
     (''list_gke_clusters'', ''/gcp/gke/clusters_list''),
     (''list_cloudsql_instances'', ''/gcp/cloudsql/instances_list''),
     (''reset_instance'', ''/gcp/compute/instance_reset''),
     (''stop_instance'', ''/gcp/compute/instance_stop''),
     (''start_instance'', ''/gcp/compute/instance_start''),
     (''cordon_gke_node'', ''/gcp/gke/cordon_node''), (''drain_gke_node'', ''/gcp/gke/drain_node''),
     (''rotate_secret'', ''/gcp/secret_manager/rotate''),
     (''deploy_cloud_run'', ''/gcp/cloud_run/deploy''),
     (''restart_cloud_run'', ''/gcp/cloud_run/restart''),
     (''redeploy_cloud_function'', ''/gcp/cloud_functions/redeploy''),
     (''dm_create'', ''/gcp/deployment_manager/create''),
     (''cloud_build_trigger'', ''/gcp/cloud_build/trigger''),
     (''ar_push'', ''/gcp/artifact_registry/push''), (''ar_tag'', ''/gcp/artifact_registry/tag''),
     (''read_object'', ''/gcp/storage/object_read''),
     (''write_object'', ''/gcp/storage/object_write''), (''bigquery_query'', ''/gcp/bigquery/query''),
     (''firestore_query'', ''/gcp/firestore/query''), (''spanner_query'', ''/gcp/spanner/query''),
     (''delete_instance'', ''/gcp/compute/instance_delete''),
     (''delete_bucket'', ''/gcp/storage/bucket_delete''),
     (''delete_object'', ''/gcp/storage/object_delete''),
     (''delete_service_account'', ''/gcp/iam/service_account_delete''),
     (''delete_gke_cluster'', ''/gcp/gke/cluster_delete''),
     (''delete_cloud_run_service'', ''/gcp/cloud_run/service_delete''),
     (''raw_call'', ''/gcp/raw_call'')]"

end
