(* ===== verification/Pack_Schemas.thy ===== *)
theory Pack_Schemas
  imports Pack_Floors Pack_Actions
begin

text \<open>
  The hand-written schemas of the packs (packages/schema-packs/src/*/schemas.ts) and the action maps
  built from them. A call schema written with \<open>extend\<close> is the list of its members.
\<close>

subsection \<open>github\<close>

definition github_safePath :: schema where
  "github_safePath =
     s_safe_path"

definition github_apiCallBase :: shape where
  "github_apiCallBase =
     [(''method'', s_enum [''GET'', ''POST'', ''PATCH'', ''PUT'', ''DELETE'']), (''path'', github_safePath),
       (''query'', s_optional (s_record s_string)), (''body'', s_optional s_unknown), (''headers'',
       s_optional (s_record s_string))]"

definition github_githubResource :: shape where
  "github_githubResource =
     [(''repo'', s_optional s_string), (''owner'', s_optional s_string), (''repo_name'', s_optional s_string),
       (''issue_number'', s_optional (s_int (\<lambda>i. 0 < i))), (''name'', s_optional s_string)]"

definition github_getCall :: shape where
  "github_getCall =
     with_members github_apiCallBase [(''method'', s_literal ''GET'')]"

definition github_postCall :: shape where
  "github_postCall =
     with_members github_apiCallBase [(''method'', s_literal ''POST'')]"

definition github_patchCall :: shape where
  "github_patchCall =
     with_members github_apiCallBase [(''method'', s_literal ''PATCH'')]"

definition github_deleteCall :: shape where
  "github_deleteCall =
     with_members github_apiCallBase [(''method'', s_literal ''DELETE'')]"

definition github_issueCreateCall :: shape where
  "github_issueCreateCall =
     with_members github_postCall [(''body'', s_optional (s_object [(''title'', s_min1)]))]"

definition github_issueCommentCall :: shape where
  "github_issueCommentCall =
     with_members github_postCall [(''body'', s_optional (s_object [(''body'', s_min1)]))]"

definition github_issueCloseCall :: shape where
  "github_issueCloseCall =
     with_members github_patchCall [(''body'', s_optional (s_object [(''state'', s_literal ''closed'')]))]"

definition github_repoCreateCall :: shape where
  "github_repoCreateCall =
     with_members github_postCall [(''body'', s_optional (s_object [(''name'', s_min1)]))]"

definition github_githubActionSchemas :: "(string \<times> ActionSchemas) list" where
  "github_githubActionSchemas =
     [(''/github/user/read'', \<lparr>as_apiCallSchema = Some (s_object github_getCall),
        as_resourceSchema = Some (s_object github_githubResource)\<rparr>),
      (''/github/repo/list'', \<lparr>as_apiCallSchema = Some (s_object github_getCall),
        as_resourceSchema = Some (s_object github_githubResource)\<rparr>),
      (''/github/repo/create'', \<lparr>as_apiCallSchema = Some (s_object github_repoCreateCall),
        as_resourceSchema = Some (s_object github_githubResource)\<rparr>),
      (''/github/repo/delete'', \<lparr>as_apiCallSchema = Some (s_object github_deleteCall),
        as_resourceSchema = Some (s_object github_githubResource)\<rparr>),
      (''/github/issue/list'', \<lparr>as_apiCallSchema = Some (s_object github_getCall),
        as_resourceSchema = Some (s_object github_githubResource)\<rparr>),
      (''/github/issue/read'', \<lparr>as_apiCallSchema = Some (s_object github_getCall),
        as_resourceSchema = Some (s_object github_githubResource)\<rparr>),
      (''/github/issue/create'', \<lparr>as_apiCallSchema = Some (s_object github_issueCreateCall),
        as_resourceSchema = Some (s_object github_githubResource)\<rparr>),
      (''/github/issue/comment'', \<lparr>as_apiCallSchema = Some (s_object github_issueCommentCall),
        as_resourceSchema = Some (s_object github_githubResource)\<rparr>),
      (''/github/issue/close'', \<lparr>as_apiCallSchema = Some (s_object github_issueCloseCall),
        as_resourceSchema = Some (s_object github_githubResource)\<rparr>)]"

subsection \<open>slack\<close>

definition slack_safePath :: schema where
  "slack_safePath =
     s_safe_path"

definition slack_apiCallBase :: shape where
  "slack_apiCallBase =
     [(''method'', s_enum [''GET'', ''POST'', ''PATCH'', ''PUT'', ''DELETE'']), (''path'', slack_safePath),
       (''query'', s_optional (s_record s_string)), (''body'', s_optional s_unknown), (''headers'',
       s_optional (s_record s_string))]"

definition slack_slackResource :: shape where
  "slack_slackResource =
     [(''channel'', s_optional s_string), (''channel_id'', s_optional s_string), (''user_id'',
       s_optional s_string), (''thread_ts'', s_optional s_string)]"

definition slack_postCall :: shape where
  "slack_postCall =
     with_members slack_apiCallBase [(''method'', s_literal ''POST'')]"

definition slack_postMessageCall :: shape where
  "slack_postMessageCall =
     with_members slack_postCall [(''body'', s_optional (s_and (s_object [(''channel'',
       s_min1)]) (s_union [s_object [(''text'', s_min1)], s_object [(''blocks'',
       s_nonempty_array s_unknown)]])))]"

definition slack_deleteMessageCall :: shape where
  "slack_deleteMessageCall =
     with_members slack_postCall [(''body'', s_optional (s_object [(''channel'', s_min1), (''ts'', s_min1)]))]"

definition slack_updateMessageCall :: shape where
  "slack_updateMessageCall =
     with_members slack_postCall [(''body'', s_optional (s_and (s_object [(''channel'', s_min1), (''ts'',
       s_min1)]) (s_union [s_object [(''text'', s_min1)], s_object [(''blocks'',
       s_nonempty_array s_unknown)]])))]"

definition slack_reactionCall :: shape where
  "slack_reactionCall =
     with_members slack_postCall [(''body'', s_optional (s_object [(''channel'', s_min1), (''name'', s_min1),
       (''timestamp'', s_min1)]))]"

definition slack_scheduleMessageCall :: shape where
  "slack_scheduleMessageCall =
     with_members slack_postCall [(''body'', s_optional (s_and (s_object [(''channel'', s_min1), (''post_at'',
       s_union [s_int (\<lambda>i. 0 < i), s_min1])]) (s_union [s_object [(''text'', s_min1)],
       s_object [(''blocks'', s_nonempty_array s_unknown)]])))]"

definition slack_createChannelCall :: shape where
  "slack_createChannelCall =
     with_members slack_postCall [(''body'', s_optional (s_object [(''name'', s_min1)]))]"

definition slack_setTopicCall :: shape where
  "slack_setTopicCall =
     with_members slack_postCall [(''body'', s_optional (s_object [(''channel'', s_min1), (''topic'',
       s_string)]))]"

definition slack_openDmCall :: shape where
  "slack_openDmCall =
     with_members slack_postCall [(''body'',
       s_optional (s_and (s_object []) (s_union [s_field ''users'' s_string,
       s_field ''channel'' s_string])))]"

definition slack_uploadFileCall :: shape where
  "slack_uploadFileCall =
     with_members slack_postCall [(''body'',
       s_optional (s_and (s_object []) (s_union [s_field ''channels'' s_string,
       s_field ''channel_id'' s_string])))]"

definition slack_handCurated :: "(string \<times> ActionSchemas) list" where
  "slack_handCurated =
     [(''/slack/message/post'', \<lparr>as_apiCallSchema = Some (s_object slack_postMessageCall),
        as_resourceSchema = None\<rparr>),
      (''/slack/message/reply'', \<lparr>as_apiCallSchema = Some (s_object slack_postMessageCall),
        as_resourceSchema = None\<rparr>),
      (''/slack/message/delete'', \<lparr>as_apiCallSchema = Some (s_object slack_deleteMessageCall),
        as_resourceSchema = None\<rparr>),
      (''/slack/message/update'', \<lparr>as_apiCallSchema = Some (s_object slack_updateMessageCall),
        as_resourceSchema = None\<rparr>),
      (''/slack/message/react'', \<lparr>as_apiCallSchema = Some (s_object slack_reactionCall),
        as_resourceSchema = None\<rparr>),
      (''/slack/message/unreact'', \<lparr>as_apiCallSchema = Some (s_object slack_reactionCall),
        as_resourceSchema = None\<rparr>),
      (''/slack/message/schedule'', \<lparr>as_apiCallSchema = Some (s_object slack_scheduleMessageCall),
        as_resourceSchema = None\<rparr>),
      (''/slack/message/pin'',
        \<lparr>as_apiCallSchema = Some (s_object (with_members slack_postCall [(''body'',
        s_optional (s_object [(''channel'', s_min1), (''timestamp'', s_min1)]))])),
        as_resourceSchema = None\<rparr>),
      (''/slack/channel/create'', \<lparr>as_apiCallSchema = Some (s_object slack_createChannelCall),
        as_resourceSchema = None\<rparr>),
      (''/slack/channel/topic'', \<lparr>as_apiCallSchema = Some (s_object slack_setTopicCall),
        as_resourceSchema = None\<rparr>),
      (''/slack/channel/invite'',
        \<lparr>as_apiCallSchema = Some (s_object (with_members slack_postCall [(''body'',
        s_optional (s_object [(''channel'', s_min1), (''users'', s_min1)]))])),
        as_resourceSchema = None\<rparr>),
      (''/slack/dm/open'', \<lparr>as_apiCallSchema = Some (s_object slack_openDmCall),
        as_resourceSchema = None\<rparr>),
      (''/slack/file/upload'', \<lparr>as_apiCallSchema = Some (s_object slack_uploadFileCall),
        as_resourceSchema = None\<rparr>)]"

definition slack_slackActionSchemas :: "(string \<times> ActionSchemas) list" where
  "slack_slackActionSchemas =
     map (\<lambda>cmd. (cmd, (entry slack_handCurated cmd)\<lparr>as_resourceSchema := Some (s_object slack_slackResource)\<rparr>)) slack_actions"

subsection \<open>google\<close>

definition google_safePath :: schema where
  "google_safePath =
     s_safe_path"

definition google_apiCallBase :: shape where
  "google_apiCallBase =
     [(''method'', s_enum [''GET'', ''POST'', ''PATCH'', ''PUT'', ''DELETE'']), (''path'', google_safePath),
       (''query'', s_optional (s_record s_string)), (''body'', s_optional s_unknown), (''headers'',
       s_optional (s_record s_string))]"

definition google_googleDriveResource :: shape where
  "google_googleDriveResource =
     [(''file_id'', s_optional s_string), (''folder_id'', s_optional s_string), (''drive_id'',
       s_optional s_string), (''permission_id'', s_optional s_string)]"

definition google_sharePermissionCall :: shape where
  "google_sharePermissionCall =
     with_members google_apiCallBase [(''method'', s_literal ''POST''), (''body'',
       s_optional (s_object [(''type'', s_enum [''user'', ''group'', ''domain'', ''anyone'']), (''role'',
       s_enum [''reader'', ''commenter'', ''writer'', ''owner''])]))]"

definition google_googleDriveActionSchemas :: "(string \<times> ActionSchemas) list" where
  "google_googleDriveActionSchemas =
     [(''/google/drive/read'', \<lparr>as_apiCallSchema = None,
        as_resourceSchema = Some (s_object google_googleDriveResource)\<rparr>),
      (''/google/drive/list'', \<lparr>as_apiCallSchema = None,
        as_resourceSchema = Some (s_object google_googleDriveResource)\<rparr>),
      (''/google/drive/write'', \<lparr>as_apiCallSchema = None,
        as_resourceSchema = Some (s_object google_googleDriveResource)\<rparr>),
      (''/google/drive/update'', \<lparr>as_apiCallSchema = None,
        as_resourceSchema = Some (s_object google_googleDriveResource)\<rparr>),
      (''/google/drive/delete'', \<lparr>as_apiCallSchema = None,
        as_resourceSchema = Some (s_object google_googleDriveResource)\<rparr>),
      (''/google/drive/copy'', \<lparr>as_apiCallSchema = None,
        as_resourceSchema = Some (s_object google_googleDriveResource)\<rparr>),
      (''/google/drive/folder/create'', \<lparr>as_apiCallSchema = None,
        as_resourceSchema = Some (s_object google_googleDriveResource)\<rparr>),
      (''/google/drive/download'', \<lparr>as_apiCallSchema = None,
        as_resourceSchema = Some (s_object google_googleDriveResource)\<rparr>),
      (''/google/drive/export'', \<lparr>as_apiCallSchema = None,
        as_resourceSchema = Some (s_object google_googleDriveResource)\<rparr>),
      (''/google/drive/share'', \<lparr>as_apiCallSchema = Some (s_object google_sharePermissionCall),
        as_resourceSchema = Some (s_object google_googleDriveResource)\<rparr>),
      (''/google/drive/permission/list'', \<lparr>as_apiCallSchema = None,
        as_resourceSchema = Some (s_object google_googleDriveResource)\<rparr>),
      (''/google/drive/permission/delete'', \<lparr>as_apiCallSchema = None,
        as_resourceSchema = Some (s_object google_googleDriveResource)\<rparr>),
      (''/google/drive/revision/list'', \<lparr>as_apiCallSchema = None,
        as_resourceSchema = Some (s_object google_googleDriveResource)\<rparr>)]"

subsection \<open>google calendar\<close>

definition google_calendar_safePath :: schema where
  "google_calendar_safePath =
     s_safe_path"

definition google_calendar_apiCallBase :: shape where
  "google_calendar_apiCallBase =
     [(''method'', s_enum [''GET'', ''POST'', ''PATCH'', ''PUT'', ''DELETE'']), (''path'',
       google_calendar_safePath), (''query'', s_optional (s_record s_string)), (''body'',
       s_optional s_unknown), (''headers'', s_optional (s_record s_string))]"

definition google_calendar_googleCalendarResource :: shape where
  "google_calendar_googleCalendarResource =
     [(''calendar_id'', s_optional s_string), (''event_id'', s_optional s_string)]"

definition google_calendar_postCall :: shape where
  "google_calendar_postCall =
     with_members google_calendar_apiCallBase [(''method'', s_literal ''POST'')]"

definition google_calendar_patchCall :: shape where
  "google_calendar_patchCall =
     with_members google_calendar_apiCallBase [(''method'', s_literal ''PATCH'')]"

definition google_calendar_putCall :: shape where
  "google_calendar_putCall =
     with_members google_calendar_apiCallBase [(''method'', s_literal ''PUT'')]"

definition google_calendar_eventTimeSpec :: shape where
  "google_calendar_eventTimeSpec =
     []"

definition google_calendar_eventCreateCall :: shape where
  "google_calendar_eventCreateCall =
     with_members google_calendar_postCall [(''body'', s_optional (s_object [(''start'',
       s_object google_calendar_eventTimeSpec), (''end'', s_object google_calendar_eventTimeSpec)]))]"

definition google_calendar_eventUpdateCall :: shape where
  "google_calendar_eventUpdateCall =
     with_members google_calendar_patchCall [(''body'', s_optional (s_object []))]"

definition google_calendar_eventReplaceCall :: shape where
  "google_calendar_eventReplaceCall =
     with_members google_calendar_putCall [(''body'', s_optional (s_object [(''start'',
       s_object google_calendar_eventTimeSpec), (''end'', s_object google_calendar_eventTimeSpec)]))]"

definition google_calendar_quickAddCall :: shape where
  "google_calendar_quickAddCall =
     with_members google_calendar_postCall [(''query'', s_and (s_record s_string) (s_field ''text'' s_min1))]"

definition google_calendar_createCalendarCall :: shape where
  "google_calendar_createCalendarCall =
     with_members google_calendar_postCall [(''body'', s_optional (s_object [(''summary'', s_min1)]))]"

definition google_calendar_handCurated :: "(string \<times> ActionSchemas) list" where
  "google_calendar_handCurated =
     [(''/google/calendar/event/create'',
        \<lparr>as_apiCallSchema = Some (s_object google_calendar_eventCreateCall),
        as_resourceSchema = None\<rparr>),
      (''/google/calendar/event/update'',
        \<lparr>as_apiCallSchema = Some (s_union [s_object google_calendar_eventUpdateCall,
        s_object google_calendar_eventReplaceCall]), as_resourceSchema = None\<rparr>),
      (''/google/calendar/event/import'',
        \<lparr>as_apiCallSchema = Some (s_object google_calendar_eventCreateCall),
        as_resourceSchema = None\<rparr>),
      (''/google/calendar/event/quick_add'',
        \<lparr>as_apiCallSchema = Some (s_object google_calendar_quickAddCall),
        as_resourceSchema = None\<rparr>),
      (''/google/calendar/list/create'',
        \<lparr>as_apiCallSchema = Some (s_object google_calendar_createCalendarCall),
        as_resourceSchema = None\<rparr>)]"

definition google_calendar_googleCalendarActionSchemas :: "(string \<times> ActionSchemas) list" where
  "google_calendar_googleCalendarActionSchemas =
     map (\<lambda>cmd. (cmd, (entry google_calendar_handCurated cmd)\<lparr>as_resourceSchema := Some (s_object google_calendar_googleCalendarResource)\<rparr>)) google_calendar_actions"

subsection \<open>google gmail\<close>

definition google_gmail_googleGmailResource :: shape where
  "google_gmail_googleGmailResource =
     [(''user_id'', s_optional s_string), (''message_id'', s_optional s_string), (''thread_id'',
       s_optional s_string), (''label_id'', s_optional s_string)]"

definition google_gmail_ALL :: "string list" where
  "google_gmail_ALL =
     [''/google/gmail/message/list'', ''/google/gmail/message/read'', ''/google/gmail/message/send'',
     ''/google/gmail/message/modify'', ''/google/gmail/message/trash'', ''/google/gmail/thread/list'',
     ''/google/gmail/thread/read'', ''/google/gmail/label/list'', ''/google/gmail/draft/create'',
     ''/google/gmail/profile/read'']"

definition google_gmail_googleGmailActionSchemas :: "(string \<times> ActionSchemas) list" where
  "google_gmail_googleGmailActionSchemas =
     map (\<lambda>cmd. (cmd, no_schemas\<lparr>as_resourceSchema := Some (s_object google_gmail_googleGmailResource)\<rparr>)) google_gmail_ALL"

subsection \<open>google docs\<close>

definition google_docs_googleDocsResource :: shape where
  "google_docs_googleDocsResource =
     [(''document_id'', s_optional s_string)]"

definition google_docs_ALL :: "string list" where
  "google_docs_ALL =
     [''/google/docs/document/create'', ''/google/docs/document/read'',
     ''/google/docs/document/batch_update'', ''/google/docs/document/replace_text'']"

definition google_docs_googleDocsActionSchemas :: "(string \<times> ActionSchemas) list" where
  "google_docs_googleDocsActionSchemas =
     map (\<lambda>cmd. (cmd, no_schemas\<lparr>as_resourceSchema := Some (s_object google_docs_googleDocsResource)\<rparr>)) google_docs_ALL"

subsection \<open>google sheets\<close>

definition google_sheets_googleSheetsResource :: shape where
  "google_sheets_googleSheetsResource =
     [(''spreadsheet_id'', s_optional s_string), (''sheet_id'', s_optional s_string), (''range'',
       s_optional s_string)]"

definition google_sheets_ALL :: "string list" where
  "google_sheets_ALL =
     [''/google/sheets/spreadsheet/create'', ''/google/sheets/spreadsheet/read'',
     ''/google/sheets/values/read'', ''/google/sheets/values/update'',
     ''/google/sheets/values/append'', ''/google/sheets/spreadsheet/batch_update'']"

definition google_sheets_googleSheetsActionSchemas :: "(string \<times> ActionSchemas) list" where
  "google_sheets_googleSheetsActionSchemas =
     map (\<lambda>cmd. (cmd, no_schemas\<lparr>as_resourceSchema := Some (s_object google_sheets_googleSheetsResource)\<rparr>)) google_sheets_ALL"

subsection \<open>google tasks\<close>

definition google_tasks_googleTasksResource :: shape where
  "google_tasks_googleTasksResource =
     [(''tasklist_id'', s_optional s_string), (''task_id'', s_optional s_string)]"

definition google_tasks_ALL :: "string list" where
  "google_tasks_ALL =
     [''/google/tasks/tasklist/list'', ''/google/tasks/list'', ''/google/tasks/read'',
     ''/google/tasks/create'', ''/google/tasks/update'', ''/google/tasks/delete'']"

definition google_tasks_googleTasksActionSchemas :: "(string \<times> ActionSchemas) list" where
  "google_tasks_googleTasksActionSchemas =
     map (\<lambda>cmd. (cmd, no_schemas\<lparr>as_resourceSchema := Some (s_object google_tasks_googleTasksResource)\<rparr>)) google_tasks_ALL"

subsection \<open>google contacts\<close>

definition google_contacts_googleContactsResource :: shape where
  "google_contacts_googleContactsResource =
     [(''resource_name'', s_optional s_string)]"

definition google_contacts_ALL :: "string list" where
  "google_contacts_ALL =
     [''/google/contacts/list'', ''/google/contacts/search'', ''/google/contacts/read'']"

definition google_contacts_googleContactsActionSchemas :: "(string \<times> ActionSchemas) list" where
  "google_contacts_googleContactsActionSchemas =
     map (\<lambda>cmd. (cmd, no_schemas\<lparr>as_resourceSchema := Some (s_object google_contacts_googleContactsResource)\<rparr>)) google_contacts_ALL"

subsection \<open>notion\<close>

definition notion_safePath :: schema where
  "notion_safePath =
     s_safe_path"

definition notion_apiCallBase :: shape where
  "notion_apiCallBase =
     [(''method'', s_enum [''GET'', ''POST'', ''PATCH'', ''PUT'', ''DELETE'']), (''path'', notion_safePath),
       (''query'', s_optional (s_record s_string)), (''body'', s_optional s_unknown), (''headers'',
       s_optional (s_record s_string))]"

definition notion_notionResource :: shape where
  "notion_notionResource =
     [(''page_id'', s_optional s_string), (''database_id'', s_optional s_string), (''block_id'',
       s_optional s_string)]"

definition notion_postCall :: shape where
  "notion_postCall =
     with_members notion_apiCallBase [(''method'', s_literal ''POST'')]"

definition notion_patchCall :: shape where
  "notion_patchCall =
     with_members notion_apiCallBase [(''method'', s_literal ''PATCH'')]"

definition notion_createPageCall :: shape where
  "notion_createPageCall =
     with_members notion_postCall [(''body'', s_optional (s_object [(''parent'', s_record s_unknown),
       (''properties'', s_record s_unknown)]))]"

definition notion_queryDatabaseCall :: shape where
  "notion_queryDatabaseCall =
     with_members notion_postCall [(''body'', s_optional (s_record s_unknown))]"

definition notion_createDatabaseCall :: shape where
  "notion_createDatabaseCall =
     with_members notion_postCall [(''body'', s_optional (s_object [(''parent'', s_record s_unknown),
       (''title'', s_array s_unknown)]))]"

definition notion_appendChildrenCall :: shape where
  "notion_appendChildrenCall =
     with_members notion_patchCall [(''body'', s_optional (s_object [(''children'', s_array s_unknown)]))]"

definition notion_updateBlockCall :: shape where
  "notion_updateBlockCall =
     with_members notion_patchCall [(''body'', s_optional (s_object []))]"

definition notion_createCommentCall :: shape where
  "notion_createCommentCall =
     with_members notion_postCall [(''body'', s_optional (s_object [(''rich_text'', s_array s_unknown)]))]"

definition notion_handCurated :: "(string \<times> ActionSchemas) list" where
  "notion_handCurated =
     [(''/notion/page/create'', \<lparr>as_apiCallSchema = Some (s_object notion_createPageCall),
        as_resourceSchema = None\<rparr>),
      (''/notion/database/query'', \<lparr>as_apiCallSchema = Some (s_object notion_queryDatabaseCall),
        as_resourceSchema = None\<rparr>),
      (''/notion/database/create'', \<lparr>as_apiCallSchema = Some (s_object notion_createDatabaseCall),
        as_resourceSchema = None\<rparr>),
      (''/notion/block/append_children'',
        \<lparr>as_apiCallSchema = Some (s_object notion_appendChildrenCall),
        as_resourceSchema = None\<rparr>),
      (''/notion/block/update'', \<lparr>as_apiCallSchema = Some (s_object notion_updateBlockCall),
        as_resourceSchema = None\<rparr>),
      (''/notion/comment/create'', \<lparr>as_apiCallSchema = Some (s_object notion_createCommentCall),
        as_resourceSchema = None\<rparr>)]"

definition notion_notionActionSchemas :: "(string \<times> ActionSchemas) list" where
  "notion_notionActionSchemas =
     map (\<lambda>cmd. (cmd, (entry notion_handCurated cmd)\<lparr>as_resourceSchema := Some (s_object notion_notionResource)\<rparr>)) notion_actions"

subsection \<open>linear\<close>

definition linear_safePath :: schema where
  "linear_safePath =
     s_safe_path"

definition linear_linearResource :: shape where
  "linear_linearResource =
     [(''team_id'', s_optional s_string), (''project_id'', s_optional s_string), (''issue_id'',
       s_optional s_string)]"

definition linear_graphqlPath :: schema where
  "linear_graphqlPath =
     s_graphql_path"

definition linear_graphqlCall :: shape where
  "linear_graphqlCall =
     [(''method'', s_literal ''POST''), (''path'', linear_graphqlPath), (''query'',
       s_optional (s_record s_string)), (''body'', s_object [(''query'', s_min1), (''variables'',
       s_optional (s_record s_unknown)), (''operationName'', s_optional s_string)]), (''headers'',
       s_optional (s_record s_string))]"

definition linear_linearActionSchemas :: "(string \<times> ActionSchemas) list" where
  "linear_linearActionSchemas =
     map (\<lambda>cmd. (cmd, no_schemas\<lparr>as_apiCallSchema := Some (s_object linear_graphqlCall), as_resourceSchema := Some (s_object linear_linearResource)\<rparr>)) linear_actions"

subsection \<open>stripe\<close>

definition stripe_safePath :: schema where
  "stripe_safePath =
     s_safe_path"

definition stripe_apiCallBase :: shape where
  "stripe_apiCallBase =
     [(''method'', s_enum [''GET'', ''POST'', ''PATCH'', ''PUT'', ''DELETE'']), (''path'', stripe_safePath),
       (''query'', s_optional (s_record s_string)), (''body'', s_optional s_unknown), (''headers'',
       s_optional (s_record s_string))]"

definition stripe_stripeResource :: shape where
  "stripe_stripeResource =
     [(''customer_id'', s_optional s_string), (''customer'', s_optional s_string), (''payment_intent'',
       s_optional s_string), (''charge_id'', s_optional s_string), (''subscription_id'',
       s_optional s_string), (''invoice_id'', s_optional s_string)]"

definition stripe_postCall :: shape where
  "stripe_postCall =
     with_members stripe_apiCallBase [(''method'', s_literal ''POST'')]"

definition stripe_createInvoiceCall :: shape where
  "stripe_createInvoiceCall =
     with_members stripe_postCall [(''body'', s_optional (s_object [(''customer'', s_min1)]))]"

definition stripe_createPaymentIntentCall :: shape where
  "stripe_createPaymentIntentCall =
     with_members stripe_postCall [(''body'', s_optional (s_object [(''amount'', s_int (\<lambda>i. 0 < i)),
       (''currency'', s_min1)]))]"

definition stripe_createRefundCall :: shape where
  "stripe_createRefundCall =
     with_members stripe_postCall [(''body'',
       s_optional (s_and (s_object []) (s_union [s_field ''charge'' s_string,
       s_field ''payment_intent'' s_string])))]"

definition stripe_createSubscriptionCall :: shape where
  "stripe_createSubscriptionCall =
     with_members stripe_postCall [(''body'', s_optional (s_object [(''customer'', s_min1), (''items'',
       s_array s_unknown)]))]"

definition stripe_handCurated :: "(string \<times> ActionSchemas) list" where
  "stripe_handCurated =
     [(''/stripe/invoice/create'', \<lparr>as_apiCallSchema = Some (s_object stripe_createInvoiceCall),
        as_resourceSchema = None\<rparr>),
      (''/stripe/payment_intent/create'',
        \<lparr>as_apiCallSchema = Some (s_object stripe_createPaymentIntentCall),
        as_resourceSchema = None\<rparr>),
      (''/stripe/refund/create'', \<lparr>as_apiCallSchema = Some (s_object stripe_createRefundCall),
        as_resourceSchema = None\<rparr>),
      (''/stripe/subscription/create'',
        \<lparr>as_apiCallSchema = Some (s_object stripe_createSubscriptionCall),
        as_resourceSchema = None\<rparr>)]"

definition stripe_stripeActionSchemas :: "(string \<times> ActionSchemas) list" where
  "stripe_stripeActionSchemas =
     map (\<lambda>cmd. (cmd, (entry stripe_handCurated cmd)\<lparr>as_resourceSchema := Some (s_object stripe_stripeResource)\<rparr>)) stripe_actions"

subsection \<open>discord\<close>

definition discord_safePath :: schema where
  "discord_safePath =
     s_safe_path"

definition discord_apiCallBase :: shape where
  "discord_apiCallBase =
     [(''method'', s_enum [''GET'', ''POST'', ''PATCH'', ''PUT'', ''DELETE'']), (''path'', discord_safePath),
       (''query'', s_optional (s_record s_string)), (''body'', s_optional s_unknown), (''headers'',
       s_optional (s_record s_string))]"

definition discord_discordResource :: shape where
  "discord_discordResource =
     [(''guild_id'', s_optional s_string), (''channel_id'', s_optional s_string), (''message_id'',
       s_optional s_string), (''role_id'', s_optional s_string), (''user_id'', s_optional s_string)]"

definition discord_postCall :: shape where
  "discord_postCall =
     with_members discord_apiCallBase [(''method'', s_literal ''POST'')]"

definition discord_patchCall :: shape where
  "discord_patchCall =
     with_members discord_apiCallBase [(''method'', s_literal ''PATCH'')]"

definition discord_putCall :: shape where
  "discord_putCall =
     with_members discord_apiCallBase [(''method'', s_literal ''PUT'')]"

definition discord_createChannelCall :: shape where
  "discord_createChannelCall =
     with_members discord_postCall [(''body'', s_optional (s_object [(''name'',
       s_str (\<lambda>s. s \<noteq> [] \<and> utf16_length s \<le> 100)), (''type'',
       s_optional (s_union [s_number_literal 0, s_number_literal 2, s_number_literal 4,
       s_number_literal 5]))]))]"

definition discord_postMessageCall :: shape where
  "discord_postMessageCall =
     with_members discord_postCall [(''body'',
       s_optional (s_and (s_object []) (s_union [s_field ''content'' s_min1,
       s_field ''embeds'' (s_nonempty_array s_unknown),
       s_field ''components'' (s_nonempty_array s_unknown)])))]"

definition discord_createRoleCall :: shape where
  "discord_createRoleCall =
     with_members discord_postCall [(''body'', s_optional (s_object [(''name'',
       s_str (\<lambda>s. s \<noteq> [] \<and> utf16_length s \<le> 100))]))]"

definition discord_createInviteCall :: shape where
  "discord_createInviteCall =
     with_members discord_postCall [(''body'', s_optional (s_object [(''max_age'',
       s_optional (s_int (\<lambda>i. 0 \<le> i \<and> i \<le> 604800))), (''max_uses'',
       s_optional (s_int (\<lambda>i. 0 \<le> i \<and> i \<le> 100))), (''temporary'',
       s_optional s_boolean), (''unique'', s_optional s_boolean)]))]"

definition discord_createWebhookCall :: shape where
  "discord_createWebhookCall =
     with_members discord_postCall [(''body'', s_optional (s_object [(''name'',
       s_str (\<lambda>s. s \<noteq> [] \<and> utf16_length s \<le> 80))]))]"

definition discord_setPermissionsCall :: shape where
  "discord_setPermissionsCall =
     with_members discord_putCall [(''body'', s_optional (s_object [(''type'', s_union [s_number_literal 0,
       s_number_literal 1]), (''allow'', s_optional s_string), (''deny'', s_optional s_string)]))]"

definition discord_modifyChannelCall :: shape where
  "discord_modifyChannelCall =
     with_members discord_patchCall [(''body'',
       s_optional (s_and (s_object []) (s_union [s_field ''name'' s_string, s_field ''topic'' s_string,
       s_field ''position'' s_number, s_field ''parent_id'' s_string])))]"

definition discord_handCurated :: "(string \<times> ActionSchemas) list" where
  "discord_handCurated =
     [(''/discord/channel/create'', \<lparr>as_apiCallSchema = Some (s_object discord_createChannelCall),
        as_resourceSchema = None\<rparr>),
      (''/discord/channel/modify'', \<lparr>as_apiCallSchema = Some (s_object discord_modifyChannelCall),
        as_resourceSchema = None\<rparr>),
      (''/discord/channel/permissions'',
        \<lparr>as_apiCallSchema = Some (s_object discord_setPermissionsCall),
        as_resourceSchema = None\<rparr>),
      (''/discord/message/post'', \<lparr>as_apiCallSchema = Some (s_object discord_postMessageCall),
        as_resourceSchema = None\<rparr>),
      (''/discord/role/create'', \<lparr>as_apiCallSchema = Some (s_object discord_createRoleCall),
        as_resourceSchema = None\<rparr>),
      (''/discord/invite/create'', \<lparr>as_apiCallSchema = Some (s_object discord_createInviteCall),
        as_resourceSchema = None\<rparr>),
      (''/discord/webhook/create'', \<lparr>as_apiCallSchema = Some (s_object discord_createWebhookCall),
        as_resourceSchema = None\<rparr>)]"

definition discord_discordActionSchemas :: "(string \<times> ActionSchemas) list" where
  "discord_discordActionSchemas =
     map (\<lambda>cmd. (cmd, (entry discord_handCurated cmd)\<lparr>as_resourceSchema := Some (s_object discord_discordResource)\<rparr>)) discord_actions"

subsection \<open>filesystem\<close>

definition filesystem_safeFsPath :: schema where
  "filesystem_safeFsPath =
     s_safe_fs_path"

definition filesystem_fsResource :: shape where
  "filesystem_fsResource =
     [(''path'', s_optional filesystem_safeFsPath), (''extension'', s_optional s_string), (''type'',
       s_optional (s_enum [''file'', ''directory''])), (''destination'', s_optional filesystem_safeFsPath)]"

definition filesystem_readCall :: shape where
  "filesystem_readCall =
     [(''method'', s_literal ''GET''), (''path'', s_literal ''/file/read''), (''query'',
       s_optional (s_catchall [(''path'', filesystem_safeFsPath)] s_string)), (''body'',
       s_optional s_unknown), (''headers'', s_optional (s_record s_string))]"

definition filesystem_writeCall :: shape where
  "filesystem_writeCall =
     [(''method'', s_literal ''POST''), (''path'', s_literal ''/file/write''), (''query'',
       s_optional (s_record s_string)), (''body'', s_optional (s_object [(''path'', filesystem_safeFsPath),
       (''content'', s_string)])), (''headers'', s_optional (s_record s_string))]"

definition filesystem_createFileCall :: shape where
  "filesystem_createFileCall =
     [(''method'', s_literal ''POST''), (''path'', s_literal ''/file/create''), (''query'',
       s_optional (s_record s_string)), (''body'', s_optional (s_object [(''path'',
       filesystem_safeFsPath)])), (''headers'', s_optional (s_record s_string))]"

definition filesystem_deleteFileCall :: shape where
  "filesystem_deleteFileCall =
     [(''method'', s_literal ''DELETE''), (''path'', s_literal ''/file/delete''), (''query'',
       s_optional (s_record s_string)), (''body'', s_optional (s_object [(''path'',
       filesystem_safeFsPath)])), (''headers'', s_optional (s_record s_string))]"

definition filesystem_moveFileCall :: shape where
  "filesystem_moveFileCall =
     [(''method'', s_literal ''POST''), (''path'', s_literal ''/file/move''), (''query'',
       s_optional (s_record s_string)), (''body'', s_optional (s_object [(''path'', filesystem_safeFsPath),
       (''destination'', filesystem_safeFsPath)])), (''headers'', s_optional (s_record s_string))]"

definition filesystem_copyFileCall :: shape where
  "filesystem_copyFileCall =
     [(''method'', s_literal ''POST''), (''path'', s_literal ''/file/copy''), (''query'',
       s_optional (s_record s_string)), (''body'', s_optional (s_object [(''path'', filesystem_safeFsPath),
       (''destination'', filesystem_safeFsPath)])), (''headers'', s_optional (s_record s_string))]"

definition filesystem_listDirCall :: shape where
  "filesystem_listDirCall =
     [(''method'', s_literal ''GET''), (''path'', s_literal ''/dir/list''), (''query'',
       s_optional (s_catchall [(''path'', filesystem_safeFsPath)] s_string)), (''body'',
       s_optional s_unknown), (''headers'', s_optional (s_record s_string))]"

definition filesystem_treeDirCall :: shape where
  "filesystem_treeDirCall =
     [(''method'', s_literal ''GET''), (''path'', s_literal ''/dir/tree''), (''query'',
       s_optional (s_catchall [(''path'', filesystem_safeFsPath)] s_string)), (''body'',
       s_optional s_unknown), (''headers'', s_optional (s_record s_string))]"

definition filesystem_createDirCall :: shape where
  "filesystem_createDirCall =
     [(''method'', s_literal ''POST''), (''path'', s_literal ''/dir/create''), (''query'',
       s_optional (s_record s_string)), (''body'', s_optional (s_object [(''path'',
       filesystem_safeFsPath)])), (''headers'', s_optional (s_record s_string))]"

definition filesystem_deleteDirCall :: shape where
  "filesystem_deleteDirCall =
     [(''method'', s_literal ''DELETE''), (''path'', s_literal ''/dir/delete''), (''query'',
       s_optional (s_record s_string)), (''body'', s_optional (s_object [(''path'',
       filesystem_safeFsPath)])), (''headers'', s_optional (s_record s_string))]"

definition filesystem_deleteDirRecursiveCall :: shape where
  "filesystem_deleteDirRecursiveCall =
     [(''method'', s_literal ''DELETE''), (''path'', s_literal ''/dir/delete_recursive''), (''query'',
       s_optional (s_record s_string)), (''body'', s_optional (s_object [(''path'',
       filesystem_safeFsPath)])), (''headers'', s_optional (s_record s_string))]"

definition filesystem_filesystemActionSchemas :: "(string \<times> ActionSchemas) list" where
  "filesystem_filesystemActionSchemas =
     [(''/filesystem/file/read'', \<lparr>as_apiCallSchema = Some (s_object filesystem_readCall),
        as_resourceSchema = Some (s_object filesystem_fsResource)\<rparr>),
      (''/filesystem/file/write'', \<lparr>as_apiCallSchema = Some (s_object filesystem_writeCall),
        as_resourceSchema = Some (s_object filesystem_fsResource)\<rparr>),
      (''/filesystem/file/create'', \<lparr>as_apiCallSchema = Some (s_object filesystem_createFileCall),
        as_resourceSchema = Some (s_object filesystem_fsResource)\<rparr>),
      (''/filesystem/file/delete'', \<lparr>as_apiCallSchema = Some (s_object filesystem_deleteFileCall),
        as_resourceSchema = Some (s_object filesystem_fsResource)\<rparr>),
      (''/filesystem/file/move'', \<lparr>as_apiCallSchema = Some (s_object filesystem_moveFileCall),
        as_resourceSchema = Some (s_object filesystem_fsResource)\<rparr>),
      (''/filesystem/file/copy'', \<lparr>as_apiCallSchema = Some (s_object filesystem_copyFileCall),
        as_resourceSchema = Some (s_object filesystem_fsResource)\<rparr>),
      (''/filesystem/dir/list'', \<lparr>as_apiCallSchema = Some (s_object filesystem_listDirCall),
        as_resourceSchema = Some (s_object filesystem_fsResource)\<rparr>),
      (''/filesystem/dir/tree'', \<lparr>as_apiCallSchema = Some (s_object filesystem_treeDirCall),
        as_resourceSchema = Some (s_object filesystem_fsResource)\<rparr>),
      (''/filesystem/dir/create'', \<lparr>as_apiCallSchema = Some (s_object filesystem_createDirCall),
        as_resourceSchema = Some (s_object filesystem_fsResource)\<rparr>),
      (''/filesystem/dir/delete'', \<lparr>as_apiCallSchema = Some (s_object filesystem_deleteDirCall),
        as_resourceSchema = Some (s_object filesystem_fsResource)\<rparr>),
      (''/filesystem/dir/delete_recursive'',
        \<lparr>as_apiCallSchema = Some (s_object filesystem_deleteDirRecursiveCall),
        as_resourceSchema = Some (s_object filesystem_fsResource)\<rparr>)]"

subsection \<open>ssh\<close>

definition ssh_safePath :: schema where
  "ssh_safePath = s_safe_fs_path"

definition ssh_sshResource :: shape where
  "ssh_sshResource =
     [(''host'', s_optional s_string), (''path'', s_optional ssh_safePath),
      (''type'', s_optional (s_enum [''file'', ''directory''])), (''destination'', s_optional ssh_safePath)]"

definition sshGetCall :: "string \<Rightarrow> schema" where
  "sshGetCall opPath =
     s_object [(''method'', s_literal ''GET''), (''path'', s_literal opPath),
       (''query'', s_optional (s_catchall [(''host'', s_min1), (''username'', s_min1), (''path'', ssh_safePath)] s_string)),
       (''body'', s_optional s_unknown), (''headers'', s_optional (s_record s_string))]"

definition sshPostCall :: "string \<Rightarrow> shape \<Rightarrow> schema" where
  "sshPostCall opPath extraBody =
     s_object [(''method'', s_literal ''POST''), (''path'', s_literal opPath),
       (''query'', s_optional (s_record s_string)),
       (''body'', s_optional (s_object ([(''host'', s_min1), (''username'', s_min1)] @ extraBody))),
       (''headers'', s_optional (s_record s_string))]"

definition sshDeleteCall :: "string \<Rightarrow> schema" where
  "sshDeleteCall opPath =
     s_object [(''method'', s_literal ''DELETE''), (''path'', s_literal opPath),
       (''query'', s_optional (s_record s_string)),
       (''body'', s_optional (s_object [(''host'', s_min1), (''username'', s_min1), (''path'', ssh_safePath)])),
       (''headers'', s_optional (s_record s_string))]"

definition ssh_entry :: "string \<Rightarrow> schema \<Rightarrow> string \<times> ActionSchemas" where
  "ssh_entry cmd S = (cmd, \<lparr>as_apiCallSchema = Some S, as_resourceSchema = Some (s_object ssh_sshResource)\<rparr>)"

definition ssh_sshActionSchemas :: "(string \<times> ActionSchemas) list" where
  "ssh_sshActionSchemas =
     [ssh_entry ''/ssh/file/read'' (sshGetCall ''/file/read''),
      ssh_entry ''/ssh/file/write'' (sshPostCall ''/file/write'' [(''path'', ssh_safePath), (''content'', s_string)]),
      ssh_entry ''/ssh/file/create'' (sshPostCall ''/file/create'' [(''path'', ssh_safePath)]),
      ssh_entry ''/ssh/file/delete'' (sshDeleteCall ''/file/delete''),
      ssh_entry ''/ssh/file/move'' (sshPostCall ''/file/move'' [(''path'', ssh_safePath), (''destination'', ssh_safePath)]),
      ssh_entry ''/ssh/file/copy'' (sshPostCall ''/file/copy'' [(''path'', ssh_safePath), (''destination'', ssh_safePath)]),
      ssh_entry ''/ssh/dir/list'' (sshGetCall ''/dir/list''),
      ssh_entry ''/ssh/dir/tree'' (sshGetCall ''/dir/tree''),
      ssh_entry ''/ssh/dir/create'' (sshPostCall ''/dir/create'' [(''path'', ssh_safePath)]),
      ssh_entry ''/ssh/dir/delete'' (sshDeleteCall ''/dir/delete''),
      ssh_entry ''/ssh/dir/delete_recursive'' (sshDeleteCall ''/dir/delete_recursive''),
      ssh_entry ''/ssh/exec'' (sshPostCall ''/exec'' [(''command'', s_min1)])]"

subsection \<open>azure\<close>

definition cloud_methods :: schema where
  "cloud_methods = s_enum [''GET'', ''POST'', ''PATCH'', ''PUT'', ''DELETE'']"

definition azure_apiCallBase :: shape where
  "azure_apiCallBase =
     [(''method'', cloud_methods), (''path'', s_safe_path), (''query'', s_optional (s_record s_string)),
      (''body'', s_optional s_unknown), (''headers'', s_optional (s_record s_string))]"

definition azure_api_version :: schema where
  "azure_api_version = s_object [(''api-version'', s_min1)]"

definition azure_armRead :: shape where
  "azure_armRead = with_members azure_apiCallBase [(''method'', s_literal ''GET''), (''query'', azure_api_version)]"

definition azure_armWrite :: shape where
  "azure_armWrite =
     with_members azure_apiCallBase [(''method'', s_enum [''POST'', ''PATCH'', ''PUT'']), (''query'', azure_api_version)]"

definition azure_armDelete :: shape where
  "azure_armDelete = with_members azure_apiCallBase [(''method'', s_literal ''DELETE''), (''query'', azure_api_version)]"

definition azure_dataPlane :: shape where
  "azure_dataPlane = azure_apiCallBase"

definition azure_azureResource :: shape where
  "azure_azureResource =
     [(''subscription_id'', s_optional s_string), (''resource_group'', s_optional s_string),
      (''name'', s_optional s_string), (''resource_type'', s_optional s_string)]"

definition rawCallResource :: shape where
  "rawCallResource =
     [(''method'', s_optional s_string), (''host'', s_optional s_string), (''path'', s_optional s_string),
      (''path_prefix'', s_optional s_string)]"

definition cloud_entry :: "shape \<Rightarrow> shape \<Rightarrow> ActionSchemas" where
  "cloud_entry call res =
     \<lparr>as_apiCallSchema = Some (s_object call), as_resourceSchema = Some (s_object res)\<rparr>"

definition azure_customSchemas :: "(string \<times> ActionSchemas) list" where
  "azure_customSchemas =
     [(azure_RAW_CALL, cloud_entry azure_apiCallBase rawCallResource),
      (''/azure/rbac/create_role_assignment'',
        cloud_entry (with_members azure_armWrite [(''body'', s_object [(''properties'', s_object
          [(''roleDefinitionId'', s_min1), (''principalId'', s_min1), (''principalType'', s_optional s_string)])])])
          azure_azureResource),
      (''/azure/nsgs/add_rule'',
        cloud_entry (with_members azure_armWrite [(''body'', s_object [(''properties'', s_object
          [(''access'', s_enum [''Allow'', ''Deny'']), (''direction'', s_enum [''Inbound'', ''Outbound'']),
           (''priority'', s_int (\<lambda>i. 100 \<le> i \<and> i \<le> 4096)), (''protocol'', s_min1)])])])
          azure_azureResource),
      (''/azure/cosmos/query'',
        cloud_entry (with_members azure_dataPlane [(''method'', s_literal ''POST''), (''body'', s_object [(''query'', s_min1)])])
          azure_azureResource),
      (''/azure/log_analytics/kql'',
        cloud_entry (with_members azure_dataPlane [(''method'', s_literal ''POST''), (''body'', s_object [(''query'', s_min1)])])
          azure_azureResource)]"

text \<open>\<open>out[command] = ...\<close>: the last assignment of a command wins.\<close>

definition azure_add :: "shape \<Rightarrow> string list \<Rightarrow> (string \<times> ActionSchemas) list" where
  "azure_add call cmds =
     map (\<lambda>c. (c, case map_of azure_customSchemas c of Some s \<Rightarrow> s | None \<Rightarrow> cloud_entry call azure_azureResource)) cmds"

definition azure_azureActionSchemas :: "(string \<times> ActionSchemas) list" where
  "azure_azureActionSchemas =
     rev (azure_add azure_armRead azure_READS @ azure_add azure_armWrite azure_OPS @
          azure_add azure_armWrite azure_DEVOPS @ azure_add azure_dataPlane azure_DATA @
          azure_add azure_armDelete azure_DESTRUCTIVE @ [(azure_RAW_CALL, entry azure_customSchemas azure_RAW_CALL)])"

subsection \<open>aws\<close>

definition cloud_apiCallBase :: shape where
  "cloud_apiCallBase =
     [(''method'', cloud_methods), (''path'', s_min1), (''query'', s_optional (s_record s_string)),
      (''body'', s_optional s_unknown), (''headers'', s_optional (s_record s_string))]"

definition cloud_read :: shape where
  "cloud_read = with_members cloud_apiCallBase [(''method'', s_enum [''GET'', ''POST''])]"

definition cloud_write :: shape where
  "cloud_write = with_members cloud_apiCallBase [(''method'', s_enum [''POST'', ''PATCH'', ''PUT''])]"

definition aws_deleteCall :: shape where
  "aws_deleteCall = with_members cloud_apiCallBase [(''method'', s_enum [''DELETE'', ''POST''])]"

definition aws_awsResource :: shape where
  "aws_awsResource =
     [(''account_id'', s_optional s_string), (''region'', s_optional s_string), (''arn'', s_optional s_string),
      (''service'', s_optional s_string), (''name'', s_optional s_string)]"

definition aws_schema_read :: "string list" where
  "aws_schema_read =
     [''/aws/ec2/list_instances'', ''/aws/ec2/describe_instance'', ''/aws/s3/list_buckets'',
     ''/aws/s3/list_objects'', ''/aws/cloudwatch/get_metric'', ''/aws/cloudwatch/get_logs'',
     ''/aws/lambda/list'', ''/aws/lambda/get'', ''/aws/iam/list_users'', ''/aws/iam/list_roles'',
     ''/aws/ce/get_cost_and_usage'', ''/aws/rds/describe_instances'', ''/aws/ecs/list_clusters'',
     ''/aws/eks/list_clusters'', ''/aws/cloudformation/list_stacks'']"

definition aws_schema_write :: "string list" where
  "aws_schema_write =
     [''/aws/ec2/restart_instance'', ''/aws/ec2/stop_instance'', ''/aws/ec2/start_instance'',
     ''/aws/ec2/run_command'', ''/aws/asg/scale'', ''/aws/eks/cordon_node'', ''/aws/eks/drain_node'',
     ''/aws/secretsmanager/rotate_secret'', ''/aws/lambda/invoke'', ''/aws/lambda/redeploy'',
     ''/aws/ecs/restart_service'', ''/aws/cloudformation/create_stack'',
     ''/aws/cloudformation/update_stack'', ''/aws/codepipeline/trigger'', ''/aws/ecr/push'',
     ''/aws/ecr/tag'', ''/aws/lambda/update_function'', ''/aws/s3/put_object'',
     ''/aws/dynamodb/query'', ''/aws/dynamodb/scan'', ''/aws/athena/query'', ''/aws/redshift/query'']"

definition aws_schema_delete :: "string list" where
  "aws_schema_delete =
     [''/aws/ec2/terminate_instance'', ''/aws/s3/delete_bucket'', ''/aws/s3/delete_object'',
     ''/aws/lambda/delete'', ''/aws/cloudformation/delete_stack'', ''/aws/iam/delete_user'',
     ''/aws/iam/delete_role'']"

definition aws_awsActionSchemas :: "(string \<times> ActionSchemas) list" where
  "aws_awsActionSchemas =
     map (\<lambda>c. (c, cloud_entry cloud_read aws_awsResource)) aws_schema_read @
     map (\<lambda>c. (c, cloud_entry cloud_write aws_awsResource)) aws_schema_write @
     [(''/aws/s3/get_object'', cloud_entry cloud_read aws_awsResource)] @
     map (\<lambda>c. (c, cloud_entry aws_deleteCall aws_awsResource)) aws_schema_delete @
     [(''/aws/raw_call'', cloud_entry cloud_apiCallBase rawCallResource)]"

subsection \<open>gcp\<close>

definition gcp_deleteCall :: shape where
  "gcp_deleteCall = with_members cloud_apiCallBase [(''method'', s_literal ''DELETE'')]"

definition gcp_gcpResource :: shape where
  "gcp_gcpResource =
     [(''project_id'', s_optional s_string), (''region'', s_optional s_string), (''zone'', s_optional s_string),
      (''name'', s_optional s_string)]"

definition gcp_schema_read :: "string list" where
  "gcp_schema_read =
     [''/gcp/projects/list'', ''/gcp/compute/instances_list'', ''/gcp/compute/instance_get'',
     ''/gcp/storage/buckets_list'', ''/gcp/storage/objects_list'', ''/gcp/monitoring/time_series'',
     ''/gcp/logging/list'', ''/gcp/iam/service_accounts_list'', ''/gcp/billing/cost_query'',
     ''/gcp/cloud_run/services_list'', ''/gcp/gke/clusters_list'', ''/gcp/cloudsql/instances_list'',
     ''/gcp/storage/object_read'']"

definition gcp_schema_write :: "string list" where
  "gcp_schema_write =
     [''/gcp/compute/instance_reset'', ''/gcp/compute/instance_stop'', ''/gcp/compute/instance_start'',
     ''/gcp/gke/cordon_node'', ''/gcp/gke/drain_node'', ''/gcp/secret_manager/rotate'',
     ''/gcp/cloud_run/deploy'', ''/gcp/cloud_run/restart'', ''/gcp/cloud_functions/redeploy'',
     ''/gcp/deployment_manager/create'', ''/gcp/cloud_build/trigger'', ''/gcp/artifact_registry/push'',
     ''/gcp/artifact_registry/tag'', ''/gcp/storage/object_write'', ''/gcp/bigquery/query'',
     ''/gcp/firestore/query'', ''/gcp/spanner/query'']"

definition gcp_schema_delete :: "string list" where
  "gcp_schema_delete =
     [''/gcp/compute/instance_delete'', ''/gcp/storage/bucket_delete'', ''/gcp/storage/object_delete'',
     ''/gcp/iam/service_account_delete'', ''/gcp/gke/cluster_delete'',
     ''/gcp/cloud_run/service_delete'']"

definition gcp_gcpActionSchemas :: "(string \<times> ActionSchemas) list" where
  "gcp_gcpActionSchemas =
     map (\<lambda>c. (c, cloud_entry cloud_read gcp_gcpResource)) gcp_schema_read @
     map (\<lambda>c. (c, cloud_entry cloud_write gcp_gcpResource)) gcp_schema_write @
     map (\<lambda>c. (c, cloud_entry gcp_deleteCall gcp_gcpResource)) gcp_schema_delete @
     [(''/gcp/raw_call'', cloud_entry cloud_apiCallBase rawCallResource)]"

end
