(* ===== verification/Packs.thy ===== *)
theory Packs
  imports Pack_Paths Pack_Schemas
begin

text \<open>
  packages/schema-packs/src/index.ts and types.ts: the registry of packs, command admission, the pack a
  command belongs to, the validation of the proxied call and of the declared resource, and the check of
  the declared resource against the target of the call. Templates are left out.
\<close>

record IntegrationPack =
  pk_id :: string
  pk_actions :: "string list"
  pk_actionSchemas :: "(string \<times> ActionSchemas) list"
  pk_extractResourceFromApiCall :: "(ApiCall \<Rightarrow> (exn, obj option) result) option"

definition override_schemas :: "ActionSchemas \<Rightarrow> ActionSchemas \<Rightarrow> ActionSchemas" where
  "override_schemas b s =
     \<lparr>as_apiCallSchema = (case as_apiCallSchema s of None \<Rightarrow> as_apiCallSchema b | Some c \<Rightarrow> Some c),
      as_resourceSchema = (case as_resourceSchema s of None \<Rightarrow> as_resourceSchema b | Some c \<Rightarrow> Some c)\<rparr>"

definition mergeActionSchemas ::
  "(string \<times> ActionSchemas) list \<Rightarrow> (string \<times> ActionSchemas) list \<Rightarrow> (string \<times> ActionSchemas) list" where
  "mergeActionSchemas base over =
     map (\<lambda>k. (k, override_schemas (entry base k) (entry over k))) (remdups (map fst base @ map fst over))"

definition floor_schemas :: "(string \<times> schema) list \<Rightarrow> (string \<times> ActionSchemas) list" where
  "floor_schemas fl = map (\<lambda>(k, S). (k, \<lparr>as_apiCallSchema = Some S, as_resourceSchema = None\<rparr>)) fl"

definition pure_extract :: "(ApiCall \<Rightarrow> obj option) \<Rightarrow> ApiCall \<Rightarrow> (exn, obj option) result" where
  "pure_extract f call = Inr (f call)"

definition make_pack ::
  "string \<Rightarrow> string list \<Rightarrow> (string \<times> schema) list \<Rightarrow> (string \<times> ActionSchemas) list \<Rightarrow>
   (ApiCall \<Rightarrow> (exn, obj option) result) \<Rightarrow> IntegrationPack" where
  "make_pack i acts fl curated f =
     \<lparr>pk_id = i, pk_actions = acts, pk_actionSchemas = mergeActionSchemas (floor_schemas fl) curated,
      pk_extractResourceFromApiCall = Some f\<rparr>"

definition cloud_pack :: "string \<Rightarrow> string list \<Rightarrow> (string \<times> ActionSchemas) list \<Rightarrow> IntegrationPack" where
  "cloud_pack i acts schemas =
     \<lparr>pk_id = i, pk_actions = acts, pk_actionSchemas = schemas, pk_extractResourceFromApiCall = None\<rparr>"

definition githubPack :: "(string \<Rightarrow> jsnum) \<Rightarrow> IntegrationPack" where
  "githubPack nd = make_pack ''github'' github_actions github_floor github_githubActionSchemas
     (pure_extract (extract_github nd))"

definition slackPack :: IntegrationPack where
  "slackPack = make_pack ''slack'' slack_actions slack_floor slack_slackActionSchemas (pure_extract extract_slack)"

definition googlePack :: IntegrationPack where
  "googlePack = make_pack ''google'' google_actions google_floor google_googleDriveActionSchemas
     (pure_extract extract_google_drive)"

definition googleCalendarPack :: IntegrationPack where
  "googleCalendarPack = make_pack ''google_calendar'' google_calendar_actions google_calendar_floor
     google_calendar_googleCalendarActionSchemas (pure_extract extract_google_calendar)"

definition googleGmailPack :: IntegrationPack where
  "googleGmailPack = make_pack ''google_gmail'' google_gmail_actions google_gmail_floor
     google_gmail_googleGmailActionSchemas (pure_extract extract_google_gmail)"

definition googleDocsPack :: IntegrationPack where
  "googleDocsPack = make_pack ''google_docs'' google_docs_actions google_docs_floor
     google_docs_googleDocsActionSchemas (pure_extract extract_google_docs)"

definition googleSheetsPack :: IntegrationPack where
  "googleSheetsPack = make_pack ''google_sheets'' google_sheets_actions google_sheets_floor
     google_sheets_googleSheetsActionSchemas extract_google_sheets"

definition googleTasksPack :: IntegrationPack where
  "googleTasksPack = make_pack ''google_tasks'' google_tasks_actions google_tasks_floor
     google_tasks_googleTasksActionSchemas (pure_extract extract_google_tasks)"

definition googleContactsPack :: IntegrationPack where
  "googleContactsPack = make_pack ''google_contacts'' google_contacts_actions google_contacts_floor
     google_contacts_googleContactsActionSchemas (pure_extract extract_google_contacts)"

definition notionPack :: IntegrationPack where
  "notionPack = make_pack ''notion'' notion_actions notion_floor notion_notionActionSchemas (pure_extract extract_notion)"

definition linearPack :: IntegrationPack where
  "linearPack = make_pack ''linear'' linear_actions linear_floor linear_linearActionSchemas (pure_extract extract_linear)"

definition stripePack :: IntegrationPack where
  "stripePack = make_pack ''stripe'' stripe_actions stripe_floor stripe_stripeActionSchemas (pure_extract extract_stripe)"

definition discordPack :: IntegrationPack where
  "discordPack = make_pack ''discord'' discord_actions discord_floor discord_discordActionSchemas
     (pure_extract extract_discord)"

definition filesystemPack :: IntegrationPack where
  "filesystemPack = make_pack ''filesystem'' filesystem_actions [] filesystem_filesystemActionSchemas extract_filesystem"

definition sshPack :: IntegrationPack where
  "sshPack = make_pack ''ssh'' ssh_actions [] ssh_sshActionSchemas (pure_extract extract_ssh)"

definition azurePack :: IntegrationPack where
  "azurePack = cloud_pack ''azure'' azure_actions azure_azureActionSchemas"

definition awsPack :: IntegrationPack where
  "awsPack = cloud_pack ''aws'' aws_actions aws_awsActionSchemas"

definition gcpPack :: IntegrationPack where
  "gcpPack = cloud_pack ''gcp'' gcp_actions gcp_gcpActionSchemas"

subsection \<open>index.ts\<close>

definition PACKS :: "(string \<Rightarrow> jsnum) \<Rightarrow> IntegrationPack list" where
  "PACKS nd =
     [githubPack nd, slackPack, googlePack, googleCalendarPack, googleGmailPack, googleDocsPack, googleSheetsPack,
      googleTasksPack, googleContactsPack, notionPack, linearPack, stripePack, discordPack, filesystemPack, sshPack,
      azurePack, awsPack, gcpPack]"

definition actionsFor :: "IntegrationPack list \<Rightarrow> string \<Rightarrow> string list" where
  "actionsFor packs i = (case List.find (\<lambda>p. pk_id p = i) packs of None \<Rightarrow> [] | Some p \<Rightarrow> pk_actions p)"

definition KNOWN_COMMANDS :: "IntegrationPack list \<Rightarrow> string list" where
  "KNOWN_COMMANDS packs = concat (map (\<lambda>p. actionsFor packs (pk_id p)) packs)"

definition KNOWN_INTEGRATIONS :: "IntegrationPack list \<Rightarrow> string list" where
  "KNOWN_INTEGRATIONS packs = map pk_id packs"

definition isKnownCommand :: "IntegrationPack list \<Rightarrow> string \<Rightarrow> bool" where
  "isKnownCommand packs command =
     (if command \<in> set (KNOWN_COMMANDS packs) then True
      else case split_on CHR ''/'' command of
          _ # s # _ \<Rightarrow> s \<noteq> [] \<and> s \<notin> set (KNOWN_INTEGRATIONS packs)
        | _ \<Rightarrow> False)"

fun longest_match :: "IntegrationPack list \<Rightarrow> string list \<Rightarrow> nat \<Rightarrow> IntegrationPack option" where
  "longest_match packs segs 0 = None"
| "longest_match packs segs (Suc n) =
     (case List.find (\<lambda>p. pk_id p = join ''_'' (take (Suc n) segs)) packs of
        Some p \<Rightarrow> Some p
      | None \<Rightarrow> longest_match packs segs n)"

definition packForCommand :: "IntegrationPack list \<Rightarrow> string \<Rightarrow> IntegrationPack option" where
  "packForCommand packs command =
     (let segs = filter_Boolean (split_on CHR ''/'' command)
      in if segs = [] then None else longest_match packs segs (min (length segs) 4))"

datatype ValidateResult = VOk | Schema_missing | Schema_violation

definition validateApiCall :: "IntegrationPack list \<Rightarrow> string \<Rightarrow> json \<Rightarrow> ValidateResult" where
  "validateApiCall packs command apiCall =
     (case packForCommand packs command of
        None \<Rightarrow> VOk
      | Some pack \<Rightarrow>
          (case as_apiCallSchema (entry (pk_actionSchemas pack) command) of
             None \<Rightarrow> if command \<in> set (pk_actions pack) then Schema_missing else VOk
           | Some S \<Rightarrow> if S apiCall then VOk else Schema_violation))"

definition validateResource :: "IntegrationPack list \<Rightarrow> string \<Rightarrow> json \<Rightarrow> ValidateResult" where
  "validateResource packs command resource =
     (case packForCommand packs command of
        None \<Rightarrow> VOk
      | Some pack \<Rightarrow>
          (case as_resourceSchema (entry (pk_actionSchemas pack) command) of
             None \<Rightarrow> VOk
           | Some S \<Rightarrow> if S resource then VOk else Schema_violation))"

datatype ConsistencyResult = ConsistencyOk | Resource_mismatch string json json

definition COMPARED_KEYS :: "string list" where
  "COMPARED_KEYS =
     [''owner'', ''repo'', ''repo_name'', ''issue_number'', ''pull_number'', ''channel'', ''channel_id'', ''user_id'',
      ''thread_ts'', ''page_id'', ''database_id'', ''block_id'', ''file_id'', ''folder_id'', ''drive_id'',
      ''permission_id'', ''message_id'', ''thread_id'', ''label_id'', ''calendar_id'', ''event_id'', ''document_id'',
      ''spreadsheet_id'', ''sheet_id'', ''range'', ''tasklist_id'', ''task_id'', ''resource_name'', ''customer_id'',
      ''payment_intent'', ''charge_id'', ''subscription_id'', ''invoice_id'', ''team_id'', ''project_id'', ''issue_id'',
      ''path'', ''host'', ''guild_id'', ''role_id'']"

text \<open>\<open>===\<close> on two values of different origin: primitives by value, objects never.\<close>

definition strict_equal :: "json \<Rightarrow> json \<Rightarrow> bool" where
  "strict_equal v w \<longleftrightarrow> v = w \<and> (case v of JObj ob \<Rightarrow> False | JArr vs \<Rightarrow> False | _ \<Rightarrow> True)"

fun first_mismatch :: "obj \<Rightarrow> obj \<Rightarrow> string list \<Rightarrow> ConsistencyResult" where
  "first_mismatch declared effective [] = ConsistencyOk"
| "first_mismatch declared effective (k # ks) =
     (let eff = jget effective k; dec = jget declared k
      in if eff = JUndef then first_mismatch declared effective ks
         else if dec = JUndef then first_mismatch declared effective ks
         else if \<not> strict_equal dec eff then Resource_mismatch k dec eff
         else first_mismatch declared effective ks)"

definition validateResourceConsistency ::
  "IntegrationPack list \<Rightarrow> string \<Rightarrow> obj \<Rightarrow> ApiCall \<Rightarrow> (exn, ConsistencyResult) result" where
  "validateResourceConsistency packs command declared apiCall =
     (case Option.bind (packForCommand packs command) pk_extractResourceFromApiCall of
        None \<Rightarrow> Inr ConsistencyOk
      | Some extract \<Rightarrow>
          rbind (extract apiCall) (\<lambda>effective.
            case effective of
              None \<Rightarrow> Inr ConsistencyOk
            | Some ob \<Rightarrow> Inr (first_mismatch declared ob COMPARED_KEYS)))"

lemma first_mismatch_ok:
  "first_mismatch declared effective ks = ConsistencyOk \<longleftrightarrow>
     (\<forall>k \<in> set ks. jget effective k = JUndef \<or> jget declared k = JUndef \<or> strict_equal (jget declared k) (jget effective k))"
  by (induction ks) (auto simp: Let_def)

lemma longest_match_Some:
  assumes "longest_match packs segs n = Some p"
  obtains k where "0 < k" "k \<le> n" "pk_id p = join ''_'' (take k segs)" "p \<in> set packs"
    "\<forall>j. k < j \<and> j \<le> n \<longrightarrow> (\<forall>q \<in> set packs. pk_id q \<noteq> join ''_'' (take j segs))"
proof -
  have "\<exists>k. 0 < k \<and> k \<le> n \<and> pk_id p = join ''_'' (take k segs) \<and> p \<in> set packs \<and>
      (\<forall>j. k < j \<and> j \<le> n \<longrightarrow> (\<forall>q \<in> set packs. pk_id q \<noteq> join ''_'' (take j segs)))"
    using assms
  proof (induction n)
    case (Suc n)
    show ?case
    proof (cases "List.find (\<lambda>p. pk_id p = join ''_'' (take (Suc n) segs)) packs")
      case (Some q)
      with Suc.prems have "q = p" by simp
      with Some show ?thesis by (intro exI [of _ "Suc n"]) (auto simp: find_Some_iff)
    next
      case None
      then have no: "\<forall>q \<in> set packs. pk_id q \<noteq> join ''_'' (take (Suc n) segs)" by (auto simp: find_None_iff)
      from None Suc.prems have "longest_match packs segs n = Some p" by simp
      from Suc.IH [OF this] obtain k where k: "0 < k" "k \<le> n" "pk_id p = join ''_'' (take k segs)" "p \<in> set packs"
        "\<forall>j. k < j \<and> j \<le> n \<longrightarrow> (\<forall>q \<in> set packs. pk_id q \<noteq> join ''_'' (take j segs))" by blast
      have "\<forall>j. k < j \<and> j \<le> Suc n \<longrightarrow> (\<forall>q \<in> set packs. pk_id q \<noteq> join ''_'' (take j segs))"
        using k(5) no by (metis le_SucE)
      with k show ?thesis by (intro exI [of _ k]) simp
    qed
  qed simp
  then show ?thesis using that by blast
qed

end
