(* ===== verification/Pack_Vocabulary.thy ===== *)
theory Pack_Vocabulary
  imports Packs
begin

text \<open>
  The command vocabulary as a whole: every command a pack declares is admitted, routed back to the pack
  that declares it, and covered by a call schema.
\<close>

subsection \<open>Routing\<close>

text \<open>The routing by identifier only.\<close>

fun route_ids :: "string list \<Rightarrow> string list \<Rightarrow> nat \<Rightarrow> string option" where
  "route_ids ids segs 0 = None"
| "route_ids ids segs (Suc n) =
     (let c = join ''_'' (take (Suc n) segs) in if c \<in> set ids then Some c else route_ids ids segs n)"

definition route :: "string list \<Rightarrow> string \<Rightarrow> string option" where
  "route ids command =
     (let segs = filter_Boolean (split_on CHR ''/'' command) in route_ids ids segs (min (length segs) 4))"

lemma find_id: "map_option pk_id (List.find (\<lambda>p. pk_id p = c) packs) = (if c \<in> pk_id ` set packs then Some c else None)"
  by (induction packs) auto

lemma longest_match_ids: "map_option pk_id (longest_match packs segs n) = route_ids (map pk_id packs) segs n"
proof (induction n)
  case (Suc n)
  show ?case
  proof (cases "List.find (\<lambda>p. pk_id p = join ''_'' (take (Suc n) segs)) packs")
    case None
    then show ?thesis using Suc.IH find_id [of "join ''_'' (take (Suc n) segs)" packs] by (simp add: Let_def split: if_splits)
  next
    case (Some p)
    then show ?thesis using find_id [of "join ''_'' (take (Suc n) segs)" packs] by (simp add: Let_def split: if_splits)
  qed
qed simp

lemma packForCommand_route: "map_option pk_id (packForCommand packs command) = route (map pk_id packs) command"
  by (simp add: packForCommand_def route_def Let_def longest_match_ids)

lemma route_ids_single:
  assumes "w \<in> set ids" "\<forall>q \<in> set ids. \<not> startsWith q (w @ ''_'')"
  shows "0 < n \<Longrightarrow> n \<le> Suc (length rest) \<Longrightarrow> route_ids ids (w # rest) n = Some w"
proof (induction n)
  case (Suc n)
  show ?case
  proof (cases n)
    case 0
    then show ?thesis using assms(1) by simp
  next
    case (Suc m)
    with Suc.prems(2) obtain v rs where r: "rest = v # rs" by (cases rest) auto
    have "startsWith (join ''_'' (take (Suc n) (w # rest))) (w @ ''_'')" by (simp add: r Suc startsWith_iff)
    then have "join ''_'' (take (Suc n) (w # rest)) \<notin> set ids" using assms(2) by blast
    then show ?thesis using Suc.IH Suc Suc.prems by (simp add: Let_def)
  qed
qed simp

lemma segs_of_prefix:
  assumes "startsWith a (CHR ''/'' # w @ ''/'')" "CHR ''/'' \<notin> set w" "w \<noteq> []"
  obtains rest where "filter_Boolean (split_on CHR ''/'' a) = w # rest"
proof -
  from assms(1) obtain r where "a = CHR ''/'' # w @ CHR ''/'' # r" by (auto simp: startsWith_iff)
  then have "split_on CHR ''/'' a = [] # w # split_on CHR ''/'' r" by (simp add: split_on_append assms(2))
  with that assms(3) show ?thesis by (simp add: filter_Boolean_def)
qed

lemma route_single:
  assumes "startsWith a (CHR ''/'' # w @ ''/'')" "CHR ''/'' \<notin> set w" "w \<noteq> []"
    "w \<in> set ids" "\<forall>q \<in> set ids. \<not> startsWith q (w @ ''_'')"
  shows "route ids a = Some w"
proof -
  obtain rest where "filter_Boolean (split_on CHR ''/'' a) = w # rest" by (rule segs_of_prefix [OF assms(1-3)])
  then have "route ids a = route_ids ids (w # rest) (min (length (w # rest)) 4)" by (simp only: route_def Let_def)
  also have "\<dots> = Some w" by (rule route_ids_single [OF assms(4,5)]) auto
  finally show ?thesis .
qed

definition pack_ids :: "string list" where
  "pack_ids =
     [''github'', ''slack'', ''google'', ''google_calendar'', ''google_gmail'', ''google_docs'', ''google_sheets'',
      ''google_tasks'', ''google_contacts'', ''notion'', ''linear'', ''stripe'', ''discord'', ''filesystem'', ''ssh'',
      ''azure'', ''aws'', ''gcp'']"

lemmas pack_defs = githubPack_def slackPack_def googlePack_def googleCalendarPack_def googleGmailPack_def
  googleDocsPack_def googleSheetsPack_def googleTasksPack_def googleContactsPack_def notionPack_def linearPack_def
  stripePack_def discordPack_def filesystemPack_def sshPack_def azurePack_def awsPack_def gcpPack_def
  make_pack_def cloud_pack_def

lemma pack_ids: "map pk_id (PACKS nd) = pack_ids"
  by (simp add: PACKS_def pack_ids_def pack_defs)

lemma pack_ids_distinct: "distinct pack_ids"
  by code_simp

text \<open>A pack of one word: no other identifier continues it with an underscore.\<close>

definition routed_simply :: "string \<Rightarrow> string list \<Rightarrow> bool" where
  "routed_simply w acts \<longleftrightarrow>
     CHR ''/'' \<notin> set w \<and> w \<noteq> [] \<and> w \<in> set pack_ids \<and> list_all (\<lambda>q. \<not> startsWith q (w @ ''_'')) pack_ids \<and>
     list_all (\<lambda>a. startsWith a (CHR ''/'' # w @ ''/'')) acts"

lemma routed_simplyD: "routed_simply w acts \<Longrightarrow> a \<in> set acts \<Longrightarrow> route pack_ids a = Some w"
  by (rule route_single) (auto simp: routed_simply_def list_all_iff)

lemma simple_packs:
  "routed_simply ''github'' github_actions" "routed_simply ''slack'' slack_actions"
  "routed_simply ''notion'' notion_actions" "routed_simply ''linear'' linear_actions"
  "routed_simply ''stripe'' stripe_actions" "routed_simply ''discord'' discord_actions"
  "routed_simply ''filesystem'' filesystem_actions" "routed_simply ''ssh'' ssh_actions"
  "routed_simply ''aws'' aws_actions" "routed_simply ''gcp'' gcp_actions"
  by code_simp+

lemma azure_routed: "routed_simply ''azure'' azure_actions"
  by code_simp

lemma google_packs:
  "list_all (\<lambda>a. route pack_ids a = Some ''google'') google_actions"
  "list_all (\<lambda>a. route pack_ids a = Some ''google_calendar'') google_calendar_actions"
  "list_all (\<lambda>a. route pack_ids a = Some ''google_gmail'') google_gmail_actions"
  "list_all (\<lambda>a. route pack_ids a = Some ''google_docs'') google_docs_actions"
  "list_all (\<lambda>a. route pack_ids a = Some ''google_sheets'') google_sheets_actions"
  "list_all (\<lambda>a. route pack_ids a = Some ''google_tasks'') google_tasks_actions"
  "list_all (\<lambda>a. route pack_ids a = Some ''google_contacts'') google_contacts_actions"
  by code_simp+

subsection \<open>Call schemas\<close>

definition has_call :: "(string \<times> ActionSchemas) list \<Rightarrow> string \<Rightarrow> bool" where
  "has_call es a \<longleftrightarrow> as_apiCallSchema (entry es a) \<noteq> None"

definition all_call :: "(string \<times> ActionSchemas) list \<Rightarrow> bool" where
  "all_call es = list_all (\<lambda>(k, s). case as_apiCallSchema s of None \<Rightarrow> False | Some S \<Rightarrow> True) es"

lemma has_callI: "all_call es \<Longrightarrow> a \<in> fst ` set es \<Longrightarrow> has_call es a"
  by (cases "map_of es a")
    (auto simp: has_call_def entry_def all_call_def list_all_iff map_of_eq_None_iff dest!: map_of_SomeD split: option.splits)

lemma entry_merge:
  "entry (mergeActionSchemas b s) k = override_schemas (entry b k) (entry s k)"
proof (cases "k \<in> fst ` (set b \<union> set s)")
  case True
  then have "map_of (map (\<lambda>k. (k, override_schemas (entry b k) (entry s k))) (remdups (map fst b @ map fst s))) k
      = Some (override_schemas (entry b k) (entry s k))"
    by (subst map_of_map_restrict) (auto simp: restrict_map_def)
  then show ?thesis by (simp add: mergeActionSchemas_def entry_def [of "map _ _"])
next
  case False
  then have "map_of b k = None" "map_of s k = None" by (auto simp: map_of_eq_None_iff)
  then have "entry b k = no_schemas" "entry s k = no_schemas" by (simp_all add: entry_def)
  moreover from False have "entry (mergeActionSchemas b s) k = no_schemas"
    by (auto simp: mergeActionSchemas_def entry_def [of "map _ _"] map_of_eq_None_iff split: option.splits dest!: map_of_SomeD)
  ultimately show ?thesis by (simp add: override_schemas_def no_schemas_def)
qed

lemma has_call_merge: "has_call (mergeActionSchemas b s) a \<longleftrightarrow> has_call b a \<or> has_call s a"
  by (auto simp: has_call_def entry_merge override_schemas_def split: option.splits)

lemma has_call_floor: "a \<in> set (map fst fl) \<Longrightarrow> has_call (floor_schemas fl) a"
proof (rule has_callI)
  show "all_call (floor_schemas fl)" by (auto simp: all_call_def floor_schemas_def list_all_iff)
  assume "a \<in> set (map fst fl)"
  then show "a \<in> fst ` set (floor_schemas fl)" by (force simp: floor_schemas_def)
qed

definition floored :: "string list \<Rightarrow> (string \<times> schema) list \<Rightarrow> bool" where
  "floored acts fl = list_all (\<lambda>a. a \<in> set (map fst fl)) acts"

lemma floors_complete:
  "floored github_actions github_floor" "floored slack_actions slack_floor" "floored google_actions google_floor"
  "floored google_calendar_actions google_calendar_floor" "floored google_gmail_actions google_gmail_floor"
  "floored google_docs_actions google_docs_floor" "floored google_sheets_actions google_sheets_floor"
  "floored google_tasks_actions google_tasks_floor" "floored google_contacts_actions google_contacts_floor"
  "floored notion_actions notion_floor" "floored linear_actions linear_floor" "floored stripe_actions stripe_floor"
  "floored discord_actions discord_floor"
  by code_simp+

text \<open>The four packs without an adapter specification.\<close>

lemma filesystem_calls:
  "all_call filesystem_filesystemActionSchemas"
  "list_all (\<lambda>a. a \<in> set (map fst filesystem_filesystemActionSchemas)) filesystem_actions"
  by code_simp+

lemma ssh_calls:
  "all_call ssh_sshActionSchemas" "list_all (\<lambda>a. a \<in> set (map fst ssh_sshActionSchemas)) ssh_actions"
  by code_simp+

lemma cloud_calls:
  "all_call aws_awsActionSchemas" "list_all (\<lambda>a. a \<in> set (map fst aws_awsActionSchemas)) aws_actions"
  "all_call gcp_gcpActionSchemas" "list_all (\<lambda>a. a \<in> set (map fst gcp_gcpActionSchemas)) gcp_actions"
  by code_simp+

lemma azure_calls:
  "all_call azure_azureActionSchemas" "set azure_actions \<subseteq> fst ` set azure_azureActionSchemas"
proof -
  have custom: "all_call azure_customSchemas" by (simp add: all_call_def azure_customSchemas_def cloud_entry_def)
  have add: "all_call (azure_add call cmds)" for call cmds
    using custom by (auto simp: azure_add_def all_call_def list_all_iff cloud_entry_def split: option.splits dest!: map_of_SomeD)
  have raw: "all_call [(azure_RAW_CALL, entry azure_customSchemas azure_RAW_CALL)]"
    by (simp add: all_call_def entry_def azure_customSchemas_def cloud_entry_def)
  have app: "all_call (x @ y) \<longleftrightarrow> all_call x \<and> all_call y" "all_call (rev x) \<longleftrightarrow> all_call x" for x y
    by (auto simp: all_call_def list_all_iff)
  show "all_call azure_azureActionSchemas" unfolding azure_azureActionSchemas_def app using add raw by blast
  have "fst ` set (azure_add call cmds) = set cmds" for call cmds by (force simp: azure_add_def)
  then show "set azure_actions \<subseteq> fst ` set azure_azureActionSchemas"
    by (auto simp: azure_actions_def azure_azureActionSchemas_def image_Un)
qed

lemma calls_covered:
  assumes "p \<in> set (PACKS nd)" "a \<in> set (pk_actions p)"
  shows "has_call (pk_actionSchemas p) a"
proof -
  have fl: "floored acts fl \<Longrightarrow> a \<in> set acts \<Longrightarrow> has_call (mergeActionSchemas (floor_schemas fl) s) a" for acts fl s
    using has_call_floor [of a fl] by (simp add: has_call_merge floored_def list_all_iff)
  have al: "all_call es \<Longrightarrow> list_all (\<lambda>a. a \<in> set (map fst es)) acts \<Longrightarrow> a \<in> set acts \<Longrightarrow> has_call es a" for acts es
    by (rule has_callI) (auto simp: list_all_iff)
  have az: "a \<in> set azure_actions \<Longrightarrow> has_call azure_azureActionSchemas a"
    using has_callI [OF azure_calls(1), of a] azure_calls(2) by blast
  show ?thesis
    using assms fl [OF floors_complete(1)] fl [OF floors_complete(2)] fl [OF floors_complete(3)] fl [OF floors_complete(4)]
      fl [OF floors_complete(5)] fl [OF floors_complete(6)] fl [OF floors_complete(7)] fl [OF floors_complete(8)]
      fl [OF floors_complete(9)] fl [OF floors_complete(10)] fl [OF floors_complete(11)] fl [OF floors_complete(12)]
      fl [OF floors_complete(13)] al [OF filesystem_calls] al [OF ssh_calls] al [OF cloud_calls(1,2)] al [OF cloud_calls(3,4)] az
    by (auto simp: PACKS_def pack_defs has_call_merge)
qed

lemma routed:
  assumes "p \<in> set (PACKS nd)" "a \<in> set (pk_actions p)"
  shows "map_option pk_id (packForCommand (PACKS nd) a) = Some (pk_id p)"
proof -
  have "route pack_ids a = Some (pk_id p)"
    using assms simple_packs [THEN routed_simplyD] azure_routed [THEN routed_simplyD] google_packs
    by (auto simp: PACKS_def pack_defs list_all_iff)
  then show ?thesis by (simp add: packForCommand_route pack_ids)
qed

lemma find_by_id:
  "distinct (map pk_id packs) \<Longrightarrow> p \<in> set packs \<Longrightarrow> List.find (\<lambda>q. pk_id q = pk_id p) packs = Some p"
  by (induction packs) (auto simp: image_iff)

lemma known_commands: "set (KNOWN_COMMANDS (PACKS nd)) = (\<Union>p \<in> set (PACKS nd). set (pk_actions p))"
proof -
  have "actionsFor (PACKS nd) (pk_id p) = pk_actions p" if "p \<in> set (PACKS nd)" for p
    using find_by_id [OF _ that] pack_ids_distinct pack_ids [of nd] by (simp add: actionsFor_def)
  then show ?thesis by (auto simp: KNOWN_COMMANDS_def)
qed

lemma routed_pack:
  assumes "p \<in> set (PACKS nd)" "a \<in> set (pk_actions p)" shows "packForCommand (PACKS nd) a = Some p"
proof -
  from routed [OF assms] obtain q where q: "packForCommand (PACKS nd) a = Some q" "pk_id q = pk_id p" by auto
  then have "q \<in> set (PACKS nd)"
    by (auto simp: packForCommand_def Let_def split: if_splits elim: longest_match_Some)
  with q(2) assms(1) have "q = p"
    using find_by_id [of "PACKS nd" p] find_by_id [of "PACKS nd" q] pack_ids_distinct pack_ids [of nd] by simp
  with q(1) show ?thesis by simp
qed

text \<open>The command vocabulary is closed: every command a pack declares is admitted at the edge, belongs to
  exactly the pack that declares it, and is covered by a call schema of that pack, so a declared command is
  never denied for want of one.\<close>

theorem vocabulary_closed:
  assumes "p \<in> set (PACKS nd)" "a \<in> set (pk_actions p)"
  shows "isKnownCommand (PACKS nd) a \<and> packForCommand (PACKS nd) a = Some p \<and>
    (\<exists>S. as_apiCallSchema (entry (pk_actionSchemas p) a) = Some S \<and>
      (\<forall>call. validateApiCall (PACKS nd) a call = (if S call then VOk else Schema_violation)))"
proof -
  from calls_covered [OF assms] obtain S where S: "as_apiCallSchema (entry (pk_actionSchemas p) a) = Some S"
    by (auto simp: has_call_def)
  have "isKnownCommand (PACKS nd) a" using assms by (auto simp: isKnownCommand_def known_commands)
  with S routed_pack [OF assms] show ?thesis by (simp add: validateApiCall_def)
qed

theorem vocabulary_closed_witness:
  "packForCommand (PACKS (\<lambda>_. JNonFinite)) ''/google/calendar/event/create'' = Some googleCalendarPack"
proof -
  have "''/google/calendar/event/create'' \<in> set google_calendar_actions" by code_simp
  then have a: "''/google/calendar/event/create'' \<in> set (pk_actions googleCalendarPack)" by (simp add: pack_defs)
  have "googleCalendarPack \<in> set (PACKS (\<lambda>_. JNonFinite))" by (simp add: PACKS_def)
  from vocabulary_closed [OF this a] show ?thesis by blast
qed

end
