(* ===== verification/Rbac.thy ===== *)
theory Rbac
  imports Prelude
begin

text \<open>
  packages/rbac/src/permissions.ts: the role, resource and action enumerations, the permission
  bundles and the lookups on them. A bundle is the list of its entries; \<open>Object.fromEntries\<close> and
  the object spread overwrite an entry in place. The declaration order of the roles is made a
  \<open>linorder\<close> of the type, so that the library's sorting applies to lists of roles.
\<close>

datatype Role = owner | admin | agent_manager | policy_author | auditor | member

datatype Resource =
    R_org | R_members | R_invites | R_agents | R_grants | R_swarms | R_mcp_servers | R_policies
  | R_schemas | R_envelopes | R_api_keys | R_audit | R_billing | R_oauth | R_cloud_connections
  | R_prompts | R_prompts_raw

datatype Action = A_read | A_create | A_update | A_delete

definition ROLES :: "Role list" where
  "ROLES = [owner, admin, agent_manager, policy_author, auditor, member]"

definition RESOURCES :: "Resource list" where
  "RESOURCES =
     [R_org, R_members, R_invites, R_agents, R_grants, R_swarms, R_mcp_servers, R_policies, R_schemas,
      R_envelopes, R_api_keys, R_audit, R_billing, R_oauth, R_cloud_connections, R_prompts, R_prompts_raw]"

definition ACTIONS :: "Action list" where
  "ACTIONS = [A_read, A_create, A_update, A_delete]"

type_synonym Bundle = "(Resource \<times> Action list) list"

definition ALL_ACTIONS :: "Action list" where "ALL_ACTIONS = ACTIONS"
definition READ :: "Action list" where "READ = [A_read]"
definition READ_WRITE :: "Action list" where "READ_WRITE = [A_read, A_create, A_update]"

definition everyResource :: "Action list \<Rightarrow> Bundle" where
  "everyResource actions = map (\<lambda>r. (r, actions)) RESOURCES"

fun set_entry :: "Resource \<Rightarrow> Action list \<Rightarrow> Bundle \<Rightarrow> Bundle" where
  "set_entry r as [] = [(r, as)]"
| "set_entry r as ((s, bs) # b) = (if r = s then (r, as) # b else (s, bs) # set_entry r as b)"

definition OWNER_BUNDLE :: Bundle where
  "OWNER_BUNDLE = everyResource ALL_ACTIONS"

definition ADMIN_BUNDLE :: Bundle where
  "ADMIN_BUNDLE =
     set_entry R_prompts_raw [] (set_entry R_billing READ (set_entry R_org READ_WRITE (everyResource ALL_ACTIONS)))"

definition AGENT_MANAGER_BUNDLE :: Bundle where
  "AGENT_MANAGER_BUNDLE =
     [(R_agents, ALL_ACTIONS), (R_grants, ALL_ACTIONS), (R_swarms, ALL_ACTIONS), (R_mcp_servers, ALL_ACTIONS),
      (R_api_keys, READ), (R_oauth, READ_WRITE), (R_cloud_connections, READ), (R_policies, READ),
      (R_schemas, READ), (R_envelopes, READ), (R_audit, READ), (R_org, READ), (R_members, READ), (R_invites, READ)]"

definition POLICY_AUTHOR_BUNDLE :: Bundle where
  "POLICY_AUTHOR_BUNDLE =
     [(R_policies, ALL_ACTIONS), (R_schemas, ALL_ACTIONS), (R_envelopes, ALL_ACTIONS), (R_agents, READ),
      (R_grants, READ), (R_swarms, READ), (R_mcp_servers, READ), (R_audit, READ), (R_org, READ),
      (R_members, READ), (R_invites, READ)]"

definition AUDITOR_BUNDLE :: Bundle where
  "AUDITOR_BUNDLE =
     [(R_audit, READ), (R_agents, READ), (R_policies, READ), (R_schemas, READ), (R_grants, READ),
      (R_swarms, READ), (R_mcp_servers, READ), (R_envelopes, READ), (R_api_keys, READ), (R_oauth, READ),
      (R_cloud_connections, READ), (R_org, READ), (R_members, READ), (R_invites, READ), (R_prompts, READ)]"

definition MEMBER_BUNDLE :: Bundle where
  "MEMBER_BUNDLE = [(R_org, READ), (R_members, READ)]"

fun MATRIX :: "Role \<Rightarrow> Bundle" where
  "MATRIX owner = OWNER_BUNDLE"
| "MATRIX admin = ADMIN_BUNDLE"
| "MATRIX agent_manager = AGENT_MANAGER_BUNDLE"
| "MATRIX policy_author = POLICY_AUTHOR_BUNDLE"
| "MATRIX auditor = AUDITOR_BUNDLE"
| "MATRIX member = MEMBER_BUNDLE"

definition hasPermission :: "Role \<Rightarrow> Resource \<Rightarrow> Action \<Rightarrow> bool" where
  "hasPermission role r action =
     (case map_of (MATRIX role) r of None \<Rightarrow> False | Some as \<Rightarrow> action \<in> set as)"

definition expandRolePermissions :: "Role \<Rightarrow> Bundle" where
  "expandRolePermissions role = MATRIX role"

definition rolePermissionPairs :: "Role \<Rightarrow> (Resource \<times> Action) list" where
  "rolePermissionPairs role =
     concat (map (\<lambda>r. map (\<lambda>a. (r, a)) (case map_of (MATRIX role) r of None \<Rightarrow> [] | Some as \<Rightarrow> as)) RESOURCES)"

lemma bundle_lookups:
  "map_of OWNER_BUNDLE r = Some ALL_ACTIONS"
  "map_of ADMIN_BUNDLE r = Some (if r = R_org then READ_WRITE else if r = R_billing then READ
     else if r = R_prompts_raw then [] else ALL_ACTIONS)"
  "map_of AGENT_MANAGER_BUNDLE r =
     (if r \<in> {R_agents, R_grants, R_swarms, R_mcp_servers} then Some ALL_ACTIONS
      else if r = R_oauth then Some READ_WRITE
      else if r \<in> {R_api_keys, R_cloud_connections, R_policies, R_schemas, R_envelopes, R_audit, R_org, R_members, R_invites}
      then Some READ else None)"
  "map_of POLICY_AUTHOR_BUNDLE r =
     (if r \<in> {R_policies, R_schemas, R_envelopes} then Some ALL_ACTIONS
      else if r \<in> {R_agents, R_grants, R_swarms, R_mcp_servers, R_audit, R_org, R_members, R_invites}
      then Some READ else None)"
  "map_of AUDITOR_BUNDLE r = (if r \<in> {R_billing, R_prompts_raw} then None else Some READ)"
  "map_of MEMBER_BUNDLE r = (if r \<in> {R_org, R_members} then Some READ else None)"
  by (cases r; simp add: OWNER_BUNDLE_def ADMIN_BUNDLE_def AGENT_MANAGER_BUNDLE_def POLICY_AUTHOR_BUNDLE_def
      AUDITOR_BUNDLE_def MEMBER_BUNDLE_def everyResource_def RESOURCES_def)+

lemmas action_lists = ALL_ACTIONS_def READ_def READ_WRITE_def ACTIONS_def

lemma all_actions: "a \<in> set ACTIONS"
  by (cases a) (simp_all add: ACTIONS_def)

lemma all_resources: "r \<in> set RESOURCES"
  by (cases r) (simp_all add: RESOURCES_def)

subsection \<open>The declaration order of roles\<close>

fun role_rank :: "Role \<Rightarrow> nat" where
  "role_rank owner = 0"
| "role_rank admin = 1"
| "role_rank agent_manager = 2"
| "role_rank policy_author = 3"
| "role_rank auditor = 4"
| "role_rank member = 5"

lemma role_rank_inj: "role_rank a = role_rank b \<Longrightarrow> a = b"
  by (cases a; cases b) simp_all

instantiation Role :: linorder
begin

definition less_eq_Role :: "Role \<Rightarrow> Role \<Rightarrow> bool" where
  "less_eq_Role a b \<longleftrightarrow> role_rank a \<le> role_rank b"

definition less_Role :: "Role \<Rightarrow> Role \<Rightarrow> bool" where
  "less_Role a b \<longleftrightarrow> role_rank a < role_rank b"

instance
  by standard (auto simp: less_eq_Role_def less_Role_def dest: role_rank_inj)

end

lemma ROLES_sorted: "sorted ROLES \<and> set ROLES = UNIV \<and> distinct ROLES"
proof -
  have "a \<in> set ROLES" for a by (cases a) (simp_all add: ROLES_def)
  then show ?thesis by (auto simp: ROLES_def less_eq_Role_def)
qed

subsection \<open>Properties\<close>

lemma has_permission_pick:
  "(case (if P then v else w) of None \<Rightarrow> False | Some as \<Rightarrow> a \<in> set as) \<longleftrightarrow>
     (P \<and> (case v of None \<Rightarrow> False | Some as \<Rightarrow> a \<in> set as)) \<or>
     (\<not> P \<and> (case w of None \<Rightarrow> False | Some as \<Rightarrow> a \<in> set as))"
  by simp

lemma action_members:
  "a \<in> set ALL_ACTIONS" "a \<in> set READ \<longleftrightarrow> a = A_read" "a \<in> set READ_WRITE \<longleftrightarrow> a \<noteq> A_delete" "a \<notin> set []"
  by (cases a; simp add: action_lists)+

lemma a_read_delete: "a = A_read \<Longrightarrow> a \<noteq> A_delete"
  by simp

lemma permission_table:
  "hasPermission owner r a"
  "hasPermission admin r a \<longleftrightarrow> r \<noteq> R_prompts_raw \<and> \<not> (r = R_org \<and> a = A_delete) \<and> \<not> (r = R_billing \<and> a \<noteq> A_read)"
  "hasPermission agent_manager r a \<longleftrightarrow>
     r \<in> {R_agents, R_grants, R_swarms, R_mcp_servers} \<or> (r = R_oauth \<and> a \<noteq> A_delete) \<or>
     (a = A_read \<and> r \<in> {R_api_keys, R_cloud_connections, R_policies, R_schemas, R_envelopes, R_audit, R_org, R_members, R_invites})"
  "hasPermission policy_author r a \<longleftrightarrow>
     r \<in> {R_policies, R_schemas, R_envelopes} \<or>
     (a = A_read \<and> r \<in> {R_agents, R_grants, R_swarms, R_mcp_servers, R_audit, R_org, R_members, R_invites})"
  "hasPermission auditor r a \<longleftrightarrow> a = A_read \<and> r \<notin> {R_billing, R_prompts_raw}"
  "hasPermission member r a \<longleftrightarrow> a = A_read \<and> r \<in> {R_org, R_members}"
proof -
  note unfold = hasPermission_def MATRIX.simps bundle_lookups if_distrib [where f = Some] option.case has_permission_pick
    action_members
  show "hasPermission owner r a" by (simp only: unfold)
  show "hasPermission admin r a \<longleftrightarrow> r \<noteq> R_prompts_raw \<and> \<not> (r = R_org \<and> a = A_delete) \<and> \<not> (r = R_billing \<and> a \<noteq> A_read)"
    by (simp only: unfold) auto
  show "hasPermission agent_manager r a \<longleftrightarrow>
     r \<in> {R_agents, R_grants, R_swarms, R_mcp_servers} \<or> (r = R_oauth \<and> a \<noteq> A_delete) \<or>
     (a = A_read \<and> r \<in> {R_api_keys, R_cloud_connections, R_policies, R_schemas, R_envelopes, R_audit, R_org, R_members, R_invites})"
    by (simp only: unfold) (use a_read_delete in blast)
  show "hasPermission policy_author r a \<longleftrightarrow>
     r \<in> {R_policies, R_schemas, R_envelopes} \<or>
     (a = A_read \<and> r \<in> {R_agents, R_grants, R_swarms, R_mcp_servers, R_audit, R_org, R_members, R_invites})"
    by (simp only: unfold) blast
  show "hasPermission auditor r a \<longleftrightarrow> a = A_read \<and> r \<notin> {R_billing, R_prompts_raw}"
    by (simp only: unfold) blast
  show "hasPermission member r a \<longleftrightarrow> a = A_read \<and> r \<in> {R_org, R_members}"
    by (simp only: unfold) blast
qed

text \<open>The matrix keeps the separations its comments promise: only the owner has any access to raw
  prompts, deletes the organisation or changes billing; an admin can do everything else an owner can; the
  auditor and the member only read; and redacted prompts are read by owner, admin and auditor.\<close>

theorem role_separation:
  "{role. hasPermission role R_prompts_raw a} = {owner} \<and>
   {role. hasPermission role R_org A_delete} = {owner} \<and>
   {(role, b). hasPermission role R_billing b \<and> b \<noteq> A_read} = {owner} \<times> {A_create, A_update, A_delete} \<and>
   {(r, b). \<not> hasPermission admin r b} =
     {R_prompts_raw} \<times> UNIV \<union> {(R_org, A_delete)} \<union> {R_billing} \<times> {A_create, A_update, A_delete} \<and>
   {b. hasPermission auditor r b} \<union> {b. hasPermission member r b} \<subseteq> {A_read} \<and>
   {role. hasPermission role R_prompts A_read} = {owner, admin, auditor}"
proof -
  have raw: "hasPermission role R_prompts_raw a \<longleftrightarrow> role = owner"
    and org: "hasPermission role R_org A_delete \<longleftrightarrow> role = owner"
    and redacted: "hasPermission role R_prompts A_read \<longleftrightarrow> role = owner \<or> role = admin \<or> role = auditor"
    and billing: "hasPermission role R_billing b \<and> b \<noteq> A_read \<longleftrightarrow> role = owner \<and> b \<noteq> A_read" for role b
    by (cases role; auto simp: permission_table)+
  have act: "b = A_create \<or> b = A_update \<or> b = A_delete \<longleftrightarrow> b \<noteq> A_read" for b by (cases b) simp_all
  have act3: "b \<noteq> A_read \<Longrightarrow> b \<noteq> A_create \<Longrightarrow> b \<noteq> A_update \<Longrightarrow> b = A_delete" for b by (cases b) simp_all
  show ?thesis
  proof (intro conjI)
    show "{role. hasPermission role R_prompts_raw a} = {owner}" using raw by auto
    show "{role. hasPermission role R_org A_delete} = {owner}" using org by auto
    show "{role. hasPermission role R_prompts A_read} = {owner, admin, auditor}" using redacted by auto
    show "{(role, b). hasPermission role R_billing b \<and> b \<noteq> A_read} = {owner} \<times> {A_create, A_update, A_delete}"
      using billing act3 by auto
    show "{(r, b). \<not> hasPermission admin r b} =
      {R_prompts_raw} \<times> UNIV \<union> {(R_org, A_delete)} \<union> {R_billing} \<times> {A_create, A_update, A_delete}"
      using act3 by (auto simp: permission_table)
    show "{b. hasPermission auditor r b} \<union> {b. hasPermission member r b} \<subseteq> {A_read}"
      by (auto simp: permission_table)
  qed
qed

text \<open>The list of permission pairs shipped to clients is exactly the permission predicate, without
  repetitions and in the declaration order of the resources.\<close>

theorem permission_pairs_complete:
  "set (rolePermissionPairs role) = {(r, a). hasPermission role r a} \<and> distinct (rolePermissionPairs role) \<and>
   remdups (map fst (rolePermissionPairs role)) = filter (\<lambda>r. \<exists>a. hasPermission role r a) RESOURCES"
proof -
  have "set (rolePermissionPairs role) = {(r, a). hasPermission role r a}"
  proof -
    have "(r, a) \<in> set (rolePermissionPairs role) \<longleftrightarrow> hasPermission role r a" for r a
    proof (cases "map_of (MATRIX role) r")
      case None
      then show ?thesis by (auto simp: rolePermissionPairs_def hasPermission_def)
    next
      case (Some as)
      then show ?thesis using all_resources [of r]
        by (force simp: rolePermissionPairs_def hasPermission_def)
    qed
    then show ?thesis by auto
  qed
  moreover have "distinct (rolePermissionPairs role)"
    by (cases role) (simp_all add: rolePermissionPairs_def RESOURCES_def bundle_lookups action_lists)
  moreover have "(\<exists>a. hasPermission role r a) \<longleftrightarrow>
      (case map_of (MATRIX role) r of None \<Rightarrow> False | Some as \<Rightarrow> as \<noteq> [])" for r
    by (cases "map_of (MATRIX role) r") (simp_all add: hasPermission_def ex_in_conv)
  then have "remdups (map fst (rolePermissionPairs role)) = filter (\<lambda>r. \<exists>a. hasPermission role r a) RESOURCES"
    by (cases role) (simp_all add: rolePermissionPairs_def RESOURCES_def bundle_lookups action_lists)
  ultimately show ?thesis by blast
qed

end
