(* ===== verification/Caches.thy ===== *)
theory Caches
  imports Decide "HOL-Library.AList"
begin

text \<open>
  apps/pdp/src/cache/policies.ts and revocations.ts: the PDP's per-customer caches. A JavaScript Map
  is an association list in insertion order. A fetch is a value: the response, an absent response
  (undefined) or an exception; a refresh is split where it awaits, so that a push and a poll can
  interleave. The interval timer only calls \<open>refreshAll\<close>; start and stop are not modelled.
  \<open>keyed_cache\<close> is the interface the two caches share.
\<close>

datatype 'a fetched = Fetched 'a | FetchedUndefined | FetchThrew

subsection \<open>The shared interface\<close>

locale keyed_cache =
  fixes lookup :: "'s \<Rightarrow> string \<Rightarrow> 'v option" and put :: "string \<Rightarrow> 'v \<Rightarrow> 's \<Rightarrow> 's"
  assumes lookup_put: "lookup (put c v s) c' = (if c' = c then Some v else lookup s c')"
begin

fun settle :: "string \<Rightarrow> 'v fetched \<Rightarrow> 's \<Rightarrow> 's" where
  "settle c (Fetched v) s = put c v s"
| "settle c FetchedUndefined s = s"
| "settle c FetchThrew s = s"

lemma lookup_settle:
  "lookup (settle c r s) c' = (if c' = c then (case r of Fetched v \<Rightarrow> Some v | _ \<Rightarrow> lookup s c) else lookup s c')"
  by (cases r) (simp_all add: lookup_put)

text \<open>After any sequence of settled fetches a customer's entry is the last value fetched for it, or the
  entry from before when none was.\<close>

lemma lookup_settle_all:
  "lookup (fold (\<lambda>(c, r) s. settle c r s) rs s) c =
     (case [v. (d, Fetched v) \<leftarrow> rev rs, d = c] of [] \<Rightarrow> lookup s c | v # _ \<Rightarrow> Some v)"
proof (induction rs rule: rev_induct)
  case (snoc x rs)
  then show ?case by (cases x; cases "snd x") (auto simp: lookup_settle lookup_put)
qed simp

end

subsection \<open>policies.ts\<close>

datatype AgentMode = mode_static | mode_dynamic
datatype AgentStatus = status_active | status_disabled | status_deleted

record AgentMeta =
  am_agentId :: string
  am_did :: string
  am_mode :: AgentMode
  am_status :: AgentStatus
  am_connectionApprovedAt :: "string option"

record BundleEntry =
  be_cedar :: string
  be_agents :: "AgentMeta list"

type_synonym policy_cache = "(string \<times> BundleEntry) list"
type_synonym bundle_value = "string + BundleEntry"

definition normalizeBundle :: "bundle_value \<Rightarrow> BundleEntry" where
  "normalizeBundle v = (case v of Inl cedar \<Rightarrow> \<lparr>be_cedar = cedar, be_agents = []\<rparr> | Inr e \<Rightarrow> e)"

definition pc_set :: "string \<Rightarrow> bundle_value \<Rightarrow> policy_cache \<Rightarrow> policy_cache" where
  "pc_set c v store = AList.update c (normalizeBundle v) store"

definition pc_refreshOne :: "string \<Rightarrow> bundle_value fetched \<Rightarrow> policy_cache \<Rightarrow> policy_cache" where
  "pc_refreshOne c r store =
     (case r of Fetched v \<Rightarrow> AList.update c (normalizeBundle v) store | FetchedUndefined \<Rightarrow> store | FetchThrew \<Rightarrow> store)"

definition pc_customers :: "string list option \<Rightarrow> policy_cache \<Rightarrow> string list" where
  "pc_customers knownCustomers store = (case knownCustomers of None \<Rightarrow> map fst store | Some cs \<Rightarrow> cs)"

definition pc_refreshAll ::
  "string list option \<Rightarrow> (string \<Rightarrow> bundle_value fetched) \<Rightarrow> policy_cache \<Rightarrow> policy_cache" where
  "pc_refreshAll knownCustomers fetch store =
     fold (\<lambda>c. pc_refreshOne c (fetch c)) (pc_customers knownCustomers store) store"

definition getPolicies :: "policy_cache \<Rightarrow> string \<Rightarrow> string option" where
  "getPolicies store c = map_option be_cedar (map_of store c)"

definition getAgentByDid :: "policy_cache \<Rightarrow> string \<Rightarrow> string \<Rightarrow> AgentMeta option" where
  "getAgentByDid store c did =
     (case map_of store c of None \<Rightarrow> None | Some e \<Rightarrow> List.find (\<lambda>a. am_did a = did) (be_agents e))"

definition getAgentById :: "policy_cache \<Rightarrow> string \<Rightarrow> string \<Rightarrow> AgentMeta option" where
  "getAgentById store c agentId =
     (case map_of store c of None \<Rightarrow> None | Some e \<Rightarrow> List.find (\<lambda>a. am_agentId a = agentId) (be_agents e))"

interpretation policy_cache: keyed_cache "\<lambda>store c. map_of store c" "\<lambda>c v store. AList.update c v store"
  by unfold_locales (simp add: update_conv)

subsection \<open>revocations.ts\<close>

record revocation_cache =
  rc_store :: "(string \<times> string set) list"
  rc_inflight :: "string set"

definition rc_empty :: revocation_cache where
  "rc_empty = \<lparr>rc_store = [], rc_inflight = {}\<rparr>"

definition getRevoked :: "revocation_cache \<Rightarrow> string \<Rightarrow> string set" where
  "getRevoked st c = (case map_of (rc_store st) c of None \<Rightarrow> {} | Some s \<Rightarrow> s)"

definition rc_set :: "string \<Rightarrow> string list \<Rightarrow> revocation_cache \<Rightarrow> revocation_cache" where
  "rc_set c cids st = st\<lparr>rc_store := AList.update c (set cids) (rc_store st)\<rparr>"

definition rc_add :: "string \<Rightarrow> string \<Rightarrow> revocation_cache \<Rightarrow> revocation_cache" where
  "rc_add c cid st =
     (case map_of (rc_store st) c of
        Some s \<Rightarrow> st\<lparr>rc_store := AList.update c (insert cid s) (rc_store st)\<rparr>
      | None \<Rightarrow> st\<lparr>rc_store := AList.update c {cid} (rc_store st)\<rparr>)"

text \<open>\<open>refreshOneDeduped\<close> up to its await: True when it starts a fetch, False when it joins one.\<close>

definition rc_refresh_begin :: "string \<Rightarrow> revocation_cache \<Rightarrow> bool \<times> revocation_cache" where
  "rc_refresh_begin c st =
     (if c \<in> rc_inflight st then (False, st) else (True, st\<lparr>rc_inflight := insert c (rc_inflight st)\<rparr>))"

definition rc_refresh_end :: "string \<Rightarrow> string list fetched \<Rightarrow> revocation_cache \<Rightarrow> revocation_cache" where
  "rc_refresh_end c r st =
     (let st' = (case r of
                   Fetched cids \<Rightarrow> st\<lparr>rc_store := AList.update c (set cids) (rc_store st)\<rparr>
                 | FetchedUndefined \<Rightarrow> st
                 | FetchThrew \<Rightarrow> st)
      in st'\<lparr>rc_inflight := rc_inflight st' - {c}\<rparr>)"

definition rc_customers :: "string list option \<Rightarrow> revocation_cache \<Rightarrow> string list" where
  "rc_customers knownCustomers st = (case knownCustomers of None \<Rightarrow> map fst (rc_store st) | Some cs \<Rightarrow> cs)"

definition rc_refreshAll_begin :: "string list option \<Rightarrow> revocation_cache \<Rightarrow> revocation_cache" where
  "rc_refreshAll_begin knownCustomers st =
     fold (\<lambda>c s. snd (rc_refresh_begin c s)) (rc_customers knownCustomers st) st"

interpretation revocation_store: keyed_cache "\<lambda>st c. map_of (rc_store st) c"
    "\<lambda>c v st. st\<lparr>rc_store := AList.update c v (rc_store st)\<rparr>"
  by unfold_locales (simp add: update_conv)

lemma pc_refreshOne_settle: "pc_refreshOne c r store = policy_cache.settle c (map_fetched normalizeBundle r) store"
  by (cases r) (simp_all add: pc_refreshOne_def)

lemma rc_refresh_end_store:
  "map_of (rc_store (rc_refresh_end c r st)) c' =
     map_of (rc_store (revocation_store.settle c (map_fetched set r) st)) c'"
  by (cases r) (simp_all add: rc_refresh_end_def)

lemma getRevoked_add: "getRevoked (rc_add c cid st) c' = (if c' = c then insert cid (getRevoked st c) else getRevoked st c')"
  by (auto simp: rc_add_def getRevoked_def update_conv split: option.splits)

lemma getRevoked_end:
  "getRevoked (rc_refresh_end c r st) c' =
     (if c' = c then (case r of Fetched cids \<Rightarrow> set cids | _ \<Rightarrow> getRevoked st c) else getRevoked st c')"
  by (cases r) (auto simp: rc_refresh_end_def getRevoked_def update_conv)

end
