(* ===== verification/Stepup.thy ===== *)
theory Stepup
  imports Caches
begin

text \<open>
  The gates around a decision in apps/pdp/src: services/stepup.ts (detecting that only a cosigner is
  missing), services/cloud-risk-rules.ts (forcing a cosigner on destructive cloud commands),
  services/cosigner-validate.ts (the attestation of a passkey approval) and routes/_shared.ts (the
  tenant a request belongs to). The control plane's answer to an approval lookup is a parameter;
  a lookup that throws is not caught.
\<close>

subsection \<open>stepup.ts\<close>

definition context_cosigner :: "AuthorizeRequest \<Rightarrow> bool" where
  "context_cosigner r \<longleftrightarrow> jget (rq_context r) ''cosigner'' = JBool True"

definition with_cosigner :: "AuthorizeRequest \<Rightarrow> AuthorizeRequest" where
  "with_cosigner r = r\<lparr>rq_context := obj_spread (rq_context r) [(''cosigner'', JBool True)]\<rparr>"

definition shouldDetectStepUp :: "AuthorizeDecision \<Rightarrow> AuthorizeRequest \<Rightarrow> bool" where
  "shouldDetectStepUp d r \<longleftrightarrow>
     \<not> d_allow d \<and> d_reason d = Some D_policy_denied \<and> \<not> context_cosigner r"

definition evaluateStepUpPotential :: "env \<Rightarrow> cedar \<Rightarrow> int \<Rightarrow> DecideInput \<Rightarrow> (exn, bool) result" where
  "evaluateStepUpPotential E C clock inp =
     rbind (decide E C clock (inp\<lparr>di_request := with_cosigner (di_request inp)\<rparr>)) (\<lambda>second. Inr (d_allow second))"

subsection \<open>cloud-risk-rules.ts\<close>

definition DESTRUCTIVE_VERBS :: "string list" where
  "DESTRUCTIVE_VERBS =
     [''delete'', ''destroy'', ''terminate'', ''stop'', ''drain'', ''rotate'', ''run_command'', ''invoke'', ''scale'',
      ''redeploy'', ''purge'', ''regenerate_key'', ''deallocate'', ''reimage'', ''remove_rule'', ''detach_disk'',
      ''capture'', ''uninstall_extension'', ''cancel_run'', ''cancel'', ''power_off'', ''slot_swap'']"

definition READ_VERBS :: "string list" where
  "READ_VERBS = [''list'', ''get'', ''read'', ''describe'', ''query'']"

definition isCloudCommand :: "string \<Rightarrow> bool" where
  "isCloudCommand c \<longleftrightarrow> startsWith c ''/azure/'' \<or> startsWith c ''/aws/'' \<or> startsWith c ''/gcp/''"

definition commandIsDestructive :: "string \<Rightarrow> bool" where
  "commandIsDestructive command =
     (if \<not> isCloudCommand command then False
      else let segments = filter_Boolean (split_on CHR ''/'' command)
           in if length segments < 2 then False
              else let verb = last segments
                   in if \<exists>r \<in> set READ_VERBS. startsWith verb r then False
                      else \<exists>d \<in> set DESTRUCTIVE_VERBS. js_includes verb d)"

definition shouldForceStepUp :: "AuthorizeDecision \<Rightarrow> AuthorizeRequest \<Rightarrow> bool" where
  "shouldForceStepUp d r =
     (if \<not> d_allow d then False
      else if \<not> isCloudCommand (rq_command r) then False
      else if \<not> commandIsDestructive (rq_command r) then False
      else \<not> context_cosigner r)"

subsection \<open>cosigner-validate.ts\<close>

datatype CosignerFailure = cosigner_invalid | cosigner_expired | cosigner_not_approved | cosigner_mismatch

datatype CosignerResult = CosignerOk string | CosignerErr CosignerFailure

record StepUpStateResponse =
  su_state :: string
  su_cosignerAttestationJwt :: "string option"

record ValidateCosignerInput =
  vc_cosignerJwt :: string
  vc_requestUcan :: string
  vc_command :: string
  vc_now :: "int option"

definition cosigner_options :: "ValidateCosignerInput \<Rightarrow> ValidateOptions" where
  "cosigner_options inp =
     \<lparr>vo_audience = None, vo_expectedCommand = Some (vc_command inp), vo_now = vc_now inp\<rparr>"

definition validateCosigner ::
  "env \<Rightarrow> int \<Rightarrow> (string \<Rightarrow> (exn, StepUpStateResponse option) result) \<Rightarrow> ValidateCosignerInput \<Rightarrow> (exn, CosignerResult) result"
  where
  "validateCosigner E clock fetchApproval inp =
     (case parseUcanJwt E (vc_cosignerJwt inp) of
        None \<Rightarrow> Inr (CosignerErr cosigner_invalid)
      | Some u \<Rightarrow>
          (let cosignerFor = meta_string ''cosigner_for'' (u_payload u);
               approvalId = meta_string ''approval_id'' (u_payload u)
           in if \<not> str_truthy cosignerFor \<or> \<not> str_truthy approvalId then Inr (CosignerErr cosigner_invalid)
              else case validateUcan E clock (vc_cosignerJwt inp) (cosigner_options inp) of
                  Invalid e \<Rightarrow> Inr (CosignerErr (if e = expired then cosigner_expired else cosigner_invalid))
                | Valid _ \<Rightarrow>
                    if cosignerFor \<noteq> Some (computeCid E (vc_requestUcan inp)) then Inr (CosignerErr cosigner_mismatch)
                    else rbind (fetchApproval (the approvalId)) (\<lambda>approval.
                      case approval of
                        None \<Rightarrow> Inr (CosignerErr cosigner_invalid)
                      | Some a \<Rightarrow>
                          if su_state a \<noteq> ''approved'' then Inr (CosignerErr cosigner_not_approved)
                          else if su_cosignerAttestationJwt a \<noteq> Some (vc_cosignerJwt inp)
                          then Inr (CosignerErr cosigner_mismatch)
                          else Inr (CosignerOk (the approvalId)))))"

subsection \<open>routes/_shared.ts\<close>

datatype DeriveCustomerIdResult =
    FromUcan string | FromHeader string | CustomerMismatch string string | CustomerMissing

definition deriveCustomerId :: "env \<Rightarrow> string option \<Rightarrow> string \<Rightarrow> DeriveCustomerIdResult" where
  "deriveCustomerId E header ucanJwt =
     (let ucan = extractCustomerId E ucanJwt
      in if str_truthy ucan \<and> str_truthy header \<and> ucan \<noteq> header
         then CustomerMismatch (the header) (the ucan)
         else if str_truthy ucan then FromUcan (the ucan)
         else if str_truthy header then FromHeader (the header)
         else CustomerMissing)"

lemma with_cosigner_sel [simp]:
  "rq_ucan (with_cosigner r) = rq_ucan r" "rq_command (with_cosigner r) = rq_command r"
  "rq_resource (with_cosigner r) = rq_resource r"
  by (simp_all add: with_cosigner_def)

lemma context_with_cosigner [simp]: "context_cosigner (with_cosigner r)"
  by (simp add: context_cosigner_def with_cosigner_def)

lemma with_cosigner_distinct: "distinct_keys (rq_context r) \<Longrightarrow> distinct_keys (rq_context (with_cosigner r))"
  by (simp add: with_cosigner_def distinct_keys_jset)

lemma validateCosigner_ok:
  assumes "validateCosigner E clock fetch inp = Inr (CosignerOk a)"
  obtains u p resp where "parseUcanJwt E (vc_cosignerJwt inp) = Some u"
    "validateUcan E clock (vc_cosignerJwt inp) (cosigner_options inp) = Valid p" "u_payload u = p"
    "meta_string ''cosigner_for'' p = Some (computeCid E (vc_requestUcan inp))"
    "meta_string ''approval_id'' p = Some a" "fetch a = Inr (Some resp)"
    "su_state resp = ''approved''" "su_cosignerAttestationJwt resp = Some (vc_cosignerJwt inp)"
proof -
  from assms obtain u where u: "parseUcanJwt E (vc_cosignerJwt inp) = Some u"
    by (auto simp: validateCosigner_def split: option.splits)
  note d = assms [unfolded validateCosigner_def u option.case Let_def]
  from d have t: "str_truthy (meta_string ''cosigner_for'' (u_payload u))" "str_truthy (meta_string ''approval_id'' (u_payload u))"
    by (auto split: if_splits)
  from d t obtain p where p: "validateUcan E clock (vc_cosignerJwt inp) (cosigner_options inp) = Valid p"
    by (auto split: ValidateResult.splits)
  with u have up: "u_payload u = p" by (auto simp: validateUcan_Valid_iff)
  from d t p have cf: "meta_string ''cosigner_for'' (u_payload u) = Some (computeCid E (vc_requestUcan inp))"
    by (auto split: if_splits)
  with d t p obtain resp where "fetch (the (meta_string ''approval_id'' (u_payload u))) = Inr (Some resp)"
    "su_state resp = ''approved''" "su_cosignerAttestationJwt resp = Some (vc_cosignerJwt inp)"
    "a = the (meta_string ''approval_id'' (u_payload u))"
    by (auto simp: rbind_Inr_iff split: if_splits option.splits)
  moreover from t(2) this(4) have "meta_string ''approval_id'' (u_payload u) = Some a" by (auto simp: str_truthy_def)
  ultimately show ?thesis using that u p up cf by metis
qed

end
