(* ===== verification/Authorize.thy ===== *)
theory Authorize
  imports Stepup Audit_Log Packs
begin

text \<open>
  apps/pdp/src/routes/authorize.ts, the PDP's decision endpoint, in the order of its handler: shape, trace
  context, tenant, command admission, resource shape, policies (with one refresh), agent gate, cosigner,
  decision, step-up detection, audit. The control plane's endpoints are the functions of \<open>stepup_deps\<close>; the
  state it changes there (a consumed approval, a created one) is reported in the result. A rejected promise
  no handler catches is \<open>Inl\<close>, the server's 500 answer.
\<close>

record create_args =
  ca_customerId :: string
  ca_agentId :: string
  ca_command :: string
  ca_resource :: obj
  ca_originalUcanCid :: string

record stepup_deps =
  sp_create :: "create_args \<Rightarrow> (string \<times> string) option"
  sp_fetchApproval :: "(string \<Rightarrow> (exn, StepUpStateResponse option) result) option"
  sp_consumeApproval :: "(string \<Rightarrow> (exn, bool) result) option"

record AuditEmitInput =
  ae_customerId :: string
  ae_request :: AuthorizeRequest
  ae_allow :: bool
  ae_reason :: "DenyReason option"
  ae_receiptId :: string
  ae_ts :: int
  ae_agentDid :: string
  ae_parentReceiptId :: "string option"
  ae_swarmId :: "string option"
  ae_chainDepth :: "nat option"
  ae_apiCall :: "(string \<times> string) option"

record AuthorizeRouteDeps =
  ad_fetchBundle :: "string \<Rightarrow> bundle_value fetched"
  ad_emitAudit :: "(AuditEmitInput \<Rightarrow> (exn, unit) result) option"
  ad_schemaForCustomer :: "string \<Rightarrow> json option"
  ad_trustedIssuerDid :: "string option"
  ad_maxChainDepth :: "nat option"
  ad_stepup :: "stepup_deps option"

record http_request =
  hr_body :: "json option"
  hr_customer :: "string option"
  hr_traceparent :: "string option"

datatype authorize_response = Bad_request string | Decided AuthorizeDecision

record authorize_result =
  ar_response :: authorize_response
  ar_audit :: "AuditEmitInput list"
  ar_cache :: policy_cache
  ar_consumed :: "string option"
  ar_created :: "create_args option"

subsection \<open>Before the decision\<close>

definition with_trace :: "string option \<Rightarrow> AuthorizeRequest \<Rightarrow> AuthorizeRequest" where
  "with_trace traceparent r =
     (if str_truthy traceparent \<and> as_string (jget (rq_context r) ''trace'') = None
      then r\<lparr>rq_context := jset ''trace'' (JStr (the traceparent)) (rq_context r)\<rparr> else r)"

definition customer_of :: "DeriveCustomerIdResult \<Rightarrow> (string, string) result" where
  "customer_of d =
     (case d of
        FromUcan c \<Rightarrow> Inr c
      | FromHeader c \<Rightarrow> Inr c
      | CustomerMismatch h u \<Rightarrow> Inl ''customer_id_mismatch''
      | CustomerMissing \<Rightarrow> Inl ''missing_customer_id'')"

definition refreshed_cache :: "AuthorizeRouteDeps \<Rightarrow> string \<Rightarrow> policy_cache \<Rightarrow> policy_cache" where
  "refreshed_cache deps customerId cache =
     (if getPolicies cache customerId = None then pc_refreshOne customerId (ad_fetchBundle deps customerId) cache else cache)"

datatype gate = Gate_deny DenyReason string | Gate_pass string

definition agent_gate :: "AgentMeta option \<Rightarrow> string \<Rightarrow> string \<Rightarrow> gate" where
  "agent_gate agentMeta command policies =
     (case agentMeta of
        None \<Rightarrow> Gate_pass policies
      | Some m \<Rightarrow>
          if am_mode m = mode_static \<and> am_connectionApprovedAt m = None
          then Gate_deny D_agent_not_connected (''agent-not-connected|'' @ am_agentId m @ ''|'' @ command)
          else if am_status m \<noteq> status_active
          then Gate_deny D_agent_disabled (''agent-disabled|'' @ am_agentId m @ ''|'' @ command)
          else Gate_pass policies)"

definition request_gate ::
  "env \<Rightarrow> IntegrationPack list \<Rightarrow> AuthorizeRouteDeps \<Rightarrow> policy_cache \<Rightarrow> string \<Rightarrow> AuthorizeRequest \<Rightarrow> gate \<times> policy_cache"
  where
  "request_gate E packs deps cache customerId r =
     (let command = rq_command r
      in if \<not> isKnownCommand packs command then (Gate_deny D_unknown_command (''unknown-command|'' @ command), cache)
         else if validateResource packs command (JObj (rq_resource r)) \<noteq> VOk
         then (Gate_deny D_schema_violation (''schema-violation|'' @ command @ ''|resource''), cache)
         else
           (let cache' = refreshed_cache deps customerId cache
            in case getPolicies cache' customerId of
                 None \<Rightarrow> (Gate_deny D_unknown_customer (''unknown-customer|'' @ customerId @ ''|'' @ command), cache')
               | Some policies \<Rightarrow>
                   (agent_gate (getAgentByDid cache' customerId (extractAgentDid E (rq_ucan r))) command policies, cache')))"

subsection \<open>The cosigner\<close>

datatype cosigner_stage = Cosigner_denied AuthorizeDecision | Proceed AuthorizeRequest "string option"

definition cosigner_input :: "AuthorizeRequest \<Rightarrow> string \<Rightarrow> ValidateCosignerInput" where
  "cosigner_input r jwt =
     \<lparr>vc_cosignerJwt = jwt, vc_requestUcan = rq_ucan r, vc_command = rq_command r, vc_now = None\<rparr>"

definition cosigner_step ::
  "env \<Rightarrow> int \<Rightarrow> AuthorizeRouteDeps \<Rightarrow> AuthorizeRequest \<Rightarrow> (exn, cosigner_stage) result" where
  "cosigner_step E clock deps r =
     (case (rq_cosignerJwt r, Option.bind (ad_stepup deps) sp_fetchApproval) of
        (Some jwt, Some fetchApproval) \<Rightarrow>
          rbind (validateCosigner E clock fetchApproval (cosigner_input r jwt)) (\<lambda>validation.
            case validation of
              CosignerErr why \<Rightarrow>
                rbind (lift_canon (canonicalize (e_nfc E) (JObj (requestObj r)))) (\<lambda>t.
                  Inr (Cosigner_denied (deny_decision
                    (if why = cosigner_expired then D_cosigner_expired else D_cosigner_invalid)
                    (sha256Hex E (''cosigner-deny|'' @ rq_ucan r @ ''|'' @ t)))))
            | CosignerOk approvalId \<Rightarrow>
                (case Option.bind (ad_stepup deps) sp_consumeApproval of
                   None \<Rightarrow> Inr (Proceed (with_cosigner r) None)
                 | Some consume \<Rightarrow>
                     rbind (consume approvalId) (\<lambda>consumed.
                       if consumed then Inr (Proceed (with_cosigner r) (Some approvalId))
                       else Inr (Cosigner_denied (deny_decision D_cosigner_already_used
                         (sha256Hex E (''cosigner-already-used|'' @ approvalId @ ''|'' @ rq_command r)))))))
      | _ \<Rightarrow> Inr (Proceed r None))"

subsection \<open>The decision and step-up detection\<close>

definition ucan_input :: "AuthorizeRequest \<Rightarrow> string + string list" where
  "ucan_input r =
     (case rq_delegated_chain r of
        Some (j # js) \<Rightarrow> Inr (j # js)
      | _ \<Rightarrow> Inl (rq_ucan r))"

definition authorize_input ::
  "AuthorizeRouteDeps \<Rightarrow> revocation_cache \<Rightarrow> string \<Rightarrow> string \<Rightarrow> AuthorizeRequest \<Rightarrow> DecideInput" where
  "authorize_input deps revoked customerId policies r =
     \<lparr>di_ucan = ucan_input r, di_request = r, di_policies = policies,
      di_revokedCids = Some (getRevoked revoked customerId), di_schema = ad_schemaForCustomer deps customerId,
      di_trustedIssuerDid = ad_trustedIssuerDid deps, di_now = None, di_maxChainDepth = ad_maxChainDepth deps\<rparr>"

definition stepup_decision :: "AuthorizeDecision \<Rightarrow> string \<times> string \<Rightarrow> AuthorizeDecision" where
  "stepup_decision d created =
     d\<lparr>d_reason := Some D_step_up_required, d_requiresStepUp := Some True, d_stepUpUrl := Some (snd created),
       d_stepUpId := Some (fst created)\<rparr>"

definition detect_stepup ::
  "env \<Rightarrow> cedar \<Rightarrow> int \<Rightarrow> stepup_deps option \<Rightarrow> string \<Rightarrow> AuthorizeRequest \<Rightarrow> DecideInput \<Rightarrow> AuthorizeDecision \<Rightarrow>
   (exn, AuthorizeDecision \<times> create_args option) result" where
  "detect_stepup E C clock stepup customerId r inp d =
     (case stepup of
        None \<Rightarrow> Inr (d, None)
      | Some sp \<Rightarrow>
          if \<not> shouldDetectStepUp d (di_request inp) then Inr (d, None)
          else rbind (evaluateStepUpPotential E C clock inp) (\<lambda>wouldAllow.
            if \<not> wouldAllow \<or> \<not> str_truthy (extractAgentId E (rq_ucan r)) then Inr (d, None)
            else
              (let args = \<lparr>ca_customerId = customerId, ca_agentId = the (extractAgentId E (rq_ucan r)),
                           ca_command = rq_command r, ca_resource = rq_resource r,
                           ca_originalUcanCid = computeCid E (rq_ucan r)\<rparr>
               in case sp_create sp args of
                    None \<Rightarrow> Inr (d, None)
                  | Some created \<Rightarrow> Inr (stepup_decision d created, Some args))))"

subsection \<open>The audit record\<close>

definition early_audit :: "env \<Rightarrow> int \<Rightarrow> string \<Rightarrow> AuthorizeRequest \<Rightarrow> AuthorizeDecision \<Rightarrow> AuditEmitInput" where
  "early_audit E nowMs customerId r d =
     \<lparr>ae_customerId = customerId, ae_request = r, ae_allow = d_allow d, ae_reason = d_reason d,
      ae_receiptId = d_receiptId d, ae_ts = nowMs, ae_agentDid = extractAgentDid E (rq_ucan r),
      ae_parentReceiptId = None, ae_swarmId = None, ae_chainDepth = None, ae_apiCall = None\<rparr>"

definition final_audit :: "env \<Rightarrow> int \<Rightarrow> string \<Rightarrow> AuthorizeRequest \<Rightarrow> AuthorizeDecision \<Rightarrow> AuditEmitInput" where
  "final_audit E nowMs customerId r d =
     (early_audit E nowMs customerId r d)
       \<lparr>ae_parentReceiptId := rq_parent_receipt_id r, ae_swarmId := rq_swarm_id r, ae_chainDepth := d_chain_depth d\<rparr>"

definition emit_and_answer ::
  "AuthorizeRouteDeps \<Rightarrow> AuditEmitInput \<Rightarrow> AuthorizeDecision \<Rightarrow> policy_cache \<Rightarrow> string option \<Rightarrow> create_args option \<Rightarrow>
   (exn, authorize_result) result" where
  "emit_and_answer deps ev d cache consumed created =
     (let answer = \<lambda>audit. \<lparr>ar_response = Decided d, ar_audit = audit, ar_cache = cache, ar_consumed = consumed,
                            ar_created = created\<rparr>
      in case ad_emitAudit deps of
           None \<Rightarrow> Inr (answer [])
         | Some emitAudit \<Rightarrow> rbind (emitAudit ev) (\<lambda>_. Inr (answer [ev])))"

text \<open>index.ts hands the record to the emitter. A decision read back from the record carries no
  \<open>requiresStepUp\<close>.\<close>

definition recorded_decision :: "AuditEmitInput \<Rightarrow> AuthorizeDecision" where
  "recorded_decision ev =
     \<lparr>d_allow = ae_allow ev, d_reason = ae_reason ev, d_receiptId = ae_receiptId ev, d_requiresStepUp = None,
      d_stepUpUrl = None, d_stepUpId = None, d_chain_depth = None, d_attenuation = None\<rparr>"

definition audit_input :: "AuditEmitInput \<Rightarrow> AuditEventInput" where
  "audit_input ev =
     \<lparr>ai_customer_id = ae_customerId ev, ai_ts = ae_ts ev, ai_agent = ae_agentDid ev,
      ai_decision = decisionToAudit (recorded_decision ev), ai_command = rq_command (ae_request ev),
      ai_resource = rq_resource (ae_request ev), ai_context = rq_context (ae_request ev),
      ai_parent_receipt_id = ae_parentReceiptId ev, ai_swarm_id = ae_swarmId ev, ai_chain_depth = ae_chainDepth ev,
      ai_receipt_id = Some (ae_receiptId ev), ai_api_call_method = map_option fst (ae_apiCall ev),
      ai_api_call_path = map_option snd (ae_apiCall ev)\<rparr>"

subsection \<open>POST /v1/authorize\<close>

definition authorize_admitted ::
  "env \<Rightarrow> cedar \<Rightarrow> int \<Rightarrow> int \<Rightarrow> AuthorizeRouteDeps \<Rightarrow> revocation_cache \<Rightarrow> policy_cache \<Rightarrow> string \<Rightarrow> string \<Rightarrow>
   AuthorizeRequest \<Rightarrow> (exn, authorize_result) result" where
  "authorize_admitted E C clock nowMs deps revoked cache customerId policies r =
     rbind (cosigner_step E clock deps r) (\<lambda>stage.
       case stage of
         Cosigner_denied d \<Rightarrow> emit_and_answer deps (early_audit E nowMs customerId r d) d cache None None
       | Proceed effective consumed \<Rightarrow>
           (let inp = authorize_input deps revoked customerId policies effective
            in rbind (decide E C clock inp) (\<lambda>d0.
               rbind (detect_stepup E C clock (ad_stepup deps) customerId r inp d0) (\<lambda>(d, created).
                 emit_and_answer deps (final_audit E nowMs customerId r d) d cache consumed created))))"

definition authorize_for ::
  "env \<Rightarrow> cedar \<Rightarrow> IntegrationPack list \<Rightarrow> int \<Rightarrow> int \<Rightarrow> AuthorizeRouteDeps \<Rightarrow> revocation_cache \<Rightarrow> policy_cache \<Rightarrow>
   string \<Rightarrow> AuthorizeRequest \<Rightarrow> (exn, authorize_result) result" where
  "authorize_for E C packs clock nowMs deps revoked cache customerId r =
     (case request_gate E packs deps cache customerId r of
        (Gate_deny why basis, cache') \<Rightarrow>
          (let d = deny_decision why (sha256Hex E basis)
           in emit_and_answer deps (early_audit E nowMs customerId r d) d cache' None None)
      | (Gate_pass policies, cache') \<Rightarrow>
          authorize_admitted E C clock nowMs deps revoked cache' customerId policies r)"

definition bad_request :: "policy_cache \<Rightarrow> string \<Rightarrow> authorize_result" where
  "bad_request cache why =
     \<lparr>ar_response = Bad_request why, ar_audit = [], ar_cache = cache, ar_consumed = None, ar_created = None\<rparr>"

definition authorize ::
  "env \<Rightarrow> cedar \<Rightarrow> IntegrationPack list \<Rightarrow> int \<Rightarrow> int \<Rightarrow> AuthorizeRouteDeps \<Rightarrow> revocation_cache \<Rightarrow> policy_cache \<Rightarrow>
   http_request \<Rightarrow> (exn, authorize_result) result" where
  "authorize E C packs clock nowMs deps revoked cache hr =
     (case hr_body hr of
        None \<Rightarrow> Inr (bad_request cache ''invalid JSON body'')
      | Some body \<Rightarrow>
          if \<not> truthy body then Inr (bad_request cache ''invalid JSON body'')
          else case parseAuthorizeRequest body of
              None \<Rightarrow> Inr (bad_request cache ''invalid request shape'')
            | Some parsed \<Rightarrow>
                (let r = with_trace (hr_traceparent hr) parsed
                 in case customer_of (deriveCustomerId E (hr_customer hr) (rq_ucan r)) of
                      Inl why \<Rightarrow> Inr (bad_request cache why)
                    | Inr customerId \<Rightarrow> authorize_for E C packs clock nowMs deps revoked cache customerId r))"

end
