(* ===== verification/Demo_Authorize.thy ===== *)
theory Demo_Authorize
  imports Authorize Demo_Decide
begin

text \<open>
  A concrete call of the decision endpoint: the demonstration chain presented as \<open>delegated_chain\<close>, with
  an unparseable \<open>ucan\<close>. Tenant b has the policy text that the Cedar stand-in allows; the leaf of the chain
  is revoked for tenant a.
\<close>

definition demo_deps :: AuthorizeRouteDeps where
  "demo_deps =
     \<lparr>ad_fetchBundle = (\<lambda>c. FetchThrew), ad_emitAudit = Some (\<lambda>ev. Inr ()), ad_schemaForCustomer = (\<lambda>c. None),
      ad_trustedIssuerDid = Some (demo_did (demo_key CHR ''a'')), ad_maxChainDepth = None, ad_stepup = None\<rparr>"

definition demo_cache :: policy_cache where
  "demo_cache = [(''a'', \<lparr>be_cedar = ''permit'', be_agents = []\<rparr>), (''b'', \<lparr>be_cedar = ''permit'', be_agents = []\<rparr>)]"

definition demo_revoked :: revocation_cache where
  "demo_revoked = \<lparr>rc_store = [(''a'', {computeCid demo_env (last (demo_chain None))})], rc_inflight = {}\<rparr>"

definition demo_chained :: AuthorizeRequest where
  "demo_chained = (demo_request ''/home/al/x'')\<lparr>rq_delegated_chain := Some (demo_chain None)\<rparr>"

definition demo_http :: "string \<Rightarrow> http_request" where
  "demo_http c = \<lparr>hr_body = Some (JObj (requestObj demo_chained)), hr_customer = Some c, hr_traceparent = None\<rparr>"

lemma parse_needs_text: "parseUcanJwt E j = Some u \<Longrightarrow> j \<noteq> []"
  by (auto simp: parseUcanJwt_def)

lemma demo_meta_none: "demo_meta None"
  by (simp add: demo_meta_def)

lemma demo_jwts_text: "j \<in> set (demo_chain None) \<Longrightarrow> j \<noteq> []"
proof -
  obtain u v where "parseUcanJwt demo_env (hd (demo_chain None)) = Some u" "parseUcanJwt demo_env (last (demo_chain None)) = Some v"
    using demo_parse [OF demo_meta_none] by metis
  then show "j \<in> set (demo_chain None) \<Longrightarrow> j \<noteq> []" by (auto simp: demo_chain_def dest: parse_needs_text)
qed

lemma demo_body_parsed: "parseAuthorizeRequest (JObj (requestObj demo_chained)) = Some demo_chained"
  using demo_jwts_text
  by (simp add: parseAuthorizeRequest_def requestObj_def demo_chained_def demo_request_def opt_str_def opt_json_def
      jget_def z_min1_def z_match_def demo_commands z_record_def parseAuthorizeContext_def z_opt_def z_array_def
      context_keys_def demo_chain_def)

lemma demo_unparsed: "parseUcanJwt demo_env ''u'' = None"
  by (simp add: parseUcanJwt_def)

lemma demo_decide_chained:
  obtains d where "decide demo_env demo_cedar 50 (authorize_input demo_deps demo_revoked ''b'' ''permit'' demo_chained) = Inr d"
    "d_allow d"
proof -
  let ?inp = "authorize_input demo_deps demo_revoked ''b'' ''permit'' demo_chained"
  let ?chain = "demo_chain None"
  obtain att where att: "summarizeAttenuation demo_env ?chain = Inr att"
    using demo_attenuation [OF demo_meta_none] unfolding is_ok_iff by blast
  have "serialisable (JObj (requestObj demo_chained))"
    by (auto simp: requestObj_def demo_chained_def demo_request_def opt_str_def opt_json_def)
  from canonicalize_ok [OF this] obtain t
    where "canonicalize (e_nfc demo_env) (JObj (requestObj demo_chained)) = Inr t"
    unfolding is_ok_iff by blast
  then obtain r where r: "buildReceiptId demo_env ?chain demo_chained = Inr r"
    by (simp add: buildReceiptId_def Let_def lift_canon_def del: canonicalize_obj)
  have len: "length ?chain = 2" by (simp add: demo_chain_def)
  have sel: "decide_jwts ?inp = ?chain" "di_request ?inp = demo_chained" "decide_now 50 ?inp = 50"
    "di_trustedIssuerDid ?inp = Some (demo_did (demo_key CHR ''a''))" "di_revokedCids ?inp = Some {}"
    "di_maxChainDepth ?inp = None" "di_policies ?inp = ''permit''" "di_schema ?inp = None"
    by (simp_all add: decide_jwts_def decide_now_def authorize_input_def demo_deps_def ucan_input_def demo_chained_def
        demo_chain_def getRevoked_def demo_revoked_def)
  have c: "extractResourceConstraint (p_meta (demo_leaf None)) = Inr None"
    by (simp add: demo_leaf_def demo_payload_def extractResourceConstraint_def)
  have "evaluate demo_cedar (cedar_question demo_env ?inp ?chain 50 demo_root (demo_leaf None) None)
     = Inr \<lparr>er_decision = CedarAllow, er_reason = [], er_errors = [], er_warnings = []\<rparr>"
    by (simp add: evaluate_def demo_cedar_def cedar_question_def sel)
  moreover have "p_iss demo_root = demo_did (demo_key CHR ''a'')" by (simp add: demo_root_def demo_payload_def)
  ultimately have "decide_validated demo_env demo_cedar ?inp ?chain 50 demo_root (demo_leaf None) =
      Inr ((allow_decision r)\<lparr>d_chain_depth := Some 1, d_attenuation := att\<rparr>)"
    using c att r by (simp add: decide_validated_def revoked_in_def len sel Let_def)
  moreover have "validateChain demo_env (\<lambda>_. 50) ?chain (chain_options 50 ?inp) = Inr (ChainValid demo_root (demo_leaf None))"
    using demo_chain_valid [OF demo_meta_none]
    by (simp add: chain_options_def sel) (simp add: demo_chained_def demo_request_def)
  moreover have "?chain \<noteq> []" "\<not> length ?chain > max_depth ?inp"
    using len sel by (auto simp: max_depth_def DEFAULT_MAX_CHAIN_DEPTH_def)
  ultimately show ?thesis using that by (simp add: decide_def sel Let_def)
qed

end
