(* ===== verification/Authorize_Properties.thy ===== *)
theory Authorize_Properties
  imports Demo_Authorize
begin

text \<open>
  Properties of the decision endpoint: what an allow rests on, the audit record of every decision, and
  what the handler takes from parts of the request nobody has verified.
\<close>

subsection \<open>The paths of the handler\<close>

lemma emit_and_answer_Inr:
  "emit_and_answer deps ev d cache consumed created = Inr res \<longleftrightarrow>
     (ad_emitAudit deps = None \<and>
        res = \<lparr>ar_response = Decided d, ar_audit = [], ar_cache = cache, ar_consumed = consumed, ar_created = created\<rparr>) \<or>
     (\<exists>f. ad_emitAudit deps = Some f \<and> f ev = Inr () \<and>
        res = \<lparr>ar_response = Decided d, ar_audit = [ev], ar_cache = cache, ar_consumed = consumed, ar_created = created\<rparr>)"
  by (auto simp: emit_and_answer_def Let_def rbind_Inr_iff split: option.splits)

lemma detect_stepup_Inr:
  assumes "detect_stepup E C clock sp customerId r inp d = Inr (d', created)"
  shows "d' = d \<or> (\<exists>x. d' = stepup_decision d x \<and> \<not> d_allow d \<and> d_reason d = Some D_policy_denied)"
  using assms
  by (auto simp: detect_stepup_def shouldDetectStepUp_def rbind_Inr_iff Let_def split: option.splits if_splits)

lemma stepup_decision_sel [simp]:
  "d_allow (stepup_decision d x) = d_allow d" "d_receiptId (stepup_decision d x) = d_receiptId d"
  "d_chain_depth (stepup_decision d x) = d_chain_depth d"
  "d_reason (stepup_decision d x) = Some D_step_up_required" "d_requiresStepUp (stepup_decision d x) = Some True"
  by (simp_all add: stepup_decision_def)

lemma detect_stepup_allow:
  "detect_stepup E C clock sp customerId r inp d = Inr (d', created) \<Longrightarrow> d_allow d' = d_allow d"
  by (auto dest: detect_stepup_Inr)

text \<open>A 200 answer comes from a gate, from the cosigner stage, or from decide().\<close>

lemma authorize_decided:
  assumes "authorize E C packs clock nowMs deps revoked cache hr = Inr res" "ar_response res = Decided d"
  obtains body p r c where "hr_body hr = Some body" "truthy body" "parseAuthorizeRequest body = Some p"
    "r = with_trace (hr_traceparent hr) p" "customer_of (deriveCustomerId E (hr_customer hr) (rq_ucan r)) = Inr c"
    "authorize_for E C packs clock nowMs deps revoked cache c r = Inr res"
  using assms
  by (auto simp: authorize_def bad_request_def Let_def split: option.splits if_splits sum.splits)

lemma cosigner_step_Inr:
  assumes "cosigner_step E clock deps r = Inr stage"
  obtains (absent) "stage = Proceed r None"
      "rq_cosignerJwt r = None \<or> Option.bind (ad_stepup deps) sp_fetchApproval = None"
  | (refused) d where "stage = Cosigner_denied d" "\<not> d_allow d"
  | (accepted) jwt f a consumed where "stage = Proceed (with_cosigner r) consumed" "rq_cosignerJwt r = Some jwt"
      "Option.bind (ad_stepup deps) sp_fetchApproval = Some f"
      "validateCosigner E clock f (cosigner_input r jwt) = Inr (CosignerOk a)"
      "\<forall>consume. Option.bind (ad_stepup deps) sp_consumeApproval = Some consume \<longrightarrow>
         consume a = Inr True \<and> consumed = Some a"
proof (cases "rq_cosignerJwt r = None \<or> Option.bind (ad_stepup deps) sp_fetchApproval = None")
  case True
  with assms have "stage = Proceed r None" by (auto simp: cosigner_step_def split: option.splits)
  with True show ?thesis by (intro absent)
next
  case False
  then obtain jwt f where jf: "rq_cosignerJwt r = Some jwt" "Option.bind (ad_stepup deps) sp_fetchApproval = Some f" by auto
  obtain v where v: "validateCosigner E clock f (cosigner_input r jwt) = Inr v"
    using assms by (auto simp: cosigner_step_def jf rbind_Inr_iff)
  note step = assms [unfolded cosigner_step_def jf prod.case option.case v rbind.simps]
  show ?thesis
  proof (cases v)
    case (CosignerErr why)
    with step show ?thesis by (auto simp: rbind_Inr_iff intro: refused)
  next
    case (CosignerOk a)
    show ?thesis
    proof (cases "Option.bind (ad_stepup deps) sp_consumeApproval")
      case None
      with step CosignerOk have "stage = Proceed (with_cosigner r) None" by simp
      with accepted jf v CosignerOk None show ?thesis by simp
    next
      case (Some consume)
      with step CosignerOk obtain ok where ok: "consume a = Inr ok"
        and st: "stage = (if ok then Proceed (with_cosigner r) (Some a)
          else Cosigner_denied (deny_decision D_cosigner_already_used
            (sha256Hex E (''cosigner-already-used|'' @ a @ ''|'' @ rq_command r))))"
        by (auto simp: rbind_Inr_iff split: if_splits)
      show ?thesis
      proof (cases ok)
        case True
        with accepted [of "Some a" jwt f a] st jf v CosignerOk Some ok show ?thesis by simp
      next
        case False
        with st refused show ?thesis by simp
      qed
    qed
  qed
qed

lemma authorize_for_cases:
  assumes "authorize_for E C packs clock nowMs deps revoked cache c r = Inr res"
  obtains (gate) why basis cache' where "request_gate E packs deps cache c r = (Gate_deny why basis, cache')"
      "emit_and_answer deps (early_audit E nowMs c r (deny_decision why (sha256Hex E basis)))
         (deny_decision why (sha256Hex E basis)) cache' None None = Inr res"
  | (cosigner) policies cache' d where "request_gate E packs deps cache c r = (Gate_pass policies, cache')"
      "cosigner_step E clock deps r = Inr (Cosigner_denied d)" "\<not> d_allow d"
      "emit_and_answer deps (early_audit E nowMs c r d) d cache' None None = Inr res"
  | (decided) policies cache' effective consumed d0 d created where
      "request_gate E packs deps cache c r = (Gate_pass policies, cache')"
      "cosigner_step E clock deps r = Inr (Proceed effective consumed)"
      "decide E C clock (authorize_input deps revoked c policies effective) = Inr d0"
      "detect_stepup E C clock (ad_stepup deps) c r (authorize_input deps revoked c policies effective) d0 = Inr (d, created)"
      "emit_and_answer deps (final_audit E nowMs c r d) d cache' consumed created = Inr res"
proof -
  obtain g cache' where g: "request_gate E packs deps cache c r = (g, cache')" by fastforce
  show ?thesis
  proof (cases g)
    case (Gate_deny why basis)
    with assms g gate show ?thesis by (simp add: authorize_for_def Let_def)
  next
    case (Gate_pass policies)
    with assms g have "authorize_admitted E C clock nowMs deps revoked cache' c policies r = Inr res"
      by (simp add: authorize_for_def)
    then obtain stage where st: "cosigner_step E clock deps r = Inr stage"
      and rest: "(case stage of
         Cosigner_denied d \<Rightarrow> emit_and_answer deps (early_audit E nowMs c r d) d cache' None None
       | Proceed effective consumed \<Rightarrow>
           (let inp = authorize_input deps revoked c policies effective
            in rbind (decide E C clock inp) (\<lambda>d0.
               rbind (detect_stepup E C clock (ad_stepup deps) c r inp d0) (\<lambda>(d, created).
                 emit_and_answer deps (final_audit E nowMs c r d) d cache' consumed created)))) = Inr res"
      by (auto simp: authorize_admitted_def rbind_Inr_iff)
    show ?thesis
    proof (cases stage)
      case (Cosigner_denied d)
      from st Cosigner_denied have "\<not> d_allow d" by (cases rule: cosigner_step_Inr) auto
      with Cosigner_denied Gate_pass g st rest cosigner show ?thesis by simp
    next
      case (Proceed effective consumed)
      with Gate_pass g st rest decided show ?thesis by (auto simp: Let_def rbind_Inr_iff)
    qed
  qed
qed

lemma request_gate_pass:
  assumes "request_gate E packs deps cache c r = (Gate_pass policies, cache')"
  shows "isKnownCommand packs (rq_command r)" "validateResource packs (rq_command r) (JObj (rq_resource r)) = VOk"
    "cache' = refreshed_cache deps c cache" "getPolicies cache' c = Some policies"
    "\<And>m. getAgentByDid cache' c (extractAgentDid E (rq_ucan r)) = Some m \<Longrightarrow>
       am_status m = status_active \<and> (am_mode m = mode_static \<longrightarrow> am_connectionApprovedAt m \<noteq> None)"
  using assms
  by (auto simp: request_gate_def agent_gate_def Let_def split: if_splits option.splits)

lemma gate_deny_not_allow [simp]: "\<not> d_allow (deny_decision why b)"
  by simp

lemma emitted_response:
  "emit_and_answer deps ev d cache consumed created = Inr res \<Longrightarrow>
     ar_response res = Decided d \<and> ar_cache res = cache \<and> ar_consumed res = consumed"
  by (auto simp: emit_and_answer_Inr)

subsection \<open>When decide() allows\<close>

definition decide_admits :: "env \<Rightarrow> cedar \<Rightarrow> int \<Rightarrow> DecideInput \<Rightarrow> bool" where
  "decide_admits E C clock inp \<longleftrightarrow>
     decide_jwts inp \<noteq> [] \<and> length (decide_jwts inp) \<le> max_depth inp \<and>
     (\<exists>root leaf c er.
        validateChain E (\<lambda>_. clock) (decide_jwts inp) (chain_options (decide_now clock inp) inp) = Inr (ChainValid root leaf) \<and>
        (str_truthy (di_trustedIssuerDid inp) \<longrightarrow> di_trustedIssuerDid inp = Some (p_iss root)) \<and>
        \<not> revoked_in E (di_revokedCids inp) (decide_jwts inp) \<and>
        extractResourceConstraint (p_meta leaf) = Inr c \<and>
        (\<forall>k. c = Some k \<longrightarrow> constraintMatchesResource k (rq_resource (di_request inp))) \<and>
        evaluate C (cedar_question E inp (decide_jwts inp) (decide_now clock inp) root leaf c) = Inr er \<and>
        er_decision er = CedarAllow)"

lemma decide_allow_iff:
  assumes "decide E C clock inp = Inr d"
  shows "d_allow d \<longleftrightarrow> decide_admits E C clock inp"
proof
  assume "d_allow d"
  from decide_allow [OF assms this] show "decide_admits E C clock inp"
    unfolding decide_admits_def by metis
next
  assume "decide_admits E C clock inp"
  then obtain root leaf c er where a: "decide_jwts inp \<noteq> []" "length (decide_jwts inp) \<le> max_depth inp"
    "validateChain E (\<lambda>_. clock) (decide_jwts inp) (chain_options (decide_now clock inp) inp) = Inr (ChainValid root leaf)"
    "str_truthy (di_trustedIssuerDid inp) \<longrightarrow> di_trustedIssuerDid inp = Some (p_iss root)"
    "\<not> revoked_in E (di_revokedCids inp) (decide_jwts inp)" "extractResourceConstraint (p_meta leaf) = Inr c"
    "\<forall>k. c = Some k \<longrightarrow> constraintMatchesResource k (rq_resource (di_request inp))"
    "evaluate C (cedar_question E inp (decide_jwts inp) (decide_now clock inp) root leaf c) = Inr er"
    "er_decision er = CedarAllow"
    unfolding decide_admits_def by blast
  from assms a(1-3) have "decide_validated E C inp (decide_jwts inp) (decide_now clock inp) root leaf = Inr d"
    by (simp add: decide_def Let_def)
  moreover have "(str_truthy (di_trustedIssuerDid inp) \<and> di_trustedIssuerDid inp \<noteq> Some (p_iss root)) = False"
    "revoked_in E (di_revokedCids inp) (decide_jwts inp) = False"
    "(case c of None \<Rightarrow> False | Some k \<Rightarrow> \<not> constraintMatchesResource k (rq_resource (di_request inp))) = False"
    "(er_decision er = CedarDeny) = False"
    using a by (auto split: option.splits)
  ultimately show "d_allow d"
    using a(6,8) by (auto simp: decide_validated_def Let_def rbind_Inr_iff split: if_splits)
qed

text \<open>The attestation in the request is read by the cosigner stage only.\<close>

lemma admits_ignores_jwt:
  "decide_admits E C clock (inp\<lparr>di_request := (di_request inp)\<lparr>rq_cosignerJwt := x\<rparr>\<rparr>) = decide_admits E C clock inp"
  by (simp add: decide_admits_def decide_jwts_def max_depth_def decide_now_def chain_options_def cedar_question_def
      decision_context_def)

subsection \<open>What an allow rests on\<close>

definition cosigned :: "env \<Rightarrow> int \<Rightarrow> AuthorizeRouteDeps \<Rightarrow> AuthorizeRequest \<Rightarrow> string option \<Rightarrow> bool" where
  "cosigned E clock deps r used \<longleftrightarrow>
     (\<exists>jwt f a p resp. rq_cosignerJwt r = Some jwt \<and> Option.bind (ad_stepup deps) sp_fetchApproval = Some f \<and>
        validateUcan E clock jwt (cosigner_options (cosigner_input r jwt)) = Valid p \<and>
        meta_string ''cosigner_for'' p = Some (computeCid E (rq_ucan r)) \<and> meta_string ''approval_id'' p = Some a \<and>
        f a = Inr (Some resp) \<and> su_state resp = ''approved'' \<and> su_cosignerAttestationJwt resp = Some jwt \<and>
        (\<forall>consume. Option.bind (ad_stepup deps) sp_consumeApproval = Some consume \<longrightarrow>
           consume a = Inr True \<and> used = Some a))"

lemma cosigner_input_sel [simp]:
  "vc_cosignerJwt (cosigner_input r jwt) = jwt" "vc_requestUcan (cosigner_input r jwt) = rq_ucan r"
  "vc_command (cosigner_input r jwt) = rq_command r"
  by (simp_all add: cosigner_input_def)

text \<open>C1: An allow from POST /v1/authorize rests on every gate of the handler. The body is a well-formed
  request with a known command and a resource its schema pack accepts; the tenant is the one the header and
  token name and its policies are cached; the agent, if the bundle lists it, is active and, when static,
  approved; and the decision core admits the request: valid chain, trusted root, nothing revoked, constraint met,
  Cedar allows. What it admits is the request as it was sent, with whatever its own context says (a cosigner flag
  of the caller included), if no attestation came with it or none can be looked up; or else that request with the
  cosigner flag set by the handler, which takes an approved attestation for this token and command, consumed for
  this call where approvals can be consumed.\<close>

theorem authorize_allow_sound:
  assumes "authorize E C packs clock nowMs deps revoked cache hr = Inr res" "ar_response res = Decided d" "d_allow d"
  shows "\<exists>body p r c policies effective.
     hr_body hr = Some body \<and> parseAuthorizeRequest body = Some p \<and> r = with_trace (hr_traceparent hr) p \<and>
     customer_of (deriveCustomerId E (hr_customer hr) (rq_ucan r)) = Inr c \<and>
     isKnownCommand packs (rq_command r) \<and> validateResource packs (rq_command r) (JObj (rq_resource r)) = VOk \<and>
     getPolicies (ar_cache res) c = Some policies \<and>
     (\<forall>m. getAgentByDid (ar_cache res) c (extractAgentDid E (rq_ucan r)) = Some m \<longrightarrow>
        am_status m = status_active \<and> (am_mode m = mode_static \<longrightarrow> am_connectionApprovedAt m \<noteq> None)) \<and>
     (effective = r \<and> (rq_cosignerJwt r = None \<or> Option.bind (ad_stepup deps) sp_fetchApproval = None) \<or>
      effective = with_cosigner r \<and> cosigned E clock deps r (ar_consumed res)) \<and>
     decide_admits E C clock (authorize_input deps revoked c policies effective)"
proof -
  from authorize_decided [OF assms(1,2)] obtain body p r c where a: "hr_body hr = Some body"
    "parseAuthorizeRequest body = Some p" "r = with_trace (hr_traceparent hr) p"
    "customer_of (deriveCustomerId E (hr_customer hr) (rq_ucan r)) = Inr c"
    and run: "authorize_for E C packs clock nowMs deps revoked cache c r = Inr res" by metis
  from run show ?thesis
  proof (cases rule: authorize_for_cases)
    case (gate why basis cache')
    with emitted_response [OF gate(2)] assms show ?thesis by simp
  next
    case (cosigner policies cache' d')
    with emitted_response [OF cosigner(4)] assms show ?thesis by simp
  next
    case (decided policies cache' effective consumed d0 d' created)
    have r: "ar_response res = Decided d'" "ar_cache res = cache'" "ar_consumed res = consumed"
      using emitted_response [OF decided(5)] by simp_all
    with assms(2,3) detect_stepup_allow [OF decided(4)] have "d_allow d0" by simp
    then have admits: "decide_admits E C clock (authorize_input deps revoked c policies effective)"
      using decide_allow_iff [OF decided(3)] by simp
    have cos: "effective = r \<and> (rq_cosignerJwt r = None \<or> Option.bind (ad_stepup deps) sp_fetchApproval = None) \<or>
        effective = with_cosigner r \<and> cosigned E clock deps r consumed"
      using decided(2)
    proof (cases rule: cosigner_step_Inr)
      case (accepted jwt f i used)
      have "cosigned E clock deps r consumed"
      proof (rule validateCosigner_ok [OF accepted(4)])
        fix u q resp
        assume "validateUcan E clock (vc_cosignerJwt (cosigner_input r jwt)) (cosigner_options (cosigner_input r jwt)) = Valid q"
          "meta_string ''cosigner_for'' q = Some (computeCid E (vc_requestUcan (cosigner_input r jwt)))"
          "meta_string ''approval_id'' q = Some i" "f i = Inr (Some resp)" "su_state resp = ''approved''"
          "su_cosignerAttestationJwt resp = Some (vc_cosignerJwt (cosigner_input r jwt))"
        then show ?thesis
          unfolding cosigned_def cosigner_input_sel using accepted by (intro exI conjI) (assumption | auto)+
      qed
      with accepted show ?thesis by simp
    qed auto
    note g = request_gate_pass [OF decided(1)]
    show ?thesis
      by (rule exI [of _ body], rule exI [of _ p], rule exI [of _ r], rule exI [of _ c], rule exI [of _ policies],
          rule exI [of _ effective]) (use a g cos admits r in simp)
  qed
qed

subsection \<open>The audit record\<close>

text \<open>C33: Every decision the endpoint answers with is audited exactly once, before the answer: the record
  carries the same verdict, reason and receipt, the command, resource and agent of the request, and a
  request refused with 400 leaves no record.\<close>

theorem every_decision_audited:
  assumes "authorize E C packs clock nowMs deps revoked cache hr = Inr res" "ad_emitAudit deps = Some emitAudit"
  shows "case ar_response res of
      Bad_request why \<Rightarrow> ar_audit res = []
    | Decided d \<Rightarrow> \<exists>ev body p. ar_audit res = [ev] \<and> emitAudit ev = Inr () \<and> ae_allow ev = d_allow d \<and>
        ae_reason ev = d_reason d \<and> ae_receiptId ev = d_receiptId d \<and>
        hr_body hr = Some body \<and> parseAuthorizeRequest body = Some p \<and>
        ae_request ev = with_trace (hr_traceparent hr) p \<and> ae_agentDid ev = extractAgentDid E (rq_ucan p)"
proof (cases "ar_response res")
  case (Bad_request why)
  show ?thesis
  proof (cases "ar_audit res = []")
    case False
    with assms Bad_request obtain c r where "authorize_for E C packs clock nowMs deps revoked cache c r = Inr res"
      by (auto simp: authorize_def bad_request_def Let_def split: option.splits if_splits sum.splits)
    then show ?thesis
      by (cases rule: authorize_for_cases) (use Bad_request in \<open>auto dest: emitted_response\<close>)
  qed (simp add: Bad_request)
next
  case (Decided d)
  from authorize_decided [OF assms(1) this] obtain body p r c where a: "hr_body hr = Some body"
    "parseAuthorizeRequest body = Some p" "r = with_trace (hr_traceparent hr) p"
    and run: "authorize_for E C packs clock nowMs deps revoked cache c r = Inr res" by metis
  have u: "rq_ucan r = rq_ucan p" using a(3) by (simp add: with_trace_def)
  have one: "\<exists>ev. ar_audit res = [ev] \<and> emitAudit ev = Inr () \<and> ae_allow ev = d_allow d \<and> ae_reason ev = d_reason d \<and>
      ae_receiptId ev = d_receiptId d \<and> ae_request ev = r \<and> ae_agentDid ev = extractAgentDid E (rq_ucan r)"
    using run
    by (cases rule: authorize_for_cases)
      (use Decided assms(2) in \<open>auto simp: emit_and_answer_Inr early_audit_def final_audit_def\<close>)
  then obtain ev where "ar_audit res = [ev]" "emitAudit ev = Inr ()" "ae_allow ev = d_allow d"
    "ae_reason ev = d_reason d" "ae_receiptId ev = d_receiptId d" "ae_request ev = r"
    "ae_agentDid ev = extractAgentDid E (rq_ucan r)" by blast
  with a u Decided show ?thesis by auto
qed

subsection \<open>What the handler takes unverified\<close>

lemma request_gate_cong:
  assumes "rq_command r' = rq_command r" "rq_resource r' = rq_resource r" "rq_ucan r' = rq_ucan r"
  shows "request_gate E packs deps cache c r' = request_gate E packs deps cache c r"
  unfolding request_gate_def assms ..

lemma chained_run:
  assumes "truthy body" "parseAuthorizeRequest body = Some r" "parseUcanJwt E (rq_ucan r) = None"
    "rq_delegated_chain r = Some (j # js)" "rq_cosignerJwt r = None" "c \<noteq> []"
    "isKnownCommand packs (rq_command r)" "validateResource packs (rq_command r) (JObj (rq_resource r)) = VOk"
    "getPolicies cache c = Some policies" "getAgentByDid cache c ''unknown'' = None"
    "decide E C clock (authorize_input deps revoked c policies r) = Inr d" "d_allow d"
    "ad_emitAudit deps = Some emitAudit" "\<forall>ev. emitAudit ev = Inr ()"
  shows "\<exists>res. authorize E C packs clock nowMs deps revoked cache
      \<lparr>hr_body = Some body, hr_customer = Some c, hr_traceparent = None\<rparr> = Inr res \<and> ar_response res = Decided d"
proof -
  have derive: "customer_of (deriveCustomerId E (Some c) (rq_ucan r)) = Inr c"
    using assms(3,6) by (simp add: deriveCustomerId_def extractCustomerId_def customer_of_def str_truthy_def)
  have gate: "request_gate E packs deps cache c r = (Gate_pass policies, cache)"
    using assms(3,7-10) by (simp add: request_gate_def refreshed_cache_def agent_gate_def extractAgentDid_def)
  have step: "cosigner_step E clock deps r = Inr (Proceed r None)" using assms(5) by (simp add: cosigner_step_def)
  have detect: "detect_stepup E C clock (ad_stepup deps) c r (authorize_input deps revoked c policies r) d = Inr (d, None)"
    using assms(12) by (simp add: detect_stepup_def shouldDetectStepUp_def split: option.split)
  have trace: "with_trace None r = r" by (simp add: with_trace_def str_truthy_def)
  show ?thesis
    by (simp add: authorize_def assms(1,2) trace Let_def derive authorize_for_def gate authorize_admitted_def step
        assms(11) detect emit_and_answer_def assms(13,14))
qed

lemma demo_run:
  obtains res d where "authorize demo_env demo_cedar [] 50 0 demo_deps demo_revoked demo_cache (demo_http ''b'') = Inr res"
    "ar_response res = Decided d" "d_allow d"
proof -
  obtain d where d: "decide demo_env demo_cedar 50 (authorize_input demo_deps demo_revoked ''b'' ''permit'' demo_chained) = Inr d"
    "d_allow d" using demo_decide_chained .
  obtain j js where chain: "demo_chain None = j # js" by (simp add: demo_chain_def)
  have sel: "rq_ucan demo_chained = ''u''" "rq_command demo_chained = ''/fs/read''" "rq_cosignerJwt demo_chained = None"
    "rq_delegated_chain demo_chained = Some (j # js)"
    by (simp_all add: demo_chained_def demo_request_def chain)
  have "\<exists>res. authorize demo_env demo_cedar [] 50 0 demo_deps demo_revoked demo_cache
      \<lparr>hr_body = Some (JObj (requestObj demo_chained)), hr_customer = Some ''b'', hr_traceparent = None\<rparr> = Inr res \<and>
      ar_response res = Decided d"
    by (rule chained_run [OF _ demo_body_parsed _ sel(4,3) _ _ _ _ _ d, where emitAudit = "\<lambda>ev. Inr ()"])
      (simp_all add: sel demo_unparsed isKnownCommand_def KNOWN_COMMANDS_def KNOWN_INTEGRATIONS_def validateResource_def
        packForCommand_def filter_Boolean_def getPolicies_def getAgentByDid_def demo_cache_def demo_deps_def eval_nat_numeral)
  with d(2) that show ?thesis unfolding demo_http_def by blast
qed

theorem authorize_allow_sound_witness:
  "\<exists>policies. decide_admits demo_env demo_cedar 50 (authorize_input demo_deps demo_revoked ''b'' policies demo_chained)"
proof -
  obtain res d where run: "authorize demo_env demo_cedar [] 50 0 demo_deps demo_revoked demo_cache (demo_http ''b'') = Inr res"
    "ar_response res = Decided d" "d_allow d" by (rule demo_run)
  have sel: "hr_body (demo_http ''b'') = Some (JObj (requestObj demo_chained))" "hr_customer (demo_http ''b'') = Some ''b''"
    "hr_traceparent (demo_http ''b'') = None" "rq_ucan demo_chained = ''u''" "rq_cosignerJwt demo_chained = None"
    by (simp_all add: demo_http_def demo_chained_def demo_request_def)
  have t: "with_trace None r = r" for r by (simp add: with_trace_def str_truthy_def)
  have c: "customer_of (deriveCustomerId demo_env (Some ''b'') ''u'') = Inr ''b''"
    by (simp add: deriveCustomerId_def extractCustomerId_def demo_unparsed customer_of_def str_truthy_def)
  have no: "\<not> cosigned demo_env 50 demo_deps demo_chained x" for x by (simp add: cosigned_def sel)
  from authorize_allow_sound [OF run] show ?thesis
    using sel t c no demo_body_parsed by auto
qed

theorem every_decision_audited_witness:
  "\<exists>res ev. authorize demo_env demo_cedar [] 50 0 demo_deps demo_revoked demo_cache (demo_http ''b'') = Inr res \<and>
     ar_audit res = [ev] \<and> ae_allow ev \<and> ae_agentDid ev = ''unknown''"
proof -
  obtain res d where run: "authorize demo_env demo_cedar [] 50 0 demo_deps demo_revoked demo_cache (demo_http ''b'') = Inr res"
    "ar_response res = Decided d" "d_allow d" by (rule demo_run)
  have body: "hr_body (demo_http ''b'') = Some (JObj (requestObj demo_chained))" by (simp add: demo_http_def)
  have did: "extractAgentDid demo_env (rq_ucan demo_chained) = ''unknown''"
    by (simp add: extractAgentDid_def demo_unparsed demo_chained_def demo_request_def)
  have "ad_emitAudit demo_deps = Some (\<lambda>ev. Inr ())" by (simp add: demo_deps_def)
  from every_decision_audited [OF run(1) this] run did demo_body_parsed body show ?thesis by fastforce
qed

text \<open>With a delegation chain in the request, the token that names the tenant is not part of the chain
  and is never verified. A caller that sends an unparseable token picks the tenant with the header: the chain
  is decided under that tenant's policies and against that tenant's revocations, and the agent gate is
  skipped.\<close>

theorem tenant_chosen_by_caller:
  assumes "truthy body" "parseAuthorizeRequest body = Some r" "parseUcanJwt E (rq_ucan r) = None"
    "rq_delegated_chain r = Some (j # js)" "rq_cosignerJwt r = None" "c \<noteq> []"
    "isKnownCommand packs (rq_command r)" "validateResource packs (rq_command r) (JObj (rq_resource r)) = VOk"
    "getPolicies cache c = Some policies" "getAgentByDid cache c ''unknown'' = None"
    "decide E C clock (authorize_input deps revoked c policies r) = Inr d" "d_allow d"
    "ad_emitAudit deps = Some emitAudit" "\<forall>ev. emitAudit ev = Inr ()"
  shows "\<exists>res. authorize E C packs clock nowMs deps revoked cache
      \<lparr>hr_body = Some body, hr_customer = Some c, hr_traceparent = None\<rparr> = Inr res \<and> ar_response res = Decided d"
  by (rule chained_run [OF assms])

theorem tenant_chosen_by_caller_witness:
  "\<exists>res d. authorize demo_env demo_cedar [] 50 0 demo_deps demo_revoked demo_cache (demo_http ''b'') = Inr res \<and>
     ar_response res = Decided d \<and> d_allow d \<and>
     revoked_in demo_env (Some (getRevoked demo_revoked ''a'')) (demo_chain None)"
proof -
  obtain d where d: "decide demo_env demo_cedar 50 (authorize_input demo_deps demo_revoked ''b'' ''permit'' demo_chained) = Inr d"
    "d_allow d" using demo_decide_chained .
  obtain j js where chain: "demo_chain None = j # js" by (simp add: demo_chain_def)
  have sel: "rq_ucan demo_chained = ''u''" "rq_command demo_chained = ''/fs/read''" "rq_cosignerJwt demo_chained = None"
    "rq_delegated_chain demo_chained = Some (j # js)"
    by (simp_all add: demo_chained_def demo_request_def chain)
  have "\<exists>res. authorize demo_env demo_cedar [] 50 0 demo_deps demo_revoked demo_cache
      \<lparr>hr_body = Some (JObj (requestObj demo_chained)), hr_customer = Some ''b'', hr_traceparent = None\<rparr> = Inr res \<and>
      ar_response res = Decided d"
    by (rule tenant_chosen_by_caller [OF _ demo_body_parsed _ sel(4,3) _ _ _ _ _ d, where emitAudit = "\<lambda>ev. Inr ()"])
      (simp_all add: sel demo_unparsed isKnownCommand_def KNOWN_COMMANDS_def KNOWN_INTEGRATIONS_def validateResource_def
        packForCommand_def filter_Boolean_def getPolicies_def getAgentByDid_def demo_cache_def demo_deps_def eval_nat_numeral)
  moreover have "revoked_in demo_env (Some (getRevoked demo_revoked ''a'')) (demo_chain None)"
    by (simp add: revoked_in_def getRevoked_def demo_revoked_def chain [symmetric]) (simp add: demo_chain_def)
  ultimately show ?thesis using d(2) unfolding demo_http_def by blast
qed

end
