(* ===== verification/Control_Plane.thy ===== *)
theory Control_Plane
  imports Caches
begin

text \<open>
  The tables of apps/control-plane/src/db/schema.ts the modelled services read and write, one record per
  table, and the database as a record of tables. A table is the list of its rows in insertion order; a
  timestamp is its milliseconds; columns no modelled service reads (names, e-mail, billing) are left out.
  A fresh primary key is an argument of the operation that inserts the row.
\<close>

datatype ApprovalState = st_pending | st_approved | st_denied | st_expired
datatype RiskScore = risk_low | risk_medium | risk_high
datatype VariantScope = v_narrow | v_medium | v_broad
datatype GrantScope = scope_exact | scope_any
datatype GrantDecision = grant_allow | grant_deny
datatype PolicySource = source_manual | source_step_up

record CedarVariants =
  cv_narrow :: string
  cv_medium :: string
  cv_broad :: string

fun pick_variant :: "VariantScope \<Rightarrow> CedarVariants \<Rightarrow> string" where
  "pick_variant v_narrow v = cv_narrow v"
| "pick_variant v_medium v = cv_medium v"
| "pick_variant v_broad v = cv_broad v"

record AgentRow =
  ag_id :: string
  ag_customerId :: string
  ag_name :: string
  ag_did :: string
  ag_status :: AgentStatus
  ag_mode :: AgentMode
  ag_stepUpOnDeny :: bool
  ag_connectionApprovedAt :: "string option"
  ag_parentAgentId :: "string option"
  ag_rootAgentId :: "string option"
  ag_depth :: nat
  ag_swarmId :: "string option"
  ag_encryptedSigningKey :: "string option"
  ag_signingKeyNonce :: "string option"

record PolicyRow =
  po_id :: string
  po_customerId :: string
  po_integrationId :: "string option"
  po_name :: string
  po_cedarText :: string
  po_version :: int

record AgentPolicyRow =
  ap_customerId :: string
  ap_agentId :: string
  ap_policyId :: string
  ap_source :: PolicySource
  ap_createdBy :: "string option"

record RevocationRow =
  rv_cid :: string
  rv_customerId :: string

record ApprovalRow =
  pa_id :: string
  pa_customerId :: string
  pa_agentId :: string
  pa_command :: string
  pa_resource :: obj
  pa_state :: ApprovalState
  pa_requestedAt :: int
  pa_decidedAt :: "int option"
  pa_decidedBy :: "string option"
  pa_cosignerAttestationJwt :: "string option"
  pa_cosignerUsedAt :: "int option"
  pa_originalUcanCid :: "string option"
  pa_riskScore :: RiskScore
  pa_riskSummary :: string
  pa_cedarPreview :: string
  pa_cedarVariants :: CedarVariants
  pa_recommendedScope :: VariantScope
  pa_expiresAt :: int
  pa_resourceHash :: string

record GrantTableRow =
  gt_id :: string
  gt_customerId :: string
  gt_agentId :: string
  gt_command :: string
  gt_resourcePattern :: obj
  gt_scope :: GrantScope
  gt_decision :: GrantDecision
  gt_cedarSnippet :: "string option"
  gt_riskSummary :: "string option"
  gt_sourceApprovalId :: "string option"
  gt_grantedBy :: string
  gt_revokedAt :: "int option"
  gt_revokedBy :: "string option"

record PasskeyRow =
  pk_rowId :: string
  pk_userId :: string
  pk_credentialID :: string
  pk_publicKey :: string
  pk_counter :: int

record Database =
  db_agents :: "AgentRow list"
  db_policies :: "PolicyRow list"
  db_agentPolicies :: "AgentPolicyRow list"
  db_revocations :: "RevocationRow list"
  db_approvals :: "ApprovalRow list"
  db_grants :: "GrantTableRow list"
  db_passkeys :: "PasskeyRow list"

text \<open>\<open>UPDATE\<close> of the rows a condition selects.\<close>

definition update_rows :: "('a \<Rightarrow> bool) \<Rightarrow> ('a \<Rightarrow> 'a) \<Rightarrow> 'a list \<Rightarrow> 'a list" where
  "update_rows P f rows = map (\<lambda>r. if P r then f r else r) rows"

lemma set_update_rows: "set (update_rows P f rows) = f ` {r \<in> set rows. P r} \<union> {r \<in> set rows. \<not> P r}"
  by (auto simp: update_rows_def)

lemma map_update_rows: "(\<And>r. g (f r) = g r) \<Longrightarrow> map g (update_rows P f rows) = map g rows"
  by (simp add: update_rows_def)

lemma find_update_rows:
  "(\<And>r. Q (f r) = Q r) \<Longrightarrow>
     List.find Q (update_rows P f rows) = map_option (\<lambda>r. if P r then f r else r) (List.find Q rows)"
  by (induction rows) (auto simp: update_rows_def)

text \<open>\<open>String.prototype.slice(0, n)\<close>, which counts UTF-16 code units, on UTF-8 text. A character outside
  the basic plane counts two and is left out when only its first half fits.\<close>

definition lead_bytes :: "char \<Rightarrow> nat" where
  "lead_bytes c =
     (if of_char c < (0xC0 :: nat) then 1 else if of_char c < (0xE0 :: nat) then 2
      else if of_char c < (0xF0 :: nat) then 3 else 4)"

function js_prefix :: "nat \<Rightarrow> string \<Rightarrow> string" where
  "js_prefix n [] = []"
| "js_prefix n (c # s) =
     (let units = (if lead_bytes c = 4 then 2 else 1)
      in if units > n then []
         else take (lead_bytes c) (c # s) @ js_prefix (n - units) (drop (lead_bytes c) (c # s)))"
  by pat_completeness auto
termination
  by (relation "measure (length \<circ> snd)") (auto simp: lead_bytes_def split: if_splits)

end
