(* ===== verification/Grants.thy ===== *)
theory Grants
  imports Control_Plane
begin

text \<open>
  apps/control-plane/src/services/grants: llm-risk-summary.ts (the Cedar text offered to the operator),
  upsert.ts (the agent_grants table) and render-cedar.ts (the grants as Cedar in the bundle). The answer
  of the language model is an argument: \<open>None\<close> stands for a failed, refused or empty response.
\<close>

subsection \<open>Cedar text\<close>

text \<open>\<open>s.replace(/c/g, r)\<close> for a single character c.\<close>

definition replace_all :: "char \<Rightarrow> string \<Rightarrow> string \<Rightarrow> string" where
  "replace_all c r s = concat (map (\<lambda>x. if x = c then r else [x]) s)"

definition escapeCedarString :: "string \<Rightarrow> string" where
  "escapeCedarString s =
     replace_all (CHR 0x22) [CHR 0x5C, CHR 0x22] (replace_all (CHR 0x5C) [CHR 0x5C, CHR 0x5C] s)"

definition dq :: string where "dq = [CHR 0x22]"
definition nl :: string where "nl = [CHR 0x0A]"

definition when_part :: "string \<Rightarrow> json \<Rightarrow> string" where
  "when_part k v =
     ''resource.'' @ k @ '' == '' @
       (case v of
          JStr s \<Rightarrow> dq @ escapeCedarString s @ dq
        | JNum n \<Rightarrow> num_text n
        | JBool b \<Rightarrow> (if b then ''true'' else ''false'')
        | _ \<Rightarrow> dq @ escapeCedarString (render v) @ dq)"

definition renderWhenClause :: "obj \<Rightarrow> string" where
  "renderWhenClause pattern =
     (let keys = sort (map fst pattern)
      in if keys = [] then []
         else '' when { '' @ join '' && '' (map (\<lambda>k. when_part k (jget pattern k)) keys) @ '' }'')"

definition renderPermit :: "string \<Rightarrow> string \<Rightarrow> string" where
  "renderPermit command whenClause =
     ''permit ('' @ nl @ ''  principal,'' @ nl @ ''  action == Action::'' @ dq @ escapeCedarString command @ dq @ '','' @ nl @
     ''  resource'' @ nl @ '')'' @ whenClause @ '';''"

subsection \<open>llm-risk-summary.ts\<close>

record RiskSummaryInput =
  ri_agentName :: string
  ri_command :: string
  ri_resource :: obj

record RiskSummaryResult =
  rr_summary :: string
  rr_riskScore :: RiskScore
  rr_cedarPreview :: string
  rr_cedarVariants :: CedarVariants
  rr_recommendedScope :: VariantScope

definition buildCedarPreview :: "RiskSummaryInput \<Rightarrow> string" where
  "buildCedarPreview inp = renderPermit (ri_command inp) (renderWhenClause (ri_resource inp))"

definition pickMediumSubset :: "obj \<Rightarrow> obj" where
  "pickMediumSubset resource =
     (let out = map (\<lambda>k. (k, jget resource k))
                  (filter (\<lambda>k. jget resource k \<noteq> JUndef)
                    [''owner'', ''repo'', ''repo_name'', ''channel'', ''database'', ''database_id'', ''workspace''])
      in if out = [] then resource else out)"

definition buildCedarVariants :: "RiskSummaryInput \<Rightarrow> CedarVariants" where
  "buildCedarVariants inp =
     \<lparr>cv_narrow = renderPermit (ri_command inp) (renderWhenClause (ri_resource inp)),
      cv_medium = renderPermit (ri_command inp) (renderWhenClause (pickMediumSubset (ri_resource inp))),
      cv_broad = renderPermit (ri_command inp) []\<rparr>"

definition isParseableCedar :: "cedar \<Rightarrow> string \<Rightarrow> bool" where
  "isParseableCedar C t = fst (parsePolicy C t)"

definition sanitize_variant :: "cedar \<Rightarrow> json \<Rightarrow> string \<Rightarrow> string" where
  "sanitize_variant C raw fallback =
     (case raw of JStr t \<Rightarrow> if t \<noteq> [] \<and> isParseableCedar C t then t else fallback | _ \<Rightarrow> fallback)"

definition sanitizeVariants :: "cedar \<Rightarrow> obj \<Rightarrow> CedarVariants \<Rightarrow> CedarVariants" where
  "sanitizeVariants C raw fallbacks =
     \<lparr>cv_narrow = sanitize_variant C (jget raw ''narrow'') (cv_narrow fallbacks),
      cv_medium = sanitize_variant C (jget raw ''medium'') (cv_medium fallbacks),
      cv_broad = sanitize_variant C (jget raw ''broad'') (cv_broad fallbacks)\<rparr>"

definition risk_of :: "json \<Rightarrow> RiskScore option" where
  "risk_of v =
     (if v = JStr ''low'' then Some risk_low else if v = JStr ''medium'' then Some risk_medium
      else if v = JStr ''high'' then Some risk_high else None)"

definition scope_of :: "json \<Rightarrow> VariantScope" where
  "scope_of v = (if v = JStr ''medium'' then v_medium else if v = JStr ''broad'' then v_broad else v_narrow)"

text \<open>The text from the first opening to the last closing brace.\<close>

definition braced :: "string \<Rightarrow> string option" where
  "braced t =
     (let start = dropWhile (\<lambda>c. c \<noteq> CHR 0x7B) t;
          body = rev (dropWhile (\<lambda>c. c \<noteq> CHR 0x7D) (rev start))
      in if start = [] \<or> body = [] then None else Some body)"

definition summarize :: "env \<Rightarrow> cedar \<Rightarrow> string option \<Rightarrow> RiskSummaryInput \<Rightarrow> RiskSummaryResult option" where
  "summarize E C response inp =
     (let fallbacks = buildCedarVariants inp
      in case Option.bind response (\<lambda>t. Option.bind (braced (trim t)) (JSON_parse (e_nd E))) of
           Some (JObj ob) \<Rightarrow>
             (case (as_string (jget ob ''summary''), risk_of (jget ob ''riskScore'')) of
                (Some s, Some risk) \<Rightarrow>
                  if js_prefix 200 s = [] then None
                  else Some
                    \<lparr>rr_summary = js_prefix 200 s, rr_riskScore = risk, rr_cedarPreview = cv_narrow fallbacks,
                     rr_cedarVariants =
                       sanitizeVariants C (case as_obj (jget ob ''cedarVariants'') of None \<Rightarrow> [] | Some raw \<Rightarrow> raw) fallbacks,
                     rr_recommendedScope = scope_of (jget ob ''recommendedScope'')\<rparr>
              | _ \<Rightarrow> None)
         | _ \<Rightarrow> None)"

definition write_words :: "string list" where
  "write_words =
     [''create'', ''update'', ''delete'', ''merge'', ''comment'', ''close'', ''send'', ''post'', ''put'', ''patch'']"

definition fallbackRiskSummary :: "RiskSummaryInput \<Rightarrow> RiskSummaryResult" where
  "fallbackRiskSummary inp =
     (let command = toLowerCase (ri_command inp);
          isWrite = list_ex (js_includes command) write_words;
          isDelete = js_includes command ''delete'';
          variants = buildCedarVariants inp;
          on = '' on '' @ js_prefix 80 (render (JObj (ri_resource inp)))
      in \<lparr>rr_summary = (if isWrite then ''Write action '' else ''Read action '') @ ri_command inp @ on,
          rr_riskScore = (if isDelete then risk_high else if isWrite then risk_medium else risk_low),
          rr_cedarPreview = cv_narrow variants,
          rr_cedarVariants = variants,
          rr_recommendedScope = (if isDelete then v_narrow else if isWrite then v_medium else v_broad)\<rparr>)"

subsection \<open>upsert.ts\<close>

record UpsertGrantInput =
  ug_customerId :: string
  ug_agentId :: string
  ug_agentName :: string
  ug_command :: string
  ug_resource :: obj
  ug_scope :: GrantScope
  ug_decision :: GrantDecision
  ug_grantedBy :: string
  ug_sourceApprovalId :: "string option"
  ug_riskSummary :: "string option"
  ug_cedarSnippet :: "string option"

definition buildCedarPreviewForGrant :: "UpsertGrantInput \<Rightarrow> string" where
  "buildCedarPreviewForGrant inp =
     buildCedarPreview
       \<lparr>ri_agentName = ug_agentName inp, ri_command = ug_command inp,
        ri_resource = (if ug_scope inp = scope_exact then ug_resource inp else [])\<rparr>"

definition active_grant :: "UpsertGrantInput \<Rightarrow> GrantTableRow \<Rightarrow> bool" where
  "active_grant inp g \<longleftrightarrow>
     gt_customerId g = ug_customerId inp \<and> gt_agentId g = ug_agentId inp \<and> gt_command g = ug_command inp \<and>
     gt_revokedAt g = None"

definition new_grant :: "string \<Rightarrow> UpsertGrantInput \<Rightarrow> GrantTableRow" where
  "new_grant newId inp =
     \<lparr>gt_id = newId, gt_customerId = ug_customerId inp, gt_agentId = ug_agentId inp, gt_command = ug_command inp,
      gt_resourcePattern = (if ug_scope inp = scope_exact then ug_resource inp else []), gt_scope = ug_scope inp,
      gt_decision = ug_decision inp,
      gt_cedarSnippet = Some (case ug_cedarSnippet inp of None \<Rightarrow> buildCedarPreviewForGrant inp | Some t \<Rightarrow> t),
      gt_riskSummary = ug_riskSummary inp, gt_sourceApprovalId = ug_sourceApprovalId inp,
      gt_grantedBy = ug_grantedBy inp, gt_revokedAt = None, gt_revokedBy = None\<rparr>"

definition upsertGrant :: "string \<Rightarrow> int \<Rightarrow> UpsertGrantInput \<Rightarrow> Database \<Rightarrow> Database" where
  "upsertGrant newId now inp db =
     db\<lparr>db_grants :=
          update_rows (active_grant inp) (\<lambda>g. g\<lparr>gt_revokedAt := Some now, gt_revokedBy := Some (ug_grantedBy inp)\<rparr>)
            (db_grants db) @ [new_grant newId inp]\<rparr>"

definition revocable :: "string \<Rightarrow> string \<Rightarrow> GrantTableRow \<Rightarrow> bool" where
  "revocable customerId grantId g \<longleftrightarrow> gt_id g = grantId \<and> gt_customerId g = customerId \<and> gt_revokedAt g = None"

definition revokeGrant :: "int \<Rightarrow> string \<Rightarrow> string \<Rightarrow> string \<Rightarrow> Database \<Rightarrow> bool \<times> Database" where
  "revokeGrant now customerId grantId revokedBy db =
     (list_ex (revocable customerId grantId) (db_grants db),
      db\<lparr>db_grants := update_rows (revocable customerId grantId)
            (\<lambda>g. g\<lparr>gt_revokedAt := Some now, gt_revokedBy := Some revokedBy\<rparr>) (db_grants db)\<rparr>)"

text \<open>The \<open>toggle\<close> procedure of trpc/routers/grants.ts; None is NOT_FOUND.\<close>

definition toggleGrant :: "string \<Rightarrow> int \<Rightarrow> string \<Rightarrow> string \<Rightarrow> string \<Rightarrow> Database \<Rightarrow> Database option" where
  "toggleGrant newId now customerId grantId user db =
     (case List.find (revocable customerId grantId) (db_grants db) of
        None \<Rightarrow> None
      | Some g \<Rightarrow>
          (case List.find (\<lambda>a. ag_id a = gt_agentId g) (db_agents db) of
             None \<Rightarrow> None
           | Some a \<Rightarrow>
               if ag_name a = [] then None
               else Some (upsertGrant newId now
                 \<lparr>ug_customerId = customerId, ug_agentId = gt_agentId g, ug_agentName = ag_name a,
                  ug_command = gt_command g, ug_resource = gt_resourcePattern g, ug_scope = gt_scope g,
                  ug_decision = (if gt_decision g = grant_allow then grant_deny else grant_allow),
                  ug_grantedBy = user, ug_sourceApprovalId = None, ug_riskSummary = gt_riskSummary g,
                  ug_cedarSnippet = None\<rparr> db)))"

subsection \<open>render-cedar.ts\<close>

record GrantRow =
  gr_agentDid :: string
  gr_command :: string
  gr_resourcePattern :: obj
  gr_scope :: GrantScope
  gr_decision :: GrantDecision
  gr_cedarSnippet :: "string option"

definition loadStepUpAgentsForCustomer :: "Database \<Rightarrow> string \<Rightarrow> string list" where
  "loadStepUpAgentsForCustomer db customerId =
     map ag_did (filter (\<lambda>a. ag_customerId a = customerId \<and> ag_stepUpOnDeny a) (db_agents db))"

definition loadActiveGrantsForCustomer :: "Database \<Rightarrow> string \<Rightarrow> GrantRow list" where
  "loadActiveGrantsForCustomer db customerId =
     concat (map (\<lambda>g. map (\<lambda>a. \<lparr>gr_agentDid = ag_did a, gr_command = gt_command g,
                             gr_resourcePattern = gt_resourcePattern g, gr_scope = gt_scope g,
                             gr_decision = gt_decision g, gr_cedarSnippet = gt_cedarSnippet g\<rparr>)
                        (filter (\<lambda>a. ag_id a = gt_agentId g) (db_agents db)))
       (filter (\<lambda>g. gt_customerId g = customerId \<and> gt_revokedAt g = None) (db_grants db)))"

definition principal_is :: "string \<Rightarrow> string" where
  "principal_is did = ''principal == Agent::'' @ dq @ escapeCedarString did @ dq"

definition derived_rule :: "GrantRow \<Rightarrow> string" where
  "derived_rule grant =
     (if gr_decision grant = grant_allow then ''permit'' else ''forbid'') @ '' ('' @ nl @ ''  '' @
       principal_is (gr_agentDid grant) @ '','' @ nl @
       ''  action == Action::'' @ dq @ escapeCedarString (gr_command grant) @ dq @ '','' @ nl @ ''  resource'' @ nl @ '')'' @
       (if gr_scope grant = scope_exact then renderWhenClause (gr_resourcePattern grant) else []) @ '';''"

definition renderGrantToCedar :: "GrantRow \<Rightarrow> string" where
  "renderGrantToCedar grant =
     (case gr_cedarSnippet grant of
        Some snippet \<Rightarrow>
          if trim snippet \<noteq> []
          then (if endsWith (trim snippet) '';'' then trim snippet else trim snippet @ '';'')
          else derived_rule grant
      | None \<Rightarrow> derived_rule grant)"

definition renderGrantsBlock :: "GrantRow list \<Rightarrow> string" where
  "renderGrantsBlock grants =
     (if grants = [] then []
      else join (nl @ nl) (''// === Dynamic agent grants (auto-generated) ==='' # map renderGrantToCedar grants))"

definition baseline_rule :: "string \<Rightarrow> string" where
  "baseline_rule did =
     ''permit ('' @ nl @ ''  '' @ principal_is did @ '','' @ nl @ ''  action,'' @ nl @ ''  resource'' @ nl @
     '') when { context.cosigner == true };''"

definition renderStepUpBaseline :: "string list \<Rightarrow> string" where
  "renderStepUpBaseline dids =
     (if dids = [] then []
      else join (nl @ nl) (''// === Step-up baseline (per-agent step_up_on_deny) ==='' # map baseline_rule dids))"

end
