(* ===== verification/Approvals.thy ===== *)
theory Approvals
  imports Grants Stepup
begin

text \<open>
  The step-up approvals of the control plane: apps/control-plane/src/services/stepup (create.ts, get.ts,
  cosigner.ts), the stepup endpoints of routes/internal.ts and the approve and deny procedures of
  trpc/routers/stepup.ts. An operation that reads a row and writes it later is split where it awaits:
  \<open>begin\<close> is the part up to the last read, \<open>end\<close> the write, so that two operations can interleave.
  The notification that follows a creation is left out.
\<close>

subsection \<open>create.ts\<close>

function canonicalJson :: "json \<Rightarrow> string" where
  "canonicalJson JUndef = ''undefined''"
| "canonicalJson JNull = ''null''"
| "canonicalJson (JNum n) = num_text n"
| "canonicalJson (JStr s) = quote s"
| "canonicalJson (JBool b) = (if b then ''true'' else ''false'')"
| "canonicalJson (JArr vs) = ''['' @ join '','' (map canonicalJson vs) @ '']''"
| "canonicalJson (JObj kvs) =
     ''{'' @ join '','' (map (\<lambda>(k, t). quote k @ '':'' @ t) (sort_key fst (map (\<lambda>(k, v). (k, canonicalJson v)) kvs))) @ ''}''"
  by pat_completeness auto
termination
  by (relation "measure size") (auto dest: size_snd_member simp: size_list_estimation' less_Suc_eq_le)

definition computeResourceHash :: "env \<Rightarrow> obj \<Rightarrow> string" where
  "computeResourceHash E resource = sha256Hex E (canonicalJson (JObj resource))"

datatype StepUpCreateError = agent_not_found | upsert_returned_no_rows | unique_violation

record StepUpCreateInput =
  sc_customerId :: string
  sc_agentId :: string
  sc_command :: string
  sc_resource :: obj
  sc_ttlSeconds :: "int option"
  sc_originalUcanCid :: "string option"

record StepUpCreated =
  sr_id :: string
  sr_expiresAt :: int
  sr_deepLink :: string

record StepUpCreateDeps =
  sd_dashboardPublicUrl :: string
  sd_defaultTtlSeconds :: "int option"
  sd_riskSummarizer :: "(RiskSummaryInput \<Rightarrow> RiskSummaryResult option) option"

definition DEFAULT_TTL_SECONDS :: int where "DEFAULT_TTL_SECONDS = 7 * 24 * 60 * 60"

definition buildDeepLink :: "StepUpCreateDeps \<Rightarrow> string \<Rightarrow> string" where
  "buildDeepLink deps i =
     rev (dropWhile (\<lambda>c. c = CHR ''/'') (rev (sd_dashboardPublicUrl deps))) @ ''/approve/'' @ i"

definition ttl_of :: "StepUpCreateDeps \<Rightarrow> StepUpCreateInput \<Rightarrow> int" where
  "ttl_of deps inp =
     (case sc_ttlSeconds inp of Some t \<Rightarrow> t
      | None \<Rightarrow> (case sd_defaultTtlSeconds deps of Some t \<Rightarrow> t | None \<Rightarrow> DEFAULT_TTL_SECONDS))"

definition risk_result :: "StepUpCreateDeps \<Rightarrow> AgentRow \<Rightarrow> StepUpCreateInput \<Rightarrow> RiskSummaryResult" where
  "risk_result deps agent inp =
     (let ri = \<lparr>ri_agentName = ag_name agent, ri_command = sc_command inp, ri_resource = sc_resource inp\<rparr>
      in case Option.bind (sd_riskSummarizer deps) (\<lambda>f. f ri) of
           Some r \<Rightarrow> r | None \<Rightarrow> fallbackRiskSummary ri)"

text \<open>The unique partial index: the same customer, agent, command and resource, still pending.\<close>

definition same_request :: "string \<Rightarrow> StepUpCreateInput \<Rightarrow> ApprovalRow \<Rightarrow> bool" where
  "same_request hash inp r \<longleftrightarrow>
     pa_customerId r = sc_customerId inp \<and> pa_agentId r = sc_agentId inp \<and> pa_command r = sc_command inp \<and>
     pa_resourceHash r = hash \<and> pa_state r = st_pending"

record create_job =
  cj_input :: StepUpCreateInput
  cj_now :: int
  cj_existing :: "string option"
  cj_risk :: RiskSummaryResult

datatype create_begun = Create_failed StepUpCreateError | Create_reused StepUpCreated | Create_started create_job

definition create_begin :: "env \<Rightarrow> StepUpCreateDeps \<Rightarrow> int \<Rightarrow> StepUpCreateInput \<Rightarrow> Database \<Rightarrow> create_begun" where
  "create_begin E deps now inp db =
     (case List.find (\<lambda>a. ag_id a = sc_agentId inp \<and> ag_customerId a = sc_customerId inp) (db_agents db) of
        None \<Rightarrow> Create_failed agent_not_found
      | Some agent \<Rightarrow>
          (let existing = List.find (same_request (computeResourceHash E (sc_resource inp)) inp) (db_approvals db);
               job = \<lparr>cj_input = inp, cj_now = now, cj_existing = map_option pa_id existing,
                      cj_risk = risk_result deps agent inp\<rparr>
           in case existing of
                None \<Rightarrow> Create_started job
              | Some r \<Rightarrow>
                  if pa_expiresAt r > now
                  then Create_reused \<lparr>sr_id = pa_id r, sr_expiresAt = pa_expiresAt r, sr_deepLink = buildDeepLink deps (pa_id r)\<rparr>
                  else Create_started job))"

definition refresh_row :: "StepUpCreateDeps \<Rightarrow> create_job \<Rightarrow> ApprovalRow \<Rightarrow> ApprovalRow" where
  "refresh_row deps job r =
     (let inp = cj_input job; risk = cj_risk job
      in r\<lparr>pa_resource := sc_resource inp, pa_requestedAt := cj_now job,
           pa_expiresAt := cj_now job + ttl_of deps inp * 1000, pa_riskScore := rr_riskScore risk,
           pa_riskSummary := rr_summary risk, pa_cedarPreview := rr_cedarPreview risk,
           pa_cedarVariants := rr_cedarVariants risk, pa_recommendedScope := rr_recommendedScope risk,
           pa_originalUcanCid :=
             (if str_truthy (sc_originalUcanCid inp) then sc_originalUcanCid inp else pa_originalUcanCid r)\<rparr>)"

definition new_row :: "env \<Rightarrow> StepUpCreateDeps \<Rightarrow> string \<Rightarrow> create_job \<Rightarrow> ApprovalRow" where
  "new_row E deps newId job =
     (let inp = cj_input job; risk = cj_risk job
      in \<lparr>pa_id = newId, pa_customerId = sc_customerId inp, pa_agentId = sc_agentId inp, pa_command = sc_command inp,
          pa_resource = sc_resource inp, pa_state = st_pending, pa_requestedAt = cj_now job, pa_decidedAt = None,
          pa_decidedBy = None, pa_cosignerAttestationJwt = None, pa_cosignerUsedAt = None,
          pa_originalUcanCid = (if str_truthy (sc_originalUcanCid inp) then sc_originalUcanCid inp else None),
          pa_riskScore = rr_riskScore risk, pa_riskSummary = rr_summary risk, pa_cedarPreview = rr_cedarPreview risk,
          pa_cedarVariants = rr_cedarVariants risk, pa_recommendedScope = rr_recommendedScope risk,
          pa_expiresAt = cj_now job + ttl_of deps inp * 1000,
          pa_resourceHash = computeResourceHash E (sc_resource inp)\<rparr>)"

definition create_end ::
  "env \<Rightarrow> StepUpCreateDeps \<Rightarrow> string \<Rightarrow> create_job \<Rightarrow> Database \<Rightarrow> (StepUpCreateError, StepUpCreated) result \<times> Database"
  where
  "create_end E deps newId job db =
     (let created = (\<lambda>i. \<lparr>sr_id = i, sr_expiresAt = cj_now job + ttl_of deps (cj_input job) * 1000,
                          sr_deepLink = buildDeepLink deps i\<rparr>)
      in case cj_existing job of
           Some i \<Rightarrow>
             if list_ex (\<lambda>r. pa_id r = i) (db_approvals db)
             then (Inr (created i), db\<lparr>db_approvals := update_rows (\<lambda>r. pa_id r = i) (refresh_row deps job) (db_approvals db)\<rparr>)
             else (Inl upsert_returned_no_rows, db)
         | None \<Rightarrow>
             if list_ex (same_request (computeResourceHash E (sc_resource (cj_input job))) (cj_input job)) (db_approvals db)
             then (Inl unique_violation, db)
             else (Inr (created newId), db\<lparr>db_approvals := db_approvals db @ [new_row E deps newId job]\<rparr>))"

text \<open>Nothing between the two halves: what a single caller sees.\<close>

definition createStepUpApproval ::
  "env \<Rightarrow> StepUpCreateDeps \<Rightarrow> int \<Rightarrow> string \<Rightarrow> StepUpCreateInput \<Rightarrow> Database \<Rightarrow>
   (StepUpCreateError, StepUpCreated) result \<times> Database" where
  "createStepUpApproval E deps now newId inp db =
     (case create_begin E deps now inp db of
        Create_failed e \<Rightarrow> (Inl e, db)
      | Create_reused r \<Rightarrow> (Inr r, db)
      | Create_started job \<Rightarrow> create_end E deps newId job db)"

subsection \<open>get.ts and the endpoints of routes/internal.ts\<close>

definition getStepUpApproval :: "Database \<Rightarrow> string \<Rightarrow> ApprovalRow option" where
  "getStepUpApproval db i = List.find (\<lambda>r. pa_id r = i) (db_approvals db)"

definition getStepUpForCustomer :: "Database \<Rightarrow> string \<Rightarrow> string \<Rightarrow> ApprovalRow option" where
  "getStepUpForCustomer db customerId i =
     List.find (\<lambda>r. pa_id r = i \<and> pa_customerId r = customerId) (db_approvals db)"

definition isExpired :: "ApprovalRow \<Rightarrow> int \<Rightarrow> bool" where
  "isExpired r now \<longleftrightarrow> pa_state r = st_pending \<and> pa_expiresAt r \<le> now"

fun state_text :: "ApprovalState \<Rightarrow> string" where
  "state_text st_pending = ''pending''"
| "state_text st_approved = ''approved''"
| "state_text st_denied = ''denied''"
| "state_text st_expired = ''expired''"

definition get_stepup :: "int \<Rightarrow> Database \<Rightarrow> string \<Rightarrow> StepUpStateResponse option" where
  "get_stepup now db i =
     map_option (\<lambda>r. \<lparr>su_state = state_text (if isExpired r now then st_expired else pa_state r),
                      su_cosignerAttestationJwt = pa_cosignerAttestationJwt r\<rparr>) (getStepUpApproval db i)"

definition consumable :: "string \<Rightarrow> ApprovalRow \<Rightarrow> bool" where
  "consumable i r \<longleftrightarrow> pa_id r = i \<and> pa_state r = st_approved \<and> pa_cosignerUsedAt r = None"

definition consume_stepup :: "int \<Rightarrow> string \<Rightarrow> Database \<Rightarrow> bool \<times> Database" where
  "consume_stepup now i db =
     (list_ex (consumable i) (db_approvals db),
      db\<lparr>db_approvals := update_rows (consumable i) (\<lambda>r. r\<lparr>pa_cosignerUsedAt := Some now\<rparr>) (db_approvals db)\<rparr>)"

subsection \<open>cosigner.ts\<close>

datatype CosignerError =
    approval_not_found | approval_not_pending | approval_expired | mint_agent_not_found | no_original_cid
  | issue_threw exn

record MintCosignerInput =
  mc_approvalId :: string
  mc_customerId :: string
  mc_decidingUserId :: string
  mc_ttlSeconds :: "int option"
  mc_nonce :: string
  mc_mode :: "string option"

record mint_job =
  mj_input :: MintCosignerInput
  mj_now :: int
  mj_jwt :: string
  mj_cosignerFor :: string

definition cosigner_ttl :: "MintCosignerInput \<Rightarrow> int" where
  "cosigner_ttl inp = (case mc_ttlSeconds inp of None \<Rightarrow> 300 | Some t \<Rightarrow> t)"

definition cosigner_payload ::
  "string \<Rightarrow> int \<Rightarrow> MintCosignerInput \<Rightarrow> ApprovalRow \<Rightarrow> string \<Rightarrow> string \<Rightarrow> UcanPayload" where
  "cosigner_payload signerDid nowSec inp r cid agentDid =
     \<lparr>p_iss = signerDid, p_aud = agentDid, p_cmd = pa_command r, p_sub = None, p_pol = [], p_nonce = mc_nonce inp,
      p_meta = Some [(''cosigner_for'', JStr cid), (''approval_id'', JStr (pa_id r)),
                     (''decided_by'', JStr (mc_decidingUserId inp)),
                     (''mode'', JStr (case mc_mode inp of None \<Rightarrow> ''session'' | Some m \<Rightarrow> m))],
      p_nbf = nowSec - 60, p_exp = nowSec + cosigner_ttl inp, p_prf = None\<rparr>"

definition mint_begin ::
  "env \<Rightarrow> string \<Rightarrow> string \<Rightarrow> int \<Rightarrow> MintCosignerInput \<Rightarrow> Database \<Rightarrow> (CosignerError, mint_job) result" where
  "mint_begin E signKey signerDid now inp db =
     (case getStepUpForCustomer db (mc_customerId inp) (mc_approvalId inp) of
        None \<Rightarrow> Inl approval_not_found
      | Some r \<Rightarrow>
          if pa_state r \<noteq> st_pending then Inl approval_not_pending
          else if pa_expiresAt r \<le> now then Inl approval_expired
          else if \<not> str_truthy (pa_originalUcanCid r) then Inl no_original_cid
          else case List.find (\<lambda>a. ag_id a = pa_agentId r) (db_agents db) of
              None \<Rightarrow> Inl mint_agent_not_found
            | Some agent \<Rightarrow>
                (case issueUcan E (cosigner_payload signerDid (now div 1000) inp r (the (pa_originalUcanCid r)) (ag_did agent))
                        signKey of
                   Inl e \<Rightarrow> Inl (issue_threw e)
                 | Inr issued \<Rightarrow>
                     Inr \<lparr>mj_input = inp, mj_now = now, mj_jwt = ui_jwt issued,
                          mj_cosignerFor = the (pa_originalUcanCid r)\<rparr>))"

definition approve_row :: "mint_job \<Rightarrow> ApprovalRow \<Rightarrow> ApprovalRow" where
  "approve_row job r =
     r\<lparr>pa_state := st_approved, pa_decidedAt := Some (mj_now job),
       pa_decidedBy := Some (mc_decidingUserId (mj_input job)), pa_cosignerAttestationJwt := Some (mj_jwt job)\<rparr>"

definition mint_end :: "mint_job \<Rightarrow> Database \<Rightarrow> Database" where
  "mint_end job db =
     db\<lparr>db_approvals := update_rows (\<lambda>r. pa_id r = mc_approvalId (mj_input job)) (approve_row job) (db_approvals db)\<rparr>"

definition mintCosignerForApproval ::
  "env \<Rightarrow> string \<Rightarrow> string \<Rightarrow> int \<Rightarrow> MintCosignerInput \<Rightarrow> Database \<Rightarrow> (CosignerError, mint_job) result \<times> Database" where
  "mintCosignerForApproval E signKey signerDid now inp db =
     (case mint_begin E signKey signerDid now inp db of
        Inl e \<Rightarrow> (Inl e, db)
      | Inr job \<Rightarrow> (Inr job, mint_end job db))"

definition deniable :: "string \<Rightarrow> string \<Rightarrow> ApprovalRow \<Rightarrow> bool" where
  "deniable i customerId r \<longleftrightarrow> pa_id r = i \<and> pa_customerId r = customerId \<and> pa_state r = st_pending"

definition deny_row :: "int \<Rightarrow> string \<Rightarrow> ApprovalRow \<Rightarrow> ApprovalRow" where
  "deny_row now user r = r\<lparr>pa_state := st_denied, pa_decidedAt := Some now, pa_decidedBy := Some user\<rparr>"

definition denyApproval :: "int \<Rightarrow> string \<Rightarrow> string \<Rightarrow> string \<Rightarrow> Database \<Rightarrow> bool \<times> Database" where
  "denyApproval now i customerId user db =
     (length (filter (deniable i customerId) (db_approvals db)) = 1,
      db\<lparr>db_approvals := update_rows (deniable i customerId) (deny_row now user) (db_approvals db)\<rparr>)"

subsection \<open>The table under concurrent use\<close>

record approval_system =
  as_db :: Database
  as_creating :: "create_job list"
  as_minting :: "mint_job list"
  as_consumed :: "string list"

inductive approval_step ::
  "env \<Rightarrow> StepUpCreateDeps \<Rightarrow> string \<Rightarrow> string \<Rightarrow> approval_system \<Rightarrow> approval_system \<Rightarrow> bool"
  for E deps signKey signerDid where
  create_starts:
    "create_begin E deps now inp (as_db s) = Create_started job \<Longrightarrow>
     approval_step E deps signKey signerDid s (s\<lparr>as_creating := job # as_creating s\<rparr>)"
| create_finishes:
    "job \<in> set (as_creating s) \<Longrightarrow> newId \<notin> pa_id ` set (db_approvals (as_db s)) \<Longrightarrow>
     create_end E deps newId job (as_db s) = (r, db') \<Longrightarrow>
     approval_step E deps signKey signerDid s (s\<lparr>as_db := db', as_creating := remove1 job (as_creating s)\<rparr>)"
| mint_starts:
    "mint_begin E signKey signerDid now inp (as_db s) = Inr mjob \<Longrightarrow>
     approval_step E deps signKey signerDid s (s\<lparr>as_minting := mjob # as_minting s\<rparr>)"
| mint_finishes:
    "mjob \<in> set (as_minting s) \<Longrightarrow>
     approval_step E deps signKey signerDid s
       (s\<lparr>as_db := mint_end mjob (as_db s), as_minting := remove1 mjob (as_minting s)\<rparr>)"
| denied:
    "denyApproval now i c user (as_db s) = (ok, db') \<Longrightarrow> approval_step E deps signKey signerDid s (s\<lparr>as_db := db'\<rparr>)"
| consumed:
    "consume_stepup now i (as_db s) = (ok, db') \<Longrightarrow>
     approval_step E deps signKey signerDid s
       (s\<lparr>as_db := db', as_consumed := (if ok then i # as_consumed s else as_consumed s)\<rparr>)"

inductive approval_reachable ::
  "env \<Rightarrow> StepUpCreateDeps \<Rightarrow> string \<Rightarrow> string \<Rightarrow> approval_system \<Rightarrow> approval_system \<Rightarrow> bool"
  for E deps signKey signerDid s0 where
  initially: "approval_reachable E deps signKey signerDid s0 s0"
| after_step:
    "approval_reachable E deps signKey signerDid s0 s \<Longrightarrow> approval_step E deps signKey signerDid s s' \<Longrightarrow>
     approval_reachable E deps signKey signerDid s0 s'"

text \<open>
  The invariant of the approvals table under every interleaving of its operations: primary keys stay
  unique, an attestation was issued by the control plane's key for its row's command and identifier, an
  approved row has one, and the consume endpoint has answered yes at most once for a row.
\<close>

definition minted :: "env \<Rightarrow> string \<Rightarrow> ApprovalRow \<Rightarrow> string \<Rightarrow> bool" where
  "minted E signKey r jwt \<longleftrightarrow>
     (\<exists>payload issued. issueUcan E payload signKey = Inr issued \<and> ui_jwt issued = jwt \<and>
        p_cmd payload = pa_command r \<and> meta_string ''approval_id'' payload = Some (pa_id r))"

definition row_ok :: "env \<Rightarrow> string \<Rightarrow> ApprovalRow \<Rightarrow> bool" where
  "row_ok E signKey r \<longleftrightarrow>
     (\<forall>jwt. pa_cosignerAttestationJwt r = Some jwt \<longrightarrow> minted E signKey r jwt) \<and>
     (pa_state r = st_approved \<or> pa_cosignerUsedAt r \<noteq> None \<longrightarrow> pa_cosignerAttestationJwt r \<noteq> None)"

definition approval_inv :: "env \<Rightarrow> string \<Rightarrow> approval_system \<Rightarrow> bool" where
  "approval_inv E signKey s \<longleftrightarrow>
     distinct (map pa_id (db_approvals (as_db s))) \<and>
     (\<forall>r \<in> set (db_approvals (as_db s)). row_ok E signKey r) \<and>
     (\<forall>j \<in> set (as_minting s). \<exists>r \<in> set (db_approvals (as_db s)).
        pa_id r = mc_approvalId (mj_input j) \<and> minted E signKey r (mj_jwt j)) \<and>
     distinct (as_consumed s) \<and>
     (\<forall>i \<in> set (as_consumed s). \<exists>r \<in> set (db_approvals (as_db s)). pa_id r = i \<and> pa_cosignerUsedAt r \<noteq> None)"

text \<open>Every write of the table is an update that keeps the key and the command of a row, never clears
  the mark of use, and leaves the row well-formed.\<close>

definition keeps_row :: "env \<Rightarrow> string \<Rightarrow> ApprovalRow \<Rightarrow> ApprovalRow \<Rightarrow> bool" where
  "keeps_row E signKey r r' \<longleftrightarrow>
     pa_id r' = pa_id r \<and> pa_command r' = pa_command r \<and>
     (pa_cosignerUsedAt r \<noteq> None \<longrightarrow> pa_cosignerUsedAt r' \<noteq> None) \<and> (row_ok E signKey r \<longrightarrow> row_ok E signKey r')"

lemma keeps_row_refl [simp]: "keeps_row E signKey r r"
  by (simp add: keeps_row_def)

lemma minted_cong: "pa_id r' = pa_id r \<Longrightarrow> pa_command r' = pa_command r \<Longrightarrow> minted E k r' jwt = minted E k r jwt"
  by (simp add: minted_def)

lemma unique_id:
  "distinct (map pa_id rows) \<Longrightarrow> r \<in> set rows \<Longrightarrow> r' \<in> set rows \<Longrightarrow> pa_id r = pa_id r' \<Longrightarrow> r = r'"
  by (metis distinct_map inj_onD)

lemma inv_updated:
  assumes inv: "approval_inv E signKey s"
    and keeps: "\<And>r. r \<in> set (db_approvals (as_db s)) \<Longrightarrow> P r \<Longrightarrow> keeps_row E signKey r (f r)"
    and db: "db_approvals db' = update_rows P f (db_approvals (as_db s))"
  shows "approval_inv E signKey (s\<lparr>as_db := db'\<rparr>)"
proof -
  define g where "g = (\<lambda>r. if P r then f r else r)"
  let ?rows = "db_approvals (as_db s)"
  have rows: "db_approvals db' = map g ?rows" using db by (simp add: update_rows_def g_def)
  have g: "keeps_row E signKey r (g r)" if "r \<in> set ?rows" for r
    using that keeps by (simp add: g_def)
  then have ids: "map pa_id (map g ?rows) = map pa_id ?rows" by (simp add: keeps_row_def)
  have carry: "\<exists>r' \<in> set (map g ?rows). pa_id r' = i \<and> minted E signKey r' jwt"
    if "\<exists>r \<in> set ?rows. pa_id r = i \<and> minted E signKey r jwt" for i jwt
    using that g by (auto simp: keeps_row_def) (metis minted_cong)
  have used: "\<exists>r' \<in> set (map g ?rows). pa_id r' = i \<and> pa_cosignerUsedAt r' \<noteq> None"
    if "\<exists>r \<in> set ?rows. pa_id r = i \<and> pa_cosignerUsedAt r \<noteq> None" for i
    using that g by (fastforce simp: keeps_row_def)
  have ok: "\<forall>r' \<in> set (map g ?rows). row_ok E signKey r'"
    using inv g by (auto simp: approval_inv_def keeps_row_def)
  from inv have old: "distinct (map pa_id ?rows)" "distinct (as_consumed s)"
    "\<forall>j \<in> set (as_minting s). \<exists>r \<in> set ?rows. pa_id r = mc_approvalId (mj_input j) \<and> minted E signKey r (mj_jwt j)"
    "\<forall>i \<in> set (as_consumed s). \<exists>r \<in> set ?rows. pa_id r = i \<and> pa_cosignerUsedAt r \<noteq> None"
    by (simp_all add: approval_inv_def)
  have "\<forall>j \<in> set (as_minting s). \<exists>r \<in> set (map g ?rows). pa_id r = mc_approvalId (mj_input j) \<and> minted E signKey r (mj_jwt j)"
    using old(3) carry by blast
  moreover have "\<forall>i \<in> set (as_consumed s). \<exists>r \<in> set (map g ?rows). pa_id r = i \<and> pa_cosignerUsedAt r \<noteq> None"
    using old(4) used by blast
  ultimately show ?thesis
    using ok old(1,2) ids rows by (simp add: approval_inv_def del: set_map map_map)
qed

lemma inv_jobs:
  "approval_inv E signKey s \<Longrightarrow> set js \<subseteq> set (as_minting s) \<Longrightarrow>
     approval_inv E signKey (s\<lparr>as_minting := js\<rparr>)"
  "approval_inv E signKey s \<Longrightarrow> approval_inv E signKey (s\<lparr>as_creating := cs\<rparr>)"
  by (auto simp: approval_inv_def)

lemma refresh_keeps: "keeps_row E signKey r (refresh_row deps job r)"
  by (simp add: keeps_row_def refresh_row_def Let_def row_ok_def minted_def)

lemma deny_keeps: "keeps_row E signKey r (deny_row now user r)"
  by (auto simp: keeps_row_def deny_row_def row_ok_def minted_def)

lemma approve_keeps: "minted E signKey r (mj_jwt job) \<Longrightarrow> keeps_row E signKey r (approve_row job r)"
  by (auto simp: keeps_row_def approve_row_def row_ok_def minted_def)

lemma use_keeps: "consumable i r \<Longrightarrow> keeps_row E signKey r (r\<lparr>pa_cosignerUsedAt := Some now\<rparr>)"
  by (auto simp: keeps_row_def consumable_def row_ok_def minted_def)

lemma mint_begin_minted:
  assumes "mint_begin E signKey signerDid now inp db = Inr job"
  obtains r where "r \<in> set (db_approvals db)" "pa_id r = mc_approvalId (mj_input job)" "minted E signKey r (mj_jwt job)"
    "mj_input job = inp" "pa_state r = st_pending" "pa_customerId r = mc_customerId inp"
proof -
  from assms obtain r where r: "getStepUpForCustomer db (mc_customerId inp) (mc_approvalId inp) = Some r"
    by (auto simp: mint_begin_def split: option.splits)
  note m = assms [unfolded mint_begin_def r option.case]
  from m obtain agent where a: "List.find (\<lambda>a. ag_id a = pa_agentId r) (db_agents db) = Some agent"
    by (auto split: if_splits option.splits)
  from m [unfolded a option.case] obtain issued where
    i: "issueUcan E (cosigner_payload signerDid (now div 1000) inp r (the (pa_originalUcanCid r)) (ag_did agent)) signKey = Inr issued"
    and job: "job = \<lparr>mj_input = inp, mj_now = now, mj_jwt = ui_jwt issued, mj_cosignerFor = the (pa_originalUcanCid r)\<rparr>"
    and st: "pa_state r = st_pending"
    by (auto split: if_splits sum.splits)
  from r have m: "r \<in> set (db_approvals db)" and k: "pa_id r = mc_approvalId inp" "pa_customerId r = mc_customerId inp"
    unfolding getStepUpForCustomer_def find_Some_iff by auto
  have "minted E signKey r (ui_jwt issued)"
    unfolding minted_def
    using i by (intro exI conjI) (assumption, simp_all add: cosigner_payload_def meta_string_def jget_def)
  with that m k job st show ?thesis by auto
qed

lemma new_row_ok: "row_ok E signKey (new_row E deps newId job)"
  by (simp add: row_ok_def new_row_def Let_def)

lemma create_end_inv:
  assumes inv: "approval_inv E signKey s" and fresh: "newId \<notin> pa_id ` set (db_approvals (as_db s))"
    and c: "create_end E deps newId job (as_db s) = (r, db')"
  shows "approval_inv E signKey (s\<lparr>as_db := db'\<rparr>)"
proof (cases "cj_existing job")
  case (Some i)
  show ?thesis
  proof (cases "list_ex (\<lambda>r. pa_id r = i) (db_approvals (as_db s))")
    case True
    with c Some have "db' = (as_db s)\<lparr>db_approvals := update_rows (\<lambda>r. pa_id r = i) (refresh_row deps job) (db_approvals (as_db s))\<rparr>"
      by (simp add: create_end_def)
    then show ?thesis by (intro inv_updated [OF inv refresh_keeps]) simp
  next
    case False
    with c Some have "db' = as_db s" by (simp add: create_end_def)
    with inv show ?thesis by simp
  qed
next
  case None
  with c consider "db' = as_db s"
    | "db' = (as_db s)\<lparr>db_approvals := db_approvals (as_db s) @ [new_row E deps newId job]\<rparr>"
    by (auto simp: create_end_def Let_def split: if_splits)
  then show ?thesis
  proof cases
    case 2
    have "pa_id (new_row E deps newId job) = newId" by (simp add: new_row_def Let_def)
    with 2 inv fresh new_row_ok [of E signKey deps newId job] show ?thesis
      by (auto simp: approval_inv_def)
  qed (use inv in simp)
qed

lemma step_inv:
  assumes "approval_step E deps signKey signerDid s s'" "approval_inv E signKey s"
  shows "approval_inv E signKey s'"
  using assms
proof cases
  case (create_starts now inp job)
  with assms(2) show ?thesis by (simp add: inv_jobs(2))
next
  case (create_finishes job newId r db')
  from create_end_inv [OF assms(2) create_finishes(3,4)] create_finishes(1) inv_jobs(2) show ?thesis by fastforce
next
  case (mint_starts now inp mjob)
  from mint_begin_minted [OF mint_starts(2)] obtain r where "r \<in> set (db_approvals (as_db s))"
    "pa_id r = mc_approvalId (mj_input mjob)" "minted E signKey r (mj_jwt mjob)" by blast
  with assms(2) mint_starts(1) show ?thesis by (auto simp: approval_inv_def)
next
  case (mint_finishes mjob)
  from assms(2) mint_finishes(2) obtain r0 where r0: "r0 \<in> set (db_approvals (as_db s))"
    "pa_id r0 = mc_approvalId (mj_input mjob)" "minted E signKey r0 (mj_jwt mjob)"
    by (auto simp: approval_inv_def)
  from assms(2) have d: "distinct (map pa_id (db_approvals (as_db s)))" by (simp add: approval_inv_def)
  have "approval_inv E signKey (s\<lparr>as_db := mint_end mjob (as_db s)\<rparr>)"
  proof (rule inv_updated [OF assms(2)])
    fix r assume "r \<in> set (db_approvals (as_db s))" "pa_id r = mc_approvalId (mj_input mjob)"
    with unique_id [OF d] r0 have "r = r0" by metis
    with r0 show "keeps_row E signKey r (approve_row mjob r)" by (simp add: approve_keeps)
  qed (simp add: mint_end_def)
  from inv_jobs(1) [OF this, of "remove1 mjob (as_minting s)"] mint_finishes(1) show ?thesis
    by (auto dest: in_set_remove1 [THEN iffD1, rotated] set_remove1_subset [THEN subsetD])
next
  case (denied now i c user ok db')
  have "approval_inv E signKey (s\<lparr>as_db := db'\<rparr>)"
    by (rule inv_updated [OF assms(2) deny_keeps]) (use denied(2) in \<open>auto simp: denyApproval_def\<close>)
  with denied(1) show ?thesis by simp
next
  case (consumed now i ok db')
  let ?rows = "db_approvals (as_db s)"
  have db: "db_approvals db' = update_rows (consumable i) (\<lambda>r. r\<lparr>pa_cosignerUsedAt := Some now\<rparr>) ?rows"
    and ok: "ok \<longleftrightarrow> list_ex (consumable i) ?rows"
    using consumed(2) by (auto simp: consume_stepup_def)
  have inv': "approval_inv E signKey (s\<lparr>as_db := db'\<rparr>)"
    by (rule inv_updated [OF assms(2) use_keeps db])
  show ?thesis
  proof (cases ok)
    case True
    with ok obtain r where r: "r \<in> set ?rows" "consumable i r" by (auto simp: list_ex_iff)
    have "i \<notin> set (as_consumed s)"
    proof
      assume "i \<in> set (as_consumed s)"
      with assms(2) obtain r' where "r' \<in> set ?rows" "pa_id r' = i" "pa_cosignerUsedAt r' \<noteq> None"
        by (auto simp: approval_inv_def)
      with r assms(2) unique_id [of ?rows r' r] show False by (auto simp: approval_inv_def consumable_def)
    qed
    moreover have "\<exists>r' \<in> set (db_approvals db'). pa_id r' = i \<and> pa_cosignerUsedAt r' \<noteq> None"
      using r unfolding db set_update_rows by (intro bexI [of _ "r\<lparr>pa_cosignerUsedAt := Some now\<rparr>"]) (auto simp: consumable_def)
    ultimately show ?thesis using inv' consumed(1) True by (auto simp: approval_inv_def)
  qed (use inv' consumed(1) in simp)
qed

lemma reachable_inv:
  "approval_reachable E deps signKey signerDid s0 s \<Longrightarrow> approval_inv E signKey s0 \<Longrightarrow> approval_inv E signKey s"
  by (induction rule: approval_reachable.induct) (auto intro: step_inv)

end
