(* ===== verification/Demo_Stepup.thy ===== *)
theory Demo_Stepup
  imports Demo_Authorize Approvals
begin

text \<open>
  A concrete step-up: agent a1 of customer c1 holds a token for \<open>/fs\<close>; the Cedar stand-in allows exactly when
  the context carries \<open>cosigner: true\<close>; the approvals table holds the pending approval p1 for the token, and
  the control plane (key a) mints its attestation.
\<close>

definition gate_cedar :: cedar where
  "gate_cedar = demo_cedar\<lparr>isAuthorized := (\<lambda>q. Inr (CedarResponse
     (if jget (cc_context q) ''cosigner'' = JBool True then CedarAllow else CedarDeny) [] [] []))\<rparr>"

definition agent_meta :: obj where "agent_meta = [(''agent_id'', JStr ''a1'')]"

definition agent_payload :: UcanPayload where
  "agent_payload = demo_payload (demo_key CHR ''a'') (demo_key CHR ''b'') ''/fs'' (Some agent_meta) 0 1000"

definition agent_jwt :: string where "agent_jwt = demo_jwt (demo_key CHR ''a'') agent_payload"

definition demo_agent_row :: AgentRow where
  "demo_agent_row =
     \<lparr>ag_id = ''a1'', ag_customerId = ''c1'', ag_name = ''bot'', ag_did = demo_did (demo_key CHR ''b''), ag_status = status_active,
      ag_mode = mode_dynamic, ag_stepUpOnDeny = True, ag_connectionApprovedAt = None, ag_parentAgentId = None,
      ag_rootAgentId = None, ag_depth = 0, ag_swarmId = None, ag_encryptedSigningKey = None, ag_signingKeyNonce = None\<rparr>"

definition demo_row :: ApprovalRow where
  "demo_row =
     \<lparr>pa_id = ''p1'', pa_customerId = ''c1'', pa_agentId = ''a1'', pa_command = ''/fs/read'', pa_resource = [],
      pa_state = st_pending, pa_requestedAt = 300000, pa_decidedAt = None, pa_decidedBy = None,
      pa_cosignerAttestationJwt = None, pa_cosignerUsedAt = None, pa_originalUcanCid = Some (computeCid demo_env agent_jwt),
      pa_riskScore = risk_low, pa_riskSummary = [], pa_cedarPreview = [],
      pa_cedarVariants = \<lparr>cv_narrow = [], cv_medium = [], cv_broad = []\<rparr>, pa_recommendedScope = v_narrow,
      pa_expiresAt = 900000, pa_resourceHash = []\<rparr>"

definition demo_db :: Database where
  "demo_db =
     \<lparr>db_agents = [demo_agent_row], db_policies = [], db_agentPolicies = [], db_revocations = [],
      db_approvals = [demo_row], db_grants = [], db_passkeys = []\<rparr>"

definition demo_mint :: MintCosignerInput where
  "demo_mint =
     \<lparr>mc_approvalId = ''p1'', mc_customerId = ''c1'', mc_decidingUserId = ''u1'', mc_ttlSeconds = None, mc_nonce = ''n'',
      mc_mode = None\<rparr>"

definition demo_attestation :: UcanPayload where
  "demo_attestation = cosigner_payload (demo_did (demo_key CHR ''a'')) 400 demo_mint demo_row
     (computeCid demo_env agent_jwt) (demo_did (demo_key CHR ''b''))"

definition demo_job :: mint_job where
  "demo_job = \<lparr>mj_input = demo_mint, mj_now = 400000, mj_jwt = demo_jwt (demo_key CHR ''a'') demo_attestation,
     mj_cosignerFor = computeCid demo_env agent_jwt\<rparr>"

lemma agent_payload_ok:
  "serialisable (JObj (payloadObj agent_payload))" "numerals_ok nd (JObj (payloadObj agent_payload))"
  by (simp_all add: agent_payload_def demo_payload_def agent_meta_def payloadObj_def opt_str_def opt_json_def max_exact_def)

lemma agent_meta_norm: "norm_members (\<lambda>s. s) agent_meta = agent_meta"
  by (simp add: norm_members_def agent_meta_def surviving_def)

lemma agent_valid:
  "validateUcan demo_env clock agent_jwt
     \<lparr>vo_audience = None, vo_expectedCommand = Some ''/fs/read'', vo_now = Some 500\<rparr> = Valid agent_payload"
proof -
  have "actionMatchesGranted ''/fs'' ''/fs/read''" by (simp add: actionMatchesGranted_def)
  then show ?thesis
    using demo_valid [of "demo_key CHR ''a''" "demo_key CHR ''b''" "''/fs''" 0 1000 "Some agent_meta" clock
      "\<lparr>vo_audience = None, vo_expectedCommand = Some ''/fs/read'', vo_now = Some 500\<rparr>"] agent_payload_ok
    by (simp add: demo_commands now_of_def agent_meta_norm agent_payload_def agent_jwt_def
      del: serialisable.simps numerals_ok.simps)
qed

lemma agent_parsed: obtains u where "parseUcanJwt demo_env agent_jwt = Some u" "u_payload u = agent_payload"
  using agent_valid unfolding validateUcan_Valid_iff by auto

lemma cid_text: "computeCid demo_env agent_jwt \<noteq> []"
proof -
  from agent_parsed have "agent_jwt \<noteq> []" using parse_needs_text by metis
  then show ?thesis by (simp add: computeCid_def sha256Hex_def demo_env_def demo_hex_empty)
qed

lemma attestation_shape:
  "demo_attestation = demo_payload (demo_key CHR ''a'') (demo_key CHR ''b'') ''/fs/read''
     (Some [(''cosigner_for'', JStr (computeCid demo_env agent_jwt)), (''approval_id'', JStr ''p1''),
            (''decided_by'', JStr ''u1''), (''mode'', JStr ''session'')]) 340 700"
  by (simp add: demo_attestation_def cosigner_payload_def demo_payload_def demo_mint_def demo_row_def cosigner_ttl_def)

lemma attestation_serialisable: "serialisable (JObj (payloadObj demo_attestation))"
  by (simp add: attestation_shape demo_payload_def payloadObj_def opt_str_def opt_json_def)

lemma attestation_issued:
  obtains cid where "issueUcan demo_env demo_attestation (demo_key CHR ''a'') =
    Inr \<lparr>ui_cid = cid, ui_jwt = demo_jwt (demo_key CHR ''a'') demo_attestation, ui_payload = demo_attestation\<rparr>"
  using demo_issue [of "demo_key CHR ''a''" "demo_key CHR ''b''" "''/fs/read''" 340 700
      "Some [(''cosigner_for'', JStr (computeCid demo_env agent_jwt)), (''approval_id'', JStr ''p1''),
             (''decided_by'', JStr ''u1''), (''mode'', JStr ''session'')]", folded attestation_shape]
    attestation_serialisable
  by (auto simp: demo_commands simp del: serialisable.simps)

lemma demo_mint_begins:
  "mint_begin demo_env (demo_key CHR ''a'') (demo_did (demo_key CHR ''a'')) 400000 demo_mint demo_db = Inr demo_job"
proof -
  obtain cid where i: "issueUcan demo_env demo_attestation (demo_key CHR ''a'') =
    Inr \<lparr>ui_cid = cid, ui_jwt = demo_jwt (demo_key CHR ''a'') demo_attestation, ui_payload = demo_attestation\<rparr>"
    using attestation_issued by blast
  have row: "getStepUpForCustomer demo_db (mc_customerId demo_mint) (mc_approvalId demo_mint) = Some demo_row"
    by (simp add: getStepUpForCustomer_def demo_db_def demo_mint_def demo_row_def)
  have sel: "pa_state demo_row = st_pending" "pa_expiresAt demo_row = 900000" "pa_agentId demo_row = ''a1''"
    "pa_originalUcanCid demo_row = Some (computeCid demo_env agent_jwt)" "ag_id demo_agent_row = ''a1''"
    "ag_did demo_agent_row = demo_did (demo_key CHR ''b'')"
    by (simp_all add: demo_row_def demo_agent_row_def)
  show ?thesis
    unfolding mint_begin_def row
    using i cid_text by (simp add: sel demo_db_def str_truthy_def demo_attestation_def demo_job_def)
qed

definition step_request :: "obj \<Rightarrow> string option \<Rightarrow> AuthorizeRequest" where
  "step_request ctx jwt =
     \<lparr>rq_ucan = agent_jwt, rq_command = ''/fs/read'', rq_resource = [(''path'', JStr ''/etc/passwd'')], rq_context = ctx,
      rq_cosignerJwt = jwt, rq_delegated_chain = None, rq_parent_receipt_id = None, rq_swarm_id = None\<rparr>"

definition step_deps :: "stepup_deps \<Rightarrow> AuthorizeRouteDeps" where
  "step_deps sp = demo_deps\<lparr>ad_stepup := Some sp\<rparr>"

lemma step_decide:
  assumes "serialisable (JObj ctx)" "distinct_keys ctx"
  obtains rid where "decide demo_env gate_cedar 500 (authorize_input (step_deps sp) demo_revoked ''c1'' ''permit'' (step_request ctx jwt)) =
    Inr (if jget ctx ''cosigner'' = JBool True then allow_decision rid else deny_decision D_policy_denied rid)"
proof -
  let ?r = "step_request ctx jwt" and ?inp = "authorize_input (step_deps sp) demo_revoked ''c1'' ''permit'' (step_request ctx jwt)"
  have "serialisable (JObj (requestObj ?r))"
    using assms(1) by (auto simp: requestObj_def step_request_def opt_str_def opt_json_def split: option.splits)
  from canonicalize_ok [OF this] obtain t where "canonicalize (e_nfc demo_env) (JObj (requestObj ?r)) = Inr t"
    unfolding is_ok_iff by blast
  then obtain rid where rid: "buildReceiptId demo_env [agent_jwt] ?r = Inr rid"
    by (simp add: buildReceiptId_def Let_def lift_canon_def del: canonicalize_obj)
  have sel: "decide_jwts ?inp = [agent_jwt]" "di_request ?inp = ?r" "decide_now 500 ?inp = 500"
    "di_trustedIssuerDid ?inp = Some (demo_did (demo_key CHR ''a''))" "di_revokedCids ?inp = Some {}"
    "di_maxChainDepth ?inp = None" "rq_command ?r = ''/fs/read''" "rq_context ?r = ctx"
    by (simp_all add: decide_jwts_def decide_now_def authorize_input_def step_deps_def demo_deps_def ucan_input_def
        step_request_def getRevoked_def demo_revoked_def)
  have c: "extractResourceConstraint (p_meta agent_payload) = Inr None"
    "extractContextHints (p_meta agent_payload) = None" "p_iss agent_payload = demo_did (demo_key CHR ''a'')"
    by (simp_all add: agent_payload_def demo_payload_def agent_meta_def extractResourceConstraint_def extractContextHints_def jget_def)
  have "jget (decision_context ?r 500 agent_payload None) ''cosigner'' = jget ctx ''cosigner''"
    using assms(2) by (subst decision_context_lookup) (simp_all add: sel c over_def computeEphemeralContext_def)
  then have ev: "evaluate gate_cedar (cedar_question demo_env ?inp [agent_jwt] 500 agent_payload agent_payload None) =
     Inr \<lparr>er_decision = (if jget ctx ''cosigner'' = JBool True then CedarAllow else CedarDeny), er_reason = [], er_errors = [],
          er_warnings = []\<rparr>"
    by (simp add: evaluate_def gate_cedar_def cedar_question_def sel)
  have "decide_validated demo_env gate_cedar ?inp [agent_jwt] 500 agent_payload agent_payload =
     Inr (if jget ctx ''cosigner'' = JBool True then allow_decision rid else deny_decision D_policy_denied rid)"
    using ev rid c by (simp add: decide_validated_def sel revoked_in_def summarizeAttenuation_def deny_def Let_def)
  moreover have "validateChain demo_env (\<lambda>_. 500) [agent_jwt] (chain_options 500 ?inp) = Inr (ChainValid agent_payload agent_payload)"
    using agent_valid by (simp add: validateChain_def chain_options_def sel)
  moreover have "\<not> length [agent_jwt] > max_depth ?inp" by (simp add: max_depth_def sel DEFAULT_MAX_CHAIN_DEPTH_def)
  ultimately show ?thesis using that by (simp add: decide_def sel Let_def)
qed

end
