(* ===== verification/Stepup_Properties.thy ===== *)
theory Stepup_Properties
  imports Approvals Authorize_Properties Demo_Stepup
begin

text \<open>
  The step-up flow across the control plane and the PDP: the approvals table under concurrent use, the
  attestation the control plane mints and the PDP checks, and the Cedar text a remembered decision leaves
  in the policy bundle.
\<close>

subsection \<open>The minted attestation read back\<close>

lemma parsePayload_same:
  assumes "parsePayload (JObj (payloadObj p)) = Some v" shows "v = p"
proof -
  have "p_iss v = p_iss p \<and> p_aud v = p_aud p \<and> p_cmd v = p_cmd p \<and> p_nonce v = p_nonce p \<and> p_nbf v = p_nbf p \<and> p_exp v = p_exp p"
    using assms unfolding parsePayload_def bind_eq_Some_conv by (auto simp: payloadObj_jget zod_iff split: if_splits)
  with parsePayload_wf [OF assms] have "wf_payload p" by (simp add: wf_payload_def)
  from parse_payload [OF this] assms show ?thesis by simp
qed

lemma issue_payload:
  assumes "issueUcan E payload sk = Inr issued"
  obtains iss aud where "canonicalizeDid E (p_iss payload) = Inr iss" "canonicalizeDid E (p_aud payload) = Inr aud"
    "ui_payload issued = payload\<lparr>p_iss := iss, p_aud := aud\<rparr>"
proof -
  from assms obtain iss aud v where v: "canonicalizeDid E (p_iss payload) = Inr iss" "canonicalizeDid E (p_aud payload) = Inr aud"
    "parsePayload (JObj (payloadObj (payload\<lparr>p_iss := iss, p_aud := aud\<rparr>))) = Some v" "ui_payload issued = v"
    by (auto simp: issueUcan_def rbind_Inr_iff Let_def simp del: norm_obj canonicalize_obj split: option.splits)
  from v that parsePayload_same [OF v(3)] show ?thesis by simp
qed

definition cosigner_keys :: "string list" where
  "cosigner_keys = [''cosigner_for'', ''approval_id'', ''decided_by'', ''mode'']"

lemma cosigner_keys_fixed: "nfc_fixes nfc \<Longrightarrow> k \<in> set cosigner_keys \<Longrightarrow> nfc k = k"
  by (auto simp: nfc_fixes_def cosigner_keys_def)

lemma cosigner_meta_read_back:
  assumes "nfc_fixes nfc" "issueUcan E (cosigner_payload signerDid n inp r cid agentDid) sk = Inr issued"
  shows "meta_string ''cosigner_for'' (norm_payload nfc (ui_payload issued)) = Some cid"
    "meta_string ''approval_id'' (norm_payload nfc (ui_payload issued)) = Some (pa_id r)"
proof -
  from issue_payload [OF assms(2)] obtain iss aud where
    "ui_payload issued = (cosigner_payload signerDid n inp r cid agentDid)\<lparr>p_iss := iss, p_aud := aud\<rparr>" by metis
  then have m: "p_meta (ui_payload issued) = p_meta (cosigner_payload signerDid n inp r cid agentDid)" by simp
  define ob where "ob = the (p_meta (cosigner_payload signerDid n inp r cid agentDid))"
  have pm: "p_meta (cosigner_payload signerDid n inp r cid agentDid) = Some ob" by (simp add: ob_def cosigner_payload_def)
  have keys: "map fst ob = cosigner_keys" by (simp add: ob_def cosigner_payload_def cosigner_keys_def)
  have fixed: "nfc k = k" if "(k, v) \<in> set ob" for k v
    using that keys cosigner_keys_fixed [OF assms(1)] by (metis fst_conv list.set_map image_eqI)
  have dk: "distinct_keys ob" by (simp add: distinct_keys_def keys cosigner_keys_def)
  have "jget (norm_members nfc ob) k = norm nfc (jget ob k)" for k
    by (rule jget_norm [OF fixed dk norm_members])
  then show "meta_string ''cosigner_for'' (norm_payload nfc (ui_payload issued)) = Some cid"
    "meta_string ''approval_id'' (norm_payload nfc (ui_payload issued)) = Some (pa_id r)"
    by (simp_all add: meta_string_def norm_payload_def m pm) (simp_all add: ob_def cosigner_payload_def jget_def)
qed

lemma cosigner_numerals:
  assumes "issueUcan E (cosigner_payload signerDid n inp r cid agentDid) sk = Inr issued"
    "60 \<le> n" "n + cosigner_ttl inp \<le> max_exact" "0 \<le> cosigner_ttl inp"
  shows "numerals_ok nd (JObj (payloadObj (ui_payload issued)))"
proof -
  from issue_payload [OF assms(1)] obtain iss aud where
    "ui_payload issued = (cosigner_payload signerDid n inp r cid agentDid)\<lparr>p_iss := iss, p_aud := aud\<rparr>" by metis
  with assms(2-) show ?thesis
    by (simp add: payloadObj_def cosigner_payload_def opt_str_def opt_json_def)
qed

subsection \<open>The approvals table\<close>

text \<open>C34: However creations, approvals, denials and consumptions interleave from an empty table, an
  approval is consumed at most once, a consumed or approved row carries an attestation, and every
  attestation in the table was issued by the control plane's key for the row's own identifier and command.\<close>

theorem approvals_single_use:
  assumes "approval_reachable E deps signKey signerDid s0 s"
    "db_approvals (as_db s0) = []" "as_minting s0 = []" "as_consumed s0 = []"
  shows "distinct (as_consumed s) \<and> distinct (map pa_id (db_approvals (as_db s))) \<and>
    (\<forall>i \<in> set (as_consumed s). \<exists>r \<in> set (db_approvals (as_db s)). pa_id r = i \<and> pa_cosignerUsedAt r \<noteq> None) \<and>
    (\<forall>r \<in> set (db_approvals (as_db s)). pa_state r = st_approved \<or> pa_cosignerUsedAt r \<noteq> None \<longrightarrow>
       (\<exists>jwt. pa_cosignerAttestationJwt r = Some jwt \<and> minted E signKey r jwt))"
proof -
  have "approval_inv E signKey s0" using assms(2-) by (simp add: approval_inv_def)
  from reachable_inv [OF assms(1) this] show ?thesis
    unfolding approval_inv_def row_ok_def by blast
qed

definition run_deps :: StepUpCreateDeps where
  "run_deps = \<lparr>sd_dashboardPublicUrl = ''https://d'', sd_defaultTtlSeconds = None, sd_riskSummarizer = None\<rparr>"

definition run_create :: StepUpCreateInput where
  "run_create = \<lparr>sc_customerId = ''c1'', sc_agentId = ''a1'', sc_command = ''/fs/read'', sc_resource = [],
     sc_ttlSeconds = None, sc_originalUcanCid = Some (computeCid demo_env agent_jwt)\<rparr>"

definition run_job :: create_job where
  "run_job = \<lparr>cj_input = run_create, cj_now = 300000, cj_existing = None,
     cj_risk = risk_result run_deps demo_agent_row run_create\<rparr>"

definition run_row :: ApprovalRow where "run_row = new_row demo_env run_deps ''p1'' run_job"

definition run_db :: "ApprovalRow list \<Rightarrow> Database" where "run_db rows = demo_db\<lparr>db_approvals := rows\<rparr>"

lemma run_row_sel:
  "pa_id run_row = ''p1''" "pa_customerId run_row = ''c1''" "pa_agentId run_row = ''a1''" "pa_command run_row = ''/fs/read''"
  "pa_state run_row = st_pending" "pa_expiresAt run_row = 300000 + DEFAULT_TTL_SECONDS * 1000" "pa_cosignerUsedAt run_row = None"
  "pa_originalUcanCid run_row = Some (computeCid demo_env agent_jwt)"
  using cid_text
  by (simp_all add: run_row_def new_row_def run_job_def run_create_def ttl_of_def run_deps_def str_truthy_def Let_def)

lemma run_created:
  "create_begin demo_env run_deps 300000 run_create (run_db []) = Create_started run_job"
  "create_end demo_env run_deps ''p1'' run_job (run_db []) =
     (Inr \<lparr>sr_id = ''p1'', sr_expiresAt = 300000 + DEFAULT_TTL_SECONDS * 1000, sr_deepLink = buildDeepLink run_deps ''p1''\<rparr>,
      run_db [run_row])"
proof -
  show "create_begin demo_env run_deps 300000 run_create (run_db []) = Create_started run_job"
    by (simp add: create_begin_def run_db_def demo_db_def run_create_def run_job_def demo_agent_row_def Let_def)
  show "create_end demo_env run_deps ''p1'' run_job (run_db []) =
     (Inr \<lparr>sr_id = ''p1'', sr_expiresAt = 300000 + DEFAULT_TTL_SECONDS * 1000, sr_deepLink = buildDeepLink run_deps ''p1''\<rparr>,
      run_db [run_row])"
    by (simp add: create_end_def run_row_def run_db_def Let_def)
      (simp add: run_job_def ttl_of_def run_create_def run_deps_def)
qed

lemma run_minted:
  "mint_begin demo_env (demo_key CHR ''a'') (demo_did (demo_key CHR ''a'')) 400000 demo_mint (run_db [run_row]) = Inr demo_job"
proof -
  obtain cid where i: "issueUcan demo_env demo_attestation (demo_key CHR ''a'') =
    Inr \<lparr>ui_cid = cid, ui_jwt = demo_jwt (demo_key CHR ''a'') demo_attestation, ui_payload = demo_attestation\<rparr>"
    using attestation_issued by blast
  have p: "cosigner_payload (demo_did (demo_key CHR ''a'')) 400 demo_mint run_row (computeCid demo_env agent_jwt)
      (demo_did (demo_key CHR ''b'')) = demo_attestation"
    by (simp add: demo_attestation_def cosigner_payload_def run_row_sel) (simp add: demo_row_def)
  have row: "getStepUpForCustomer (run_db [run_row]) (mc_customerId demo_mint) (mc_approvalId demo_mint) = Some run_row"
    by (simp add: getStepUpForCustomer_def run_db_def demo_mint_def run_row_sel)
  have ag: "db_agents (run_db [run_row]) = [demo_agent_row]" "ag_id demo_agent_row = ''a1''"
    "ag_did demo_agent_row = demo_did (demo_key CHR ''b'')"
    by (simp_all add: run_db_def demo_db_def demo_agent_row_def)
  show ?thesis
    unfolding mint_begin_def row
    using i cid_text by (simp add: run_row_sel ag p str_truthy_def demo_job_def DEFAULT_TTL_SECONDS_def)
qed

theorem approvals_single_use_witness:
  "\<exists>s :: approval_system. as_consumed s = [''p1''] \<and> distinct (as_consumed s) \<and>
     (\<exists>r jwt. pa_id r = ''p1'' \<and> pa_cosignerAttestationJwt r = Some jwt \<and> minted demo_env (demo_key CHR ''a'') r jwt)"
proof -
  let ?step = "approval_step demo_env run_deps (demo_key CHR ''a'') (demo_did (demo_key CHR ''a''))"
  define s0 where "s0 = \<lparr>as_db = run_db [], as_creating = [], as_minting = [], as_consumed = []\<rparr>"
  define s1 where "s1 = s0\<lparr>as_creating := [run_job]\<rparr>"
  define s2 where "s2 = s0\<lparr>as_db := run_db [run_row]\<rparr>"
  define s3 where "s3 = s2\<lparr>as_minting := [demo_job]\<rparr>"
  define s4 where "s4 = s2\<lparr>as_db := run_db [approve_row demo_job run_row]\<rparr>"
  define used where "used = (approve_row demo_job run_row)\<lparr>pa_cosignerUsedAt := Some 450000\<rparr>"
  define s5 where "s5 = s4\<lparr>as_db := run_db [used], as_consumed := [''p1'']\<rparr>"
  have jid: "mc_approvalId (mj_input demo_job) = ''p1''" by (simp add: demo_job_def demo_mint_def)
  have ended: "mint_end demo_job (run_db [run_row]) = run_db [approve_row demo_job run_row]"
    by (simp add: mint_end_def run_db_def update_rows_def jid run_row_sel)
  have app: "pa_id (approve_row demo_job run_row) = ''p1''" "pa_state (approve_row demo_job run_row) = st_approved"
    "pa_cosignerUsedAt (approve_row demo_job run_row) = None"
    by (simp_all add: approve_row_def run_row_sel)
  have cons: "consume_stepup 450000 ''p1'' (run_db [approve_row demo_job run_row]) = (True, run_db [used])"
    by (simp add: consume_stepup_def run_db_def update_rows_def consumable_def app used_def)
  have 1: "?step s0 s1"
    using create_starts [of demo_env run_deps 300000 run_create s0 run_job] run_created(1) by (simp add: s0_def s1_def)
  have 2: "?step s1 s2"
    using create_finishes [of run_job s1 "''p1''" demo_env run_deps] run_created(2)
    by (simp add: s0_def s1_def s2_def run_db_def)
  have 3: "?step s2 s3"
    using mint_starts [of demo_env "demo_key CHR ''a''" "demo_did (demo_key CHR ''a'')" 400000 demo_mint s2 demo_job run_deps] run_minted
    by (simp add: s0_def s2_def s3_def)
  have 4: "?step s3 s4"
    using mint_finishes [of demo_job s3 demo_env run_deps] ended by (simp add: s0_def s2_def s3_def s4_def)
  have 5: "?step s4 s5"
    using consumed [of 450000 "''p1''" s4 True "run_db [used]" demo_env run_deps] cons by (simp add: s0_def s2_def s4_def s5_def)
  have "approval_reachable demo_env run_deps (demo_key CHR ''a'') (demo_did (demo_key CHR ''a'')) s0 s5"
    by (rule after_step [OF after_step [OF after_step [OF after_step [OF after_step [OF initially 1] 2] 3] 4] 5])
  from approvals_single_use [OF this] have dis: "distinct (as_consumed s5)"
    and "\<exists>jwt. pa_cosignerAttestationJwt used = Some jwt \<and> minted demo_env (demo_key CHR ''a'') used jwt"
    by (simp_all add: s0_def s2_def s4_def s5_def run_db_def used_def)
  then obtain jwt where jwt: "pa_cosignerAttestationJwt used = Some jwt" "minted demo_env (demo_key CHR ''a'') used jwt"
    by (elim exE conjE)
  have con: "as_consumed s5 = [''p1'']" and uid: "pa_id used = ''p1''" by (simp_all add: s5_def used_def app)
  show ?thesis
    by (rule exI [of _ s5], intro conjI, rule con, rule dis, rule exI [of _ used], rule exI [of _ jwt],
        intro conjI, rule uid, rule jwt(1), rule jwt(2))
qed

text \<open>The write of mintCosignerForApproval does not repeat the check of its read. An approval that is
  denied between the two, with the denial reported as done, ends up approved: the lookup endpoint hands out
  the attestation.\<close>

theorem denied_approval_becomes_approved:
  assumes "mint_begin E signKey signerDid now inp db = Inr job"
    "denyApproval later (mc_approvalId inp) (mc_customerId inp) user db = (True, db1)"
  shows "get_stepup t (mint_end job db1) (mc_approvalId inp) =
    Some \<lparr>su_state = ''approved'', su_cosignerAttestationJwt = Some (mj_jwt job)\<rparr>"
proof -
  let ?i = "mc_approvalId inp"
  from mint_begin_minted [OF assms(1)] obtain r where "r \<in> set (db_approvals db)" "pa_id r = ?i"
    and job: "mj_input job = inp" by metis
  then obtain r0 where r0: "List.find (\<lambda>r. pa_id r = ?i) (db_approvals db) = Some r0"
    by (metis (mono_tags, lifting) find_None_iff option.exhaust)
  have keep: "pa_id (deny_row later user r) = pa_id r" "pa_id (approve_row job r) = pa_id r" for r
    by (simp_all add: deny_row_def approve_row_def)
  from assms(2) have "db_approvals db1 = update_rows (deniable ?i (mc_customerId inp)) (deny_row later user) (db_approvals db)"
    by (auto simp: denyApproval_def)
  then obtain r1 where r1: "List.find (\<lambda>r. pa_id r = ?i) (db_approvals db1) = Some r1"
    using r0 by (simp add: find_update_rows keep)
  then have "pa_id r1 = ?i" unfolding find_Some_iff by auto
  with r1 job have "List.find (\<lambda>r. pa_id r = ?i) (db_approvals (mint_end job db1)) = Some (approve_row job r1)"
    by (simp add: mint_end_def find_update_rows keep)
  then show ?thesis by (simp add: get_stepup_def getStepUpApproval_def isExpired_def approve_row_def)
qed

theorem denied_approval_becomes_approved_witness:
  "fst (denyApproval 420000 ''p1'' ''c1'' ''u2'' demo_db) \<and>
   get_stepup 430000 (mint_end demo_job (snd (denyApproval 420000 ''p1'' ''c1'' ''u2'' demo_db))) ''p1'' =
     Some \<lparr>su_state = ''approved'', su_cosignerAttestationJwt = Some (mj_jwt demo_job)\<rparr>"
proof -
  have "fst (denyApproval 420000 ''p1'' ''c1'' ''u2'' demo_db)"
    by (simp add: denyApproval_def demo_db_def demo_row_def deniable_def)
  then have "denyApproval 420000 (mc_approvalId demo_mint) (mc_customerId demo_mint) ''u2'' demo_db =
      (True, snd (denyApproval 420000 ''p1'' ''c1'' ''u2'' demo_db))"
    by (simp add: demo_mint_def prod_eq_iff)
  from denied_approval_becomes_approved [OF demo_mint_begins this] \<open>fst _\<close> show ?thesis by (simp add: demo_mint_def)
qed

lemma minted_cosigner_step:
  assumes laws: "crypto_laws E" "nfc_fixes (e_nfc E)" "publicKeyFromDid E signerDid = Inr (noble_getPublicKey E signKey)"
    and mint: "mintCosignerForApproval E signKey signerDid now inp db = (Inr job, db')"
    and row: "getStepUpForCustomer db (mc_customerId inp) (mc_approvalId inp) = Some row" "mc_approvalId inp \<noteq> []"
      "pa_originalUcanCid row = Some (computeCid E (rq_ucan r))" "pa_command row = rq_command r"
      "pa_cosignerUsedAt row = None" "distinct (map pa_id (db_approvals db))"
    and time: "60 \<le> now div 1000" "0 \<le> cosigner_ttl inp" "now div 1000 + cosigner_ttl inp \<le> max_exact"
      "now div 1000 - 60 \<le> clock" "clock < now div 1000 + cosigner_ttl inp"
    and deps: "ad_stepup deps = Some sp" "sp_fetchApproval sp = Some (\<lambda>i. Inr (get_stepup later db' i))"
      "sp_consumeApproval sp = Some (\<lambda>i. Inr (fst (consume_stepup later i db')))"
    and jwt: "rq_cosignerJwt r = Some (mj_jwt job)"
  shows "cosigner_step E clock deps (r\<lparr>rq_resource := resource\<rparr>) =
    Inr (Proceed (with_cosigner (r\<lparr>rq_resource := resource\<rparr>)) (Some (mc_approvalId inp)))"
proof -
  let ?i = "mc_approvalId inp" and ?vi = "cosigner_input (r\<lparr>rq_resource := resource\<rparr>) (mj_jwt job)"
  from mint have mb: "mint_begin E signKey signerDid now inp db = Inr job" and db': "db' = mint_end job db"
    by (auto simp: mintCosignerForApproval_def split: sum.splits)
  note m = mb [unfolded mint_begin_def row(1) option.case row(3)]
  from m obtain agent where ag: "List.find (\<lambda>a. ag_id a = pa_agentId row) (db_agents db) = Some agent"
    by (auto split: if_splits option.splits)
  from m [unfolded ag option.case option.sel] obtain issued where
    iss: "issueUcan E (cosigner_payload signerDid (now div 1000) inp row (computeCid E (rq_ucan r)) (ag_did agent)) signKey = Inr issued"
    and job: "job = \<lparr>mj_input = inp, mj_now = now, mj_jwt = ui_jwt issued, mj_cosignerFor = computeCid E (rq_ucan r)\<rparr>"
    and cid: "str_truthy (Some (computeCid E (rq_ucan r)))"
    by (auto split: if_splits sum.splits)
  from row(1) have mem: "row \<in> set (db_approvals db)" "pa_id row = ?i" unfolding getStepUpForCustomer_def find_Some_iff by auto
  have sel: "p_iss (cosigner_payload signerDid (now div 1000) inp row cid' did) = signerDid"
    "p_cmd (cosigner_payload signerDid (now div 1000) inp row cid' did) = rq_command r"
    "p_nbf (cosigner_payload signerDid (now div 1000) inp row cid' did) = now div 1000 - 60"
    "p_exp (cosigner_payload signerDid (now div 1000) inp row cid' did) = now div 1000 + cosigner_ttl inp" for cid' did
    by (simp_all add: cosigner_payload_def row(4))
  have num: "numerals_ok (e_nd E) (JObj (payloadObj (ui_payload issued)))"
    by (rule cosigner_numerals [OF iss time(1,3,2)])
  have opts: "vo_now (cosigner_options ?vi) = None" "vo_audience (cosigner_options ?vi) = None"
    "vo_expectedCommand (cosigner_options ?vi) = Some (rq_command r)"
    by (simp_all add: cosigner_options_def cosigner_input_def)
  have valid: "validateUcan E clock (ui_jwt issued) (cosigner_options ?vi) = Valid (norm_payload (e_nfc E) (ui_payload issued))"
    by (rule validate_issued [OF laws(1,2) iss num]) (use sel laws(3) time opts in \<open>simp_all add: now_of_def audience_ok_def\<close>)
  obtain u where u: "parseUcanJwt E (ui_jwt issued) = Some u" "u_payload u = norm_payload (e_nfc E) (ui_payload issued)"
    using parse_issued [OF laws(2) iss num] by metis
  note meta = cosigner_meta_read_back [OF laws(2) iss]
  have found: "getStepUpApproval db' ?i = Some (approve_row job row)"
  proof -
    obtain r0 where r0: "List.find (\<lambda>r. pa_id r = ?i) (db_approvals db) = Some r0"
      using mem by (metis (mono_tags, lifting) find_None_iff option.exhaust)
    then have "r0 \<in> set (db_approvals db)" "pa_id r0 = ?i" unfolding find_Some_iff by auto
    with unique_id [OF row(6)] mem have "r0 = row" by metis
    with r0 mem job show ?thesis
      by (simp add: db' getStepUpApproval_def mint_end_def find_update_rows approve_row_def)
  qed
  then have fetch: "get_stepup later db' ?i = Some \<lparr>su_state = ''approved'', su_cosignerAttestationJwt = Some (mj_jwt job)\<rparr>"
    by (simp add: get_stepup_def isExpired_def approve_row_def)
  have "validateCosigner E clock (\<lambda>i. Inr (get_stepup later db' i)) ?vi = Inr (CosignerOk ?i)"
    unfolding validateCosigner_def
    using u meta valid cid row(2) mem(2) fetch job by (simp add: cosigner_input_def str_truthy_def)
  moreover have "fst (consume_stepup later ?i db')"
  proof -
    from found have "approve_row job row \<in> set (db_approvals db')" unfolding getStepUpApproval_def find_Some_iff by auto
    moreover have "consumable ?i (approve_row job row)" using mem(2) row(5) by (simp add: consumable_def approve_row_def)
    ultimately show ?thesis by (auto simp: consume_stepup_def list_ex_iff)
  qed
  ultimately show ?thesis by (simp add: cosigner_step_def jwt deps)
qed

text \<open>An attestation minted for an approval is accepted by the PDP for the token and command of the
  approved request, once and within its lifetime, and for every resource: the approved resource is neither
  in the attestation nor compared.\<close>

theorem minted_cosigner_admits_any_resource:
  assumes laws: "crypto_laws E" "nfc_fixes (e_nfc E)" "publicKeyFromDid E signerDid = Inr (noble_getPublicKey E signKey)"
    and mint: "mintCosignerForApproval E signKey signerDid now inp db = (Inr job, db')"
    and row: "getStepUpForCustomer db (mc_customerId inp) (mc_approvalId inp) = Some row" "mc_approvalId inp \<noteq> []"
      "pa_originalUcanCid row = Some (computeCid E (rq_ucan r))" "pa_command row = rq_command r"
      "pa_cosignerUsedAt row = None" "distinct (map pa_id (db_approvals db))"
    and time: "60 \<le> now div 1000" "0 \<le> cosigner_ttl inp" "now div 1000 + cosigner_ttl inp \<le> max_exact"
      "now div 1000 - 60 \<le> clock" "clock < now div 1000 + cosigner_ttl inp"
    and deps: "ad_stepup deps = Some sp" "sp_fetchApproval sp = Some (\<lambda>i. Inr (get_stepup later db' i))"
      "sp_consumeApproval sp = Some (\<lambda>i. Inr (fst (consume_stepup later i db')))"
    and jwt: "rq_cosignerJwt r = Some (mj_jwt job)"
  shows "cosigner_step E clock deps (r\<lparr>rq_resource := resource\<rparr>) =
    Inr (Proceed (with_cosigner (r\<lparr>rq_resource := resource\<rparr>)) (Some (mc_approvalId inp)))"
  by (rule minted_cosigner_step [OF assms])

subsection \<open>The demonstration step-up\<close>

definition demo_sp :: stepup_deps where
  "demo_sp =
     \<lparr>sp_create = (\<lambda>args. Some (''p1'', ''https://d/approve/p1'')),
      sp_fetchApproval = Some (\<lambda>i. Inr (get_stepup 450000 (mint_end demo_job demo_db) i)),
      sp_consumeApproval = Some (\<lambda>i. Inr (fst (consume_stepup 450000 i (mint_end demo_job demo_db))))\<rparr>"

definition step_cache :: policy_cache where
  "step_cache = [(''c1'', \<lparr>be_cedar = ''permit'', be_agents = []\<rparr>)]"

lemma step_gate:
  "request_gate demo_env [] (step_deps demo_sp) step_cache ''c1'' (step_request ctx jwt) = (Gate_pass ''permit'', step_cache)"
  by (simp add: request_gate_def step_request_def isKnownCommand_def KNOWN_COMMANDS_def KNOWN_INTEGRATIONS_def
      validateResource_def packForCommand_def filter_Boolean_def refreshed_cache_def getPolicies_def getAgentByDid_def
      step_cache_def agent_gate_def eval_nat_numeral)

lemma step_agent: "extractAgentId demo_env agent_jwt = Some ''a1''"
proof -
  obtain u where "parseUcanJwt demo_env agent_jwt = Some u" "u_payload u = agent_payload" by (rule agent_parsed)
  then show ?thesis
    by (simp add: extractAgentId_def meta_string_def agent_payload_def demo_payload_def agent_meta_def jget_def)
qed

lemma step_customer: "customer_of (deriveCustomerId demo_env (Some ''c1'') agent_jwt) = Inr ''c1''"
proof -
  obtain u where "parseUcanJwt demo_env agent_jwt = Some u" "u_payload u = agent_payload" by (rule agent_parsed)
  then have "extractCustomerId demo_env agent_jwt = None"
    by (simp add: extractCustomerId_def meta_string_def agent_payload_def demo_payload_def agent_meta_def jget_def)
  then show ?thesis by (simp add: deriveCustomerId_def customer_of_def str_truthy_def)
qed

lemma step_cosigner_absent: "cosigner_step demo_env 500 (step_deps demo_sp) (step_request ctx None) = Inr (Proceed (step_request ctx None) None)"
  by (simp add: cosigner_step_def step_request_def)

lemma step_with_cosigner: "with_cosigner (step_request [] jwt) = step_request [(''cosigner'', JBool True)] jwt"
  by (simp add: with_cosigner_def step_request_def)

lemma step_answer:
  assumes "cosigner_step demo_env 500 (step_deps demo_sp) (step_request ctx jwt) = Inr (Proceed (step_request ctx' jwt) used)"
    "ctx' = [] \<or> ctx' = [(''cosigner'', JBool True)]"
  obtains res d where "authorize_for demo_env gate_cedar [] 500 0 (step_deps demo_sp) demo_revoked step_cache ''c1'' (step_request ctx jwt) = Inr res"
    "ar_response res = Decided d" "d_allow d \<longleftrightarrow> ctx' \<noteq> []" "ctx' = [] \<longrightarrow> d_requiresStepUp d = Some True"
proof -
  have plain: "serialisable (JObj [])" "distinct_keys []" "serialisable (JObj [(''cosigner'', JBool True)])"
    "distinct_keys [(''cosigner'', JBool True)]"
    by (simp_all add: distinct_keys_def)
  let ?inp = "\<lambda>c. authorize_input (step_deps demo_sp) demo_revoked ''c1'' ''permit'' (step_request c jwt)"
  obtain rid where no: "decide demo_env gate_cedar 500 (?inp []) = Inr (deny_decision D_policy_denied rid)"
    using step_decide [OF plain(1,2), of demo_sp jwt] by (auto simp: jget_def)
  obtain rid' where yes: "decide demo_env gate_cedar 500 (?inp [(''cosigner'', JBool True)]) = Inr (allow_decision rid')"
    using step_decide [OF plain(3,4), of demo_sp jwt] by (auto simp: jget_def)
  have req: "di_request (?inp c) = step_request c jwt" for c by (simp add: authorize_input_def)
  have lifted: "(?inp [])\<lparr>di_request := with_cosigner (di_request (?inp []))\<rparr> = ?inp [(''cosigner'', JBool True)]"
    by (simp add: req step_with_cosigner) (simp add: authorize_input_def ucan_input_def step_request_def)
  have sel: "ad_stepup (step_deps demo_sp) = Some demo_sp" "rq_ucan (step_request c j) = agent_jwt"
    "ad_emitAudit (step_deps demo_sp) = Some (\<lambda>ev. Inr ())" "context_cosigner (step_request [] j) = False" for c j
    by (simp_all add: step_deps_def demo_deps_def step_request_def context_cosigner_def jget_def)
  have sp: "sp_create demo_sp args = Some (''p1'', ''https://d/approve/p1'')" for args by (simp add: demo_sp_def)
  show ?thesis
  proof (cases "ctx' = []")
    case True
    have "\<exists>x. detect_stepup demo_env gate_cedar 500 (Some demo_sp) ''c1'' (step_request ctx jwt) (?inp []) (deny_decision D_policy_denied rid)
        = Inr (stepup_decision (deny_decision D_policy_denied rid) (''p1'', ''https://d/approve/p1''), Some x)"
      using yes lifted
      by (simp add: detect_stepup_def shouldDetectStepUp_def req sel evaluateStepUpPotential_def step_agent str_truthy_def
          sp Let_def)
    with assms True no that show ?thesis
      by (auto simp: authorize_for_def step_gate authorize_admitted_def sel emit_and_answer_def Let_def)
  next
    case False
    have "detect_stepup demo_env gate_cedar 500 (Some demo_sp) ''c1'' (step_request ctx jwt) (?inp ctx') (allow_decision rid')
        = Inr (allow_decision rid', None)"
      by (simp add: detect_stepup_def shouldDetectStepUp_def)
    with assms False yes that show ?thesis
      by (auto simp: authorize_for_def step_gate authorize_admitted_def sel emit_and_answer_def Let_def)
  qed
qed

lemma demo_mint_id: "mc_approvalId demo_mint = ''p1''"
  by (simp add: demo_mint_def)

lemma demo_step_hyps:
  "crypto_laws demo_env" "nfc_fixes (e_nfc demo_env)"
  "publicKeyFromDid demo_env (demo_did (demo_key CHR ''a'')) = Inr (noble_getPublicKey demo_env (demo_key CHR ''a''))"
  "mintCosignerForApproval demo_env (demo_key CHR ''a'') (demo_did (demo_key CHR ''a'')) 400000 demo_mint demo_db
     = (Inr demo_job, mint_end demo_job demo_db)"
  "getStepUpForCustomer demo_db (mc_customerId demo_mint) (mc_approvalId demo_mint) = Some demo_row"
  "mc_approvalId demo_mint \<noteq> []"
  "pa_originalUcanCid demo_row = Some (computeCid demo_env (rq_ucan (step_request [] (Some (mj_jwt demo_job)))))"
  "pa_command demo_row = rq_command (step_request [] (Some (mj_jwt demo_job)))"
  "pa_cosignerUsedAt demo_row = None" "distinct (map pa_id (db_approvals demo_db))"
  "60 \<le> (400000 :: int) div 1000" "0 \<le> cosigner_ttl demo_mint" "(400000 :: int) div 1000 + cosigner_ttl demo_mint \<le> max_exact"
  "(400000 :: int) div 1000 - 60 \<le> 500" "500 < (400000 :: int) div 1000 + cosigner_ttl demo_mint"
  "ad_stepup (step_deps demo_sp) = Some demo_sp"
  "sp_fetchApproval demo_sp = Some (\<lambda>i. Inr (get_stepup 450000 (mint_end demo_job demo_db) i))"
  "sp_consumeApproval demo_sp = Some (\<lambda>i. Inr (fst (consume_stepup 450000 i (mint_end demo_job demo_db))))"
  "rq_cosignerJwt (step_request [] (Some (mj_jwt demo_job))) = Some (mj_jwt demo_job)"
proof -
  show "crypto_laws demo_env" by (rule demo_laws)
  show "nfc_fixes (e_nfc demo_env)" by (rule demo_nfc)
  show "publicKeyFromDid demo_env (demo_did (demo_key CHR ''a'')) = Inr (noble_getPublicKey demo_env (demo_key CHR ''a''))"
    using demo_did_key(1) [of "demo_key CHR ''a''"] by (simp add: demo_env_def)
  show "mintCosignerForApproval demo_env (demo_key CHR ''a'') (demo_did (demo_key CHR ''a'')) 400000 demo_mint demo_db
     = (Inr demo_job, mint_end demo_job demo_db)"
    by (simp add: mintCosignerForApproval_def demo_mint_begins)
qed (simp_all add: getStepUpForCustomer_def demo_db_def demo_mint_def demo_row_def step_request_def cosigner_ttl_def
      max_exact_def step_deps_def demo_sp_def)

lemma demo_cosigner_step:
  "cosigner_step demo_env 500 (step_deps demo_sp) (step_request [] (Some (mj_jwt demo_job))) =
     Inr (Proceed (with_cosigner (step_request [] (Some (mj_jwt demo_job)))) (Some ''p1''))"
  using minted_cosigner_step [OF demo_step_hyps, of "rq_resource (step_request [] (Some (mj_jwt demo_job)))"]
  by (simp add: demo_mint_id)

theorem minted_cosigner_admits_any_resource_witness:
  "\<forall>resource. cosigner_step demo_env 500 (step_deps demo_sp)
       ((step_request [] (Some (mj_jwt demo_job)))\<lparr>rq_resource := resource\<rparr>) =
     Inr (Proceed (with_cosigner ((step_request [] (Some (mj_jwt demo_job)))\<lparr>rq_resource := resource\<rparr>)) (Some ''p1''))"
proof
  fix resource
  show "cosigner_step demo_env 500 (step_deps demo_sp)
       ((step_request [] (Some (mj_jwt demo_job)))\<lparr>rq_resource := resource\<rparr>) =
     Inr (Proceed (with_cosigner ((step_request [] (Some (mj_jwt demo_job)))\<lparr>rq_resource := resource\<rparr>)) (Some ''p1''))"
    using minted_cosigner_admits_any_resource [OF demo_step_hyps] by (simp add: demo_mint_id)
qed

subsection \<open>The answer and what is trusted in the request\<close>

lemma decide_no_stepup:
  assumes "decide E C clock inp = Inr d" shows "d_requiresStepUp d = None"
  using assms
proof (cases rule: decide_cases)
  case 1
  with assms show ?thesis by (auto simp: decide_def Let_def rbind_Inr_iff deny_decision_def)
next
  case (2 why)
  then show ?thesis by (auto simp: deny_Inr deny_decision_def)
next
  case (3 root leaf)
  from 3(4) show ?thesis
    by (cases rule: decide_validated_cases) (auto simp: deny_Inr deny_decision_def allow_decision_def Let_def)
qed

text \<open>The audit log has a third verdict, stepup, which the route's decision carries and the record
  handed to the emitter does not: a call answered with a step-up is logged as a plain deny.\<close>

theorem stepup_recorded_as_deny:
  assumes "authorize E C packs clock nowMs deps revoked cache hr = Inr res" "ar_response res = Decided d"
    "d_requiresStepUp d = Some True" "ad_emitAudit deps = Some emitAudit"
  shows "decisionToAudit d = AuditStepup \<and>
    (\<exists>ev. ar_audit res = [ev] \<and> ai_decision (audit_input ev) = AuditDeny)"
proof -
  from authorize_decided [OF assms(1,2)] obtain r c
    where run: "authorize_for E C packs clock nowMs deps revoked cache c r = Inr res" by metis
  have "\<not> d_allow d \<and> (\<exists>ev. ar_audit res = [ev] \<and> ae_allow ev = d_allow d)"
    using run
  proof (cases rule: authorize_for_cases)
    case (gate why basis cache')
    with assms show ?thesis by (auto simp: emit_and_answer_Inr early_audit_def)
  next
    case (cosigner policies cache' d')
    with assms show ?thesis by (auto simp: emit_and_answer_Inr early_audit_def)
  next
    case (decided policies cache' effective consumed d0 d' created)
    with assms have d: "d' = d" by (auto dest: emitted_response)
    have "d_requiresStepUp d0 = None" by (rule decide_no_stepup [OF decided(3)])
    with detect_stepup_Inr [OF decided(4)] d assms(3) have "\<not> d_allow d" by auto
    with decided(5) d assms(4) show ?thesis by (auto simp: emit_and_answer_Inr final_audit_def early_audit_def)
  qed
  with assms(3) show ?thesis by (auto simp: decisionToAudit_def audit_input_def recorded_decision_def)
qed

theorem stepup_recorded_as_deny_witness:
  "\<exists>res ev d. authorize demo_env gate_cedar [] 500 0 (step_deps demo_sp) demo_revoked step_cache
       \<lparr>hr_body = Some (JObj (requestObj (step_request [] None))), hr_customer = Some ''c1'', hr_traceparent = None\<rparr> = Inr res \<and>
     ar_response res = Decided d \<and> decisionToAudit d = AuditStepup \<and>
     ar_audit res = [ev] \<and> ai_decision (audit_input ev) = AuditDeny"
proof -
  obtain res d where run: "authorize_for demo_env gate_cedar [] 500 0 (step_deps demo_sp) demo_revoked step_cache ''c1'' (step_request [] None) = Inr res"
    "ar_response res = Decided d" "d_requiresStepUp d = Some True"
    by (rule step_answer [OF step_cosigner_absent [of "[]"]]) simp_all
  obtain u where "parseUcanJwt demo_env agent_jwt = Some u" "u_payload u = agent_payload" by (rule agent_parsed)
  then have "agent_jwt \<noteq> []" using parse_needs_text by metis
  then have "parseAuthorizeRequest (JObj (requestObj (step_request [] None))) = Some (step_request [] None)"
    by (simp add: parseAuthorizeRequest_def requestObj_def step_request_def opt_str_def opt_json_def
        jget_def z_min1_def z_match_def demo_commands z_record_def parseAuthorizeContext_def z_opt_def context_keys_def)
  moreover have "with_trace None r = r" for r by (simp add: with_trace_def str_truthy_def)
  moreover have "rq_ucan (step_request [] None) = agent_jwt" by (simp add: step_request_def)
  ultimately have "authorize demo_env gate_cedar [] 500 0 (step_deps demo_sp) demo_revoked step_cache
       \<lparr>hr_body = Some (JObj (requestObj (step_request [] None))), hr_customer = Some ''c1'', hr_traceparent = None\<rparr> = Inr res"
    using run(1) step_customer by (simp add: authorize_def)
  from stepup_recorded_as_deny [OF this run(2,3), of "\<lambda>ev. Inr ()"] this run(2) show ?thesis
    by (auto simp: step_deps_def demo_deps_def)
qed

text \<open>A request that asserts \<open>cosigner: true\<close> in its own context, with no attestation, gets the verdict
  of the same request with an approved attestation: the assertion is not removed and nothing is consumed.\<close>

theorem self_asserted_cosigner:
  assumes "cosigner_step E clock deps r = Inr (Proceed (with_cosigner r) used)"
    "authorize_for E C packs clock nowMs deps revoked cache c r = Inr res" "ar_response res = Decided d"
    "authorize_for E C packs clock nowMs deps revoked cache c ((with_cosigner r)\<lparr>rq_cosignerJwt := None\<rparr>) = Inr res'"
    "ar_response res' = Decided d'"
  shows "d_allow d' = d_allow d \<and> ar_consumed res' = None"
proof -
  let ?r = "(with_cosigner r)\<lparr>rq_cosignerJwt := None\<rparr>"
  have same: "request_gate E packs deps cache c ?r = request_gate E packs deps cache c r"
    by (rule request_gate_cong) (simp_all add: with_cosigner_def)
  have step: "cosigner_step E clock deps ?r = Inr (Proceed ?r None)" by (simp add: cosigner_step_def)
  from assms(2) show ?thesis
  proof (cases rule: authorize_for_cases)
    case (gate why basis cache')
    from assms(4) show ?thesis
      by (cases rule: authorize_for_cases)
        (use gate same assms(3,5) in \<open>auto dest!: emitted_response\<close>)
  next
    case (cosigner policies cache' d0)
    with assms(1) show ?thesis by simp
  next
    case (decided policies cache' effective consumed d0 d1 created)
    with assms(1) have eff: "effective = with_cosigner r" by simp
    have d: "d_allow d = decide_admits E C clock (authorize_input deps revoked c policies (with_cosigner r))"
      using decide_allow_iff [OF decided(3)] detect_stepup_allow [OF decided(4)] emitted_response [OF decided(5)] assms(3) eff
      by simp
    from assms(4) show ?thesis
    proof (cases rule: authorize_for_cases)
      case (gate why basis cache'')
      with decided(1) same show ?thesis by simp
    next
      case (cosigner policies' cache'' d0')
      with step show ?thesis by simp
    next
      case other: (decided policies' cache'' effective' consumed' d0' d1' created')
      with step have e: "effective' = ?r" "consumed' = None" by auto
      from other(1) decided(1) same have p: "policies' = policies" by simp
      have "authorize_input deps revoked c policies ?r =
          (authorize_input deps revoked c policies (with_cosigner r))
            \<lparr>di_request := (di_request (authorize_input deps revoked c policies (with_cosigner r)))\<lparr>rq_cosignerJwt := None\<rparr>\<rparr>"
        by (simp add: authorize_input_def ucan_input_def split: option.split list.split)
      then have "d_allow d' = d_allow d"
        using decide_allow_iff [OF other(3)] detect_stepup_allow [OF other(4)] emitted_response [OF other(5)] assms(5) e p d
          admits_ignores_jwt [where x = None]
        by simp
      with emitted_response [OF other(5)] e show ?thesis by simp
    qed
  qed
qed

theorem self_asserted_cosigner_witness:
  "\<exists>res d res' d'.
     authorize_for demo_env gate_cedar [] 500 0 (step_deps demo_sp) demo_revoked step_cache ''c1''
       (step_request [] (Some (mj_jwt demo_job))) = Inr res \<and> ar_response res = Decided d \<and> d_allow d \<and>
     authorize_for demo_env gate_cedar [] 500 0 (step_deps demo_sp) demo_revoked step_cache ''c1''
       (step_request [(''cosigner'', JBool True)] None) = Inr res' \<and> ar_response res' = Decided d' \<and> d_allow d' \<and>
     ar_consumed res' = None"
proof -
  let ?r = "step_request [] (Some (mj_jwt demo_job))"
  have step: "cosigner_step demo_env 500 (step_deps demo_sp) ?r = Inr (Proceed (with_cosigner ?r) (Some ''p1''))"
    by (rule demo_cosigner_step)
  obtain res d where run: "authorize_for demo_env gate_cedar [] 500 0 (step_deps demo_sp) demo_revoked step_cache ''c1'' ?r = Inr res"
    "ar_response res = Decided d" "d_allow d"
    using step_answer [OF step [unfolded step_with_cosigner]] by auto
  have r': "(with_cosigner ?r)\<lparr>rq_cosignerJwt := None\<rparr> = step_request [(''cosigner'', JBool True)] None"
    by (simp add: step_with_cosigner) (simp add: step_request_def)
  obtain res' d' where run': "authorize_for demo_env gate_cedar [] 500 0 (step_deps demo_sp) demo_revoked step_cache ''c1''
      (step_request [(''cosigner'', JBool True)] None) = Inr res'" "ar_response res' = Decided d'" "d_allow d'"
    using step_answer [OF step_cosigner_absent [of "[(''cosigner'', JBool True)]"]] by auto
  from self_asserted_cosigner [OF step run(1,2), unfolded r', OF run'(1,2)] run run' show ?thesis by blast
qed

subsection \<open>Remembered decisions in the bundle\<close>

lemma trim_id: "s \<noteq> [] \<Longrightarrow> \<not> is_ws (hd s) \<Longrightarrow> \<not> is_ws (last s) \<Longrightarrow> trim s = s"
proof -
  assume s: "s \<noteq> []" "\<not> is_ws (hd s)" "\<not> is_ws (last s)"
  have "dropWhile is_ws t = t" if "t \<noteq> []" "\<not> is_ws (hd t)" for t using that by (cases t) auto
  with s show ?thesis by (simp add: trim_def hd_rev)
qed

lemma permit_text: "trim (renderPermit command w) = renderPermit command w" "renderPermit command w \<noteq> []"
  "endsWith (renderPermit command w) '';''"
proof -
  have last: "renderPermit command w = (''permit ('' @ nl @ ''  principal,'' @ nl @ ''  action == Action::'' @ dq @
      escapeCedarString command @ dq @ '','' @ nl @ ''  resource'' @ nl @ '')'' @ w) @ '';''"
    by (simp add: renderPermit_def)
  show "renderPermit command w \<noteq> []" by (simp add: renderPermit_def)
  show "endsWith (renderPermit command w) '';''" unfolding last by (simp add: endsWith_iff)
  show "trim (renderPermit command w) = renderPermit command w"
    by (rule trim_id) (simp_all add: last is_ws_def)
qed

text \<open>What the bundle renders for a grant that was remembered without a chosen variant does not depend on
  the decision.\<close>

lemma remembered_grant:
  assumes "ug_cedarSnippet inp = None" "agent \<in> set (db_agents db)" "ag_id agent = ug_agentId inp"
  shows "\<exists>g \<in> set (loadActiveGrantsForCustomer (upsertGrant newId now inp db) (ug_customerId inp)).
    gr_decision g = ug_decision inp \<and> gr_agentDid g = ag_did agent \<and>
    renderGrantToCedar g =
      renderPermit (ug_command inp) (if ug_scope inp = scope_exact then renderWhenClause (ug_resource inp) else [])"
proof -
  let ?w = "if ug_scope inp = scope_exact then renderWhenClause (ug_resource inp) else []"
  let ?g = "\<lparr>gr_agentDid = ag_did agent, gr_command = ug_command inp,
    gr_resourcePattern = (if ug_scope inp = scope_exact then ug_resource inp else []), gr_scope = ug_scope inp,
    gr_decision = ug_decision inp, gr_cedarSnippet = Some (renderPermit (ug_command inp) ?w)\<rparr>"
  have "renderWhenClause [] = []" by (simp add: renderWhenClause_def)
  then have snippet: "buildCedarPreviewForGrant inp = renderPermit (ug_command inp) ?w"
    by (simp add: buildCedarPreviewForGrant_def buildCedarPreview_def)
  have "?g \<in> set (loadActiveGrantsForCustomer (upsertGrant newId now inp db) (ug_customerId inp))"
    using assms snippet by (auto simp: loadActiveGrantsForCustomer_def upsertGrant_def new_grant_def intro!: bexI [of _ agent])
  moreover have "renderGrantToCedar ?g = renderPermit (ug_command inp) ?w"
    by (simp add: renderGrantToCedar_def permit_text)
  ultimately show ?thesis by (intro bexI [of _ ?g]) simp_all
qed

text \<open>A remembered denial is stored with the Cedar text of a permission. The rule the bundle renders for
  it is an unscoped permit for the command (and, when exact, the resource): a denied request is permitted
  from then on, to every agent of the customer.\<close>

theorem remembered_deny_permits:
  assumes "ug_decision inp = grant_deny" "ug_cedarSnippet inp = None"
    "agent \<in> set (db_agents db)" "ag_id agent = ug_agentId inp"
  shows "\<exists>g \<in> set (loadActiveGrantsForCustomer (upsertGrant newId now inp db) (ug_customerId inp)).
    gr_decision g = grant_deny \<and> gr_agentDid g = ag_did agent \<and>
    renderGrantToCedar g =
      renderPermit (ug_command inp) (if ug_scope inp = scope_exact then renderWhenClause (ug_resource inp) else [])"
  using remembered_grant [OF assms(2-4), of newId now] assms(1) by simp

theorem remembered_deny_permits_witness:
  "\<exists>g. gr_decision g = grant_deny \<and> gr_agentDid g = ''did:key:z1'' \<and>
     renderGrantToCedar g = renderPermit ''/github/repo/delete'' []"
proof -
  define agent where "agent =
    \<lparr>ag_id = ''a1'', ag_customerId = ''c1'', ag_name = ''bot'', ag_did = ''did:key:z1'', ag_status = status_active,
     ag_mode = mode_dynamic, ag_stepUpOnDeny = True, ag_connectionApprovedAt = None, ag_parentAgentId = None,
     ag_rootAgentId = None, ag_depth = 0, ag_swarmId = None, ag_encryptedSigningKey = None, ag_signingKeyNonce = None\<rparr>"
  define db where "db =
    \<lparr>db_agents = [agent], db_policies = [], db_agentPolicies = [], db_revocations = [], db_approvals = [], db_grants = [],
     db_passkeys = []\<rparr>"
  define inp where "inp =
    \<lparr>ug_customerId = ''c1'', ug_agentId = ''a1'', ug_agentName = ''bot'', ug_command = ''/github/repo/delete'',
     ug_resource = [], ug_scope = scope_any, ug_decision = grant_deny, ug_grantedBy = ''u1'', ug_sourceApprovalId = None,
     ug_riskSummary = None, ug_cedarSnippet = None\<rparr>"
  have "ug_decision inp = grant_deny" "ug_cedarSnippet inp = None" "agent \<in> set (db_agents db)"
    "ag_id agent = ug_agentId inp" "ug_scope inp = scope_any" "ag_did agent = ''did:key:z1''"
    "ug_command inp = ''/github/repo/delete''"
    by (simp_all add: agent_def db_def inp_def)
  with remembered_deny_permits [of inp agent db "''g1''" 0] show ?thesis by auto
qed

text \<open>The when clause of an exact grant quotes the values of the approved resource and not its keys. A
  resource with a crafted key, which the requesting agent supplies, renders with any expression of its
  choosing between two disjunctions, so the remembered rule no longer depends on the resource.\<close>

theorem grant_key_injection:
  assumes "ug_resource inp = [(''a == true || '' @ expression @ '' || resource.a'', JBool True)]"
    "ug_scope inp = scope_exact" "ug_decision inp = grant_allow" "ug_cedarSnippet inp = None"
    "agent \<in> set (db_agents db)" "ag_id agent = ug_agentId inp"
  shows "\<exists>g \<in> set (loadActiveGrantsForCustomer (upsertGrant newId now inp db) (ug_customerId inp)).
    gr_agentDid g = ag_did agent \<and>
    renderGrantToCedar g =
      renderPermit (ug_command inp) ('' when { resource.a == true || '' @ expression @ '' || resource.a == true }'')"
proof -
  have "renderWhenClause (ug_resource inp) =
      '' when { resource.a == true || '' @ expression @ '' || resource.a == true }''"
    by (simp add: assms(1) renderWhenClause_def when_part_def jget_def)
  with remembered_grant [OF assms(4-6), of newId now] assms(2) show ?thesis by auto
qed

theorem grant_key_injection_witness:
  "\<exists>g. renderGrantToCedar g =
     renderPermit ''/github/repo/delete'' '' when { resource.a == true || 1 == 1 || resource.a == true }''"
proof -
  define agent where "agent =
    \<lparr>ag_id = ''a1'', ag_customerId = ''c1'', ag_name = ''bot'', ag_did = ''did:key:z1'', ag_status = status_active,
     ag_mode = mode_dynamic, ag_stepUpOnDeny = True, ag_connectionApprovedAt = None, ag_parentAgentId = None,
     ag_rootAgentId = None, ag_depth = 0, ag_swarmId = None, ag_encryptedSigningKey = None, ag_signingKeyNonce = None\<rparr>"
  define db where "db =
    \<lparr>db_agents = [agent], db_policies = [], db_agentPolicies = [], db_revocations = [], db_approvals = [], db_grants = [],
     db_passkeys = []\<rparr>"
  define inp where "inp =
    \<lparr>ug_customerId = ''c1'', ug_agentId = ''a1'', ug_agentName = ''bot'', ug_command = ''/github/repo/delete'',
     ug_resource = [(''a == true || '' @ ''1 == 1'' @ '' || resource.a'', JBool True)], ug_scope = scope_exact,
     ug_decision = grant_allow, ug_grantedBy = ''u1'', ug_sourceApprovalId = None, ug_riskSummary = None,
     ug_cedarSnippet = None\<rparr>"
  have "ug_resource inp = [(''a == true || '' @ ''1 == 1'' @ '' || resource.a'', JBool True)]"
    "ug_scope inp = scope_exact" "ug_decision inp = grant_allow" "ug_cedarSnippet inp = None"
    "agent \<in> set (db_agents db)" "ag_id agent = ug_agentId inp"
    by (simp_all add: inp_def agent_def db_def)
  from grant_key_injection [OF this, of "''g1''" 0] show ?thesis by (auto simp: inp_def)
qed

end
