(* ===== verification/Proxy_Gates.thy ===== *)
theory Proxy_Gates
  imports Packs
begin

text \<open>
  The data-plane gates of apps/pdp/src/adapters: before the proxy calls the upstream API it derives the
  target of the call once more and compares it with the \<open>resource_constraint\<close> of the leaf token. The
  constraint is the object found in the token's meta, which nothing has parsed at that point, so it is an
  object here and its members are compared with \<open>===\<close>.
\<close>

subsection \<open>Values as text, and form bodies\<close>

text \<open>\<open>String(v)\<close>. A numeral out of range is read as Infinity.\<close>

fun js_String :: "json \<Rightarrow> string" where
  "js_String JUndef = ''undefined''"
| "js_String JNull = ''null''"
| "js_String (JBool b) = (if b then ''true'' else ''false'')"
| "js_String (JNum JNonFinite) = ''Infinity''"
| "js_String (JNum n) = num_text n"
| "js_String (JStr s) = s"
| "js_String (JArr vs) = join '','' (map (\<lambda>v. if v = JUndef \<or> v = JNull then [] else js_String v) vs)"
| "js_String (JObj ob) = ''[object Object]''"

text \<open>The decoder of the Encoding standard with replacement: \<open>need\<close> continuation bytes are still expected,
  the next of them between \<open>lo\<close> and \<open>hi\<close>, and \<open>seen\<close> holds the bytes of the character so far.\<close>

definition replacement_char :: string where
  "replacement_char = [CHR 0xEF, CHR 0xBF, CHR 0xBD]"

function utf8_lossy :: "nat \<Rightarrow> nat \<Rightarrow> nat \<Rightarrow> string \<Rightarrow> string \<Rightarrow> string" where
  "utf8_lossy need lo hi seen [] = (if need = 0 then [] else replacement_char)"
| "utf8_lossy need lo hi seen (c # cs) =
     (let b = of_char c :: nat
      in if need = 0 then
           (if b < 0x80 then c # utf8_lossy 0 0x80 0xBF [] cs
            else if 0xC2 \<le> b \<and> b < 0xE0 then utf8_lossy 1 0x80 0xBF [c] cs
            else if 0xE0 \<le> b \<and> b < 0xF0
            then utf8_lossy 2 (if b = 0xE0 then 0xA0 else 0x80) (if b = 0xED then 0x9F else 0xBF) [c] cs
            else if 0xF0 \<le> b \<and> b < 0xF5
            then utf8_lossy 3 (if b = 0xF0 then 0x90 else 0x80) (if b = 0xF4 then 0x8F else 0xBF) [c] cs
            else replacement_char @ utf8_lossy 0 0x80 0xBF [] cs)
         else if b < lo \<or> hi < b then replacement_char @ utf8_lossy 0 0x80 0xBF [] (c # cs)
         else if need = 1 then seen @ [c] @ utf8_lossy 0 0x80 0xBF [] cs
         else utf8_lossy (need - 1) 0x80 0xBF (seen @ [c]) cs)"
  by pat_completeness auto
termination
  by (relation "measure (\<lambda>(need, lo, hi, seen, s). 2 * length s + (if need = 0 then 0 else 1))") auto

fun form_unescape :: "string \<Rightarrow> string" where
  "form_unescape [] = []"
| "form_unescape (c # s) =
     (if c = CHR ''+'' then CHR '' '' # form_unescape s
      else case pct_byte (c # s) of
          None \<Rightarrow> c # form_unescape s
        | Some (b, r) \<Rightarrow> char_of b # form_unescape (drop 2 s))"

definition form_decode :: "string \<Rightarrow> string" where
  "form_decode s = utf8_lossy 0 0x80 0xBF [] (form_unescape s)"

text \<open>\<open>new URLSearchParams(text)\<close>: pieces between \<open>&\<close>, each split at its first \<open>=\<close>.\<close>

definition form_pair :: "string \<Rightarrow> string \<times> string" where
  "form_pair piece =
     (form_decode (takeWhile (\<lambda>c. c \<noteq> CHR ''='') piece),
      form_decode (drop 1 (dropWhile (\<lambda>c. c \<noteq> CHR ''='') piece)))"

definition URLSearchParams :: "string \<Rightarrow> (string \<times> string) list" where
  "URLSearchParams text =
     map form_pair (filter_Boolean (split_on CHR ''&'' (if startsWith text ''?'' then tl text else text)))"

subsection \<open>Comparing a call with a constraint\<close>

datatype adapter_result = Adapter_ok | Adapter_refused string

fun first_failing :: "(bool \<times> string) list \<Rightarrow> adapter_result" where
  "first_failing [] = Adapter_ok"
| "first_failing ((ok, why) # cs) = (if ok then first_failing cs else Adapter_refused why)"

lemma first_failing_ok [simp]: "first_failing cs = Adapter_ok \<longleftrightarrow> (\<forall>(ok, why) \<in> set cs. ok)"
  by (induction cs rule: first_failing.induct) auto

text \<open>\<open>constraint.k === undefined || v === constraint.k\<close>.\<close>

definition pinned :: "obj \<Rightarrow> string \<Rightarrow> json \<Rightarrow> bool" where
  "pinned c k v \<longleftrightarrow> jget c k = JUndef \<or> strict_equal v (jget c k)"

definition js_opt :: "string option \<Rightarrow> json" where
  "js_opt v = (case v of None \<Rightarrow> JUndef | Some s \<Rightarrow> JStr s)"

definition prefix_pinned :: "obj \<Rightarrow> json \<Rightarrow> bool" where
  "prefix_pinned c v \<longleftrightarrow>
     jget c ''path_prefix'' = JUndef \<or>
     (case v of JStr f \<Rightarrow> startsWith f (js_String (jget c ''path_prefix'')) | _ \<Rightarrow> False)"

subsection \<open>github.ts, slack.ts, discord.ts\<close>

definition validateGithubProxyCall :: "(string \<Rightarrow> jsnum) \<Rightarrow> obj \<Rightarrow> ApiCall \<Rightarrow> adapter_result" where
  "validateGithubProxyCall nd c call =
     (case parseGithubPath nd (ac_path call) of
        None \<Rightarrow> Adapter_refused ''unparseable_path''
      | Some p \<Rightarrow> first_failing
          [(strict_equal (jget p ''owner'') (jget c ''owner''), ''owner_mismatch''),
           (pinned c ''repo'' (jget p ''repo''), ''repo_mismatch''),
           (pinned c ''pr_number'' (jget p ''prNumber''), ''pr_mismatch''),
           (pinned c ''issue_number'' (jget p ''issueNumber''), ''issue_mismatch''),
           (prefix_pinned c (jget p ''filePath''), ''path_outside_constraint''),
           (pinned c ''ref'' (js_opt (query_text (ac_query call) ''ref'')), ''ref_mismatch'')])"

definition validateSlackProxyCall :: "obj \<Rightarrow> ApiCall \<Rightarrow> adapter_result" where
  "validateSlackProxyCall c call =
     (case parseSlackPath (ac_path call) (ac_query call) (ac_body call) of
        None \<Rightarrow> Adapter_refused ''unparseable_path''
      | Some p \<Rightarrow> first_failing
          [(pinned c ''channel_id'' (jget p ''channel_id''), ''channel_mismatch''),
           (pinned c ''user_id'' (jget p ''user_id''), ''user_mismatch''),
           (pinned c ''thread_ts'' (jget p ''thread_ts''), ''thread_ts_mismatch'')])"

definition validateDiscordProxyCall :: "obj \<Rightarrow> ApiCall \<Rightarrow> adapter_result" where
  "validateDiscordProxyCall c call =
     (case parseDiscordPath (ac_path call) of
        None \<Rightarrow> Adapter_refused ''unparseable_path''
      | Some p \<Rightarrow> first_failing
          [(pinned c ''guild_id'' (jget p ''guild_id''), ''guild_mismatch''),
           (pinned c ''channel_id'' (jget p ''channel_id''), ''channel_mismatch''),
           (pinned c ''message_id'' (jget p ''message_id''), ''message_mismatch''),
           (pinned c ''role_id'' (jget p ''role_id''), ''role_mismatch''),
           (pinned c ''user_id'' (jget p ''user_id''), ''user_mismatch'')])"

subsection \<open>stripe.ts\<close>

definition normaliseBody :: "json \<Rightarrow> obj" where
  "normaliseBody body =
     (case body of
        JStr s \<Rightarrow> if s = [] then [] else foldl (\<lambda>out (k, v). jset k (JStr v) out) [] (URLSearchParams s)
      | JObj ob \<Rightarrow> ob
      | _ \<Rightarrow> [])"

definition stripe_account :: "(string \<times> string) list option \<Rightarrow> json" where
  "stripe_account headers = js_opt (or_value (query_text headers ''stripe-account'') (query_text headers ''Stripe-Account''))"

definition validateStripeProxyCall :: "obj \<Rightarrow> ApiCall \<Rightarrow> adapter_result" where
  "validateStripeProxyCall c call =
     (case parseStripePath (ac_path call) of
        None \<Rightarrow> Adapter_refused ''unparseable_path''
      | Some p \<Rightarrow>
          (let effCustomer = js_opt (or_value (text_of p ''customer_id'') (text_of (normaliseBody (ac_body call)) ''customer''))
           in first_failing
             [(prefix_pinned c (JStr (ac_path call)), ''path_outside_constraint''),
              (pinned c ''customer_id'' effCustomer, ''customer_mismatch''),
              (pinned c ''payment_intent'' (jget p ''payment_intent''), ''payment_intent_mismatch''),
              (pinned c ''charge_id'' (jget p ''charge_id''), ''charge_mismatch''),
              (pinned c ''subscription_id'' (jget p ''subscription_id''), ''subscription_mismatch''),
              (pinned c ''invoice_id'' (jget p ''invoice_id''), ''invoice_mismatch''),
              (pinned c ''account_id'' (stripe_account (ac_headers call)), ''account_mismatch'')]))"

subsection \<open>linear.ts and notion.ts\<close>

definition validateLinearProxyCall :: "obj \<Rightarrow> ApiCall \<Rightarrow> adapter_result" where
  "validateLinearProxyCall c call =
     (if \<not> parseLinearPath (ac_path call) then Adapter_refused ''unparseable_path''
      else if ac_body call = JUndef \<or> ac_body call = JNull then Adapter_refused ''missing_body''
      else case parseLinearBody (ac_body call) of
          None \<Rightarrow> Adapter_refused ''unparseable_body''
        | Some v \<Rightarrow>
            (let input = object_or_empty (jget v ''input'');
                 either_of = (\<lambda>k. js_opt (or_value (nonempty (text_of v k)) (nonempty (text_of input k))));
                 issue = js_opt (or_value (or_value (nonempty (text_of v ''id'')) (nonempty (text_of v ''issueId'')))
                                          (nonempty (text_of input ''id'')))
             in first_failing
               [(pinned c ''team_id'' (either_of ''teamId''), ''team_mismatch''),
                (pinned c ''project_id'' (either_of ''projectId''), ''project_mismatch''),
                (pinned c ''issue_id'' issue, ''issue_mismatch'')]))"

text \<open>Normalising a constraint member that is no string throws.\<close>

definition notion_eq :: "string option \<Rightarrow> json \<Rightarrow> (exn, bool) result" where
  "notion_eq a b =
     (case a of
        None \<Rightarrow> Inr (b = JUndef)
      | Some s \<Rightarrow>
          (case b of
             JUndef \<Rightarrow> Inr False
           | JStr t \<Rightarrow> Inr (normaliseNotionId s = normaliseNotionId t)
           | _ \<Rightarrow> Inl TypeError))"

definition notion_pinned :: "obj \<Rightarrow> obj \<Rightarrow> string \<Rightarrow> (exn, bool) result" where
  "notion_pinned c p k = (if jget c k = JUndef then Inr True else notion_eq (text_of p k) (jget c k))"

definition validateNotionProxyCall :: "obj \<Rightarrow> ApiCall \<Rightarrow> (exn, adapter_result) result" where
  "validateNotionProxyCall c call =
     (case parseNotionPath (ac_path call) of
        None \<Rightarrow> Inr (Adapter_refused ''unparseable_path'')
      | Some p \<Rightarrow>
          rbind (notion_pinned c p ''page_id'') (\<lambda>page.
            if \<not> page then Inr (Adapter_refused ''page_mismatch'')
            else rbind (notion_pinned c p ''database_id'') (\<lambda>database.
              if \<not> database then Inr (Adapter_refused ''database_mismatch'')
              else rbind (notion_pinned c p ''block_id'') (\<lambda>block.
                Inr (if \<not> block then Adapter_refused ''block_mismatch'' else Adapter_ok)))))"

subsection \<open>The Google gates\<close>

definition validateGoogleDriveProxyCall :: "obj \<Rightarrow> ApiCall \<Rightarrow> adapter_result" where
  "validateGoogleDriveProxyCall c call =
     (case parseGoogleDrivePath (ac_path call) of
        None \<Rightarrow> Adapter_refused ''unparseable_path''
      | Some p \<Rightarrow>
          (let body = object_or_empty (ac_body call);
               in_folder = (case jget body ''parents'' of
                   JArr vs \<Rightarrow> list_ex (\<lambda>v. strict_equal v (jget c ''folder_id'')) vs | _ \<Rightarrow> False);
               driveId = js_opt (or_value (query_text (ac_query call) ''driveId'') (text_of body ''driveId''))
           in first_failing
             [(pinned c ''file_id'' (jget p ''file_id''), ''file_mismatch''),
              (jget c ''folder_id'' = JUndef \<or> in_folder, ''folder_mismatch''),
              (pinned c ''drive_id'' driveId, ''drive_mismatch''),
              (prefix_pinned c (JStr (ac_path call)), ''path_outside_constraint'')]))"

definition validateGoogleGmailProxyCall :: "obj \<Rightarrow> ApiCall \<Rightarrow> adapter_result" where
  "validateGoogleGmailProxyCall c call =
     (case parseGoogleGmailPath (ac_path call) of
        None \<Rightarrow> Adapter_refused ''unparseable_path''
      | Some p \<Rightarrow> first_failing
          [(pinned c ''user_id'' (jget p ''user_id''), ''user_mismatch''),
           (pinned c ''message_id'' (jget p ''message_id''), ''message_mismatch''),
           (pinned c ''thread_id'' (jget p ''thread_id''), ''thread_mismatch''),
           (pinned c ''label_id'' (jget p ''label_id''), ''label_mismatch'')])"

definition validateGoogleCalendarProxyCall :: "obj \<Rightarrow> ApiCall \<Rightarrow> adapter_result" where
  "validateGoogleCalendarProxyCall c call =
     (case parseGoogleCalendarPath (ac_path call) of
        None \<Rightarrow> Adapter_refused ''unparseable_path''
      | Some p \<Rightarrow> first_failing
          [(pinned c ''calendar_id'' (jget p ''calendar_id''), ''calendar_mismatch''),
           (pinned c ''event_id'' (jget p ''event_id''), ''event_mismatch'')])"

definition validateGoogleDocsProxyCall :: "obj \<Rightarrow> ApiCall \<Rightarrow> adapter_result" where
  "validateGoogleDocsProxyCall c call =
     (case parseGoogleDocsPath (ac_path call) of
        None \<Rightarrow> Adapter_refused ''unparseable_path''
      | Some p \<Rightarrow> first_failing [(pinned c ''document_id'' (jget p ''document_id''), ''document_mismatch'')])"

definition validateGoogleSheetsProxyCall :: "obj \<Rightarrow> ApiCall \<Rightarrow> (exn, adapter_result) result" where
  "validateGoogleSheetsProxyCall c call =
     rbind (parseGoogleSheetsPath (ac_path call)) (\<lambda>parsed.
       case parsed of
         None \<Rightarrow> Inr (Adapter_refused ''unparseable_path'')
       | Some p \<Rightarrow> Inr (first_failing
           [(pinned c ''spreadsheet_id'' (jget p ''spreadsheet_id''), ''spreadsheet_mismatch''),
            (pinned c ''range'' (jget p ''range''), ''range_mismatch''),
            (pinned c ''sheet_id'' (js_opt (text_of (object_or_empty (ac_body call)) ''sheetId'')), ''sheet_mismatch'')]))"

definition validateGoogleTasksProxyCall :: "obj \<Rightarrow> ApiCall \<Rightarrow> adapter_result" where
  "validateGoogleTasksProxyCall c call =
     (case parseGoogleTasksPath (ac_path call) of
        None \<Rightarrow> Adapter_refused ''unparseable_path''
      | Some p \<Rightarrow> first_failing
          [(pinned c ''tasklist_id'' (jget p ''tasklist_id''), ''tasklist_mismatch''),
           (pinned c ''task_id'' (jget p ''task_id''), ''task_mismatch'')])"

definition validateGoogleContactsProxyCall :: "obj \<Rightarrow> ApiCall \<Rightarrow> adapter_result" where
  "validateGoogleContactsProxyCall c call =
     (case parseGoogleContactsPath (ac_path call) of
        None \<Rightarrow> Adapter_refused ''unparseable_path''
      | Some p \<Rightarrow> first_failing
          [(pinned c ''resource_name'' (jget p ''resource_name''), ''resource_name_mismatch'')])"

subsection \<open>The choice of the gate in routes/proxy.ts\<close>

text \<open>A constraint of another provider, and no constraint, passes.\<close>

definition data_plane_gate :: "(string \<Rightarrow> jsnum) \<Rightarrow> json \<Rightarrow> ApiCall \<Rightarrow> (exn, adapter_result) result" where
  "data_plane_gate nd constraint call =
     (let c = object_or_empty constraint; provider = jget c ''provider''
      in if provider = JStr ''github'' then Inr (validateGithubProxyCall nd c call)
         else if provider = JStr ''slack'' then Inr (validateSlackProxyCall c call)
         else if provider = JStr ''discord'' then Inr (validateDiscordProxyCall c call)
         else if provider = JStr ''stripe'' then Inr (validateStripeProxyCall c call)
         else if provider = JStr ''linear'' then Inr (validateLinearProxyCall c call)
         else if provider = JStr ''notion'' then validateNotionProxyCall c call
         else if provider = JStr ''google_drive'' then Inr (validateGoogleDriveProxyCall c call)
         else if provider = JStr ''google_gmail'' then Inr (validateGoogleGmailProxyCall c call)
         else if provider = JStr ''google_calendar'' then Inr (validateGoogleCalendarProxyCall c call)
         else if provider = JStr ''google_docs'' then Inr (validateGoogleDocsProxyCall c call)
         else if provider = JStr ''google_sheets'' then validateGoogleSheetsProxyCall c call
         else if provider = JStr ''google_tasks'' then Inr (validateGoogleTasksProxyCall c call)
         else if provider = JStr ''google_contacts'' then Inr (validateGoogleContactsProxyCall c call)
         else Inr Adapter_ok)"

end
