(* ===== verification/Proxy_Upstream.thy ===== *)
theory Proxy_Upstream
  imports Proxy_Gates "HOL-Library.AList"
begin

text \<open>
  The upstream calls of the proxy: apps/pdp/src/adapters/oauth.ts and cloud.ts. \<open>fetch\<close> is the network
  and is a parameter: it takes the request as the adapter builds it (the URL text before it is parsed, the
  query pairs set on it, method, headers, body) and returns status, text and headers, or throws. What the
  WHATWG URL parser makes of the text is \<open>url_host\<close>, used to say where a request goes.
\<close>

subsection \<open>oauth.ts: provider table\<close>

record ProviderApiConfig =
  pc_base :: string
  pc_staticHeaders :: "(string \<times> string) list"
  pc_jsonContentType :: "string option"
  pc_formEncoding :: bool
  pc_authScheme :: "string option"

definition plain_config :: "string \<Rightarrow> ProviderApiConfig" where
  "plain_config base =
     \<lparr>pc_base = base, pc_staticHeaders = [], pc_jsonContentType = None, pc_formEncoding = False, pc_authScheme = None\<rparr>"

definition PROVIDER_API :: "(string \<times> ProviderApiConfig) list" where
  "PROVIDER_API =
     [(''github'', (plain_config ''https://api.github.com'')
        \<lparr>pc_staticHeaders := [(''accept'', ''application/vnd.github+json''), (''x-github-api-version'', ''2022-11-28''),
                              (''user-agent'', ''credential-broker-pdp'')]\<rparr>),
      (''slack'', (plain_config ''https://slack.com/api'')\<lparr>pc_jsonContentType := Some ''application/json; charset=utf-8''\<rparr>),
      (''google'', plain_config ''https://www.googleapis.com/drive/v3''),
      (''notion'', (plain_config ''https://api.notion.com/v1'')\<lparr>pc_staticHeaders := [(''notion-version'', ''2022-06-28'')]\<rparr>),
      (''linear'', plain_config ''https://api.linear.app''),
      (''stripe'', (plain_config ''https://api.stripe.com'')\<lparr>pc_formEncoding := True\<rparr>),
      (''discord'', (plain_config ''https://discord.com/api/v10'')
        \<lparr>pc_authScheme := Some ''Bot'', pc_jsonContentType := Some ''application/json; charset=utf-8'',
         pc_staticHeaders := [(''user-agent'', ''NomosBroker (https://auto-nomos.com, 1.0)'')]\<rparr>)]"

definition isKnownProvider :: "string \<Rightarrow> bool" where
  "isKnownProvider i \<longleftrightarrow>
     i = ''github'' \<or> i = ''slack'' \<or> i = ''google'' \<or> i = ''notion'' \<or> i = ''linear'' \<or> i = ''stripe'' \<or> i = ''discord''"

lemma known_provider_config: "isKnownProvider i \<Longrightarrow> \<exists>cfg. map_of PROVIDER_API i = Some cfg"
  by (auto simp: isKnownProvider_def PROVIDER_API_def)

subsection \<open>oauth.ts: form bodies\<close>

definition upper_hex :: "nat \<Rightarrow> char" where
  "upper_hex n = char_of (if n < 10 then 48 + n else 55 + n)"

definition percent :: "char \<Rightarrow> string" where
  "percent c = [CHR ''%'', upper_hex (of_char c div 16), upper_hex (of_char c mod 16)]"

definition form_escape_char :: "char \<Rightarrow> string" where
  "form_escape_char c =
     (if is_alnum c \<or> c \<in> set ''*-._'' then [c] else if c = CHR '' '' then ''+'' else percent c)"

definition form_text :: "(string \<times> string) list \<Rightarrow> string" where
  "form_text pairs =
     join ''&'' (map (\<lambda>(k, v). concat (map form_escape_char k) @ ''='' @ concat (map form_escape_char v)) pairs)"

definition nullish :: "json \<Rightarrow> bool" where
  "nullish v \<longleftrightarrow> v = JUndef \<or> v = JNull"

definition form_entry :: "string \<times> json \<Rightarrow> (string \<times> string) list" where
  "form_entry = (\<lambda>(k, v).
     (if nullish v then []
      else case v of
          JObj ob \<Rightarrow> map (\<lambda>(nk, nv). (k @ ''['' @ nk @ '']'', js_String nv)) (filter (\<lambda>(nk, nv). \<not> nullish nv) ob)
        | JArr vs \<Rightarrow> map (\<lambda>item. (k @ ''[]'', js_String item)) vs
        | _ \<Rightarrow> [(k, js_String v)]))"

definition encodeFormBody :: "json \<Rightarrow> string" where
  "encodeFormBody body =
     (case body of
        JStr s \<Rightarrow> s
      | JObj ob \<Rightarrow> form_text (concat (map form_entry ob))
      | JArr vs \<Rightarrow> form_text (concat (map form_entry (zip (map (\<lambda>i. string_of_int (int i)) [0..<length vs]) vs)))
      | _ \<Rightarrow> [])"

subsection \<open>oauth.ts: the call\<close>

record UpstreamRequest =
  ur_url :: string
  ur_params :: "(string \<times> string) list"
  ur_method :: string
  ur_headers :: "(string \<times> string) list"
  ur_body :: "string option"

record raw_response =
  rw_status :: int
  rw_text :: string
  rw_headers :: "(string \<times> string) list"

record ProxyResponse =
  ps_status :: int
  ps_body :: json
  ps_headers :: "(string \<times> string) list"

type_synonym fetch = "UpstreamRequest \<Rightarrow> (exn, raw_response) result"

text \<open>Object spread: a key already present keeps its place and takes the new value.\<close>

definition spread_headers :: "(string \<times> string) list \<Rightarrow> (string \<times> string) list \<Rightarrow> (string \<times> string) list" where
  "spread_headers base new = foldl (\<lambda>hs (k, v). AList.update k v hs) base new"

lemma map_of_spread: "map_of (spread_headers base new) k = (case map_of (rev new) k of None \<Rightarrow> map_of base k | Some v \<Rightarrow> Some v)"
proof (induction new arbitrary: base)
  case (Cons x new)
  then show ?case
    by (cases x) (auto simp: spread_headers_def update_conv' map_add_def split: option.splits)
qed (simp add: spread_headers_def)

definition opt_headers :: "(string \<times> string) list option \<Rightarrow> (string \<times> string) list" where
  "opt_headers h = (case h of None \<Rightarrow> [] | Some hs \<Rightarrow> hs)"

definition request_headers :: "ProviderApiConfig \<Rightarrow> string \<Rightarrow> ApiCall \<Rightarrow> (string \<times> string) list" where
  "request_headers cfg accessToken req =
     spread_headers (spread_headers
       [(''authorization'', (case pc_authScheme cfg of None \<Rightarrow> ''Bearer'' | Some s \<Rightarrow> s) @ '' '' @ accessToken),
        (''accept'', ''application/json'')]
       (pc_staticHeaders cfg)) (opt_headers (ac_headers req))"

definition upstream_request :: "ProviderApiConfig \<Rightarrow> string \<Rightarrow> ApiCall \<Rightarrow> UpstreamRequest" where
  "upstream_request cfg accessToken req =
     (let headers = request_headers cfg accessToken req;
          bodied = (ac_body req \<noteq> JUndef \<and> ac_method req \<noteq> ''GET'' \<and> ac_method req \<noteq> ''DELETE'');
          contentType = (if pc_formEncoding cfg then ''application/x-www-form-urlencoded''
                         else case pc_jsonContentType cfg of None \<Rightarrow> ''application/json'' | Some t \<Rightarrow> t)
      in \<lparr>ur_url = pc_base cfg @ ac_path req, ur_params = opt_headers (ac_query req), ur_method = ac_method req,
          ur_headers = (if bodied then AList.update ''content-type'' contentType headers else headers),
          ur_body = (if bodied then Some (if pc_formEncoding cfg then encodeFormBody (ac_body req) else render (ac_body req))
                     else None)\<rparr>)"

definition proxy_response :: "env \<Rightarrow> raw_response \<Rightarrow> ProxyResponse" where
  "proxy_response E res =
     (let text = rw_text res;
          json_body = (case map_of (rw_headers res) ''content-type'' of None \<Rightarrow> False | Some t \<Rightarrow> js_includes t ''json'')
      in \<lparr>ps_status = rw_status res,
          ps_body = (if text \<noteq> [] \<and> json_body
                     then (case JSON_parse (e_nd E) text of None \<Rightarrow> JStr text | Some v \<Rightarrow> v) else JStr text),
          ps_headers = rw_headers res\<rparr>)"

definition proxyApiCall ::
  "env \<Rightarrow> fetch \<Rightarrow> ProviderApiConfig \<Rightarrow> string \<Rightarrow> ApiCall \<Rightarrow> (exn, ProxyResponse) result" where
  "proxyApiCall E fetch cfg accessToken req =
     rbind (fetch (upstream_request cfg accessToken req)) (\<lambda>res. Inr (proxy_response E res))"

subsection \<open>Where a request goes\<close>

text \<open>The host the URL parser finds in an \<open>https\<close> text: tabs and newlines are dropped, the authority ends
  at the first slash, backslash, question mark or hash, what precedes its last \<open>@\<close> is userinfo, and a port
  follows the colon. Percent-decoding and IDNA are left out: they only matter inside the host text.\<close>

definition authority :: "string \<Rightarrow> string" where
  "authority url =
     takeWhile (\<lambda>c. c \<notin> {CHR ''/'', CHR 0x5C, CHR ''?'', CHR ''#''})
       (drop (length ''https://'') (filter (\<lambda>c. c \<notin> {CHR 0x09, CHR 0x0A, CHR 0x0D}) url))"

definition after_last :: "char \<Rightarrow> string \<Rightarrow> string" where
  "after_last x s = rev (takeWhile (\<lambda>c. c \<noteq> x) (rev s))"

definition url_host :: "string \<Rightarrow> string" where
  "url_host url = toLowerCase (takeWhile (\<lambda>c. c \<noteq> CHR '':'') (after_last CHR ''@'' (authority url)))"

subsection \<open>cloud.ts\<close>

record CloudAdapterDeps =
  cd_controlPlaneUrl :: string
  cd_serviceToken :: string
  cd_fetch :: "string \<Rightarrow> string \<Rightarrow> string \<Rightarrow> (exn, int \<times> string) result"

record CloudAgentContext =
  cc_customerId :: string
  cc_agentId :: string
  cc_ucanCid :: "string option"
  cc_parentReceiptId :: "string option"
  cc_swarmId :: "string option"
  cc_chainDepth :: "nat option"

record CloudProxyResponse =
  cl_status :: int
  cl_body :: json
  cl_headers :: obj
  cl_idTokenJti :: string
  cl_connector :: string

datatype cloud_error =
    CloudCallError (providerStatus: json) (providerBody: json) (retryable: json)
  | Cloud_threw exn

definition uri_component_char :: "char \<Rightarrow> string" where
  "uri_component_char c =
     (if is_alnum c \<or> c \<in> set ''-_.!~*()'' \<or> c = CHR 0x27 then [c] else percent c)"

definition encodeURIComponent :: "string \<Rightarrow> string" where
  "encodeURIComponent s = concat (map uri_component_char s)"

definition truthy_text :: "string \<Rightarrow> string option \<Rightarrow> obj" where
  "truthy_text k v = (if str_truthy v then [(k, JStr (the v))] else [])"

definition query_obj :: "(string \<times> string) list \<Rightarrow> json" where
  "query_obj q = JObj (map (\<lambda>(k, v). (k, JStr v)) q)"

definition cloud_request :: "ApiCall \<Rightarrow> obj" where
  "cloud_request call =
     [(''method'', JStr (ac_method call)), (''url'', JStr (ac_path call))] @
     (case ac_query call of None \<Rightarrow> [] | Some q \<Rightarrow> [(''query'', query_obj q)]) @
     (if ac_body call = JUndef then [] else [(''body'', ac_body call)]) @
     (case ac_headers call of None \<Rightarrow> [] | Some h \<Rightarrow> [(''headers'', query_obj h)])"

definition cloud_call_body :: "CloudAgentContext \<Rightarrow> obj \<Rightarrow> obj" where
  "cloud_call_body ctx request =
     [(''customer_id'', JStr (cc_customerId ctx)), (''agent_id'', JStr (cc_agentId ctx))] @
     truthy_text ''ucan_cid'' (cc_ucanCid ctx) @
     truthy_text ''parent_receipt_id'' (cc_parentReceiptId ctx) @
     truthy_text ''swarm_id'' (cc_swarmId ctx) @
     (case cc_chainDepth ctx of None \<Rightarrow> [] | Some n \<Rightarrow> [(''chain_depth'', JNum (JInt (int n)))]) @
     [(''request'', JObj request)]"

definition coalesce :: "json \<Rightarrow> json \<Rightarrow> json" where
  "coalesce a b = (if nullish a then b else a)"

text \<open>A reply of status 200 is read at its declared type; another shape is a TypeError.\<close>

definition cloud_reply :: "obj \<Rightarrow> (cloud_error, CloudProxyResponse) result" where
  "cloud_reply d =
     (case (jget d ''status'', as_obj (jget d ''headers''), as_string (jget d ''id_token_jti''), as_string (jget d ''connector'')) of
        (JNum (JInt st), Some hs, Some jti, Some con) \<Rightarrow>
          Inr \<lparr>cl_status = st, cl_body = jget d ''body'', cl_headers = hs, cl_idTokenJti = jti, cl_connector = con\<rparr>
      | _ \<Rightarrow> Inl (Cloud_threw TypeError))"

definition cloudApiCall ::
  "env \<Rightarrow> CloudAdapterDeps \<Rightarrow> string \<Rightarrow> CloudAgentContext \<Rightarrow> ApiCall \<Rightarrow> (cloud_error, CloudProxyResponse) result" where
  "cloudApiCall E deps connectionId ctx call =
     (let url = cd_controlPlaneUrl deps @ ''/v1/internal/cloud/api-call/'' @ encodeURIComponent connectionId
      in case cd_fetch deps url (cd_serviceToken deps) (render (JObj (cloud_call_body ctx (cloud_request call)))) of
           Inl e \<Rightarrow> Inl (Cloud_threw e)
         | Inr (status, raw) \<Rightarrow>
             (case (if raw = [] then Some (JObj []) else JSON_parse (e_nd E) raw) of
                None \<Rightarrow> Inl (Cloud_threw FetchError)
              | Some parsed \<Rightarrow>
                  if status = 502 \<or> status = 503 then
                    (if parsed = JNull then Inl (Cloud_threw TypeError)
                     else let d = object_or_empty parsed
                          in Inl (CloudCallError
                               (coalesce (coalesce (jget d ''providerStatus'') (jget d ''provider_status'')) (JNum (JInt status)))
                               (coalesce (jget d ''providerBody'') (jget d ''provider_body''))
                               (coalesce (jget d ''retryable'') (JBool (status = 503)))))
                  else if status \<noteq> 200 then Inl (Cloud_threw FetchError)
                  else cloud_reply (object_or_empty parsed)))"

end
