(* ===== verification/Regex.thy ===== *)
theory Regex
  imports Prelude
begin

text \<open>
  The regular expressions of the sanitizer (apps/pdp/src/middleware/sanitize-response.ts) and of the span
  redaction (packages/shared-types/src/span-redact.ts), matched by backtracking as the engine does, on UTF-8
  text. Their classes and word edges are about ASCII characters only; white space is the exception.
\<close>

text \<open>A class, a greedy repetition of a class at least so many times, \<open>\b\<close>, and \<open>\s+\<close>.\<close>

datatype item = One "char \<Rightarrow> bool" | Many "char \<Rightarrow> bool" nat | Word_edge | Spaces

definition is_word :: "char \<Rightarrow> bool" where
  "is_word c \<longleftrightarrow> is_alnum c \<or> c = CHR ''_''"

definition word_at :: "string \<Rightarrow> nat \<Rightarrow> bool" where
  "word_at s i \<longleftrightarrow> i < length s \<and> is_word (s ! i)"

definition boundary :: "string \<Rightarrow> nat \<Rightarrow> bool" where
  "boundary s i \<longleftrightarrow> (i > 0 \<and> word_at s (i - 1)) \<noteq> word_at s i"

text \<open>The bytes of the white space character a text starts with, 0 when it starts with another.\<close>

definition space_length :: "string \<Rightarrow> nat" where
  "space_length t =
     (case map (\<lambda>c. of_char c :: nat) (take 3 t) of
        [] \<Rightarrow> 0
      | x # more \<Rightarrow>
          if 9 \<le> x \<and> x \<le> 13 \<or> x = 32 then 1
          else if x = 0xC2 \<and> more \<noteq> [] \<and> hd more = 0xA0 then 2
          else (case more of
              [y, z] \<Rightarrow>
                if x = 0xE1 \<and> y = 0x9A \<and> z = 0x80 \<or>
                   x = 0xE2 \<and> y = 0x80 \<and> (0x80 \<le> z \<and> z \<le> 0x8A \<or> z \<in> {0xA8, 0xA9, 0xAF}) \<or>
                   x = 0xE2 \<and> y = 0x81 \<and> z = 0x9F \<or> x = 0xE3 \<and> y = 0x80 \<and> z = 0x80 \<or>
                   x = 0xEF \<and> y = 0xBB \<and> z = 0xBF
                then 3 else 0
            | _ \<Rightarrow> 0))"

function skip_spaces :: "string \<Rightarrow> string" where
  "skip_spaces t = (if space_length t = 0 \<or> t = [] then t else skip_spaces (drop (space_length t) t))"
  by pat_completeness auto
termination
  by (relation "measure length") auto

declare skip_spaces.simps [simp del]

fun first_some :: "'a option list \<Rightarrow> 'a option" where
  "first_some [] = None"
| "first_some (Some x # xs) = Some x"
| "first_some (None # xs) = first_some xs"

fun items_match :: "item list \<Rightarrow> string \<Rightarrow> nat \<Rightarrow> nat option" where
  "items_match [] s i = Some i"
| "items_match (One P # ps) s i = (if i < length s \<and> P (s ! i) then items_match ps s (Suc i) else None)"
| "items_match (Many P m # ps) s i =
     (let run = length (takeWhile P (drop i s))
      in first_some (map (\<lambda>k. items_match ps s (i + k)) (rev [m..<Suc run])))"
| "items_match (Word_edge # ps) s i = (if boundary s i then items_match ps s i else None)"
| "items_match (Spaces # ps) s i =
     (let j = length s - length (skip_spaces (drop i s)) in if i < j then items_match ps s j else None)"

text \<open>\<open>re.test(s)\<close> and \<open>s.replace(re, text)\<close> for a global expression: leftmost matches, left to right.
  An empty match is no match.\<close>

definition re_test :: "(string \<Rightarrow> nat \<Rightarrow> nat option) \<Rightarrow> string \<Rightarrow> bool" where
  "re_test m s \<longleftrightarrow> list_ex (\<lambda>i. case m s i of None \<Rightarrow> False | Some j \<Rightarrow> i < j) [0..<length s]"

function re_replace_from :: "(string \<Rightarrow> nat \<Rightarrow> nat option) \<Rightarrow> string \<Rightarrow> string \<Rightarrow> nat \<Rightarrow> string" where
  "re_replace_from m text s i =
     (if i \<ge> length s then []
      else case m s i of
          Some j \<Rightarrow> if i < j then text @ re_replace_from m text s j else s ! i # re_replace_from m text s (Suc i)
        | None \<Rightarrow> s ! i # re_replace_from m text s (Suc i))"
  by pat_completeness auto
termination
  by (relation "measure (\<lambda>(m, text, s, i). length s - i)") auto

declare re_replace_from.simps [simp del]

definition re_replace :: "(string \<Rightarrow> nat \<Rightarrow> nat option) \<Rightarrow> string \<Rightarrow> string \<Rightarrow> string" where
  "re_replace m text s = re_replace_from m text s 0"

definition exactly :: "string \<Rightarrow> item list" where
  "exactly t = map (\<lambda>c. One (\<lambda>x. x = c)) t"

definition one_of :: "string \<Rightarrow> item" where
  "one_of t = One (\<lambda>c. c \<in> set t)"

definition dash_word :: "char \<Rightarrow> bool" where
  "dash_word c \<longleftrightarrow> is_alnum c \<or> c = CHR ''_'' \<or> c = CHR ''-''"

end
