(* ===== verification/Sanitize.thy ===== *)
theory Sanitize
  imports Zod Regex
begin

text \<open>
  apps/pdp/src/middleware/sanitize-response.ts: what the proxy removes from an upstream body before the
  agent sees it.
\<close>

subsection \<open>The expressions of the sanitizer\<close>

definition edged :: "item list \<Rightarrow> item list" where
  "edged ps = [Word_edge] @ ps @ [Word_edge]"

definition SECRET_PATTERNS :: "(string \<times> item list) list" where
  "SECRET_PATTERNS =
     [(''github_pat'', edged (exactly ''gh'' @ [one_of ''pousr''] @ exactly ''_'' @ [Many is_alnum 36])),
      (''slack_token'', edged (exactly ''xox'' @ [one_of ''baprs''] @ exactly ''-'' @
         [Many (\<lambda>c. is_alnum c \<or> c = CHR ''-'') 10])),
      (''jwt'', edged (exactly ''ey'' @ [Many dash_word 8] @ exactly ''.ey'' @ [Many dash_word 8] @ exactly ''.'' @
         [Many dash_word 8])),
      (''aws_access_key'', edged (exactly ''A'' @ [one_of ''KS''] @ exactly ''IA'' @
         replicate 16 (One (\<lambda>c. is_digit c \<or> is_upper c)))),
      (''google_oauth_token'', edged (exactly ''ya29.'' @ [Many dash_word 20]))]"

definition sensitive_key :: "string \<Rightarrow> bool" where
  "sensitive_key key \<longleftrightarrow>
     list_ex (js_includes (toLowerCase key))
       [''token'', ''secret'', ''apikey'', ''api_key'', ''api-key'', ''password'', ''passwd'', ''authorization'', ''credential'']"

definition high_entropy :: "string \<Rightarrow> bool" where
  "high_entropy s \<longleftrightarrow> length s \<ge> 40 \<and> list_all (\<lambda>c. is_alnum c \<or> c \<in> set ''+/=_-'') s"

definition html_tag :: "string \<Rightarrow> nat \<Rightarrow> nat option" where
  "html_tag s i =
     (let r = drop i s;
          skip = (if startsWith r ''</'' then 2 else 1);
          rest = drop (Suc skip) r;
          inner = takeWhile (\<lambda>c. c \<noteq> CHR ''<'' \<and> c \<noteq> CHR ''>'') rest
      in if startsWith r ''<'' \<and> skip < length r \<and> (is_lower (r ! skip) \<or> is_upper (r ! skip)) \<and>
            utf16_length inner \<le> 500 \<and> startsWith (drop (length inner) rest) ''>''
         then Some (i + Suc skip + length inner + 1) else None)"

text \<open>U+200B..U+200F, U+202A..U+202E, U+2060..U+2064 and U+FEFF.\<close>

definition zero_width :: "string \<Rightarrow> bool" where
  "zero_width t \<longleftrightarrow>
     (case t of
        a # b # c # _ \<Rightarrow>
          (let x = of_char a :: nat; y = of_char b :: nat; z = of_char c :: nat
           in x = 0xE2 \<and> y = 0x80 \<and> (0x8B \<le> z \<and> z \<le> 0x8F \<or> 0xAA \<le> z \<and> z \<le> 0xAE) \<or>
              x = 0xE2 \<and> y = 0x81 \<and> 0xA0 \<le> z \<and> z \<le> 0xA4 \<or>
              x = 0xEF \<and> y = 0xBB \<and> z = 0xBF)
      | _ \<Rightarrow> False)"

definition zero_width_match :: "string \<Rightarrow> nat \<Rightarrow> nat option" where
  "zero_width_match s i = (if zero_width (drop i s) then Some (i + 3) else None)"

subsection \<open>sanitizeString, walk\<close>

definition replace_stage ::
  "(string \<Rightarrow> nat \<Rightarrow> nat option) \<Rightarrow> string \<Rightarrow> string \<Rightarrow> string \<times> string list \<Rightarrow> string \<times> string list" where
  "replace_stage m kind text = (\<lambda>(s, redactions).
     if re_test m s then (re_replace m text s, redactions @ [kind]) else (s, redactions))"

definition redact_secrets :: "string \<Rightarrow> string \<times> string list" where
  "redact_secrets s =
     foldl (\<lambda>acc (kind, ps). replace_stage (items_match ps) kind (''[REDACTED:'' @ kind @ '']'') acc) (s, []) SECRET_PATTERNS"

definition redact_keyed :: "string option \<Rightarrow> string \<times> string list \<Rightarrow> string \<times> string list" where
  "redact_keyed key = (\<lambda>(s, redactions).
     if str_truthy key \<and> sensitive_key (the key) \<and> high_entropy s
     then (''[REDACTED:sensitive_key]'', redactions @ [''sensitive_key'']) else (s, redactions))"

definition strip_tags :: "bool \<Rightarrow> string \<times> string list \<Rightarrow> string \<times> string list" where
  "strip_tags stripHtml acc = (if stripHtml then replace_stage html_tag ''html_tag'' [] acc else acc)"

definition sanitizeString :: "bool \<Rightarrow> string option \<Rightarrow> string \<Rightarrow> string \<times> string list" where
  "sanitizeString stripHtml key input =
     replace_stage zero_width_match ''zero_width'' [] (strip_tags stripHtml (redact_keyed key (redact_secrets input)))"

text \<open>Assigning the key \<open>__proto__\<close> sets the prototype of the copy, so that member is gone.\<close>

definition own_members :: "obj \<Rightarrow> obj" where
  "own_members ob = filter (\<lambda>(k, v). k \<noteq> ''__proto__'') ob"

function walk :: "bool \<Rightarrow> nat \<Rightarrow> string option \<Rightarrow> json \<Rightarrow> json \<times> string list" where
  "walk stripHtml depth key value =
     (if depth > 32 then (value, [])
      else case value of
          JStr s \<Rightarrow> (case sanitizeString stripHtml key s of (t, red) \<Rightarrow> (JStr t, red))
        | JArr vs \<Rightarrow>
            (let done = map (walk stripHtml (Suc depth) key) vs
             in (JArr (map fst done), concat (map snd done)))
        | JObj ob \<Rightarrow>
            (let done = map (\<lambda>(k, v). (k, walk stripHtml (Suc depth) (Some k) v)) ob
             in (JObj (own_members (map (\<lambda>(k, r). (k, fst r)) done)), concat (map (\<lambda>(k, r). snd r) done)))
        | _ \<Rightarrow> (value, []))"
  by pat_completeness auto
termination
  by (relation "measure (\<lambda>(h, depth, key, v). 33 - depth)") auto

declare walk.simps [simp del]

definition sanitizeResponseBody :: "json \<Rightarrow> string option \<Rightarrow> json \<times> string list" where
  "sanitizeResponseBody body contentType =
     walk (\<not> str_truthy contentType \<or> \<not> js_includes (the contentType) ''text/html'') 0 None body"

end
