(* ===== verification/Spans.thy ===== *)
theory Spans
  imports Control_Plane Regex
begin

text \<open>
  The execution spans the proxy reports: packages/shared-types/src/span-redact.ts and spans.ts. A span keeps
  hashes of arguments and response and a summary of allowlisted members. A lookup of a connector named like
  a member of Object.prototype finds a function there, which cannot be iterated.
\<close>

subsection \<open>span-redact.ts: summaries\<close>

definition dotted_word :: "char \<Rightarrow> bool" where
  "dotted_word c \<longleftrightarrow> is_alnum c \<or> c \<in> set ''._-''"

definition span_SECRET_PATTERNS :: "item list list" where
  "span_SECRET_PATTERNS =
     [exactly ''Bearer'' @ [Spaces, Many dotted_word 8],
      [Word_edge] @ exactly ''xox'' @ [one_of ''pbo''] @ exactly ''-'' @ [Many (\<lambda>c. is_alnum c \<or> c = CHR ''-'') 8],
      [Word_edge] @ exactly ''ghp_'' @ [Many is_alnum 16],
      [Word_edge] @ exactly ''sk_live_'' @ [Many is_alnum 16],
      [Word_edge] @ exactly ''eyJ'' @ [Many dash_word 20] @ exactly ''.'' @ [Many dash_word 10] @ exactly ''.'' @
        [Many dash_word 10]]"

definition REQUEST_ALLOWLIST :: "(string \<times> string list) list" where
  "REQUEST_ALLOWLIST =
     [(''github'', [''owner'', ''repo'', ''ref'', ''branch'', ''sha'', ''path'', ''issue_number'', ''pull_number'']),
      (''slack'', [''channel'', ''channel_id'', ''user'', ''ts'']),
      (''google'', [''fileId'', ''spreadsheetId'', ''sheetId'', ''calendarId'', ''eventId'', ''range'']),
      (''google_calendar'', [''calendarId'', ''eventId'', ''timeMin'', ''timeMax'']),
      (''google_drive'', [''fileId'', ''folderId'', ''mimeType'']),
      (''google_gmail'', [''messageId'', ''threadId'', ''labelIds'']),
      (''notion'', [''page_id'', ''database_id'', ''block_id'']),
      (''stripe'', [''customer_id'', ''subscription_id'', ''invoice_id'', ''amount'', ''currency'']),
      (''linear'', [''issueId'', ''projectId'', ''teamId'']),
      (''salesforce'', [''recordId'', ''objectType'']),
      (''jira'', [''issueKey'', ''projectKey'']),
      (''postgres'', [''statement_kind'']),
      (''discord'', [''channel_id'', ''guild_id'']),
      (''telegram'', [''chat_id'']),
      (''dropbox'', [''path'']),
      (''twilio'', [''conversation_sid'', ''message_sid''])]"

definition RESPONSE_ALLOWLIST :: "string list" where
  "RESPONSE_ALLOWLIST = [''id'', ''url'', ''count'', ''total'', ''error_code'', ''status'']"

definition prototype_members :: "string list" where
  "prototype_members =
     [''constructor'', ''toString'', ''toLocaleString'', ''valueOf'', ''hasOwnProperty'', ''isPrototypeOf'',
      ''propertyIsEnumerable'', ''__defineGetter__'', ''__defineSetter__'', ''__lookupGetter__'',
      ''__lookupSetter__'', ''__proto__'']"

definition connectorFromCommand :: "string \<Rightarrow> string option" where
  "connectorFromCommand command =
     (case filter_Boolean (split_on CHR ''/'' command) of [] \<Rightarrow> None | s # segs \<Rightarrow> Some s)"

definition ellipsis :: string where
  "ellipsis = [CHR 0xE2, CHR 0x80, CHR 0xA6]"

fun truncate_value :: "json \<Rightarrow> json" where
  "truncate_value (JStr s) = JStr (if js_prefix 256 s = s then s else js_prefix 256 s @ ellipsis)"
| "truncate_value (JArr vs) = JArr (take 16 (map truncate_value vs))"
| "truncate_value v = v"

definition looksLikeSecret :: "json \<Rightarrow> bool" where
  "looksLikeSecret v = (case v of JStr s \<Rightarrow> list_ex (\<lambda>ps. re_test (items_match ps) s) span_SECRET_PATTERNS | _ \<Rightarrow> False)"

text \<open>One secret among the allowlisted members drops the whole summary.\<close>

fun summary_from :: "obj \<Rightarrow> string list \<Rightarrow> obj option" where
  "summary_from src [] = Some []"
| "summary_from src (k # ks) =
     (let v = jget src k
      in if v = JUndef \<or> v = JNull then summary_from src ks
         else if looksLikeSecret v then None
         else map_option ((#) (k, truncate_value v)) (summary_from src ks))"

definition nonempty_summary :: "obj option \<Rightarrow> obj option" where
  "nonempty_summary s = (case s of None \<Rightarrow> None | Some ob \<Rightarrow> if ob = [] then None else Some ob)"

definition redactRequest :: "string \<Rightarrow> obj option \<Rightarrow> (exn, obj option) result" where
  "redactRequest command args =
     (case args of
        None \<Rightarrow> Inr None
      | Some a \<Rightarrow>
          (case connectorFromCommand command of
             None \<Rightarrow> Inr None
           | Some connector \<Rightarrow>
               (case map_of REQUEST_ALLOWLIST connector of
                  Some allow \<Rightarrow> Inr (nonempty_summary (summary_from a allow))
                | None \<Rightarrow> if connector \<in> set prototype_members then Inl TypeError else Inr None)))"

text \<open>An array has none of the listed members.\<close>

definition redactResponse :: "json \<Rightarrow> obj option" where
  "redactResponse body =
     (case body of JObj src \<Rightarrow> nonempty_summary (summary_from src RESPONSE_ALLOWLIST) | _ \<Rightarrow> None)"

subsection \<open>span-redact.ts: hashes and status\<close>

function span_canonicalize :: "json \<Rightarrow> string" where
  "span_canonicalize JUndef = ''null''"
| "span_canonicalize JNull = ''null''"
| "span_canonicalize (JNum n) = (if n = JNonFinite then ''Infinity'' else num_text n)"
| "span_canonicalize (JStr s) = quote s"
| "span_canonicalize (JBool b) = (if b then ''true'' else ''false'')"
| "span_canonicalize (JArr vs) = ''['' @ join '','' (map span_canonicalize vs) @ '']''"
| "span_canonicalize (JObj kvs) =
     ''{'' @ join '','' (map (\<lambda>(k, t). quote k @ '':'' @ t)
       (sort_key fst (map (\<lambda>(k, v). (k, span_canonicalize v)) kvs))) @ ''}''"
  by pat_completeness auto
termination
  by (relation "measure size") (auto dest: size_snd_member simp: size_list_estimation' less_Suc_eq_le)

definition sha256Of :: "env \<Rightarrow> json \<Rightarrow> string" where
  "sha256Of E v = sha256Hex E (span_canonicalize v)"

datatype SpanStatus = span_success | span_failure | span_timeout | span_denied

datatype tool_status = tool_allowed | tool_denied | tool_failed

definition statusFromOutcome :: "tool_status \<Rightarrow> int option \<Rightarrow> SpanStatus" where
  "statusFromOutcome tool httpStatus =
     (if tool = tool_denied then span_denied
      else if tool = tool_failed then span_failure
      else case httpStatus of Some st \<Rightarrow> if st \<ge> 400 then span_failure else span_success | None \<Rightarrow> span_success)"

subsection \<open>spans.ts\<close>

record SpanHandoff =
  sh_toAgentDid :: string
  sh_task :: string
  sh_expectedOutput :: "string option"
  sh_rationale :: "string option"

record SpanPromptInput =
  si_text :: string
  si_reasoning :: "string option"

record EmitSpanInput =
  es_receiptId :: string
  es_toolName :: string
  es_status :: SpanStatus
  es_startedAt :: int
  es_endedAt :: int
  es_latencyMs :: int
  es_httpStatus :: "int option"
  es_errorCode :: "string option"

  es_requestArgsHash :: string
  es_requestSummary :: "obj option"
  es_responseHash :: "string option"
  es_responseSummary :: "obj option"
  es_nextAgentHint :: "string option"
  es_intent :: "string option"
  es_handoff :: "SpanHandoff option"
  es_prompt :: "SpanPromptInput option"

text \<open>What a summary of a response reveals: only allowlisted members, and no text a secret pattern finds.\<close>

lemma summary_from_members:
  "summary_from src ks = Some ob \<Longrightarrow> (k, v) \<in> set ob \<Longrightarrow>
     k \<in> set ks \<and> jget src k \<noteq> JUndef \<and> v = truncate_value (jget src k) \<and> \<not> looksLikeSecret (jget src k)"
  by (induction ks arbitrary: ob) (auto simp: Let_def split: if_splits)

end
