(* ===== verification/Filesystem.thy ===== *)
theory Filesystem
  imports Packs
begin

text \<open>
  The local filesystem executor: apps/pdp/src/adapters/filesystem.ts and filesystem-dispatch.ts. A real
  path is the list of its components. A disk lists the nodes below the root, symbolic links with their
  target text; the operations of the operating system the adapter calls (realpath, open, rename, ...) are
  functions on the disk with their documented errors. An adapter operation is one step: nothing changes the
  disk between its checks and its effect.
\<close>

type_synonym rpath = "string list"

datatype node = File_node string | Dir_node | Link_node string

type_synonym disk = "(rpath \<times> node) list"

datatype errno = ENOENT | ENOTDIR | EISDIR | EEXIST | ENOTEMPTY | ELOOP | EINVAL | EBUSY

subsection \<open>The disk\<close>

definition look :: "disk \<Rightarrow> rpath \<Rightarrow> node option" where
  "look d p = (if p = [] then Some Dir_node else map_of d p)"

definition put :: "rpath \<Rightarrow> node \<Rightarrow> disk \<Rightarrow> disk" where
  "put p n d = (p, n) # filter (\<lambda>(q, m). q \<noteq> p) d"

definition remove :: "rpath \<Rightarrow> disk \<Rightarrow> disk" where
  "remove p d = filter (\<lambda>(q, m). q \<noteq> p) d"

definition below :: "rpath \<Rightarrow> rpath \<Rightarrow> bool" where
  "below prefix p \<longleftrightarrow> take (length prefix) p = prefix"

definition cut :: "rpath \<Rightarrow> disk \<Rightarrow> disk" where
  "cut p d = filter (\<lambda>(q, m). \<not> below p q) d"

definition children :: "disk \<Rightarrow> rpath \<Rightarrow> (string \<times> node) list" where
  "children d p = map (\<lambda>(q, m). (last q, m)) (filter (\<lambda>(q, m). q \<noteq> [] \<and> butlast q = p) d)"

definition name_ok :: "string \<Rightarrow> bool" where
  "name_ok c \<longleftrightarrow> c \<noteq> [] \<and> c \<noteq> ''.'' \<and> c \<noteq> ''..'' \<and> CHR ''/'' \<notin> set c"

subsection \<open>Paths\<close>

text \<open>\<open>path.resolve(text)\<close> and the text of a resolved path.\<close>

definition resolve_step :: "rpath \<Rightarrow> string \<Rightarrow> rpath" where
  "resolve_step acc c = (if c = [] \<or> c = ''.'' then acc else if c = ''..'' then butlast acc else acc @ [c])"

definition path_resolve :: "rpath \<Rightarrow> string \<Rightarrow> rpath" where
  "path_resolve cwd text = foldl resolve_step (if startsWith text ''/'' then [] else cwd) (split_on CHR ''/'' text)"

definition path_text :: "rpath \<Rightarrow> string" where
  "path_text p = (if p = [] then ''/'' else concat (map (\<lambda>c. CHR ''/'' # c) p))"

text \<open>The kernel's walk along a path. \<open>links\<close> bounds the symbolic links followed, as MAXSYMLINKS does;
  with \<open>creat\<close> the last component may be missing.\<close>

function walk_path :: "bool \<Rightarrow> nat \<Rightarrow> disk \<Rightarrow> rpath \<Rightarrow> string list \<Rightarrow> (errno, rpath) result" where
  "walk_path creat links d acc [] = Inr acc"
| "walk_path creat links d acc (c # cs) =
     (if c = [] \<or> c = ''.'' then walk_path creat links d acc cs
      else if c = ''..'' then walk_path creat links d (butlast acc) cs
      else case look d (acc @ [c]) of
          None \<Rightarrow> if creat \<and> cs = [] then Inr (acc @ [c]) else Inl ENOENT
        | Some Dir_node \<Rightarrow> walk_path creat links d (acc @ [c]) cs
        | Some (File_node b) \<Rightarrow> if cs = [] then Inr (acc @ [c]) else Inl ENOTDIR
        | Some (Link_node t) \<Rightarrow>
            if links = 0 then Inl ELOOP
            else walk_path creat (links - 1) d (if startsWith t ''/'' then [] else acc) (split_on CHR ''/'' t @ cs))"
  by pat_completeness auto
termination
  by (relation "inv_image (less_than <*lex*> less_than) (\<lambda>(creat, links, d, acc, todo). (links, length todo))") auto

definition realpath :: "disk \<Rightarrow> rpath \<Rightarrow> (errno, rpath) result" where
  "realpath d p = walk_path False 40 d [] p"

subsection \<open>System calls\<close>

definition readFile :: "disk \<Rightarrow> rpath \<Rightarrow> (errno, string) result" where
  "readFile d p =
     rbind (realpath d p) (\<lambda>q. case look d q of Some (File_node b) \<Rightarrow> Inr b | _ \<Rightarrow> Inl EISDIR)"

definition writeFile :: "disk \<Rightarrow> rpath \<Rightarrow> string \<Rightarrow> (errno, disk) result" where
  "writeFile d p content =
     rbind (walk_path True 40 d [] p) (\<lambda>q. if look d q = Some Dir_node then Inl EISDIR else Inr (put q (File_node content) d))"

definition create_new :: "disk \<Rightarrow> rpath \<Rightarrow> string \<Rightarrow> (errno, disk) result" where
  "create_new d p content =
     (if look d p \<noteq> None then Inl EEXIST
      else if look d (butlast p) \<noteq> Some Dir_node then Inl ENOTDIR else Inr (put p (File_node content) d))"

definition unlink :: "disk \<Rightarrow> rpath \<Rightarrow> (errno, disk) result" where
  "unlink d p =
     (case look d p of None \<Rightarrow> Inl ENOENT | Some Dir_node \<Rightarrow> Inl EISDIR | Some n \<Rightarrow> Inr (remove p d))"

definition moved :: "rpath \<Rightarrow> rpath \<Rightarrow> disk \<Rightarrow> disk" where
  "moved src dst d =
     map (\<lambda>(q, m). (if below src q then dst @ drop (length src) q else q, m)) (filter (\<lambda>(q, m). \<not> below dst q \<or> below src q) d)"

definition rename :: "disk \<Rightarrow> rpath \<Rightarrow> rpath \<Rightarrow> (errno, disk) result" where
  "rename d src dst =
     (case look d src of
        None \<Rightarrow> Inl ENOENT
      | Some n \<Rightarrow>
          if src = dst then Inr d
          else if src = [] \<or> dst = [] then Inl EBUSY
          else if n = Dir_node \<and> below src dst then Inl EINVAL
          else (case look d dst of
              None \<Rightarrow> if look d (butlast dst) \<noteq> Some Dir_node then Inl ENOTDIR else Inr (moved src dst d)
            | Some Dir_node \<Rightarrow> if n \<noteq> Dir_node then Inl EISDIR else if children d dst \<noteq> [] then Inl ENOTEMPTY
                               else Inr (moved src dst d)
            | Some m \<Rightarrow> if n = Dir_node then Inl ENOTDIR else Inr (moved src dst d)))"

definition copyFile :: "disk \<Rightarrow> rpath \<Rightarrow> rpath \<Rightarrow> (errno, disk) result" where
  "copyFile d src dst = rbind (readFile d src) (\<lambda>b. writeFile d dst b)"

definition mkdir_p :: "disk \<Rightarrow> rpath \<Rightarrow> (errno, disk) result" where
  "mkdir_p d p =
     (case look d p of
        None \<Rightarrow> if look d (butlast p) \<noteq> Some Dir_node then Inl ENOTDIR else Inr (put p Dir_node d)
      | Some Dir_node \<Rightarrow> Inr d
      | Some (File_node b) \<Rightarrow> Inl EEXIST
      | Some (Link_node t) \<Rightarrow>
          (case realpath d p of Inl e \<Rightarrow> Inl e | Inr q \<Rightarrow> if look d q = Some Dir_node then Inr d else Inl EEXIST))"

definition rmdir :: "disk \<Rightarrow> rpath \<Rightarrow> (errno, disk) result" where
  "rmdir d p =
     (case look d p of
        None \<Rightarrow> Inl ENOENT
      | Some Dir_node \<Rightarrow> if p = [] then Inl EBUSY else if children d p \<noteq> [] then Inl ENOTEMPTY else Inr (remove p d)
      | Some n \<Rightarrow> Inl ENOTDIR)"

definition rm_recursive :: "disk \<Rightarrow> rpath \<Rightarrow> (errno, disk) result" where
  "rm_recursive d p = (if look d p = None then Inl ENOENT else if p = [] then Inl EBUSY else Inr (cut p d))"

subsection \<open>Resolution against the constraint\<close>

record node_env =
  nv_hostname :: string
  nv_cwd :: rpath
  nv_bufferFrom :: "string \<Rightarrow> string \<Rightarrow> string option"
  nv_bufferTo :: "string \<Rightarrow> string \<Rightarrow> string option"

datatype fs_failure = Refused string | Threw errno

definition lift_errno :: "(errno, 'a) result \<Rightarrow> (fs_failure, 'a) result" where
  "lift_errno r = (case r of Inl e \<Rightarrow> Inl (Threw e) | Inr a \<Rightarrow> Inr a)"

definition host_refused :: "obj \<Rightarrow> string \<Rightarrow> bool" where
  "host_refused c host \<longleftrightarrow> truthy (jget c ''host'') \<and> (host = [] \<or> jget c ''host'' \<noteq> JStr host)"

definition prefix_of :: "node_env \<Rightarrow> obj \<Rightarrow> rpath" where
  "prefix_of N c = path_resolve (nv_cwd N) (case jget c ''path_prefix'' of JStr s \<Rightarrow> s | _ \<Rightarrow> [])"

text \<open>The comparison is on texts: the prefix itself, or a text that starts with it and a separator.\<close>

definition within_text :: "string \<Rightarrow> string \<Rightarrow> bool" where
  "within_text realPrefix p \<longleftrightarrow>
     p = realPrefix \<or> startsWith p (if endsWith realPrefix ''/'' then realPrefix else realPrefix @ ''/'')"

definition resolveAgainstConstraint :: "node_env \<Rightarrow> disk \<Rightarrow> obj \<Rightarrow> string \<Rightarrow> (fs_failure, rpath) result" where
  "resolveAgainstConstraint N d c requested =
     (if host_refused c (nv_hostname N) then Inl (Refused ''host_mismatch'')
      else case realpath d (prefix_of N c) of
          Inl e \<Rightarrow> Inl (Refused ''path_outside_constraint'')
        | Inr realPrefix \<Rightarrow>
            (case realpath d (path_resolve (nv_cwd N) requested) of
               Inl e \<Rightarrow> Inl (Refused ''path_not_found'')
             | Inr realRequested \<Rightarrow>
                 if within_text (path_text realPrefix) (path_text realRequested) then Inr realRequested
                 else Inl (Refused ''symlink_escape'')))"

definition resolveNewPath :: "node_env \<Rightarrow> disk \<Rightarrow> obj \<Rightarrow> string \<Rightarrow> (fs_failure, rpath) result" where
  "resolveNewPath N d c requested =
     (if host_refused c (nv_hostname N) then Inl (Refused ''host_mismatch'')
      else let abs = path_resolve (nv_cwd N) requested
           in case realpath d (prefix_of N c) of
                Inl e \<Rightarrow> Inl (Refused ''path_outside_constraint'')
              | Inr realPrefix \<Rightarrow>
                  (case realpath d (butlast abs) of
                     Inl e \<Rightarrow> Inl (Refused ''path_not_found'')
                   | Inr realParent \<Rightarrow>
                       if within_text (path_text realPrefix) (path_text realParent)
                       then Inr (realParent @ (if abs = [] then [] else [last abs]))
                       else Inl (Refused ''path_outside_constraint'')))"

subsection \<open>The adapter operations\<close>

type_synonym 'a fs_step = "(fs_failure, 'a \<times> disk) result"

definition changing :: "(errno, disk) result \<Rightarrow> unit fs_step" where
  "changing r = rbind (lift_errno r) (\<lambda>d'. Inr ((), d'))"

definition readFileWithConstraint :: "node_env \<Rightarrow> disk \<Rightarrow> obj \<Rightarrow> string \<Rightarrow> (string \<times> rpath) fs_step" where
  "readFileWithConstraint N d c p =
     rbind (resolveAgainstConstraint N d c p) (\<lambda>q. rbind (lift_errno (readFile d q)) (\<lambda>b. Inr ((b, q), d)))"

definition writeFileWithConstraint :: "node_env \<Rightarrow> disk \<Rightarrow> obj \<Rightarrow> string \<Rightarrow> string \<Rightarrow> rpath fs_step" where
  "writeFileWithConstraint N d c p content =
     rbind (resolveNewPath N d c p) (\<lambda>q. rbind (lift_errno (writeFile d q content)) (\<lambda>d'. Inr (q, d')))"

definition createFileWithConstraint :: "node_env \<Rightarrow> disk \<Rightarrow> obj \<Rightarrow> string \<Rightarrow> string \<Rightarrow> rpath fs_step" where
  "createFileWithConstraint N d c p content =
     rbind (resolveNewPath N d c p) (\<lambda>q.
       case create_new d q content of
         Inl EEXIST \<Rightarrow> Inl (Refused ''file_already_exists'')
       | Inl e \<Rightarrow> Inl (Threw e)
       | Inr d' \<Rightarrow> Inr (q, d'))"

definition deleteFileWithConstraint :: "node_env \<Rightarrow> disk \<Rightarrow> obj \<Rightarrow> string \<Rightarrow> unit fs_step" where
  "deleteFileWithConstraint N d c p = rbind (resolveAgainstConstraint N d c p) (\<lambda>q. changing (unlink d q))"

definition resolve_target :: "node_env \<Rightarrow> disk \<Rightarrow> obj \<Rightarrow> string \<Rightarrow> (fs_failure, rpath) result" where
  "resolve_target N d c p =
     (case resolveNewPath N d c p of Inl e \<Rightarrow> Inl (Refused ''target_outside_constraint'') | Inr q \<Rightarrow> Inr q)"

definition moveWithConstraint :: "node_env \<Rightarrow> disk \<Rightarrow> obj \<Rightarrow> string \<Rightarrow> string \<Rightarrow> unit fs_step" where
  "moveWithConstraint N d c source destination =
     rbind (resolveAgainstConstraint N d c source) (\<lambda>src.
       rbind (resolve_target N d c destination) (\<lambda>dst. changing (rename d src dst)))"

definition copyWithConstraint :: "node_env \<Rightarrow> disk \<Rightarrow> obj \<Rightarrow> string \<Rightarrow> string \<Rightarrow> unit fs_step" where
  "copyWithConstraint N d c source destination =
     rbind (resolveAgainstConstraint N d c source) (\<lambda>src.
       rbind (resolve_target N d c destination) (\<lambda>dst. changing (copyFile d src dst)))"

definition node_type :: "node \<Rightarrow> string" where
  "node_type n = (case n of Dir_node \<Rightarrow> ''directory'' | Link_node t \<Rightarrow> ''symlink'' | File_node b \<Rightarrow> ''file'')"

definition readdir :: "disk \<Rightarrow> rpath \<Rightarrow> (errno, (string \<times> node) list) result" where
  "readdir d p =
     (case look d p of None \<Rightarrow> Inl ENOENT | Some Dir_node \<Rightarrow> Inr (children d p) | Some n \<Rightarrow> Inl ENOTDIR)"

definition dir_entry :: "string \<times> node \<Rightarrow> obj" where
  "dir_entry = (\<lambda>(name, n). [(''name'', JStr name), (''type'', JStr (node_type n))])"

definition listDirWithConstraint :: "node_env \<Rightarrow> disk \<Rightarrow> obj \<Rightarrow> string \<Rightarrow> (obj list) fs_step" where
  "listDirWithConstraint N d c p =
     rbind (resolveAgainstConstraint N d c p) (\<lambda>q.
       rbind (lift_errno (readdir d q)) (\<lambda>es. Inr (map dir_entry es, d)))"

text \<open>\<open>levels\<close> is how many more levels may be listed below this one. The descent only enters nodes that
  are directories themselves, so reading them cannot fail.\<close>

fun buildTree :: "nat \<Rightarrow> disk \<Rightarrow> rpath \<Rightarrow> obj list" where
  "buildTree 0 d p = map dir_entry (children d p)"
| "buildTree (Suc levels) d p =
     map (\<lambda>(name, n). dir_entry (name, n) @
            (if n = Dir_node then [(''children'', JArr (map JObj (buildTree levels d (p @ [name]))))] else []))
       (children d p)"

text \<open>\<open>Math.min(depth ?? 5, 10)\<close>; a depth that is no number lists one level.\<close>

definition treeDirWithConstraint :: "node_env \<Rightarrow> disk \<Rightarrow> obj \<Rightarrow> string \<Rightarrow> int option \<Rightarrow> (obj list) fs_step" where
  "treeDirWithConstraint N d c p depth =
     rbind (resolveAgainstConstraint N d c p) (\<lambda>q.
       rbind (lift_errno (readdir d q)) (\<lambda>es.
         Inr (buildTree (case depth of None \<Rightarrow> 0 | Some n \<Rightarrow> nat (min n 10 - 1)) d q, d)))"

definition createDirWithConstraint :: "node_env \<Rightarrow> disk \<Rightarrow> obj \<Rightarrow> string \<Rightarrow> unit fs_step" where
  "createDirWithConstraint N d c p = rbind (resolveNewPath N d c p) (\<lambda>q. changing (mkdir_p d q))"

definition deleteDirWithConstraint :: "node_env \<Rightarrow> disk \<Rightarrow> obj \<Rightarrow> string \<Rightarrow> unit fs_step" where
  "deleteDirWithConstraint N d c p =
     rbind (resolveAgainstConstraint N d c p) (\<lambda>q.
       case rmdir d q of
         Inl ENOTEMPTY \<Rightarrow> Inl (Refused ''dir_not_empty'')
       | Inl e \<Rightarrow> Inl (Threw e)
       | Inr d' \<Rightarrow> Inr ((), d'))"

definition deleteDirRecursiveWithConstraint :: "node_env \<Rightarrow> disk \<Rightarrow> obj \<Rightarrow> string \<Rightarrow> unit fs_step" where
  "deleteDirRecursiveWithConstraint N d c p =
     rbind (resolveAgainstConstraint N d c p) (\<lambda>q.
       if realpath d (prefix_of N c) = Inr q then Inl (Refused ''path_outside_constraint'')
       else changing (rm_recursive d q))"

subsection \<open>filesystem-dispatch.ts\<close>

definition parseConstraint :: "json \<Rightarrow> obj option" where
  "parseConstraint raw =
     (case as_obj raw of
        None \<Rightarrow> None
      | Some c \<Rightarrow> if jget c ''provider'' = JStr ''filesystem'' \<and> as_string (jget c ''path_prefix'') \<noteq> None then Some c else None)"

datatype fs_error = Bad_call string | Failed string fs_failure | Unknown_encoding

definition bodyStr :: "ApiCall \<Rightarrow> string \<Rightarrow> string option" where
  "bodyStr call k = text_of (object_or_empty (ac_body call)) k"

definition queryStr :: "ApiCall \<Rightarrow> string \<Rightarrow> string option" where
  "queryStr call k = query_text (ac_query call) k"

definition needed :: "string \<Rightarrow> string option \<Rightarrow> (fs_error, string) result" where
  "needed why v = (if str_truthy v then Inr (the v) else Inl (Bad_call why))"

definition failing :: "string \<Rightarrow> (fs_failure, 'a) result \<Rightarrow> (fs_error, 'a) result" where
  "failing what r = (case r of Inl e \<Rightarrow> Inl (Failed what e) | Inr a \<Rightarrow> Inr a)"

definition encoding_of :: "string option \<Rightarrow> string" where
  "encoding_of e = (case e of None \<Rightarrow> ''utf-8'' | Some t \<Rightarrow> t)"

definition buffer_from :: "node_env \<Rightarrow> string \<Rightarrow> string option \<Rightarrow> (fs_error, string) result" where
  "buffer_from N content enc =
     (case nv_bufferFrom N content (encoding_of enc) of None \<Rightarrow> Inl Unknown_encoding | Some b \<Rightarrow> Inr b)"

definition text_obj :: "(string \<times> string) list \<Rightarrow> json" where
  "text_obj ms = JObj (map (\<lambda>(k, v). (k, JStr v)) ms)"

definition read_op :: "node_env \<Rightarrow> disk \<Rightarrow> obj \<Rightarrow> ApiCall \<Rightarrow> (fs_error, json \<times> disk) result" where
  "read_op N d c call =
     rbind (needed ''query.path'' (queryStr call ''path'')) (\<lambda>p.
       rbind (failing ''read'' (readFileWithConstraint N d c p)) (\<lambda>((b, q), d').
         case nv_bufferTo N b (encoding_of (queryStr call ''encoding'')) of
           None \<Rightarrow> Inl Unknown_encoding
         | Some text \<Rightarrow> Inr (text_obj [(''content'', text), (''realPath'', path_text q)], d')))"

definition write_op :: "node_env \<Rightarrow> disk \<Rightarrow> obj \<Rightarrow> ApiCall \<Rightarrow> (fs_error, json \<times> disk) result" where
  "write_op N d c call =
     rbind (needed ''body.path'' (bodyStr call ''path'')) (\<lambda>p.
       case bodyStr call ''content'' of
         None \<Rightarrow> Inl (Bad_call ''body.content'')
       | Some content \<Rightarrow>
           rbind (buffer_from N content (bodyStr call ''encoding'')) (\<lambda>buf.
             rbind (failing ''write'' (writeFileWithConstraint N d c p buf)) (\<lambda>(q, d').
               Inr (text_obj [(''realPath'', path_text q)], d'))))"

definition create_op :: "node_env \<Rightarrow> disk \<Rightarrow> obj \<Rightarrow> ApiCall \<Rightarrow> (fs_error, json \<times> disk) result" where
  "create_op N d c call =
     rbind (needed ''body.path'' (bodyStr call ''path'')) (\<lambda>p.
       rbind (buffer_from N (case bodyStr call ''content'' of None \<Rightarrow> [] | Some t \<Rightarrow> t) (bodyStr call ''encoding'')) (\<lambda>buf.
         rbind (failing ''create'' (createFileWithConstraint N d c p buf)) (\<lambda>(q, d').
           Inr (text_obj [(''realPath'', path_text q)], d'))))"

definition one_path_op ::
  "string \<Rightarrow> string \<Rightarrow> (string \<Rightarrow> unit fs_step) \<Rightarrow> ApiCall \<Rightarrow> (fs_error, json \<times> disk) result" where
  "one_path_op what answer f call =
     rbind (needed ''body.path'' (bodyStr call ''path'')) (\<lambda>p.
       rbind (failing what (f p)) (\<lambda>(u, d'). Inr (text_obj [(answer, p)], d')))"

definition two_path_op ::
  "string \<Rightarrow> (string \<Rightarrow> string \<Rightarrow> unit fs_step) \<Rightarrow> ApiCall \<Rightarrow> (fs_error, json \<times> disk) result" where
  "two_path_op what f call =
     rbind (needed ''body.path'' (bodyStr call ''path'')) (\<lambda>src.
       rbind (needed ''body.destination'' (bodyStr call ''destination'')) (\<lambda>dst.
         rbind (failing what (f src dst)) (\<lambda>(u, d'). Inr (text_obj [(''from'', src), (''to'', dst)], d'))))"

definition listing :: "string \<Rightarrow> string \<Rightarrow> string \<Rightarrow> (obj list) fs_step \<Rightarrow> (fs_error, json \<times> disk) result" where
  "listing what field p r =
     rbind (failing what r) (\<lambda>(es, d'). Inr (JObj [(''path'', JStr p), (field, JArr (map JObj es))], d'))"

text \<open>\<open>parseInt(depth, 10)\<close>: None is NaN. An absent or empty depth is 5.\<close>

definition depth_of :: "(string \<Rightarrow> jsnum) \<Rightarrow> ApiCall \<Rightarrow> int option" where
  "depth_of nd call =
     (let t = queryStr call ''depth''
      in if str_truthy t then (case parse_int nd (the t) of Some (JInt i) \<Rightarrow> Some i | Some (JDec u) \<Rightarrow> Some (if startsWith u ''-'' then 0 else 10)
           | _ \<Rightarrow> None)
         else Some 5)"

definition executeFilesystemCommand ::
  "(string \<Rightarrow> jsnum) \<Rightarrow> node_env \<Rightarrow> disk \<Rightarrow> ApiCall \<Rightarrow> json \<Rightarrow> (fs_error, json \<times> disk) result" where
  "executeFilesystemCommand nd N d call rawConstraint =
     (case parseConstraint rawConstraint of
        None \<Rightarrow> Inl (Bad_call ''resource_constraint'')
      | Some c \<Rightarrow>
          (let op = ac_path call
           in if op = ''/file/read'' then read_op N d c call
              else if op = ''/file/write'' then write_op N d c call
              else if op = ''/file/create'' then create_op N d c call
              else if op = ''/file/delete'' then one_path_op ''delete'' ''deleted'' (deleteFileWithConstraint N d c) call
              else if op = ''/file/move'' then two_path_op ''move'' (moveWithConstraint N d c) call
              else if op = ''/file/copy'' then two_path_op ''copy'' (copyWithConstraint N d c) call
              else if op = ''/dir/list'' then
                rbind (needed ''query.path'' (queryStr call ''path'')) (\<lambda>p.
                  listing ''list'' ''entries'' p (listDirWithConstraint N d c p))
              else if op = ''/dir/tree'' then
                rbind (needed ''query.path'' (queryStr call ''path'')) (\<lambda>p.
                  listing ''tree'' ''tree'' p (treeDirWithConstraint N d c p (depth_of nd call)))
              else if op = ''/dir/create'' then one_path_op ''mkdir'' ''created'' (createDirWithConstraint N d c) call
              else if op = ''/dir/delete'' then one_path_op ''rmdir'' ''deleted'' (deleteDirWithConstraint N d c) call
              else if op = ''/dir/delete_recursive''
              then one_path_op ''rm -rf'' ''deleted'' (deleteDirRecursiveWithConstraint N d c) call
              else Inl (Bad_call op)))"

end
