(* ===== verification/Ssh.thy ===== *)
theory Ssh
  imports Filesystem Proxy_Gates
begin

text \<open>
  The ssh executor: apps/pdp/src/adapters/ssh.ts and ssh-dispatch.ts. The ssh library and the machine at the
  other end are the parameter \<open>remote\<close>: what it answers may depend on everything asked of it so far, so every
  question is kept in a history, with the connection it was asked on. A failed connection and a timeout are
  errors the remote answers with; the limits themselves and dispose are left out.
\<close>

record ssh_conn =
  sc_host :: string
  sc_port :: json
  sc_username :: json
  sc_privateKey :: string
  sc_passphrase :: "string option"

datatype ssh_op =
    Connect | Read_file string | Write_file string string | Create_file string string | Unlink string
  | Rename string string | Read_dir string | Remove_dir string | Exec string

type_synonym history = "(ssh_conn \<times> ssh_op) list"

text \<open>An error has a code, perhaps, and a message.\<close>

type_synonym ssh_error = "string option \<times> string"

datatype sftp_kind = Is_directory | Is_symlink | Is_file | Is_other

record sftp_entry =
  se_filename :: string
  se_kind :: sftp_kind
  se_size :: json

record remote =
  rm_done :: "history \<Rightarrow> (ssh_error, unit) result"
  rm_read :: "history \<Rightarrow> (ssh_error, string) result"
  rm_list :: "history \<Rightarrow> (ssh_error, sftp_entry list) result"
  rm_exec :: "history \<Rightarrow> (ssh_error, string \<times> string \<times> int option) result"

text \<open>A failure an operation returns, and an exception: no library, or a prefix that is no text.\<close>

datatype ssh_failure = Ssh_failure string "string option" | Ssh_threw

type_synonym 'a ssh_run = "history \<Rightarrow> (ssh_error, 'a) result \<times> history"
type_synonym 'a ssh_step = "history \<Rightarrow> (ssh_failure, 'a) result \<times> history"

definition run_bind :: "'a ssh_run \<Rightarrow> ('a \<Rightarrow> 'b ssh_run) \<Rightarrow> 'b ssh_run" where
  "run_bind m f h = (case m h of (Inl e, h') \<Rightarrow> (Inl e, h') | (Inr a, h') \<Rightarrow> f a h')"

definition step_bind :: "'a ssh_step \<Rightarrow> ('a \<Rightarrow> 'b ssh_step) \<Rightarrow> 'b ssh_step" where
  "step_bind m f h = (case m h of (Inl e, h') \<Rightarrow> (Inl e, h') | (Inr a, h') \<Rightarrow> f a h')"

definition ask :: "(history \<Rightarrow> (ssh_error, 'a) result) \<Rightarrow> ssh_conn \<Rightarrow> ssh_op \<Rightarrow> 'a ssh_run" where
  "ask answer conn op h = (answer (h @ [(conn, op)]), h @ [(conn, op)])"

subsection \<open>ssh.ts: checks\<close>

record SshOpInput =
  so_constraint :: obj
  so_conn :: ssh_conn

definition validateHost :: "SshOpInput \<Rightarrow> string option" where
  "validateHost inp =
     (let c = so_constraint inp
      in if JStr (sc_host (so_conn inp)) \<noteq> jget c ''host'' then Some ''host_mismatch''
         else if truthy (jget c ''username'') \<and> sc_username (so_conn inp) \<noteq> jget c ''username''
         then Some ''username_mismatch'' else None)"

definition shell_hazard :: "string \<Rightarrow> bool" where
  "shell_hazard p \<longleftrightarrow> list_ex (\<lambda>c. c \<in> set [CHR 0x60, CHR ''$'', CHR 0x5C, CHR 0x0A, CHR 0x0D, CHR 0x00]) p"

definition strictly_within :: "string \<Rightarrow> string \<Rightarrow> bool" where
  "strictly_within normPrefix normPath \<longleftrightarrow> normPath = normPrefix \<or> startsWith normPath (normPrefix @ ''/'')"

definition validatePathPrefix :: "node_env \<Rightarrow> string \<Rightarrow> obj \<Rightarrow> (ssh_failure, unit) result" where
  "validatePathPrefix N remotePath c =
     (case jget c ''path_prefix'' of
        JStr prefix \<Rightarrow>
          if prefix = [] then Inr ()
          else if shell_hazard remotePath then Inl (Ssh_failure ''path_outside_constraint'' None)
          else if strictly_within (path_text (path_resolve (nv_cwd N) prefix)) (path_text (path_resolve (nv_cwd N) remotePath))
          then Inr () else Inl (Ssh_failure ''path_outside_constraint'' None)
      | v \<Rightarrow> if \<not> truthy v then Inr ()
             else if shell_hazard remotePath then Inl (Ssh_failure ''path_outside_constraint'' None) else Inl Ssh_threw)"

definition shQuote :: "string \<Rightarrow> string" where
  "shQuote s = [CHR 0x27] @ concat (map (\<lambda>c. if c = CHR 0x27 then [CHR 0x27, CHR 0x5C, CHR 0x27, CHR 0x27] else [c]) s) @ [CHR 0x27]"

subsection \<open>ssh.ts: operations\<close>

definition withSsh :: "remote option \<Rightarrow> SshOpInput \<Rightarrow> (remote \<Rightarrow> 'a ssh_run) \<Rightarrow> 'a ssh_step" where
  "withSsh lib inp f h =
     (case lib of
        None \<Rightarrow> (Inl Ssh_threw, h)
      | Some rm \<Rightarrow>
          (case run_bind (ask (rm_done rm) (so_conn inp) Connect) (\<lambda>_. f rm) h of
             (Inl (code, message), h') \<Rightarrow> (Inl (Ssh_failure ''connect_failed'' (Some message)), h')
           | (Inr a, h') \<Rightarrow> (Inr a, h')))"

definition checked :: "node_env \<Rightarrow> SshOpInput \<Rightarrow> string \<Rightarrow> 'a ssh_step \<Rightarrow> 'a ssh_step" where
  "checked N inp p k h =
     (case validateHost inp of
        Some why \<Rightarrow> (Inl (Ssh_failure why None), h)
      | None \<Rightarrow> (case validatePathPrefix N p (so_constraint inp) of Inl e \<Rightarrow> (Inl e, h) | Inr u \<Rightarrow> k h))"

definition sshReadFile :: "node_env \<Rightarrow> remote option \<Rightarrow> SshOpInput \<Rightarrow> string \<Rightarrow> string ssh_step" where
  "sshReadFile N lib inp p =
     checked N inp p (withSsh lib inp (\<lambda>rm. ask (rm_read rm) (so_conn inp) (Read_file p)))"

definition sshWriteFile :: "node_env \<Rightarrow> remote option \<Rightarrow> SshOpInput \<Rightarrow> string \<Rightarrow> string \<Rightarrow> unit ssh_step" where
  "sshWriteFile N lib inp p content =
     checked N inp p (withSsh lib inp (\<lambda>rm. ask (rm_done rm) (so_conn inp) (Write_file p content)))"

text \<open>An error whose code is the one looked for is raised anew with the code as message.\<close>

definition recoded :: "string \<Rightarrow> 'a ssh_run \<Rightarrow> 'a ssh_run" where
  "recoded code m h =
     (case m h of (Inl (c, message), h') \<Rightarrow> (Inl (c, if c = Some code then code else message), h') | r \<Rightarrow> r)"

definition renamed :: "string \<Rightarrow> string \<Rightarrow> 'a ssh_step \<Rightarrow> 'a ssh_step" where
  "renamed code why m h =
     (case m h of
        (Inl (Ssh_failure r (Some detail)), h') \<Rightarrow>
          (Inl (if js_includes detail code then Ssh_failure why None else Ssh_failure r (Some detail)), h')
      | r \<Rightarrow> r)"

definition sshCreateFile :: "node_env \<Rightarrow> remote option \<Rightarrow> SshOpInput \<Rightarrow> string \<Rightarrow> string \<Rightarrow> unit ssh_step" where
  "sshCreateFile N lib inp p content =
     checked N inp p (renamed ''EEXIST'' ''file_already_exists''
       (withSsh lib inp (\<lambda>rm. recoded ''EEXIST'' (ask (rm_done rm) (so_conn inp) (Create_file p content)))))"

definition sshDeleteFile :: "node_env \<Rightarrow> remote option \<Rightarrow> SshOpInput \<Rightarrow> string \<Rightarrow> unit ssh_step" where
  "sshDeleteFile N lib inp p =
     checked N inp p (withSsh lib inp (\<lambda>rm. ask (rm_done rm) (so_conn inp) (Unlink p)))"

text \<open>The destination is checked after the source, and only against the prefix.\<close>

definition destination_checked :: "node_env \<Rightarrow> SshOpInput \<Rightarrow> string \<Rightarrow> 'a ssh_step \<Rightarrow> 'a ssh_step" where
  "destination_checked N inp dst k h =
     (case validatePathPrefix N dst (so_constraint inp) of Inl e \<Rightarrow> (Inl e, h) | Inr u \<Rightarrow> k h)"

definition sshMoveFile :: "node_env \<Rightarrow> remote option \<Rightarrow> SshOpInput \<Rightarrow> string \<Rightarrow> string \<Rightarrow> unit ssh_step" where
  "sshMoveFile N lib inp src dst =
     checked N inp src (destination_checked N inp dst
       (withSsh lib inp (\<lambda>rm. ask (rm_done rm) (so_conn inp) (Rename src dst))))"

definition sshCopyFile :: "node_env \<Rightarrow> remote option \<Rightarrow> SshOpInput \<Rightarrow> string \<Rightarrow> string \<Rightarrow> unit ssh_step" where
  "sshCopyFile N lib inp src dst =
     checked N inp src (destination_checked N inp dst
       (step_bind (withSsh lib inp (\<lambda>rm. ask (rm_read rm) (so_conn inp) (Read_file src))) (\<lambda>content.
          withSsh lib inp (\<lambda>rm. ask (rm_done rm) (so_conn inp) (Write_file dst content)))))"

definition kind_text :: "sftp_kind \<Rightarrow> string" where
  "kind_text k =
     (case k of Is_directory \<Rightarrow> ''directory'' | Is_symlink \<Rightarrow> ''symlink'' | Is_file \<Rightarrow> ''file'' | Is_other \<Rightarrow> ''other'')"

definition entry_obj :: "sftp_entry \<Rightarrow> obj" where
  "entry_obj e = [(''name'', JStr (se_filename e)), (''type'', JStr (kind_text (se_kind e))), (''size'', se_size e)]"

definition sshListDir :: "node_env \<Rightarrow> remote option \<Rightarrow> SshOpInput \<Rightarrow> string \<Rightarrow> json ssh_step" where
  "sshListDir N lib inp p =
     checked N inp p (withSsh lib inp (\<lambda>rm.
       run_bind (ask (rm_list rm) (so_conn inp) (Read_dir p)) (\<lambda>es h. (Inr (JArr (map (\<lambda>e. JObj (entry_obj e)) es)), h))))"

text \<open>\<open>path.posix.join\<close> of two texts.\<close>

definition normal_step :: "bool \<Rightarrow> string list \<Rightarrow> string \<Rightarrow> string list" where
  "normal_step absolute acc c =
     (if c = [] \<or> c = ''.'' then acc
      else if c = ''..'' then (if acc = [] \<or> last acc = ''..'' then (if absolute then acc else acc @ [c]) else butlast acc)
      else acc @ [c])"

definition posix_normalize :: "string \<Rightarrow> string" where
  "posix_normalize p =
     (let absolute = startsWith p ''/'';
          body = join ''/'' (foldl (normal_step absolute) [] (split_on CHR ''/'' p));
          shown = (if body = [] \<and> \<not> absolute then ''.'' else body);
          slashed = (if shown \<noteq> [] \<and> endsWith p ''/'' then shown @ ''/'' else shown)
      in if absolute then CHR ''/'' # slashed else slashed)"

definition posix_join :: "string \<Rightarrow> string \<Rightarrow> string" where
  "posix_join p q =
     (let parts = filter (\<lambda>t. t \<noteq> []) [p, q] in if parts = [] then ''.'' else posix_normalize (join ''/'' parts))"

text \<open>A listing one level down, where there is one.\<close>

fun tree_entries :: "(string \<Rightarrow> json ssh_run) option \<Rightarrow> string \<Rightarrow> sftp_entry list \<Rightarrow> json list ssh_run" where
  "tree_entries deeper p [] = (\<lambda>h. (Inr [], h))"
| "tree_entries deeper p (e # es) =
     run_bind
       (case deeper of
          Some f \<Rightarrow> if se_kind e = Is_directory
                    then run_bind (f (posix_join p (se_filename e))) (\<lambda>t h. (Inr (JObj (entry_obj e @ [(''children'', t)])), h))
                    else (\<lambda>h. (Inr (JObj (entry_obj e)), h))
        | None \<Rightarrow> (\<lambda>h. (Inr (JObj (entry_obj e)), h)))
       (\<lambda>v. run_bind (tree_entries deeper p es) (\<lambda>vs h. (Inr (v # vs), h)))"

primrec buildTree :: "nat \<Rightarrow> remote \<Rightarrow> ssh_conn \<Rightarrow> string \<Rightarrow> json ssh_run" where
  "buildTree 0 rm conn p =
     run_bind (ask (rm_list rm) conn (Read_dir p)) (\<lambda>es.
       run_bind (tree_entries None p es) (\<lambda>vs h. (Inr (JArr vs), h)))"
| "buildTree (Suc n) rm conn p =
     run_bind (ask (rm_list rm) conn (Read_dir p)) (\<lambda>es.
       run_bind (tree_entries (Some (buildTree n rm conn)) p es) (\<lambda>vs h. (Inr (JArr vs), h)))"

text \<open>Depth counts from 1, to at most 10; below NaN no depth lies.\<close>

definition deeper_levels :: "int option \<Rightarrow> nat" where
  "deeper_levels depth = (case depth of None \<Rightarrow> 0 | Some k \<Rightarrow> nat (min k 10 - 1))"

definition sshTreeDir :: "node_env \<Rightarrow> remote option \<Rightarrow> SshOpInput \<Rightarrow> string \<Rightarrow> int option \<Rightarrow> json ssh_step" where
  "sshTreeDir N lib inp p depth =
     checked N inp p (withSsh lib inp (\<lambda>rm. buildTree (deeper_levels depth) rm (so_conn inp) p))"

definition exec_ok :: "remote \<Rightarrow> ssh_conn \<Rightarrow> string \<Rightarrow> unit ssh_run" where
  "exec_ok rm conn cmd =
     run_bind (ask (rm_exec rm) conn (Exec cmd)) (\<lambda>(out, err, code) h.
       (if code = Some 0 then Inr () else Inl (None, err), h))"

definition sshCreateDir :: "node_env \<Rightarrow> remote option \<Rightarrow> SshOpInput \<Rightarrow> string \<Rightarrow> unit ssh_step" where
  "sshCreateDir N lib inp p =
     checked N inp p (withSsh lib inp (\<lambda>rm. exec_ok rm (so_conn inp) (''mkdir -p '' @ shQuote p)))"

definition sshDeleteDir :: "node_env \<Rightarrow> remote option \<Rightarrow> SshOpInput \<Rightarrow> string \<Rightarrow> unit ssh_step" where
  "sshDeleteDir N lib inp p =
     checked N inp p (renamed ''ENOTEMPTY'' ''dir_not_empty''
       (withSsh lib inp (\<lambda>rm. recoded ''ENOTEMPTY'' (ask (rm_done rm) (so_conn inp) (Remove_dir p)))))"

definition prefix_root :: "node_env \<Rightarrow> obj \<Rightarrow> string \<Rightarrow> bool" where
  "prefix_root N c p \<longleftrightarrow>
     (case jget c ''path_prefix'' of
        JStr prefix \<Rightarrow> prefix \<noteq> [] \<and> path_text (path_resolve (nv_cwd N) p) = path_text (path_resolve (nv_cwd N) prefix)
      | _ \<Rightarrow> False)"

definition sshDeleteDirRecursive :: "node_env \<Rightarrow> remote option \<Rightarrow> SshOpInput \<Rightarrow> string \<Rightarrow> unit ssh_step" where
  "sshDeleteDirRecursive N lib inp p =
     checked N inp p (\<lambda>h.
       if prefix_root N (so_constraint inp) p then (Inl (Ssh_failure ''path_outside_constraint'' None), h)
       else withSsh lib inp (\<lambda>rm. exec_ok rm (so_conn inp) (''rm -rf '' @ shQuote p)) h)"

definition SSH_EXEC_OUTPUT_CAP_BYTES :: nat where
  "SSH_EXEC_OUTPUT_CAP_BYTES = 1024 * 1024"

definition capped :: "string \<Rightarrow> string" where
  "capped s =
     (if length s > SSH_EXEC_OUTPUT_CAP_BYTES then utf8_lossy 0 0x80 0xBF [] (take SSH_EXEC_OUTPUT_CAP_BYTES s) else s)"

text \<open>Nothing compares the command with the prefix.\<close>

definition sshExec :: "remote option \<Rightarrow> SshOpInput \<Rightarrow> string \<Rightarrow> (string \<times> string \<times> int) ssh_step" where
  "sshExec lib inp cmd h =
     (case validateHost inp of
        Some why \<Rightarrow> (Inl (Ssh_failure why None), h)
      | None \<Rightarrow>
          step_bind (withSsh lib inp (\<lambda>rm. ask (rm_exec rm) (so_conn inp) (Exec cmd))) (\<lambda>(out, err, code) h'.
            (Inr (capped out, capped err, case code of None \<Rightarrow> 0 | Some n \<Rightarrow> n), h')) h)"

subsection \<open>ssh-dispatch.ts\<close>

definition ssh_parseConstraint :: "json \<Rightarrow> obj option" where
  "ssh_parseConstraint raw =
     (case as_obj raw of
        None \<Rightarrow> None
      | Some c \<Rightarrow> if jget c ''provider'' = JStr ''ssh'' \<and> as_string (jget c ''host'') \<noteq> None then Some c else None)"

datatype ssh_thrown = Ssh_bad_call string | Ssh_failed string ssh_failure | Ssh_unknown_encoding

record ssh_env =
  sv_node :: node_env
  sv_library :: "remote option"
  sv_privateKey :: "string option"
  sv_passphrase :: "string option"

definition decoded_key :: "node_env \<Rightarrow> string \<Rightarrow> (ssh_thrown, string) result" where
  "decoded_key N raw =
     (case Option.bind (nv_bufferFrom N raw ''base64'') (\<lambda>b. nv_bufferTo N b ''utf-8'') of
        None \<Rightarrow> Inl Ssh_unknown_encoding | Some t \<Rightarrow> Inr t)"

definition loadPrivateKey :: "ssh_env \<Rightarrow> (ssh_thrown, string) result" where
  "loadPrivateKey V =
     (case sv_privateKey V of
        Some raw \<Rightarrow>
          if raw = [] then Inl (Ssh_bad_call ''SSH_PRIVATE_KEY'')
          else if startsWith raw ''-----BEGIN'' then Inr raw else decoded_key (sv_node V) raw
      | None \<Rightarrow> Inl (Ssh_bad_call ''SSH_PRIVATE_KEY''))"

text \<open>\<open>a || b\<close> on texts.\<close>

definition or_text :: "string option \<Rightarrow> string option \<Rightarrow> string option" where
  "or_text a b = (if str_truthy a then a else b)"

definition call_text :: "ApiCall \<Rightarrow> string \<Rightarrow> string option" where
  "call_text call k = or_text (queryStr call k) (bodyStr call k)"

text \<open>Absent numbers are 0. A numeral \<open>parseInt\<close> makes NaN or Infinity of counts as NaN.\<close>

definition queryNum :: "(string \<Rightarrow> jsnum) \<Rightarrow> ApiCall \<Rightarrow> string \<Rightarrow> json" where
  "queryNum nd call k =
     (case queryStr call k of
        None \<Rightarrow> JNum (JInt 0)
      | Some t \<Rightarrow> (case parse_int nd t of None \<Rightarrow> JUndef | Some n \<Rightarrow> JNum n))"

definition bodyNum :: "ApiCall \<Rightarrow> string \<Rightarrow> json" where
  "bodyNum call k = (case jget (object_or_empty (ac_body call)) k of JNum n \<Rightarrow> JNum n | _ \<Rightarrow> JNum (JInt 0))"

definition ssh_port :: "(string \<Rightarrow> jsnum) \<Rightarrow> ApiCall \<Rightarrow> obj \<Rightarrow> json" where
  "ssh_port nd call c =
     (if truthy (queryNum nd call ''port'') then queryNum nd call ''port''
      else if truthy (bodyNum call ''port'') then bodyNum call ''port''
      else if jget c ''port'' = JUndef \<or> jget c ''port'' = JNull then JNum (JInt 22) else jget c ''port'')"

definition ssh_username :: "ApiCall \<Rightarrow> obj \<Rightarrow> json" where
  "ssh_username call c =
     (if str_truthy (call_text call ''username'') then JStr (the (call_text call ''username''))
      else if truthy (jget c ''username'') then jget c ''username'' else JStr ''root'')"

definition ssh_host :: "ApiCall \<Rightarrow> obj \<Rightarrow> string" where
  "ssh_host call c =
     (if str_truthy (call_text call ''host'') then the (call_text call ''host'')
      else case jget c ''host'' of JStr h \<Rightarrow> h | _ \<Rightarrow> [])"

definition ssh_input :: "(string \<Rightarrow> jsnum) \<Rightarrow> ssh_env \<Rightarrow> ApiCall \<Rightarrow> obj \<Rightarrow> string \<Rightarrow> SshOpInput" where
  "ssh_input nd V call c privateKey =
     \<lparr>so_constraint = c, so_conn = \<lparr>sc_host = ssh_host call c, sc_port = ssh_port nd call c,
        sc_username = ssh_username call c, sc_privateKey = privateKey, sc_passphrase = sv_passphrase V\<rparr>\<rparr>"

type_synonym ssh_answer = "history \<Rightarrow> (ssh_thrown, json) result \<times> history"

definition ssh_then :: "string \<Rightarrow> 'a ssh_step \<Rightarrow> ('a \<Rightarrow> (ssh_thrown, json) result) \<Rightarrow> ssh_answer" where
  "ssh_then what m f h = (case m h of (Inl e, h') \<Rightarrow> (Inl (Ssh_failed what e), h') | (Inr a, h') \<Rightarrow> (f a, h'))"

definition ssh_needed :: "string \<Rightarrow> string option \<Rightarrow> (string \<Rightarrow> ssh_answer) \<Rightarrow> ssh_answer" where
  "ssh_needed why v k h = (if str_truthy v then k (the v) h else (Inl (Ssh_bad_call why), h))"

definition with_buffer :: "node_env \<Rightarrow> string \<Rightarrow> string option \<Rightarrow> (string \<Rightarrow> ssh_answer) \<Rightarrow> ssh_answer" where
  "with_buffer N content enc k h =
     (case nv_bufferFrom N content (encoding_of enc) of None \<Rightarrow> (Inl Ssh_unknown_encoding, h) | Some b \<Rightarrow> k b h)"

definition sshRead_op :: "ssh_env \<Rightarrow> SshOpInput \<Rightarrow> ApiCall \<Rightarrow> ssh_answer" where
  "sshRead_op V inp call =
     ssh_needed ''path'' (call_text call ''path'') (\<lambda>p.
       ssh_then ''read'' (sshReadFile (sv_node V) (sv_library V) inp p) (\<lambda>b.
         case nv_bufferTo (sv_node V) b (encoding_of (queryStr call ''encoding'')) of
           None \<Rightarrow> Inl Ssh_unknown_encoding
         | Some content \<Rightarrow> Inr (text_obj [(''content'', content), (''host'', sc_host (so_conn inp)), (''path'', p)])))"

definition sshWrite_op :: "ssh_env \<Rightarrow> SshOpInput \<Rightarrow> ApiCall \<Rightarrow> ssh_answer" where
  "sshWrite_op V inp call =
     ssh_needed ''body.path + body.content'' (bodyStr call ''path'') (\<lambda>p h.
       case bodyStr call ''content'' of
         None \<Rightarrow> (Inl (Ssh_bad_call ''body.path + body.content''), h)
       | Some content \<Rightarrow> with_buffer (sv_node V) content (bodyStr call ''encoding'') (\<lambda>buf.
           ssh_then ''write'' (sshWriteFile (sv_node V) (sv_library V) inp p buf) (\<lambda>u.
             Inr (text_obj [(''host'', sc_host (so_conn inp)), (''path'', p)]))) h)"

definition sshCreate_op :: "ssh_env \<Rightarrow> SshOpInput \<Rightarrow> ApiCall \<Rightarrow> ssh_answer" where
  "sshCreate_op V inp call =
     ssh_needed ''body.path'' (bodyStr call ''path'') (\<lambda>p.
       with_buffer (sv_node V) (case bodyStr call ''content'' of None \<Rightarrow> [] | Some t \<Rightarrow> t) (bodyStr call ''encoding'') (\<lambda>buf.
         ssh_then ''create'' (sshCreateFile (sv_node V) (sv_library V) inp p buf) (\<lambda>u.
           Inr (text_obj [(''host'', sc_host (so_conn inp)), (''path'', p)]))))"

definition ssh_one_path :: "string \<Rightarrow> string \<Rightarrow> (string \<Rightarrow> unit ssh_step) \<Rightarrow> SshOpInput \<Rightarrow> ApiCall \<Rightarrow> ssh_answer" where
  "ssh_one_path what field f inp call =
     ssh_needed ''body.path'' (bodyStr call ''path'') (\<lambda>p.
       ssh_then what (f p) (\<lambda>u. Inr (text_obj [(field, p), (''host'', sc_host (so_conn inp))])))"

definition ssh_two_paths ::
  "string \<Rightarrow> (string \<Rightarrow> string \<Rightarrow> unit ssh_step) \<Rightarrow> SshOpInput \<Rightarrow> ApiCall \<Rightarrow> ssh_answer" where
  "ssh_two_paths what f inp call =
     ssh_needed ''body.path + body.destination'' (bodyStr call ''path'') (\<lambda>src.
       ssh_needed ''body.path + body.destination'' (bodyStr call ''destination'') (\<lambda>dst.
         ssh_then what (f src dst) (\<lambda>u. Inr (text_obj [(''from'', src), (''to'', dst), (''host'', sc_host (so_conn inp))]))))"

definition ssh_listing :: "string \<Rightarrow> string \<Rightarrow> (string \<Rightarrow> json ssh_step) \<Rightarrow> SshOpInput \<Rightarrow> ApiCall \<Rightarrow> ssh_answer" where
  "ssh_listing what field f inp call =
     ssh_needed ''path'' (call_text call ''path'') (\<lambda>p.
       ssh_then what (f p) (\<lambda>v. Inr (JObj [(''path'', JStr p), (''host'', JStr (sc_host (so_conn inp))), (field, v)])))"

definition sshExec_op :: "ssh_env \<Rightarrow> SshOpInput \<Rightarrow> ApiCall \<Rightarrow> ssh_answer" where
  "sshExec_op V inp call =
     ssh_needed ''body.command'' (bodyStr call ''command'') (\<lambda>cmd.
       ssh_then ''exec'' (sshExec (sv_library V) inp cmd) (\<lambda>(out, err, code).
         Inr (JObj [(''stdout'', JStr out), (''stderr'', JStr err), (''code'', JNum (JInt code)),
                    (''host'', JStr (sc_host (so_conn inp)))])))"

definition ssh_dispatch :: "(string \<Rightarrow> jsnum) \<Rightarrow> ssh_env \<Rightarrow> SshOpInput \<Rightarrow> ApiCall \<Rightarrow> ssh_answer" where
  "ssh_dispatch nd V inp call =
     (let N = sv_node V; lib = sv_library V; op = ac_path call
      in if op = ''/file/read'' then sshRead_op V inp call
         else if op = ''/file/write'' then sshWrite_op V inp call
         else if op = ''/file/create'' then sshCreate_op V inp call
         else if op = ''/file/delete'' then ssh_one_path ''delete'' ''deleted'' (sshDeleteFile N lib inp) inp call
         else if op = ''/file/move'' then ssh_two_paths ''move'' (sshMoveFile N lib inp) inp call
         else if op = ''/file/copy'' then ssh_two_paths ''copy'' (sshCopyFile N lib inp) inp call
         else if op = ''/dir/list'' then ssh_listing ''list'' ''entries'' (sshListDir N lib inp) inp call
         else if op = ''/dir/tree''
         then ssh_listing ''tree'' ''tree'' (\<lambda>p. sshTreeDir N lib inp p (depth_of nd call)) inp call
         else if op = ''/dir/create'' then ssh_one_path ''mkdir'' ''created'' (sshCreateDir N lib inp) inp call
         else if op = ''/dir/delete'' then ssh_one_path ''rmdir'' ''deleted'' (sshDeleteDir N lib inp) inp call
         else if op = ''/dir/delete_recursive''
         then ssh_one_path ''rm -rf'' ''deleted'' (sshDeleteDirRecursive N lib inp) inp call
         else if op = ''/exec'' then sshExec_op V inp call
         else (\<lambda>h. (Inl (Ssh_bad_call op), h)))"

definition executeSshCommand :: "(string \<Rightarrow> jsnum) \<Rightarrow> ssh_env \<Rightarrow> ApiCall \<Rightarrow> json \<Rightarrow> ssh_answer" where
  "executeSshCommand nd V call rawConstraint h =
     (case ssh_parseConstraint rawConstraint of
        None \<Rightarrow> (Inl (Ssh_bad_call ''resource_constraint''), h)
      | Some c \<Rightarrow>
          (case loadPrivateKey V of
             Inl e \<Rightarrow> (Inl e, h)
           | Inr key \<Rightarrow> ssh_dispatch nd V (ssh_input nd V call c key) call h))"

end
