(* ===== verification/Proxy.thy ===== *)
theory Proxy
  imports Authorize Proxy_Upstream Sanitize Spans Ssh
begin

text \<open>
  apps/pdp/src/routes/proxy.ts, POST /v1/proxy/:command, in the order of its handler: shape, tenant, command,
  policies, schemas, consistency of resource and call, cosigner, decision, step-up detection, audit, and
  then the call itself: through the control plane's cloud federation, on the local disk, over ssh, or with
  the customer's OAuth token. What the handler does besides answering is kept in a log: audit rows, spans,
  upstream calls, the disk. Texts of error messages are left out, and so is logging.
\<close>

subsection \<open>The request\<close>

record ProxyApiCall =
  pl_call :: ApiCall
  pl_intent :: "string option"
  pl_nextAgentHint :: "string option"
  pl_handoff :: "SpanHandoff option"
  pl_prompt :: "SpanPromptInput option"

record ProxyBody =
  pb_ucan :: "string + string list"
  pb_request :: json
  pb_apiCall :: ProxyApiCall

definition z_between :: "nat \<Rightarrow> nat \<Rightarrow> json \<Rightarrow> string option" where
  "z_between lo hi v =
     Option.bind (as_string v) (\<lambda>s. if lo \<le> utf16_length s \<and> utf16_length s \<le> hi then Some s else None)"

definition z_text_record :: "json \<Rightarrow> (string \<times> string) list option" where
  "z_text_record v =
     Option.bind (as_obj v) (\<lambda>ob.
       if list_all (\<lambda>(k, w). as_string w \<noteq> None) ob then Some (map (\<lambda>(k, w). (k, the (as_string w))) ob) else None)"

definition parse_ucan_field :: "json \<Rightarrow> (string + string list) option" where
  "parse_ucan_field v =
     (case z_min1 v of
        Some s \<Rightarrow> Some (Inl s)
      | None \<Rightarrow> (case z_array z_min1 v of Some (s # ss) \<Rightarrow> Some (Inr (s # ss)) | _ \<Rightarrow> None))"

definition parse_handoff :: "json \<Rightarrow> SpanHandoff option" where
  "parse_handoff v =
     Option.bind (as_obj v) (\<lambda>ob.
     Option.bind (z_between 1 256 (jget ob ''toAgentDid'')) (\<lambda>did.
     Option.bind (z_between 1 2048 (jget ob ''task'')) (\<lambda>task.
     Option.bind (z_opt (z_between 0 1024) (jget ob ''expectedOutput'')) (\<lambda>expected.
     Option.bind (z_opt (z_between 0 1024) (jget ob ''rationale'')) (\<lambda>rationale.
       Some \<lparr>sh_toAgentDid = did, sh_task = task, sh_expectedOutput = expected, sh_rationale = rationale\<rparr>)))))"

definition parse_prompt :: "json \<Rightarrow> SpanPromptInput option" where
  "parse_prompt v =
     Option.bind (as_obj v) (\<lambda>ob.
     Option.bind (z_between 0 1000000 (jget ob ''text'')) (\<lambda>prompt.
     Option.bind (z_opt (z_between 0 2000000) (jget ob ''reasoning'')) (\<lambda>reasoning.
       Some \<lparr>si_text = prompt, si_reasoning = reasoning\<rparr>)))"

definition z_method :: "json \<Rightarrow> string option" where
  "z_method = z_match (\<lambda>m. m \<in> set [''GET'', ''POST'', ''PATCH'', ''PUT'', ''DELETE''])"

definition parse_call :: "json \<Rightarrow> ProxyApiCall option" where
  "parse_call v =
     Option.bind (as_obj v) (\<lambda>ob.
     Option.bind (z_method (jget ob ''method'')) (\<lambda>meth.
     Option.bind (z_min1 (jget ob ''path'')) (\<lambda>path.
     Option.bind (z_opt z_text_record (jget ob ''query'')) (\<lambda>query.
     Option.bind (z_opt z_text_record (jget ob ''headers'')) (\<lambda>headers.
     Option.bind (z_opt (z_between 0 256) (jget ob ''intent'')) (\<lambda>intent.
     Option.bind (z_opt (z_between 0 256) (jget ob ''nextAgentHint'')) (\<lambda>hint.
     Option.bind (z_opt parse_handoff (jget ob ''handoff'')) (\<lambda>handoff.
     Option.bind (z_opt parse_prompt (jget ob ''prompt'')) (\<lambda>prompt.
       Some \<lparr>pl_call = \<lparr>ac_method = meth, ac_path = path, ac_query = query, ac_body = jget ob ''body'', ac_headers = headers\<rparr>,
             pl_intent = intent, pl_nextAgentHint = hint, pl_handoff = handoff, pl_prompt = prompt\<rparr>)))))))))"

definition parseProxyRequest :: "json \<Rightarrow> ProxyBody option" where
  "parseProxyRequest v =
     Option.bind (as_obj v) (\<lambda>ob.
     Option.bind (parse_ucan_field (jget ob ''ucan'')) (\<lambda>ucan.
     Option.bind (parse_call (jget ob ''apiCall'')) (\<lambda>call.
       Some \<lparr>pb_ucan = ucan, pb_request = jget ob ''request'', pb_apiCall = call\<rparr>)))"

text \<open>The call as the schema packs see it. They read no member beyond these.\<close>

definition call_obj :: "ApiCall \<Rightarrow> obj" where
  "call_obj call =
     [(''method'', JStr (ac_method call)), (''path'', JStr (ac_path call))] @
     (case ac_query call of None \<Rightarrow> [] | Some q \<Rightarrow> [(''query'', query_obj q)]) @
     (if ac_body call = JUndef then [] else [(''body'', ac_body call)]) @
     (case ac_headers call of None \<Rightarrow> [] | Some h \<Rightarrow> [(''headers'', query_obj h)])"

definition ucan_list :: "string + string list \<Rightarrow> string list" where
  "ucan_list u = (case u of Inl s \<Rightarrow> [s] | Inr ss \<Rightarrow> ss)"

definition leafUcan :: "env \<Rightarrow> string + string list \<Rightarrow> ParsedUcan option" where
  "leafUcan E u = (if ucan_list u = [] then None else parseUcanJwt E (last (ucan_list u)))"

definition leaf_meta :: "ParsedUcan option \<Rightarrow> string \<Rightarrow> json" where
  "leaf_meta leaf k =
     (case Option.bind leaf (\<lambda>u. p_meta (u_payload u)) of None \<Rightarrow> JUndef | Some m \<Rightarrow> jget m k)"

definition leaf_text :: "ParsedUcan option \<Rightarrow> string \<Rightarrow> string option" where
  "leaf_text leaf k = nonempty (as_string (leaf_meta leaf k))"

text \<open>Object spread of the body: the members of an object, the elements of an array, the characters of a
  text.\<close>

definition indexed :: "json list \<Rightarrow> obj" where
  "indexed vs = zip (map (\<lambda>i. string_of_int (int i)) [0..<length vs]) vs"

definition requestArgs :: "ApiCall \<Rightarrow> obj" where
  "requestArgs call =
     obj_spread (map (\<lambda>(k, v). (k, JStr v)) (opt_headers (ac_query call)))
       (case ac_body call of JObj ob \<Rightarrow> ob | JArr vs \<Rightarrow> indexed vs | JStr s \<Rightarrow> indexed (map (\<lambda>c. JStr [c]) s) | _ \<Rightarrow> [])"

subsection \<open>Dependencies, answers and the log\<close>

record OAuthTokenResponse =
  ot_connectionId :: string
  ot_customerId :: string
  ot_connector :: string
  ot_accessToken :: string

text \<open>An audit row of the proxy: the cloud rows carry a reason of their own.\<close>

record ProxyAudit = AuditEmitInput +
  pa_cloudReason :: "string option"

record ProxyRouteDeps =
  pd_fetchBundle :: "string \<Rightarrow> bundle_value fetched"
  pd_schemaForCustomer :: "string \<Rightarrow> json option"
  pd_trustedIssuerDid :: "string option"
  pd_fetchOAuthToken :: "string \<Rightarrow> string \<Rightarrow> (exn, OAuthTokenResponse) result"
  pd_refreshOAuthToken :: "(string \<Rightarrow> string \<Rightarrow> (exn, OAuthTokenResponse) result) option"
  pd_emitAudit :: "(ProxyAudit \<Rightarrow> (exn, unit) result) option"
  pd_emitsSpans :: bool
  pd_stepup :: "stepup_deps option"
  pd_fetch :: "nat \<Rightarrow> fetch"
  pd_cloud :: "CloudAdapterDeps option"
  pd_ssh :: ssh_env

datatype proxy_response =
    Proxy_error int string
  | Proxy_denied int AuthorizeDecision string
  | Proxy_failed int AuthorizeDecision string
  | Proxy_executed AuthorizeDecision json
  | Proxy_upstream AuthorizeDecision int json "string list"

record proxy_log =
  lg_audit :: "ProxyAudit list"
  lg_spans :: "(string \<times> string \<times> EmitSpanInput) list"
  lg_calls :: "UpstreamRequest list"
  lg_cloud :: "(string \<times> CloudAgentContext) list"
  lg_consumed :: "string option"
  lg_created :: "create_args option"
  lg_disk :: disk
  lg_ssh :: history

text \<open>What the handler fixes before it answers: environment, clock, tenant, request and call.\<close>

record proxy_run =
  rn_env :: env
  rn_deps :: ProxyRouteDeps
  rn_clock :: int
  rn_started :: int
  rn_now :: int
  rn_customer :: string
  rn_body :: ProxyBody
  rn_request :: AuthorizeRequest

definition rn_call :: "proxy_run \<Rightarrow> ApiCall" where
  "rn_call R = pl_call (pb_apiCall (rn_body R))"

definition first_ucan :: "proxy_run \<Rightarrow> string" where
  "first_ucan R = hd (ucan_list (pb_ucan (rn_body R)))"

definition leaf_jwt :: "proxy_run \<Rightarrow> string" where
  "leaf_jwt R = last (ucan_list (pb_ucan (rn_body R)))"

definition rn_leaf :: "proxy_run \<Rightarrow> ParsedUcan option" where
  "rn_leaf R = leafUcan (rn_env R) (pb_ucan (rn_body R))"

type_synonym answer = "(exn, proxy_response \<times> proxy_log) result"

definition span_input ::
  "proxy_run \<Rightarrow> string \<Rightarrow> tool_status \<Rightarrow> int option \<Rightarrow> string option \<Rightarrow> json \<Rightarrow> obj option \<Rightarrow> EmitSpanInput" where
  "span_input R receiptId tool httpStatus errorCode responseBody summary =
     (let apiCall = pb_apiCall (rn_body R)
      in \<lparr>es_receiptId = receiptId, es_toolName = rq_command (rn_request R), es_status = statusFromOutcome tool httpStatus,
          es_startedAt = rn_started R, es_endedAt = rn_now R, es_latencyMs = max 0 (rn_now R - rn_started R),
          es_httpStatus = httpStatus,
          es_errorCode = (case errorCode of Some c \<Rightarrow> Some c | None \<Rightarrow> if tool = tool_denied then Some ''denied'' else None),
          es_requestArgsHash = sha256Of (rn_env R) (JObj (requestArgs (rn_call R))), es_requestSummary = summary,
          es_responseHash = (if responseBody = JUndef then None else Some (sha256Of (rn_env R) responseBody)),
          es_responseSummary = redactResponse responseBody, es_nextAgentHint = pl_nextAgentHint apiCall,
          es_intent = pl_intent apiCall, es_handoff = pl_handoff apiCall, es_prompt = pl_prompt apiCall\<rparr>)"

text \<open>A span is sent without waiting; that sending it fails is not seen.\<close>

definition fireSpan ::
  "proxy_run \<Rightarrow> string \<Rightarrow> tool_status \<Rightarrow> int option \<Rightarrow> string option \<Rightarrow> json \<Rightarrow> proxy_log \<Rightarrow> (exn, proxy_log) result" where
  "fireSpan R receiptId tool httpStatus errorCode responseBody lg =
     (let agentDid = extractAgentDid (rn_env R) (first_ucan R)
      in if \<not> pd_emitsSpans (rn_deps R) \<or> agentDid = [] then Inr lg
         else rbind (redactRequest (rq_command (rn_request R)) (Some (requestArgs (rn_call R)))) (\<lambda>summary.
           Inr (lg\<lparr>lg_spans := lg_spans lg @
             [(rn_customer R, agentDid, span_input R receiptId tool httpStatus errorCode responseBody summary)]\<rparr>)))"

definition emit_row :: "proxy_run \<Rightarrow> ProxyAudit \<Rightarrow> proxy_log \<Rightarrow> (exn, proxy_log) result" where
  "emit_row R row lg =
     (case pd_emitAudit (rn_deps R) of
        None \<Rightarrow> Inr lg
      | Some emitAudit \<Rightarrow> rbind (emitAudit row) (\<lambda>_. Inr (lg\<lparr>lg_audit := lg_audit lg @ [row]\<rparr>)))"

definition audit_row :: "proxy_run \<Rightarrow> AuthorizeDecision \<Rightarrow> string \<Rightarrow> ProxyAudit" where
  "audit_row R d agentDid =
     \<lparr>ae_customerId = rn_customer R, ae_request = rn_request R, ae_allow = d_allow d, ae_reason = d_reason d,
      ae_receiptId = d_receiptId d, ae_ts = rn_now R, ae_agentDid = agentDid, ae_parentReceiptId = None,
      ae_swarmId = None, ae_chainDepth = None,
      ae_apiCall = Some (ac_method (rn_call R), ac_path (rn_call R)), pa_cloudReason = None\<rparr>"

subsection \<open>Before the decision\<close>

text \<open>How a gate stops a request: reason, receipt text, status, error code, the agent of the audit row if
  there is one, the error code of the span if there is one.\<close>

record proxy_stop =
  st_reason :: DenyReason
  st_basis :: string
  st_status :: int
  st_code :: string
  st_audit :: "string option"
  st_span :: "string option"

datatype proxy_gate = Stop proxy_stop | Pass string

definition unknown_command_stop :: "string \<Rightarrow> proxy_stop" where
  "unknown_command_stop command =
     \<lparr>st_reason = D_unknown_command, st_basis = ''unknown-command|'' @ command, st_status = 403,
      st_code = ''unknown_command'', st_audit = None, st_span = None\<rparr>"

definition unknown_customer_stop :: "proxy_run \<Rightarrow> proxy_stop" where
  "unknown_customer_stop R =
     \<lparr>st_reason = D_unknown_customer,
      st_basis = ''unknown-customer|'' @ rn_customer R @ ''|'' @ rq_command (rn_request R), st_status = 200,
      st_code = ''unknown_customer'', st_audit = Some (extractAgentDid (rn_env R) (rq_ucan (rn_request R))), st_span = None\<rparr>"

definition schema_stop :: "proxy_run \<Rightarrow> DenyReason \<Rightarrow> string \<Rightarrow> string \<Rightarrow> proxy_stop" where
  "schema_stop R why code basis =
     \<lparr>st_reason = why, st_basis = basis, st_status = 403, st_code = code,
      st_audit = Some (extractAgentDid (rn_env R) (first_ucan R)), st_span = None\<rparr>"

definition mismatch_stop :: "proxy_run \<Rightarrow> string \<Rightarrow> json \<Rightarrow> json \<Rightarrow> proxy_stop" where
  "mismatch_stop R field declared effective =
     \<lparr>st_reason = D_resource_mismatch,
      st_basis = ''resource-mismatch|'' @ rq_command (rn_request R) @ ''|'' @ field @ ''|'' @ js_String declared @ ''|'' @
        js_String effective,
      st_status = 403, st_code = ''resource_mismatch'',
      st_audit = Some (extractAgentDid (rn_env R) (first_ucan R)), st_span = Some ''resource_mismatch''\<rparr>"

definition call_gate :: "IntegrationPack list \<Rightarrow> proxy_run \<Rightarrow> string \<Rightarrow> (exn, proxy_gate) result" where
  "call_gate packs R policies =
     (let command = rq_command (rn_request R); resource = rq_resource (rn_request R)
      in case validateApiCall packs command (JObj (call_obj (rn_call R))) of
           Schema_missing \<Rightarrow>
             Inr (Stop (schema_stop R D_schema_missing ''schema_missing'' (''schema_missing|'' @ command @ ''|apiCall'')))
         | Schema_violation \<Rightarrow>
             Inr (Stop (schema_stop R D_schema_violation ''schema_violation'' (''schema_violation|'' @ command @ ''|apiCall'')))
         | VOk \<Rightarrow>
             if validateResource packs command (JObj resource) \<noteq> VOk
             then Inr (Stop (schema_stop R D_schema_violation ''schema_violation'' (''schema-violation|'' @ command @ ''|resource'')))
             else rbind (validateResourceConsistency packs command resource (rn_call R)) (\<lambda>c.
               case c of
                 ConsistencyOk \<Rightarrow> Inr (Pass policies)
               | Resource_mismatch field dec eff \<Rightarrow> Inr (Stop (mismatch_stop R field dec eff))))"

definition proxy_refreshed :: "ProxyRouteDeps \<Rightarrow> string \<Rightarrow> policy_cache \<Rightarrow> policy_cache" where
  "proxy_refreshed deps customerId cache =
     (if getPolicies cache customerId = None then pc_refreshOne customerId (pd_fetchBundle deps customerId) cache else cache)"

definition proxy_gates ::
  "IntegrationPack list \<Rightarrow> proxy_run \<Rightarrow> policy_cache \<Rightarrow> (exn, proxy_gate \<times> policy_cache) result" where
  "proxy_gates packs R cache =
     (let command = rq_command (rn_request R)
      in if \<not> isKnownCommand packs command then Inr (Stop (unknown_command_stop command), cache)
         else let cache' = proxy_refreshed (rn_deps R) (rn_customer R) cache
              in case getPolicies cache' (rn_customer R) of
                   None \<Rightarrow> Inr (Stop (unknown_customer_stop R), cache')
                 | Some policies \<Rightarrow> rbind (call_gate packs R policies) (\<lambda>g. Inr (g, cache')))"

definition stopped :: "proxy_run \<Rightarrow> proxy_stop \<Rightarrow> proxy_log \<Rightarrow> answer" where
  "stopped R stop lg =
     (let d = deny_decision (st_reason stop) (sha256Hex (rn_env R) (st_basis stop))
      in rbind (case st_audit stop of None \<Rightarrow> Inr lg | Some did \<Rightarrow> emit_row R (audit_row R d did) lg) (\<lambda>lg1.
         rbind (case st_span stop of None \<Rightarrow> Inr lg1
                | Some code \<Rightarrow> fireSpan R (d_receiptId d) tool_denied None (Some code) JUndef lg1) (\<lambda>lg2.
           Inr (Proxy_denied (st_status stop) d (st_code stop), lg2))))"

subsection \<open>The cosigner\<close>

definition cosigner_stop :: "proxy_run \<Rightarrow> DenyReason \<Rightarrow> string \<Rightarrow> string \<Rightarrow> proxy_stop" where
  "cosigner_stop R why code basis =
     \<lparr>st_reason = why, st_basis = basis, st_status = 200, st_code = code,
      st_audit = Some (extractAgentDid (rn_env R) (rq_ucan (rn_request R))), st_span = Some code\<rparr>"

datatype proxy_cosigner = Cosigner_stop proxy_stop | Effective AuthorizeRequest "string option"

definition proxy_cosigner_step :: "proxy_run \<Rightarrow> (exn, proxy_cosigner) result" where
  "proxy_cosigner_step R =
     (let r = rn_request R; E = rn_env R; stepup = pd_stepup (rn_deps R)
      in case (rq_cosignerJwt r, Option.bind stepup sp_fetchApproval) of
           (Some jwt, Some fetchApproval) \<Rightarrow>
             rbind (validateCosigner E (rn_clock R) fetchApproval (cosigner_input r jwt)) (\<lambda>validation.
               case validation of
                 CosignerErr why \<Rightarrow>
                   rbind (lift_canon (canonicalize (e_nfc E) (JObj (requestObj r)))) (\<lambda>t.
                     let basis = ''proxy-cosigner-deny|'' @ rq_ucan r @ ''|'' @ t
                     in Inr (Cosigner_stop
                          (if why = cosigner_expired then cosigner_stop R D_cosigner_expired ''cosigner_expired'' basis
                           else cosigner_stop R D_cosigner_invalid ''cosigner_invalid'' basis)))
               | CosignerOk approvalId \<Rightarrow>
                   (case Option.bind stepup sp_consumeApproval of
                      None \<Rightarrow> Inr (Effective (with_cosigner r) None)
                    | Some consume \<Rightarrow>
                        rbind (consume approvalId) (\<lambda>consumed.
                          if consumed then Inr (Effective (with_cosigner r) (Some approvalId))
                          else Inr (Cosigner_stop (cosigner_stop R D_cosigner_already_used ''cosigner_already_used''
                            (''proxy-cosigner-already-used|'' @ approvalId @ ''|'' @ rq_command r))))))
         | _ \<Rightarrow> Inr (Effective r None))"

subsection \<open>The decision\<close>

fun reason_text :: "DenyReason \<Rightarrow> string" where
  "reason_text D_expired = ''expired''"
| "reason_text D_not_yet_valid = ''not_yet_valid''"
| "reason_text D_bad_signature = ''bad_signature''"
| "reason_text D_audience_mismatch = ''audience_mismatch''"
| "reason_text D_command_mismatch = ''command_mismatch''"
| "reason_text D_revoked = ''revoked''"
| "reason_text D_policy_denied = ''policy_denied''"
| "reason_text D_oauth_token_invalid = ''oauth_token_invalid''"
| "reason_text D_unknown_customer = ''unknown_customer''"
| "reason_text D_unknown_command = ''unknown_command''"
| "reason_text D_malformed_ucan = ''malformed_ucan''"
| "reason_text D_untrusted_issuer = ''untrusted_issuer''"
| "reason_text D_step_up_required = ''step_up_required''"
| "reason_text D_cosigner_invalid = ''cosigner_invalid''"
| "reason_text D_cosigner_expired = ''cosigner_expired''"
| "reason_text D_cosigner_already_used = ''cosigner_already_used''"
| "reason_text D_resource_out_of_scope = ''resource_out_of_scope''"
| "reason_text D_resource_mismatch = ''resource_mismatch''"
| "reason_text D_schema_violation = ''schema_violation''"
| "reason_text D_schema_missing = ''schema_missing''"
| "reason_text D_agent_not_connected = ''agent_not_connected''"
| "reason_text D_agent_disabled = ''agent_disabled''"
| "reason_text D_chain_invalid = ''chain_invalid''"
| "reason_text D_chain_too_deep = ''chain_too_deep''"
| "reason_text D_chain_attenuation_violation = ''chain_attenuation_violation''"

definition proxy_ucan_input :: "ProxyBody \<Rightarrow> AuthorizeRequest \<Rightarrow> string + string list" where
  "proxy_ucan_input body r =
     (case rq_delegated_chain r of Some (j # js) \<Rightarrow> Inr (j # js) | _ \<Rightarrow> pb_ucan body)"

definition proxy_decide_input ::
  "proxy_run \<Rightarrow> revocation_cache \<Rightarrow> string \<Rightarrow> AuthorizeRequest \<Rightarrow> DecideInput" where
  "proxy_decide_input R revoked policies r =
     \<lparr>di_ucan = proxy_ucan_input (rn_body R) (rn_request R), di_request = r, di_policies = policies,
      di_revokedCids = Some (getRevoked revoked (rn_customer R)),
      di_schema = pd_schemaForCustomer (rn_deps R) (rn_customer R),
      di_trustedIssuerDid = pd_trustedIssuerDid (rn_deps R), di_now = None, di_maxChainDepth = None\<rparr>"

definition chain_depth_for_audit :: "AuthorizeRequest \<Rightarrow> nat option" where
  "chain_depth_for_audit r =
     (case rq_delegated_chain r of Some (j # k # js) \<Rightarrow> Some (Suc (length js)) | _ \<Rightarrow> None)"

definition chained_row :: "AuthorizeRequest \<Rightarrow> ProxyAudit \<Rightarrow> ProxyAudit" where
  "chained_row r row =
     row\<lparr>ae_parentReceiptId := rq_parent_receipt_id r, ae_swarmId := rq_swarm_id r,
         ae_chainDepth := chain_depth_for_audit r\<rparr>"

definition decision_row :: "proxy_run \<Rightarrow> AuthorizeDecision \<Rightarrow> ProxyAudit" where
  "decision_row R d =
     chained_row (rn_request R)
       (audit_row R d (case rn_leaf R of None \<Rightarrow> ''unknown'' | Some u \<Rightarrow> p_aud (u_payload u)))"

definition denied_answer :: "proxy_run \<Rightarrow> AuthorizeDecision \<Rightarrow> proxy_log \<Rightarrow> answer" where
  "denied_answer R d lg =
     rbind (fireSpan R (d_receiptId d) tool_denied None
         (Some (case d_reason d of None \<Rightarrow> ''denied'' | Some w \<Rightarrow> reason_text w)) JUndef lg) (\<lambda>lg'.
       Inr (Proxy_denied (if d_requiresStepUp d = Some True then 200 else 403) d ''denied'', lg'))"

definition failed_answer :: "proxy_run \<Rightarrow> AuthorizeDecision \<Rightarrow> int option \<Rightarrow> int \<Rightarrow> string \<Rightarrow> proxy_log \<Rightarrow> answer" where
  "failed_answer R d httpStatus status code lg =
     rbind (fireSpan R (d_receiptId d) tool_failed httpStatus (Some code) JUndef lg) (\<lambda>lg'.
       Inr (Proxy_failed status d code, lg'))"

subsection \<open>The cloud branch\<close>

definition cloud_context :: "proxy_run \<Rightarrow> string \<Rightarrow> string option \<Rightarrow> CloudAgentContext" where
  "cloud_context R agentId ucanCid =
     (let r = rn_request R
      in \<lparr>cc_customerId = rn_customer R, cc_agentId = agentId, cc_ucanCid = ucanCid,
          cc_parentReceiptId = rq_parent_receipt_id r, cc_swarmId = rq_swarm_id r, cc_chainDepth = chain_depth_for_audit r\<rparr>)"

text \<open>The identifier of the leaf is taken over the text of its payload.\<close>

definition leaf_cid :: "proxy_run \<Rightarrow> (exn, string option) result" where
  "leaf_cid R =
     (case rn_leaf R of
        None \<Rightarrow> Inr None
      | Some u \<Rightarrow>
          rbind (lift_canon (canonicalize (e_nfc (rn_env R)) (JObj (payloadObj (u_payload u))))) (\<lambda>t.
            Inr (Some (computeCid (rn_env R) t))))"

definition with_context :: "obj \<Rightarrow> AuthorizeRequest \<Rightarrow> AuthorizeRequest" where
  "with_context ms r = r\<lparr>rq_context := foldl (\<lambda>ob (k, v). jset k v ob) (rq_context r) ms\<rparr>"

definition cloud_row :: "proxy_run \<Rightarrow> obj \<Rightarrow> bool \<Rightarrow> string \<Rightarrow> string \<Rightarrow> ProxyAudit" where
  "cloud_row R ms ok why basis =
     chained_row (rn_request R)
       \<lparr>ae_customerId = rn_customer R, ae_request = with_context ms (rn_request R), ae_allow = ok, ae_reason = None,
        ae_receiptId = sha256Hex (rn_env R) basis, ae_ts = rn_now R,
        ae_agentDid = extractAgentDid (rn_env R) (leaf_jwt R), ae_parentReceiptId = None, ae_swarmId = None,
        ae_chainDepth = None, ae_apiCall = Some (ac_method (rn_call R), ac_path (rn_call R)), pa_cloudReason = Some why\<rparr>"

definition status_ok :: "int \<Rightarrow> bool" where
  "status_ok st \<longleftrightarrow> 200 \<le> st \<and> st < 400"

definition cloud_done_row :: "proxy_run \<Rightarrow> string \<Rightarrow> CloudProxyResponse \<Rightarrow> ProxyAudit" where
  "cloud_done_row R connectionId up =
     (let st = string_of_int (cl_status up)
      in cloud_row R
           [(''cloud_kind'', JStr ''cloud.call.allowed''), (''cloud_connection_id'', JStr connectionId),
            (''cloud_connector'', JStr (cl_connector up)), (''cloud_id_token_jti'', JStr (cl_idTokenJti up)),
            (''cloud_upstream_status'', JNum (JInt (cl_status up)))]
           (status_ok (cl_status up))
           (if status_ok (cl_status up) then ''cloud_call_allowed'' else ''cloud_upstream_status_'' @ st)
           (''cloud-call|'' @ rq_command (rn_request R) @ ''|'' @ connectionId @ ''|'' @ cl_idTokenJti up @ ''|'' @ st))"

definition cloud_failed_row :: "proxy_run \<Rightarrow> string \<Rightarrow> json \<Rightarrow> json \<Rightarrow> ProxyAudit" where
  "cloud_failed_row R connectionId failedStatus again =
     cloud_row R
       [(''cloud_kind'', JStr ''cloud.federation.exchanged.failed''), (''cloud_connection_id'', JStr connectionId),
        (''cloud_provider_status'', failedStatus), (''cloud_retryable'', again)]
       False ''cloud_call_failed''
       (''cloud-call-failed|'' @ rq_command (rn_request R) @ ''|'' @ connectionId @ ''|'' @ js_String failedStatus)"

definition sanitize_result :: "json \<times> string list \<Rightarrow> json" where
  "sanitize_result s = JObj [(''body'', fst s), (''redactions'', JArr (map JStr (snd s)))]"

text \<open>What throws after the call has been made is caught, and the call answered as failed.\<close>

definition cloud_done :: "proxy_run \<Rightarrow> AuthorizeDecision \<Rightarrow> string \<Rightarrow> proxy_log \<Rightarrow> CloudProxyResponse \<Rightarrow> answer" where
  "cloud_done R d connectionId lg up =
     (let shown = sanitize_result (sanitizeResponseBody (cl_body up) (as_string (jget (cl_headers up) ''content-type'')));
          failed = failed_answer R d (Some 502) 502 ''cloud_call_failed''
      in case emit_row R (cloud_done_row R connectionId up) lg of
           Inl e \<Rightarrow> failed lg
         | Inr lg1 \<Rightarrow>
             (case fireSpan R (d_receiptId d) (if status_ok (cl_status up) then tool_allowed else tool_failed)
                     (Some (cl_status up)) None shown lg1 of
                Inl e \<Rightarrow> failed lg1
              | Inr lg2 \<Rightarrow> Inr (Proxy_upstream d (cl_status up) shown [], lg2)))"

definition cloud_failed :: "proxy_run \<Rightarrow> AuthorizeDecision \<Rightarrow> string \<Rightarrow> proxy_log \<Rightarrow> cloud_error \<Rightarrow> answer" where
  "cloud_failed R d connectionId lg err =
     (case err of
        Cloud_threw e \<Rightarrow> failed_answer R d (Some 502) 502 ''cloud_call_failed'' lg
      | CloudCallError ps body again \<Rightarrow>
          rbind (emit_row R (cloud_failed_row R connectionId ps again) lg) (\<lambda>lg1.
            failed_answer R d (Some (case ps of JNum (JInt st) \<Rightarrow> st | _ \<Rightarrow> 502)) (if truthy again then 503 else 502)
              ''cloud_call_failed'' lg1))"

text \<open>The reason of the cosigner answer is no \<open>DenyReason\<close> and is left out.\<close>

definition cloud_branch :: "proxy_run \<Rightarrow> AuthorizeDecision \<Rightarrow> string \<Rightarrow> proxy_log \<Rightarrow> answer" where
  "cloud_branch R d connectionId lg =
     (case pd_cloud (rn_deps R) of
        None \<Rightarrow> failed_answer R d (Some 501) 501 ''cloud_proxy_disabled'' lg
      | Some deps \<Rightarrow>
          (case nonempty (extractAgentId (rn_env R) (leaf_jwt R)) of
             None \<Rightarrow> Inr (Proxy_failed 400 d ''missing_agent_id'', lg)
           | Some agentId \<Rightarrow>
               rbind (leaf_cid R) (\<lambda>ucanCid.
                 if shouldForceStepUp d (rn_request R)
                 then rbind (fireSpan R (d_receiptId d) tool_denied (Some 403) (Some ''cosigner_required'') JUndef lg) (\<lambda>lg1.
                        Inr (Proxy_denied 403 (d\<lparr>d_allow := False, d_requiresStepUp := Some True, d_reason := None\<rparr>)
                               ''cosigner_required'', lg1))
                 else
                   (let ctx = cloud_context R agentId ucanCid;
                        lg1 = lg\<lparr>lg_cloud := lg_cloud lg @ [(connectionId, ctx)]\<rparr>
                    in case cloudApiCall (rn_env R) deps connectionId ctx (rn_call R) of
                         Inl err \<Rightarrow> cloud_failed R d connectionId lg1 err
                       | Inr up \<Rightarrow> cloud_done R d connectionId lg1 up))))"

subsection \<open>Disk and ssh\<close>

definition executed_answer :: "proxy_run \<Rightarrow> AuthorizeDecision \<Rightarrow> json \<Rightarrow> proxy_log \<Rightarrow> answer" where
  "executed_answer R d result lg =
     rbind (fireSpan R (d_receiptId d) tool_allowed None None result lg) (\<lambda>lg'. Inr (Proxy_executed d result, lg'))"

definition filesystem_branch :: "proxy_run \<Rightarrow> AuthorizeDecision \<Rightarrow> proxy_log \<Rightarrow> answer" where
  "filesystem_branch R d lg =
     (case executeFilesystemCommand (e_nd (rn_env R)) (sv_node (pd_ssh (rn_deps R))) (lg_disk lg) (rn_call R)
             (leaf_meta (rn_leaf R) ''resource_constraint'') of
        Inl e \<Rightarrow> failed_answer R d None 502 ''filesystem_exec_failed'' lg
      | Inr (result, disk) \<Rightarrow> executed_answer R d result (lg\<lparr>lg_disk := disk\<rparr>))"

definition ssh_branch :: "proxy_run \<Rightarrow> AuthorizeDecision \<Rightarrow> proxy_log \<Rightarrow> answer" where
  "ssh_branch R d lg =
     (case executeSshCommand (e_nd (rn_env R)) (pd_ssh (rn_deps R)) (rn_call R)
             (leaf_meta (rn_leaf R) ''resource_constraint'') (lg_ssh lg) of
        (Inl e, h) \<Rightarrow> failed_answer R d None 502 ''ssh_exec_failed'' (lg\<lparr>lg_ssh := h\<rparr>)
      | (Inr result, h) \<Rightarrow> executed_answer R d result (lg\<lparr>lg_ssh := h\<rparr>))"

subsection \<open>The OAuth branch\<close>

definition out_of_scope :: "proxy_run \<Rightarrow> proxy_log \<Rightarrow> answer" where
  "out_of_scope R lg =
     rbind (lift_canon (canonicalize (e_nfc (rn_env R)) (JObj (requestObj (rn_request R))))) (\<lambda>t.
       let receipt = sha256Hex (rn_env R) (''proxy-out-of-scope|'' @ rq_command (rn_request R) @ ''|'' @ t)
       in rbind (fireSpan R receipt tool_denied None (Some ''resource_out_of_scope'') JUndef lg) (\<lambda>lg1.
            Inr (Proxy_denied 403 (deny_decision D_resource_out_of_scope receipt) ''resource_out_of_scope'', lg1)))"

definition called :: "ProviderApiConfig \<Rightarrow> string \<Rightarrow> ApiCall \<Rightarrow> proxy_log \<Rightarrow> proxy_log" where
  "called cfg accessToken call lg = lg\<lparr>lg_calls := lg_calls lg @ [upstream_request cfg accessToken call]\<rparr>"

definition upstream_answer :: "proxy_run \<Rightarrow> AuthorizeDecision \<Rightarrow> ProxyResponse \<Rightarrow> proxy_log \<Rightarrow> answer" where
  "upstream_answer R d up lg =
     (case sanitizeResponseBody (ps_body up) (map_of (ps_headers up) ''content-type'') of
        (body, redactions) \<Rightarrow>
          rbind (fireSpan R (d_receiptId d) (if ps_status up \<ge> 400 then tool_failed else tool_allowed) (Some (ps_status up))
                   None body lg) (\<lambda>lg1.
            Inr (Proxy_upstream d (ps_status up) body redactions, lg1)))"

text \<open>Status 401 with a way to refresh: one more call with the new token.\<close>

definition retried :: "proxy_run \<Rightarrow> AuthorizeDecision \<Rightarrow> string \<Rightarrow> ProviderApiConfig \<Rightarrow> ProxyResponse \<Rightarrow> proxy_log \<Rightarrow> answer" where
  "retried R d connectionId cfg up lg =
     (case (if ps_status up = 401 then pd_refreshOAuthToken (rn_deps R) else None) of
        None \<Rightarrow> upstream_answer R d up lg
      | Some refresh \<Rightarrow>
          (case refresh (rn_customer R) connectionId of
             Inl e \<Rightarrow> failed_answer R d (Some 502) 502 ''oauth_token_invalid'' lg
           | Inr token \<Rightarrow>
               (let lg1 = called cfg (ot_accessToken token) (rn_call R) lg
                in case proxyApiCall (rn_env R) (pd_fetch (rn_deps R) 1) cfg (ot_accessToken token) (rn_call R) of
                     Inl e \<Rightarrow> failed_answer R d (Some 502) 502 ''oauth_token_invalid'' lg1
                   | Inr up' \<Rightarrow> upstream_answer R d up' lg1)))"

definition oauth_call ::
  "proxy_run \<Rightarrow> AuthorizeDecision \<Rightarrow> string \<Rightarrow> ProviderApiConfig \<Rightarrow> string \<Rightarrow> proxy_log \<Rightarrow> answer" where
  "oauth_call R d connectionId cfg accessToken lg =
     rbind (data_plane_gate (e_nd (rn_env R)) (leaf_meta (rn_leaf R) ''resource_constraint'') (rn_call R)) (\<lambda>g.
       case g of
         Adapter_refused why \<Rightarrow> out_of_scope R lg
       | Adapter_ok \<Rightarrow>
           (let lg1 = called cfg accessToken (rn_call R) lg
            in case proxyApiCall (rn_env R) (pd_fetch (rn_deps R) 0) cfg accessToken (rn_call R) of
                 Inl e \<Rightarrow> failed_answer R d (Some 502) 502 ''upstream_call_failed'' lg1
               | Inr up \<Rightarrow> retried R d connectionId cfg up lg1))"

definition oauth_branch :: "proxy_run \<Rightarrow> AuthorizeDecision \<Rightarrow> proxy_log \<Rightarrow> answer" where
  "oauth_branch R d lg =
     (case leaf_text (rn_leaf R) ''oauth_connection_id'' of
        None \<Rightarrow> Inr (Proxy_failed 400 d ''ucan_missing_oauth_binding'', lg)
      | Some connectionId \<Rightarrow>
          (case pd_fetchOAuthToken (rn_deps R) (rn_customer R) connectionId of
             Inl e \<Rightarrow> failed_answer R d (Some 502) 502 ''oauth_token_fetch_failed'' lg
           | Inr token \<Rightarrow>
               (case (if isKnownProvider (ot_connector token) then map_of PROVIDER_API (ot_connector token) else None) of
                  None \<Rightarrow> failed_answer R d (Some 501) 501 ''connector_not_supported'' lg
                | Some cfg \<Rightarrow> oauth_call R d connectionId cfg (ot_accessToken token) lg)))"

subsection \<open>POST /v1/proxy/:command\<close>

definition execute :: "proxy_run \<Rightarrow> AuthorizeDecision \<Rightarrow> proxy_log \<Rightarrow> answer" where
  "execute R d lg =
     (case leaf_text (rn_leaf R) ''cloud_connection_id'' of
        Some connectionId \<Rightarrow> cloud_branch R d connectionId lg
      | None \<Rightarrow>
          if startsWith (rq_command (rn_request R)) ''/filesystem/'' then filesystem_branch R d lg
          else if startsWith (rq_command (rn_request R)) ''/ssh/'' then ssh_branch R d lg
          else oauth_branch R d lg)"

definition proxy_decided :: "proxy_run \<Rightarrow> AuthorizeDecision \<Rightarrow> proxy_log \<Rightarrow> answer" where
  "proxy_decided R d lg =
     rbind (emit_row R (decision_row R d) lg) (\<lambda>lg1. if d_allow d then execute R d lg1 else denied_answer R d lg1)"

definition proxy_admitted :: "cedar \<Rightarrow> proxy_run \<Rightarrow> revocation_cache \<Rightarrow> string \<Rightarrow> proxy_log \<Rightarrow> answer" where
  "proxy_admitted C R revoked policies lg =
     rbind (proxy_cosigner_step R) (\<lambda>stage.
       case stage of
         Cosigner_stop stop \<Rightarrow> stopped R stop lg
       | Effective r consumed \<Rightarrow>
           (let inp = proxy_decide_input R revoked policies r; E = rn_env R
            in rbind (decide E C (rn_clock R) inp) (\<lambda>d0.
               rbind (detect_stepup E C (rn_clock R) (pd_stepup (rn_deps R)) (rn_customer R) (rn_request R) inp d0)
                 (\<lambda>(d, created). proxy_decided R d (lg\<lparr>lg_consumed := consumed, lg_created := created\<rparr>)))))"

definition proxy_for ::
  "cedar \<Rightarrow> IntegrationPack list \<Rightarrow> proxy_run \<Rightarrow> revocation_cache \<Rightarrow> policy_cache \<Rightarrow> proxy_log \<Rightarrow>
   (exn, (proxy_response \<times> proxy_log) \<times> policy_cache) result" where
  "proxy_for C packs R revoked cache lg =
     rbind (proxy_gates packs R cache) (\<lambda>(g, cache').
       rbind (case g of Stop stop \<Rightarrow> stopped R stop lg | Pass policies \<Rightarrow> proxy_admitted C R revoked policies lg) (\<lambda>a.
         Inr (a, cache')))"

definition empty_log :: "disk \<Rightarrow> history \<Rightarrow> proxy_log" where
  "empty_log disk h =
     \<lparr>lg_audit = [], lg_spans = [], lg_calls = [], lg_cloud = [], lg_consumed = None, lg_created = None, lg_disk = disk,
      lg_ssh = h\<rparr>"

text \<open>The clock of the token checks, and the wall clock when the request came and when it is answered.\<close>

record clocks =
  ck_clock :: int
  ck_started :: int
  ck_now :: int

definition proxy ::
  "env \<Rightarrow> cedar \<Rightarrow> IntegrationPack list \<Rightarrow> clocks \<Rightarrow> ProxyRouteDeps \<Rightarrow> revocation_cache \<Rightarrow> policy_cache \<Rightarrow> disk \<Rightarrow>
   history \<Rightarrow> string \<Rightarrow> http_request \<Rightarrow> (exn, (proxy_response \<times> proxy_log) \<times> policy_cache) result" where
  "proxy E C packs ck deps revoked cache disk h command hr =
     (let refused = (\<lambda>why. Inr ((Proxy_error 400 why, empty_log disk h), cache))
      in case hr_body hr of
           None \<Rightarrow> refused ''invalid JSON body''
         | Some raw \<Rightarrow>
             if \<not> truthy raw then refused ''invalid JSON body''
             else (case parseProxyRequest raw of
                None \<Rightarrow> refused ''invalid request shape''
              | Some body \<Rightarrow>
                  (case parseAuthorizeRequest (pb_request body) of
                     None \<Rightarrow> refused ''invalid authorize request''
                   | Some r \<Rightarrow>
                       (case customer_of (deriveCustomerId E (hr_customer hr) (hd (ucan_list (pb_ucan body)))) of
                          Inl why \<Rightarrow> refused why
                        | Inr customerId \<Rightarrow>
                            if rq_command r \<noteq> command then refused ''request.command does not match URL command''
                            else proxy_for C packs
                              \<lparr>rn_env = E, rn_deps = deps, rn_clock = ck_clock ck, rn_started = ck_started ck,
                               rn_now = ck_now ck, rn_customer = customerId, rn_body = body, rn_request = r\<rparr>
                              revoked cache (empty_log disk h)))))"

end
