(* ===== verification/Proxy_Steps.thy ===== *)
theory Proxy_Steps
  imports Proxy Authorize_Properties
begin

text \<open>
  The steps of the proxy endpoint, inverted: what each branch of the handler changes in the log, what it may
  answer, and the paths a request can take through the gates, the cosigner, the decision and the branches.
\<close>

subsection \<open>What the steps change in the log\<close>

lemma fireSpan_Inr:
  assumes "fireSpan R receipt tool st code body lg = Inr lg'"
  shows "lg_calls lg' = lg_calls lg" "lg_audit lg' = lg_audit lg" "lg_cloud lg' = lg_cloud lg"
    "lg_disk lg' = lg_disk lg" "lg_ssh lg' = lg_ssh lg"
  using assms by (auto simp: fireSpan_def Let_def rbind_Inr_iff split: if_splits)

lemma fireSpan_off: "\<not> pd_emitsSpans (rn_deps R) \<Longrightarrow> fireSpan R receipt tool st code body lg = Inr lg"
  by (simp add: fireSpan_def Let_def)

lemma emit_row_Inr:
  assumes "emit_row R row lg = Inr lg'"
  shows "lg_calls lg' = lg_calls lg" "lg_cloud lg' = lg_cloud lg" "lg_disk lg' = lg_disk lg" "lg_ssh lg' = lg_ssh lg"
    "pd_emitAudit (rn_deps R) = Some f \<Longrightarrow> lg_audit lg' = lg_audit lg @ [row] \<and> f row = Inr ()"
    "pd_emitAudit (rn_deps R) = None \<Longrightarrow> lg' = lg"
  using assms by (auto simp: emit_row_def rbind_Inr_iff split: option.splits)

lemma failed_answer_Inr:
  assumes "failed_answer R d st status code lg = Inr (resp, lg')"
  shows "resp = Proxy_failed status d code" "lg_calls lg' = lg_calls lg" "lg_audit lg' = lg_audit lg"
    "lg_cloud lg' = lg_cloud lg" "lg_disk lg' = lg_disk lg" "lg_ssh lg' = lg_ssh lg"
  using assms by (auto simp: failed_answer_def rbind_Inr_iff dest: fireSpan_Inr)

lemma executed_answer_Inr:
  assumes "executed_answer R d result lg = Inr (resp, lg')"
  shows "resp = Proxy_executed d result" "lg_calls lg' = lg_calls lg" "lg_audit lg' = lg_audit lg"
    "lg_cloud lg' = lg_cloud lg" "lg_disk lg' = lg_disk lg" "lg_ssh lg' = lg_ssh lg"
  using assms by (auto simp: executed_answer_def rbind_Inr_iff dest: fireSpan_Inr)

lemma upstream_answer_Inr:
  assumes "upstream_answer R d up lg = Inr (resp, lg')"
  shows "\<exists>st body red. resp = Proxy_upstream d st body red" "lg_calls lg' = lg_calls lg" "lg_audit lg' = lg_audit lg"
    "lg_cloud lg' = lg_cloud lg" "lg_disk lg' = lg_disk lg" "lg_ssh lg' = lg_ssh lg"
  using assms by (auto simp: upstream_answer_def rbind_Inr_iff dest: fireSpan_Inr split: prod.splits)

lemma out_of_scope_Inr:
  assumes "out_of_scope R lg = Inr (resp, lg')"
  shows "\<exists>receipt. resp = Proxy_denied 403 (deny_decision D_resource_out_of_scope receipt) ''resource_out_of_scope''"
    "lg_calls lg' = lg_calls lg" "lg_audit lg' = lg_audit lg"
    "lg_cloud lg' = lg_cloud lg" "lg_disk lg' = lg_disk lg" "lg_ssh lg' = lg_ssh lg"
  using assms by (auto simp: out_of_scope_def rbind_Inr_iff Let_def dest: fireSpan_Inr)

lemma denied_answer_Inr:
  assumes "denied_answer R d lg = Inr (resp, lg')"
  shows "\<exists>st. resp = Proxy_denied st d ''denied''" "lg_calls lg' = lg_calls lg" "lg_audit lg' = lg_audit lg"
    "lg_cloud lg' = lg_cloud lg" "lg_disk lg' = lg_disk lg" "lg_ssh lg' = lg_ssh lg"
  using assms by (auto simp: denied_answer_def rbind_Inr_iff dest: fireSpan_Inr)

lemma stopped_Inr:
  assumes "stopped R stop lg = Inr (resp, lg')"
  shows "\<exists>receipt. resp = Proxy_denied (st_status stop) (deny_decision (st_reason stop) receipt) (st_code stop)"
    "lg_calls lg' = lg_calls lg" "lg_cloud lg' = lg_cloud lg" "lg_disk lg' = lg_disk lg" "lg_ssh lg' = lg_ssh lg"
proof -
  let ?d = "deny_decision (st_reason stop) (sha256Hex (rn_env R) (st_basis stop))"
  from assms obtain lg1 where a: "(case st_audit stop of None \<Rightarrow> Inr lg | Some did \<Rightarrow> emit_row R (audit_row R ?d did) lg) = Inr lg1"
    and b: "(case st_span stop of None \<Rightarrow> Inr lg1
        | Some code \<Rightarrow> fireSpan R (d_receiptId ?d) tool_denied None (Some code) JUndef lg1) = Inr lg'"
    and r: "resp = Proxy_denied (st_status stop) ?d (st_code stop)"
    by (auto simp: stopped_def Let_def rbind_Inr_iff)
  have same: "lg_calls lg1 = lg_calls lg" "lg_cloud lg1 = lg_cloud lg" "lg_disk lg1 = lg_disk lg" "lg_ssh lg1 = lg_ssh lg"
    using a emit_row_Inr(1-4) by (cases "st_audit stop"; fastforce)+
  show "lg_calls lg' = lg_calls lg" "lg_cloud lg' = lg_cloud lg" "lg_disk lg' = lg_disk lg" "lg_ssh lg' = lg_ssh lg"
    unfolding same [symmetric] using b fireSpan_Inr by (cases "st_span stop"; fastforce)+
  show "\<exists>receipt. resp = Proxy_denied (st_status stop) (deny_decision (st_reason stop) receipt) (st_code stop)"
    using r by blast
qed

text \<open>Nothing was executed in between: no upstream call, no cloud call, disk and remote host as they were.\<close>

definition untouched :: "proxy_log \<Rightarrow> proxy_log \<Rightarrow> bool" where
  "untouched lg lg' \<longleftrightarrow>
     lg_calls lg' = lg_calls lg \<and> lg_cloud lg' = lg_cloud lg \<and> lg_disk lg' = lg_disk lg \<and> lg_ssh lg' = lg_ssh lg"

lemma called_sel [simp]:
  "lg_calls (called cfg tok call lg) = lg_calls lg @ [upstream_request cfg tok call]"
  "lg_audit (called cfg tok call lg) = lg_audit lg" "lg_cloud (called cfg tok call lg) = lg_cloud lg"
  "lg_disk (called cfg tok call lg) = lg_disk lg" "lg_ssh (called cfg tok call lg) = lg_ssh lg"
  by (simp_all add: called_def)

subsection \<open>The calls of the OAuth branch\<close>

definition granted_calls :: "proxy_run \<Rightarrow> UpstreamRequest list \<Rightarrow> bool" where
  "granted_calls R calls \<longleftrightarrow>
     (\<exists>connectionId token cfg.
        leaf_text (rn_leaf R) ''oauth_connection_id'' = Some connectionId \<and>
        pd_fetchOAuthToken (rn_deps R) (rn_customer R) connectionId = Inr token \<and>
        isKnownProvider (ot_connector token) \<and> map_of PROVIDER_API (ot_connector token) = Some cfg \<and>
        data_plane_gate (e_nd (rn_env R)) (leaf_meta (rn_leaf R) ''resource_constraint'') (rn_call R) = Inr Adapter_ok \<and>
        (calls = [upstream_request cfg (ot_accessToken token) (rn_call R)] \<or>
         (\<exists>refresh token'. pd_refreshOAuthToken (rn_deps R) = Some refresh \<and>
            refresh (rn_customer R) connectionId = Inr token' \<and>
            calls = [upstream_request cfg (ot_accessToken token) (rn_call R),
                     upstream_request cfg (ot_accessToken token') (rn_call R)])))"

text \<open>The answers that carry the decision as it was made.\<close>

fun answered_with :: "proxy_response \<Rightarrow> AuthorizeDecision \<Rightarrow> bool" where
  "answered_with (Proxy_failed st d code) d' \<longleftrightarrow> d = d'"
| "answered_with (Proxy_executed d v) d' \<longleftrightarrow> d = d'"
| "answered_with (Proxy_upstream d st v red) d' \<longleftrightarrow> d = d'"
| "answered_with _ d' \<longleftrightarrow> False"

lemma retried_Inr:
  assumes "retried R d connectionId cfg up lg = Inr (resp, lg')"
  shows "lg_audit lg' = lg_audit lg"
    "lg_calls lg' = lg_calls lg \<or>
     (\<exists>refresh token'. pd_refreshOAuthToken (rn_deps R) = Some refresh \<and> refresh (rn_customer R) connectionId = Inr token' \<and>
        lg_calls lg' = lg_calls lg @ [upstream_request cfg (ot_accessToken token') (rn_call R)])"
    "answered_with resp d"
proof -
  consider (plain) "upstream_answer R d up lg = Inr (resp, lg')"
    | (norefresh) "failed_answer R d (Some 502) 502 ''oauth_token_invalid'' lg = Inr (resp, lg')"
    | (again) refresh token' where "pd_refreshOAuthToken (rn_deps R) = Some refresh" "refresh (rn_customer R) connectionId = Inr token'"
        "failed_answer R d (Some 502) 502 ''oauth_token_invalid'' (called cfg (ot_accessToken token') (rn_call R) lg) = Inr (resp, lg') \<or>
         (\<exists>up'. upstream_answer R d up' (called cfg (ot_accessToken token') (rn_call R) lg) = Inr (resp, lg'))"
    using assms by (fastforce simp: retried_def Let_def split: option.splits sum.splits if_splits)
  note cs = this
  show "lg_audit lg' = lg_audit lg"
    using cs by cases (auto dest: failed_answer_Inr upstream_answer_Inr)
  show "lg_calls lg' = lg_calls lg \<or>
     (\<exists>refresh token'. pd_refreshOAuthToken (rn_deps R) = Some refresh \<and> refresh (rn_customer R) connectionId = Inr token' \<and>
        lg_calls lg' = lg_calls lg @ [upstream_request cfg (ot_accessToken token') (rn_call R)])"
    using cs by cases (auto dest: failed_answer_Inr upstream_answer_Inr)
  show "answered_with resp d"
    using cs by cases (auto dest: failed_answer_Inr(1) upstream_answer_Inr(1))
qed

lemma oauth_call_Inr:
  assumes "oauth_call R d connectionId cfg tok lg = Inr (resp, lg')"
  obtains (outside) why where
      "data_plane_gate (e_nd (rn_env R)) (leaf_meta (rn_leaf R) ''resource_constraint'') (rn_call R) = Inr (Adapter_refused why)"
      "out_of_scope R lg = Inr (resp, lg')"
  | (inside)
      "data_plane_gate (e_nd (rn_env R)) (leaf_meta (rn_leaf R) ''resource_constraint'') (rn_call R) = Inr Adapter_ok"
      "lg_audit lg' = lg_audit lg" "answered_with resp d"
      "lg_calls lg' = lg_calls lg @ [upstream_request cfg tok (rn_call R)] \<or>
       (\<exists>refresh token'. pd_refreshOAuthToken (rn_deps R) = Some refresh \<and> refresh (rn_customer R) connectionId = Inr token' \<and>
          lg_calls lg' = lg_calls lg @ [upstream_request cfg tok (rn_call R), upstream_request cfg (ot_accessToken token') (rn_call R)])"
proof -
  from assms obtain g where g: "data_plane_gate (e_nd (rn_env R)) (leaf_meta (rn_leaf R) ''resource_constraint'') (rn_call R) = Inr g"
    by (auto simp: oauth_call_def rbind_Inr_iff)
  show ?thesis
  proof (cases g)
    case (Adapter_refused why)
    with assms g outside show ?thesis by (simp add: oauth_call_def)
  next
    case Adapter_ok
    let ?lg = "called cfg tok (rn_call R) lg"
    from assms g Adapter_ok consider (failed) "failed_answer R d (Some 502) 502 ''upstream_call_failed'' ?lg = Inr (resp, lg')"
      | (fetched) up where "retried R d connectionId cfg up ?lg = Inr (resp, lg')"
      by (auto simp: oauth_call_def Let_def split: sum.splits)
    then show ?thesis
    proof cases
      case failed
      from failed_answer_Inr [OF failed] inside g Adapter_ok show ?thesis by simp
    next
      case fetched
      from retried_Inr [OF fetched] inside g Adapter_ok show ?thesis by auto
    qed
  qed
qed

lemma oauth_branch_Inr:
  assumes "oauth_branch R d lg = Inr (resp, lg')"
  shows "lg_audit lg' = lg_audit lg"
    "lg_calls lg' = lg_calls lg \<or> (\<exists>calls. granted_calls R calls \<and> lg_calls lg' = lg_calls lg @ calls)"
    "answered_with resp d \<or>
     (\<exists>receipt. resp = Proxy_denied 403 (deny_decision D_resource_out_of_scope receipt) ''resource_out_of_scope'')"
proof -
  consider (unbound) "resp = Proxy_failed 400 d ''ucan_missing_oauth_binding''" "lg' = lg"
    | (failed) st code where "failed_answer R d (Some st) st code lg = Inr (resp, lg')"
    | (call) connectionId token cfg where "leaf_text (rn_leaf R) ''oauth_connection_id'' = Some connectionId"
        "pd_fetchOAuthToken (rn_deps R) (rn_customer R) connectionId = Inr token" "isKnownProvider (ot_connector token)"
        "map_of PROVIDER_API (ot_connector token) = Some cfg"
        "oauth_call R d connectionId cfg (ot_accessToken token) lg = Inr (resp, lg')"
  proof (cases "leaf_text (rn_leaf R) ''oauth_connection_id''")
    case None
    with assms unbound show ?thesis by (simp add: oauth_branch_def)
  next
    case (Some connectionId)
    note leaf = this
    show ?thesis
    proof (cases "pd_fetchOAuthToken (rn_deps R) (rn_customer R) connectionId")
      case (Inl e)
      with assms leaf failed show ?thesis by (simp add: oauth_branch_def)
    next
      case (Inr token)
      show ?thesis
      proof (cases "isKnownProvider (ot_connector token)")
        case True
        with known_provider_config obtain cfg where "map_of PROVIDER_API (ot_connector token) = Some cfg" by blast
        with assms leaf Inr True call show ?thesis by (simp add: oauth_branch_def)
      next
        case False
        with assms leaf Inr failed show ?thesis by (simp add: oauth_branch_def)
      qed
    qed
  qed
  then have "lg_audit lg' = lg_audit lg \<and>
    (lg_calls lg' = lg_calls lg \<or> (\<exists>calls. granted_calls R calls \<and> lg_calls lg' = lg_calls lg @ calls)) \<and>
    (answered_with resp d \<or>
     (\<exists>receipt. resp = Proxy_denied 403 (deny_decision D_resource_out_of_scope receipt) ''resource_out_of_scope''))"
  proof cases
    case unbound
    then show ?thesis by simp
  next
    case (failed st code)
    from failed_answer_Inr [OF failed] show ?thesis by simp
  next
    case (call connectionId token cfg)
    from call(5) show ?thesis
    proof (cases rule: oauth_call_Inr)
      case (outside why)
      from out_of_scope_Inr [OF outside(2)] show ?thesis by auto
    next
      case inside
      with call(1-4) show ?thesis unfolding granted_calls_def by blast
    qed
  qed
  then show "lg_audit lg' = lg_audit lg"
    "lg_calls lg' = lg_calls lg \<or> (\<exists>calls. granted_calls R calls \<and> lg_calls lg' = lg_calls lg @ calls)"
    "answered_with resp d \<or>
     (\<exists>receipt. resp = Proxy_denied 403 (deny_decision D_resource_out_of_scope receipt) ''resource_out_of_scope'')"
    by blast+
qed

subsection \<open>The other branches\<close>

lemma cloud_failed_Inr:
  assumes "cloud_failed R d connectionId lg err = Inr (resp, lg')"
  shows "lg_calls lg' = lg_calls lg" "\<exists>rows. lg_audit lg' = lg_audit lg @ rows" "answered_with resp d"
proof -
  have "lg_calls lg' = lg_calls lg \<and> (\<exists>rows. lg_audit lg' = lg_audit lg @ rows) \<and> answered_with resp d"
  proof (cases err)
    case (Cloud_threw e)
    with assms failed_answer_Inr show ?thesis by (fastforce simp: cloud_failed_def)
  next
    case (CloudCallError ps body again)
    from assms obtain lg1 st status where e: "emit_row R (cloud_failed_row R connectionId ps again) lg = Inr lg1"
      and f: "failed_answer R d (Some st) status ''cloud_call_failed'' lg1 = Inr (resp, lg')"
      by (auto simp: cloud_failed_def CloudCallError rbind_Inr_iff)
    from emit_row_Inr(5,6) [OF e] have "\<exists>rows. lg_audit lg1 = lg_audit lg @ rows"
      by (cases "pd_emitAudit (rn_deps R)") auto
    with failed_answer_Inr [OF f] emit_row_Inr(1) [OF e] show ?thesis by simp
  qed
  then show "lg_calls lg' = lg_calls lg" "\<exists>rows. lg_audit lg' = lg_audit lg @ rows" "answered_with resp d" by blast+
qed

lemma cloud_done_Inr:
  assumes "cloud_done R d connectionId lg up = Inr (resp, lg')"
  shows "lg_calls lg' = lg_calls lg" "\<exists>rows. lg_audit lg' = lg_audit lg @ rows" "answered_with resp d"
proof -
  let ?row = "cloud_done_row R connectionId up"
  let ?shown = "sanitize_result (sanitizeResponseBody (cl_body up) (as_string (jget (cl_headers up) ''content-type'')))"
  let ?tool = "if status_ok (cl_status up) then tool_allowed else tool_failed"
  have "lg_calls lg' = lg_calls lg \<and> (\<exists>rows. lg_audit lg' = lg_audit lg @ rows) \<and> answered_with resp d"
  proof (cases "emit_row R ?row lg")
    case (Inl e)
    with assms have "failed_answer R d (Some 502) 502 ''cloud_call_failed'' lg = Inr (resp, lg')"
      by (simp add: cloud_done_def Let_def)
    from failed_answer_Inr [OF this] show ?thesis by simp
  next
    case (Inr lg1)
    from emit_row_Inr(5,6) [OF Inr] have rows: "\<exists>rows. lg_audit lg1 = lg_audit lg @ rows"
      by (cases "pd_emitAudit (rn_deps R)") auto
    show ?thesis
    proof (cases "fireSpan R (d_receiptId d) ?tool (Some (cl_status up)) None ?shown lg1")
      case (Inl e)
      with assms Inr have "failed_answer R d (Some 502) 502 ''cloud_call_failed'' lg1 = Inr (resp, lg')"
        by (simp add: cloud_done_def Let_def)
      from failed_answer_Inr [OF this] rows emit_row_Inr(1) [OF Inr] show ?thesis by simp
    next
      case (Inr lg2)
      with assms \<open>emit_row R ?row lg = Inr lg1\<close> have "lg' = lg2" "resp = Proxy_upstream d (cl_status up) ?shown []"
        by (simp_all add: cloud_done_def Let_def)
      with fireSpan_Inr [OF Inr] rows emit_row_Inr(1) [OF \<open>emit_row R ?row lg = Inr lg1\<close>] show ?thesis by simp
    qed
  qed
  then show "lg_calls lg' = lg_calls lg" "\<exists>rows. lg_audit lg' = lg_audit lg @ rows" "answered_with resp d" by blast+
qed

lemma cloud_branch_cases:
  assumes "cloud_branch R d connectionId lg = Inr (resp, lg')"
  obtains (failed) "failed_answer R d (Some 501) 501 ''cloud_proxy_disabled'' lg = Inr (resp, lg')"
  | (nobody) "resp = Proxy_failed 400 d ''missing_agent_id''" "lg' = lg"
  | (forced) "shouldForceStepUp d (rn_request R)"
      "fireSpan R (d_receiptId d) tool_denied (Some 403) (Some ''cosigner_required'') JUndef lg = Inr lg'"
      "resp = Proxy_denied 403 (d\<lparr>d_allow := False, d_requiresStepUp := Some True, d_reason := None\<rparr>) ''cosigner_required''"
  | (made) ctx lg1 where "\<not> shouldForceStepUp d (rn_request R)" "lg1 = lg\<lparr>lg_cloud := lg_cloud lg @ [(connectionId, ctx)]\<rparr>"
      "(\<exists>err. cloud_failed R d connectionId lg1 err = Inr (resp, lg')) \<or> (\<exists>up. cloud_done R d connectionId lg1 up = Inr (resp, lg'))"
proof (cases "pd_cloud (rn_deps R)")
  case None
  with assms failed show ?thesis by (simp add: cloud_branch_def)
next
  case (Some deps)
  note cloud = this
  show ?thesis
  proof (cases "nonempty (extractAgentId (rn_env R) (leaf_jwt R))")
    case None
    with assms cloud nobody show ?thesis by (simp add: cloud_branch_def)
  next
    case (Some agentId)
    from assms cloud Some obtain ucanCid where cid: "leaf_cid R = Inr ucanCid"
      by (auto simp: cloud_branch_def rbind_Inr_iff)
    note run = assms [unfolded cloud_branch_def cloud option.case Some cid rbind.simps]
    show ?thesis
    proof (cases "shouldForceStepUp d (rn_request R)")
      case True
      with run forced show ?thesis by (auto simp: rbind_Inr_iff)
    next
      case False
      let ?ctx = "cloud_context R agentId ucanCid"
      from run False made [OF False refl, of ?ctx] show ?thesis
        by (cases "cloudApiCall (rn_env R) deps connectionId ?ctx (rn_call R)") (auto simp: Let_def)
    qed
  qed
qed

lemma cloud_branch_Inr:
  assumes "cloud_branch R d connectionId lg = Inr (resp, lg')"
  shows "lg_calls lg' = lg_calls lg" "\<exists>rows. lg_audit lg' = lg_audit lg @ rows"
    "answered_with resp d \<or> (\<exists>d'. resp = Proxy_denied 403 d' ''cosigner_required'')"
proof -
  have "lg_calls lg' = lg_calls lg \<and> (\<exists>rows. lg_audit lg' = lg_audit lg @ rows) \<and>
    (answered_with resp d \<or> (\<exists>d'. resp = Proxy_denied 403 d' ''cosigner_required''))"
    using assms
  proof (cases rule: cloud_branch_cases)
    case failed
    from failed_answer_Inr [OF failed] show ?thesis by simp
  next
    case nobody
    then show ?thesis by simp
  next
    case forced
    from fireSpan_Inr [OF forced(2)] forced(3) show ?thesis by simp
  next
    case (made ctx lg1)
    have same: "lg_calls lg1 = lg_calls lg" "lg_audit lg1 = lg_audit lg" by (simp_all add: made(2))
    from made(3) show ?thesis
    proof
      assume "\<exists>err. cloud_failed R d connectionId lg1 err = Inr (resp, lg')"
      then obtain err where "cloud_failed R d connectionId lg1 err = Inr (resp, lg')" ..
      from cloud_failed_Inr [OF this] same show ?thesis by simp
    next
      assume "\<exists>up. cloud_done R d connectionId lg1 up = Inr (resp, lg')"
      then obtain up where "cloud_done R d connectionId lg1 up = Inr (resp, lg')" ..
      from cloud_done_Inr [OF this] same show ?thesis by simp
    qed
  qed
  then show "lg_calls lg' = lg_calls lg" "\<exists>rows. lg_audit lg' = lg_audit lg @ rows"
    "answered_with resp d \<or> (\<exists>d'. resp = Proxy_denied 403 d' ''cosigner_required'')" by blast+
qed

lemma filesystem_branch_Inr:
  assumes "filesystem_branch R d lg = Inr (resp, lg')"
  shows "lg_calls lg' = lg_calls lg \<and> lg_audit lg' = lg_audit lg \<and> lg_cloud lg' = lg_cloud lg \<and> answered_with resp d"
proof (cases "executeFilesystemCommand (e_nd (rn_env R)) (sv_node (pd_ssh (rn_deps R))) (lg_disk lg) (rn_call R)
    (leaf_meta (rn_leaf R) ''resource_constraint'')")
  case (Inl e)
  with assms have "failed_answer R d None 502 ''filesystem_exec_failed'' lg = Inr (resp, lg')"
    by (simp add: filesystem_branch_def)
  from failed_answer_Inr [OF this] show ?thesis by simp
next
  case (Inr x)
  with assms have "executed_answer R d (fst x) (lg\<lparr>lg_disk := snd x\<rparr>) = Inr (resp, lg')"
    by (simp add: filesystem_branch_def split: prod.splits)
  from executed_answer_Inr [OF this] show ?thesis by simp
qed

lemma ssh_branch_Inr:
  assumes "ssh_branch R d lg = Inr (resp, lg')"
  shows "lg_calls lg' = lg_calls lg \<and> lg_audit lg' = lg_audit lg \<and> lg_cloud lg' = lg_cloud lg \<and> answered_with resp d"
proof -
  obtain r h where run: "executeSshCommand (e_nd (rn_env R)) (pd_ssh (rn_deps R)) (rn_call R)
      (leaf_meta (rn_leaf R) ''resource_constraint'') (lg_ssh lg) = (r, h)" by fastforce
  show ?thesis
  proof (cases r)
    case (Inl e)
    with assms run have "failed_answer R d None 502 ''ssh_exec_failed'' (lg\<lparr>lg_ssh := h\<rparr>) = Inr (resp, lg')"
      by (simp add: ssh_branch_def)
    from failed_answer_Inr [OF this] show ?thesis by simp
  next
    case (Inr result)
    with assms run have "executed_answer R d result (lg\<lparr>lg_ssh := h\<rparr>) = Inr (resp, lg')"
      by (simp add: ssh_branch_def)
    from executed_answer_Inr [OF this] show ?thesis by simp
  qed
qed

lemma execute_Inr:
  assumes "execute R d lg = Inr (resp, lg')"
  shows "lg_calls lg' = lg_calls lg \<or> (\<exists>calls. granted_calls R calls \<and> lg_calls lg' = lg_calls lg @ calls)"
    "\<exists>rows. lg_audit lg' = lg_audit lg @ rows"
    "leaf_text (rn_leaf R) ''cloud_connection_id'' = None \<Longrightarrow> lg_audit lg' = lg_audit lg"
    "answered_with resp d \<or> (\<exists>d'. resp = Proxy_denied 403 d' ''cosigner_required'') \<or>
     (\<exists>receipt. resp = Proxy_denied 403 (deny_decision D_resource_out_of_scope receipt) ''resource_out_of_scope'')"
proof -
  consider (cloud) connectionId where "leaf_text (rn_leaf R) ''cloud_connection_id'' = Some connectionId"
      "cloud_branch R d connectionId lg = Inr (resp, lg')"
    | (disk) "leaf_text (rn_leaf R) ''cloud_connection_id'' = None" "filesystem_branch R d lg = Inr (resp, lg')"
    | (shell) "leaf_text (rn_leaf R) ''cloud_connection_id'' = None" "ssh_branch R d lg = Inr (resp, lg')"
    | (oauth) "leaf_text (rn_leaf R) ''cloud_connection_id'' = None" "oauth_branch R d lg = Inr (resp, lg')"
    using assms
    by (cases "leaf_text (rn_leaf R) ''cloud_connection_id''")
      (simp_all add: execute_def split: if_splits)
  then have "(lg_calls lg' = lg_calls lg \<or> (\<exists>calls. granted_calls R calls \<and> lg_calls lg' = lg_calls lg @ calls)) \<and>
    (\<exists>rows. lg_audit lg' = lg_audit lg @ rows) \<and>
    (leaf_text (rn_leaf R) ''cloud_connection_id'' = None \<longrightarrow> lg_audit lg' = lg_audit lg) \<and>
    (answered_with resp d \<or> (\<exists>d'. resp = Proxy_denied 403 d' ''cosigner_required'') \<or>
     (\<exists>receipt. resp = Proxy_denied 403 (deny_decision D_resource_out_of_scope receipt) ''resource_out_of_scope''))"
  proof cases
    case (cloud connectionId)
    from cloud_branch_Inr [OF cloud(2)] cloud(1) show ?thesis by auto
  next
    case disk
    from filesystem_branch_Inr [OF disk(2)] show ?thesis by simp
  next
    case shell
    from ssh_branch_Inr [OF shell(2)] show ?thesis by simp
  next
    case oauth
    from oauth_branch_Inr [OF oauth(2)] show ?thesis by (simp, blast)
  qed
  then show "lg_calls lg' = lg_calls lg \<or> (\<exists>calls. granted_calls R calls \<and> lg_calls lg' = lg_calls lg @ calls)"
    "\<exists>rows. lg_audit lg' = lg_audit lg @ rows"
    "leaf_text (rn_leaf R) ''cloud_connection_id'' = None \<Longrightarrow> lg_audit lg' = lg_audit lg"
    "answered_with resp d \<or> (\<exists>d'. resp = Proxy_denied 403 d' ''cosigner_required'') \<or>
     (\<exists>receipt. resp = Proxy_denied 403 (deny_decision D_resource_out_of_scope receipt) ''resource_out_of_scope'')"
    by blast+
qed

text \<open>A denial during the execution comes before anything is executed, and adds no row.\<close>

lemma execute_refused:
  assumes "execute R d lg = Inr (Proxy_denied st d' code, lg')"
  shows "untouched lg lg' \<and> lg_audit lg' = lg_audit lg"
proof -
  let ?resp = "Proxy_denied st d' code"
  consider (cloud) connectionId where "cloud_branch R d connectionId lg = Inr (?resp, lg')"
    | (disk) "filesystem_branch R d lg = Inr (?resp, lg')"
    | (shell) "ssh_branch R d lg = Inr (?resp, lg')"
    | (oauth) "oauth_branch R d lg = Inr (?resp, lg')"
    using assms by (auto simp: execute_def split: option.splits if_splits)
  then show ?thesis
  proof cases
    case (cloud connectionId)
    then show ?thesis
    proof (cases rule: cloud_branch_cases)
      case failed
      from failed_answer_Inr(1) [OF failed] show ?thesis by simp
    next
      case forced
      from fireSpan_Inr [OF forced(2)] show ?thesis by (simp add: untouched_def)
    next
      case (made ctx lg1)
      from made(3) cloud_failed_Inr(3) cloud_done_Inr(3) show ?thesis by fastforce
    qed simp
  next
    case disk
    from filesystem_branch_Inr [OF disk] show ?thesis by simp
  next
    case shell
    from ssh_branch_Inr [OF shell] show ?thesis by simp
  next
    case oauth
    then consider (failed) st code where "failed_answer R d (Some st) st code lg = Inr (?resp, lg')"
      | (call) connectionId cfg tok where "oauth_call R d connectionId cfg tok lg = Inr (?resp, lg')"
      by (auto simp: oauth_branch_def split: option.splits sum.splits)
    then show ?thesis
    proof cases
      case (failed st code)
      from failed_answer_Inr(1) [OF failed] show ?thesis by simp
    next
      case (call connectionId cfg tok)
      then show ?thesis
      proof (cases rule: oauth_call_Inr)
        case (outside why)
        from out_of_scope_Inr [OF outside(2)] show ?thesis by (simp add: untouched_def)
      qed simp
    qed
  qed
qed

subsection \<open>The paths of the handler\<close>

lemma proxy_cases:
  assumes "proxy E C packs ck deps revoked cache disk h command hr = Inr ((resp, lg), cache')"
  obtains (refused) why where "resp = Proxy_error 400 why" "lg = empty_log disk h" "cache' = cache"
  | (run) raw body r R where "hr_body hr = Some raw" "parseProxyRequest raw = Some body"
      "parseAuthorizeRequest (pb_request body) = Some r" "rq_command r = command"
      "customer_of (deriveCustomerId E (hr_customer hr) (hd (ucan_list (pb_ucan body)))) = Inr (rn_customer R)"
      "R = \<lparr>rn_env = E, rn_deps = deps, rn_clock = ck_clock ck, rn_started = ck_started ck, rn_now = ck_now ck,
            rn_customer = rn_customer R, rn_body = body, rn_request = r\<rparr>"
      "proxy_for C packs R revoked cache (empty_log disk h) = Inr ((resp, lg), cache')"
proof (cases "hr_body hr")
  case None
  with assms refused show ?thesis by (auto simp: proxy_def Let_def)
next
  case (Some raw)
  note body = this
  show ?thesis
  proof (cases "truthy raw")
    case False
    with assms body refused show ?thesis by (auto simp: proxy_def Let_def)
  next
    case True
    note raw = this
    show ?thesis
    proof (cases "parseProxyRequest raw")
      case None
      with assms body raw refused show ?thesis by (auto simp: proxy_def Let_def)
    next
      case (Some b)
      note b = this
      show ?thesis
      proof (cases "parseAuthorizeRequest (pb_request b)")
        case None
        with assms body raw b refused show ?thesis by (auto simp: proxy_def Let_def)
      next
        case (Some r)
        note r = this
        show ?thesis
        proof (cases "customer_of (deriveCustomerId E (hr_customer hr) (hd (ucan_list (pb_ucan b))))")
          case (Inl why)
          with assms body raw b r refused show ?thesis by (auto simp: proxy_def Let_def)
        next
          case (Inr c)
          let ?R = "\<lparr>rn_env = E, rn_deps = deps, rn_clock = ck_clock ck, rn_started = ck_started ck,
            rn_now = ck_now ck, rn_customer = c, rn_body = b, rn_request = r\<rparr>"
          show ?thesis
          proof (cases "rq_command r = command")
            case False
            with assms body raw b r Inr refused show ?thesis by (auto simp: proxy_def Let_def)
          next
            case True
            with assms body raw b r Inr have "proxy_for C packs ?R revoked cache (empty_log disk h) = Inr ((resp, lg), cache')"
              by (simp add: proxy_def Let_def)
            with run [of raw b r ?R] body b r True Inr show ?thesis by simp
          qed
        qed
      qed
    qed
  qed
qed

lemma call_gate_pass:
  assumes "call_gate packs R policies = Inr (Pass policies')"
  shows "policies' = policies" "validateApiCall packs (rq_command (rn_request R)) (JObj (call_obj (rn_call R))) = VOk"
    "validateResource packs (rq_command (rn_request R)) (JObj (rq_resource (rn_request R))) = VOk"
    "validateResourceConsistency packs (rq_command (rn_request R)) (rq_resource (rn_request R)) (rn_call R) = Inr ConsistencyOk"
proof -
  let ?api = "validateApiCall packs (rq_command (rn_request R)) (JObj (call_obj (rn_call R)))"
  let ?res = "validateResource packs (rq_command (rn_request R)) (JObj (rq_resource (rn_request R)))"
  have api: "?api = VOk" using assms by (auto simp: call_gate_def Let_def split: ValidateResult.splits)
  moreover have res: "?res = VOk" using assms api by (auto simp: call_gate_def Let_def split: if_splits)
  moreover obtain c where c: "validateResourceConsistency packs (rq_command (rn_request R)) (rq_resource (rn_request R))
      (rn_call R) = Inr c"
    using assms api res by (auto simp: call_gate_def Let_def rbind_Inr_iff)
  ultimately show "policies' = policies" "?api = VOk" "?res = VOk"
    "validateResourceConsistency packs (rq_command (rn_request R)) (rq_resource (rn_request R)) (rn_call R) = Inr ConsistencyOk"
    using assms by (cases c; simp add: call_gate_def Let_def)+
qed

lemma proxy_gates_pass:
  assumes "proxy_gates packs R cache = Inr (Pass policies, cache')"
  shows "isKnownCommand packs (rq_command (rn_request R))" "getPolicies cache' (rn_customer R) = Some policies"
    "cache' = proxy_refreshed (rn_deps R) (rn_customer R) cache" "call_gate packs R policies = Inr (Pass policies)"
proof -
  let ?cache = "proxy_refreshed (rn_deps R) (rn_customer R) cache"
  show known: "isKnownCommand packs (rq_command (rn_request R))"
    using assms by (auto simp: proxy_gates_def Let_def split: if_splits)
  with assms obtain p where p: "getPolicies ?cache (rn_customer R) = Some p"
    by (auto simp: proxy_gates_def Let_def split: option.splits)
  from assms known p have g: "call_gate packs R p = Inr (Pass policies)" "cache' = ?cache"
    by (auto simp: proxy_gates_def Let_def rbind_Inr_iff)
  with call_gate_pass(1) [OF g(1)] p show "getPolicies cache' (rn_customer R) = Some policies" "cache' = ?cache"
    "call_gate packs R policies = Inr (Pass policies)" by auto
qed

definition approval_in_force :: "proxy_run \<Rightarrow> bool" where
  "approval_in_force R \<longleftrightarrow>
     (\<exists>jwt f a p resp. rq_cosignerJwt (rn_request R) = Some jwt \<and>
        Option.bind (pd_stepup (rn_deps R)) sp_fetchApproval = Some f \<and>
        validateUcan (rn_env R) (rn_clock R) jwt (cosigner_options (cosigner_input (rn_request R) jwt)) = Valid p \<and>
        meta_string ''cosigner_for'' p = Some (computeCid (rn_env R) (rq_ucan (rn_request R))) \<and>
        meta_string ''approval_id'' p = Some a \<and>
        f a = Inr (Some resp) \<and> su_state resp = ''approved'' \<and> su_cosignerAttestationJwt resp = Some jwt \<and>
        (\<forall>consume. Option.bind (pd_stepup (rn_deps R)) sp_consumeApproval = Some consume \<longrightarrow>
           consume a = Inr True))"

lemma proxy_cosigner_Inr:
  assumes "proxy_cosigner_step R = Inr (Effective r used)"
  shows "r = rn_request R \<and> used = None \<and> (rq_cosignerJwt (rn_request R) = None \<or>
      Option.bind (pd_stepup (rn_deps R)) sp_fetchApproval = None) \<or>
    r = with_cosigner (rn_request R) \<and> approval_in_force R"
proof (cases "rq_cosignerJwt (rn_request R) = None \<or> Option.bind (pd_stepup (rn_deps R)) sp_fetchApproval = None")
  case True
  with assms show ?thesis by (auto simp: proxy_cosigner_step_def Let_def split: option.splits)
next
  case False
  then obtain jwt f where jf: "rq_cosignerJwt (rn_request R) = Some jwt"
    "Option.bind (pd_stepup (rn_deps R)) sp_fetchApproval = Some f" by auto
  let ?in = "cosigner_input (rn_request R) jwt"
  obtain v where v: "validateCosigner (rn_env R) (rn_clock R) f ?in = Inr v"
    using assms by (auto simp: proxy_cosigner_step_def Let_def jf rbind_Inr_iff)
  note step = assms [unfolded proxy_cosigner_step_def Let_def jf prod.case option.case v rbind.simps]
  show ?thesis
  proof (cases v)
    case (CosignerErr why)
    with step show ?thesis by (auto simp: rbind_Inr_iff)
  next
    case (CosignerOk a)
    have ok: "r = with_cosigner (rn_request R) \<and>
        (\<forall>consume. Option.bind (pd_stepup (rn_deps R)) sp_consumeApproval = Some consume \<longrightarrow> consume a = Inr True \<and> used = Some a)"
      using step CosignerOk
      by (cases "Option.bind (pd_stepup (rn_deps R)) sp_consumeApproval") (auto simp: rbind_Inr_iff split: if_splits)
    have "approval_in_force R"
    proof (rule validateCosigner_ok [OF v [unfolded CosignerOk]])
      fix u q resp
      assume "validateUcan (rn_env R) (rn_clock R) (vc_cosignerJwt ?in) (cosigner_options ?in) = Valid q"
        "meta_string ''cosigner_for'' q = Some (computeCid (rn_env R) (vc_requestUcan ?in))"
        "meta_string ''approval_id'' q = Some a" "f a = Inr (Some resp)" "su_state resp = ''approved''"
        "su_cosignerAttestationJwt resp = Some (vc_cosignerJwt ?in)"
      then show ?thesis
        unfolding approval_in_force_def using jf ok by (simp add: cosigner_input_def)
    qed
    with ok show ?thesis by simp
  qed
qed

text \<open>The gates refuse with codes of their own, and leave an audit row unless the command is unknown.\<close>

definition proper_stop :: "proxy_stop \<Rightarrow> bool" where
  "proper_stop stop \<longleftrightarrow>
     st_code stop \<in> {''unknown_command'', ''unknown_customer'', ''schema_missing'', ''schema_violation'',
       ''resource_mismatch'', ''cosigner_expired'', ''cosigner_invalid'', ''cosigner_already_used''} \<and>
     (st_audit stop = None \<longleftrightarrow> st_code stop = ''unknown_command'')"

lemma gate_stop_proper:
  assumes "proxy_gates packs R cache = Inr (Stop stop, cache')"
  shows "proper_stop stop"
proof (cases "isKnownCommand packs (rq_command (rn_request R))")
  case False
  with assms have "stop = unknown_command_stop (rq_command (rn_request R))" by (simp add: proxy_gates_def Let_def)
  then show ?thesis by (simp add: proper_stop_def unknown_command_stop_def)
next
  case True
  show ?thesis
  proof (cases "getPolicies (proxy_refreshed (rn_deps R) (rn_customer R) cache) (rn_customer R)")
    case None
    with assms True have "stop = unknown_customer_stop R" by (simp add: proxy_gates_def Let_def)
    then show ?thesis by (simp add: proper_stop_def unknown_customer_stop_def)
  next
    case (Some policies)
    with assms True have g: "call_gate packs R policies = Inr (Stop stop)"
      by (auto simp: proxy_gates_def Let_def rbind_Inr_iff)
    then have "(\<exists>why code basis. stop = schema_stop R why code basis \<and> code \<in> {''schema_missing'', ''schema_violation''}) \<or>
        (\<exists>k x y. stop = mismatch_stop R k x y)"
      by (auto simp: call_gate_def Let_def rbind_Inr_iff split: ValidateResult.splits if_splits ConsistencyResult.splits)
        (metis ConsistencyResult.exhaust)
    then show ?thesis by (auto simp: proper_stop_def schema_stop_def mismatch_stop_def)
  qed
qed

lemma cosigner_stop_codes:
  "code \<in> {''cosigner_expired'', ''cosigner_invalid'', ''cosigner_already_used''} \<Longrightarrow> proper_stop (cosigner_stop R why code basis)"
  by (auto simp: proper_stop_def cosigner_stop_def)

lemma cosigner_stop_proper:
  assumes "proxy_cosigner_step R = Inr (Cosigner_stop stop)"
  shows "proper_stop stop"
proof -
  from assms obtain jwt f where jf: "rq_cosignerJwt (rn_request R) = Some jwt"
    "Option.bind (pd_stepup (rn_deps R)) sp_fetchApproval = Some f"
    by (auto simp: proxy_cosigner_step_def Let_def split: option.splits)
  let ?in = "cosigner_input (rn_request R) jwt"
  obtain v where v: "validateCosigner (rn_env R) (rn_clock R) f ?in = Inr v"
    using assms by (auto simp: proxy_cosigner_step_def Let_def jf rbind_Inr_iff)
  note step = assms [unfolded proxy_cosigner_step_def Let_def jf prod.case option.case v rbind.simps]
  show ?thesis
  proof (cases v)
    case (CosignerErr why)
    with step have "\<exists>w basis. stop = cosigner_stop R w ''cosigner_expired'' basis \<or> stop = cosigner_stop R w ''cosigner_invalid'' basis"
      by (simp add: rbind_Inr_iff split: if_splits) blast+
    then show ?thesis by (auto intro: cosigner_stop_codes)
  next
    case (CosignerOk a)
    with step have "\<exists>w basis. stop = cosigner_stop R w ''cosigner_already_used'' basis"
      by (cases "Option.bind (pd_stepup (rn_deps R)) sp_consumeApproval") (auto simp: rbind_Inr_iff split: if_splits)
    then show ?thesis by (auto intro: cosigner_stop_codes)
  qed
qed

lemma proxy_admitted_cases:
  assumes "proxy_admitted C R revoked policies lg = Inr (resp, lg')"
  obtains (stopped) stop where "stopped R stop lg = Inr (resp, lg')" "proper_stop stop"
  | (decided) r used d0 d created where "proxy_cosigner_step R = Inr (Effective r used)"
      "decide (rn_env R) C (rn_clock R) (proxy_decide_input R revoked policies r) = Inr d0" "d_allow d = d_allow d0"
      "proxy_decided R d (lg\<lparr>lg_consumed := used, lg_created := created\<rparr>) = Inr (resp, lg')"
proof -
  from assms obtain stage where st: "proxy_cosigner_step R = Inr stage"
    by (auto simp: proxy_admitted_def rbind_Inr_iff)
  show ?thesis
  proof (cases stage)
    case (Cosigner_stop stop)
    with assms st stopped cosigner_stop_proper show ?thesis by (simp add: proxy_admitted_def)
  next
    case (Effective r used)
    note run = assms [unfolded proxy_admitted_def st Effective rbind.simps proxy_cosigner.case Let_def]
    from run obtain d0 where d0: "decide (rn_env R) C (rn_clock R) (proxy_decide_input R revoked policies r) = Inr d0"
      by (auto simp: rbind_Inr_iff)
    from run [unfolded d0 rbind.simps] obtain d created where
      d: "detect_stepup (rn_env R) C (rn_clock R) (pd_stepup (rn_deps R)) (rn_customer R) (rn_request R)
            (proxy_decide_input R revoked policies r) d0 = Inr (d, created)"
      and "proxy_decided R d (lg\<lparr>lg_consumed := used, lg_created := created\<rparr>) = Inr (resp, lg')"
      by (auto simp: rbind_Inr_iff)
    with decided [of r used d0 d created] st Effective d0 detect_stepup_allow [OF d] show ?thesis by simp
  qed
qed

lemma proxy_for_cases:
  assumes "proxy_for C packs R revoked cache lg = Inr ((resp, lg'), cache')"
  obtains (stopped) stop where "stopped R stop lg = Inr (resp, lg')" "proper_stop stop"
  | (admitted) policies where "proxy_gates packs R cache = Inr (Pass policies, cache')"
      "proxy_admitted C R revoked policies lg = Inr (resp, lg')"
proof -
  from assms obtain g where g: "proxy_gates packs R cache = Inr (g, cache')"
    "(case g of Stop stop \<Rightarrow> stopped R stop lg | Pass policies \<Rightarrow> proxy_admitted C R revoked policies lg) = Inr (resp, lg')"
    by (auto simp: proxy_for_def rbind_Inr_iff)
  with stopped admitted gate_stop_proper show ?thesis by (cases g) auto
qed

text \<open>The run a request with a well-formed body starts.\<close>

definition run_of :: "env \<Rightarrow> clocks \<Rightarrow> ProxyRouteDeps \<Rightarrow> string \<Rightarrow> http_request \<Rightarrow> proxy_run \<Rightarrow> bool" where
  "run_of E ck deps command hr R \<longleftrightarrow>
     rn_env R = E \<and> rn_deps R = deps \<and> rn_clock R = ck_clock ck \<and> rn_started R = ck_started ck \<and> rn_now R = ck_now ck \<and>
     (\<exists>raw. hr_body hr = Some raw \<and> parseProxyRequest raw = Some (rn_body R)) \<and>
     parseAuthorizeRequest (pb_request (rn_body R)) = Some (rn_request R) \<and> rq_command (rn_request R) = command \<and>
     customer_of (deriveCustomerId E (hr_customer hr) (first_ucan R)) = Inr (rn_customer R)"

lemma proxy_run:
  assumes "proxy E C packs ck deps revoked cache disk h command hr = Inr ((resp, lg), cache')"
  obtains (refused) why where "resp = Proxy_error 400 why" "lg = empty_log disk h"
  | (stopped) R stop where "run_of E ck deps command hr R" "stopped R stop (empty_log disk h) = Inr (resp, lg)"
      "proper_stop stop"
  | (decided) R policies r used d0 d created where "run_of E ck deps command hr R"
      "proxy_gates packs R cache = Inr (Pass policies, cache')"
      "proxy_cosigner_step R = Inr (Effective r used)"
      "decide E C (ck_clock ck) (proxy_decide_input R revoked policies r) = Inr d0" "d_allow d = d_allow d0"
      "proxy_decided R d ((empty_log disk h)\<lparr>lg_consumed := used, lg_created := created\<rparr>) = Inr (resp, lg)"
  using assms
proof (cases rule: proxy_cases)
  case (refused why)
  with that(1) show ?thesis by simp
next
  case (run raw body r R)
  have sel: "rn_env R = E" "rn_deps R = deps" "rn_clock R = ck_clock ck" "rn_started R = ck_started ck"
    "rn_now R = ck_now ck" "rn_body R = body" "rn_request R = r"
    by (subst run(6), simp)+
  have of_run: "run_of E ck deps command hr R"
    using run(1-5) by (simp add: run_of_def sel first_ucan_def)
  from run(7) show ?thesis
  proof (cases rule: proxy_for_cases)
    case (stopped stop)
    with of_run that(2) show ?thesis by blast
  next
    case (admitted policies)
    from admitted(2) show ?thesis
    proof (cases rule: proxy_admitted_cases)
      case (stopped stop)
      with of_run that(2) show ?thesis by blast
    next
      case (decided r' used d0 d created)
      with that(3) [OF of_run admitted(1) decided(1), of d0 d created] sel show ?thesis by simp
    qed
  qed
qed

subsection \<open>What an upstream call rests on\<close>

lemma proxy_decided_Inr:
  assumes "proxy_decided R d lg = Inr (resp, lg')"
  obtains lg1 where "emit_row R (decision_row R d) lg = Inr lg1"
    "d_allow d \<and> execute R d lg1 = Inr (resp, lg') \<or> \<not> d_allow d \<and> denied_answer R d lg1 = Inr (resp, lg')"
  using assms by (auto simp: proxy_decided_def rbind_Inr_iff split: if_splits)

subsection \<open>What the audit log says\<close>

lemma empty_log_sel [simp]:
  "lg_calls (empty_log disk h) = []" "lg_audit (empty_log disk h) = []" "lg_cloud (empty_log disk h) = []"
  by (simp_all add: empty_log_def)

lemma decided_audit:
  assumes "proxy_decided R d lg = Inr (resp, lg')" "pd_emitAudit (rn_deps R) = Some f"
  obtains (answered) rows where "lg_audit lg' = lg_audit lg @ decision_row R d # rows" "answered_with resp d" "d_allow d"
  | (denied) st where "lg_audit lg' = lg_audit lg @ [decision_row R d]" "untouched lg lg'" "resp = Proxy_denied st d ''denied''"
      "\<not> d_allow d"
  | (forced) d' where "lg_audit lg' = lg_audit lg @ [decision_row R d]" "untouched lg lg'"
      "resp = Proxy_denied 403 d' ''cosigner_required''" "d_allow d"
  | (scope) receipt where "lg_audit lg' = lg_audit lg @ [decision_row R d]" "untouched lg lg'"
      "resp = Proxy_denied 403 (deny_decision D_resource_out_of_scope receipt) ''resource_out_of_scope''" "d_allow d"
proof -
  from assms(1) obtain lg1 where e: "emit_row R (decision_row R d) lg = Inr lg1"
    and ans: "d_allow d \<and> execute R d lg1 = Inr (resp, lg') \<or> \<not> d_allow d \<and> denied_answer R d lg1 = Inr (resp, lg')"
    by (rule proxy_decided_Inr)
  have row: "lg_audit lg1 = lg_audit lg @ [decision_row R d]" using emit_row_Inr(5) [OF e assms(2)] by simp
  have un: "untouched lg lg' = untouched lg1 lg'" using emit_row_Inr(1-4) [OF e] by (simp add: untouched_def)
  from ans show ?thesis
  proof
    assume a: "\<not> d_allow d \<and> denied_answer R d lg1 = Inr (resp, lg')"
    from denied_answer_Inr(2,4-6) [OF conjunct2 [OF a]] have "untouched lg1 lg'" by (simp add: untouched_def)
    with denied_answer_Inr(1,3) [OF conjunct2 [OF a]] a row denied show ?thesis unfolding un by auto
  next
    assume a: "d_allow d \<and> execute R d lg1 = Inr (resp, lg')"
    note ex = execute_Inr(2,4) [OF conjunct2 [OF a]]
    show ?thesis
    proof (cases "answered_with resp d")
      case True
      from ex(1) row have "\<exists>rows. lg_audit lg' = lg_audit lg @ decision_row R d # rows" by auto
      with True a answered show ?thesis by blast
    next
      case False
      with ex(2) obtain st d' code where resp: "resp = Proxy_denied st d' code" by blast
      with a have "execute R d lg1 = Inr (Proxy_denied st d' code, lg')" by simp
      from execute_refused [OF this] row have "lg_audit lg' = lg_audit lg @ [decision_row R d]" "untouched lg lg'"
        unfolding un by simp_all
      with ex(2) False a forced scope show ?thesis by blast
    qed
  qed
qed

end
