(* ===== verification/Demo_Proxy.thy ===== *)
theory Demo_Proxy
  imports Proxy_Steps
begin

text \<open>
  A concrete call of the proxy: the demonstration chain presented as \<open>delegated_chain\<close>, and as the token of
  the body a token that expired, issued by a key no chain mentions, which names tenant b and a connection.
\<close>

subsection \<open>A run of the OAuth branch\<close>

lemma oauth_run:
  assumes "hr_body hr = Some raw" "truthy raw" "parseProxyRequest raw = Some body"
    "parseAuthorizeRequest (pb_request body) = Some r" "rq_command r = command"
    "R = \<lparr>rn_env = E, rn_deps = deps, rn_clock = ck_clock ck, rn_started = ck_started ck, rn_now = ck_now ck,
          rn_customer = c, rn_body = body, rn_request = r\<rparr>"
    "customer_of (deriveCustomerId E (hr_customer hr) (first_ucan R)) = Inr c"
    "proxy_gates packs R cache = Inr (Pass policies, cache')" "rq_cosignerJwt r = None"
    "decide E C (ck_clock ck) (proxy_decide_input R revoked policies r) = Inr d" "d_allow d"
    "pd_emitAudit deps = Some emitAudit" "\<forall>row. emitAudit row = Inr ()" "\<not> pd_emitsSpans deps"
    "leaf_text (rn_leaf R) ''cloud_connection_id'' = None"
    "\<not> startsWith command ''/filesystem/''" "\<not> startsWith command ''/ssh/''"
    "leaf_text (rn_leaf R) ''oauth_connection_id'' = Some conn" "pd_fetchOAuthToken deps c conn = Inr token"
    "isKnownProvider (ot_connector token)" "map_of PROVIDER_API (ot_connector token) = Some cfg"
    "data_plane_gate (e_nd E) (leaf_meta (rn_leaf R) ''resource_constraint'') (rn_call R) = Inr Adapter_ok"
    "pd_fetch deps 0 (upstream_request cfg (ot_accessToken token) (rn_call R)) = Inr reply" "rw_status reply \<noteq> 401"
  shows "\<exists>shown red lg. proxy E C packs ck deps revoked cache disk h command hr =
      Inr ((Proxy_upstream d (rw_status reply) shown red, lg), cache') \<and>
      lg_calls lg = [upstream_request cfg (ot_accessToken token) (rn_call R)] \<and> lg_audit lg = [decision_row R d]"
proof -
  have sel: "rn_env R = E" "rn_deps R = deps" "rn_clock R = ck_clock ck" "rn_customer R = c" "rn_request R = r" "rn_body R = body"
    by (simp_all add: assms(6))
  have top: "proxy E C packs ck deps revoked cache disk h command hr = proxy_for C packs R revoked cache (empty_log disk h)"
    using assms(1-5,7) by (simp add: proxy_def Let_def first_ucan_def assms(6))
  have step: "proxy_cosigner_step R = Inr (Effective r None)" using assms(9) by (simp add: proxy_cosigner_step_def sel Let_def)
  have detect: "detect_stepup E C (ck_clock ck) (pd_stepup deps) c r (proxy_decide_input R revoked policies r) d = Inr (d, None)"
    using assms(11) by (simp add: detect_stepup_def shouldDetectStepUp_def split: option.split)
  let ?lg0 = "(empty_log disk h)\<lparr>lg_consumed := None, lg_created := None\<rparr>"
  let ?lg1 = "?lg0\<lparr>lg_audit := [decision_row R d]\<rparr>"
  let ?lg2 = "called cfg (ot_accessToken token) (rn_call R) ?lg1"
  have emit: "emit_row R (decision_row R d) ?lg0 = Inr ?lg1"
    using assms(12,13) by (simp add: emit_row_def sel empty_log_def)
  obtain up where up: "proxyApiCall E (pd_fetch deps 0) cfg (ot_accessToken token) (rn_call R) = Inr up"
    "ps_status up = rw_status reply"
    using assms(23) by (simp add: proxyApiCall_def proxy_response_def Let_def)
  obtain shown red where clean: "sanitizeResponseBody (ps_body up) (map_of (ps_headers up) ''content-type'') = (shown, red)"
    by fastforce
  have ans: "upstream_answer R d up ?lg2 = Inr (Proxy_upstream d (rw_status reply) shown red, ?lg2)"
    using assms(14) up(2) by (simp add: upstream_answer_def clean fireSpan_off sel)
  have "execute R d ?lg1 = Inr (Proxy_upstream d (rw_status reply) shown red, ?lg2)"
    using assms(15-22,24) up ans
    by (simp add: execute_def sel assms(5) oauth_branch_def oauth_call_def Let_def retried_def)
  then have "proxy_decided R d ?lg0 = Inr (Proxy_upstream d (rw_status reply) shown red, ?lg2)"
    using emit assms(11) by (simp add: proxy_decided_def)
  then have "proxy_admitted C R revoked policies (empty_log disk h) = Inr (Proxy_upstream d (rw_status reply) shown red, ?lg2)"
    using assms(10) detect by (simp add: proxy_admitted_def step sel Let_def)
  then show ?thesis
    using top assms(8) by (simp add: proxy_for_def)
qed

subsection \<open>The demonstration\<close>

definition forged_meta :: obj where
  "forged_meta = [(''customer_id'', JStr ''b''), (''oauth_connection_id'', JStr ''other'')]"

definition forged_payload :: UcanPayload where
  "forged_payload = demo_payload (demo_key CHR ''z'') (demo_key CHR ''z'') ''/fs'' (Some forged_meta) 0 10"

definition forged_jwt :: string where
  "forged_jwt = demo_jwt (demo_key CHR ''z'') forged_payload"

lemma forged_parsed:
  obtains u where "parseUcanJwt demo_env forged_jwt = Some u" "u_payload u = forged_payload"
proof -
  have norm: "norm_members (\<lambda>s. s) forged_meta = forged_meta"
    by (simp add: norm_members_def forged_meta_def surviving_def less_char_def)
  have ser: "serialisable (JObj (payloadObj forged_payload))" "numerals_ok nd (JObj (payloadObj forged_payload))" for nd
    by (simp_all add: payloadObj_def forged_payload_def demo_payload_def opt_str_def opt_json_def forged_meta_def max_exact_def)
  have "validateUcan demo_env 5 forged_jwt \<lparr>vo_audience = None, vo_expectedCommand = None, vo_now = Some 5\<rparr> = Valid forged_payload"
    unfolding forged_jwt_def forged_payload_def
    by (subst demo_valid) (use ser in \<open>simp_all add: demo_commands now_of_def norm forged_payload_def\<close>)
  with that show ?thesis unfolding validateUcan_Valid_iff by blast
qed

definition demo_proxy_deps :: ProxyRouteDeps where
  "demo_proxy_deps =
     \<lparr>pd_fetchBundle = (\<lambda>c. FetchThrew), pd_schemaForCustomer = (\<lambda>c. None),
      pd_trustedIssuerDid = Some (demo_did (demo_key CHR ''a'')),
      pd_fetchOAuthToken = (\<lambda>c conn. Inr \<lparr>ot_connectionId = conn, ot_customerId = c, ot_connector = ''github'',
        ot_accessToken = ''token-of-'' @ conn\<rparr>),
      pd_refreshOAuthToken = None, pd_emitAudit = Some (\<lambda>row. Inr ()), pd_emitsSpans = False, pd_stepup = None,
      pd_fetch = (\<lambda>n req. Inr \<lparr>rw_status = 200, rw_text = [], rw_headers = []\<rparr>), pd_cloud = None,
      pd_ssh = \<lparr>sv_node = \<lparr>nv_hostname = [], nv_cwd = [], nv_bufferFrom = (\<lambda>s e. None), nv_bufferTo = (\<lambda>s e. None)\<rparr>,
        sv_library = None, sv_privateKey = None, sv_passphrase = None\<rparr>\<rparr>"

definition demo_call :: "string \<Rightarrow> ApiCall" where
  "demo_call path = \<lparr>ac_method = ''GET'', ac_path = path, ac_query = None, ac_body = JUndef, ac_headers = None\<rparr>"

definition demo_proxy_body :: "string \<Rightarrow> string \<Rightarrow> json" where
  "demo_proxy_body jwt path =
     JObj [(''ucan'', JStr jwt), (''request'', JObj (requestObj demo_chained)),
           (''apiCall'', JObj [(''method'', JStr ''GET''), (''path'', JStr path)])]"

definition demo_proxy_http :: "string \<Rightarrow> string \<Rightarrow> http_request" where
  "demo_proxy_http jwt path = \<lparr>hr_body = Some (demo_proxy_body jwt path), hr_customer = None, hr_traceparent = None\<rparr>"

definition demo_clocks :: clocks where
  "demo_clocks = \<lparr>ck_clock = 50, ck_started = 0, ck_now = 0\<rparr>"

lemma demo_proxy_parsed:
  assumes "jwt \<noteq> []" "path \<noteq> []"
  shows "parseProxyRequest (demo_proxy_body jwt path) =
    Some \<lparr>pb_ucan = Inl jwt, pb_request = JObj (requestObj demo_chained),
          pb_apiCall = \<lparr>pl_call = demo_call path, pl_intent = None, pl_nextAgentHint = None, pl_handoff = None, pl_prompt = None\<rparr>\<rparr>"
  using assms
  by (simp add: parseProxyRequest_def demo_proxy_body_def jget_def parse_ucan_field_def z_min1_def z_match_def
      parse_call_def z_method_def z_opt_def demo_call_def)

definition demo_run_of :: "string \<Rightarrow> string \<Rightarrow> proxy_run" where
  "demo_run_of jwt path =
     \<lparr>rn_env = demo_env, rn_deps = demo_proxy_deps, rn_clock = 50, rn_started = 0, rn_now = 0, rn_customer = ''b'',
      rn_body = \<lparr>pb_ucan = Inl jwt, pb_request = JObj (requestObj demo_chained),
        pb_apiCall = \<lparr>pl_call = demo_call path, pl_intent = None, pl_nextAgentHint = None, pl_handoff = None, pl_prompt = None\<rparr>\<rparr>,
      rn_request = demo_chained\<rparr>"

lemma demo_run_sel [simp]:
  "rn_env (demo_run_of jwt path) = demo_env" "rn_deps (demo_run_of jwt path) = demo_proxy_deps"
  "rn_customer (demo_run_of jwt path) = ''b''" "rn_request (demo_run_of jwt path) = demo_chained"
  "rn_call (demo_run_of jwt path) = demo_call path" "first_ucan (demo_run_of jwt path) = jwt"
  "rn_leaf (demo_run_of jwt path) = parseUcanJwt demo_env jwt"
  by (simp_all add: demo_run_of_def rn_call_def first_ucan_def ucan_list_def rn_leaf_def leafUcan_def)

lemma demo_chained_sel:
  "rq_ucan demo_chained = ''u''" "rq_command demo_chained = ''/fs/read''" "rq_cosignerJwt demo_chained = None"
  "rq_delegated_chain demo_chained = Some (demo_chain None)" "demo_chain None \<noteq> []"
  by (simp_all add: demo_chained_def demo_request_def demo_chain_def)

lemma demo_proxy_gates:
  "proxy_gates [] (demo_run_of jwt path) demo_cache = Inr (Pass ''permit'', demo_cache)"
  by (simp add: proxy_gates_def demo_chained_sel isKnownCommand_def KNOWN_COMMANDS_def KNOWN_INTEGRATIONS_def
      proxy_refreshed_def getPolicies_def demo_cache_def call_gate_def validateApiCall_def validateResource_def
      validateResourceConsistency_def packForCommand_def filter_Boolean_def eval_nat_numeral)

lemma demo_proxy_input:
  "proxy_decide_input (demo_run_of jwt path) demo_revoked ''permit'' demo_chained =
   authorize_input demo_deps demo_revoked ''b'' ''permit'' demo_chained"
  using demo_chained_sel(4,5)
  by (simp add: proxy_decide_input_def authorize_input_def demo_proxy_deps_def demo_deps_def proxy_ucan_input_def
      ucan_input_def demo_run_of_def split: list.split)

lemma demo_forged_run:
  assumes "path \<noteq> []"
  obtains d shown red lg where "proxy demo_env demo_cedar [] demo_clocks demo_proxy_deps demo_revoked demo_cache [] []
      ''/fs/read'' (demo_proxy_http forged_jwt path) = Inr ((Proxy_upstream d 200 shown red, lg), demo_cache)"
    "lg_calls lg = [upstream_request (the (map_of PROVIDER_API ''github'')) ''token-of-other'' (demo_call path)]" "d_allow d"
proof -
  obtain u where u: "parseUcanJwt demo_env forged_jwt = Some u" "u_payload u = forged_payload" by (rule forged_parsed)
  obtain d where d: "decide demo_env demo_cedar 50 (authorize_input demo_deps demo_revoked ''b'' ''permit'' demo_chained) = Inr d"
    "d_allow d" by (rule demo_decide_chained)
  have jwt: "forged_jwt \<noteq> []" using u(1) by (rule parse_needs_text)
  have meta: "p_meta (u_payload u) = Some forged_meta" by (simp add: u(2) forged_payload_def demo_payload_def)
  let ?R = "demo_run_of forged_jwt path"
  have leaf: "leaf_text (rn_leaf ?R) ''cloud_connection_id'' = None" "leaf_text (rn_leaf ?R) ''oauth_connection_id'' = Some ''other''"
    "leaf_meta (rn_leaf ?R) ''resource_constraint'' = JUndef"
    by (simp_all add: leaf_text_def leaf_meta_def u(1) meta forged_meta_def jget_def nonempty_def str_truthy_def)
  have c: "customer_of (deriveCustomerId demo_env None forged_jwt) = Inr ''b''"
    by (simp add: deriveCustomerId_def extractCustomerId_def u(1) meta meta_string_def forged_meta_def jget_def customer_of_def
        str_truthy_def)
  obtain cfg where cfg: "map_of PROVIDER_API ''github'' = Some cfg" by (simp add: PROVIDER_API_def)
  let ?reply = "\<lparr>rw_status = 200, rw_text = [], rw_headers = []\<rparr>"
  have "\<exists>shown red lg. proxy demo_env demo_cedar [] demo_clocks demo_proxy_deps demo_revoked demo_cache [] []
      ''/fs/read'' (demo_proxy_http forged_jwt path) = Inr ((Proxy_upstream d (rw_status ?reply) shown red, lg), demo_cache) \<and>
      lg_calls lg = [upstream_request cfg (ot_accessToken \<lparr>ot_connectionId = ''other'', ot_customerId = ''b'',
        ot_connector = ''github'', ot_accessToken = ''token-of-'' @ ''other''\<rparr>) (rn_call ?R)] \<and> lg_audit lg = [decision_row ?R d]"
  proof (rule oauth_run [OF _ _ demo_proxy_parsed [OF jwt assms], where r = demo_chained and policies = "''permit''"
        and emitAudit = "\<lambda>row. Inr ()" and c = "''b''" and conn = "''other''"])
    show "hr_body (demo_proxy_http forged_jwt path) = Some (demo_proxy_body forged_jwt path)" by (simp add: demo_proxy_http_def)
    show "truthy (demo_proxy_body forged_jwt path)" by (simp add: demo_proxy_body_def)
    show "customer_of (deriveCustomerId demo_env (hr_customer (demo_proxy_http forged_jwt path)) (first_ucan ?R)) = Inr ''b''"
      using c by (simp add: demo_proxy_http_def)
    show "proxy_gates [] ?R demo_cache = Inr (Pass ''permit'', demo_cache)" by (rule demo_proxy_gates)
    show "decide demo_env demo_cedar (ck_clock demo_clocks) (proxy_decide_input ?R demo_revoked ''permit'' demo_chained) = Inr d"
      using d(1) by (simp add: demo_proxy_input demo_clocks_def)
  qed (use d leaf cfg in \<open>simp_all add: demo_body_parsed demo_chained_sel demo_run_of_def demo_clocks_def demo_proxy_deps_def
      isKnownProvider_def data_plane_gate_def object_or_empty_def jget_def\<close>)
  with d(2) cfg that show ?thesis by fastforce
qed

text \<open>
  A concrete destructive cloud call: agent a1 holds a token for \<open>/azure\<close> bound to a cloud connection, and
  an approved attestation for deleting a machine, which this call consumes.
\<close>

definition cloud_meta :: obj where
  "cloud_meta = [(''agent_id'', JStr ''a1''), (''cloud_connection_id'', JStr ''sub'')]"

definition cloud_payload :: UcanPayload where
  "cloud_payload = demo_payload (demo_key CHR ''a'') (demo_key CHR ''b'') ''/azure'' (Some cloud_meta) 0 1000"

definition cloud_jwt :: string where "cloud_jwt = demo_jwt (demo_key CHR ''a'') cloud_payload"

definition cosign_meta :: obj where
  "cosign_meta = [(''approval_id'', JStr ''p1''), (''cosigner_for'', JStr (computeCid demo_env cloud_jwt))]"

definition cosign_payload :: UcanPayload where
  "cosign_payload = demo_payload (demo_key CHR ''a'') (demo_key CHR ''b'') ''/azure/vm/delete'' (Some cosign_meta) 0 1000"

definition cosign_jwt :: string where "cosign_jwt = demo_jwt (demo_key CHR ''a'') cosign_payload"

definition cloud_request_of :: "string option \<Rightarrow> AuthorizeRequest" where
  "cloud_request_of jwt =
     \<lparr>rq_ucan = cloud_jwt, rq_command = ''/azure/vm/delete'', rq_resource = [], rq_context = [],
      rq_cosignerJwt = jwt, rq_delegated_chain = None, rq_parent_receipt_id = None, rq_swarm_id = None\<rparr>"

lemma cloud_command [simp]: "rq_command (cloud_request_of jwt) = ''/azure/vm/delete''"
  by (simp add: cloud_request_of_def)

definition cloud_deps :: ProxyRouteDeps where
  "cloud_deps = demo_proxy_deps
     \<lparr>pd_stepup := Some \<lparr>sp_create = (\<lambda>a. None),
        sp_fetchApproval = Some (\<lambda>i. Inr (Some \<lparr>su_state = ''approved'', su_cosignerAttestationJwt = Some cosign_jwt\<rparr>)),
        sp_consumeApproval = Some (\<lambda>i. Inr True)\<rparr>,
      pd_cloud := Some \<lparr>cd_controlPlaneUrl = [], cd_serviceToken = [], cd_fetch = (\<lambda>u t b. Inl FetchError)\<rparr>\<rparr>"

definition cloud_run :: proxy_run where
  "cloud_run =
     \<lparr>rn_env = demo_env, rn_deps = cloud_deps, rn_clock = 500, rn_started = 0, rn_now = 0, rn_customer = ''c1'',
      rn_body = \<lparr>pb_ucan = Inl cloud_jwt, pb_request = JNull,
        pb_apiCall = \<lparr>pl_call = demo_call ''https://management.azure.com/x'', pl_intent = None, pl_nextAgentHint = None,
          pl_handoff = None, pl_prompt = None\<rparr>\<rparr>,
      rn_request = cloud_request_of (Some cosign_jwt)\<rparr>"

lemma cloud_plain:
  "serialisable (JObj (payloadObj cloud_payload))" "numerals_ok nd (JObj (payloadObj cloud_payload))"
  "serialisable (JObj (payloadObj cosign_payload))" "numerals_ok nd (JObj (payloadObj cosign_payload))"
  by (simp_all add: cloud_payload_def cosign_payload_def demo_payload_def cloud_meta_def cosign_meta_def payloadObj_def
      opt_str_def opt_json_def max_exact_def)

lemma cloud_norm:
  "norm_members (\<lambda>s. s) cloud_meta = cloud_meta" "norm_members (\<lambda>s. s) cosign_meta = cosign_meta"
  by (simp_all add: norm_members_def cloud_meta_def cosign_meta_def surviving_def less_char_def)

lemma cloud_commands: "COMMAND_REGEX ''/azure''" "COMMAND_REGEX ''/azure/vm/delete''"
  by (simp_all add: COMMAND_REGEX_def command_char_def is_lower_def is_digit_alt char_le_nat)

lemma cloud_valid:
  "validateUcan demo_env 500 cloud_jwt \<lparr>vo_audience = None, vo_expectedCommand = Some ''/azure/vm/delete'', vo_now = n\<rparr> =
     Valid cloud_payload" if "n = None \<or> n = Some 500"
proof -
  have "actionMatchesGranted ''/azure'' ''/azure/vm/delete''" by (simp add: actionMatchesGranted_def)
  then show ?thesis
    using that demo_valid [of "demo_key CHR ''a''" "demo_key CHR ''b''" "''/azure''" 0 1000 "Some cloud_meta" 500
      "\<lparr>vo_audience = None, vo_expectedCommand = Some ''/azure/vm/delete'', vo_now = n\<rparr>"] cloud_plain(1,2)
    by (auto simp: cloud_commands now_of_def cloud_norm cloud_payload_def cloud_jwt_def
      simp del: serialisable.simps numerals_ok.simps)
qed

lemma cosign_valid:
  "validateUcan demo_env 500 cosign_jwt \<lparr>vo_audience = None, vo_expectedCommand = Some ''/azure/vm/delete'', vo_now = None\<rparr> =
     Valid cosign_payload"
proof -
  have "actionMatchesGranted ''/azure/vm/delete'' ''/azure/vm/delete''" by (simp add: actionMatchesGranted_def)
  then show ?thesis
    using demo_valid [of "demo_key CHR ''a''" "demo_key CHR ''b''" "''/azure/vm/delete''" 0 1000 "Some cosign_meta" 500
      "\<lparr>vo_audience = None, vo_expectedCommand = Some ''/azure/vm/delete'', vo_now = None\<rparr>"] cloud_plain(3,4)
    by (simp add: cloud_commands now_of_def cloud_norm cosign_payload_def cosign_jwt_def
      del: serialisable.simps numerals_ok.simps)
qed

lemma cloud_parsed:
  obtains u v where "parseUcanJwt demo_env cloud_jwt = Some u" "u_payload u = cloud_payload"
    "parseUcanJwt demo_env cosign_jwt = Some v" "u_payload v = cosign_payload"
  using cloud_valid [of None] cosign_valid that unfolding validateUcan_Valid_iff by auto

lemma cloud_cid: "computeCid demo_env cloud_jwt \<noteq> []"
proof -
  from cloud_parsed have "cloud_jwt \<noteq> []" using parse_needs_text by metis
  then show ?thesis by (simp add: computeCid_def sha256Hex_def demo_env_def demo_hex_empty)
qed

lemma cloud_sel [simp]:
  "rn_env cloud_run = demo_env" "rn_deps cloud_run = cloud_deps" "rn_clock cloud_run = 500" "rn_customer cloud_run = ''c1''"
  "rn_request cloud_run = cloud_request_of (Some cosign_jwt)" "leaf_jwt cloud_run = cloud_jwt"
  "rn_leaf cloud_run = parseUcanJwt demo_env cloud_jwt"
  by (simp_all add: cloud_run_def leaf_jwt_def ucan_list_def rn_leaf_def leafUcan_def)

lemma cloud_cosigned:
  "proxy_cosigner_step cloud_run = Inr (Effective (with_cosigner (cloud_request_of (Some cosign_jwt))) (Some ''p1''))"
proof -
  obtain u v where u: "parseUcanJwt demo_env cosign_jwt = Some v" "u_payload v = cosign_payload"
    by (rule cloud_parsed)
  have meta: "meta_string ''cosigner_for'' cosign_payload = Some (computeCid demo_env cloud_jwt)"
    "meta_string ''approval_id'' cosign_payload = Some ''p1''"
    by (simp_all add: meta_string_def cosign_payload_def demo_payload_def cosign_meta_def jget_def)
  show ?thesis
    using u cosign_valid cloud_cid
    by (simp add: proxy_cosigner_step_def Let_def cloud_request_of_def cloud_deps_def validateCosigner_def cosigner_input_def
        cosigner_options_def meta str_truthy_def)
qed

lemma cloud_decided:
  obtains rid where "decide demo_env demo_cedar 500
      (proxy_decide_input cloud_run demo_revoked ''permit'' (with_cosigner (cloud_request_of (Some cosign_jwt)))) =
    Inr (allow_decision rid)"
proof -
  let ?r = "with_cosigner (cloud_request_of (Some cosign_jwt))"
  let ?inp = "proxy_decide_input cloud_run demo_revoked ''permit'' ?r"
  have "serialisable (JObj (requestObj ?r))"
    by (auto simp: requestObj_def cloud_request_of_def with_cosigner_def opt_str_def opt_json_def)
  from canonicalize_ok [OF this] obtain t where "canonicalize (e_nfc demo_env) (JObj (requestObj ?r)) = Inr t"
    unfolding is_ok_iff by blast
  then obtain rid where rid: "buildReceiptId demo_env [cloud_jwt] ?r = Inr rid"
    by (simp add: buildReceiptId_def Let_def lift_canon_def del: canonicalize_obj)
  have sel: "decide_jwts ?inp = [cloud_jwt]" "di_request ?inp = ?r" "decide_now 500 ?inp = 500"
    "di_trustedIssuerDid ?inp = Some (demo_did (demo_key CHR ''a''))" "di_revokedCids ?inp = Some {}"
    "di_maxChainDepth ?inp = None" "di_policies ?inp = ''permit''"
    by (simp_all add: decide_jwts_def decide_now_def proxy_decide_input_def proxy_ucan_input_def cloud_deps_def
        demo_proxy_deps_def cloud_request_of_def cloud_run_def getRevoked_def demo_revoked_def)
  have c: "extractResourceConstraint (p_meta cloud_payload) = Inr None" "p_iss cloud_payload = demo_did (demo_key CHR ''a'')"
    by (simp_all add: cloud_payload_def demo_payload_def cloud_meta_def extractResourceConstraint_def jget_def)
  have ev: "evaluate demo_cedar (cedar_question demo_env ?inp [cloud_jwt] 500 cloud_payload cloud_payload None) =
     Inr \<lparr>er_decision = CedarAllow, er_reason = [], er_errors = [], er_warnings = []\<rparr>"
    by (simp add: evaluate_def demo_cedar_def cedar_question_def sel)
  have "decide_validated demo_env demo_cedar ?inp [cloud_jwt] 500 cloud_payload cloud_payload = Inr (allow_decision rid)"
    using ev rid c by (simp add: decide_validated_def sel revoked_in_def summarizeAttenuation_def Let_def)
  moreover have "validateChain demo_env (\<lambda>_. 500) [cloud_jwt] (chain_options 500 ?inp) = Inr (ChainValid cloud_payload cloud_payload)"
    using cloud_valid [of "Some 500"] by (simp add: validateChain_def chain_options_def sel)
  moreover have "\<not> length [cloud_jwt] > max_depth ?inp" by (simp add: max_depth_def sel DEFAULT_MAX_CHAIN_DEPTH_def)
  ultimately show ?thesis using that by (simp add: decide_def sel Let_def allow_decision_def)
qed

end
