(* ===== verification/Proxy_Properties.thy ===== *)
theory Proxy_Properties
  imports Demo_Proxy Pack_Vocabulary
begin

text \<open>
  Properties of the proxy endpoint: what an upstream call rests on, where it goes and with which token, what
  the audit log says of it, and what the handler takes from parts of the request nobody has verified.
\<close>

subsection \<open>What an upstream call rests on\<close>

text \<open>C2: An upstream call of the proxy rests on every gate: the body is a well-formed request for the
  command of the URL, the command is known, its schema pack accepts the call, the resource and that the two
  agree, the tenant's policies are cached, and the decision core admits the request. What it admits is the request
  as it was sent, with whatever its own context says, if no attestation came with it or none can be looked up, or
  else that request with the cosigner flag set by the handler, which takes an approved attestation for this token
  and command. The calls are one, or two after a refresh, with a token fetched for that tenant and the connection
  the leaf token names, to a known provider, inside what the leaf's resource constraint allows of that call.\<close>

theorem proxy_call_sound:
  assumes "proxy E C packs ck deps revoked cache disk h command hr = Inr ((resp, lg), cache')" "lg_calls lg \<noteq> []"
  shows "\<exists>R policies effective. run_of E ck deps command hr R \<and> isKnownCommand packs command \<and>
     validateApiCall packs command (JObj (call_obj (rn_call R))) = VOk \<and>
     validateResource packs command (JObj (rq_resource (rn_request R))) = VOk \<and>
     validateResourceConsistency packs command (rq_resource (rn_request R)) (rn_call R) = Inr ConsistencyOk \<and>
     getPolicies cache' (rn_customer R) = Some policies \<and>
     (effective = rn_request R \<and> (rq_cosignerJwt (rn_request R) = None \<or>
        Option.bind (pd_stepup (rn_deps R)) sp_fetchApproval = None) \<or>
      effective = with_cosigner (rn_request R) \<and> approval_in_force R) \<and>
     decide_admits E C (ck_clock ck) (proxy_decide_input R revoked policies effective) \<and>
     granted_calls R (lg_calls lg)"
  using assms(1)
proof (cases rule: proxy_run)
  case (refused why)
  with assms(2) show ?thesis by (simp add: empty_log_def)
next
  case (stopped R stop)
  from stopped_Inr(2) [OF stopped(2)] assms(2) show ?thesis by (simp add: empty_log_def)
next
  case (decided R policies r used d0 d created)
  have empty: "lg_calls ((empty_log disk h)\<lparr>lg_consumed := used, lg_created := created\<rparr>) = []" by (simp add: empty_log_def)
  from decided(6) obtain lg1 where e: "emit_row R (decision_row R d) ((empty_log disk h)\<lparr>lg_consumed := used, lg_created := created\<rparr>) = Inr lg1"
    and ans: "d_allow d \<and> execute R d lg1 = Inr (resp, lg) \<or> \<not> d_allow d \<and> denied_answer R d lg1 = Inr (resp, lg)"
    by (rule proxy_decided_Inr)
  have none: "lg_calls lg1 = []" using emit_row_Inr(1) [OF e] empty by simp
  from ans denied_answer_Inr(2) none assms(2) have x: "d_allow d" "execute R d lg1 = Inr (resp, lg)" by force+
  from execute_Inr(1) [OF x(2)] none assms(2) have granted: "granted_calls R (lg_calls lg)" by auto
  have cmd: "rq_command (rn_request R) = command" using decided(1) by (simp add: run_of_def)
  note gates = proxy_gates_pass [OF decided(2)]
  note call = call_gate_pass [OF gates(4)]
  have admits: "decide_admits E C (ck_clock ck) (proxy_decide_input R revoked policies r)"
    using decide_allow_iff [OF decided(4)] decided(5) x(1) by simp
  have cos: "r = rn_request R \<and> (rq_cosignerJwt (rn_request R) = None \<or>
        Option.bind (pd_stepup (rn_deps R)) sp_fetchApproval = None) \<or>
      r = with_cosigner (rn_request R) \<and> approval_in_force R"
    using proxy_cosigner_Inr [OF decided(3)] by auto
  show ?thesis
    by (rule exI [of _ R], rule exI [of _ policies], rule exI [of _ r])
      (use decided(1) gates call cmd cos admits granted in simp)
qed

theorem proxy_call_sound_witness:
  "\<exists>R policies. isKnownCommand [] ''/fs/read'' \<and>
     decide_admits demo_env demo_cedar 50 (proxy_decide_input R demo_revoked policies demo_chained) \<and>
     granted_calls R [upstream_request (the (map_of PROVIDER_API ''github'')) ''token-of-other'' (demo_call ''/user'')]"
proof -
  obtain d shown red lg where run: "proxy demo_env demo_cedar [] demo_clocks demo_proxy_deps demo_revoked demo_cache [] []
      ''/fs/read'' (demo_proxy_http forged_jwt ''/user'') = Inr ((Proxy_upstream d 200 shown red, lg), demo_cache)"
    and calls: "lg_calls lg = [upstream_request (the (map_of PROVIDER_API ''github'')) ''token-of-other'' (demo_call ''/user'')]"
    by (rule demo_forged_run [of "''/user''"]) simp_all
  from calls have "lg_calls lg \<noteq> []" by simp
  from proxy_call_sound [OF run this] obtain R policies effective where r: "run_of demo_env demo_clocks demo_proxy_deps ''/fs/read''
      (demo_proxy_http forged_jwt ''/user'') R" "isKnownCommand [] ''/fs/read''"
    "effective = rn_request R \<or> effective = with_cosigner (rn_request R) \<and> approval_in_force R"
    "decide_admits demo_env demo_cedar (ck_clock demo_clocks) (proxy_decide_input R demo_revoked policies effective)"
    "granted_calls R (lg_calls lg)" by blast
  have "forged_jwt \<noteq> []" using forged_parsed parse_needs_text by metis
  from demo_proxy_parsed [OF this, of "''/user''"] r(1) have "pb_request (rn_body R) = JObj (requestObj demo_chained)"
    by (auto simp: run_of_def demo_proxy_http_def dest!: sym [of _ "rn_body R"])
  with r(1) have req: "rn_request R = demo_chained" by (simp add: run_of_def demo_body_parsed)
  have "\<not> approval_in_force R" by (simp add: approval_in_force_def req demo_chained_sel)
  with r req calls show ?thesis by (auto simp: demo_clocks_def)
qed

subsection \<open>What the audit log says\<close>

text \<open>C32: The audit log of the proxy. A request refused before it is decided because it is malformed answers 400,
  leaves no row and executes nothing. A denied request executes nothing and leaves one row that says deny, or
  none if the command is unknown. An answer given after an allow, also one that reports a failed execution, has a
  log that starts with a row of the decision, the command, the resource and the call. Two denials come after
  that row: a call that needs a cosigner and a call out of scope execute nothing, and their one row says allow.\<close>

theorem proxy_audited:
  assumes "proxy E C packs ck deps revoked cache disk h command hr = Inr ((resp, lg), cache')"
    "pd_emitAudit deps = Some emitAudit"
  shows "(\<exists>why. resp = Proxy_error 400 why) \<and> lg = empty_log disk h \<or>
    (\<exists>st d. resp = Proxy_denied st d ''unknown_command'') \<and> lg_audit lg = [] \<and> untouched (empty_log disk h) lg \<or>
    (\<exists>R d. run_of E ck deps command hr R \<and>
       ((\<exists>st code. resp = Proxy_denied st d code) \<and> untouched (empty_log disk h) lg \<and>
          (\<exists>row. lg_audit lg = [row] \<and> \<not> ae_allow row \<and>
          ae_request row = rn_request R \<and> ae_reason row = d_reason d \<and> ae_receiptId row = d_receiptId d) \<or>
        answered_with resp d \<and> d_allow d \<and> (\<exists>rows. lg_audit lg = decision_row R d # rows) \<or>
        (\<exists>d'. resp = Proxy_denied 403 d' ''cosigner_required'') \<and> d_allow d \<and> lg_audit lg = [decision_row R d] \<and>
          untouched (empty_log disk h) lg \<or>
        (\<exists>d'. resp = Proxy_denied 403 d' ''resource_out_of_scope'' \<and> \<not> d_allow d') \<and> d_allow d \<and>
          lg_audit lg = [decision_row R d] \<and> untouched (empty_log disk h) lg))"
  using assms(1)
proof (cases rule: proxy_run)
  case (refused why)
  then show ?thesis by simp
next
  case (stopped R stop)
  let ?d = "deny_decision (st_reason stop) (sha256Hex (rn_env R) (st_basis stop))"
  have deps: "rn_deps R = deps" using stopped(1) by (simp add: run_of_def)
  have un: "untouched (empty_log disk h) lg" using stopped_Inr(2-5) [OF stopped(2)] by (simp add: untouched_def)
  from stopped(2) obtain lg1 where a: "(case st_audit stop of None \<Rightarrow> Inr (empty_log disk h)
        | Some did \<Rightarrow> emit_row R (audit_row R ?d did) (empty_log disk h)) = Inr lg1"
    and b: "(case st_span stop of None \<Rightarrow> Inr lg1
        | Some code \<Rightarrow> fireSpan R (d_receiptId ?d) tool_denied None (Some code) JUndef lg1) = Inr lg"
    and r: "resp = Proxy_denied (st_status stop) ?d (st_code stop)"
    by (auto simp: stopped_def Let_def rbind_Inr_iff)
  have same: "lg_audit lg = lg_audit lg1" using b fireSpan_Inr(2) by (cases "st_span stop"; fastforce)
  show ?thesis
  proof (cases "st_audit stop")
    case None
    with stopped(3) have "st_code stop = ''unknown_command''" by (simp add: proper_stop_def)
    moreover have "lg_audit lg = []" using None a same by auto
    ultimately show ?thesis using r un by blast
  next
    case (Some did)
    with a have "emit_row R (audit_row R ?d did) (empty_log disk h) = Inr lg1" by simp
    from emit_row_Inr(5) [OF this, of emitAudit] assms(2) deps same have "lg_audit lg = [audit_row R ?d did]" by simp
    moreover have "ae_request (audit_row R ?d did) = rn_request R" "ae_reason (audit_row R ?d did) = d_reason ?d"
      "ae_receiptId (audit_row R ?d did) = d_receiptId ?d" "\<not> ae_allow (audit_row R ?d did)"
      by (simp_all add: audit_row_def)
    ultimately show ?thesis using stopped(1) r un by blast
  qed
next
  case (decided R policies r used d0 d created)
  have deps: "pd_emitAudit (rn_deps R) = Some emitAudit" using decided(1) assms(2) by (simp add: run_of_def)
  let ?lg = "(empty_log disk h)\<lparr>lg_consumed := used, lg_created := created\<rparr>"
  have start: "lg_audit ?lg = []" "untouched ?lg lg = untouched (empty_log disk h) lg"
    by (simp_all add: untouched_def empty_log_def)
  have row: "ae_request (decision_row R d) = rn_request R" "ae_reason (decision_row R d) = d_reason d"
    "ae_receiptId (decision_row R d) = d_receiptId d" "ae_allow (decision_row R d) = d_allow d"
    by (simp_all add: decision_row_def chained_row_def audit_row_def)
  from decided(6) deps show ?thesis
  proof (cases rule: decided_audit)
    case (answered rows)
    with decided(1) start show ?thesis by auto
  next
    case (denied st)
    with decided(1) start row show ?thesis by auto
  next
    case (forced d')
    with decided(1) start show ?thesis by auto
  next
    case (scope receipt)
    with decided(1) start show ?thesis by auto
  qed
qed

theorem proxy_audited_witness:
  "\<exists>R d shown red lg rows. proxy demo_env demo_cedar [] demo_clocks demo_proxy_deps demo_revoked demo_cache [] []
      ''/fs/read'' (demo_proxy_http forged_jwt ''/user'') = Inr ((Proxy_upstream d 200 shown red, lg), demo_cache) \<and>
     run_of demo_env demo_clocks demo_proxy_deps ''/fs/read'' (demo_proxy_http forged_jwt ''/user'') R \<and>
     d_allow d \<and> lg_audit lg = decision_row R d # rows"
proof -
  obtain d shown red lg where run: "proxy demo_env demo_cedar [] demo_clocks demo_proxy_deps demo_revoked demo_cache [] []
      ''/fs/read'' (demo_proxy_http forged_jwt ''/user'') = Inr ((Proxy_upstream d 200 shown red, lg), demo_cache)"
    by (rule demo_forged_run [of "''/user''"]) simp_all
  have "pd_emitAudit demo_proxy_deps = Some (\<lambda>row. Inr ())" by (simp add: demo_proxy_deps_def)
  from proxy_audited [OF run this] obtain R rows where
    "run_of demo_env demo_clocks demo_proxy_deps ''/fs/read'' (demo_proxy_http forged_jwt ''/user'') R" "d_allow d"
    "lg_audit lg = decision_row R d # rows" by auto
  with run show ?thesis by blast
qed

subsection \<open>The leaf token is not verified\<close>

text \<open>With a delegation chain in the request, the token of the body is not part of what is decided, and
  nothing verifies it: any parseable token will do, expired, or signed by nobody. Yet its metadata name the
  tenant and the OAuth connection. The call is made with the access token of the connection it names.\<close>

theorem leaf_chosen_by_caller:
  assumes "hr_body hr = Some raw" "truthy raw" "parseProxyRequest raw = Some body" "pb_ucan body = Inl forged"
    "parseAuthorizeRequest (pb_request body) = Some r" "rq_command r = command" "rq_cosignerJwt r = None"
    "rq_delegated_chain r = Some (j # js)"
    "parseUcanJwt E forged = Some u" "p_meta (u_payload u) = Some [(''customer_id'', JStr c), (''oauth_connection_id'', JStr conn)]"
    "c \<noteq> []" "conn \<noteq> []" "hr_customer hr = None"
    "R = \<lparr>rn_env = E, rn_deps = deps, rn_clock = ck_clock ck, rn_started = ck_started ck, rn_now = ck_now ck,
          rn_customer = c, rn_body = body, rn_request = r\<rparr>"
    "proxy_gates packs R cache = Inr (Pass policies, cache')"
    "decide E C (ck_clock ck) \<lparr>di_ucan = Inr (j # js), di_request = r, di_policies = policies,
       di_revokedCids = Some (getRevoked revoked c), di_schema = pd_schemaForCustomer deps c,
       di_trustedIssuerDid = pd_trustedIssuerDid deps, di_now = None, di_maxChainDepth = None\<rparr> = Inr d" "d_allow d"
    "pd_emitAudit deps = Some emitAudit" "\<forall>row. emitAudit row = Inr ()" "\<not> pd_emitsSpans deps"
    "\<not> startsWith command ''/filesystem/''" "\<not> startsWith command ''/ssh/''"
    "pd_fetchOAuthToken deps c conn = Inr token" "isKnownProvider (ot_connector token)"
    "map_of PROVIDER_API (ot_connector token) = Some cfg"
    "pd_fetch deps 0 (upstream_request cfg (ot_accessToken token) (pl_call (pb_apiCall body))) = Inr reply"
    "rw_status reply \<noteq> 401"
  shows "\<exists>shown red lg. proxy E C packs ck deps revoked cache disk h command hr =
      Inr ((Proxy_upstream d (rw_status reply) shown red, lg), cache') \<and>
      lg_calls lg = [upstream_request cfg (ot_accessToken token) (pl_call (pb_apiCall body))]"
proof -
  have sel: "rn_call R = pl_call (pb_apiCall body)" "first_ucan R = forged" "rn_leaf R = Some u"
    by (simp_all add: assms(4,9,14) rn_call_def first_ucan_def ucan_list_def rn_leaf_def leafUcan_def)
  have leaf: "leaf_text (rn_leaf R) ''cloud_connection_id'' = None" "leaf_text (rn_leaf R) ''oauth_connection_id'' = Some conn"
    "leaf_meta (rn_leaf R) ''resource_constraint'' = JUndef"
    using assms(12) by (simp_all add: leaf_text_def leaf_meta_def sel assms(10) jget_def nonempty_def str_truthy_def)
  have tenant: "customer_of (deriveCustomerId E (hr_customer hr) (first_ucan R)) = Inr c"
    using assms(11) by (simp add: deriveCustomerId_def extractCustomerId_def sel assms(9,10,13) meta_string_def jget_def
        customer_of_def str_truthy_def)
  have inp: "decide E C (ck_clock ck) (proxy_decide_input R revoked policies r) = Inr d"
    using assms(16) by (simp add: proxy_decide_input_def proxy_ucan_input_def assms(8,14))
  have gate: "data_plane_gate (e_nd E) (leaf_meta (rn_leaf R) ''resource_constraint'') (rn_call R) = Inr Adapter_ok"
    by (simp add: leaf(3) data_plane_gate_def object_or_empty_def jget_def)
  from oauth_run [OF assms(1-3,5,6,14) tenant assms(15,7) inp assms(17-20) leaf(1) assms(21,22) leaf(2) assms(23-25) gate]
  show ?thesis using assms(26,27) by (metis sel(1))
qed

theorem leaf_chosen_by_caller_witness:
  "\<exists>d shown red lg. proxy demo_env demo_cedar [] demo_clocks demo_proxy_deps demo_revoked demo_cache [] []
      ''/fs/read'' (demo_proxy_http forged_jwt ''/user'') = Inr ((Proxy_upstream d 200 shown red, lg), demo_cache) \<and>
     lg_calls lg = [upstream_request (the (map_of PROVIDER_API ''github'')) ''token-of-other'' (demo_call ''/user'')]"
proof -
  obtain u where u: "parseUcanJwt demo_env forged_jwt = Some u" "u_payload u = forged_payload" by (rule forged_parsed)
  have jwt: "forged_jwt \<noteq> []" using u(1) by (rule parse_needs_text)
  obtain d where d: "decide demo_env demo_cedar 50 (authorize_input demo_deps demo_revoked ''b'' ''permit'' demo_chained) = Inr d"
    "d_allow d" by (rule demo_decide_chained)
  obtain j js where chain: "demo_chain None = j # js" by (simp add: demo_chain_def)
  have inp: "authorize_input demo_deps demo_revoked ''b'' ''permit'' demo_chained =
      \<lparr>di_ucan = Inr (j # js), di_request = demo_chained, di_policies = ''permit'',
       di_revokedCids = Some (getRevoked demo_revoked ''b''), di_schema = pd_schemaForCustomer demo_proxy_deps ''b'',
       di_trustedIssuerDid = pd_trustedIssuerDid demo_proxy_deps, di_now = None, di_maxChainDepth = None\<rparr>"
    by (simp add: authorize_input_def demo_deps_def demo_proxy_deps_def ucan_input_def demo_chained_sel chain)
  let ?cfg = "the (map_of PROVIDER_API ''github'')"
  let ?reply = "\<lparr>rw_status = 200, rw_text = [], rw_headers = []\<rparr>"
  let ?token = "\<lparr>ot_connectionId = ''other'', ot_customerId = ''b'', ot_connector = ''github'', ot_accessToken = ''token-of-other''\<rparr>"
  have "\<exists>shown red lg. proxy demo_env demo_cedar [] demo_clocks demo_proxy_deps demo_revoked demo_cache [] []
      ''/fs/read'' (demo_proxy_http forged_jwt ''/user'') = Inr ((Proxy_upstream d (rw_status ?reply) shown red, lg), demo_cache) \<and>
     lg_calls lg = [upstream_request ?cfg (ot_accessToken ?token) (pl_call (pb_apiCall (rn_body (demo_run_of forged_jwt ''/user''))))]"
  proof (rule leaf_chosen_by_caller [where forged = forged_jwt and c = "''b''" and conn = "''other''" and r = demo_chained
        and emitAudit = "\<lambda>row. Inr ()" and policies = "''permit''" and j = j and js = js and u = u])
    show "parseProxyRequest (demo_proxy_body forged_jwt ''/user'') = Some (rn_body (demo_run_of forged_jwt ''/user''))"
      using demo_proxy_parsed [OF jwt] by (simp add: demo_run_of_def)
    show "hr_body (demo_proxy_http forged_jwt ''/user'') = Some (demo_proxy_body forged_jwt ''/user'')"
      by (simp add: demo_proxy_http_def)
    show "proxy_gates [] (demo_run_of forged_jwt ''/user'') demo_cache = Inr (Pass ''permit'', demo_cache)"
      by (rule demo_proxy_gates)
    show "p_meta (u_payload u) = Some [(''customer_id'', JStr ''b''), (''oauth_connection_id'', JStr ''other'')]"
      by (simp add: u(2) forged_payload_def demo_payload_def forged_meta_def)
    show "map_of PROVIDER_API (ot_connector ?token) = Some ?cfg" by (simp add: PROVIDER_API_def)
    show "decide demo_env demo_cedar (ck_clock demo_clocks)
       \<lparr>di_ucan = Inr (j # js), di_request = demo_chained, di_policies = ''permit'',
        di_revokedCids = Some (getRevoked demo_revoked ''b''), di_schema = pd_schemaForCustomer demo_proxy_deps ''b'',
        di_trustedIssuerDid = pd_trustedIssuerDid demo_proxy_deps, di_now = None, di_maxChainDepth = None\<rparr> = Inr d"
      using d(1) by (simp add: inp demo_clocks_def)
  qed (use u(1) d(2) in \<open>simp_all add: demo_run_of_def demo_proxy_body_def demo_proxy_http_def demo_body_parsed demo_chained_sel
      chain demo_clocks_def demo_proxy_deps_def isKnownProvider_def\<close>)
  then show ?thesis by (auto simp: demo_run_of_def)
qed

subsection \<open>Where a call goes\<close>

definition gated_providers :: "string list" where
  "gated_providers =
     [''github'', ''slack'', ''discord'', ''stripe'', ''linear'', ''notion'', ''google_drive'', ''google_gmail'',
      ''google_calendar'', ''google_docs'', ''google_sheets'', ''google_tasks'', ''google_contacts'']"

lemma gated_path:
  assumes "data_plane_gate nd constraint call = Inr Adapter_ok"
    "jget (object_or_empty constraint) ''provider'' \<in> JStr ` set gated_providers"
  shows "startsWith (ac_path call) ''/''"
proof (rule ccontr)
  assume n: "\<not> startsWith (ac_path call) ''/''"
  have "parseGithubPath nd (ac_path call) = None" "parseSlackPath (ac_path call) q b = None"
    "parseDiscordPath (ac_path call) = None" "parseStripePath (ac_path call) = None" "\<not> parseLinearPath (ac_path call)"
    "parseNotionPath (ac_path call) = None" "parseGoogleDrivePath (ac_path call) = None"
    "parseGoogleGmailPath (ac_path call) = None" "parseGoogleCalendarPath (ac_path call) = None"
    "parseGoogleDocsPath (ac_path call) = None" "parseGoogleSheetsPath (ac_path call) = Inr None"
    "parseGoogleTasksPath (ac_path call) = None" "parseGoogleContactsPath (ac_path call) = None" for q b
    using n by (simp_all add: parseGithubPath_def parseSlackPath_def parseDiscordPath_def parseStripePath_def
        parseLinearPath_def parseNotionPath_def parseGoogleDrivePath_def parseGoogleGmailPath_def
        parseGoogleCalendarPath_def parseGoogleDocsPath_def parseGoogleSheetsPath_def parseGoogleTasksPath_def
        parseGoogleContactsPath_def)
  note none = this
  have refused: "validateGithubProxyCall nd c call \<noteq> Adapter_ok" "validateSlackProxyCall c call \<noteq> Adapter_ok"
    "validateDiscordProxyCall c call \<noteq> Adapter_ok" "validateStripeProxyCall c call \<noteq> Adapter_ok"
    "validateLinearProxyCall c call \<noteq> Adapter_ok" "validateNotionProxyCall c call \<noteq> Inr Adapter_ok"
    "validateGoogleDriveProxyCall c call \<noteq> Adapter_ok" "validateGoogleGmailProxyCall c call \<noteq> Adapter_ok"
    "validateGoogleCalendarProxyCall c call \<noteq> Adapter_ok" "validateGoogleDocsProxyCall c call \<noteq> Adapter_ok"
    "validateGoogleSheetsProxyCall c call \<noteq> Inr Adapter_ok" "validateGoogleTasksProxyCall c call \<noteq> Adapter_ok"
    "validateGoogleContactsProxyCall c call \<noteq> Adapter_ok" for c
    by (simp_all add: none validateGithubProxyCall_def validateSlackProxyCall_def validateDiscordProxyCall_def
        validateStripeProxyCall_def validateLinearProxyCall_def validateNotionProxyCall_def validateGoogleDriveProxyCall_def
        validateGoogleGmailProxyCall_def validateGoogleCalendarProxyCall_def validateGoogleDocsProxyCall_def
        validateGoogleSheetsProxyCall_def validateGoogleTasksProxyCall_def validateGoogleContactsProxyCall_def)
  from assms(2) obtain p where p: "p \<in> set gated_providers" "jget (object_or_empty constraint) ''provider'' = JStr p" by auto
  from p(1) assms(1) refused show False
    by (auto simp: data_plane_gate_def Let_def p(2) gated_providers_def)
qed

lemma takeWhile_stop: "\<not> P x \<Longrightarrow> takeWhile P (xs @ x # ys) = takeWhile P xs"
  by (induction xs) auto

lemma authority_path:
  assumes "length ''https://'' \<le> length (filter (\<lambda>c. c \<notin> {CHR 0x09, CHR 0x0A, CHR 0x0D}) base)"
  shows "authority (base @ CHR ''/'' # p) = authority base"
  using assms by (simp add: authority_def takeWhile_stop)

lemma hosts:
  "url_host ''https://api.github.com'' = ''api.github.com''"
  "url_host ''https://api.github.com@evil.example/x'' = ''evil.example''"
  by code_simp+

text \<open>A leaf token whose resource constraint names a provider with a gate keeps every call on the host of
  the API it is sent to: whatever path, query and headers the caller gives, the gate passes no call whose path
  would change the authority of the URL.\<close>

theorem gated_call_keeps_host:
  assumes "data_plane_gate nd constraint call = Inr Adapter_ok"
    "jget (object_or_empty constraint) ''provider'' \<in> JStr ` set gated_providers"
    "map_of PROVIDER_API connector = Some cfg"
  shows "url_host (ur_url (upstream_request cfg accessToken call)) = url_host (pc_base cfg)"
proof -
  obtain p where p: "ac_path call = CHR ''/'' # p" using gated_path [OF assms(1,2)] by (cases "ac_path call") auto
  have long: "length ''https://'' \<le> length (filter (\<lambda>c. c \<notin> {CHR 0x09, CHR 0x0A, CHR 0x0D}) (pc_base cfg))"
    using assms(3) by (auto simp: PROVIDER_API_def plain_config_def split: if_splits)
  show ?thesis
    by (simp add: upstream_request_def Let_def url_host_def p authority_path [OF long])
qed

theorem gated_call_keeps_host_witness:
  "url_host (ur_url (upstream_request (the (map_of PROVIDER_API ''github'')) ''t'' (demo_call ''/repos/o/r/issues'')))
     = ''api.github.com''"
proof -
  obtain cfg where cfg: "map_of PROVIDER_API ''github'' = Some cfg" "pc_base cfg = ''https://api.github.com''"
    by (simp add: PROVIDER_API_def plain_config_def)
  let ?c = "JObj [(''provider'', JStr ''github''), (''owner'', JStr ''o'')]"
  have "data_plane_gate (e_nd demo_env) ?c (demo_call ''/repos/o/r/issues'') = Inr Adapter_ok"
    by (simp add: data_plane_gate_def object_or_empty_def jget_def validateGithubProxyCall_def demo_call_def parseGithubPath_def
        path_segs_def path_head_def seg_def seg_is_def pinned_def prefix_pinned_def strict_equal_def Let_def filter_Boolean_def)
  from gated_call_keeps_host [OF this _ cfg(1), of "''t''"]
  have "url_host (ur_url (upstream_request cfg ''t'' (demo_call ''/repos/o/r/issues''))) = url_host ''https://api.github.com''"
    by (simp add: cfg object_or_empty_def jget_def gated_providers_def)
  then show ?thesis by (simp add: cfg hosts)
qed

text \<open>Without a resource constraint nothing pins the host. The schemas of the packs reject \<open>..\<close> and
  double slashes in a path, not a path without a leading slash, and the adapter appends it to the base URL:
  the path \<open>@evil.example/x\<close> passes every gate of a GitHub command, for any declared resource, and the
  customer's access token is sent to evil.example.\<close>

theorem unscoped_call_leaves_host:
  "validateApiCall (PACKS nd) ''/github/repo/list'' (JObj (call_obj (demo_call ''@evil.example/x''))) = VOk \<and>
   validateResourceConsistency (PACKS nd) ''/github/repo/list'' resource (demo_call ''@evil.example/x'') = Inr ConsistencyOk \<and>
   data_plane_gate nd JUndef (demo_call ''@evil.example/x'') = Inr Adapter_ok \<and>
   (\<exists>cfg. map_of PROVIDER_API ''github'' = Some cfg \<and>
      url_host (ur_url (upstream_request cfg accessToken (demo_call ''@evil.example/x''))) = ''evil.example'' \<and>
      map_of (ur_headers (upstream_request cfg accessToken (demo_call ''@evil.example/x''))) ''authorization'' =
        Some (''Bearer '' @ accessToken))"
proof -
  have pack: "packForCommand (PACKS nd) ''/github/repo/list'' = Some (githubPack nd)"
    by (simp add: packForCommand_def filter_Boolean_def PACKS_def pack_defs eval_nat_numeral)
  have curated: "entry github_githubActionSchemas ''/github/repo/list'' =
      \<lparr>as_apiCallSchema = Some (s_object github_getCall), as_resourceSchema = Some (s_object github_githubResource)\<rparr>"
    by (simp add: entry_def github_githubActionSchemas_def)
  have schema: "as_apiCallSchema (entry (pk_actionSchemas (githubPack nd)) ''/github/repo/list'') = Some (s_object github_getCall)"
    unfolding githubPack_def make_pack_def IntegrationPack.select_convs entry_merge override_schemas_def curated by simp
  have "validateApiCall (PACKS nd) ''/github/repo/list'' (JObj (call_obj (demo_call ''@evil.example/x''))) = VOk"
    by (simp add: validateApiCall_def pack schema)
      (simp add: s_object_def github_getCall_def github_apiCallBase_def with_members_def github_safePath_def s_safe_path_def
        call_obj_def demo_call_def jget_def s_str_def safe_path_def s_literal_def s_optional_def s_unknown_def s_record_def)
  moreover have "validateResourceConsistency (PACKS nd) ''/github/repo/list'' resource (demo_call ''@evil.example/x'') = Inr ConsistencyOk"
    by (simp add: validateResourceConsistency_def pack githubPack_def make_pack_def pure_extract_def extract_github_def
        parseGithubPath_def demo_call_def)
  moreover obtain cfg where cfg: "map_of PROVIDER_API ''github'' = Some cfg" "pc_base cfg = ''https://api.github.com''"
      "pc_authScheme cfg = None" "map_of (rev (pc_staticHeaders cfg)) ''authorization'' = None"
    by (simp add: PROVIDER_API_def plain_config_def)
  moreover have "url_host (ur_url (upstream_request cfg accessToken (demo_call ''@evil.example/x''))) = ''evil.example''"
    by (simp add: upstream_request_def Let_def demo_call_def cfg hosts)
  moreover have "map_of (ur_headers (upstream_request cfg accessToken (demo_call ''@evil.example/x''))) ''authorization'' =
        Some (''Bearer '' @ accessToken)"
    by (simp add: upstream_request_def Let_def demo_call_def request_headers_def map_of_spread opt_headers_def cfg)
  ultimately show ?thesis by (simp add: data_plane_gate_def object_or_empty_def jget_def)
qed

subsection \<open>The cosigner of a destructive cloud call\<close>

text \<open>The extra cosigner check of destructive cloud commands looks at the request as it was sent, not at the
  one the cosigner stage approved. A caller whose passkey approval was validated and consumed for this very
  call, and for which the decision core allows, is still refused with \<open>cosigner_required\<close>: no cloud call is
  made and the approval is spent.\<close>

theorem approved_cosigner_still_refused:
  assumes "proxy_cosigner_step R = Inr (Effective r used)"
    "decide (rn_env R) C (rn_clock R) (proxy_decide_input R revoked policies r) = Inr d" "d_allow d"
    "commandIsDestructive (rq_command (rn_request R))" "\<not> context_cosigner (rn_request R)"
    "leaf_text (rn_leaf R) ''cloud_connection_id'' = Some connectionId" "pd_cloud (rn_deps R) = Some cloud"
    "nonempty (extractAgentId (rn_env R) (leaf_jwt R)) = Some agentId" "leaf_cid R = Inr cid"
    "\<not> pd_emitsSpans (rn_deps R)" "pd_emitAudit (rn_deps R) = Some emitAudit" "\<forall>row. emitAudit row = Inr ()"
  shows "\<exists>d' lg'. proxy_admitted C R revoked policies lg = Inr (Proxy_denied 403 d' ''cosigner_required'', lg') \<and>
     \<not> d_allow d' \<and> lg_cloud lg' = lg_cloud lg \<and> lg_consumed lg' = used"
proof -
  have force: "shouldForceStepUp d (rn_request R)"
    using assms(3-5) by (auto simp: shouldForceStepUp_def commandIsDestructive_def split: if_splits)
  have detect: "detect_stepup (rn_env R) C (rn_clock R) (pd_stepup (rn_deps R)) (rn_customer R) (rn_request R)
      (proxy_decide_input R revoked policies r) d = Inr (d, None)"
    using assms(3) by (simp add: detect_stepup_def shouldDetectStepUp_def split: option.split)
  let ?lg0 = "lg\<lparr>lg_consumed := used, lg_created := None\<rparr>"
  let ?lg1 = "?lg0\<lparr>lg_audit := lg_audit lg @ [decision_row R d]\<rparr>"
  let ?d = "d\<lparr>d_allow := False, d_requiresStepUp := Some True, d_reason := None\<rparr>"
  have "emit_row R (decision_row R d) ?lg0 = Inr ?lg1" using assms(11,12) by (simp add: emit_row_def)
  moreover have "execute R d ?lg1 = Inr (Proxy_denied 403 ?d ''cosigner_required'', ?lg1)"
    using assms(6-10) force by (simp add: execute_def cloud_branch_def fireSpan_off)
  ultimately have "proxy_decided R d ?lg0 = Inr (Proxy_denied 403 ?d ''cosigner_required'', ?lg1)"
    using assms(3) by (simp add: proxy_decided_def)
  then have "proxy_admitted C R revoked policies lg = Inr (Proxy_denied 403 ?d ''cosigner_required'', ?lg1)"
    using assms(1,2) detect by (simp add: proxy_admitted_def Let_def)
  then show ?thesis by simp
qed

theorem approved_cosigner_still_refused_witness:
  "\<exists>d lg. proxy_admitted demo_cedar cloud_run demo_revoked ''permit'' (empty_log [] []) =
       Inr (Proxy_denied 403 d ''cosigner_required'', lg) \<and> lg_cloud lg = [] \<and> lg_consumed lg = Some ''p1''"
proof -
  obtain rid where d: "decide demo_env demo_cedar 500
      (proxy_decide_input cloud_run demo_revoked ''permit'' (with_cosigner (cloud_request_of (Some cosign_jwt)))) =
    Inr (allow_decision rid)" by (rule cloud_decided)
  obtain u where u: "parseUcanJwt demo_env cloud_jwt = Some u" "u_payload u = cloud_payload" by (rule cloud_parsed)
  have meta: "p_meta cloud_payload = Some cloud_meta" by (simp add: cloud_payload_def demo_payload_def)
  obtain t where t: "canonicalize (e_nfc demo_env) (JObj (payloadObj cloud_payload)) = Inr t"
    using canonicalize_ok [OF cloud_plain(1)] unfolding is_ok_iff by blast
  have "\<exists>d' lg'. proxy_admitted demo_cedar cloud_run demo_revoked ''permit'' (empty_log [] []) =
      Inr (Proxy_denied 403 d' ''cosigner_required'', lg') \<and>
     \<not> d_allow d' \<and> lg_cloud lg' = lg_cloud (empty_log [] []) \<and> lg_consumed lg' = Some ''p1''"
  proof (rule approved_cosigner_still_refused [OF cloud_cosigned, where d = "allow_decision rid" and connectionId = "''sub''"
        and agentId = "''a1''" and cid = "Some (computeCid demo_env t)" and emitAudit = "\<lambda>row. Inr ()"])
    show "decide (rn_env cloud_run) demo_cedar (rn_clock cloud_run)
        (proxy_decide_input cloud_run demo_revoked ''permit'' (with_cosigner (cloud_request_of (Some cosign_jwt)))) =
      Inr (allow_decision rid)" using d by simp
    show "commandIsDestructive (rq_command (rn_request cloud_run))"
      by (simp add: cloud_request_of_def) code_simp
    show "leaf_text (rn_leaf cloud_run) ''cloud_connection_id'' = Some ''sub''"
      by (simp add: leaf_text_def leaf_meta_def u meta cloud_meta_def jget_def nonempty_def str_truthy_def)
    show "nonempty (extractAgentId (rn_env cloud_run) (leaf_jwt cloud_run)) = Some ''a1''"
      by (simp add: extractAgentId_def u meta_string_def meta cloud_meta_def jget_def nonempty_def str_truthy_def)
    show "leaf_cid cloud_run = Inr (Some (computeCid demo_env t))"
      using t by (simp add: leaf_cid_def u lift_canon_def del: canonicalize_obj)
  qed (simp_all add: context_cosigner_def cloud_request_of_def jget_def cloud_deps_def demo_proxy_deps_def allow_decision_def)
  then show ?thesis by auto
qed

end
