(* ===== verification/Filesystem_Properties.thy ===== *)
theory Filesystem_Properties
  imports Filesystem Pack_Vocabulary
begin

text \<open>
  What the local filesystem executor guarantees: it reads and changes only what lies below the real path of
  the constraint's prefix, except that a write or a copy follows a symbolic link at its target.
\<close>

subsection \<open>Texts of paths\<close>

abbreviation clean :: "rpath \<Rightarrow> bool" where
  "clean p \<equiv> list_all name_ok p"

lemma takeWhile_to_slash:
  assumes "a @ r = b @ s" "CHR ''/'' \<notin> set a" "CHR ''/'' \<notin> set b"
    "r = [] \<or> hd r = CHR ''/''" "s = [] \<or> hd s = CHR ''/''"
  shows "a = b \<and> r = s"
proof -
  have "takeWhile (\<lambda>c. c \<noteq> CHR ''/'') (a @ r) = a" "takeWhile (\<lambda>c. c \<noteq> CHR ''/'') (b @ s) = b"
    using assms(2-5) by (auto simp: takeWhile_append takeWhile_eq_Nil_iff)
  with assms(1) show ?thesis by auto
qed

abbreviation slashed :: "rpath \<Rightarrow> string" where
  "slashed p \<equiv> concat (map (\<lambda>c. CHR ''/'' # c) p)"

lemma slashed_head: "slashed p = [] \<or> hd (slashed p) = CHR ''/''"
  by (cases p) auto

lemma slashed_prefix:
  assumes "clean P" "clean p" "r = [] \<or> hd r = CHR ''/''" "slashed p = slashed P @ r"
  shows "below P p"
  using assms
proof (induction P arbitrary: p)
  case (Cons c P)
  then obtain e q where p: "p = e # q" by (cases p) auto
  have "c = e \<and> slashed P @ r = slashed q"
    by (rule takeWhile_to_slash) (use Cons.prems p slashed_head [of q] slashed_head [of P] in
      \<open>auto simp: name_ok_def hd_append\<close>)
  with Cons p show ?case by (auto simp: below_def)
qed (simp add: below_def)

lemma within_text_iff:
  assumes "clean P" "clean p"
  shows "within_text (path_text P) (path_text p) \<longleftrightarrow> below P p"
proof (cases "P = []")
  case True
  then show ?thesis
    by (cases p) (auto simp: within_text_def path_text_def below_def endsWith_def)
next
  case False
  then have P: "path_text P = slashed P" by (simp add: path_text_def)
  obtain c where c: "last (slashed P) = c" "c \<noteq> CHR ''/''"
  proof -
    have "last P \<in> set P" using False by simp
    with assms(1) have l: "name_ok (last P)" by (simp add: list_all_iff)
    have "slashed P = slashed (butlast P) @ CHR ''/'' # last P"
      by (subst append_butlast_last_id [OF False, symmetric], subst map_append) simp
    then have "last (slashed P) = last (last P)" using l by (simp add: name_ok_def)
    moreover have "last (last P) \<noteq> CHR ''/''" using l by (metis last_in_set name_ok_def)
    ultimately show ?thesis using that by blast
  qed
  then have noend: "\<not> endsWith (slashed P) ''/''"
    by (auto simp: endsWith_iff)
  show ?thesis
  proof
    assume "within_text (path_text P) (path_text p)"
    then obtain r where r: "path_text p = slashed P @ r" "r = [] \<or> hd r = CHR ''/''"
      using noend P by (auto simp: within_text_def startsWith_iff)
    have "p \<noteq> []" using r False P c by (cases P) (auto simp: path_text_def)
    with r have "slashed p = slashed P @ r" by (simp add: path_text_def)
    from slashed_prefix [OF assms r(2) this] show "below P p" .
  next
    assume "below P p"
    then have "p = P @ drop (length P) p" by (metis append_take_drop_id below_def)
    then obtain q where q: "p = P @ q" by blast
    then have "path_text p = slashed P @ slashed q" using False by (simp add: path_text_def)
    then show "within_text (path_text P) (path_text p)"
      using P noend by (cases q) (auto simp: within_text_def startsWith_iff)
  qed
qed

subsection \<open>Real paths\<close>

definition pieces :: "string list \<Rightarrow> bool" where
  "pieces cs \<longleftrightarrow> (\<forall>c \<in> set cs. CHR ''/'' \<notin> set c)"

lemma pieces_simps [simp]:
  "pieces []" "pieces (c # cs) \<longleftrightarrow> CHR ''/'' \<notin> set c \<and> pieces cs" "pieces (cs @ ds) \<longleftrightarrow> pieces cs \<and> pieces ds"
  by (auto simp: pieces_def)

lemma pieces_split [simp]: "pieces (split_on CHR ''/'' t)"
  using split_on_pieces by (auto simp: pieces_def)

lemma clean_pieces: "clean p \<Longrightarrow> pieces p"
  by (auto simp: pieces_def list_all_iff name_ok_def)

lemma clean_butlast: "clean p \<Longrightarrow> clean (butlast p)"
  by (auto simp: list_all_iff dest: in_set_butlastD)

lemma clean_snoc: "clean (p @ [c]) \<longleftrightarrow> clean p \<and> c \<noteq> [] \<and> c \<noteq> ''.'' \<and> c \<noteq> ''..'' \<and> CHR ''/'' \<notin> set c"
  by (auto simp: name_ok_def)

lemma resolve_clean: "pieces cs \<Longrightarrow> clean acc \<Longrightarrow> clean (foldl resolve_step acc cs)"
proof (induction cs arbitrary: acc)
  case (Cons c cs)
  from Cons.prems have "clean (resolve_step acc c)"
    by (simp add: resolve_step_def clean_butlast clean_snoc del: list_all_append)
  with Cons show ?case by simp
qed simp

lemma path_resolve_clean: "clean cwd \<Longrightarrow> clean (path_resolve cwd text)"
  unfolding path_resolve_def by (rule resolve_clean) simp_all

lemma walk_clean:
  "walk_path creat links d acc cs = Inr q \<Longrightarrow> clean acc \<Longrightarrow> pieces cs \<Longrightarrow> clean q"
proof (induction creat links d acc cs rule: walk_path.induct)
  case (2 creat links d acc c cs)
  consider (skip) "c = [] \<or> c = ''.''" | (up) "c = ''..''" | (enter) "c \<noteq> []" "c \<noteq> ''.''" "c \<noteq> ''..''" by blast
  then show ?case
  proof cases
    case skip
    with 2 show ?thesis by simp
  next
    case up
    with 2 show ?thesis by (simp add: clean_butlast)
  next
    case enter
    have snoc: "clean (acc @ [c])" using enter 2 by (simp add: clean_snoc del: list_all_append)
    show ?thesis
    proof (cases "look d (acc @ [c])")
      case None
      with enter 2(5) snoc show ?thesis by (simp del: list_all_append split: if_splits)
    next
      case (Some n)
      show ?thesis
      proof (cases n)
        case (File_node b)
        with Some enter 2(5) snoc show ?thesis by (simp del: list_all_append split: if_splits)
      next
        case Dir_node
        with Some enter 2(5-7) snoc 2(3) show ?thesis by (simp del: list_all_append)
      next
        case (Link_node t)
        with Some enter 2(5-7) 2(4) show ?thesis by (simp split: if_splits)
      qed
    qed
  qed
qed simp

lemma realpath_clean: "realpath d p = Inr q \<Longrightarrow> clean p \<Longrightarrow> clean q"
  using walk_clean [of False 40 d "[]" p q] by (simp add: realpath_def clean_pieces)

text \<open>Every proper prefix of a real path is a directory.\<close>

definition solid :: "disk \<Rightarrow> rpath \<Rightarrow> bool" where
  "solid d p \<longleftrightarrow> (\<forall>k \<le> length p. look d (take k p) = Some Dir_node)"

definition real :: "disk \<Rightarrow> rpath \<Rightarrow> bool" where
  "real d q \<longleftrightarrow> solid d q \<or> q \<noteq> [] \<and> solid d (butlast q) \<and> (\<exists>b. look d q = Some (File_node b))"

lemma solid_Nil [simp]: "solid d []"
  by (simp add: solid_def look_def)

lemma solid_snoc [simp]: "solid d (p @ [c]) \<longleftrightarrow> solid d p \<and> look d (p @ [c]) = Some Dir_node"
  by (auto simp: solid_def le_Suc_eq)

lemma solid_butlast: "solid d p \<Longrightarrow> solid d (butlast p)"
  by (cases p rule: rev_cases) auto

lemma solid_look: "solid d p \<Longrightarrow> look d p = Some Dir_node"
  by (auto simp: solid_def)

lemma walk_real: "walk_path False links d acc cs = Inr q \<Longrightarrow> solid d acc \<Longrightarrow> real d q"
proof (induction False links d acc cs rule: walk_path.induct)
  case (2 links d acc c cs)
  then show ?case
    by (auto simp: real_def solid_butlast split: if_splits option.splits node.splits)
qed (simp add: real_def)

lemma realpath_real: "realpath d p = Inr q \<Longrightarrow> real d q"
  unfolding realpath_def by (erule walk_real) simp

lemma solid_take: "solid d (p @ q) \<Longrightarrow> solid d p"
  unfolding solid_def by (metis le_add1 length_append take_append append_Nil2 diff_is_0_eq' order_trans take0)

lemma walk_straight:
  "solid d (acc @ p) \<Longrightarrow> clean p \<Longrightarrow> walk_path creat links d acc (p @ cs) = walk_path creat links d (acc @ p) cs"
proof (induction p arbitrary: acc)
  case (Cons c p)
  have "solid d ((acc @ [c]) @ p)" using Cons.prems by simp
  then have "solid d (acc @ [c])" by (rule solid_take)
  then have "look d (acc @ [c]) = Some Dir_node" by simp
  with Cons show ?case by (simp add: name_ok_def)
qed simp

subsection \<open>The effects stay below a path\<close>

lemma look_put [simp]: "p \<noteq> [] \<Longrightarrow> look (put p n d) x = (if x = p then Some n else look d x)"
  by (auto simp: look_def put_def map_of_filter_in) (induction d; auto)+

lemma look_remove: "x \<noteq> p \<Longrightarrow> look (remove p d) x = look d x"
  unfolding look_def remove_def by (induction d) auto

lemma look_cut: "\<not> below p x \<Longrightarrow> look (cut p d) x = look d x"
  unfolding look_def cut_def by (induction d) auto

lemma below_refl [simp]: "below p p"
  by (simp add: below_def)

lemma below_append [simp]: "below p (p @ q)"
  by (simp add: below_def)

lemma below_iff: "below p x \<longleftrightarrow> (\<exists>q. x = p @ q)"
  by (metis append_take_drop_id below_append below_def)

lemma below_trans: "below p q \<Longrightarrow> below q x \<Longrightarrow> below p x"
  by (auto simp: below_iff)

lemma map_of_moved:
  "\<not> below src x \<Longrightarrow> \<not> below dst x \<Longrightarrow> map_of (moved src dst d) x = map_of d x"
  unfolding moved_def by (induction d) (auto simp: below_iff)

lemma look_moved: "\<not> below src x \<Longrightarrow> \<not> below dst x \<Longrightarrow> look (moved src dst d) x = look d x"
  by (simp add: look_def map_of_moved)

text \<open>\<open>d'\<close> differs from \<open>d\<close> only below \<open>P\<close>.\<close>

definition confined :: "rpath \<Rightarrow> disk \<Rightarrow> disk \<Rightarrow> bool" where
  "confined P d d' \<longleftrightarrow> (\<forall>x. \<not> below P x \<longrightarrow> look d' x = look d x)"

lemma confined_same [simp]: "confined P d d"
  by (simp add: confined_def)

lemma confined_put: "below P p \<Longrightarrow> p \<noteq> [] \<Longrightarrow> confined P d (put p n d)"
  by (auto simp: confined_def)

lemma create_confined: "create_new d p b = Inr d' \<Longrightarrow> below P p \<Longrightarrow> confined P d d'"
  by (cases "p = []") (auto simp: create_new_def look_def confined_put split: if_splits)

lemma unlink_confined: "unlink d p = Inr d' \<Longrightarrow> below P p \<Longrightarrow> confined P d d'"
  by (auto simp: unlink_def confined_def intro!: look_remove split: option.splits node.splits)

lemma rename_confined:
  assumes "rename d src dst = Inr d'" "below P src" "below P dst"
  shows "confined P d d'"
proof -
  from assms(1) have "d' = d \<or> d' = moved src dst d"
    by (auto simp: rename_def split: option.splits node.splits if_splits)
  moreover have "confined P d (moved src dst d)"
    unfolding confined_def using assms(2,3) by (metis below_trans look_moved)
  ultimately show ?thesis by auto
qed

lemma mkdir_confined: "mkdir_p d p = Inr d' \<Longrightarrow> below P p \<Longrightarrow> confined P d d'"
  by (cases "p = []") (auto simp: mkdir_p_def look_def confined_put split: option.splits node.splits sum.splits if_splits)

lemma rmdir_confined: "rmdir d p = Inr d' \<Longrightarrow> below P p \<Longrightarrow> confined P d d'"
  by (auto simp: rmdir_def confined_def intro!: look_remove split: option.splits node.splits if_splits)

lemma rm_confined: "rm_recursive d p = Inr d' \<Longrightarrow> below P p \<Longrightarrow> confined P d d'"
  by (auto simp: rm_recursive_def confined_def below_iff intro!: look_cut split: if_splits)

text \<open>Writing below a real directory is confined unless a link is there.\<close>

lemma write_confined:
  assumes "writeFile d (par @ [n]) b = Inr d'" "real d par" "clean (par @ [n])" "below P (par @ [n])"
    "\<And>t. look d (par @ [n]) \<noteq> Some (Link_node t)"
  shows "confined P d d'"
proof -
  from assms(1) obtain x where w: "walk_path True 40 d [] (par @ [n]) = Inr x"
    and d': "look d x \<noteq> Some Dir_node" "d' = put x (File_node b) d"
    by (auto simp: writeFile_def rbind_Inr_iff split: if_splits)
  have "solid d par"
  proof (rule ccontr)
    assume "\<not> solid d par"
    with assms(2) obtain m q c where par: "par = q @ [m]" "solid d q" "look d par = Some (File_node c)"
      by (auto simp: real_def) (metis append_butlast_last_id)
    with w assms(3) walk_straight [of d "[]" q True 40 "[m, n]"] show False by (simp add: name_ok_def)
  qed
  with w assms(3) walk_straight [of d "[]" par True 40 "[n]"]
  have "walk_path True 40 d par [n] = Inr x" by simp
  with assms(3,5) d'(1) have "x = par @ [n]"
    by (auto simp: name_ok_def split: option.splits node.splits if_splits)
  with d' assms(4) show ?thesis by (simp add: confined_put)
qed

subsection \<open>What the checks establish\<close>

lemma real_fixed: "real d q \<Longrightarrow> clean q \<Longrightarrow> walk_path creat links d [] q = Inr q"
proof (cases "solid d q")
  case True
  moreover assume "clean q"
  ultimately show ?thesis using walk_straight [of d "[]" q creat links "[]"] by simp
next
  case False
  assume "real d q" "clean q"
  with False obtain p c b where q: "q = p @ [c]" "solid d p" "look d q = Some (File_node b)"
    by (auto simp: real_def) (metis append_butlast_last_id)
  with \<open>clean q\<close> walk_straight [of d "[]" p creat links "[c]"] show ?thesis by (simp add: name_ok_def)
qed

lemma resolve_ok:
  assumes "resolveAgainstConstraint N d c p = Inr q" "clean (nv_cwd N)"
  obtains P where "realpath d (prefix_of N c) = Inr P" "below P q" "real d q" "clean q"
proof -
  from assms(1) obtain P where P: "realpath d (prefix_of N c) = Inr P"
    "realpath d (path_resolve (nv_cwd N) p) = Inr q" "within_text (path_text P) (path_text q)"
    by (auto simp: resolveAgainstConstraint_def split: if_splits sum.splits)
  have "clean P" using realpath_clean [OF P(1)] path_resolve_clean [OF assms(2)] by (simp add: prefix_of_def)
  moreover have "clean q" using realpath_clean [OF P(2)] path_resolve_clean [OF assms(2)] by simp
  ultimately show ?thesis using that P realpath_real [OF P(2)] by (simp add: within_text_iff)
qed

lemma resolve_new_ok:
  assumes "resolveNewPath N d c p = Inr q" "clean (nv_cwd N)"
  obtains (root) "realpath d (prefix_of N c) = Inr []" "q = []"
  | (child) P par n where "realpath d (prefix_of N c) = Inr P" "q = par @ [n]" "below P par" "real d par" "clean q"
proof -
  let ?abs = "path_resolve (nv_cwd N) p"
  from assms(1) obtain P par where P: "realpath d (prefix_of N c) = Inr P" "realpath d (butlast ?abs) = Inr par"
    "within_text (path_text P) (path_text par)" "q = par @ (if ?abs = [] then [] else [last ?abs])"
    by (auto simp: resolveNewPath_def Let_def split: if_splits sum.splits)
  have abs: "clean ?abs" by (rule path_resolve_clean) (rule assms(2))
  have "clean P" using realpath_clean [OF P(1)] path_resolve_clean [OF assms(2)] by (simp add: prefix_of_def)
  moreover have par: "clean par" using realpath_clean [OF P(2)] clean_butlast [OF abs] by simp
  ultimately have b: "below P par" using P(3) by (simp add: within_text_iff)
  show ?thesis
  proof (cases "?abs = []")
    case True
    with P(2) have "par = []" by (simp add: realpath_def)
    with True P b root show ?thesis by (auto simp: below_def)
  next
    case False
    with abs have "name_ok (last ?abs)" by (simp add: list_all_iff)
    with False P b par realpath_real [OF P(2)] child show ?thesis by simp
  qed
qed

lemma new_below:
  assumes "resolveNewPath N d c p = Inr q" "clean (nv_cwd N)"
  shows "\<exists>P. realpath d (prefix_of N c) = Inr P \<and> below P q"
  using assms by (cases rule: resolve_new_ok) (auto simp: below_iff)

lemma target_below:
  "resolve_target N d c p = Inr q \<Longrightarrow> clean (nv_cwd N) \<Longrightarrow> \<exists>P. realpath d (prefix_of N c) = Inr P \<and> below P q"
  by (auto simp: resolve_target_def dest: new_below split: sum.splits)

lemma lift_errno_Inr [simp]: "lift_errno r = Inr a \<longleftrightarrow> r = Inr a"
  by (cases r) (simp_all add: lift_errno_def)

lemma changing_Inr [simp]: "changing r = Inr (u, d') \<longleftrightarrow> r = Inr d'"
  by (auto simp: changing_def rbind_Inr_iff)

lemma failing_Inr [simp]: "failing what r = Inr a \<longleftrightarrow> r = Inr a"
  by (cases r) (simp_all add: failing_def)

text \<open>The disk after a step differs only below the real prefix; \<open>linked\<close> is the exception of a write.\<close>

definition fs_confined :: "node_env \<Rightarrow> disk \<Rightarrow> obj \<Rightarrow> disk \<Rightarrow> bool" where
  "fs_confined N d c d' \<longleftrightarrow> (\<exists>P. realpath d (prefix_of N c) = Inr P \<and> confined P d d')"

definition link_below :: "node_env \<Rightarrow> disk \<Rightarrow> obj \<Rightarrow> bool" where
  "link_below N d c \<longleftrightarrow>
     (\<exists>P q t. realpath d (prefix_of N c) = Inr P \<and> below P q \<and> look d q = Some (Link_node t))"

lemma fs_confinedI: "realpath d (prefix_of N c) = Inr P \<Longrightarrow> confined P d d' \<Longrightarrow> fs_confined N d c d'"
  by (auto simp: fs_confined_def)

lemma resolved_confined: "resolveAgainstConstraint N d c p = Inr q \<Longrightarrow> clean (nv_cwd N) \<Longrightarrow> fs_confined N d c d"
  by (erule (1) resolve_ok) (auto intro: fs_confinedI)

lemma new_confined:
  "resolveNewPath N d c p = Inr q \<Longrightarrow> clean (nv_cwd N) \<Longrightarrow> (\<And>P. below P q \<Longrightarrow> confined P d d') \<Longrightarrow> fs_confined N d c d'"
  using new_below by (blast intro: fs_confinedI)

lemma old_confined:
  "resolveAgainstConstraint N d c p = Inr q \<Longrightarrow> clean (nv_cwd N) \<Longrightarrow> (\<And>P. below P q \<Longrightarrow> confined P d d') \<Longrightarrow>
   fs_confined N d c d'"
  by (erule (1) resolve_ok) (auto intro: fs_confinedI)

lemma new_written:
  assumes "resolveNewPath N d c p = Inr q" "clean (nv_cwd N)" "writeFile d q b = Inr d'"
  shows "fs_confined N d c d' \<or> link_below N d c"
  using assms(1,2)
proof (cases rule: resolve_new_ok)
  case root
  with assms(3) show ?thesis by (simp add: writeFile_def look_def)
next
  case (child P par n)
  show ?thesis
  proof (cases "\<exists>t. look d (par @ [n]) = Some (Link_node t)")
    case True
    with child show ?thesis unfolding link_below_def by (metis below_append below_trans)
  next
    case False
    have "below P (par @ [n])" using child(3) by (auto simp: below_iff)
    with False child assms(3) write_confined [of d par n b d' P] show ?thesis by (auto intro: fs_confinedI)
  qed
qed

lemma errno_result:
  "(case r of Inl EEXIST \<Rightarrow> Inl a | Inl e \<Rightarrow> Inl (f e) | Inr x \<Rightarrow> Inr (g x)) = Inr y \<longleftrightarrow> (\<exists>x. r = Inr x \<and> y = g x)"
  "(case r of Inl ENOTEMPTY \<Rightarrow> Inl a | Inl e \<Rightarrow> Inl (f e) | Inr x \<Rightarrow> Inr (g x)) = Inr y \<longleftrightarrow> (\<exists>x. r = Inr x \<and> y = g x)"
  by (cases r; simp split: errno.split; fail | (cases r, rename_tac e, case_tac e; auto))+

lemma create_file_parts:
  assumes "createFileWithConstraint N d c p b = Inr (q, d')"
  shows "resolveNewPath N d c p = Inr q \<and> create_new d q b = Inr d'"
  using assms unfolding createFileWithConstraint_def rbind_Inr_iff errno_result by auto

lemma delete_dir_parts:
  assumes "deleteDirWithConstraint N d c p = Inr (u, d')"
  shows "\<exists>q. resolveAgainstConstraint N d c p = Inr q \<and> rmdir d q = Inr d'"
  using assms unfolding deleteDirWithConstraint_def rbind_Inr_iff errno_result by auto

lemma step_confined:
  assumes cwd: "clean (nv_cwd N)"
  shows "readFileWithConstraint N d c p = Inr (x, d') \<Longrightarrow> fs_confined N d c d'"
    and "createFileWithConstraint N d c p b = Inr (y, d') \<Longrightarrow> fs_confined N d c d'"
    and "deleteFileWithConstraint N d c p = Inr (u, d') \<Longrightarrow> fs_confined N d c d'"
    and "moveWithConstraint N d c p p' = Inr (u, d') \<Longrightarrow> fs_confined N d c d'"
    and "listDirWithConstraint N d c p = Inr (es, d') \<Longrightarrow> fs_confined N d c d'"
    and "treeDirWithConstraint N d c p dep = Inr (es, d') \<Longrightarrow> fs_confined N d c d'"
    and "createDirWithConstraint N d c p = Inr (u, d') \<Longrightarrow> fs_confined N d c d'"
    and "deleteDirWithConstraint N d c p = Inr (u, d') \<Longrightarrow> fs_confined N d c d'"
    and "deleteDirRecursiveWithConstraint N d c p = Inr (u, d') \<Longrightarrow> fs_confined N d c d'"
proof -
  show "readFileWithConstraint N d c p = Inr (x, d') \<Longrightarrow> fs_confined N d c d'"
    by (auto simp: readFileWithConstraint_def rbind_Inr_iff intro: resolved_confined cwd)
  show "createFileWithConstraint N d c p b = Inr (y, d') \<Longrightarrow> fs_confined N d c d'"
    by (drule create_file_parts) (metis create_confined cwd new_confined)
  show "deleteFileWithConstraint N d c p = Inr (u, d') \<Longrightarrow> fs_confined N d c d'"
    by (clarsimp simp: deleteFileWithConstraint_def rbind_Inr_iff) (metis cwd old_confined unlink_confined)
  show "listDirWithConstraint N d c p = Inr (es, d') \<Longrightarrow> fs_confined N d c d'"
    by (auto simp: listDirWithConstraint_def rbind_Inr_iff intro: resolved_confined cwd)
  show "treeDirWithConstraint N d c p dep = Inr (es, d') \<Longrightarrow> fs_confined N d c d'"
    by (auto simp: treeDirWithConstraint_def rbind_Inr_iff intro: resolved_confined cwd)
  show "createDirWithConstraint N d c p = Inr (u, d') \<Longrightarrow> fs_confined N d c d'"
    by (clarsimp simp: createDirWithConstraint_def rbind_Inr_iff) (metis cwd new_confined mkdir_confined)
  show "deleteDirWithConstraint N d c p = Inr (u, d') \<Longrightarrow> fs_confined N d c d'"
    by (drule delete_dir_parts) (metis cwd old_confined rmdir_confined)
  show "deleteDirRecursiveWithConstraint N d c p = Inr (u, d') \<Longrightarrow> fs_confined N d c d'"
    by (clarsimp simp: deleteDirRecursiveWithConstraint_def rbind_Inr_iff split: if_splits) (metis cwd old_confined rm_confined)
  assume "moveWithConstraint N d c p p' = Inr (u, d')"
  then obtain src dst where m: "resolveAgainstConstraint N d c p = Inr src" "resolve_target N d c p' = Inr dst"
    "rename d src dst = Inr d'"
    by (auto simp: moveWithConstraint_def rbind_Inr_iff)
  obtain P where "realpath d (prefix_of N c) = Inr P" "below P src" by (rule resolve_ok [OF m(1) cwd])
  moreover then have "below P dst" using target_below [OF m(2) cwd] by simp
  ultimately
  show "fs_confined N d c d'" using rename_confined [OF m(3)] by (auto intro: fs_confinedI)
qed

subsection \<open>The dispatcher\<close>

lemma copy_parts:
  assumes "copyWithConstraint N d c p p' = Inr (u, d')" "clean (nv_cwd N)"
  shows "fs_confined N d c d' \<or> link_below N d c"
proof -
  from assms(1) obtain src dst b where "resolve_target N d c p' = Inr dst" "writeFile d dst b = Inr d'"
    by (auto simp: copyWithConstraint_def copyFile_def rbind_Inr_iff)
  then show ?thesis using new_written [OF _ assms(2)] by (auto simp: resolve_target_def split: sum.splits)
qed

lemma two_path_parts: "two_path_op what f call = Inr (v, d') \<Longrightarrow> \<exists>a b u. f a b = Inr (u, d')"
  by (auto simp: two_path_op_def rbind_Inr_iff)

lemma one_path_parts: "one_path_op what answer f call = Inr (v, d') \<Longrightarrow> \<exists>a u. f a = Inr (u, d')"
  by (auto simp: one_path_op_def rbind_Inr_iff)

lemma listing_parts: "listing what field p r = Inr (v, d') \<Longrightarrow> \<exists>es. r = Inr (es, d')"
  by (auto simp: listing_def rbind_Inr_iff)

lemma read_parts: "read_op N d c call = Inr (v, d') \<Longrightarrow> \<exists>p x. readFileWithConstraint N d c p = Inr (x, d')"
  by (auto simp: read_op_def rbind_Inr_iff split: option.splits)

lemma create_parts: "create_op N d c call = Inr (v, d') \<Longrightarrow> \<exists>p b x. createFileWithConstraint N d c p b = Inr (x, d')"
  by (auto simp: create_op_def rbind_Inr_iff)

lemma write_parts: "write_op N d c call = Inr (v, d') \<Longrightarrow> \<exists>p b x. writeFileWithConstraint N d c p b = Inr (x, d')"
  by (auto simp: write_op_def rbind_Inr_iff split: option.splits) blast

lemma fs_confined_call:
  assumes "executeFilesystemCommand nd N d call raw = Inr (v, d')" "list_all name_ok (nv_cwd N)" "parseConstraint raw = Some c"
  shows "fs_confined N d c d' \<or> ac_path call \<in> {''/file/write'', ''/file/copy''} \<and> link_below N d c"
proof (cases "ac_path call \<in> {''/file/write'', ''/file/copy''}")
  case True
  then consider "write_op N d c call = Inr (v, d')" | "two_path_op ''copy'' (copyWithConstraint N d c) call = Inr (v, d')"
    using assms(1,3) by (auto simp: executeFilesystemCommand_def)
  then show ?thesis
  proof cases
    case 1
    then obtain p b q where "writeFileWithConstraint N d c p b = Inr (q, d')" using write_parts by blast
    then have "resolveNewPath N d c p = Inr q" "writeFile d q b = Inr d'"
      by (auto simp: writeFileWithConstraint_def rbind_Inr_iff)
    with new_written [OF _ assms(2)] True show ?thesis by blast
  next
    case 2
    with copy_parts [OF _ assms(2)] True show ?thesis by (blast dest: two_path_parts)
  qed
next
  case False
  note step = step_confined [OF assms(2)]
  from assms(1) assms(3) False have "fs_confined N d c d'"
    unfolding executeFilesystemCommand_def
    by (auto simp: rbind_Inr_iff Let_def split: if_splits
        dest!: read_parts create_parts one_path_parts two_path_parts listing_parts intro: step)
  then show ?thesis by simp
qed

text \<open>A resolved path that names a file or a directory is below the prefix, and reading it reads that node.\<close>

lemma resolved_node:
  assumes "resolveAgainstConstraint N d c p = Inr q" "list_all name_ok (nv_cwd N)" "realpath d (prefix_of N c) = Inr P"
  shows "below P q" "readFile d q = Inr b \<Longrightarrow> look d q = Some (File_node b)" "readdir d q = Inr es \<Longrightarrow> look d q = Some Dir_node \<and> es = children d q"
proof -
  obtain P' where P: "realpath d (prefix_of N c) = Inr P'" "below P' q" "real d q" "clean q"
    by (rule resolve_ok [OF assms(1,2)])
  with assms(3) show "below P q" by simp
  show "readFile d q = Inr b \<Longrightarrow> look d q = Some (File_node b)"
    using real_fixed [OF P(3,4)] by (auto simp: readFile_def realpath_def rbind_Inr_iff split: option.splits node.splits)
  show "readdir d q = Inr es \<Longrightarrow> look d q = Some Dir_node \<and> es = children d q"
    by (auto simp: readdir_def split: option.splits node.splits)
qed

lemma listed_node:
  assumes "executeFilesystemCommand nd N d call raw = Inr (v, d')" "list_all name_ok (nv_cwd N)" "parseConstraint raw = Some c"
    "realpath d (prefix_of N c) = Inr P"
  shows "ac_path call = ''/dir/list'' \<Longrightarrow> \<exists>q p. below P q \<and> look d q = Some Dir_node \<and>
      v = JObj [(''path'', JStr p), (''entries'', JArr (map JObj (map dir_entry (children d q))))]"
    and "ac_path call = ''/dir/tree'' \<Longrightarrow> \<exists>q p levels. below P q \<and> look d q = Some Dir_node \<and>
      v = JObj [(''path'', JStr p), (''tree'', JArr (map JObj (buildTree levels d q)))]"
    and "ac_path call = ''/file/copy'' \<Longrightarrow> \<exists>q b x. below P q \<and> look d q = Some (File_node b) \<and> d' = put x (File_node b) d"
proof -
  note res = resolved_node [OF _ assms(2,4)]
  show "\<exists>q p. below P q \<and> look d q = Some Dir_node \<and>
      v = JObj [(''path'', JStr p), (''entries'', JArr (map JObj (map dir_entry (children d q))))]" if path: "ac_path call = ''/dir/list''"
  proof -
    from assms(1,3) path obtain p q es where "resolveAgainstConstraint N d c p = Inr q" "readdir d q = Inr es"
      "v = JObj [(''path'', JStr p), (''entries'', JArr (map JObj (map dir_entry es)))]"
      by (auto simp: executeFilesystemCommand_def listing_def listDirWithConstraint_def rbind_Inr_iff comp_def)
    with res(1,3) show ?thesis by blast
  qed
  show "\<exists>q p levels. below P q \<and> look d q = Some Dir_node \<and>
      v = JObj [(''path'', JStr p), (''tree'', JArr (map JObj (buildTree levels d q)))]" if path: "ac_path call = ''/dir/tree''"
  proof -
    from assms(1,3) path obtain p q es levels where "resolveAgainstConstraint N d c p = Inr q" "readdir d q = Inr es"
      "v = JObj [(''path'', JStr p), (''tree'', JArr (map JObj (buildTree levels d q)))]"
      by (auto simp: executeFilesystemCommand_def listing_def treeDirWithConstraint_def rbind_Inr_iff)
    with res(1,3) show ?thesis by blast
  qed
  show "\<exists>q b x. below P q \<and> look d q = Some (File_node b) \<and> d' = put x (File_node b) d" if "ac_path call = ''/file/copy''"
  proof -
    from assms(1,3) that obtain a a' u where "copyWithConstraint N d c a a' = Inr (u, d')"
      by (auto simp: executeFilesystemCommand_def dest!: two_path_parts)
    then obtain src dst b where "resolveAgainstConstraint N d c a = Inr src" "readFile d src = Inr b" "writeFile d dst b = Inr d'"
      by (auto simp: copyWithConstraint_def copyFile_def rbind_Inr_iff)
    with res(1,2) show ?thesis by (fastforce simp: writeFile_def rbind_Inr_iff split: if_splits)
  qed
qed

text \<open>A successful read returns the content of a file whose real path lies below the real path of the
  prefix, in the encoding asked for, with that real path, and leaves the disk as it was.\<close>

theorem filesystem_read_below:
  assumes "executeFilesystemCommand nd N d call raw = Inr (v, d')" "list_all name_ok (nv_cwd N)"
    "ac_path call = ''/file/read''"
  shows "\<exists>c P q b text. parseConstraint raw = Some c \<and> realpath d (prefix_of N c) = Inr P \<and> below P q \<and>
     look d q = Some (File_node b) \<and> nv_bufferTo N b (encoding_of (queryStr call ''encoding'')) = Some text \<and>
     v = JObj [(''content'', JStr text), (''realPath'', JStr (path_text q))] \<and> d' = d"
proof -
  from assms(1,3) obtain c where c: "parseConstraint raw = Some c" and r: "read_op N d c call = Inr (v, d')"
    by (auto simp: executeFilesystemCommand_def split: option.splits)
  from r obtain p b q shown where p: "readFileWithConstraint N d c p = Inr ((b, q), d')"
    "nv_bufferTo N b (encoding_of (queryStr call ''encoding'')) = Some shown"
    "v = text_obj [(''content'', shown), (''realPath'', path_text q)]"
    by (auto simp: read_op_def rbind_Inr_iff split: option.splits)
  from p(1) have q: "resolveAgainstConstraint N d c p = Inr q" "readFile d q = Inr b" "d' = d"
    by (auto simp: readFileWithConstraint_def rbind_Inr_iff)
  obtain P where P: "realpath d (prefix_of N c) = Inr P" "below P q" "real d q" "clean q"
    by (rule resolve_ok [OF q(1) assms(2)])
  from q(2) real_fixed [OF P(3,4)] have "look d q = Some (File_node b)"
    by (auto simp: readFile_def realpath_def rbind_Inr_iff split: option.splits node.splits)
  with c p P q show ?thesis by (auto simp: text_obj_def)
qed

text \<open>C5: The filesystem executor keeps below the real path of the constraint's prefix, whatever symbolic links and dot
  segments a path has. A read answers with the content of a file below it, a listing or a tree with the entries of a
  directory below it, and a copy writes the content of a file below it. The disk changes only below it: no create,
  delete, move, mkdir or recursive delete reaches outside. The one exception is where a write or a copy writes to
  while a symbolic link lies below the prefix.\<close>

theorem filesystem_confined:
  assumes "executeFilesystemCommand nd N d call raw = Inr (v, d')" "list_all name_ok (nv_cwd N)"
  shows "\<exists>c P. parseConstraint raw = Some c \<and> realpath d (prefix_of N c) = Inr P \<and>
     ((\<forall>x. \<not> below P x \<longrightarrow> look d' x = look d x) \<or>
      ac_path call \<in> {''/file/write'', ''/file/copy''} \<and> (\<exists>q t. below P q \<and> look d q = Some (Link_node t))) \<and>
     (ac_path call = ''/file/read'' \<longrightarrow> (\<exists>q b text. below P q \<and> look d q = Some (File_node b) \<and>
        nv_bufferTo N b (encoding_of (queryStr call ''encoding'')) = Some text \<and>
        v = JObj [(''content'', JStr text), (''realPath'', JStr (path_text q))])) \<and>
     (ac_path call = ''/dir/list'' \<longrightarrow> (\<exists>q p. below P q \<and> look d q = Some Dir_node \<and>
        v = JObj [(''path'', JStr p), (''entries'', JArr (map JObj (map dir_entry (children d q))))])) \<and>
     (ac_path call = ''/dir/tree'' \<longrightarrow> (\<exists>q p levels. below P q \<and> look d q = Some Dir_node \<and>
        v = JObj [(''path'', JStr p), (''tree'', JArr (map JObj (buildTree levels d q)))])) \<and>
     (ac_path call = ''/file/copy'' \<longrightarrow>
        (\<exists>q b x. below P q \<and> look d q = Some (File_node b) \<and> d' = put x (File_node b) d))"
proof -
  from assms(1) obtain c where c: "parseConstraint raw = Some c"
    by (auto simp: executeFilesystemCommand_def split: option.splits)
  from fs_confined_call [OF assms c] obtain P where P: "realpath d (prefix_of N c) = Inr P"
    and disk: "(\<forall>x. \<not> below P x \<longrightarrow> look d' x = look d x) \<or>
      ac_path call \<in> {''/file/write'', ''/file/copy''} \<and> (\<exists>q t. below P q \<and> look d q = Some (Link_node t))"
    by (auto simp: fs_confined_def link_below_def confined_def)
  from filesystem_read_below [OF assms] c P have "ac_path call = ''/file/read'' \<longrightarrow> (\<exists>q b text. below P q \<and>
      look d q = Some (File_node b) \<and> nv_bufferTo N b (encoding_of (queryStr call ''encoding'')) = Some text \<and>
      v = JObj [(''content'', JStr text), (''realPath'', JStr (path_text q))])" by fastforce
  with c P disk listed_node [OF assms c P] show ?thesis by blast
qed

text \<open>A write whose target name is a symbolic link is not confined: the parent directory passes the
  check, the link itself is never resolved, and the content lands where the link points, below the prefix
  or not.\<close>

theorem filesystem_write_follows_link:
  assumes "parseConstraint raw = Some c" "\<not> host_refused c (nv_hostname N)"
    "realpath d (prefix_of N c) = Inr P" "path_resolve (nv_cwd N) p = dir @ [n]" "realpath d dir = Inr par"
    "within_text (path_text P) (path_text par)" "look d (par @ [n]) = Some (Link_node t)"
    "walk_path True 40 d [] (par @ [n]) = Inr x" "x \<noteq> []" "look d x \<noteq> Some Dir_node"
    "ac_path call = ''/file/write''" "p \<noteq> []" "bodyStr call ''path'' = Some p" "bodyStr call ''content'' = Some content"
    "nv_bufferFrom N content (encoding_of (bodyStr call ''encoding'')) = Some b"
  shows "\<exists>d'. executeFilesystemCommand nd N d call raw = Inr (text_obj [(''realPath'', path_text (par @ [n]))], d') \<and>
    look d' x = Some (File_node b)"
proof -
  have "resolveNewPath N d c p = Inr (par @ [n])"
    using assms(2-6) by (simp add: resolveNewPath_def)
  moreover have "writeFile d (par @ [n]) b = Inr (put x (File_node b) d)"
    using assms(8,10) by (simp add: writeFile_def)
  ultimately have "executeFilesystemCommand nd N d call raw =
      Inr (text_obj [(''realPath'', path_text (par @ [n]))], put x (File_node b) d)"
    using assms by (simp add: executeFilesystemCommand_def write_op_def needed_def str_truthy_def buffer_from_def
        writeFileWithConstraint_def failing_def lift_errno_def)
  then show ?thesis using assms(9) by auto
qed

text \<open>The path the policy sees and the path a write uses may differ. The consistency check reads
  \<open>query.path\<close> before \<open>body.path\<close>, the executor reads \<open>body.path\<close> only: with the declared path in the query,
  any other path passes the schema and the consistency check.\<close>

theorem second_path_unchecked:
  assumes "declared \<noteq> []" "used \<noteq> []" "\<not> js_includes used ''..''"
    "call = \<lparr>ac_method = ''POST'', ac_path = ''/file/write'', ac_query = Some [(''path'', declared)],
       ac_body = JObj [(''path'', JStr used), (''content'', JStr content)], ac_headers = None\<rparr>"
  shows "validateResourceConsistency (PACKS nd) ''/filesystem/file/write'' [(''path'', JStr declared)] call =
      Inr ConsistencyOk \<and>
    validateApiCall (PACKS nd) ''/filesystem/file/write''
      (JObj [(''method'', JStr ''POST''), (''path'', JStr ''/file/write''), (''query'', JObj [(''path'', JStr declared)]),
             (''body'', ac_body call)]) = VOk \<and>
    bodyStr call ''path'' = Some used"
proof -
  have "''/filesystem/file/write'' \<in> set filesystem_actions" by code_simp
  then have pack: "packForCommand (PACKS nd) ''/filesystem/file/write'' = Some filesystemPack"
    using routed_pack [of filesystemPack nd] by (simp add: PACKS_def pack_defs)
  have fields: "pk_actionSchemas filesystemPack = mergeActionSchemas (floor_schemas []) filesystem_filesystemActionSchemas"
    "pk_extractResourceFromApiCall filesystemPack = Some extract_filesystem"
    by (simp_all add: filesystemPack_def make_pack_def)
  have "entry (pk_actionSchemas filesystemPack) ''/filesystem/file/write'' =
      override_schemas no_schemas (entry filesystem_filesystemActionSchemas ''/filesystem/file/write'')"
    by (simp add: fields entry_merge) (simp add: entry_def floor_schemas_def)
  also have "as_apiCallSchema \<dots> = Some (s_object filesystem_writeCall)"
    by (simp add: entry_def filesystem_filesystemActionSchemas_def override_schemas_def)
  finally have schema: "as_apiCallSchema (entry (pk_actionSchemas filesystemPack) ''/filesystem/file/write'') =
      Some (s_object filesystem_writeCall)" .
  have q: "query_or_body call ''path'' = JStr declared"
    using assms(1) by (simp add: query_or_body_def assms(4) query_text_def nonempty_def str_truthy_def)
  have "validateResourceConsistency (PACKS nd) ''/filesystem/file/write'' [(''path'', JStr declared)] call =
      Inr (first_mismatch [(''path'', JStr declared)] ([(''path'', JStr declared)] @
        (if extname declared \<noteq> [] then [(''extension'', JStr (extname declared))] else [])) COMPARED_KEYS)"
    by (simp add: validateResourceConsistency_def pack fields extract_filesystem_def q)
  moreover have "first_mismatch [(''path'', JStr declared)] ([(''path'', JStr declared)] @ ext) COMPARED_KEYS = ConsistencyOk" for ext
    unfolding first_mismatch_ok by (auto simp: jget_def strict_equal_def)
  moreover have "validateApiCall (PACKS nd) ''/filesystem/file/write''
      (JObj [(''method'', JStr ''POST''), (''path'', JStr ''/file/write''), (''query'', JObj [(''path'', JStr declared)]),
             (''body'', ac_body call)]) = VOk"
    using assms(2,3)
    by (simp add: validateApiCall_def pack schema filesystem_writeCall_def assms(4) jget_def s_literal_def s_str_def
        s_optional_def s_record_def s_string_def filesystem_safeFsPath_def s_safe_fs_path_def)
  moreover have "bodyStr call ''path'' = Some used"
    by (simp add: bodyStr_def assms(4) object_or_empty_def text_of_def jget_def)
  ultimately show ?thesis by simp
qed

theorem second_path_unchecked_witness:
  "validateResourceConsistency (PACKS (\<lambda>_. JNonFinite)) ''/filesystem/file/write'' [(''path'', JStr ''/data/public/a'')]
     \<lparr>ac_method = ''POST'', ac_path = ''/file/write'', ac_query = Some [(''path'', ''/data/public/a'')],
      ac_body = JObj [(''path'', JStr ''/data/secret/b''), (''content'', JStr ''x'')], ac_headers = None\<rparr> = Inr ConsistencyOk"
  using second_path_unchecked [OF _ _ _ refl, of "''/data/public/a''" "''/data/secret/b''" "\<lambda>_. JNonFinite" "''x''"]
  by (simp add: startsWith_iff)

subsection \<open>A small disk\<close>

definition demo_disk :: disk where
  "demo_disk =
     [([''work''], Dir_node), ([''work'', ''a''], File_node ''hi''), ([''work'', ''link''], Link_node ''/etc/motd''),
      ([''etc''], Dir_node), ([''etc'', ''motd''], File_node ''welcome'')]"

definition demo_node :: node_env where
  "demo_node = \<lparr>nv_hostname = ''h'', nv_cwd = [], nv_bufferFrom = (\<lambda>t e. Some t), nv_bufferTo = (\<lambda>t e. Some t)\<rparr>"

definition demo_constraint :: json where
  "demo_constraint = JObj [(''provider'', JStr ''filesystem''), (''path_prefix'', JStr ''/work'')]"

definition fs_call :: "string \<Rightarrow> (string \<times> string) list option \<Rightarrow> json \<Rightarrow> ApiCall" where
  "fs_call op q b = \<lparr>ac_method = ''POST'', ac_path = op, ac_query = q, ac_body = b, ac_headers = None\<rparr>"

lemma demo_remove:
  "executeFilesystemCommand (\<lambda>_. JNonFinite) demo_node demo_disk
     (fs_call ''/file/delete'' None (JObj [(''path'', JStr ''/work/./a'')])) demo_constraint =
   Inr (JObj [(''deleted'', JStr ''/work/./a'')], remove [''work'', ''a''] demo_disk)"
  by code_simp

lemma demo_read:
  "executeFilesystemCommand (\<lambda>_. JNonFinite) demo_node demo_disk
     (fs_call ''/file/read'' (Some [(''path'', ''/etc/../work/a'')]) JUndef) demo_constraint =
   Inr (JObj [(''content'', JStr ''hi''), (''realPath'', JStr ''/work/a'')], demo_disk)"
  by code_simp

lemma demo_cwd: "list_all name_ok (nv_cwd demo_node)"
  by (simp add: demo_node_def)

theorem filesystem_confined_witness:
  "look (remove [''work'', ''a''] demo_disk) [''etc'', ''motd''] = look demo_disk [''etc'', ''motd'']"
proof -
  obtain c P where c: "parseConstraint demo_constraint = Some c" "realpath demo_disk (prefix_of demo_node c) = Inr P"
    and eq: "\<forall>x. \<not> below P x \<longrightarrow> look (remove [''work'', ''a''] demo_disk) x = look demo_disk x"
    using filesystem_confined [OF demo_remove demo_cwd] by (auto simp: fs_call_def)
  have "parseConstraint demo_constraint = Some [(''provider'', JStr ''filesystem''), (''path_prefix'', JStr ''/work'')]"
    by code_simp
  moreover have "realpath demo_disk (prefix_of demo_node [(''provider'', JStr ''filesystem''), (''path_prefix'', JStr ''/work'')]) =
      Inr [''work'']"
    by code_simp
  ultimately have "P = [''work'']" using c by simp
  with eq show ?thesis by (simp add: below_def)
qed

theorem filesystem_read_below_witness:
  "\<exists>q b. look demo_disk q = Some (File_node b) \<and> path_text q = ''/work/a'' \<and> b = ''hi''"
proof -
  have "ac_path (fs_call ''/file/read'' (Some [(''path'', ''/etc/../work/a'')]) JUndef) = ''/file/read''"
    by (simp add: fs_call_def)
  from filesystem_read_below [OF demo_read demo_cwd this] show ?thesis by (auto simp: demo_node_def)
qed

theorem filesystem_write_follows_link_witness:
  "\<exists>d'. executeFilesystemCommand (\<lambda>_. JNonFinite) demo_node demo_disk
       (fs_call ''/file/write'' None (JObj [(''path'', JStr ''/work/link''), (''content'', JStr ''gone'')])) demo_constraint =
     Inr (text_obj [(''realPath'', ''/work/link'')], d') \<and> look d' [''etc'', ''motd''] = Some (File_node ''gone'')"
proof -
  have "path_text ([''work''] @ [''link'']) = ''/work/link''" by (simp add: path_text_def)
  moreover have "\<exists>d'. executeFilesystemCommand (\<lambda>_. JNonFinite) demo_node demo_disk
       (fs_call ''/file/write'' None (JObj [(''path'', JStr ''/work/link''), (''content'', JStr ''gone'')])) demo_constraint =
     Inr (text_obj [(''realPath'', path_text ([''work''] @ [''link'']))], d') \<and>
       look d' [''etc'', ''motd''] = Some (File_node ''gone'')"
    by (rule filesystem_write_follows_link [where c = "[(''provider'', JStr ''filesystem''), (''path_prefix'', JStr ''/work'')]"
          and P = "[''work'']" and p = "''/work/link''" and dir = "[''work'']" and t = "''/etc/motd''" and content = "''gone''"])
      code_simp+
  ultimately show ?thesis by simp
qed

end
