(* ===== verification/Ssh_Properties.thy ===== *)
theory Ssh_Properties
  imports Ssh
begin

text \<open>
  Properties of the ssh executor: what it asks of which machine, and that a quoted path is one word of the
  command it is put into.
\<close>

subsection \<open>What a step adds to the history\<close>

definition adds :: "(ssh_conn \<times> ssh_op \<Rightarrow> bool) \<Rightarrow> (history \<Rightarrow> 'a \<times> history) \<Rightarrow> bool" where
  "adds P m \<longleftrightarrow> (\<forall>h r h'. m h = (r, h') \<longrightarrow> (\<exists>new. h' = h @ new \<and> (\<forall>x \<in> set new. P x)))"

lemma addsI [intro]: "(\<And>h r h'. m h = (r, h') \<Longrightarrow> \<exists>new. h' = h @ new \<and> (\<forall>x \<in> set new. P x)) \<Longrightarrow> adds P m"
  by (auto simp: adds_def)

lemma addsD: "adds P m \<Longrightarrow> m h = (r, h') \<Longrightarrow> \<exists>new. h' = h @ new \<and> (\<forall>x \<in> set new. P x)"
  by (auto simp: adds_def)

named_theorems adds_rules

lemma adds_const [adds_rules]: "adds P (\<lambda>h. (r, h))"
  by (auto simp: adds_def)

lemma adds_seq:
  assumes "adds P m" "\<And>a h r h'. m h = (a, h') \<Longrightarrow> adds P (f a)"
  shows "adds P (\<lambda>h. case m h of (a, h') \<Rightarrow> f a h')"
proof
  fix h r h2
  assume run: "(case m h of (a, h') \<Rightarrow> f a h') = (r, h2)"
  obtain a h1 where a: "m h = (a, h1)" by fastforce
  from addsD [OF assms(1) a] obtain n1 where n1: "h1 = h @ n1" "\<forall>x \<in> set n1. P x" by blast
  from run a have "f a h1 = (r, h2)" by simp
  from addsD [OF assms(2) [OF a] this] obtain n2 where "h2 = h1 @ n2" "\<forall>x \<in> set n2. P x" by blast
  with n1 show "\<exists>new. h2 = h @ new \<and> (\<forall>x \<in> set new. P x)" by (auto intro: exI [of _ "n1 @ n2"])
qed

lemma adds_run_bind [adds_rules]:
  assumes "adds P m" "\<And>a. adds P (f a)" shows "adds P (run_bind m f)"
proof -
  have "adds P (case r of Inl e \<Rightarrow> (\<lambda>h. (Inl e, h)) | Inr a \<Rightarrow> f a)" for r
    using assms(2) by (cases r) (auto simp: adds_const)
  from adds_seq [OF assms(1) this]
  have "adds P (\<lambda>h. case m h of (r, h') \<Rightarrow> (case r of Inl e \<Rightarrow> (\<lambda>h. (Inl e, h)) | Inr a \<Rightarrow> f a) h')" .
  moreover have "run_bind m f = (\<lambda>h. case m h of (r, h') \<Rightarrow> (case r of Inl e \<Rightarrow> (\<lambda>h. (Inl e, h)) | Inr a \<Rightarrow> f a) h')"
    by (auto simp: run_bind_def fun_eq_iff split: prod.split sum.split)
  ultimately show ?thesis by simp
qed

lemma adds_step_bind [adds_rules]:
  assumes "adds P m" "\<And>a. adds P (f a)" shows "adds P (step_bind m f)"
proof -
  have "adds P (case r of Inl e \<Rightarrow> (\<lambda>h. (Inl e, h)) | Inr a \<Rightarrow> f a)" for r
    using assms(2) by (cases r) (auto simp: adds_const)
  from adds_seq [OF assms(1) this]
  have "adds P (\<lambda>h. case m h of (r, h') \<Rightarrow> (case r of Inl e \<Rightarrow> (\<lambda>h. (Inl e, h)) | Inr a \<Rightarrow> f a) h')" .
  moreover have "step_bind m f = (\<lambda>h. case m h of (r, h') \<Rightarrow> (case r of Inl e \<Rightarrow> (\<lambda>h. (Inl e, h)) | Inr a \<Rightarrow> f a) h')"
    by (auto simp: step_bind_def fun_eq_iff split: prod.split sum.split)
  ultimately show ?thesis by simp
qed

lemma adds_if: "(b \<Longrightarrow> adds P x) \<Longrightarrow> (\<not> b \<Longrightarrow> adds P y) \<Longrightarrow> adds P (if b then x else y)"
  by simp

lemma adds_ask [adds_rules]: "P (conn, op) \<Longrightarrow> adds P (ask answer conn op)"
  by (auto simp: adds_def ask_def)

lemma adds_withSsh [adds_rules]:
  assumes "P (so_conn inp, Connect)" "\<And>rm. adds P (f rm)"
  shows "adds P (withSsh lib inp f)"
proof (cases lib)
  case None
  then have "withSsh lib inp f = (\<lambda>h. (Inl Ssh_threw, h))" by (auto simp: withSsh_def)
  then show ?thesis by (simp add: adds_const)
next
  case (Some rm)
  have "adds P (run_bind (ask (rm_done rm) (so_conn inp) Connect) (\<lambda>_. f rm))"
    by (intro adds_rules assms)
  then have "adds P (\<lambda>h. case run_bind (ask (rm_done rm) (so_conn inp) Connect) (\<lambda>_. f rm) h of (r, h') \<Rightarrow>
      (\<lambda>h. (case r of Inl (code, message) \<Rightarrow> Inl (Ssh_failure ''connect_failed'' (Some message)) | Inr a \<Rightarrow> Inr a, h)) h')"
    by (rule adds_seq) (rule adds_const)
  moreover have "withSsh lib inp f = (\<lambda>h. case run_bind (ask (rm_done rm) (so_conn inp) Connect) (\<lambda>_. f rm) h of (r, h') \<Rightarrow>
      (\<lambda>h. (case r of Inl (code, message) \<Rightarrow> Inl (Ssh_failure ''connect_failed'' (Some message)) | Inr a \<Rightarrow> Inr a, h)) h')"
    by (auto simp: withSsh_def Some fun_eq_iff split: prod.split sum.split)
  ultimately show ?thesis by simp
qed

lemma adds_checked:
  assumes "validateHost inp = None \<Longrightarrow> validatePathPrefix N p (so_constraint inp) = Inr () \<Longrightarrow> adds P k"
  shows "adds P (checked N inp p k)"
proof (cases "validateHost inp")
  case None
  note host = this
  show ?thesis
  proof (cases "validatePathPrefix N p (so_constraint inp)")
    case (Inl e)
    with host have "checked N inp p k = (\<lambda>h. (Inl e, h))" by (auto simp: checked_def fun_eq_iff)
    then show ?thesis by (simp add: adds_const)
  next
    case (Inr u)
    with host have "checked N inp p k = k" by (auto simp: checked_def fun_eq_iff)
    with assms host Inr show ?thesis by simp
  qed
next
  case (Some why)
  then have "checked N inp p k = (\<lambda>h. (Inl (Ssh_failure why None), h))" by (auto simp: checked_def fun_eq_iff)
  then show ?thesis by (simp add: adds_const)
qed

lemma adds_destination_checked:
  assumes "validatePathPrefix N p (so_constraint inp) = Inr () \<Longrightarrow> adds P k"
  shows "adds P (destination_checked N inp p k)"
proof (cases "validatePathPrefix N p (so_constraint inp)")
  case (Inl e)
  then have "destination_checked N inp p k = (\<lambda>h. (Inl e, h))" by (auto simp: destination_checked_def fun_eq_iff)
  then show ?thesis by (simp add: adds_const)
next
  case (Inr u)
  then have "destination_checked N inp p k = k" by (auto simp: destination_checked_def fun_eq_iff)
  with assms Inr show ?thesis by simp
qed

lemma adds_same_history:
  assumes "adds P m" "\<And>h. snd (m' h) = snd (m h)"
  shows "adds P m'"
proof
  fix h r h'
  assume "m' h = (r, h')"
  with assms(2) [of h] have "m h = (fst (m h), h')" by (cases "m h") simp
  from addsD [OF assms(1) this] show "\<exists>new. h' = h @ new \<and> (\<forall>x \<in> set new. P x)" .
qed

lemma adds_recoded [adds_rules]: "adds P m \<Longrightarrow> adds P (recoded code m)"
  by (erule adds_same_history) (auto simp: recoded_def split: prod.split sum.split)

lemma adds_renamed [adds_rules]: "adds P m \<Longrightarrow> adds P (renamed code why m)"
  by (erule adds_same_history) (auto simp: renamed_def split: prod.split sum.split ssh_failure.split option.split)

lemma adds_exec_ok [adds_rules]: "P (conn, Exec cmd) \<Longrightarrow> adds P (exec_ok rm conn cmd)"
  unfolding exec_ok_def by (intro adds_rules) (auto simp: adds_const split: prod.split)

lemma adds_tree_entries:
  "(\<And>f q. deeper = Some f \<Longrightarrow> adds P (f q)) \<Longrightarrow> adds P (tree_entries deeper p es)"
proof (induction es)
  case (Cons e es)
  have "adds P (case deeper of
          Some f \<Rightarrow> if se_kind e = Is_directory
                    then run_bind (f (posix_join p (se_filename e))) (\<lambda>t h. (Inr (JObj (entry_obj e @ [(''children'', t)])), h))
                    else (\<lambda>h. (Inr (JObj (entry_obj e)), h))
        | None \<Rightarrow> (\<lambda>h. (Inr (JObj (entry_obj e)), h)))"
    using Cons.prems by (auto intro!: adds_rules split: option.split)
  with Cons show ?case by (auto intro!: adds_rules)
qed (auto intro: adds_rules)

lemma adds_buildTree:
  assumes "\<And>q. P (conn, Read_dir q)" shows "adds P (buildTree n rm conn p)"
proof (induction n arbitrary: p)
  case 0
  then show ?case by (auto intro!: adds_rules adds_tree_entries assms)
next
  case (Suc n)
  then show ?case by (auto intro!: adds_rules adds_tree_entries assms)
qed

subsection \<open>What is asked of which machine\<close>

definition path_within :: "node_env \<Rightarrow> obj \<Rightarrow> string \<Rightarrow> bool" where
  "path_within N c p \<longleftrightarrow>
     (\<forall>prefix. jget c ''path_prefix'' = JStr prefix \<and> prefix \<noteq> [] \<longrightarrow>
        strictly_within (path_text (path_resolve (nv_cwd N) prefix)) (path_text (path_resolve (nv_cwd N) p)) \<and>
        \<not> shell_hazard p)"

lemma prefix_within: "validatePathPrefix N p c = Inr u \<Longrightarrow> path_within N c p"
  by (auto simp: validatePathPrefix_def path_within_def split: if_splits)

definition on_host :: "obj \<Rightarrow> ssh_conn \<Rightarrow> bool" where
  "on_host c conn \<longleftrightarrow> JStr (sc_host conn) = jget c ''host'' \<and>
     (truthy (jget c ''username'') \<longrightarrow> sc_username conn = jget c ''username'')"

lemma host_checked: "validateHost inp = None \<Longrightarrow> on_host (so_constraint inp) (so_conn inp)"
  by (auto simp: validateHost_def on_host_def Let_def split: if_splits)

fun op_within :: "node_env \<Rightarrow> obj \<Rightarrow> bool \<Rightarrow> ssh_op \<Rightarrow> bool" where
  "op_within N c shell Connect = True"
| "op_within N c shell (Read_file p) = path_within N c p"
| "op_within N c shell (Write_file p b) = path_within N c p"
| "op_within N c shell (Create_file p b) = path_within N c p"
| "op_within N c shell (Unlink p) = path_within N c p"
| "op_within N c shell (Rename p q) = (path_within N c p \<and> path_within N c q)"
| "op_within N c shell (Read_dir p) = True"
| "op_within N c shell (Remove_dir p) = path_within N c p"
| "op_within N c shell (Exec cmd) \<longleftrightarrow>
     shell \<or> (\<exists>p. path_within N c p \<and> (cmd = ''mkdir -p '' @ shQuote p \<or> cmd = ''rm -rf '' @ shQuote p))"

definition asked :: "node_env \<Rightarrow> obj \<Rightarrow> bool \<Rightarrow> ssh_conn \<times> ssh_op \<Rightarrow> bool" where
  "asked N c shell = (\<lambda>(conn, op). on_host c conn \<and> op_within N c shell op)"

lemma asked_pair [simp]: "asked N c shell (conn, op) \<longleftrightarrow> on_host c conn \<and> op_within N c shell op"
  by (simp add: asked_def)

lemma asked_checked:
  assumes "on_host (so_constraint inp) (so_conn inp) \<Longrightarrow> path_within N (so_constraint inp) p \<Longrightarrow> adds (asked N (so_constraint inp) b) k"
  shows "adds (asked N (so_constraint inp) b) (checked N inp p k)"
  by (rule adds_checked) (use assms host_checked prefix_within in blast)

lemma asked_destination:
  assumes "path_within N (so_constraint inp) p \<Longrightarrow> adds (asked N (so_constraint inp) b) k"
  shows "adds (asked N (so_constraint inp) b) (destination_checked N inp p k)"
  by (rule adds_destination_checked) (use assms prefix_within in blast)

lemmas operation_defs = sshReadFile_def sshWriteFile_def sshCreateFile_def sshDeleteFile_def sshMoveFile_def
  sshCopyFile_def sshListDir_def sshTreeDir_def sshCreateDir_def sshDeleteDir_def

lemma operations_within:
  "adds (asked N (so_constraint inp) b) (sshReadFile N lib inp p)"
  "adds (asked N (so_constraint inp) b) (sshWriteFile N lib inp p content)"
  "adds (asked N (so_constraint inp) b) (sshCreateFile N lib inp p content)"
  "adds (asked N (so_constraint inp) b) (sshDeleteFile N lib inp p)"
  "adds (asked N (so_constraint inp) b) (sshMoveFile N lib inp p q)"
  "adds (asked N (so_constraint inp) b) (sshCopyFile N lib inp p q)"
  "adds (asked N (so_constraint inp) b) (sshListDir N lib inp p)"
  "adds (asked N (so_constraint inp) b) (sshTreeDir N lib inp p depth)"
  "adds (asked N (so_constraint inp) b) (sshCreateDir N lib inp p)"
  "adds (asked N (so_constraint inp) b) (sshDeleteDir N lib inp p)"
  unfolding operation_defs
  by (rule asked_checked; auto intro!: adds_rules asked_destination adds_buildTree)+

lemma delete_recursive_within: "adds (asked N (so_constraint inp) b) (sshDeleteDirRecursive N lib inp p)"
  unfolding sshDeleteDirRecursive_def
proof (rule asked_checked)
  assume a: "on_host (so_constraint inp) (so_conn inp)" "path_within N (so_constraint inp) p"
  have "adds (asked N (so_constraint inp) b) (withSsh lib inp (\<lambda>rm. exec_ok rm (so_conn inp) (''rm -rf '' @ shQuote p)))"
    using a by (auto intro!: adds_rules)
  then show "adds (asked N (so_constraint inp) b) (\<lambda>h.
       if prefix_root N (so_constraint inp) p then (Inl (Ssh_failure ''path_outside_constraint'' None), h)
       else withSsh lib inp (\<lambda>rm. exec_ok rm (so_conn inp) (''rm -rf '' @ shQuote p)) h)"
    by (cases "prefix_root N (so_constraint inp) p") (simp_all add: adds_const)
qed

lemma exec_within: "adds (asked N (so_constraint inp) True) (sshExec lib inp cmd)"
proof (cases "validateHost inp")
  case None
  have "adds (asked N (so_constraint inp) True)
      (step_bind (withSsh lib inp (\<lambda>rm. ask (rm_exec rm) (so_conn inp) (Exec cmd))) (\<lambda>(out, err, code) h'.
            (Inr (capped out, capped err, case code of None \<Rightarrow> 0 | Some n \<Rightarrow> n), h')))"
    using host_checked [OF None] by (auto intro!: adds_rules)
  moreover have "sshExec lib inp cmd =
      step_bind (withSsh lib inp (\<lambda>rm. ask (rm_exec rm) (so_conn inp) (Exec cmd))) (\<lambda>(out, err, code) h'.
            (Inr (capped out, capped err, case code of None \<Rightarrow> 0 | Some n \<Rightarrow> n), h'))"
    using None by (auto simp: sshExec_def fun_eq_iff)
  ultimately show ?thesis by simp
next
  case (Some why)
  then have "sshExec lib inp cmd = (\<lambda>h. (Inl (Ssh_failure why None), h))" by (auto simp: sshExec_def fun_eq_iff)
  then show ?thesis by (simp add: adds_const)
qed

lemma adds_ssh_then [adds_rules]: "adds P m \<Longrightarrow> adds P (ssh_then what m f)"
  by (erule adds_same_history) (auto simp: ssh_then_def split: prod.split sum.split)

lemma adds_ssh_needed [adds_rules]: "(\<And>p. adds P (k p)) \<Longrightarrow> adds P (ssh_needed why v k)"
  unfolding ssh_needed_def adds_def by auto

lemma adds_with_buffer [adds_rules]:
  assumes "\<And>b. adds P (k b)" shows "adds P (with_buffer N content enc k)"
proof (cases "nv_bufferFrom N content (encoding_of enc)")
  case None
  then have "with_buffer N content enc k = (\<lambda>h. (Inl Ssh_unknown_encoding, h))" by (auto simp: with_buffer_def fun_eq_iff)
  then show ?thesis by (simp add: adds_const)
next
  case (Some b)
  then have "with_buffer N content enc k = k b" by (auto simp: with_buffer_def fun_eq_iff)
  then show ?thesis by (simp add: assms)
qed

lemma adds_write_op:
  assumes "\<And>p b. adds P (sshWriteFile (sv_node V) (sv_library V) inp p b)"
  shows "adds P (sshWrite_op V inp call)"
  unfolding sshWrite_op_def
proof (rule adds_ssh_needed)
  fix p
  show "adds P (\<lambda>h. case bodyStr call ''content'' of None \<Rightarrow> (Inl (Ssh_bad_call ''body.path + body.content''), h)
       | Some content \<Rightarrow> with_buffer (sv_node V) content (bodyStr call ''encoding'') (\<lambda>buf.
           ssh_then ''write'' (sshWriteFile (sv_node V) (sv_library V) inp p buf) (\<lambda>u.
             Inr (text_obj [(''host'', sc_host (so_conn inp)), (''path'', p)]))) h)"
    by (cases "bodyStr call ''content''") (auto intro!: adds_rules assms)
qed

lemma dispatch_within:
  "adds (asked (sv_node V) (so_constraint inp) (ac_path call = ''/exec'')) (ssh_dispatch nd V inp call)"
proof -
  let ?P = "asked (sv_node V) (so_constraint inp) (ac_path call = ''/exec'')"
  have ops: "adds ?P (sshRead_op V inp call)" "adds ?P (sshWrite_op V inp call)" "adds ?P (sshCreate_op V inp call)"
    by (auto simp: sshRead_op_def sshCreate_op_def intro!: adds_rules adds_write_op operations_within)
  have one: "adds ?P (ssh_one_path w f g inp call)" if "\<And>p. adds ?P (g p)" for w f g
    using that by (auto simp: ssh_one_path_def intro!: adds_rules)
  have two: "adds ?P (ssh_two_paths w g inp call)" if "\<And>p q. adds ?P (g p q)" for w g
    using that by (auto simp: ssh_two_paths_def intro!: adds_rules)
  have listed: "adds ?P (ssh_listing w f g inp call)" if "\<And>p. adds ?P (g p)" for w f g
    using that by (auto simp: ssh_listing_def intro!: adds_rules)
  have exec: "adds ?P (sshExec_op V inp call)" if "ac_path call = ''/exec''"
    using that exec_within by (auto simp: sshExec_op_def intro!: adds_rules)
  show ?thesis
    unfolding ssh_dispatch_def Let_def
    by (intro adds_if ops one two listed operations_within delete_recursive_within adds_const) (rule exec)
qed

text \<open>C4: The ssh executor keeps to its constraint. Whatever it asks, it asks over a connection to the
  constraint's host, as the constraint's user if there is one. Every path it reads, writes, creates, deletes or
  renames resolves inside the path prefix, and so does the single path of every shell command it makes up
  itself. The one command that is not confined is the caller's own, and only the operation \<open>/exec\<close> runs one.
  Listings are left out: below the first level they follow the names the server gives.\<close>

theorem ssh_confined:
  assumes "executeSshCommand nd V call raw h = (r, h')" "(conn, op) \<in> set (drop (length h) h')"
  shows "take (length h) h' = h \<and>
    (\<exists>c. ssh_parseConstraint raw = Some c \<and> on_host c conn \<and> op_within (sv_node V) c (ac_path call = ''/exec'') op)"
proof (cases "ssh_parseConstraint raw")
  case None
  with assms show ?thesis by (simp add: executeSshCommand_def)
next
  case (Some c)
  note constraint = this
  show ?thesis
  proof (cases "loadPrivateKey V")
    case (Inl e)
    with assms Some show ?thesis by (simp add: executeSshCommand_def)
  next
    case (Inr key)
    let ?inp = "ssh_input nd V call c key"
    from assms(1) Some Inr have "ssh_dispatch nd V ?inp call h = (r, h')" by (simp add: executeSshCommand_def)
    from addsD [OF dispatch_within this] obtain new where
      "h' = h @ new" "\<forall>x \<in> set new. asked (sv_node V) (so_constraint ?inp) (ac_path call = ''/exec'') x" by blast
    moreover have "so_constraint ?inp = c" by (simp add: ssh_input_def)
    ultimately show ?thesis using assms(2) constraint by auto
  qed
qed

definition demo_remote :: remote where
  "demo_remote =
     \<lparr>rm_done = (\<lambda>h. Inr ()), rm_read = (\<lambda>h. Inr []), rm_list = (\<lambda>h. Inr []), rm_exec = (\<lambda>h. Inr ([], [], Some 0))\<rparr>"

definition demo_ssh :: ssh_env where
  "demo_ssh =
     \<lparr>sv_node = \<lparr>nv_hostname = [], nv_cwd = [], nv_bufferFrom = (\<lambda>s e. Some s), nv_bufferTo = (\<lambda>s e. Some s)\<rparr>,
      sv_library = Some demo_remote, sv_privateKey = Some ''-----BEGIN'', sv_passphrase = None\<rparr>"

definition demo_host :: json where
  "demo_host = JObj [(''provider'', JStr ''ssh''), (''host'', JStr ''h''), (''path_prefix'', JStr ''/srv'')]"

definition delete_call :: ApiCall where
  "delete_call =
     \<lparr>ac_method = ''DELETE'', ac_path = ''/dir/delete_recursive'', ac_query = None,
      ac_body = JObj [(''path'', JStr ''/srv/x'')], ac_headers = None\<rparr>"

theorem ssh_confined_witness:
  "\<exists>conn c. ssh_parseConstraint demo_host = Some c \<and> sc_host conn = ''h'' \<and>
     snd (executeSshCommand (\<lambda>t. JNonFinite) demo_ssh delete_call demo_host []) =
       [(conn, Connect), (conn, Exec (''rm -rf '' @ shQuote ''/srv/x''))] \<and>
     op_within (sv_node demo_ssh) c False (Exec (''rm -rf '' @ shQuote ''/srv/x''))"
proof -
  obtain r where run: "executeSshCommand (\<lambda>t. JNonFinite) demo_ssh delete_call demo_host [] =
      (r, [(\<lparr>sc_host = ''h'', sc_port = JNum (JInt 22), sc_username = JStr ''root'', sc_privateKey = ''-----BEGIN'',
             sc_passphrase = None\<rparr>, Connect),
           (\<lparr>sc_host = ''h'', sc_port = JNum (JInt 22), sc_username = JStr ''root'', sc_privateKey = ''-----BEGIN'',
             sc_passphrase = None\<rparr>, Exec (''rm -rf '' @ shQuote ''/srv/x''))])"
        by (simp add: executeSshCommand_def ssh_parseConstraint_def demo_host_def jget_def loadPrivateKey_def
      demo_ssh_def ssh_input_def ssh_dispatch_def delete_call_def Let_def ssh_one_path_def ssh_needed_def
      bodyStr_def object_or_empty_def text_of_def str_truthy_def ssh_then_def sshDeleteDirRecursive_def checked_def
      validateHost_def ssh_host_def call_text_def or_text_def queryStr_def query_text_def ssh_username_def
      ssh_port_def queryNum_def bodyNum_def validatePathPrefix_def shell_hazard_def path_resolve_def
      resolve_step_def path_text_def strictly_within_def prefix_root_def withSsh_def run_bind_def ask_def
      exec_ok_def demo_remote_def)
  from ssh_confined [OF run, of _ "Exec (''rm -rf '' @ shQuote ''/srv/x'')"] run show ?thesis
    by (fastforce simp: on_host_def delete_call_def)
qed

subsection \<open>Quoting\<close>

text \<open>How a POSIX shell splits a line into words, as far as quotes, backslashes and blanks go. Inside single
  quotes every character stands for itself. A line that leaves a quote open is none.\<close>

fun sh_words :: "bool \<Rightarrow> string option \<Rightarrow> string \<Rightarrow> string list option" where
  "sh_words quoted w [] = (if quoted then None else Some (case w of None \<Rightarrow> [] | Some t \<Rightarrow> [t]))"
| "sh_words True w (c # s) =
     (if c = CHR 0x27 then sh_words False w s else sh_words True (Some ((case w of None \<Rightarrow> [] | Some t \<Rightarrow> t) @ [c])) s)"
| "sh_words False w [c] =
     (if c = CHR 0x27 \<or> c = CHR 0x5C then None
      else if c = CHR '' '' then Some (case w of None \<Rightarrow> [] | Some t \<Rightarrow> [t])
      else Some [(case w of None \<Rightarrow> [] | Some t \<Rightarrow> t) @ [c]])"
| "sh_words False w (c # d # s) =
     (let t = (case w of None \<Rightarrow> [] | Some t \<Rightarrow> t)
      in if c = CHR 0x27 then sh_words True (Some t) (d # s)
         else if c = CHR 0x5C then sh_words False (Some (t @ [d])) s
         else if c = CHR '' '' then
           (case w of None \<Rightarrow> sh_words False None (d # s) | Some t \<Rightarrow> map_option ((#) t) (sh_words False None (d # s)))
         else sh_words False (Some (t @ [c])) (d # s))"

lemma quoted_rest:
  "sh_words True (Some w) (concat (map (\<lambda>c. if c = CHR 0x27 then [CHR 0x27, CHR 0x5C, CHR 0x27, CHR 0x27] else [c]) s) @ [CHR 0x27])
   = Some [w @ s]"
proof (induction s arbitrary: w)
  case (Cons c s)
  then show ?case
  proof (cases "c = CHR 0x27")
    case True
    obtain x xs where rest: "concat (map (\<lambda>c. if c = CHR 0x27 then [CHR 0x27, CHR 0x5C, CHR 0x27, CHR 0x27] else [c]) s) @ [CHR 0x27] = x # xs"
      by (cases "concat (map (\<lambda>c. if c = CHR 0x27 then [CHR 0x27, CHR 0x5C, CHR 0x27, CHR 0x27] else [c]) s) @ [CHR 0x27]") auto
    with Cons.IH [of "w @ [c]"] True show ?thesis by simp
  qed simp
qed simp

text \<open>Quoting a path for the remote shell makes it exactly one word with exactly its characters: the
  command the executor makes up to delete a tree is read by the shell as \<open>rm\<close>, \<open>-rf\<close> and the path, whatever
  quotes, blanks, dollar signs or line breaks the path holds.\<close>

theorem quoted_path_is_one_word:
  "sh_words False None (''rm -rf '' @ shQuote p) = Some [''rm'', ''-rf'', p]"
proof -
  let ?q = "concat (map (\<lambda>c. if c = CHR 0x27 then [CHR 0x27, CHR 0x5C, CHR 0x27, CHR 0x27] else [c]) p) @ [CHR 0x27]"
  obtain x xs where q: "?q = x # xs" by (cases ?q) auto
  have "sh_words True (Some []) (x # xs) = Some [p]" using quoted_rest [of "[]" p] q by simp
  moreover have "shQuote p = CHR 0x27 # x # xs" using q by (simp add: shQuote_def)
  ultimately show ?thesis by simp
qed

end
