(* ===== verification/Redaction_Properties.thy ===== *)
theory Redaction_Properties
  imports Sanitize Spans
begin

text \<open>
  Properties of what the proxy removes and keeps: the size of a span summary, and a token the response
  sanitizer puts back together.
\<close>

subsection \<open>The size of a prefix\<close>

text \<open>UTF-8 text: every lead byte is followed by its continuation bytes.\<close>

function utf8_text :: "string \<Rightarrow> bool" where
  "utf8_text [] = True"
| "utf8_text (c # s) \<longleftrightarrow>
     \<not> (0x80 \<le> (of_char c :: nat) \<and> of_char c < (0xC0 :: nat)) \<and>
     list_all (\<lambda>d. 0x80 \<le> (of_char d :: nat) \<and> of_char d < (0xC0 :: nat)) (take (lead_bytes c - 1) s) \<and>
     lead_bytes c - 1 \<le> length s \<and> utf8_text (drop (lead_bytes c - 1) s)"
  by pat_completeness auto
termination
  by (relation "measure length") auto

lemma utf16_append [simp]: "utf16_length (s @ t) = utf16_length s + utf16_length t"
  by (simp add: utf16_length_def)

lemma utf16_continuations:
  "list_all (\<lambda>d. 0x80 \<le> (of_char d :: nat) \<and> of_char d < (0xC0 :: nat)) s \<Longrightarrow> utf16_length s = 0"
  by (induction s) (auto simp: utf16_length_def)

lemma lead_take: "take (lead_bytes c) (c # s) = c # take (lead_bytes c - 1) s" "drop (lead_bytes c) (c # s) = drop (lead_bytes c - 1) s"
  by (simp_all add: lead_bytes_def)

lemma js_prefix_utf16: "utf8_text s \<Longrightarrow> utf16_length (js_prefix n s) \<le> n"
proof (induction n s rule: js_prefix.induct)
  case (2 n c s)
  let ?units = "if lead_bytes c = 4 then 2 else (1 :: nat)"
  have one: "utf16_length [c] \<le> ?units"
    using 2(2) by (auto simp: utf16_length_def lead_bytes_def)
  have rest: "utf16_length (take (lead_bytes c - 1) s) = 0"
    using 2(2) by (intro utf16_continuations) simp
  show ?case
  proof (cases "?units > n")
    case False
    then have "js_prefix n (c # s) = [c] @ take (lead_bytes c - 1) s @ js_prefix (n - ?units) (drop (lead_bytes c - 1) s)"
      by (simp add: lead_take)
    moreover have "utf16_length (js_prefix (n - ?units) (drop (lead_bytes c - 1) s)) \<le> n - ?units"
      using 2(1) [OF refl False] 2(2) by (simp add: lead_take)
    ultimately have "utf16_length (js_prefix n (c # s)) \<le> utf16_length [c] + 0 + (n - ?units)"
      using rest by (simp only: utf16_append)
    with one False show ?thesis by (simp split: if_splits)
  qed (simp add: utf16_length_def)
qed (simp add: utf16_length_def)

subsection \<open>Span summaries\<close>

text \<open>Texts of at most 257 code units and lists of at most 16 values; an object is copied as it is.\<close>

fun small_value :: "json \<Rightarrow> bool" where
  "small_value (JStr s) \<longleftrightarrow> utf16_length s \<le> 257"
| "small_value (JArr vs) \<longleftrightarrow> length vs \<le> 16 \<and> (\<forall>v \<in> set vs. small_value v)"
| "small_value v \<longleftrightarrow> True"

fun utf8_value :: "json \<Rightarrow> bool" where
  "utf8_value (JStr s) = utf8_text s"
| "utf8_value (JArr vs) \<longleftrightarrow> (\<forall>v \<in> set vs. utf8_value v)"
| "utf8_value v \<longleftrightarrow> True"

lemma small_truncated: "utf8_value v \<Longrightarrow> small_value (truncate_value v)"
proof (induction v rule: truncate_value.induct)
  case (1 s)
  have "utf16_length ellipsis = 1" by (simp add: utf16_length_def ellipsis_def)
  with js_prefix_utf16 [of s 256] 1 show ?case by (cases "js_prefix 256 s = s") simp_all
next
  case (2 vs)
  then show ?case by (auto simp: take_map dest: in_set_takeD)
qed auto

lemma summary_length: "summary_from src ks = Some ob \<Longrightarrow> length ob \<le> length ks"
  by (induction ks arbitrary: ob) (fastforce simp: Let_def split: if_splits)+

lemma allowlist_short: "map_of REQUEST_ALLOWLIST connector = Some allow \<Longrightarrow> length allow \<le> 8"
  by (auto simp: REQUEST_ALLOWLIST_def split: if_splits)

text \<open>The summary of a request that a span carries is bounded whatever the request holds: at most eight
  members, all of them allowlisted for the connector of the command, no text longer than 257 UTF-16 code units,
  no list longer than 16, and no member whose own text looks like a secret.\<close>

theorem span_summary_bounded:
  assumes "redactRequest command (Some args) = Inr (Some ob)" "\<forall>(k, v) \<in> set args. utf8_value v"
  shows "length ob \<le> 8 \<and>
    (\<exists>connector allow. connectorFromCommand command = Some connector \<and> map_of REQUEST_ALLOWLIST connector = Some allow \<and>
       (\<forall>(k, v) \<in> set ob. k \<in> set allow \<and> small_value v \<and> \<not> looksLikeSecret (jget args k)))"
proof -
  obtain connector allow where c: "connectorFromCommand command = Some connector" "map_of REQUEST_ALLOWLIST connector = Some allow"
    and s: "summary_from args allow = Some ob"
    using assms(1) by (auto simp: redactRequest_def nonempty_summary_def split: option.splits if_splits)
  have "utf8_value (jget args k)" for k
    using assms(2) by (auto simp: jget_def split: option.split dest: map_of_SomeD)
  with summary_from_members [OF s] small_truncated have "\<forall>(k, v) \<in> set ob. k \<in> set allow \<and> small_value v \<and> \<not> looksLikeSecret (jget args k)"
    by fastforce
  moreover have "length ob \<le> 8" using summary_length [OF s] allowlist_short [OF c(2)] by simp
  ultimately show ?thesis using c by blast
qed

theorem span_summary_bounded_witness:
  "\<exists>ob. redactRequest ''/github/repo/list'' (Some [(''owner'', JStr ''o''), (''token'', JStr ''t'')]) = Inr (Some ob) \<and>
     length ob \<le> 8 \<and> ob = [(''owner'', JStr ''o'')]"
proof -
  have run: "redactRequest ''/github/repo/list'' (Some [(''owner'', JStr ''o''), (''token'', JStr ''t'')]) =
      Inr (Some [(''owner'', JStr ''o'')])"
    by code_simp
  from span_summary_bounded [OF this] run show ?thesis by (simp add: lead_bytes_def)
qed

subsection \<open>The response sanitizer\<close>

definition zero_width_space :: string where
  "zero_width_space = [CHR 0xE2, CHR 0x80, CHR 0x8B]"

definition token_tail :: string where
  "token_tail = ''0123456789abcdefghijklmnopqrstuvwxyz''"

text \<open>The response sanitizer looks for secrets before it removes zero-width characters. A GitHub token in a
  response is replaced; the same token with one zero-width space inside is not recognised, and then the space
  is removed, so that the agent reads the token in full.\<close>

theorem split_token_reassembled:
  "sanitizeResponseBody (JObj [(''note'', JStr (''ghp_'' @ token_tail))]) (Some ''application/json'') =
     (JObj [(''note'', JStr ''[REDACTED:github_pat]'')], [''github_pat'']) \<and>
   sanitizeResponseBody (JObj [(''note'', JStr (''ghp'' @ zero_width_space @ ''_'' @ token_tail))]) (Some ''application/json'') =
     (JObj [(''note'', JStr (''ghp_'' @ token_tail))], [''zero_width''])"
  by (rule conjI; code_simp)

end
