(* ===== verification/Broker_Tables.thy ===== *)
theory Broker_Tables
  imports Approvals Rbac Regex
begin

text \<open>
  The tables of apps/control-plane/src/db/schema.ts the token broker reads and writes beside those of
  \<open>Control_Plane\<close>: API keys, usage counters, OAuth and cloud connections, issued UCANs and approval
  envelopes. \<open>tb_core\<close> holds the tables of \<open>Control_Plane\<close>. Columns of a \<open>jsonb\<close> type hold the JSON value.
  Timestamps are milliseconds; the columns written for display only (key name, prefix, display name, last
  error of a verification) are left out.
\<close>

datatype BootstrapStatus = boot_pending | boot_verified | boot_broken
datatype PlanTier = plan_free | plan_pro | plan_enterprise

record CustomerRow =
  cu_id :: string
  cu_plan :: PlanTier

record ApiKeyRow =
  ak_id :: string
  ak_customerId :: string
  ak_agentId :: "string option"
  ak_keyHash :: string
  ak_role :: Role
  ak_revokedAt :: "int option"
  ak_lastUsedAt :: "int option"
  ak_lastUserAgent :: "string option"
  ak_lastHost :: "string option"

record UsageRow =
  us_customerId :: string
  us_periodStart :: int
  us_mintCount :: int
  us_proxyCount :: int
  us_stripeMeterPending :: int

record OauthConnectionRow =
  oc_id :: string
  oc_customerId :: string
  oc_connector :: string
  oc_accountId :: string
  oc_encryptedRefreshToken :: string
  oc_refreshTokenNonce :: string
  oc_refreshTokenExpiresAt :: "int option"
  oc_encryptedAccessToken :: "string option"
  oc_accessTokenNonce :: "string option"
  oc_accessTokenExpiresAt :: "int option"
  oc_scopesGranted :: "string list"

record CloudConnectionRow =
  cn_id :: string
  cn_customerId :: string
  cn_connector :: string
  cn_accountId :: string
  cn_tenantId :: "string option"
  cn_externalId :: string
  cn_config :: obj
  cn_bootstrapStatus :: BootstrapStatus

record UcanIssueRow =
  is_cid :: string
  is_customerId :: string
  is_agentId :: string
  is_payload :: UcanPayload
  is_jwt :: string
  is_expiresAt :: int

record EnvelopeRow =
  en_id :: string
  en_customerId :: string
  en_agentId :: string
  en_constraint :: json
  en_actions :: "string list"
  en_parentUcanCid :: "string option"
  en_createdBy :: "string option"
  en_expiresAt :: "int option"
  en_revokedAt :: "int option"
  en_isStanding :: bool
  en_createdAt :: int

record Tables =
  tb_core :: Database
  tb_customers :: "CustomerRow list"
  tb_apiKeys :: "ApiKeyRow list"
  tb_lastActiveAt :: "(string \<times> int) list"
  tb_usage :: "UsageRow list"
  tb_oauthConnections :: "OauthConnectionRow list"
  tb_cloudConnections :: "CloudConnectionRow list"
  tb_ucanIssues :: "UcanIssueRow list"
  tb_envelopes :: "EnvelopeRow list"

text \<open>The lookup of an agent that the broker's operations share.\<close>

definition agent_of :: "Tables \<Rightarrow> string \<Rightarrow> string \<Rightarrow> AgentRow option" where
  "agent_of tb customerId agentId =
     List.find (\<lambda>a. ag_id a = agentId \<and> ag_customerId a = customerId) (db_agents (tb_core tb))"

lemma agent_of_Some:
  "agent_of tb customerId agentId = Some a \<Longrightarrow>
     a \<in> set (db_agents (tb_core tb)) \<and> ag_id a = agentId \<and> ag_customerId a = customerId"
  by (auto simp: agent_of_def find_Some_iff)

text \<open>
  The gates in front of the minting endpoints of the control plane: middleware/api-key-auth.ts (the bearer
  guard and the permission check) and services/usage.ts (the monthly quota). An increment of the quota
  counter is two round trips to the database, a check and an upsert; other requests may run between them,
  so each is an operation of its own.
\<close>

subsection \<open>api-key-auth.ts\<close>

record key_request =
  kr_authorization :: "string option"
  kr_userAgent :: "string option"
  kr_forwardedFor :: "string option"
  kr_realIp :: "string option"

text \<open>A refusal carries the status and the \<open>error_code\<close> of the answer.\<close>

type_synonym refusal = "int \<times> string"

record KeyIdentity =
  ki_customerId :: string
  ki_agentId :: string
  ki_apiKeyId :: string
  ki_role :: Role
  ki_permissions :: Bundle

text \<open>\<open>auth.replace(/^Bearer\s+/i, '')\<close>.\<close>

definition strip_bearer :: "string \<Rightarrow> string" where
  "strip_bearer s =
     (if toLowerCase (take 6 s) = ''bearer'' \<and> skip_spaces (drop 6 s) \<noteq> drop 6 s then skip_spaces (drop 6 s) else s)"

definition given :: "string option \<Rightarrow> string option" where
  "given v = (if str_truthy v then v else None)"

definition text_or :: "string option \<Rightarrow> string option \<Rightarrow> string option" where
  "text_or a b = (if str_truthy a then a else given b)"

definition client_host :: "key_request \<Rightarrow> string option" where
  "client_host r =
     text_or (Some (trim (hd (split_on CHR '','' (case kr_forwardedFor r of None \<Rightarrow> [] | Some f \<Rightarrow> f))))) (kr_realIp r)"

definition touch_agent :: "string \<Rightarrow> int \<Rightarrow> Tables \<Rightarrow> Tables" where
  "touch_agent agentId now tb = tb\<lparr>tb_lastActiveAt := (agentId, now) # tb_lastActiveAt tb\<rparr>"

definition touch_key :: "key_request \<Rightarrow> int \<Rightarrow> ApiKeyRow \<Rightarrow> ApiKeyRow" where
  "touch_key r now k =
     k\<lparr>ak_lastUsedAt := Some now,
       ak_lastUserAgent := (if str_truthy (kr_userAgent r) then map_option (js_prefix 500) (kr_userAgent r) else ak_lastUserAgent k),
       ak_lastHost := (case client_host r of None \<Rightarrow> ak_lastHost k | Some h \<Rightarrow> Some (js_prefix 100 h))\<rparr>"

definition live_key :: "string \<Rightarrow> ApiKeyRow \<Rightarrow> bool" where
  "live_key hash k \<longleftrightarrow> ak_keyHash k = hash \<and> ak_revokedAt k = None"

definition key_agent :: "Tables \<Rightarrow> ApiKeyRow \<Rightarrow> AgentRow option" where
  "key_agent tb k = List.find (\<lambda>a. Some (ag_id a) = ak_agentId k) (db_agents (tb_core tb))"

definition apiKeyAuth :: "env \<Rightarrow> int \<Rightarrow> key_request \<Rightarrow> Tables \<Rightarrow> (refusal, KeyIdentity) result \<times> Tables" where
  "apiKeyAuth E now r tb =
     (let got = strip_bearer (case kr_authorization r of None \<Rightarrow> [] | Some a \<Rightarrow> a)
      in if got = [] \<or> \<not> startsWith got ''cb_'' then (Inl (401, ''missing_api_key''), tb)
         else case List.find (live_key (sha256Hex E got)) (tb_apiKeys tb) of
             None \<Rightarrow> (Inl (401, ''invalid_api_key''), tb)
           | Some k \<Rightarrow>
               if \<not> str_truthy (ak_agentId k) then (Inl (403, ''agentless_api_key''), tb)
               else (case key_agent tb k of
                   None \<Rightarrow> (Inl (401, ''agent_not_found''), tb)
                 | Some agent \<Rightarrow>
                     if ag_status agent = status_deleted then (Inl (401, ''agent_not_found''), tb)
                     else
                       (let tb' = touch_agent (ag_id agent) now tb;
                            tb'' = tb'\<lparr>tb_apiKeys := update_rows (\<lambda>k'. ak_id k' = ak_id k) (touch_key r now) (tb_apiKeys tb')\<rparr>
                        in if ag_connectionApprovedAt agent = None then (Inl (403, ''pending_approval''), tb'')
                           else if ag_status agent \<noteq> status_active then (Inl (403, ''agent_not_active''), tb'')
                           else (Inr \<lparr>ki_customerId = ak_customerId k, ki_agentId = ag_id agent, ki_apiKeyId = ak_id k,
                                      ki_role = ak_role k, ki_permissions = expandRolePermissions (ak_role k)\<rparr>, tb''))))"

definition requirePermission :: "Resource \<Rightarrow> Action \<Rightarrow> KeyIdentity \<Rightarrow> (refusal, unit) result" where
  "requirePermission resource action who =
     (if hasPermission (ki_role who) resource action then Inr () else Inl (403, ''role_forbidden''))"

subsection \<open>usage.ts\<close>

datatype UsageKind = use_mint | use_proxy

record PlanCap =
  cap_mintPerMonth :: int
  cap_proxyPerMonth :: int

definition MAX_SAFE_INTEGER :: int where "MAX_SAFE_INTEGER = 2 ^ 53 - 1"

fun PLAN_CAPS :: "PlanTier \<Rightarrow> PlanCap" where
  "PLAN_CAPS plan_free = \<lparr>cap_mintPerMonth = 1000, cap_proxyPerMonth = 1000\<rparr>"
| "PLAN_CAPS plan_pro = \<lparr>cap_mintPerMonth = 100000, cap_proxyPerMonth = 100000\<rparr>"
| "PLAN_CAPS plan_enterprise = \<lparr>cap_mintPerMonth = MAX_SAFE_INTEGER, cap_proxyPerMonth = MAX_SAFE_INTEGER\<rparr>"

record UsageSnapshot =
  sn_customerId :: string
  sn_plan :: PlanTier
  sn_periodStart :: int
  sn_mintCount :: int
  sn_proxyCount :: int
  sn_cap :: PlanCap

text \<open>The day of the month of a day counted from 1970-01-01, in the proleptic Gregorian calendar.\<close>

definition day_of_month :: "int \<Rightarrow> int" where
  "day_of_month days =
     (let z = days + 719468; doe = z mod 146097;
          yoe = (doe - doe div 1460 + doe div 36524 - doe div 146096) div 365;
          doy = doe - (365 * yoe + yoe div 4 - yoe div 100)
      in doy - (153 * ((5 * doy + 2) div 153) + 2) div 5 + 1)"

definition currentPeriodStart :: "int \<Rightarrow> int" where
  "currentPeriodStart now = (let days = now div 86400000 in (days - (day_of_month days - 1)) * 86400000)"

definition usage_row :: "Tables \<Rightarrow> string \<Rightarrow> int \<Rightarrow> UsageRow option" where
  "usage_row tb c p = List.find (\<lambda>u. us_customerId u = c \<and> us_periodStart u = p) (tb_usage tb)"

definition plan_of :: "Tables \<Rightarrow> string \<Rightarrow> PlanTier" where
  "plan_of tb c = (case List.find (\<lambda>r. cu_id r = c) (tb_customers tb) of None \<Rightarrow> plan_free | Some r \<Rightarrow> cu_plan r)"

definition getUsage :: "int \<Rightarrow> string \<Rightarrow> Tables \<Rightarrow> UsageSnapshot" where
  "getUsage now c tb =
     (let p = currentPeriodStart now; row = usage_row tb c p
      in \<lparr>sn_customerId = c, sn_plan = plan_of tb c, sn_periodStart = p,
          sn_mintCount = (case row of None \<Rightarrow> 0 | Some u \<Rightarrow> us_mintCount u),
          sn_proxyCount = (case row of None \<Rightarrow> 0 | Some u \<Rightarrow> us_proxyCount u),
          sn_cap = PLAN_CAPS (plan_of tb c)\<rparr>)"

fun used :: "UsageKind \<Rightarrow> UsageSnapshot \<Rightarrow> int" where
  "used use_mint s = sn_mintCount s"
| "used use_proxy s = sn_proxyCount s"

fun allowed_use :: "UsageKind \<Rightarrow> PlanCap \<Rightarrow> int" where
  "allowed_use use_mint c = cap_mintPerMonth c"
| "allowed_use use_proxy c = cap_proxyPerMonth c"

definition mintDelta :: "UsageKind \<Rightarrow> int" where "mintDelta k = (if k = use_mint then 1 else 0)"
definition proxyDelta :: "UsageKind \<Rightarrow> int" where "proxyDelta k = (if k = use_proxy then 1 else 0)"

text \<open>The check, which throws \<open>QuotaExceededError\<close> with the snapshot, and the upsert.\<close>

definition increment_check :: "int \<Rightarrow> string \<Rightarrow> UsageKind \<Rightarrow> Tables \<Rightarrow> (UsageSnapshot, UsageSnapshot) result" where
  "increment_check now c kind tb =
     (let before = getUsage now c tb
      in if used kind before \<ge> allowed_use kind (sn_cap before) then Inl before else Inr before)"

definition bump :: "UsageKind \<Rightarrow> UsageRow \<Rightarrow> UsageRow" where
  "bump kind u =
     u\<lparr>us_mintCount := us_mintCount u + mintDelta kind, us_proxyCount := us_proxyCount u + proxyDelta kind,
       us_stripeMeterPending := us_stripeMeterPending u + 1\<rparr>"

definition increment_upsert :: "UsageKind \<Rightarrow> UsageSnapshot \<Rightarrow> Tables \<Rightarrow> UsageSnapshot \<times> Tables" where
  "increment_upsert kind before tb =
     (let c = sn_customerId before; p = sn_periodStart before
      in (before\<lparr>sn_mintCount := sn_mintCount before + mintDelta kind, sn_proxyCount := sn_proxyCount before + proxyDelta kind\<rparr>,
          case usage_row tb c p of
            None \<Rightarrow>
              tb\<lparr>tb_usage := tb_usage tb @
                [\<lparr>us_customerId = c, us_periodStart = p, us_mintCount = mintDelta kind, us_proxyCount = proxyDelta kind,
                  us_stripeMeterPending = 1\<rparr>]\<rparr>
          | Some u \<Rightarrow>
              tb\<lparr>tb_usage := update_rows (\<lambda>u. us_customerId u = c \<and> us_periodStart u = p) (bump kind) (tb_usage tb)\<rparr>))"

definition increment :: "int \<Rightarrow> string \<Rightarrow> UsageKind \<Rightarrow> Tables \<Rightarrow> (UsageSnapshot, UsageSnapshot) result \<times> Tables" where
  "increment now c kind tb =
     (case increment_check now c kind tb of
        Inl s \<Rightarrow> (Inl s, tb)
      | Inr before \<Rightarrow> (let (after, tb') = increment_upsert kind before tb in (Inr after, tb')))"

end
