(* ===== verification/Minting.thy ===== *)
theory Minting
  imports Broker_Tables
begin

text \<open>
  Issuing tokens in the control plane: services/ucan-mint.ts with its route routes/mint-ucan.ts (a token of
  the platform for a command of an agent) and services/ucan-mint-child.ts with routes/mint-child-ucan.ts (a
  delegation signed with the sealed key of the parent agent). An insert whose primary key is taken throws.
  The messages of the error classes are left out, their codes are the constructors.
\<close>

subsection \<open>ucan-mint.ts\<close>

datatype MintError =
    mint_agent_missing | agent_not_active | oauth_connection_not_found | oauth_connection_other_customer
  | cloud_connection_not_found | cloud_connection_other_customer | cloud_connection_not_verified
  | connection_kind_conflict | policy_not_found | Mint_threw exn | Mint_duplicate_cid

record MintInput =
  mi_customerId :: string
  mi_agentId :: string
  mi_command :: string
  mi_policyId :: "string option"
  mi_oauthConnectionId :: "string option"
  mi_cloudConnectionId :: "string option"
  mi_ttlSeconds :: int
  mi_nonce :: string
  mi_contextHints :: "obj option"
  mi_resourceConstraint :: "ResourceConstraint option"
  mi_mode :: "string option"

record signing =
  sg_signKey :: string
  sg_signerDid :: string

record MintResult =
  mr_cid :: string
  mr_jwt :: string
  mr_payload :: UcanPayload
  mr_expiresAt :: int

definition policy_check :: "MintInput \<Rightarrow> Tables \<Rightarrow> MintError option" where
  "policy_check inp tb =
     (if str_truthy (mi_policyId inp) \<and>
         List.find (\<lambda>p. Some (po_id p) = mi_policyId inp \<and> po_customerId p = mi_customerId inp)
           (db_policies (tb_core tb)) = None
      then Some policy_not_found else None)"

definition oauth_check :: "MintInput \<Rightarrow> Tables \<Rightarrow> MintError option" where
  "oauth_check inp tb =
     (if \<not> str_truthy (mi_oauthConnectionId inp) then None
      else case List.find (\<lambda>c. Some (oc_id c) = mi_oauthConnectionId inp) (tb_oauthConnections tb) of
          None \<Rightarrow> Some oauth_connection_not_found
        | Some c \<Rightarrow> if oc_customerId c \<noteq> mi_customerId inp then Some oauth_connection_other_customer else None)"

definition cloud_check :: "MintInput \<Rightarrow> Tables \<Rightarrow> MintError option" where
  "cloud_check inp tb =
     (if \<not> str_truthy (mi_cloudConnectionId inp) then None
      else case List.find (\<lambda>c. Some (cn_id c) = mi_cloudConnectionId inp) (tb_cloudConnections tb) of
          None \<Rightarrow> Some cloud_connection_not_found
        | Some c \<Rightarrow>
            if cn_customerId c \<noteq> mi_customerId inp then Some cloud_connection_other_customer
            else if cn_bootstrapStatus c \<noteq> boot_verified then Some cloud_connection_not_verified else None)"

definition mint_checks :: "MintInput \<Rightarrow> Tables \<Rightarrow> MintError option" where
  "mint_checks inp tb =
     (case policy_check inp tb of
        Some e \<Rightarrow> Some e
      | None \<Rightarrow>
          if str_truthy (mi_oauthConnectionId inp) \<and> str_truthy (mi_cloudConnectionId inp)
          then Some connection_kind_conflict
          else case oauth_check inp tb of Some e \<Rightarrow> Some e | None \<Rightarrow> cloud_check inp tb)"

definition mint_meta :: "MintInput \<Rightarrow> string \<Rightarrow> obj" where
  "mint_meta inp agentId =
     [(''agent_id'', JStr agentId), (''customer_id'', JStr (mi_customerId inp))] @
     opt_str ''policy_id'' (given (mi_policyId inp)) @
     opt_str ''oauth_connection_id'' (given (mi_oauthConnectionId inp)) @
     opt_str ''cloud_connection_id'' (given (mi_cloudConnectionId inp)) @
     (case mi_contextHints inp of None \<Rightarrow> [] | Some h \<Rightarrow> if h = [] then [] else [(''context_hints'', JObj h)]) @
     opt_json ''resource_constraint'' (map_option (\<lambda>c. JObj (constraintObj c)) (mi_resourceConstraint inp)) @
     [(''mode'', JStr (case mi_mode inp of
         Some m \<Rightarrow> m
       | None \<Rightarrow> if mi_resourceConstraint inp = None then ''static'' else ''dynamic''))]"

definition mint_payload :: "signing \<Rightarrow> int \<Rightarrow> MintInput \<Rightarrow> AgentRow \<Rightarrow> UcanPayload" where
  "mint_payload sg nowSec inp agent =
     \<lparr>p_iss = sg_signerDid sg, p_aud = ag_did agent, p_cmd = mi_command inp, p_sub = None, p_pol = [],
      p_nonce = mi_nonce inp, p_meta = Some (mint_meta inp (ag_id agent)), p_nbf = nowSec - 60,
      p_exp = nowSec + mi_ttlSeconds inp, p_prf = None\<rparr>"

definition record_issue ::
  "string \<Rightarrow> string \<Rightarrow> UcanPayload \<Rightarrow> int \<Rightarrow> UcanIssued \<Rightarrow> Tables \<Rightarrow> Tables option" where
  "record_issue customerId agentId payload expiresAt u tb =
     (if list_ex (\<lambda>r. is_cid r = ui_cid u) (tb_ucanIssues tb) then None
      else Some (tb\<lparr>tb_ucanIssues := tb_ucanIssues tb @
        [\<lparr>is_cid = ui_cid u, is_customerId = customerId, is_agentId = agentId, is_payload = payload,
          is_jwt = ui_jwt u, is_expiresAt = expiresAt\<rparr>]\<rparr>))"

definition mintUcan ::
  "env \<Rightarrow> signing \<Rightarrow> int \<Rightarrow> MintInput \<Rightarrow> Tables \<Rightarrow> (MintError, MintResult) result \<times> Tables" where
  "mintUcan E sg now inp tb =
     (case agent_of tb (mi_customerId inp) (mi_agentId inp) of
        None \<Rightarrow> (Inl mint_agent_missing, tb)
      | Some agent \<Rightarrow>
          if ag_status agent \<noteq> status_active then (Inl agent_not_active, tb)
          else case mint_checks inp tb of
              Some e \<Rightarrow> (Inl e, tb)
            | None \<Rightarrow>
                (let nowSec = now div 1000; payload = mint_payload sg nowSec inp agent;
                     expiresAt = (nowSec + mi_ttlSeconds inp) * 1000
                 in case issueUcan E payload (sg_signKey sg) of
                      Inl e \<Rightarrow> (Inl (Mint_threw e), tb)
                    | Inr u \<Rightarrow>
                        (case record_issue (mi_customerId inp) (ag_id agent) payload expiresAt u tb of
                           None \<Rightarrow> (Inl Mint_duplicate_cid, tb)
                         | Some tb' \<Rightarrow>
                             (Inr \<lparr>mr_cid = ui_cid u, mr_jwt = ui_jwt u, mr_payload = payload, mr_expiresAt = expiresAt\<rparr>, tb'))))"

subsection \<open>ucan-mint-child.ts\<close>

datatype MintChildError =
    parent_chain_invalid | parent_chain_attenuation_violation | parent_chain_too_deep | parent_aud_mismatch
  | parent_agent_not_found | agent_no_signing_key | child_agent_not_found | command_not_subset
  | ttl_exceeds_parent | resource_constraint_broader | Child_threw exn | Child_duplicate_cid

record MintChildInput =
  ci_customerId :: string
  ci_parentAgentId :: string
  ci_parentChain :: "string list"
  ci_childAgentId :: string
  ci_command :: string
  ci_ttlSeconds :: int
  ci_nonce :: string
  ci_resourceConstraint :: "ResourceConstraint option"
  ci_oauthConnectionId :: "string option"

record MintChildResult =
  cr_cid :: string
  cr_jwt :: string
  cr_payload :: UcanPayload
  cr_expiresAt :: int
  cr_newChain :: "string list"

definition parent_leaf :: "env \<Rightarrow> int \<Rightarrow> string list \<Rightarrow> (MintChildError, UcanPayload) result" where
  "parent_leaf E nowSec chain =
     (case validateChain E (\<lambda>_. nowSec) chain \<lparr>vo_audience = None, vo_expectedCommand = None, vo_now = Some nowSec\<rparr> of
        Inl e \<Rightarrow> Inl (Child_threw e)
      | Inr (ChainInvalid over_attenuated) \<Rightarrow> Inl parent_chain_attenuation_violation
      | Inr (ChainInvalid e) \<Rightarrow> Inl parent_chain_invalid
      | Inr (ChainValid root leaf) \<Rightarrow> Inr leaf)"

definition child_constraint_ok :: "UcanPayload \<Rightarrow> ResourceConstraint option \<Rightarrow> (exn, bool) result" where
  "child_constraint_ok leaf c =
     (case c of
        None \<Rightarrow> Inr True
      | Some child \<Rightarrow>
          rbind (extractResourceConstraint (p_meta leaf)) (\<lambda>p.
            Inr (case p of None \<Rightarrow> True | Some parent \<Rightarrow> constraintCovers parent child)))"

definition child_meta :: "MintChildInput \<Rightarrow> string \<Rightarrow> obj" where
  "child_meta inp childId =
     [(''agent_id'', JStr childId), (''customer_id'', JStr (ci_customerId inp)),
      (''chain_depth'', JNum (JInt (int (length (ci_parentChain inp))))), (''mode'', JStr ''static'')] @
     opt_str ''oauth_connection_id'' (given (ci_oauthConnectionId inp)) @
     opt_json ''resource_constraint'' (map_option (\<lambda>c. JObj (constraintObj c)) (ci_resourceConstraint inp))"

definition child_payload ::
  "env \<Rightarrow> int \<Rightarrow> MintChildInput \<Rightarrow> UcanPayload \<Rightarrow> AgentRow \<Rightarrow> AgentRow \<Rightarrow> UcanPayload" where
  "child_payload E nowSec inp leaf parent child =
     \<lparr>p_iss = ag_did parent, p_aud = ag_did child, p_cmd = ci_command inp, p_sub = None, p_pol = [],
      p_nonce = ci_nonce inp, p_meta = Some (child_meta inp (ag_id child)), p_nbf = max (p_nbf leaf) (nowSec - 60),
      p_exp = nowSec + ci_ttlSeconds inp, p_prf = Some [computeCid E (last (ci_parentChain inp))]\<rparr>"

definition signing_key :: "env \<Rightarrow> string \<Rightarrow> AgentRow \<Rightarrow> (exn, string) result" where
  "signing_key E encryptionKey parent =
     rbind (openString E encryptionKey (the (ag_encryptedSigningKey parent)) (the (ag_signingKeyNonce parent)) None)
       (privateKeyFromHex E)"

text \<open>The two agents of a delegation, and the checks of what is delegated, in the order of the code.\<close>

definition child_agents ::
  "MintChildInput \<Rightarrow> UcanPayload \<Rightarrow> Tables \<Rightarrow> (MintChildError, AgentRow \<times> AgentRow) result" where
  "child_agents inp leaf tb =
     (case agent_of tb (ci_customerId inp) (ci_parentAgentId inp) of
        None \<Rightarrow> Inl parent_agent_not_found
      | Some parent \<Rightarrow>
          if p_aud leaf \<noteq> ag_did parent then Inl parent_aud_mismatch
          else if \<not> str_truthy (ag_encryptedSigningKey parent) \<or> \<not> str_truthy (ag_signingKeyNonce parent)
          then Inl agent_no_signing_key
          else case agent_of tb (ci_customerId inp) (ci_childAgentId inp) of
              None \<Rightarrow> Inl child_agent_not_found
            | Some child \<Rightarrow> Inr (parent, child))"

definition child_narrowing :: "int \<Rightarrow> MintChildInput \<Rightarrow> UcanPayload \<Rightarrow> (MintChildError, unit) result" where
  "child_narrowing nowSec inp leaf =
     (if \<not> actionMatchesGranted (p_cmd leaf) (ci_command inp) then Inl command_not_subset
      else if nowSec + ci_ttlSeconds inp > p_exp leaf then Inl ttl_exceeds_parent
      else case child_constraint_ok leaf (ci_resourceConstraint inp) of
          Inl e \<Rightarrow> Inl (Child_threw e)
        | Inr ok \<Rightarrow> if ok then Inr () else Inl resource_constraint_broader)"

definition mint_child_checks ::
  "env \<Rightarrow> nat \<Rightarrow> int \<Rightarrow> MintChildInput \<Rightarrow> Tables \<Rightarrow> (MintChildError, UcanPayload \<times> AgentRow \<times> AgentRow) result" where
  "mint_child_checks E maxChainDepth nowSec inp tb =
     rbind (parent_leaf E nowSec (ci_parentChain inp)) (\<lambda>leaf.
       if length (ci_parentChain inp) + 1 > maxChainDepth then Inl parent_chain_too_deep
       else rbind (child_agents inp leaf tb) (\<lambda>agents.
              rbind (child_narrowing nowSec inp leaf) (\<lambda>_. Inr (leaf, agents))))"

definition mintChildUcan ::
  "env \<Rightarrow> string \<Rightarrow> nat \<Rightarrow> int \<Rightarrow> MintChildInput \<Rightarrow> Tables \<Rightarrow> (MintChildError, MintChildResult) result \<times> Tables" where
  "mintChildUcan E encryptionKey maxChainDepth now inp tb =
     (let nowSec = now div 1000
      in case mint_child_checks E maxChainDepth nowSec inp tb of
           Inl e \<Rightarrow> (Inl e, tb)
         | Inr (leaf, parent, child) \<Rightarrow>
             (let payload = child_payload E nowSec inp leaf parent child; expiresAt = p_exp payload * 1000
              in case rbind (signing_key E encryptionKey parent) (issueUcan E payload) of
                   Inl e \<Rightarrow> (Inl (Child_threw e), tb)
                 | Inr u \<Rightarrow>
                     (case record_issue (ci_customerId inp) (ag_id child) payload expiresAt u tb of
                        None \<Rightarrow> (Inl Child_duplicate_cid, tb)
                      | Some tb' \<Rightarrow>
                          (Inr \<lparr>cr_cid = ui_cid u, cr_jwt = ui_jwt u, cr_payload = payload, cr_expiresAt = expiresAt,
                                cr_newChain = ci_parentChain inp @ [ui_jwt u]\<rparr>, tb'))))"

text \<open>
  The minting endpoints of the control plane: routes/mint-ucan.ts and routes/mint-child-ucan.ts, from the
  request to the answer and the tables afterwards. Logging is left out. The clock gives the time of each
  reading of \<open>Date.now\<close> in the request. Whether the database refuses a connector outside of the column's
  enumeration or finds no rows for it is an argument (\<open>strict\<close>): the source expects no rows, PostgreSQL
  documents an error.
\<close>

datatype 'a mint_answer = Mint_ok 'a | Mint_refused int string | Mint_crashed

definition hex_text :: "nat \<Rightarrow> string \<Rightarrow> bool" where
  "hex_text n s \<longleftrightarrow>
     length s = n \<and> (\<forall>c \<in> set s. is_digit c \<or> CHR ''a'' \<le> c \<and> c \<le> CHR ''f'' \<or> CHR ''A'' \<le> c \<and> c \<le> CHR ''F'')"

definition uuid_text :: "string \<Rightarrow> bool" where
  "uuid_text s \<longleftrightarrow>
     (case split_on CHR ''-'' s of
        [a, b, c, d, e] \<Rightarrow> hex_text 8 a \<and> hex_text 4 b \<and> hex_text 4 c \<and> hex_text 4 d \<and> hex_text 12 e
      | _ \<Rightarrow> False)"

definition MAX_TTL_SECONDS :: int where "MAX_TTL_SECONDS = 3600"
definition MINT_DEFAULT_TTL_SECONDS :: int where "MINT_DEFAULT_TTL_SECONDS = 600"

definition z_ttl :: "json \<Rightarrow> int option option" where
  "z_ttl = z_opt (z_int (\<lambda>i. 0 < i \<and> i \<le> MAX_TTL_SECONDS))"

definition ttl_or_default :: "int option \<Rightarrow> int" where
  "ttl_or_default t = (case t of None \<Rightarrow> MINT_DEFAULT_TTL_SECONDS | Some n \<Rightarrow> n)"

subsection \<open>mint-ucan.ts\<close>

record MintBody =
  mb_commands :: "string list"
  mb_ttlSeconds :: "int option"
  mb_oauthConnectionId :: "string option"
  mb_cloudConnectionId :: "string option"

definition parseMintBody :: "json \<Rightarrow> MintBody option" where
  "parseMintBody v =
     Option.bind (as_obj v) (\<lambda>ob.
     Option.bind (z_array (z_match COMMAND_REGEX) (jget ob ''commands'')) (\<lambda>commands.
     Option.bind (z_ttl (jget ob ''ttlSeconds'')) (\<lambda>ttl.
     Option.bind (z_opt (z_match uuid_text) (jget ob ''oauthConnectionId'')) (\<lambda>oauth.
     Option.bind (z_opt (z_match uuid_text) (jget ob ''cloudConnectionId'')) (\<lambda>cloud.
       if 1 \<le> length commands \<and> length commands \<le> 16
       then Some \<lparr>mb_commands = commands, mb_ttlSeconds = ttl, mb_oauthConnectionId = oauth, mb_cloudConnectionId = cloud\<rparr>
       else None)))))"

definition CLOUD_CONNECTORS :: "string list" where
  "CLOUD_CONNECTORS = [''azure'', ''aws'', ''gcp'']"

definition oauthConnectorEnum :: "string list" where
  "oauthConnectorEnum =
     [''github'', ''slack'', ''google'', ''notion'', ''salesforce'', ''linear'', ''stripe'', ''jira'',
      ''google_calendar'', ''postgres'', ''google_gmail'', ''google_drive'', ''google_contacts'', ''discord'',
      ''telegram'', ''dropbox'', ''twilio'', ''granola'', ''perplexity'', ''imessage'']"

datatype ResolvedConnection = Res_oauth string | Res_cloud string | Res_none
datatype resolved = Resolved ResolvedConnection | Ambiguous string | Rejected_by_db

type_synonym connection_cache = "(string \<times> ResolvedConnection) list"

definition only_one :: "('a \<Rightarrow> ResolvedConnection) \<Rightarrow> string \<Rightarrow> 'a list \<Rightarrow> connection_cache \<Rightarrow> resolved \<times> connection_cache" where
  "only_one f connector rows cache =
     (case rows of
        [] \<Rightarrow> (Resolved Res_none, (connector, Res_none) # cache)
      | [r] \<Rightarrow> (Resolved (f r), (connector, f r) # cache)
      | _ \<Rightarrow> (Ambiguous connector, cache))"

text \<open>The inference from the first segment of a command. An ambiguous connector ends the request, so its
  entry of the cache is never read.\<close>

definition infer_connection ::
  "bool \<Rightarrow> string \<Rightarrow> Tables \<Rightarrow> string \<Rightarrow> connection_cache \<Rightarrow> resolved \<times> connection_cache" where
  "infer_connection strict customerId tb command cache =
     (case split_on CHR ''/'' command of
        _ # s # _ \<Rightarrow>
          if s = [] then (Resolved Res_none, cache)
          else (case map_of cache s of
              Some r \<Rightarrow> (Resolved r, cache)
            | None \<Rightarrow>
                if s \<in> set CLOUD_CONNECTORS
                then only_one (\<lambda>c. Res_cloud (cn_id c)) s
                       (filter (\<lambda>c. cn_customerId c = customerId \<and> cn_connector c = s \<and> cn_bootstrapStatus c = boot_verified)
                         (tb_cloudConnections tb)) cache
                else if strict \<and> s \<notin> set oauthConnectorEnum then (Rejected_by_db, cache)
                else only_one (\<lambda>c. Res_oauth (oc_id c)) s
                       (filter (\<lambda>c. oc_customerId c = customerId \<and> oc_connector c = s) (tb_oauthConnections tb)) cache)
      | _ \<Rightarrow> (Resolved Res_none, cache))"

datatype resolver = Fixed ResolvedConnection | Inferred

definition mint_resolver :: "string \<Rightarrow> MintBody \<Rightarrow> Tables \<Rightarrow> (refusal, resolver) result" where
  "mint_resolver customerId body tb =
     (if str_truthy (mb_cloudConnectionId body) then
        (case List.find (\<lambda>c. Some (cn_id c) = mb_cloudConnectionId body \<and> cn_customerId c = customerId)
                (tb_cloudConnections tb) of
           None \<Rightarrow> Inl (404, ''cloud_connection_not_found'')
         | Some c \<Rightarrow>
             if cn_bootstrapStatus c \<noteq> boot_verified then Inl (412, ''cloud_connection_not_verified'')
             else Inr (Fixed (Res_cloud (the (mb_cloudConnectionId body)))))
      else if str_truthy (mb_oauthConnectionId body) then
        (case List.find (\<lambda>c. Some (oc_id c) = mb_oauthConnectionId body \<and> oc_customerId c = customerId)
                (tb_oauthConnections tb) of
           None \<Rightarrow> Inl (404, ''oauth_connection_not_found'')
         | Some c \<Rightarrow> Inr (Fixed (Res_oauth (the (mb_oauthConnectionId body)))))
      else Inr Inferred)"

definition resolve_connection ::
  "resolver \<Rightarrow> bool \<Rightarrow> string \<Rightarrow> Tables \<Rightarrow> string \<Rightarrow> connection_cache \<Rightarrow> resolved \<times> connection_cache" where
  "resolve_connection how strict customerId tb command cache =
     (case how of Fixed r \<Rightarrow> (Resolved r, cache) | Inferred \<Rightarrow> infer_connection strict customerId tb command cache)"

fun mint_status :: "MintError \<Rightarrow> refusal option" where
  "mint_status mint_agent_missing = Some (404, ''agent_not_found'')"
| "mint_status oauth_connection_not_found = Some (404, ''oauth_connection_not_found'')"
| "mint_status cloud_connection_not_found = Some (404, ''cloud_connection_not_found'')"
| "mint_status agent_not_active = Some (403, ''agent_not_active'')"
| "mint_status cloud_connection_not_verified = Some (412, ''cloud_connection_not_verified'')"
| "mint_status oauth_connection_other_customer = Some (400, ''oauth_connection_other_customer'')"
| "mint_status cloud_connection_other_customer = Some (400, ''cloud_connection_other_customer'')"
| "mint_status connection_kind_conflict = Some (400, ''connection_kind_conflict'')"
| "mint_status policy_not_found = Some (400, ''policy_not_found'')"
| "mint_status e = None"

definition ambiguous_code :: "string \<Rightarrow> string" where
  "ambiguous_code connector =
     (if connector \<in> set CLOUD_CONNECTORS then ''cloud_connection_ambiguous'' else ''oauth_connection_ambiguous'')"

definition route_input :: "KeyIdentity \<Rightarrow> int \<Rightarrow> int \<Rightarrow> string \<Rightarrow> ResolvedConnection \<Rightarrow> MintInput" where
  "route_input who ttl stamp command r =
     \<lparr>mi_customerId = ki_customerId who, mi_agentId = ki_agentId who, mi_command = command, mi_policyId = None,
      mi_oauthConnectionId = (case r of Res_oauth i \<Rightarrow> Some i | _ \<Rightarrow> None),
      mi_cloudConnectionId = (case r of Res_cloud i \<Rightarrow> Some i | _ \<Rightarrow> None), mi_ttlSeconds = ttl,
      mi_nonce = string_of_int stamp @ ''-'' @ command, mi_contextHints = None, mi_resourceConstraint = None,
      mi_mode = None\<rparr>"

type_synonym issued_row = "string \<times> MintResult"

fun mint_commands ::
  "env \<Rightarrow> signing \<Rightarrow> bool \<Rightarrow> (nat \<Rightarrow> int) \<Rightarrow> KeyIdentity \<Rightarrow> resolver \<Rightarrow> int \<Rightarrow> connection_cache \<Rightarrow> nat \<Rightarrow> string list \<Rightarrow>
   Tables \<Rightarrow> issued_row list mint_answer \<times> Tables" where
  "mint_commands E sg strict clock who how ttl cache i [] tb = (Mint_ok [], tb)"
| "mint_commands E sg strict clock who how ttl cache i (command # commands) tb =
     (case resolve_connection how strict (ki_customerId who) tb command cache of
        (Ambiguous connector, _) \<Rightarrow> (Mint_refused 409 (ambiguous_code connector), tb)
      | (Rejected_by_db, _) \<Rightarrow> (Mint_crashed, tb)
      | (Resolved r, cache') \<Rightarrow>
          (case mintUcan E sg (clock (Suc i)) (route_input who ttl (clock i) command r) tb of
             (Inl e, tb') \<Rightarrow> (case mint_status e of Some (st, code) \<Rightarrow> Mint_refused st code | None \<Rightarrow> Mint_crashed, tb')
           | (Inr u, tb') \<Rightarrow>
               (case mint_commands E sg strict clock who how ttl cache' (i + 2) commands tb' of
                  (Mint_ok us, tb'') \<Rightarrow> (Mint_ok ((command, u) # us), tb'')
                | r \<Rightarrow> r)))"

definition mint_body ::
  "env \<Rightarrow> signing \<Rightarrow> bool \<Rightarrow> (nat \<Rightarrow> int) \<Rightarrow> KeyIdentity \<Rightarrow> json option \<Rightarrow> Tables \<Rightarrow> issued_row list mint_answer \<times> Tables" where
  "mint_body E sg strict clock who raw tb =
     (case Option.bind raw parseMintBody of
        None \<Rightarrow> (Mint_refused 400 ''invalid_body'', tb)
      | Some body \<Rightarrow>
          if str_truthy (mb_oauthConnectionId body) \<and> str_truthy (mb_cloudConnectionId body)
          then (Mint_refused 400 ''connection_kind_conflict'', tb)
          else case mint_resolver (ki_customerId who) body tb of
              Inl (st, code) \<Rightarrow> (Mint_refused st code, tb)
            | Inr how \<Rightarrow>
                mint_commands E sg strict clock who how (ttl_or_default (mb_ttlSeconds body)) [] 2 (mb_commands body) tb)"

definition mint_ucan_route ::
  "env \<Rightarrow> signing \<Rightarrow> bool \<Rightarrow> (nat \<Rightarrow> int) \<Rightarrow> key_request \<Rightarrow> json option \<Rightarrow> Tables \<Rightarrow> issued_row list mint_answer \<times> Tables" where
  "mint_ucan_route E sg strict clock r raw tb =
     (case apiKeyAuth E (clock 0) r tb of
        (Inl (st, code), tb1) \<Rightarrow> (Mint_refused st code, tb1)
      | (Inr who, tb1) \<Rightarrow>
          (case requirePermission R_agents A_update who of
             Inl (st, code) \<Rightarrow> (Mint_refused st code, tb1)
           | Inr _ \<Rightarrow>
               (case increment (clock 1) (ki_customerId who) use_mint tb1 of
                  (Inl _, tb2) \<Rightarrow> (Mint_refused 402 ''quota_exceeded'', tb2)
                | (Inr _, tb2) \<Rightarrow> mint_body E sg strict clock who raw tb2)))"

subsection \<open>mint-child-ucan.ts\<close>

record MintChildBody =
  cb_parentChain :: "string list"
  cb_childAgentId :: string
  cb_command :: string
  cb_ttlSeconds :: "int option"
  cb_resourceConstraint :: "ResourceConstraint option"
  cb_oauthConnectionId :: "string option"

definition parseMintChildBody :: "json \<Rightarrow> MintChildBody option" where
  "parseMintChildBody v =
     Option.bind (as_obj v) (\<lambda>ob.
     Option.bind (z_array z_string (jget ob ''parentChain'')) (\<lambda>chain.
     Option.bind (z_match uuid_text (jget ob ''childAgentId'')) (\<lambda>child.
     Option.bind (z_match COMMAND_REGEX (jget ob ''command'')) (\<lambda>command.
     Option.bind (z_ttl (jget ob ''ttlSeconds'')) (\<lambda>ttl.
     Option.bind (z_opt parseResourceConstraint (jget ob ''resourceConstraint'')) (\<lambda>c.
     Option.bind (z_opt (z_match uuid_text) (jget ob ''oauthConnectionId'')) (\<lambda>oauth.
       if 1 \<le> length chain \<and> length chain \<le> 32
       then Some \<lparr>cb_parentChain = chain, cb_childAgentId = child, cb_command = command, cb_ttlSeconds = ttl,
                  cb_resourceConstraint = c, cb_oauthConnectionId = oauth\<rparr>
       else None)))))))"

fun child_status :: "MintChildError \<Rightarrow> refusal option" where
  "child_status parent_agent_not_found = Some (404, ''parent_agent_not_found'')"
| "child_status child_agent_not_found = Some (404, ''child_agent_not_found'')"
| "child_status agent_no_signing_key = Some (409, ''agent_no_signing_key'')"
| "child_status parent_chain_too_deep = Some (422, ''parent_chain_too_deep'')"
| "child_status parent_chain_invalid = Some (400, ''parent_chain_invalid'')"
| "child_status parent_chain_attenuation_violation = Some (400, ''parent_chain_attenuation_violation'')"
| "child_status parent_aud_mismatch = Some (400, ''parent_aud_mismatch'')"
| "child_status command_not_subset = Some (400, ''command_not_subset'')"
| "child_status ttl_exceeds_parent = Some (400, ''ttl_exceeds_parent'')"
| "child_status resource_constraint_broader = Some (400, ''resource_constraint_broader'')"
| "child_status e = None"

definition child_input :: "KeyIdentity \<Rightarrow> int \<Rightarrow> MintChildBody \<Rightarrow> MintChildInput" where
  "child_input who stamp body =
     \<lparr>ci_customerId = ki_customerId who, ci_parentAgentId = ki_agentId who, ci_parentChain = cb_parentChain body,
      ci_childAgentId = cb_childAgentId body, ci_command = cb_command body,
      ci_ttlSeconds = ttl_or_default (cb_ttlSeconds body),
      ci_nonce = string_of_int stamp @ ''-'' @ cb_command body @ ''-'' @ js_prefix 6 (ki_agentId who),
      ci_resourceConstraint = cb_resourceConstraint body, ci_oauthConnectionId = given (cb_oauthConnectionId body)\<rparr>"

definition mint_child_body ::
  "env \<Rightarrow> string \<Rightarrow> nat option \<Rightarrow> (nat \<Rightarrow> int) \<Rightarrow> KeyIdentity \<Rightarrow> json option \<Rightarrow> Tables \<Rightarrow> MintChildResult mint_answer \<times> Tables" where
  "mint_child_body E encryptionKey maxChainDepth clock who raw tb =
     (case Option.bind raw parseMintChildBody of
        None \<Rightarrow> (Mint_refused 400 ''invalid_body'', tb)
      | Some body \<Rightarrow>
          (case mintChildUcan E encryptionKey (case maxChainDepth of None \<Rightarrow> 8 | Some d \<Rightarrow> d) (clock 3)
                  (child_input who (clock 2) body) tb of
             (Inl e, tb') \<Rightarrow> (case child_status e of Some (st, code) \<Rightarrow> Mint_refused st code | None \<Rightarrow> Mint_crashed, tb')
           | (Inr u, tb') \<Rightarrow> (Mint_ok u, tb')))"

definition mint_child_route ::
  "env \<Rightarrow> string \<Rightarrow> nat option \<Rightarrow> (nat \<Rightarrow> int) \<Rightarrow> key_request \<Rightarrow> json option \<Rightarrow> Tables \<Rightarrow> MintChildResult mint_answer \<times> Tables" where
  "mint_child_route E encryptionKey maxChainDepth clock r raw tb =
     (case apiKeyAuth E (clock 0) r tb of
        (Inl (st, code), tb1) \<Rightarrow> (Mint_refused st code, tb1)
      | (Inr who, tb1) \<Rightarrow>
          (case increment (clock 1) (ki_customerId who) use_mint tb1 of
             (Inl _, tb2) \<Rightarrow> (Mint_refused 402 ''quota_exceeded'', tb2)
           | (Inr _, tb2) \<Rightarrow> mint_child_body E encryptionKey maxChainDepth clock who raw tb2))"

end
