(* ===== verification/Minting_Properties.thy ===== *)
theory Minting_Properties
  imports Minting Demo_Stepup
begin

text \<open>
  What the minting of tokens guarantees: who can obtain one, what it grants, and that a delegation the
  control plane signs for an agent is one the decision point accepts. Each property is followed by a witness
  where it has hypotheses.
\<close>

subsection \<open>The platform's tokens\<close>

text \<open>The row of a connection a token may name: one of the customer, and bootstrapped if it is a cloud's.\<close>

definition connection_owned :: "string \<Rightarrow> Tables \<Rightarrow> MintInput \<Rightarrow> bool" where
  "connection_owned customerId tb inp \<longleftrightarrow>
     (str_truthy (mi_oauthConnectionId inp) \<longrightarrow>
        (\<exists>c \<in> set (tb_oauthConnections tb). Some (oc_id c) = mi_oauthConnectionId inp \<and> oc_customerId c = customerId)) \<and>
     (str_truthy (mi_cloudConnectionId inp) \<longrightarrow>
        (\<exists>c \<in> set (tb_cloudConnections tb). Some (cn_id c) = mi_cloudConnectionId inp \<and> cn_customerId c = customerId \<and>
           cn_bootstrapStatus c = boot_verified)) \<and>
     \<not> (str_truthy (mi_oauthConnectionId inp) \<and> str_truthy (mi_cloudConnectionId inp))"

lemma oauth_check_None:
  "oauth_check inp tb = None \<Longrightarrow> str_truthy (mi_oauthConnectionId inp) \<Longrightarrow>
     \<exists>c \<in> set (tb_oauthConnections tb). Some (oc_id c) = mi_oauthConnectionId inp \<and> oc_customerId c = mi_customerId inp"
  by (auto simp: oauth_check_def find_Some_iff split: option.splits if_splits)

lemma cloud_check_None:
  "cloud_check inp tb = None \<Longrightarrow> str_truthy (mi_cloudConnectionId inp) \<Longrightarrow>
     \<exists>c \<in> set (tb_cloudConnections tb). Some (cn_id c) = mi_cloudConnectionId inp \<and> cn_customerId c = mi_customerId inp \<and>
       cn_bootstrapStatus c = boot_verified"
  by (auto simp: cloud_check_def find_Some_iff split: option.splits if_splits)

lemma mint_checks_None: "mint_checks inp tb = None \<Longrightarrow> connection_owned (mi_customerId inp) tb inp"
  unfolding connection_owned_def
  using oauth_check_None [of inp tb] cloud_check_None [of inp tb]
  by (auto simp: mint_checks_def split: option.splits if_splits)

lemma record_issue_Some:
  assumes "record_issue c a p x u tb = Some tb'"
  shows "tb' = tb\<lparr>tb_ucanIssues := tb_ucanIssues tb @
      [\<lparr>is_cid = ui_cid u, is_customerId = c, is_agentId = a, is_payload = p, is_jwt = ui_jwt u, is_expiresAt = x\<rparr>]\<rparr>"
    and "\<forall>r \<in> set (tb_ucanIssues tb). is_cid r \<noteq> ui_cid u"
  using assms by (auto simp: record_issue_def list_ex_iff split: if_splits)

lemma mintUcan_ok:
  assumes "mintUcan E sg now inp tb = (Inr m, tb')"
  obtains agent u where
    "agent_of tb (mi_customerId inp) (mi_agentId inp) = Some agent" "ag_status agent = status_active"
    "mint_checks inp tb = None"
    "issueUcan E (mint_payload sg (now div 1000) inp agent) (sg_signKey sg) = Inr u"
    "record_issue (mi_customerId inp) (mi_agentId inp) (mint_payload sg (now div 1000) inp agent)
       ((now div 1000 + mi_ttlSeconds inp) * 1000) u tb = Some tb'"
    "m = \<lparr>mr_cid = ui_cid u, mr_jwt = ui_jwt u, mr_payload = mint_payload sg (now div 1000) inp agent,
          mr_expiresAt = (now div 1000 + mi_ttlSeconds inp) * 1000\<rparr>"
proof -
  from assms obtain agent where a: "agent_of tb (mi_customerId inp) (mi_agentId inp) = Some agent"
    by (auto simp: mintUcan_def split: option.splits)
  have id: "ag_id agent = mi_agentId inp" using agent_of_Some [OF a] by simp
  note m = assms [unfolded mintUcan_def a option.case Let_def id]
  from m have st: "ag_status agent = status_active" "mint_checks inp tb = None"
    by (auto split: if_splits option.splits)
  with m obtain u where u: "issueUcan E (mint_payload sg (now div 1000) inp agent) (sg_signKey sg) = Inr u"
    by (auto split: sum.splits)
  from m st u obtain tb2 where "record_issue (mi_customerId inp) (mi_agentId inp) (mint_payload sg (now div 1000) inp agent)
       ((now div 1000 + mi_ttlSeconds inp) * 1000) u tb = Some tb2"
    by (auto split: option.splits)
  with m st u that [OF a st u] show ?thesis by simp
qed

lemma mintUcan_tables:
  assumes "mintUcan E sg now inp tb = (r, tb')"
  shows "tb_core tb' = tb_core tb \<and> tb_envelopes tb' = tb_envelopes tb \<and> tb_usage tb' = tb_usage tb \<and>
    tb_oauthConnections tb' = tb_oauthConnections tb \<and> tb_cloudConnections tb' = tb_cloudConnections tb"
proof (cases r)
  case (Inl e)
  with assms have "tb' = tb"
    by (auto simp: mintUcan_def Let_def split: option.splits if_splits sum.splits)
  then show ?thesis by simp
next
  case (Inr m)
  with assms obtain agent u where
    "record_issue (mi_customerId inp) (mi_agentId inp) (mint_payload sg (now div 1000) inp agent)
       ((now div 1000 + mi_ttlSeconds inp) * 1000) u tb = Some tb'"
    by (metis mintUcan_ok)
  from record_issue_Some(1) [OF this] show ?thesis by simp
qed

lemma issued_payload:
  assumes "issueUcan E p sk = Inr u"
  obtains iss aud where "canonicalizeDid E (p_iss p) = Inr iss" "canonicalizeDid E (p_aud p) = Inr aud"
    "ui_payload u = p\<lparr>p_iss := iss, p_aud := aud\<rparr>"
proof -
  from assms obtain iss aud v where
    did: "canonicalizeDid E (p_iss p) = Inr iss" "canonicalizeDid E (p_aud p) = Inr aud" and
    v: "parsePayload (JObj (payloadObj (p\<lparr>p_iss := iss, p_aud := aud\<rparr>))) = Some v" and u: "ui_payload u = v"
    by (auto simp: issueUcan_def rbind_Inr_iff Let_def simp del: norm_obj canonicalize_obj split: option.splits)
  from v have "wf_payload (p\<lparr>p_iss := iss, p_aud := aud\<rparr>)"
    unfolding parsePayload_def bind_eq_Some_conv wf_payload_def
    by (auto simp: payloadObj_jget zod_iff split: if_splits)
  from parse_payload [OF this] v u did that show ?thesis by simp
qed

definition ascii_key :: "string \<Rightarrow> bool" where
  "ascii_key k \<longleftrightarrow> (\<forall>c \<in> set k. (of_char c :: nat) < 128)"

lemma norm_members_get:
  assumes "nfc_fixes nfc" "list_all ascii_key (map fst m)" "distinct_keys m"
  shows "jget (norm_members nfc m) k = norm nfc (jget m k)"
proof (rule jget_norm [OF _ assms(3) norm_members])
  fix k v assume "(k, v) \<in> set m"
  with assms(1,2) show "nfc k = k" by (force simp: nfc_fixes_def ascii_key_def list_all_iff)
qed

lemma hints_member:
  "(case h of None \<Rightarrow> [] | Some h \<Rightarrow> if h = [] then [] else [(''context_hints'', JObj h)]) =
     opt_json ''context_hints'' (case h of None \<Rightarrow> None | Some h \<Rightarrow> if h = [] then None else Some (JObj h))"
  by (simp add: opt_json_def split: option.splits)

lemma mint_meta_keys: "list_all ascii_key (map fst (mint_meta inp a))" "distinct_keys (mint_meta inp a)"
  unfolding mint_meta_def hints_member
  by (simp_all add: opt_str_def opt_json_def distinct_keys_def ascii_key_def split: option.splits)

lemma mint_meta_get:
  "jget (mint_meta inp a) ''agent_id'' = JStr a"
  "jget (mint_meta inp a) ''customer_id'' = JStr (mi_customerId inp)"
  "jget (mint_meta inp a) ''resource_constraint'' =
     (case mi_resourceConstraint inp of None \<Rightarrow> JUndef | Some c \<Rightarrow> JObj (constraintObj c))"
  "jget (mint_meta inp a) ''oauth_connection_id'' = (case given (mi_oauthConnectionId inp) of None \<Rightarrow> JUndef | Some i \<Rightarrow> JStr i)"
  "jget (mint_meta inp a) ''cloud_connection_id'' = (case given (mi_cloudConnectionId inp) of None \<Rightarrow> JUndef | Some i \<Rightarrow> JStr i)"
  unfolding mint_meta_def hints_member
  by (simp_all add: jget_def opt_str_def opt_json_def split: option.splits)

lemma issued_parse:
  assumes "nfc_fixes (e_nfc E)" "issueUcan E p sk = Inr u" "numerals_ok (e_nd E) (JObj (payloadObj p))"
  obtains v where "parseUcanJwt E (ui_jwt u) = Some v" "u_payload v = norm_payload (e_nfc E) (ui_payload u)"
    "p_meta (u_payload v) = map_option (norm_members (e_nfc E)) (p_meta p)"
    "numerals_ok (e_nd E) (JObj (payloadObj (ui_payload u)))"
proof -
  obtain iss aud where p: "ui_payload u = p\<lparr>p_iss := iss, p_aud := aud\<rparr>" by (rule issued_payload [OF assms(2)])
  have num: "numerals_ok (e_nd E) (JObj (payloadObj (ui_payload u)))"
    using assms(3) unfolding p by (auto simp: payloadObj_def)
  obtain v where "parseUcanJwt E (ui_jwt u) = Some v" "u_payload v = norm_payload (e_nfc E) (ui_payload u)"
    by (rule parse_issued [OF assms(1,2) num])
  with that num p show ?thesis by (simp add: norm_payload_def)
qed

lemma did_is_own_audience: "canonicalizeDid E d = Inr d' \<Longrightarrow> audience_ok E (Some d) d"
  by (simp add: audience_ok_def)

text \<open>The connections a token names are the customer's, verified for a cloud, and at most one.\<close>

definition carries_owned :: "string \<Rightarrow> Tables \<Rightarrow> UcanPayload \<Rightarrow> bool" where
  "carries_owned customerId tb p \<longleftrightarrow>
     (\<forall>i. meta_string ''oauth_connection_id'' p = Some i \<longrightarrow>
        (\<exists>c \<in> set (tb_oauthConnections tb). oc_id c = i \<and> oc_customerId c = customerId)) \<and>
     (\<forall>i. meta_string ''cloud_connection_id'' p = Some i \<longrightarrow>
        (\<exists>c \<in> set (tb_cloudConnections tb). cn_id c = i \<and> cn_customerId c = customerId \<and> cn_bootstrapStatus c = boot_verified)) \<and>
     (meta_string ''oauth_connection_id'' p = None \<or> meta_string ''cloud_connection_id'' p = None)"

lemma carries_ownedI:
  assumes "connection_owned customerId tb inp" "meta_string ''oauth_connection_id'' p = given (mi_oauthConnectionId inp)"
    "meta_string ''cloud_connection_id'' p = given (mi_cloudConnectionId inp)"
  shows "carries_owned customerId tb p"
  using assms by (auto simp: carries_owned_def connection_owned_def given_def)

text \<open>C9: A token mintUcan returns is one the decision point accepts: from a minute before its issue until it
  expires it validates for the agent's DID and for every command under its own, its metadata names the agent
  and the customer, the agent was an active agent of that customer, and the connection its metadata name is the
  one asked for and one of the customer's (verified, for a cloud). It is recorded once, under its identifier.\<close>

theorem minted_token_admitted:
  assumes "mintUcan E sg now inp tb = (Inr m, tb')" "crypto_laws E" "nfc_fixes (e_nfc E)"
    "publicKeyFromDid E (sg_signerDid sg) = Inr (noble_getPublicKey E (sg_signKey sg))"
    "numerals_ok (e_nd E) (JObj (payloadObj (mr_payload m)))"
    "now div 1000 - 60 \<le> t" "t < now div 1000 + mi_ttlSeconds inp" "actionMatchesGranted (mi_command inp) c"
  shows "\<exists>agent p. agent_of tb (mi_customerId inp) (mi_agentId inp) = Some agent \<and> ag_status agent = status_active \<and>
    validateUcan E clock (mr_jwt m) \<lparr>vo_audience = Some (ag_did agent), vo_expectedCommand = Some c, vo_now = Some t\<rparr> = Valid p \<and>
    p_cmd p = mi_command inp \<and> meta_string ''agent_id'' p = Some (mi_agentId inp) \<and>
    extractCustomerId E (mr_jwt m) = Some (mi_customerId inp) \<and>
    meta_string ''oauth_connection_id'' p = given (mi_oauthConnectionId inp) \<and>
    meta_string ''cloud_connection_id'' p = given (mi_cloudConnectionId inp) \<and> carries_owned (mi_customerId inp) tb p \<and>
    filter (\<lambda>r. is_cid r = computeCid E (mr_jwt m)) (tb_ucanIssues tb') =
      [\<lparr>is_cid = mr_cid m, is_customerId = mi_customerId inp, is_agentId = mi_agentId inp, is_payload = mr_payload m,
        is_jwt = mr_jwt m, is_expiresAt = mr_expiresAt m\<rparr>]"
proof -
  obtain agent u where a: "agent_of tb (mi_customerId inp) (mi_agentId inp) = Some agent" "ag_status agent = status_active"
    "mint_checks inp tb = None"
    and i: "issueUcan E (mint_payload sg (now div 1000) inp agent) (sg_signKey sg) = Inr u"
    and rec: "record_issue (mi_customerId inp) (mi_agentId inp) (mint_payload sg (now div 1000) inp agent)
       ((now div 1000 + mi_ttlSeconds inp) * 1000) u tb = Some tb'"
    and m: "m = \<lparr>mr_cid = ui_cid u, mr_jwt = ui_jwt u, mr_payload = mint_payload sg (now div 1000) inp agent,
          mr_expiresAt = (now div 1000 + mi_ttlSeconds inp) * 1000\<rparr>"
    by (rule mintUcan_ok [OF assms(1)])
  have id: "ag_id agent = mi_agentId inp" using agent_of_Some [OF a(1)] by simp
  have sel: "p_iss (mint_payload sg (now div 1000) inp agent) = sg_signerDid sg"
    "p_aud (mint_payload sg (now div 1000) inp agent) = ag_did agent"
    "p_cmd (mint_payload sg (now div 1000) inp agent) = mi_command inp"
    "p_nbf (mint_payload sg (now div 1000) inp agent) = now div 1000 - 60"
    "p_exp (mint_payload sg (now div 1000) inp agent) = now div 1000 + mi_ttlSeconds inp"
    "p_meta (mint_payload sg (now div 1000) inp agent) = Some (mint_meta inp (mi_agentId inp))"
    by (simp_all add: mint_payload_def id)
  from assms(5) m have n: "numerals_ok (e_nd E) (JObj (payloadObj (mint_payload sg (now div 1000) inp agent)))"
    by (simp del: numerals_ok.simps)
  obtain v where v: "parseUcanJwt E (ui_jwt u) = Some v" "u_payload v = norm_payload (e_nfc E) (ui_payload u)"
    "p_meta (u_payload v) = Some (norm_members (e_nfc E) (mint_meta inp (mi_agentId inp)))"
    "numerals_ok (e_nd E) (JObj (payloadObj (ui_payload u)))"
    by (rule issued_parse [OF assms(3) i n]) (simp add: sel)
  obtain d where "canonicalizeDid E (ag_did agent) = Inr d" by (rule issued_payload [OF i]) (simp add: sel)
  then have aud: "audience_ok E (Some (ag_did agent)) (ag_did agent)" by (rule did_is_own_audience)
  let ?o = "\<lparr>vo_audience = Some (ag_did agent), vo_expectedCommand = Some c, vo_now = Some t\<rparr>"
  have valid: "validateUcan E clock (ui_jwt u) ?o = Valid (u_payload v)"
    unfolding v(2)
    by (rule validate_issued [OF assms(2,3) i v(4)])
      (use assms(4,6,7,8) aud in \<open>simp_all add: sel now_of_def\<close>)
  have cmd: "p_cmd (u_payload v) = mi_command inp"
    unfolding v(2) norm_payload_sel using issueUcan_parts [OF i] sel(3) by metis
  have meta: "meta_string k (u_payload v) = as_string (norm (e_nfc E) (jget (mint_meta inp (mi_agentId inp)) k))" for k
    unfolding meta_string_def v(3) by (simp add: norm_members_get [OF assms(3) mint_meta_keys])
  have ids: "meta_string ''agent_id'' (u_payload v) = Some (mi_agentId inp)"
    "meta_string ''customer_id'' (u_payload v) = Some (mi_customerId inp)"
    by (simp_all add: meta mint_meta_get)
  have conn: "meta_string ''oauth_connection_id'' (u_payload v) = given (mi_oauthConnectionId inp)"
    "meta_string ''cloud_connection_id'' (u_payload v) = given (mi_cloudConnectionId inp)"
    by (simp_all add: meta mint_meta_get split: option.splits)
  have cid: "ui_cid u = computeCid E (ui_jwt u)" by (rule issueUcan_parts [OF i])
  note row = record_issue_Some [OF rec]
  have "filter (\<lambda>r. is_cid r = computeCid E (mr_jwt m)) (tb_ucanIssues tb') =
      [\<lparr>is_cid = mr_cid m, is_customerId = mi_customerId inp, is_agentId = mi_agentId inp, is_payload = mr_payload m,
        is_jwt = mr_jwt m, is_expiresAt = mr_expiresAt m\<rparr>]"
    using row(2) unfolding row(1) m cid [symmetric] by (simp add: cid [symmetric] filter_False)
  then show ?thesis
    using a carries_ownedI [OF mint_checks_None [OF a(3)] conn] conn valid cmd ids v(1) unfolding m
    by (intro exI [of _ agent] exI [of _ "u_payload v"]) (simp add: extractCustomerId_def)
qed

definition demo_tables :: Tables where
  "demo_tables =
     \<lparr>tb_core = demo_db, tb_customers = [], tb_apiKeys = [], tb_lastActiveAt = [], tb_usage = [], tb_oauthConnections = [],
      tb_cloudConnections = [], tb_ucanIssues = [], tb_envelopes = []\<rparr>"

definition demo_signing :: signing where
  "demo_signing = \<lparr>sg_signKey = demo_key CHR ''a'', sg_signerDid = demo_did (demo_key CHR ''a'')\<rparr>"

definition demo_mint_input :: "ResourceConstraint option \<Rightarrow> MintInput" where
  "demo_mint_input c =
     \<lparr>mi_customerId = ''c1'', mi_agentId = ''a1'', mi_command = ''/fs'', mi_policyId = None, mi_oauthConnectionId = None,
      mi_cloudConnectionId = None, mi_ttlSeconds = 600, mi_nonce = ''n'', mi_contextHints = None,
      mi_resourceConstraint = c, mi_mode = None\<rparr>"

lemma demo_mint_payload:
  "mint_payload demo_signing 1000 (demo_mint_input c) demo_agent_row =
     demo_payload (demo_key CHR ''a'') (demo_key CHR ''b'') ''/fs'' (Some (mint_meta (demo_mint_input c) ''a1'')) 940 1600"
  by (simp add: mint_payload_def demo_payload_def demo_signing_def demo_mint_input_def demo_agent_row_def)

lemma demo_mints:
  assumes "serialisable (JObj (payloadObj (mint_payload demo_signing 1000 (demo_mint_input c) demo_agent_row)))"
  obtains m tb' where "mintUcan demo_env demo_signing 1000000 (demo_mint_input c) demo_tables = (Inr m, tb')"
    "mr_payload m = mint_payload demo_signing 1000 (demo_mint_input c) demo_agent_row"
    "mr_jwt m = demo_jwt (demo_key CHR ''a'') (mr_payload m)"
proof -
  let ?p = "mint_payload demo_signing 1000 (demo_mint_input c) demo_agent_row"
  obtain cid where i: "issueUcan demo_env ?p (demo_key CHR ''a'') =
    Inr \<lparr>ui_cid = cid, ui_jwt = demo_jwt (demo_key CHR ''a'') ?p, ui_payload = ?p\<rparr>"
    unfolding demo_mint_payload
    by (rule demo_issue [OF demo_key_length demo_key_length demo_commands(1) _ _ assms [unfolded demo_mint_payload]]) simp_all
  have a: "agent_of demo_tables ''c1'' ''a1'' = Some demo_agent_row"
    by (simp add: agent_of_def demo_tables_def demo_db_def demo_agent_row_def)
  have chk: "mint_checks (demo_mint_input c) demo_tables = None"
    by (simp add: mint_checks_def policy_check_def oauth_check_def cloud_check_def demo_mint_input_def str_truthy_def)
  have sel: "mi_customerId (demo_mint_input c) = ''c1''" "mi_agentId (demo_mint_input c) = ''a1''"
    "sg_signKey demo_signing = demo_key CHR ''a''" "mi_ttlSeconds (demo_mint_input c) = 600"
    "ag_status demo_agent_row = status_active"
    by (simp_all add: demo_mint_input_def demo_signing_def demo_agent_row_def)
  let ?u = "\<lparr>ui_cid = cid, ui_jwt = demo_jwt (demo_key CHR ''a'') ?p, ui_payload = ?p\<rparr>"
  obtain tb' where rec: "record_issue ''c1'' (ag_id demo_agent_row) ?p 1600000 ?u demo_tables = Some tb'"
    by (simp add: record_issue_def demo_tables_def)
  show ?thesis
    by (rule that [of "\<lparr>mr_cid = cid, mr_jwt = demo_jwt (demo_key CHR ''a'') ?p, mr_payload = ?p, mr_expiresAt = 1600000\<rparr>" tb'])
      (simp_all add: mintUcan_def sel a chk i rec Let_def)
qed

theorem minted_token_admitted_witness:
  "\<exists>m tb' p. mintUcan demo_env demo_signing 1000000 (demo_mint_input None) demo_tables = (Inr m, tb') \<and>
     validateUcan demo_env 0 (mr_jwt m)
       \<lparr>vo_audience = Some (demo_did (demo_key CHR ''b'')), vo_expectedCommand = Some ''/fs/read'', vo_now = Some 1000\<rparr> = Valid p \<and>
     meta_string ''agent_id'' p = Some ''a1'' \<and> length (tb_ucanIssues tb') = 1"
proof -
  let ?p = "mint_payload demo_signing 1000 (demo_mint_input None) demo_agent_row"
  have plain: "serialisable (JObj (payloadObj ?p))" "numerals_ok nd (JObj (payloadObj ?p))" for nd
    unfolding demo_mint_payload
    by (simp_all add: payloadObj_def demo_payload_def mint_meta_def demo_mint_input_def opt_str_def
        opt_json_def given_def str_truthy_def max_exact_def)
  obtain m tb' where m: "mintUcan demo_env demo_signing 1000000 (demo_mint_input None) demo_tables = (Inr m, tb')"
    "mr_payload m = ?p"
    by (rule demo_mints [OF plain(1)])
  have key: "publicKeyFromDid demo_env (sg_signerDid demo_signing) = Inr (noble_getPublicKey demo_env (sg_signKey demo_signing))"
    using demo_did_key(1) [of "demo_key CHR ''a''"] by (simp add: demo_signing_def demo_env_def)
  have cmd: "actionMatchesGranted (mi_command (demo_mint_input None)) ''/fs/read''"
    by (simp add: demo_mint_input_def actionMatchesGranted_def)
  have ids: "mi_customerId (demo_mint_input None) = ''c1''" "mi_agentId (demo_mint_input None) = ''a1''"
    "mi_ttlSeconds (demo_mint_input None) = 600"
    by (simp_all add: demo_mint_input_def)
  have a: "agent_of demo_tables ''c1'' ''a1'' = Some agent \<Longrightarrow> ag_did agent = demo_did (demo_key CHR ''b'')" for agent
    by (auto simp: agent_of_def demo_tables_def demo_db_def demo_agent_row_def)
  obtain agent u where "record_issue (mi_customerId (demo_mint_input None)) (mi_agentId (demo_mint_input None))
      (mint_payload demo_signing (1000000 div 1000) (demo_mint_input None) agent)
      ((1000000 div 1000 + mi_ttlSeconds (demo_mint_input None)) * 1000) u demo_tables = Some tb'"
    by (rule mintUcan_ok [OF m(1)])
  from record_issue_Some(1) [OF this] have "length (tb_ucanIssues tb') = 1" by (simp add: demo_tables_def)
  moreover have "numerals_ok (e_nd demo_env) (JObj (payloadObj (mr_payload m)))" unfolding m(2) by (rule plain(2))
  from minted_token_admitted [OF m(1) demo_laws demo_nfc(2) key this _ _ cmd, of 1000 0] ids a
  obtain p where "validateUcan demo_env 0 (mr_jwt m)
       \<lparr>vo_audience = Some (demo_did (demo_key CHR ''b'')), vo_expectedCommand = Some ''/fs/read'', vo_now = Some 1000\<rparr> = Valid p"
    "meta_string ''agent_id'' p = Some ''a1''" by auto
  ultimately show ?thesis using m(1) by blast
qed

text \<open>
  The monthly quota (services/usage.ts): increments that run one after the other keep every counter within
  the cap of its customer's plan; increments that overlap do not.
\<close>

definition usage_keys :: "Tables \<Rightarrow> bool" where
  "usage_keys tb \<longleftrightarrow> distinct (map (\<lambda>u. (us_customerId u, us_periodStart u)) (tb_usage tb))"

definition within_caps :: "Tables \<Rightarrow> bool" where
  "within_caps tb \<longleftrightarrow>
     (\<forall>u \<in> set (tb_usage tb). us_mintCount u \<le> cap_mintPerMonth (PLAN_CAPS (plan_of tb (us_customerId u))) \<and>
        us_proxyCount u \<le> cap_proxyPerMonth (PLAN_CAPS (plan_of tb (us_customerId u))))"

fun count_of :: "UsageKind \<Rightarrow> UsageRow \<Rightarrow> int" where
  "count_of use_mint u = us_mintCount u"
| "count_of use_proxy u = us_proxyCount u"

lemma used_getUsage:
  "used k (getUsage now c tb) =
     (case usage_row tb c (currentPeriodStart now) of None \<Rightarrow> 0 | Some u \<Rightarrow> count_of k u)"
  by (cases k) (auto simp: getUsage_def Let_def split: option.splits)

lemma getUsage_key: "sn_customerId (getUsage now c tb) = c" "sn_periodStart (getUsage now c tb) = currentPeriodStart now"
  "sn_cap (getUsage now c tb) = PLAN_CAPS (plan_of tb c)"
  by (simp_all add: getUsage_def Let_def)

lemma caps_positive: "1 \<le> cap_mintPerMonth (PLAN_CAPS p)" "1 \<le> cap_proxyPerMonth (PLAN_CAPS p)"
  by (cases p; simp add: MAX_SAFE_INTEGER_def)+

lemma count_bump: "count_of k (bump k u) = count_of k u + 1" "us_customerId (bump k u) = us_customerId u"
  "us_periodStart (bump k u) = us_periodStart u" "k' \<noteq> k \<Longrightarrow> count_of k' (bump k u) = count_of k' u"
  by (cases k; cases k'; simp add: bump_def mintDelta_def proxyDelta_def)+

lemma find_snoc: "\<forall>r \<in> set rows. \<not> P r \<Longrightarrow> List.find P (rows @ [x]) = (if P x then Some x else None)"
  by (induction rows) auto

lemma upsert_counts:
  assumes "increment_upsert k (getUsage now c tb0) tb = (s, tb')"
  shows "usage_row tb' c (currentPeriodStart now) \<noteq> None"
    and "used k (getUsage now c tb') = used k (getUsage now c tb) + 1"
    and "plan_of tb' d = plan_of tb d" and "tb_core tb' = tb_core tb"
proof -
  let ?p = "currentPeriodStart now"
  let ?P = "\<lambda>u. us_customerId u = c \<and> us_periodStart u = ?p"
  show plan: "plan_of tb' d = plan_of tb d" and "tb_core tb' = tb_core tb"
    using assms by (auto simp: increment_upsert_def Let_def plan_of_def split: option.splits)
  show "usage_row tb' c ?p \<noteq> None" and "used k (getUsage now c tb') = used k (getUsage now c tb) + 1"
  proof -
    have "usage_row tb' c ?p \<noteq> None \<and> used k (getUsage now c tb') = used k (getUsage now c tb) + 1"
    proof (cases "usage_row tb c ?p")
      case None
      then have "\<forall>u \<in> set (tb_usage tb). \<not> ?P u" by (simp add: usage_row_def find_None_iff)
      then have "List.find ?P (tb_usage tb @ [x]) = (if ?P x then Some x else None)" for x
        by (simp add: find_snoc)
      with None assms show ?thesis
        unfolding used_getUsage
        by (cases k) (auto simp: increment_upsert_def Let_def getUsage_key usage_row_def mintDelta_def proxyDelta_def)
    next
      case (Some u)
      have tb': "tb_usage tb' = update_rows ?P (bump k) (tb_usage tb)"
        using assms Some by (auto simp: increment_upsert_def Let_def getUsage_key)
      have "usage_row tb' c ?p = Some (bump k u)"
        using Some unfolding usage_row_def tb' by (subst find_update_rows) (auto simp: count_bump find_Some_iff)
      with Some show ?thesis by (simp add: used_getUsage count_bump)
    qed
    then show "usage_row tb' c ?p \<noteq> None" "used k (getUsage now c tb') = used k (getUsage now c tb) + 1" by simp_all
  qed
qed

text \<open>A row after an upsert is an old one, or the one row of the key with its counter raised, or new.\<close>

lemma upsert_row:
  assumes "increment_upsert k (getUsage now c tb0) tb = (s, tb')" "r \<in> set (tb_usage tb')"
  obtains "r \<in> set (tb_usage tb)"
    | u where "u \<in> set (tb_usage tb)" "us_customerId u = c" "us_periodStart u = currentPeriodStart now" "r = bump k u"
    | "usage_row tb c (currentPeriodStart now) = None" "us_customerId r = c" "us_periodStart r = currentPeriodStart now"
      "us_mintCount r = mintDelta k" "us_proxyCount r = proxyDelta k"
proof (cases "usage_row tb c (currentPeriodStart now)")
  case None
  with assms have "r \<in> set (tb_usage tb) \<or> r = \<lparr>us_customerId = c, us_periodStart = currentPeriodStart now,
      us_mintCount = mintDelta k, us_proxyCount = proxyDelta k, us_stripeMeterPending = 1\<rparr>"
    by (auto simp: increment_upsert_def Let_def getUsage_key)
  with None that show ?thesis by auto
next
  case (Some u)
  with assms have "r \<in> set (update_rows (\<lambda>u. us_customerId u = c \<and> us_periodStart u = currentPeriodStart now) (bump k) (tb_usage tb))"
    by (auto simp: increment_upsert_def Let_def getUsage_key)
  with that show ?thesis by (auto simp: set_update_rows)
qed

lemma usage_row_unique:
  assumes "usage_keys tb" "u \<in> set (tb_usage tb)"
  shows "usage_row tb (us_customerId u) (us_periodStart u) = Some u"
proof -
  obtain v where v: "usage_row tb (us_customerId u) (us_periodStart u) = Some v"
    using assms(2) by (cases "usage_row tb (us_customerId u) (us_periodStart u)") (auto simp: usage_row_def find_None_iff)
  then have "v \<in> set (tb_usage tb)" "us_customerId v = us_customerId u" "us_periodStart v = us_periodStart u"
    by (auto simp: usage_row_def find_Some_iff)
  with assms have "v = u" unfolding usage_keys_def by (auto simp: distinct_map dest: inj_onD)
  with v show ?thesis by simp
qed

lemma upsert_keys:
  assumes "increment_upsert k (getUsage now c tb0) tb = (s, tb')" "usage_keys tb"
  shows "usage_keys tb'"
proof (cases "usage_row tb c (currentPeriodStart now)")
  case None
  then have "(c, currentPeriodStart now) \<notin> set (map (\<lambda>u. (us_customerId u, us_periodStart u)) (tb_usage tb))"
    by (auto simp: usage_row_def find_None_iff)
  with None assms show ?thesis by (auto simp: usage_keys_def increment_upsert_def Let_def getUsage_key simp del: set_map)
next
  case (Some u)
  have "map (\<lambda>u. (us_customerId u, us_periodStart u)) (update_rows P (bump k) rows) = map (\<lambda>u. (us_customerId u, us_periodStart u)) rows"
    for P rows by (rule map_update_rows) (simp add: count_bump)
  with Some assms show ?thesis by (auto simp: usage_keys_def increment_upsert_def Let_def getUsage_key)
qed

text \<open>C25: The quota of a plan is a bound. When increments run one at a time, a counter that is within the cap of
  its customer's plan stays within it: a refused increment changes nothing, a granted one raises the one
  counter of the customer and the month by one.\<close>

theorem quota_kept:
  assumes "increment now c k tb = (r, tb')" "usage_keys tb" "within_caps tb"
  shows "usage_keys tb' \<and> within_caps tb' \<and>
    (case r of
       Inl s \<Rightarrow> tb' = tb \<and> used k s = allowed_use k (PLAN_CAPS (plan_of tb c))
     | Inr s \<Rightarrow> used k (getUsage now c tb') = used k (getUsage now c tb) + 1 \<and>
         used k (getUsage now c tb') \<le> allowed_use k (PLAN_CAPS (plan_of tb c)))"
proof (cases "used k (getUsage now c tb) \<ge> allowed_use k (sn_cap (getUsage now c tb))")
  case True
  with assms(1) have r: "r = Inl (getUsage now c tb)" "tb' = tb"
    by (auto simp: increment_def increment_check_def Let_def)
  have "used k (getUsage now c tb) \<le> allowed_use k (PLAN_CAPS (plan_of tb c))"
  proof (cases "usage_row tb c (currentPeriodStart now)")
    case None
    with caps_positive show ?thesis by (cases k) (auto simp: used_getUsage intro: order_trans [OF zero_le_one])
  next
    case (Some u)
    then have "u \<in> set (tb_usage tb)" "us_customerId u = c" by (auto simp: usage_row_def find_Some_iff)
    with assms(3) Some show ?thesis by (cases k) (auto simp: used_getUsage within_caps_def)
  qed
  with True r assms(2,3) show ?thesis by (simp add: getUsage_key)
next
  case False
  with assms(1) obtain s where s: "increment_upsert k (getUsage now c tb) tb = (s, tb')" "r = Inr s"
    by (auto simp: increment_def increment_check_def Let_def split: prod.splits)
  note cnt = upsert_counts [OF s(1)]
  have keys: "usage_keys tb'" by (rule upsert_keys [OF s(1) assms(2)])
  from False have room: "used k (getUsage now c tb) + 1 \<le> allowed_use k (PLAN_CAPS (plan_of tb c))" by (simp add: getUsage_key)
  have "us_mintCount v \<le> cap_mintPerMonth (PLAN_CAPS (plan_of tb (us_customerId v))) \<and>
      us_proxyCount v \<le> cap_proxyPerMonth (PLAN_CAPS (plan_of tb (us_customerId v)))" if v: "v \<in> set (tb_usage tb')" for v
  proof (rule upsert_row [OF s(1) v])
    fix u assume u: "u \<in> set (tb_usage tb)" "us_customerId u = c" "us_periodStart u = currentPeriodStart now" "v = bump k u"
    have "usage_row tb c (currentPeriodStart now) = Some u" using usage_row_unique [OF assms(2) u(1)] u(2,3) by simp
    then have "used k (getUsage now c tb) = count_of k u" by (simp add: used_getUsage)
    with room u assms(3) show ?thesis
      by (cases k) (auto simp: within_caps_def bump_def mintDelta_def proxyDelta_def)
  next
    assume "us_mintCount v = mintDelta k" "us_proxyCount v = proxyDelta k"
    then show ?thesis using caps_positive [of "plan_of tb (us_customerId v)"] by (cases k) (auto simp: mintDelta_def proxyDelta_def)
  qed (use assms(3) in \<open>simp add: within_caps_def\<close>)
  then have "within_caps tb'" by (simp add: within_caps_def cnt(3))
  with keys s(2) cnt(2) room show ?thesis by simp
qed

definition upserts :: "UsageKind \<Rightarrow> UsageSnapshot \<Rightarrow> nat \<Rightarrow> Tables \<Rightarrow> Tables" where
  "upserts k before n = ((\<lambda>tb. snd (increment_upsert k before tb)) ^^ n)"

lemma upserts_count:
  "used k (getUsage now c (upserts k (getUsage now c tb0) n tb)) = used k (getUsage now c tb) + int n \<and>
   plan_of (upserts k (getUsage now c tb0) n tb) c = plan_of tb c"
proof (induction n)
  case (Suc n)
  let ?tb = "upserts k (getUsage now c tb0) n tb"
  have step: "increment_upsert k (getUsage now c tb0) ?tb = (fst (increment_upsert k (getUsage now c tb0) ?tb), upserts k (getUsage now c tb0) (Suc n) tb)"
    by (simp add: upserts_def)
  from upsert_counts(2,3) [OF step] Suc show ?case by simp
qed (simp add: upserts_def)

text \<open>The check and the upsert are separate statements, so the cap is no bound for overlapping requests: any
  number of requests that pass the check before the first upsert are all counted, and the counter ends above
  the cap as soon as there are more of them than free places.\<close>

theorem quota_overrun:
  assumes "increment_check now c k tb = Inr before" "allowed_use k (sn_cap before) - used k before < int n"
  shows "increment_check now c k (upserts k before n tb) = Inl (getUsage now c (upserts k before n tb)) \<and>
    used k (getUsage now c (upserts k before n tb)) > allowed_use k (PLAN_CAPS (plan_of tb c))"
proof -
  have b: "before = getUsage now c tb" using assms(1) by (auto simp: increment_check_def Let_def split: if_splits)
  from assms(2) upserts_count [of k now c tb n tb] show ?thesis
    unfolding b by (simp add: increment_check_def Let_def getUsage_key)
qed

definition demo_usage :: Tables where
  "demo_usage = demo_tables\<lparr>tb_usage :=
     [\<lparr>us_customerId = ''c1'', us_periodStart = 1735689600000, us_mintCount = 999, us_proxyCount = 3, us_stripeMeterPending = 0\<rparr>]\<rparr>"

lemma demo_period: "currentPeriodStart 1736000000000 = 1735689600000"
proof -
  have doe: "(20092 + 719468) mod 146097 = (9075 :: int)" by simp
  have yoe: "(9075 - 9075 div 1460 + 9075 div 36524 - 9075 div 146096) div 365 = (24 :: int)" by simp
  have doy: "9075 - (365 * 24 + 24 div 4 - 24 div 100) = (309 :: int)" by simp
  have "day_of_month 20092 = 4" unfolding day_of_month_def Let_def doe yoe doy by simp
  then show ?thesis by (simp add: currentPeriodStart_def)
qed

lemma demo_usage_get:
  "getUsage 1736000000000 ''c1'' demo_usage =
     \<lparr>sn_customerId = ''c1'', sn_plan = plan_free, sn_periodStart = 1735689600000, sn_mintCount = 999, sn_proxyCount = 3,
      sn_cap = \<lparr>cap_mintPerMonth = 1000, cap_proxyPerMonth = 1000\<rparr>\<rparr>"
  by (simp add: getUsage_def demo_period usage_row_def plan_of_def demo_usage_def demo_tables_def Let_def)

theorem quota_kept_witness:
  "\<exists>s tb'. increment 1736000000000 ''c1'' use_mint demo_usage = (Inr s, tb') \<and>
     used use_mint (getUsage 1736000000000 ''c1'' tb') = 1000 \<and> within_caps tb'"
proof -
  obtain s tb' where i: "increment 1736000000000 ''c1'' use_mint demo_usage = (Inr s, tb')"
    by (cases "increment_upsert use_mint (getUsage 1736000000000 ''c1'' demo_usage) demo_usage")
      (simp add: increment_def increment_check_def demo_usage_get Let_def)
  have "usage_keys demo_usage" "within_caps demo_usage"
    by (simp_all add: usage_keys_def within_caps_def demo_usage_def demo_tables_def plan_of_def)
  from quota_kept [OF i this] i show ?thesis by (simp add: demo_usage_get)
qed

theorem quota_overrun_witness:
  "\<exists>before. increment_check 1736000000000 ''c1'' use_mint demo_usage = Inr before \<and>
     used use_mint (getUsage 1736000000000 ''c1'' (upserts use_mint before 2 demo_usage)) > 1000"
proof -
  let ?b = "getUsage 1736000000000 ''c1'' demo_usage"
  have c: "increment_check 1736000000000 ''c1'' use_mint demo_usage = Inr ?b"
    by (simp add: increment_check_def demo_usage_get Let_def)
  have "plan_of demo_usage ''c1'' = plan_free" by (simp add: plan_of_def demo_usage_def demo_tables_def)
  with quota_overrun [OF c, of 2] c show ?thesis by (simp add: demo_usage_get)
qed

end
