(* ===== verification/Child_Properties.thy ===== *)
theory Child_Properties
  imports Minting_Properties
begin

text \<open>
  Delegation on behalf of an agent: the chain mintChildUcan returns is one the decision point's chain
  validation accepts.
\<close>

definition unaddressed :: "int option \<Rightarrow> ValidateOptions" where
  "unaddressed n = \<lparr>vo_audience = None, vo_expectedCommand = None, vo_now = n\<rparr>"

lemma validate_each_unaddressed:
  "validate_each E clock i (jwt # jwts) (unaddressed n) =
     (case validateUcan E (clock i) jwt (unaddressed n) of
        Invalid e \<Rightarrow> Inl e
      | Valid p \<Rightarrow> rbind (validate_each E clock (Suc i) jwts (unaddressed n)) (\<lambda>ps. Inr (p # ps)))"
  unfolding unaddressed_def validate_each.simps Let_def by (cases "jwts = []") simp_all

lemma validate_each_snoc:
  assumes "validate_each E clock i jwts (unaddressed n) = Inr ps"
    "validateUcan E (clock (i + length jwts)) jwt (unaddressed n) = Valid p"
  shows "validate_each E clock i (jwts @ [jwt]) (unaddressed n) = Inr (ps @ [p])"
  using assms
proof (induction jwts arbitrary: i ps)
  case (Cons j jwts)
  from Cons.prems(1) obtain q qs where q: "validateUcan E (clock i) j (unaddressed n) = Valid q"
    "validate_each E clock (Suc i) jwts (unaddressed n) = Inr qs" "ps = q # qs"
    by (auto simp: validate_each_unaddressed rbind_Inr_iff simp del: validate_each.simps(2) split: Ucan.ValidateResult.splits)
  from Cons.IH [OF q(2)] Cons.prems(2) q show ?case
    by (simp add: validate_each_unaddressed del: validate_each.simps(2))
qed (simp add: validate_each_unaddressed del: validate_each.simps(2))

lemma check_links_snoc:
  "ps \<noteq> [] \<Longrightarrow> check_links ps = Inr None \<Longrightarrow> check_link (last ps) p = Inr None \<Longrightarrow> check_links (ps @ [p]) = Inr None"
  by (induction ps rule: check_links.induct) (auto simp: rbind_Inr_iff split: option.splits)

lemma validateChain_snoc:
  assumes "validateChain E clock jwts (unaddressed n) = Inr (ChainValid root leaf)"
    "validateUcan E (clock (length jwts)) jwt (unaddressed n) = Valid p"
    "check_link leaf p = Inr None"
  shows "validateChain E clock (jwts @ [jwt]) (unaddressed n) = Inr (ChainValid root p)"
proof -
  from assms(1) obtain ps where ps: "jwts \<noteq> []" "check_links ps = Inr None" "root = hd ps" "leaf = last ps"
    "validate_each E clock 0 jwts (unaddressed n) = Inr ps"
    by (auto simp: validateChain_def rbind_Inr_iff split: if_splits sum.splits option.splits)
  then have ne: "ps \<noteq> []" using validate_each_Inr [OF ps(5)] by auto
  have "validate_each E clock 0 (jwts @ [jwt]) (unaddressed n) = Inr (ps @ [p])"
    by (rule validate_each_snoc [OF ps(5)]) (simp add: assms(2))
  moreover have "check_links (ps @ [p]) = Inr None"
    by (rule check_links_snoc [OF ne ps(2)]) (use assms(3) ps(4) in simp)
  ultimately show ?thesis using ne ps(3) by (simp add: validateChain_def)
qed

lemma mintChildUcan_ok:
  assumes "mintChildUcan E key d now inp tb = (Inr m, tb')"
  obtains leaf parent child sk u where
    "parent_leaf E (now div 1000) (ci_parentChain inp) = Inr leaf" "length (ci_parentChain inp) + 1 \<le> d"
    "child_agents inp leaf tb = Inr (parent, child)" "child_narrowing (now div 1000) inp leaf = Inr ()"
    "signing_key E key parent = Inr sk"
    "issueUcan E (child_payload E (now div 1000) inp leaf parent child) sk = Inr u"
    "cr_jwt m = ui_jwt u" "cr_payload m = child_payload E (now div 1000) inp leaf parent child"
    "cr_newChain m = ci_parentChain inp @ [ui_jwt u]"
proof -
  from assms obtain leaf parent child where
    c: "mint_child_checks E d (now div 1000) inp tb = Inr (leaf, parent, child)"
    by (auto simp: mintChildUcan_def Let_def split: sum.splits)
  from c have parts: "parent_leaf E (now div 1000) (ci_parentChain inp) = Inr leaf" "length (ci_parentChain inp) + 1 \<le> d"
    "child_agents inp leaf tb = Inr (parent, child)" "child_narrowing (now div 1000) inp leaf = Inr ()"
    by (auto simp: mint_child_checks_def rbind_Inr_iff split: if_splits)
  from assms [unfolded mintChildUcan_def c Let_def sum.case prod.case]
  obtain u where u: "rbind (signing_key E key parent) (issueUcan E (child_payload E (now div 1000) inp leaf parent child)) = Inr u"
    by (auto split: sum.splits)
  from u obtain sk where sk: "signing_key E key parent = Inr sk"
    "issueUcan E (child_payload E (now div 1000) inp leaf parent child) sk = Inr u"
    by (auto simp: rbind_Inr_iff)
  from assms [unfolded mintChildUcan_def c Let_def sum.case prod.case u]
  have "cr_jwt m = ui_jwt u" "cr_payload m = child_payload E (now div 1000) inp leaf parent child"
    "cr_newChain m = ci_parentChain inp @ [ui_jwt u]"
    by (auto split: option.splits)
  with that [OF parts sk] show ?thesis by blast
qed

lemma child_meta_keys: "list_all ascii_key (map fst (child_meta inp a))" "distinct_keys (child_meta inp a)"
  unfolding child_meta_def
  by (simp_all add: opt_str_def opt_json_def distinct_keys_def ascii_key_def split: option.splits)

lemma child_meta_get:
  "jget (child_meta inp a) ''resource_constraint'' =
     (case ci_resourceConstraint inp of None \<Rightarrow> JUndef | Some c \<Rightarrow> JObj (constraintObj c))"
  unfolding child_meta_def by (simp_all add: jget_def opt_str_def opt_json_def split: option.splits)

text \<open>A constraint that survives serialisation: its strings are in the normal form of the canonical text.\<close>

definition stable_constraint :: "env \<Rightarrow> ResourceConstraint \<Rightarrow> bool" where
  "stable_constraint E c \<longleftrightarrow> parseResourceConstraint (norm (e_nfc E) (JObj (constraintObj c))) = Some c"

lemma stamped_constraint:
  assumes "nfc_fixes (e_nfc E)" "list_all ascii_key (map fst m)" "distinct_keys m"
    "jget m ''resource_constraint'' = (case c of None \<Rightarrow> JUndef | Some k \<Rightarrow> JObj (constraintObj k))"
    "\<forall>k. c = Some k \<longrightarrow> stable_constraint E k"
  shows "extractResourceConstraint (Some (norm_members (e_nfc E) m)) = Inr c"
proof (cases c)
  case (Some k)
  obtain ob where ob: "norm (e_nfc E) (JObj (constraintObj k)) = JObj ob" by simp
  with Some assms(5) have "parseResourceConstraint (JObj ob) = Some k" by (simp add: stable_constraint_def del: norm_obj)
  then show ?thesis
    using Some ob by (simp add: extractResourceConstraint_def norm_members_get [OF assms(1-3)] assms(4) del: norm_obj)
qed (simp add: extractResourceConstraint_def norm_members_get [OF assms(1-3)] assms(4))

lemma child_agents_ok:
  assumes "child_agents inp leaf tb = Inr (parent, child)"
  shows "agent_of tb (ci_customerId inp) (ci_parentAgentId inp) = Some parent" "p_aud leaf = ag_did parent"
    "agent_of tb (ci_customerId inp) (ci_childAgentId inp) = Some child"
  using assms by (auto simp: child_agents_def split: option.splits if_splits)

lemma child_narrowing_ok:
  assumes "child_narrowing nowSec inp leaf = Inr ()"
  shows "actionMatchesGranted (p_cmd leaf) (ci_command inp)" "nowSec + ci_ttlSeconds inp \<le> p_exp leaf"
    "child_constraint_ok leaf (ci_resourceConstraint inp) = Inr True"
  using assms by (auto simp: child_narrowing_def split: sum.splits if_splits)

lemma parent_leaf_ok:
  assumes "parent_leaf E nowSec chain = Inr leaf"
  obtains root where "validateChain E (\<lambda>_. nowSec) chain (unaddressed (Some nowSec)) = Inr (ChainValid root leaf)"
    "p_nbf leaf \<le> nowSec" "nowSec < p_exp leaf"
proof -
  from assms obtain root where r: "validateChain E (\<lambda>_. nowSec) chain (unaddressed (Some nowSec)) = Inr (ChainValid root leaf)"
    by (auto simp: parent_leaf_def unaddressed_def split: sum.splits ChainResult.splits ChainError.splits)
  obtain ps where ps: "validate_each E (\<lambda>_. nowSec) 0 chain (unaddressed (Some nowSec)) = Inr ps" "leaf = last ps" "chain \<noteq> []"
    by (rule validateChain_ChainValid [OF r])
  note each = validate_each_Inr [OF ps(1)]
  have i: "length chain - 1 < length chain" using ps(3) by simp
  from each ps(2,3) have "leaf = ps ! (length chain - 1)" by (metis last_conv_nth length_0_conv)
  moreover from each i have "p_nbf (ps ! (length chain - 1)) \<le> nowSec \<and> nowSec < p_exp (ps ! (length chain - 1))"
    unfolding now_of_def unaddressed_def by fastforce
  ultimately have "p_nbf leaf \<le> nowSec \<and> nowSec < p_exp leaf" by simp
  with r that show ?thesis by blast
qed

text \<open>What a delegation needs beside the checks of the code: the sealed key of the parent is the one its
  canonical DID names, and the constraints can be written down and compared.\<close>

definition holds_own_key :: "env \<Rightarrow> string \<Rightarrow> AgentRow \<Rightarrow> bool" where
  "holds_own_key E key a \<longleftrightarrow>
     canonicalizeDid E (ag_did a) = Inr (ag_did a) \<and>
     (\<forall>sk. signing_key E key a = Inr sk \<longrightarrow> publicKeyFromDid E (ag_did a) = Inr (noble_getPublicKey E sk))"

definition comparable :: "env \<Rightarrow> UcanPayload \<Rightarrow> ResourceConstraint option \<Rightarrow> bool" where
  "comparable E leaf c \<longleftrightarrow>
     (\<forall>k. c = Some k \<longrightarrow> stable_constraint E k) \<and>
     (\<exists>pc. extractResourceConstraint (p_meta leaf) = Inr pc \<and> (\<forall>p. pc = Some p \<longrightarrow> c \<noteq> None \<or> gated_provider p))"

lemma child_link:
  assumes "p_iss q = p_aud leaf" "actionMatchesGranted (p_cmd leaf) (p_cmd q)" "p_exp q \<le> p_exp leaf" "p_nbf leaf \<le> p_nbf q"
    "extractResourceConstraint (p_meta q) = Inr c" "child_constraint_ok leaf c = Inr True" "comparable E leaf c"
  shows "check_link leaf q = Inr None"
proof -
  from assms(7) obtain pc where pc: "extractResourceConstraint (p_meta leaf) = Inr pc"
    "\<forall>p. pc = Some p \<longrightarrow> c \<noteq> None \<or> gated_provider p" by (auto simp: comparable_def)
  have "constraintCovers p (case c of None \<Rightarrow> p | Some k \<Rightarrow> k)" if "pc = Some p" for p
    using that pc assms(6) constraintCovers_refl
    by (cases c) (auto simp: child_constraint_ok_def rbind_Inr_iff)
  with assms(1-5) pc(1) show ?thesis by (cases pc) (auto simp: check_link_def Let_def)
qed

text \<open>C6: A delegation mintChildUcan signs extends the caller's chain to one the chain validation accepts at the
  time of the mint, no deeper than the cap, whose leaf grants the requested command to the child agent's DID.
  It rests on the parent's sealed key being the key of its DID, and on the parent's constraint being of a
  provider the subset check knows when the child does not state its own.\<close>

theorem delegated_chain_validates:
  assumes "mintChildUcan E key d now inp tb = (Inr m, tb')" "crypto_laws E" "nfc_fixes (e_nfc E)"
    "0 < ci_ttlSeconds inp" "numerals_ok (e_nd E) (JObj (payloadObj (cr_payload m)))"
    "\<forall>a. agent_of tb (ci_customerId inp) (ci_parentAgentId inp) = Some a \<longrightarrow> holds_own_key E key a"
    "\<forall>leaf. parent_leaf E (now div 1000) (ci_parentChain inp) = Inr leaf \<longrightarrow> comparable E leaf (ci_resourceConstraint inp)"
  shows "\<exists>root leaf child.
    validateChain E (\<lambda>_. now div 1000) (cr_newChain m) \<lparr>vo_audience = None, vo_expectedCommand = None, vo_now = Some (now div 1000)\<rparr>
      = Inr (ChainValid root leaf) \<and>
    length (cr_newChain m) \<le> d \<and> p_cmd leaf = ci_command inp \<and>
    agent_of tb (ci_customerId inp) (ci_childAgentId inp) = Some child \<and> canonicalizeDid E (ag_did child) = Inr (p_aud leaf) \<and>
    extractResourceConstraint (p_meta leaf) = Inr (ci_resourceConstraint inp)"
proof -
  let ?now = "now div 1000"
  obtain leaf parent child sk u where
    pl: "parent_leaf E ?now (ci_parentChain inp) = Inr leaf" and depth: "length (ci_parentChain inp) + 1 \<le> d" and
    ag: "child_agents inp leaf tb = Inr (parent, child)" and nar: "child_narrowing ?now inp leaf = Inr ()" and
    sk: "signing_key E key parent = Inr sk" and
    i: "issueUcan E (child_payload E ?now inp leaf parent child) sk = Inr u" and
    m: "cr_payload m = child_payload E ?now inp leaf parent child" "cr_newChain m = ci_parentChain inp @ [ui_jwt u]"
    by (rule mintChildUcan_ok [OF assms(1)])
  obtain root where root: "validateChain E (\<lambda>_. ?now) (ci_parentChain inp) (unaddressed (Some ?now)) = Inr (ChainValid root leaf)"
    "p_nbf leaf \<le> ?now" "?now < p_exp leaf" by (rule parent_leaf_ok [OF pl])
  note ag = child_agents_ok [OF ag] and nar = child_narrowing_ok [OF nar]
  from assms(6) ag(1) have own: "canonicalizeDid E (ag_did parent) = Inr (ag_did parent)"
    "publicKeyFromDid E (ag_did parent) = Inr (noble_getPublicKey E sk)" using sk by (auto simp: holds_own_key_def)
  have cmp: "comparable E leaf (ci_resourceConstraint inp)" using assms(7) pl by blast
  have sel: "p_iss (child_payload E ?now inp leaf parent child) = ag_did parent"
    "p_aud (child_payload E ?now inp leaf parent child) = ag_did child"
    "p_cmd (child_payload E ?now inp leaf parent child) = ci_command inp"
    "p_nbf (child_payload E ?now inp leaf parent child) = max (p_nbf leaf) (?now - 60)"
    "p_exp (child_payload E ?now inp leaf parent child) = ?now + ci_ttlSeconds inp"
    "p_meta (child_payload E ?now inp leaf parent child) = Some (child_meta inp (ag_id child))"
    by (simp_all add: child_payload_def)
  from assms(5) m(1) have n: "numerals_ok (e_nd E) (JObj (payloadObj (child_payload E ?now inp leaf parent child)))"
    by (simp del: numerals_ok.simps)
  obtain v where v: "parseUcanJwt E (ui_jwt u) = Some v" "u_payload v = norm_payload (e_nfc E) (ui_payload u)"
    "p_meta (u_payload v) = Some (norm_members (e_nfc E) (child_meta inp (ag_id child)))"
    "numerals_ok (e_nd E) (JObj (payloadObj (ui_payload u)))"
    by (rule issued_parse [OF assms(3) i n]) (simp add: sel)
  let ?q = "norm_payload (e_nfc E) (ui_payload u)"
  have "validateUcan E ?now (ui_jwt u) (unaddressed (Some ?now)) = Valid ?q"
    by (rule validate_issued [OF assms(2,3) i v(4)])
      (use own root assms(4) in \<open>auto simp: sel now_of_def unaddressed_def audience_ok_def\<close>)
  moreover have fields: "canonicalizeDid E (ag_did parent) = Inr (p_iss ?q)" "canonicalizeDid E (ag_did child) = Inr (p_aud ?q)"
    "p_cmd ?q = ci_command inp" "p_exp ?q = ?now + ci_ttlSeconds inp" "p_nbf ?q = max (p_nbf leaf) (?now - 60)"
    unfolding norm_payload_sel using issueUcan_parts [OF i] by (simp_all add: sel) metis+
  moreover have rc: "extractResourceConstraint (p_meta ?q) = Inr (ci_resourceConstraint inp)"
    using stamped_constraint [OF assms(3) child_meta_keys child_meta_get] cmp v(2,3) by (simp add: comparable_def)
  moreover have "check_link leaf ?q = Inr None"
    by (rule child_link [OF _ _ _ _ rc nar(3) cmp]) (use fields ag(2) own(1) nar in simp_all)
  ultimately show ?thesis
    using validateChain_snoc [OF root(1), of "ui_jwt u" ?q] depth ag(3) unfolding m(2) unaddressed_def
    by (intro exI [of _ root] exI [of _ ?q] exI [of _ child]) simp
qed

subsection \<open>A witness\<close>

lemma demo_issues:
  assumes "length sk = 32" "length aud = 32" "p_iss p = demo_did sk" "p_aud p = demo_did aud" "wf_payload p"
    "serialisable (JObj (payloadObj p))"
  obtains u where "issueUcan demo_env p sk = Inr u"
proof -
  have upd: "p\<lparr>p_iss := demo_did sk, p_aud := demo_did aud\<rparr> = p" using assms(3,4) by simp
  obtain h where h: "canonicalize (e_nfc demo_env) UCAN_HEADER = Inr h" using header_text [OF demo_nfc(2)] by blast
  obtain t where t: "canonicalize (e_nfc demo_env) (JObj (payloadObj p)) = Inr t"
    using canonicalize_ok [OF assms(6)] unfolding is_ok_iff by blast
  obtain sig where sig: "signDetached demo_env sk (stringToBase64url h @ ''.'' @ stringToBase64url t) = Inr sig"
    using assms(1) by (simp add: signDetached_def)
  have "\<exists>u. issueUcan demo_env p sk = Inr u"
    unfolding issueUcan_def assms(3,4) demo_did_key(2) [OF assms(1)] demo_did_key(2) [OF assms(2)] rbind.simps upd
      parse_payload [OF assms(5)] option.case h t
    using sig by (simp add: lift_canon_def Let_def)
  with that show ?thesis by blast
qed

definition demo_boxed :: SecretBoxCiphertext where
  "demo_boxed = \<lparr>ciphertextHex = demo_hex (replicate 24 CHR ''n'' @ demo_hex (demo_key CHR ''b'')), nonceHex = demo_hex (replicate 24 CHR ''n'')\<rparr>"

definition demo_parent_row :: AgentRow where
  "demo_parent_row = demo_agent_row
     \<lparr>ag_encryptedSigningKey := Some (ciphertextHex demo_boxed), ag_signingKeyNonce := Some (nonceHex demo_boxed)\<rparr>"

definition demo_child_row :: AgentRow where
  "demo_child_row = demo_agent_row\<lparr>ag_id := ''a2'', ag_did := demo_did (demo_key CHR ''c'')\<rparr>"

definition demo_family :: Tables where
  "demo_family = demo_tables\<lparr>tb_core := demo_db\<lparr>db_agents := [demo_parent_row, demo_child_row]\<rparr>\<rparr>"

definition demo_child_input :: MintChildInput where
  "demo_child_input =
     \<lparr>ci_customerId = ''c1'', ci_parentAgentId = ''a1'', ci_parentChain = [demo_jwt (demo_key CHR ''a'') demo_root],
      ci_childAgentId = ''a2'', ci_command = ''/fs/read'', ci_ttlSeconds = 40, ci_nonce = ''n'', ci_resourceConstraint = None,
      ci_oauthConnectionId = None\<rparr>"

lemma demo_parent_key: "signing_key demo_env (demo_key CHR ''k'') demo_parent_row = Inr (demo_key CHR ''b'')"
proof -
  have "sealString demo_env (replicate 24 CHR ''n'') (demo_key CHR ''k'') (demo_hex (demo_key CHR ''b'')) None = Inr demo_boxed"
    by (simp add: sealString_def demo_boxed_def demo_env_def demo_tag_def demo_key_length SECRETBOX_KEY_LEN_def)
  from open_sealed [OF demo_laws _ this] have
    "openString demo_env (demo_key CHR ''k'') (ciphertextHex demo_boxed) (nonceHex demo_boxed) None = Inr (demo_hex (demo_key CHR ''b''))"
    by (simp add: SECRETBOX_NONCE_LEN_def)
  moreover have "privateKeyFromHex demo_env (demo_hex (demo_key CHR ''b'')) = Inr (demo_key CHR ''b'')"
    by (simp add: privateKeyFromHex_def demo_hex_length demo_key_length demo_env_def demo_unhex_hex)
  ultimately show ?thesis by (simp add: signing_key_def demo_parent_row_def)
qed

lemma demo_parent_leaf: "parent_leaf demo_env 50 (ci_parentChain demo_child_input) = Inr demo_root"
  using demo_root_valid [of 50]
  by (simp add: parent_leaf_def demo_child_input_def validateChain_def)

lemma demo_family_agents:
  "agent_of demo_family ''c1'' ''a1'' = Some demo_parent_row" "agent_of demo_family ''c1'' ''a2'' = Some demo_child_row"
  by (simp_all add: agent_of_def demo_family_def demo_tables_def demo_parent_row_def demo_child_row_def demo_agent_row_def)

lemma demo_child_mints:
  obtains m tb' where
    "mintChildUcan demo_env (demo_key CHR ''k'') 8 50000 demo_child_input demo_family = (Inr m, tb')"
    "cr_payload m = child_payload demo_env 50 demo_child_input demo_root demo_parent_row demo_child_row"
proof -
  let ?p = "child_payload demo_env 50 demo_child_input demo_root demo_parent_row demo_child_row"
  have plain: "serialisable (JObj (payloadObj ?p))"
    by (simp add: child_payload_def payloadObj_def child_meta_def demo_child_input_def opt_str_def opt_json_def given_def
        str_truthy_def)
  have wf: "wf_payload ?p"
    by (simp add: wf_payload_def child_payload_def demo_did_regex demo_parent_row_def demo_child_row_def demo_agent_row_def
        demo_commands demo_child_input_def demo_root_def demo_payload_def)
  have dids: "p_iss ?p = demo_did (demo_key CHR ''b'')" "p_aud ?p = demo_did (demo_key CHR ''c'')"
    by (simp_all add: child_payload_def demo_parent_row_def demo_child_row_def demo_agent_row_def)
  obtain u where u: "issueUcan demo_env ?p (demo_key CHR ''b'') = Inr u"
    by (rule demo_issues [OF demo_key_length demo_key_length dids wf plain])
  have root: "p_aud demo_root = demo_did (demo_key CHR ''b'')" "p_cmd demo_root = ''/fs''" "p_exp demo_root = 100"
    by (simp_all add: demo_root_def demo_payload_def)
  have sel: "ci_customerId demo_child_input = ''c1''" "ci_parentAgentId demo_child_input = ''a1''"
    "ci_childAgentId demo_child_input = ''a2''" "ci_command demo_child_input = ''/fs/read''"
    "ci_ttlSeconds demo_child_input = 40" "ci_resourceConstraint demo_child_input = None"
    "length (ci_parentChain demo_child_input) = 1"
    by (simp_all add: demo_child_input_def)
  have row: "ag_did demo_parent_row = demo_did (demo_key CHR ''b'')" "str_truthy (ag_encryptedSigningKey demo_parent_row)"
    "str_truthy (ag_signingKeyNonce demo_parent_row)" "ag_id demo_child_row = ''a2''"
    by (simp_all add: demo_parent_row_def demo_child_row_def demo_agent_row_def demo_boxed_def str_truthy_def demo_hex_empty)
  have ag: "child_agents demo_child_input demo_root demo_family = Inr (demo_parent_row, demo_child_row)"
    by (simp add: child_agents_def sel demo_family_agents root row)
  have nar: "child_narrowing 50 demo_child_input demo_root = Inr ()"
    by (simp add: child_narrowing_def sel root child_constraint_ok_def actionMatchesGranted_def)
  have chk: "mint_child_checks demo_env 8 50 demo_child_input demo_family = Inr (demo_root, demo_parent_row, demo_child_row)"
    by (simp add: mint_child_checks_def demo_parent_leaf sel ag nar)
  obtain tb' where rec: "record_issue ''c1'' ''a2'' ?p (p_exp ?p * 1000) u demo_family = Some tb'"
    by (simp add: record_issue_def demo_family_def demo_tables_def)
  show ?thesis
    by (rule that [of "\<lparr>cr_cid = ui_cid u, cr_jwt = ui_jwt u, cr_payload = ?p, cr_expiresAt = p_exp ?p * 1000,
          cr_newChain = ci_parentChain demo_child_input @ [ui_jwt u]\<rparr>" tb'])
      (simp_all add: mintChildUcan_def Let_def chk demo_parent_key u row rec sel)
qed

theorem delegated_chain_validates_witness:
  "\<exists>m tb' root leaf. mintChildUcan demo_env (demo_key CHR ''k'') 8 50000 demo_child_input demo_family = (Inr m, tb') \<and>
     validateChain demo_env (\<lambda>_. 50) (cr_newChain m) \<lparr>vo_audience = None, vo_expectedCommand = None, vo_now = Some 50\<rparr>
       = Inr (ChainValid root leaf) \<and> p_cmd leaf = ''/fs/read''"
proof -
  obtain m tb' where m: "mintChildUcan demo_env (demo_key CHR ''k'') 8 50000 demo_child_input demo_family = (Inr m, tb')"
    "cr_payload m = child_payload demo_env 50 demo_child_input demo_root demo_parent_row demo_child_row"
    by (rule demo_child_mints)
  have num: "numerals_ok (e_nd demo_env) (JObj (payloadObj (cr_payload m)))"
    unfolding m(2)
    by (simp add: child_payload_def payloadObj_def child_meta_def demo_child_input_def opt_str_def opt_json_def given_def
        str_truthy_def max_exact_def demo_root_def demo_payload_def)
  have own: "holds_own_key demo_env (demo_key CHR ''k'') demo_parent_row"
    using demo_parent_key demo_did_key [of "demo_key CHR ''b''"]
    by (simp add: holds_own_key_def demo_parent_row_def demo_agent_row_def demo_key_length demo_env_def)
  have cmp: "comparable demo_env demo_root None"
    by (simp add: comparable_def demo_root_def demo_payload_def demo_scope_extract)
  have sel: "ci_customerId demo_child_input = ''c1''" "ci_parentAgentId demo_child_input = ''a1''"
    "ci_command demo_child_input = ''/fs/read''" "ci_ttlSeconds demo_child_input = 40" "ci_resourceConstraint demo_child_input = None"
    by (simp_all add: demo_child_input_def)
  from delegated_chain_validates [OF m(1) demo_laws demo_nfc(2) _ num]
    own cmp sel m(1) demo_family_agents demo_parent_leaf show ?thesis
    by auto
qed

subsection \<open>The status of the agents\<close>

text \<open>A delegation does not look at the status of its agents: whatever it is, the answer is the same. A deleted
  child still receives a token from a parent that holds one, and a deleted parent's key still signs.\<close>

definition with_status :: "AgentStatus \<Rightarrow> Tables \<Rightarrow> Tables" where
  "with_status s tb = tb\<lparr>tb_core := (tb_core tb)\<lparr>db_agents := map (ag_status_update (\<lambda>_. s)) (db_agents (tb_core tb))\<rparr>\<rparr>"

lemma find_with_status:
  assumes "\<And>a. P (ag_status_update (\<lambda>_. s) a) = P a"
  shows "List.find P (map (ag_status_update (\<lambda>_. s)) rows) = map_option (ag_status_update (\<lambda>_. s)) (List.find P rows)"
  using assms by (induction rows) auto

lemma agent_of_with_status: "agent_of (with_status s tb) c i = map_option (ag_status_update (\<lambda>_. s)) (agent_of tb c i)"
  unfolding agent_of_def with_status_def by (simp add: find_with_status)

lemma record_with_status:
  "record_issue c a p x u (with_status s tb) = map_option (with_status s) (record_issue c a p x u tb)"
  by (simp add: record_issue_def with_status_def)

lemma checks_with_status:
  "mint_child_checks E d t inp (with_status s tb) =
     map_sum id (\<lambda>(leaf, p, c). (leaf, ag_status_update (\<lambda>_. s) p, ag_status_update (\<lambda>_. s) c)) (mint_child_checks E d t inp tb)"
proof -
  have agents: "child_agents inp leaf (with_status s tb) =
      map_sum id (\<lambda>(p, c). (ag_status_update (\<lambda>_. s) p, ag_status_update (\<lambda>_. s) c)) (child_agents inp leaf tb)" for leaf
    by (auto simp: child_agents_def agent_of_with_status split: option.splits)
  show ?thesis
  proof (cases "parent_leaf E t (ci_parentChain inp)")
    case (Inr leaf)
    then show ?thesis
      by (cases "child_agents inp leaf tb"; cases "child_narrowing t inp leaf")
        (auto simp: mint_child_checks_def agents)
  qed (simp add: mint_child_checks_def)
qed

theorem delegation_ignores_status:
  "fst (mintChildUcan E key d now inp (with_status s tb)) = fst (mintChildUcan E key d now inp tb)"
proof (cases "mint_child_checks E d (now div 1000) inp tb")
  case (Inr x)
  obtain leaf p c where x: "x = (leaf, p, c)" by (cases x) auto
  have sel: "child_payload E t inp leaf (ag_status_update (\<lambda>_. s) p) (ag_status_update (\<lambda>_. s) c) = child_payload E t inp leaf p c"
    "signing_key E key (ag_status_update (\<lambda>_. s) p) = signing_key E key p" for t
    by (simp_all add: child_payload_def signing_key_def)
  show ?thesis
    by (auto simp: mintChildUcan_def checks_with_status Inr x sel record_with_status Let_def split: sum.splits option.splits)
qed (simp add: mintChildUcan_def checks_with_status)

end
