(* ===== verification/Mint_Route_Properties.thy ===== *)
theory Mint_Route_Properties
  imports Minting_Properties Child_Properties
begin

text \<open>
  POST /v1/mint-ucan end to end: what a batch of tokens in the answer says about the key that asked for it.
\<close>

definition same_agents_and_connections :: "Tables \<Rightarrow> Tables \<Rightarrow> bool" where
  "same_agents_and_connections tb tb' \<longleftrightarrow>
     tb_core tb' = tb_core tb \<and> tb_oauthConnections tb' = tb_oauthConnections tb \<and>
     tb_cloudConnections tb' = tb_cloudConnections tb"

lemma same_refl [simp]: "same_agents_and_connections tb tb"
  and same_trans: "same_agents_and_connections a b \<Longrightarrow> same_agents_and_connections b c \<Longrightarrow> same_agents_and_connections a c"
  by (simp_all add: same_agents_and_connections_def)

lemma mintUcan_same: "mintUcan E sg now inp tb = (r, tb') \<Longrightarrow> same_agents_and_connections tb tb'"
  using mintUcan_tables by (simp add: same_agents_and_connections_def)

lemma connection_owned_same:
  "same_agents_and_connections tb tb' \<Longrightarrow> connection_owned c tb' inp = connection_owned c tb inp"
  by (simp add: connection_owned_def same_agents_and_connections_def)

lemma agent_of_same: "same_agents_and_connections tb tb' \<Longrightarrow> agent_of tb' c a = agent_of tb c a"
  by (simp add: agent_of_def same_agents_and_connections_def)

text \<open>A token of the answer, minted on tables that differ from the request's only in what was issued.\<close>

definition minted_for :: "env \<Rightarrow> signing \<Rightarrow> KeyIdentity \<Rightarrow> int \<Rightarrow> Tables \<Rightarrow> issued_row \<Rightarrow> bool" where
  "minted_for E sg who ttl tb row \<longleftrightarrow>
     (\<exists>now stamp r tb1 tb2. mintUcan E sg now (route_input who ttl stamp (fst row) r) tb1 = (Inr (snd row), tb2) \<and>
        same_agents_and_connections tb tb1)"

lemma mint_commands_ok:
  "mint_commands E sg strict clock who how ttl cache i commands tb = (Mint_ok us, tb') \<Longrightarrow>
     map fst us = commands \<and> (\<forall>row \<in> set us. minted_for E sg who ttl tb row)"
proof (induction commands arbitrary: cache i tb us tb')
  case (Cons command commands)
  from Cons.prems obtain r cache' where r: "resolve_connection how strict (ki_customerId who) tb command cache = (Resolved r, cache')"
    by (auto split: prod.splits resolved.splits)
  from Cons.prems r obtain u tb1 where u: "mintUcan E sg (clock (Suc i)) (route_input who ttl (clock i) command r) tb = (Inr u, tb1)"
    by (auto split: prod.splits sum.splits option.splits)
  from Cons.prems r u obtain us1 tb2 where us:
    "mint_commands E sg strict clock who how ttl cache' (i + 2) commands tb1 = (Mint_ok us1, tb2)" "us = (command, u) # us1"
    by (auto split: prod.splits sum.splits mint_answer.splits)
  have same: "same_agents_and_connections tb tb1" by (rule mintUcan_same [OF u])
  have "minted_for E sg who ttl tb row" if "minted_for E sg who ttl tb1 row" for row
    using that same_trans [OF same] unfolding minted_for_def by blast
  moreover have "minted_for E sg who ttl tb (command, u)" using u unfolding minted_for_def by fastforce
  ultimately show ?case using Cons.IH [OF us(1)] us(2) by auto
qed simp

text \<open>What the bearer guard checked before it let a key through.\<close>

lemma apiKeyAuth_ok:
  assumes "apiKeyAuth E now r tb = (Inr who, tb')"
  obtains k agent where "k \<in> set (tb_apiKeys tb)"
    "live_key (sha256Hex E (strip_bearer (case kr_authorization r of None \<Rightarrow> [] | Some a \<Rightarrow> a))) k"
    "agent \<in> set (db_agents (tb_core tb))" "ak_agentId k = Some (ag_id agent)" "ag_status agent = status_active"
    "ag_connectionApprovedAt agent \<noteq> None" "ki_customerId who = ak_customerId k" "ki_agentId who = ag_id agent"
    "ki_role who = ak_role k"
proof -
  let ?h = "sha256Hex E (strip_bearer (case kr_authorization r of None \<Rightarrow> [] | Some a \<Rightarrow> a))"
  from assms obtain k where k: "List.find (live_key ?h) (tb_apiKeys tb) = Some k"
    by (auto simp: apiKeyAuth_def Let_def split: if_splits option.splits)
  note body = assms [unfolded apiKeyAuth_def Let_def k option.case]
  from body obtain agent where a: "key_agent tb k = Some agent"
    by (auto split: if_splits option.splits)
  from body [unfolded a option.case] have ok: "ag_status agent = status_active" "ag_connectionApprovedAt agent \<noteq> None"
    "ki_customerId who = ak_customerId k" "ki_agentId who = ag_id agent" "ki_role who = ak_role k"
    by (auto split: if_splits)
  from a have "agent \<in> set (db_agents (tb_core tb))" "ak_agentId k = Some (ag_id agent)"
    by (auto simp: key_agent_def find_Some_iff)
  moreover from k have "k \<in> set (tb_apiKeys tb)" "live_key ?h k" by (auto simp: find_Some_iff)
  ultimately show ?thesis using that ok by blast
qed

lemma apiKeyAuth_tables:
  assumes "apiKeyAuth E now r tb = (x, tb')"
  shows "tb_core tb' = tb_core tb \<and> tb_usage tb' = tb_usage tb \<and> tb_customers tb' = tb_customers tb \<and>
    tb_oauthConnections tb' = tb_oauthConnections tb \<and> tb_cloudConnections tb' = tb_cloudConnections tb \<and>
    tb_ucanIssues tb' = tb_ucanIssues tb \<and> tb_envelopes tb' = tb_envelopes tb"
  using assms by (auto simp: apiKeyAuth_def Let_def touch_agent_def split: if_splits option.splits)

lemma increment_tables:
  assumes "increment now c k tb = (x, tb')"
  shows "same_agents_and_connections tb tb' \<and> tb_ucanIssues tb' = tb_ucanIssues tb \<and> tb_envelopes tb' = tb_envelopes tb"
  using assms
  by (auto simp: increment_def increment_check_def increment_upsert_def Let_def same_agents_and_connections_def
      split: if_splits option.splits sum.splits prod.splits)

text \<open>The two connection members of the metadata.\<close>

lemma mint_meta_connections:
  "meta_string ''oauth_connection_id'' (mint_payload sg t inp agent) = given (mi_oauthConnectionId inp)"
  "meta_string ''cloud_connection_id'' (mint_payload sg t inp agent) = given (mi_cloudConnectionId inp)"
  "meta_string ''agent_id'' (mint_payload sg t inp agent) = Some (ag_id agent)"
  "meta_string ''customer_id'' (mint_payload sg t inp agent) = Some (mi_customerId inp)"
  unfolding mint_payload_def mint_meta_def hints_member meta_string_def
  by (simp_all add: jget_def opt_str_def opt_json_def split: option.splits)

definition token_of :: "KeyIdentity \<Rightarrow> Tables \<Rightarrow> int \<Rightarrow> string \<Rightarrow> MintResult \<Rightarrow> bool" where
  "token_of who tb ttl command m \<longleftrightarrow>
     (\<exists>agent. agent_of tb (ki_customerId who) (ki_agentId who) = Some agent \<and> ag_status agent = status_active \<and>
        p_aud (mr_payload m) = ag_did agent) \<and>
     p_cmd (mr_payload m) = command \<and> p_exp (mr_payload m) - p_nbf (mr_payload m) = ttl + 60 \<and>
     meta_string ''agent_id'' (mr_payload m) = Some (ki_agentId who) \<and>
     meta_string ''customer_id'' (mr_payload m) = Some (ki_customerId who) \<and>
     (\<forall>i. meta_string ''oauth_connection_id'' (mr_payload m) = Some i \<longrightarrow>
        (\<exists>c \<in> set (tb_oauthConnections tb). oc_id c = i \<and> oc_customerId c = ki_customerId who)) \<and>
     (\<forall>i. meta_string ''cloud_connection_id'' (mr_payload m) = Some i \<longrightarrow>
        (\<exists>c \<in> set (tb_cloudConnections tb). cn_id c = i \<and> cn_customerId c = ki_customerId who \<and>
           cn_bootstrapStatus c = boot_verified))"

lemma given_Some: "given v = Some s \<longleftrightarrow> v = Some s \<and> str_truthy v"
  by (auto simp: given_def)

lemma minted_token_of:
  assumes "minted_for E sg who ttl tb row"
  shows "token_of who tb ttl (fst row) (snd row)"
proof -
  from assms obtain now stamp r tb1 tb2 where m: "mintUcan E sg now (route_input who ttl stamp (fst row) r) tb1 = (Inr (snd row), tb2)"
    and same: "same_agents_and_connections tb tb1" by (auto simp: minted_for_def)
  let ?inp = "route_input who ttl stamp (fst row) r"
  obtain agent and u :: UcanIssued where a: "agent_of tb1 (mi_customerId ?inp) (mi_agentId ?inp) = Some agent" "ag_status agent = status_active"
    "mint_checks ?inp tb1 = None" and p: "snd row = \<lparr>mr_cid = ui_cid u, mr_jwt = ui_jwt u,
      mr_payload = mint_payload sg (now div 1000) ?inp agent, mr_expiresAt = (now div 1000 + mi_ttlSeconds ?inp) * 1000\<rparr>"
    by (rule mintUcan_ok [OF m]) blast
  have sel: "mi_customerId ?inp = ki_customerId who" "mi_agentId ?inp = ki_agentId who" "mi_command ?inp = fst row"
    "mi_ttlSeconds ?inp = ttl" by (simp_all add: route_input_def)
  have ag: "agent_of tb (ki_customerId who) (ki_agentId who) = Some agent" using a(1) agent_of_same [OF same] sel by simp
  have id: "ag_id agent = ki_agentId who" using agent_of_Some [OF ag] by simp
  have own: "connection_owned (ki_customerId who) tb ?inp"
    using mint_checks_None [OF a(3)] connection_owned_same [OF same] sel by simp
  have pl: "p_aud (mr_payload (snd row)) = ag_did agent" "p_cmd (mr_payload (snd row)) = fst row"
    "p_exp (mr_payload (snd row)) - p_nbf (mr_payload (snd row)) = ttl + 60"
    by (simp_all add: p mint_payload_def sel)
  show ?thesis
    unfolding token_of_def
    using ag a(2) pl own by (auto simp: p mint_meta_connections sel id given_Some connection_owned_def)
qed

lemma mint_body_ok:
  assumes "mint_body E sg strict clock who raw tb = (Mint_ok us, tb')"
  obtains body where "Option.bind raw parseMintBody = Some body" "map fst us = mb_commands body"
    "\<forall>row \<in> set us. minted_for E sg who (ttl_or_default (mb_ttlSeconds body)) tb row"
proof -
  from assms obtain body where b: "Option.bind raw parseMintBody = Some body"
    by (cases "Option.bind raw parseMintBody") (auto simp: mint_body_def)
  from assms [unfolded mint_body_def b option.case] obtain how where
    "mint_commands E sg strict clock who how (ttl_or_default (mb_ttlSeconds body)) [] 2 (mb_commands body) tb = (Mint_ok us, tb')"
    by (auto split: if_splits sum.splits)
  from mint_commands_ok [OF this] b that show ?thesis by blast
qed

lemma token_of_same: "same_agents_and_connections tb tb1 \<Longrightarrow> token_of who tb1 ttl c m = token_of who tb ttl c m"
  unfolding token_of_def using agent_of_same by (simp add: same_agents_and_connections_def agent_of_def)

text \<open>C7: POST /v1/mint-ucan hands tokens only to the holder of a live API key of an active, approved agent whose
  role may update agents, while the customer's monthly count is below its cap. There is one token for each
  command of the body, for the DID of that agent, of the customer of the key, valid at most an hour, and it
  names no connection but one of that customer (a verified one, for a cloud).\<close>

theorem mint_route_sound:
  assumes "mint_ucan_route E sg strict clock r raw tb = (Mint_ok us, tb')"
  shows "\<exists>k agent who body. k \<in> set (tb_apiKeys tb) \<and>
    live_key (sha256Hex E (strip_bearer (case kr_authorization r of None \<Rightarrow> [] | Some a \<Rightarrow> a))) k \<and>
    agent \<in> set (db_agents (tb_core tb)) \<and> ak_agentId k = Some (ag_id agent) \<and> ag_status agent = status_active \<and>
    ag_connectionApprovedAt agent \<noteq> None \<and> hasPermission (ak_role k) R_agents A_update \<and>
    used use_mint (getUsage (clock 1) (ak_customerId k) tb) < cap_mintPerMonth (PLAN_CAPS (plan_of tb (ak_customerId k))) \<and>
    Option.bind raw parseMintBody = Some body \<and> map fst us = mb_commands body \<and>
    ki_customerId who = ak_customerId k \<and> ki_agentId who = ag_id agent \<and>
    ttl_or_default (mb_ttlSeconds body) \<le> 3600 \<and>
    (\<forall>(command, m) \<in> set us. token_of who tb (ttl_or_default (mb_ttlSeconds body)) command m)"
proof -
  from assms obtain who tb1 where auth: "apiKeyAuth E (clock 0) r tb = (Inr who, tb1)"
    by (auto simp: mint_ucan_route_def split: prod.splits sum.splits)
  note step = assms [unfolded mint_ucan_route_def auth prod.case sum.case]
  from step have perm: "hasPermission (ki_role who) R_agents A_update"
    by (auto simp: requirePermission_def split: if_splits)
  from step obtain s tb2 where inc: "increment (clock 1) (ki_customerId who) use_mint tb1 = (Inr s, tb2)"
    and body: "mint_body E sg strict clock who raw tb2 = (Mint_ok us, tb')"
    by (auto split: sum.splits prod.splits)
  obtain b where b: "Option.bind raw parseMintBody = Some b" "map fst us = mb_commands b"
    "\<forall>row \<in> set us. minted_for E sg who (ttl_or_default (mb_ttlSeconds b)) tb2 row"
    by (rule mint_body_ok [OF body])
  have ttl: "ttl_or_default (mb_ttlSeconds b) \<le> 3600"
    using b(1)
    by (auto simp: parseMintBody_def bind_eq_Some_conv ttl_or_default_def z_ttl_def z_opt_def z_int_def MAX_TTL_SECONDS_def
        MINT_DEFAULT_TTL_SECONDS_def split: if_splits option.splits json.splits jsnum.splits)
  obtain k agent where k: "k \<in> set (tb_apiKeys tb)"
    "live_key (sha256Hex E (strip_bearer (case kr_authorization r of None \<Rightarrow> [] | Some a \<Rightarrow> a))) k"
    "agent \<in> set (db_agents (tb_core tb))" "ak_agentId k = Some (ag_id agent)" "ag_status agent = status_active"
    "ag_connectionApprovedAt agent \<noteq> None" "ki_customerId who = ak_customerId k" "ki_agentId who = ag_id agent"
    "ki_role who = ak_role k"
    by (rule apiKeyAuth_ok [OF auth])
  note t1 = apiKeyAuth_tables [OF auth] and t2 = increment_tables [OF inc]
  have same: "same_agents_and_connections tb tb2"
    using t1 t2 by (simp add: same_agents_and_connections_def)
  have "getUsage (clock 1) c tb1 = getUsage (clock 1) c tb" "plan_of tb1 c = plan_of tb c" for c
    using t1 by (simp_all add: getUsage_def usage_row_def plan_of_def)
  then have quota: "used use_mint (getUsage (clock 1) (ak_customerId k) tb) < cap_mintPerMonth (PLAN_CAPS (plan_of tb (ak_customerId k)))"
    using inc k(7) by (auto simp: increment_def increment_check_def Let_def getUsage_key split: if_splits)
  have "\<forall>(command, m) \<in> set us. token_of who tb (ttl_or_default (mb_ttlSeconds b)) command m"
    using b(3) minted_token_of token_of_same [OF same] by fastforce
  with k perm quota b(1,2) ttl show ?thesis by metis
qed

subsection \<open>A witness\<close>

definition demo_api_key :: ApiKeyRow where
  "demo_api_key =
     \<lparr>ak_id = ''k1'', ak_customerId = ''c1'', ak_agentId = Some ''a1'', ak_keyHash = sha256Hex demo_env ''cb_x'', ak_role = admin,
      ak_revokedAt = None, ak_lastUsedAt = None, ak_lastUserAgent = None, ak_lastHost = None\<rparr>"

definition demo_approved_agent :: AgentRow where
  "demo_approved_agent = demo_agent_row\<lparr>ag_connectionApprovedAt := Some ''t''\<rparr>"

definition demo_keyed :: Tables where
  "demo_keyed = demo_tables\<lparr>tb_core := demo_db\<lparr>db_agents := [demo_approved_agent]\<rparr>, tb_apiKeys := [demo_api_key]\<rparr>"

definition demo_key_request :: key_request where
  "demo_key_request =
     \<lparr>kr_authorization = Some ''Bearer cb_x'', kr_userAgent = None, kr_forwardedFor = None, kr_realIp = None\<rparr>"

definition demo_mint_body :: json where
  "demo_mint_body = JObj [(''commands'', JArr [JStr ''/fs/read''])]"

definition demo_who :: KeyIdentity where
  "demo_who = \<lparr>ki_customerId = ''c1'', ki_agentId = ''a1'', ki_apiKeyId = ''k1'', ki_role = admin,
     ki_permissions = expandRolePermissions admin\<rparr>"

lemma demo_bearer: "strip_bearer ''Bearer cb_x'' = ''cb_x''"
  by (simp add: strip_bearer_def toLowerCase_def to_lower_char_def is_upper_def is_ws_def char_le_nat) code_simp

lemma demo_auth: obtains tb1 where "apiKeyAuth demo_env 1000000 demo_key_request demo_keyed = (Inr demo_who, tb1)"
proof -
  have key: "List.find (live_key (sha256Hex demo_env ''cb_x'')) (tb_apiKeys demo_keyed) = Some demo_api_key"
    by (simp add: demo_keyed_def live_key_def demo_api_key_def)
  have ag: "key_agent demo_keyed demo_api_key = Some demo_approved_agent"
    by (simp add: key_agent_def demo_keyed_def demo_api_key_def demo_approved_agent_def demo_agent_row_def)
  have sel: "ak_agentId demo_api_key = Some ''a1''" "ag_status demo_approved_agent = status_active"
    "ag_connectionApprovedAt demo_approved_agent = Some ''t''" "ag_id demo_approved_agent = ''a1''" "ak_customerId demo_api_key = ''c1''"
    "ak_id demo_api_key = ''k1''" "ak_role demo_api_key = admin"
    by (simp_all add: demo_api_key_def demo_approved_agent_def demo_agent_row_def)
  have hd: "kr_authorization demo_key_request = Some ''Bearer cb_x''" by (simp add: demo_key_request_def)
  have "\<exists>tb1. apiKeyAuth demo_env 1000000 demo_key_request demo_keyed = (Inr demo_who, tb1)"
    unfolding apiKeyAuth_def hd option.case demo_bearer Let_def
    by (simp add: key ag sel str_truthy_def demo_who_def)
  with that show ?thesis by blast
qed

lemma mintUcan_succeeds:
  assumes "agent_of tb (mi_customerId inp) (mi_agentId inp) = Some agent" "ag_status agent = status_active"
    "mint_checks inp tb = None" "issueUcan E (mint_payload sg (now div 1000) inp agent) (sg_signKey sg) = Inr u"
    "tb_ucanIssues tb = []"
  shows "\<exists>m tb'. mintUcan E sg now inp tb = (Inr m, tb')"
  using assms by (simp add: mintUcan_def record_issue_def Let_def)

lemma demo_who_permitted: "requirePermission R_agents A_update demo_who = Inr ()"
proof -
  have "hasPermission admin R_agents A_update" by code_simp
  then show ?thesis by (simp add: requirePermission_def demo_who_def)
qed

lemma demo_body_commands:
  "Option.bind (Some demo_mint_body) parseMintBody =
     Some \<lparr>mb_commands = [''/fs/read''], mb_ttlSeconds = None, mb_oauthConnectionId = None, mb_cloudConnectionId = None\<rparr>"
  by (simp add: demo_mint_body_def parseMintBody_def jget_def z_array_def z_match_def demo_commands z_ttl_def z_opt_def)

lemma demo_route_mints:
  assumes "same_agents_and_connections demo_keyed tb" "tb_ucanIssues tb = []"
  obtains us tb' where "mint_body demo_env demo_signing False (\<lambda>i. 1000000) demo_who (Some demo_mint_body) tb = (Mint_ok us, tb')"
    "length us = 1"
proof -
  let ?inp = "route_input demo_who 600 1000000 ''/fs/read'' Res_none"
  let ?p = "mint_payload demo_signing 1000 ?inp demo_approved_agent"
  have a0: "agent_of demo_keyed ''c1'' ''a1'' = Some demo_approved_agent"
    by (simp add: agent_of_def demo_keyed_def demo_approved_agent_def demo_agent_row_def)
  have a: "agent_of tb (mi_customerId ?inp) (mi_agentId ?inp) = Some demo_approved_agent"
    using agent_of_same [OF assms(1)] a0 by (simp add: route_input_def demo_who_def)
  have st: "ag_status demo_approved_agent = status_active" by (simp add: demo_approved_agent_def demo_agent_row_def)
  have chk: "mint_checks ?inp tb = None"
    by (simp add: mint_checks_def policy_check_def oauth_check_def cloud_check_def route_input_def str_truthy_def)
  have sel: "p_iss ?p = demo_did (demo_key CHR ''a'')" "p_aud ?p = demo_did (demo_key CHR ''b'')"
    by (simp_all add: mint_payload_def demo_signing_def demo_approved_agent_def demo_agent_row_def)
  have wf: "wf_payload ?p"
    by (simp add: wf_payload_def sel demo_did_regex) (simp add: mint_payload_def route_input_def demo_commands)
  have plain: "serialisable (JObj (payloadObj ?p))"
    by (simp add: mint_payload_def payloadObj_def mint_meta_def route_input_def opt_str_def opt_json_def given_def str_truthy_def)
  obtain u where u: "issueUcan demo_env ?p (demo_key CHR ''a'') = Inr u"
    by (rule demo_issues [OF demo_key_length demo_key_length sel wf plain])
  obtain m tb' where m: "mintUcan demo_env demo_signing 1000000 ?inp tb = (Inr m, tb')"
    using mintUcan_succeeds [OF a st chk _ assms(2), of demo_env demo_signing 1000000 u] u by (auto simp: demo_signing_def)
  have conn: "filter (\<lambda>c. oc_customerId c = ''c1'' \<and> oc_connector c = ''fs'') (tb_oauthConnections tb) = []"
    using assms(1) by (simp add: same_agents_and_connections_def demo_keyed_def demo_tables_def)
  have split: "split_on CHR ''/'' ''/fs/read'' = [[], ''fs'', ''read'']" by simp
  have inf: "infer_connection False ''c1'' tb ''/fs/read'' [] = (Resolved Res_none, [(''fs'', Res_none)])"
    unfolding infer_connection_def split by (simp add: CLOUD_CONNECTORS_def conn only_one_def)
  have "mint_commands demo_env demo_signing False (\<lambda>i. 1000000) demo_who Inferred 600 [] 2 [''/fs/read''] tb = (Mint_ok [(''/fs/read'', m)], tb')"
    using m inf by (simp add: resolve_connection_def demo_who_def)
  then have "mint_body demo_env demo_signing False (\<lambda>i. 1000000) demo_who (Some demo_mint_body) tb = (Mint_ok [(''/fs/read'', m)], tb')"
    unfolding mint_body_def demo_body_commands option.case
    by (simp add: str_truthy_def mint_resolver_def ttl_or_default_def MINT_DEFAULT_TTL_SECONDS_def)
  with that show ?thesis by simp
qed

theorem mint_route_sound_witness:
  "\<exists>us tb' who. mint_ucan_route demo_env demo_signing False (\<lambda>i. 1000000) demo_key_request (Some demo_mint_body) demo_keyed
       = (Mint_ok us, tb') \<and> length us = 1 \<and>
     (\<forall>(command, m) \<in> set us. command = ''/fs/read'' \<and> meta_string ''agent_id'' (mr_payload m) = Some ''a1'')"
proof -
  obtain tb1 where auth: "apiKeyAuth demo_env 1000000 demo_key_request demo_keyed = (Inr demo_who, tb1)" by (rule demo_auth)
  note t1 = apiKeyAuth_tables [OF auth]
  have u0: "used use_mint (getUsage 1000000 ''c1'' tb1) = 0" "sn_cap (getUsage 1000000 ''c1'' tb1) = PLAN_CAPS plan_free"
    using t1 by (simp_all add: getUsage_def Let_def usage_row_def plan_of_def demo_keyed_def demo_tables_def)
  obtain s tb2 where inc: "increment 1000000 (ki_customerId demo_who) use_mint tb1 = (Inr s, tb2)"
    by (cases "increment_upsert use_mint (getUsage 1000000 ''c1'' tb1) tb1")
      (use u0 in \<open>simp add: increment_def increment_check_def Let_def demo_who_def\<close>)
  note t2 = increment_tables [OF inc]
  have "same_agents_and_connections demo_keyed tb2" "tb_ucanIssues tb2 = []"
    using t1 t2 by (simp_all add: same_agents_and_connections_def) (simp add: demo_keyed_def demo_tables_def)
  then obtain us tb' where us: "mint_body demo_env demo_signing False (\<lambda>i. 1000000) demo_who (Some demo_mint_body) tb2 = (Mint_ok us, tb')"
    "length us = 1" by (rule demo_route_mints)
  have route: "mint_ucan_route demo_env demo_signing False (\<lambda>i. 1000000) demo_key_request (Some demo_mint_body) demo_keyed = (Mint_ok us, tb')"
    unfolding mint_ucan_route_def auth prod.case sum.case demo_who_permitted inc by (rule us(1))
  from mint_route_sound [OF route] obtain who ttl where w: "map fst us = [''/fs/read'']"
    "\<forall>(command, m) \<in> set us. token_of who demo_keyed ttl command m"
    unfolding demo_body_commands by auto
  from us(2) obtain c m where m: "us = [(c, m)]" by (cases us) auto
  with w have tok: "token_of who demo_keyed ttl ''/fs/read'' m" "c = ''/fs/read''" by auto
  from tok(1) have "ki_agentId who = ''a1''"
    by (auto simp: token_of_def agent_of_def demo_keyed_def demo_approved_agent_def demo_agent_row_def split: if_splits)
  with tok m route us(2) show ?thesis by (auto simp: token_of_def)
qed

end
