(* ===== verification/Envelopes.thy ===== *)
theory Envelopes
  imports Minting Packs
begin

text \<open>
  Dynamic scope in the control plane: the approval envelopes (services/envelope-store.ts), the classifier of
  an intent (services/intent-classifier.ts) with its language-model verifier (services/intent-coherence.ts),
  and the endpoint POST /v1/intent (routes/intent.ts). The reply of the language model is a parameter. Of
  envelopes created at the same time the last inserted is listed first; a stored constraint that is not of
  the schema's shape matches no intent.
\<close>

subsection \<open>envelope-store.ts\<close>

record Envelope =
  el_id :: string
  el_customerId :: string
  el_agentId :: string
  el_constraint :: ResourceConstraint
  el_actions :: "string list"
  el_parentUcanCid :: "string option"
  el_createdBy :: "string option"
  el_createdAt :: int
  el_expiresAt :: "int option"
  el_revokedAt :: "int option"
  el_isStanding :: bool

definition rowToEnvelope :: "EnvelopeRow \<Rightarrow> (exn, Envelope) result" where
  "rowToEnvelope r =
     (case parseResourceConstraint (en_constraint r) of
        None \<Rightarrow> Inl ZodError
      | Some c \<Rightarrow>
          Inr \<lparr>el_id = en_id r, el_customerId = en_customerId r, el_agentId = en_agentId r, el_constraint = c,
               el_actions = en_actions r, el_parentUcanCid = en_parentUcanCid r, el_createdBy = en_createdBy r,
               el_createdAt = en_createdAt r, el_expiresAt = en_expiresAt r, el_revokedAt = en_revokedAt r,
               el_isStanding = en_isStanding r\<rparr>)"

record CreateEnvelopeInput =
  ce_customerId :: string
  ce_agentId :: string
  ce_constraint :: ResourceConstraint
  ce_actions :: "string list"
  ce_parentUcanCid :: "string option"
  ce_createdBy :: "string option"

definition envelope_row :: "string \<Rightarrow> int \<Rightarrow> int option \<Rightarrow> CreateEnvelopeInput \<Rightarrow> EnvelopeRow" where
  "envelope_row newId now expiresAt inp =
     \<lparr>en_id = newId, en_customerId = ce_customerId inp, en_agentId = ce_agentId inp,
      en_constraint = JObj (constraintObj (ce_constraint inp)), en_actions = ce_actions inp,
      en_parentUcanCid = ce_parentUcanCid inp, en_createdBy = ce_createdBy inp, en_expiresAt = expiresAt,
      en_revokedAt = None, en_isStanding = (expiresAt = None), en_createdAt = now\<rparr>"

definition insert_envelope :: "EnvelopeRow \<Rightarrow> Tables \<Rightarrow> (exn, Envelope) result \<times> Tables" where
  "insert_envelope r tb = (rowToEnvelope r, tb\<lparr>tb_envelopes := tb_envelopes tb @ [r]\<rparr>)"

definition createEnvelope ::
  "string \<Rightarrow> int \<Rightarrow> int \<Rightarrow> CreateEnvelopeInput \<Rightarrow> Tables \<Rightarrow> (exn, Envelope) result \<times> Tables" where
  "createEnvelope newId now ttlSeconds inp = insert_envelope (envelope_row newId now (Some (now + ttlSeconds * 1000)) inp)"

definition createStandingEnvelope ::
  "string \<Rightarrow> int \<Rightarrow> CreateEnvelopeInput \<Rightarrow> Tables \<Rightarrow> (exn, Envelope) result \<times> Tables" where
  "createStandingEnvelope newId now inp = insert_envelope (envelope_row newId now None inp)"

definition active_envelope :: "string \<Rightarrow> string \<Rightarrow> int \<Rightarrow> EnvelopeRow \<Rightarrow> bool" where
  "active_envelope customerId agentId now r \<longleftrightarrow>
     en_customerId r = customerId \<and> en_agentId r = agentId \<and> en_revokedAt r = None \<and>
     (case en_expiresAt r of None \<Rightarrow> True | Some t \<Rightarrow> t > now)"

definition newest_first :: "EnvelopeRow list \<Rightarrow> EnvelopeRow list" where
  "newest_first rows = rev (sort_key en_createdAt rows)"

definition listActiveEnvelopes :: "string \<Rightarrow> string \<Rightarrow> int \<Rightarrow> Tables \<Rightarrow> (exn, Envelope list) result" where
  "listActiveEnvelopes customerId agentId now tb =
     rsequence (map rowToEnvelope (newest_first (filter (active_envelope customerId agentId now) (tb_envelopes tb))))"

definition listAllForCustomer :: "string \<Rightarrow> Tables \<Rightarrow> (exn, Envelope list) result" where
  "listAllForCustomer customerId tb =
     rsequence (map rowToEnvelope (newest_first (filter (\<lambda>r. en_customerId r = customerId) (tb_envelopes tb))))"

definition findCoveringEnvelope :: "Envelope list \<Rightarrow> ResourceConstraint \<Rightarrow> string list \<Rightarrow> Envelope option" where
  "findCoveringEnvelope es c actions =
     List.find (\<lambda>e. constraintCovers (el_constraint e) c \<and> (\<forall>a \<in> set actions. a \<in> set (el_actions e))) es"

definition revocable_envelope :: "string \<Rightarrow> string \<Rightarrow> EnvelopeRow \<Rightarrow> bool" where
  "revocable_envelope customerId envelopeId r \<longleftrightarrow>
     en_id r = envelopeId \<and> en_customerId r = customerId \<and> en_revokedAt r = None"

definition revokeEnvelope :: "string \<Rightarrow> string \<Rightarrow> int \<Rightarrow> Tables \<Rightarrow> EnvelopeRow option \<times> Tables" where
  "revokeEnvelope customerId envelopeId now tb =
     (map_option (en_revokedAt_update (\<lambda>_. Some now)) (List.find (revocable_envelope customerId envelopeId) (tb_envelopes tb)),
      tb\<lparr>tb_envelopes := update_rows (revocable_envelope customerId envelopeId) (en_revokedAt_update (\<lambda>_. Some now)) (tb_envelopes tb)\<rparr>)"

definition expired_envelope :: "int \<Rightarrow> EnvelopeRow \<Rightarrow> bool" where
  "expired_envelope now r \<longleftrightarrow>
     (case en_expiresAt r of None \<Rightarrow> False | Some t \<Rightarrow> t \<le> now) \<and> en_revokedAt r = None"

definition purgeExpired :: "int \<Rightarrow> Tables \<Rightarrow> nat \<times> Tables" where
  "purgeExpired now tb =
     (length (filter (expired_envelope now) (tb_envelopes tb)),
      tb\<lparr>tb_envelopes := filter (\<lambda>r. \<not> expired_envelope now r) (tb_envelopes tb)\<rparr>)"

subsection \<open>intent-coherence.ts\<close>

record CoherenceInput =
  co_purpose :: string
  co_constraint :: ResourceConstraint
  co_actions :: "string list"
  co_requestArgs :: "obj option"

record CoherenceResult =
  ch_coherent :: bool
  ch_reason :: "string option"

text \<open>What a call of the model's API comes back with: an abort, another error, an HTTP status other than
  success, or the parsed body.\<close>

datatype llm_reply = Llm_aborted | Llm_failed | Llm_status int | Llm_body json

definition incoherent :: "string \<Rightarrow> CoherenceResult" where
  "incoherent why = \<lparr>ch_coherent = False, ch_reason = Some why\<rparr>"

definition parseModelOutput :: "env \<Rightarrow> string \<Rightarrow> CoherenceResult" where
  "parseModelOutput E t =
     (case Option.bind (braced t) (JSON_parse (e_nd E)) of
        Some (JObj ob) \<Rightarrow>
          (case jget ob ''coherent'' of
             JBool True \<Rightarrow> \<lparr>ch_coherent = True, ch_reason = None\<rparr>
           | JBool False \<Rightarrow>
               incoherent (case jget ob ''reason'' of JStr s \<Rightarrow> js_prefix 80 s | _ \<Rightarrow> ''llm_denied'')
           | _ \<Rightarrow> incoherent ''llm_malformed'')
      | _ \<Rightarrow> incoherent ''llm_malformed'')"

text \<open>\<open>json.content?.[0]?.text?.trim()\<close>: None where the member access throws, \<open>JUndef\<close> where it stops.\<close>

definition first_of :: "json \<Rightarrow> json" where
  "first_of v = (case v of JArr (x # xs) \<Rightarrow> x | JObj ob \<Rightarrow> jget ob ''0'' | _ \<Rightarrow> JUndef)"

definition text_member :: "json \<Rightarrow> json" where
  "text_member v = (case v of JObj ob \<Rightarrow> jget ob ''text'' | _ \<Rightarrow> JUndef)"

definition reply_text :: "json \<Rightarrow> string option option" where
  "reply_text body =
     (case body of
        JNull \<Rightarrow> None
      | _ \<Rightarrow>
          (let content = (case body of JObj ob \<Rightarrow> jget ob ''content'' | _ \<Rightarrow> JUndef)
           in case text_member (first_of content) of
                JStr t \<Rightarrow> Some (Some (trim t))
              | JUndef \<Rightarrow> Some None
              | JNull \<Rightarrow> Some None
              | _ \<Rightarrow> None))"

definition coherence_verdict :: "env \<Rightarrow> llm_reply \<Rightarrow> CoherenceResult" where
  "coherence_verdict E r =
     (case r of
        Llm_aborted \<Rightarrow> incoherent ''llm_timeout''
      | Llm_failed \<Rightarrow> incoherent ''llm_error''
      | Llm_status st \<Rightarrow> incoherent (''llm_http_'' @ string_of_int st)
      | Llm_body body \<Rightarrow>
          (case reply_text body of
             None \<Rightarrow> incoherent ''llm_error''
           | Some None \<Rightarrow> incoherent ''llm_empty''
           | Some (Some t) \<Rightarrow> if t = [] then incoherent ''llm_empty'' else parseModelOutput E t))"

definition buildUserMessage :: "CoherenceInput \<Rightarrow> string" where
  "buildUserMessage inp =
     join [CHR 0x0A]
       [''PURPOSE: '' @ co_purpose inp,
        ''CONSTRAINT: '' @ render (JObj (constraintObj (co_constraint inp))),
        ''ACTIONS: '' @ render (JArr (map JStr (co_actions inp))),
        ''REQUEST_ARGS: '' @ (case co_requestArgs inp of None \<Rightarrow> ''{}'' | Some a \<Rightarrow> render (JObj a))]"

definition createCoherenceVerifier :: "env \<Rightarrow> (string \<Rightarrow> llm_reply) \<Rightarrow> CoherenceInput \<Rightarrow> CoherenceResult" where
  "createCoherenceVerifier E ask inp = coherence_verdict E (ask (buildUserMessage inp))"

subsection \<open>intent-classifier.ts\<close>

definition SENSITIVE_PATH_FRAGMENTS :: "string list" where
  "SENSITIVE_PATH_FRAGMENTS =
     [''/.ssh'', ''/.aws'', ''/.gnupg'', ''/.env'', ''/secrets'', ''/credentials'', ''/private_key'', ''/id_rsa'',
      ''/id_ed25519'']"

definition SENSITIVE_GITHUB_REPOS :: "string list" where
  "SENSITIVE_GITHUB_REPOS = [''.github'', ''secrets'', ''terraform'', ''infrastructure'', ''vault'']"

definition HIGH_RISK_VERBS :: "string list" where
  "HIGH_RISK_VERBS = [''write'', ''create'', ''update'', ''delete'', ''execute'', ''send'', ''merge'', ''force-push'']"

datatype ClassifierStepUpReason =
  no_covering_envelope | sensitive_path | high_risk_action | org_admin_action | coherence_mismatch

datatype ClassifierDecision = Classify_mint Envelope | Classify_stepup ClassifierStepUpReason

record ClassifyInput =
  cf_constraint :: ResourceConstraint
  cf_actions :: "string list"
  cf_envelopes :: "Envelope list"
  cf_purpose :: "string option"
  cf_requestArgs :: "obj option"

definition hasSensitivePath :: "ResourceConstraint \<Rightarrow> bool" where
  "hasSensitivePath c =
     (case c of
        Filesystem f \<Rightarrow> (\<exists>frag \<in> set SENSITIVE_PATH_FRAGMENTS. js_includes (toLowerCase (fs_path_prefix f)) frag)
      | Github g \<Rightarrow>
          (case map_option toLowerCase (gh_repo g) of
             None \<Rightarrow> False
           | Some repo \<Rightarrow>
               repo \<noteq> [] \<and> (startsWith repo ''infra-'' \<or> repo \<in> set SENSITIVE_GITHUB_REPOS))
      | _ \<Rightarrow> False)"

definition hasHighRiskAction :: "string list \<Rightarrow> bool" where
  "hasHighRiskAction actions \<longleftrightarrow> (\<exists>a \<in> set actions. last (split_on CHR ''/'' a) \<in> set HIGH_RISK_VERBS)"

definition isOrgAdminAction :: "ResourceConstraint \<Rightarrow> string list \<Rightarrow> bool" where
  "isOrgAdminAction c actions =
     (case c of Github g \<Rightarrow> if gh_repo g \<noteq> None then False else hasHighRiskAction actions | _ \<Rightarrow> False)"

definition classifyIntent :: "(CoherenceInput \<Rightarrow> CoherenceResult) option \<Rightarrow> ClassifyInput \<Rightarrow> ClassifierDecision" where
  "classifyIntent verifier inp =
     (if hasSensitivePath (cf_constraint inp) then Classify_stepup sensitive_path
      else if isOrgAdminAction (cf_constraint inp) (cf_actions inp) then Classify_stepup org_admin_action
      else if hasHighRiskAction (cf_actions inp) then Classify_stepup high_risk_action
      else case findCoveringEnvelope (cf_envelopes inp) (cf_constraint inp) (cf_actions inp) of
          None \<Rightarrow> Classify_stepup no_covering_envelope
        | Some e \<Rightarrow>
            (case verifier of
               Some verify \<Rightarrow>
                 if str_truthy (cf_purpose inp) \<and>
                    \<not> ch_coherent (verify \<lparr>co_purpose = the (cf_purpose inp), co_constraint = cf_constraint inp,
                                           co_actions = cf_actions inp, co_requestArgs = cf_requestArgs inp\<rparr>)
                 then Classify_stepup coherence_mismatch else Classify_mint e
             | None \<Rightarrow> Classify_mint e))"

fun stepup_reason_text :: "ClassifierStepUpReason \<Rightarrow> string" where
  "stepup_reason_text no_covering_envelope = ''no_covering_envelope''"
| "stepup_reason_text sensitive_path = ''sensitive_path''"
| "stepup_reason_text high_risk_action = ''high_risk_action''"
| "stepup_reason_text org_admin_action = ''org_admin_action''"
| "stepup_reason_text coherence_mismatch = ''coherence_mismatch''"

text \<open>
  POST /v1/intent (routes/intent.ts) with the request schema of packages/shared-types/src/intent.ts, from the
  request to the answer and the tables afterwards. The clock gives the time of each reading in the request:
  the key check, the validation of a cosigner, the new row, the nonce, the token. The identifiers of the rows
  a request may insert are an argument.
\<close>

definition z_sized :: "nat \<Rightarrow> nat \<Rightarrow> json \<Rightarrow> string option" where
  "z_sized lo hi v = z_match (\<lambda>s. lo \<le> utf16_length s \<and> utf16_length s \<le> hi) v"

record IntentSpec =
  it_constraint :: ResourceConstraint
  it_actions :: "string list"
  it_ttlSeconds :: int
  it_purpose :: "string option"
  it_requestArgs :: "obj option"

record IntentRequest =
  ir_agentId :: string
  ir_intent :: IntentSpec
  ir_parentEnvelopeId :: "string option"
  ir_cosignerJwt :: "string option"

definition parseIntentSpec :: "json \<Rightarrow> IntentSpec option" where
  "parseIntentSpec v =
     Option.bind (as_obj v) (\<lambda>ob.
     Option.bind (parseResourceConstraint (jget ob ''constraint'')) (\<lambda>c.
     Option.bind (z_array (z_match COMMAND_REGEX) (jget ob ''actions'')) (\<lambda>actions.
     Option.bind (z_int (\<lambda>i. 0 < i \<and> i \<le> 3600) (jget ob ''ttlSeconds'')) (\<lambda>ttl.
     Option.bind (z_opt (z_sized 8 280) (jget ob ''purpose'')) (\<lambda>purpose.
     Option.bind (z_opt z_record (jget ob ''requestArgs'')) (\<lambda>args.
       if actions = [] then None
       else Some \<lparr>it_constraint = c, it_actions = actions, it_ttlSeconds = ttl, it_purpose = purpose,
                  it_requestArgs = args\<rparr>))))))"

text \<open>The agent of the key takes the place of the one in the body.\<close>

definition parseIntentRequest :: "string \<Rightarrow> json \<Rightarrow> IntentRequest option" where
  "parseIntentRequest apiKeyAgentId raw =
     (let ob = object_or_empty raw
      in if \<not> uuid_text apiKeyAgentId then None
         else Option.bind (parseIntentSpec (jget ob ''intent'')) (\<lambda>spec.
              Option.bind (z_opt (z_match uuid_text) (jget ob ''parentEnvelopeId'')) (\<lambda>parent.
              Option.bind (z_opt z_min1 (jget ob ''cosignerJwt'')) (\<lambda>cosigner.
                Some \<lparr>ir_agentId = apiKeyAgentId, ir_intent = spec, ir_parentEnvelopeId = parent, ir_cosignerJwt = cosigner\<rparr>))))"

definition ENVELOPE_DEFAULT_TTL_SECONDS :: int where "ENVELOPE_DEFAULT_TTL_SECONDS = 24 * 60 * 60"
definition ENVELOPE_COMMAND :: string where "ENVELOPE_COMMAND = ''/__envelope__''"

subsection \<open>The cosigner of an intent\<close>

datatype CosignerCheck = Cosigner_ok string bool | Cosigner_bad string

definition matchesEnvelopeSpec :: "obj \<Rightarrow> IntentSpec \<Rightarrow> bool" where
  "matchesEnvelopeSpec stored intent =
     (if jget stored ''kind'' \<noteq> JStr ''envelope'' then False
      else case parseResourceConstraint (jget stored ''constraint'') of
          None \<Rightarrow> False
        | Some c \<Rightarrow>
            if \<not> constraintCovers c (it_constraint intent) then False
            else if \<not> constraintCovers (it_constraint intent) c then False
            else (let storedActions = (case jget stored ''actions'' of JArr vs \<Rightarrow> vs | _ \<Rightarrow> [])
                  in length storedActions = length (it_actions intent) \<and>
                     (\<forall>a \<in> set (it_actions intent). JStr a \<in> set storedActions)))"

definition validateCosignerForIntent :: "env \<Rightarrow> int \<Rightarrow> Tables \<Rightarrow> string \<Rightarrow> IntentSpec \<Rightarrow> CosignerCheck" where
  "validateCosignerForIntent E nowSec tb jwt intent =
     (case parseUcanJwt E jwt of
        None \<Rightarrow> Cosigner_bad ''cosigner_invalid''
      | Some u \<Rightarrow>
          (case given (meta_string ''approval_id'' (u_payload u)) of
             None \<Rightarrow> Cosigner_bad ''cosigner_invalid''
           | Some approvalId \<Rightarrow>
               (case validateUcan E nowSec jwt \<lparr>vo_audience = None, vo_expectedCommand = Some ENVELOPE_COMMAND, vo_now = None\<rparr> of
                  Invalid e \<Rightarrow> Cosigner_bad (if e = expired then ''cosigner_expired'' else ''cosigner_invalid'')
                | Valid p \<Rightarrow>
                    (case getStepUpApproval (tb_core tb) approvalId of
                       None \<Rightarrow> Cosigner_bad ''cosigner_invalid''
                     | Some approval \<Rightarrow>
                         if pa_state approval \<noteq> st_approved then Cosigner_bad ''cosigner_invalid''
                         else if pa_cosignerAttestationJwt approval \<noteq> Some jwt then Cosigner_bad ''cosigner_mismatch''
                         else if \<not> matchesEnvelopeSpec (pa_resource approval) intent then Cosigner_bad ''cosigner_mismatch''
                         else Cosigner_ok (case pa_decidedBy approval of None \<Rightarrow> [] | Some user \<Rightarrow> user)
                                (meta_string ''mode'' (u_payload u) = Some ''standing'')))))"

subsection \<open>The endpoint\<close>

datatype intent_answer = Intent_mint string string int | Intent_stepup string string | Intent_refused int string | Intent_crashed

definition intent_mint_input :: "KeyIdentity \<Rightarrow> int \<Rightarrow> string \<Rightarrow> IntentSpec \<Rightarrow> MintInput" where
  "intent_mint_input who stamp envelopeId intent =
     \<lparr>mi_customerId = ki_customerId who, mi_agentId = ki_agentId who, mi_command = hd (it_actions intent),
      mi_policyId = None, mi_oauthConnectionId = None, mi_cloudConnectionId = None,
      mi_ttlSeconds = it_ttlSeconds intent, mi_nonce = string_of_int stamp @ ''-intent-'' @ envelopeId,
      mi_contextHints = None, mi_resourceConstraint = Some (it_constraint intent), mi_mode = Some ''dynamic''\<rparr>"

definition intent_mint ::
  "env \<Rightarrow> signing \<Rightarrow> (nat \<Rightarrow> int) \<Rightarrow> KeyIdentity \<Rightarrow> Envelope \<Rightarrow> IntentSpec \<Rightarrow> Tables \<Rightarrow> intent_answer \<times> Tables" where
  "intent_mint E sg clock who envelope intent tb =
     (case mintUcan E sg (clock 4) (intent_mint_input who (clock 3) (el_id envelope) intent) tb of
        (Inl e, tb') \<Rightarrow> (Intent_crashed, tb')
      | (Inr u, tb') \<Rightarrow> (Intent_mint (mr_jwt u) (el_id envelope) (mr_expiresAt u div 1000), tb'))"

definition envelope_input :: "KeyIdentity \<Rightarrow> string \<Rightarrow> IntentSpec \<Rightarrow> CreateEnvelopeInput" where
  "envelope_input who user intent =
     \<lparr>ce_customerId = ki_customerId who, ce_agentId = ki_agentId who, ce_constraint = it_constraint intent,
      ce_actions = it_actions intent, ce_parentUcanCid = None, ce_createdBy = Some user\<rparr>"

definition intent_retry ::
  "env \<Rightarrow> signing \<Rightarrow> (nat \<Rightarrow> int) \<Rightarrow> string \<Rightarrow> KeyIdentity \<Rightarrow> string \<Rightarrow> IntentSpec \<Rightarrow> Tables \<Rightarrow> intent_answer \<times> Tables" where
  "intent_retry E sg clock newId who jwt intent tb =
     (case validateCosignerForIntent E (clock 1 div 1000) tb jwt intent of
        Cosigner_bad why \<Rightarrow> (Intent_refused (if why = ''cosigner_expired'' then 401 else 403) why, tb)
      | Cosigner_ok user standing \<Rightarrow>
          (case (if standing then createStandingEnvelope newId (clock 2) (envelope_input who user intent) tb
                 else createEnvelope newId (clock 2) ENVELOPE_DEFAULT_TTL_SECONDS (envelope_input who user intent) tb) of
             (Inl e, tb') \<Rightarrow> (Intent_crashed, tb')
           | (Inr envelope, tb') \<Rightarrow> intent_mint E sg clock who envelope intent tb'))"

definition envelope_resource :: "IntentSpec \<Rightarrow> ClassifierStepUpReason \<Rightarrow> obj" where
  "envelope_resource intent why =
     [(''kind'', JStr ''envelope''), (''constraint'', JObj (constraintObj (it_constraint intent))),
      (''actions'', JArr (map JStr (it_actions intent))), (''ttlSeconds'', JNum (JInt (it_ttlSeconds intent))),
      (''reason'', JStr (stepup_reason_text why))]"

definition intent_stepup_input :: "KeyIdentity \<Rightarrow> IntentSpec \<Rightarrow> ClassifierStepUpReason \<Rightarrow> StepUpCreateInput" where
  "intent_stepup_input who intent why =
     \<lparr>sc_customerId = ki_customerId who, sc_agentId = ki_agentId who, sc_command = ENVELOPE_COMMAND,
      sc_resource = envelope_resource intent why, sc_ttlSeconds = None, sc_originalUcanCid = None\<rparr>"

definition intent_stepup ::
  "env \<Rightarrow> StepUpCreateDeps \<Rightarrow> (nat \<Rightarrow> int) \<Rightarrow> string \<Rightarrow> KeyIdentity \<Rightarrow> IntentSpec \<Rightarrow> ClassifierStepUpReason \<Rightarrow> Tables \<Rightarrow>
   intent_answer \<times> Tables" where
  "intent_stepup E sd clock newId who intent why tb =
     (case createStepUpApproval E sd (clock 2) newId (intent_stepup_input who intent why) (tb_core tb) of
        (Inl e, db) \<Rightarrow> (Intent_crashed, tb\<lparr>tb_core := db\<rparr>)
      | (Inr created, db) \<Rightarrow> (Intent_stepup (sr_id created) (sr_deepLink created), tb\<lparr>tb_core := db\<rparr>))"

record intent_deps =
  id_signing :: signing
  id_stepup :: StepUpCreateDeps
  id_verifier :: "(CoherenceInput \<Rightarrow> CoherenceResult) option"

definition intent_fresh ::
  "env \<Rightarrow> intent_deps \<Rightarrow> (nat \<Rightarrow> int) \<Rightarrow> string \<Rightarrow> KeyIdentity \<Rightarrow> IntentSpec \<Rightarrow> Tables \<Rightarrow> intent_answer \<times> Tables" where
  "intent_fresh E deps clock newId who intent tb =
     (case listActiveEnvelopes (ki_customerId who) (ki_agentId who) (clock 1) tb of
        Inl e \<Rightarrow> (Intent_crashed, tb)
      | Inr envelopes \<Rightarrow>
          (case classifyIntent (id_verifier deps)
                  \<lparr>cf_constraint = it_constraint intent, cf_actions = it_actions intent, cf_envelopes = envelopes,
                   cf_purpose = it_purpose intent, cf_requestArgs = it_requestArgs intent\<rparr> of
             Classify_mint envelope \<Rightarrow> intent_mint E (id_signing deps) clock who envelope intent tb
           | Classify_stepup why \<Rightarrow> intent_stepup E (id_stepup deps) clock newId who intent why tb))"

definition intent_for ::
  "env \<Rightarrow> intent_deps \<Rightarrow> (nat \<Rightarrow> int) \<Rightarrow> string \<Rightarrow> KeyIdentity \<Rightarrow> json option \<Rightarrow> Tables \<Rightarrow> intent_answer \<times> Tables" where
  "intent_for E deps clock newId who raw tb =
     (case Option.bind raw (parseIntentRequest (ki_agentId who)) of
        None \<Rightarrow> (Intent_refused 400 ''invalid_body'', tb)
      | Some body \<Rightarrow>
          (case agent_of tb (ki_customerId who) (ki_agentId who) of
             None \<Rightarrow> (Intent_refused 404 ''agent_not_found'', tb)
           | Some agent \<Rightarrow>
               if ag_mode agent \<noteq> mode_dynamic then (Intent_refused 403 ''agent_static_mode'', tb)
               else (case given (ir_cosignerJwt body) of
                   Some jwt \<Rightarrow> intent_retry E (id_signing deps) clock newId who jwt (ir_intent body) tb
                 | None \<Rightarrow> intent_fresh E deps clock newId who (ir_intent body) tb)))"

definition intent_route ::
  "env \<Rightarrow> intent_deps \<Rightarrow> (nat \<Rightarrow> int) \<Rightarrow> string \<Rightarrow> key_request \<Rightarrow> json option \<Rightarrow> Tables \<Rightarrow> intent_answer \<times> Tables" where
  "intent_route E deps clock newId r raw tb =
     (case apiKeyAuth E (clock 0) r tb of
        (Inl (st, code), tb1) \<Rightarrow> (Intent_refused st code, tb1)
      | (Inr who, tb1) \<Rightarrow> intent_for E deps clock newId who raw tb1)"

end
