(* ===== verification/Intent_Properties.thy ===== *)
theory Intent_Properties
  imports Envelopes Mint_Route_Properties
begin

text \<open>
  What POST /v1/intent guarantees: a token it mints without asking is confined to an envelope of the agent, and
  no envelope ever comes to exist through the step-ups it files itself.
\<close>

subsection \<open>Silent mints\<close>

lemma classifyIntent_mint:
  assumes "classifyIntent verifier inp = Classify_mint e"
  shows "\<not> hasSensitivePath (cf_constraint inp) \<and> \<not> hasHighRiskAction (cf_actions inp) \<and>
    findCoveringEnvelope (cf_envelopes inp) (cf_constraint inp) (cf_actions inp) = Some e \<and>
    (\<forall>verify purpose. verifier = Some verify \<and> cf_purpose inp = Some purpose \<and> purpose \<noteq> [] \<longrightarrow>
       ch_coherent (verify \<lparr>co_purpose = purpose, co_constraint = cf_constraint inp, co_actions = cf_actions inp,
         co_requestArgs = cf_requestArgs inp\<rparr>))"
  using assms by (auto simp: classifyIntent_def str_truthy_def split: if_splits option.splits)

lemma listActive_row:
  assumes "listActiveEnvelopes c a now tb = Inr es" "e \<in> set es"
  obtains r where "r \<in> set (tb_envelopes tb)" "active_envelope c a now r" "rowToEnvelope r = Inr e"
proof -
  from assms(1) have "map rowToEnvelope (newest_first (filter (active_envelope c a now) (tb_envelopes tb))) = map Inr es"
    by (simp add: listActiveEnvelopes_def rsequence_Inr_iff)
  then have "Inr e \<in> rowToEnvelope ` set (newest_first (filter (active_envelope c a now) (tb_envelopes tb)))"
    using assms(2) by (metis image_eqI set_map)
  with that show ?thesis by (auto simp: newest_first_def)
qed

lemma intent_mint_ok:
  assumes "intent_mint E sg clock who e spec tb = (Intent_mint jwt i x, tb')"
  obtains m where "mintUcan E sg (clock 4) (intent_mint_input who (clock 3) (el_id e) spec) tb = (Inr m, tb')"
    "jwt = mr_jwt m" "i = el_id e"
  using assms by (auto simp: intent_mint_def split: prod.splits sum.splits)

lemma intent_for_fresh:
  assumes "intent_for E deps clock newId who raw tb = (Intent_mint jwt i x, tb')"
    "Option.bind raw (parseIntentRequest (ki_agentId who)) = Some body" "given (ir_cosignerJwt body) = None"
  obtains es e where "listActiveEnvelopes (ki_customerId who) (ki_agentId who) (clock 1) tb = Inr es"
    "classifyIntent (id_verifier deps)
       \<lparr>cf_constraint = it_constraint (ir_intent body), cf_actions = it_actions (ir_intent body), cf_envelopes = es,
        cf_purpose = it_purpose (ir_intent body), cf_requestArgs = it_requestArgs (ir_intent body)\<rparr> = Classify_mint e"
    "intent_mint E (id_signing deps) clock who e (ir_intent body) tb = (Intent_mint jwt i x, tb')"
proof -
  from assms(1) have f: "intent_fresh E deps clock newId who (ir_intent body) tb = (Intent_mint jwt i x, tb')"
    by (auto simp: intent_for_def assms(2,3) split: option.splits if_splits)
  then obtain es where es: "listActiveEnvelopes (ki_customerId who) (ki_agentId who) (clock 1) tb = Inr es"
    by (auto simp: intent_fresh_def split: sum.splits)
  note g = f [unfolded intent_fresh_def es sum.case]
  then obtain e where "classifyIntent (id_verifier deps)
       \<lparr>cf_constraint = it_constraint (ir_intent body), cf_actions = it_actions (ir_intent body), cf_envelopes = es,
        cf_purpose = it_purpose (ir_intent body), cf_requestArgs = it_requestArgs (ir_intent body)\<rparr> = Classify_mint e"
    by (auto simp: intent_stepup_def split: ClassifierDecision.splits prod.splits sum.splits)
  with g es that show ?thesis by simp
qed

lemma intent_token_parsed:
  assumes "mintUcan E sg now (intent_mint_input who stamp i spec) tb = (Inr m, tb')" "nfc_fixes (e_nfc E)"
    "stable_constraint E (it_constraint spec)"
    "\<forall>r \<in> set (tb_ucanIssues tb'). is_jwt r = mr_jwt m \<longrightarrow> numerals_ok (e_nd E) (JObj (payloadObj (is_payload r)))"
  obtains v where "parseUcanJwt E (mr_jwt m) = Some v" "p_cmd (u_payload v) = hd (it_actions spec)"
    "extractResourceConstraint (p_meta (u_payload v)) = Inr (Some (it_constraint spec))"
proof -
  let ?inp = "intent_mint_input who stamp i spec"
  obtain agent u where iss: "issueUcan E (mint_payload sg (now div 1000) ?inp agent) (sg_signKey sg) = Inr u"
    and rec: "record_issue (mi_customerId ?inp) (mi_agentId ?inp) (mint_payload sg (now div 1000) ?inp agent)
       ((now div 1000 + mi_ttlSeconds ?inp) * 1000) u tb = Some tb'" and m: "mr_jwt m = ui_jwt u"
    by (rule mintUcan_ok [OF assms(1)]) simp
  let ?p = "mint_payload sg (now div 1000) ?inp agent"
  have num: "numerals_ok (e_nd E) (JObj (payloadObj ?p))"
    using assms(4) record_issue_Some(1) [OF rec] m by (simp del: numerals_ok.simps)
  obtain v where v: "parseUcanJwt E (ui_jwt u) = Some v" "u_payload v = norm_payload (e_nfc E) (ui_payload u)"
    "p_meta (u_payload v) = map_option (norm_members (e_nfc E)) (p_meta ?p)"
    by (rule issued_parse [OF assms(2) iss num]) simp
  have "p_cmd (u_payload v) = mi_command ?inp"
    unfolding v(2) norm_payload_sel using issueUcan_parts [OF iss] by (metis (no_types) UcanPayload.select_convs(3) mint_payload_def)
  moreover have "extractResourceConstraint (Some (norm_members (e_nfc E) (mint_meta ?inp (ag_id agent)))) = Inr (mi_resourceConstraint ?inp)"
    by (rule stamped_constraint [OF assms(2) mint_meta_keys mint_meta_get(3)])
      (use assms(3) in \<open>simp add: intent_mint_input_def\<close>)
  ultimately show ?thesis
    using that v(1,3) m by (simp add: intent_mint_input_def mint_payload_def)
qed

lemma single_chain_leaf:
  assumes "validateChain E clock [jwt] opts = Inr (ChainValid root leaf)" "parseUcanJwt E jwt = Some v"
  shows "leaf = u_payload v" "\<forall>c. vo_expectedCommand opts = Some c \<longrightarrow> actionMatchesGranted (p_cmd leaf) c"
proof -
  from assms(1) have "validateUcan E (clock 0) jwt opts = Valid leaf"
    by (cases opts) (auto simp: validateChain_def Let_def rbind_Inr_iff split: Ucan.ValidateResult.splits sum.splits)
  then show "leaf = u_payload v" "\<forall>c. vo_expectedCommand opts = Some c \<longrightarrow> actionMatchesGranted (p_cmd leaf) c"
    using assms(2) unfolding validateUcan_Valid_iff by auto
qed

lemma allowed_single_token:
  assumes "decide E C clock inp = Inr d" "d_allow d" "decide_jwts inp = [jwt]" "parseUcanJwt E jwt = Some v"
    "extractResourceConstraint (p_meta (u_payload v)) = Inr (Some c)"
  shows "constraintMatchesResource c (rq_resource (di_request inp))"
    "actionMatchesGranted (p_cmd (u_payload v)) (rq_command (di_request inp))"
proof -
  obtain root leaf k er where v: "validateChain E (\<lambda>_. clock) (decide_jwts inp) (chain_options (decide_now clock inp) inp) = Inr (ChainValid root leaf)"
    and k: "extractResourceConstraint (p_meta leaf) = Inr k" "\<forall>x. k = Some x \<longrightarrow> constraintMatchesResource x (rq_resource (di_request inp))"
    by (rule decide_allow [OF assms(1,2)])
  note leaf = single_chain_leaf [OF v [unfolded assms(3)] assms(4)]
  show "constraintMatchesResource c (rq_resource (di_request inp))" using k assms(5) unfolding leaf(1) by simp
  show "actionMatchesGranted (p_cmd (u_payload v)) (rq_command (di_request inp))"
    using leaf by (simp add: chain_options_def)
qed

text \<open>C8: When POST /v1/intent mints without asking, the intent names no sensitive path or repository and no
  high-risk verb, and an active envelope of the customer and the agent covers it: its constraint covers the
  intent's and it lists every action. The token then opens nothing beyond the envelope: whatever decide()
  allows the token alone is a command under the intent's first action, on a resource the envelope's own
  constraint admits.\<close>

theorem silent_intent_confined:
  assumes "intent_for E deps clock newId who raw tb = (Intent_mint jwt i x, tb')"
    "Option.bind raw (parseIntentRequest (ki_agentId who)) = Some body" "given (ir_cosignerJwt body) = None"
    "nfc_fixes (e_nfc E)" "stable_constraint E (it_constraint (ir_intent body))"
    "\<forall>r \<in> set (tb_ucanIssues tb'). is_jwt r = jwt \<longrightarrow> numerals_ok (e_nd E) (JObj (payloadObj (is_payload r)))"
  shows "\<exists>r e. r \<in> set (tb_envelopes tb) \<and> active_envelope (ki_customerId who) (ki_agentId who) (clock 1) r \<and>
    rowToEnvelope r = Inr e \<and> el_id e = i \<and>
    constraintCovers (el_constraint e) (it_constraint (ir_intent body)) \<and>
    set (it_actions (ir_intent body)) \<subseteq> set (el_actions e) \<and>
    \<not> hasSensitivePath (it_constraint (ir_intent body)) \<and> \<not> hasHighRiskAction (it_actions (ir_intent body)) \<and>
    (\<forall>C now inp d. decide E C now inp = Inr d \<and> d_allow d \<and> decide_jwts inp = [jwt] \<longrightarrow>
       actionMatchesGranted (hd (it_actions (ir_intent body))) (rq_command (di_request inp)) \<and>
       constraintMatchesResource (el_constraint e) (rq_resource (di_request inp)))"
proof -
  obtain es e where es: "listActiveEnvelopes (ki_customerId who) (ki_agentId who) (clock 1) tb = Inr es"
    and cls: "classifyIntent (id_verifier deps)
       \<lparr>cf_constraint = it_constraint (ir_intent body), cf_actions = it_actions (ir_intent body), cf_envelopes = es,
        cf_purpose = it_purpose (ir_intent body), cf_requestArgs = it_requestArgs (ir_intent body)\<rparr> = Classify_mint e"
    and mint: "intent_mint E (id_signing deps) clock who e (ir_intent body) tb = (Intent_mint jwt i x, tb')"
    by (rule intent_for_fresh [OF assms(1-3)])
  from classifyIntent_mint [OF cls] have quiet: "\<not> hasSensitivePath (it_constraint (ir_intent body))"
    "\<not> hasHighRiskAction (it_actions (ir_intent body))"
    and cov: "findCoveringEnvelope es (it_constraint (ir_intent body)) (it_actions (ir_intent body)) = Some e" by simp_all
  from cov have e: "e \<in> set es" "constraintCovers (el_constraint e) (it_constraint (ir_intent body))"
    "set (it_actions (ir_intent body)) \<subseteq> set (el_actions e)"
    by (auto simp: findCoveringEnvelope_def find_Some_iff)
  obtain r where r: "r \<in> set (tb_envelopes tb)" "active_envelope (ki_customerId who) (ki_agentId who) (clock 1) r"
    "rowToEnvelope r = Inr e" by (rule listActive_row [OF es e(1)])
  obtain m where m: "mintUcan E (id_signing deps) (clock 4) (intent_mint_input who (clock 3) (el_id e) (ir_intent body)) tb = (Inr m, tb')"
    "jwt = mr_jwt m" "i = el_id e" by (rule intent_mint_ok [OF mint])
  obtain v where v: "parseUcanJwt E jwt = Some v" "p_cmd (u_payload v) = hd (it_actions (ir_intent body))"
    "extractResourceConstraint (p_meta (u_payload v)) = Inr (Some (it_constraint (ir_intent body)))"
    unfolding m(2) by (rule intent_token_parsed [OF m(1) assms(4,5) assms(6) [unfolded m(2)]])
  have "actionMatchesGranted (hd (it_actions (ir_intent body))) (rq_command (di_request inp)) \<and>
      constraintMatchesResource (el_constraint e) (rq_resource (di_request inp))"
    if "decide E C now inp = Inr d" "d_allow d" "decide_jwts inp = [jwt]" for C now inp d
    using allowed_single_token [OF that v(1,3)] covers_sound [OF e(2)] v(2) by simp
  with r e quiet m(3) show ?thesis by blast
qed

definition demo_uuid :: string where "demo_uuid = ''00000000-0000-0000-0000-000000000001''"

definition demo_dynamic_agent :: AgentRow where
  "demo_dynamic_agent = demo_agent_row\<lparr>ag_id := demo_uuid\<rparr>"

definition demo_envelope :: EnvelopeRow where
  "demo_envelope =
     \<lparr>en_id = ''e1'', en_customerId = ''c1'', en_agentId = demo_uuid,
      en_constraint = JObj [(''provider'', JStr ''filesystem''), (''path_prefix'', JStr ''/home'')],
      en_actions = [''/fs/read''], en_parentUcanCid = None, en_createdBy = None, en_expiresAt = None, en_revokedAt = None,
      en_isStanding = True, en_createdAt = 0\<rparr>"

definition demo_intent_tables :: Tables where
  "demo_intent_tables = demo_tables\<lparr>tb_core := demo_db\<lparr>db_agents := [demo_dynamic_agent]\<rparr>, tb_envelopes := [demo_envelope]\<rparr>"

definition demo_intent_who :: KeyIdentity where
  "demo_intent_who = demo_who\<lparr>ki_agentId := demo_uuid\<rparr>"

definition demo_doc :: ResourceConstraint where
  "demo_doc = Filesystem \<lparr>fs_path_prefix = ''/home/al'', fs_host = None\<rparr>"

definition demo_intent :: IntentSpec where
  "demo_intent = \<lparr>it_constraint = demo_doc, it_actions = [''/fs/read''], it_ttlSeconds = 600, it_purpose = None, it_requestArgs = None\<rparr>"

definition demo_intent_body :: json where
  "demo_intent_body = JObj [(''intent'', JObj
     [(''constraint'', JObj [(''provider'', JStr ''filesystem''), (''path_prefix'', JStr ''/home/al'')]),
      (''actions'', JArr [JStr ''/fs/read'']), (''ttlSeconds'', JNum (JInt 600))])]"

lemma demo_uuid_text: "uuid_text demo_uuid"
proof -
  have "split_on CHR ''-'' demo_uuid = [''00000000'', ''0000'', ''0000'', ''0000'', ''000000000001'']"
    by (simp add: demo_uuid_def)
  then show ?thesis by (simp add: uuid_text_def hex_text_def is_digit_alt)
qed

lemma demo_filesystem_parses:
  "p \<noteq> [] \<Longrightarrow> parseResourceConstraint (JObj [(''provider'', JStr ''filesystem''), (''path_prefix'', JStr p)]) =
     Some (Filesystem \<lparr>fs_path_prefix = p, fs_host = None\<rparr>)"
  by (simp add: parseResourceConstraint_def parseFilesystemConstraint_def jget_def z_min1_def z_match_def z_opt_def)

lemma demo_intent_parsed:
  "Option.bind (Some demo_intent_body) (parseIntentRequest demo_uuid) =
     Some \<lparr>ir_agentId = demo_uuid, ir_intent = demo_intent, ir_parentEnvelopeId = None, ir_cosignerJwt = None\<rparr>"
  by (simp add: parseIntentRequest_def demo_uuid_text demo_intent_body_def object_or_empty_def parseIntentSpec_def jget_def
      demo_filesystem_parses z_array_def z_match_def demo_commands z_int_def z_opt_def demo_intent_def demo_doc_def)

lemma demo_doc_stable: "stable_constraint demo_env demo_doc"
  by (simp add: stable_constraint_def demo_doc_def demo_nfc(1) surviving_def less_char_def opt_str_def
      parseResourceConstraint_def parseFilesystemConstraint_def jget_def z_min1_def z_match_def z_opt_def)

definition demo_intent_deps :: "StepUpCreateDeps \<Rightarrow> intent_deps" where
  "demo_intent_deps sd = \<lparr>id_signing = demo_signing, id_stepup = sd, id_verifier = None\<rparr>"

definition demo_active :: Envelope where
  "demo_active =
     \<lparr>el_id = ''e1'', el_customerId = ''c1'', el_agentId = demo_uuid,
      el_constraint = Filesystem \<lparr>fs_path_prefix = ''/home'', fs_host = None\<rparr>, el_actions = [''/fs/read''],
      el_parentUcanCid = None, el_createdBy = None, el_createdAt = 0, el_expiresAt = None, el_revokedAt = None,
      el_isStanding = True\<rparr>"

lemma demo_envelope_active: "listActiveEnvelopes ''c1'' demo_uuid 1000000 demo_intent_tables = Inr [demo_active]"
  by (simp add: listActiveEnvelopes_def demo_intent_tables_def active_envelope_def demo_envelope_def newest_first_def
      rowToEnvelope_def demo_filesystem_parses demo_active_def)

lemma demo_quiet: "\<not> hasSensitivePath demo_doc" "\<not> hasHighRiskAction [''/fs/read'']" "\<not> isOrgAdminAction demo_doc [''/fs/read'']"
proof -
  show "\<not> hasSensitivePath demo_doc" unfolding demo_doc_def by code_simp
  show "\<not> hasHighRiskAction [''/fs/read'']" by code_simp
  show "\<not> isOrgAdminAction demo_doc [''/fs/read'']" by (simp add: isOrgAdminAction_def demo_doc_def)
qed

lemma demo_classified:
  "classifyIntent None \<lparr>cf_constraint = demo_doc, cf_actions = [''/fs/read''], cf_envelopes = [demo_active], cf_purpose = None,
     cf_requestArgs = None\<rparr> = Classify_mint demo_active"
proof -
  have "constraintCovers (el_constraint demo_active) demo_doc"
    by (simp add: demo_active_def demo_doc_def constraintCovers_def coversFilesystem_def field_covers_def str_truthy_def)
  moreover have "el_actions demo_active = [''/fs/read'']" by (simp add: demo_active_def)
  ultimately show ?thesis by (simp add: classifyIntent_def demo_quiet findCoveringEnvelope_def)
qed

lemma demo_intent_mints:
  obtains m tb' where
    "mintUcan demo_env demo_signing 1000000 (intent_mint_input demo_intent_who 1000000 ''e1'' demo_intent) demo_intent_tables = (Inr m, tb')"
    "mr_payload m = mint_payload demo_signing 1000 (intent_mint_input demo_intent_who 1000000 ''e1'' demo_intent) demo_dynamic_agent"
proof -
  let ?inp = "intent_mint_input demo_intent_who 1000000 ''e1'' demo_intent"
  let ?p = "mint_payload demo_signing 1000 ?inp demo_dynamic_agent"
  have a: "agent_of demo_intent_tables (mi_customerId ?inp) (mi_agentId ?inp) = Some demo_dynamic_agent"
    by (simp add: agent_of_def demo_intent_tables_def demo_dynamic_agent_def demo_agent_row_def intent_mint_input_def
        demo_intent_who_def demo_who_def)
  have st: "ag_status demo_dynamic_agent = status_active" by (simp add: demo_dynamic_agent_def demo_agent_row_def)
  have chk: "mint_checks ?inp demo_intent_tables = None"
    by (simp add: mint_checks_def policy_check_def oauth_check_def cloud_check_def intent_mint_input_def str_truthy_def)
  have sel: "p_iss ?p = demo_did (demo_key CHR ''a'')" "p_aud ?p = demo_did (demo_key CHR ''b'')"
    by (simp_all add: mint_payload_def demo_signing_def demo_dynamic_agent_def demo_agent_row_def)
  have wf: "wf_payload ?p"
    by (simp add: wf_payload_def sel demo_did_regex) (simp add: mint_payload_def intent_mint_input_def demo_commands demo_intent_def)
  have plain: "serialisable (JObj (payloadObj ?p))"
    by (simp add: mint_payload_def payloadObj_def mint_meta_def intent_mint_input_def opt_str_def opt_json_def given_def
        str_truthy_def demo_intent_def demo_doc_def)
  obtain u where u: "issueUcan demo_env ?p (demo_key CHR ''a'') = Inr u"
    by (rule demo_issues [OF demo_key_length demo_key_length sel wf plain])
  have fresh: "tb_ucanIssues demo_intent_tables = []" by (simp add: demo_intent_tables_def demo_tables_def)
  obtain m tb' where m: "mintUcan demo_env demo_signing 1000000 ?inp demo_intent_tables = (Inr m, tb')"
    using mintUcan_succeeds [OF a st chk _ fresh, of demo_env demo_signing 1000000 u] u by (auto simp: demo_signing_def)
  from m a st chk fresh u have "mr_payload m = ?p"
    by (auto simp: mintUcan_def record_issue_def Let_def demo_signing_def)
  with m that show ?thesis by blast
qed

theorem silent_intent_confined_witness:
  "\<forall>sd. \<exists>jwt x tb' r. intent_for demo_env (demo_intent_deps sd) (\<lambda>_. 1000000) ''e2'' demo_intent_who (Some demo_intent_body)
      demo_intent_tables = (Intent_mint jwt ''e1'' x, tb') \<and>
     r \<in> set (tb_envelopes demo_intent_tables) \<and> active_envelope ''c1'' demo_uuid 1000000 r"
proof
  fix sd
  obtain m tb' where m:
    "mintUcan demo_env demo_signing 1000000 (intent_mint_input demo_intent_who 1000000 ''e1'' demo_intent) demo_intent_tables = (Inr m, tb')"
    and p: "mr_payload m = mint_payload demo_signing 1000 (intent_mint_input demo_intent_who 1000000 ''e1'' demo_intent) demo_dynamic_agent"
    by (rule demo_intent_mints)
  let ?body = "\<lparr>ir_agentId = demo_uuid, ir_intent = demo_intent, ir_parentEnvelopeId = None, ir_cosignerJwt = None\<rparr>"
  have parsed: "Option.bind (Some demo_intent_body) (parseIntentRequest (ki_agentId demo_intent_who)) = Some ?body"
    using demo_intent_parsed by (simp add: demo_intent_who_def)
  have who: "ki_customerId demo_intent_who = ''c1''" "ki_agentId demo_intent_who = demo_uuid"
    by (simp_all add: demo_intent_who_def demo_who_def)
  have ag: "agent_of demo_intent_tables ''c1'' demo_uuid = Some demo_dynamic_agent" "ag_mode demo_dynamic_agent = mode_dynamic"
    by (simp_all add: agent_of_def demo_intent_tables_def demo_dynamic_agent_def demo_agent_row_def)
  have spec: "it_constraint demo_intent = demo_doc" "it_actions demo_intent = [''/fs/read'']" "it_purpose demo_intent = None"
    "it_requestArgs demo_intent = None" by (simp_all add: demo_intent_def)
  have id: "el_id demo_active = ''e1''" by (simp add: demo_active_def)
  have run: "intent_for demo_env (demo_intent_deps sd) (\<lambda>_. 1000000) ''e2'' demo_intent_who (Some demo_intent_body) demo_intent_tables
      = (Intent_mint (mr_jwt m) ''e1'' (mr_expiresAt m div 1000), tb')"
    unfolding intent_for_def parsed option.case
    by (simp add: who ag given_def str_truthy_def intent_fresh_def demo_envelope_active spec demo_intent_deps_def demo_classified
        intent_mint_def m id)
  have num: "numerals_ok (e_nd demo_env) (JObj (payloadObj (mr_payload m)))"
    unfolding p
    by (simp add: mint_payload_def payloadObj_def mint_meta_def intent_mint_input_def opt_str_def opt_json_def given_def
        str_truthy_def demo_intent_def demo_doc_def max_exact_def)
  have "tb_ucanIssues tb' = tb_ucanIssues demo_intent_tables @ [r] \<Longrightarrow> is_payload r = mr_payload m \<Longrightarrow>
      \<forall>r \<in> set (tb_ucanIssues tb'). is_jwt r = mr_jwt m \<longrightarrow> numerals_ok (e_nd demo_env) (JObj (payloadObj (is_payload r)))" for r
    using num by (simp add: demo_intent_tables_def demo_tables_def del: numerals_ok.simps)
  moreover obtain r where "tb_ucanIssues tb' = tb_ucanIssues demo_intent_tables @ [r]" "is_payload r = mr_payload m"
    by (rule mintUcan_ok [OF m], drule record_issue_Some(1)) (simp del: numerals_ok.simps)
  ultimately have nums: "\<forall>r \<in> set (tb_ucanIssues tb'). is_jwt r = mr_jwt m \<longrightarrow>
      numerals_ok (e_nd demo_env) (JObj (payloadObj (is_payload r)))" by blast
  have "given (ir_cosignerJwt ?body) = None" "stable_constraint demo_env (it_constraint (ir_intent ?body))"
    using demo_doc_stable by (simp_all add: given_def str_truthy_def spec)
  from silent_intent_confined [OF run parsed this(1) demo_nfc(2) this(2) nums] run show
    "\<exists>jwt x tb' r. intent_for demo_env (demo_intent_deps sd) (\<lambda>_. 1000000) ''e2'' demo_intent_who (Some demo_intent_body)
      demo_intent_tables = (Intent_mint jwt ''e1'' x, tb') \<and>
     r \<in> set (tb_envelopes demo_intent_tables) \<and> active_envelope ''c1'' demo_uuid 1000000 r"
    unfolding who by blast
qed

end
