(* ===== verification/Envelope_Invariant.thy ===== *)
theory Envelope_Invariant
  imports Intent_Properties Approvals
begin

text \<open>
  The dynamic-scope subsystem as a transition system: the intent endpoint, the step-ups the decision point
  files, the operator's decisions and the upkeep of the envelopes, in any order. The clock of an approval is a
  JavaScript date, so it lies within the range of dates.
\<close>

definition MAX_DATE :: int where "MAX_DATE = 8640000000000000"

inductive dynamic_step :: "env \<Rightarrow> intent_deps \<Rightarrow> Tables \<Rightarrow> Tables \<Rightarrow> bool" for E deps where
  intent_posted:
    "newId \<notin> pa_id ` set (db_approvals (tb_core tb)) \<Longrightarrow> intent_route E deps clock newId r raw tb = (a, tb') \<Longrightarrow>
     dynamic_step E deps tb tb'"
| stepup_filed:
    "newId \<notin> pa_id ` set (db_approvals (tb_core tb)) \<Longrightarrow> \<not> actionMatchesGranted (sc_command inp) ENVELOPE_COMMAND \<Longrightarrow>
     createStepUpApproval E (id_stepup deps) now newId inp (tb_core tb) = (x, db') \<Longrightarrow>
     dynamic_step E deps tb (tb\<lparr>tb_core := db'\<rparr>)"
| operator_approves:
    "0 \<le> now \<Longrightarrow> now \<le> MAX_DATE \<Longrightarrow> mc_ttlSeconds inp = None \<Longrightarrow>
     mintCosignerForApproval E (sg_signKey (id_signing deps)) (sg_signerDid (id_signing deps)) now inp (tb_core tb) = (y, db') \<Longrightarrow>
     dynamic_step E deps tb (tb\<lparr>tb_core := db'\<rparr>)"
| operator_denies:
    "denyApproval now i c user (tb_core tb) = (ok, db') \<Longrightarrow> dynamic_step E deps tb (tb\<lparr>tb_core := db'\<rparr>)"
| cosigner_consumed:
    "consume_stepup now i (tb_core tb) = (ok, db') \<Longrightarrow> dynamic_step E deps tb (tb\<lparr>tb_core := db'\<rparr>)"
| envelope_revoked: "revokeEnvelope c i now tb = (e, tb') \<Longrightarrow> dynamic_step E deps tb tb'"
| envelopes_purged: "purgeExpired now tb = (n, tb') \<Longrightarrow> dynamic_step E deps tb tb'"

inductive dynamic_reachable :: "env \<Rightarrow> intent_deps \<Rightarrow> Tables \<Rightarrow> Tables \<Rightarrow> bool" for E deps tb0 where
  at_start: "dynamic_reachable E deps tb0 tb0"
| after_dynamic_step: "dynamic_reachable E deps tb0 tb \<Longrightarrow> dynamic_step E deps tb tb' \<Longrightarrow> dynamic_reachable E deps tb0 tb'"

subsection \<open>The invariant\<close>

definition intent_row_ok :: "env \<Rightarrow> ApprovalRow \<Rightarrow> bool" where
  "intent_row_ok E r \<longleftrightarrow>
     (if pa_command r = ENVELOPE_COMMAND then \<not> str_truthy (pa_originalUcanCid r) \<and> pa_state r \<noteq> st_approved
      else \<not> actionMatchesGranted (pa_command r) ENVELOPE_COMMAND) \<and>
     (\<forall>jwt u. pa_cosignerAttestationJwt r = Some jwt \<and> parseUcanJwt E jwt = Some u \<longrightarrow> p_cmd (u_payload u) = pa_command r)"

definition intent_rows_ok :: "env \<Rightarrow> ApprovalRow list \<Rightarrow> bool" where
  "intent_rows_ok E rows \<longleftrightarrow> distinct (map pa_id rows) \<and> (\<forall>r \<in> set rows. intent_row_ok E r)"

lemma intent_rows_update:
  assumes "intent_rows_ok E rows"
    "\<And>r. r \<in> set rows \<Longrightarrow> P r \<Longrightarrow> intent_row_ok E r \<Longrightarrow> intent_row_ok E (f r) \<and> pa_id (f r) = pa_id r"
  shows "intent_rows_ok E (update_rows P f rows)"
proof -
  have "map pa_id (update_rows P f rows) = map pa_id rows"
    using assms by (simp add: update_rows_def intent_rows_ok_def)
  moreover have "\<forall>r \<in> set (update_rows P f rows). intent_row_ok E r"
    using assms by (auto simp: set_update_rows intent_rows_ok_def)
  ultimately show ?thesis using assms(1) by (simp add: intent_rows_ok_def)
qed

lemma intent_rows_append:
  "intent_rows_ok E rows \<Longrightarrow> intent_row_ok E r \<Longrightarrow> pa_id r \<notin> pa_id ` set rows \<Longrightarrow> intent_rows_ok E (rows @ [r])"
  by (auto simp: intent_rows_ok_def)

text \<open>A step-up may be filed for another command, or for the envelope command without a token to bind to.\<close>

definition fileable :: "StepUpCreateInput \<Rightarrow> bool" where
  "fileable inp \<longleftrightarrow>
     (if sc_command inp = ENVELOPE_COMMAND then sc_originalUcanCid inp = None
      else \<not> actionMatchesGranted (sc_command inp) ENVELOPE_COMMAND)"

lemma new_row_intent_ok: "fileable inp \<Longrightarrow> cj_input job = inp \<Longrightarrow> intent_row_ok E (new_row E sd newId job)"
  by (auto simp: intent_row_ok_def new_row_def fileable_def str_truthy_def Let_def)

lemma refresh_intent_ok:
  "fileable inp \<Longrightarrow> cj_input job = inp \<Longrightarrow> pa_command r = sc_command inp \<Longrightarrow> intent_row_ok E r \<Longrightarrow>
     intent_row_ok E (refresh_row sd job r)"
  by (auto simp: intent_row_ok_def refresh_row_def fileable_def str_truthy_def Let_def)

lemma create_keeps_rows:
  assumes "createStepUpApproval E sd now newId inp db = (x, db')" "intent_rows_ok E (db_approvals db)" "fileable inp"
    "newId \<notin> pa_id ` set (db_approvals db)"
  shows "intent_rows_ok E (db_approvals db') \<and> db_agents db' = db_agents db"
proof (cases "create_begin E sd now inp db")
  case (Create_started job)
  let ?P = "same_request (computeResourceHash E (sc_resource inp)) inp"
  from Create_started have job: "cj_input job = inp" "cj_existing job = map_option pa_id (List.find ?P (db_approvals db))"
    by (auto simp: create_begin_def Let_def split: option.splits if_splits)
  from assms(1) Create_started have e: "create_end E sd newId job db = (x, db')" by (simp add: createStepUpApproval_def)
  show ?thesis
  proof (cases "List.find ?P (db_approvals db)")
    case None
    then have "\<not> list_ex ?P (db_approvals db)" by (auto simp: find_None_iff list_ex_iff)
    with e job None have "db' = db\<lparr>db_approvals := db_approvals db @ [new_row E sd newId job]\<rparr>"
      by (auto simp: create_end_def Let_def)
    moreover have "pa_id (new_row E sd newId job) = newId" by (simp add: new_row_def Let_def)
    ultimately show ?thesis
      using intent_rows_append [OF assms(2) new_row_intent_ok [OF assms(3) job(1)]] assms(4) by simp
  next
    case (Some r)
    then have r: "r \<in> set (db_approvals db)" "pa_command r = sc_command inp"
      by (auto simp: find_Some_iff same_request_def)
    then have "list_ex (\<lambda>r'. pa_id r' = pa_id r) (db_approvals db)" by (auto simp: list_ex_iff)
    with e job Some have db': "db' = db\<lparr>db_approvals := update_rows (\<lambda>r'. pa_id r' = pa_id r) (refresh_row sd job) (db_approvals db)\<rparr>"
      by (auto simp: create_end_def Let_def)
    have "intent_rows_ok E (update_rows (\<lambda>r'. pa_id r' = pa_id r) (refresh_row sd job) (db_approvals db))"
    proof (rule intent_rows_update [OF assms(2)])
      fix s assume s: "s \<in> set (db_approvals db)" "pa_id s = pa_id r" "intent_row_ok E s"
      with assms(2) r(1) have "s = r" using unique_id by (metis intent_rows_ok_def)
      with refresh_intent_ok [OF assms(3) job(1) r(2)] s(3)
      show "intent_row_ok E (refresh_row sd job s) \<and> pa_id (refresh_row sd job s) = pa_id s"
        by (simp add: refresh_row_def Let_def)
    qed
    with db' show ?thesis by simp
  qed
qed (use assms in \<open>auto simp: createStepUpApproval_def\<close>)

text \<open>The attestation of an approval carries the command of its row.\<close>

lemma cosigner_command:
  assumes "issueUcan E (cosigner_payload did t inp r cid aud) sk = Inr u" "nfc_fixes (e_nfc E)" "mc_ttlSeconds inp = None"
    "0 \<le> t" "t \<le> MAX_DATE div 1000" "parseUcanJwt E (ui_jwt u) = Some v"
  shows "p_cmd (u_payload v) = pa_command r"
proof -
  have "numerals_ok (e_nd E) (JObj (payloadObj (cosigner_payload did t inp r cid aud)))"
    using assms(3,4,5)
    by (simp add: cosigner_payload_def payloadObj_def opt_str_def opt_json_def max_exact_def MAX_DATE_def cosigner_ttl_def)
  then obtain w where w: "parseUcanJwt E (ui_jwt u) = Some w" "u_payload w = norm_payload (e_nfc E) (ui_payload u)"
    by (rule issued_parse [OF assms(2,1)]) blast
  have "p_cmd (ui_payload u) = p_cmd (cosigner_payload did t inp r cid aud)" by (rule issueUcan_parts [OF assms(1)])
  with w assms(6) show ?thesis by (simp add: cosigner_payload_def)
qed

lemma mint_keeps_rows:
  assumes "mintCosignerForApproval E sk did now inp db = (y, db')" "intent_rows_ok E (db_approvals db)"
    "nfc_fixes (e_nfc E)" "mc_ttlSeconds inp = None" "0 \<le> now" "now \<le> MAX_DATE"
  shows "intent_rows_ok E (db_approvals db') \<and> db_agents db' = db_agents db"
proof (cases "mint_begin E sk did now inp db")
  case (Inr job)
  with assms(1) have db': "db' = mint_end job db" by (simp add: mintCosignerForApproval_def)
  from Inr obtain r where r: "getStepUpForCustomer db (mc_customerId inp) (mc_approvalId inp) = Some r"
    by (auto simp: mint_begin_def split: option.splits)
  note m = Inr [unfolded mint_begin_def r option.case]
  from m obtain agent where a: "List.find (\<lambda>a. ag_id a = pa_agentId r) (db_agents db) = Some agent"
    by (auto split: if_splits option.splits)
  from m [unfolded a option.case] obtain u where u:
    "issueUcan E (cosigner_payload did (now div 1000) inp r (the (pa_originalUcanCid r)) (ag_did agent)) sk = Inr u"
    "job = \<lparr>mj_input = inp, mj_now = now, mj_jwt = ui_jwt u, mj_cosignerFor = the (pa_originalUcanCid r)\<rparr>"
    "str_truthy (pa_originalUcanCid r)"
    by (auto split: if_splits sum.splits)
  from r have mem: "r \<in> set (db_approvals db)" "pa_id r = mc_approvalId inp"
    by (auto simp: getStepUpForCustomer_def find_Some_iff)
  have ok: "intent_row_ok E r" using assms(2) mem(1) by (simp add: intent_rows_ok_def)
  have t: "0 \<le> now div 1000" "now div 1000 \<le> MAX_DATE div 1000" using assms(5,6) by (auto intro: zdiv_mono1)
  have "intent_rows_ok E (update_rows (\<lambda>s. pa_id s = mc_approvalId inp) (approve_row job) (db_approvals db))"
  proof (rule intent_rows_update [OF assms(2)])
    fix s assume s: "s \<in> set (db_approvals db)" "pa_id s = mc_approvalId inp"
    with assms(2) mem have "s = r" using unique_id by (metis intent_rows_ok_def)
    with ok u cosigner_command [OF u(1) assms(3,4) t]
    show "intent_row_ok E (approve_row job s) \<and> pa_id (approve_row job s) = pa_id s"
      by (auto simp: intent_row_ok_def approve_row_def split: if_splits)
  qed
  with db' u(2) show ?thesis by (simp add: mint_end_def)
qed (use assms in \<open>auto simp: mintCosignerForApproval_def\<close>)

lemma deny_keeps_rows:
  "denyApproval now i c user db = (ok, db') \<Longrightarrow> intent_rows_ok E (db_approvals db) \<Longrightarrow> intent_rows_ok E (db_approvals db')"
  by (auto simp: denyApproval_def deny_row_def intent_row_ok_def intro!: intent_rows_update split: if_splits)

lemma consume_keeps_rows:
  "consume_stepup now i db = (ok, db') \<Longrightarrow> intent_rows_ok E (db_approvals db) \<Longrightarrow> intent_rows_ok E (db_approvals db')"
  by (auto simp: consume_stepup_def intent_row_ok_def intro!: intent_rows_update split: if_splits)

text \<open>No cosigner passes the intent endpoint.\<close>

lemma cosigner_never_ok:
  assumes "intent_rows_ok E (db_approvals (tb_core tb))"
  shows "\<exists>why. validateCosignerForIntent E t tb jwt spec = Cosigner_bad why"
proof (cases "validateCosignerForIntent E t tb jwt spec")
  case (Cosigner_ok user standing)
  then obtain u where u: "parseUcanJwt E jwt = Some u" by (auto simp: validateCosignerForIntent_def split: option.splits)
  note v = Cosigner_ok [unfolded validateCosignerForIntent_def u option.case]
  from v obtain i p r where i: "given (meta_string ''approval_id'' (u_payload u)) = Some i"
    and p: "validateUcan E t jwt \<lparr>vo_audience = None, vo_expectedCommand = Some ENVELOPE_COMMAND, vo_now = None\<rparr> = Valid p"
    and r: "getStepUpApproval (tb_core tb) i = Some r"
    by (auto split: option.splits Ucan.ValidateResult.splits)
  from v [unfolded i p r option.case ValidateResult.case] have st: "pa_state r = st_approved" "pa_cosignerAttestationJwt r = Some jwt"
    by (auto simp: i r p split: if_splits)
  from r have "r \<in> set (db_approvals (tb_core tb))" by (auto simp: getStepUpApproval_def find_Some_iff)
  with assms have ok: "intent_row_ok E r" by (simp add: intent_rows_ok_def)
  from p u have "actionMatchesGranted (p_cmd (u_payload u)) ENVELOPE_COMMAND"
    unfolding validateUcan_Valid_iff by auto
  with ok st u show ?thesis by (auto simp: intent_row_ok_def split: if_splits)
qed simp

definition dynamic_inv :: "env \<Rightarrow> Tables \<Rightarrow> bool" where
  "dynamic_inv E tb \<longleftrightarrow> intent_rows_ok E (db_approvals (tb_core tb)) \<and> tb_envelopes tb = []"

lemma no_active_envelopes: "tb_envelopes tb = [] \<Longrightarrow> listActiveEnvelopes c a now tb = Inr []"
  by (simp add: listActiveEnvelopes_def newest_first_def)

lemma unclassified: "cf_envelopes inp = [] \<Longrightarrow> \<exists>why. classifyIntent verifier inp = Classify_stepup why"
  by (auto simp: classifyIntent_def findCoveringEnvelope_def)

lemma intent_stepup_inert:
  assumes "intent_stepup E sd clock newId who spec why tb = (a, tb')"
  shows "\<nexists>j i x. a = Intent_mint j i x" "tb_envelopes tb' = tb_envelopes tb"
    "newId \<notin> pa_id ` set (db_approvals (tb_core tb)) \<Longrightarrow> intent_rows_ok E (db_approvals (tb_core tb)) \<Longrightarrow>
       intent_rows_ok E (db_approvals (tb_core tb'))"
proof -
  show "\<nexists>j i x. a = Intent_mint j i x" "tb_envelopes tb' = tb_envelopes tb"
    using assms by (auto simp: intent_stepup_def split: prod.splits sum.splits)
  obtain x db where c: "createStepUpApproval E sd (clock 2) newId (intent_stepup_input who spec why) (tb_core tb) = (x, db)" by force
  have f: "fileable (intent_stepup_input who spec why)" by (simp add: fileable_def intent_stepup_input_def)
  assume "newId \<notin> pa_id ` set (db_approvals (tb_core tb))" "intent_rows_ok E (db_approvals (tb_core tb))"
  with create_keeps_rows [OF c _ f] assms c show "intent_rows_ok E (db_approvals (tb_core tb'))"
    by (auto simp: intent_stepup_def split: sum.splits)
qed

lemma intent_for_inert:
  assumes "intent_for E deps clock newId who raw tb = (a, tb')" "dynamic_inv E tb"
  shows "\<nexists>j i x. a = Intent_mint j i x" "tb_envelopes tb' = tb_envelopes tb"
    "newId \<notin> pa_id ` set (db_approvals (tb_core tb)) \<Longrightarrow> intent_rows_ok E (db_approvals (tb_core tb'))"
proof -
  from assms(2) have inv: "intent_rows_ok E (db_approvals (tb_core tb))" "tb_envelopes tb = []" by (simp_all add: dynamic_inv_def)
  have cases: "(\<nexists>j i x. a = Intent_mint j i x) \<and> tb' = tb \<or>
      (\<exists>spec why. intent_stepup E (id_stepup deps) clock newId who spec why tb = (a, tb'))"
  proof (cases "Option.bind raw (parseIntentRequest (ki_agentId who))")
    case (Some body)
    note b = assms(1) [unfolded intent_for_def Some option.case]
    show ?thesis
    proof (cases "agent_of tb (ki_customerId who) (ki_agentId who)")
      case (Some agent)
      note c = b [unfolded Some option.case]
      show ?thesis
      proof (cases "ag_mode agent \<noteq> mode_dynamic")
        case False
        show ?thesis
        proof (cases "given (ir_cosignerJwt body)")
          case None
          have "intent_fresh E deps clock newId who (ir_intent body) tb = (a, tb')" using c False None by simp
          moreover obtain why where "classifyIntent (id_verifier deps)
              \<lparr>cf_constraint = it_constraint (ir_intent body), cf_actions = it_actions (ir_intent body), cf_envelopes = [],
               cf_purpose = it_purpose (ir_intent body), cf_requestArgs = it_requestArgs (ir_intent body)\<rparr> = Classify_stepup why"
            using unclassified [of "\<lparr>cf_constraint = it_constraint (ir_intent body), cf_actions = it_actions (ir_intent body), cf_envelopes = [],
               cf_purpose = it_purpose (ir_intent body), cf_requestArgs = it_requestArgs (ir_intent body)\<rparr>"] by auto
          ultimately show ?thesis using no_active_envelopes [OF inv(2)] by (auto simp: intent_fresh_def)
        next
          case (Some jwt)
          obtain why where "validateCosignerForIntent E (clock 1 div 1000) tb jwt (ir_intent body) = Cosigner_bad why"
            using cosigner_never_ok [OF inv(1)] by blast
          with c False Some show ?thesis by (auto simp: intent_retry_def)
        qed
      qed (use c in auto)
    qed (use b in auto)
  qed (use assms(1) in \<open>auto simp: intent_for_def\<close>)
  show "\<nexists>j i x. a = Intent_mint j i x" "tb_envelopes tb' = tb_envelopes tb"
    using cases intent_stepup_inert(1,2) by blast+
  show "newId \<notin> pa_id ` set (db_approvals (tb_core tb)) \<Longrightarrow> intent_rows_ok E (db_approvals (tb_core tb'))"
    using cases intent_stepup_inert(3) inv(1) by blast
qed

lemma intent_route_inert:
  assumes "intent_route E deps clock newId r raw tb = (a, tb')" "dynamic_inv E tb"
  shows "\<nexists>j i x. a = Intent_mint j i x" "newId \<notin> pa_id ` set (db_approvals (tb_core tb)) \<Longrightarrow> dynamic_inv E tb'"
proof -
  obtain x tb1 where auth: "apiKeyAuth E (clock 0) r tb = (x, tb1)" by force
  have same: "tb_core tb1 = tb_core tb" "tb_envelopes tb1 = tb_envelopes tb" using apiKeyAuth_tables [OF auth] by simp_all
  with assms(2) have inv: "dynamic_inv E tb1" by (simp add: dynamic_inv_def)
  have "(\<nexists>j i x. a = Intent_mint j i x) \<and> (newId \<notin> pa_id ` set (db_approvals (tb_core tb)) \<longrightarrow> dynamic_inv E tb')"
  proof (cases x)
    case (Inl e)
    with assms(1) auth inv show ?thesis by (auto simp: intent_route_def split: prod.splits)
  next
    case (Inr who)
    with assms(1) auth have f: "intent_for E deps clock newId who raw tb1 = (a, tb')" by (simp add: intent_route_def)
    from intent_for_inert [OF f inv] inv same show ?thesis by (auto simp: dynamic_inv_def)
  qed
  then show "\<nexists>j i x. a = Intent_mint j i x" "newId \<notin> pa_id ` set (db_approvals (tb_core tb)) \<Longrightarrow> dynamic_inv E tb'" by blast+
qed

lemma dynamic_step_inv:
  assumes "dynamic_step E deps tb tb'" "dynamic_inv E tb" "nfc_fixes (e_nfc E)"
  shows "dynamic_inv E tb'"
  using assms(1)
proof cases
  case (intent_posted newId r raw a)
  then show ?thesis using intent_route_inert(2) assms(2) by blast
next
  case (stepup_filed newId inp now x db')
  have "fileable inp" using stepup_filed(3) by (auto simp: fileable_def)
  from create_keeps_rows [OF stepup_filed(4) _ this stepup_filed(2)] assms(2) stepup_filed(1) show ?thesis
    by (simp add: dynamic_inv_def)
next
  case (operator_approves now inp y db')
  from mint_keeps_rows [OF operator_approves(5) _ assms(3) operator_approves(4,2,3)] assms(2) operator_approves(1) show ?thesis
    by (simp add: dynamic_inv_def)
next
  case (operator_denies now i c user ok db')
  from deny_keeps_rows [OF operator_denies(2)] assms(2) operator_denies(1) show ?thesis by (simp add: dynamic_inv_def)
next
  case (cosigner_consumed now i ok db')
  from consume_keeps_rows [OF cosigner_consumed(2)] assms(2) cosigner_consumed(1) show ?thesis by (simp add: dynamic_inv_def)
next
  case (envelope_revoked c i now e)
  with assms(2) show ?thesis by (auto simp: dynamic_inv_def revokeEnvelope_def update_rows_def)
next
  case (envelopes_purged now n)
  with assms(2) show ?thesis by (auto simp: dynamic_inv_def purgeExpired_def)
qed

lemma dynamic_reachable_inv:
  "dynamic_reachable E deps tb0 tb \<Longrightarrow> nfc_fixes (e_nfc E) \<Longrightarrow> dynamic_inv E tb0 \<Longrightarrow> dynamic_inv E tb"
  by (induction rule: dynamic_reachable.induct) (auto intro: dynamic_step_inv)

text \<open>C26: The dynamic mode starts closed and stays closed. The endpoint files its step-ups without the identifier
  of a token, and an approval without one is never signed; so from tables without approvals and envelopes no
  sequence of intents, approvals, denials and step-ups for other commands creates an envelope, and the endpoint
  never mints. (A token for the envelope command itself, presented to the decision point, is the one way
  around, and is left out of the steps.)\<close>

theorem intents_never_approved:
  assumes "dynamic_reachable E deps tb0 tb" "nfc_fixes (e_nfc E)" "db_approvals (tb_core tb0) = []" "tb_envelopes tb0 = []"
  shows "tb_envelopes tb = [] \<and> fst (intent_route E deps clock newId r raw tb) \<noteq> Intent_mint jwt i x \<and>
    (\<forall>row \<in> set (db_approvals (tb_core tb)). pa_command row = ENVELOPE_COMMAND \<longrightarrow> pa_state row \<noteq> st_approved)"
proof -
  have "dynamic_inv E tb0" using assms(3,4) by (simp add: dynamic_inv_def intent_rows_ok_def)
  from dynamic_reachable_inv [OF assms(1,2) this] have inv: "dynamic_inv E tb" .
  obtain a tb' where "intent_route E deps clock newId r raw tb = (a, tb')" by force
  from intent_route_inert(1) [OF this inv] this inv show ?thesis
    by (auto simp: dynamic_inv_def intent_rows_ok_def intent_row_ok_def)
qed

definition demo_closed :: Tables where
  "demo_closed = demo_tables\<lparr>tb_core := demo_db\<lparr>db_agents := [demo_dynamic_agent], db_approvals := []\<rparr>,
     tb_apiKeys := [demo_api_key\<lparr>ak_agentId := Some demo_uuid\<rparr>]\<rparr>"

theorem intents_never_approved_witness:
  "\<forall>sd. let tb = snd (intent_route demo_env (demo_intent_deps sd) (\<lambda>_. 1000000) ''p1'' demo_key_request (Some demo_intent_body) demo_closed)
     in tb_envelopes tb = [] \<and>
        fst (intent_route demo_env (demo_intent_deps sd) (\<lambda>_. 2000000) ''p2'' demo_key_request (Some demo_intent_body) tb)
          \<noteq> Intent_mint ''t'' ''e1'' 0"
proof
  fix sd
  let ?r = "intent_route demo_env (demo_intent_deps sd) (\<lambda>_. 1000000) ''p1'' demo_key_request (Some demo_intent_body) demo_closed"
  have "dynamic_step demo_env (demo_intent_deps sd) demo_closed (snd ?r)"
    by (rule intent_posted [of "''p1''" _ _ _ "\<lambda>_. 1000000" demo_key_request "Some demo_intent_body" "fst ?r"])
      (simp_all add: demo_closed_def)
  then have "dynamic_reachable demo_env (demo_intent_deps sd) demo_closed (snd ?r)"
    by (rule after_dynamic_step [OF at_start])
  from intents_never_approved [OF this demo_nfc(2)] show
    "let tb = snd ?r in tb_envelopes tb = [] \<and>
       fst (intent_route demo_env (demo_intent_deps sd) (\<lambda>_. 2000000) ''p2'' demo_key_request (Some demo_intent_body) tb)
         \<noteq> Intent_mint ''t'' ''e1'' 0"
    by (simp add: demo_closed_def demo_tables_def Let_def)
qed

end
