(* ===== verification/Tenancy.thy ===== *)
theory Tenancy
  imports Minting Zod
begin

text \<open>
  The tenancy of the dashboard API: the resolution of the active organisation (trpc/context.ts), the
  permission-gated procedures (trpc/index.ts) and the routers of members, invites and organisations
  (trpc/routers/members.ts, invites.ts, organizations.ts). The session itself is better-auth's and an argument;
  so is the check \<open>z.string().email()\<close>. Notifications and the columns shown only in the interface (names,
  slugs) are left out. A check followed by an update is two round trips, so the guarded mutations of a
  membership come in two halves.
\<close>

record UserRow =
  ur_id :: string
  ur_activeCustomerId :: "string option"

record MembershipRow =
  mb_id :: string
  mb_userId :: string
  mb_customerId :: string
  mb_role :: Role

record InviteRow =
  iv_id :: string
  iv_customerId :: string
  iv_email :: string
  iv_role :: Role
  iv_tokenHash :: string
  iv_invitedBy :: string
  iv_expiresAt :: int
  iv_acceptedAt :: "int option"
  iv_revokedAt :: "int option"

record SwarmRow =
  sw_id :: string
  sw_customerId :: string
  sw_rootAgentId :: "string option"
  sw_maxDepth :: "nat option"

record ChainApprovalRow =
  cha_id :: string
  cha_customerId :: string
  cha_rootAgentId :: string
  cha_swarmId :: "string option"
  cha_scope :: obj
  cha_approvedAgentIds :: "string list"
  cha_approverEmail :: string
  cha_expiresAt :: int

record Console =
  co_tables :: Tables
  co_users :: "UserRow list"
  co_memberships :: "MembershipRow list"
  co_invites :: "InviteRow list"
  co_swarms :: "SwarmRow list"
  co_chainApprovals :: "ChainApprovalRow list"

datatype trpc_code =
  UNAUTHORIZED | FORBIDDEN | NOT_FOUND | BAD_REQUEST | CONFLICT | PRECONDITION_FAILED | INTERNAL_SERVER_ERROR

subsection \<open>context.ts\<close>

record SessionUser =
  su_id :: string
  su_email :: string

record Context =
  cx_user :: "SessionUser option"
  cx_membership :: "(string \<times> Role) option"

fun org_cookie_part :: "string list \<Rightarrow> string option" where
  "org_cookie_part [] = None"
| "org_cookie_part (part # parts) =
     (case split_on CHR ''='' part of
        rawName # rest \<Rightarrow>
          if rawName = [] \<or> trim rawName \<noteq> ''x-cb-org'' then org_cookie_part parts
          else let value = trim (join ''='' rest) in if uuid_text value then Some value else None
      | [] \<Rightarrow> org_cookie_part parts)"

definition parseOrgCookie :: "string \<Rightarrow> string option" where
  "parseOrgCookie cookieHeader =
     (if cookieHeader = [] then None else org_cookie_part (split_on CHR '';'' cookieHeader))"

definition membership_of :: "Console \<Rightarrow> string \<Rightarrow> string \<Rightarrow> MembershipRow option" where
  "membership_of st userId customerId =
     List.find (\<lambda>m. mb_userId m = userId \<and> mb_customerId m = customerId) (co_memberships st)"

definition active_org :: "Console \<Rightarrow> string \<Rightarrow> string option" where
  "active_org st userId =
     given (Option.bind (List.find (\<lambda>u. ur_id u = userId) (co_users st)) ur_activeCustomerId)"

definition owner_or_first :: "MembershipRow list \<Rightarrow> MembershipRow option" where
  "owner_or_first all =
     (case List.find (\<lambda>m. mb_role m = owner) all of
        Some m \<Rightarrow> Some m
      | None \<Rightarrow> (case all of [] \<Rightarrow> None | m # _ \<Rightarrow> Some m))"

definition resolve_membership :: "Console \<Rightarrow> string \<Rightarrow> string \<Rightarrow> MembershipRow option" where
  "resolve_membership st userId cookieHeader =
     (case Option.bind (parseOrgCookie cookieHeader) (membership_of st userId) of
        Some m \<Rightarrow> Some m
      | None \<Rightarrow>
          (case Option.bind (active_org st userId) (membership_of st userId) of
             Some m \<Rightarrow> Some m
           | None \<Rightarrow> owner_or_first (filter (\<lambda>m. mb_userId m = userId) (co_memberships st))))"

definition createContext :: "Console \<Rightarrow> SessionUser option \<Rightarrow> string \<Rightarrow> Context" where
  "createContext st session cookieHeader =
     (case session of
        None \<Rightarrow> \<lparr>cx_user = None, cx_membership = None\<rparr>
      | Some u \<Rightarrow>
          \<lparr>cx_user = Some u,
           cx_membership = map_option (\<lambda>m. (mb_customerId m, mb_role m)) (resolve_membership st (su_id u) cookieHeader)\<rparr>)"

subsection \<open>index.ts\<close>

record Caller =
  cl_user :: SessionUser
  cl_customerId :: string
  cl_role :: Role

definition requireMembership :: "Context \<Rightarrow> (trpc_code, Caller) result" where
  "requireMembership cx =
     (case cx_user cx of
        None \<Rightarrow> Inl UNAUTHORIZED
      | Some u \<Rightarrow>
          (case cx_membership cx of
             None \<Rightarrow> Inl FORBIDDEN
           | Some (c, role) \<Rightarrow>
               if c = [] then Inl FORBIDDEN else Inr \<lparr>cl_user = u, cl_customerId = c, cl_role = role\<rparr>))"

definition withPermission :: "Resource \<Rightarrow> Action \<Rightarrow> Context \<Rightarrow> (trpc_code, Caller) result" where
  "withPermission resource action cx =
     rbind (requireMembership cx) (\<lambda>cl. if hasPermission (cl_role cl) resource action then Inr cl else Inl FORBIDDEN)"

text \<open>A procedure: the gate of a permission, then the resolver.\<close>

definition procedure ::
  "Resource \<Rightarrow> Action \<Rightarrow> Context \<Rightarrow> (Caller \<Rightarrow> Console \<Rightarrow> (trpc_code, 'a) result \<times> Console) \<Rightarrow> Console \<Rightarrow>
   (trpc_code, 'a) result \<times> Console" where
  "procedure resource action cx body st =
     (case withPermission resource action cx of Inl e \<Rightarrow> (Inl e, st) | Inr cl \<Rightarrow> body cl st)"

subsection \<open>members.ts\<close>

definition countOwners :: "Console \<Rightarrow> string \<Rightarrow> nat" where
  "countOwners st customerId =
     length (filter (\<lambda>m. mb_customerId m = customerId \<and> mb_role m = owner) (co_memberships st))"

definition membership_in :: "Console \<Rightarrow> string \<Rightarrow> string \<Rightarrow> MembershipRow option" where
  "membership_in st customerId membershipId =
     List.find (\<lambda>m. mb_id m = membershipId \<and> mb_customerId m = customerId) (co_memberships st)"

definition changeRole_check :: "Caller \<Rightarrow> string \<Rightarrow> Role \<Rightarrow> Console \<Rightarrow> (trpc_code, unit) result" where
  "changeRole_check cl membershipId role st =
     (if \<not> uuid_text membershipId then Inl BAD_REQUEST
      else case membership_in st (cl_customerId cl) membershipId of
          None \<Rightarrow> Inl NOT_FOUND
        | Some target \<Rightarrow>
            if mb_role target = owner \<and> role \<noteq> owner \<and> countOwners st (cl_customerId cl) \<le> 1 then Inl BAD_REQUEST
            else Inr ())"

definition changeRole_update :: "Caller \<Rightarrow> string \<Rightarrow> Role \<Rightarrow> Console \<Rightarrow> Console" where
  "changeRole_update cl membershipId role st =
     st\<lparr>co_memberships :=
       update_rows (\<lambda>m. mb_id m = membershipId \<and> mb_customerId m = cl_customerId cl) (mb_role_update (\<lambda>_. role))
         (co_memberships st)\<rparr>"

definition changeRole :: "Context \<Rightarrow> string \<Rightarrow> Role \<Rightarrow> Console \<Rightarrow> (trpc_code, unit) result \<times> Console" where
  "changeRole cx membershipId role =
     procedure R_members A_update cx (\<lambda>cl st.
       case changeRole_check cl membershipId role st of
         Inl e \<Rightarrow> (Inl e, st)
       | Inr _ \<Rightarrow> (Inr (), changeRole_update cl membershipId role st))"

definition remove_check :: "Caller \<Rightarrow> string \<Rightarrow> Console \<Rightarrow> (trpc_code, unit) result" where
  "remove_check cl membershipId st =
     (if \<not> uuid_text membershipId then Inl BAD_REQUEST
      else case membership_in st (cl_customerId cl) membershipId of
          None \<Rightarrow> Inl NOT_FOUND
        | Some target \<Rightarrow>
            if mb_role target = owner \<and> countOwners st (cl_customerId cl) \<le> 1 then Inl BAD_REQUEST
            else if mb_userId target = su_id (cl_user cl) then Inl BAD_REQUEST
            else Inr ())"

definition remove_delete :: "string \<Rightarrow> Console \<Rightarrow> Console" where
  "remove_delete membershipId st =
     st\<lparr>co_memberships := filter (\<lambda>m. mb_id m \<noteq> membershipId) (co_memberships st)\<rparr>"

definition remove_member :: "Context \<Rightarrow> string \<Rightarrow> Console \<Rightarrow> (trpc_code, unit) result \<times> Console" where
  "remove_member cx membershipId =
     procedure R_members A_delete cx (\<lambda>cl st.
       case remove_check cl membershipId st of
         Inl e \<Rightarrow> (Inl e, st)
       | Inr _ \<Rightarrow> (Inr (), remove_delete membershipId st))"

subsection \<open>invites.ts\<close>

definition INVITE_TTL_MS :: int where "INVITE_TTL_MS = 7 * 24 * 60 * 60 * 1000"

definition acceptableRoleForInvite :: "Role list" where
  "acceptableRoleForInvite = filter (\<lambda>r. r \<noteq> owner) ROLES"

definition pending_invite :: "string \<Rightarrow> string \<Rightarrow> int \<Rightarrow> InviteRow \<Rightarrow> bool" where
  "pending_invite customerId email now i \<longleftrightarrow>
     iv_customerId i = customerId \<and> iv_email i = email \<and> iv_acceptedAt i = None \<and> iv_revokedAt i = None \<and>
     iv_expiresAt i > now"

definition create_invite ::
  "env \<Rightarrow> (string \<Rightarrow> bool) \<Rightarrow> Context \<Rightarrow> int \<Rightarrow> string \<Rightarrow> string \<Rightarrow> string \<Rightarrow> Role \<Rightarrow> Console \<Rightarrow>
   (trpc_code, string) result \<times> Console" where
  "create_invite E is_email cx now newId token email role =
     procedure R_invites A_create cx (\<lambda>cl st.
       if \<not> is_email email \<or> utf16_length email > 320 \<or> role \<notin> set acceptableRoleForInvite then (Inl BAD_REQUEST, st)
       else if list_ex (pending_invite (cl_customerId cl) email now) (co_invites st) then (Inl CONFLICT, st)
       else (Inr newId,
         st\<lparr>co_invites := co_invites st @
           [\<lparr>iv_id = newId, iv_customerId = cl_customerId cl, iv_email = email, iv_role = role,
             iv_tokenHash = sha256Hex E token, iv_invitedBy = su_id (cl_user cl), iv_expiresAt = now + INVITE_TTL_MS,
             iv_acceptedAt = None, iv_revokedAt = None\<rparr>]\<rparr>))"

definition list_invites :: "Context \<Rightarrow> Console \<Rightarrow> (trpc_code, InviteRow list) result" where
  "list_invites cx st =
     rbind (withPermission R_invites A_read cx) (\<lambda>cl.
       Inr (filter (\<lambda>i. iv_customerId i = cl_customerId cl \<and> iv_acceptedAt i = None \<and> iv_revokedAt i = None) (co_invites st)))"

definition revocable_invite :: "string \<Rightarrow> string \<Rightarrow> InviteRow \<Rightarrow> bool" where
  "revocable_invite customerId inviteId i \<longleftrightarrow>
     iv_id i = inviteId \<and> iv_customerId i = customerId \<and> iv_acceptedAt i = None \<and> iv_revokedAt i = None"

definition revoke_invite :: "Context \<Rightarrow> int \<Rightarrow> string \<Rightarrow> Console \<Rightarrow> (trpc_code, unit) result \<times> Console" where
  "revoke_invite cx now inviteId =
     procedure R_invites A_delete cx (\<lambda>cl st.
       if \<not> uuid_text inviteId then (Inl BAD_REQUEST, st)
       else if \<not> list_ex (revocable_invite (cl_customerId cl) inviteId) (co_invites st) then (Inl NOT_FOUND, st)
       else (Inr (),
         st\<lparr>co_invites := update_rows (revocable_invite (cl_customerId cl) inviteId) (iv_revokedAt_update (\<lambda>_. Some now))
              (co_invites st)\<rparr>))"

datatype accept_answer = Needs_signup Role | Wrong_account | Joined string Role

text \<open>A resolver that writes with several statements runs them without a transaction: \<open>fails k\<close> says whether the
  database fails at its k-th statement, and what the statements before it wrote stays. A single statement writes
  all of its rows or none. \<open>accept\<close> inserts the membership, marks the invite, and steers the user.\<close>

type_synonym faults = "nat \<Rightarrow> bool"

definition accept_writes ::
  "faults \<Rightarrow> int \<Rightarrow> string \<Rightarrow> SessionUser \<Rightarrow> InviteRow \<Rightarrow> Console \<Rightarrow> (trpc_code, accept_answer) result \<times> Console" where
  "accept_writes fails now newId u i st =
     (let newcomer = (membership_of st (su_id u) (iv_customerId i) = None);
          st1 = st\<lparr>co_memberships := (if newcomer
              then co_memberships st @
                [\<lparr>mb_id = newId, mb_userId = su_id u, mb_customerId = iv_customerId i, mb_role = iv_role i\<rparr>]
              else co_memberships st)\<rparr>;
          st2 = st1\<lparr>co_invites := update_rows (\<lambda>j. iv_id j = iv_id i) (iv_acceptedAt_update (\<lambda>_. Some now)) (co_invites st)\<rparr>;
          st3 = st2\<lparr>co_users := update_rows (\<lambda>r. ur_id r = su_id u)
              (ur_activeCustomerId_update (\<lambda>_. Some (iv_customerId i))) (co_users st)\<rparr>
      in if newcomer \<and> fails 0 then (Inl INTERNAL_SERVER_ERROR, st)
         else if fails 1 then (Inl INTERNAL_SERVER_ERROR, st1)
         else if fails 2 then (Inl INTERNAL_SERVER_ERROR, st2)
         else (Inr (Joined (iv_customerId i) (iv_role i)), st3))"

definition accept_invite ::
  "env \<Rightarrow> faults \<Rightarrow> Context \<Rightarrow> int \<Rightarrow> string \<Rightarrow> string \<Rightarrow> Console \<Rightarrow> (trpc_code, accept_answer) result \<times> Console" where
  "accept_invite E fails cx now newId token st =
     (if token = [] \<or> utf16_length token > 200 then (Inl BAD_REQUEST, st)
      else case List.find (\<lambda>i. iv_tokenHash i = sha256Hex E token) (co_invites st) of
          None \<Rightarrow> (Inl NOT_FOUND, st)
        | Some i \<Rightarrow>
            if iv_acceptedAt i \<noteq> None \<or> iv_revokedAt i \<noteq> None \<or> iv_expiresAt i < now then (Inl BAD_REQUEST, st)
            else (case cx_user cx of
                None \<Rightarrow> (Inr (Needs_signup (iv_role i)), st)
              | Some u \<Rightarrow>
                  if toLowerCase (su_email u) \<noteq> toLowerCase (iv_email i) then (Inr Wrong_account, st)
                  else accept_writes fails now newId u i st))"

subsection \<open>organizations.ts\<close>

definition list_organizations :: "Context \<Rightarrow> Console \<Rightarrow> (trpc_code, (string \<times> Role) list) result" where
  "list_organizations cx st =
     (case cx_user cx of
        None \<Rightarrow> Inl UNAUTHORIZED
      | Some u \<Rightarrow>
          Inr (map (\<lambda>m. (mb_customerId m, mb_role m))
            (filter (\<lambda>m. mb_userId m = su_id u \<and> list_ex (\<lambda>c. cu_id c = mb_customerId m) (tb_customers (co_tables st)))
              (co_memberships st))))"

definition switch_organization :: "Context \<Rightarrow> string \<Rightarrow> Console \<Rightarrow> (trpc_code, Role) result \<times> Console" where
  "switch_organization cx customerId st =
     (case cx_user cx of
        None \<Rightarrow> (Inl UNAUTHORIZED, st)
      | Some u \<Rightarrow>
          if \<not> uuid_text customerId then (Inl BAD_REQUEST, st)
          else (case membership_of st (su_id u) customerId of
              None \<Rightarrow> (Inl NOT_FOUND, st)
            | Some m \<Rightarrow>
                (Inr (mb_role m),
                 st\<lparr>co_users := update_rows (\<lambda>r. ur_id r = su_id u) (ur_activeCustomerId_update (\<lambda>_. Some customerId)) (co_users st)\<rparr>)))"

text \<open>
  Agent trees in the dashboard API: the router of swarms (trpc/routers/swarms.ts) and the approvals of a
  whole chain (trpc/routers/chain-approvals.ts). The walk over the children of an agent is a loop with a
  queue and no record of what it has seen, so it is a partial function: None is a walk that never ends. The
  queries that only format audit rows are left out.
\<close>

subsection \<open>swarms.ts\<close>

definition list_swarms :: "Context \<Rightarrow> Console \<Rightarrow> (trpc_code, SwarmRow list) result" where
  "list_swarms cx st =
     rbind (withPermission R_swarms A_read cx) (\<lambda>cl. Inr (filter (\<lambda>s. sw_customerId s = cl_customerId cl) (co_swarms st)))"

definition update_agents :: "(AgentRow \<Rightarrow> bool) \<Rightarrow> (AgentRow \<Rightarrow> AgentRow) \<Rightarrow> Console \<Rightarrow> Console" where
  "update_agents P f st =
     st\<lparr>co_tables := (co_tables st)\<lparr>tb_core := (tb_core (co_tables st))
       \<lparr>db_agents := update_rows P f (db_agents (tb_core (co_tables st)))\<rparr>\<rparr>\<rparr>"

definition console_agent :: "Console \<Rightarrow> string \<Rightarrow> string \<Rightarrow> AgentRow option" where
  "console_agent st customerId agentId = agent_of (co_tables st) customerId agentId"

definition create_swarm ::
  "faults \<Rightarrow> Context \<Rightarrow> string \<Rightarrow> string \<Rightarrow> string \<Rightarrow> nat option \<Rightarrow> Console \<Rightarrow> (trpc_code, string) result \<times> Console" where
  "create_swarm fails cx newId name rootAgentId maxDepth =
     procedure R_swarms A_create cx (\<lambda>cl st.
       if \<not> (1 \<le> utf16_length name \<and> utf16_length name \<le> 100) \<or> \<not> uuid_text rootAgentId \<or>
          (case maxDepth of None \<Rightarrow> False | Some d \<Rightarrow> d = 0 \<or> d > 32)
       then (Inl BAD_REQUEST, st)
       else case console_agent st (cl_customerId cl) rootAgentId of
           None \<Rightarrow> (Inl NOT_FOUND, st)
         | Some root \<Rightarrow>
             (let st1 = st\<lparr>co_swarms := co_swarms st @
                    [\<lparr>sw_id = newId, sw_customerId = cl_customerId cl, sw_rootAgentId = Some rootAgentId, sw_maxDepth = maxDepth\<rparr>]\<rparr>;
                  st2 = update_agents (\<lambda>a. ag_id a = rootAgentId)
                    (\<lambda>a. a\<lparr>ag_rootAgentId := Some rootAgentId, ag_depth := 0, ag_swarmId := Some newId\<rparr>) st1
              in if fails 0 then (Inl INTERNAL_SERVER_ERROR, st)
                 else if fails 1 then (Inl INTERNAL_SERVER_ERROR, st1)
                 else (Inr newId, st2)))"

definition attached :: "SwarmRow \<Rightarrow> AgentRow \<Rightarrow> AgentRow \<Rightarrow> AgentRow" where
  "attached swarm parent a =
     a\<lparr>ag_parentAgentId := Some (ag_id parent),
       ag_rootAgentId := (case sw_rootAgentId swarm of None \<Rightarrow> Some (ag_id parent) | Some r \<Rightarrow> Some r),
       ag_depth := ag_depth parent + 1, ag_swarmId := Some (sw_id swarm)\<rparr>"

definition attachChild ::
  "Context \<Rightarrow> string \<Rightarrow> string \<Rightarrow> string \<Rightarrow> Console \<Rightarrow> (trpc_code, unit) result \<times> Console" where
  "attachChild cx swarmId agentId parentAgentId =
     procedure R_swarms A_update cx (\<lambda>cl st.
       if \<not> (uuid_text swarmId \<and> uuid_text agentId \<and> uuid_text parentAgentId) then (Inl BAD_REQUEST, st)
       else case (List.find (\<lambda>s. sw_id s = swarmId \<and> sw_customerId s = cl_customerId cl) (co_swarms st),
                  console_agent st (cl_customerId cl) parentAgentId, console_agent st (cl_customerId cl) agentId) of
           (Some swarm, Some parent, Some child) \<Rightarrow>
             if ag_depth parent + 1 \<ge> (case sw_maxDepth swarm of None \<Rightarrow> 8 | Some d \<Rightarrow> d) then (Inl BAD_REQUEST, st)
             else (Inr (), update_agents (\<lambda>a. ag_id a = agentId) (attached swarm parent) st)
         | _ \<Rightarrow> (Inl NOT_FOUND, st))"

subsection \<open>chain-approvals.ts\<close>

definition customer_agents :: "Console \<Rightarrow> string \<Rightarrow> AgentRow list" where
  "customer_agents st customerId =
     filter (\<lambda>a. ag_customerId a = customerId) (db_agents (tb_core (co_tables st)))"

definition childrenOf :: "AgentRow list \<Rightarrow> string \<Rightarrow> string list" where
  "childrenOf all p = map ag_id (filter (\<lambda>a. str_truthy (ag_parentAgentId a) \<and> ag_parentAgentId a = Some p) all)"

partial_function (option) walk :: "(string \<Rightarrow> string list) \<Rightarrow> string list \<Rightarrow> string list \<Rightarrow> string list option" where
  "walk children queue out =
     (case queue of [] \<Rightarrow> Some out | i # rest \<Rightarrow> walk children (rest @ children i) (out @ [i]))"

definition descendantsOf :: "AgentRow list \<Rightarrow> string \<Rightarrow> string list option" where
  "descendantsOf all rootAgentId = walk (childrenOf all) [rootAgentId] []"

text \<open>An answer that never comes is None.\<close>

definition create_chain_approval ::
  "Context \<Rightarrow> int \<Rightarrow> string \<Rightarrow> string \<Rightarrow> string option \<Rightarrow> obj \<Rightarrow> int \<Rightarrow> Console \<Rightarrow>
   ((trpc_code, ChainApprovalRow) result \<times> Console) option" where
  "create_chain_approval cx now newId rootAgentId swarmId scope ttlSeconds st =
     (case withPermission R_grants A_create cx of
        Inl e \<Rightarrow> Some (Inl e, st)
      | Inr cl \<Rightarrow>
          if \<not> uuid_text rootAgentId \<or> (case swarmId of None \<Rightarrow> False | Some s \<Rightarrow> \<not> uuid_text s) \<or>
             ttlSeconds < 60 \<or> ttlSeconds > 60 * 60 * 24 * 30
          then Some (Inl BAD_REQUEST, st)
          else (case console_agent st (cl_customerId cl) rootAgentId of
              None \<Rightarrow> Some (Inl NOT_FOUND, st)
            | Some root \<Rightarrow>
                Option.bind (descendantsOf (customer_agents st (cl_customerId cl)) rootAgentId) (\<lambda>approvedIds.
                  let row = \<lparr>cha_id = newId, cha_customerId = cl_customerId cl, cha_rootAgentId = rootAgentId,
                             cha_swarmId = swarmId, cha_scope = scope, cha_approvedAgentIds = approvedIds,
                             cha_approverEmail = su_email (cl_user cl), cha_expiresAt = now + ttlSeconds * 1000\<rparr>
                  in Some (Inr row, st\<lparr>co_chainApprovals := co_chainApprovals st @ [row]\<rparr>))))"

definition list_chain_approvals :: "Context \<Rightarrow> int \<Rightarrow> Console \<Rightarrow> (trpc_code, ChainApprovalRow list) result" where
  "list_chain_approvals cx now st =
     rbind (withPermission R_grants A_read cx) (\<lambda>cl.
       Inr (filter (\<lambda>r. cha_customerId r = cl_customerId cl \<and> cha_expiresAt r \<ge> now) (co_chainApprovals st)))"

definition preview_chain_approval :: "Context \<Rightarrow> string \<Rightarrow> Console \<Rightarrow> (trpc_code, AgentRow list) result option" where
  "preview_chain_approval cx rootAgentId st =
     (case withPermission R_grants A_read cx of
        Inl e \<Rightarrow> Some (Inl e)
      | Inr cl \<Rightarrow>
          if \<not> uuid_text rootAgentId then Some (Inl BAD_REQUEST)
          else map_option (\<lambda>ids. Inr (filter (\<lambda>a. ag_id a \<in> set ids) (customer_agents st (cl_customerId cl))))
                 (descendantsOf (customer_agents st (cl_customerId cl)) rootAgentId))"

end
