(* ===== verification/Console_Agents.thy ===== *)
theory Console_Agents
  imports Tenancy Ucan Envelopes Approvals
begin

text \<open>
  The routers of the dashboard API through which an operator manages agents and their credentials:
  trpc/routers/agents.ts, api-keys.ts, ucans.ts, policies.ts, grants.ts, envelopes.ts and the decisions of
  stepup.ts. The clock, fresh ids and random bytes are arguments; pushes to decision points and chat messages
  leave no trace in the tables. Where a resolver has several statements, the database may fail between them.
  The database numbers a timestamp column of an agent as text (\<open>stamp\<close>). Queries that only
  list rows of the customer are in the model where a property reads them.
\<close>

subsection \<open>agents.ts\<close>

text \<open>The class of the name check: U+200E, U+200F, U+202A to U+202E and U+2066 to U+2069, as UTF-8.\<close>

fun has_bidi :: "string \<Rightarrow> bool" where
  "has_bidi (a # b # c # s) \<longleftrightarrow>
     a = CHR 0xE2 \<and>
       (b = CHR 0x80 \<and> c \<in> set [CHR 0x8E, CHR 0x8F, CHR 0xAA, CHR 0xAB, CHR 0xAC, CHR 0xAD, CHR 0xAE] \<or>
        b = CHR 0x81 \<and> c \<in> set [CHR 0xA6, CHR 0xA7, CHR 0xA8, CHR 0xA9]) \<or>
     has_bidi (b # c # s)"
| "has_bidi s = False"

definition display_name :: "env \<Rightarrow> nat \<Rightarrow> string \<Rightarrow> string option" where
  "display_name E most name =
     (if 1 \<le> utf16_length name \<and> utf16_length name \<le> most \<and> \<not> has_bidi name then Some (e_nfc E name) else None)"

definition lift_internal :: "(exn, 'a) result \<Rightarrow> (trpc_code, 'a) result" where
  "lift_internal r = (case r of Inl e \<Rightarrow> Inl INTERNAL_SERVER_ERROR | Inr a \<Rightarrow> Inr a)"

definition sealed_key :: "env \<Rightarrow> string option \<Rightarrow> string \<Rightarrow> string \<Rightarrow> (exn, SecretBoxCiphertext option) result" where
  "sealed_key E encryptionKey nonce privateKey =
     (case encryptionKey of
        None \<Rightarrow> Inr None
      | Some key \<Rightarrow> rbind (privateKeyToHex E privateKey) (\<lambda>hex. rbind (sealString E nonce key hex None) (\<lambda>s. Inr (Some s))))"

definition new_agent :: "string \<Rightarrow> string \<Rightarrow> string \<Rightarrow> string \<Rightarrow> string option \<Rightarrow> SecretBoxCiphertext option \<Rightarrow> AgentRow" where
  "new_agent newId customerId name did approvedAt sealed =
     \<lparr>ag_id = newId, ag_customerId = customerId, ag_name = name, ag_did = did, ag_status = status_active,
      ag_mode = mode_static, ag_stepUpOnDeny = True, ag_connectionApprovedAt = approvedAt, ag_parentAgentId = None,
      ag_rootAgentId = None, ag_depth = 0, ag_swarmId = None, ag_encryptedSigningKey = map_option ciphertextHex sealed,
      ag_signingKeyNonce = map_option nonceHex sealed\<rparr>"

definition create_agent ::
  "env \<Rightarrow> string option \<Rightarrow> Context \<Rightarrow> string \<Rightarrow> string \<Rightarrow> string \<Rightarrow> string \<Rightarrow> string \<Rightarrow> bool \<Rightarrow> Console \<Rightarrow>
   (trpc_code, string) result \<times> Console" where
  "create_agent E encryptionKey cx stamp newId seed nonce name requireApproval =
     procedure R_agents A_create cx (\<lambda>cl st.
       case display_name E 100 name of
         None \<Rightarrow> (Inl BAD_REQUEST, st)
       | Some name' \<Rightarrow>
           (case rbind (generateKeypair E seed) (\<lambda>kp.
                   rbind (sealed_key E encryptionKey nonce (kp_privateKey kp)) (\<lambda>sealed. Inr (kp, sealed))) of
              Inl e \<Rightarrow> (Inl INTERNAL_SERVER_ERROR, st)
            | Inr (kp, sealed) \<Rightarrow>
                if list_ex (\<lambda>a. ag_did a = kp_did kp) (db_agents (tb_core (co_tables st)))
                then (Inl INTERNAL_SERVER_ERROR, st)
                else (Inr newId,
                  st\<lparr>co_tables := (co_tables st)\<lparr>tb_core := (tb_core (co_tables st))
                    \<lparr>db_agents := db_agents (tb_core (co_tables st)) @
                       [new_agent newId (cl_customerId cl) name' (kp_did kp) (if requireApproval then None else Some stamp) sealed]\<rparr>\<rparr>\<rparr>)))"

definition pendingConnections :: "Context \<Rightarrow> Console \<Rightarrow> (trpc_code, AgentRow list) result" where
  "pendingConnections cx st =
     rbind (withPermission R_agents A_read cx) (\<lambda>cl.
       Inr (filter (\<lambda>a. ag_connectionApprovedAt a = None \<and> ag_status a = status_active) (customer_agents st (cl_customerId cl))))"

text \<open>An \<open>UPDATE \<dots> RETURNING\<close> of one agent of the caller's customer.\<close>

definition set_agent :: "Caller \<Rightarrow> string \<Rightarrow> (AgentRow \<Rightarrow> AgentRow) \<Rightarrow> Console \<Rightarrow> (trpc_code, unit) result \<times> Console" where
  "set_agent cl i f st =
     (if console_agent st (cl_customerId cl) i = None then (Inl NOT_FOUND, st)
      else (Inr (), update_agents (\<lambda>a. ag_id a = i \<and> ag_customerId a = cl_customerId cl) f st))"

definition approveConnection :: "Context \<Rightarrow> string \<Rightarrow> string \<Rightarrow> Console \<Rightarrow> (trpc_code, unit) result \<times> Console" where
  "approveConnection cx stamp i =
     procedure R_agents A_update cx (\<lambda>cl st.
       if \<not> uuid_text i then (Inl BAD_REQUEST, st)
       else set_agent cl i (ag_connectionApprovedAt_update (\<lambda>_. Some stamp)) st)"

definition denyConnection :: "Context \<Rightarrow> string \<Rightarrow> Console \<Rightarrow> (trpc_code, unit) result \<times> Console" where
  "denyConnection cx i =
     procedure R_agents A_update cx (\<lambda>cl st.
       if \<not> uuid_text i then (Inl BAD_REQUEST, st) else set_agent cl i (ag_status_update (\<lambda>_. status_disabled)) st)"

text \<open>\<open>set({})\<close> throws in the query builder.\<close>

definition update_agent ::
  "Context \<Rightarrow> string \<Rightarrow> string option \<Rightarrow> AgentStatus option \<Rightarrow> Console \<Rightarrow> (trpc_code, unit) result \<times> Console" where
  "update_agent cx i name status =
     procedure R_agents A_update cx (\<lambda>cl st.
       if \<not> uuid_text i \<or> (case name of None \<Rightarrow> False | Some n \<Rightarrow> \<not> (1 \<le> utf16_length n \<and> utf16_length n \<le> 100)) \<or>
          (case status of None \<Rightarrow> False | Some s \<Rightarrow> s \<noteq> status_active \<and> s \<noteq> status_disabled)
       then (Inl BAD_REQUEST, st)
       else if name = None \<and> status = None then (Inl INTERNAL_SERVER_ERROR, st)
       else set_agent cl i (\<lambda>a. a\<lparr>ag_name := (case name of None \<Rightarrow> ag_name a | Some n \<Rightarrow> n),
                                  ag_status := (case status of None \<Rightarrow> ag_status a | Some s \<Rightarrow> s)\<rparr>) st)"

definition setMode :: "Context \<Rightarrow> string \<Rightarrow> AgentMode \<Rightarrow> Console \<Rightarrow> (trpc_code, unit) result \<times> Console" where
  "setMode cx i mode =
     procedure R_agents A_update cx (\<lambda>cl st.
       if \<not> uuid_text i then (Inl BAD_REQUEST, st) else set_agent cl i (ag_mode_update (\<lambda>_. mode)) st)"

text \<open>\<open>delete\<close> marks the agent, reads the cids issued to it, revokes them and then its keys, in four statements
  without a transaction. Of the cids the conflict clause drops those already revoked.\<close>

definition issued_cids :: "string \<Rightarrow> string \<Rightarrow> Tables \<Rightarrow> string list" where
  "issued_cids customerId agentId tb =
     map is_cid (filter (\<lambda>u. is_agentId u = agentId \<and> is_customerId u = customerId) (tb_ucanIssues tb))"

definition revoke_cids :: "string \<Rightarrow> string list \<Rightarrow> Tables \<Rightarrow> Tables" where
  "revoke_cids customerId cids tb =
     tb\<lparr>tb_core := (tb_core tb)
       \<lparr>db_revocations := db_revocations (tb_core tb) @
          map (\<lambda>cid. \<lparr>rv_cid = cid, rv_customerId = customerId\<rparr>)
            (filter (\<lambda>cid. \<not> list_ex (\<lambda>r. rv_cid r = cid) (db_revocations (tb_core tb))) cids)\<rparr>\<rparr>"

definition revoke_keys :: "string \<Rightarrow> string \<Rightarrow> int \<Rightarrow> Tables \<Rightarrow> Tables" where
  "revoke_keys customerId agentId now tb =
     tb\<lparr>tb_apiKeys := update_rows
       (\<lambda>k. ak_agentId k = Some agentId \<and> ak_customerId k = customerId \<and> ak_revokedAt k = None)
       (ak_revokedAt_update (\<lambda>_. Some now)) (tb_apiKeys tb)\<rparr>"

definition delete_agent :: "faults \<Rightarrow> Context \<Rightarrow> int \<Rightarrow> string \<Rightarrow> Console \<Rightarrow> (trpc_code, nat) result \<times> Console" where
  "delete_agent fails cx now i =
     procedure R_agents A_delete cx (\<lambda>cl st.
       if \<not> uuid_text i then (Inl BAD_REQUEST, st)
       else if fails 0 then (Inl INTERNAL_SERVER_ERROR, st)
       else case set_agent cl i (ag_status_update (\<lambda>_. status_deleted)) st of
           (Inl e, st') \<Rightarrow> (Inl e, st')
         | (Inr _, st1) \<Rightarrow>
             (let c = cl_customerId cl; cids = issued_cids c i (co_tables st1);
                  st2 = (if cids = [] then st1 else st1\<lparr>co_tables := revoke_cids c cids (co_tables st1)\<rparr>)
              in if fails 1 \<or> cids \<noteq> [] \<and> fails 2 then (Inl INTERNAL_SERVER_ERROR, st1)
                 else if fails 3 then (Inl INTERNAL_SERVER_ERROR, st2)
                 else (Inr (length cids), st2\<lparr>co_tables := revoke_keys c i now (co_tables st2)\<rparr>)))"

definition assign ::
  "string \<Rightarrow> string \<Rightarrow> (string \<times> string) list \<Rightarrow> AgentPolicyRow list \<Rightarrow> AgentPolicyRow list" where
  "assign customerId user pairs rows =
     foldl (\<lambda>acc (agentId, policyId).
       if list_ex (\<lambda>r. ap_agentId r = agentId \<and> ap_policyId r = policyId) acc then acc
       else acc @ [\<lparr>ap_customerId = customerId, ap_agentId = agentId, ap_policyId = policyId,
                    ap_source = source_manual, ap_createdBy = Some user\<rparr>]) rows pairs"

definition set_mappings :: "(AgentPolicyRow list \<Rightarrow> AgentPolicyRow list) \<Rightarrow> Console \<Rightarrow> Console" where
  "set_mappings f st =
     st\<lparr>co_tables := (co_tables st)\<lparr>tb_core := (tb_core (co_tables st))
       \<lparr>db_agentPolicies := f (db_agentPolicies (tb_core (co_tables st)))\<rparr>\<rparr>\<rparr>"

definition policies_in_customer :: "Console \<Rightarrow> string \<Rightarrow> string list \<Rightarrow> bool" where
  "policies_in_customer st customerId policyIds \<longleftrightarrow>
     length (filter (\<lambda>p. po_customerId p = customerId \<and> po_id p \<in> set policyIds) (db_policies (tb_core (co_tables st)))) =
     length policyIds"

definition assignPolicies :: "Context \<Rightarrow> string \<Rightarrow> string list \<Rightarrow> Console \<Rightarrow> (trpc_code, nat) result \<times> Console" where
  "assignPolicies cx agentId policyIds =
     procedure R_agents A_update cx (\<lambda>cl st.
       if \<not> uuid_text agentId \<or> policyIds = [] \<or> \<not> list_all uuid_text policyIds then (Inl BAD_REQUEST, st)
       else if console_agent st (cl_customerId cl) agentId = None \<or> \<not> policies_in_customer st (cl_customerId cl) policyIds
       then (Inl NOT_FOUND, st)
       else (Inr (length policyIds),
             set_mappings (assign (cl_customerId cl) (su_id (cl_user cl)) (map (Pair agentId) policyIds)) st))"

definition mapping_of :: "string \<Rightarrow> string \<Rightarrow> string \<Rightarrow> AgentPolicyRow \<Rightarrow> bool" where
  "mapping_of customerId agentId policyId r \<longleftrightarrow>
     ap_agentId r = agentId \<and> ap_policyId r = policyId \<and> ap_customerId r = customerId"

definition unassignPolicy :: "Context \<Rightarrow> string \<Rightarrow> string \<Rightarrow> Console \<Rightarrow> (trpc_code, unit) result \<times> Console" where
  "unassignPolicy cx agentId policyId =
     procedure R_agents A_update cx (\<lambda>cl st.
       if \<not> uuid_text agentId \<or> \<not> uuid_text policyId then (Inl BAD_REQUEST, st)
       else if console_agent st (cl_customerId cl) agentId = None \<or>
         \<not> list_ex (mapping_of (cl_customerId cl) agentId policyId) (db_agentPolicies (tb_core (co_tables st)))
       then (Inl NOT_FOUND, st)
       else (Inr (), set_mappings (filter (\<lambda>r. \<not> mapping_of (cl_customerId cl) agentId policyId r)) st))"

subsection \<open>api-keys.ts\<close>

definition SECRET_BYTES :: nat where "SECRET_BYTES = 24"

text \<open>The plaintext of a key from the 48 hexadecimal digits of its random bytes.\<close>

definition generateKey :: "string \<Rightarrow> string \<Rightarrow> string" where
  "generateKey customerId secret = ''cb_'' @ customerId @ ''_'' @ secret"

definition set_keys :: "(ApiKeyRow list \<Rightarrow> ApiKeyRow list) \<Rightarrow> Console \<Rightarrow> Console" where
  "set_keys f st = st\<lparr>co_tables := (co_tables st)\<lparr>tb_apiKeys := f (tb_apiKeys (co_tables st))\<rparr>\<rparr>"

definition create_key ::
  "env \<Rightarrow> Context \<Rightarrow> string \<Rightarrow> string \<Rightarrow> string \<Rightarrow> string \<Rightarrow> Role option \<Rightarrow> Console \<Rightarrow> (trpc_code, string) result \<times> Console" where
  "create_key E cx newId secret agentId name role =
     procedure R_api_keys A_create cx (\<lambda>cl st.
       if \<not> uuid_text agentId \<or> \<not> (1 \<le> utf16_length name \<and> utf16_length name \<le> 100) then (Inl BAD_REQUEST, st)
       else if console_agent st (cl_customerId cl) agentId = None then (Inl NOT_FOUND, st)
       else
         (let plaintext = generateKey (cl_customerId cl) secret; keyHash = sha256Hex E plaintext
          in if list_ex (\<lambda>k. ak_keyHash k = keyHash) (tb_apiKeys (co_tables st)) then (Inl INTERNAL_SERVER_ERROR, st)
             else (Inr plaintext,
               set_keys (\<lambda>keys. keys @
                 [\<lparr>ak_id = newId, ak_customerId = cl_customerId cl, ak_agentId = Some agentId, ak_keyHash = keyHash,
                   ak_role = (case role of None \<Rightarrow> admin | Some r \<Rightarrow> r), ak_revokedAt = None, ak_lastUsedAt = None,
                   ak_lastUserAgent = None, ak_lastHost = None\<rparr>]) st)))"

definition live_key_of :: "string \<Rightarrow> string \<Rightarrow> ApiKeyRow \<Rightarrow> bool" where
  "live_key_of customerId i k \<longleftrightarrow> ak_id k = i \<and> ak_customerId k = customerId \<and> ak_revokedAt k = None"

definition update_key ::
  "Action \<Rightarrow> (ApiKeyRow \<Rightarrow> ApiKeyRow) \<Rightarrow> Context \<Rightarrow> string \<Rightarrow> Console \<Rightarrow> (trpc_code, unit) result \<times> Console" where
  "update_key action f cx i =
     procedure R_api_keys action cx (\<lambda>cl st.
       if \<not> uuid_text i then (Inl BAD_REQUEST, st)
       else if \<not> list_ex (live_key_of (cl_customerId cl) i) (tb_apiKeys (co_tables st)) then (Inl NOT_FOUND, st)
       else (Inr (), set_keys (update_rows (live_key_of (cl_customerId cl) i) f) st))"

definition update_key_role :: "Context \<Rightarrow> string \<Rightarrow> Role \<Rightarrow> Console \<Rightarrow> (trpc_code, unit) result \<times> Console" where
  "update_key_role cx i role = update_key A_update (ak_role_update (\<lambda>_. role)) cx i"

definition revoke_key :: "Context \<Rightarrow> int \<Rightarrow> string \<Rightarrow> Console \<Rightarrow> (trpc_code, unit) result \<times> Console" where
  "revoke_key cx now i = update_key A_delete (ak_revokedAt_update (\<lambda>_. Some now)) cx i"

subsection \<open>ucans.ts\<close>

record ConsoleMint =
  cm_agentId :: string
  cm_command :: string
  cm_policyId :: "string option"
  cm_oauthConnectionId :: "string option"
  cm_cloudConnectionId :: "string option"
  cm_ttlSeconds :: "int option"
  cm_nonce :: "string option"
  cm_contextHints :: "obj option"

definition mint_body_ok :: "ConsoleMint \<Rightarrow> bool" where
  "mint_body_ok m \<longleftrightarrow>
     uuid_text (cm_agentId m) \<and> COMMAND_REGEX (cm_command m) \<and> pred_option uuid_text (cm_policyId m) \<and>
     pred_option uuid_text (cm_oauthConnectionId m) \<and> pred_option uuid_text (cm_cloudConnectionId m) \<and>
     pred_option (\<lambda>t. 0 < t \<and> t \<le> 86400 * 7) (cm_ttlSeconds m) \<and>
     pred_option (\<lambda>n. 1 \<le> utf16_length n \<and> utf16_length n \<le> 64) (cm_nonce m)"

definition console_mint_input :: "string \<Rightarrow> ConsoleMint \<Rightarrow> MintInput" where
  "console_mint_input customerId m =
     \<lparr>mi_customerId = customerId, mi_agentId = cm_agentId m, mi_command = cm_command m, mi_policyId = cm_policyId m,
      mi_oauthConnectionId = cm_oauthConnectionId m, mi_cloudConnectionId = cm_cloudConnectionId m,
      mi_ttlSeconds = (case cm_ttlSeconds m of None \<Rightarrow> 3600 | Some t \<Rightarrow> t),
      mi_nonce = (case cm_nonce m of None \<Rightarrow> ''dev'' | Some n \<Rightarrow> n), mi_contextHints = cm_contextHints m,
      mi_resourceConstraint = None, mi_mode = None\<rparr>"

fun console_mint_code :: "MintError \<Rightarrow> trpc_code" where
  "console_mint_code mint_agent_missing = NOT_FOUND"
| "console_mint_code policy_not_found = NOT_FOUND"
| "console_mint_code oauth_connection_not_found = NOT_FOUND"
| "console_mint_code cloud_connection_not_found = NOT_FOUND"
| "console_mint_code cloud_connection_not_verified = PRECONDITION_FAILED"
| "console_mint_code connection_kind_conflict = BAD_REQUEST"
| "console_mint_code (Mint_threw e) = INTERNAL_SERVER_ERROR"
| "console_mint_code Mint_duplicate_cid = INTERNAL_SERVER_ERROR"
| "console_mint_code e = FORBIDDEN"

definition mint_ucan :: "env \<Rightarrow> signing \<Rightarrow> Context \<Rightarrow> int \<Rightarrow> ConsoleMint \<Rightarrow> Console \<Rightarrow> (trpc_code, MintResult) result \<times> Console" where
  "mint_ucan E sg cx now m =
     procedure R_agents A_update cx (\<lambda>cl st.
       if \<not> mint_body_ok m then (Inl BAD_REQUEST, st)
       else case mintUcan E sg now (console_mint_input (cl_customerId cl) m) (co_tables st) of
           (Inl e, tb) \<Rightarrow> (Inl (console_mint_code e), st\<lparr>co_tables := tb\<rparr>)
         | (Inr r, tb) \<Rightarrow> (Inr r, st\<lparr>co_tables := tb\<rparr>))"

definition revoke_ucan :: "Context \<Rightarrow> string \<Rightarrow> string option \<Rightarrow> Console \<Rightarrow> (trpc_code, bool) result \<times> Console" where
  "revoke_ucan cx cid reason =
     procedure R_agents A_update cx (\<lambda>cl st.
       if cid = [] \<or> \<not> pred_option (\<lambda>r. utf16_length r \<le> 500) reason then (Inl BAD_REQUEST, st)
       else if \<not> list_ex (\<lambda>u. is_cid u = cid \<and> is_customerId u = cl_customerId cl) (tb_ucanIssues (co_tables st))
       then (Inl NOT_FOUND, st)
       else (Inr (\<not> list_ex (\<lambda>r. rv_cid r = cid) (db_revocations (tb_core (co_tables st)))),
             st\<lparr>co_tables := revoke_cids (cl_customerId cl) [cid] (co_tables st)\<rparr>))"

subsection \<open>policies.ts\<close>

definition set_policies :: "(PolicyRow list \<Rightarrow> PolicyRow list) \<Rightarrow> Console \<Rightarrow> Console" where
  "set_policies f st =
     st\<lparr>co_tables := (co_tables st)\<lparr>tb_core := (tb_core (co_tables st))
       \<lparr>db_policies := f (db_policies (tb_core (co_tables st)))\<rparr>\<rparr>\<rparr>"

definition policy_in :: "Console \<Rightarrow> string \<Rightarrow> string \<Rightarrow> PolicyRow option" where
  "policy_in st customerId policyId =
     List.find (\<lambda>p. po_id p = policyId \<and> po_customerId p = customerId) (db_policies (tb_core (co_tables st)))"

definition upsert_policy ::
  "env \<Rightarrow> cedar \<Rightarrow> (string \<Rightarrow> bool) \<Rightarrow> Context \<Rightarrow> string \<Rightarrow> string option \<Rightarrow> string \<Rightarrow> string \<Rightarrow> string option \<Rightarrow>
   Console \<Rightarrow> (trpc_code, string) result \<times> Console" where
  "upsert_policy E C known_schema cx newId policyId name cedarText integrationId =
     procedure R_policies A_update cx (\<lambda>cl st.
       if \<not> pred_option uuid_text policyId \<or> cedarText = [] \<or> integrationId = Some [] then (Inl BAD_REQUEST, st)
       else case display_name E 200 name of
           None \<Rightarrow> (Inl BAD_REQUEST, st)
         | Some name' \<Rightarrow>
             if \<not> fst (parsePolicy C cedarText) then (Inl BAD_REQUEST, st)
             else if \<not> pred_option known_schema integrationId then (Inl INTERNAL_SERVER_ERROR, st)
             else (case policyId of
                 Some i \<Rightarrow>
                   if policy_in st (cl_customerId cl) i = None then (Inl NOT_FOUND, st)
                   else (Inr i, set_policies (update_rows (\<lambda>p. po_id p = i \<and> po_customerId p = cl_customerId cl)
                     (\<lambda>p. p\<lparr>po_name := name', po_cedarText := cedarText,
                            po_integrationId := (case integrationId of None \<Rightarrow> po_integrationId p | Some g \<Rightarrow> Some g)\<rparr>)) st)
               | None \<Rightarrow>
                   (Inr newId, set_policies (\<lambda>ps. ps @
                      [\<lparr>po_id = newId, po_customerId = cl_customerId cl, po_integrationId = integrationId, po_name = name',
                        po_cedarText = cedarText, po_version = 1\<rparr>]) st)))"

definition dryRun_payload :: "signing \<Rightarrow> int \<Rightarrow> string \<Rightarrow> UcanPayload" where
  "dryRun_payload sg now command =
     (let nowSec = now div 1000
      in \<lparr>p_iss = sg_signerDid sg, p_aud = ''did:key:dryrun'', p_cmd = command, p_sub = None, p_pol = [],
          p_nonce = ''dryrun-'' @ string_of_int now, p_meta = None, p_nbf = nowSec - 60, p_exp = nowSec + 60, p_prf = None\<rparr>)"

definition dryRun ::
  "env \<Rightarrow> cedar \<Rightarrow> signing \<Rightarrow> Context \<Rightarrow> int \<Rightarrow> string \<Rightarrow> string \<Rightarrow> obj \<Rightarrow> obj \<Rightarrow> Console \<Rightarrow>
   (trpc_code, AuthorizeDecision \<times> string) result" where
  "dryRun E C sg cx now policyId command resource context st =
     rbind (withPermission R_policies A_read cx) (\<lambda>cl.
       if \<not> uuid_text policyId \<or> \<not> COMMAND_REGEX command then Inl BAD_REQUEST
       else case policy_in st (cl_customerId cl) policyId of
           None \<Rightarrow> Inl NOT_FOUND
         | Some policy \<Rightarrow>
             lift_internal
               (rbind (issueUcan E (dryRun_payload sg now command) (sg_signKey sg)) (\<lambda>synthetic.
                rbind (decide E C (now div 1000)
                  \<lparr>di_ucan = Inl (ui_jwt synthetic),
                   di_request = \<lparr>rq_ucan = ui_jwt synthetic, rq_command = command, rq_resource = resource,
                                 rq_context = context, rq_cosignerJwt = None, rq_delegated_chain = None,
                                 rq_parent_receipt_id = None, rq_swarm_id = None\<rparr>,
                   di_policies = po_cedarText policy, di_revokedCids = None, di_schema = None,
                   di_trustedIssuerDid = Some (sg_signerDid sg), di_now = None, di_maxChainDepth = None\<rparr>) (\<lambda>decision.
                Inr (decision, po_cedarText policy)))))"

definition assignAgents :: "Context \<Rightarrow> string \<Rightarrow> string list \<Rightarrow> Console \<Rightarrow> (trpc_code, nat) result \<times> Console" where
  "assignAgents cx policyId agentIds =
     procedure R_policies A_update cx (\<lambda>cl st.
       if \<not> uuid_text policyId \<or> agentIds = [] \<or> \<not> list_all uuid_text agentIds then (Inl BAD_REQUEST, st)
       else if policy_in st (cl_customerId cl) policyId = None \<or>
         length (filter (\<lambda>a. ag_id a \<in> set agentIds) (customer_agents st (cl_customerId cl))) \<noteq> length agentIds
       then (Inl NOT_FOUND, st)
       else (Inr (length agentIds),
             set_mappings (assign (cl_customerId cl) (su_id (cl_user cl)) (map (\<lambda>a. (a, policyId)) agentIds)) st))"

subsection \<open>grants.ts and envelopes.ts\<close>

definition toggle_grant :: "Context \<Rightarrow> string \<Rightarrow> int \<Rightarrow> string \<Rightarrow> Console \<Rightarrow> (trpc_code, unit) result \<times> Console" where
  "toggle_grant cx newId now grantId =
     procedure R_grants A_update cx (\<lambda>cl st.
       if \<not> uuid_text grantId then (Inl BAD_REQUEST, st)
       else case toggleGrant newId now (cl_customerId cl) grantId (su_id (cl_user cl)) (tb_core (co_tables st)) of
           None \<Rightarrow> (Inl NOT_FOUND, st)
         | Some db \<Rightarrow> (Inr (), st\<lparr>co_tables := (co_tables st)\<lparr>tb_core := db\<rparr>\<rparr>))"

definition revoke_grant :: "Context \<Rightarrow> int \<Rightarrow> string \<Rightarrow> Console \<Rightarrow> (trpc_code, unit) result \<times> Console" where
  "revoke_grant cx now grantId =
     procedure R_grants A_delete cx (\<lambda>cl st.
       if \<not> uuid_text grantId then (Inl BAD_REQUEST, st)
       else case revokeGrant now (cl_customerId cl) grantId (su_id (cl_user cl)) (tb_core (co_tables st)) of
           (ok, db) \<Rightarrow> (if ok then Inr () else Inl NOT_FOUND, st\<lparr>co_tables := (co_tables st)\<lparr>tb_core := db\<rparr>\<rparr>))"

definition revoke_envelope :: "Context \<Rightarrow> int \<Rightarrow> string \<Rightarrow> Console \<Rightarrow> (trpc_code, unit) result \<times> Console" where
  "revoke_envelope cx now envelopeId =
     procedure R_envelopes A_delete cx (\<lambda>cl st.
       if \<not> uuid_text envelopeId then (Inl BAD_REQUEST, st)
       else case revokeEnvelope (cl_customerId cl) envelopeId now (co_tables st) of
           (row, tb) \<Rightarrow> (if row = None then Inl NOT_FOUND else Inr (), st\<lparr>co_tables := tb\<rparr>))"

subsection \<open>stepup.ts\<close>

text \<open>\<open>^\/([a-z0-9_-]+)\/\<close>: the first segment of a command that has another.\<close>

definition deriveIntegrationIdFromCommand :: "string \<Rightarrow> string option" where
  "deriveIntegrationIdFromCommand command =
     (case command of
        CHR ''/'' # rest \<Rightarrow>
          (let seg = takeWhile (\<lambda>ch. ch \<in> set ''abcdefghijklmnopqrstuvwxyz0123456789_-'') rest
           in if seg \<noteq> [] \<and> drop (length seg) rest \<noteq> [] \<and> hd (drop (length seg) rest) = CHR ''/'' then Some seg else None)
      | _ \<Rightarrow> None)"

record ApproveInput =
  sa_approvalId :: string
  sa_mode :: "string option"
  sa_remember :: bool
  sa_scope :: "GrantScope option"
  sa_selectedVariant :: "VariantScope option"
  sa_persistAsPolicy :: bool

text \<open>The approval with its agent, read back by its id alone.\<close>

definition approval_with_agent :: "string \<Rightarrow> Database \<Rightarrow> (ApprovalRow \<times> AgentRow) option" where
  "approval_with_agent approvalId db =
     Option.bind (List.find (\<lambda>r. pa_id r = approvalId) (db_approvals db)) (\<lambda>r.
     Option.bind (List.find (\<lambda>a. ag_id a = pa_agentId r) (db_agents db)) (\<lambda>a.
       if ag_name a = [] then None else Some (r, a)))"

fun scope_text :: "VariantScope \<Rightarrow> string" where
  "scope_text v_narrow = ''narrow''"
| "scope_text v_medium = ''medium''"
| "scope_text v_broad = ''broad''"

definition remembered_grant ::
  "string \<Rightarrow> string \<Rightarrow> ApprovalRow \<times> AgentRow \<Rightarrow> GrantScope option \<Rightarrow> GrantDecision \<Rightarrow> string option \<Rightarrow> UpsertGrantInput" where
  "remembered_grant customerId user ra scope decision snippet =
     \<lparr>ug_customerId = customerId, ug_agentId = pa_agentId (fst ra), ug_agentName = ag_name (snd ra),
      ug_command = pa_command (fst ra), ug_resource = pa_resource (fst ra),
      ug_scope = (case scope of None \<Rightarrow> scope_exact | Some s \<Rightarrow> s), ug_decision = decision, ug_grantedBy = user,
      ug_sourceApprovalId = Some (pa_id (fst ra)), ug_riskSummary = Some (pa_riskSummary (fst ra)), ug_cedarSnippet = snippet\<rparr>"

text \<open>The policy and its mapping are inserted in one transaction.\<close>

definition persist_policy :: "string \<Rightarrow> string \<Rightarrow> string \<Rightarrow> ApprovalRow \<Rightarrow> VariantScope \<Rightarrow> Database \<Rightarrow> Database" where
  "persist_policy newId customerId user r pick db =
     db\<lparr>db_policies := db_policies db @
          [\<lparr>po_id = newId, po_customerId = customerId, po_integrationId = deriveIntegrationIdFromCommand (pa_command r),
            po_name = ''Step-up: '' @ pa_command r @ '' ('' @ scope_text pick @ '')'',
            po_cedarText = pick_variant pick (pa_cedarVariants r), po_version = 1\<rparr>],
        db_agentPolicies := db_agentPolicies db @
          [\<lparr>ap_customerId = customerId, ap_agentId = pa_agentId r, ap_policyId = newId, ap_source = source_step_up,
            ap_createdBy = Some user\<rparr>]\<rparr>"

definition put_core :: "Database \<Rightarrow> Console \<Rightarrow> Console" where
  "put_core db st = st\<lparr>co_tables := (co_tables st)\<lparr>tb_core := db\<rparr>\<rparr>"

text \<open>The statements after the approval: the read of the row (1), the policy with its mapping (2), and the grant (3).
  \<open>ids\<close> are the fresh identifiers of policy and grant.\<close>

definition approve_writes ::
  "faults \<Rightarrow> int \<Rightarrow> string \<times> string \<Rightarrow> string \<Rightarrow> string \<Rightarrow> ApproveInput \<Rightarrow> string \<Rightarrow> Database \<Rightarrow>
   (trpc_code, string) result \<times> Database" where
  "approve_writes fails now ids c user inp jwt db =
     (if \<not> (sa_remember inp \<or> sa_persistAsPolicy inp) then (Inr jwt, db)
      else if fails 1 then (Inl INTERNAL_SERVER_ERROR, db)
      else case approval_with_agent (sa_approvalId inp) db of
          None \<Rightarrow> (Inr jwt, db)
        | Some ra \<Rightarrow>
            (let pick = (case sa_selectedVariant inp of None \<Rightarrow> pa_recommendedScope (fst ra) | Some v \<Rightarrow> v);
                 db2 = (if sa_persistAsPolicy inp then persist_policy (fst ids) c user (fst ra) pick db else db);
                 snippet = pick_variant pick (pa_cedarVariants (fst ra))
             in if sa_persistAsPolicy inp \<and> fails 2 then (Inl INTERNAL_SERVER_ERROR, db)
                else if \<not> sa_remember inp then (Inr jwt, db2)
                else if fails 3 then (Inl INTERNAL_SERVER_ERROR, db2)
                else (Inr jwt, upsertGrant (snd ids) now
                       (remembered_grant c user ra (sa_scope inp) grant_allow (Some snippet)) db2)))"

text \<open>\<open>asserted\<close> is what the check of the passkey answered, None where WebAuthn is not configured; the counter of
  the passkey it updates is left out.\<close>

definition approve_stepup ::
  "env \<Rightarrow> signing \<Rightarrow> faults \<Rightarrow> Context \<Rightarrow> int \<Rightarrow> string \<times> string \<Rightarrow> bool option \<Rightarrow> ApproveInput \<Rightarrow> Console \<Rightarrow>
   (trpc_code, string) result \<times> Console" where
  "approve_stepup E sg fails cx now ids asserted inp =
     procedure R_grants A_update cx (\<lambda>cl st.
       if \<not> uuid_text (sa_approvalId inp) then (Inl BAD_REQUEST, st)
       else if asserted = None then (Inl PRECONDITION_FAILED, st)
       else if asserted = Some False then (Inl UNAUTHORIZED, st)
       else
         case mintCosignerForApproval E (sg_signKey sg) (sg_signerDid sg) now
           \<lparr>mc_approvalId = sa_approvalId inp, mc_customerId = cl_customerId cl, mc_decidingUserId = su_id (cl_user cl),
            mc_ttlSeconds = None, mc_nonce = ''cosign-'' @ sa_approvalId inp @ ''-'' @ string_of_int now,
            mc_mode = sa_mode inp\<rparr> (tb_core (co_tables st)) of
             (Inl e, _) \<Rightarrow> (Inl (case e of issue_threw _ \<Rightarrow> INTERNAL_SERVER_ERROR | _ \<Rightarrow> BAD_REQUEST), st)
           | (Inr job, db) \<Rightarrow>
               if fails 0 then (Inl INTERNAL_SERVER_ERROR, st)
               else (case approve_writes fails now ids (cl_customerId cl) (su_id (cl_user cl)) inp (mj_jwt job) db of
                   (r, db') \<Rightarrow> (r, put_core db' st)))"

definition deny_writes ::
  "faults \<Rightarrow> int \<Rightarrow> string \<Rightarrow> string \<Rightarrow> string \<Rightarrow> string \<Rightarrow> bool \<Rightarrow> GrantScope option \<Rightarrow> Database \<Rightarrow>
   (trpc_code, unit) result \<times> Database" where
  "deny_writes fails now newId c user approvalId remember scope db =
     (if \<not> remember then (Inr (), db)
      else if fails 1 then (Inl INTERNAL_SERVER_ERROR, db)
      else case approval_with_agent approvalId db of
          None \<Rightarrow> (Inr (), db)
        | Some ra \<Rightarrow>
            if fails 2 then (Inl INTERNAL_SERVER_ERROR, db)
            else (Inr (), upsertGrant newId now (remembered_grant c user ra scope grant_deny None) db))"

definition deny_stepup ::
  "faults \<Rightarrow> Context \<Rightarrow> int \<Rightarrow> string \<Rightarrow> string \<Rightarrow> bool \<Rightarrow> GrantScope option \<Rightarrow> Console \<Rightarrow> (trpc_code, unit) result \<times> Console" where
  "deny_stepup fails cx now newId approvalId remember scope =
     procedure R_grants A_update cx (\<lambda>cl st.
       if \<not> uuid_text approvalId then (Inl BAD_REQUEST, st)
       else if fails 0 then (Inl INTERNAL_SERVER_ERROR, st)
       else case denyApproval now approvalId (cl_customerId cl) (su_id (cl_user cl)) (tb_core (co_tables st)) of
           (ok, db) \<Rightarrow>
             if \<not> ok then (Inl BAD_REQUEST, put_core db st)
             else (case deny_writes fails now newId (cl_customerId cl) (su_id (cl_user cl)) approvalId remember scope db of
                 (r, db') \<Rightarrow> (r, put_core db' st)))"

end
