(* ===== verification/Demo_Console.thy ===== *)
theory Demo_Console
  imports Tenancy Demo_Stepup
begin

text \<open>
  A concrete organisation: customer c1 with the owners u1 and u2, one approved agent in dynamic mode, a pending
  invite for b@c and an empty swarm. Row ids differ in their last digit.
\<close>

definition row_id :: "char \<Rightarrow> string" where
  "row_id c = ''00000000-0000-0000-0000-00000000000'' @ [c]"

lemma row_id_eq [simp]: "row_id a = row_id b \<longleftrightarrow> a = b"
  by (simp add: row_id_def)

lemma row_id_text: "is_digit c \<Longrightarrow> uuid_text (row_id c)"
proof -
  assume d: "is_digit c"
  then have "c \<noteq> CHR ''-''" by (auto simp: is_digit_alt)
  then have "split_on CHR ''-'' (row_id c) = [''00000000'', ''0000'', ''0000'', ''0000'', ''00000000000'' @ [c]]"
    by (simp add: row_id_def)
  then show ?thesis using d by (simp add: uuid_text_def hex_text_def is_digit_alt)
qed

lemma row_ids: "uuid_text (row_id CHR ''1'')" "uuid_text (row_id CHR ''2'')" "uuid_text (row_id CHR ''3'')"
  by (rule row_id_text, simp add: is_digit_alt)+

definition demo_session :: SessionUser where "demo_session = \<lparr>su_id = ''u1'', su_email = ''a@c''\<rparr>"
definition demo_guest :: SessionUser where "demo_guest = \<lparr>su_id = ''u3'', su_email = ''B@c''\<rparr>"

definition console_agent_row :: AgentRow where
  "console_agent_row = demo_agent_row\<lparr>ag_id := row_id CHR ''3'', ag_connectionApprovedAt := Some ''t''\<rparr>"

definition demo_invite :: InviteRow where
  "demo_invite = \<lparr>iv_id = row_id CHR ''4'', iv_customerId = ''c1'', iv_email = ''b@c'', iv_role = auditor,
     iv_tokenHash = sha256Hex demo_env ''tok'', iv_invitedBy = ''u1'', iv_expiresAt = 1000, iv_acceptedAt = None,
     iv_revokedAt = None\<rparr>"

definition demo_console_tables :: Tables where
  "demo_console_tables =
     \<lparr>tb_core = demo_db\<lparr>db_agents := [console_agent_row], db_approvals := []\<rparr>, tb_customers = [], tb_apiKeys = [],
      tb_lastActiveAt = [], tb_usage = [], tb_oauthConnections = [], tb_cloudConnections = [], tb_ucanIssues = [],
      tb_envelopes = []\<rparr>"

definition demo_console :: Console where
  "demo_console =
     \<lparr>co_tables = demo_console_tables, co_users = [],
      co_memberships =
        [\<lparr>mb_id = row_id CHR ''1'', mb_userId = ''u1'', mb_customerId = ''c1'', mb_role = owner\<rparr>,
         \<lparr>mb_id = row_id CHR ''2'', mb_userId = ''u2'', mb_customerId = ''c1'', mb_role = owner\<rparr>],
      co_invites = [demo_invite],
      co_swarms = [\<lparr>sw_id = row_id CHR ''5'', sw_customerId = ''c1'', sw_rootAgentId = None, sw_maxDepth = None\<rparr>],
      co_chainApprovals = []\<rparr>"

definition demo_caller :: Caller where
  "demo_caller = \<lparr>cl_user = demo_session, cl_customerId = ''c1'', cl_role = owner\<rparr>"

lemma demo_context:
  "createContext demo_console (Some demo_session) [] = \<lparr>cx_user = Some demo_session, cx_membership = Some (''c1'', owner)\<rparr>"
  by (simp add: createContext_def resolve_membership_def parseOrgCookie_def active_org_def owner_or_first_def
      demo_console_def demo_session_def given_def str_truthy_def)

lemma demo_permission:
  "withPermission r a (createContext demo_console (Some demo_session) []) = Inr demo_caller"
  by (simp add: demo_context withPermission_def requireMembership_def demo_caller_def permission_table)

end
