(* ===== verification/Swarm_Properties.thy ===== *)
theory Swarm_Properties
  imports Demo_Console
begin

text \<open>
  The walk over an agent tree: it ends exactly when no agent below the root is its own ancestor, and then it
  lists exactly the root and its descendants. Attaching an agent below itself is accepted and makes the walk
  of its chain approval endless.
\<close>

subsection \<open>The parent relation\<close>

definition child_rel :: "(string \<Rightarrow> string list) \<Rightarrow> (string \<times> string) set" where
  "child_rel children = {(c, p). c \<in> set (children p)}"

definition on_cycle :: "(string \<Rightarrow> string list) \<Rightarrow> string \<Rightarrow> bool" where
  "on_cycle children a \<longleftrightarrow> (a, a) \<in> (child_rel children)\<^sup>+"

definition below :: "(string \<Rightarrow> string list) \<Rightarrow> string \<Rightarrow> string set" where
  "below children r = {a. (a, r) \<in> (child_rel children)\<^sup>*}"

lemma below_self: "r \<in> below children r" by (simp add: below_def)

lemma below_child: "c \<in> set (children p) \<Longrightarrow> below children c \<subseteq> below children p"
  unfolding below_def child_rel_def by (blast intro: rtrancl_into_rtrancl)

lemma child_below: "p \<in> below children r \<Longrightarrow> c \<in> set (children p) \<Longrightarrow> c \<in> below children r"
  unfolding below_def child_rel_def by (simp add: converse_rtrancl_into_rtrancl)

lemma below_unfold: "below children p = insert p (\<Union>c \<in> set (children p). below children c)"
proof -
  have "x = p \<or> (\<exists>c. c \<in> set (children p) \<and> (x, c) \<in> (child_rel children)\<^sup>*)" if "(x, p) \<in> (child_rel children)\<^sup>*" for x
    using that by (cases rule: rtranclE) (auto simp: child_rel_def)
  then show ?thesis using below_self below_child [of _ children p] by (fastforce simp: below_def)
qed

lemma finite_child_rel: "finite (child_rel (childrenOf all))"
proof (rule finite_subset)
  show "child_rel (childrenOf all) \<subseteq> set (map ag_id all) \<times> set (map (\<lambda>a. the (ag_parentAgentId a)) all)"
    by (auto simp: child_rel_def childrenOf_def image_iff) (metis option.sel)
qed simp

subsection \<open>Termination\<close>

lemma walk_nil [simp]: "walk children [] out = Some out"
  by (simp add: walk.simps)

lemma walk_cons [simp]: "walk children (i # rest) out = walk children (rest @ children i) (out @ [i])"
  by (subst walk.simps) simp

text \<open>Each round replaces an agent of the queue by its children.\<close>

lemma children_shrink:
  assumes "trans R" "\<forall>c \<in> set (children i). (c, i) \<in> R"
  shows "(mset (rest @ children i), mset (i # rest)) \<in> mult R"
proof -
  have "(mset rest + mset (children i), mset rest + {#i#}) \<in> mult R"
    using assms(2) by (intro one_step_implies_mult) simp_all
  then show ?thesis by (simp add: add.commute)
qed

lemma walk_total:
  assumes R: "wf R" "trans R" "\<And>c p. p \<in> below children r \<Longrightarrow> c \<in> set (children p) \<Longrightarrow> (c, p) \<in> R"
    and q: "set queue \<subseteq> below children r"
  shows "\<exists>res. walk children queue out = Some res \<and> set res = set out \<union> (\<Union>q \<in> set queue. below children q)"
proof -
  let ?P = "\<lambda>queue out. \<exists>res. walk children queue out = Some res \<and> set res = set out \<union> (\<Union>q \<in> set queue. below children q)"
  have "\<forall>queue out. mset queue = M \<longrightarrow> set queue \<subseteq> below children r \<longrightarrow> ?P queue out" for M
  proof (induction M rule: wf_induct_rule [OF wf_mult [OF R(1)]])
    case (1 M)
    show ?case
    proof (intro allI impI)
      fix queue and out :: "string list" assume m: "mset queue = M" and s: "set queue \<subseteq> below children r"
      show "?P queue out"
      proof (cases queue)
        case Nil
        then show ?thesis by simp
      next
        case (Cons i rest)
        have i: "i \<in> below children r" using s Cons by simp
        have "(mset (rest @ children i), M) \<in> mult R"
          using children_shrink [OF R(2), of children i rest] R(3) [OF i] m Cons by auto
        moreover have "set (rest @ children i) \<subseteq> below children r"
          using s Cons child_below [OF i] by auto
        ultimately obtain res where "walk children (rest @ children i) (out @ [i]) = Some res"
          and "set res = set (out @ [i]) \<union> (\<Union>q \<in> set (rest @ children i). below children q)"
          using 1 by blast
        then show ?thesis by (auto simp: Cons below_unfold [of children i])
      qed
    qed
  qed
  then show ?thesis using q by blast
qed

text \<open>A walk that ends has only met agents from which every descending path ends.\<close>

lemma walk_acc:
  assumes "walk children queue out = Some res"
  shows "set queue \<subseteq> Wellfounded.acc (child_rel children)"
proof (rule walk.raw_induct [where P = "\<lambda>children queue out res. set queue \<subseteq> Wellfounded.acc (child_rel children)", OF _ assms])
  fix walk' :: "(string \<Rightarrow> string list) \<Rightarrow> string list \<Rightarrow> string list \<Rightarrow> string list option" and children queue out res
  assume IH: "\<And>c q out res. walk' c q out = Some res \<Longrightarrow> set q \<subseteq> Wellfounded.acc (child_rel c)"
    and e: "(case queue of [] \<Rightarrow> Some out | i # rest \<Rightarrow> walk' children (rest @ children i) (out @ [i])) = Some res"
  show "set queue \<subseteq> Wellfounded.acc (child_rel children)"
  proof (cases queue)
    case (Cons i rest)
    then have a: "set (rest @ children i) \<subseteq> Wellfounded.acc (child_rel children)"
      using IH [of children "rest @ children i" "out @ [i]" res] e by simp
    have "i \<in> Wellfounded.acc (child_rel children)"
    proof (rule acc.accI)
      show "y \<in> Wellfounded.acc (child_rel children)" if "(y, i) \<in> child_rel children" for y
        using that a by (auto simp: child_rel_def)
    qed
    then show ?thesis using a Cons by simp
  qed simp
qed

lemma acc_no_cycle: "a \<in> Wellfounded.acc R \<Longrightarrow> (a, a) \<notin> R\<^sup>+"
proof (induction rule: acc.induct)
  case (accI x)
  show ?case
  proof
    assume "(x, x) \<in> R\<^sup>+"
    then obtain y where "(x, y) \<in> R\<^sup>*" "(y, x) \<in> R" by (auto dest: tranclD2)
    then have "(y, y) \<in> R\<^sup>+" by (meson rtrancl_into_trancl2)
    then show False using accI \<open>(y, x) \<in> R\<close> by blast
  qed
qed

lemma acc_below: "r \<in> Wellfounded.acc (child_rel children) \<Longrightarrow> a \<in> below children r \<Longrightarrow> a \<in> Wellfounded.acc (child_rel children)"
  by (simp add: below_def acc_downwards)

lemma walk_cycle_diverges: "a \<in> below children r \<Longrightarrow> on_cycle children a \<Longrightarrow> walk children [r] [] = None"
  using walk_acc [of children "[r]" "[]"] acc_below [of r children a] acc_no_cycle [of a "child_rel children"]
  by (cases "walk children [r] []") (auto simp: on_cycle_def)

lemma walk_acyclic_ends:
  assumes fin: "finite (child_rel children)" and no: "\<forall>a \<in> below children r. \<not> on_cycle children a"
  shows "\<exists>res. walk children [r] [] = Some res \<and> set res = below children r"
proof -
  define S where "S = {(c, p). p \<in> below children r \<and> c \<in> set (children p)}"
  have sub: "S \<subseteq> child_rel children" by (auto simp: S_def child_rel_def)
  have "(a, a) \<notin> S\<^sup>+" for a
  proof
    assume c: "(a, a) \<in> S\<^sup>+"
    then obtain p where "(a, p) \<in> S" by (meson tranclD)
    then have "a \<in> below children r" using child_below by (auto simp: S_def)
    moreover have "on_cycle children a" using trancl_mono [OF c sub] by (simp add: on_cycle_def)
    ultimately show False using no by blast
  qed
  then have "wf (S\<^sup>+)" using finite_acyclic_wf [OF finite_subset [OF sub fin]] by (simp add: acyclic_def wf_trancl)
  then have "\<exists>res. walk children [r] [] = Some res \<and> set res = set [] \<union> (\<Union>q \<in> set [r]. below children q)"
    by (rule walk_total [where r = r]) (auto simp: S_def below_self)
  then show ?thesis by simp
qed

subsection \<open>descendantsOf\<close>

text \<open>C22: The snapshot of a chain approval terminates exactly when no agent at or below the root is its own
ancestor in the table, and then holds the root and all its descendants, and nothing else.\<close>

theorem descendants_exact:
  "case descendantsOf all r of
     None \<Rightarrow> \<exists>a \<in> below (childrenOf all) r. on_cycle (childrenOf all) a
   | Some ids \<Rightarrow> set ids = below (childrenOf all) r \<and> (\<forall>a \<in> below (childrenOf all) r. \<not> on_cycle (childrenOf all) a)"
proof -
  have ends: "\<exists>res. descendantsOf all r = Some res \<and> set res = below (childrenOf all) r"
    if "\<forall>a \<in> below (childrenOf all) r. \<not> on_cycle (childrenOf all) a"
    using walk_acyclic_ends [OF finite_child_rel that] by (simp add: descendantsOf_def)
  have hangs: "descendantsOf all r = None" if "a \<in> below (childrenOf all) r" "on_cycle (childrenOf all) a" for a
    using walk_cycle_diverges [OF that] by (simp add: descendantsOf_def)
  show ?thesis
  proof (cases "\<forall>a \<in> below (childrenOf all) r. \<not> on_cycle (childrenOf all) a")
    case True
    then show ?thesis using ends by auto
  next
    case False
    then obtain a where "a \<in> below (childrenOf all) r" "on_cycle (childrenOf all) a" by blast
    then show ?thesis using hangs by auto
  qed
qed

definition demo_tree :: "AgentRow list" where
  "demo_tree = [console_agent_row, console_agent_row\<lparr>ag_id := row_id CHR ''6'', ag_parentAgentId := Some (row_id CHR ''3'')\<rparr>]"

theorem descendants_exact_witness:
  "descendantsOf demo_tree (row_id CHR ''3'') = Some [row_id CHR ''3'', row_id CHR ''6''] \<and>
   below (childrenOf demo_tree) (row_id CHR ''3'') = {row_id CHR ''3'', row_id CHR ''6''} \<and>
   \<not> on_cycle (childrenOf demo_tree) (row_id CHR ''6'')"
proof -
  have run: "descendantsOf demo_tree (row_id CHR ''3'') = Some [row_id CHR ''3'', row_id CHR ''6'']"
    by (simp add: descendantsOf_def childrenOf_def demo_tree_def console_agent_row_def demo_agent_row_def row_id_def str_truthy_def)
  from descendants_exact [of demo_tree "row_id CHR ''3''", unfolded run option.case]
  have b: "below (childrenOf demo_tree) (row_id CHR ''3'') = {row_id CHR ''3'', row_id CHR ''6''}"
    and c: "\<forall>a \<in> below (childrenOf demo_tree) (row_id CHR ''3''). \<not> on_cycle (childrenOf demo_tree) a" by auto
  from b c have "\<not> on_cycle (childrenOf demo_tree) (row_id CHR ''6'')" by blast
  with run b show ?thesis by blast
qed

subsection \<open>attachChild\<close>

definition console_children :: "Console \<Rightarrow> string \<Rightarrow> string \<Rightarrow> string list" where
  "console_children st c = childrenOf (customer_agents st c)"

lemma console_child_iff:
  "a \<in> set (console_children st c p) \<longleftrightarrow>
     (\<exists>row \<in> set (db_agents (tb_core (co_tables st))).
        ag_customerId row = c \<and> ag_id row = a \<and> p \<noteq> [] \<and> ag_parentAgentId row = Some p)"
  by (auto simp: console_children_def childrenOf_def customer_agents_def str_truthy_def split: option.splits)

lemma uuid_text_nonempty: "uuid_text s \<Longrightarrow> s \<noteq> []"
  by (auto simp: uuid_text_def)

text \<open>Attaching an agent below itself or below one of its descendants is accepted while the depth of the
new parent allows it, and from then on the snapshot of that agent's chain never ends: the approval of the chain
and its preview hang.\<close>

theorem attach_cycle_hangs:
  assumes attach: "attachChild cx swarmId agentId parentAgentId st = (Inr (), st')"
    and caller: "withPermission R_swarms A_update cx = Inr cl"
    and below: "parentAgentId \<in> below (console_children st (cl_customerId cl)) agentId"
  shows "descendantsOf (customer_agents st' (cl_customerId cl)) agentId = None"
proof -
  let ?c = "cl_customerId cl"
  from attach caller obtain swarm and parent child :: AgentRow where
    uuids: "uuid_text parentAgentId"
    and parent: "console_agent st ?c parentAgentId = Some parent" and child: "console_agent st ?c agentId = Some child"
    and st': "st' = update_agents (\<lambda>a. ag_id a = agentId) (attached swarm parent) st"
    by (auto simp: attachChild_def procedure_def split: if_splits option.splits)
  have pid: "ag_id parent = parentAgentId" and cid: "ag_id child = agentId" "ag_customerId child = ?c"
    and mem: "child \<in> set (db_agents (tb_core (co_tables st)))"
    using parent child by (auto simp: console_agent_def agent_of_def find_Some_iff)
  have rows: "set (db_agents (tb_core (co_tables st'))) =
      attached swarm parent ` {a \<in> set (db_agents (tb_core (co_tables st))). ag_id a = agentId} \<union>
      {a \<in> set (db_agents (tb_core (co_tables st))). ag_id a \<noteq> agentId}"
    by (simp add: st' update_agents_def set_update_rows)
  have edge: "agentId \<in> set (console_children st' ?c parentAgentId)"
    unfolding console_child_iff rows using mem cid pid uuid_text_nonempty [OF uuids]
    by (intro bexI [of _ "attached swarm parent child"]) (auto simp: attached_def)
  have keep: "x \<in> set (console_children st' ?c y)" if "x \<in> set (console_children st ?c y)" "x \<noteq> agentId" for x y
    using that unfolding console_child_iff rows by auto
  have "(parentAgentId, agentId) \<in> (child_rel (console_children st ?c))\<^sup>*"
    using below by (simp add: below_def)
  then have up: "(parentAgentId, agentId) \<in> (child_rel (console_children st' ?c))\<^sup>*"
  proof (induction rule: converse_rtrancl_induct)
    case base
    show ?case by (rule rtrancl_refl)
  next
    case (step x y)
    show ?case
    proof (cases "x = agentId")
      case False
      then have "(x, y) \<in> child_rel (console_children st' ?c)" using keep step(1) by (simp add: child_rel_def)
      then show ?thesis using step(3) by (rule converse_rtrancl_into_rtrancl)
    qed (simp only: rtrancl_refl)
  qed
  have "on_cycle (console_children st' ?c) agentId"
    using edge up unfolding on_cycle_def by (intro rtrancl_into_trancl2 [of _ parentAgentId]) (simp_all add: child_rel_def)
  then show ?thesis
    using walk_cycle_diverges [OF below_self] by (simp add: descendantsOf_def console_children_def)
qed

end
