(* ===== verification/Oauth_Connectors.thy ===== *)
theory Oauth_Connectors
  imports Proxy_Upstream Regex
begin

text \<open>
  The OAuth connectors of the control plane: oauth/connector.ts and oauth/connectors/github.ts, slack.ts,
  notion.ts, google.ts, linear.ts, stripe.ts and discord.ts. The network is the \<open>fetch\<close> of
  \<open>Proxy_Upstream\<close>. Beside the members of the source, the context carries what a connector reads
  elsewhere: the clock, the bot token of the process environment, and the engine's value in milliseconds of
  a number of seconds that is no integer. An error is a \<open>ConnectorAuthError\<close> with its status, or any
  other exception.
\<close>

datatype connector_error = AuthError int | Thrown

record OAuthTokens =
  ot_accessToken :: string
  ot_refreshToken :: string
  ot_accessTokenExpiresAt :: "int option"
  ot_refreshTokenExpiresAt :: "int option"
  ot_scopesGranted :: "string list"
  ot_accountId :: string

record ConnectorContext =
  cc_fetch :: fetch
  cc_clientId :: string
  cc_clientSecret :: string
  cc_redirectUri :: string
  cc_now :: int
  cc_botToken :: "string option"
  cc_ms :: "string \<Rightarrow> int"

subsection \<open>connector.ts\<close>

text \<open>A property of a parsed body: reading one of null throws, a primitive or an array has none of those
  the connectors read.\<close>

fun prop_of :: "json \<Rightarrow> string \<Rightarrow> (connector_error, json) result" where
  "prop_of (JObj ob) k = Inr (jget ob k)"
| "prop_of JNull k = Inl Thrown"
| "prop_of JUndef k = Inl Thrown"
| "prop_of v k = Inr JUndef"

fun is_structured :: "json \<Rightarrow> bool" where
  "is_structured (JObj ob) = True"
| "is_structured (JArr vs) = True"
| "is_structured v = False"

definition text_of :: "json \<Rightarrow> string" where
  "text_of v = (case as_string v of None \<Rightarrow> [] | Some s \<Rightarrow> s)"

definition to_base64 :: "string \<Rightarrow> string" where
  "to_base64 s =
     (let t = map (\<lambda>c. if c = CHR ''-'' then CHR ''+'' else if c = CHR ''_'' then CHR ''/'' else c) (bytesToBase64url s)
      in t @ replicate ((4 - length t mod 4) mod 4) (CHR ''=''))"

definition send :: "ConnectorContext \<Rightarrow> UpstreamRequest \<Rightarrow> (connector_error, raw_response) result" where
  "send ctx req = (case cc_fetch ctx req of Inl e \<Rightarrow> Inl Thrown | Inr res \<Rightarrow> Inr res)"

definition res_ok :: "raw_response \<Rightarrow> bool" where
  "res_ok res \<longleftrightarrow> 200 \<le> rw_status res \<and> rw_status res \<le> 299"

definition token_request ::
  "ConnectorContext \<Rightarrow> string \<Rightarrow> (string \<times> string) list \<Rightarrow> bool \<Rightarrow> (string \<times> string) list \<Rightarrow> UpstreamRequest" where
  "token_request ctx url params basicAuth headers =
     \<lparr>ur_url = url, ur_params = [], ur_method = ''POST'',
      ur_headers =
        (let hs = spread_headers
               [(''content-type'', ''application/x-www-form-urlencoded''), (''accept'', ''application/json'')] headers
         in if basicAuth
            then AList.update ''authorization'' (''Basic '' @ to_base64 (cc_clientId ctx @ '':'' @ cc_clientSecret ctx)) hs
            else hs),
      ur_body = Some (form_text params)\<rparr>"

definition postFormToTokenEndpoint ::
  "env \<Rightarrow> ConnectorContext \<Rightarrow> string \<Rightarrow> (string \<times> string) list \<Rightarrow> bool \<Rightarrow> (string \<times> string) list \<Rightarrow>
   (connector_error, json) result" where
  "postFormToTokenEndpoint E ctx url params basicAuth headers =
     rbind (send ctx (token_request ctx url params basicAuth headers)) (\<lambda>res.
       case (if rw_text res = [] then Some (JObj []) else JSON_parse (e_nd E) (rw_text res)) of
         None \<Rightarrow> Inl (AuthError (rw_status res))
       | Some parsed \<Rightarrow> if res_ok res then Inr parsed else Inl (AuthError (rw_status res)))"

definition expiresInToDate :: "ConnectorContext \<Rightarrow> json \<Rightarrow> int option" where
  "expiresInToDate ctx expiresIn =
     (case expiresIn of
        JNum (JInt i) \<Rightarrow> if i \<le> 0 then None else Some (cc_now ctx + i * 1000)
      | JNum (JDec t) \<Rightarrow> if startsWith t ''-'' then None else Some (cc_now ctx + cc_ms ctx t)
      | _ \<Rightarrow> None)"

text \<open>The parts of a scope text between white space and commas, in order; \<open>part\<close> is the one being read.\<close>

function scope_parts :: "string \<Rightarrow> string \<Rightarrow> string list" where
  "scope_parts part s =
     (if s = [] then (if part = [] then [] else [part])
      else if space_length s > 0 \<or> hd s = CHR '',''
      then (if part = [] then [] else [part]) @ scope_parts [] (drop (max 1 (space_length s)) s)
      else scope_parts (part @ [hd s]) (tl s))"
  by pat_completeness auto
termination
  by (relation "measure (\<lambda>(part, s). length s)") (auto simp: neq_Nil_conv)

declare scope_parts.simps [simp del]

definition parseScopeString :: "json \<Rightarrow> string list" where
  "parseScopeString s = (case s of JStr t \<Rightarrow> sort (remdups (scope_parts [] t)) | _ \<Rightarrow> [])"

text \<open>The authorize URL: the query parameters set on a URL that has none.\<close>

definition with_query :: "string \<Rightarrow> (string \<times> string) list \<Rightarrow> string" where
  "with_query url params = url @ ''?'' @ form_text params"

text \<open>The member \<open>access_token\<close> when it is a nonempty string; otherwise the error of the given status.\<close>

definition require_access_token :: "int \<Rightarrow> json \<Rightarrow> (connector_error, string) result" where
  "require_access_token status parsed =
     rbind (prop_of parsed ''access_token'') (\<lambda>v. if text_of v = [] then Inl (AuthError status) else Inr (text_of v))"

definition response_json :: "env \<Rightarrow> raw_response \<Rightarrow> (connector_error, json) result" where
  "response_json E res = (case JSON_parse (e_nd E) (rw_text res) of None \<Rightarrow> Inl Thrown | Some v \<Rightarrow> Inr v)"

text \<open>What \<open>tokensFromResponse\<close> of github.ts, google.ts and linear.ts share; the second expiry is
  github's only.\<close>

definition tokens_for_account ::
  "ConnectorContext \<Rightarrow> json \<Rightarrow> string \<Rightarrow> json \<Rightarrow> (connector_error, OAuthTokens) result" where
  "tokens_for_account ctx parsed accountId refreshExpiresIn =
     (if \<not> is_structured parsed then Inl (AuthError 200)
      else rbind (prop_of parsed ''access_token'') (\<lambda>at. case at of
          JStr a \<Rightarrow>
            rbind (prop_of parsed ''refresh_token'') (\<lambda>rt.
            rbind (prop_of parsed ''expires_in'') (\<lambda>ei.
            rbind (prop_of parsed ''scope'') (\<lambda>sc.
              Inr \<lparr>ot_accessToken = a, ot_refreshToken = text_of rt, ot_accessTokenExpiresAt = expiresInToDate ctx ei,
                   ot_refreshTokenExpiresAt = expiresInToDate ctx refreshExpiresIn,
                   ot_scopesGranted = parseScopeString sc, ot_accountId = accountId\<rparr>)))
        | _ \<Rightarrow> Inl (AuthError 200)))"

subsection \<open>Calls of the provider API\<close>

record ApiShape =
  sh_base :: string
  sh_auth :: string
  sh_headers :: "(string \<times> string) list"
  sh_contentType :: string
  sh_bodyless :: "string list"
  sh_encode :: "json \<Rightarrow> string"
  sh_jsonOnly :: bool

record ApiCallResponse =
  ai_status :: int
  ai_body :: json
  ai_headers :: "(string \<times> string) list"

definition api_request :: "ApiShape \<Rightarrow> string \<Rightarrow> ApiCall \<Rightarrow> UpstreamRequest" where
  "api_request sh accessToken req =
     (let headers = spread_headers
            (spread_headers [(''authorization'', sh_auth sh @ '' '' @ accessToken)] (sh_headers sh)) (opt_headers (ac_headers req));
          bodied = (ac_body req \<noteq> JUndef \<and> ac_method req \<notin> set (sh_bodyless sh))
      in \<lparr>ur_url = sh_base sh @ ac_path req, ur_params = opt_headers (ac_query req), ur_method = ac_method req,
          ur_headers = (if bodied then AList.update ''content-type'' (sh_contentType sh) headers else headers),
          ur_body = (if bodied then Some (sh_encode sh (ac_body req)) else None)\<rparr>)"

definition api_response :: "env \<Rightarrow> ApiShape \<Rightarrow> raw_response \<Rightarrow> ApiCallResponse" where
  "api_response E sh res =
     (let text = rw_text res;
          parse = (if text = [] then (if sh_jsonOnly sh then JStr text else JObj [])
                   else case JSON_parse (e_nd E) text of None \<Rightarrow> JStr text | Some v \<Rightarrow> v);
          json_body = (case map_of (rw_headers res) ''content-type'' of None \<Rightarrow> False | Some t \<Rightarrow> js_includes t ''json'')
      in \<lparr>ai_status = rw_status res, ai_body = (if sh_jsonOnly sh \<and> \<not> json_body then JStr text else parse),
          ai_headers = rw_headers res\<rparr>)"

definition call_provider ::
  "env \<Rightarrow> ApiShape \<Rightarrow> ConnectorContext \<Rightarrow> string \<Rightarrow> ApiCall \<Rightarrow> (connector_error, ApiCallResponse) result" where
  "call_provider E sh ctx accessToken req =
     rbind (send ctx (api_request sh accessToken req)) (\<lambda>res. Inr (api_response E sh res))"

definition plain_shape :: "string \<Rightarrow> ApiShape" where
  "plain_shape base =
     \<lparr>sh_base = base, sh_auth = ''Bearer'', sh_headers = [(''accept'', ''application/json'')],
      sh_contentType = ''application/json'', sh_bodyless = [''GET''], sh_encode = render, sh_jsonOnly = False\<rparr>"

text \<open>A connector: the interface of connector.ts.\<close>

record Connector =
  cr_id :: string
  cr_defaultScopes :: "string list"
  cr_authUrl :: "ConnectorContext \<Rightarrow> string \<Rightarrow> string list option \<Rightarrow> string"
  cr_exchangeCode :: "env \<Rightarrow> ConnectorContext \<Rightarrow> string \<Rightarrow> (connector_error, OAuthTokens) result"
  cr_refresh :: "env \<Rightarrow> ConnectorContext \<Rightarrow> string \<Rightarrow> (connector_error, OAuthTokens) result"
  cr_callApi :: "env \<Rightarrow> ConnectorContext \<Rightarrow> string \<Rightarrow> ApiCall \<Rightarrow> (connector_error, ApiCallResponse) result"

definition scopes_or :: "string list \<Rightarrow> string list option \<Rightarrow> string list" where
  "scopes_or def scopes = (case scopes of None \<Rightarrow> def | Some s \<Rightarrow> s)"

definition client_pairs :: "ConnectorContext \<Rightarrow> (string \<times> string) list" where
  "client_pairs ctx = [(''client_id'', cc_clientId ctx), (''client_secret'', cc_clientSecret ctx)]"

definition refresh_pairs :: "ConnectorContext \<Rightarrow> string \<Rightarrow> (string \<times> string) list" where
  "refresh_pairs ctx refreshToken =
     client_pairs ctx @ [(''grant_type'', ''refresh_token''), (''refresh_token'', refreshToken)]"

text \<open>
  The seven connectors of apps/control-plane/src/oauth/connectors and their registry (index.ts), one group
  of definitions per file.
\<close>

subsection \<open>github.ts\<close>

definition github_scopes :: "string list" where "github_scopes = [''repo'', ''read:user'']"

definition github_fetchAccountId :: "env \<Rightarrow> ConnectorContext \<Rightarrow> string \<Rightarrow> (connector_error, string) result" where
  "github_fetchAccountId E ctx accessToken =
     rbind (send ctx
       \<lparr>ur_url = ''https://api.github.com/user'', ur_params = [], ur_method = ''GET'',
        ur_headers = [(''authorization'', ''Bearer '' @ accessToken), (''accept'', ''application/vnd.github+json''),
                      (''user-agent'', ''credential-broker'')], ur_body = None\<rparr>) (\<lambda>res.
     if \<not> res_ok res then Inl (AuthError (rw_status res))
     else rbind (response_json E res) (\<lambda>body. rbind (prop_of body ''login'') (\<lambda>login.
       case login of
         JStr s \<Rightarrow> Inr s
       | _ \<Rightarrow> rbind (prop_of body ''id'') (\<lambda>i. case i of JNum n \<Rightarrow> Inr (js_String i) | _ \<Rightarrow> Inl (AuthError 200)))))"

definition has_error :: "json \<Rightarrow> bool" where
  "has_error parsed \<longleftrightarrow> (case as_obj parsed of None \<Rightarrow> False | Some ob \<Rightarrow> map_of ob ''error'' \<noteq> None)"

definition github_tokens ::
  "env \<Rightarrow> ConnectorContext \<Rightarrow> int \<Rightarrow> int \<Rightarrow> (string \<times> string) list \<Rightarrow> (connector_error, OAuthTokens) result" where
  "github_tokens E ctx errorStatus missingStatus params =
     rbind (postFormToTokenEndpoint E ctx ''https://github.com/login/oauth/access_token'' params False []) (\<lambda>parsed.
     if has_error parsed then Inl (AuthError errorStatus)
     else rbind (require_access_token missingStatus parsed) (\<lambda>at.
          rbind (github_fetchAccountId E ctx at) (\<lambda>accountId.
          rbind (prop_of parsed ''refresh_token_expires_in'') (\<lambda>rei. tokens_for_account ctx parsed accountId rei))))"

definition github_exchangeCode :: "env \<Rightarrow> ConnectorContext \<Rightarrow> string \<Rightarrow> (connector_error, OAuthTokens) result" where
  "github_exchangeCode E ctx code =
     github_tokens E ctx 200 200 (client_pairs ctx @ [(''code'', code), (''redirect_uri'', cc_redirectUri ctx)])"

definition github_refresh :: "env \<Rightarrow> ConnectorContext \<Rightarrow> string \<Rightarrow> (connector_error, OAuthTokens) result" where
  "github_refresh E ctx refreshToken =
     (if refreshToken = [] then Inl (AuthError 401) else github_tokens E ctx 401 401 (refresh_pairs ctx refreshToken))"

definition github_authUrl :: "ConnectorContext \<Rightarrow> string \<Rightarrow> string list option \<Rightarrow> string" where
  "github_authUrl ctx state scopes =
     with_query ''https://github.com/login/oauth/authorize''
       [(''client_id'', cc_clientId ctx), (''redirect_uri'', cc_redirectUri ctx),
        (''scope'', join '' '' (scopes_or github_scopes scopes)), (''state'', state)]"

definition callGithubApi ::
  "env \<Rightarrow> ConnectorContext \<Rightarrow> string \<Rightarrow> ApiCall \<Rightarrow> (connector_error, ApiCallResponse) result" where
  "callGithubApi E =
     call_provider E ((plain_shape ''https://api.github.com'')
       \<lparr>sh_headers := [(''accept'', ''application/vnd.github+json''), (''x-github-api-version'', ''2022-11-28''),
                      (''user-agent'', ''credential-broker'')], sh_jsonOnly := True\<rparr>)"

definition githubConnector :: Connector where
  "githubConnector =
     \<lparr>cr_id = ''github'', cr_defaultScopes = github_scopes, cr_authUrl = github_authUrl,
      cr_exchangeCode = github_exchangeCode, cr_refresh = github_refresh, cr_callApi = callGithubApi\<rparr>"

subsection \<open>slack.ts\<close>

definition slack_scopes :: "string list" where "slack_scopes = [''chat:write'', ''channels:read'', ''users:read'']"

text \<open>\<open>(r.team ?? {})\<close>: a team that is no object has no \<open>id\<close>.\<close>

definition slack_account :: "json \<Rightarrow> (connector_error, string) result" where
  "slack_account parsed =
     rbind (prop_of parsed ''team'') (\<lambda>team.
     rbind (if nullish team then Inr JUndef else prop_of team ''id'') (\<lambda>tid.
     case tid of
       JStr s \<Rightarrow> Inr s
     | _ \<Rightarrow> rbind (prop_of parsed ''team_id'') (\<lambda>v. Inr (case v of JStr s \<Rightarrow> s | _ \<Rightarrow> ''unknown''))))"

definition slack_tokensFromV2 :: "ConnectorContext \<Rightarrow> json \<Rightarrow> (connector_error, OAuthTokens) result" where
  "slack_tokensFromV2 ctx parsed =
     (if \<not> is_structured parsed then Inl (AuthError 200)
      else rbind (prop_of parsed ''ok'') (\<lambda>ok'.
        if ok' \<noteq> JBool True then Inl (AuthError 200)
        else rbind (slack_account parsed) (\<lambda>account. tokens_for_account ctx parsed account JUndef)))"

definition slack_exchangeCode :: "env \<Rightarrow> ConnectorContext \<Rightarrow> string \<Rightarrow> (connector_error, OAuthTokens) result" where
  "slack_exchangeCode E ctx code =
     rbind (postFormToTokenEndpoint E ctx ''https://slack.com/api/oauth.v2.access''
         (client_pairs ctx @ [(''code'', code), (''redirect_uri'', cc_redirectUri ctx)]) False [])
       (slack_tokensFromV2 ctx)"

definition slack_refresh :: "env \<Rightarrow> ConnectorContext \<Rightarrow> string \<Rightarrow> (connector_error, OAuthTokens) result" where
  "slack_refresh E ctx refreshToken =
     (if refreshToken = [] then Inl (AuthError 401)
      else rbind (postFormToTokenEndpoint E ctx ''https://slack.com/api/oauth.v2.access'' (refresh_pairs ctx refreshToken) False [])
             (slack_tokensFromV2 ctx))"

definition slack_authUrl :: "ConnectorContext \<Rightarrow> string \<Rightarrow> string list option \<Rightarrow> string" where
  "slack_authUrl ctx state scopes =
     with_query ''https://slack.com/oauth/v2/authorize''
       [(''client_id'', cc_clientId ctx), (''redirect_uri'', cc_redirectUri ctx),
        (''scope'', join '','' (scopes_or slack_scopes scopes)), (''state'', state)]"

definition callSlackApi ::
  "env \<Rightarrow> ConnectorContext \<Rightarrow> string \<Rightarrow> ApiCall \<Rightarrow> (connector_error, ApiCallResponse) result" where
  "callSlackApi E =
     call_provider E ((plain_shape ''https://slack.com/api'')\<lparr>sh_contentType := ''application/json; charset=utf-8''\<rparr>)"

definition slackConnector :: Connector where
  "slackConnector =
     \<lparr>cr_id = ''slack'', cr_defaultScopes = slack_scopes, cr_authUrl = slack_authUrl,
      cr_exchangeCode = slack_exchangeCode, cr_refresh = slack_refresh, cr_callApi = callSlackApi\<rparr>"

subsection \<open>notion.ts\<close>

definition notion_tokensFromResponse :: "json \<Rightarrow> (connector_error, OAuthTokens) result" where
  "notion_tokensFromResponse parsed =
     (if \<not> is_structured parsed then Inl (AuthError 200)
      else rbind (prop_of parsed ''access_token'') (\<lambda>at. case at of
          JStr a \<Rightarrow>
            rbind (prop_of parsed ''workspace_id'') (\<lambda>w. rbind (prop_of parsed ''bot_id'') (\<lambda>b.
              Inr \<lparr>ot_accessToken = a, ot_refreshToken = [], ot_accessTokenExpiresAt = None,
                   ot_refreshTokenExpiresAt = None, ot_scopesGranted = [],
                   ot_accountId = (case w of JStr s \<Rightarrow> s | _ \<Rightarrow> (case b of JStr s \<Rightarrow> s | _ \<Rightarrow> ''unknown''))\<rparr>))
        | _ \<Rightarrow> Inl (AuthError 200)))"

definition notion_exchangeCode :: "env \<Rightarrow> ConnectorContext \<Rightarrow> string \<Rightarrow> (connector_error, OAuthTokens) result" where
  "notion_exchangeCode E ctx code =
     rbind (postFormToTokenEndpoint E ctx ''https://api.notion.com/v1/oauth/token''
         [(''grant_type'', ''authorization_code''), (''code'', code), (''redirect_uri'', cc_redirectUri ctx)]
         True [(''notion-version'', ''2022-06-28'')])
       notion_tokensFromResponse"

definition notion_refresh :: "env \<Rightarrow> ConnectorContext \<Rightarrow> string \<Rightarrow> (connector_error, OAuthTokens) result" where
  "notion_refresh E ctx refreshToken = Inl (AuthError 401)"

definition notion_authUrl :: "ConnectorContext \<Rightarrow> string \<Rightarrow> string list option \<Rightarrow> string" where
  "notion_authUrl ctx state scopes =
     with_query ''https://api.notion.com/v1/oauth/authorize''
       [(''client_id'', cc_clientId ctx), (''redirect_uri'', cc_redirectUri ctx), (''response_type'', ''code''),
        (''owner'', ''user''), (''state'', state)]"

definition callNotionApi ::
  "env \<Rightarrow> ConnectorContext \<Rightarrow> string \<Rightarrow> ApiCall \<Rightarrow> (connector_error, ApiCallResponse) result" where
  "callNotionApi E =
     call_provider E ((plain_shape ''https://api.notion.com/v1'')
       \<lparr>sh_headers := [(''notion-version'', ''2022-06-28''), (''accept'', ''application/json'')]\<rparr>)"

definition notionConnector :: Connector where
  "notionConnector =
     \<lparr>cr_id = ''notion'', cr_defaultScopes = [], cr_authUrl = notion_authUrl,
      cr_exchangeCode = notion_exchangeCode, cr_refresh = notion_refresh, cr_callApi = callNotionApi\<rparr>"

subsection \<open>google.ts\<close>

definition google_scopes :: "string list" where
  "google_scopes =
     [''https://www.googleapis.com/auth/userinfo.email'', ''https://www.googleapis.com/auth/drive.readonly'']"

definition google_fetchAccountId :: "env \<Rightarrow> ConnectorContext \<Rightarrow> string \<Rightarrow> (connector_error, string) result" where
  "google_fetchAccountId E ctx accessToken =
     rbind (send ctx
       \<lparr>ur_url = ''https://www.googleapis.com/oauth2/v3/userinfo'', ur_params = [], ur_method = ''GET'',
        ur_headers = [(''authorization'', ''Bearer '' @ accessToken)], ur_body = None\<rparr>) (\<lambda>res.
     if \<not> res_ok res then Inl (AuthError (rw_status res))
     else rbind (response_json E res) (\<lambda>body. rbind (prop_of body ''sub'') (\<lambda>sub.
       case sub of
         JStr s \<Rightarrow> Inr s
       | _ \<Rightarrow> rbind (prop_of body ''email'') (\<lambda>m. case m of JStr s \<Rightarrow> Inr s | _ \<Rightarrow> Inl (AuthError 200)))))"

definition google_tokens ::
  "env \<Rightarrow> ConnectorContext \<Rightarrow> int \<Rightarrow> (string \<times> string) list \<Rightarrow> (connector_error, OAuthTokens) result" where
  "google_tokens E ctx missingStatus params =
     rbind (postFormToTokenEndpoint E ctx ''https://oauth2.googleapis.com/token'' params False []) (\<lambda>parsed.
     rbind (require_access_token missingStatus parsed) (\<lambda>at.
     rbind (google_fetchAccountId E ctx at) (\<lambda>accountId. tokens_for_account ctx parsed accountId JUndef)))"

definition google_exchangeCode :: "env \<Rightarrow> ConnectorContext \<Rightarrow> string \<Rightarrow> (connector_error, OAuthTokens) result" where
  "google_exchangeCode E ctx code =
     google_tokens E ctx 200
       (client_pairs ctx @ [(''code'', code), (''grant_type'', ''authorization_code''), (''redirect_uri'', cc_redirectUri ctx)])"

definition google_refresh :: "env \<Rightarrow> ConnectorContext \<Rightarrow> string \<Rightarrow> (connector_error, OAuthTokens) result" where
  "google_refresh E ctx refreshToken =
     (if refreshToken = [] then Inl (AuthError 401)
      else rbind (google_tokens E ctx 401 (refresh_pairs ctx refreshToken)) (\<lambda>t.
        Inr (if ot_refreshToken t = [] then t\<lparr>ot_refreshToken := refreshToken\<rparr> else t)))"

definition google_authUrl :: "ConnectorContext \<Rightarrow> string \<Rightarrow> string list option \<Rightarrow> string" where
  "google_authUrl ctx state scopes =
     with_query ''https://accounts.google.com/o/oauth2/v2/auth''
       [(''client_id'', cc_clientId ctx), (''redirect_uri'', cc_redirectUri ctx), (''response_type'', ''code''),
        (''scope'', join '' '' (scopes_or google_scopes scopes)), (''state'', state), (''access_type'', ''offline''),
        (''prompt'', ''consent'')]"

definition callGoogleApi ::
  "env \<Rightarrow> ConnectorContext \<Rightarrow> string \<Rightarrow> ApiCall \<Rightarrow> (connector_error, ApiCallResponse) result" where
  "callGoogleApi E = call_provider E (plain_shape ''https://www.googleapis.com'')"

definition googleConnector :: Connector where
  "googleConnector =
     \<lparr>cr_id = ''google'', cr_defaultScopes = google_scopes, cr_authUrl = google_authUrl,
      cr_exchangeCode = google_exchangeCode, cr_refresh = google_refresh, cr_callApi = callGoogleApi\<rparr>"

subsection \<open>linear.ts\<close>

definition linear_scopes :: "string list" where "linear_scopes = [''read'', ''issues:create'']"

text \<open>\<open>body.data?.viewer\<close>, then the first of its members that is a string.\<close>

definition linear_viewer :: "json \<Rightarrow> (connector_error, string) result" where
  "linear_viewer body =
     rbind (prop_of body ''data'') (\<lambda>d.
     rbind (if nullish d then Inr JUndef else prop_of d ''viewer'') (\<lambda>viewer.
     if \<not> truthy viewer then Inl (AuthError 200)
     else rbind (prop_of viewer ''id'') (\<lambda>i. rbind (prop_of viewer ''email'') (\<lambda>m.
       case i of JStr s \<Rightarrow> Inr s | _ \<Rightarrow> (case m of JStr s \<Rightarrow> Inr s | _ \<Rightarrow> Inl (AuthError 200))))))"

definition linear_fetchAccountId :: "env \<Rightarrow> ConnectorContext \<Rightarrow> string \<Rightarrow> (connector_error, string) result" where
  "linear_fetchAccountId E ctx accessToken =
     rbind (send ctx
       \<lparr>ur_url = ''https://api.linear.app/graphql'', ur_params = [], ur_method = ''POST'',
        ur_headers = [(''authorization'', ''Bearer '' @ accessToken), (''content-type'', ''application/json''),
                      (''accept'', ''application/json'')],
        ur_body = Some (render (JObj [(''query'', JStr ''{ viewer { id name email } }'')]))\<rparr>) (\<lambda>res.
     if \<not> res_ok res then Inl (AuthError (rw_status res)) else rbind (response_json E res) linear_viewer)"

definition linear_tokens ::
  "env \<Rightarrow> ConnectorContext \<Rightarrow> int \<Rightarrow> (string \<times> string) list \<Rightarrow> (connector_error, OAuthTokens) result" where
  "linear_tokens E ctx missingStatus params =
     rbind (postFormToTokenEndpoint E ctx ''https://api.linear.app/oauth/token'' params False []) (\<lambda>parsed.
     rbind (require_access_token missingStatus parsed) (\<lambda>at.
     rbind (linear_fetchAccountId E ctx at) (\<lambda>accountId. tokens_for_account ctx parsed accountId JUndef)))"

definition linear_exchangeCode :: "env \<Rightarrow> ConnectorContext \<Rightarrow> string \<Rightarrow> (connector_error, OAuthTokens) result" where
  "linear_exchangeCode E ctx code =
     linear_tokens E ctx 200
       (client_pairs ctx @ [(''grant_type'', ''authorization_code''), (''code'', code), (''redirect_uri'', cc_redirectUri ctx)])"

definition linear_refresh :: "env \<Rightarrow> ConnectorContext \<Rightarrow> string \<Rightarrow> (connector_error, OAuthTokens) result" where
  "linear_refresh E ctx refreshToken =
     (if refreshToken = [] then Inl (AuthError 401) else linear_tokens E ctx 401 (refresh_pairs ctx refreshToken))"

definition linear_authUrl :: "ConnectorContext \<Rightarrow> string \<Rightarrow> string list option \<Rightarrow> string" where
  "linear_authUrl ctx state scopes =
     with_query ''https://linear.app/oauth/authorize''
       [(''client_id'', cc_clientId ctx), (''redirect_uri'', cc_redirectUri ctx), (''response_type'', ''code''),
        (''scope'', join '','' (scopes_or linear_scopes scopes)), (''state'', state), (''prompt'', ''consent'')]"

definition callLinearApi ::
  "env \<Rightarrow> ConnectorContext \<Rightarrow> string \<Rightarrow> ApiCall \<Rightarrow> (connector_error, ApiCallResponse) result" where
  "callLinearApi E = call_provider E ((plain_shape ''https://api.linear.app'')\<lparr>sh_jsonOnly := True\<rparr>)"

definition linearConnector :: Connector where
  "linearConnector =
     \<lparr>cr_id = ''linear'', cr_defaultScopes = linear_scopes, cr_authUrl = linear_authUrl,
      cr_exchangeCode = linear_exchangeCode, cr_refresh = linear_refresh, cr_callApi = callLinearApi\<rparr>"

subsection \<open>stripe.ts\<close>

definition stripe_scopes :: "string list" where "stripe_scopes = [''read_only'']"

definition stripe_tokensFromResponse :: "json \<Rightarrow> (connector_error, OAuthTokens) result" where
  "stripe_tokensFromResponse parsed =
     (if \<not> is_structured parsed then Inl (AuthError 200)
      else rbind (prop_of parsed ''access_token'') (\<lambda>at. case at of
          JStr a \<Rightarrow>
            rbind (prop_of parsed ''stripe_user_id'') (\<lambda>u. rbind (prop_of parsed ''scope'') (\<lambda>sc.
              Inr \<lparr>ot_accessToken = a, ot_refreshToken = [], ot_accessTokenExpiresAt = None,
                   ot_refreshTokenExpiresAt = None, ot_scopesGranted = parseScopeString sc,
                   ot_accountId = (case u of JStr s \<Rightarrow> s | _ \<Rightarrow> ''unknown'')\<rparr>))
        | _ \<Rightarrow> Inl (AuthError 200)))"

definition stripe_exchangeCode :: "env \<Rightarrow> ConnectorContext \<Rightarrow> string \<Rightarrow> (connector_error, OAuthTokens) result" where
  "stripe_exchangeCode E ctx code =
     rbind (postFormToTokenEndpoint E ctx ''https://connect.stripe.com/oauth/token''
         [(''client_secret'', cc_clientSecret ctx), (''grant_type'', ''authorization_code''), (''code'', code)] False [])
       stripe_tokensFromResponse"

definition stripe_refresh :: "env \<Rightarrow> ConnectorContext \<Rightarrow> string \<Rightarrow> (connector_error, OAuthTokens) result" where
  "stripe_refresh E ctx refreshToken = Inl (AuthError 401)"

definition stripe_authUrl :: "ConnectorContext \<Rightarrow> string \<Rightarrow> string list option \<Rightarrow> string" where
  "stripe_authUrl ctx state scopes =
     with_query ''https://connect.stripe.com/oauth/authorize''
       [(''client_id'', cc_clientId ctx), (''redirect_uri'', cc_redirectUri ctx), (''response_type'', ''code''),
        (''scope'', join '' '' (scopes_or stripe_scopes scopes)), (''state'', state)]"

text \<open>The form encoding of a body is the one of the PDP's adapter.\<close>

definition encodeStripeForm :: "json \<Rightarrow> string" where
  "encodeStripeForm body =
     (case body of
        JStr s \<Rightarrow> s
      | JObj ob \<Rightarrow> form_text (concat (map form_entry ob))
      | JArr vs \<Rightarrow> form_text (concat (map form_entry (zip (map (\<lambda>i. string_of_int (int i)) [0..<length vs]) vs)))
      | _ \<Rightarrow> [])"

definition callStripeApi ::
  "env \<Rightarrow> ConnectorContext \<Rightarrow> string \<Rightarrow> ApiCall \<Rightarrow> (connector_error, ApiCallResponse) result" where
  "callStripeApi E =
     call_provider E ((plain_shape ''https://api.stripe.com'')
       \<lparr>sh_contentType := ''application/x-www-form-urlencoded'', sh_bodyless := [''GET'', ''DELETE''],
        sh_encode := encodeStripeForm, sh_jsonOnly := True\<rparr>)"

definition stripeConnector :: Connector where
  "stripeConnector =
     \<lparr>cr_id = ''stripe'', cr_defaultScopes = stripe_scopes, cr_authUrl = stripe_authUrl,
      cr_exchangeCode = stripe_exchangeCode, cr_refresh = stripe_refresh, cr_callApi = callStripeApi\<rparr>"

subsection \<open>discord.ts\<close>

definition discord_scopes :: "string list" where "discord_scopes = [''bot'', ''applications.commands'']"

definition readBotTokenFromEnv :: "ConnectorContext \<Rightarrow> (connector_error, string) result" where
  "readBotTokenFromEnv ctx =
     (case cc_botToken ctx of None \<Rightarrow> Inl (AuthError 503) | Some t \<Rightarrow> if t = [] then Inl (AuthError 503) else Inr t)"

definition discord_tokensFromResponse :: "ConnectorContext \<Rightarrow> json \<Rightarrow> (connector_error, OAuthTokens) result" where
  "discord_tokensFromResponse ctx parsed =
     (if \<not> is_structured parsed then Inl (AuthError 200)
      else rbind (prop_of parsed ''access_token'') (\<lambda>at. case at of
          JStr a \<Rightarrow>
            rbind (prop_of parsed ''guild'') (\<lambda>guild.
            rbind (if is_structured guild then prop_of guild ''id'' else Inr JUndef) (\<lambda>g.
            if text_of g = [] then Inl (AuthError 200)
            else rbind (readBotTokenFromEnv ctx) (\<lambda>botToken.
              rbind (prop_of parsed ''expires_in'') (\<lambda>ei. rbind (prop_of parsed ''scope'') (\<lambda>sc.
                Inr \<lparr>ot_accessToken = botToken, ot_refreshToken = [], ot_accessTokenExpiresAt = expiresInToDate ctx ei,
                     ot_refreshTokenExpiresAt = None, ot_scopesGranted = parseScopeString sc,
                     ot_accountId = text_of g\<rparr>)))))
        | _ \<Rightarrow> Inl (AuthError 200)))"

definition discord_exchangeCode :: "env \<Rightarrow> ConnectorContext \<Rightarrow> string \<Rightarrow> (connector_error, OAuthTokens) result" where
  "discord_exchangeCode E ctx code =
     rbind (postFormToTokenEndpoint E ctx ''https://discord.com/api/oauth2/token''
         (client_pairs ctx @ [(''grant_type'', ''authorization_code''), (''code'', code), (''redirect_uri'', cc_redirectUri ctx)])
         False [])
       (discord_tokensFromResponse ctx)"

definition discord_refresh :: "env \<Rightarrow> ConnectorContext \<Rightarrow> string \<Rightarrow> (connector_error, OAuthTokens) result" where
  "discord_refresh E ctx refreshToken = Inl (AuthError 401)"

definition discord_authUrl :: "ConnectorContext \<Rightarrow> string \<Rightarrow> string list option \<Rightarrow> string" where
  "discord_authUrl ctx state scopes =
     with_query ''https://discord.com/oauth2/authorize''
       [(''client_id'', cc_clientId ctx), (''redirect_uri'', cc_redirectUri ctx), (''response_type'', ''code''),
        (''scope'', join '' '' (scopes_or discord_scopes scopes)), (''permissions'', ''1644971949559''), (''state'', state)]"

definition callDiscordApi ::
  "env \<Rightarrow> ConnectorContext \<Rightarrow> string \<Rightarrow> ApiCall \<Rightarrow> (connector_error, ApiCallResponse) result" where
  "callDiscordApi E =
     call_provider E ((plain_shape ''https://discord.com/api/v10'')
       \<lparr>sh_auth := ''Bot'', sh_contentType := ''application/json; charset=utf-8'', sh_bodyless := [''GET'', ''DELETE''],
        sh_headers := [(''accept'', ''application/json''),
                       (''user-agent'', ''NomosBroker (https://auto-nomos.com, 1.0)'')]\<rparr>)"

definition discordConnector :: Connector where
  "discordConnector =
     \<lparr>cr_id = ''discord'', cr_defaultScopes = discord_scopes, cr_authUrl = discord_authUrl,
      cr_exchangeCode = discord_exchangeCode, cr_refresh = discord_refresh, cr_callApi = callDiscordApi\<rparr>"

subsection \<open>index.ts\<close>

definition connectorRegistry :: "(string \<times> Connector) list" where
  "connectorRegistry =
     [(''github'', githubConnector), (''slack'', slackConnector), (''google'', googleConnector),
      (''notion'', notionConnector), (''linear'', linearConnector), (''stripe'', stripeConnector),
      (''discord'', discordConnector)]"

definition getConnector :: "string \<Rightarrow> Connector option" where
  "getConnector i = map_of connectorRegistry i"

definition ALL_CONNECTOR_IDS :: "string list" where
  "ALL_CONNECTOR_IDS =
     [''github'', ''slack'', ''google'', ''notion'', ''linear'', ''stripe'', ''discord'']"

lemma registered: "i \<in> set ALL_CONNECTOR_IDS \<longleftrightarrow> getConnector i \<noteq> None"
  by (auto simp: ALL_CONNECTOR_IDS_def getConnector_def connectorRegistry_def)

end
