(* ===== verification/Oauth_Tokens.thy ===== *)
theory Oauth_Tokens
  imports Oauth_Connectors Broker_Tables
begin

text \<open>
  The token store and the signed state of the OAuth bridge of the control plane: oauth/tokens.ts and
  oauth/state.ts. Fresh ids and nonces are arguments. The store finds a row and writes it in two round trips, so
  \<open>saveConnection\<close> and \<open>updateConnectionTokens\<close> come in two halves. A timestamp outside of the range of
  \<open>Date\<close> cannot be written. HMAC-SHA256 is third-party code and a parameter.
\<close>

datatype store_error = ConnectionGone | AccountMismatch string string | StoreThrew exn | InvalidDate

record StoredConnection =
  sc_id :: string
  sc_customerId :: string
  sc_connector :: string
  sc_accountId :: string
  sc_tokens :: OAuthTokens

subsection \<open>tokens.ts: rows\<close>

definition buildAad :: "string \<Rightarrow> string \<Rightarrow> string \<Rightarrow> string" where
  "buildAad customerId connector accountId =
     ''oauth-token-v1|'' @ customerId @ ''|'' @ connector @ ''|'' @ accountId"

record TokenColumns =
  tc_encryptedRefreshToken :: string
  tc_refreshTokenNonce :: string
  tc_refreshTokenExpiresAt :: "int option"
  tc_encryptedAccessToken :: "string option"
  tc_accessTokenNonce :: "string option"
  tc_accessTokenExpiresAt :: "int option"
  tc_scopesGranted :: "string list"

text \<open>The two nonces are the random bytes of the two calls of \<open>sealString\<close>.\<close>

definition tokensToRow ::
  "env \<Rightarrow> string \<Rightarrow> string \<times> string \<Rightarrow> OAuthTokens \<Rightarrow> string \<Rightarrow> string \<Rightarrow> (store_error, TokenColumns) result" where
  "tokensToRow E key nonces t customerId connector =
     (let aad = Some (buildAad customerId connector (ot_accountId t));
          seal = (\<lambda>nonce s. if s = [] then Inr None
                   else case sealString E nonce key s aad of Inl e \<Rightarrow> Inl (StoreThrew e) | Inr box \<Rightarrow> Inr (Some box))
      in rbind (seal (fst nonces) (ot_refreshToken t)) (\<lambda>refresh.
         rbind (seal (snd nonces) (ot_accessToken t)) (\<lambda>access.
           Inr \<lparr>tc_encryptedRefreshToken = (case refresh of None \<Rightarrow> [] | Some b \<Rightarrow> ciphertextHex b),
                tc_refreshTokenNonce = (case refresh of None \<Rightarrow> [] | Some b \<Rightarrow> nonceHex b),
                tc_refreshTokenExpiresAt = ot_refreshTokenExpiresAt t,
                tc_encryptedAccessToken = map_option ciphertextHex access,
                tc_accessTokenNonce = map_option nonceHex access,
                tc_accessTokenExpiresAt = ot_accessTokenExpiresAt t,
                tc_scopesGranted = ot_scopesGranted t\<rparr>)))"

definition open_token :: "env \<Rightarrow> string \<Rightarrow> string \<Rightarrow> string \<Rightarrow> string \<Rightarrow> (exn, string) result" where
  "open_token E key aad ct nonce =
     (case openString E key ct nonce (Some aad) of Inr t \<Rightarrow> Inr t | Inl _ \<Rightarrow> openString E key ct nonce None)"

definition rowToTokens :: "env \<Rightarrow> string \<Rightarrow> OauthConnectionRow \<Rightarrow> (exn, OAuthTokens) result" where
  "rowToTokens E key row =
     (let aad = buildAad (oc_customerId row) (oc_connector row) (oc_accountId row)
      in rbind (if oc_encryptedRefreshToken row = [] \<or> oc_refreshTokenNonce row = [] then Inr []
                else open_token E key aad (oc_encryptedRefreshToken row) (oc_refreshTokenNonce row)) (\<lambda>refreshToken.
         rbind (if str_truthy (oc_encryptedAccessToken row) \<and> str_truthy (oc_accessTokenNonce row)
                then open_token E key aad (the (oc_encryptedAccessToken row)) (the (oc_accessTokenNonce row))
                else Inr []) (\<lambda>accessToken.
           Inr \<lparr>ot_accessToken = accessToken, ot_refreshToken = refreshToken,
                ot_accessTokenExpiresAt = oc_accessTokenExpiresAt row,
                ot_refreshTokenExpiresAt = oc_refreshTokenExpiresAt row,
                ot_scopesGranted = oc_scopesGranted row, ot_accountId = oc_accountId row\<rparr>)))"

definition rowToStored :: "env \<Rightarrow> string \<Rightarrow> OauthConnectionRow \<Rightarrow> (exn, StoredConnection) result" where
  "rowToStored E key row =
     rbind (rowToTokens E key row) (\<lambda>t.
       Inr \<lparr>sc_id = oc_id row, sc_customerId = oc_customerId row, sc_connector = oc_connector row,
            sc_accountId = oc_accountId row, sc_tokens = t\<rparr>)"

definition set_columns :: "TokenColumns \<Rightarrow> OauthConnectionRow \<Rightarrow> OauthConnectionRow" where
  "set_columns c row =
     row\<lparr>oc_encryptedRefreshToken := tc_encryptedRefreshToken c, oc_refreshTokenNonce := tc_refreshTokenNonce c,
         oc_refreshTokenExpiresAt := tc_refreshTokenExpiresAt c, oc_encryptedAccessToken := tc_encryptedAccessToken c,
         oc_accessTokenNonce := tc_accessTokenNonce c, oc_accessTokenExpiresAt := tc_accessTokenExpiresAt c,
         oc_scopesGranted := tc_scopesGranted c\<rparr>"

definition date_ok :: "int option \<Rightarrow> bool" where
  "date_ok d = (case d of None \<Rightarrow> True | Some t \<Rightarrow> \<bar>t\<bar> \<le> 8640000000000000)"

definition writable :: "TokenColumns \<Rightarrow> bool" where
  "writable c \<longleftrightarrow> date_ok (tc_accessTokenExpiresAt c) \<and> date_ok (tc_refreshTokenExpiresAt c)"

text \<open>The value returned from the row a statement gives back; the row is written before it is decrypted.\<close>

definition returned :: "env \<Rightarrow> string \<Rightarrow> OauthConnectionRow \<Rightarrow> (store_error, StoredConnection) result" where
  "returned E key row = (case rowToStored E key row of Inl e \<Rightarrow> Inl (StoreThrew e) | Inr s \<Rightarrow> Inr s)"

subsection \<open>tokens.ts: operations\<close>

type_synonym connections = "OauthConnectionRow list"

definition save_find :: "string \<Rightarrow> string \<Rightarrow> string \<Rightarrow> connections \<Rightarrow> OauthConnectionRow option" where
  "save_find customerId connector accountId rows =
     List.find (\<lambda>r. oc_customerId r = customerId \<and> oc_connector r = connector \<and> oc_accountId r = accountId) rows"

definition update_returning ::
  "env \<Rightarrow> string \<Rightarrow> string \<Rightarrow> (OauthConnectionRow \<Rightarrow> OauthConnectionRow) \<Rightarrow> connections \<Rightarrow>
   (store_error, StoredConnection) result \<times> connections" where
  "update_returning E key i f rows =
     (case List.find (\<lambda>r. oc_id r = i) rows of
        None \<Rightarrow> (Inl ConnectionGone, rows)
      | Some r \<Rightarrow> (returned E key (f r), update_rows (\<lambda>r. oc_id r = i) f rows))"

definition save_write ::
  "env \<Rightarrow> string \<Rightarrow> string \<Rightarrow> string \<Rightarrow> string \<Rightarrow> OAuthTokens \<Rightarrow> TokenColumns \<Rightarrow> OauthConnectionRow option \<Rightarrow>
   connections \<Rightarrow> (store_error, StoredConnection) result \<times> connections" where
  "save_write E key newId customerId connector tokens columns existing rows =
     (if \<not> writable columns then (Inl InvalidDate, rows)
      else case existing of
          Some r \<Rightarrow> update_returning E key (oc_id r) (set_columns columns) rows
        | None \<Rightarrow>
            (let row = set_columns columns
                   \<lparr>oc_id = newId, oc_customerId = customerId, oc_connector = connector, oc_accountId = ot_accountId tokens,
                    oc_encryptedRefreshToken = [], oc_refreshTokenNonce = [], oc_refreshTokenExpiresAt = None,
                    oc_encryptedAccessToken = None, oc_accessTokenNonce = None, oc_accessTokenExpiresAt = None,
                    oc_scopesGranted = []\<rparr>
             in (returned E key row, rows @ [row])))"

definition saveConnection ::
  "env \<Rightarrow> string \<Rightarrow> string \<times> string \<Rightarrow> string \<Rightarrow> string \<Rightarrow> string \<Rightarrow> OAuthTokens \<Rightarrow> connections \<Rightarrow>
   (store_error, StoredConnection) result \<times> connections" where
  "saveConnection E key nonces newId customerId connector tokens rows =
     (case tokensToRow E key nonces tokens customerId connector of
        Inl e \<Rightarrow> (Inl e, rows)
      | Inr columns \<Rightarrow>
          save_write E key newId customerId connector tokens columns
            (save_find customerId connector (ot_accountId tokens) rows) rows)"

definition load_row ::
  "env \<Rightarrow> string \<Rightarrow> OauthConnectionRow option \<Rightarrow> (exn, StoredConnection option) result" where
  "load_row E key row = (case row of None \<Rightarrow> Inr None | Some r \<Rightarrow> rbind (rowToStored E key r) (\<lambda>s. Inr (Some s)))"

definition loadConnection ::
  "env \<Rightarrow> string \<Rightarrow> string \<Rightarrow> string \<Rightarrow> connections \<Rightarrow> (exn, StoredConnection option) result" where
  "loadConnection E key customerId connector rows =
     load_row E key (List.find (\<lambda>r. oc_customerId r = customerId \<and> oc_connector r = connector) rows)"

definition loadConnectionById ::
  "env \<Rightarrow> string \<Rightarrow> string \<Rightarrow> string \<Rightarrow> connections \<Rightarrow> (exn, StoredConnection option) result" where
  "loadConnectionById E key customerId connectionId rows =
     load_row E key (List.find (\<lambda>r. oc_id r = connectionId \<and> oc_customerId r = customerId) rows)"

definition update_check ::
  "env \<Rightarrow> string \<Rightarrow> string \<times> string \<Rightarrow> string \<Rightarrow> OAuthTokens \<Rightarrow> connections \<Rightarrow> (store_error, TokenColumns) result" where
  "update_check E key nonces connectionId tokens rows =
     (case List.find (\<lambda>r. oc_id r = connectionId) rows of
        None \<Rightarrow> Inl ConnectionGone
      | Some existing \<Rightarrow>
          if oc_accountId existing \<noteq> ot_accountId tokens
          then Inl (AccountMismatch (oc_accountId existing) (ot_accountId tokens))
          else tokensToRow E key nonces tokens (oc_customerId existing) (oc_connector existing))"

definition update_write ::
  "env \<Rightarrow> string \<Rightarrow> string \<Rightarrow> OAuthTokens \<Rightarrow> TokenColumns \<Rightarrow> connections \<Rightarrow>
   (store_error, StoredConnection) result \<times> connections" where
  "update_write E key connectionId tokens columns rows =
     (if \<not> writable columns then (Inl InvalidDate, rows)
      else update_returning E key connectionId
             (\<lambda>r. (set_columns columns r)\<lparr>oc_accountId := ot_accountId tokens\<rparr>) rows)"

definition updateConnectionTokens ::
  "env \<Rightarrow> string \<Rightarrow> string \<times> string \<Rightarrow> string \<Rightarrow> OAuthTokens \<Rightarrow> connections \<Rightarrow>
   (store_error, StoredConnection) result \<times> connections" where
  "updateConnectionTokens E key nonces connectionId tokens rows =
     (case update_check E key nonces connectionId tokens rows of
        Inl e \<Rightarrow> (Inl e, rows)
      | Inr columns \<Rightarrow> update_write E key connectionId tokens columns rows)"

subsection \<open>state.ts\<close>

record OAuthStatePayload =
  sp_customerId :: string
  sp_connector :: string
  sp_nonce :: string
  sp_exp :: jsnum

datatype VerifyResult = State_ok OAuthStatePayload | State_bad string

definition state_json :: "OAuthStatePayload \<Rightarrow> string" where
  "state_json p =
     render (JObj [(''customerId'', JStr (sp_customerId p)), (''connector'', JStr (sp_connector p)),
                   (''nonce'', JStr (sp_nonce p)), (''exp'', JNum (sp_exp p))])"

definition signState :: "(string \<Rightarrow> string \<Rightarrow> string) \<Rightarrow> string \<Rightarrow> OAuthStatePayload \<Rightarrow> string" where
  "signState hmac secret payload =
     (let text = state_json payload in stringToBase64url text @ ''.'' @ bytesToBase64url (hmac secret text))"

definition base64urlToBytesStrict :: "string \<Rightarrow> string" where
  "base64urlToBytesStrict s =
     (let pad = (if length s mod 4 = 2 then ''=='' else if length s mod 4 = 3 then ''='' else []);
          b64 = map (\<lambda>c. if c = CHR ''-'' then CHR ''+'' else if c = CHR ''_'' then CHR ''/'' else c) s @ pad
      in base64urlToBytes b64)"

definition state_payload :: "json \<Rightarrow> OAuthStatePayload option" where
  "state_payload v =
     (case as_obj v of
        None \<Rightarrow> None
      | Some ob \<Rightarrow>
          (case (as_string (jget ob ''customerId''), as_string (jget ob ''connector''), as_string (jget ob ''nonce''),
                 jget ob ''exp'') of
             (Some c, Some k, Some n, JNum e) \<Rightarrow> Some \<lparr>sp_customerId = c, sp_connector = k, sp_nonce = n, sp_exp = e\<rparr>
           | _ \<Rightarrow> None))"

text \<open>\<open>lt\<close> compares a number that is no integer with the clock. Reading a member of null throws.\<close>

definition exp_before :: "(jsnum \<Rightarrow> int \<Rightarrow> bool) \<Rightarrow> jsnum \<Rightarrow> int \<Rightarrow> bool" where
  "exp_before lt e now = (case e of JInt i \<Rightarrow> i < now | _ \<Rightarrow> lt e now)"

definition verifyState ::
  "env \<Rightarrow> (string \<Rightarrow> string \<Rightarrow> string) \<Rightarrow> (jsnum \<Rightarrow> int \<Rightarrow> bool) \<Rightarrow> string \<Rightarrow> string \<Rightarrow> int \<Rightarrow> (exn, VerifyResult) result" where
  "verifyState E hmac lt secret state now =
     (if state = [] then Inr (State_bad ''state missing'')
      else case split_on CHR ''.'' state of
          [a, b] \<Rightarrow>
            (let payloadJson = base64urlToString a
             in case JSON_parse (e_nd E) payloadJson of
                  None \<Rightarrow> Inr (State_bad ''state payload not JSON'')
                | Some v \<Rightarrow>
                    if v = JNull then Inl TypeError
                    else (case state_payload v of
                        None \<Rightarrow> Inr (State_bad ''state payload shape invalid'')
                      | Some payload \<Rightarrow>
                          if base64urlToBytesStrict b \<noteq> hmac secret payloadJson
                          then Inr (State_bad ''state signature mismatch'')
                          else if exp_before lt (sp_exp payload) now then Inr (State_bad ''state expired'')
                          else Inr (State_ok payload)))
        | _ \<Rightarrow> Inr (State_bad ''state malformed''))"

text \<open>Sixteen random bytes in hexadecimal.\<close>

definition freshNonce :: "string \<Rightarrow> string" where
  "freshNonce bytes = concat (map (\<lambda>c. [hex_digit (of_char c div 16), hex_digit (of_char c mod 16)]) bytes)"

end
