(* ===== verification/Oauth_Flow.thy ===== *)
theory Oauth_Flow
  imports Oauth_Tokens Tenancy
begin

text \<open>
  The OAuth bridge of the control plane: routes/oauth.ts (connect and callback with the one-shot nonces),
  services/oauth-refresh.ts, services/oauth-sweep.ts, trpc/routers/oauth.ts and the token routes of
  routes/internal.ts. The clock, fresh ids and random bytes are arguments, the network is in
  \<open>OauthDeps\<close>. Logging and the chat message of a failed sweep leave no trace in the tables. The timestamps
  a token is pasted with are already read.
\<close>

record NonceRow =
  nr_nonceHash :: string
  nr_customerId :: string
  nr_connector :: string
  nr_expiresAt :: int

record OauthState =
  os_console :: Console
  os_nonces :: "NonceRow list"

record OauthDeps =
  od_env :: env
  od_hmac :: "string \<Rightarrow> string \<Rightarrow> string"
  od_lt :: "jsnum \<Rightarrow> int \<Rightarrow> bool"
  od_secret :: string
  od_clients :: "string \<Rightarrow> string option \<times> string option"
  od_publicUrl :: string
  od_key :: string
  od_fetch :: fetch
  od_botToken :: "string option"
  od_ms :: "string \<Rightarrow> int"

definition connections_of :: "OauthState \<Rightarrow> connections" where
  "connections_of st = tb_oauthConnections (co_tables (os_console st))"

definition console_connections :: "(connections \<Rightarrow> connections) \<Rightarrow> Console \<Rightarrow> Console" where
  "console_connections f co = co\<lparr>co_tables := (co_tables co)\<lparr>tb_oauthConnections := f (tb_oauthConnections (co_tables co))\<rparr>\<rparr>"

definition set_connections :: "connections \<Rightarrow> OauthState \<Rightarrow> OauthState" where
  "set_connections rows st = st\<lparr>os_console := console_connections (\<lambda>_. rows) (os_console st)\<rparr>"

subsection \<open>routes/oauth.ts\<close>

definition STATE_TTL_MS :: int where "STATE_TTL_MS = 5 * 60 * 1000"

definition connectorCredentials :: "OauthDeps \<Rightarrow> string \<Rightarrow> (string \<times> string) option" where
  "connectorCredentials D i =
     (case od_clients D i of
        (Some c, Some s) \<Rightarrow> if c = [] \<or> s = [] then None else Some (c, s)
      | _ \<Rightarrow> None)"

definition strip_slashes :: "string \<Rightarrow> string" where
  "strip_slashes s = rev (dropWhile (\<lambda>c. c = CHR ''/'') (rev s))"

definition ctxFor :: "OauthDeps \<Rightarrow> int \<Rightarrow> string \<Rightarrow> string \<times> string \<Rightarrow> ConnectorContext" where
  "ctxFor D now i creds =
     \<lparr>cc_fetch = od_fetch D, cc_clientId = fst creds, cc_clientSecret = snd creds,
      cc_redirectUri = strip_slashes (od_publicUrl D) @ ''/v1/oauth/callback/'' @ i,
      cc_now = now, cc_botToken = od_botToken D, cc_ms = od_ms D\<rparr>"

definition connect_membership :: "Console \<Rightarrow> string \<Rightarrow> MembershipRow option" where
  "connect_membership co userId =
     (case Option.bind (active_org co userId) (membership_of co userId) of
        Some m \<Rightarrow> Some m
      | None \<Rightarrow> owner_or_first (filter (\<lambda>m. mb_userId m = userId) (co_memberships co)))"

datatype connect_answer = Connect_refused int string | Connect_threw | Connect_ok string string int

definition connect ::
  "OauthDeps \<Rightarrow> SessionUser option \<Rightarrow> int \<Rightarrow> string \<Rightarrow> string \<Rightarrow> OauthState \<Rightarrow> connect_answer \<times> OauthState" where
  "connect D session now bytes i st =
     (if i \<notin> set ALL_CONNECTOR_IDS then (Connect_refused 404 ''unknown_connector'', st)
      else case session of
          None \<Rightarrow> (Connect_refused 401 ''unauthorized'', st)
        | Some u \<Rightarrow>
            (case connect_membership (os_console st) (su_id u) of
               None \<Rightarrow> (Connect_refused 403 ''no_customer_membership'', st)
             | Some m \<Rightarrow>
                 (case (connectorCredentials D i, getConnector i) of
                    (Some creds, Some connector) \<Rightarrow>
                      (let nonce = freshNonce bytes; exp = now + STATE_TTL_MS; hash = sha256Hex (od_env D) nonce
                       in if list_ex (\<lambda>r. nr_nonceHash r = hash) (os_nonces st) then (Connect_threw, st)
                          else
                            (let state = signState (od_hmac D) (od_secret D)
                                   \<lparr>sp_customerId = mb_customerId m, sp_connector = i, sp_nonce = nonce, sp_exp = JInt exp\<rparr>
                             in (Connect_ok (cr_authUrl connector (ctxFor D now i creds) state None) state exp,
                                 st\<lparr>os_nonces := os_nonces st @
                                   [\<lparr>nr_nonceHash = hash, nr_customerId = mb_customerId m, nr_connector = i,
                                     nr_expiresAt = exp\<rparr>]\<rparr>)))
                  | _ \<Rightarrow> (Connect_refused 503 ''connector_not_configured'', st))))"

text \<open>The query of the dashboard page a browser is sent back to; empty values are left out.\<close>

datatype callback_answer = Redirect "(string \<times> string) list" | Callback_threw

definition dashboardReturn :: "(string \<times> string) list \<Rightarrow> callback_answer" where
  "dashboardReturn params = Redirect (filter (\<lambda>(k, v). v \<noteq> []) params)"

definition fail :: "string \<Rightarrow> string \<Rightarrow> (string \<times> string) list \<Rightarrow> callback_answer" where
  "fail i reason extra = dashboardReturn ([(''oauth'', ''error''), (''connector'', i), (''reason'', reason)] @ extra)"

text \<open>The part of the callback before it calls the provider: the payload of a state that is authentic, in
  time, for this connector and not yet used, whose nonce it consumes.\<close>

definition consume_nonce :: "string \<Rightarrow> OauthState \<Rightarrow> bool \<times> OauthState" where
  "consume_nonce hash st =
     (list_ex (\<lambda>r. nr_nonceHash r = hash) (os_nonces st),
      st\<lparr>os_nonces := filter (\<lambda>r. nr_nonceHash r \<noteq> hash) (os_nonces st)\<rparr>)"

definition callback_begin ::
  "OauthDeps \<Rightarrow> int \<Rightarrow> string \<Rightarrow> string option \<Rightarrow> string option \<Rightarrow> OauthState \<Rightarrow>
   (callback_answer, string \<times> OAuthStatePayload) result \<times> OauthState" where
  "callback_begin D now i code state st =
     (if i \<notin> set ALL_CONNECTOR_IDS then (Inl (fail i ''unknown_connector'' []), st)
      else if \<not> str_truthy code \<or> \<not> str_truthy state then (Inl (fail i ''missing_code_or_state'' []), st)
      else case verifyState (od_env D) (od_hmac D) (od_lt D) (od_secret D) (the state) now of
          Inl e \<Rightarrow> (Inl Callback_threw, st)
        | Inr (State_bad reason) \<Rightarrow> (Inl (fail i ''invalid_state'' [(''detail'', reason)]), st)
        | Inr (State_ok payload) \<Rightarrow>
            if sp_connector payload \<noteq> i then (Inl (fail i ''state_connector_mismatch'' []), st)
            else (case consume_nonce (sha256Hex (od_env D) (sp_nonce payload)) st of
                (consumed, st') \<Rightarrow>
                  if consumed then (Inr (the code, payload), st')
                  else (Inl (fail i ''invalid_state'' [(''detail'', ''nonce_replay_or_unknown'')]), st')))"

definition callback_finish ::
  "OauthDeps \<Rightarrow> int \<Rightarrow> string \<times> string \<Rightarrow> string \<Rightarrow> string \<Rightarrow> string \<times> OAuthStatePayload \<Rightarrow> OauthState \<Rightarrow>
   callback_answer \<times> OauthState" where
  "callback_finish D now nonces newId i cp st =
     (case (connectorCredentials D i, getConnector i) of
        (Some creds, Some connector) \<Rightarrow>
          (case cr_exchangeCode connector (od_env D) (ctxFor D now i creds) (fst cp) of
             Inl e \<Rightarrow>
               (fail i ''code_exchange_failed''
                  [(''providerStatus'', case e of AuthError s \<Rightarrow> string_of_int s | Thrown \<Rightarrow> [])], st)
           | Inr tokens \<Rightarrow>
               (case saveConnection (od_env D) (od_key D) nonces newId (sp_customerId (snd cp)) i tokens (connections_of st) of
                  (Inl e, rows) \<Rightarrow> (Callback_threw, set_connections rows st)
                | (Inr stored, rows) \<Rightarrow>
                    (dashboardReturn [(''oauth'', ''success''), (''connector'', i), (''connectionId'', sc_id stored),
                                      (''account'', sc_accountId stored)], set_connections rows st)))
      | _ \<Rightarrow> (fail i ''connector_not_configured'' [], st))"

definition callback ::
  "OauthDeps \<Rightarrow> int \<Rightarrow> string \<times> string \<Rightarrow> string \<Rightarrow> string \<Rightarrow> string option \<Rightarrow> string option \<Rightarrow> OauthState \<Rightarrow>
   callback_answer \<times> OauthState" where
  "callback D now nonces newId i code state st =
     (case callback_begin D now i code state st of
        (Inl a, st') \<Rightarrow> (a, st')
      | (Inr cp, st') \<Rightarrow> callback_finish D now nonces newId i cp st')"

definition sweepOAuthStateNonces :: "int \<Rightarrow> OauthState \<Rightarrow> nat \<times> OauthState" where
  "sweepOAuthStateNonces now st =
     (length (filter (\<lambda>r. nr_expiresAt r < now) (os_nonces st)),
      st\<lparr>os_nonces := filter (\<lambda>r. \<not> nr_expiresAt r < now) (os_nonces st)\<rparr>)"

subsection \<open>oauth-refresh.ts\<close>

datatype RefreshCode =
  connection_not_found | connector_not_implemented | connector_unconfigured | no_refresh_token | provider_rejected
| transport_error | account_id_mismatch | scope_escalation_blocked

datatype RefreshError = Refresh_error RefreshCode "int option" | Refresh_threw

definition refresh_load ::
  "OauthDeps \<Rightarrow> string \<Rightarrow> string \<Rightarrow> connections \<Rightarrow> (RefreshError, StoredConnection \<times> Connector \<times> (string \<times> string)) result" where
  "refresh_load D customerId connectionId rows =
     (case loadConnectionById (od_env D) (od_key D) customerId connectionId rows of
        Inl e \<Rightarrow> Inl Refresh_threw
      | Inr None \<Rightarrow> Inl (Refresh_error connection_not_found None)
      | Inr (Some stored) \<Rightarrow>
          if sc_connector stored \<notin> set ALL_CONNECTOR_IDS then Inl (Refresh_error connector_not_implemented None)
          else (case (connectorCredentials D (sc_connector stored), getConnector (sc_connector stored)) of
              (Some creds, Some connector) \<Rightarrow>
                if ot_refreshToken (sc_tokens stored) = [] then Inl (Refresh_error no_refresh_token None)
                else Inr (stored, connector, creds)
            | _ \<Rightarrow> Inl (Refresh_error connector_unconfigured None)))"

definition refresh_call ::
  "OauthDeps \<Rightarrow> int \<Rightarrow> StoredConnection \<times> Connector \<times> (string \<times> string) \<Rightarrow> (RefreshError, OAuthTokens) result" where
  "refresh_call D now = (\<lambda>(stored, connector, creds).
     case cr_refresh connector (od_env D) (ctxFor D now (sc_connector stored) creds) (ot_refreshToken (sc_tokens stored)) of
       Inl (AuthError s) \<Rightarrow> Inl (Refresh_error provider_rejected (Some s))
     | Inl Thrown \<Rightarrow> Inl (Refresh_error transport_error None)
     | Inr tokens \<Rightarrow> Inr tokens)"

definition escalated :: "string list \<Rightarrow> string list \<Rightarrow> bool" where
  "escalated old new \<longleftrightarrow> new \<noteq> [] \<and> old \<noteq> [] \<and> filter (\<lambda>s. s \<notin> set old) new \<noteq> []"

definition refresh_store ::
  "OauthDeps \<Rightarrow> string \<times> string \<Rightarrow> StoredConnection \<Rightarrow> OAuthTokens \<Rightarrow> connections \<Rightarrow>
   (RefreshError, StoredConnection) result \<times> connections" where
  "refresh_store D nonces stored tokens rows =
     (if escalated (ot_scopesGranted (sc_tokens stored)) (ot_scopesGranted tokens)
      then (Inl (Refresh_error scope_escalation_blocked None), rows)
      else case updateConnectionTokens (od_env D) (od_key D) nonces (sc_id stored) tokens rows of
          (Inl (AccountMismatch a b), rows') \<Rightarrow> (Inl (Refresh_error account_id_mismatch None), rows')
        | (Inl e, rows') \<Rightarrow> (Inl Refresh_threw, rows')
        | (Inr s, rows') \<Rightarrow> (Inr s, rows'))"

definition refreshConnection ::
  "OauthDeps \<Rightarrow> int \<Rightarrow> string \<times> string \<Rightarrow> string \<Rightarrow> string \<Rightarrow> connections \<Rightarrow>
   (RefreshError, StoredConnection) result \<times> connections" where
  "refreshConnection D now nonces customerId connectionId rows =
     (case refresh_load D customerId connectionId rows of
        Inl e \<Rightarrow> (Inl e, rows)
      | Inr loaded \<Rightarrow>
          (case refresh_call D now loaded of
             Inl e \<Rightarrow> (Inl e, rows)
           | Inr tokens \<Rightarrow> refresh_store D nonces (fst loaded) tokens rows))"

subsection \<open>oauth-sweep.ts\<close>

definition DEFAULT_LOOKAHEAD_MS :: int where "DEFAULT_LOOKAHEAD_MS = 24 * 60 * 60 * 1000"

definition expiring :: "int \<Rightarrow> int \<Rightarrow> int option \<Rightarrow> bool" where
  "expiring now lookahead d =
     (case d of None \<Rightarrow> False | Some t \<Rightarrow> t < now + lookahead \<and> now - 5 * 60 * 1000 \<le> t)"

definition sweep_candidates :: "int \<Rightarrow> int \<Rightarrow> connections \<Rightarrow> OauthConnectionRow list" where
  "sweep_candidates now lookahead rows =
     filter (\<lambda>r. expiring now lookahead (oc_accessTokenExpiresAt r) \<or> expiring now lookahead (oc_refreshTokenExpiresAt r)) rows"

record SweepCounts =
  sw_scanned :: nat
  sw_refreshed :: nat
  sw_failed :: nat

text \<open>\<open>tick\<close> gives each refresh its clock and its random bytes.\<close>

fun sweep_each ::
  "OauthDeps \<Rightarrow> (string \<Rightarrow> int \<times> string \<times> string) \<Rightarrow> OauthConnectionRow list \<Rightarrow> connections \<Rightarrow> nat \<times> nat \<times> connections" where
  "sweep_each D tick [] rows = (0, 0, rows)"
| "sweep_each D tick (c # cs) rows =
     (case refreshConnection D (fst (tick (oc_id c))) (snd (tick (oc_id c))) (oc_customerId c) (oc_id c) rows of
        (r, rows') \<Rightarrow>
          (case sweep_each D tick cs rows' of
             (refreshed, failed, rows'') \<Rightarrow>
               if is_ok r then (Suc refreshed, failed, rows'') else (refreshed, Suc failed, rows'')))"

definition runOnce ::
  "OauthDeps \<Rightarrow> (string \<Rightarrow> int \<times> string \<times> string) \<Rightarrow> int \<Rightarrow> int \<Rightarrow> bool \<Rightarrow> connections \<Rightarrow> SweepCounts \<times> connections" where
  "runOnce D tick now lookahead inFlight rows =
     (if inFlight then (\<lparr>sw_scanned = 0, sw_refreshed = 0, sw_failed = 0\<rparr>, rows)
      else
        (let candidates = sweep_candidates now lookahead rows
         in case sweep_each D tick candidates rows of
              (refreshed, failed, rows') \<Rightarrow>
                (\<lparr>sw_scanned = length candidates, sw_refreshed = refreshed, sw_failed = failed\<rparr>, rows')))"

subsection \<open>trpc/routers/oauth.ts\<close>

record ConnectionSummary =
  cs_id :: string
  cs_connector :: string
  cs_accountId :: string
  cs_scopesGranted :: "string list"
  cs_accessTokenExpiresAt :: "int option"
  cs_refreshTokenExpiresAt :: "int option"
  cs_hasRefreshToken :: bool

definition list_connections :: "Context \<Rightarrow> Console \<Rightarrow> (trpc_code, ConnectionSummary list) result" where
  "list_connections cx co =
     rbind (withPermission R_oauth A_read cx) (\<lambda>cl.
       Inr (map (\<lambda>r. \<lparr>cs_id = oc_id r, cs_connector = oc_connector r, cs_accountId = oc_accountId r,
                       cs_scopesGranted = oc_scopesGranted r, cs_accessTokenExpiresAt = oc_accessTokenExpiresAt r,
                       cs_refreshTokenExpiresAt = oc_refreshTokenExpiresAt r,
                       cs_hasRefreshToken = (oc_encryptedRefreshToken r \<noteq> [])\<rparr>)
              (filter (\<lambda>r. oc_customerId r = cl_customerId cl) (tb_oauthConnections (co_tables co)))))"

definition disconnect :: "Context \<Rightarrow> string \<Rightarrow> Console \<Rightarrow> (trpc_code, unit) result \<times> Console" where
  "disconnect cx connectionId =
     procedure R_oauth A_delete cx (\<lambda>cl co.
       let mine = (\<lambda>r. oc_id r = connectionId \<and> oc_customerId r = cl_customerId cl)
       in if \<not> uuid_text connectionId then (Inl BAD_REQUEST, co)
          else if \<not> list_ex mine (tb_oauthConnections (co_tables co)) then (Inl NOT_FOUND, co)
          else (Inr (), console_connections (filter (\<lambda>r. \<not> mine r)) co))"

text \<open>\<open>bridge\<close> is None on a control plane without the OAuth bridge.\<close>

definition refresh_connection ::
  "OauthDeps option \<Rightarrow> Context \<Rightarrow> int \<Rightarrow> string \<times> string \<Rightarrow> string \<Rightarrow> Console \<Rightarrow> (trpc_code, int option) result \<times> Console" where
  "refresh_connection bridge cx now nonces connectionId =
     procedure R_oauth A_update cx (\<lambda>cl co.
       if \<not> uuid_text connectionId then (Inl BAD_REQUEST, co)
       else case bridge of
           None \<Rightarrow> (Inl PRECONDITION_FAILED, co)
         | Some D \<Rightarrow>
             (case refreshConnection D now nonces (cl_customerId cl) connectionId (tb_oauthConnections (co_tables co)) of
                (r, rows) \<Rightarrow>
                  ((case r of
                      Inr stored \<Rightarrow> Inr (ot_accessTokenExpiresAt (sc_tokens stored))
                    | Inl (Refresh_error code s) \<Rightarrow> Inl (if code = connection_not_found then NOT_FOUND else BAD_REQUEST)
                    | Inl Refresh_threw \<Rightarrow> Inl INTERNAL_SERVER_ERROR), console_connections (\<lambda>_. rows) co)))"

record ManualInput =
  mi_connector :: string
  mi_accountId :: string
  mi_accessToken :: string
  mi_refreshToken :: "string option"
  mi_scopes :: "string list"
  mi_accessTokenExpiresAt :: "int option"
  mi_refreshTokenExpiresAt :: "int option"

definition manual_ok :: "ManualInput \<Rightarrow> bool" where
  "manual_ok inp \<longleftrightarrow>
     mi_connector inp \<in> set oauthConnectorEnum \<and>
     1 \<le> utf16_length (mi_accountId inp) \<and> utf16_length (mi_accountId inp) \<le> 120 \<and>
     1 \<le> utf16_length (mi_accessToken inp) \<and> utf16_length (mi_accessToken inp) \<le> 8192 \<and>
     (case mi_refreshToken inp of None \<Rightarrow> True | Some t \<Rightarrow> utf16_length t \<le> 8192)"

definition addManual ::
  "OauthDeps option \<Rightarrow> Context \<Rightarrow> string \<times> string \<Rightarrow> string \<Rightarrow> ManualInput \<Rightarrow> Console \<Rightarrow> (trpc_code, StoredConnection) result \<times> Console" where
  "addManual bridge cx nonces newId inp =
     procedure R_oauth A_create cx (\<lambda>cl co.
       if \<not> manual_ok inp then (Inl BAD_REQUEST, co)
       else case bridge of
           None \<Rightarrow> (Inl PRECONDITION_FAILED, co)
         | Some D \<Rightarrow>
             (case saveConnection (od_env D) (od_key D) nonces newId (cl_customerId cl) (mi_connector inp)
                     \<lparr>ot_accessToken = mi_accessToken inp,
                      ot_refreshToken = (case mi_refreshToken inp of None \<Rightarrow> [] | Some t \<Rightarrow> t),
                      ot_accessTokenExpiresAt = mi_accessTokenExpiresAt inp,
                      ot_refreshTokenExpiresAt = mi_refreshTokenExpiresAt inp,
                      ot_scopesGranted = mi_scopes inp, ot_accountId = mi_accountId inp\<rparr>
                     (tb_oauthConnections (co_tables co)) of
                (r, rows) \<Rightarrow>
                  ((case r of Inl e \<Rightarrow> Inl INTERNAL_SERVER_ERROR | Inr s \<Rightarrow> Inr s), console_connections (\<lambda>_. rows) co)))"

subsection \<open>internal.ts: token routes\<close>

definition internalAuth :: "string \<Rightarrow> string option \<Rightarrow> bool" where
  "internalAuth token authorization \<longleftrightarrow>
     (let got = strip_bearer (case authorization of None \<Rightarrow> [] | Some a \<Rightarrow> a) in got = token \<and> got \<noteq> [])"

record TokenAnswer =
  ta_connectionId :: string
  ta_customerId :: string
  ta_connector :: string
  ta_accountId :: string
  ta_accessToken :: string
  ta_accessTokenExpiresAt :: "int option"
  ta_scopesGranted :: "string list"

datatype 'a internal_answer = Internal_ok 'a | Internal_refused int string | Internal_threw

definition token_answer :: "StoredConnection \<Rightarrow> TokenAnswer" where
  "token_answer s =
     \<lparr>ta_connectionId = sc_id s, ta_customerId = sc_customerId s, ta_connector = sc_connector s,
      ta_accountId = sc_accountId s, ta_accessToken = ot_accessToken (sc_tokens s),
      ta_accessTokenExpiresAt = ot_accessTokenExpiresAt (sc_tokens s), ta_scopesGranted = ot_scopesGranted (sc_tokens s)\<rparr>"

definition get_oauth_token ::
  "OauthDeps option \<Rightarrow> string \<Rightarrow> string option \<Rightarrow> string option \<Rightarrow> string \<Rightarrow> connections \<Rightarrow> TokenAnswer internal_answer" where
  "get_oauth_token bridge serviceToken authorization customerId connectionId rows =
     (if \<not> internalAuth serviceToken authorization then Internal_refused 401 ''unauthorized''
      else case bridge of
          None \<Rightarrow> Internal_refused 503 ''oauth_disabled''
        | Some D \<Rightarrow>
            if \<not> str_truthy customerId then Internal_refused 400 ''customerId query param required''
            else (case loadConnectionById (od_env D) (od_key D) (the customerId) connectionId rows of
                Inl e \<Rightarrow> Internal_threw
              | Inr None \<Rightarrow> Internal_refused 404 ''connection_not_found''
              | Inr (Some stored) \<Rightarrow> Internal_ok (token_answer stored)))"

definition post_oauth_refresh ::
  "OauthDeps option \<Rightarrow> string \<Rightarrow> string option \<Rightarrow> string option \<Rightarrow> string \<Rightarrow> int \<Rightarrow> string \<times> string \<Rightarrow> connections \<Rightarrow>
   TokenAnswer internal_answer \<times> connections" where
  "post_oauth_refresh bridge serviceToken authorization customerId connectionId now nonces rows =
     (if \<not> internalAuth serviceToken authorization then (Internal_refused 401 ''unauthorized'', rows)
      else case bridge of
          None \<Rightarrow> (Internal_refused 503 ''oauth_disabled'', rows)
        | Some D \<Rightarrow>
            if \<not> str_truthy customerId then (Internal_refused 400 ''customerId query param required'', rows)
            else (case refreshConnection D now nonces (the customerId) connectionId rows of
                (r, rows') \<Rightarrow>
                  ((case r of
                      Inr stored \<Rightarrow> Internal_ok (token_answer stored)
                    | Inl (Refresh_error code s) \<Rightarrow>
                        Internal_refused (if code = connection_not_found then 404 else 401) ''oauth_token_invalid''
                    | Inl Refresh_threw \<Rightarrow> Internal_threw), rows')))"

end
