(* ===== verification/Oauth_Runs.thy ===== *)
theory Oauth_Runs
  imports Oauth_Flow Demo_Console
begin

text \<open>
  A concrete OAuth bridge for the witnesses: an AEAD that writes its associated data in front of the text in a
  prefix-free code, so that it opens only with the same data, and a provider that always gives the same tokens.
\<close>

fun prefix_code :: "string \<Rightarrow> string" where
  "prefix_code [] = [CHR 0x00]"
| "prefix_code (c # cs) = CHR 0x01 # c # prefix_code cs"

definition bound_tag :: "string option \<Rightarrow> string" where
  "bound_tag aad = (case aad of None \<Rightarrow> [CHR 0x02] | Some a \<Rightarrow> prefix_code a)"

definition bound_env :: env where
  "bound_env = demo_env
     \<lparr>aead_encrypt := (\<lambda>k n aad p. n @ bound_tag aad @ p),
      aead_decrypt := (\<lambda>k n aad ct. if startsWith ct (n @ bound_tag aad)
                        then Some (drop (length n + length (bound_tag aad)) ct) else None)\<rparr>"

lemma prefix_code_eq: "prefix_code a @ x = prefix_code b @ y \<Longrightarrow> a = b \<and> x = y"
proof (induction a arbitrary: b)
  case Nil
  then show ?case by (cases b) auto
next
  case (Cons c a)
  then show ?case by (cases b) auto
qed

lemma bound_tag_eq: "bound_tag a @ x = bound_tag b @ y \<Longrightarrow> a = b"
proof -
  assume e: "bound_tag a @ x = bound_tag b @ y"
  have "hd (prefix_code t @ z) \<noteq> CHR 0x02" for t z by (cases t) simp_all
  then have h: "hd (bound_tag t @ z) = CHR 0x02 \<longleftrightarrow> t = None" for t z by (cases t) (simp_all add: bound_tag_def)
  from h [of a x] h [of b y] e have "a = None \<longleftrightarrow> b = None" by simp
  with e show "a = b" by (cases a; cases b) (auto simp: bound_tag_def dest: prefix_code_eq)
qed

lemma bound_laws: "crypto_laws bound_env"
proof -
  have "startsWith (n @ bound_tag a @ p) (n @ bound_tag a)" for n a p by (metis append_assoc startsWith_append)
  then show ?thesis using demo_laws by (simp add: crypto_laws_def bound_env_def)
qed

lemma bound_hex [simp]: "e_nd bound_env = JDec" "noble_sha256 bound_env = (\<lambda>s. s)"
  by (simp_all add: bound_env_def demo_env_def)

definition oauth_key :: string where "oauth_key = replicate 32 (CHR ''k'')"
definition oauth_nonce :: string where "oauth_nonce = replicate 24 (CHR ''n'')"

definition demo_tokens :: OAuthTokens where
  "demo_tokens = \<lparr>ot_accessToken = ''at'', ot_refreshToken = ''rt'', ot_accessTokenExpiresAt = None,
     ot_refreshTokenExpiresAt = None, ot_scopesGranted = [''s''], ot_accountId = ''T''\<rparr>"

definition demo_token_body :: json where
  "demo_token_body =
     JObj [(''ok'', JBool True), (''access_token'', JStr ''at''), (''refresh_token'', JStr ''rt''),
           (''team'', JObj [(''id'', JStr ''T'')]), (''scope'', JStr ''s'')]"

definition demo_oauth :: OauthDeps where
  "demo_oauth =
     \<lparr>od_env = bound_env, od_hmac = (\<lambda>k m. k @ m), od_lt = (\<lambda>n t. False), od_secret = ''secret'',
      od_clients = (\<lambda>i. (Some ''id'', Some ''secret'')), od_publicUrl = ''https://cp'', od_key = oauth_key,
      od_fetch = (\<lambda>req. Inr \<lparr>rw_status = 200, rw_text = render demo_token_body, rw_headers = []\<rparr>),
      od_botToken = None, od_ms = (\<lambda>t. 0)\<rparr>"

lemma demo_provider:
  assumes "cc_fetch ctx = od_fetch demo_oauth"
  shows "postFormToTokenEndpoint bound_env ctx url params basic hs = Inr demo_token_body"
proof -
  have "JSON_parse JDec (render demo_token_body) = Some demo_token_body"
    by (rule JSON_parse_render) (simp add: demo_token_body_def distinct_keys_def)
  moreover have "render demo_token_body \<noteq> []" by (simp add: demo_token_body_def)
  ultimately show ?thesis using assms by (simp add: postFormToTokenEndpoint_def send_def demo_oauth_def res_ok_def)
qed

lemma demo_slack: "slack_tokensFromV2 ctx demo_token_body = Inr demo_tokens"
proof -
  have "scope_parts [] ''s'' = [''s'']" by code_simp
  then show ?thesis
    by (simp add: slack_tokensFromV2_def slack_account_def tokens_for_account_def demo_token_body_def jget_def text_of_def
        parseScopeString_def expiresInToDate_def demo_tokens_def nullish_def)
qed

lemma demo_exchange: "cr_exchangeCode slackConnector bound_env (ctxFor demo_oauth now i creds) code = Inr demo_tokens"
  using demo_provider [of "ctxFor demo_oauth now i creds"]
  by (simp add: slackConnector_def slack_exchangeCode_def demo_slack ctxFor_def)

lemma demo_refresh: "cr_refresh slackConnector bound_env (ctxFor demo_oauth now i creds) ''rt'' = Inr demo_tokens"
  using demo_provider [of "ctxFor demo_oauth now i creds"]
  by (simp add: slackConnector_def slack_refresh_def demo_slack ctxFor_def)

text \<open>
  The OAuth bridge over time: the signed state read back, what a callback may change, and the steps of connect,
  callback and sweep in any order, in which a state is used at most once.
\<close>

subsection \<open>The signed state\<close>

lemma map_filter_map_same: "(\<And>c. f (g c) = f c) \<Longrightarrow> List.map_filter f (map g s) = List.map_filter f s"
  by (induction s) (auto simp: map_filter_simps split: option.splits)

definition to_plain :: "char \<Rightarrow> char" where
  "to_plain c = (if c = CHR ''-'' then CHR ''+'' else if c = CHR ''_'' then CHR ''/'' else c)"

lemma strict_map: "base64urlToBytesStrict s = base64urlToBytes (map to_plain s @
    (if length s mod 4 = 2 then ''=='' else if length s mod 4 = 3 then ''='' else []))"
  by (simp add: base64urlToBytesStrict_def Let_def to_plain_def [abs_def])

lemma plain_val: "b64_val (to_plain c) = b64_val c"
  by (auto simp: to_plain_def b64_val_def is_upper_def is_lower_def is_digit_def less_eq_char_def)

lemma plain_bytes:
  assumes "CHR ''='' \<notin> set s"
  shows "base64urlToBytes (map to_plain s) = base64urlToBytes s"
proof -
  from assms have "CHR ''='' \<notin> set (map to_plain s)" by (auto simp: to_plain_def split: if_splits)
  moreover have all: "takeWhile (\<lambda>c. c \<noteq> CHR ''='') t = t" if "CHR ''='' \<notin> set t" for t :: string
    using that by (induction t) auto
  ultimately have "takeWhile (\<lambda>c. c \<noteq> CHR ''='') (map to_plain s) = map to_plain s" "takeWhile (\<lambda>c. c \<noteq> CHR ''='') s = s"
    using assms by blast+
  then show ?thesis by (simp only: base64urlToBytes_def map_filter_map_same [of b64_val to_plain, OF plain_val])
qed

lemma strict_decodes: "base64urlToBytesStrict (bytesToBase64url bs) = bs"
proof -
  have ne: "CHR ''='' \<notin> set (bytesToBase64url bs)" using base64url_no_special by blast
  show ?thesis
    using plain_bytes [OF ne] base64url_stop [of "map to_plain (bytesToBase64url bs)" "''=''"]
      base64url_stop [of "map to_plain (bytesToBase64url bs)" "[]"]
    by (simp add: strict_map base64url_roundtrip)
qed

definition readable_state :: "env \<Rightarrow> OAuthStatePayload \<Rightarrow> bool" where
  "readable_state E p \<longleftrightarrow> plain_json (e_nd E) (JNum (sp_exp p))"

lemma state_payload_json:
  "readable_state E p \<Longrightarrow> \<exists>v. JSON_parse (e_nd E) (state_json p) = Some v \<and> v \<noteq> JNull \<and> state_payload v = Some p"
  unfolding state_json_def
  by (subst JSON_parse_render) (auto simp: readable_state_def distinct_keys_def state_payload_def jget_def)

lemma verify_signed_state:
  assumes "readable_state E p"
  shows "verifyState E hmac lt secret (signState hmac secret p) now =
    Inr (if exp_before lt (sp_exp p) now then State_bad ''state expired'' else State_ok p)"
proof -
  let ?a = "stringToBase64url (state_json p)" and ?b = "bytesToBase64url (hmac secret (state_json p))"
  have dots: "CHR ''.'' \<notin> set ?a" "CHR ''.'' \<notin> set ?b"
    using base64url_no_special by (auto simp: stringToBase64url_def)
  have sp: "split_on CHR ''.'' (?a @ CHR ''.'' # ?b) = [?a, ?b]"
    using dots by (simp add: split_on_append split_on_no_sep)
  obtain v where v: "JSON_parse (e_nd E) (state_json p) = Some v" "v \<noteq> JNull" "state_payload v = Some p"
    using state_payload_json [OF assms] by blast
  have ne: "?a @ CHR ''.'' # ?b \<noteq> []" by simp
  have d: "base64urlToString ?a = state_json p"
    by (simp add: base64urlToString_def stringToBase64url_def base64url_roundtrip)
  show ?thesis
    using v ne by (simp add: verifyState_def signState_def Let_def sp d strict_decodes)
qed


text \<open>the callback reads from a state exactly what was signed into it, until it expires.\<close>

theorem signed_state_verifies:
  assumes "readable_state E p"
  shows "verifyState E hmac lt secret (signState hmac secret p) now =
    Inr (if exp_before lt (sp_exp p) now then State_bad ''state expired'' else State_ok p)"
  by (rule verify_signed_state [OF assms])

theorem signed_state_verifies_witness:
  "verifyState demo_env (\<lambda>k m. k @ m) (\<lambda>n t. False) ''k''
     (signState (\<lambda>k m. k @ m) ''k'' \<lparr>sp_customerId = ''c1'', sp_connector = ''slack'', sp_nonce = ''n'', sp_exp = JInt 9\<rparr>) 5 =
   Inr (State_ok \<lparr>sp_customerId = ''c1'', sp_connector = ''slack'', sp_nonce = ''n'', sp_exp = JInt 9\<rparr>)"
  by (subst signed_state_verifies) (simp_all add: readable_state_def max_exact_def exp_before_def)

subsection \<open>One callback\<close>

lemma set_columns_owner [simp]:
  "oc_id (set_columns c r) = oc_id r" "oc_customerId (set_columns c r) = oc_customerId r"
  "oc_connector (set_columns c r) = oc_connector r" "oc_accountId (set_columns c r) = oc_accountId r"
  "oc_scopesGranted (set_columns c r) = tc_scopesGranted c"
  by (simp_all add: set_columns_def)

lemma saveConnection_rows:
  assumes "saveConnection E key nonces newId c k t rows = (res, rows')" "distinct (map oc_id rows)" "oc_customerId x \<noteq> c"
  shows "x \<in> set rows' \<longleftrightarrow> x \<in> set rows"
proof (cases "tokensToRow E key nonces t c k")
  case (Inr cols)
  show ?thesis
  proof (cases "save_find c k (ot_accountId t) rows")
    case None
    with assms Inr show ?thesis
      by (auto simp: saveConnection_def save_write_def Let_def split: if_splits)
  next
    case (Some r)
    then have r: "r \<in> set rows" "oc_customerId r = c" by (auto simp: save_find_def find_Some_iff)
    from assms(1) Inr Some have "rows' = rows \<or> rows' = update_rows (\<lambda>y. oc_id y = oc_id r) (set_columns cols) rows"
      by (auto simp: saveConnection_def save_write_def update_returning_def split: if_splits option.splits)
    moreover have "oc_id y \<noteq> oc_id r" if "y \<in> set rows" "oc_customerId y \<noteq> c" for y
      using that r assms(2) by (auto simp: distinct_map inj_on_def)
    ultimately show ?thesis using assms(3) by (auto simp: set_update_rows)
  qed
qed (use assms in \<open>auto simp: saveConnection_def\<close>)

lemma connections_of_set [simp]: "connections_of (set_connections rows st) = rows"
  by (simp add: connections_of_def set_connections_def console_connections_def)

lemma nonces_set_connections [simp]: "os_nonces (set_connections rows st) = os_nonces st"
  by (simp add: set_connections_def)

lemma callback_begin_Inl:
  assumes "callback_begin D now i code state st = (Inl a, st')"
  shows "st' = st"
proof -
  have "filter (\<lambda>r. nr_nonceHash r \<noteq> h) (os_nonces st) = os_nonces st" if "\<not> list_ex (\<lambda>r. nr_nonceHash r = h) (os_nonces st)" for h
    using that by (auto simp: list_ex_iff filter_id_conv)
  with assms show ?thesis
    by (auto simp: callback_begin_def consume_nonce_def split: if_splits sum.splits VerifyResult.splits)
qed

lemma callback_begin_Inr:
  assumes "callback_begin D now i code state st = (Inr cp, st')"
  obtains s where "state = Some s" "verifyState (od_env D) (od_hmac D) (od_lt D) (od_secret D) s now = Inr (State_ok (snd cp))"
    "sp_connector (snd cp) = i" "i \<in> set ALL_CONNECTOR_IDS"
    "list_ex (\<lambda>r. nr_nonceHash r = sha256Hex (od_env D) (sp_nonce (snd cp))) (os_nonces st)"
    "st' = st\<lparr>os_nonces := filter (\<lambda>r. nr_nonceHash r \<noteq> sha256Hex (od_env D) (sp_nonce (snd cp))) (os_nonces st)\<rparr>"
  using assms
  by (auto simp: callback_begin_def consume_nonce_def str_truthy_def split: if_splits sum.splits VerifyResult.splits)

lemma callback_finish_console:
  assumes "callback_finish D now nonces newId i cp st = (a, st')"
  shows "\<exists>rows. st' = set_connections rows st \<and>
    (rows = connections_of st \<or> (\<exists>t res. saveConnection (od_env D) (od_key D) nonces newId (sp_customerId (snd cp)) i t (connections_of st) = (res, rows)))"
proof -
  have same: "st = set_connections (connections_of st) st" by (simp add: connections_of_def set_connections_def console_connections_def)
  from assms same show ?thesis
    by (auto simp: callback_finish_def split: option.splits sum.splits prod.splits)
qed

text \<open>C14: a callback that changes anything carries a state that verifies now and names this connector,
  whose nonce was in the ledger and is gone afterwards; only connections of the customer in the state change.\<close>

theorem callback_is_confined:
  assumes "callback D now nonces newId i code state st = (a, st')" "distinct (map oc_id (connections_of st))"
  shows "st' = st \<or> (\<exists>s payload. state = Some s \<and>
    verifyState (od_env D) (od_hmac D) (od_lt D) (od_secret D) s now = Inr (State_ok payload) \<and> sp_connector payload = i \<and>
    (let h = sha256Hex (od_env D) (sp_nonce payload)
     in (\<exists>r \<in> set (os_nonces st). nr_nonceHash r = h) \<and> os_nonces st' = filter (\<lambda>r. nr_nonceHash r \<noteq> h) (os_nonces st)) \<and>
    os_console st' = console_connections (\<lambda>_. connections_of st') (os_console st) \<and>
    (\<forall>x. oc_customerId x \<noteq> sp_customerId payload \<longrightarrow> (x \<in> set (connections_of st') \<longleftrightarrow> x \<in> set (connections_of st))))"
proof (cases "callback_begin D now i code state st")
  case (Pair r st1)
  show ?thesis
  proof (cases r)
    case (Inl b)
    with Pair assms(1) callback_begin_Inl show ?thesis by (auto simp: callback_def)
  next
    case (Inr cp)
    with Pair assms(1) have fin: "callback_finish D now nonces newId i cp st1 = (a, st')" by (simp add: callback_def)
    from Pair Inr obtain s where s: "state = Some s" "verifyState (od_env D) (od_hmac D) (od_lt D) (od_secret D) s now = Inr (State_ok (snd cp))"
        "sp_connector (snd cp) = i"
        "list_ex (\<lambda>r. nr_nonceHash r = sha256Hex (od_env D) (sp_nonce (snd cp))) (os_nonces st)"
        "st1 = st\<lparr>os_nonces := filter (\<lambda>r. nr_nonceHash r \<noteq> sha256Hex (od_env D) (sp_nonce (snd cp))) (os_nonces st)\<rparr>"
      by (auto elim: callback_begin_Inr)
    have c1: "connections_of st1 = connections_of st" by (simp add: s(5) connections_of_def)
    from callback_finish_console [OF fin] obtain rows where rows: "st' = set_connections rows st1"
      and "rows = connections_of st1 \<or>
        (\<exists>t res. saveConnection (od_env D) (od_key D) nonces newId (sp_customerId (snd cp)) i t (connections_of st1) = (res, rows))"
      by blast
    then have frame: "x \<in> set rows \<longleftrightarrow> x \<in> set (connections_of st)" if "oc_customerId x \<noteq> sp_customerId (snd cp)" for x
      using saveConnection_rows [OF _ assms(2) that] unfolding c1 by blast
    have "os_console st' = console_connections (\<lambda>_. connections_of st') (os_console st)"
      by (simp add: rows s(5) set_connections_def connections_of_def console_connections_def)
    with s rows frame show ?thesis by (intro disjI2 exI [of _ s] exI [of _ "snd cp"]) (simp add: Let_def list_ex_iff)
  qed
qed

text \<open>A state issued by the demo bridge, its row in the ledger, and the callback that brings it.\<close>

definition oauth_payload :: OAuthStatePayload where
  "oauth_payload = \<lparr>sp_customerId = ''c1'', sp_connector = ''slack'', sp_nonce = ''n'', sp_exp = JInt 9\<rparr>"

definition demo_ledger :: OauthState where
  "demo_ledger = \<lparr>os_console = demo_console, os_nonces =
     [\<lparr>nr_nonceHash = sha256Hex bound_env ''n'', nr_customerId = ''c1'', nr_connector = ''slack'', nr_expiresAt = 9\<rparr>]\<rparr>"

definition demo_state :: string where
  "demo_state = signState (od_hmac demo_oauth) (od_secret demo_oauth) oauth_payload"

lemma demo_verifies:
  "verifyState (od_env demo_oauth) (od_hmac demo_oauth) (od_lt demo_oauth) (od_secret demo_oauth) demo_state 5 = Inr (State_ok oauth_payload)"
proof -
  have "readable_state (od_env demo_oauth) oauth_payload" by (simp add: readable_state_def oauth_payload_def max_exact_def)
  from verify_signed_state [OF this] show ?thesis by (simp add: demo_state_def oauth_payload_def exp_before_def)
qed

lemma demo_state_nonempty: "demo_state \<noteq> []"
  by (simp add: demo_state_def signState_def Let_def)

lemma demo_begin:
  "callback_begin demo_oauth 5 ''slack'' (Some ''code'') (Some demo_state) demo_ledger =
     (Inr (''code'', oauth_payload), demo_ledger\<lparr>os_nonces := []\<rparr>)"
proof -
  have "sp_connector oauth_payload = ''slack''" "sp_nonce oauth_payload = ''n''" "''slack'' \<in> set ALL_CONNECTOR_IDS"
    "od_env demo_oauth = bound_env"
    by (simp_all add: oauth_payload_def ALL_CONNECTOR_IDS_def demo_oauth_def)
  with demo_verifies demo_state_nonempty show ?thesis
    by (simp add: callback_begin_def str_truthy_def consume_nonce_def demo_ledger_def)
qed

theorem callback_is_confined_witness:
  "\<exists>a st'. callback demo_oauth 5 (oauth_nonce, oauth_nonce) ''x'' ''slack'' (Some ''code'') (Some demo_state) demo_ledger = (a, st') \<and>
     os_nonces st' = [] \<and> (\<forall>x \<in> set (connections_of st'). oc_customerId x = ''c1'')"
proof -
  obtain a st' where c: "callback demo_oauth 5 (oauth_nonce, oauth_nonce) ''x'' ''slack'' (Some ''code'') (Some demo_state) demo_ledger = (a, st')"
    by (rule prod.exhaust)
  have none: "connections_of demo_ledger = []"
    by (simp add: connections_of_def demo_ledger_def demo_console_def demo_console_tables_def)
  from c demo_begin have "callback_finish demo_oauth 5 (oauth_nonce, oauth_nonce) ''x'' ''slack'' (''code'', oauth_payload)
      (demo_ledger\<lparr>os_nonces := []\<rparr>) = (a, st')" by (simp add: callback_def)
  from callback_finish_console [OF this] have n: "os_nonces st' = []" by auto
  then have "st' \<noteq> demo_ledger" by (auto simp: demo_ledger_def)
  with callback_is_confined [OF c] none demo_verifies n c show ?thesis by (auto simp: oauth_payload_def)
qed

subsection \<open>Any order of steps\<close>

datatype oauth_event = Issued string | Consumed string | Quiet

text \<open>Between the halves of a callback other requests run; \<open>other\<close> is any operation of the program that
  leaves the ledger of nonces alone.\<close>

inductive oauth_step :: "OauthDeps \<Rightarrow> OauthState \<Rightarrow> oauth_event \<Rightarrow> OauthState \<Rightarrow> bool" for D where
  connect_ok: "connect D session now bytes i st = (Connect_ok url state exp, st') \<Longrightarrow>
     oauth_step D st (Issued (sha256Hex (od_env D) (freshNonce bytes))) st'"
| connect_refused: "connect D session now bytes i st = (a, st') \<Longrightarrow> (\<And>url state exp. a \<noteq> Connect_ok url state exp) \<Longrightarrow>
     oauth_step D st Quiet st'"
| callback_accepts: "callback_begin D now i code state st = (Inr cp, st') \<Longrightarrow>
     oauth_step D st (Consumed (sha256Hex (od_env D) (sp_nonce (snd cp)))) st'"
| callback_refuses: "callback_begin D now i code state st = (Inl a, st') \<Longrightarrow> oauth_step D st Quiet st'"
| callback_finishes: "callback_finish D now nonces newId i cp st = (a, st') \<Longrightarrow> oauth_step D st Quiet st'"
| sweep: "sweepOAuthStateNonces now st = (n, st') \<Longrightarrow> oauth_step D st Quiet st'"
| other: "os_nonces st' = os_nonces st \<Longrightarrow> oauth_step D st Quiet st'"

inductive oauth_run :: "OauthDeps \<Rightarrow> OauthState \<Rightarrow> oauth_event list \<Rightarrow> OauthState \<Rightarrow> bool" for D st where
  start: "oauth_run D st [] st"
| step: "oauth_run D st evs st' \<Longrightarrow> oauth_step D st' ev st'' \<Longrightarrow> oauth_run D st (evs @ [ev]) st''"

definition ledger_count :: "string \<Rightarrow> OauthState \<Rightarrow> nat" where
  "ledger_count h st = length (filter (\<lambda>r. nr_nonceHash r = h) (os_nonces st))"

lemma connect_ledger:
  assumes "connect D session now bytes i st = (a, st')"
  shows "os_nonces st' = os_nonces st \<or> (\<exists>url state exp r. a = Connect_ok url state exp \<and>
    nr_nonceHash r = sha256Hex (od_env D) (freshNonce bytes) \<and> os_nonces st' = os_nonces st @ [r])"
  using assms by (auto simp: connect_def Let_def split: if_splits option.splits prod.splits)

lemma connect_ok_ledger:
  assumes "connect D session now bytes i st = (Connect_ok url state exp, st')"
  shows "ledger_count h st' = ledger_count h st + (if h = sha256Hex (od_env D) (freshNonce bytes) then 1 else 0)"
  using assms by (auto simp: connect_def Let_def ledger_count_def split: if_splits option.splits prod.splits)

lemma callback_begin_ledger:
  assumes "callback_begin D now i code state st = (Inr cp, st')"
  shows "ledger_count h st' + (if h = sha256Hex (od_env D) (sp_nonce (snd cp)) then 1 else 0) \<le> ledger_count h st"
proof -
  let ?h = "sha256Hex (od_env D) (sp_nonce (snd cp))"
  from assms have ex: "list_ex (\<lambda>r. nr_nonceHash r = ?h) (os_nonces st)"
    and st': "os_nonces st' = filter (\<lambda>r. nr_nonceHash r \<noteq> ?h) (os_nonces st)"
    by (auto elim: callback_begin_Inr)
  from ex have "filter (\<lambda>r. nr_nonceHash r = ?h) (os_nonces st) \<noteq> []" by (auto simp: list_ex_iff filter_empty_conv)
  then have "1 \<le> length (filter (\<lambda>r. nr_nonceHash r = ?h) (os_nonces st))" by (cases "filter (\<lambda>r. nr_nonceHash r = ?h) (os_nonces st)") auto
  moreover have "filter (\<lambda>r. nr_nonceHash r = h \<and> nr_nonceHash r \<noteq> ?h) (os_nonces st) = filter (\<lambda>r. nr_nonceHash r = h) (os_nonces st)"
    if "h \<noteq> ?h" using that by (intro filter_cong) auto
  ultimately show ?thesis by (auto simp: ledger_count_def st' conj_commute)
qed

lemma oauth_step_ledger:
  "oauth_step D st ev st' \<Longrightarrow>
     ledger_count h st' + (if ev = Consumed h then 1 else 0) \<le> ledger_count h st + (if ev = Issued h then 1 else 0)"
proof (induction rule: oauth_step.cases)
  case (connect_ok session now bytes i st url state exp st')
  then show ?case by (simp add: connect_ok_ledger)
next
  case (connect_refused session now bytes i st a st')
  then show ?case by (auto dest!: connect_ledger simp: ledger_count_def)
next
  case (callback_accepts now i code state st cp st')
  then show ?case using callback_begin_ledger [of D now i code state st cp st' h] by (auto split: if_splits)
next
  case (callback_refuses now i code state st a st')
  then show ?case by (auto dest: callback_begin_Inl)
next
  case (callback_finishes now nonces newId i cp st a st')
  then show ?case by (auto dest!: callback_finish_console simp: ledger_count_def)
next
  case (sweep now st n st')
  have "length (filter P (filter Q rows)) \<le> length (filter P rows)" for P Q and rows :: "NonceRow list" by (induction rows) auto
  with sweep show ?case by (auto simp: sweepOAuthStateNonces_def ledger_count_def simp del: filter_filter)
qed (simp_all add: ledger_count_def)

text \<open>C13: however connects, callbacks and sweeps interleave, the callbacks that get past the check of a
  state are at most as many as the states issued with its nonce: a captured state is used once.\<close>

theorem state_used_at_most_once:
  assumes "oauth_run D st evs st'"
  shows "count_list evs (Consumed h) \<le> ledger_count h st + count_list evs (Issued h)"
proof -
  from assms have "ledger_count h st' + count_list evs (Consumed h) \<le> ledger_count h st + count_list evs (Issued h)"
  proof induction
    case (step evs st' ev st'')
    with oauth_step_ledger [OF step(2), of h] show ?case by (auto split: if_splits)
  qed simp
  then show ?thesis by simp
qed

theorem state_used_at_most_once_witness:
  "\<exists>evs st'. oauth_run demo_oauth demo_ledger evs st' \<and> evs = [Consumed (sha256Hex bound_env ''n'')] \<and>
     count_list evs (Consumed (sha256Hex bound_env ''n'')) \<le>
       ledger_count (sha256Hex bound_env ''n'') demo_ledger + count_list evs (Issued (sha256Hex bound_env ''n''))"
proof -
  have "sha256Hex (od_env demo_oauth) (sp_nonce (snd (''code'', oauth_payload))) = sha256Hex bound_env ''n''"
    by (simp add: demo_oauth_def oauth_payload_def)
  with callback_accepts [OF demo_begin] oauth_run.step [OF oauth_run.start]
  have "oauth_run demo_oauth demo_ledger [Consumed (sha256Hex bound_env ''n'')] (demo_ledger\<lparr>os_nonces := []\<rparr>)" by fastforce
  with state_used_at_most_once [OF this] show ?thesis by blast
qed

end
