(* ===== verification/Oauth_Properties.thy ===== *)
theory Oauth_Properties
  imports Oauth_Runs
begin

text \<open>
  What the OAuth bridge of the control plane guarantees: tokens read back as saved and only in the row they were
  sealed for, a refresh confined to its row, account and scopes, a callback confined to the tenant of the signed
  state, and the single use of a state.
\<close>

subsection \<open>Sealed tokens\<close>

text \<open>What the AEAD promises beside inverting: its output carries a tag, and opening with other associated
  data fails.\<close>

definition aead_tagged :: "env \<Rightarrow> bool" where
  "aead_tagged E \<longleftrightarrow> (\<forall>k n aad p. length n = 24 \<longrightarrow> aead_encrypt E k n aad p \<noteq> [])"

definition aead_binds :: "env \<Rightarrow> bool" where
  "aead_binds E \<longleftrightarrow> (\<forall>k n aad aad' p. aad \<noteq> aad' \<longrightarrow> aead_decrypt E k n aad' (aead_encrypt E k n aad p) = None)"

definition same_owner :: "OauthConnectionRow \<Rightarrow> string \<Rightarrow> string \<Rightarrow> string \<Rightarrow> bool" where
  "same_owner r c k a \<longleftrightarrow> oc_customerId r = c \<and> oc_connector r = k \<and> oc_accountId r = a"

lemma hex_nonempty: "crypto_laws E \<Longrightarrow> noble_bytesToHex E b = [] \<longleftrightarrow> b = []"
  by (metis hex_length length_0_conv mult_is_0 zero_neq_numeral)

lemma sealed_nonempty:
  assumes "crypto_laws E" "aead_tagged E" "length nonce = 24" "sealString E nonce key s aad = Inr box"
  shows "ciphertextHex box \<noteq> []" "nonceHex box \<noteq> []"
  using assms by (auto simp: sealString_def hex_nonempty aead_tagged_def split: if_splits)

lemma open_token_sealed:
  assumes "crypto_laws E" "length nonce = 24" "sealString E nonce key s (Some aad) = Inr box"
  shows "open_token E key aad (ciphertextHex box) (nonceHex box) = Inr s"
  using open_sealed [OF assms(1) _ assms(3)] assms(2) by (simp add: open_token_def SECRETBOX_NONCE_LEN_def)

lemma sealed_tokens_open:
  assumes "crypto_laws E" "aead_tagged E" "length (fst nonces) = 24" "length (snd nonces) = 24"
    and "tokensToRow E key nonces t c k = Inr cols" "same_owner r c k (ot_accountId t)"
  shows "rowToTokens E key (set_columns cols r) = Inr t"
  using assms
  by (auto simp: tokensToRow_def rowToTokens_def Let_def rbind_Inr_iff set_columns_def same_owner_def str_truthy_def
      sealed_nonempty open_token_sealed split: if_splits sum.splits)


lemma rows_by_id:
  assumes "distinct (map oc_id rows)" "r \<in> set rows" "\<And>x. Q x \<longleftrightarrow> oc_id x = oc_id r"
  shows "List.find Q rows = Some r"
  using assms
proof (induction rows)
  case (Cons x xs)
  then show ?case by (cases "x = r") (auto simp: image_iff)
qed simp

lemma save_find_Some:
  "save_find c k a rows = Some r \<Longrightarrow> r \<in> set rows \<and> same_owner r c k a"
  by (auto simp: save_find_def find_Some_iff same_owner_def)

lemma find_append: "List.find P (xs @ ys) = (case List.find P xs of None \<Rightarrow> List.find P ys | Some x \<Rightarrow> Some x)"
  by (induction xs) auto

lemma find_owned:
  assumes "distinct (map oc_id rows)" "r \<in> set rows" "oc_id r = i" "oc_customerId r = c"
  shows "List.find (\<lambda>r. oc_id r = i \<and> oc_customerId r = c) rows = Some r"
  using assms
proof (induction rows)
  case (Cons x xs)
  then show ?case by (cases "x = r") (auto simp: image_iff)
qed simp

text \<open>A successful save leaves a row of the owner that opens to the saved tokens, and the other rows as they
  were.\<close>

lemma saveConnection_Inr:
  assumes "saveConnection E key nonces newId c k t rows = (Inr s, rows')" "distinct (map oc_id rows)" "newId \<notin> oc_id ` set rows"
  obtains cols r where "tokensToRow E key nonces t c k = Inr cols" "same_owner r c k (ot_accountId t)" "r = set_columns cols r"
    "r \<in> set rows'" "oc_id r = sc_id s" "rowToStored E key r = Inr s" "distinct (map oc_id rows')"
    "\<And>x. oc_id x \<noteq> sc_id s \<Longrightarrow> x \<in> set rows' \<longleftrightarrow> x \<in> set rows"
proof -
  from assms(1) obtain cols where cols: "tokensToRow E key nonces t c k = Inr cols"
    and w: "save_write E key newId c k t cols (save_find c k (ot_accountId t) rows) rows = (Inr s, rows')"
    by (auto simp: saveConnection_def split: sum.splits)
  have idem: "set_columns cols x = set_columns cols (set_columns cols x)" for x by (simp add: set_columns_def)
  show thesis
  proof (cases "save_find c k (ot_accountId t) rows")
    case None
    define r where "r = set_columns cols
      \<lparr>oc_id = newId, oc_customerId = c, oc_connector = k, oc_accountId = ot_accountId t,
       oc_encryptedRefreshToken = [], oc_refreshTokenNonce = [], oc_refreshTokenExpiresAt = None,
       oc_encryptedAccessToken = None, oc_accessTokenNonce = None, oc_accessTokenExpiresAt = None, oc_scopesGranted = []\<rparr>"
    from w None have s: "rowToStored E key r = Inr s" and rows': "rows' = rows @ [r]"
      by (auto simp: save_write_def r_def [symmetric] returned_def Let_def split: if_splits sum.splits)
    from s have "sc_id s = newId" by (auto simp: rowToStored_def rbind_Inr_iff r_def)
    with assms s cols rows' show thesis
      by (intro that [of cols r]) (auto simp: r_def same_owner_def idem [symmetric])
  next
    case (Some x)
    note x = save_find_Some [OF this]
    have f: "List.find (\<lambda>r. oc_id r = oc_id x) rows = Some x" by (rule rows_by_id) (use assms x in auto)
    define r where "r = set_columns cols x"
    from w Some f have s: "rowToStored E key r = Inr s" and rows': "rows' = update_rows (\<lambda>y. oc_id y = oc_id x) (set_columns cols) rows"
      by (auto simp: save_write_def update_returning_def r_def [symmetric] returned_def split: if_splits sum.splits)
    from s have i: "sc_id s = oc_id x" by (auto simp: rowToStored_def rbind_Inr_iff r_def)
    have "distinct (map oc_id rows')" using assms by (simp add: rows' map_update_rows)
    moreover have "r \<in> set rows'" using x by (auto simp: rows' set_update_rows r_def)
    moreover have "y \<in> set rows' \<longleftrightarrow> y \<in> set rows" if "oc_id y \<noteq> sc_id s" for y
      using that by (auto simp: rows' set_update_rows i)
    ultimately show thesis using s cols x i by (intro that [of cols r]) (auto simp: r_def same_owner_def idem [symmetric])
  qed
qed

text \<open>tokens saved for a customer's account are the tokens \<open>loadConnectionById\<close> gives back for that
  customer, whether the save inserted a row or replaced one, and no other connection changes.\<close>

theorem saved_tokens_load_back:
  assumes "crypto_laws E" "aead_tagged E" "length (fst nonces) = 24" "length (snd nonces) = 24"
    and "distinct (map oc_id rows)" "newId \<notin> oc_id ` set rows"
    and "saveConnection E key nonces newId c k t rows = (Inr s, rows')"
  shows "sc_tokens s = t \<and> sc_customerId s = c \<and> sc_connector s = k \<and>
    loadConnectionById E key c (sc_id s) rows' = Inr (Some s) \<and>
    (\<forall>c'. c' \<noteq> c \<longrightarrow> loadConnectionById E key c' (sc_id s) rows' = Inr None) \<and>
    (\<forall>x. oc_id x \<noteq> sc_id s \<longrightarrow> (x \<in> set rows' \<longleftrightarrow> x \<in> set rows))"
proof -
  obtain cols r where r: "tokensToRow E key nonces t c k = Inr cols" "same_owner r c k (ot_accountId t)" "r = set_columns cols r"
    "r \<in> set rows'" "oc_id r = sc_id s" "rowToStored E key r = Inr s" "distinct (map oc_id rows')"
    and frame: "\<And>x. oc_id x \<noteq> sc_id s \<Longrightarrow> x \<in> set rows' \<longleftrightarrow> x \<in> set rows"
    by (rule saveConnection_Inr [OF assms(7,5,6)]) blast
  from sealed_tokens_open [OF assms(1-4) r(1,2)] r(3) have "rowToTokens E key r = Inr t" by simp
  with r(2,6) have s: "sc_tokens s = t" "sc_customerId s = c" "sc_connector s = k"
    by (auto simp: rowToStored_def rbind_Inr_iff same_owner_def)
  have own: "List.find (\<lambda>x. oc_id x = sc_id s \<and> oc_customerId x = c) rows' = Some r"
    by (rule find_owned) (use r in \<open>auto simp: same_owner_def\<close>)
  have other: "List.find (\<lambda>x. oc_id x = sc_id s \<and> oc_customerId x = c') rows' = None" if "c' \<noteq> c" for c'
  proof -
    have "x = r" if "x \<in> set rows'" "oc_id x = sc_id s" for x
      using that r by (auto simp: distinct_map inj_on_def)
    with that r(2) show ?thesis by (auto simp: find_None_iff same_owner_def)
  qed
  show ?thesis using s own other frame r(6) by (auto simp: loadConnectionById_def load_row_def)
qed


lemma buildAad_eq:
  assumes "CHR ''|'' \<notin> set c" "CHR ''|'' \<notin> set c'" "CHR ''|'' \<notin> set k" "CHR ''|'' \<notin> set k'"
  shows "buildAad c k a = buildAad c' k' a' \<longleftrightarrow> c = c' \<and> k = k' \<and> a = a'"
proof
  assume "buildAad c k a = buildAad c' k' a'"
  then have "c @ CHR ''|'' # k @ CHR ''|'' # a = c' @ CHR ''|'' # k' @ CHR ''|'' # a'" by (simp add: buildAad_def)
  from split_at_sep [OF assms(1,2) this] have "c = c'" "k @ CHR ''|'' # a = k' @ CHR ''|'' # a'" by simp_all
  with split_at_sep [OF assms(3,4)] show "c = c' \<and> k = k' \<and> a = a'" by blast
qed simp

lemma open_token_foreign:
  assumes "crypto_laws E" "aead_binds E" "length nonce = 24" "sealString E nonce key s (Some aad) = Inr box" "aad' \<noteq> aad"
  shows "open_token E key aad' (ciphertextHex box) (nonceHex box) = Inl DecryptError"
  using assms
  by (auto simp: open_token_def openString_def sealString_def hex_roundtrip aead_binds_def SECRETBOX_NONCE_LEN_def split: if_splits)

text \<open>C16: a ciphertext sealed for one connection opens in no row of another customer, connector or
  account, not even by the fallback without associated data.\<close>

theorem sealed_token_stays_with_its_row:
  assumes "crypto_laws E" "aead_tagged E" "aead_binds E" "length (fst nonces) = 24" "length (snd nonces) = 24"
    and "tokensToRow E key nonces t c k = Inr cols" "ot_accessToken t \<noteq> [] \<or> ot_refreshToken t \<noteq> []"
    and "\<not> same_owner r c k (ot_accountId t)"
    and "CHR ''|'' \<notin> set c \<union> set k \<union> set (oc_customerId r) \<union> set (oc_connector r)"
  shows "rowToTokens E key (set_columns cols r) = Inl DecryptError"
proof -
  have "buildAad (oc_customerId r) (oc_connector r) (oc_accountId r) \<noteq> buildAad c k (ot_accountId t)"
    using assms(8,9) by (subst buildAad_eq) (auto simp: same_owner_def)
  note foreign = open_token_foreign [OF assms(1,3) _ _ this]
  show ?thesis
    using assms
    by (auto simp: tokensToRow_def rowToTokens_def Let_def rbind_Inr_iff rbind_Inl_iff set_columns_def str_truthy_def
        sealed_nonempty foreign split: if_splits sum.splits)
qed

subsection \<open>Refresh\<close>

lemma rowToStored_fields:
  assumes "rowToStored E key r = Inr s"
  shows "sc_id s = oc_id r" "sc_customerId s = oc_customerId r" "sc_connector s = oc_connector r"
    "ot_scopesGranted (sc_tokens s) = oc_scopesGranted r"
  using assms by (auto simp: rowToStored_def rowToTokens_def Let_def rbind_Inr_iff)

lemma loadConnectionById_row:
  assumes "loadConnectionById E key c i rows = Inr (Some s)"
  obtains r where "r \<in> set rows" "oc_id r = i" "oc_customerId r = c" "rowToStored E key r = Inr s"
proof -
  from assms obtain r where "List.find (\<lambda>r. oc_id r = i \<and> oc_customerId r = c) rows = Some r" "rowToStored E key r = Inr s"
    by (auto simp: loadConnectionById_def load_row_def rbind_Inr_iff split: option.splits)
  with that [of r] show thesis by (auto simp: find_Some_iff)
qed

lemma refresh_load_Inr:
  assumes "refresh_load D c i rows = Inr (stored, connector, creds)"
  obtains r where "r \<in> set rows" "oc_id r = i" "oc_customerId r = c" "sc_id stored = i"
    "ot_scopesGranted (sc_tokens stored) = oc_scopesGranted r" "oc_connector r \<in> set ALL_CONNECTOR_IDS"
proof -
  from assms have l: "loadConnectionById (od_env D) (od_key D) c i rows = Inr (Some stored)"
    and k: "sc_connector stored \<in> set ALL_CONNECTOR_IDS"
    by (auto simp: refresh_load_def split: sum.splits option.splits if_splits)
  from l obtain r where "r \<in> set rows" "oc_id r = i" "oc_customerId r = c" "rowToStored (od_env D) (od_key D) r = Inr stored"
    by (rule loadConnectionById_row)
  with k rowToStored_fields [OF this(4)] show thesis by (intro that) auto
qed

lemma updateConnectionTokens_rows:
  assumes "updateConnectionTokens E key nonces i tokens rows = (res, rows')" "distinct (map oc_id rows)"
  shows "rows' = rows \<or> (\<exists>r cols. r \<in> set rows \<and> oc_id r = i \<and> oc_accountId r = ot_accountId tokens \<and>
           tc_scopesGranted cols = ot_scopesGranted tokens \<and> rows' = update_rows (\<lambda>x. oc_id x = i) (set_columns cols) rows)"
proof (cases "update_check E key nonces i tokens rows")
  case (Inr cols)
  then obtain r where f: "List.find (\<lambda>r. oc_id r = i) rows = Some r" and a: "oc_accountId r = ot_accountId tokens"
    and cols: "tc_scopesGranted cols = ot_scopesGranted tokens"
    by (auto simp: update_check_def tokensToRow_def rbind_Inr_iff Let_def split: option.splits if_splits)
  from f have r: "r \<in> set rows" "oc_id r = i" by (auto simp: find_Some_iff)
  have same: "(set_columns cols x)\<lparr>oc_accountId := ot_accountId tokens\<rparr> = set_columns cols x" if "x \<in> set rows" "oc_id x = i" for x
  proof -
    from that r assms(2) have "x = r" by (auto simp: distinct_map inj_on_def)
    with a show ?thesis by (simp add: set_columns_def)
  qed
  have "update_rows (\<lambda>x. oc_id x = i) (\<lambda>x. (set_columns cols x)\<lparr>oc_accountId := ot_accountId tokens\<rparr>) rows =
      update_rows (\<lambda>x. oc_id x = i) (set_columns cols) rows"
    by (auto simp: update_rows_def same)
  with assms(1) Inr f have "rows' = rows \<or> rows' = update_rows (\<lambda>x. oc_id x = i) (set_columns cols) rows"
    by (simp add: updateConnectionTokens_def update_write_def update_returning_def split: if_splits)
  with r a cols show ?thesis by blast
qed (use assms in \<open>auto simp: updateConnectionTokens_def\<close>)

lemma refreshConnection_rows:
  assumes "refreshConnection D now nonces c i rows = (res, rows')" "rows' \<noteq> rows"
  obtains stored connector creds tokens where "refresh_load D c i rows = Inr (stored, connector, creds)"
    "\<not> escalated (ot_scopesGranted (sc_tokens stored)) (ot_scopesGranted tokens)"
    "\<exists>res. updateConnectionTokens (od_env D) (od_key D) nonces (sc_id stored) tokens rows = (res, rows')"
  using assms
  by (auto simp: refreshConnection_def refresh_store_def split: sum.splits if_splits store_error.splits prod.splits)

text \<open>C15: a refresh changes at most the connection it names, and only when that connection belongs to the
  customer and its connector is implemented. Customer, connector and account stay, and a connection that has
  scopes gets none it did not have.\<close>

theorem refresh_is_confined:
  assumes "refreshConnection D now nonces c i rows = (res, rows')" "distinct (map oc_id rows)"
  shows "rows' = rows \<or> (\<exists>r \<in> set rows. \<exists>cols. oc_id r = i \<and> oc_customerId r = c \<and>
    oc_connector r \<in> set ALL_CONNECTOR_IDS \<and> rows' = update_rows (\<lambda>x. oc_id x = i) (set_columns cols) rows \<and>
    (oc_scopesGranted r \<noteq> [] \<longrightarrow> set (tc_scopesGranted cols) \<subseteq> set (oc_scopesGranted r)))"
proof (cases "rows' = rows")
  case False
  with assms(1) obtain stored connector creds tokens where
    l: "refresh_load D c i rows = Inr (stored, connector, creds)" and
    e: "\<not> escalated (ot_scopesGranted (sc_tokens stored)) (ot_scopesGranted tokens)" and
    u: "\<exists>res. updateConnectionTokens (od_env D) (od_key D) nonces (sc_id stored) tokens rows = (res, rows')"
    by (rule refreshConnection_rows)
  from l obtain r where r: "r \<in> set rows" "oc_id r = i" "oc_customerId r = c" "sc_id stored = i"
    "ot_scopesGranted (sc_tokens stored) = oc_scopesGranted r" "oc_connector r \<in> set ALL_CONNECTOR_IDS"
    by (rule refresh_load_Inr)
  from u r(4) updateConnectionTokens_rows [OF _ assms(2)] False obtain cols where
    "tc_scopesGranted cols = ot_scopesGranted tokens" "rows' = update_rows (\<lambda>x. oc_id x = i) (set_columns cols) rows"
    by blast
  moreover from this(1) r(5) e have "oc_scopesGranted r \<noteq> [] \<longrightarrow> set (tc_scopesGranted cols) \<subseteq> set (oc_scopesGranted r)"
    by (auto simp: escalated_def filter_empty_conv)
  ultimately show ?thesis using r by blast
qed simp

text \<open>A refresh without scope information empties the scopes of the connection, and the refresh after it
  is not compared with anything: two refreshes widen what one may not.\<close>

theorem scopes_widen_in_two_refreshes:
  assumes "refresh_store D n1 stored t1 rows = (Inr s1, rows1)" "ot_scopesGranted t1 = []"
    and "refresh_store D n2 s1 t2 rows1 = (Inr s2, rows2)"
  shows "ot_scopesGranted (sc_tokens s1) = [] \<and> ot_scopesGranted (sc_tokens s2) = ot_scopesGranted t2 \<and>
    \<not> escalated (ot_scopesGranted (sc_tokens s1)) (ot_scopesGranted t2)"
proof -
  have "ot_scopesGranted (sc_tokens s) = ot_scopesGranted t" if "refresh_store D n st t rows = (Inr s, rows')" for n st t rows s rows'
    using that
    by (auto simp: refresh_store_def updateConnectionTokens_def update_check_def update_write_def update_returning_def
        returned_def rowToStored_def rowToTokens_def tokensToRow_def Let_def rbind_Inr_iff
        split: if_splits sum.splits option.splits store_error.splits prod.splits)
  from this [OF assms(1)] this [OF assms(3)] assms(2) show ?thesis by (simp add: escalated_def)
qed

subsection \<open>At concrete inputs\<close>

lemma bound_tagged: "aead_tagged bound_env"
  by (auto simp: aead_tagged_def bound_env_def)

lemma bound_binds: "aead_binds bound_env"
proof -
  have "\<not> startsWith (n @ bound_tag a @ p) (n @ bound_tag a')" if "a \<noteq> a'" for n a a' p
    using that bound_tag_eq by (auto simp: startsWith_iff)
  then show ?thesis by (simp add: aead_binds_def bound_env_def)
qed

lemma demo_sizes: "length oauth_key = 32" "length oauth_nonce = 24"
  by (simp_all add: oauth_key_def oauth_nonce_def)

lemma demo_columns:
  "\<exists>cols. tokensToRow bound_env oauth_key (oauth_nonce, oauth_nonce) demo_tokens c k = Inr cols \<and> writable cols \<and>
     tc_scopesGranted cols = [''s'']"
  by (auto simp: tokensToRow_def Let_def demo_tokens_def sealString_def demo_sizes SECRETBOX_KEY_LEN_def writable_def date_ok_def)

lemma demo_saved:
  "\<exists>s r. saveConnection bound_env oauth_key (oauth_nonce, oauth_nonce) ''x1'' ''c1'' ''slack'' demo_tokens [] = (Inr s, [r]) \<and>
     rowToStored bound_env oauth_key r = Inr s \<and> rowToTokens bound_env oauth_key r = Inr demo_tokens \<and>
     oc_id r = ''x1'' \<and> same_owner r ''c1'' ''slack'' ''T''"
proof -
  obtain cols where cols: "tokensToRow bound_env oauth_key (oauth_nonce, oauth_nonce) demo_tokens ''c1'' ''slack'' = Inr cols" "writable cols"
    using demo_columns by blast
  define r where "r = set_columns cols
    \<lparr>oc_id = ''x1'', oc_customerId = ''c1'', oc_connector = ''slack'', oc_accountId = ot_accountId demo_tokens,
     oc_encryptedRefreshToken = [], oc_refreshTokenNonce = [], oc_refreshTokenExpiresAt = None,
     oc_encryptedAccessToken = None, oc_accessTokenNonce = None, oc_accessTokenExpiresAt = None, oc_scopesGranted = []\<rparr>"
  have own: "same_owner r ''c1'' ''slack'' (ot_accountId demo_tokens)" by (simp add: r_def same_owner_def)
  have t: "rowToTokens bound_env oauth_key r = Inr demo_tokens"
    unfolding r_def
    by (rule sealed_tokens_open [OF bound_laws bound_tagged _ _ cols(1)]) (simp_all add: demo_sizes same_owner_def)
  then obtain s where s: "rowToStored bound_env oauth_key r = Inr s" by (simp add: rowToStored_def)
  have "save_find ''c1'' ''slack'' (ot_accountId demo_tokens) [] = None" by (simp add: save_find_def)
  with cols s have "saveConnection bound_env oauth_key (oauth_nonce, oauth_nonce) ''x1'' ''c1'' ''slack'' demo_tokens [] = (Inr s, [r])"
    by (simp add: saveConnection_def save_write_def returned_def r_def [symmetric])
  moreover have "oc_id r = ''x1''" "ot_accountId demo_tokens = ''T''" by (simp_all add: r_def demo_tokens_def)
  ultimately show ?thesis using s t own by auto
qed

theorem saved_tokens_load_back_witness:
  "\<exists>s rows. saveConnection bound_env oauth_key (oauth_nonce, oauth_nonce) ''x1'' ''c1'' ''slack'' demo_tokens [] = (Inr s, rows) \<and>
     sc_tokens s = demo_tokens \<and> loadConnectionById bound_env oauth_key ''c1'' (sc_id s) rows = Inr (Some s)"
proof -
  obtain s r where sv: "saveConnection bound_env oauth_key (oauth_nonce, oauth_nonce) ''x1'' ''c1'' ''slack'' demo_tokens [] = (Inr s, [r])"
    using demo_saved by blast
  from saved_tokens_load_back [OF bound_laws bound_tagged _ _ _ _ sv] sv show ?thesis by (simp add: demo_sizes)
qed

theorem sealed_token_stays_with_its_row_witness:
  "\<exists>cols r. tokensToRow bound_env oauth_key (oauth_nonce, oauth_nonce) demo_tokens ''c2'' ''slack'' = Inr cols \<and>
     oc_customerId r = ''c1'' \<and> rowToTokens bound_env oauth_key (set_columns cols r) = Inl DecryptError"
proof -
  obtain s r where r: "same_owner r ''c1'' ''slack'' ''T''" using demo_saved by blast
  obtain cols where cols: "tokensToRow bound_env oauth_key (oauth_nonce, oauth_nonce) demo_tokens ''c2'' ''slack'' = Inr cols"
    using demo_columns by blast
  have "rowToTokens bound_env oauth_key (set_columns cols r) = Inl DecryptError"
    by (rule sealed_token_stays_with_its_row [OF bound_laws bound_tagged bound_binds _ _ cols])
       (use r in \<open>simp_all add: demo_sizes demo_tokens_def same_owner_def\<close>)
  with cols r show ?thesis by (auto simp: same_owner_def)
qed

theorem refresh_is_confined_witness:
  "\<exists>r res rows'. refreshConnection demo_oauth 0 (oauth_nonce, oauth_nonce) ''c1'' ''x1'' [r] = (res, rows') \<and> is_ok res \<and>
     oc_scopesGranted r = [''s''] \<and>
     (rows' = [r] \<or> (\<exists>cols. rows' = [set_columns cols r] \<and> set (tc_scopesGranted cols) \<subseteq> {''s''}))"
proof -
  obtain s r where r: "rowToStored bound_env oauth_key r = Inr s" "rowToTokens bound_env oauth_key r = Inr demo_tokens"
    "oc_id r = ''x1''" "same_owner r ''c1'' ''slack'' ''T''"
    using demo_saved by blast
  then have sr: "sc_id s = ''x1''" "sc_connector s = ''slack''" "sc_tokens s = demo_tokens" "oc_scopesGranted r = [''s'']"
    using rowToStored_fields [OF r(1)] by (auto simp: rowToStored_def rbind_Inr_iff same_owner_def demo_tokens_def)
  have "refresh_load demo_oauth ''c1'' ''x1'' [r] = Inr (s, slackConnector, (''id'', ''secret''))"
    using r sr by (simp add: refresh_load_def loadConnectionById_def load_row_def same_owner_def demo_oauth_def
        connectorCredentials_def getConnector_def connectorRegistry_def ALL_CONNECTOR_IDS_def demo_tokens_def)
  moreover have "refresh_call demo_oauth 0 (s, slackConnector, (''id'', ''secret'')) = Inr demo_tokens"
  proof -
    have "od_env demo_oauth = bound_env" "ot_refreshToken (sc_tokens s) = ''rt''"
      by (simp_all add: demo_oauth_def sr(3)) (simp add: demo_tokens_def)
    then show ?thesis by (simp add: refresh_call_def demo_refresh)
  qed
  moreover obtain cols where cols: "tokensToRow bound_env oauth_key (oauth_nonce, oauth_nonce) demo_tokens ''c1'' ''slack'' = Inr cols"
    "writable cols" using demo_columns by blast
  have acc: "ot_accountId demo_tokens = ''T''" by (simp add: demo_tokens_def)
  have same: "(set_columns cols r)\<lparr>oc_accountId := ''T''\<rparr> = set_columns cols r" using r(4) by (simp add: set_columns_def same_owner_def)
  have "rowToTokens bound_env oauth_key (set_columns cols r) = Inr demo_tokens"
    by (rule sealed_tokens_open [OF bound_laws bound_tagged _ _ cols(1)]) (use r(4) in \<open>simp_all add: demo_sizes acc\<close>)
  then obtain s' where s': "rowToStored bound_env oauth_key (set_columns cols r) = Inr s'" by (simp add: rowToStored_def)
  have "updateConnectionTokens bound_env oauth_key (oauth_nonce, oauth_nonce) ''x1'' demo_tokens [r] = (Inr s', [set_columns cols r])"
    using cols r s' by (simp add: updateConnectionTokens_def update_check_def same_owner_def acc update_write_def
        update_returning_def same returned_def update_rows_def)
  then have "refresh_store demo_oauth (oauth_nonce, oauth_nonce) s demo_tokens [r] = (Inr s', [set_columns cols r])"
    using sr by (simp add: refresh_store_def escalated_def) (simp add: demo_oauth_def)
  ultimately have ref: "refreshConnection demo_oauth 0 (oauth_nonce, oauth_nonce) ''c1'' ''x1'' [r] = (Inr s', [set_columns cols r])"
    by (simp add: refreshConnection_def)
  from refresh_is_confined [OF this] sr(4) r(3) have
    "[set_columns cols r] = [r] \<or> (\<exists>cols'. [set_columns cols r] = [set_columns cols' r] \<and> set (tc_scopesGranted cols') \<subseteq> {''s''})"
    by (auto simp: update_rows_def)
  with ref sr(4) show ?thesis by (intro exI [of _ r] exI [of _ "Inr s'"] exI [of _ "[set_columns cols r]"]) simp
qed

subsection \<open>What the checks do not cover\<close>

text \<open>A state whose payload is the JSON value null makes the callback throw; it does not redirect.\<close>

theorem null_state_throws:
  assumes "i \<in> set ALL_CONNECTOR_IDS" "code \<noteq> []"
  shows "callback D now nonces newId i (Some code) (Some ''bnVsbA.x'') st = (Callback_threw, st)"
proof -
  have "split_on CHR ''.'' ''bnVsbA.x'' = [''bnVsbA'', ''x'']" "base64urlToString ''bnVsbA'' = ''null''" by code_simp+
  moreover have "JSON_parse nd ''null'' = Some JNull" for nd
    using JSON_parse_render [of nd JNull] by simp
  ultimately have "verifyState E hmac lt secret ''bnVsbA.x'' t = Inl TypeError" for E hmac lt secret t
    by (simp add: verifyState_def)
  with assms show ?thesis by (simp add: callback_def callback_begin_def str_truthy_def)
qed

text \<open>Two first saves for one account that interleave leave two rows for it.\<close>

theorem interleaved_saves_duplicate:
  assumes "save_find c k (ot_accountId t) rows = None" "writable c1" "writable c2"
    and "save_write E key i1 c k t c1 (save_find c k (ot_accountId t) rows) rows = (res1, rows1)"
    and "save_write E key i2 c k t c2 (save_find c k (ot_accountId t) rows) rows1 = (res2, rows2)"
  shows "length (filter (\<lambda>r. same_owner r c k (ot_accountId t)) rows2) = 2"
proof -
  have "filter (\<lambda>r. same_owner r c k (ot_accountId t)) rows = []"
    using assms(1) by (auto simp: save_find_def find_None_iff same_owner_def filter_empty_conv)
  with assms(2-5) show ?thesis by (auto simp: assms(1) save_write_def Let_def same_owner_def)
qed

text \<open>An active organisation the user is no member of is passed over: the bridge falls back to another
  organisation of the user.\<close>

theorem stale_organisation_falls_back:
  assumes "active_org co u = Some c" "membership_of co u c = None" "m \<in> set (co_memberships co)" "mb_userId m = u"
  shows "\<exists>m'. connect_membership co u = Some m' \<and> mb_userId m' = u \<and> mb_customerId m' \<noteq> c"
proof -
  let ?mine = "filter (\<lambda>m. mb_userId m = u) (co_memberships co)"
  have ne: "mb_customerId x \<noteq> c" if "x \<in> set ?mine" for x
    using that assms(2) by (auto simp: membership_of_def find_None_iff)
  have pick: "\<exists>m' \<in> set ms. owner_or_first ms = Some m'" if "ms \<noteq> []" for ms
  proof (cases "List.find (\<lambda>m. mb_role m = owner) ms")
    case None
    with that show ?thesis by (cases ms) (auto simp: owner_or_first_def)
  next
    case (Some x)
    then have "x \<in> set ms" by (auto simp: find_Some_iff)
    with Some show ?thesis by (auto simp: owner_or_first_def)
  qed
  from assms(3,4) have "?mine \<noteq> []" by (auto simp: filter_empty_conv)
  from pick [OF this] obtain m' where m': "owner_or_first ?mine = Some m'" "m' \<in> set ?mine" by blast
  with ne [OF m'(2)] assms show ?thesis by (auto simp: connect_membership_def)
qed

end
