(* ===== verification/Console_Steps.thy ===== *)
theory Console_Steps
  imports Console_Agents Swarm_Properties Oauth_Properties
begin

text \<open>
  The dashboard API as a transition system: any session calls any of the modelled procedures, in any order, one
  request at a time; a database failure between the statements of a request is part of its step. The routers are
  members, invites, organizations, agents, api-keys, ucans, policies, grants, envelopes, swarms, chain-approvals,
  oauth and the decisions of stepup; customers, cloud-connections, notification-preferences, billing and auth are
  not modelled. What a customer's tenant holds is its view; a step leaves every view but the caller's alone, and
  keeps every organisation's last owner.
\<close>

record console_deps =
  cd_env :: env
  cd_cedar :: cedar
  cd_signing :: signing
  cd_isEmail :: "string \<Rightarrow> bool"
  cd_knownSchema :: "string \<Rightarrow> bool"
  cd_encryptionKey :: "string option"
  cd_oauth :: "OauthDeps option"

definition console_agents :: "Console \<Rightarrow> AgentRow list" where
  "console_agents st = db_agents (tb_core (co_tables st))"

text \<open>A call under a context: the modelled procedures that need a membership.\<close>

inductive member_call :: "console_deps \<Rightarrow> Context \<Rightarrow> Console \<Rightarrow> Console \<Rightarrow> bool" for D cx where
  call_changeRole: "changeRole cx i role st = (a, st') \<Longrightarrow> member_call D cx st st'"
| call_remove: "remove_member cx i st = (a, st') \<Longrightarrow> member_call D cx st st'"
| call_create_invite:
    "create_invite (cd_env D) (cd_isEmail D) cx now newId token email role st = (a, st') \<Longrightarrow>
     newId \<notin> iv_id ` set (co_invites st) \<Longrightarrow> sha256Hex (cd_env D) token \<notin> iv_tokenHash ` set (co_invites st) \<Longrightarrow>
     member_call D cx st st'"
| call_revoke_invite: "revoke_invite cx now i st = (a, st') \<Longrightarrow> member_call D cx st st'"
| call_create_swarm: "create_swarm fails cx newId name root maxDepth st = (a, st') \<Longrightarrow> member_call D cx st st'"
| call_attachChild: "attachChild cx swarm agent parent st = (a, st') \<Longrightarrow> member_call D cx st st'"
| call_chain_approval:
    "create_chain_approval cx now newId root swarm scope ttl st = Some (a, st') \<Longrightarrow> member_call D cx st st'"
| call_create_agent:
    "create_agent (cd_env D) (cd_encryptionKey D) cx stamp newId seed nonce name requireApproval st = (a, st') \<Longrightarrow>
     newId \<notin> ag_id ` set (console_agents st) \<Longrightarrow> member_call D cx st st'"
| call_approveConnection: "approveConnection cx stamp i st = (a, st') \<Longrightarrow> member_call D cx st st'"
| call_denyConnection: "denyConnection cx i st = (a, st') \<Longrightarrow> member_call D cx st st'"
| call_update_agent: "update_agent cx i name status st = (a, st') \<Longrightarrow> member_call D cx st st'"
| call_setMode: "setMode cx i mode st = (a, st') \<Longrightarrow> member_call D cx st st'"
| call_delete_agent: "delete_agent fails cx now i st = (n, st') \<Longrightarrow> member_call D cx st st'"
| call_assignPolicies: "assignPolicies cx i ps st = (n, st') \<Longrightarrow> member_call D cx st st'"
| call_unassignPolicy: "unassignPolicy cx i p st = (a, st') \<Longrightarrow> member_call D cx st st'"
| call_create_key: "create_key (cd_env D) cx newId secret i name role' st = (k, st') \<Longrightarrow> member_call D cx st st'"
| call_update_key_role: "update_key_role cx i role st = (a, st') \<Longrightarrow> member_call D cx st st'"
| call_revoke_key: "revoke_key cx now i st = (a, st') \<Longrightarrow> member_call D cx st st'"
| call_mint_ucan: "mint_ucan (cd_env D) (cd_signing D) cx now m st = (r, st') \<Longrightarrow> member_call D cx st st'"
| call_revoke_ucan: "revoke_ucan cx cid reason st = (b, st') \<Longrightarrow> member_call D cx st st'"
| call_upsert_policy:
    "upsert_policy (cd_env D) (cd_cedar D) (cd_knownSchema D) cx newId p name cedarText integrationId st = (k, st') \<Longrightarrow>
     member_call D cx st st'"
| call_assignAgents: "assignAgents cx p agents st = (n, st') \<Longrightarrow> member_call D cx st st'"
| call_toggle_grant: "toggle_grant cx newId now i st = (a, st') \<Longrightarrow> member_call D cx st st'"
| call_revoke_grant: "revoke_grant cx now i st = (a, st') \<Longrightarrow> member_call D cx st st'"
| call_revoke_envelope: "revoke_envelope cx now i st = (a, st') \<Longrightarrow> member_call D cx st st'"
| call_approve: "approve_stepup (cd_env D) (cd_signing D) fails cx now ids asserted inp st = (j, st') \<Longrightarrow> member_call D cx st st'"
| call_deny: "deny_stepup fails cx now newId i remember scope st = (a, st') \<Longrightarrow> member_call D cx st st'"
| call_disconnect: "disconnect cx i st = (a, st') \<Longrightarrow> member_call D cx st st'"
| call_refresh: "refresh_connection (cd_oauth D) cx now nonces i st = (t, st') \<Longrightarrow> member_call D cx st st'"
| call_addManual:
    "addManual (cd_oauth D) cx nonces newId man st = (s, st') \<Longrightarrow>
     newId \<notin> oc_id ` set (tb_oauthConnections (co_tables st)) \<Longrightarrow> member_call D cx st st'"

text \<open>A step: a request of a session, whose context is resolved from the tables at that time.\<close>

inductive console_step :: "console_deps \<Rightarrow> SessionUser option \<Rightarrow> Console \<Rightarrow> Console \<Rightarrow> bool" for D session where
  member_step: "member_call D (createContext st session cookie) st st' \<Longrightarrow> console_step D session st st'"
| accept_step:
    "accept_invite (cd_env D) fails (createContext st session cookie) now newId token st = (a, st') \<Longrightarrow>
     newId \<notin> mb_id ` set (co_memberships st) \<Longrightarrow> console_step D session st st'"
| switch_step:
    "switch_organization (createContext st session cookie) c st = (a, st') \<Longrightarrow> console_step D session st st'"

inductive console_reachable :: "console_deps \<Rightarrow> Console \<Rightarrow> Console \<Rightarrow> bool" for D st0 where
  console_start: "console_reachable D st0 st0"
| console_next: "console_reachable D st0 st \<Longrightarrow> console_step D session st st' \<Longrightarrow> console_reachable D st0 st'"

subsection \<open>Views\<close>

definition core_view where
  "core_view d db =
     (filter (\<lambda>a. ag_customerId a = d) (db_agents db), filter (\<lambda>p. po_customerId p = d) (db_policies db),
      filter (\<lambda>m. ap_customerId m = d) (db_agentPolicies db), filter (\<lambda>r. rv_customerId r = d) (db_revocations db),
      filter (\<lambda>p. pa_customerId p = d) (db_approvals db), filter (\<lambda>g. gt_customerId g = d) (db_grants db))"

definition table_view where
  "table_view d tb =
     (core_view d (tb_core tb), filter (\<lambda>k. ak_customerId k = d) (tb_apiKeys tb),
      filter (\<lambda>u. is_customerId u = d) (tb_ucanIssues tb), filter (\<lambda>e. en_customerId e = d) (tb_envelopes tb),
      filter (\<lambda>u. us_customerId u = d) (tb_usage tb), filter (\<lambda>c. oc_customerId c = d) (tb_oauthConnections tb),
      filter (\<lambda>c. cn_customerId c = d) (tb_cloudConnections tb))"

definition tenant_view where
  "tenant_view d st =
     (table_view d (co_tables st), filter (\<lambda>m. mb_customerId m = d) (co_memberships st),
      filter (\<lambda>i. iv_customerId i = d) (co_invites st), filter (\<lambda>s. sw_customerId s = d) (co_swarms st),
      filter (\<lambda>r. cha_customerId r = d) (co_chainApprovals st))"

lemmas view_defs = tenant_view_def table_view_def core_view_def

lemma filter_update_rows:
  "(\<And>r. r \<in> set rows \<Longrightarrow> P r \<Longrightarrow> \<not> Q r \<and> \<not> Q (f r)) \<Longrightarrow> filter Q (update_rows P f rows) = filter Q rows"
  by (induction rows) (auto simp: update_rows_def)

lemma filter_delete: "(\<And>r. r \<in> set rows \<Longrightarrow> \<not> P r \<Longrightarrow> \<not> Q r) \<Longrightarrow> filter Q (filter P rows) = filter Q rows"
  by (induction rows) auto

text \<open>What the database guarantees of the primary keys and unique indexes.\<close>

definition console_ok :: "Console \<Rightarrow> bool" where
  "console_ok st \<longleftrightarrow>
     distinct (map mb_id (co_memberships st)) \<and> distinct (map ag_id (console_agents st)) \<and>
     distinct (map iv_id (co_invites st)) \<and> distinct (map iv_tokenHash (co_invites st)) \<and>
     (\<forall>i \<in> set (co_invites st). iv_role i \<noteq> owner)"

text \<open>The same of the approvals and the OAuth connections.\<close>

definition stores_ok :: "Console \<Rightarrow> bool" where
  "stores_ok st \<longleftrightarrow>
     distinct (map pa_id (db_approvals (tb_core (co_tables st)))) \<and> distinct (map oc_id (tb_oauthConnections (co_tables st)))"

lemma same_key: "distinct (map f xs) \<Longrightarrow> x \<in> set xs \<Longrightarrow> y \<in> set xs \<Longrightarrow> f x = f y \<Longrightarrow> x = y"
  by (induction xs) (auto simp: image_iff)

text \<open>A frame: the tables the members of an organisation share outside it are kept.\<close>

definition moves :: "string \<Rightarrow> Console \<Rightarrow> Console \<Rightarrow> bool" where
  "moves c st st' \<longleftrightarrow> (\<forall>d. d \<noteq> c \<longrightarrow> tenant_view d st' = tenant_view d st)"

lemma moves_refl [simp]: "moves c st st" by (simp add: moves_def)

lemma moves_trans: "moves c st st1 \<Longrightarrow> moves c st1 st2 \<Longrightarrow> moves c st st2" by (simp add: moves_def)

lemma procedure_cases:
  assumes "procedure r a cx body st = (x, st')"
  obtains "st' = st" | cl where "withPermission r a cx = Inr cl" "body cl st = (x, st')"
  using assms by (auto simp: procedure_def split: sum.splits)

lemma console_agent_Some:
  "console_agent st c i = Some a \<Longrightarrow> a \<in> set (console_agents st) \<and> ag_id a = i \<and> ag_customerId a = c"
  by (simp add: console_agent_def console_agents_def agent_of_Some)

subsection \<open>Agents\<close>

lemma update_agents_moves:
  assumes "\<And>a. a \<in> set (console_agents st) \<Longrightarrow> P a \<Longrightarrow> ag_customerId a = c \<and> ag_customerId (f a) = c"
  shows "moves c st (update_agents P f st)"
  using assms by (auto simp: moves_def view_defs update_agents_def console_agents_def intro!: filter_update_rows)

lemma update_agents_rest [simp]:
  "co_memberships (update_agents P f st) = co_memberships st" "co_invites (update_agents P f st) = co_invites st"
  "co_swarms (update_agents P f st) = co_swarms st" "co_users (update_agents P f st) = co_users st"
  "console_agents (update_agents P f st) = update_rows P f (console_agents st)"
  by (simp_all add: update_agents_def console_agents_def)

lemma set_agent_moves:
  "set_agent cl i f st = (x, st') \<Longrightarrow> cl_customerId cl = c \<Longrightarrow> (\<And>a. ag_customerId (f a) = ag_customerId a) \<Longrightarrow> moves c st st'"
  by (auto simp: set_agent_def split: if_splits intro!: update_agents_moves)

subsection \<open>The frame of each call\<close>

lemma changeRole_moves:
  "cl_customerId cl = c \<Longrightarrow> moves c st (changeRole_update cl i role st)"
  by (auto simp: moves_def view_defs changeRole_update_def intro!: filter_update_rows)

lemma membership_in_Some:
  "membership_in st c i = Some m \<Longrightarrow> m \<in> set (co_memberships st) \<and> mb_id m = i \<and> mb_customerId m = c"
  by (auto simp: membership_in_def find_Some_iff)

lemma remove_checkD:
  "remove_check cl i st = Inr u \<Longrightarrow>
     \<exists>m \<in> set (co_memberships st). mb_id m = i \<and> mb_customerId m = cl_customerId cl \<and>
       (mb_role m = owner \<longrightarrow> countOwners st (cl_customerId cl) > 1) \<and> mb_userId m \<noteq> su_id (cl_user cl)"
  by (auto simp: remove_check_def split: if_splits option.splits dest!: membership_in_Some)

lemma remove_moves:
  assumes "console_ok st" "remove_check cl i st = Inr u"
  shows "moves (cl_customerId cl) st (remove_delete i st)"
proof -
  obtain m where m: "m \<in> set (co_memberships st)" "mb_id m = i" "mb_customerId m = cl_customerId cl"
    using remove_checkD [OF assms(2)] by blast
  have "mb_customerId r = cl_customerId cl" if "r \<in> set (co_memberships st)" "mb_id r = i" for r
    using same_key [of mb_id "co_memberships st" r m] assms(1) m that by (simp add: console_ok_def)
  then show ?thesis by (auto simp: moves_def view_defs remove_delete_def simp del: filter_filter intro!: filter_delete)
qed

lemma agent_row_unique:
  assumes "console_ok st" "console_agent st c i = Some a" "a' \<in> set (console_agents st)" "ag_id a' = i"
  shows "a' = a"
  using same_key [of ag_id "console_agents st" a' a] assms console_agent_Some [OF assms(2)] by (simp add: console_ok_def)

lemma moves_invites:
  "(\<And>d. d \<noteq> c \<Longrightarrow> filter (\<lambda>i. iv_customerId i = d) is' = filter (\<lambda>i. iv_customerId i = d) (co_invites st)) \<Longrightarrow>
     moves c st (st\<lparr>co_invites := is'\<rparr>)"
  by (simp add: moves_def view_defs)

lemma moves_tables:
  "(\<And>d. d \<noteq> c \<Longrightarrow> table_view d tb = table_view d (co_tables st)) \<Longrightarrow> moves c st (st\<lparr>co_tables := tb\<rparr>)"
  by (simp add: moves_def tenant_view_def)

lemma revoke_cids_view: "d \<noteq> c \<Longrightarrow> table_view d (revoke_cids c cids tb) = table_view d tb"
  by (simp add: table_view_def core_view_def revoke_cids_def filter_map o_def)

lemma revoke_keys_view: "d \<noteq> c \<Longrightarrow> table_view d (revoke_keys c i now tb) = table_view d tb"
  by (auto simp: table_view_def core_view_def revoke_keys_def intro!: filter_update_rows)

lemma mint_view: "mintUcan E sg now inp tb = (r, tb') \<Longrightarrow> d \<noteq> mi_customerId inp \<Longrightarrow> table_view d tb' = table_view d tb"
  by (auto simp: mintUcan_def record_issue_def Let_def table_view_def core_view_def split: option.splits if_splits sum.splits)

lemma mint_core:
  "mintUcan E sg now inp tb = (r, tb') \<Longrightarrow> tb_core tb' = tb_core tb \<and> tb_oauthConnections tb' = tb_oauthConnections tb"
  by (auto simp: mintUcan_def record_issue_def Let_def split: option.splits if_splits sum.splits)

lemma assign_view:
  "d \<noteq> c \<Longrightarrow> filter (\<lambda>m. ap_customerId m = d) (assign c user pairs rows) = filter (\<lambda>m. ap_customerId m = d) rows"
  unfolding assign_def by (induction pairs arbitrary: rows) (auto split: prod.splits)

lemma set_mappings_moves:
  "(\<And>d. d \<noteq> c \<Longrightarrow> filter (\<lambda>m. ap_customerId m = d) (f (db_agentPolicies (tb_core (co_tables st)))) =
      filter (\<lambda>m. ap_customerId m = d) (db_agentPolicies (tb_core (co_tables st)))) \<Longrightarrow> moves c st (set_mappings f st)"
  by (simp add: moves_def view_defs set_mappings_def)

lemma set_policies_moves:
  "(\<And>d. d \<noteq> c \<Longrightarrow> filter (\<lambda>m. po_customerId m = d) (f (db_policies (tb_core (co_tables st)))) =
      filter (\<lambda>m. po_customerId m = d) (db_policies (tb_core (co_tables st)))) \<Longrightarrow> moves c st (set_policies f st)"
  by (simp add: moves_def view_defs set_policies_def)

lemma set_keys_moves:
  "(\<And>d. d \<noteq> c \<Longrightarrow> filter (\<lambda>m. ak_customerId m = d) (f (tb_apiKeys (co_tables st))) =
      filter (\<lambda>m. ak_customerId m = d) (tb_apiKeys (co_tables st))) \<Longrightarrow> moves c st (set_keys f st)"
  by (simp add: moves_def view_defs set_keys_def)

lemma upsertGrant_view: "ug_customerId inp = c \<Longrightarrow> d \<noteq> c \<Longrightarrow> core_view d (upsertGrant newId now inp db) = core_view d db"
  by (auto simp: core_view_def upsertGrant_def new_grant_def active_grant_def intro!: filter_update_rows)

lemma toggleGrant_view: "toggleGrant newId now c i user db = Some db' \<Longrightarrow> d \<noteq> c \<Longrightarrow> core_view d db' = core_view d db"
  by (auto simp: toggleGrant_def upsertGrant_view split: option.splits if_splits)

lemma revokeGrant_view: "revokeGrant now c i user db = (ok, db') \<Longrightarrow> d \<noteq> c \<Longrightarrow> core_view d db' = core_view d db"
  by (auto simp: revokeGrant_def core_view_def revocable_def intro!: filter_update_rows)

lemma revokeEnvelope_view: "revokeEnvelope c i now tb = (e, tb') \<Longrightarrow> d \<noteq> c \<Longrightarrow> table_view d tb' = table_view d tb"
  by (auto simp: revokeEnvelope_def table_view_def revocable_envelope_def intro!: filter_update_rows)

lemma permission_customer:
  "withPermission r a cx = Inr cl \<Longrightarrow> cx_membership cx = Some (cl_customerId cl, cl_role cl) \<and> cx_user cx = Some (cl_user cl)"
  by (auto simp: withPermission_def requireMembership_def rbind_Inr_iff split: option.splits if_splits)

text \<open>Every call of a member acts for the organisation of its context.\<close>

lemma procedure_membership:
  "procedure r a cx body st = (x, st') \<Longrightarrow> st' \<noteq> st \<Longrightarrow> \<exists>c role. cx_membership cx = Some (c, role)"
  by (erule procedure_cases) (auto dest: permission_customer)

lemma procedure_moves:
  assumes "procedure r a cx body st = (x, st')" "cx_membership cx = Some (c, role)"
    "\<And>cl. withPermission r a cx = Inr cl \<Longrightarrow> cl_customerId cl = c \<Longrightarrow> body cl st = (x, st') \<Longrightarrow> moves c st st'"
  shows "moves c st st'"
  using assms(1)
proof (cases rule: procedure_cases)
  case (2 cl)
  then show ?thesis using assms(2,3) permission_customer [OF 2(1)] by simp
qed simp

lemma update_key_moves:
  assumes "update_key action f cx i st = (a, st')" "cx_membership cx = Some (c, role)"
    "\<And>k. ak_customerId (f k) = ak_customerId k"
  shows "moves c st st'"
  using assms(1) unfolding update_key_def
  by (rule procedure_moves [OF _ assms(2)])
    (auto simp: live_key_of_def assms(3) split: if_splits intro!: set_keys_moves filter_update_rows)

lemma create_swarm_moves:
  assumes ok: "console_ok st" and run: "create_swarm fails cx newId name root maxDepth st = (a, st')"
    and c: "cx_membership cx = Some (c, role)"
  shows "moves c st st'"
  using run unfolding create_swarm_def
proof (cases rule: procedure_cases)
  case (2 cl)
  have cl: "cl_customerId cl = c" using permission_customer [OF 2(1)] c by simp
  let ?st1 = "st\<lparr>co_swarms := co_swarms st @
       [\<lparr>sw_id = newId, sw_customerId = c, sw_rootAgentId = Some root, sw_maxDepth = maxDepth\<rparr>]\<rparr>"
  let ?st2 = "update_agents (\<lambda>a. ag_id a = root) (\<lambda>a. a\<lparr>ag_rootAgentId := Some root, ag_depth := 0, ag_swarmId := Some newId\<rparr>) ?st1"
  from 2(2) consider "st' = st" | row where "console_agent st c root = Some row" "st' = ?st1 \<or> st' = ?st2"
    by (auto simp: cl Let_def split: if_splits option.splits)
  then show ?thesis
  proof cases
    case (2 row)
    have m1: "moves c st ?st1" by (simp add: moves_def view_defs)
    have "ag_customerId x = c" if "x \<in> set (console_agents st)" "ag_id x = root" for x
      using agent_row_unique [OF ok 2(1) that] console_agent_Some [OF 2(1)] by simp
    then have "moves c ?st1 ?st2" by (intro update_agents_moves) (simp add: console_agents_def)
    with 2(2) m1 moves_trans [OF m1] show ?thesis by blast
  qed simp
qed simp

lemma attachChild_moves:
  assumes ok: "console_ok st" and run: "attachChild cx swarm agent parent st = (a, st')"
    and c: "cx_membership cx = Some (c, role)"
  shows "moves c st st'"
  using run unfolding attachChild_def
proof (cases rule: procedure_cases)
  case (2 cl)
  have cl: "cl_customerId cl = c" using permission_customer [OF 2(1)] c by simp
  show ?thesis
  proof (cases "st' = st")
    case False
    with 2(2) obtain sw :: SwarmRow and par row where row: "console_agent st c agent = Some row"
      and st': "st' = update_agents (\<lambda>a. ag_id a = agent) (attached sw par) st"
      by (auto simp: cl split: if_splits option.splits)
    have "ag_customerId x = c" if "x \<in> set (console_agents st)" "ag_id x = agent" for x
      using agent_row_unique [OF ok row that] console_agent_Some [OF row] by simp
    then show ?thesis
      unfolding st' by (intro update_agents_moves) (simp add: attached_def)
  qed simp
qed simp

lemma chain_approval_moves:
  assumes run: "create_chain_approval cx now newId root swarm scope ttl st = Some (a, st')"
    and c: "cx_membership cx = Some (c, role)"
  shows "moves c st st'"
proof (cases "withPermission R_grants A_create cx")
  case (Inr cl)
  have cl: "cl_customerId cl = c" using permission_customer [OF Inr] c by simp
  show ?thesis
    using run Inr
    by (auto simp: create_chain_approval_def cl Let_def moves_def view_defs bind_eq_Some_conv split: if_splits option.splits)
qed (use run in \<open>simp add: create_chain_approval_def\<close>)

lemma create_agent_moves:
  assumes run: "create_agent E k cx stamp newId seed nonce name requireApproval st = (a, st')"
    and c: "cx_membership cx = Some (c, role)"
  shows "moves c st st'"
  using run unfolding create_agent_def
proof (cases rule: procedure_cases)
  case (2 cl)
  have cl: "cl_customerId cl = c" using permission_customer [OF 2(1)] c by simp
  show ?thesis
    using 2(2)
    by (auto simp: cl moves_def view_defs new_agent_def split: option.splits sum.splits if_splits prod.splits)
qed simp

text \<open>What a delete leaves behind: nothing changed, the agent marked, or its tokens revoked too, or all of it.\<close>

lemma delete_agent_stages:
  assumes "delete_agent fails cx now i st = (x, st')"
  obtains "st' = st" | cl st1 where "withPermission R_agents A_delete cx = Inr cl"
    "set_agent cl i (ag_status_update (\<lambda>_. status_deleted)) st = (Inr (), st1)"
    "st' = st1 \<or> (\<exists>cids. st' = st1\<lparr>co_tables := revoke_cids (cl_customerId cl) cids (co_tables st1)\<rparr> \<or>
       st' = st1\<lparr>co_tables := revoke_keys (cl_customerId cl) i now (co_tables st1)\<rparr> \<or>
       st' = st1\<lparr>co_tables := revoke_keys (cl_customerId cl) i now (revoke_cids (cl_customerId cl) cids (co_tables st1))\<rparr>)"
  using assms unfolding delete_agent_def
proof (cases rule: procedure_cases)
  case (2 cl)
  obtain y st1 where s1: "set_agent cl i (ag_status_update (\<lambda>_. status_deleted)) st = (y, st1)"
    using prod.exhaust by blast
  then have "(\<exists>e. y = Inl e \<and> st1 = st) \<or> y = Inr ()" by (auto simp: set_agent_def split: if_splits)
  then show ?thesis
  proof
    assume "\<exists>e. y = Inl e \<and> st1 = st"
    with 2(2) s1 have "st' = st" by (auto simp: Let_def split: if_splits)
    then show ?thesis by (rule that(1))
  next
    assume "y = Inr ()"
    with s1 have s1: "set_agent cl i (ag_status_update (\<lambda>_. status_deleted)) st = (Inr (), st1)" by simp
    show ?thesis
    proof (cases "st' = st")
      case False
      have "st' = st1 \<or> (\<exists>cids. st' = st1\<lparr>co_tables := revoke_cids (cl_customerId cl) cids (co_tables st1)\<rparr> \<or>
         st' = st1\<lparr>co_tables := revoke_keys (cl_customerId cl) i now (co_tables st1)\<rparr> \<or>
         st' = st1\<lparr>co_tables := revoke_keys (cl_customerId cl) i now (revoke_cids (cl_customerId cl) cids (co_tables st1))\<rparr>)"
        using 2(2) False unfolding s1 by (auto simp: Let_def split: if_splits)
      with 2(1) s1 show ?thesis by (rule that(2))
    qed (rule that(1))
  qed
qed (rule that(1))

lemma delete_agent_moves:
  assumes run: "delete_agent fails cx now i st = (n, st')" and c: "cx_membership cx = Some (c, role)"
  shows "moves c st st'"
  using run
proof (cases rule: delete_agent_stages)
  case (2 cl st1)
  have cl: "cl_customerId cl = c" using permission_customer [OF 2(1)] c by simp
  have m1: "moves c st st1" using set_agent_moves [OF 2(2) cl] by simp
  have "moves c st1 (st1\<lparr>co_tables := revoke_cids c cids (co_tables st1)\<rparr>)"
    "moves c st1 (st1\<lparr>co_tables := revoke_keys c i now (co_tables st1)\<rparr>)"
    "moves c st1 (st1\<lparr>co_tables := revoke_keys c i now (revoke_cids c cids (co_tables st1))\<rparr>)" for cids
    by (simp_all add: moves_tables revoke_keys_view revoke_cids_view)
  with m1 2(3) moves_trans show ?thesis unfolding cl by metis
qed simp

lemma mint_ucan_moves:
  assumes run: "mint_ucan E sg cx now m st = (r, st')" and c: "cx_membership cx = Some (c, role)"
  shows "moves c st st'"
  using run unfolding mint_ucan_def
proof (cases rule: procedure_cases)
  case (2 cl)
  have cl: "cl_customerId cl = c" using permission_customer [OF 2(1)] c by simp
  obtain y tb where m: "mintUcan E sg now (console_mint_input c m) (co_tables st) = (y, tb)" using prod.exhaust by blast
  have "moves c st (st\<lparr>co_tables := tb\<rparr>)"
    by (rule moves_tables) (simp add: mint_view [OF m] console_mint_input_def)
  then show ?thesis
    using 2(2) m by (auto simp: cl split: if_splits sum.splits)
qed simp

text \<open>The decisions of stepup.ts.\<close>

lemma approval_update_view:
  assumes "distinct (map pa_id (db_approvals db))" "r \<in> set (db_approvals db)" "pa_customerId r = c" "d \<noteq> c"
    "\<And>x. P x \<Longrightarrow> pa_id x = pa_id r" "\<And>x. pa_customerId (f x) = pa_customerId x"
  shows "core_view d (db\<lparr>db_approvals := update_rows P f (db_approvals db)\<rparr>) = core_view d db"
proof -
  have "pa_customerId x = c" if "x \<in> set (db_approvals db)" "P x" for x
    using same_key [OF assms(1) that(1) assms(2) assms(5) [OF that(2)]] assms(3) by simp
  then have "filter (\<lambda>p. pa_customerId p = d) (update_rows P f (db_approvals db)) = filter (\<lambda>p. pa_customerId p = d) (db_approvals db)"
    using assms(4,6) by (intro filter_update_rows) simp
  then show ?thesis by (simp add: core_view_def)
qed

lemma mintCosigner_view:
  assumes "mintCosignerForApproval E sk did now inp db = (Inr job, db')" "distinct (map pa_id (db_approvals db))"
    "d \<noteq> mc_customerId inp"
  shows "core_view d db' = core_view d db"
proof -
  from assms(1) obtain r where r: "getStepUpForCustomer db (mc_customerId inp) (mc_approvalId inp) = Some r"
    and job: "mj_input job = inp" and db': "db' = mint_end job db"
    by (auto simp: mintCosignerForApproval_def mint_begin_def split: option.splits if_splits sum.splits)
  from r have "r \<in> set (db_approvals db)" "pa_customerId r = mc_customerId inp" "pa_id r = mc_approvalId inp"
    by (auto simp: getStepUpForCustomer_def find_Some_iff)
  then show ?thesis
    unfolding db' mint_end_def using assms(2,3) by (intro approval_update_view [where r = r]) (simp_all add: job approve_row_def)
qed

lemma deny_view: "denyApproval now i c user db = (ok, db') \<Longrightarrow> d \<noteq> c \<Longrightarrow> core_view d db' = core_view d db"
  by (auto simp: denyApproval_def core_view_def deniable_def deny_row_def intro!: filter_update_rows)

lemma approve_writes_view:
  "approve_writes fails now ids c user inp jwt db = (r, db') \<Longrightarrow> d \<noteq> c \<Longrightarrow> core_view d db' = core_view d db"
proof -
  assume run: "approve_writes fails now ids c user inp jwt db = (r, db')" and d: "d \<noteq> c"
  have p: "core_view d (persist_policy i c user ra pick x) = core_view d x" for i ra pick x
    using d by (simp add: core_view_def persist_policy_def)
  have g: "core_view d (upsertGrant i now (remembered_grant c user ra scope e t) x) = core_view d x" for i ra scope e t x
    using d by (intro upsertGrant_view [where c = c]) (simp_all add: remembered_grant_def)
  from run show ?thesis by (auto simp: approve_writes_def Let_def p g split: if_splits option.splits)
qed

lemma deny_writes_view:
  "deny_writes fails now newId c user i remember scope db = (r, db') \<Longrightarrow> d \<noteq> c \<Longrightarrow> core_view d db' = core_view d db"
  by (auto simp: deny_writes_def remembered_grant_def intro!: upsertGrant_view split: if_splits option.splits)

lemma put_core_moves:
  "(\<And>d. d \<noteq> c \<Longrightarrow> core_view d db = core_view d (tb_core (co_tables st))) \<Longrightarrow> moves c st (put_core db st)"
  by (simp add: moves_def tenant_view_def table_view_def put_core_def)

lemma approved_view:
  assumes "mintCosignerForApproval E sk did now inp db = (Inr job, db1)" "approve_writes fails t ids c user inp' jwt db1 = (r, db2)"
    "distinct (map pa_id (db_approvals db))" "mc_customerId inp = c" "d \<noteq> c"
  shows "core_view d db2 = core_view d db"
  using mintCosigner_view [OF assms(1,3)] approve_writes_view [OF assms(2,5)] assms(4,5) by simp

lemma denied_view:
  "denyApproval now i c user db = (ok, db1) \<Longrightarrow> deny_writes fails t newId c user i remember scope db1 = (r, db2) \<Longrightarrow>
     d \<noteq> c \<Longrightarrow> core_view d db2 = core_view d db"
  using deny_view deny_writes_view by metis

lemma approve_moves:
  assumes run: "approve_stepup E sg fails cx now ids asserted inp st = (a, st')" and c: "cx_membership cx = Some (c, role)"
    and ok: "stores_ok st"
  shows "moves c st st'"
  using run unfolding approve_stepup_def
  by (rule procedure_moves [OF _ c])
    (use ok in \<open>auto simp: stores_ok_def split: if_splits prod.splits sum.splits intro!: put_core_moves intro: approved_view\<close>)

lemma deny_moves:
  assumes run: "deny_stepup fails cx now newId i remember scope st = (a, st')" and c: "cx_membership cx = Some (c, role)"
  shows "moves c st st'"
  using run unfolding deny_stepup_def
  by (rule procedure_moves [OF _ c])
    (auto dest: deny_view split: if_splits prod.splits intro!: put_core_moves intro: denied_view)

text \<open>The mutations of oauth.ts.\<close>

lemma moves_connections:
  "(\<And>d. d \<noteq> c \<Longrightarrow> filter (\<lambda>r. oc_customerId r = d) (f (tb_oauthConnections (co_tables st))) =
      filter (\<lambda>r. oc_customerId r = d) (tb_oauthConnections (co_tables st))) \<Longrightarrow> moves c st (console_connections f st)"
  by (simp add: moves_def view_defs console_connections_def)

lemma column_update_view:
  assumes "distinct (map oc_id rows)" "r \<in> set rows" "oc_customerId r = c" "d \<noteq> c"
  shows "filter (\<lambda>x. oc_customerId x = d) (update_rows (\<lambda>x. oc_id x = oc_id r) (set_columns cols) rows) =
    filter (\<lambda>x. oc_customerId x = d) rows"
  using same_key [OF assms(1) _ assms(2)] assms(3,4) by (intro filter_update_rows) auto

lemma refreshed_view:
  assumes "refreshConnection D now nonces c i rows = (res, rows')" "distinct (map oc_id rows)" "d \<noteq> c"
  shows "filter (\<lambda>r. oc_customerId r = d) rows' = filter (\<lambda>r. oc_customerId r = d) rows"
proof (cases "rows' = rows")
  case False
  with assms(1) obtain stored connector creds tokens where l: "refresh_load D c i rows = Inr (stored, connector, creds)"
    and u: "\<exists>res. updateConnectionTokens (od_env D) (od_key D) nonces (sc_id stored) tokens rows = (res, rows')"
    by (rule refreshConnection_rows)
  from l obtain r where r: "r \<in> set rows" "oc_id r = i" "oc_customerId r = c" "sc_id stored = i"
    by (rule refresh_load_Inr)
  from u r(4) updateConnectionTokens_rows [OF _ assms(2)] False obtain cols where
    "rows' = update_rows (\<lambda>x. oc_id x = i) (set_columns cols) rows" by blast
  with column_update_view [OF assms(2) r(1,3) assms(3)] r(2) show ?thesis by simp
qed simp

lemma saved_view:
  assumes "saveConnection E key nonces newId c k t rows = (res, rows')" "distinct (map oc_id rows)" "d \<noteq> c"
  shows "filter (\<lambda>r. oc_customerId r = d) rows' = filter (\<lambda>r. oc_customerId r = d) rows"
proof (cases "tokensToRow E key nonces t c k")
  case (Inr cols)
  show ?thesis
  proof (cases "save_find c k (ot_accountId t) rows")
    case None
    with assms Inr show ?thesis by (auto simp: saveConnection_def save_write_def Let_def split: if_splits)
  next
    case (Some r)
    then have r: "r \<in> set rows" "oc_customerId r = c" by (auto simp: save_find_def find_Some_iff)
    from assms(1) Inr Some have "rows' = rows \<or> rows' = update_rows (\<lambda>y. oc_id y = oc_id r) (set_columns cols) rows"
      by (auto simp: saveConnection_def save_write_def update_returning_def split: if_splits option.splits)
    with column_update_view [OF assms(2) r assms(3)] show ?thesis by auto
  qed
qed (use assms in \<open>auto simp: saveConnection_def\<close>)

lemma oauth_moves:
  assumes c: "cx_membership cx = Some (c, role)" and ok: "stores_ok st"
  shows "disconnect cx i st = (a, st') \<Longrightarrow> moves c st st'"
    "refresh_connection bridge cx now nonces i st = (b, st') \<Longrightarrow> moves c st st'"
    "addManual bridge cx nonces newId man st = (s, st') \<Longrightarrow> moves c st st'"
  subgoal unfolding disconnect_def
    by (erule procedure_moves [OF _ c]) (auto simp: Let_def simp del: filter_filter split: if_splits
      intro!: moves_connections filter_delete)
  subgoal unfolding refresh_connection_def
    by (erule procedure_moves [OF _ c]) (use ok in \<open>auto simp: stores_ok_def split: if_splits option.splits prod.splits
      intro!: moves_connections dest: refreshed_view\<close>)
  subgoal unfolding addManual_def
    by (erule procedure_moves [OF _ c]) (use ok in \<open>auto simp: stores_ok_def split: if_splits option.splits prod.splits
      intro!: moves_connections dest: saved_view\<close>)
  done

lemma member_call_moves:
  assumes ok: "console_ok st" and stores: "stores_ok st" and call: "member_call D cx st st'" and c: "cx_membership cx = Some (c, role)"
  shows "moves c st st'"
proof -
  from call show ?thesis
  proof cases
    case (call_changeRole i r a)
    from this(1) show ?thesis
      unfolding changeRole_def
      by (rule procedure_moves [OF _ c]) (auto intro: changeRole_moves split: sum.splits)
  next
    case (call_remove i a)
    from this(1) show ?thesis
      unfolding remove_member_def
      by (rule procedure_moves [OF _ c]) (auto intro: remove_moves [OF ok sym] split: sum.splits)
  next
    case (call_create_invite now newId token email r a)
    from this(1) show ?thesis
      unfolding create_invite_def
      by (rule procedure_moves [OF _ c]) (auto split: if_splits intro!: moves_invites)
  next
    case (call_revoke_invite now i a)
    from this(1) show ?thesis
      unfolding revoke_invite_def
      by (rule procedure_moves [OF _ c]) (auto simp: revocable_invite_def split: if_splits
        intro!: moves_invites filter_update_rows)
  next
    case (call_approveConnection stamp i a)
    from this(1) show ?thesis
      unfolding approveConnection_def
      by (rule procedure_moves [OF _ c]) (auto intro: set_agent_moves split: if_splits)
  next
    case (call_denyConnection i a)
    from this(1) show ?thesis
      unfolding denyConnection_def
      by (rule procedure_moves [OF _ c]) (auto intro: set_agent_moves split: if_splits)
  next
    case (call_update_agent i name status a)
    from this(1) show ?thesis
      unfolding update_agent_def
      by (rule procedure_moves [OF _ c]) (auto intro: set_agent_moves split: if_splits)
  next
    case (call_setMode i mode a)
    from this(1) show ?thesis
      unfolding setMode_def
      by (rule procedure_moves [OF _ c]) (auto intro: set_agent_moves split: if_splits)
  next
    case (call_assignPolicies i ps n)
    from this(1) show ?thesis
      unfolding assignPolicies_def
      by (rule procedure_moves [OF _ c]) (auto simp: assign_view split: if_splits intro!: set_mappings_moves)
  next
    case (call_unassignPolicy i p a)
    from this(1) show ?thesis
      unfolding unassignPolicy_def
      by (rule procedure_moves [OF _ c]) (auto simp: mapping_of_def simp del: filter_filter split: if_splits
        intro!: set_mappings_moves filter_delete)
  next
    case (call_assignAgents p agents n)
    from this(1) show ?thesis
      unfolding assignAgents_def
      by (rule procedure_moves [OF _ c]) (auto simp: assign_view split: if_splits intro!: set_mappings_moves)
  next
    case (call_create_key newId secret i name role' k)
    from this(1) show ?thesis
      unfolding create_key_def
      by (rule procedure_moves [OF _ c]) (auto simp: Let_def split: if_splits intro!: set_keys_moves)
  next
    case (call_update_key_role i r a)
    then show ?thesis by (auto simp: update_key_role_def intro: update_key_moves [OF _ c])
  next
    case (call_revoke_key now i a)
    then show ?thesis by (auto simp: revoke_key_def intro: update_key_moves [OF _ c])
  next
    case (call_revoke_ucan cid reason b)
    from this(1) show ?thesis
      unfolding revoke_ucan_def
      by (rule procedure_moves [OF _ c]) (auto simp: revoke_cids_view split: if_splits intro!: moves_tables)
  next
    case (call_upsert_policy newId p name cedarText integrationId k)
    from this(1) show ?thesis
      unfolding upsert_policy_def
      by (rule procedure_moves [OF _ c]) (auto split: if_splits option.splits
        intro!: set_policies_moves filter_update_rows)
  next
    case (call_toggle_grant newId now i a)
    from this(1) show ?thesis
      unfolding toggle_grant_def
      by (rule procedure_moves [OF _ c])
        (auto simp: table_view_def dest: toggleGrant_view split: if_splits option.splits intro!: moves_tables)
  next
    case (call_revoke_grant now i a)
    from this(1) show ?thesis
      unfolding revoke_grant_def
      by (rule procedure_moves [OF _ c]) (auto simp: table_view_def split: if_splits prod.splits
        intro!: moves_tables dest!: revokeGrant_view)
  next
    case (call_revoke_envelope now i a)
    from this(1) show ?thesis
      unfolding revoke_envelope_def
      by (rule procedure_moves [OF _ c]) (auto dest!: revokeEnvelope_view split: if_splits prod.splits
        intro!: moves_tables)
  qed (use c ok in \<open>auto intro: create_swarm_moves attachChild_moves chain_approval_moves create_agent_moves
         delete_agent_moves mint_ucan_moves approve_moves deny_moves oauth_moves stores\<close>)
qed

subsection \<open>What the steps keep\<close>

text \<open>Most calls leave the memberships, the invites and the identities of the agents alone, and no key is doubled.\<close>

definition quiet :: "Console \<Rightarrow> Console \<Rightarrow> bool" where
  "quiet st st' \<longleftrightarrow>
     co_memberships st' = co_memberships st \<and> co_invites st' = co_invites st \<and>
     map ag_id (console_agents st') = map ag_id (console_agents st) \<and> (stores_ok st \<longrightarrow> stores_ok st')"

lemma stores_kept [simp]:
  "stores_ok (update_agents P f st) = stores_ok st" "stores_ok (set_mappings g st) = stores_ok st"
  "stores_ok (set_policies h st) = stores_ok st" "stores_ok (set_keys k st) = stores_ok st"
  "stores_ok (st\<lparr>co_memberships := ms\<rparr>) = stores_ok st" "stores_ok (st\<lparr>co_invites := is\<rparr>) = stores_ok st"
  "stores_ok (st\<lparr>co_swarms := ss\<rparr>) = stores_ok st" "stores_ok (st\<lparr>co_users := us\<rparr>) = stores_ok st"
  "stores_ok (st\<lparr>co_chainApprovals := cs\<rparr>) = stores_ok st"
  by (simp_all add: stores_ok_def update_agents_def set_mappings_def set_policies_def set_keys_def)

lemma quiet_refl [simp]: "quiet st st" by (simp add: quiet_def)

lemma quiet_ok: "quiet st st' \<Longrightarrow> console_ok st \<Longrightarrow> console_ok st'"
  by (simp add: quiet_def console_ok_def)

lemma procedure_quiet:
  "procedure r a cx body st = (x, st') \<Longrightarrow> (\<And>cl. body cl st = (x, st') \<Longrightarrow> quiet st st') \<Longrightarrow> quiet st st'"
  by (erule procedure_cases) auto

lemma update_agents_quiet: "(\<And>a. ag_id (f a) = ag_id a) \<Longrightarrow> quiet st (update_agents P f st)"
  by (simp add: quiet_def map_update_rows)

lemma set_agent_quiet: "set_agent cl i f st = (x, st') \<Longrightarrow> (\<And>a. ag_id (f a) = ag_id a) \<Longrightarrow> quiet st st'"
  by (auto simp: set_agent_def split: if_splits intro!: update_agents_quiet)

lemma quiet_setters [simp]:
  "quiet st (set_mappings g st)" "quiet st (set_policies h st)" "quiet st (set_keys k st)"
  unfolding quiet_def by (simp_all, simp_all add: set_mappings_def set_policies_def set_keys_def console_agents_def)

lemma quiet_tables:
  "db_agents (tb_core tb) = db_agents (tb_core (co_tables st)) \<Longrightarrow>
   db_approvals (tb_core tb) = db_approvals (tb_core (co_tables st)) \<Longrightarrow>
   tb_oauthConnections tb = tb_oauthConnections (co_tables st) \<Longrightarrow> quiet st (st\<lparr>co_tables := tb\<rparr>)"
  by (simp add: quiet_def console_agents_def stores_ok_def)

lemma revoke_agents [simp]:
  "db_agents (tb_core (revoke_cids c cids tb)) = db_agents (tb_core tb)" "tb_core (revoke_keys c i now tb) = tb_core tb"
  "db_approvals (tb_core (revoke_cids c cids tb)) = db_approvals (tb_core tb)"
  "tb_oauthConnections (revoke_cids c cids tb) = tb_oauthConnections tb"
  "tb_oauthConnections (revoke_keys c i now tb) = tb_oauthConnections tb"
  by (simp_all add: revoke_cids_def revoke_keys_def)

lemma grant_agents:
  "toggleGrant newId now c i user db = Some db' \<Longrightarrow> db_agents db' = db_agents db \<and> db_approvals db' = db_approvals db"
  "revokeGrant now c i user db = (ok, db') \<Longrightarrow> db_agents db' = db_agents db \<and> db_approvals db' = db_approvals db"
  by (auto simp: toggleGrant_def upsertGrant_def revokeGrant_def split: option.splits if_splits)

lemma envelope_core:
  "revokeEnvelope c i now tb = (e, tb') \<Longrightarrow> tb_core tb' = tb_core tb \<and> tb_oauthConnections tb' = tb_oauthConnections tb"
  by (auto simp: revokeEnvelope_def)

lemma console_agents_same [simp]: "console_agents (st\<lparr>co_swarms := ss\<rparr>) = console_agents st"
  by (simp add: console_agents_def)

lemma create_swarm_quiet: "create_swarm fails cx newId name root maxDepth st = (a, st') \<Longrightarrow> quiet st st'"
  unfolding create_swarm_def
  by (erule procedure_quiet)
    (auto simp: quiet_def Let_def map_update_rows console_agents_same split: if_splits option.splits)

lemma attachChild_quiet: "attachChild cx swarm agent parent st = (a, st') \<Longrightarrow> quiet st st'"
  unfolding attachChild_def
  by (erule procedure_quiet) (auto simp: attached_def split: if_splits option.splits intro!: update_agents_quiet)

lemma chain_approval_quiet:
  "create_chain_approval cx now newId root swarm scope ttl st = Some (a, st') \<Longrightarrow> quiet st st'"
  by (auto simp: create_chain_approval_def quiet_def console_agents_def Let_def bind_eq_Some_conv
      split: sum.splits if_splits option.splits)

lemma delete_agent_quiet:
  assumes "delete_agent fails cx now i st = (n, st')" shows "quiet st st'"
  using assms
proof (cases rule: delete_agent_stages)
  case (2 cl st1)
  have "quiet st st1" using set_agent_quiet [OF 2(2)] by simp
  then show ?thesis using 2(3) by (auto simp: quiet_def console_agents_def stores_ok_def)
qed simp

lemma mint_ucan_quiet: "mint_ucan E sg cx now m st = (r, st') \<Longrightarrow> quiet st st'"
  unfolding mint_ucan_def
  by (erule procedure_quiet) (auto dest!: mint_core split: if_splits prod.splits sum.splits intro!: quiet_tables)

lemma upsert_policy_quiet: "upsert_policy E C known cx newId p name t g st = (k, st') \<Longrightarrow> quiet st st'"
  unfolding upsert_policy_def by (erule procedure_quiet) (auto split: if_splits option.splits)

lemma grants_quiet:
  "toggle_grant cx newId now i st = (a, st') \<Longrightarrow> quiet st st'" "revoke_grant cx now i st = (a, st') \<Longrightarrow> quiet st st'"
  "revoke_envelope cx now i st = (b, st') \<Longrightarrow> quiet st st'" "revoke_ucan cx cid reason st = (d, st') \<Longrightarrow> quiet st st'"
  unfolding toggle_grant_def revoke_grant_def revoke_envelope_def revoke_ucan_def
  by (erule procedure_quiet,
      auto dest!: grant_agents envelope_core split: if_splits option.splits prod.splits intro!: quiet_tables)+

lemma agent_settings_quiet:
  "approveConnection cx stamp i st = (a, st') \<Longrightarrow> quiet st st'" "denyConnection cx i st = (a, st') \<Longrightarrow> quiet st st'"
  "update_agent cx i name status st = (a, st') \<Longrightarrow> quiet st st'" "setMode cx i mode st = (a, st') \<Longrightarrow> quiet st st'"
  unfolding approveConnection_def denyConnection_def update_agent_def setMode_def
  by (erule procedure_quiet, auto split: if_splits intro: set_agent_quiet)+

lemma mappings_quiet:
  "assignPolicies cx i ps st = (n, st') \<Longrightarrow> quiet st st'" "unassignPolicy cx i p st = (a, st') \<Longrightarrow> quiet st st'"
  "assignAgents cx p is st = (n, st') \<Longrightarrow> quiet st st'"
  unfolding assignPolicies_def unassignPolicy_def assignAgents_def
  by (erule procedure_quiet, auto split: if_splits)+

lemma keys_quiet:
  "create_key E cx newId secret i name role st = (k, st') \<Longrightarrow> quiet st st'"
  "update_key_role cx i r st = (a, st') \<Longrightarrow> quiet st st'" "revoke_key cx now i st = (a, st') \<Longrightarrow> quiet st st'"
  unfolding create_key_def update_key_role_def revoke_key_def update_key_def
  by (erule procedure_quiet, auto simp: Let_def split: if_splits)+

lemma put_core_quiet:
  "db_agents db = db_agents (tb_core (co_tables st)) \<Longrightarrow>
   map pa_id (db_approvals db) = map pa_id (db_approvals (tb_core (co_tables st))) \<Longrightarrow> quiet st (put_core db st)"
  by (simp add: quiet_def console_agents_def stores_ok_def put_core_def)

lemma decision_writes_keep:
  "approve_writes fails now ids c user inp jwt db = (r, db') \<Longrightarrow> db_agents db' = db_agents db \<and> db_approvals db' = db_approvals db"
  "deny_writes fails now newId c user i remember scope db = (b, db') \<Longrightarrow> db_agents db' = db_agents db \<and> db_approvals db' = db_approvals db"
  by (auto simp: approve_writes_def deny_writes_def persist_policy_def upsertGrant_def Let_def split: if_splits option.splits)

lemma decision_keys:
  "mintCosignerForApproval E sk did now inp db = (j, db') \<Longrightarrow>
     db_agents db' = db_agents db \<and> map pa_id (db_approvals db') = map pa_id (db_approvals db)"
  "denyApproval now i c user db = (ok, db') \<Longrightarrow>
     db_agents db' = db_agents db \<and> map pa_id (db_approvals db') = map pa_id (db_approvals db)"
  by (auto simp: mintCosignerForApproval_def mint_end_def denyApproval_def map_update_rows approve_row_def deny_row_def
      split: sum.splits)

lemma decisions_quiet:
  "approve_stepup E sg fails cx now ids asserted inp st = (a, st') \<Longrightarrow> quiet st st'"
  "deny_stepup fails cx now newId i remember scope st = (b, st') \<Longrightarrow> quiet st st'"
  unfolding approve_stepup_def deny_stepup_def
  by (erule procedure_quiet, auto dest!: decision_writes_keep decision_keys split: if_splits prod.splits sum.splits
      intro!: put_core_quiet)+

lemma connections_quiet:
  "(distinct (map oc_id (tb_oauthConnections (co_tables st))) \<Longrightarrow> distinct (map oc_id (f (tb_oauthConnections (co_tables st))))) \<Longrightarrow>
     quiet st (console_connections f st)"
  by (simp add: quiet_def console_agents_def stores_ok_def console_connections_def)

lemma refreshed_ids:
  assumes "refreshConnection D now nonces c i rows = (res, rows')" "distinct (map oc_id rows)"
  shows "distinct (map oc_id rows')"
proof (cases "rows' = rows")
  case False
  with assms(1) obtain stored :: StoredConnection and connector :: Connector and creds :: "string \<times> string" and tokens where
    "refresh_load D c i rows = Inr (stored, connector, creds)"
    "\<exists>res. updateConnectionTokens (od_env D) (od_key D) nonces (sc_id stored) tokens rows = (res, rows')"
    by (rule refreshConnection_rows) blast
  with updateConnectionTokens_rows [OF _ assms(2)] False obtain cols where
    "rows' = update_rows (\<lambda>x. oc_id x = sc_id stored) (set_columns cols) rows" by blast
  then show ?thesis using assms(2) by (simp add: map_update_rows)
qed (use assms(2) in simp)

lemma saved_ids:
  assumes "saveConnection E key nonces newId c k t rows = (res, rows')" "distinct (map oc_id rows)" "newId \<notin> oc_id ` set rows"
  shows "distinct (map oc_id rows')"
  using assms by (auto simp: saveConnection_def save_write_def update_returning_def Let_def map_update_rows
      split: sum.splits option.splits if_splits)

lemma oauth_quiet:
  "disconnect cx i st = (a, st') \<Longrightarrow> quiet st st'"
  "refresh_connection bridge cx now nonces i st = (b, st') \<Longrightarrow> quiet st st'"
  "addManual bridge cx nonces newId man st = (s, st') \<Longrightarrow> newId \<notin> oc_id ` set (tb_oauthConnections (co_tables st)) \<Longrightarrow> quiet st st'"
  subgoal unfolding disconnect_def
    by (erule procedure_quiet) (auto simp: Let_def distinct_map_filter split: if_splits intro!: connections_quiet)
  subgoal unfolding refresh_connection_def
    by (erule procedure_quiet) (auto split: if_splits option.splits prod.splits intro!: connections_quiet dest: refreshed_ids)
  subgoal unfolding addManual_def
    by (erule procedure_quiet) (auto split: if_splits option.splits prod.splits intro!: connections_quiet dest: saved_ids)
  done

lemmas quiet_calls = decisions_quiet oauth_quiet create_swarm_quiet attachChild_quiet chain_approval_quiet delete_agent_quiet mint_ucan_quiet
  upsert_policy_quiet grants_quiet agent_settings_quiet mappings_quiet keys_quiet

text \<open>The other calls.\<close>

lemma member_call_effects:
  assumes "member_call D cx st st'"
  obtains "quiet st st'"
  | i role a where "changeRole cx i role st = (a, st')"
  | i a where "remove_member cx i st = (a, st')"
  | now newId token email role a where "create_invite (cd_env D) (cd_isEmail D) cx now newId token email role st = (a, st')"
      "newId \<notin> iv_id ` set (co_invites st)" "sha256Hex (cd_env D) token \<notin> iv_tokenHash ` set (co_invites st)"
  | now i a where "revoke_invite cx now i st = (a, st')"
  | stamp newId seed nonce name requireApproval a where
      "create_agent (cd_env D) (cd_encryptionKey D) cx stamp newId seed nonce name requireApproval st = (a, st')"
      "newId \<notin> ag_id ` set (console_agents st)"
  using assms by cases (auto dest: quiet_calls)

end
