(* ===== verification/Tenancy_Properties.thy ===== *)
theory Tenancy_Properties
  imports Console_Steps
begin

text \<open>
  Tenant isolation of the dashboard API and the protection of an organisation's last owner, over every
  sequence of requests.
\<close>

subsection \<open>Whose organisation a request acts for\<close>

lemma membership_of_Some:
  "membership_of st u c = Some m \<Longrightarrow> m \<in> set (co_memberships st) \<and> mb_userId m = u \<and> mb_customerId m = c"
  by (auto simp: membership_of_def find_Some_iff)

lemma owner_or_first_in: "owner_or_first ms = Some m \<Longrightarrow> m \<in> set ms"
  by (auto simp: owner_or_first_def find_Some_iff split: option.splits list.splits)

lemma bind_membership:
  "Option.bind x (membership_of st u) = Some m \<Longrightarrow> m \<in> set (co_memberships st) \<and> mb_userId m = u"
  by (cases x) (auto dest: membership_of_Some)

lemma resolve_membership_in:
  "resolve_membership st u cookie = Some m \<Longrightarrow> m \<in> set (co_memberships st) \<and> mb_userId m = u"
  by (auto simp: resolve_membership_def dest: bind_membership owner_or_first_in split: option.splits)

lemma context_membership:
  assumes "cx_membership (createContext st session cookie) = Some (c, role)"
  obtains u m where "session = Some u" "m \<in> set (co_memberships st)" "mb_userId m = su_id u" "mb_customerId m = c"
    "mb_role m = role" "cx_user (createContext st session cookie) = Some u"
  using assms by (auto simp: createContext_def dest: resolve_membership_in split: option.splits)

text \<open>A procedure of the dashboard API runs only for a signed-in user, under a customer and a role that one of
the user's own membership rows holds at that time, and only if the role has the permission of the procedure. Neither
the organisation cookie nor the stored active organisation can name another customer.\<close>

theorem caller_is_member:
  assumes "withPermission resource action (createContext st session cookie) = Inr cl"
  shows "\<exists>m \<in> set (co_memberships st).
    session = Some (cl_user cl) \<and> mb_userId m = su_id (cl_user cl) \<and> mb_customerId m = cl_customerId cl \<and>
    mb_role m = cl_role cl \<and> hasPermission (mb_role m) resource action"
proof -
  have c: "cx_membership (createContext st session cookie) = Some (cl_customerId cl, cl_role cl)"
    and u: "cx_user (createContext st session cookie) = Some (cl_user cl)"
    and perm: "hasPermission (cl_role cl) resource action"
    using assms permission_customer [OF assms] by (auto simp: withPermission_def rbind_Inr_iff split: if_splits)
  from c show ?thesis by (rule context_membership) (use u perm in auto)
qed

theorem caller_is_member_witness:
  "\<exists>m \<in> set (co_memberships demo_console).
     Some demo_session = Some (cl_user demo_caller) \<and> mb_userId m = su_id (cl_user demo_caller) \<and>
     mb_customerId m = cl_customerId demo_caller \<and> mb_role m = cl_role demo_caller \<and>
     hasPermission (mb_role m) R_members A_update"
  using caller_is_member [OF demo_permission] .

subsection \<open>The keys and indexes of the tables\<close>

lemma changeRole_ok: "changeRole cx i role st = (a, st') \<Longrightarrow> console_ok st \<Longrightarrow> console_ok st'"
  unfolding changeRole_def
  by (erule procedure_cases)
    (auto simp: console_ok_def console_agents_def changeRole_update_def map_update_rows split: sum.splits)

lemma remove_ok: "remove_member cx i st = (a, st') \<Longrightarrow> console_ok st \<Longrightarrow> console_ok st'"
  unfolding remove_member_def
  by (erule procedure_cases)
    (auto simp: console_ok_def console_agents_def remove_delete_def distinct_map_filter split: sum.splits)

lemma create_invite_ok:
  "create_invite E em cx now newId token email role st = (a, st') \<Longrightarrow> newId \<notin> iv_id ` set (co_invites st) \<Longrightarrow>
     sha256Hex E token \<notin> iv_tokenHash ` set (co_invites st) \<Longrightarrow> console_ok st \<Longrightarrow> console_ok st'"
  unfolding create_invite_def
  by (erule procedure_cases)
    (auto simp: console_ok_def console_agents_def acceptableRoleForInvite_def split: if_splits)

lemma revoke_invite_ok: "revoke_invite cx now i st = (a, st') \<Longrightarrow> console_ok st \<Longrightarrow> console_ok st'"
  unfolding revoke_invite_def
  by (erule procedure_cases)
    (auto simp: console_ok_def console_agents_def map_update_rows set_update_rows split: if_splits)

lemma create_agent_ok:
  "create_agent E k cx stamp newId seed nonce name requireApproval st = (a, st') \<Longrightarrow>
     newId \<notin> ag_id ` set (console_agents st) \<Longrightarrow> console_ok st \<Longrightarrow> console_ok st'"
  unfolding create_agent_def
  by (erule procedure_cases)
    (auto simp: console_ok_def console_agents_def new_agent_def split: option.splits sum.splits if_splits)

lemma switch_ok: "switch_organization cx c st = (a, st') \<Longrightarrow> console_ok st \<Longrightarrow> console_ok st'"
  by (auto simp: switch_organization_def console_ok_def console_agents_def split: if_splits option.splits)

subsection \<open>Accepting an invite\<close>

definition joined :: "string \<Rightarrow> SessionUser \<Rightarrow> InviteRow \<Rightarrow> MembershipRow list \<Rightarrow> bool \<Rightarrow> MembershipRow list" where
  "joined newId u i ms fresh =
     (if fresh then ms @ [\<lparr>mb_id = newId, mb_userId = su_id u, mb_customerId = iv_customerId i, mb_role = iv_role i\<rparr>] else ms)"

definition marked :: "bool \<Rightarrow> int \<Rightarrow> InviteRow \<Rightarrow> InviteRow list \<Rightarrow> InviteRow list" where
  "marked m now i is = (if m then update_rows (\<lambda>j. iv_id j = iv_id i) (iv_acceptedAt_update (\<lambda>_. Some now)) is else is)"

text \<open>An accepting request changes nothing, or runs to its end, or is interrupted after the membership or after
  the invite.\<close>

lemma accept_cases:
  assumes "accept_invite E fails cx now newId token st = (a, st')"
  obtains "st' = st" "\<And>c r. a \<noteq> Inr (Joined c r)"
  | u i where "cx_user cx = Some u" "i \<in> set (co_invites st)" "iv_tokenHash i = sha256Hex E token"
      "iv_acceptedAt i = None" "iv_revokedAt i = None" "now \<le> iv_expiresAt i"
      "toLowerCase (su_email u) = toLowerCase (iv_email i)" "a = Inr (Joined (iv_customerId i) (iv_role i))"
      "token \<noteq> []" "utf16_length token \<le> 200"
      "st' = st\<lparr>co_memberships := joined newId u i (co_memberships st) (membership_of st (su_id u) (iv_customerId i) = None),
                co_invites := marked True now i (co_invites st),
                co_users := update_rows (\<lambda>r. ur_id r = su_id u)
                  (ur_activeCustomerId_update (\<lambda>_. Some (iv_customerId i))) (co_users st)\<rparr>"
  | u i m where "cx_user cx = Some u" "i \<in> set (co_invites st)" "iv_tokenHash i = sha256Hex E token"
      "iv_acceptedAt i = None" "iv_revokedAt i = None" "now \<le> iv_expiresAt i"
      "toLowerCase (su_email u) = toLowerCase (iv_email i)" "a = Inl INTERNAL_SERVER_ERROR"
      "st' = st\<lparr>co_memberships := joined newId u i (co_memberships st) (membership_of st (su_id u) (iv_customerId i) = None),
                co_invites := marked m now i (co_invites st), co_users := co_users st\<rparr>"
proof (cases "List.find (\<lambda>i. iv_tokenHash i = sha256Hex E token) (co_invites st)")
  case None
  then show ?thesis using assms that(1) by (auto simp: accept_invite_def split: if_splits)
next
  case (Some i)
  then have i: "i \<in> set (co_invites st)" "iv_tokenHash i = sha256Hex E token" by (auto simp: find_Some_iff)
  show ?thesis
  proof (cases "token = [] \<or> utf16_length token > 200 \<or> iv_acceptedAt i \<noteq> None \<or> iv_revokedAt i \<noteq> None \<or> iv_expiresAt i < now")
    case True
    then show ?thesis using assms Some by (intro that(1)) (auto simp: accept_invite_def split: if_splits)
  next
    case False
    show ?thesis
    proof (cases "cx_user cx")
      case None
      then show ?thesis using assms Some False by (intro that(1)) (auto simp: accept_invite_def)
    next
      case u: (Some u)
      show ?thesis
      proof (cases "toLowerCase (su_email u) = toLowerCase (iv_email i)")
        case True
        let ?ms = "joined newId u i (co_memberships st) (membership_of st (su_id u) (iv_customerId i) = None)"
        let ?st1 = "st\<lparr>co_memberships := ?ms, co_invites := co_invites st, co_users := co_users st\<rparr>"
        let ?st2 = "st\<lparr>co_memberships := ?ms, co_invites := marked True now i (co_invites st), co_users := co_users st\<rparr>"
        let ?st3 = "st\<lparr>co_memberships := ?ms, co_invites := marked True now i (co_invites st),
          co_users := update_rows (\<lambda>r. ur_id r = su_id u) (ur_activeCustomerId_update (\<lambda>_. Some (iv_customerId i))) (co_users st)\<rparr>"
        have run: "accept_writes fails now newId u i st = (a, st')"
          using assms Some False u True by (simp add: accept_invite_def)
        consider "st' = st" "a = Inl INTERNAL_SERVER_ERROR" | "st' = ?st1" "a = Inl INTERNAL_SERVER_ERROR"
          | "st' = ?st2" "a = Inl INTERNAL_SERVER_ERROR" | "st' = ?st3" "a = Inr (Joined (iv_customerId i) (iv_role i))"
          using run [unfolded accept_writes_def Let_def] unfolding joined_def marked_def
          by (auto split: if_splits)
        then show ?thesis
        proof cases
          case 1
          then show ?thesis by (intro that(1)) simp_all
        next
          case 2
          then show ?thesis using that(3) [OF u i, of False] False True by (simp add: marked_def)
        next
          case 3
          then show ?thesis using that(3) [OF u i, of True] False True by simp
        next
          case 4
          then show ?thesis using that(2) [OF u i] False True by simp
        qed
      qed (use assms Some False u in \<open>intro that(1); auto simp: accept_invite_def\<close>)
    qed
  qed
qed

lemma accept_ok:
  assumes "accept_invite E fails cx now newId token st = (a, st')" "newId \<notin> mb_id ` set (co_memberships st)" "console_ok st"
  shows "console_ok st'"
proof -
  have ok: "console_ok (st\<lparr>co_memberships := joined newId u i (co_memberships st) fresh, co_invites := marked m now i (co_invites st),
      co_users := us\<rparr>)" if "i \<in> set (co_invites st)" for u i fresh m us
    using assms(2,3) that
    by (auto simp: console_ok_def console_agents_def joined_def marked_def map_update_rows set_update_rows)
  from assms(1) show ?thesis
  proof (cases rule: accept_cases)
    case 1
    with assms(3) show ?thesis by simp
  next
    case (2 u i)
    show ?thesis unfolding 2(11) by (rule ok [OF 2(2)])
  next
    case (3 u i m)
    show ?thesis unfolding 3(9) by (rule ok [OF 3(2)])
  qed
qed


lemma console_step_ok:
  assumes "console_step D session st st'" "console_ok st" shows "console_ok st'"
  using assms(1)
proof cases
  case (member_step cookie)
  then show ?thesis
    by (rule member_call_effects)
      (use assms(2) in \<open>auto intro: quiet_ok changeRole_ok remove_ok create_invite_ok revoke_invite_ok create_agent_ok\<close>)
qed (use assms(2) in \<open>auto intro: accept_ok switch_ok\<close>)

lemma console_reachable_ok: "console_reachable D st0 st \<Longrightarrow> console_ok st0 \<Longrightarrow> console_ok st"
  by (induction rule: console_reachable.induct) (auto intro: console_step_ok)




subsection \<open>Isolation\<close>









lemma demo_console_ok: "console_ok demo_console"
  by (simp add: console_ok_def console_agents_def demo_console_def demo_console_tables_def demo_invite_def row_id_def)




subsection \<open>The last owner\<close>

lemma countOwners_quiet: "quiet st st' \<Longrightarrow> countOwners st' d = countOwners st d"
  by (simp add: quiet_def countOwners_def)

lemma single_update:
  assumes "distinct (map key rows)" "\<And>r. P r \<Longrightarrow> key r = k"
  shows "length (filter Q rows) \<le> length (filter Q (update_rows P f rows)) + 1"
  using assms(1)
proof (induction rows)
  case (Cons r rows)
  show ?case
  proof (cases "P r")
    case True
    then have "\<forall>r' \<in> set rows. \<not> P r'" using Cons.prems assms(2) by (auto simp: image_iff)
    then have "update_rows P f rows = rows" by (induction rows) (auto simp: update_rows_def)
    then show ?thesis using Cons.prems True by (simp add: update_rows_def)
  qed (use Cons in \<open>auto simp: update_rows_def\<close>)
qed simp

lemma single_delete:
  assumes "distinct (map key rows)"
  shows "length (filter Q rows) \<le> length (filter Q (filter (\<lambda>r. key r \<noteq> k) rows)) + 1"
  using assms
proof (induction rows)
  case (Cons r rows)
  show ?case
  proof (cases "key r = k")
    case True
    then have "\<forall>r' \<in> set rows. key r' \<noteq> k" using Cons.prems by (auto simp: image_iff)
    then have "filter (\<lambda>r. key r \<noteq> k) rows = rows" by simp
    then show ?thesis using True by simp
  qed (use Cons in auto)
qed simp

lemma filter_same:
  "(\<And>r. r \<in> set rows \<Longrightarrow> P r \<Longrightarrow> Q (f r) = Q r) \<Longrightarrow> length (filter Q (update_rows P f rows)) = length (filter Q rows)"
  by (induction rows) (auto simp: update_rows_def)

lemma changeRole_owner:
  assumes ok: "console_ok st" and run: "changeRole cx i role st = (a, st')" and some: "0 < countOwners st d"
  shows "0 < countOwners st' d"
  using run unfolding changeRole_def
proof (cases rule: procedure_cases)
  case (2 cl)
  let ?c = "cl_customerId cl"
  let ?P = "\<lambda>m. mb_id m = i \<and> mb_customerId m = ?c"
  show ?thesis
  proof (cases "changeRole_check cl i role st")
    case (Inr u)
    then obtain m where m: "membership_in st ?c i = Some m"
      and last: "mb_role m = owner \<and> role \<noteq> owner \<Longrightarrow> 1 < countOwners st ?c"
      by (auto simp: changeRole_check_def split: if_splits option.splits)
    have same: "x = m" if "x \<in> set (co_memberships st)" "?P x" for x
      using same_key [of mb_id "co_memberships st" x m] membership_in_Some [OF m] that ok by (simp add: console_ok_def)
    have st': "co_memberships st' = update_rows ?P (mb_role_update (\<lambda>_. role)) (co_memberships st)"
      using 2(2) Inr by (auto simp: changeRole_update_def)
    have le: "countOwners st d \<le> countOwners st' d + 1"
      unfolding countOwners_def st' using ok
      by (intro single_update [where key = mb_id and k = i]) (auto simp: console_ok_def)
    have keep: "countOwners st' d = countOwners st d" if "d \<noteq> ?c"
      unfolding countOwners_def st' using that by (intro filter_same) auto
    show ?thesis
    proof (cases "d = ?c \<and> mb_role m = owner \<and> role \<noteq> owner")
      case True
      then show ?thesis using last le by simp
    next
      case False
      show ?thesis
      proof (cases "d = ?c")
        case True
        with False have "mb_role m \<noteq> owner \<or> role = owner" by simp
        obtain x where x: "x \<in> set (co_memberships st)" "mb_customerId x = d" "mb_role x = owner"
          using some by (auto simp: countOwners_def filter_empty_conv)
        let ?x = "if ?P x then x\<lparr>mb_role := role\<rparr> else x"
        have "?x \<in> set (co_memberships st')" using x by (auto simp: st' update_rows_def)
        moreover have "mb_customerId ?x = d \<and> mb_role ?x = owner"
          using x same [of x] \<open>mb_role m \<noteq> owner \<or> role = owner\<close> by auto
        ultimately show ?thesis by (auto simp: countOwners_def filter_empty_conv)
      qed (use keep some in simp)
    qed
  qed (use 2(2) some in auto)
qed (use some in simp)

lemma remove_owner:
  assumes ok: "console_ok st" and run: "remove_member cx i st = (a, st')" and some: "0 < countOwners st d"
  shows "0 < countOwners st' d"
  using run unfolding remove_member_def
proof (cases rule: procedure_cases)
  case (2 cl)
  show ?thesis
  proof (cases "remove_check cl i st")
    case (Inr u)
    obtain m where m: "m \<in> set (co_memberships st)" "mb_id m = i" "mb_customerId m = cl_customerId cl"
      and last: "mb_role m = owner \<longrightarrow> countOwners st (cl_customerId cl) > 1"
      using remove_checkD [OF Inr] by blast
    have st': "co_memberships st' = filter (\<lambda>x. mb_id x \<noteq> i) (co_memberships st)"
      using 2(2) Inr by (auto simp: remove_delete_def)
    show ?thesis
    proof (cases "d = cl_customerId cl \<and> mb_role m = owner")
      case True
      have "countOwners st d \<le> countOwners st' d + 1"
        unfolding countOwners_def st' using ok by (intro single_delete) (simp add: console_ok_def)
      then show ?thesis using True last by simp
    next
      case False
      obtain x where x: "x \<in> set (co_memberships st)" "mb_customerId x = d" "mb_role x = owner"
        using some by (auto simp: countOwners_def filter_empty_conv)
      have "mb_id x \<noteq> i"
        using same_key [of mb_id "co_memberships st" x m] m x False ok by (auto simp: console_ok_def)
      then show ?thesis using x by (auto simp: countOwners_def filter_empty_conv st')
    qed
  qed (use 2(2) some in auto)
qed (use some in simp)

lemma step_keeps_owner:
  assumes step: "console_step D session st st'" and ok: "console_ok st" and some: "0 < countOwners st d"
  shows "0 < countOwners st' d"
  using step
proof cases
  case (member_step cookie)
  then show ?thesis
  proof (cases rule: member_call_effects)
    case (4 now newId token email role a)
    then have "co_memberships st' = co_memberships st"
      unfolding create_invite_def by (auto elim!: procedure_cases split: if_splits)
    then show ?thesis using some by (simp add: countOwners_def)
  next
    case (5 now i a)
    then have "co_memberships st' = co_memberships st"
      unfolding revoke_invite_def by (auto elim!: procedure_cases split: if_splits)
    then show ?thesis using some by (simp add: countOwners_def)
  next
    case (6 stamp newId seed nonce name requireApproval a)
    then have "co_memberships st' = co_memberships st"
      unfolding create_agent_def by (auto elim!: procedure_cases split: if_splits option.splits sum.splits)
    then show ?thesis using some by (simp add: countOwners_def)
  qed (use some ok in \<open>auto simp: countOwners_quiet intro: changeRole_owner remove_owner\<close>)
next
  case (accept_step fails cookie now newId token a)
  from accept_step(1) show ?thesis
    by (cases rule: accept_cases) (use some in \<open>auto simp: countOwners_def joined_def\<close>)
next
  case switch_step
  then have "co_memberships st' = co_memberships st"
    by (auto simp: switch_organization_def split: if_splits option.splits)
  then show ?thesis using some by (simp add: countOwners_def)
qed

text \<open>C11: As long as requests of the dashboard API do not overlap, no sequence of them takes the last owner from an
organisation: a customer with an owner at the start has one in every reachable state, whoever calls what.\<close>

theorem last_owner_kept:
  assumes "console_reachable D st0 st" "console_ok st0" "0 < countOwners st0 d"
  shows "0 < countOwners st d"
  using assms
proof (induction rule: console_reachable.induct)
  case (console_next st session st')
  then show ?case using step_keeps_owner console_reachable_ok by blast
qed

definition demo_sole_owner :: Console where
  "demo_sole_owner = remove_delete (row_id CHR ''2'') demo_console"

theorem last_owner_kept_witness:
  "0 < countOwners demo_sole_owner ''c1''"
proof (rule last_owner_kept [OF console_next [OF console_start member_step [OF call_remove]] demo_console_ok])
  have "remove_check demo_caller (row_id CHR ''2'') demo_console = Inr ()"
    by (simp add: remove_check_def row_ids membership_in_def countOwners_def demo_caller_def demo_session_def demo_console_def)
  then show "remove_member (createContext demo_console (Some demo_session) []) (row_id CHR ''2'') demo_console = (Inr (), demo_sole_owner)"
    by (simp add: remove_member_def procedure_def demo_permission demo_sole_owner_def)
  show "0 < countOwners demo_console ''c1''" by (simp add: countOwners_def demo_console_def)
qed

subsection \<open>What the protection does not cover\<close>

text \<open>The check and the update of a role change are two statements. When an organisation's two owners are demoted by
requests whose checks both come before the first update, no owner is left.\<close>

lemma changeRole_update_owner:
  "m \<in> set (co_memberships (changeRole_update cl i role st)) \<Longrightarrow> mb_customerId m = cl_customerId cl \<Longrightarrow>
     mb_role m = owner \<Longrightarrow> role \<noteq> owner \<Longrightarrow> m \<in> set (co_memberships st) \<and> mb_id m \<noteq> i"
  by (auto simp: changeRole_update_def set_update_rows)

lemma overlapping_demotions_leave_no_owner:
  assumes "filter (\<lambda>m. mb_customerId m = cl_customerId cl \<and> mb_role m = owner) (co_memberships st) = [m1, m2]"
    "cl_customerId cl' = cl_customerId cl" "mb_id m1 = i1" "mb_id m2 = i2" "role \<noteq> owner" "role' \<noteq> owner"
  shows "countOwners (changeRole_update cl' i2 role' (changeRole_update cl i1 role st)) (cl_customerId cl) = 0"
proof -
  have "False" if m: "m \<in> set (co_memberships (changeRole_update cl' i2 role' (changeRole_update cl i1 role st)))"
      and c: "mb_customerId m = cl_customerId cl" and r: "mb_role m = owner" for m
  proof -
    have "m \<in> set (co_memberships (changeRole_update cl i1 role st)) \<and> mb_id m \<noteq> i2"
      using m by (rule changeRole_update_owner) (simp_all add: assms(2,6) c r)
    moreover from this have "m \<in> set (co_memberships st) \<and> mb_id m \<noteq> i1"
      by (intro changeRole_update_owner [of m cl i1 role st]) (simp_all add: assms(5) c r)
    ultimately show False
      using arg_cong [OF assms(1), of set] assms(3,4) c r by auto
  qed
  then show ?thesis by (auto simp: countOwners_def filter_empty_conv)
qed

text \<open>An administrator may change its own membership, to owner as well, although several permissions are the owner's
alone.\<close>

lemma admin_becomes_owner:
  assumes "withPermission R_members A_update cx = Inr cl" "cl_role cl = admin" "uuid_text i"
    "membership_in st (cl_customerId cl) i = Some m" "mb_userId m = su_id (cl_user cl)"
  shows "fst (changeRole cx i owner st) = Inr ()"
    "membership_in (snd (changeRole cx i owner st)) (cl_customerId cl) i = Some (m\<lparr>mb_role := owner\<rparr>)"
proof -
  have run: "changeRole cx i owner st = (Inr (), changeRole_update cl i owner st)"
    using assms by (simp add: changeRole_def procedure_def changeRole_check_def)
  then show "fst (changeRole cx i owner st) = Inr ()" by simp
  show "membership_in (snd (changeRole cx i owner st)) (cl_customerId cl) i = Some (m\<lparr>mb_role := owner\<rparr>)"
    using assms(4) membership_in_Some [OF assms(4)]
    by (simp add: run membership_in_def changeRole_update_def find_update_rows)
qed

end
