(* ===== verification/Console_Properties.thy ===== *)
theory Console_Properties
  imports Tenancy_Properties
begin

text \<open>
  What single operations of the dashboard API promise: an invite works once, a key that is created
  authenticates its agent until it is revoked, and a deleted agent has no credential left.
\<close>

subsection \<open>Invites\<close>

lemma find_unique:
  "distinct (map f xs) \<Longrightarrow> x \<in> set xs \<Longrightarrow> List.find (\<lambda>y. f y = f x) xs = Some x"
  by (induction xs) (auto simp: image_iff)

text \<open>Accepting an invite makes the session's user, whose e-mail the invite names, a member of the inviting
organisation with the role of the invite, never as owner; a role the user already has there is kept. It works once:
presented again, by anybody at any time, the same token is refused and changes nothing.\<close>

theorem invite_used_once:
  assumes ok: "console_ok st" and run: "accept_invite E fails cx now newId token st = (Inr (Joined c role), st')"
  shows "role \<noteq> owner \<and>
    (\<exists>u m. cx_user cx = Some u \<and> m \<in> set (co_memberships st') \<and> mb_userId m = su_id u \<and> mb_customerId m = c \<and>
       (membership_of st (su_id u) c = None \<longrightarrow> mb_role m = role) \<and>
       (\<forall>m'. membership_of st (su_id u) c = Some m' \<longrightarrow> membership_of st' (su_id u) c = Some m')) \<and>
    accept_invite E fails' cx' now' newId' token st' = (Inl BAD_REQUEST, st')"
proof -
  from run show "role \<noteq> owner \<and>
    (\<exists>u m. cx_user cx = Some u \<and> m \<in> set (co_memberships st') \<and> mb_userId m = su_id u \<and> mb_customerId m = c \<and>
       (membership_of st (su_id u) c = None \<longrightarrow> mb_role m = role) \<and>
       (\<forall>m'. membership_of st (su_id u) c = Some m' \<longrightarrow> membership_of st' (su_id u) c = Some m')) \<and>
    accept_invite E fails' cx' now' newId' token st' = (Inl BAD_REQUEST, st')"
  proof (cases rule: accept_cases)
    case (2 u i)
    have cr: "c = iv_customerId i" "role = iv_role i" using 2(8) by simp_all
    have one: "role \<noteq> owner" using ok 2(2) cr by (simp add: console_ok_def)
    have "List.find (\<lambda>j. iv_tokenHash j = sha256Hex E token) (co_invites st) = Some i"
      using find_unique [of iv_tokenHash "co_invites st" i] ok 2(2,3) by (simp add: console_ok_def)
    then have "List.find (\<lambda>j. iv_tokenHash j = sha256Hex E token) (co_invites st') = Some (i\<lparr>iv_acceptedAt := Some now\<rparr>)"
      unfolding 2(11) by (simp add: marked_def find_update_rows)
    then have three: "accept_invite E fails' cx' now' newId' token st' = (Inl BAD_REQUEST, st')"
      using 2(9,10) by (simp add: accept_invite_def)
    show ?thesis
    proof (cases "membership_of st (su_id u) c")
      case None
      then show ?thesis using one three 2(1) cr by (auto simp: 2(11) joined_def)
    next
      case (Some m)
      then have "membership_of st' (su_id u) c = Some m" by (simp add: 2(11) joined_def membership_of_def cr)
      then show ?thesis using one three 2(1) Some membership_of_Some [of st' "su_id u" c m] by auto
    qed
  next
    case 1
    then show ?thesis by blast
  qed simp
qed

definition demo_joined :: Console where
  "demo_joined = snd (accept_invite demo_env (\<lambda>_. False) (createContext demo_console (Some demo_guest) []) 500 (row_id CHR ''7'') ''tok'' demo_console)"

theorem invite_used_once_witness:
  "auditor \<noteq> owner \<and>
   accept_invite demo_env (\<lambda>_. False) (createContext demo_joined (Some demo_session) []) 600 (row_id CHR ''8'') ''tok'' demo_joined =
     (Inl BAD_REQUEST, demo_joined)"
proof -
  have lower: "toLowerCase ''B@c'' = toLowerCase ''b@c''" by code_simp
  have "utf16_length ''tok'' \<le> 200" by code_simp
  then have run: "accept_invite demo_env (\<lambda>_. False) (createContext demo_console (Some demo_guest) []) 500 (row_id CHR ''7'') ''tok'' demo_console =
      (Inr (Joined ''c1'' auditor), demo_joined)"
    by (simp add: demo_joined_def accept_invite_def accept_writes_def demo_console_def demo_invite_def createContext_def demo_guest_def lower Let_def)
  show ?thesis using invite_used_once [OF demo_console_ok run] by blast
qed

subsection \<open>API keys\<close>

lemma procedure_Inr:
  assumes "procedure r a cx body st = (Inr y, st')"
  obtains cl where "withPermission r a cx = Inr cl" "body cl st = (Inr y, st')"
  using assms by (auto simp: procedure_def split: sum.splits)

lemma find_append_None: "List.find P xs = None \<Longrightarrow> List.find P (xs @ ys) = List.find P ys"
  by (induction xs) (auto split: if_splits)

lemma strip_own_key: "strip_bearer (''Bearer '' @ generateKey c secret) = generateKey c secret"
proof -
  have "space_length (CHR '' '' # r) = 1" "space_length (CHR ''c'' # r) = 0" for r
    by (simp_all add: space_length_def split: list.splits)
  then have "skip_spaces (CHR '' '' # ''cb_'' @ r) = ''cb_'' @ r" for r
    by (simp add: skip_spaces.simps [of "CHR '' '' # t" for t] skip_spaces.simps [of "CHR ''c'' # t" for t])
  moreover have "toLowerCase ''Bearer'' = ''bearer''" by code_simp
  ultimately show ?thesis by (simp add: strip_bearer_def generateKey_def)
qed

lemma find_agent_row:
  assumes "console_ok st" "console_agent st c i = Some a"
  shows "List.find (\<lambda>x. ag_id x = i) (console_agents st) = Some a"
  using find_unique [of ag_id "console_agents st" a] assms console_agent_Some [OF assms(2)] by (simp add: console_ok_def)

text \<open>C23: A key the dashboard creates is a credential of exactly the agent it was created for: presented next as a
bearer token it authenticates as that agent, for the caller's customer, under the new key's id and with the chosen role
(administrator by default), provided the agent is active and its connection approved, whichever other keys exist, live or
revoked. Once a member of the organisation revokes it, the same text is refused as an unknown key.\<close>

theorem created_key_authenticates:
  assumes ok: "console_ok st" and run: "create_key E cx newId secret agentId name role st = (Inr plaintext, st')"
    and c: "cx_membership cx = Some (c, r)" and agent: "console_agent st c agentId = Some a"
    and live: "ag_status a = status_active" "ag_connectionApprovedAt a = Some t"
    and req: "kr_authorization req = Some (''Bearer '' @ plaintext)"
  shows "fst (apiKeyAuth E now req (co_tables st')) =
      Inr \<lparr>ki_customerId = c, ki_agentId = agentId, ki_apiKeyId = newId,
           ki_role = (case role of None \<Rightarrow> admin | Some r \<Rightarrow> r),
           ki_permissions = expandRolePermissions (case role of None \<Rightarrow> admin | Some r \<Rightarrow> r)\<rparr> \<and>
    (\<forall>cx' r' later st''. cx_membership cx' = Some (c, r') \<and> revoke_key cx' later newId st' = (Inr (), st'') \<longrightarrow>
       fst (apiKeyAuth E now req (co_tables st'')) = Inl (401, ''invalid_api_key''))"
proof (intro conjI allI impI; (elim conjE)?)
  let ?keys = "tb_apiKeys (co_tables st)"
  define key where key: "key = \<lparr>ak_id = newId, ak_customerId = c, ak_agentId = Some agentId, ak_keyHash = sha256Hex E plaintext,
                   ak_role = (case role of None \<Rightarrow> admin | Some r \<Rightarrow> r), ak_revokedAt = None, ak_lastUsedAt = None,
                   ak_lastUserAgent = None, ak_lastHost = None\<rparr>"
  have uuid: "uuid_text agentId" and pt: "plaintext = generateKey c secret"
    and new: "\<forall>k \<in> set ?keys. ak_keyHash k \<noteq> sha256Hex E plaintext"
    and st': "st' = set_keys (\<lambda>keys. keys @ [key]) st"
    using run c unfolding create_key_def
    by (auto elim!: procedure_Inr dest!: permission_customer simp: Let_def list_ex_iff key split: if_splits)
  have got: "strip_bearer (case kr_authorization req of None \<Rightarrow> [] | Some a \<Rightarrow> a) = plaintext"
    "plaintext \<noteq> []" "startsWith plaintext ''cb_''"
    using req strip_own_key by (simp_all add: pt generateKey_def)
  have keys: "tb_apiKeys (co_tables st') = ?keys @ [key]" and core: "tb_core (co_tables st') = tb_core (co_tables st)"
    by (simp_all add: st' set_keys_def)
  have found: "List.find (live_key (sha256Hex E plaintext)) (?keys @ [key]) = Some key"
    using new by (subst find_append_None) (auto simp: find_None_iff live_key_def key)
  have who: "key_agent (co_tables st') key = Some a"
    using find_agent_row [OF ok agent] by (simp add: key_agent_def core key console_agents_def)
  have "str_truthy (ak_agentId key)" using uuid_text_nonempty [OF uuid] by (simp add: key str_truthy_def)
  moreover have "ag_id a = agentId" using console_agent_Some [OF agent] by simp
  ultimately show "fst (apiKeyAuth E now req (co_tables st')) =
      Inr \<lparr>ki_customerId = c, ki_agentId = agentId, ki_apiKeyId = newId,
           ki_role = (case role of None \<Rightarrow> admin | Some r \<Rightarrow> r),
           ki_permissions = expandRolePermissions (case role of None \<Rightarrow> admin | Some r \<Rightarrow> r)\<rparr>"
    using live by (simp add: apiKeyAuth_def got keys found who Let_def) (simp add: key)
  fix cx' r' later st''
  assume c': "cx_membership cx' = Some (c, r')" and rv: "revoke_key cx' later newId st' = (Inr (), st'')"
  have "tb_apiKeys (co_tables st'') =
      update_rows (live_key_of c newId) (ak_revokedAt_update (\<lambda>_. Some later)) (?keys @ [key])"
    using rv c' unfolding revoke_key_def update_key_def
    by (auto elim!: procedure_Inr dest!: permission_customer simp: set_keys_def keys split: if_splits)
  then have "List.find (live_key (sha256Hex E plaintext)) (tb_apiKeys (co_tables st'')) = None"
    using new by (auto simp: find_None_iff set_update_rows live_key_def live_key_of_def key)
  then show "fst (apiKeyAuth E now req (co_tables st'')) = Inl (401, ''invalid_api_key'')"
    by (simp add: apiKeyAuth_def got Let_def)
qed

definition demo_keyed :: Console where
  "demo_keyed = snd (create_key demo_env (createContext demo_console (Some demo_session) []) (row_id CHR ''2'') ''00'' (row_id CHR ''3'') ''n'' None demo_console)"

definition demo_key_request :: key_request where
  "demo_key_request = \<lparr>kr_authorization = Some (''Bearer '' @ generateKey ''c1'' ''00''), kr_userAgent = None,
     kr_forwardedFor = None, kr_realIp = None\<rparr>"

lemma demo_agent_found: "console_agent demo_console ''c1'' (row_id CHR ''3'') = Some console_agent_row"
  by (simp add: console_agent_def agent_of_def demo_console_def demo_console_tables_def console_agent_row_def demo_agent_row_def)

lemma demo_fields: "cl_customerId demo_caller = ''c1''" "tb_apiKeys (co_tables demo_console) = []"
  by (simp_all add: demo_caller_def demo_console_def demo_console_tables_def)

theorem created_key_authenticates_witness:
  "fst (apiKeyAuth demo_env 0 demo_key_request (co_tables demo_keyed)) =
     Inr \<lparr>ki_customerId = ''c1'', ki_agentId = row_id CHR ''3'', ki_apiKeyId = row_id CHR ''2'', ki_role = admin,
          ki_permissions = expandRolePermissions admin\<rparr> \<and>
   (\<exists>st. revoke_key (createContext demo_console (Some demo_session) []) 900 (row_id CHR ''2'') demo_keyed = (Inr (), st) \<and>
      fst (apiKeyAuth demo_env 0 demo_key_request (co_tables st)) = Inl (401, ''invalid_api_key''))"
proof -
  have "utf16_length ''n'' = 1" by code_simp
  then have run: "create_key demo_env (createContext demo_console (Some demo_session) []) (row_id CHR ''2'') ''00'' (row_id CHR ''3'') ''n'' None
      demo_console = (Inr (generateKey ''c1'' ''00''), demo_keyed)"
    by (simp add: demo_keyed_def create_key_def procedure_def demo_permission row_ids demo_fields demo_agent_found Let_def)
  have keys: "\<exists>k. tb_apiKeys (co_tables demo_keyed) = [k] \<and> live_key_of ''c1'' (row_id CHR ''2'') k"
    by (simp add: demo_keyed_def create_key_def procedure_def demo_permission row_ids demo_fields demo_agent_found
        \<open>utf16_length ''n'' = 1\<close> set_keys_def live_key_of_def Let_def)
  have revoked: "\<exists>st. revoke_key (createContext demo_console (Some demo_session) []) 900 (row_id CHR ''2'') demo_keyed = (Inr (), st)"
    using keys by (auto simp: revoke_key_def update_key_def procedure_def demo_permission row_ids demo_fields)
  have member: "cx_membership (createContext demo_console (Some demo_session) []) = Some (''c1'', owner)" by (simp add: demo_context)
  have live: "ag_status console_agent_row = status_active" "ag_connectionApprovedAt console_agent_row = Some ''t''"
    by (simp_all add: console_agent_row_def demo_agent_row_def)
  have req: "kr_authorization demo_key_request = Some (''Bearer '' @ generateKey ''c1'' ''00'')"
    by (simp add: demo_key_request_def)
  from created_key_authenticates [OF demo_console_ok run member demo_agent_found live req] revoked member
  show ?thesis by (simp only: option.case) blast
qed

subsection \<open>Deleted agents\<close>

lemma key_agent_in: "key_agent tb k = Some a \<Longrightarrow> a \<in> set (db_agents (tb_core tb))"
  by (auto simp: key_agent_def find_Some_iff)

lemma revoke_cids_listed:
  assumes "x \<in> set cids"
  shows "\<exists>rv \<in> set (db_revocations (tb_core (revoke_cids c cids tb))). rv_cid rv = x \<and>
    (rv_customerId rv = c \<or> rv \<in> set (db_revocations (tb_core tb)))"
proof (cases "\<exists>r \<in> set (db_revocations (tb_core tb)). rv_cid r = x")
  case False
  then have "\<lparr>rv_cid = x, rv_customerId = c\<rparr> \<in> set (db_revocations (tb_core (revoke_cids c cids tb)))"
    using assms by (simp add: revoke_cids_def list_ex_iff image_iff)
  then show ?thesis by (rule bexI [rotated]) simp
qed (auto simp: revoke_cids_def)

text \<open>A delete that answers has run all of its statements.\<close>

lemma delete_agent_done:
  assumes "delete_agent fails cx now i st = (Inr n, st')" "cx_membership cx = Some (c, r)"
  obtains a st1 where "console_agent st c i = Some a"
    "st1 = update_agents (\<lambda>a. ag_id a = i \<and> ag_customerId a = c) (ag_status_update (\<lambda>_. status_deleted)) st"
    "co_tables st' = revoke_keys c i now (revoke_cids c (issued_cids c i (co_tables st1)) (co_tables st1))"
proof -
  let ?st1 = "update_agents (\<lambda>a. ag_id a = i \<and> ag_customerId a = c) (ag_status_update (\<lambda>_. status_deleted)) st"
  let ?cids = "issued_cids c i (co_tables ?st1)"
  have none: "revoke_cids c [] tb = tb" for tb by (simp add: revoke_cids_def)
  obtain cl where perm: "withPermission R_agents A_delete cx = Inr cl"
    and body: "(if \<not> uuid_text i then (Inl BAD_REQUEST, st)
       else if fails 0 then (Inl INTERNAL_SERVER_ERROR, st)
       else case set_agent cl i (ag_status_update (\<lambda>_. status_deleted)) st of
           (Inl e, st') \<Rightarrow> (Inl e, st')
         | (Inr _, st1) \<Rightarrow>
             (let c = cl_customerId cl; cids = issued_cids c i (co_tables st1);
                  st2 = (if cids = [] then st1 else st1\<lparr>co_tables := revoke_cids c cids (co_tables st1)\<rparr>)
              in if fails 1 \<or> cids \<noteq> [] \<and> fails 2 then (Inl INTERNAL_SERVER_ERROR, st1)
                 else if fails 3 then (Inl INTERNAL_SERVER_ERROR, st2)
                 else (Inr (length cids), st2\<lparr>co_tables := revoke_keys c i now (co_tables st2)\<rparr>))) = (Inr n, st')"
    using assms(1) unfolding delete_agent_def by (rule procedure_Inr)
  have cl: "cl_customerId cl = c" using permission_customer [OF perm] assms(2) by simp
  from body obtain a where a: "console_agent st c i = Some a"
    by (cases "console_agent st c i") (simp_all add: set_agent_def cl split: if_splits)
  then have set: "set_agent cl i (ag_status_update (\<lambda>_. status_deleted)) st = (Inr (), ?st1)"
    by (simp add: set_agent_def cl)
  have "co_tables st' = revoke_keys c i now (revoke_cids c ?cids (co_tables ?st1))"
    using body unfolding set cl by (cases "?cids = []") (auto simp: Let_def none split: if_splits)
  with a show ?thesis by (rule that [OF _ refl])
qed

text \<open>C12: Deleting an agent leaves it without a credential of the control plane's own. After a delete that answers, no
API key authenticates as the agent, mintUcan mints no token for it, and every token recorded as issued to it for its
customer is on the revocation list, under that customer unless it was on the list before. A delegation to the agent
that a live parent signs is not covered.\<close>

theorem deleted_agent_locked_out:
  assumes ok: "console_ok st" and run: "delete_agent fails cx now i st = (Inr n, st')" and c: "cx_membership cx = Some (c, r)"
  shows "(\<forall>E t req who. fst (apiKeyAuth E t req (co_tables st')) = Inr who \<longrightarrow> ki_agentId who \<noteq> i) \<and>
    (\<forall>E sg t inp. mi_customerId inp = c \<and> mi_agentId inp = i \<longrightarrow>
       fst (mintUcan E sg t inp (co_tables st')) = Inl agent_not_active) \<and>
    (\<forall>u \<in> set (tb_ucanIssues (co_tables st')). is_agentId u = i \<and> is_customerId u = c \<longrightarrow>
       (\<exists>rv \<in> set (db_revocations (tb_core (co_tables st'))). rv_cid rv = is_cid u \<and>
          (rv_customerId rv = c \<or> rv \<in> set (db_revocations (tb_core (co_tables st))))))"
proof (intro conjI allI ballI impI)
  obtain a st1 where a: "console_agent st c i = Some a"
    and st1: "st1 = update_agents (\<lambda>a. ag_id a = i \<and> ag_customerId a = c) (ag_status_update (\<lambda>_. status_deleted)) st"
    and st': "co_tables st' = revoke_keys c i now (revoke_cids c (issued_cids c i (co_tables st1)) (co_tables st1))"
    by (rule delete_agent_done [OF run c])
  have agents: "db_agents (tb_core (co_tables st')) =
      update_rows (\<lambda>a. ag_id a = i \<and> ag_customerId a = c) (ag_status_update (\<lambda>_. status_deleted)) (console_agents st)"
    by (simp add: st' st1 update_agents_def console_agents_def)
  have gone: "ag_status x = status_deleted" if mem: "x \<in> set (db_agents (tb_core (co_tables st')))" and xi: "ag_id x = i" for x
  proof -
    obtain y where y: "y \<in> set (console_agents st)"
      "x = (if ag_id y = i \<and> ag_customerId y = c then y\<lparr>ag_status := status_deleted\<rparr> else y)"
      using mem unfolding agents update_rows_def set_map by blast
    then have "ag_id y = i" using xi by (auto split: if_splits)
    then have "y = a" using agent_row_unique [OF ok a y(1)] by blast
    then show ?thesis using y(2) console_agent_Some [OF a] by simp
  qed
  show "ki_agentId who \<noteq> i" if auth: "fst (apiKeyAuth E t req (co_tables st')) = Inr who" for E t req who
  proof
    assume "ki_agentId who = i"
    then obtain x where "x \<in> set (db_agents (tb_core (co_tables st')))" "ag_id x = i" "ag_status x \<noteq> status_deleted"
      using auth by (auto simp: apiKeyAuth_def Let_def dest!: key_agent_in split: if_splits option.splits)
    then show False using gone by blast
  qed
  show "fst (mintUcan E sg t inp (co_tables st')) = Inl agent_not_active" if "mi_customerId inp = c \<and> mi_agentId inp = i"
    for E sg t inp
  proof -
    have "List.find (\<lambda>x. ag_id x = i \<and> ag_customerId x = c) (db_agents (tb_core (co_tables st'))) =
        Some (a\<lparr>ag_status := status_deleted\<rparr>)"
      using a unfolding agents
      by (subst find_update_rows) (auto simp: console_agent_def agent_of_def console_agents_def find_Some_iff)
    then show ?thesis using that by (simp add: mintUcan_def agent_of_def)
  qed
  show "\<exists>rv \<in> set (db_revocations (tb_core (co_tables st'))). rv_cid rv = is_cid u \<and>
      (rv_customerId rv = c \<or> rv \<in> set (db_revocations (tb_core (co_tables st))))"
    if "u \<in> set (tb_ucanIssues (co_tables st'))" "is_agentId u = i \<and> is_customerId u = c" for u
  proof -
    have "is_cid u \<in> set (issued_cids c i (co_tables st1))"
      using that by (auto simp: issued_cids_def st' revoke_keys_def revoke_cids_def)
    from revoke_cids_listed [OF this, of c "co_tables st1"] show ?thesis
      by (simp add: st') (simp add: st1 update_agents_def)
  qed
qed

definition demo_deleted :: Console where
  "demo_deleted = snd (delete_agent (\<lambda>_. False) (createContext demo_console (Some demo_session) []) 5 (row_id CHR ''3'') demo_console)"

theorem deleted_agent_locked_out_witness:
  "fst (mintUcan demo_env \<lparr>sg_signKey = [], sg_signerDid = []\<rparr> 7
     (console_mint_input ''c1'' \<lparr>cm_agentId = row_id CHR ''3'', cm_command = ''/fs'', cm_policyId = None,
        cm_oauthConnectionId = None, cm_cloudConnectionId = None, cm_ttlSeconds = None, cm_nonce = None,
        cm_contextHints = None\<rparr>) (co_tables demo_deleted)) = Inl agent_not_active"
proof -
  have "set_agent demo_caller (row_id CHR ''3'') (ag_status_update (\<lambda>_. status_deleted)) demo_console =
      (Inr (), update_agents (\<lambda>a. ag_id a = row_id CHR ''3'' \<and> ag_customerId a = ''c1'') (ag_status_update (\<lambda>_. status_deleted)) demo_console)"
    by (simp add: set_agent_def demo_agent_found demo_fields)
  then have "fst (delete_agent (\<lambda>_. False) (createContext demo_console (Some demo_session) []) 5 (row_id CHR ''3'') demo_console) =
      Inr (length (issued_cids ''c1'' (row_id CHR ''3'') (co_tables (update_agents
        (\<lambda>a. ag_id a = row_id CHR ''3'' \<and> ag_customerId a = ''c1'') (ag_status_update (\<lambda>_. status_deleted)) demo_console))))"
    by (simp add: delete_agent_def procedure_def demo_permission row_ids demo_fields Let_def)
  then obtain n where n: "fst (delete_agent (\<lambda>_. False) (createContext demo_console (Some demo_session) []) 5 (row_id CHR ''3'') demo_console) = Inr n"
    by blast
  then have run: "delete_agent (\<lambda>_. False) (createContext demo_console (Some demo_session) []) 5 (row_id CHR ''3'') demo_console = (Inr n, demo_deleted)"
    unfolding demo_deleted_def by (intro prod_eqI) (simp_all only: fst_conv snd_conv)
  have "cx_membership (createContext demo_console (Some demo_session) []) = Some (''c1'', owner)" by (simp add: demo_context)
  from deleted_agent_locked_out [OF demo_console_ok run this] show ?thesis by (simp add: console_mint_input_def)
qed

text \<open>The state is not final: whoever may update agents may set a deleted one active again.\<close>

lemma deleted_agent_revived:
  assumes "withPermission R_agents A_update cx = Inr cl" "uuid_text i"
    "console_agent st (cl_customerId cl) i = Some a" "ag_status a = status_deleted"
  shows "fst (update_agent cx i None (Some status_active) st) = Inr ()"
    "console_agent (snd (update_agent cx i None (Some status_active) st)) (cl_customerId cl) i =
       Some (a\<lparr>ag_status := status_active\<rparr>)"
proof -
  have run: "update_agent cx i None (Some status_active) st =
      (Inr (), update_agents (\<lambda>a. ag_id a = i \<and> ag_customerId a = cl_customerId cl) (\<lambda>a. a\<lparr>ag_status := status_active\<rparr>) st)"
    using assms by (simp add: update_agent_def procedure_def set_agent_def)
  then show "fst (update_agent cx i None (Some status_active) st) = Inr ()" by simp
  show "console_agent (snd (update_agent cx i None (Some status_active) st)) (cl_customerId cl) i =
       Some (a\<lparr>ag_status := status_active\<rparr>)"
    using assms(3) console_agent_Some [OF assms(3)]
    by (simp add: run console_agent_def agent_of_def update_agents_def find_update_rows)
qed

subsection \<open>The dry run of a policy\<close>

text \<open>The audience of the synthetic token is not a key DID, so the token is never issued and the panel never answers.\<close>

lemma dryRun_never_answers: "dryRun E C sg cx now policyId command resource context st \<noteq> Inr r"
proof -
  have "\<not> did_key_regex ''did:key:dryrun''" by (simp add: did_key_regex_def)
  then have "canonicalizeDid E ''did:key:dryrun'' \<noteq> Inr d" for d
    by (simp add: canonicalizeDid_def publicKeyFromDid_def)
  then have "issueUcan E (dryRun_payload sg now command) (sg_signKey sg) \<noteq> Inr u" for u
    by (auto simp: issueUcan_def dryRun_payload_def Let_def rbind_Inr_iff)
  then show ?thesis
    by (auto simp: dryRun_def lift_internal_def rbind_Inr_iff split: if_splits option.splits sum.splits)
qed

subsection \<open>Refusals\<close>

text \<open>The database may fail between the statements of a delete. Then the agent is marked and its tokens are not
revoked; the request ends in an error and may be repeated.\<close>

lemma delete_interrupted:
  assumes "withPermission R_agents A_delete cx = Inr cl" "uuid_text i" "console_agent st (cl_customerId cl) i = Some a"
    "issued_cids (cl_customerId cl) i (co_tables st) \<noteq> []"
  shows "delete_agent (\<lambda>k. k = 2) cx now i st = (Inl INTERNAL_SERVER_ERROR,
    update_agents (\<lambda>a. ag_id a = i \<and> ag_customerId a = cl_customerId cl) (ag_status_update (\<lambda>_. status_deleted)) st)"
  using assms by (simp add: delete_agent_def procedure_def set_agent_def Let_def)
    (simp add: issued_cids_def update_agents_def)










end
