(* ===== verification/Policy_Builder.thy ===== *)
theory Policy_Builder
  imports Grants
begin

text \<open>
  packages/policy-builder/src: the visual policies (ir.ts), the Cedar text they are saved as (emit.ts), the way
  back (parse.ts) and the check before a save (validate.ts). Cedar's own splitting of a policy set and its
  translation of a policy to JSON are third-party: they are the fields of \<open>cedar_text\<close>. Their answer is
  modelled by the documented JSON policy format, in which an expression is an object with exactly one
  member: the operator; an entity is read with or without its \<open>__entity\<close> wrapper.
\<close>

subsection \<open>ir.ts\<close>

datatype Effect = eff_permit | eff_forbid

record EntityRef =
  er_type :: string
  er_id :: string

datatype ScopeConstraint = Scope_all | Scope_eq EntityRef | Scope_is string
datatype ActionConstraint = Action_all | Action_eq string | Action_in "string list"
datatype ScalarLiteral = Lit_str string | Lit_num jsnum | Lit_bool bool
datatype cmp_op = op_lt | op_le | op_gt | op_ge

datatype Clause =
    Attr_eq string ScalarLiteral
  | Attr_in string "ScalarLiteral list"
  | Numeric_cmp cmp_op string jsnum
  | Time_window_hour string jsnum jsnum
  | Has_attr string
  | Raw string

datatype cond_kind = cond_when | cond_unless

record VisualPolicy =
  vp_id :: string
  vp_effect :: Effect
  vp_principal :: ScopeConstraint
  vp_action :: ActionConstraint
  vp_resource :: ScopeConstraint
  vp_conditions :: "(cond_kind \<times> Clause) list"
  vp_annotations :: "(string \<times> string) list option"
  vp_label :: "string option"

record ParseToIrResult =
  pr_policies :: "VisualPolicy list"
  pr_unrepresentable :: "(string \<times> string) list"

subsection \<open>emit.ts\<close>

definition quoteString :: "string \<Rightarrow> string" where
  "quoteString s =
     dq @ replace_all (CHR 0x22) [CHR 0x5C, CHR 0x22] (replace_all (CHR 0x5C) [CHR 0x5C, CHR 0x5C] s) @ dq"

definition emitEntity :: "EntityRef \<Rightarrow> string" where
  "emitEntity e = er_type e @ ''::'' @ quoteString (er_id e)"

fun emitPrincipal :: "ScopeConstraint \<Rightarrow> string" where
  "emitPrincipal Scope_all = ''principal''"
| "emitPrincipal (Scope_eq e) = ''principal == '' @ emitEntity e"
| "emitPrincipal (Scope_is t) = ''principal is '' @ t"

fun emitAction :: "ActionConstraint \<Rightarrow> string" where
  "emitAction Action_all = ''action''"
| "emitAction (Action_eq i) = ''action == Action::'' @ quoteString i"
| "emitAction (Action_in ids) = ''action in ['' @ join '', '' (map (\<lambda>i. ''Action::'' @ quoteString i) ids) @ '']''"

fun emitResource :: "ScopeConstraint \<Rightarrow> string" where
  "emitResource Scope_all = ''resource''"
| "emitResource (Scope_eq e) = ''resource == '' @ emitEntity e"
| "emitResource (Scope_is t) = ''resource is '' @ t"

text \<open>A number in a template string.\<close>

fun number_text :: "jsnum \<Rightarrow> string" where
  "number_text (JInt i) = string_of_int i"
| "number_text (JDec t) = t"
| "number_text JNonFinite = ''NaN''"

fun emitLiteral :: "ScalarLiteral \<Rightarrow> string" where
  "emitLiteral (Lit_str s) = quoteString s"
| "emitLiteral (Lit_num n) = number_text n"
| "emitLiteral (Lit_bool b) = (if b then ''true'' else ''false'')"

fun op_text :: "cmp_op \<Rightarrow> string" where
  "op_text op_lt = ''<''"
| "op_text op_le = ''<=''"
| "op_text op_gt = ''>''"
| "op_text op_ge = ''>=''"

fun has_steps :: "string \<Rightarrow> string list \<Rightarrow> string list" where
  "has_steps acc [] = []"
| "has_steps acc (p # ps) = (acc @ '' has '' @ p) # has_steps (acc @ ''.'' @ p) ps"

definition emitHasAttr :: "string \<Rightarrow> string" where
  "emitHasAttr path =
     (case split_on CHR ''.'' path of
        head # p # ps \<Rightarrow> join '' && '' (has_steps head (p # ps))
      | _ \<Rightarrow> path)"

fun emitClause :: "Clause \<Rightarrow> string" where
  "emitClause (Attr_eq path v) = path @ '' == '' @ emitLiteral v"
| "emitClause (Attr_in path vs) = path @ '' in ['' @ join '', '' (map emitLiteral vs) @ '']''"
| "emitClause (Numeric_cmp op path n) = path @ '' '' @ op_text op @ '' '' @ number_text n"
| "emitClause (Time_window_hour path a b) =
     path @ '' >= '' @ number_text a @ '' && '' @ path @ '' < '' @ number_text b"
| "emitClause (Has_attr path) = emitHasAttr path"
| "emitClause (Raw t) = t"

definition emitCondition :: "cond_kind \<times> Clause \<Rightarrow> string" where
  "emitCondition c =
     (case fst c of cond_when \<Rightarrow> ''when'' | cond_unless \<Rightarrow> ''unless'') @ '' { '' @ emitClause (snd c) @ '' }''"

definition emitPolicy :: "VisualPolicy \<Rightarrow> string" where
  "emitPolicy p =
     (let ann = (case vp_annotations p of
            None \<Rightarrow> []
          | Some as \<Rightarrow> join nl (map (\<lambda>(k, v). ''@'' @ k @ ''('' @ quoteString v @ '')'') as));
          head = (case vp_effect p of eff_permit \<Rightarrow> ''permit'' | eff_forbid \<Rightarrow> ''forbid'') @ '' ('' @ nl @ ''  '' @
            emitPrincipal (vp_principal p) @ '','' @ nl @ ''  '' @ emitAction (vp_action p) @ '','' @ nl @ ''  '' @
            emitResource (vp_resource p) @ nl @ '')'';
          conds = join nl (map emitCondition (vp_conditions p));
          body = (if conds \<noteq> [] then head @ nl @ conds @ '';'' else head @ '';'')
      in if ann \<noteq> [] then ann @ nl @ body else body)"

definition emitPolicySet :: "VisualPolicy list \<Rightarrow> string" where
  "emitPolicySet ps = join (nl @ nl) (map emitPolicy ps)"

subsection \<open>The JSON policy format\<close>

datatype cedar_expr =
    Ex_Value json
  | Ex_Var string
  | Ex_dot cedar_expr string
  | Ex_has cedar_expr string
  | Ex_eq cedar_expr cedar_expr
  | Ex_in cedar_expr cedar_expr
  | Ex_cmp cmp_op cedar_expr cedar_expr
  | Ex_and cedar_expr cedar_expr
  | Ex_Set "cedar_expr list"
  | Ex_other

text \<open>The scope of a principal, action or resource: \<open>==\<close> and \<open>in\<close> with an entity, a list of entities or a
template slot, \<open>is\<close> with an optional \<open>in\<close>.\<close>

datatype scope_json =
    S_All
  | S_eq "EntityRef option"
  | S_in "EntityRef option"
  | S_in_list "EntityRef list"
  | S_is string "EntityRef option"

record PolicyJson =
  pj_effect :: string
  pj_principal :: scope_json
  pj_action :: scope_json
  pj_resource :: scope_json
  pj_conditions :: "(string \<times> cedar_expr) list"
  pj_annotations :: "(string \<times> string) list option"

record cedar_text =
  policySetTextToParts :: "string \<Rightarrow> string list option"
  policyToJson :: "string \<Rightarrow> PolicyJson option"

subsection \<open>parse.ts\<close>

definition entityFromConstraint :: "EntityRef option \<Rightarrow> EntityRef option" where
  "entityFromConstraint e =
     (case e of None \<Rightarrow> None | Some r \<Rightarrow> if er_type r = [] \<or> er_id r = [] then None else Some r)"

fun parseScope :: "scope_json \<Rightarrow> ScopeConstraint option" where
  "parseScope S_All = Some Scope_all"
| "parseScope (S_eq e) = map_option Scope_eq (entityFromConstraint e)"
| "parseScope (S_is t i) = Some (Scope_is t)"
| "parseScope s = None"

fun parseAction :: "scope_json \<Rightarrow> ActionConstraint option" where
  "parseAction S_All = Some Action_all"
| "parseAction (S_eq e) = map_option (\<lambda>r. Action_eq (er_id r)) (entityFromConstraint e)"
| "parseAction (S_in_list es) = Some (Action_in (map er_id es))"
| "parseAction (S_in e) = map_option (\<lambda>r. Action_in [er_id r]) (entityFromConstraint e)"
| "parseAction (S_is t i) = None"

fun pathFromExpr :: "cedar_expr \<Rightarrow> string option" where
  "pathFromExpr (Ex_Var v) = (if v = [] then None else Some v)"
| "pathFromExpr (Ex_dot e a) = map_option (\<lambda>left. left @ ''.'' @ a) (pathFromExpr e)"
| "pathFromExpr e = None"

fun literalFromExpr :: "cedar_expr \<Rightarrow> ScalarLiteral option" where
  "literalFromExpr (Ex_Value (JStr s)) = Some (Lit_str s)"
| "literalFromExpr (Ex_Value (JNum n)) = Some (Lit_num n)"
| "literalFromExpr (Ex_Value (JBool b)) = Some (Lit_bool b)"
| "literalFromExpr e = None"

fun literals :: "cedar_expr list \<Rightarrow> ScalarLiteral list option" where
  "literals [] = Some []"
| "literals (e # es) = Option.bind (literalFromExpr e) (\<lambda>v. map_option (Cons v) (literals es))"

definition see_cedar_tab :: Clause where "see_cedar_tab = Raw ''/* see Cedar tab */''"

text \<open>An empty path is falsy.\<close>

definition given_path :: "cedar_expr \<Rightarrow> string option" where
  "given_path e = (case pathFromExpr e of None \<Rightarrow> None | Some p \<Rightarrow> if p = [] then None else Some p)"

fun parseClause :: "cedar_expr \<Rightarrow> Clause" where
  "parseClause (Ex_eq l r) =
     (case (given_path l, literalFromExpr r) of (Some path, Some v) \<Rightarrow> Attr_eq path v | _ \<Rightarrow> see_cedar_tab)"
| "parseClause (Ex_in l r) =
     (case r of
        Ex_Set es \<Rightarrow>
          (case (given_path l, literals es) of (Some path, Some vs) \<Rightarrow> Attr_in path vs | _ \<Rightarrow> see_cedar_tab)
      | _ \<Rightarrow> see_cedar_tab)"
| "parseClause (Ex_cmp op l r) =
     (case (given_path l, literalFromExpr r) of
        (Some path, Some (Lit_num n)) \<Rightarrow> Numeric_cmp op path n
      | _ \<Rightarrow> see_cedar_tab)"
| "parseClause (Ex_and l r) =
     (case (parseClause l, parseClause r) of
        (Numeric_cmp op_ge p a, Numeric_cmp op_lt q b) \<Rightarrow> if p = q then Time_window_hour p a b else see_cedar_tab
      | _ \<Rightarrow> see_cedar_tab)"
| "parseClause (Ex_has l a) =
     (case pathFromExpr l of Some left \<Rightarrow> Has_attr (left @ ''.'' @ a) | None \<Rightarrow> see_cedar_tab)"
| "parseClause e = see_cedar_tab"

fun parseConditions :: "(string \<times> cedar_expr) list \<Rightarrow> (cond_kind \<times> Clause) list option" where
  "parseConditions [] = Some []"
| "parseConditions ((k, e) # cs) =
     (if k = ''when'' then map_option (Cons (cond_when, parseClause e)) (parseConditions cs)
      else if k = ''unless'' then map_option (Cons (cond_unless, parseClause e)) (parseConditions cs)
      else None)"

definition policyJsonToIr :: "PolicyJson \<Rightarrow> string \<Rightarrow> (string, VisualPolicy) result" where
  "policyJsonToIr j i =
     (if pj_effect j \<noteq> ''permit'' \<and> pj_effect j \<noteq> ''forbid'' then Inl ''unknown_effect''
      else case parseScope (pj_principal j) of
          None \<Rightarrow> Inl ''principal_unsupported''
        | Some prin \<Rightarrow>
      (case parseAction (pj_action j) of
          None \<Rightarrow> Inl ''action_unsupported''
        | Some action \<Rightarrow>
      (case parseScope (pj_resource j) of
          None \<Rightarrow> Inl ''resource_unsupported''
        | Some resource \<Rightarrow>
      (case parseConditions (pj_conditions j) of
          None \<Rightarrow> Inl ''condition_kind''
        | Some conds \<Rightarrow>
            Inr \<lparr>vp_id = i, vp_effect = (if pj_effect j = ''permit'' then eff_permit else eff_forbid),
                 vp_principal = prin, vp_action = action, vp_resource = resource, vp_conditions = conds,
                 vp_annotations = pj_annotations j, vp_label = None\<rparr>))))"

fun parse_parts :: "cedar_text \<Rightarrow> nat \<Rightarrow> string list \<Rightarrow> ParseToIrResult" where
  "parse_parts L i [] = \<lparr>pr_policies = [], pr_unrepresentable = []\<rparr>"
| "parse_parts L i (t # ts) =
     (let rest = parse_parts L (Suc i) ts
      in case policyToJson L t of
           None \<Rightarrow> rest\<lparr>pr_unrepresentable := (''policy_to_json_failed'', t) # pr_unrepresentable rest\<rparr>
         | Some j \<Rightarrow>
             (case policyJsonToIr j (''p'' @ string_of_int (int i)) of
                Inr p \<Rightarrow> rest\<lparr>pr_policies := p # pr_policies rest\<rparr>
              | Inl reason \<Rightarrow> rest\<lparr>pr_unrepresentable := (reason, t) # pr_unrepresentable rest\<rparr>))"

definition parseToIr :: "cedar_text \<Rightarrow> string \<Rightarrow> ParseToIrResult" where
  "parseToIr L cedarText =
     (case policySetTextToParts L cedarText of
        None \<Rightarrow> \<lparr>pr_policies = [], pr_unrepresentable = [(''parse_failed'', cedarText)]\<rparr>
      | Some parts \<Rightarrow> parse_parts L 0 parts)"

subsection \<open>validate.ts\<close>

definition roundTrip :: "cedar \<Rightarrow> VisualPolicy list \<Rightarrow> bool \<times> string \<times> string list" where
  "roundTrip C policies =
     (let cedarText = emitPolicySet policies; (ok, errors) = parsePolicy C cedarText
      in if ok then (True, cedarText, []) else (False, cedarText, errors))"

end
