(* ===== verification/Builder_Properties.thy ===== *)
theory Builder_Properties
  imports Policy_Builder
begin

text \<open>
  Properties of the visual policy builder: what is typed into it stays inside its string literal; a policy in the
  JSON form of Cedar is read back construct by construct, and what that reading loses.
\<close>

subsection \<open>String literals\<close>

text \<open>Reading a string literal as Cedar's grammar does, as far as the escapes the emitter writes: the text of the
literal and what follows its closing quote.\<close>

fun literal_body :: "string \<Rightarrow> (string \<times> string) option" where
  "literal_body [] = None"
| "literal_body (c # s) =
     (if c = CHR 0x22 then Some ([], s)
      else if c = CHR 0x5C then
        (case s of
           [] \<Rightarrow> None
         | e # t \<Rightarrow>
             if e = CHR 0x22 \<or> e = CHR 0x5C then map_option (\<lambda>(b, r). (e # b, r)) (literal_body t) else None)
      else map_option (\<lambda>(b, r). (c # b, r)) (literal_body s))"

definition read_literal :: "string \<Rightarrow> (string \<times> string) option" where
  "read_literal s = (case s of [] \<Rightarrow> None | c # t \<Rightarrow> if c = CHR 0x22 then literal_body t else None)"

text \<open>The escape as one pass over the characters.\<close>

definition escape_once :: "string \<Rightarrow> string" where
  "escape_once s =
     concat (map (\<lambda>c. if c = CHR 0x5C then [CHR 0x5C, CHR 0x5C] else if c = CHR 0x22 then [CHR 0x5C, CHR 0x22] else [c]) s)"

lemma two_passes: "escapeCedarString s = escape_once s"
  by (induction s) (auto simp: replace_all_def escapeCedarString_def escape_once_def)

lemma literal_body_escape: "literal_body (escape_once s @ CHR 0x22 # rest) = Some (s, rest)"
  by (induction s) (auto simp: escape_once_def)

lemma quote_escape: "quoteString s = dq @ escapeCedarString s @ dq"
  by (simp add: quoteString_def escapeCedarString_def)

text \<open>C21: The two replacements with which the builder and the grants escape a string are one pass over its characters,
and the result is one literal: whatever text is quoted and whatever follows it, a reader of the literal gets exactly that
text and stops exactly there. No name, id or value typed into the builder can end its literal and add policy text of its
own.\<close>

theorem quoted_string_is_one_literal:
  "quoteString s = dq @ escapeCedarString s @ dq \<and> escapeCedarString s = escape_once s \<and>
   read_literal (quoteString s @ rest) = Some (s, rest)"
  by (simp add: quote_escape two_passes read_literal_def dq_def literal_body_escape)

subsection \<open>The way back\<close>

text \<open>The JSON form of a visual policy: the tree Cedar documents for each construct the builder has. That Cedar reads
the emitted text as this tree is not claimed here: its parser is not part of the sources.\<close>

definition path_expr :: "string \<Rightarrow> cedar_expr" where
  "path_expr path = (case split_on CHR ''.'' path of [] \<Rightarrow> Ex_other | h # ps \<Rightarrow> foldl Ex_dot (Ex_Var h) ps)"

fun literal_expr :: "ScalarLiteral \<Rightarrow> cedar_expr" where
  "literal_expr (Lit_str s) = Ex_Value (JStr s)"
| "literal_expr (Lit_num n) = Ex_Value (JNum n)"
| "literal_expr (Lit_bool b) = Ex_Value (JBool b)"

fun clause_expr :: "Clause \<Rightarrow> cedar_expr" where
  "clause_expr (Attr_eq p v) = Ex_eq (path_expr p) (literal_expr v)"
| "clause_expr (Attr_in p vs) = Ex_in (path_expr p) (Ex_Set (map literal_expr vs))"
| "clause_expr (Numeric_cmp op p n) = Ex_cmp op (path_expr p) (Ex_Value (JNum n))"
| "clause_expr (Time_window_hour p a b) =
     Ex_and (Ex_cmp op_ge (path_expr p) (Ex_Value (JNum a))) (Ex_cmp op_lt (path_expr p) (Ex_Value (JNum b)))"
| "clause_expr (Has_attr p) =
     (case split_on CHR ''.'' p of [h, a] \<Rightarrow> Ex_has (Ex_Var h) a | _ \<Rightarrow> Ex_other)"
| "clause_expr (Raw t) = Ex_other"

fun scope_form :: "ScopeConstraint \<Rightarrow> scope_json" where
  "scope_form Scope_all = S_All"
| "scope_form (Scope_eq e) = S_eq (Some e)"
| "scope_form (Scope_is t) = S_is t None"

fun action_form :: "ActionConstraint \<Rightarrow> scope_json" where
  "action_form Action_all = S_All"
| "action_form (Action_eq i) = S_eq (Some \<lparr>er_type = ''Action'', er_id = i\<rparr>)"
| "action_form (Action_in ids) = S_in_list (map (\<lambda>i. \<lparr>er_type = ''Action'', er_id = i\<rparr>) ids)"

definition policy_form :: "VisualPolicy \<Rightarrow> PolicyJson" where
  "policy_form p =
     \<lparr>pj_effect = (case vp_effect p of eff_permit \<Rightarrow> ''permit'' | eff_forbid \<Rightarrow> ''forbid''),
      pj_principal = scope_form (vp_principal p), pj_action = action_form (vp_action p),
      pj_resource = scope_form (vp_resource p),
      pj_conditions = map (\<lambda>(k, c). (case k of cond_when \<Rightarrow> ''when'' | cond_unless \<Rightarrow> ''unless'', clause_expr c))
        (vp_conditions p),
      pj_annotations = vp_annotations p\<rparr>"

text \<open>What the builder claims to support: entities with a type and an id, paths with a first component, presence
tests of one step, and no raw clause.\<close>

definition path_ok :: "string \<Rightarrow> bool" where
  "path_ok p \<longleftrightarrow> hd (split_on CHR ''.'' p) \<noteq> []"

fun scope_ok :: "ScopeConstraint \<Rightarrow> bool" where
  "scope_ok (Scope_eq e) \<longleftrightarrow> er_type e \<noteq> [] \<and> er_id e \<noteq> []"
| "scope_ok s \<longleftrightarrow> True"

fun action_ok :: "ActionConstraint \<Rightarrow> bool" where
  "action_ok (Action_eq i) \<longleftrightarrow> i \<noteq> []"
| "action_ok a \<longleftrightarrow> True"

fun clause_ok :: "Clause \<Rightarrow> bool" where
  "clause_ok (Attr_eq p v) \<longleftrightarrow> path_ok p"
| "clause_ok (Attr_in p vs) \<longleftrightarrow> path_ok p"
| "clause_ok (Numeric_cmp op p n) \<longleftrightarrow> path_ok p"
| "clause_ok (Time_window_hour p a b) \<longleftrightarrow> path_ok p"
| "clause_ok (Has_attr p) \<longleftrightarrow> path_ok p \<and> length (split_on CHR ''.'' p) = 2"
| "clause_ok (Raw t) \<longleftrightarrow> False"

definition representable :: "VisualPolicy \<Rightarrow> bool" where
  "representable p \<longleftrightarrow>
     scope_ok (vp_principal p) \<and> action_ok (vp_action p) \<and> scope_ok (vp_resource p) \<and>
     (\<forall>(k, c) \<in> set (vp_conditions p). clause_ok c)"

lemma split_on_Cons: obtains h ps where "split_on d s = h # ps"
  by (metis list.exhaust split_on_not_Nil)

lemma path_of_foldl:
  "pathFromExpr (foldl Ex_dot e ps) = map_option (\<lambda>left. join ''.'' (left # ps)) (pathFromExpr e)"
proof (induction ps arbitrary: e)
  case (Cons p ps)
  have "join ''.'' ((left @ ''.'' @ p) # ps) = join ''.'' (left # p # ps)" for left by (cases ps) simp_all
  then show ?case by (simp add: Cons.IH option.map_comp o_def)
qed (simp add: option.map_ident)

lemma path_back: "path_ok p \<Longrightarrow> pathFromExpr (path_expr p) = Some p"
proof -
  assume ok: "path_ok p"
  obtain h ps where s: "split_on CHR ''.'' p = h # ps" by (rule split_on_Cons)
  have "join ''.'' (h # ps) = p" using join_split_on [of "CHR ''.''" p] s by simp
  then show ?thesis using ok s by (simp add: path_expr_def path_of_foldl path_ok_def)
qed

lemma given_path_back: "path_ok p \<Longrightarrow> given_path (path_expr p) = Some p"
  by (auto simp: given_path_def path_back path_ok_def)

lemma literal_back: "literalFromExpr (literal_expr v) = Some v"
  by (cases v) simp_all

lemma literals_back: "literals (map literal_expr vs) = Some vs"
  by (induction vs) (simp_all add: literal_back)

lemma clause_back: "clause_ok c \<Longrightarrow> parseClause (clause_expr c) = c"
proof (cases c)
  case (Has_attr p)
  assume "clause_ok c"
  then obtain h a where s: "split_on CHR ''.'' p = [h, a]" and h: "h \<noteq> []"
    using Has_attr by (auto simp: path_ok_def length_Suc_conv numeral_2_eq_2)
  have "h @ ''.'' @ a = p" using join_split_on [of "CHR ''.''" p] s by simp
  then show ?thesis using Has_attr s h by simp
qed (simp_all add: given_path_back literal_back literals_back)

lemma scope_back: "scope_ok s \<Longrightarrow> parseScope (scope_form s) = Some s"
  by (cases s) (simp_all add: entityFromConstraint_def)

lemma action_back: "action_ok a \<Longrightarrow> parseAction (action_form a) = Some a"
  by (cases a) (simp_all add: entityFromConstraint_def o_def)

lemma conditions_back:
  "\<forall>(k, c) \<in> set cs. clause_ok c \<Longrightarrow>
     parseConditions (map (\<lambda>(k, c). (case k of cond_when \<Rightarrow> ''when'' | cond_unless \<Rightarrow> ''unless'', clause_expr c)) cs) = Some cs"
proof (induction cs)
  case (Cons kc cs)
  then show ?case by (cases "fst kc") (auto simp: clause_back split: prod.splits)
qed simp

text \<open>A policy in that form, with complete entities, named paths, presence tests of one step and no raw clause, is read
as the visual policy itself: effect, scopes, conditions and annotations, in the same order.\<close>

lemma policy_back:
  "representable p \<Longrightarrow> policyJsonToIr (policy_form p) i = Inr (p\<lparr>vp_id := i, vp_label := None\<rparr>)"
  by (cases "vp_effect p")
    (simp_all add: policyJsonToIr_def policy_form_def representable_def scope_back action_back conditions_back)

subsection \<open>What the way back loses\<close>

text \<open>A scope \<open>is T in e\<close> is read as \<open>is T\<close>: the group is dropped, and saving the policy widens it.\<close>

lemma is_in_loses_group: "parseScope (S_is t (Some e)) = Some (Scope_is t)"
  by simp

text \<open>A condition the builder does not know is not reported as too complex: the policy is listed, with a placeholder
in place of the condition.\<close>

lemma unknown_condition_listed:
  assumes "pj_effect j = ''permit''" "parseScope (pj_principal j) = Some p" "parseAction (pj_action j) = Some a"
    "parseScope (pj_resource j) = Some r" "pj_conditions j = [(''when'', Ex_other)]"
  shows "\<exists>v. policyJsonToIr j i = Inr v \<and> vp_conditions v = [(cond_when, see_cedar_tab)]"
  using assms by (simp add: policyJsonToIr_def)

end
