(* ===== verification/Bundles.thy ===== *)
theory Bundles
  imports Grants Regex Proxy_Gates
begin

text \<open>
  The policy feed from the control plane to a decision point: services/bundle.ts, services/revocations.ts and the
  feed routes of routes/internal.ts on one side, apps/pdp/src/control-plane/client.ts on the other.
  A response of the network is its status and text. The member \<open>signature\<close> of a bundle that is no text
  is refused here. The mode and status of an agent are written with the names of the database's enumerations.
\<close>

subsection \<open>bundle.ts: scoping of policies\<close>

text \<open>The heads of rules: white space, an optional annotation, the verb, white space, a parenthesis and the
  word principal. A reader gives what it has consumed and what is left.\<close>

type_synonym reader = "string \<Rightarrow> (string \<times> string) option"

definition r_spaces :: reader where
  "r_spaces s = (let r = skip_spaces s in Some (take (length s - length r) s, r))"

definition r_text :: "string \<Rightarrow> reader" where
  "r_text t s = (if startsWith s t then Some (t, drop (length t) s) else None)"

definition r_then :: "reader \<Rightarrow> reader \<Rightarrow> reader" where
  "r_then p q s =
     (case p s of
        None \<Rightarrow> None
      | Some (a, r) \<Rightarrow> (case q r of None \<Rightarrow> None | Some (b, r') \<Rightarrow> Some (a @ b, r')))"

definition r_many1 :: "(char \<Rightarrow> bool) \<Rightarrow> reader" where
  "r_many1 P s = (let w = takeWhile P s in if w = [] then None else Some (w, dropWhile P s))"

definition r_many :: "(char \<Rightarrow> bool) \<Rightarrow> reader" where
  "r_many P s = Some (takeWhile P s, dropWhile P s)"

definition r_or :: "reader \<Rightarrow> reader \<Rightarrow> reader" where
  "r_or p q s = (case p s of None \<Rightarrow> q s | Some x \<Rightarrow> Some x)"

definition r_annotation :: reader where
  "r_annotation =
     r_or (r_then (r_text ''@'') (r_then (r_many1 is_word) (r_then (r_text ''('')
             (r_then (r_many (\<lambda>c. c \<noteq> CHR '')'')) (r_then (r_text '')'') r_spaces)))))
       (\<lambda>s. Some ([], s))"

definition r_verb :: reader where
  "r_verb = r_or (r_text ''permit'') (r_text ''forbid'')"

definition r_open_principal :: reader where
  "r_open_principal = r_then (r_text ''('') (r_then r_spaces (r_then (r_text ''principal'') r_spaces))"

text \<open>\<open>^\<close> with the flag \<open>m\<close>: at the start and after a line terminator.\<close>

definition line_end :: "string \<Rightarrow> bool" where
  "line_end before \<longleftrightarrow>
     (case before of
        [] \<Rightarrow> True
      | _ \<Rightarrow> last before = CHR 0x0A \<or> last before = CHR 0x0D \<or>
             endsWith before [CHR 0xE2, CHR 0x80, CHR 0xA8] \<or> endsWith before [CHR 0xE2, CHR 0x80, CHR 0xA9])"

definition scoped_head :: reader where
  "scoped_head =
     r_then r_spaces (r_then r_annotation (r_then r_verb (r_then r_spaces (r_then r_open_principal
       (r_or (r_text ''=='') (r_or (r_text ''in'') (r_text ''is'')))))))"

fun HEAD_PRINCIPAL_from :: "string \<Rightarrow> string \<Rightarrow> bool" where
  "HEAD_PRINCIPAL_from before [] = False"
| "HEAD_PRINCIPAL_from before (c # s) =
     (line_end before \<and> scoped_head (c # s) \<noteq> None \<or> HEAD_PRINCIPAL_from (before @ [c]) s)"

definition HEAD_PRINCIPAL_test :: "string \<Rightarrow> bool" where
  "HEAD_PRINCIPAL_test t = HEAD_PRINCIPAL_from [] t"

text \<open>The groups of a bare head before its parenthesis, and the text after its comma.\<close>

definition bare_head :: reader where
  "bare_head s =
     (case r_then r_spaces (r_then r_annotation (r_then r_verb r_spaces)) s of
        None \<Rightarrow> None
      | Some (groups, r) \<Rightarrow>
          (case r_then r_open_principal (r_text '','') r of None \<Rightarrow> None | Some (_, r') \<Rightarrow> Some (groups, r')))"

text \<open>The global replacement: matches from left to right; a match is never empty. The fuel is the length.\<close>

fun scope_from :: "string \<Rightarrow> nat \<Rightarrow> string \<Rightarrow> string \<Rightarrow> string" where
  "scope_from head 0 before s = s"
| "scope_from head (Suc n) before [] = []"
| "scope_from head (Suc n) before (c # s) =
     (if line_end before then
        (case bare_head (c # s) of
           Some (groups, r) \<Rightarrow> groups @ head @ scope_from head n (before @ take (length (c # s) - length r) (c # s)) r
         | None \<Rightarrow> c # scope_from head n (before @ [c]) s)
      else c # scope_from head n (before @ [c]) s)"

definition scoped_principal :: "string \<Rightarrow> string" where
  "scoped_principal did = ''('' @ nl @ ''  principal == Agent::'' @ dq @ escapeCedarString did @ dq @ '',''"

definition scope_to :: "string \<Rightarrow> string \<Rightarrow> string" where
  "scope_to cedarText did =
     ''// scoped to Agent::'' @ did @ nl @ scope_from (scoped_principal did) (length cedarText) [] cedarText"

definition scopeCedarToAgents :: "string \<Rightarrow> string list \<Rightarrow> string" where
  "scopeCedarToAgents cedarText dids =
     (if dids = [] then []
      else if HEAD_PRINCIPAL_test cedarText then cedarText
      else join (nl @ nl) (map (scope_to cedarText) dids))"

subsection \<open>bundle.ts: generation\<close>

record BundlePolicy =
  bp_id :: string
  bp_name :: string
  bp_integrationId :: "string option"
  bp_cedarText :: string
  bp_version :: int

record BundleBody =
  bb_customer_id :: string
  bb_version :: int
  bb_generated_at :: string
  bb_policies :: "BundlePolicy list"
  bb_agents :: "AgentMeta list"
  bb_schema_hash :: string

record SignedBundle =
  sb_bundle :: BundleBody
  sb_signature :: string
  sb_signerDid :: string

definition json_or_null :: "string option \<Rightarrow> json" where
  "json_or_null v = (case v of None \<Rightarrow> JNull | Some s \<Rightarrow> JStr s)"

fun mode_text :: "AgentMode \<Rightarrow> string" where
  "mode_text mode_static = ''static''"
| "mode_text mode_dynamic = ''dynamic''"

fun status_text :: "AgentStatus \<Rightarrow> string" where
  "status_text status_active = ''active''"
| "status_text status_disabled = ''disabled''"
| "status_text status_deleted = ''deleted''"

definition agent_json :: "AgentMeta \<Rightarrow> json" where
  "agent_json a =
     JObj [(''agentId'', JStr (am_agentId a)), (''did'', JStr (am_did a)), (''mode'', JStr (mode_text (am_mode a))),
           (''status'', JStr (status_text (am_status a))),
           (''connectionApprovedAt'', json_or_null (am_connectionApprovedAt a))]"

definition policy_json :: "BundlePolicy \<Rightarrow> json" where
  "policy_json p =
     JObj [(''id'', JStr (bp_id p)), (''name'', JStr (bp_name p)), (''integrationId'', json_or_null (bp_integrationId p)),
           (''cedarText'', JStr (bp_cedarText p)), (''version'', JNum (JInt (bp_version p)))]"

definition bundle_json :: "BundleBody \<Rightarrow> json" where
  "bundle_json b =
     JObj [(''customer_id'', JStr (bb_customer_id b)), (''version'', JNum (JInt (bb_version b))),
           (''generated_at'', JStr (bb_generated_at b)), (''policies'', JArr (map policy_json (bb_policies b))),
           (''agents'', JArr (map agent_json (bb_agents b))), (''schema_hash'', JStr (bb_schema_hash b))]"

definition signed_json :: "SignedBundle \<Rightarrow> json" where
  "signed_json sb =
     JObj [(''bundle'', bundle_json (sb_bundle sb)), (''signature'', JStr (sb_signature sb)), (''signerDid'', JStr (sb_signerDid sb))]"

text \<open>The agents a policy is mapped to: the join of \<open>agent_policies\<close> with the agents not deleted.\<close>

definition mapped_dids :: "Database \<Rightarrow> string \<Rightarrow> string \<Rightarrow> string list" where
  "mapped_dids db customerId policyId =
     concat (map (\<lambda>r. map ag_did (filter (\<lambda>a. ag_id a = ap_agentId r \<and> ag_status a \<noteq> status_deleted) (db_agents db)))
       (filter (\<lambda>r. ap_customerId r = customerId \<and> ap_policyId r = policyId) (db_agentPolicies db)))"

definition mapped_policies :: "Database \<Rightarrow> string \<Rightarrow> BundlePolicy list" where
  "mapped_policies db customerId =
     map (\<lambda>p. \<lparr>bp_id = po_id p, bp_name = po_name p, bp_integrationId = po_integrationId p,
              bp_cedarText = scopeCedarToAgents (po_cedarText p) (mapped_dids db customerId (po_id p)), bp_version = po_version p\<rparr>)
       (filter (\<lambda>p. po_customerId p = customerId \<and> mapped_dids db customerId (po_id p) \<noteq> []) (db_policies db))"

definition block_policy :: "string \<Rightarrow> string \<Rightarrow> string \<Rightarrow> BundlePolicy list" where
  "block_policy i name block =
     (if block = [] then []
      else [\<lparr>bp_id = i, bp_name = name, bp_integrationId = None, bp_cedarText = block, bp_version = 1\<rparr>])"

definition bundle_policies :: "Database \<Rightarrow> string \<Rightarrow> BundlePolicy list" where
  "bundle_policies db customerId =
     mapped_policies db customerId @
     block_policy (''dynamic-grants:'' @ customerId) ''Dynamic agent grants''
       (renderGrantsBlock (loadActiveGrantsForCustomer db customerId)) @
     block_policy (''stepup-baseline:'' @ customerId) ''Step-up baseline''
       (renderStepUpBaseline (loadStepUpAgentsForCustomer db customerId))"

definition bundle_agents :: "Database \<Rightarrow> string \<Rightarrow> AgentMeta list" where
  "bundle_agents db customerId =
     map (\<lambda>a. \<lparr>am_agentId = ag_id a, am_did = ag_did a, am_mode = ag_mode a, am_status = ag_status a,
              am_connectionApprovedAt = ag_connectionApprovedAt a\<rparr>)
       (filter (\<lambda>a. ag_customerId a = customerId) (db_agents db))"

definition bundle_body :: "env \<Rightarrow> string \<Rightarrow> Database \<Rightarrow> string \<Rightarrow> (exn, BundleBody) result" where
  "bundle_body E generatedAt db customerId =
     rbind (lift_canon (canonicalize (e_nfc E) (JObj [(''schemas'', JArr [])]))) (\<lambda>schemas.
       Inr \<lparr>bb_customer_id = customerId, bb_version = 1, bb_generated_at = generatedAt,
            bb_policies = bundle_policies db customerId, bb_agents = bundle_agents db customerId,
            bb_schema_hash = sha256Hex E schemas\<rparr>)"

definition generateBundle ::
  "env \<Rightarrow> string \<Rightarrow> string \<Rightarrow> string \<Rightarrow> Database \<Rightarrow> string \<Rightarrow> (exn, SignedBundle) result" where
  "generateBundle E signKey signerDid generatedAt db customerId =
     rbind (bundle_body E generatedAt db customerId) (\<lambda>b.
     rbind (lift_canon (canonicalize (e_nfc E) (bundle_json b))) (\<lambda>text.
     rbind (signDetached E signKey text) (\<lambda>sig.
       Inr \<lparr>sb_bundle = b, sb_signature = bytesToBase64url sig, sb_signerDid = signerDid\<rparr>)))"

subsection \<open>revocations.ts and the feed routes\<close>

definition fetchRevokedCids :: "Database \<Rightarrow> string \<Rightarrow> string list" where
  "fetchRevokedCids db customerId = map rv_cid (filter (\<lambda>r. rv_customerId r = customerId) (db_revocations db))"

definition bundle_route :: "env \<Rightarrow> string \<Rightarrow> string \<Rightarrow> string \<Rightarrow> Database \<Rightarrow> string \<Rightarrow> (exn, string) result" where
  "bundle_route E signKey signerDid generatedAt db customerId =
     rbind (generateBundle E signKey signerDid generatedAt db customerId) (\<lambda>sb. Inr (render (signed_json sb)))"

definition revocations_route :: "Database \<Rightarrow> string \<Rightarrow> string" where
  "revocations_route db customerId =
     render (JObj [(''customer_id'', JStr customerId), (''revoked'', JArr (map JStr (fetchRevokedCids db customerId)))])"

subsection \<open>client.ts: bundles and revocations\<close>

record feed_response =
  fr_status :: int
  fr_text :: string

definition fr_ok :: "feed_response \<Rightarrow> bool" where
  "fr_ok res \<longleftrightarrow> 200 \<le> fr_status res \<and> fr_status res \<le> 299"

text \<open>A property of a parsed body; null has none.\<close>

fun js_prop :: "json \<Rightarrow> string \<Rightarrow> (exn, json) result" where
  "js_prop JNull k = Inl TypeError"
| "js_prop JUndef k = Inl TypeError"
| "js_prop (JObj ob) k = Inr (jget ob k)"
| "js_prop v k = Inr JUndef"

definition js_array :: "json \<Rightarrow> (exn, json list) result" where
  "js_array v = (case v of JArr vs \<Rightarrow> Inr vs | _ \<Rightarrow> Inl TypeError)"

text \<open>An item of \<open>Array.join\<close>.\<close>

definition join_item :: "json \<Rightarrow> string" where
  "join_item v = (if v = JUndef \<or> v = JNull then [] else js_String v)"

definition agent_members :: "string list" where
  "agent_members = [''agentId'', ''did'', ''mode'', ''status'', ''connectionApprovedAt'']"

definition agent_dto :: "json \<Rightarrow> (exn, json) result" where
  "agent_dto a =
     rbind (rsequence (map (\<lambda>k. rbind (js_prop a k) (\<lambda>v. Inr (k, v))) agent_members)) (\<lambda>ms. Inr (JObj ms))"

record FetchedBundle =
  fb_cedar :: string
  fb_agents :: "json list"

definition verified :: "env \<Rightarrow> string option \<Rightarrow> json \<Rightarrow> (exn, unit) result" where
  "verified E verifyKey body =
     (case verifyKey of
        None \<Rightarrow> Inr ()
      | Some key \<Rightarrow>
          rbind (js_prop body ''signature'') (\<lambda>s.
          rbind (case s of JStr t \<Rightarrow> Inr (base64urlToBytes t) | _ \<Rightarrow> Inl TypeError) (\<lambda>sig.
          rbind (js_prop body ''bundle'') (\<lambda>b.
          rbind (lift_canon (canonicalize (e_nfc E) b)) (\<lambda>text.
            if verifyDetached E key text sig then Inr () else Inl FetchError)))))"

definition read_bundle :: "string \<Rightarrow> json \<Rightarrow> (exn, FetchedBundle) result" where
  "read_bundle customerId body =
     rbind (js_prop body ''bundle'') (\<lambda>b.
     rbind (js_prop b ''customer_id'') (\<lambda>c.
     if c \<noteq> JStr customerId then Inl FetchError
     else
       rbind (js_prop b ''policies'') (\<lambda>ps.
       rbind (js_array ps) (\<lambda>ps.
       rbind (rsequence (map (\<lambda>p. js_prop p ''cedarText'') ps)) (\<lambda>texts.
       rbind (js_prop b ''agents'') (\<lambda>as.
       rbind (if as = JUndef \<or> as = JNull then Inr [] else js_array as) (\<lambda>as.
       rbind (rsequence (map agent_dto as)) (\<lambda>agents.
         Inr \<lparr>fb_cedar = join (nl @ nl) (map join_item texts), fb_agents = agents\<rparr>))))))))"

definition fetchBundle :: "env \<Rightarrow> string option \<Rightarrow> string \<Rightarrow> feed_response \<Rightarrow> (exn, FetchedBundle) result" where
  "fetchBundle E verifyKey customerId res =
     (if \<not> fr_ok res then Inl FetchError
      else case JSON_parse (e_nd E) (fr_text res) of
          None \<Rightarrow> Inl FetchError
        | Some body \<Rightarrow> rbind (verified E verifyKey body) (\<lambda>_. read_bundle customerId body))"

text \<open>\<open>revoked\<close> as it is in the body; None stands for an absent member.\<close>

definition fetchRevocations :: "env \<Rightarrow> feed_response \<Rightarrow> (exn, json option) result" where
  "fetchRevocations E res =
     (if \<not> fr_ok res then Inl FetchError
      else case JSON_parse (e_nd E) (fr_text res) of
          None \<Rightarrow> Inl FetchError
        | Some body \<Rightarrow> rbind (js_prop body ''revoked'') (\<lambda>v. Inr (if v = JUndef then None else Some v)))"

definition fetchCustomerIds :: "env \<Rightarrow> feed_response \<Rightarrow> (exn, json list) result" where
  "fetchCustomerIds E res =
     (if \<not> fr_ok res then Inl FetchError
      else case JSON_parse (e_nd E) (fr_text res) of
          None \<Rightarrow> Inl FetchError
        | Some body \<Rightarrow>
            rbind (js_prop body ''customers'') (\<lambda>cs.
            rbind (if cs = JUndef \<or> cs = JNull then Inr [] else js_array cs) (\<lambda>cs.
              rsequence (map (\<lambda>c. js_prop c ''id'') cs))))"

text \<open>What the typed caches take from a fetched bundle.\<close>

definition meta_of_json :: "json \<Rightarrow> AgentMeta option" where
  "meta_of_json v =
     (case as_obj v of
        None \<Rightarrow> None
      | Some ob \<Rightarrow>
          (case (as_string (jget ob ''agentId''), as_string (jget ob ''did''), as_string (jget ob ''mode''),
                 as_string (jget ob ''status''), jget ob ''connectionApprovedAt'') of
             (Some i, Some d, Some m, Some s, at) \<Rightarrow>
               (case (map_of [(''static'', mode_static), (''dynamic'', mode_dynamic)] m,
                      map_of [(''active'', status_active), (''disabled'', status_disabled), (''deleted'', status_deleted)] s,
                      (case at of JNull \<Rightarrow> Some None | JStr t \<Rightarrow> Some (Some t) | _ \<Rightarrow> None)) of
                  (Some m', Some s', Some at') \<Rightarrow>
                    Some \<lparr>am_agentId = i, am_did = d, am_mode = m', am_status = s', am_connectionApprovedAt = at'\<rparr>
                | _ \<Rightarrow> None)
           | _ \<Rightarrow> None))"

end
