(* ===== verification/Bundle_Properties.thy ===== *)
theory Bundle_Properties
  imports Bundles Demo_Console
begin

text \<open>
  The policy feed end to end: what a decision point reads is what the control plane signed, a customer's feed
  depends on the customer's rows only, and the texts the scoping of policies leaves open to every agent.
\<close>

subsection \<open>From the tables to the cache\<close>

lemma js_prop_obj [simp]: "js_prop (JObj ob) k = Inr (jget ob k)"
  by simp

lemma plain_json_or_null [simp]: "plain_json nd (json_or_null v)"
  by (cases v) (simp_all add: json_or_null_def)

lemma plain_agent_json: "plain_json nd (agent_json a)"
  by (simp add: agent_json_def distinct_keys_def)

lemma plain_policy_json: "plain_json nd (policy_json p) \<longleftrightarrow> \<bar>bp_version p\<bar> \<le> max_exact"
  by (simp add: policy_json_def distinct_keys_def)

lemma plain_bundle_json:
  "\<bar>bb_version b\<bar> \<le> max_exact \<Longrightarrow> (\<And>p. p \<in> set (bb_policies b) \<Longrightarrow> \<bar>bp_version p\<bar> \<le> max_exact) \<Longrightarrow> plain_json nd (bundle_json b)"
  by (auto simp: bundle_json_def distinct_keys_def plain_agent_json plain_policy_json)

lemma agent_dto_json: "agent_dto (agent_json a) = Inr (agent_json a)"
  by (simp add: agent_dto_def agent_members_def agent_json_def jget_def)

lemma meta_of_agent_json: "meta_of_json (agent_json a) = Some a"
proof -
  have "(case json_or_null v of JNull \<Rightarrow> Some None | JStr t \<Rightarrow> Some (Some t) | _ \<Rightarrow> None) = Some v" for v
    by (cases v) (simp_all add: json_or_null_def)
  then show ?thesis
    by (cases "am_mode a"; cases "am_status a") (simp_all add: meta_of_json_def agent_json_def jget_def)
qed

lemma policy_text_json: "js_prop (policy_json p) ''cedarText'' = Inr (JStr (bp_cedarText p))"
  by (simp add: policy_json_def jget_def)

lemma read_bundle_json:
  "read_bundle c (signed_json sb) =
     (if bb_customer_id (sb_bundle sb) = c
      then Inr \<lparr>fb_cedar = join (nl @ nl) (map bp_cedarText (bb_policies (sb_bundle sb))), fb_agents = map agent_json (bb_agents (sb_bundle sb))\<rparr>
      else Inl FetchError)"
  by (simp add: read_bundle_def signed_json_def bundle_json_def jget_def js_array_def comp_def policy_text_json agent_dto_json
      join_item_def)

lemma bundle_policies_version:
  assumes "\<And>p. p \<in> set (db_policies db) \<Longrightarrow> \<bar>po_version p\<bar> \<le> max_exact" "p \<in> set (bundle_policies db c)"
  shows "\<bar>bp_version p\<bar> \<le> max_exact"
  using assms by (auto simp: bundle_policies_def mapped_policies_def block_policy_def max_exact_def split: if_splits)

lemma serialisable_bundle: "serialisable (bundle_json b)"
  by (auto simp: bundle_json_def policy_json_def agent_json_def json_or_null_def split: option.splits)

lemma bundle_route_total:
  assumes "length signKey = 32"
  shows "\<exists>text. bundle_route E signKey did at db c = Inr text"
proof -
  have ok: "\<exists>t. canonicalize (e_nfc E) v = Inr t" if "serialisable v" for v
    using canonicalize_ok [OF that] by (simp only: is_ok_iff)
  from ok [of "JObj [(''schemas'', JArr [])]"] obtain s where "canonicalize (e_nfc E) (JObj [(''schemas'', JArr [])]) = Inr s" by auto
  then obtain b where b: "bundle_body E at db c = Inr b" by (simp add: bundle_body_def lift_canon_def del: canonicalize.simps)
  from ok [OF serialisable_bundle] obtain t where "canonicalize (e_nfc E) (bundle_json b) = Inr t" by blast
  with assms show ?thesis by (simp add: bundle_route_def generateBundle_def b signDetached_def lift_canon_def)
qed

text \<open>C17: a decision point that holds the verify key reads from the control plane's answer exactly the
  policy texts and the agents of the tables, and refuses the same answer as that of any other customer.\<close>

theorem bundle_reaches_the_cache:
  assumes "crypto_laws E" "bundle_route E signKey did at db c = Inr text"
    and "\<And>p. p \<in> set (db_policies db) \<Longrightarrow> \<bar>po_version p\<bar> \<le> max_exact"
  shows "\<exists>fb. fetchBundle E (Some (noble_getPublicKey E signKey)) c \<lparr>fr_status = 200, fr_text = text\<rparr> = Inr fb \<and>
    fb_cedar fb = join (nl @ nl) (map bp_cedarText (bundle_policies db c)) \<and>
    map meta_of_json (fb_agents fb) = map Some (bundle_agents db c) \<and>
    (\<forall>c'. c' \<noteq> c \<longrightarrow>
      fetchBundle E (Some (noble_getPublicKey E signKey)) c' \<lparr>fr_status = 200, fr_text = text\<rparr> = Inl FetchError)"
proof -
  from assms(2) obtain sb b canon sig where sb: "text = render (signed_json sb)" "sb_bundle sb = b"
      "canonicalize (e_nfc E) (bundle_json b) = Inr canon" "signDetached E signKey canon = Inr sig"
      "sb_signature sb = bytesToBase64url sig" and b: "bundle_body E at db c = Inr b"
    by (auto simp: bundle_route_def generateBundle_def rbind_Inr_iff)
  from b have body: "bb_customer_id b = c" "bb_version b = 1" "bb_policies b = bundle_policies db c" "bb_agents b = bundle_agents db c"
    by (auto simp: bundle_body_def rbind_Inr_iff)
  have "plain_json (e_nd E) (bundle_json b)"
    by (rule plain_bundle_json) (use bundle_policies_version [OF assms(3)] in \<open>auto simp: body max_exact_def\<close>)
  then have "plain_json (e_nd E) (signed_json sb)" by (simp add: signed_json_def sb(2) distinct_keys_def)
  from JSON_parse_render [OF this] have parsed: "JSON_parse (e_nd E) text = Some (signed_json sb)" by (simp add: sb(1))
  have "verified E (Some (noble_getPublicKey E signKey)) (signed_json sb) = Inr ()"
    using verify_own_signature [OF assms(1) sb(4)] sb(2,3,5)
    by (simp add: verified_def signed_json_def jget_def base64url_roundtrip lift_canon_def)
  then have "fetchBundle E (Some (noble_getPublicKey E signKey)) c' \<lparr>fr_status = 200, fr_text = text\<rparr> = read_bundle c' (signed_json sb)" for c'
    by (simp add: fetchBundle_def fr_ok_def parsed)
  then show ?thesis by (simp add: read_bundle_json sb(2) body comp_def meta_of_agent_json)
qed

subsection \<open>Whose rows a feed depends on\<close>

text \<open>The rows a customer's feed is computed from: its own rows, and the agents that its own policy mappings and
  active grants name. The joins of bundle.ts and render-cedar.ts go by the agent's id and do not compare the
  agent's customer, so such an agent may be another tenant's.\<close>

definition named_agents :: "Database \<Rightarrow> string \<Rightarrow> AgentRow list" where
  "named_agents db c =
     filter (\<lambda>a. list_ex (\<lambda>r. ap_customerId r = c \<and> ap_agentId r = ag_id a) (db_agentPolicies db) \<or>
                 list_ex (\<lambda>g. gt_customerId g = c \<and> gt_revokedAt g = None \<and> gt_agentId g = ag_id a) (db_grants db))
       (db_agents db)"

definition feed_rows ::
  "Database \<Rightarrow> string \<Rightarrow> AgentRow list \<times> AgentRow list \<times> PolicyRow list \<times> AgentPolicyRow list \<times> GrantTableRow list \<times> RevocationRow list" where
  "feed_rows db c =
     (filter (\<lambda>a. ag_customerId a = c) (db_agents db), named_agents db c,
      filter (\<lambda>p. po_customerId p = c) (db_policies db), filter (\<lambda>r. ap_customerId r = c) (db_agentPolicies db),
      filter (\<lambda>g. gt_customerId g = c \<and> gt_revokedAt g = None) (db_grants db),
      filter (\<lambda>r. rv_customerId r = c) (db_revocations db))"

lemma filter_within: "(\<And>x. x \<in> set xs \<Longrightarrow> Q x \<Longrightarrow> P x) \<Longrightarrow> filter Q xs = filter Q (filter P xs)"
  by (induction xs) auto

lemma mapped_dids_rows:
  "mapped_dids db c p =
    concat (map (\<lambda>r. map ag_did (filter (\<lambda>a. ag_id a = ap_agentId r \<and> ag_status a \<noteq> status_deleted) (named_agents db c)))
      (filter (\<lambda>r. ap_policyId r = p) (filter (\<lambda>r. ap_customerId r = c) (db_agentPolicies db))))"
proof -
  have "filter (\<lambda>a. ag_id a = ap_agentId r \<and> ag_status a \<noteq> status_deleted) (db_agents db) =
      filter (\<lambda>a. ag_id a = ap_agentId r \<and> ag_status a \<noteq> status_deleted) (named_agents db c)"
    if "r \<in> set (db_agentPolicies db)" "ap_customerId r = c" for r
    using that unfolding named_agents_def by (intro filter_within) (auto simp: list_ex_iff)
  then show ?thesis by (auto simp: mapped_dids_def conj_commute intro!: arg_cong [where f = concat] map_cong)
qed

lemma active_grants_rows:
  "loadActiveGrantsForCustomer db c =
    concat (map (\<lambda>g. map (\<lambda>a. \<lparr>gr_agentDid = ag_did a, gr_command = gt_command g, gr_resourcePattern = gt_resourcePattern g,
                            gr_scope = gt_scope g, gr_decision = gt_decision g, gr_cedarSnippet = gt_cedarSnippet g\<rparr>)
                     (filter (\<lambda>a. ag_id a = gt_agentId g) (named_agents db c)))
      (filter (\<lambda>g. gt_customerId g = c \<and> gt_revokedAt g = None) (db_grants db)))"
proof -
  have "filter (\<lambda>a. ag_id a = gt_agentId g) (db_agents db) = filter (\<lambda>a. ag_id a = gt_agentId g) (named_agents db c)"
    if "g \<in> set (db_grants db)" "gt_customerId g = c" "gt_revokedAt g = None" for g
    using that unfolding named_agents_def by (intro filter_within) (auto simp: list_ex_iff)
  then show ?thesis
    by (auto simp: loadActiveGrantsForCustomer_def conj_commute intro!: arg_cong [where f = concat] map_cong)
qed

lemma mapped_policies_rows:
  "mapped_policies db c =
     map (\<lambda>p. \<lparr>bp_id = po_id p, bp_name = po_name p, bp_integrationId = po_integrationId p,
              bp_cedarText = scopeCedarToAgents (po_cedarText p) (mapped_dids db c (po_id p)), bp_version = po_version p\<rparr>)
       (filter (\<lambda>p. mapped_dids db c (po_id p) \<noteq> []) (filter (\<lambda>p. po_customerId p = c) (db_policies db)))"
  by (simp add: mapped_policies_def conj_commute)

lemma stepup_agents_rows:
  "loadStepUpAgentsForCustomer db c = map ag_did (filter ag_stepUpOnDeny (filter (\<lambda>a. ag_customerId a = c) (db_agents db)))"
  by (simp add: loadStepUpAgentsForCustomer_def conj_commute)

text \<open>C18: What a customer's decision point is fed, policies, agents and revocations, depends on that customer's own
  agents, policies, policy mappings, active grants and revocations, and on the agents its own mappings and grants
  name. Nothing else another tenant writes changes it.\<close>

theorem feed_depends_on_own_rows:
  assumes "feed_rows db1 c = feed_rows db2 c"
  shows "bundle_route E signKey did at db1 c = bundle_route E signKey did at db2 c \<and>
    revocations_route db1 c = revocations_route db2 c"
proof -
  note rows = assms [unfolded feed_rows_def prod.inject]
  have "mapped_dids db1 c p = mapped_dids db2 c p" for p using rows by (simp only: mapped_dids_rows)
  moreover have "loadActiveGrantsForCustomer db1 c = loadActiveGrantsForCustomer db2 c"
    using rows by (simp only: active_grants_rows)
  moreover have "loadStepUpAgentsForCustomer db1 c = loadStepUpAgentsForCustomer db2 c"
    using rows by (simp only: stepup_agents_rows)
  ultimately have "bundle_policies db1 c = bundle_policies db2 c"
    using rows by (simp only: bundle_policies_def mapped_policies_rows)
  moreover have "bundle_agents db1 c = bundle_agents db2 c" "fetchRevokedCids db1 c = fetchRevokedCids db2 c"
    using rows by (simp_all add: bundle_agents_def fetchRevokedCids_def)
  ultimately show ?thesis by (simp add: bundle_route_def generateBundle_def bundle_body_def revocations_route_def)
qed

subsection \<open>A concrete feed\<close>

definition feed_db :: Database where
  "feed_db = demo_db
     \<lparr>db_agents := [console_agent_row], db_grants := [], db_revocations := [],
      db_policies := [\<lparr>po_id = ''p'', po_customerId = ''c1'', po_integrationId = None, po_name = ''n'',
                       po_cedarText = ''permit (principal, action, resource);'', po_version = 3\<rparr>],
      db_agentPolicies := [\<lparr>ap_customerId = ''c1'', ap_agentId = ag_id console_agent_row, ap_policyId = ''p'',
                            ap_source = source_manual, ap_createdBy = None\<rparr>]\<rparr>"

definition feed_key :: string where "feed_key = replicate 32 (CHR ''k'')"

theorem bundle_reaches_the_cache_witness:
  "\<exists>text fb. bundle_route demo_env feed_key ''cp'' ''t'' feed_db ''c1'' = Inr text \<and>
     fetchBundle demo_env (Some (noble_getPublicKey demo_env feed_key)) ''c1'' \<lparr>fr_status = 200, fr_text = text\<rparr> = Inr fb \<and>
     bundle_policies feed_db ''c1'' \<noteq> [] \<and> map meta_of_json (fb_agents fb) = map Some (bundle_agents feed_db ''c1'')"
proof -
  have "length feed_key = 32" by (simp add: feed_key_def)
  then obtain wire where t: "bundle_route demo_env feed_key ''cp'' ''t'' feed_db ''c1'' = Inr wire"
    using bundle_route_total by blast
  have "\<bar>po_version p\<bar> \<le> max_exact" if "p \<in> set (db_policies feed_db)" for p
    using that by (simp add: feed_db_def max_exact_def)
  moreover have "bundle_policies feed_db ''c1'' \<noteq> []"
    by (simp add: bundle_policies_def mapped_policies_def mapped_dids_def feed_db_def console_agent_row_def demo_agent_row_def)
  ultimately show ?thesis using bundle_reaches_the_cache [OF demo_laws t] t by blast
qed

definition other_policy :: PolicyRow where
  "other_policy = \<lparr>po_id = ''q'', po_customerId = ''c2'', po_integrationId = None, po_name = ''m'',
                   po_cedarText = ''permit (principal, action, resource);'', po_version = 1\<rparr>"

theorem feed_depends_on_own_rows_witness:
  "bundle_route demo_env feed_key ''cp'' ''t'' (feed_db\<lparr>db_policies := other_policy # db_policies feed_db\<rparr>) ''c1'' =
     bundle_route demo_env feed_key ''cp'' ''t'' feed_db ''c1''"
proof -
  have "feed_rows (feed_db\<lparr>db_policies := other_policy # db_policies feed_db\<rparr>) ''c1'' = feed_rows feed_db ''c1''"
    by (simp add: feed_rows_def named_agents_def other_policy_def)
  then show ?thesis using feed_depends_on_own_rows by blast
qed

subsection \<open>Policies left open\<close>

text \<open>A rule that does not start a line is not scoped, nor is a bare rule in a text with a scoped one, nor a
  rule behind two annotations: it reaches the bundle applying to every agent of the customer.\<close>

theorem second_rule_on_a_line_is_unscoped:
  "scopeCedarToAgents ''permit (principal, action, resource); forbid (principal, action, resource);'' [''a''] =
     ''// scoped to Agent::a'' @ nl @ ''permit ('' @ nl @ ''  principal == Agent::'' @ dq @ ''a'' @ dq @
     '', action, resource); forbid (principal, action, resource);''"
  by code_simp

theorem bare_rule_beside_a_scoped_one:
  "scopeCedarToAgents (''forbid (principal == Agent::x, action, resource);'' @ nl @ ''permit (principal, action, resource);'') [''a''] =
     ''forbid (principal == Agent::x, action, resource);'' @ nl @ ''permit (principal, action, resource);''"
  by code_simp

theorem two_annotations_are_unscoped:
  "scopeCedarToAgents ''@id(1) @tag(2) permit (principal, action, resource);'' [''a''] =
     ''// scoped to Agent::a'' @ nl @ ''@id(1) @tag(2) permit (principal, action, resource);''"
  by code_simp

end
