(* ===== verification/Redact.thy ===== *)
theory Redact
  imports Regex Crypto
begin

text \<open>
  packages/redaction/src/index.ts: the scrubber of prompt text. Its expressions have alternatives, optional and
  counted groups and a lookbehind, so an expression is the list of the ends of its matches at a position,
  in the order the backtracking engine tries them; the first is the match. All classes but white space are about
  ASCII characters.
\<close>

type_synonym rx = "string \<Rightarrow> nat \<Rightarrow> nat list"

definition rx_seq :: "rx list \<Rightarrow> rx" where
  "rx_seq rs s i = foldl (\<lambda>ends r. concat (map (r s) ends)) [i] rs"

definition rx_alt :: "rx list \<Rightarrow> rx" where
  "rx_alt rs s i = concat (map (\<lambda>r. r s i) rs)"

definition rx_opt :: "rx \<Rightarrow> rx" where
  "rx_opt r s i = r s i @ [i]"

definition rx_class :: "(char \<Rightarrow> bool) \<Rightarrow> rx" where
  "rx_class P s i = (if i < length s \<and> P (s ! i) then [Suc i] else [])"

definition rx_lit :: "string \<Rightarrow> rx" where
  "rx_lit t s i = (if startsWith (drop i s) t then [i + length t] else [])"

text \<open>A class repeated at least \<open>n\<close> times, as often as possible.\<close>

definition rx_many :: "(char \<Rightarrow> bool) \<Rightarrow> nat \<Rightarrow> rx" where
  "rx_many P n s i = (let run = length (takeWhile P (drop i s)) in map (\<lambda>k. i + k) (rev [n..<Suc run]))"

text \<open>A group repeated between \<open>n\<close> and \<open>n + m\<close> times.\<close>

fun rx_upto :: "nat \<Rightarrow> rx \<Rightarrow> rx" where
  "rx_upto 0 r s i = [i]"
| "rx_upto (Suc m) r s i = concat (map (rx_upto m r s) (r s i)) @ [i]"

definition rx_between :: "nat \<Rightarrow> nat \<Rightarrow> rx \<Rightarrow> rx" where
  "rx_between n m r = rx_seq (replicate n r @ [rx_upto m r])"

definition rx_edge :: rx where
  "rx_edge s i = (if boundary s i then [i] else [])"

definition rx_space :: rx where
  "rx_space s i = (let n = space_length (drop i s) in if n = 0 then [] else [i + n])"

definition rx_spaces :: rx where
  "rx_spaces s i = (let j = length s - length (skip_spaces (drop i s)) in if i < j then [j] else [])"

definition rx_not_after :: "(char \<Rightarrow> bool) \<Rightarrow> rx" where
  "rx_not_after P s i = (if i > 0 \<and> i \<le> length s \<and> P (s ! (i - 1)) then [] else [i])"

definition rx_match :: "rx \<Rightarrow> string \<Rightarrow> nat \<Rightarrow> nat option" where
  "rx_match r s i = (case r s i of [] \<Rightarrow> None | j # _ \<Rightarrow> Some j)"

subsection \<open>The patterns\<close>

datatype RedactClass = bearer_token | credit_card | ssn | email | phone

fun class_text :: "RedactClass \<Rightarrow> string" where
  "class_text bearer_token = ''bearer_token''"
| "class_text credit_card = ''credit_card''"
| "class_text ssn = ''ssn''"
| "class_text email = ''email''"
| "class_text phone = ''phone''"

definition upper_or_digit :: "char \<Rightarrow> bool" where
  "upper_or_digit c \<longleftrightarrow> is_upper c \<or> is_digit c"

definition is_letter :: "char \<Rightarrow> bool" where
  "is_letter c \<longleftrightarrow> is_upper c \<or> is_lower c"

definition bearer_rx :: rx where
  "bearer_rx =
     rx_alt
      [rx_seq [rx_opt (rx_seq [rx_lit ''Bearer'', rx_spaces]), rx_lit ''eyJ'', rx_many dash_word 10, rx_lit ''.'',
               rx_many dash_word 10, rx_lit ''.'', rx_many dash_word 1],
       rx_seq [rx_lit ''sk_'', rx_alt [rx_lit ''live'', rx_lit ''test''], rx_lit ''_'', rx_many is_alnum 16],
       rx_seq [rx_lit ''gh'', rx_class (\<lambda>c. c \<in> set ''pousr''), rx_lit ''_'', rx_many is_alnum 20],
       rx_seq [rx_lit ''xox'', rx_class (\<lambda>c. c \<in> set ''abprs''), rx_lit ''-'', rx_many (\<lambda>c. is_alnum c \<or> c = CHR ''-'') 20],
       rx_seq (rx_lit ''AKIA'' # replicate 16 (rx_class upper_or_digit))]"

definition credit_card_rx :: rx where
  "credit_card_rx =
     rx_seq [rx_edge, rx_between 13 6 (rx_seq [rx_class is_digit, rx_opt (rx_class (\<lambda>c. c = CHR '' '' \<or> c = CHR ''-''))]), rx_edge]"

definition digits_rx :: "nat \<Rightarrow> rx" where
  "digits_rx n = rx_seq (replicate n (rx_class is_digit))"

definition ssn_rx :: rx where
  "ssn_rx = rx_seq [rx_edge, digits_rx 3, rx_lit ''-'', digits_rx 2, rx_lit ''-'', digits_rx 4, rx_edge]"

definition email_rx :: rx where
  "email_rx =
     rx_seq [rx_edge, rx_many (\<lambda>c. is_alnum c \<or> c \<in> set ''._%+-'') 1, rx_lit ''@'',
             rx_many (\<lambda>c. is_alnum c \<or> c = CHR ''.'' \<or> c = CHR ''-'') 1, rx_lit ''.'', rx_many is_letter 2, rx_edge]"

definition phone_sep :: rx where
  "phone_sep = rx_opt (rx_alt [rx_space, rx_class (\<lambda>c. c = CHR ''.'' \<or> c = CHR ''-'')])"

definition phone_rx :: rx where
  "phone_rx =
     rx_seq
      [rx_opt (rx_seq [rx_not_after (\<lambda>c. is_digit c \<or> c = CHR ''-''), rx_opt (rx_lit ''+''), rx_between 1 2 (rx_class is_digit),
                       phone_sep]),
       rx_opt (rx_lit ''(''), digits_rx 3, rx_opt (rx_lit '')''), phone_sep, digits_rx 3, phone_sep, digits_rx 4, rx_edge]"

definition PATTERNS :: "(RedactClass \<times> rx) list" where
  "PATTERNS =
     [(bearer_token, bearer_rx), (credit_card, credit_card_rx), (ssn, ssn_rx), (email, email_rx), (phone, phone_rx)]"

subsection \<open>redact\<close>

text \<open>The global replacement and its count. None of the patterns matches the empty text.\<close>

function replace_count_from :: "(string \<Rightarrow> nat \<Rightarrow> nat option) \<Rightarrow> string \<Rightarrow> string \<Rightarrow> nat \<Rightarrow> string \<times> nat" where
  "replace_count_from m t s i =
     (if i \<ge> length s then ([], 0)
      else case m s i of
          Some j \<Rightarrow>
            if i < j then (case replace_count_from m t s j of (out, n) \<Rightarrow> (t @ out, Suc n))
            else (case replace_count_from m t s (Suc i) of (out, n) \<Rightarrow> (s ! i # out, n))
        | None \<Rightarrow> (case replace_count_from m t s (Suc i) of (out, n) \<Rightarrow> (s ! i # out, n)))"
  by pat_completeness auto
termination
  by (relation "measure (\<lambda>(m, t, s, i). length s - i)") auto

declare replace_count_from.simps [simp del]

record RedactResult =
  rd_redacted :: string
  rd_findings :: "(RedactClass \<times> nat) list"

definition redact_step :: "RedactResult \<Rightarrow> RedactClass \<times> rx \<Rightarrow> RedactResult" where
  "redact_step acc kp =
     (case replace_count_from (rx_match (snd kp)) (''[REDACTED:'' @ class_text (fst kp) @ '']'') (rd_redacted acc) 0 of
        (out, n) \<Rightarrow> \<lparr>rd_redacted = out, rd_findings = rd_findings acc @ [(fst kp, n)]\<rparr>)"

text \<open>\<open>classes\<close> restricts the scrubbers; the findings of a class that did not run are zero.\<close>

definition redact :: "string \<Rightarrow> RedactClass list option \<Rightarrow> RedactResult" where
  "redact inp classes =
     (let enabled = (case classes of None \<Rightarrow> map fst PATTERNS | Some cs \<Rightarrow> cs)
      in foldl redact_step \<lparr>rd_redacted = inp, rd_findings = []\<rparr> (filter (\<lambda>(k, p). inp \<noteq> [] \<and> k \<in> set enabled) PATTERNS))"

definition finding :: "RedactResult \<Rightarrow> RedactClass \<Rightarrow> nat" where
  "finding r k = (case map_of (rd_findings r) k of None \<Rightarrow> 0 | Some n \<Rightarrow> n)"

definition totalFindings :: "RedactResult \<Rightarrow> nat" where
  "totalFindings r = finding r bearer_token + finding r credit_card + finding r ssn + finding r email + finding r phone"

subsection \<open>What a replacement keeps\<close>

text \<open>A scan from a position cuts the rest of the text into pieces; those marked are matches. The output has
  the replacement for each match and the count is the number of matches.\<close>

definition output_of :: "string \<Rightarrow> (string \<times> bool) list \<Rightarrow> string \<times> nat" where
  "output_of t ws = (concat (map (\<lambda>(w, hit). if hit then t else w) ws), length (filter snd ws))"

definition scan :: "(string \<Rightarrow> nat \<Rightarrow> nat option) \<Rightarrow> string \<Rightarrow> nat \<Rightarrow> (string \<times> bool) list \<Rightarrow> bool" where
  "scan m s i ws \<longleftrightarrow>
     concat (map fst ws) = drop i s \<and>
     (\<forall>(w, hit) \<in> set ws. hit \<longrightarrow> w \<noteq> [] \<and> (\<exists>k. m s k = Some (k + length w) \<and> take (length w) (drop k s) = w))"

lemma scan_keep: "i < length s \<Longrightarrow> scan m s (Suc i) ws \<Longrightarrow> scan m s i (([s ! i], False) # ws)"
  by (auto simp: scan_def Cons_nth_drop_Suc)

lemma scan_hit:
  assumes "m s i = Some j" "i < j" "j \<le> length s" "scan m s j ws"
  shows "scan m s i ((take (j - i) (drop i s), True) # ws)"
proof -
  have "take (j - i) (drop i s) @ drop j s = drop i s"
    using assms(2) append_take_drop_id [of "j - i" "drop i s"] by simp
  with assms show ?thesis by (auto simp: scan_def intro!: exI [of _ i])
qed

lemma output_keep: "output_of t ((w, False) # ws) = (w @ fst (output_of t ws), snd (output_of t ws))"
  by (simp add: output_of_def)

lemma output_hit: "output_of t ((w, True) # ws) = (t @ fst (output_of t ws), Suc (snd (output_of t ws)))"
  by (simp add: output_of_def)

lemma replace_count_scan:
  assumes "\<And>i j. m s i = Some j \<Longrightarrow> j \<le> length s"
  shows "\<exists>ws. scan m s i ws \<and> replace_count_from m t s i = output_of t ws"
  using assms
proof (induction m t s i rule: replace_count_from.induct)
  case (1 m t s i)
  show ?case
  proof (cases "i \<ge> length s")
    case True
    then show ?thesis by (subst replace_count_from.simps) (auto simp: scan_def output_of_def intro: exI [of _ "[]"])
  next
    case False
    have keep: ?thesis
      if "replace_count_from m t s i = (s ! i # fst (replace_count_from m t s (Suc i)), snd (replace_count_from m t s (Suc i)))"
        "\<exists>ws. scan m s (Suc i) ws \<and> replace_count_from m t s (Suc i) = output_of t ws"
      using that False scan_keep [of i s m] output_keep [of t "[s ! i]"] by fastforce
    show ?thesis
    proof (cases "m s i")
      case None
      with False have "replace_count_from m t s i = (s ! i # fst (replace_count_from m t s (Suc i)), snd (replace_count_from m t s (Suc i)))"
        by (subst replace_count_from.simps) (simp split: prod.splits)
      with 1(1) [OF False None] 1(4) show ?thesis by (intro keep) blast+
    next
      case (Some j)
      show ?thesis
      proof (cases "i < j")
        case True
        from 1(2) [OF False Some True] 1(4) obtain ws where ws: "scan m s j ws" "replace_count_from m t s j = output_of t ws" by blast
        have "replace_count_from m t s i = (t @ fst (replace_count_from m t s j), Suc (snd (replace_count_from m t s j)))"
          using False Some True by (subst replace_count_from.simps) (simp split: prod.splits)
        with ws scan_hit [OF Some True 1(4) [OF Some] ws(1)] output_hit show ?thesis by metis
      next
        case no: False
        with False Some have "replace_count_from m t s i = (s ! i # fst (replace_count_from m t s (Suc i)), snd (replace_count_from m t s (Suc i)))"
          by (subst replace_count_from.simps) (simp split: prod.splits)
        with 1(3) [OF False Some no] 1(4) show ?thesis by (intro keep) blast+
      qed
    qed
  qed
qed

end
