(* ===== verification/Span_Ingest.thy ===== *)
theory Span_Ingest
  imports Redact Spans Broker_Tables "HOL-Library.Word"
begin

unbundle bit_operations_syntax

text \<open>
  The ingestion of execution spans by the control plane: services/spans.ts, routes/spans.ts and the emit route of
  routes/internal.ts. The request is validated input; the fresh span id and the random bytes of the four calls
  of \<open>sealString\<close> are arguments. The tables are those the service reads and writes. A lookup followed by an
  insert is two round trips; the unique index on customer and receipt refuses the second of two racing inserts.
\<close>

record ReceiptRow =
  re_receiptId :: string
  re_customerId :: string
  re_agent :: string
  re_swarmId :: "string option"

record SpanRow =
  sn_id :: string
  sn_customer :: string
  sn_swarmId :: "string option"
  sn_agentId :: string
  sn_receiptId :: string
  sn_parentSpanId :: "string option"
  sn_input :: EmitSpanInput

record PromptRow =
  pr_spanId :: string
  pr_customerId :: string
  pr_prompt :: SecretBoxCiphertext
  pr_reasoning :: "SecretBoxCiphertext option"
  pr_rawPrompt :: SecretBoxCiphertext
  pr_rawReasoning :: "SecretBoxCiphertext option"
  pr_findings :: "(RedactClass \<times> nat) list option"
  pr_kmsKeyId :: string

record ObservabilityConfig =
  cf_customerId :: string
  cf_promptCaptureEnabled :: bool
  cf_promptCaptureSampleRate :: int
  cf_promptKmsKeyArn :: "string option"
  cf_acceptedTosVersion :: "string option"

record SpanTables =
  sx_receipts :: "ReceiptRow list"
  sx_agents :: "AgentRow list"
  sx_spans :: "SpanRow list"
  sx_prompts :: "PromptRow list"
  sx_configs :: "ObservabilityConfig list"

datatype SpanIngestError = receipt_not_found | receipt_wrong_tenant | agent_mismatch | invalid_parent_span

datatype ingest_error = Ingest_refused SpanIngestError | Ingest_threw exn | Ingest_conflict

record IngestSpanResult =
  ir_spanId :: string
  ir_inserted :: bool
  ir_swarmId :: "string option"
  ir_promptCaptured :: bool

subsection \<open>Sampling and associated data\<close>

text \<open>The code units of a JavaScript string: a character outside the basic plane has two.\<close>

fun utf16_units :: "string \<Rightarrow> nat list" where
  "utf16_units [] = []"
| "utf16_units (a # s) =
     (let b = (\<lambda>k. if k < length s then (of_char (s ! k) :: nat) mod 64 else 0); n = of_char a :: nat
      in if n < 0x80 then n # utf16_units s
         else if n < 0xC0 then utf16_units s
         else if n < 0xE0 then (n mod 32 * 64 + b 0) # utf16_units s
         else if n < 0xF0 then (n mod 16 * 4096 + b 0 * 64 + b 1) # utf16_units s
         else (let p = n mod 8 * 262144 + b 0 * 4096 + b 1 * 64 + b 2 - 0x10000
               in (0xD800 + p div 1024) # (0xDC00 + p mod 1024) # utf16_units s))"

text \<open>The arithmetic of JavaScript's bit operators is on 32 bits; \<open>>>> 0\<close> reads the result unsigned.\<close>

definition djb2 :: "string \<Rightarrow> 32 word" where
  "djb2 s = foldl (\<lambda>h u. (push_bit 5 h + h) XOR of_nat u) 5381 (utf16_units s)"

definition sampleBucket :: "string \<Rightarrow> nat" where
  "sampleBucket spanId = unat (djb2 spanId) mod 100"

text \<open>\<open>Number.parseInt\<close> of two characters in base 16; what is no number becomes the byte 0.\<close>

fun ingest_hexToBytes :: "string \<Rightarrow> string" where
  "ingest_hexToBytes (a # b # s) =
     (case (hex_value a, hex_value b) of
        (Some x, Some y) \<Rightarrow> char_of (16 * x + y)
      | (Some x, None) \<Rightarrow> char_of x
      | _ \<Rightarrow> CHR 0x00) # ingest_hexToBytes s"
| "ingest_hexToBytes s = []"

definition prompt_aad :: "env \<Rightarrow> string \<Rightarrow> string \<Rightarrow> string" where
  "prompt_aad E customerId spanId = ingest_hexToBytes (sha256Hex E (customerId @ ''|'' @ spanId @ ''|span_v1''))"

subsection \<open>ingestSpan\<close>

definition ingest_receipt :: "SpanTables \<Rightarrow> string \<Rightarrow> string \<Rightarrow> (ingest_error, ReceiptRow) result" where
  "ingest_receipt tb customerId receiptId =
     (case List.find (\<lambda>r. re_receiptId r = receiptId \<and> re_customerId r = customerId) (sx_receipts tb) of
        Some r \<Rightarrow> Inr r
      | None \<Rightarrow>
          if list_ex (\<lambda>r. re_receiptId r = receiptId) (sx_receipts tb) then Inl (Ingest_refused receipt_wrong_tenant)
          else Inl (Ingest_refused receipt_not_found))"

definition ingest_check ::
  "SpanTables \<Rightarrow> string \<Rightarrow> string \<Rightarrow> string option \<Rightarrow> EmitSpanInput \<Rightarrow> (ingest_error, ReceiptRow) result" where
  "ingest_check tb customerId agentId parentSpanId inp =
     rbind (ingest_receipt tb customerId (es_receiptId inp)) (\<lambda>receipt.
       case List.find (\<lambda>a. ag_id a = agentId \<and> ag_customerId a = customerId) (sx_agents tb) of
         None \<Rightarrow> Inl (Ingest_refused agent_mismatch)
       | Some a \<Rightarrow>
           if re_agent receipt \<noteq> ag_did a then Inl (Ingest_refused agent_mismatch)
           else if str_truthy parentSpanId \<and>
                   \<not> list_ex (\<lambda>s. sn_id s = the parentSpanId \<and> sn_customer s = customerId) (sx_spans tb)
           then Inl (Ingest_refused invalid_parent_span)
           else Inr receipt)"

definition existing_span :: "SpanTables \<Rightarrow> string \<Rightarrow> string \<Rightarrow> SpanRow option" where
  "existing_span tb customerId receiptId =
     List.find (\<lambda>s. sn_customer s = customerId \<and> sn_receiptId s = receiptId) (sx_spans tb)"

text \<open>The insert, which the unique index may refuse.\<close>

definition insert_span ::
  "string \<Rightarrow> string \<Rightarrow> string \<Rightarrow> string option \<Rightarrow> EmitSpanInput \<Rightarrow> ReceiptRow \<Rightarrow> SpanTables \<Rightarrow>
   (ingest_error, SpanRow) result \<times> SpanTables" where
  "insert_span newId customerId agentId parentSpanId inp receipt tb =
     (if existing_span tb customerId (es_receiptId inp) \<noteq> None then (Inl Ingest_conflict, tb)
      else
        (let row = \<lparr>sn_id = newId, sn_customer = customerId, sn_swarmId = re_swarmId receipt, sn_agentId = agentId,
                    sn_receiptId = es_receiptId inp, sn_parentSpanId = parentSpanId, sn_input = inp\<rparr>
         in (Inr row, tb\<lparr>sx_spans := sx_spans tb @ [row]\<rparr>)))"

definition capture_config :: "SpanTables \<Rightarrow> string \<Rightarrow> string \<Rightarrow> ObservabilityConfig option" where
  "capture_config tb customerId spanId =
     (case List.find (\<lambda>c. cf_customerId c = customerId) (sx_configs tb) of
        None \<Rightarrow> None
      | Some cfg \<Rightarrow>
          if cf_promptCaptureEnabled cfg \<and> str_truthy (cf_acceptedTosVersion cfg) \<and>
             int (sampleBucket spanId) < cf_promptCaptureSampleRate cfg
          then Some cfg else None)"

definition merged_findings :: "RedactResult \<Rightarrow> RedactResult option \<Rightarrow> (RedactClass \<times> nat) list option" where
  "merged_findings p r =
     (let total = totalFindings p + (case r of None \<Rightarrow> 0 | Some x \<Rightarrow> totalFindings x)
      in if total > 0
         then Some (map (\<lambda>k. (k, finding p k + (case r of None \<Rightarrow> 0 | Some x \<Rightarrow> finding x k)))
                [bearer_token, credit_card, ssn, email, phone])
         else None)"

definition seal_opt ::
  "env \<Rightarrow> string \<Rightarrow> string \<Rightarrow> string \<Rightarrow> string option \<Rightarrow> (exn, SecretBoxCiphertext option) result" where
  "seal_opt E nonce key aad v =
     (case v of None \<Rightarrow> Inr None | Some t \<Rightarrow> rbind (sealString E nonce key t (Some aad)) (\<lambda>b. Inr (Some b)))"

definition prompt_row ::
  "env \<Rightarrow> string \<Rightarrow> (nat \<Rightarrow> string) \<Rightarrow> string \<Rightarrow> string \<Rightarrow> ObservabilityConfig \<Rightarrow> SpanPromptInput \<Rightarrow> (exn, PromptRow) result" where
  "prompt_row E key nonce customerId spanId cfg p =
     (let reasoning = (if str_truthy (si_reasoning p) then si_reasoning p else None);
          promptRed = redact (si_text p) None; reasoningRed = map_option (\<lambda>t. redact t None) reasoning;
          aad = prompt_aad E customerId spanId
      in rbind (sealString E (nonce 0) key (rd_redacted promptRed) (Some aad)) (\<lambda>promptCt.
         rbind (seal_opt E (nonce 1) key aad (map_option rd_redacted reasoningRed)) (\<lambda>reasoningCt.
         rbind (sealString E (nonce 2) key (si_text p) (Some aad)) (\<lambda>rawPromptCt.
         rbind (seal_opt E (nonce 3) key aad reasoning) (\<lambda>rawReasoningCt.
           Inr \<lparr>pr_spanId = spanId, pr_customerId = customerId, pr_prompt = promptCt, pr_reasoning = reasoningCt,
                pr_rawPrompt = rawPromptCt, pr_rawReasoning = rawReasoningCt,
                pr_findings = merged_findings promptRed reasoningRed,
                pr_kmsKeyId = (case cf_promptKmsKeyArn cfg of None \<Rightarrow> ''platform-default'' | Some k \<Rightarrow> k)\<rparr>)))))"

definition capture_prompt ::
  "env \<Rightarrow> string option \<Rightarrow> (nat \<Rightarrow> string) \<Rightarrow> string \<Rightarrow> string \<Rightarrow> EmitSpanInput \<Rightarrow> SpanTables \<Rightarrow>
   (exn, bool) result \<times> SpanTables" where
  "capture_prompt E promptCaptureKey nonce customerId spanId inp tb =
     (case (promptCaptureKey, es_prompt inp) of
        (Some key, Some p) \<Rightarrow>
          if si_text p = [] then (Inr False, tb)
          else (case capture_config tb customerId spanId of
              None \<Rightarrow> (Inr False, tb)
            | Some cfg \<Rightarrow>
                (case prompt_row E key nonce customerId spanId cfg p of
                   Inl e \<Rightarrow> (Inl e, tb)
                 | Inr row \<Rightarrow> (Inr True, tb\<lparr>sx_prompts := sx_prompts tb @ [row]\<rparr>)))
      | _ \<Rightarrow> (Inr False, tb))"

definition ingestSpan ::
  "env \<Rightarrow> string option \<Rightarrow> (nat \<Rightarrow> string) \<Rightarrow> string \<Rightarrow> string \<Rightarrow> string \<Rightarrow> string option \<Rightarrow> EmitSpanInput \<Rightarrow> SpanTables \<Rightarrow>
   (ingest_error, IngestSpanResult) result \<times> SpanTables" where
  "ingestSpan E promptCaptureKey nonce newId customerId agentId parentSpanId inp tb =
     (case ingest_check tb customerId agentId parentSpanId inp of
        Inl e \<Rightarrow> (Inl e, tb)
      | Inr receipt \<Rightarrow>
          (case existing_span tb customerId (es_receiptId inp) of
             Some s \<Rightarrow>
               (Inr \<lparr>ir_spanId = sn_id s, ir_inserted = False, ir_swarmId = sn_swarmId s, ir_promptCaptured = False\<rparr>, tb)
           | None \<Rightarrow>
               (case insert_span newId customerId agentId parentSpanId inp receipt tb of
                  (Inl e, tb') \<Rightarrow> (Inl e, tb')
                | (Inr row, tb') \<Rightarrow>
                    (case capture_prompt E promptCaptureKey nonce customerId (sn_id row) inp tb' of
                       (Inl e, tb'') \<Rightarrow> (Inl (Ingest_threw e), tb'')
                     | (Inr captured, tb'') \<Rightarrow>
                         (Inr \<lparr>ir_spanId = sn_id row, ir_inserted = True, ir_swarmId = sn_swarmId row,
                               ir_promptCaptured = captured\<rparr>, tb'')))))"

subsection \<open>The routes\<close>

definition ingest_status :: "SpanIngestError \<Rightarrow> int" where
  "ingest_status e =
     (if e = receipt_not_found then 404 else if e = receipt_wrong_tenant \<or> e = agent_mismatch then 403 else 400)"

datatype span_answer = Span_ok string bool "string option" | Span_refused int | Span_threw

definition span_answer_of :: "(ingest_error, IngestSpanResult) result \<Rightarrow> span_answer" where
  "span_answer_of r =
     (case r of
        Inr x \<Rightarrow> Span_ok (ir_spanId x) (ir_inserted x) (ir_swarmId x)
      | Inl (Ingest_refused e) \<Rightarrow> Span_refused (ingest_status e)
      | Inl _ \<Rightarrow> Span_threw)"

text \<open>POST /v1/spans: the customer and the agent are those of the API key. \<open>parsed\<close> is None for a body that is
  no JSON or fails its schema.\<close>

definition post_spans ::
  "env \<Rightarrow> string option \<Rightarrow> (nat \<Rightarrow> string) \<Rightarrow> string \<Rightarrow> (refusal, KeyIdentity) result \<Rightarrow> (string option \<times> EmitSpanInput) option \<Rightarrow>
   SpanTables \<Rightarrow> span_answer \<times> SpanTables" where
  "post_spans E key nonce newId who parsed tb =
     (case who of
        Inl (status, code) \<Rightarrow> (Span_refused status, tb)
      | Inr k \<Rightarrow>
          (case parsed of
             None \<Rightarrow> (Span_refused 400, tb)
           | Some (parent, inp) \<Rightarrow>
               (case ingestSpan E key nonce newId (ki_customerId k) (ki_agentId k) parent inp tb of
                  (r, tb') \<Rightarrow> (span_answer_of r, tb'))))"

text \<open>POST /v1/internal/spans/emit: the decision point names customer and agent.\<close>

definition post_internal_span ::
  "env \<Rightarrow> string option \<Rightarrow> (nat \<Rightarrow> string) \<Rightarrow> string \<Rightarrow> bool \<Rightarrow> (string \<times> string \<times> string option \<times> EmitSpanInput) option \<Rightarrow>
   SpanTables \<Rightarrow> span_answer \<times> SpanTables" where
  "post_internal_span E key nonce newId authorized parsed tb =
     (if \<not> authorized then (Span_refused 401, tb)
      else case parsed of
          None \<Rightarrow> (Span_refused 400, tb)
        | Some (customerId, agentDid, parent, inp) \<Rightarrow>
            (case List.find (\<lambda>a. ag_did a = agentDid \<and> ag_customerId a = customerId) (sx_agents tb) of
               None \<Rightarrow> (Span_refused 404, tb)
             | Some a \<Rightarrow>
                 (case ingestSpan E key nonce newId customerId (ag_id a) parent inp tb of
                    (r, tb') \<Rightarrow> (span_answer_of r, tb'))))"

end
