(* ===== verification/Span_Tree.thy ===== *)
theory Span_Tree
  imports Span_Ingest
begin

text \<open>
  The action graph of the observability page: trpc/routers/_deriveSpanTree.ts, which turns the flat rows of spans
  into a tree of conversations. \<open>ms\<close> is \<open>Date.parse\<close> on the rows' own timestamps, \<open>None\<close> where it gives NaN, and
  \<open>before\<close> is \<open>localeCompare (a, b) <= 0\<close>. The loop that looks for a root may follow a cycle; it is a partial function
  here, and that it returns is proved.
\<close>

definition HANDOFF_MATCH_WINDOW_MS :: int where "HANDOFF_MATCH_WINDOW_MS = 5 * 60 * 1000"
definition HANDOFF_LATE_CUTOFF_MS :: int where "HANDOFF_LATE_CUTOFF_MS = 60 * 60 * 1000"

record DeriveSpanRow =
  ds_id :: string
  ds_agentId :: string
  ds_parentSpanId :: "string option"
  ds_receiptId :: string
  ds_parentReceiptId :: "string option"
  ds_toolName :: string
  ds_status :: SpanStatus
  ds_httpStatus :: "int option"
  ds_latencyMs :: int
  ds_startedAt :: string
  ds_handoffToDid :: "string option"
  ds_handoffTask :: "string option"
  ds_hasPrompt :: bool

record DeriveAgentRow =
  da_id :: string
  da_name :: string
  da_did :: string
  da_depth :: "int option"

record AgentGraphNode =
  gn_id :: string
  gn_label :: string
  gn_did :: string
  gn_depth :: "int option"
  gn_spanCount :: nat
  gn_color :: string

record SpanGraphNode =
  sg_id :: string
  sg_agentId :: string
  sg_agentDid :: string
  sg_agentLabel :: string
  sg_agentColor :: string
  sg_effectiveParentId :: "string option"
  sg_rootSpanId :: string
  sg_row :: DeriveSpanRow

datatype HandoffMatchStatus = hm_matched | hm_wrong_agent | hm_missing | hm_late

record HandoffMatch =
  hm_sourceSpanId :: string
  hm_declaredToDid :: string
  hm_declaredTask :: string
  hm_actualSpanId :: "string option"
  hm_actualAgentDid :: "string option"
  hm_status :: HandoffMatchStatus
  hm_latencyMs :: "int option"

datatype ActionGraphEdgeKind = edge_parent | edge_sequential | edge_spawn

record ActionGraphEdge =
  ge_id :: string
  ge_from :: string
  ge_to :: string
  ge_kind :: ActionGraphEdgeKind
  ge_match :: "HandoffMatch option"

record DeriveSpanTreeResult =
  dr_nodes :: "SpanGraphNode list"
  dr_edges :: "ActionGraphEdge list"
  dr_agents :: "string \<Rightarrow> AgentGraphNode option"
  dr_handoffMatches :: "HandoffMatch list"

subsection \<open>Colours, order and indexes\<close>

definition colorForDid :: "string \<Rightarrow> string" where
  "colorForDid did = ''hsl('' @ nat_digits (unat (djb2 did) mod 360) @ '' 70% 58%)''"

text \<open>The sort of the language is stable; so is insertion.\<close>

fun insert_by :: "('a \<Rightarrow> 'a \<Rightarrow> bool) \<Rightarrow> 'a \<Rightarrow> 'a list \<Rightarrow> 'a list" where
  "insert_by le x [] = [x]"
| "insert_by le x (y # ys) = (if le x y then x # y # ys else y # insert_by le x ys)"

definition sort_by :: "('a \<Rightarrow> 'a \<Rightarrow> bool) \<Rightarrow> 'a list \<Rightarrow> 'a list" where
  "sort_by le xs = foldr (insert_by le) xs []"

text \<open>The comparison of the sort. NaN differs from every number and from itself, and a difference that is NaN counts
as zero: a row whose timestamp does not parse is as good as equal to any other. Such a comparison is not an order, and
the language then leaves the order of the result open; what is proved of the derivation below is therefore proved for
the rows in any order (\<open>derive_sorted\<close>).\<close>

definition span_le :: "(string \<Rightarrow> int option) \<Rightarrow> (string \<Rightarrow> string \<Rightarrow> bool) \<Rightarrow> DeriveSpanRow \<Rightarrow> DeriveSpanRow \<Rightarrow> bool" where
  "span_le ms before a b =
     (case (ms (ds_startedAt a), ms (ds_startedAt b)) of
        (Some at, Some bt) \<Rightarrow> if at \<noteq> bt then at \<le> bt else before (ds_id a) (ds_id b)
      | _ \<Rightarrow> True)"

text \<open>A map filled by a loop keeps the last entry of a key.\<close>

definition index_by :: "('a \<Rightarrow> string) \<Rightarrow> ('a \<Rightarrow> 'b) \<Rightarrow> 'a list \<Rightarrow> (string \<Rightarrow> 'b option)" where
  "index_by k v xs = foldl (\<lambda>m x. m(k x \<mapsto> v x)) Map.empty xs"

definition spanById :: "DeriveSpanRow list \<Rightarrow> (string \<Rightarrow> DeriveSpanRow option)" where
  "spanById rows = index_by ds_id (\<lambda>s. s) rows"

definition spanByReceipt :: "DeriveSpanRow list \<Rightarrow> (string \<Rightarrow> string option)" where
  "spanByReceipt rows = index_by ds_receiptId ds_id rows"

subsection \<open>Effective parents\<close>

datatype Derivation = explicit | sequential

definition receipt_parent :: "DeriveSpanRow list \<Rightarrow> DeriveSpanRow \<Rightarrow> string option" where
  "receipt_parent rows s =
     (case given (Option.bind (given (ds_parentReceiptId s)) (spanByReceipt rows)) of
        Some resolved \<Rightarrow> if resolved \<noteq> ds_id s then Some resolved else None
      | None \<Rightarrow> None)"

definition explicit_parent :: "DeriveSpanRow list \<Rightarrow> DeriveSpanRow \<Rightarrow> string option" where
  "explicit_parent rows s =
     (case Option.bind (given (ds_parentSpanId s)) (spanById rows) of
        Some q \<Rightarrow> ds_parentSpanId s
      | None \<Rightarrow> receipt_parent rows s)"

definition derive_parent ::
  "DeriveSpanRow list \<Rightarrow> (string \<Rightarrow> string option) \<Rightarrow> DeriveSpanRow \<Rightarrow> (string \<times> Derivation) option" where
  "derive_parent rows lastByAgent s =
     (case explicit_parent rows s of
        Some p \<Rightarrow> Some (p, explicit)
      | None \<Rightarrow>
          (case given (lastByAgent (ds_agentId s)) of
             Some prior \<Rightarrow> if prior \<noteq> ds_id s then Some (prior, sequential) else None
           | None \<Rightarrow> None))"

text \<open>\<open>parentOf\<close> and \<open>derivationOf\<close> in one map; \<open>lastByAgent\<close> runs along.\<close>

definition parent_step ::
  "DeriveSpanRow list \<Rightarrow> (string \<Rightarrow> (string \<times> Derivation) option) \<times> (string \<Rightarrow> string option) \<Rightarrow> DeriveSpanRow \<Rightarrow>
   (string \<Rightarrow> (string \<times> Derivation) option) \<times> (string \<Rightarrow> string option)" where
  "parent_step rows acc s =
     ((fst acc)(ds_id s := derive_parent rows (snd acc) s), (snd acc)(ds_agentId s \<mapsto> ds_id s))"

definition derive_parents :: "DeriveSpanRow list \<Rightarrow> (string \<Rightarrow> (string \<times> Derivation) option)" where
  "derive_parents rows = fst (foldl (parent_step rows) (Map.empty, Map.empty) rows)"

definition parentOf :: "DeriveSpanRow list \<Rightarrow> (string \<Rightarrow> string option)" where
  "parentOf rows i = map_option fst (derive_parents rows i)"

subsection \<open>Roots\<close>

partial_function (option) root_walk :: "(string \<Rightarrow> string option) \<Rightarrow> string list \<Rightarrow> string \<Rightarrow> (string \<times> string list) option" where
  "root_walk parent seen cur =
     (if cur \<in> set seen then Some (cur, seen)
      else case given (parent cur) of
          None \<Rightarrow> Some (cur, cur # seen)
        | Some p \<Rightarrow> root_walk parent (cur # seen) p)"

definition rootOf ::
  "(string \<Rightarrow> string option) \<Rightarrow> (string \<Rightarrow> string option) \<Rightarrow> string \<Rightarrow> (string \<times> (string \<Rightarrow> string option)) option" where
  "rootOf parent cache i =
     (case given (cache i) of
        Some r \<Rightarrow> Some (r, cache)
      | None \<Rightarrow> (case root_walk parent [] i of
            None \<Rightarrow> None
          | Some (cur, seen) \<Rightarrow> Some (cur, \<lambda>v. if v \<in> set seen then Some cur else cache v)))"

subsection \<open>Nodes\<close>

definition spansPerAgent :: "DeriveSpanRow list \<Rightarrow> string \<Rightarrow> nat" where
  "spansPerAgent rows aid = length (filter (\<lambda>s. ds_agentId s = aid) rows)"

definition graph_agents :: "DeriveSpanRow list \<Rightarrow> DeriveAgentRow list \<Rightarrow> (string \<Rightarrow> AgentGraphNode option)" where
  "graph_agents rows agentRows =
     index_by da_id (\<lambda>a. \<lparr>gn_id = da_id a, gn_label = da_name a, gn_did = da_did a, gn_depth = da_depth a,
                          gn_spanCount = spansPerAgent rows (da_id a), gn_color = colorForDid (da_did a)\<rparr>) agentRows"

definition graph_node ::
  "(string \<Rightarrow> AgentGraphNode option) \<Rightarrow> (string \<Rightarrow> string option) \<Rightarrow> DeriveSpanRow \<Rightarrow> string \<Rightarrow> SpanGraphNode" where
  "graph_node agents parent s root =
     (let a = agents (ds_agentId s)
      in \<lparr>sg_id = ds_id s, sg_agentId = ds_agentId s,
          sg_agentDid = (case a of None \<Rightarrow> [] | Some x \<Rightarrow> gn_did x),
          sg_agentLabel = (case a of None \<Rightarrow> ds_agentId s | Some x \<Rightarrow> gn_label x),
          sg_agentColor = (case a of None \<Rightarrow> colorForDid (ds_agentId s) | Some x \<Rightarrow> gn_color x),
          sg_effectiveParentId = parent (ds_id s), sg_rootSpanId = root, sg_row = s\<rparr>)"

fun graph_nodes ::
  "(string \<Rightarrow> AgentGraphNode option) \<Rightarrow> (string \<Rightarrow> string option) \<Rightarrow> (string \<Rightarrow> string option) \<Rightarrow> DeriveSpanRow list \<Rightarrow>
   SpanGraphNode list option" where
  "graph_nodes agents parent cache [] = Some []"
| "graph_nodes agents parent cache (s # ss) =
     (case rootOf parent cache (ds_id s) of
        None \<Rightarrow> None
      | Some (root, cache') \<Rightarrow>
          map_option (\<lambda>ns. graph_node agents parent s root # ns) (graph_nodes agents parent cache' ss))"

subsection \<open>Edges and handoffs\<close>

definition graph_edge ::
  "DeriveSpanRow list \<Rightarrow> (string \<Rightarrow> (string \<times> Derivation) option) \<Rightarrow> DeriveSpanRow \<Rightarrow> ActionGraphEdge list" where
  "graph_edge rows parents s =
     (case parents (ds_id s) of
        None \<Rightarrow> []
      | Some (p, how) \<Rightarrow>
          (case spanById rows p of
             None \<Rightarrow> []
           | Some parentRow \<Rightarrow>
               [\<lparr>ge_id = p @ ''->'' @ ds_id s, ge_from = p, ge_to = ds_id s,
                 ge_kind = (if ds_agentId parentRow \<noteq> ds_agentId s then edge_spawn
                            else if how = sequential then edge_sequential else edge_parent),
                 ge_match = None\<rparr>]))"

text \<open>The candidates of a handoff, in the order of the loop, with the delay after the end of the source.\<close>

definition handoff_delay :: "(string \<Rightarrow> int option) \<Rightarrow> DeriveSpanRow \<Rightarrow> DeriveSpanRow \<Rightarrow> int option" where
  "handoff_delay ms s c =
     (case (ms (ds_startedAt c), ms (ds_startedAt s)) of
        (Some cStart, Some sStart) \<Rightarrow> Some (cStart - (sStart + ds_latencyMs s))
      | _ \<Rightarrow> None)"

text \<open>A comparison with NaN is false.\<close>

definition num_le :: "int option \<Rightarrow> int option \<Rightarrow> bool" where
  "num_le a b = (case (a, b) of (Some x, Some y) \<Rightarrow> x \<le> y | _ \<Rightarrow> False)"

definition num_less :: "int option \<Rightarrow> int option \<Rightarrow> bool" where
  "num_less a b = (case (a, b) of (Some x, Some y) \<Rightarrow> x < y | _ \<Rightarrow> False)"

definition handoff_candidate ::
  "(string \<Rightarrow> int option) \<Rightarrow> (string \<Rightarrow> AgentGraphNode option) \<Rightarrow> int \<Rightarrow> DeriveSpanRow \<Rightarrow> DeriveSpanRow \<Rightarrow> bool" where
  "handoff_candidate ms agents depth s c \<longleftrightarrow>
     ds_id c \<noteq> ds_id s \<and>
     (case agents (ds_agentId c) of None \<Rightarrow> False | Some a \<Rightarrow> gn_depth a = Some (depth + 1)) \<and>
     \<not> num_le (handoff_delay ms s c) (Some 0)"

text \<open>\<open>if (!best || cStart < bestStart) best = c\<close>.\<close>

definition earlier_of :: "(string \<Rightarrow> int option) \<Rightarrow> DeriveSpanRow option \<Rightarrow> DeriveSpanRow \<Rightarrow> DeriveSpanRow option" where
  "earlier_of ms best c =
     (case best of
        None \<Rightarrow> Some c
      | Some b \<Rightarrow> if num_less (ms (ds_startedAt c)) (ms (ds_startedAt b)) then Some c else Some b)"

definition handoff_search ::
  "(string \<Rightarrow> int option) \<Rightarrow> (string \<Rightarrow> AgentGraphNode option) \<Rightarrow> int \<Rightarrow> DeriveSpanRow \<Rightarrow> DeriveSpanRow list \<Rightarrow>
   DeriveSpanRow option \<times> DeriveSpanRow option" where
  "handoff_search ms agents depth s rows =
     foldl (\<lambda>(inWindow, lateCandidate) c.
         if \<not> handoff_candidate ms agents depth s c then (inWindow, lateCandidate)
         else if num_le (handoff_delay ms s c) (Some HANDOFF_MATCH_WINDOW_MS) then (earlier_of ms inWindow c, lateCandidate)
         else if num_le (handoff_delay ms s c) (Some HANDOFF_LATE_CUTOFF_MS) then (inWindow, earlier_of ms lateCandidate c)
         else (inWindow, lateCandidate))
       (None, None) rows"

definition handoff_match ::
  "(string \<Rightarrow> int option) \<Rightarrow> (string \<Rightarrow> AgentGraphNode option) \<Rightarrow> DeriveSpanRow list \<Rightarrow> DeriveSpanRow \<Rightarrow> HandoffMatch option" where
  "handoff_match ms agents rows s =
     (case (given (ds_handoffToDid s), Option.bind (agents (ds_agentId s)) gn_depth) of
        (Some did, Some depth) \<Rightarrow>
          (let (inWindow, lateCandidate) = handoff_search ms agents depth s rows;
               actual = (case inWindow of Some c \<Rightarrow> Some c | None \<Rightarrow> lateCandidate);
               agentDid = (\<lambda>c. map_option gn_did (agents (ds_agentId c)));
               status = (case (inWindow, lateCandidate) of
                    (Some c, _) \<Rightarrow> if agentDid c = Some did then hm_matched else hm_wrong_agent
                  | (None, Some c) \<Rightarrow> if agentDid c = Some did then hm_late else hm_wrong_agent
                  | (None, None) \<Rightarrow> hm_missing)
           in Some \<lparr>hm_sourceSpanId = ds_id s, hm_declaredToDid = did,
                    hm_declaredTask = (case ds_handoffTask s of None \<Rightarrow> [] | Some t \<Rightarrow> t),
                    hm_actualSpanId = map_option ds_id actual, hm_actualAgentDid = Option.bind actual agentDid,
                    hm_status = status, hm_latencyMs = Option.bind actual (handoff_delay ms s)\<rparr>)
      | _ \<Rightarrow> None)"

text \<open>\<open>matchByEdgeId\<close>, and the last loop, which hangs a match on its edge.\<close>

definition matchByEdgeId :: "HandoffMatch list \<Rightarrow> (string \<Rightarrow> HandoffMatch option)" where
  "matchByEdgeId ms =
     index_by (\<lambda>m. hm_sourceSpanId m @ ''->'' @ the (hm_actualSpanId m)) (\<lambda>m. m) (filter (\<lambda>m. hm_actualSpanId m \<noteq> None) ms)"

definition derive_sorted ::
  "(string \<Rightarrow> int option) \<Rightarrow> DeriveSpanRow list \<Rightarrow> DeriveAgentRow list \<Rightarrow> DeriveSpanTreeResult option" where
  "derive_sorted ms rows agentRows =
     (let parents = derive_parents rows; agents = graph_agents rows agentRows;
          matches = concat (map (\<lambda>s. case handoff_match ms agents rows s of None \<Rightarrow> [] | Some m \<Rightarrow> [m]) rows)
      in map_option (\<lambda>nodes.
           \<lparr>dr_nodes = nodes,
            dr_edges = map (\<lambda>e. e\<lparr>ge_match := matchByEdgeId matches (ge_id e)\<rparr>) (concat (map (graph_edge rows parents) rows)),
            dr_agents = agents, dr_handoffMatches = matches\<rparr>)
         (graph_nodes agents (parentOf rows) Map.empty rows))"

definition deriveSpanTree ::
  "(string \<Rightarrow> int option) \<Rightarrow> (string \<Rightarrow> string \<Rightarrow> bool) \<Rightarrow> DeriveSpanRow list \<Rightarrow> DeriveAgentRow list \<Rightarrow> DeriveSpanTreeResult option" where
  "deriveSpanTree ms before spanRows agentRows = derive_sorted ms (sort_by (span_le ms before) spanRows) agentRows"

end
