(* ===== verification/Span_Properties.thy ===== *)
theory Span_Properties
  imports Span_Ingest Demo_Console Span_Tree
begin

text \<open>
  The ledger of spans: what one ingest may change, what any sequence of ingests keeps, and the retries of the
  callers, which send and forget.
\<close>

subsection \<open>One ingest\<close>

lemma find_member: "List.find P xs = Some x \<Longrightarrow> x \<in> set xs \<and> P x"
  by (auto simp: find_Some_iff)

lemma ingest_receipt_Inr:
  "ingest_receipt tb c rid = Inr r \<Longrightarrow> r \<in> set (sx_receipts tb) \<and> re_receiptId r = rid \<and> re_customerId r = c"
  by (auto simp: ingest_receipt_def find_Some_iff in_set_conv_nth split: option.splits if_splits)

definition parent_known :: "SpanTables \<Rightarrow> string \<Rightarrow> string option \<Rightarrow> bool" where
  "parent_known tb c p \<longleftrightarrow> \<not> str_truthy p \<or> (\<exists>s \<in> set (sx_spans tb). sn_id s = the p \<and> sn_customer s = c)"

lemma ingest_check_Inr:
  assumes "ingest_check tb c aid p inp = Inr r"
  shows "r \<in> set (sx_receipts tb) \<and> re_receiptId r = es_receiptId inp \<and> re_customerId r = c \<and>
    (\<exists>a \<in> set (sx_agents tb). ag_id a = aid \<and> ag_customerId a = c \<and> re_agent r = ag_did a) \<and> parent_known tb c p"
proof -
  from assms obtain a where f: "ingest_receipt tb c (es_receiptId inp) = Inr r"
      "List.find (\<lambda>a. ag_id a = aid \<and> ag_customerId a = c) (sx_agents tb) = Some a" "re_agent r = ag_did a" "parent_known tb c p"
    by (auto simp: ingest_check_def parent_known_def rbind_Inr_iff list_ex_iff split: option.splits if_splits)
  from f(2) have "a \<in> set (sx_agents tb) \<and> ag_id a = aid \<and> ag_customerId a = c" by (auto simp: find_Some_iff)
  with f ingest_receipt_Inr [OF f(1)] show ?thesis by auto
qed

lemma existing_span_None:
  "existing_span tb c rid = None \<longleftrightarrow> (\<forall>s \<in> set (sx_spans tb). \<not> (sn_customer s = c \<and> sn_receiptId s = rid))"
  by (auto simp: existing_span_def find_None_iff)

lemma existing_span_Some:
  "existing_span tb c rid = Some s \<Longrightarrow> s \<in> set (sx_spans tb) \<and> sn_customer s = c \<and> sn_receiptId s = rid"
  by (auto simp: existing_span_def find_Some_iff)

text \<open>The customer's consent to keep the text of this span.\<close>

definition consented :: "SpanTables \<Rightarrow> string \<Rightarrow> string \<Rightarrow> bool" where
  "consented tb c spanId \<longleftrightarrow>
     (\<exists>cfg \<in> set (sx_configs tb). cf_customerId cfg = c \<and> cf_promptCaptureEnabled cfg \<and>
        str_truthy (cf_acceptedTosVersion cfg) \<and> int (sampleBucket spanId) < cf_promptCaptureSampleRate cfg)"

lemma capture_config_Some: "capture_config tb c i = Some cfg \<Longrightarrow> consented tb c i"
  by (auto simp: capture_config_def consented_def split: option.splits if_splits dest!: find_member)

lemma prompt_row_Inr: "prompt_row E key nonce c i cfg p = Inr row \<Longrightarrow> pr_spanId row = i \<and> pr_customerId row = c"
  by (auto simp: prompt_row_def Let_def rbind_Inr_iff)

lemma capture_prompt_cases:
  assumes "capture_prompt E key nonce c i inp tb = (r, tb')"
  shows "tb' = tb \<and> r \<noteq> Inr True \<or>
    (\<exists>row p. tb' = tb\<lparr>sx_prompts := sx_prompts tb @ [row]\<rparr> \<and> r = Inr True \<and> pr_spanId row = i \<and> pr_customerId row = c \<and>
       consented tb c i \<and> key \<noteq> None \<and> es_prompt inp = Some p \<and> si_text p \<noteq> [])"
  using assms
  by (auto simp: capture_prompt_def split: option.splits sum.splits if_splits dest: capture_config_Some prompt_row_Inr)

definition span_of :: "string \<Rightarrow> string \<Rightarrow> string \<Rightarrow> string option \<Rightarrow> EmitSpanInput \<Rightarrow> ReceiptRow \<Rightarrow> SpanRow" where
  "span_of newId c aid p inp r =
     \<lparr>sn_id = newId, sn_customer = c, sn_swarmId = re_swarmId r, sn_agentId = aid, sn_receiptId = es_receiptId inp,
      sn_parentSpanId = p, sn_input = inp\<rparr>"

text \<open>The three things an ingest may do: nothing, one span, or one span with its text.\<close>

lemma ingestSpan_cases:
  assumes "ingestSpan E key nonce newId c aid p inp tb = (res, tb')"
  obtains "tb' = tb"
  | r where "ingest_check tb c aid p inp = Inr r" "existing_span tb c (es_receiptId inp) = None"
      "tb' = tb\<lparr>sx_spans := sx_spans tb @ [span_of newId c aid p inp r]\<rparr>" "\<And>x. res = Inr x \<Longrightarrow> \<not> ir_promptCaptured x"
  | r row sp where "ingest_check tb c aid p inp = Inr r" "existing_span tb c (es_receiptId inp) = None"
      "tb' = tb\<lparr>sx_spans := sx_spans tb @ [span_of newId c aid p inp r], sx_prompts := sx_prompts tb @ [row]\<rparr>"
      "pr_spanId row = newId" "pr_customerId row = c" "consented tb c newId" "key \<noteq> None" "es_prompt inp = Some sp" "si_text sp \<noteq> []"
proof (cases "ingest_check tb c aid p inp")
  case (Inl e)
  with assms that(1) show ?thesis by (simp add: ingestSpan_def)
next
  case chk: (Inr r)
  show ?thesis
  proof (cases "existing_span tb c (es_receiptId inp)")
    case (Some s)
    with chk assms that(1) show ?thesis by (simp add: ingestSpan_def)
  next
    case None
    let ?tb = "tb\<lparr>sx_spans := sx_spans tb @ [span_of newId c aid p inp r]\<rparr>"
    obtain cr tc where cp: "capture_prompt E key nonce c newId inp ?tb = (cr, tc)" by (cases "capture_prompt E key nonce c newId inp ?tb")
    from assms chk None cp have tb': "tb' = tc" and res: "\<And>x. res = Inr x \<Longrightarrow> cr = Inr (ir_promptCaptured x)"
      by (auto simp: ingestSpan_def insert_span_def span_of_def Let_def split: sum.splits)
    have "consented ?tb c newId = consented tb c newId" by (simp add: consented_def)
    with capture_prompt_cases [OF cp] show ?thesis
      using that(2) [OF chk None] that(3) [OF chk None] tb' res by auto
  qed
qed

subsection \<open>The ledger\<close>

text \<open>A span stands on a receipt of its customer signed for its agent, its parent was there before it, and it is
  the only one of its receipt. A stored text belongs to a span of the same customer, who consented.\<close>

definition founded :: "SpanTables \<Rightarrow> SpanRow list \<Rightarrow> SpanRow \<Rightarrow> bool" where
  "founded tb earlier s \<longleftrightarrow>
     (\<exists>r \<in> set (sx_receipts tb). \<exists>a \<in> set (sx_agents tb).
        re_receiptId r = sn_receiptId s \<and> re_customerId r = sn_customer s \<and> sn_swarmId s = re_swarmId r \<and>
        ag_id a = sn_agentId s \<and> ag_customerId a = sn_customer s \<and> re_agent r = ag_did a) \<and>
     (str_truthy (sn_parentSpanId s) \<longrightarrow>
        (\<exists>q \<in> set earlier. sn_id q = the (sn_parentSpanId s) \<and> sn_customer q = sn_customer s)) \<and>
     (\<forall>q \<in> set earlier. \<not> (sn_customer q = sn_customer s \<and> sn_receiptId q = sn_receiptId s))"

definition span_ledger :: "SpanTables \<Rightarrow> bool" where
  "span_ledger tb \<longleftrightarrow>
     (\<forall>earlier s later. sx_spans tb = earlier @ s # later \<longrightarrow> founded tb earlier s) \<and>
     (\<forall>pr \<in> set (sx_prompts tb). consented tb (pr_customerId pr) (pr_spanId pr) \<and>
        (\<exists>s \<in> set (sx_spans tb). sn_id s = pr_spanId pr \<and> sn_customer s = pr_customerId pr))"

datatype span_event =
    By_key "string option" "nat \<Rightarrow> string" string "(refusal, KeyIdentity) result" "(string option \<times> EmitSpanInput) option"
  | By_decision_point "string option" "nat \<Rightarrow> string" string bool "(string \<times> string \<times> string option \<times> EmitSpanInput) option"

fun span_step :: "env \<Rightarrow> SpanTables \<Rightarrow> span_event \<Rightarrow> SpanTables" where
  "span_step E tb (By_key key nonce newId who parsed) = snd (post_spans E key nonce newId who parsed tb)"
| "span_step E tb (By_decision_point key nonce newId ok parsed) = snd (post_internal_span E key nonce newId ok parsed tb)"

lemma append_single_split:
  "xs @ [y] = pre @ s # post \<longleftrightarrow> (post = [] \<and> pre = xs \<and> s = y) \<or> (\<exists>post'. post = post' @ [y] \<and> xs = pre @ s # post')"
  by (cases post rule: rev_cases) auto

lemma founded_new:
  assumes "ingest_check tb c aid p inp = Inr r" "existing_span tb c (es_receiptId inp) = None"
  shows "founded tb (sx_spans tb) (span_of newId c aid p inp r)"
  using ingest_check_Inr [OF assms(1)] assms(2) unfolding existing_span_None founded_def parent_known_def span_of_def
  by (auto simp: conj_commute)

lemma span_ledger_insert:
  assumes "span_ledger tb" "founded tb (sx_spans tb) s"
    and "\<And>pr. pr \<in> set prs \<Longrightarrow> consented tb (pr_customerId pr) (pr_spanId pr) \<and> sn_id s = pr_spanId pr \<and> sn_customer s = pr_customerId pr"
  shows "span_ledger (tb\<lparr>sx_spans := sx_spans tb @ [s], sx_prompts := sx_prompts tb @ prs\<rparr>)"
proof -
  have f: "founded (tb\<lparr>sx_spans := a, sx_prompts := b\<rparr>) e t = founded tb e t" for a b e t by (simp add: founded_def)
  have k: "consented (tb\<lparr>sx_spans := a, sx_prompts := b\<rparr>) c i = consented tb c i" for a b c i by (simp add: consented_def)
  from assms show ?thesis unfolding span_ledger_def f k by (auto simp: append_single_split)
qed

lemma ingestSpan_ledger:
  assumes "span_ledger tb"
  shows "span_ledger (snd (ingestSpan E key nonce newId c aid p inp tb))"
proof -
  obtain res tb' where eq: "ingestSpan E key nonce newId c aid p inp tb = (res, tb')" by force
  show ?thesis
  proof (rule ingestSpan_cases [OF eq])
    assume "tb' = tb"
    with assms eq show ?thesis by simp
  next
    fix r assume "ingest_check tb c aid p inp = Inr r" "existing_span tb c (es_receiptId inp) = None"
      "tb' = tb\<lparr>sx_spans := sx_spans tb @ [span_of newId c aid p inp r]\<rparr>"
    with span_ledger_insert [OF assms founded_new, where prs = "[]"] eq show ?thesis by simp
  next
    fix r row assume "ingest_check tb c aid p inp = Inr r" "existing_span tb c (es_receiptId inp) = None"
      "tb' = tb\<lparr>sx_spans := sx_spans tb @ [span_of newId c aid p inp r], sx_prompts := sx_prompts tb @ [row]\<rparr>"
      "pr_spanId row = newId" "pr_customerId row = c" "consented tb c newId"
    with span_ledger_insert [OF assms founded_new, where prs = "[row]"] eq show ?thesis by (simp add: span_of_def)
  qed
qed

lemma ingestSpan_ledger_eq: "ingestSpan E key nonce newId c aid p inp tb = (res, tb') \<Longrightarrow> span_ledger tb \<Longrightarrow> span_ledger tb'"
  by (metis ingestSpan_ledger snd_conv)

lemma span_step_ledger: "span_ledger tb \<Longrightarrow> span_ledger (span_step E tb ev)"
  by (cases ev)
    (auto simp: post_spans_def post_internal_span_def split: sum.splits option.splits prod.splits intro: ingestSpan_ledger_eq)

text \<open>C19: whatever requests the two ingest routes are sent, in whatever order and with whatever keys, each span
  stands on a receipt of its own customer that was signed for its own agent, is the only span of that receipt, and
  has its parent among the customer's earlier spans, so that explicit parents never form a cycle; and a
  text is kept only for a span of a customer who switched capture on and accepted the terms.\<close>

theorem ingest_keeps_the_ledger: "span_ledger tb \<Longrightarrow> span_ledger (foldl (span_step E) tb evs)"
  by (induction evs arbitrary: tb) (auto simp: span_step_ledger)

subsection \<open>Retries\<close>

text \<open>a caller that repeats a successful ingest, with any text, any key and any fresh id, is told the id of the
  span it made, and nothing is written a second time.\<close>

theorem ingest_retry_writes_nothing:
  assumes "ingestSpan E key nonce newId c aid p inp tb = (Inr x, tb')" "es_receiptId inp' = es_receiptId inp"
  shows "ingestSpan E key' nonce' newId' c aid p inp' tb' =
    (Inr \<lparr>ir_spanId = ir_spanId x, ir_inserted = False, ir_swarmId = ir_swarmId x, ir_promptCaptured = False\<rparr>, tb')"
proof -
  have same: "ingest_check (tb\<lparr>sx_spans := sx_spans tb @ ss, sx_prompts := ps\<rparr>) c aid p inp' = Inr r"
    if "ingest_check tb c aid p inp = Inr r" for ss ps r
    using that assms(2) by (auto simp: ingest_check_def ingest_receipt_def rbind_Inr_iff split: option.splits if_splits)
  have first: "List.find P (xs @ [y]) = Some y" if "List.find P xs = None" "P y" for P and xs :: "SpanRow list" and y
    using that by (induction xs) (auto split: if_splits)
  from assms(1) obtain r where r: "ingest_check tb c aid p inp = Inr r" by (auto simp: ingestSpan_def split: sum.splits)
  show ?thesis
  proof (cases "existing_span tb c (es_receiptId inp)")
    case (Some s)
    with r assms(1) have "tb' = tb" "x = \<lparr>ir_spanId = sn_id s, ir_inserted = False, ir_swarmId = sn_swarmId s, ir_promptCaptured = False\<rparr>"
      by (simp_all add: ingestSpan_def)
    with same [OF r, where ss = "[]" and ps = "sx_prompts tb"] Some assms(2) show ?thesis by (simp add: ingestSpan_def)
  next
    case None
    let ?s = "span_of newId c aid p inp r"
    from None r assms(1) have x: "ir_spanId x = newId \<and> ir_swarmId x = sn_swarmId ?s"
      by (auto simp: ingestSpan_def insert_span_def span_of_def Let_def split: sum.splits prod.splits)
    from None r assms(1) obtain cr where "capture_prompt E key nonce c newId inp (tb\<lparr>sx_spans := sx_spans tb @ [?s]\<rparr>) = (cr, tb')"
      by (auto simp: ingestSpan_def insert_span_def span_of_def Let_def split: sum.splits prod.splits)
    from capture_prompt_cases [OF this] have "tb' = tb\<lparr>sx_spans := sx_spans tb @ [?s], sx_prompts := sx_prompts tb'\<rparr>"
      by auto
    then obtain ps where tb': "tb' = tb\<lparr>sx_spans := sx_spans tb @ [?s], sx_prompts := ps\<rparr>" ..
    from None have "existing_span tb' c (es_receiptId inp') = Some ?s"
      unfolding existing_span_def tb' assms(2) by (auto simp: span_of_def intro!: first)
    with same [OF r, where ss = "[?s]" and ps = ps] x show ?thesis by (simp add: ingestSpan_def tb' span_of_def)
  qed
qed

text \<open>A text that cannot be sealed, as when the configured key has a wrong length, makes the call fail after
  the span is written; the retry then succeeds and never stores the text.\<close>

theorem failed_capture_is_not_retried:
  assumes "ingestSpan E key nonce newId c aid p inp tb = (Inl (Ingest_threw e), tb')"
  shows "\<exists>s. tb' = tb\<lparr>sx_spans := sx_spans tb @ [s]\<rparr> \<and> sn_id s = newId"
  using assms
  by (auto simp: ingestSpan_def insert_span_def ingest_check_def ingest_receipt_def rbind_Inl_iff Let_def capture_prompt_def
      split: sum.splits prod.splits option.splits if_splits)

subsection \<open>A concrete ledger\<close>

definition demo_span_input :: "EmitSpanInput" where
  "demo_span_input =
     \<lparr>es_receiptId = ''r1'', es_toolName = ''github'', es_status = span_success, es_startedAt = 0, es_endedAt = 1,
      es_latencyMs = 1, es_httpStatus = None, es_errorCode = None, es_requestArgsHash = ''h'',
      es_requestSummary = None, es_responseHash = None, es_responseSummary = None, es_nextAgentHint = None, es_intent = None,
      es_handoff = None, es_prompt = Some \<lparr>si_text = ''hi'', si_reasoning = None\<rparr>\<rparr>"

definition demo_span_tables :: SpanTables where
  "demo_span_tables =
     \<lparr>sx_receipts = [\<lparr>re_receiptId = ''r1'', re_customerId = ag_customerId console_agent_row, re_agent = ag_did console_agent_row,
                       re_swarmId = None\<rparr>],
      sx_agents = [console_agent_row], sx_spans = [], sx_prompts = [],
      sx_configs = [\<lparr>cf_customerId = ag_customerId console_agent_row, cf_promptCaptureEnabled = True,
                      cf_promptCaptureSampleRate = 100, cf_promptKmsKeyArn = None, cf_acceptedTosVersion = Some ''v1''\<rparr>]\<rparr>"

definition demo_emit :: span_event where
  "demo_emit =
     By_decision_point (Some (replicate 32 (CHR ''k''))) (\<lambda>i. replicate 24 (CHR ''n'')) ''s1'' True
       (Some (ag_customerId console_agent_row, ag_did console_agent_row, None, demo_span_input))"

lemma demo_ledger: "span_ledger demo_span_tables"
  by (simp add: span_ledger_def demo_span_tables_def)

definition demo_ingest :: "SpanTables \<Rightarrow> (ingest_error, IngestSpanResult) result \<times> SpanTables" where
  "demo_ingest tb =
     ingestSpan demo_env (Some (replicate 32 (CHR ''k''))) (\<lambda>i. replicate 24 (CHR ''n'')) ''s1''
      (ag_customerId console_agent_row) (ag_id console_agent_row) None demo_span_input tb"

lemma demo_capture:
  "\<exists>row s. demo_ingest demo_span_tables =
     (Inr \<lparr>ir_spanId = ''s1'', ir_inserted = True, ir_swarmId = None, ir_promptCaptured = True\<rparr>,
      demo_span_tables\<lparr>sx_spans := [s], sx_prompts := [row]\<rparr>)"
  by (simp add: demo_ingest_def demo_span_tables_def demo_span_input_def ingestSpan_def ingest_check_def ingest_receipt_def
     existing_span_def insert_span_def capture_prompt_def capture_config_def prompt_row_def sealString_def SECRETBOX_KEY_LEN_def
     Let_def seal_opt_def sampleBucket_def str_truthy_def)

text \<open>The concrete ledger and its run: the request, sent twice, makes one span and one stored text.\<close>

theorem ingest_keeps_the_ledger_witness:
  "span_ledger (foldl (span_step demo_env) demo_span_tables [demo_emit, demo_emit]) \<and>
   length (sx_spans (span_step demo_env demo_span_tables demo_emit)) = 1"
proof -
  from demo_capture obtain row s where
    "snd (demo_ingest demo_span_tables) = demo_span_tables\<lparr>sx_spans := [s], sx_prompts := [row]\<rparr>" by force
  moreover have "sx_agents demo_span_tables = [console_agent_row]" by (simp add: demo_span_tables_def)
  ultimately have "span_step demo_env demo_span_tables demo_emit = demo_span_tables\<lparr>sx_spans := [s], sx_prompts := [row]\<rparr>"
    by (simp add: demo_emit_def demo_ingest_def post_internal_span_def case_prod_beta)
  with ingest_keeps_the_ledger [OF demo_ledger, of demo_env "[demo_emit, demo_emit]"] show ?thesis by simp
qed

text \<open>The retry, at the concrete ledger.\<close>

theorem ingest_retry_writes_nothing_witness:
  "\<exists>x tb'. demo_ingest demo_span_tables = (Inr x, tb') \<and> ir_inserted x \<and> ir_promptCaptured x \<and> length (sx_prompts tb') = 1 \<and>
     demo_ingest tb' = (Inr \<lparr>ir_spanId = ''s1'', ir_inserted = False, ir_swarmId = None, ir_promptCaptured = False\<rparr>, tb')"
proof -
  from demo_capture obtain row s where
    first: "demo_ingest demo_span_tables =
      (Inr \<lparr>ir_spanId = ''s1'', ir_inserted = True, ir_swarmId = None, ir_promptCaptured = True\<rparr>,
       demo_span_tables\<lparr>sx_spans := [s], sx_prompts := [row]\<rparr>)" by blast
  from ingest_retry_writes_nothing [OF first [unfolded demo_ingest_def] refl] first show ?thesis
    by (auto simp: demo_ingest_def)
qed

text \<open>
  The action graph: the search for roots returns on every input, cycles included, and what a handoff's
  verdict says of the spans of the window.
\<close>

subsection \<open>The search for a root\<close>

definition links :: "(string \<Rightarrow> string option) \<Rightarrow> (string \<times> string) set" where
  "links parent = {(a, p). given (parent a) = Some p}"

text \<open>A root: reached by parents, and without a parent of its own unless it lies on a cycle.\<close>

definition is_root :: "(string \<Rightarrow> string option) \<Rightarrow> string \<Rightarrow> string \<Rightarrow> bool" where
  "is_root parent v r \<longleftrightarrow> (v, r) \<in> (links parent)\<^sup>* \<and> (r \<notin> Domain (links parent) \<or> (r, r) \<in> (links parent)\<^sup>+)"

lemma parent_given: "given v = Some s \<longleftrightarrow> v = Some s \<and> s \<noteq> []"
  by (auto simp: given_def str_truthy_def)

lemma root_walk_finds:
  assumes "finite (dom parent)" "\<And>v. v \<in> set seen \<Longrightarrow> (v, cur) \<in> (links parent)\<^sup>+"
  shows "\<exists>r seen'. root_walk parent seen cur = Some (r, seen') \<and> set seen \<subseteq> set seen' \<and> cur \<in> set seen' \<and>
    (\<forall>v \<in> set seen'. is_root parent v r)"
  using assms(2)
proof (induction "card (dom parent - set seen)" arbitrary: seen cur rule: less_induct)
  case less
  show ?case
  proof (cases "cur \<in> set seen")
    case True
    with less.prems have "(cur, cur) \<in> (links parent)\<^sup>+" by blast
    with True less.prems have "\<forall>v \<in> set seen. is_root parent v cur" by (auto simp: is_root_def dest: trancl_into_rtrancl)
    with True show ?thesis by (subst root_walk.simps) auto
  next
    case new: False
    show ?thesis
    proof (cases "given (parent cur)")
      case None
      then have "cur \<notin> Domain (links parent)" by (auto simp: links_def)
      with less.prems have "\<forall>v \<in> set (cur # seen). is_root parent v cur" by (auto simp: is_root_def dest: trancl_into_rtrancl)
      with new None show ?thesis by (subst root_walk.simps) auto
    next
      case (Some p)
      then have link: "(cur, p) \<in> links parent" and dom: "cur \<in> dom parent" by (auto simp: links_def parent_given)
      with new assms(1) have "card (dom parent - set (cur # seen)) < card (dom parent - set seen)"
        by (intro psubset_card_mono) auto
      moreover have "\<And>v. v \<in> set (cur # seen) \<Longrightarrow> (v, p) \<in> (links parent)\<^sup>+"
        using link less.prems by (auto intro: trancl_into_trancl)
      ultimately obtain r seen' where "root_walk parent (cur # seen) p = Some (r, seen')" "set (cur # seen) \<subseteq> set seen'"
          "\<forall>v \<in> set seen'. is_root parent v r"
        using less.hyps [of "cur # seen" p] by blast
      with new Some show ?thesis by (subst root_walk.simps) auto
    qed
  qed
qed

definition cache_ok :: "(string \<Rightarrow> string option) \<Rightarrow> (string \<Rightarrow> string option) \<Rightarrow> bool" where
  "cache_ok parent cache \<longleftrightarrow> (\<forall>v r. cache v = Some r \<longrightarrow> is_root parent v r)"

lemma rootOf_finds:
  assumes "finite (dom parent)" "cache_ok parent cache"
  shows "\<exists>r cache'. rootOf parent cache i = Some (r, cache') \<and> is_root parent i r \<and> cache_ok parent cache'"
proof (cases "given (cache i)")
  case (Some r)
  then have "cache i = Some r" by (simp add: parent_given)
  with assms(2) have "is_root parent i r" by (simp add: cache_ok_def)
  moreover from Some have "rootOf parent cache i = Some (r, cache)" by (simp add: rootOf_def)
  ultimately show ?thesis using assms(2) by blast
next
  case None
  from root_walk_finds [OF assms(1), of "[]" i] obtain r seen where "root_walk parent [] i = Some (r, seen)"
      "i \<in> set seen" "\<forall>v \<in> set seen. is_root parent v r" by auto
  with None assms(2) show ?thesis by (auto simp: rootOf_def cache_ok_def)
qed

lemma graph_nodes_returns:
  assumes "finite (dom parent)" "cache_ok parent cache"
  shows "\<exists>ns. graph_nodes agents parent cache rows = Some ns \<and> map sg_row ns = rows \<and>
    (\<forall>n \<in> set ns. is_root parent (ds_id (sg_row n)) (sg_rootSpanId n))"
  using assms(2)
proof (induction rows arbitrary: cache)
  case Nil
  then show ?case by simp
next
  case (Cons s ss)
  from rootOf_finds [OF assms(1) Cons.prems] obtain r cache' where
    "rootOf parent cache (ds_id s) = Some (r, cache')" "is_root parent (ds_id s) r" "cache_ok parent cache'" by blast
  with Cons.IH show ?case by (fastforce simp: graph_node_def Let_def)
qed

lemma derive_parents_finite: "finite (dom (derive_parents rows))"
proof -
  have "finite (dom (fst (foldl (parent_step rows) acc ss)))" if "finite (dom (fst acc))" for acc ss
    using that by (induction ss arbitrary: acc) (auto simp: parent_step_def)
  then show ?thesis by (simp add: derive_parents_def)
qed

lemma parentOf_finite: "finite (dom (parentOf rows))"
proof -
  have "dom (parentOf rows) = dom (derive_parents rows)" by (auto simp: parentOf_def dom_def)
  then show ?thesis by (simp add: derive_parents_finite)
qed

lemma mset_insert_by: "mset (insert_by le x xs) = add_mset x (mset xs)"
  by (induction xs) auto

lemma mset_sort_by: "mset (sort_by le xs) = mset xs"
  by (induction xs) (auto simp: sort_by_def mset_insert_by)

text \<open>The rows in any order.\<close>

lemma derive_sorted_returns:
  "\<exists>t. derive_sorted ms rows agentRows = Some t \<and> map sg_row (dr_nodes t) = rows \<and>
     (\<forall>n \<in> set (dr_nodes t). is_root (parentOf rows) (ds_id (sg_row n)) (sg_rootSpanId n))"
proof -
  from graph_nodes_returns [OF parentOf_finite, of rows Map.empty "graph_agents rows agentRows" rows]
  obtain ns where "graph_nodes (graph_agents rows agentRows) (parentOf rows) Map.empty rows = Some ns"
      "map sg_row ns = rows" "\<forall>n \<in> set ns. is_root (parentOf rows) (ds_id (sg_row n)) (sg_rootSpanId n)"
    by (auto simp: cache_ok_def)
  then show ?thesis by (simp add: derive_sorted_def Let_def)
qed

text \<open>C20: the derivation returns for every set of rows, with one node for each row; the root of a node is reached from it
  by parents and has no parent of its own, unless the parents run into a cycle, on which the root then lies.\<close>

theorem span_tree_returns:
  "\<exists>t. deriveSpanTree ms before spans agentRows = Some t \<and> mset (map sg_row (dr_nodes t)) = mset spans \<and>
     (\<forall>n \<in> set (dr_nodes t).
       is_root (parentOf (sort_by (span_le ms before) spans)) (ds_id (sg_row n)) (sg_rootSpanId n))"
  using derive_sorted_returns [of ms "sort_by (span_le ms before) spans" agentRows]
  by (auto simp: deriveSpanTree_def mset_sort_by simp del: mset_map)

subsection \<open>A parent that comes later\<close>

definition demo_span :: "string \<Rightarrow> string \<Rightarrow> string option \<Rightarrow> string option \<Rightarrow> DeriveSpanRow" where
  "demo_span i aid receipt handoff =
     \<lparr>ds_id = i, ds_agentId = aid, ds_parentSpanId = None, ds_receiptId = ''r'' @ i, ds_parentReceiptId = receipt,
      ds_toolName = ''t'', ds_status = span_success, ds_httpStatus = None, ds_latencyMs = 0, ds_startedAt = i,
      ds_handoffToDid = handoff, ds_handoffTask = None, ds_hasPrompt = False\<rparr>"

definition demo_ms :: "string \<Rightarrow> int option" where
  "demo_ms t = (if t = ''a'' then Some 0 else if t = ''b'' then Some 1 else None)"

text \<open>A receipt is resolved to any span of the window, a later one too: two spans of one agent, the earlier of
  which names the receipt of the later, are each other's parent, and neither is a root.\<close>

theorem later_receipt_makes_a_cycle:
  "parentOf [demo_span ''a'' ''x'' (Some ''rb'') None, demo_span ''b'' ''x'' None None] ''a'' = Some ''b'' \<and>
   parentOf [demo_span ''a'' ''x'' (Some ''rb'') None, demo_span ''b'' ''x'' None None] ''b'' = Some ''a''"
  by code_simp

text \<open>The two spans of the cycle, whose derivation returns all the same.\<close>

theorem span_tree_returns_witness:
  "\<exists>t. deriveSpanTree demo_ms (\<lambda>a b. True) [demo_span ''b'' ''x'' None None, demo_span ''a'' ''x'' (Some ''rb'') None] [] = Some t \<and>
     (\<forall>n \<in> set (dr_nodes t). sg_rootSpanId n \<in> {''a'', ''b''}) \<and> length (dr_nodes t) = 2"
proof -
  let ?in = "[demo_span ''b'' ''x'' None None, demo_span ''a'' ''x'' (Some ''rb'') None]"
  let ?rows = "[demo_span ''a'' ''x'' (Some ''rb'') None, demo_span ''b'' ''x'' None None]"
  have s: "sort_by (span_le demo_ms (\<lambda>a b. True)) ?in = ?rows" by (simp add: sort_by_def span_le_def demo_ms_def demo_span_def)
  have k: "derive_parents ?rows j = None" if "j \<notin> {''a'', ''b''}" for j
    using that by (simp add: derive_parents_def parent_step_def demo_span_def)
  have target: "y \<in> {''a'', ''b''}" if "(x, y) \<in> links (parentOf ?rows)" for x y
  proof (cases "x \<in> {''a'', ''b''}")
    case True
    with that later_receipt_makes_a_cycle show ?thesis unfolding links_def by (fastforce simp: parent_given)
  next
    case False
    from k [OF False] that show ?thesis by (simp add: links_def parent_given parentOf_def)
  qed
  have close: "r \<in> {''a'', ''b''}" if "(v, r) \<in> (links (parentOf ?rows))\<^sup>*" "v \<in> {''a'', ''b''}" for v r
    using that by (induction rule: rtrancl_induct) (use target in blast)+
  from span_tree_returns [of demo_ms "\<lambda>a b. True" ?in "[]"] s obtain t where
    t: "deriveSpanTree demo_ms (\<lambda>a b. True) ?in [] = Some t" "mset (map sg_row (dr_nodes t)) = mset ?in"
      "\<forall>n \<in> set (dr_nodes t). is_root (parentOf ?rows) (ds_id (sg_row n)) (sg_rootSpanId n)" by auto
  from t(2) have "set_mset (mset (map sg_row (dr_nodes t))) = set_mset (mset ?in)" by (rule arg_cong)
  then have nodes: "sg_row ` set (dr_nodes t) = set ?in" by (simp only: set_mset_mset list.set_map)
  from t(2) have "size (mset (map sg_row (dr_nodes t))) = size (mset ?in)" by (rule arg_cong)
  then have two: "length (dr_nodes t) = 2" by simp
  have ids: "ds_id (demo_span i a r h) = i" for i a r h by (simp add: demo_span_def)
  have "ds_id (sg_row n) \<in> {''a'', ''b''}" if "n \<in> set (dr_nodes t)" for n
  proof -
    from that nodes have "sg_row n \<in> set ?in" by blast
    then consider "sg_row n = demo_span ''b'' ''x'' None None" | "sg_row n = demo_span ''a'' ''x'' (Some ''rb'') None" by auto
    then show ?thesis by cases (simp_all only: ids, blast+)
  qed
  with close t(3) have "\<forall>n \<in> set (dr_nodes t). sg_rootSpanId n \<in> {''a'', ''b''}" unfolding is_root_def by blast
  with t(1) two show ?thesis by blast
qed

subsection \<open>Handoffs\<close>

text \<open>The best of a list of candidates by the loop.\<close>

lemma foldl_earlier:
  assumes "\<forall>c. Q c \<longrightarrow> ms (ds_startedAt c) \<noteq> None" "\<forall>b. best = Some b \<longrightarrow> ms (ds_startedAt b) \<noteq> None"
  shows "case foldl (\<lambda>b c. if Q c then earlier_of ms b c else b) best cs of
      None \<Rightarrow> best = None \<and> (\<forall>c \<in> set cs. \<not> Q c)
    | Some m \<Rightarrow> (best = Some m \<or> m \<in> set cs \<and> Q m) \<and>
        (\<forall>b. best = Some b \<longrightarrow> num_le (ms (ds_startedAt m)) (ms (ds_startedAt b))) \<and>
        (\<forall>c \<in> set cs. Q c \<longrightarrow> num_le (ms (ds_startedAt m)) (ms (ds_startedAt c)))"
  using assms(2)
proof (induction cs arbitrary: best)
  case Nil
  then show ?case by (cases best) (auto simp: num_le_def)
next
  case (Cons c cs)
  let ?best = "if Q c then earlier_of ms best c else best"
  from Cons.prems assms(1) have dated: "\<forall>b. ?best = Some b \<longrightarrow> ms (ds_startedAt b) \<noteq> None"
    by (auto simp: earlier_of_def split: option.splits)
  have first: "Q c \<Longrightarrow> \<exists>b. earlier_of ms best c = Some b \<and> (best = Some b \<or> b = c) \<and>
      num_le (ms (ds_startedAt b)) (ms (ds_startedAt c)) \<and>
      (\<forall>b'. best = Some b' \<longrightarrow> num_le (ms (ds_startedAt b)) (ms (ds_startedAt b')))"
    using assms(1) Cons.prems by (fastforce simp: earlier_of_def num_le_def num_less_def split: option.splits)
  have trans: "num_le x y \<Longrightarrow> num_le y z \<Longrightarrow> num_le x z" for x y z by (auto simp: num_le_def split: option.splits)
  show ?case
  proof (cases "Q c")
    case True
    from first [OF this] obtain b where b: "earlier_of ms best c = Some b" "best = Some b \<or> b = c"
      "num_le (ms (ds_startedAt b)) (ms (ds_startedAt c))"
      "\<forall>b'. best = Some b' \<longrightarrow> num_le (ms (ds_startedAt b)) (ms (ds_startedAt b'))" by blast
    with Cons.IH [OF dated] True show ?thesis by (auto split: option.splits intro: trans)
  next
    case False
    with Cons.IH [OF dated] show ?thesis by (auto split: option.splits)
  qed
qed

lemma handoff_search_parts:
  "handoff_search ms agents d s rows =
     (foldl (\<lambda>b c. if handoff_candidate ms agents d s c \<and> num_le (handoff_delay ms s c) (Some HANDOFF_MATCH_WINDOW_MS)
                   then earlier_of ms b c else b) None rows,
      foldl (\<lambda>b c. if handoff_candidate ms agents d s c \<and> \<not> num_le (handoff_delay ms s c) (Some HANDOFF_MATCH_WINDOW_MS) \<and>
                      num_le (handoff_delay ms s c) (Some HANDOFF_LATE_CUTOFF_MS) then earlier_of ms b c else b) None rows)"
proof -
  have "foldl (\<lambda>(i, l) c. if \<not> C c then (i, l) else if D c then (earlier_of ms i c, l)
            else if L c then (i, earlier_of ms l c) else (i, l)) (i, l) rows =
      (foldl (\<lambda>b c. if C c \<and> D c then earlier_of ms b c else b) i rows,
       foldl (\<lambda>b c. if C c \<and> \<not> D c \<and> L c then earlier_of ms b c else b) l rows)" for C D L and i l
    by (induction rows arbitrary: i l) auto
  then show ?thesis by (simp add: handoff_search_def)
qed

lemma delay_dated: "num_le (handoff_delay ms s c) b \<Longrightarrow> ms (ds_startedAt c) \<noteq> None"
  by (auto simp: num_le_def handoff_delay_def split: option.splits)

lemma delay_mono:
  "num_le (ms (ds_startedAt m)) (ms (ds_startedAt c)) \<Longrightarrow> ms (ds_startedAt s) \<noteq> None \<Longrightarrow>
     num_le (handoff_delay ms s m) (handoff_delay ms s c)"
  by (auto simp: num_le_def handoff_delay_def split: option.splits)

lemma window_in_cutoff:
  "num_le a (Some HANDOFF_MATCH_WINDOW_MS) \<Longrightarrow> num_le a (Some HANDOFF_LATE_CUTOFF_MS)"
  by (auto simp: num_le_def HANDOFF_MATCH_WINDOW_MS_def HANDOFF_LATE_CUTOFF_MS_def split: option.splits)

lemma handoff_search_late:
  assumes "handoff_search ms agents d s rows = (i, l)"
  shows "i = None \<and> l = None \<longleftrightarrow>
     \<not> (\<exists>c \<in> set rows. handoff_candidate ms agents d s c \<and> num_le (handoff_delay ms s c) (Some HANDOFF_LATE_CUTOFF_MS))"
proof -
  let ?near = "\<lambda>c. handoff_candidate ms agents d s c \<and> num_le (handoff_delay ms s c) (Some HANDOFF_MATCH_WINDOW_MS)"
  let ?late = "\<lambda>c. handoff_candidate ms agents d s c \<and> \<not> num_le (handoff_delay ms s c) (Some HANDOFF_MATCH_WINDOW_MS) \<and>
                   num_le (handoff_delay ms s c) (Some HANDOFF_LATE_CUTOFF_MS)"
  have parts: "i = foldl (\<lambda>b c. if ?near c then earlier_of ms b c else b) None rows"
      "l = foldl (\<lambda>b c. if ?late c then earlier_of ms b c else b) None rows"
    using assms by (simp_all add: handoff_search_parts)
  have dated: "\<forall>c. ?near c \<longrightarrow> ms (ds_startedAt c) \<noteq> None" "\<forall>c. ?late c \<longrightarrow> ms (ds_startedAt c) \<noteq> None"
    using delay_dated by blast+
  have "i = None \<longleftrightarrow> \<not> (\<exists>c \<in> set rows. ?near c)"
    using foldl_earlier [OF dated(1), of None rows] by (simp add: parts(1) [symmetric] split: option.splits) blast
  moreover have "l = None \<longleftrightarrow> \<not> (\<exists>c \<in> set rows. ?late c)"
    using foldl_earlier [OF dated(2), of None rows] by (simp add: parts(2) [symmetric] split: option.splits) blast
  ultimately show ?thesis using window_in_cutoff by blast
qed

text \<open>A candidate whose delay is a number.\<close>

definition dated_candidate ::
  "(string \<Rightarrow> int option) \<Rightarrow> (string \<Rightarrow> AgentGraphNode option) \<Rightarrow> int \<Rightarrow> DeriveSpanRow \<Rightarrow> DeriveSpanRow \<Rightarrow> bool" where
  "dated_candidate ms agents d s c \<longleftrightarrow> handoff_candidate ms agents d s c \<and> handoff_delay ms s c \<noteq> None"

lemma handoff_search_window:
  assumes "handoff_search ms agents d s rows = (Some m, l)"
  shows "m \<in> set rows \<and> handoff_candidate ms agents d s m \<and> num_le (handoff_delay ms s m) (Some HANDOFF_MATCH_WINDOW_MS) \<and>
     (\<forall>c \<in> set rows. dated_candidate ms agents d s c \<longrightarrow> num_le (handoff_delay ms s m) (handoff_delay ms s c))"
proof -
  let ?near = "\<lambda>c. handoff_candidate ms agents d s c \<and> num_le (handoff_delay ms s c) (Some HANDOFF_MATCH_WINDOW_MS)"
  have part: "foldl (\<lambda>b c. if ?near c then earlier_of ms b c else b) None rows = Some m"
    using assms by (simp add: handoff_search_parts)
  have dated: "\<forall>c. ?near c \<longrightarrow> ms (ds_startedAt c) \<noteq> None" using delay_dated by blast
  from foldl_earlier [OF dated, of None rows] part
  have m: "m \<in> set rows" "?near m" and least: "\<forall>c \<in> set rows. ?near c \<longrightarrow> num_le (ms (ds_startedAt m)) (ms (ds_startedAt c))"
    by simp_all
  have s: "ms (ds_startedAt s) \<noteq> None" using m(2) by (auto simp: num_le_def handoff_delay_def split: option.splits)
  have "num_le (handoff_delay ms s m) (handoff_delay ms s c)" if c: "c \<in> set rows" "dated_candidate ms agents d s c" for c
  proof (cases "?near c")
    case True
    with c least s show ?thesis by (blast intro: delay_mono)
  next
    case False
    with c(2) m(2) show ?thesis by (auto simp: dated_candidate_def num_le_def split: option.splits)
  qed
  with m show ?thesis by blast
qed

text \<open>a handoff is reported missing exactly when no span of an agent one level below starts within the hour
  after its end, and matched only when the first such span started within five minutes and is of the agent it named.\<close>

theorem handoff_verdict_is_true:
  assumes "handoff_match ms agents rows s = Some m" "Option.bind (agents (ds_agentId s)) gn_depth = Some d"
  shows "(hm_status m = hm_missing \<longleftrightarrow>
      \<not> (\<exists>c \<in> set rows. handoff_candidate ms agents d s c \<and> num_le (handoff_delay ms s c) (Some HANDOFF_LATE_CUTOFF_MS))) \<and>
    (hm_status m = hm_matched \<longrightarrow>
      (\<exists>c \<in> set rows. hm_actualSpanId m = Some (ds_id c) \<and> handoff_candidate ms agents d s c \<and>
        num_le (handoff_delay ms s c) (Some HANDOFF_MATCH_WINDOW_MS) \<and> map_option gn_did (agents (ds_agentId c)) = ds_handoffToDid s \<and>
        (\<forall>c' \<in> set rows. dated_candidate ms agents d s c' \<longrightarrow> num_le (handoff_delay ms s c) (handoff_delay ms s c'))))"
proof -
  obtain i l where hs: "handoff_search ms agents d s rows = (i, l)" by force
  from assms hs obtain did where did: "ds_handoffToDid s = Some did"
    and missing: "hm_status m = hm_missing \<longleftrightarrow> i = None \<and> l = None"
    and matched: "hm_status m = hm_matched \<Longrightarrow>
      \<exists>c. i = Some c \<and> hm_actualSpanId m = Some (ds_id c) \<and> map_option gn_did (agents (ds_agentId c)) = Some did"
    by (auto simp: handoff_match_def Let_def parent_given split: option.splits if_splits)
  show ?thesis
  proof (intro conjI impI)
    show "hm_status m = hm_missing \<longleftrightarrow>
      \<not> (\<exists>c \<in> set rows. handoff_candidate ms agents d s c \<and> num_le (handoff_delay ms s c) (Some HANDOFF_LATE_CUTOFF_MS))"
      using missing handoff_search_late [OF hs] by simp
  next
    assume "hm_status m = hm_matched"
    from matched [OF this] obtain c where c: "i = Some c" "hm_actualSpanId m = Some (ds_id c)"
        "map_option gn_did (agents (ds_agentId c)) = Some did" by blast
    from handoff_search_window [OF hs [unfolded c(1)]] c(2,3) did
    show "\<exists>c \<in> set rows. hm_actualSpanId m = Some (ds_id c) \<and> handoff_candidate ms agents d s c \<and>
        num_le (handoff_delay ms s c) (Some HANDOFF_MATCH_WINDOW_MS) \<and> map_option gn_did (agents (ds_agentId c)) = ds_handoffToDid s \<and>
        (\<forall>c' \<in> set rows. dated_candidate ms agents d s c' \<longrightarrow> num_le (handoff_delay ms s c) (handoff_delay ms s c'))" by auto
  qed
qed

definition demo_graph_agents :: "string \<Rightarrow> AgentGraphNode option" where
  "demo_graph_agents =
     graph_agents [] [\<lparr>da_id = ''x'', da_name = [], da_did = ''dx'', da_depth = Some 0\<rparr>,
                      \<lparr>da_id = ''y'', da_name = [], da_did = ''dy'', da_depth = Some 1\<rparr>]"

text \<open>A handoff to an agent that starts a millisecond later.\<close>

theorem handoff_verdict_is_true_witness:
  "\<exists>m. handoff_match demo_ms demo_graph_agents [demo_span ''a'' ''x'' None (Some ''dy''), demo_span ''b'' ''y'' None None]
       (demo_span ''a'' ''x'' None (Some ''dy'')) = Some m \<and>
     (\<exists>c \<in> set [demo_span ''a'' ''x'' None (Some ''dy''), demo_span ''b'' ''y'' None None].
       hm_actualSpanId m = Some (ds_id c) \<and> num_le (handoff_delay demo_ms (demo_span ''a'' ''x'' None (Some ''dy'')) c) (Some HANDOFF_MATCH_WINDOW_MS))"
proof -
  let ?s = "demo_span ''a'' ''x'' None (Some ''dy'')" and ?c = "demo_span ''b'' ''y'' None None"
  have d: "Option.bind (demo_graph_agents (ds_agentId ?s)) gn_depth = Some 0"
    by (simp add: demo_graph_agents_def graph_agents_def index_by_def demo_span_def)
  obtain m where m: "handoff_match demo_ms demo_graph_agents [?s, ?c] ?s = Some m" "hm_status m = hm_matched"
    by (simp add: handoff_match_def handoff_search_def handoff_candidate_def handoff_delay_def earlier_of_def demo_span_def
        demo_graph_agents_def graph_agents_def index_by_def given_def str_truthy_def demo_ms_def num_le_def HANDOFF_MATCH_WINDOW_MS_def Let_def)
  from handoff_verdict_is_true [OF m(1) d] m show ?thesis by blast
qed

subsection \<open>What the scrubber keeps\<close>

text \<open>There is no pattern for long opaque texts: forty hexadecimal digits pass as they are.\<close>

theorem opaque_secret_is_kept:
  "rd_redacted (redact ''deadbeefdeadbeefdeadbeefdeadbeefdeadbeef'' None) = ''deadbeefdeadbeefdeadbeefdeadbeefdeadbeef''"
  by code_simp

end
