(* ===== verification/Spec2Isabelle.thy ===== *)
theory Spec2Isabelle
  imports Delegation_Properties Audit_Properties Egress_Properties Pack_Vocabulary Rbac Authorize_Properties Stepup_Properties Proxy_Properties Filesystem_Properties Ssh_Properties Redaction_Properties Mint_Route_Properties Envelope_Invariant Console_Properties Builder_Properties Oauth_Properties Bundle_Properties Span_Properties
begin

text \<open>
  The authorization platform of the nomos repository: agents hold UCAN tokens issued by a control plane,
  every action of an agent is put to a policy decision point (PDP) that validates the delegation and asks
  Cedar, the PDP proxies the call to the upstream service, and every decision enters a hash-chained audit
  log. Operators manage agents, tokens, approvals and members through the dashboard API.

  How the parts interact. A token is signed by the control plane (\<open>Minting\<close>, behind the key and quota
  gates of \<open>Broker_Tables\<close>, and \<open>Envelopes\<close> for intents), extended by delegation, and
  presented to the PDP (\<open>Authorize\<close> for a decision, \<open>Proxy\<close> for a decision and the call). Both routes
  admit the command and the resource through the schema packs (\<open>Packs\<close>), take policies and revocations
  from caches (\<open>Caches\<close>) that the signed feed of \<open>Bundles\<close> fills, and call \<open>decide\<close> (\<open>Decide\<close>), which validates the chain (\<open>Ucan\<close>),
  gates the resource on the constraint (\<open>Constraint\<close>) and asks Cedar. A denial that a cosigner would
  lift becomes a step-up (\<open>Stepup\<close>) that the control plane files and an operator approves
  (\<open>Approvals\<close>); a remembered decision becomes a grant (\<open>Grants\<close>). Decisions are audited
  (\<open>Audit_Log\<close>, \<open>Audit_Pg\<close>) and exported as bundles (\<open>Audit_Bundle\<close>). The access tokens of the
  upstream services are obtained and refreshed by the OAuth bridge (\<open>Oauth_Flow\<close>) and handed to the PDP;
  what a call did is reported back as a span (\<open>Span_Ingest\<close>) and drawn as a tree (\<open>Span_Tree\<close>).

  Representation. Strings are the bytes of their UTF-8 text. JavaScript values are \<open>json\<close>, with
  undefined, and objects are association lists in insertion order. Numbers are integers where they are
  exact, and decimal texts otherwise. Code that may throw returns \<open>('e, 'a) result\<close>. Time is
  a number of seconds or milliseconds, as in the code, and always an argument, as are fresh ids and
  random bytes. A database table is the list of its rows. An operation that reads a row, decides and
  then writes is modelled as its separate statements where a theorem is about another request coming between them;
  elsewhere the operations run one after another, and the properties say so. The procedures of the dashboard that
  issue several writes without a transaction (accepting an invite, creating a swarm, deleting an agent, deciding
  a step-up) take an argument \<open>fails\<close> that names the statements the database refuses, so that they may stop
  half way.
  Cryptographic primitives, the Cedar engine, the network, name resolution, the SSH library and Better
  Auth's session are third-party: they are fields of the records \<open>env\<close>, \<open>cedar\<close> and others, and
  what is used of them is a named hypothesis (\<open>crypto_laws\<close> for the primitives), satisfied by the
  concrete instances that the witnesses evaluate, most of them in the \<open>Demo\<close> theories.

  Theories, by component (paths under src/).
  \<^item> Foundations: \<open>Prelude\<close> (strings, results, truthiness), \<open>Json\<close> and \<open>Json_Parse\<close>
    (canonicalize of packages/ucan/src/canonical.ts, JSON.stringify, JSON.parse), \<open>Base64url\<close>,
    \<open>Regex\<close>, \<open>Zod\<close>, \<open>Crypto\<close> (packages/crypto).
  \<^item> Delegation and decision: \<open>Ucan_Types\<close>, \<open>Constraint\<close>, \<open>Ucan\<close>, \<open>Ucan_Roundtrip\<close>
    (packages/ucan, packages/shared-types), \<open>Decide\<close> (packages/core, packages/cedar). The properties in
    \<open>Delegation_Properties\<close> say what an allow rests on, that chains attenuate, that issued tokens
    validate, that canonical texts determine their value, and that \<open>decide\<close> always returns.
  \<^item> Schema packs (packages/schema-packs): \<open>Pack_Actions\<close>, \<open>Pack_Floors\<close>, \<open>Pack_Schemas\<close>,
    \<open>Pack_Paths\<close>, \<open>Packs\<close>; \<open>Pack_Vocabulary\<close> shows the command vocabulary closed.
  \<^item> PDP (apps/pdp/src): \<open>Caches\<close>, \<open>Stepup\<close>, \<open>Authorize\<close>; \<open>Proxy\<close> with \<open>Proxy_Gates\<close>,
    \<open>Proxy_Upstream\<close>, \<open>Filesystem\<close>, \<open>Ssh\<close>, \<open>Sanitize\<close>, \<open>Spans\<close>. The properties invert
    an allow or an upstream call into the gates it passed, confine the executors to their constraint, and
    tie every answer to its audit row.
  \<^item> Audit (apps/pdp/src/audit, packages/audit-verify): \<open>Audit_Log\<close>, \<open>Audit_Pg\<close>,
    \<open>Audit_Bundle\<close>; \<open>Audit_Properties\<close> shows that what is written verifies: the file emitter's log when
    its appends settle in the order they were begun, the batching emitter's table when its calls do not overlap
    and its inserts succeed, resumed tables, failed fetches and timer flushes included. It shows what goes wrong
    otherwise, what verification excludes, and what every interleaving of the batching emitter keeps.
  \<^item> Egress proxy (apps/egress-proxy): \<open>Egress\<close>, \<open>Egress_Properties\<close>.
  \<^item> Control plane (apps/control-plane/src): tables in \<open>Control_Plane\<close> and \<open>Broker_Tables\<close>; grants
    and approvals in \<open>Grants\<close> and \<open>Approvals\<close>, with the approvals' invariant; the token broker in
    \<open>Broker_Tables\<close> (keys and quota), \<open>Minting\<close> (tokens and their endpoints) and \<open>Envelopes\<close> (standing
    intents and the intent endpoint); roles in \<open>Rbac\<close> (packages/rbac). \<open>Envelope_Invariant\<close> is an
    invariant of the transition system over these tables.
  \<^item> OAuth bridge (apps/control-plane/src/oauth, routes/oauth.ts, services/oauth-refresh.ts, workers, the router):
    \<open>Oauth_Connectors\<close> (the token endpoint and the seven providers), \<open>Oauth_Tokens\<close> (the sealed store and
    the signed state), \<open>Oauth_Flow\<close> (connect, callback, refresh, sweep and the routes). \<open>Oauth_Runs\<close> and
    \<open>Oauth_Properties\<close> show that a state is used once, that tokens load back as they were saved and open
    in their own row only, and what callback and refresh may touch.
  \<^item> Policy feed (services/bundle.ts, services/revocations.ts, apps/pdp/src/control-plane/client.ts): \<open>Bundles\<close>;
    \<open>Bundle_Properties\<close> shows that what is signed is what is read, and whose rows a feed depends on.
  \<^item> Observability: \<open>Redact\<close> (packages/redaction), \<open>Span_Ingest\<close> (services/spans.ts and its two routes),
    \<open>Span_Tree\<close> (_deriveSpanTree.ts); \<open>Span_Properties\<close> shows the ledger invariant of spans, that a retry
    writes nothing, that the search of a root returns, and what a handoff's verdict says.
  \<^item> Dashboard API (apps/control-plane/src/trpc): \<open>Tenancy\<close>, \<open>Console_Agents\<close>, put
    together in \<open>Console_Steps\<close>, where sessions call the procedures of the modelled routers (members, invites,
    organizations, agents, api-keys, ucans, policies, grants, envelopes, stepup, swarms, chain-approvals and oauth)
    one at a time, in any order;
    \<open>Tenancy_Properties\<close> shows tenant isolation and the last owner kept, \<open>Swarm_Properties\<close> when
    the walk over an agent tree ends and what it lists, \<open>Console_Properties\<close> what invites, keys and
    deletion promise.
  \<^item> Policy builder (packages/policy-builder): \<open>Policy_Builder\<close>; \<open>Builder_Properties\<close> shows that a quoted
    string is one literal, and how a policy in Cedar's JSON form is read into the builder.

  Interfaces. \<open>attenuation\<close> (\<open>Constraint\<close>) is the order a delegation must respect; constraints,
  commands and time windows are its instances. \<open>hash_linked\<close> (\<open>Audit_Log\<close>) is a chain of hashed
  entries, for the log and for bundles. \<open>keyed_cache\<close> (\<open>Caches\<close>) is a per-customer store, for
  policies and revocations.

  Bounds and fuel. JSON.parse runs on fuel \<open>2 * length s + 2\<close>, enough for every text the serialiser
  writes (\<open>parse_render\<close>); splitting a path takes as many rounds as it has characters; following
  symbolic links is bounded as the operating system bounds it. The walk over an agent tree has no bound in
  the code and none in the model: it is a partial function, and where it ends is a theorem. So is the search
  of a span's root, which ends on every input because it remembers what it saw.

  Not modelled. The dashboard's pages (apps/dashboard), the OIDC issuer, the MCP server, the command line
  tools, the SDKs and the scripts are front ends and clients of what is modelled here. Of the control
  plane, the SQL of the observability queries, billing, the customers router, cloud connection set-up, notification
  channels, sign-in, webhooks and the other workers are left out: they move data between tables and services. The refresh of the PDP's caches on a timer and its publish-subscribe channel
  are left out too; \<open>Bundles\<close> models one fetch. Logging, metrics and display columns are left out throughout.
\<close>

end
